(* ===== verification/Prelude.thy ===== *)
theory Prelude
  imports Complex_Main "HOL-Library.List_Lexorder" "HOL-Library.Char_ord" "HOL-Library.Product_Lexorder"
    "HOL-Library.AList"
begin

text \<open>
  Shared vocabulary of the development: Python strings, dictionaries, ordered
  de-duplication, searches over lists, and the lemmas about them that the
  component theories rely on.

  A Python \<open>str\<close> is a \<^typ>\<open>string\<close>; the development covers text whose characters
  are single bytes, and case folding acts on the ASCII letters.  A \<open>dict\<close> whose
  order is observable is an association list updated by \<^const>\<open>AList.update\<close>, which
  replaces in place or appends, as \<open>dict.__setitem__\<close> does.  Tuples and strings
  are ordered lexicographically by the library instances imported above, as Python
  orders them.
\<close>

named_theorems pystr \<open>evaluation rules for the string operations\<close>

section \<open>Strings\<close>

text \<open>\<open>ord(c)\<close>, and membership in a range of character codes.\<close>

definition chr_code :: "char \<Rightarrow> int" where
  "chr_code c = of_char c"

definition chr_between :: "int \<Rightarrow> int \<Rightarrow> char \<Rightarrow> bool" where
  "chr_between lo hi c = (let n = chr_code c in lo \<le> n \<and> n \<le> hi)"

definition upper_alpha :: "char \<Rightarrow> bool" where
  "upper_alpha c = chr_between 65 90 c"

definition lower_alpha :: "char \<Rightarrow> bool" where
  "lower_alpha c = chr_between 97 122 c"

definition is_digit :: "char \<Rightarrow> bool" where
  "is_digit c = chr_between 48 57 c"

text \<open>Lower-casing an ASCII letter sets bit 5 of its code, upper-casing it clears the bit.\<close>

definition ascii_lower :: "char \<Rightarrow> char" where
  "ascii_lower c =
     (if upper_alpha c
      then (case c of Char b0 b1 b2 b3 b4 b5 b6 b7 \<Rightarrow> Char b0 b1 b2 b3 b4 True b6 b7)
      else c)"

definition lower :: "string \<Rightarrow> string" where
  "lower s = map ascii_lower s"

definition ascii_upper :: "char \<Rightarrow> char" where
  "ascii_upper c =
     (if lower_alpha c
      then (case c of Char b0 b1 b2 b3 b4 b5 b6 b7 \<Rightarrow> Char b0 b1 b2 b3 b4 False b6 b7)
      else c)"

definition upper :: "string \<Rightarrow> string" where
  "upper s = map ascii_upper s"

definition py_space :: "char \<Rightarrow> bool" where
  "py_space c =
     (let n = chr_code c
      in (9 \<le> n \<and> n \<le> 13) \<or> (28 \<le> n \<and> n \<le> 32) \<or> n = 133 \<or> n = 160)"

definition lstrip_by :: "(char \<Rightarrow> bool) \<Rightarrow> string \<Rightarrow> string" where
  "lstrip_by p s = dropWhile p s"

definition rstrip_by :: "(char \<Rightarrow> bool) \<Rightarrow> string \<Rightarrow> string" where
  "rstrip_by p s = rev (dropWhile p (rev s))"

definition strip_by :: "(char \<Rightarrow> bool) \<Rightarrow> string \<Rightarrow> string" where
  "strip_by p s = rstrip_by p (lstrip_by p s)"

abbreviation strip :: "string \<Rightarrow> string" where
  "strip s \<equiv> strip_by py_space s"

abbreviation rstrip :: "string \<Rightarrow> string" where
  "rstrip s \<equiv> rstrip_by py_space s"

definition startswith :: "string \<Rightarrow> string \<Rightarrow> bool" where
  "startswith s p = (take (length p) s = p)"

definition endswith :: "string \<Rightarrow> string \<Rightarrow> bool" where
  "endswith s p = (length p \<le> length s \<and> drop (length s - length p) s = p)"

fun contains :: "string \<Rightarrow> string \<Rightarrow> bool" where
  "contains [] p = (p = [])"
| "contains (c # cs) p = (startswith (c # cs) p \<or> contains cs p)"

fun join :: "string \<Rightarrow> string list \<Rightarrow> string" where
  "join sep [] = []"
| "join sep [x] = x"
| "join sep (x # y # ys) = x @ sep @ join sep (y # ys)"

fun split_on :: "char \<Rightarrow> string \<Rightarrow> string list" where
  "split_on d [] = [[]]"
| "split_on d (c # cs) =
     (if c = d then [] # split_on d cs
      else (case split_on d cs of [] \<Rightarrow> [[c]] | w # ws \<Rightarrow> (c # w) # ws))"

definition replace_char :: "char \<Rightarrow> char \<Rightarrow> string \<Rightarrow> string" where
  "replace_char a b s = map (\<lambda>c. if c = a then b else c) s"

definition digit_char :: "nat \<Rightarrow> char" where
  "digit_char d = char_of (48 + d :: nat)"

fun nat_str :: "nat \<Rightarrow> string" where
  "nat_str n = (if n < 10 then [digit_char n] else nat_str (n div 10) @ [digit_char (n mod 10)])"

declare nat_str.simps [simp del]

definition int_str :: "int \<Rightarrow> string" where
  "int_str i = (if i < 0 then ''-'' @ nat_str (nat (- i)) else nat_str (nat i))"

text \<open>\<open>str.isalnum\<close> or underscore, for code points below 256.\<close>

definition wordlike :: "char \<Rightarrow> bool" where
  "wordlike c =
     (let n = chr_code c
      in is_digit c \<or> upper_alpha c \<or> lower_alpha c \<or> n = 95 \<or> n \<in> {170, 178, 179, 181, 185, 186, 188, 189, 190}
         \<or> (192 \<le> n \<and> n \<noteq> 215 \<and> n \<noteq> 247))"

definition int_of_digits :: "string \<Rightarrow> int" where
  "int_of_digits s = fold (\<lambda>c n. 10 * n + (chr_code c - 48)) s 0"

text \<open>\<open>x or y\<close> on strings.\<close>

definition str_or :: "string \<Rightarrow> string \<Rightarrow> string" where
  "str_or a b = (if a = [] then b else a)"

lemma startswith_iff: "startswith s p \<longleftrightarrow> (\<exists>t. s = p @ t)"
proof
  assume "startswith s p"
  then have "s = p @ drop (length p) s"
    by (metis append_take_drop_id startswith_def)
  then show "\<exists>t. s = p @ t" by blast
qed (auto simp: startswith_def)

lemma endswith_iff: "endswith s p \<longleftrightarrow> (\<exists>t. s = t @ p)"
proof
  assume "endswith s p"
  then have "s = take (length s - length p) s @ p"
    by (metis append_take_drop_id endswith_def)
  then show "\<exists>t. s = t @ p" by blast
qed (auto simp: endswith_def)

lemma contains_iff: "contains s p \<longleftrightarrow> (\<exists>a b. s = a @ p @ b)"
proof (induction s)
  case (Cons c cs)
  have "(\<exists>a b. c # cs = a @ p @ b) \<longleftrightarrow> (\<exists>b. c # cs = p @ b) \<or> (\<exists>a b. cs = a @ p @ b)"
    by (metis append_Cons append_Nil list.exhaust list.inject)
  with Cons show ?case by (simp add: startswith_iff)
qed auto

lemma rstrip_by_prefix: "\<exists>t. s = rstrip_by p s @ t"
proof -
  have "rev s = takeWhile p (rev s) @ dropWhile p (rev s)" by simp
  then have "s = rev (dropWhile p (rev s)) @ rev (takeWhile p (rev s))"
    by (metis rev_append rev_rev_ident)
  then show ?thesis by (auto simp: rstrip_by_def)
qed

lemma length_lower [simp]: "length (lower s) = length s"
  by (simp add: lower_def)

lemma nat_str_nonempty [simp]: "nat_str n \<noteq> []"
  by (subst nat_str.simps) simp

section \<open>Lists\<close>

text \<open>\<open>list(dict.fromkeys(xs))\<close>: first occurrences, in order.\<close>

definition dedup :: "'a list \<Rightarrow> 'a list" where
  "dedup xs = rev (remdups (rev xs))"

lemma set_dedup [simp]: "set (dedup xs) = set xs"
  by (simp add: dedup_def)

lemma distinct_dedup [simp]: "distinct (dedup xs)"
  by (simp add: dedup_def)

lemma dedup_Nil_iff [simp]: "dedup xs = [] \<longleftrightarrow> xs = []"
  by (metis set_dedup set_empty)

lemma dedup_distinct: "distinct xs \<Longrightarrow> dedup xs = xs"
  by (simp add: dedup_def distinct_remdups_id)

text \<open>\<open>sorted(set(xs))\<close>.\<close>

definition sorted_set :: "'a :: linorder list \<Rightarrow> 'a list" where
  "sorted_set xs = sort (remdups xs)"

lemma set_sorted_set [simp]: "set (sorted_set xs) = set xs"
  by (simp add: sorted_set_def)

lemma distinct_sorted_set [simp]: "distinct (sorted_set xs)"
  by (simp add: sorted_set_def)

lemma sorted_sorted_set [simp]: "sorted (sorted_set xs)"
  by (simp add: sorted_set_def)

lemma sorted_set_eq_iff: "sorted_set xs = sorted_set ys \<longleftrightarrow> set xs = set ys"
  by (metis distinct_sorted_set set_sorted_set sorted_distinct_set_unique sorted_sorted_set)

lemma sorted_set_Nil_iff [simp]: "sorted_set xs = [] \<longleftrightarrow> xs = []"
  by (metis set_empty set_sorted_set)

text \<open>
  \<open>next((x for x in reversed(xs) if P(x)), None)\<close>, as an index, because the code goes
  on to assign fields of the object it finds.
\<close>

fun find_last_idx :: "('a \<Rightarrow> bool) \<Rightarrow> 'a list \<Rightarrow> nat option" where
  "find_last_idx P [] = None"
| "find_last_idx P (x # xs) =
     (case find_last_idx P xs of Some i \<Rightarrow> Some (Suc i)
      | None \<Rightarrow> if P x then Some 0 else None)"

lemma find_last_idx_Some:
  "find_last_idx P xs = Some i \<Longrightarrow> i < length xs \<and> P (xs ! i) \<and> (\<forall>j. i < j \<and> j < length xs \<longrightarrow> \<not> P (xs ! j))"
proof (induction xs arbitrary: i)
  case (Cons x xs)
  show ?case
  proof (cases "find_last_idx P xs")
    case None
    have none: "find_last_idx P ys = None \<Longrightarrow> \<forall>y \<in> set ys. \<not> P y" for ys
      by (induction ys) (auto split: option.splits if_splits)
    from Cons.prems None have "P x" "i = 0" by (auto split: if_splits)
    moreover have "\<not> P ((x # xs) ! j)" if "0 < j" "j < length (x # xs)" for j
      using that none [OF None] by (cases j) auto
    ultimately show ?thesis by auto
  next
    case (Some k)
    with Cons.prems have i: "i = Suc k" by simp
    have "\<not> P ((x # xs) ! j)" if "i < j" "j < length (x # xs)" for j
      using that i Cons.IH [OF Some] by (cases j) auto
    with i Cons.IH [OF Some] show ?thesis by auto
  qed
qed simp

lemma find_last_idx_None: "find_last_idx P xs = None \<longleftrightarrow> (\<forall>x \<in> set xs. \<not> P x)"
  by (induction xs) (auto split: option.splits)

definition count_if :: "('a \<Rightarrow> bool) \<Rightarrow> 'a list \<Rightarrow> int" where
  "count_if P xs = int (length (filter P xs))"

lemma count_if_nonneg [simp]: "0 \<le> count_if P xs"
  by (simp add: count_if_def)

lemma count_if_zero_iff: "count_if P xs = 0 \<longleftrightarrow> (\<forall>x \<in> set xs. \<not> P x)"
  by (auto simp: count_if_def filter_empty_conv)

lemma count_if_snoc: "count_if P (xs @ [x]) = count_if P xs + (if P x then 1 else 0)"
  by (simp add: count_if_def)

section \<open>Dynamic values\<close>

text \<open>A value of a field typed \<open>Any\<close>, as it comes out of a JSON document.\<close>

datatype pyval =
    PNone | PBool bool | PInt int | PStr string | PList "pyval list" | PDict "(string \<times> pyval) list"

type_synonym pydict = "(string \<times> pyval) list"

text \<open>\<open>bool(v)\<close>, and \<open>str(v)\<close> given the rendering of containers.\<close>

fun py_truth :: "pyval \<Rightarrow> bool" where
  "py_truth PNone = False"
| "py_truth (PBool b) = b"
| "py_truth (PInt i) = (i \<noteq> 0)"
| "py_truth (PStr t) = (t \<noteq> [])"
| "py_truth (PList xs) = (xs \<noteq> [])"
| "py_truth (PDict d) = (d \<noteq> [])"

fun py_str_by :: "(pyval \<Rightarrow> string) \<Rightarrow> pyval \<Rightarrow> string" where
  "py_str_by cs PNone = ''None''"
| "py_str_by cs (PBool b) = (if b then ''True'' else ''False'')"
| "py_str_by cs (PInt i) = int_str i"
| "py_str_by cs (PStr t) = t"
| "py_str_by cs v = cs v"

fun is_dict :: "pyval \<Rightarrow> bool" where
  "is_dict (PDict _) = True"
| "is_dict _ = False"

text \<open>\<open>d.get(k, v)\<close>.\<close>

definition get_or :: "pydict \<Rightarrow> string \<Rightarrow> pyval \<Rightarrow> pyval" where
  "get_or d k v = (case map_of d k of None \<Rightarrow> v | Some x \<Rightarrow> x)"

text \<open>\<open>{**a, **b}\<close>.\<close>

definition dict_merge :: "('k \<times> 'v) list \<Rightarrow> ('k \<times> 'v) list \<Rightarrow> ('k \<times> 'v) list" where
  "dict_merge a b = fold (\<lambda>(k, v) d. AList.update k v d) b a"

lemma map_of_AList_update: "map_of (AList.update k v al) = (map_of al)(k \<mapsto> v)"
  by (simp add: update_conv' fun_upd_def fun_eq_iff)

lemma map_of_dict_merge: "distinct (map fst b) \<Longrightarrow> map_of (dict_merge a b) = map_of a ++ map_of b"
proof (induction b arbitrary: a)
  case (Cons p b)
  obtain k v where p: "p = (k, v)" by (cases p)
  have "map_of (dict_merge a (p # b)) = map_of (dict_merge (AList.update k v a) b)"
    by (simp add: dict_merge_def p)
  also have "\<dots> = (map_of a)(k \<mapsto> v) ++ map_of b"
    using Cons by (simp add: update_conv')
  also have "\<dots> = map_of a ++ map_of (p # b)"
  proof -
    have "k \<notin> dom (map_of b)" using Cons.prems p by (simp add: dom_map_of_conv_image_fst)
    then show ?thesis by (auto simp: p map_add_def fun_eq_iff split: option.splits)
  qed
  finally show ?case .
qed (simp add: dict_merge_def)

lemma map_of_dict_of: "map_of (dict_merge a xs) = map_of a ++ map_of (rev xs)"
proof (induction xs arbitrary: a)
  case (Cons p xs)
  obtain k v where p: "p = (k, v)" by (cases p)
  have "map_of (dict_merge a (p # xs)) = (map_of a)(k \<mapsto> v) ++ map_of (rev xs)"
    using Cons [of "AList.update k v a"] by (simp add: dict_merge_def p update_conv' fun_upd_def)
  then show ?case by (auto simp: p map_add_def fun_eq_iff split: option.splits)
qed (simp add: dict_merge_def)

lemma distinct_dict_of: "distinct (map fst a) \<Longrightarrow> distinct (map fst (dict_merge a xs))"
proof (induction xs arbitrary: a)
  case (Cons p xs)
  then show ?case by (cases p) (simp add: dict_merge_def distinct_update)
qed (simp add: dict_merge_def)

lemma dict_merge_append: "distinct (map fst (a @ xs)) \<Longrightarrow> dict_merge a xs = a @ xs"
proof (induction xs arbitrary: a)
  case (Cons p xs)
  obtain k v where p: "p = (k, v)" by (cases p)
  have "k \<notin> fst ` set a" using Cons.prems p by auto
  then have "AList.update k v a = a @ [p]" by (induction a) (auto simp: p)
  with Cons.IH [of "a @ [p]"] Cons.prems show ?case by (simp add: dict_merge_def p)
qed (simp add: dict_merge_def)

lemma dict_merge_values: "snd ` set (dict_merge a xs) \<subseteq> snd ` set a \<union> snd ` set xs"
proof (induction xs arbitrary: a)
  case (Cons p xs)
  obtain k v where p: "p = (k, v)" by (cases p)
  have upd: "snd ` set (AList.update k v a) \<subseteq> insert v (snd ` set a)" by (induction a) auto
  have eqs: "dict_merge a (p # xs) = dict_merge (AList.update k v a) xs" "snd ` set (p # xs) = insert v (snd ` set xs)"
    by (simp_all add: dict_merge_def p)
  from Cons [of "AList.update k v a"] have "snd ` set (dict_merge (AList.update k v a) xs)
      \<subseteq> snd ` set (AList.update k v a) \<union> snd ` set xs" .
  with upd show ?case unfolding eqs by blast
qed (simp add: dict_merge_def)

section \<open>Results\<close>

text \<open>Sequencing of fallible code: \<open>Inl\<close> carries the exception.\<close>

definition bind_res :: "'e + 'a \<Rightarrow> ('a \<Rightarrow> 'e + 'b) \<Rightarrow> 'e + 'b" where
  "bind_res m f = (case m of Inl e \<Rightarrow> Inl e | Inr x \<Rightarrow> f x)"

lemma bind_res_simps [simp]:
  "bind_res (Inl e) f = Inl e"
  "bind_res (Inr x) f = f x"
  by (simp_all add: bind_res_def)

lemma bind_res_Inr_iff: "bind_res m f = Inr y \<longleftrightarrow> (\<exists>x. m = Inr x \<and> f x = Inr y)"
  by (cases m) auto

fun map_res :: "('a \<Rightarrow> 'e + 'b) \<Rightarrow> 'a list \<Rightarrow> 'e + 'b list" where
  "map_res f [] = Inr []"
| "map_res f (x # xs) = bind_res (f x) (\<lambda>y. bind_res (map_res f xs) (\<lambda>ys. Inr (y # ys)))"

lemma map_res_Inr_iff:
  "map_res f xs = Inr ys \<longleftrightarrow> length ys = length xs \<and> (\<forall>i < length xs. f (xs ! i) = Inr (ys ! i))"
proof (induction xs arbitrary: ys)
  case (Cons x xs)
  show ?case
  proof (cases ys)
    case Nil
    then show ?thesis by (auto simp: bind_res_Inr_iff)
  next
    case (Cons y zs)
    have "(\<forall>i < length (x # xs). f ((x # xs) ! i) = Inr ((y # zs) ! i)) \<longleftrightarrow>
      f x = Inr y \<and> (\<forall>i < length xs. f (xs ! i) = Inr (zs ! i))"
      using less_Suc_eq_0_disj by auto
    with Cons Cons.IH [of zs] show ?thesis by (auto simp: bind_res_Inr_iff)
  qed
qed auto

lemma map_res_result: "map_res f xs = Inr ys \<Longrightarrow> x \<in> set xs \<Longrightarrow> \<exists>y \<in> set ys. f x = Inr y"
  by (auto simp: map_res_Inr_iff in_set_conv_nth)

lemma map_res_each: "map_res f xs = Inr ys \<Longrightarrow> x \<in> set xs \<Longrightarrow> \<exists>y. f x = Inr y"
  using map_res_result by fastforce

lemma map_res_Inl: "map_res f xs = Inl e \<Longrightarrow> \<exists>x \<in> set xs. f x = Inl e"
  by (induction xs) (auto simp: bind_res_def split: sum.splits)

lemmas chr_defs = chr_code_def chr_between_def upper_alpha_def lower_alpha_def is_digit_def

lemmas py_string_defs =
  lower_def ascii_lower_def chr_defs py_space_def lstrip_by_def rstrip_by_def strip_by_def
  startswith_def endswith_def replace_char_def str_or_def

declare py_string_defs [pystr]

end
