(* ===== verification/Regex.thy ===== *)
theory Regex
  imports Prelude
begin

text \<open>
  The part of Python's \<open>re\<close> module the code uses.  The matcher returns every way a
  pattern can match at a position, in the order in which the backtracking engine
  tries them, so that its head is the match \<open>re\<close> reports: alternatives from left to
  right, repetition greedily.  A position is the reversed text before it and the
  text after it, which is what the look-around assertions inspect.
\<close>

datatype rx =
    Eps
  | Sat "char \<Rightarrow> bool"               \<comment> \<open>one character of a class\<close>
  | Cat rx rx
  | Alt rx rx
  | Star rx                             \<comment> \<open>greedy repetition\<close>
  | Bos                                 \<comment> \<open>\<open>^\<close> at the start of the string\<close>
  | NotBehind "char \<Rightarrow> bool"         \<comment> \<open>\<open>(?<![...])\<close>\<close>
  | NotAhead "char \<Rightarrow> bool"          \<comment> \<open>\<open>(?![...])\<close>\<close>

type_synonym pos = "string \<times> string"

function rx_match :: "rx \<Rightarrow> pos \<Rightarrow> pos list" where
  "rx_match Eps (b, s) = [(b, s)]"
| "rx_match (Sat p) (b, s) =
     (case s of [] \<Rightarrow> [] | c # cs \<Rightarrow> if p c then [(c # b, cs)] else [])"
| "rx_match (Cat r1 r2) (b, s) = concat (map (rx_match r2) (rx_match r1 (b, s)))"
| "rx_match (Alt r1 r2) (b, s) = rx_match r1 (b, s) @ rx_match r2 (b, s)"
| "rx_match (Star r) (b, s) =
     concat (map (\<lambda>q. if length (snd q) < length s then rx_match (Star r) q else [])
       (rx_match r (b, s))) @ [(b, s)]"
| "rx_match Bos (b, s) = (if b = [] then [(b, s)] else [])"
| "rx_match (NotBehind p) (b, s) =
     (case b of [] \<Rightarrow> [(b, s)] | c # _ \<Rightarrow> if p c then [] else [(b, s)])"
| "rx_match (NotAhead p) (b, s) =
     (case s of [] \<Rightarrow> [(b, s)] | c # _ \<Rightarrow> if p c then [] else [(b, s)])"
  by pat_completeness auto
termination
  by (relation "measures [\<lambda>(r, _). size r, \<lambda>(_, q). length (snd q)]") auto

section \<open>Pattern abbreviations\<close>

definition lit :: "string \<Rightarrow> rx" where
  "lit w = foldr (\<lambda>c r. Cat (Sat ((=) c)) r) w Eps"

text \<open>A literal under \<open>re.I\<close>.\<close>

definition ilit :: "string \<Rightarrow> rx" where
  "ilit w = foldr (\<lambda>c r. Cat (Sat (\<lambda>d. ascii_lower d = ascii_lower c)) r) w Eps"

definition dot :: rx where
  "dot = Sat (\<lambda>c. c \<noteq> CHR 0x0A)"

fun alts :: "rx list \<Rightarrow> rx" where
  "alts [] = Sat (\<lambda>_. False)"
| "alts [r] = r"
| "alts (r # rs) = Alt r (alts rs)"

definition opt :: "rx \<Rightarrow> rx" where
  "opt r = Alt r Eps"

definition plus :: "rx \<Rightarrow> rx" where
  "plus r = Cat r (Star r)"

text \<open>\<open>r{1,n}\<close>, greedy.\<close>

fun upto_rep :: "nat \<Rightarrow> rx \<Rightarrow> rx" where
  "upto_rep 0 r = Eps"
| "upto_rep (Suc n) r = opt (Cat r (upto_rep n r))"

definition rep_1_to :: "nat \<Rightarrow> rx \<Rightarrow> rx" where
  "rep_1_to n r = Cat r (upto_rep (n - 1) r)"

section \<open>The operations of the module\<close>

text \<open>\<open>re.match\<close> at a position: the end position of the preferred match.\<close>

definition rx_at :: "rx \<Rightarrow> pos \<Rightarrow> pos option" where
  "rx_at r q = (case rx_match r q of [] \<Rightarrow> None | e # _ \<Rightarrow> Some e)"

text \<open>\<open>re.search\<close>: the first position with a match, and its end.\<close>

fun rx_search_from :: "rx \<Rightarrow> string \<Rightarrow> string \<Rightarrow> (pos \<times> pos) option" where
  "rx_search_from r b [] = map_option (\<lambda>e. ((b, []), e)) (rx_at r (b, []))"
| "rx_search_from r b (c # cs) =
     (case rx_at r (b, c # cs) of
        Some e \<Rightarrow> Some ((b, c # cs), e)
      | None \<Rightarrow> rx_search_from r (c # b) cs)"

definition rx_search :: "rx \<Rightarrow> string \<Rightarrow> bool" where
  "rx_search r s = (rx_search_from r [] s \<noteq> None)"

text \<open>\<open>m.group(0)\<close> of the search.\<close>

definition matched_text :: "pos \<times> pos \<Rightarrow> string" where
  "matched_text m = (let s = snd (fst m); t = snd (snd m) in take (length s - length t) s)"

definition rx_search_text :: "rx \<Rightarrow> string \<Rightarrow> string option" where
  "rx_search_text r s = map_option matched_text (rx_search_from r [] s)"

text \<open>
  \<open>re.findall\<close> for patterns that match no empty string: after each match the search
  resumes where it ended.
\<close>

function rx_findall_from :: "rx \<Rightarrow> string \<Rightarrow> string \<Rightarrow> string list" where
  "rx_findall_from r b s =
     (case rx_search_from r b s of
        None \<Rightarrow> []
      | Some m \<Rightarrow>
          matched_text m #
          (if length (snd (snd m)) < length s
           then rx_findall_from r (fst (snd m)) (snd (snd m)) else []))"
  by pat_completeness auto
termination
  by (relation "measure (\<lambda>(r, b, s). length s)") auto

declare rx_findall_from.simps [simp del]

definition rx_findall :: "rx \<Rightarrow> string \<Rightarrow> string list" where
  "rx_findall r s = rx_findall_from r [] s"

section \<open>Facts\<close>

text \<open>A match consumes a prefix of the text after the position.\<close>

lemma rx_match_consumes:
  "(b', s') \<in> set (rx_match r (b, s)) \<Longrightarrow> \<exists>m. s = m @ s' \<and> b' = rev m @ b"
proof (induction r "(b, s)" arbitrary: b s b' s' rule: rx_match.induct)
  case (3 r1 r2 b s)
  then obtain b1 s1 where 1: "(b1, s1) \<in> set (rx_match r1 (b, s))"
    and 2: "(b', s') \<in> set (rx_match r2 (b1, s1))" by auto
  from "3.hyps"(1) [OF 1] "3.hyps"(2) [OF 1 2] show ?case by auto
next
  case (5 r b s)
  show ?case
  proof (cases "(b', s') = (b, s)")
    case False
    with "5.prems" obtain b1 s1 where 1: "(b1, s1) \<in> set (rx_match r (b, s))"
      and l: "length s1 < length s" and 2: "(b', s') \<in> set (rx_match (Star r) (b1, s1))"
      by (auto split: if_splits)
    from "5.hyps"(1) [OF 1] obtain m where "s = m @ s1" "b1 = rev m @ b" by auto
    moreover from "5.hyps"(2) [OF 1 _ 2] l obtain m' where "s1 = m' @ s'" "b' = rev m' @ b1"
      by auto
    ultimately show ?thesis by auto
  qed auto
qed (auto split: list.splits if_splits)

lemma rx_at_consumes:
  "rx_at r (b, s) = Some (b', s') \<Longrightarrow> \<exists>m. s = m @ s' \<and> b' = rev m @ b"
  by (rule rx_match_consumes [where r = r]) (auto simp: rx_at_def split: list.splits)

lemma rx_search_from_iff:
  "rx_search_from r b s \<noteq> None \<longleftrightarrow> (\<exists>p t. s = p @ t \<and> rx_match r (rev p @ b, t) \<noteq> [])"
proof (induction s arbitrary: b)
  case Nil
  show ?case by (auto simp: rx_at_def split: list.splits)
next
  case (Cons c cs)
  have "(\<exists>p t. c # cs = p @ t \<and> rx_match r (rev p @ b, t) \<noteq> []) \<longleftrightarrow>
    rx_match r (b, c # cs) \<noteq> [] \<or> (\<exists>p t. cs = p @ t \<and> rx_match r (rev p @ c # b, t) \<noteq> [])"
    (is "?L \<longleftrightarrow> ?R")
  proof
    assume ?L
    then obtain p t where pt: "c # cs = p @ t" "rx_match r (rev p @ b, t) \<noteq> []" by blast
    then show ?R by (cases p) auto
  next
    assume ?R
    then show ?L by (metis append_Cons append_Nil append.assoc rev.simps rev_append)
  qed
  then show ?case using Cons by (auto simp: rx_at_def split: list.splits)
qed

lemma rx_match_lit:
  "rx_match (lit w) (b, s) = (if startswith s w then [(rev w @ b, drop (length w) s)] else [])"
  by (induction w arbitrary: b s) (auto simp: lit_def startswith_def split: list.splits)

text \<open>Searching for a literal is the substring test.\<close>

lemma rx_search_lit: "rx_search (lit w) s \<longleftrightarrow> contains s w"
proof -
  have "rx_search (lit w) s \<longleftrightarrow> (\<exists>p t. s = p @ t \<and> startswith t w)"
    using rx_search_from_iff [of "lit w" "[]" s]
    by (auto simp: rx_search_def rx_match_lit split: if_splits)
  then show ?thesis by (auto simp: contains_iff startswith_iff)
qed

lemma rx_search_Alt: "rx_search (Alt r1 r2) s \<longleftrightarrow> rx_search r1 s \<or> rx_search r2 s"
  unfolding rx_search_def rx_search_from_iff by auto

end
