(* ===== verification/Sha256.thy ===== *)
theory Sha256
  imports Prelude "HOL-Library.Word"
begin

text \<open>
  \<open>hashlib.sha256(s.encode("utf-8")).hexdigest()\<close> of the standard library, as the
  code uses it to name failures and to fingerprint artifacts: FIPS 180-4 on 32-bit
  words, the digest printed as 64 lower-case hexadecimal digits.
\<close>

unbundle bit_operations_syntax

type_synonym w32 = "32 word"

text \<open>
  The constants of the standard: the first 32 bits of the fractional parts of the cube
  roots of the first 64 primes, and of the square roots of the first eight.  The root of
  \<open>p * 2 ^ (32 * k)\<close> is found bit by bit, and taking it modulo \<open>2 ^ 32\<close> drops its integer part.
\<close>

fun root_bits :: "nat \<Rightarrow> nat \<Rightarrow> int \<Rightarrow> int \<Rightarrow> int" where
  "root_bits k 0 n r = r"
| "root_bits k (Suc b) n r = root_bits k b n (if (r + 2 ^ b) ^ k \<le> n then r + 2 ^ b else r)"

definition fractional_root :: "nat \<Rightarrow> int \<Rightarrow> w32" where
  "fractional_root k p = word_of_int (root_bits k 36 (p * 2 ^ (32 * k)) 0)"

definition sha_primes :: "int list" where
  "sha_primes = filter (\<lambda>p. \<forall>d \<in> set [2..p - 1]. p mod d \<noteq> 0) [2..311]"

definition sha_k :: "w32 list" where
  "sha_k = map (fractional_root 3) sha_primes"

definition sha_h0 :: "w32 list" where
  "sha_h0 = map (fractional_root 2) [2, 3, 5, 7, 11, 13, 17, 19]"

definition rotr :: "nat \<Rightarrow> w32 \<Rightarrow> w32" where
  "rotr n w = drop_bit n w OR push_bit (32 - n) w"

definition big_sigma0 :: "w32 \<Rightarrow> w32" where
  "big_sigma0 x = rotr 2 x XOR rotr 13 x XOR rotr 22 x"

definition big_sigma1 :: "w32 \<Rightarrow> w32" where
  "big_sigma1 x = rotr 6 x XOR rotr 11 x XOR rotr 25 x"

definition small_sigma0 :: "w32 \<Rightarrow> w32" where
  "small_sigma0 x = rotr 7 x XOR rotr 18 x XOR drop_bit 3 x"

definition small_sigma1 :: "w32 \<Rightarrow> w32" where
  "small_sigma1 x = rotr 17 x XOR rotr 19 x XOR drop_bit 10 x"

text \<open>Message padding: the bit \<open>1\<close>, zeros, and the bit length in eight bytes.\<close>

fun be_bytes :: "nat \<Rightarrow> int \<Rightarrow> int list" where
  "be_bytes 0 n = []"
| "be_bytes (Suc k) n = be_bytes k (n div 256) @ [n mod 256]"

definition sha_pad :: "int list \<Rightarrow> int list" where
  "sha_pad m =
     m @ [128] @ replicate ((119 - length m mod 64) mod 64) 0 @ be_bytes 8 (8 * int (length m))"

fun be_words :: "int list \<Rightarrow> w32 list" where
  "be_words (a # b # c # d # xs) =
     word_of_int (((a * 256 + b) * 256 + c) * 256 + d) # be_words xs"
| "be_words _ = []"

text \<open>The message schedule, kept as a sliding window of the last sixteen words.\<close>

definition next_word :: "w32 list \<Rightarrow> w32" where
  "next_word w = small_sigma1 (w ! 14) + w ! 9 + small_sigma0 (w ! 1) + w ! 0"

fun sha_rounds :: "w32 list \<Rightarrow> w32 list \<Rightarrow> w32 list \<Rightarrow> w32 list" where
  "sha_rounds [] w st = st"
| "sha_rounds (k # ks) w [a, b, c, d, e, f, g, h] =
     (let t1 = h + big_sigma1 e + ((e AND f) XOR (NOT e AND g)) + k + hd w;
          t2 = big_sigma0 a + ((a AND b) XOR (a AND c) XOR (b AND c))
      in sha_rounds ks (tl w @ [next_word w]) [t1 + t2, a, b, c, d + t1, e, f, g])"
| "sha_rounds (k # ks) w st = st"

fun sha_blocks :: "nat \<Rightarrow> w32 list \<Rightarrow> w32 list \<Rightarrow> w32 list" where
  "sha_blocks 0 ws h = h"
| "sha_blocks (Suc n) ws h =
     sha_blocks n (drop 16 ws) (map2 (+) h (sha_rounds sha_k (take 16 ws) h))"

definition hex_digit :: "int \<Rightarrow> char" where
  "hex_digit n = (''0123456789abcdef'') ! nat (n mod 16)"

definition hex_word :: "w32 \<Rightarrow> string" where
  "hex_word w = map (\<lambda>i. hex_digit (uint (drop_bit (28 - 4 * i) w))) [0 ..< 8]"

definition sha256 :: "string \<Rightarrow> string" where
  "sha256 s =
     (let ws = be_words (sha_pad (map of_char s))
      in concat (map hex_word (sha_blocks (length ws div 16) ws sha_h0)))"

lemma length_sha_rounds: "length st = 8 \<Longrightarrow> length (sha_rounds ks w st) = 8"
  by (induction ks w st rule: sha_rounds.induct) (auto simp: Let_def)

lemma length_sha_blocks: "length h = 8 \<Longrightarrow> length (sha_blocks n ws h) = 8"
  by (induction n ws h rule: sha_blocks.induct) (auto simp: length_sha_rounds)

lemma length_sha256 [simp]: "length (sha256 s) = 64"
proof -
  have "length (concat (map hex_word hs)) = 8 * length hs" for hs
    by (induction hs) (auto simp: hex_word_def)
  moreover have "length (sha_blocks n ws sha_h0) = 8" for n ws
    by (rule length_sha_blocks) (simp add: sha_h0_def)
  ultimately show ?thesis by (simp add: sha256_def Let_def)
qed

end
