(* ===== verification/Ahe.thy ===== *)
theory Ahe
  imports Prelude Regex Sha256
begin

text \<open>
  \<open>orchestration/ahe.py\<close>: the failure taxonomy of the adaptive harness, how a
  failed check becomes a classified failure envelope, which governed action a
  failure is attributed to, and the records of repairs, replans and recovery turns.
  The random identifiers \<open>patch_id\<close>, \<open>replan_id\<close>, \<open>decision_id\<close> and \<open>turn_id\<close> are
  left out: no code reads them.
\<close>

section \<open>Taxonomy\<close>

datatype failure_category =
    TRANSIENT_TOOL | STRUCTURED_OUTPUT | EVIDENCE_GAP | CAT_SELECTION | CONNECTIVITY
  | PLACEMENT | ROUTING | VERIFICATION | HARD_CONSTRAINT | CAT_UNKNOWN

fun category_value :: "failure_category \<Rightarrow> string" where
  "category_value TRANSIENT_TOOL = ''transient_tool''"
| "category_value STRUCTURED_OUTPUT = ''structured_output''"
| "category_value EVIDENCE_GAP = ''evidence_gap''"
| "category_value CAT_SELECTION = ''selection''"
| "category_value CONNECTIVITY = ''connectivity''"
| "category_value PLACEMENT = ''placement''"
| "category_value ROUTING = ''routing''"
| "category_value VERIFICATION = ''verification''"
| "category_value HARD_CONSTRAINT = ''hard_constraint''"
| "category_value CAT_UNKNOWN = ''unknown''"

datatype recoverability =
    RETRYABLE | LOCALLY_REPAIRABLE | REVISION_REQUIRED | HITL_REQUIRED
  | HARNESS_OBSERVATION | REC_CAPABILITY_GAP | HARD_CONFLICT

datatype failure_origin =
    DESIGN | INFRASTRUCTURE | HARNESS | EXTERNAL_EVIDENCE | ORIGIN_UNKNOWN

datatype failure_action =
    ACT_RETRY | ACT_REVISION | ACT_HITL | OBSERVE_HARNESS | ACT_CAPABILITY_GAP | ACT_STOP

datatype recovery_action =
    LOCAL_REPAIR | REPLAN_UPSTREAM | RETRY_TOOL | INVESTIGATE_HARNESS | ASK_HUMAN | STOP

section \<open>Records\<close>

type_synonym score = "int \<times> int \<times> int"

record failure_envelope =
  failure_id :: string
  fe_signature :: string
  fe_step :: string
  fe_check_name :: string
  fe_category :: failure_category
  fe_recoverability :: recoverability
  fe_origin :: failure_origin
  fe_reason_code :: string
  required_capability :: "string option"
  fe_message :: string
  fe_affected_refs :: "string list"
  fe_evidence :: pydict

datatype repair_kind = KHarness | KDesign

datatype repair_status = RImproved | RVerified | RRejected | RError

record repair_record =
  rr_kind :: repair_kind
  rr_step :: string
  rr_strategy :: string
  rr_attempt :: int
  rr_failure_ids :: "string list"
  rr_status :: repair_status
  rr_before :: score
  rr_after :: score
  rr_detail :: string
  rr_fingerprint :: string

datatype replan_status = Scheduled | Recovered | Stagnated | Exhausted | Deferred

record replan_record =
  rp_trigger :: string
  rp_rollback_to :: string
  rp_attempt :: int
  rp_failure_ids :: "string list"
  rp_status :: replan_status
  rp_before :: score
  rp_after :: "score option"
  rp_feedback :: string
  rp_fingerprint :: string

datatype gap_status = GObserved | GCandidate | GPromoted | GRejected

record capability_gap =
  gap_id :: string
  gap_signature :: string
  gap_step :: string
  gap_check_name :: string
  gap_category :: failure_category
  gap_message :: string
  gap_required_capability :: string
  gap_affected_refs :: "string list"
  gap_status_of :: gap_status

record failure_attribution =
  fa_action :: failure_action
  fa_reason_code :: string
  fa_origin :: failure_origin
  fa_run_count :: int
  fa_project_count :: int

record recovery_decision =
  rd_failure_ids :: "string list"
  rd_action :: recovery_action
  rd_origin :: failure_origin
  rd_target_step :: "string option"
  rd_strategy :: string
  rd_tool_name :: string
  rd_tool_args :: pydict
  rd_hypothesis :: string
  rd_expected :: string
  rd_success_checks :: "string list"
  rd_confidence :: rat

datatype turn_status =
    TPlanned | TActed | TObserved | TImproved | TVerified | TRejected | TError | TExhausted
  | TTerminal

record recovery_turn =
  rt_step :: string
  rt_attempt :: int
  rt_revision :: int
  rt_failure_ids :: "string list"
  rt_decision :: recovery_decision
  rt_status :: turn_status
  rt_before :: score
  rt_after :: "score option"
  rt_observation :: string
  rt_fingerprint :: string
  rt_used_llm :: bool
  rt_skill_name :: string
  rt_skill_digest :: string

text \<open>The errors this module raises.\<close>

datatype ahe_error = AttributionCounts | NotACapabilityGap

section \<open>Patterns\<close>

definition word_char :: "char \<Rightarrow> bool" where
  "word_char c =
     (upper_alpha c \<or> lower_alpha c \<or> is_digit c \<or> c = CHR ''_'')"

definition REF_RE :: rx where
  "REF_RE =
     Cat (NotBehind word_char)
      (Cat (rep_1_to 4 (Sat upper_alpha))
        (Cat (plus (Sat is_digit)) (Cat (opt (Sat upper_alpha)) (NotAhead word_char))))"

definition HARD_CHECK_RE :: rx where
  "HARD_CHECK_RE =
     Cat Bos (alts [lit ''immutable_'', lit ''fixed_constraint_'', lit ''forbidden_requirement'',
       lit ''identity_violation''])"

definition TRANSIENT_RE :: rx where
  "TRANSIENT_RE =
     alts [ilit ''timeout'', ilit ''temporar'',
       Cat (ilit ''rate'') (Cat dot (ilit ''limit'')),
       Cat (ilit ''connection'') (Cat dot (Alt (ilit ''refused'') (ilit ''reset''))),
       Cat (ilit ''service'') (Cat dot (ilit ''unavailable''))]"

definition STRUCTURED_OUTPUT_RE :: rx where
  "STRUCTURED_OUTPUT_RE =
     alts [Cat (ilit ''structured'') (Cat dot (ilit ''output'')),
       Cat (ilit ''invalid'') (Cat dot (ilit ''json'')),
       ilit ''json_invalid'', ilit ''EOF while parsing'', ilit ''unterminated string'',
       ilit ''schema validation'']"

definition EVIDENCE_RE :: rx where
  "EVIDENCE_RE =
     alts [ilit ''datasheet'', ilit ''evidence'', ilit ''source'', ilit ''catalog'']"

section \<open>Classification\<close>

definition category :: "string \<Rightarrow> string \<Rightarrow> string \<Rightarrow> failure_category" where
  "category step check_name message =
     (let combined = check_name @ '' '' @ message
      in if rx_search HARD_CHECK_RE check_name then HARD_CONSTRAINT
         else if rx_search STRUCTURED_OUTPUT_RE combined then STRUCTURED_OUTPUT
         else if rx_search EVIDENCE_RE check_name then EVIDENCE_GAP
         else if rx_search TRANSIENT_RE combined then TRANSIENT_TOOL
         else if step = ''selection'' then CAT_SELECTION
         else if startswith step ''schematic_'' \<or> step = ''erc'' \<or> step = ''schematic_connections''
         then CONNECTIVITY
         else if startswith step ''layout_'' then PLACEMENT
         else if startswith step ''route_'' then ROUTING
         else if step = ''manufacture'' \<or> contains (lower check_name) ''drc''
                 \<or> contains (lower check_name) ''erc''
         then VERIFICATION
         else CAT_UNKNOWN)"

fun required_capability_of :: "failure_category \<Rightarrow> string" where
  "required_capability_of CAT_SELECTION = ''component_selection_repair''"
| "required_capability_of CONNECTIVITY = ''schematic_connectivity_repair''"
| "required_capability_of PLACEMENT = ''pcb_placement_repair''"
| "required_capability_of ROUTING = ''pcb_routing_repair''"
| "required_capability_of VERIFICATION = ''verification_report_repair''"
| "required_capability_of EVIDENCE_GAP = ''grounded_evidence_recovery''"
| "required_capability_of TRANSIENT_TOOL = ''resilient_tool_retry''"
| "required_capability_of STRUCTURED_OUTPUT = ''structured_output_recovery''"
| "required_capability_of _ = ''unclassified_hardware_repair''"

text \<open>The origin when the check names none.\<close>

fun default_origin :: "failure_category \<Rightarrow> failure_origin" where
  "default_origin TRANSIENT_TOOL = INFRASTRUCTURE"
| "default_origin STRUCTURED_OUTPUT = INFRASTRUCTURE"
| "default_origin EVIDENCE_GAP = EXTERNAL_EVIDENCE"
| "default_origin CAT_SELECTION = DESIGN"
| "default_origin CONNECTIVITY = DESIGN"
| "default_origin PLACEMENT = DESIGN"
| "default_origin ROUTING = DESIGN"
| "default_origin VERIFICATION = DESIGN"
| "default_origin HARD_CONSTRAINT = DESIGN"
| "default_origin CAT_UNKNOWN = ORIGIN_UNKNOWN"

definition classify_recoverability ::
    "failure_category \<Rightarrow> failure_origin \<Rightarrow> bool \<Rightarrow> recoverability" where
  "classify_recoverability cat org repair_available =
     (if cat = HARD_CONSTRAINT then HARD_CONFLICT
      else if org = INFRASTRUCTURE \<or> cat \<in> {TRANSIENT_TOOL, STRUCTURED_OUTPUT} then RETRYABLE
      else if org = HARNESS then HARNESS_OBSERVATION
      else if repair_available then LOCALLY_REPAIRABLE
      else if org = DESIGN then REVISION_REQUIRED
      else if org = EXTERNAL_EVIDENCE then HITL_REQUIRED
      else HITL_REQUIRED)"

definition signature_source :: "string \<Rightarrow> string \<Rightarrow> failure_category \<Rightarrow> string \<Rightarrow> string" where
  "signature_source step check_name cat reason =
     step @ ''|'' @ check_name @ ''|'' @ category_value cat @ ''|'' @ reason"

definition make_failure ::
    "string \<Rightarrow> string \<Rightarrow> string \<Rightarrow> bool \<Rightarrow> failure_origin option \<Rightarrow> string \<Rightarrow> string list \<Rightarrow> pydict
     \<Rightarrow> failure_envelope" where
  "make_failure step check_name message repair_available origin reason_code refs evidence =
     (let cat = category step check_name message;
          resolved_origin = (case origin of Some x \<Rightarrow> x | None \<Rightarrow> default_origin cat);
          stable_reason_code = str_or (strip reason_code) ''check_failed'';
          signature = take 20 (sha256 (signature_source step check_name cat stable_reason_code))
      in \<lparr>failure_id = step @ '':'' @ check_name @ '':'' @ signature,
          fe_signature = signature,
          fe_step = step,
          fe_check_name = check_name,
          fe_category = cat,
          fe_recoverability = classify_recoverability cat resolved_origin repair_available,
          fe_origin = resolved_origin,
          fe_reason_code = stable_reason_code,
          required_capability = Some (required_capability_of cat),
          fe_message = message,
          fe_affected_refs = dedup (if refs = [] then rx_findall REF_RE message else refs),
          fe_evidence =
            dict_merge
              [(''check_name'', PStr check_name), (''reason_code'', PStr stable_reason_code),
               (''message'', PStr message)]
              evidence\<rparr>)"

definition attribute_failure ::
    "failure_envelope \<Rightarrow> int \<Rightarrow> int \<Rightarrow> ahe_error + failure_attribution" where
  "attribute_failure f runs projects =
     (if runs < 1 \<or> projects < 1 then Inl AttributionCounts
      else
        (let (act, reason) =
           (if fe_recoverability f = HARD_CONFLICT then (ACT_STOP, ''hard_constraint_conflict'')
            else case fe_origin f of
              INFRASTRUCTURE \<Rightarrow> (ACT_RETRY, ''infrastructure_transient'')
            | DESIGN \<Rightarrow> (ACT_REVISION, ''ordinary_design_issue'')
            | EXTERNAL_EVIDENCE \<Rightarrow> (ACT_HITL, ''evidence_or_substitution_decision_required'')
            | HARNESS \<Rightarrow>
                (if 2 \<le> runs \<and> 2 \<le> projects
                 then (ACT_CAPABILITY_GAP, ''cross_run_reproducible_harness_defect'')
                 else (OBSERVE_HARNESS, ''harness_defect_not_yet_cross_run_reproducible''))
            | ORIGIN_UNKNOWN \<Rightarrow> (ACT_HITL, ''origin_unclassified_fail_closed''))
         in Inr \<lparr>fa_action = act, fa_reason_code = reason, fa_origin = fe_origin f,
                 fa_run_count = runs, fa_project_count = projects\<rparr>))"

text \<open>The action chosen with the default counts, as every caller in the engine uses it.\<close>

definition attributed_action :: "failure_envelope \<Rightarrow> failure_action" where
  "attributed_action f =
     (case attribute_failure f 1 1 of Inr a \<Rightarrow> fa_action a | Inl _ \<Rightarrow> ACT_STOP)"

definition make_capability_gap :: "failure_envelope \<Rightarrow> ahe_error + capability_gap" where
  "make_capability_gap f =
     (if fe_recoverability f \<noteq> REC_CAPABILITY_GAP then Inl NotACapabilityGap
      else Inr \<lparr>gap_id = ''gap:'' @ fe_signature f,
                gap_signature = fe_signature f,
                gap_step = fe_step f,
                gap_check_name = fe_check_name f,
                gap_category = fe_category f,
                gap_message = fe_message f,
                gap_required_capability =
                  (case required_capability f of
                     None \<Rightarrow> ''unclassified_hardware_repair''
                   | Some c \<Rightarrow> str_or c ''unclassified_hardware_repair''),
                gap_affected_refs = fe_affected_refs f,
                gap_status_of = GObserved\<rparr>)"

section \<open>Events\<close>

text \<open>
  \<open>ahe_event\<close> builds the payload handed to the observer: the four fixed keys and one
  entry per argument that is given.
\<close>

record ahe_event =
  ev_event :: string
  ev_step :: string
  ev_revision :: int
  ev_failure :: "failure_envelope option"
  ev_repair :: "repair_record option"
  ev_gap :: "capability_gap option"
  ev_replan :: "replan_record option"
  ev_attribution :: "failure_attribution option"
  ev_recovery :: "recovery_turn option"

definition mk_event :: "string \<Rightarrow> string \<Rightarrow> int \<Rightarrow> ahe_event" where
  "mk_event event step revision =
     \<lparr>ev_event = event, ev_step = step, ev_revision = revision, ev_failure = None,
      ev_repair = None, ev_gap = None, ev_replan = None, ev_attribution = None,
      ev_recovery = None\<rparr>"

section \<open>Facts\<close>

lemma make_failure_simps [simp]:
  "fe_step (make_failure st n m r org rc refs ev) = st"
  "fe_check_name (make_failure st n m r org rc refs ev) = n"
  "fe_category (make_failure st n m r org rc refs ev) = category st n m"
  "fe_message (make_failure st n m r org rc refs ev) = m"
  by (simp_all add: make_failure_def Let_def)

lemma make_failure_origin:
  "fe_origin (make_failure st n m r org rc refs ev) =
     (case org of Some x \<Rightarrow> x | None \<Rightarrow> default_origin (category st n m))"
  by (simp add: make_failure_def Let_def)

lemma make_failure_recoverability:
  "fe_recoverability (make_failure st n m r org rc refs ev) =
     classify_recoverability (category st n m)
       (case org of Some x \<Rightarrow> x | None \<Rightarrow> default_origin (category st n m)) r"
  by (simp add: make_failure_def Let_def)

lemma failure_id_cong:
  "category st n m = category st n m' \<Longrightarrow>
   failure_id (make_failure st n m r org rc refs ev) =
   failure_id (make_failure st n m' r' org' rc refs' ev')"
  by (simp add: make_failure_def Let_def)

lemma classify_never_capability_gap [simp]:
  "classify_recoverability cat org r \<noteq> REC_CAPABILITY_GAP"
  by (simp add: classify_recoverability_def)

lemma attribute_failure_default: "\<exists>a. attribute_failure f 1 1 = Inr a"
  by (simp add: attribute_failure_def split_beta)

section \<open>Properties of the classification\<close>

text \<open>
  a failure is attributed to an immediate stop exactly when the name of its check marks
  a hard constraint; neither the origin the check claims, nor an available repair, nor the
  message can waive or provoke it.
\<close>

theorem hard_checks_stop:
  "(attributed_action (make_failure st n m repairable org rc refs ev) = ACT_STOP)
     = rx_search HARD_CHECK_RE n"
proof -
  have hard: "(fe_recoverability (make_failure st n m repairable org rc refs ev) = HARD_CONFLICT)
      = rx_search HARD_CHECK_RE n"
    by (auto simp: make_failure_recoverability classify_recoverability_def category_def Let_def)
  have "attributed_action f = ACT_STOP \<longleftrightarrow> fe_recoverability f = HARD_CONFLICT" for f
    by (simp add: attributed_action_def attribute_failure_def split: failure_origin.split)
  with hard show ?thesis by blast
qed

text \<open>
  The identity of a failure does not depend on the wording of its message, on the
  parts it names, on its origin or on whether a repair exists: two observations of the same
  check in the same category with the same reason code share identifier and signature.
\<close>

theorem failure_identity_stable:
  assumes "category st n m = category st n m'"
  shows "failure_id (make_failure st n m rep org rc refs ev)
      = failure_id (make_failure st n m' rep' org' rc refs' ev')
    \<and> fe_signature (make_failure st n m rep org rc refs ev)
      = fe_signature (make_failure st n m' rep' org' rc refs' ev')"
  using assms by (simp add: make_failure_def Let_def)

theorem failure_identity_stable_witness:
  "failure_id (make_failure ''layout_general'' ''overlap'' ''U1 overlaps R2'' True None [] [] [])
      = failure_id (make_failure ''layout_general'' ''overlap'' ''U7 overlaps'' False (Some DESIGN) [] [] [])
    \<and> fe_signature (make_failure ''layout_general'' ''overlap'' ''U1 overlaps R2'' True None [] [] [])
      = fe_signature (make_failure ''layout_general'' ''overlap'' ''U7 overlaps'' False (Some DESIGN) [] [] [])"
proof (rule failure_identity_stable)
  show "category ''layout_general'' ''overlap'' ''U1 overlaps R2''
      = category ''layout_general'' ''overlap'' ''U7 overlaps''" by code_simp
qed

end
