(* ===== verification/Pipeline_Types.thy ===== *)
theory Pipeline_Types
  imports Ahe
begin

text \<open>
  The data of \<open>orchestration/pipeline.py\<close>: the pinned step sequence, check and step
  results, the mutable pipeline state, the run context, and the interface of a step.

  A step object is the record \<open>step_hooks\<close>: one field per class attribute or method of
  \<open>PipelineStepBase\<close>, with \<open>None\<close> for a method the subclass does not override.  Hooks
  may raise, and they change the state they are given only in its \<open>artifacts\<close>, in the
  two connection-synthesis fields and in the outside \<open>world\<close> (files, tools, model
  provider, clock): \<open>adopt\<close> takes over exactly these parts, because no hook of the
  module assigns any other field.  \<open>'a\<close> is the type of artifacts and \<open>'w\<close> the type of the
  outside world.

  \<open>trace\<close> records the calls of the observer callbacks in order.
\<close>

named_theorems engine_defs \<open>definitions of the step engine\<close>

section \<open>The pinned step sequence\<close>

datatype pipeline_step =
    REQUIREMENTS | TOPOLOGY | SELECTION | SCH_CONNECTIONS | SCH_PINMAP | SCH_LAYOUT
  | SCH_MATERIALIZE | ERC | LAYOUT_PARTITION | LAYOUT_CRITICAL | LAYOUT_GENERAL
  | LAYOUT_WRITE | ROUTE_PLAN | ROUTE_PLANES | ROUTE_SIGNALS | ROUTE_FAB | MANUFACTURE

fun step_value :: "pipeline_step \<Rightarrow> string" where
  "step_value REQUIREMENTS = ''requirements''"
| "step_value TOPOLOGY = ''topology''"
| "step_value SELECTION = ''selection''"
| "step_value SCH_CONNECTIONS = ''schematic_connections''"
| "step_value SCH_PINMAP = ''schematic_pinmap''"
| "step_value SCH_LAYOUT = ''schematic_layout''"
| "step_value SCH_MATERIALIZE = ''schematic_materialize''"
| "step_value ERC = ''erc''"
| "step_value LAYOUT_PARTITION = ''layout_partition''"
| "step_value LAYOUT_CRITICAL = ''layout_critical''"
| "step_value LAYOUT_GENERAL = ''layout_general''"
| "step_value LAYOUT_WRITE = ''layout_write''"
| "step_value ROUTE_PLAN = ''route_plan''"
| "step_value ROUTE_PLANES = ''route_planes''"
| "step_value ROUTE_SIGNALS = ''route_signals''"
| "step_value ROUTE_FAB = ''route_fab''"
| "step_value MANUFACTURE = ''manufacture''"

definition CANONICAL_ORDER :: "pipeline_step list" where
  "CANONICAL_ORDER =
     [REQUIREMENTS, TOPOLOGY, SELECTION, SCH_CONNECTIONS, SCH_PINMAP, SCH_LAYOUT,
      SCH_MATERIALIZE, ERC, LAYOUT_PARTITION, LAYOUT_CRITICAL, LAYOUT_GENERAL,
      LAYOUT_WRITE, ROUTE_PLAN, ROUTE_PLANES, ROUTE_SIGNALS, ROUTE_FAB, MANUFACTURE]"

fun index_from :: "nat \<Rightarrow> 'b \<Rightarrow> 'b list \<Rightarrow> nat" where
  "index_from i x [] = i"
| "index_from i x (y # ys) = (if x = y then i else index_from (Suc i) x ys)"

text \<open>\<open>_ORDER_INDEX[s]\<close>.\<close>

definition order_index :: "pipeline_step \<Rightarrow> nat" where
  "order_index s = index_from 0 s CANONICAL_ORDER"

text \<open>\<open>PipelineStep(value)\<close>: \<open>None\<close> where the enum raises \<open>ValueError\<close>.\<close>

definition step_of_value :: "string \<Rightarrow> pipeline_step option" where
  "step_of_value v = find (\<lambda>s. step_value s = v) CANONICAL_ORDER"

section \<open>Results\<close>

datatype severity = SevError | SevWarning | SevInfo

record check_result =
  ck_name :: string
  ok :: bool
  ck_severity :: severity
  ck_message :: string
  blocks_execution :: bool
  ck_origin :: "failure_origin option"
  ck_reason_code :: string
  ck_affected_refs :: "string list"
  ck_evidence :: pydict

definition error_check :: "check_result \<Rightarrow> bool" where
  "error_check c = (\<not> ok c \<and> ck_severity c = SevError)"

definition blocking_check :: "check_result \<Rightarrow> bool" where
  "blocking_check c = (\<not> ok c \<and> ck_severity c = SevError \<and> blocks_execution c)"

record step_result =
  sr_step :: pipeline_step
  sr_used_llm :: bool
  knowledge_used :: "string list"
  sr_checks :: "check_result list"
  sr_failures :: "failure_envelope list"
  sr_repairs :: "repair_record list"
  sr_blocked :: bool
  sr_execution_blocked :: bool
  sr_summary :: string

definition error_checks :: "step_result \<Rightarrow> check_result list" where
  "error_checks r = filter error_check (sr_checks r)"

section \<open>Errors\<close>

datatype exn =
    LlmError string
  | NonRetryableLlmError string
  | StructuredOutputError string
  | ValidationError string
  | ValueError string
  | PipelineOrderError
  | OtherError string string

fun is_llm_error :: "exn \<Rightarrow> bool" where
  "is_llm_error (LlmError _) = True"
| "is_llm_error (NonRetryableLlmError _) = True"
| "is_llm_error (StructuredOutputError _) = True"
| "is_llm_error _ = False"

fun exn_name :: "exn \<Rightarrow> string" where
  "exn_name (LlmError _) = ''LlmError''"
| "exn_name (NonRetryableLlmError _) = ''NonRetryableLlmError''"
| "exn_name (StructuredOutputError _) = ''StructuredOutputError''"
| "exn_name (ValidationError _) = ''ValidationError''"
| "exn_name (ValueError _) = ''ValueError''"
| "exn_name PipelineOrderError = ''PipelineOrderError''"
| "exn_name (OtherError n _) = n"

fun exn_text :: "exn \<Rightarrow> string" where
  "exn_text (LlmError m) = m"
| "exn_text (NonRetryableLlmError m) = m"
| "exn_text (StructuredOutputError m) = m"
| "exn_text (ValidationError m) = m"
| "exn_text (ValueError m) = m"
| "exn_text PipelineOrderError = ''resumed state must contain a contiguous canonical prefix without an execution-blocking result''"
| "exn_text (OtherError _ m) = m"

section \<open>State\<close>

datatype observation =
    AheEvent ahe_event
  | StepCompleted pipeline_step bool
  | ProgressCheckpoint

record ('a, 'w) pipeline_state =
  requirement_text :: string
  project_name :: string
  artifacts :: "pipeline_step \<Rightarrow> 'a option"
  results :: "step_result list"
  revision :: int
  repair_history :: "repair_record list"
  replan_history :: "replan_record list"
  recovery_history :: "recovery_turn list"
  capability_gaps :: "capability_gap list"
  resume_candidates :: "pipeline_step \<Rightarrow> ('a \<times> bool) option"
  connection_checkpoint :: "pyval option"
  connection_report :: "pyval option"
  release_resume_step :: "pipeline_step option"
  release_resume_token_digest :: string
  repair_feedback :: string
  world :: 'w
  trace :: "observation list"

definition completed :: "('a, 'w) pipeline_state \<Rightarrow> pipeline_step list" where
  "completed s = map sr_step (results s)"

definition state_blocked :: "('a, 'w) pipeline_state \<Rightarrow> bool" where
  "state_blocked s = (\<exists>r \<in> set (results s). sr_blocked r)"

definition state_execution_blocked :: "('a, 'w) pipeline_state \<Rightarrow> bool" where
  "state_execution_blocked s = (\<exists>r \<in> set (results s). sr_execution_blocked r)"

section \<open>Context and steps\<close>

datatype llm_mode = OFFLINE | AUTO | REQUIRED

record ('a, 'w) pipeline_context =
  mode :: llm_mode
  has_client :: bool
  kb_retrieve :: "string \<Rightarrow> string \<Rightarrow> (string \<times> string) list"
  repair_attempts :: int
  capture_step_errors :: bool
  has_ahe_observer :: bool
  ahe_enabled :: bool
  max_total_repair_attempts :: int
  max_same_failure_retries :: int
  ahe_deadline_monotonic :: "rat option"
  monotonic :: "'w \<Rightarrow> rat"
  max_replan_attempts :: int
  strategy_score :: "(string \<Rightarrow> string \<Rightarrow> rat option) option"
  replan_score :: "(string \<Rightarrow> string \<Rightarrow> rat option) option"
  artifact_first :: bool
  repair_release_issues :: bool
  execution_retry_attempts :: int
  design_repair_attempts :: int
  max_design_repair_attempts_per_step :: int
  max_total_design_repair_attempts :: int
  agentic_recovery_enabled :: bool
  max_agentic_recovery_turns_per_step :: int
  max_total_agentic_recovery_turns :: int
  has_step_observer :: bool
  has_progress_observer :: bool
  model_dump_json :: "'a \<Rightarrow> string"

type_synonym ('a, 'w, 'r) action = "('a, 'w) pipeline_state \<Rightarrow> (exn + 'r) \<times> ('a, 'w) pipeline_state"

type_synonym ('a, 'w) proposer =
  "('a, 'w) pipeline_context \<Rightarrow> string \<Rightarrow> ('a, 'w, 'a \<times> bool) action"

record ('a, 'w) step_hooks =
  hk_step :: pipeline_step
  knowledge_role :: "string option"
  repair_strategy_id :: "string option"
  repair_is_deterministic :: bool
  allow_artifact_first_design_repair :: bool
  hk_knowledge_query :: "('a, 'w) pipeline_state \<Rightarrow> string option"
  hk_propose :: "('a, 'w) proposer"
  hk_check :: "('a, 'w) pipeline_state \<Rightarrow> 'a \<Rightarrow> exn + check_result list"
  hk_repair :: "('a \<Rightarrow> check_result list \<Rightarrow> ('a, 'w) proposer) option"
  hk_repair_applicable :: "('a, 'w) pipeline_state \<Rightarrow> 'a \<Rightarrow> check_result list \<Rightarrow> bool"
  hk_prepare_resumed :: "('a, 'w) pipeline_state \<Rightarrow> 'a \<Rightarrow> exn + 'a"
  hk_resume_current :: "('a, 'w) pipeline_state \<Rightarrow> 'a \<Rightarrow> bool"
  hk_replan :: "('a \<Rightarrow> string \<Rightarrow> ('a, 'w) proposer) option"
  hk_rollback_target :: "('a, 'w) pipeline_state \<Rightarrow> 'a \<Rightarrow> check_result list \<Rightarrow> pipeline_step option"
  hk_convergence :: "('a \<Rightarrow> check_result list \<Rightarrow> score) option"
  hk_summarize :: "'a \<Rightarrow> string"

text \<open>Take over what a hook may have written.\<close>

definition adopt ::
    "('a, 'w) pipeline_state \<Rightarrow> ('a, 'w) pipeline_state \<Rightarrow> ('a, 'w) pipeline_state" where
  "adopt s s' =
     s\<lparr>artifacts := artifacts s', connection_checkpoint := connection_checkpoint s',
       connection_report := connection_report s', world := world s'\<rparr>"

definition call_hook :: "('a, 'w, 'r) action \<Rightarrow> ('a, 'w, 'r) action" where
  "call_hook f s = (let (r, s') = f s in (r, adopt s s'))"

text \<open>\<open>_artifact_fingerprint\<close>.\<close>

definition artifact_fingerprint :: "('a, 'w) pipeline_context \<Rightarrow> 'a option \<Rightarrow> string" where
  "artifact_fingerprint ctx a =
     (case a of None \<Rightarrow> [] | Some x \<Rightarrow> take 20 (sha256 (model_dump_json ctx x)))"

definition deadline_open :: "('a, 'w) pipeline_context \<Rightarrow> ('a, 'w) pipeline_state \<Rightarrow> bool" where
  "deadline_open ctx s =
     (case ahe_deadline_monotonic ctx of None \<Rightarrow> True | Some d \<Rightarrow> monotonic ctx (world s) < d)"

definition emit ::
    "('a, 'w) pipeline_context \<Rightarrow> ahe_event \<Rightarrow> ('a, 'w) pipeline_state \<Rightarrow> ('a, 'w) pipeline_state" where
  "emit ctx e s = (if has_ahe_observer ctx then s\<lparr>trace := trace s @ [AheEvent e]\<rparr> else s)"

section \<open>Facts\<close>

lemma length_CANONICAL_ORDER [simp]: "length CANONICAL_ORDER = 17"
  by (simp add: CANONICAL_ORDER_def)

lemma distinct_CANONICAL_ORDER [simp]: "distinct CANONICAL_ORDER"
  by (simp add: CANONICAL_ORDER_def)

lemma set_CANONICAL_ORDER [simp]: "set CANONICAL_ORDER = UNIV"
proof -
  have "s \<in> set CANONICAL_ORDER" for s by (cases s) (simp_all add: CANONICAL_ORDER_def)
  then show ?thesis by auto
qed

lemma order_index_less [simp]: "order_index s < 17"
  by (cases s) (simp_all add: order_index_def CANONICAL_ORDER_def)

lemma nth_order_index [simp]: "CANONICAL_ORDER ! order_index s = s"
  by (cases s) (simp_all add: order_index_def CANONICAL_ORDER_def)

lemma order_index_nth [simp]: "i < 17 \<Longrightarrow> order_index (CANONICAL_ORDER ! i) = i"
  by (metis distinct_CANONICAL_ORDER length_CANONICAL_ORDER nth_eq_iff_index_eq nth_order_index
      order_index_less)

lemma order_index_inject [simp]: "order_index s = order_index t \<longleftrightarrow> s = t"
  by (metis nth_order_index)

lemma step_of_value_step_value [simp]: "step_of_value (step_value s) = Some s"
  by (cases s) (simp_all add: step_of_value_def CANONICAL_ORDER_def)

lemma step_value_inject [simp]: "step_value s = step_value t \<longleftrightarrow> s = t"
  by (metis option.inject step_of_value_step_value)

lemma in_take_CANONICAL_iff: "s \<in> set (take k CANONICAL_ORDER) \<longleftrightarrow> order_index s < k"
proof -
  have "s \<in> set (take k CANONICAL_ORDER) \<longleftrightarrow> (\<exists>i. i < k \<and> i < 17 \<and> CANONICAL_ORDER ! i = s)"
    by (auto simp: in_set_conv_nth)
  also have "\<dots> \<longleftrightarrow> order_index s < k" by force
  finally show ?thesis .
qed

lemma adopt_simps [simp]:
  "requirement_text (adopt s s') = requirement_text s"
  "results (adopt s s') = results s"
  "revision (adopt s s') = revision s"
  "repair_history (adopt s s') = repair_history s"
  "replan_history (adopt s s') = replan_history s"
  "recovery_history (adopt s s') = recovery_history s"
  "capability_gaps (adopt s s') = capability_gaps s"
  "resume_candidates (adopt s s') = resume_candidates s"
  "repair_feedback (adopt s s') = repair_feedback s"
  "trace (adopt s s') = trace s"
  "artifacts (adopt s s') = artifacts s'"
  "world (adopt s s') = world s'"
  by (simp_all add: adopt_def)

lemma emit_simps [simp]:
  "results (emit ctx e s) = results s"
  "revision (emit ctx e s) = revision s"
  "artifacts (emit ctx e s) = artifacts s"
  "repair_history (emit ctx e s) = repair_history s"
  "replan_history (emit ctx e s) = replan_history s"
  "recovery_history (emit ctx e s) = recovery_history s"
  "capability_gaps (emit ctx e s) = capability_gaps s"
  "resume_candidates (emit ctx e s) = resume_candidates s"
  "repair_feedback (emit ctx e s) = repair_feedback s"
  "world (emit ctx e s) = world s"
  by (simp_all add: emit_def)

lemma blocking_imp_error: "blocking_check c \<Longrightarrow> error_check c"
  by (simp add: blocking_check_def error_check_def)

end
