(* ===== verification/Step_Run.thy ===== *)
theory Step_Run
  imports Pipeline_Types
begin

text \<open>
  \<open>PipelineStepBase\<close> of \<open>orchestration/pipeline.py\<close>: the default hooks and \<open>run\<close>, which
  proposes an artifact, checks it, and repairs it within bounded budgets.  \<open>run\<close> is cut
  at its own comments into the definitions below; \<open>base_run\<close> composes them.  A Python
  exception is the left summand of the result, next to the state as it was left at the
  moment of the raise.
\<close>

section \<open>Default hooks\<close>

definition base_convergence_score :: "'a \<Rightarrow> check_result list \<Rightarrow> score" where
  "base_convergence_score artifact cs =
     (let failed = filter (\<lambda>c. \<not> ok c) cs
      in (count_if error_check cs, int (length failed),
          sum_list (map (\<lambda>c. int (length (ck_message c))) failed)))"

definition convergence_score :: "('a, 'w) step_hooks \<Rightarrow> 'a \<Rightarrow> check_result list \<Rightarrow> score" where
  "convergence_score h =
     (case hk_convergence h of None \<Rightarrow> base_convergence_score | Some f \<Rightarrow> f)"

text \<open>\<open>after[:2] < before[:2]\<close> compares pairs lexicographically.\<close>

fun repair_progress_is_material :: "score \<Rightarrow> score \<Rightarrow> bool" where
  "repair_progress_is_material (b0, b1, b2) (a0, a1, a2) =
     (if (a0, a1) < (b0, b1) then True
      else if (a0, a1) \<noteq> (b0, b1) \<or> a2 \<ge> b2 then False
      else b2 - a2 \<ge> max 80 ((b2 + 11) div 12))"

definition custom_repair :: "('a, 'w) step_hooks \<Rightarrow> bool" where
  "custom_repair h = (hk_repair h \<noteq> None)"

definition repair ::
    "('a, 'w) step_hooks \<Rightarrow> 'a \<Rightarrow> check_result list \<Rightarrow> ('a, 'w) proposer" where
  "repair h artifact cs =
     (case hk_repair h of None \<Rightarrow> hk_propose h | Some f \<Rightarrow> f artifact cs)"

definition replan :: "('a, 'w) step_hooks \<Rightarrow> 'a \<Rightarrow> string \<Rightarrow> ('a, 'w) proposer" where
  "replan h artifact fb = (case hk_replan h of None \<Rightarrow> hk_propose h | Some f \<Rightarrow> f artifact fb)"

section \<open>Knowledge and the first proposal\<close>

definition retrieve_knowledge ::
    "('a, 'w) step_hooks \<Rightarrow> ('a, 'w) pipeline_context \<Rightarrow> ('a, 'w) pipeline_state
     \<Rightarrow> string \<times> string list" where
  "retrieve_knowledge h ctx s =
     (case (hk_knowledge_query h s, knowledge_role h) of
        (Some query, Some role) \<Rightarrow>
          if query = [] then ([], [])
          else
            (let hits = kb_retrieve ctx query role
             in (join [CHR 0x0A, CHR 0x0A]
                   (map (\<lambda>(doc_id, txt). ''['' @ doc_id @ '']'' @ [CHR 0x0A] @ strip txt) hits),
                 map fst hits))
      | _ \<Rightarrow> ([], []))"

text \<open>
  The resume candidate is popped before anything that can raise; without one the step
  proposes from scratch, with one it is refreshed and, under feedback, replanned.
\<close>

definition obtain_artifact ::
    "('a, 'w) step_hooks \<Rightarrow> ('a, 'w) pipeline_context \<Rightarrow> string \<Rightarrow> ('a, 'w, 'a \<times> bool) action" where
  "obtain_artifact h ctx kn s =
     (let s1 = s\<lparr>resume_candidates := (resume_candidates s)(hk_step h := None)\<rparr>
      in case resume_candidates s (hk_step h) of
           None \<Rightarrow> call_hook (hk_propose h ctx kn) s1
         | Some (artifact, used_llm) \<Rightarrow>
             (case hk_prepare_resumed h s1 artifact of
                Inl e \<Rightarrow> (Inl e, s1)
              | Inr artifact' \<Rightarrow>
                  if repair_feedback s1 \<noteq> []
                  then call_hook (replan h artifact' (repair_feedback s1) ctx kn) s1
                  else (Inr (artifact', used_llm), s1)))"

section \<open>Failures and repair scope\<close>

definition is_blocked :: "check_result list \<Rightarrow> bool" where
  "is_blocked cs = (\<exists>c \<in> set cs. error_check c)"

definition is_execution_blocked :: "check_result list \<Rightarrow> bool" where
  "is_execution_blocked cs = (\<exists>c \<in> set cs. blocking_check c)"

definition transient_retry :: "('a, 'w) step_hooks \<Rightarrow> check_result list \<Rightarrow> bool" where
  "transient_retry h cs =
     (\<exists>c \<in> set (filter error_check cs).
        fe_recoverability
          (make_failure (step_value (hk_step h)) (ck_name c) (ck_message c) False (ck_origin c)
             (ck_reason_code c) [] []) = RETRYABLE)"

definition strategy_name :: "('a, 'w) step_hooks \<Rightarrow> check_result list \<Rightarrow> string" where
  "strategy_name h cs =
     (let fallback = (if custom_repair h then step_value (hk_step h) @ ''_repair''
                      else if transient_retry h cs then ''bounded_transient_retry''
                      else ''llm_reproposal'')
      in case repair_strategy_id h of None \<Rightarrow> fallback | Some i \<Rightarrow> str_or i fallback)"

definition strategy_available ::
    "('a, 'w) step_hooks \<Rightarrow> ('a, 'w) pipeline_context \<Rightarrow> check_result list \<Rightarrow> bool \<Rightarrow> bool" where
  "strategy_available h ctx cs used_llm =
     (custom_repair h \<or> transient_retry h cs \<or> (used_llm \<and> mode ctx \<noteq> OFFLINE))"

definition failures_for ::
    "('a, 'w) step_hooks \<Rightarrow> bool \<Rightarrow> check_result list \<Rightarrow> failure_envelope list" where
  "failures_for h avail cs =
     map (\<lambda>c. make_failure (step_value (hk_step h)) (ck_name c) (ck_message c) avail (ck_origin c)
                (ck_reason_code c) (ck_affected_refs c) (ck_evidence c))
       (filter error_check cs)"

definition failure_ids_of :: "('a, 'w) step_hooks \<Rightarrow> bool \<Rightarrow> check_result list \<Rightarrow> string list" where
  "failure_ids_of h avail cs = map failure_id (failures_for h avail cs)"

definition proven_harness_failure :: "failure_envelope list \<Rightarrow> bool" where
  "proven_harness_failure fs = (\<exists>f \<in> set fs. fe_origin f \<in> {HARNESS, INFRASTRUCTURE})"

definition harness_recovery_scope ::
    "('a, 'w) pipeline_context \<Rightarrow> failure_envelope list \<Rightarrow> bool" where
  "harness_recovery_scope ctx fs = (\<not> artifact_first ctx \<or> proven_harness_failure fs)"

definition design_recovery_scope ::
    "('a, 'w) step_hooks \<Rightarrow> ('a, 'w) pipeline_context \<Rightarrow> failure_envelope list \<Rightarrow> bool" where
  "design_recovery_scope h ctx fs =
     (artifact_first ctx \<and> \<not> proven_harness_failure fs \<and>
      (repair_release_issues ctx \<or>
       (allow_artifact_first_design_repair h \<and> design_repair_attempts ctx > 0)))"

definition repair_scope ::
    "('a, 'w) step_hooks \<Rightarrow> ('a, 'w) pipeline_context \<Rightarrow> failure_envelope list \<Rightarrow> bool" where
  "repair_scope h ctx fs = (harness_recovery_scope ctx fs \<or> design_recovery_scope h ctx fs)"

text \<open>The attribution the engine asks for is always made with the default counts.\<close>

definition attribution :: "failure_envelope \<Rightarrow> failure_attribution option" where
  "attribution f = (case attribute_failure f 1 1 of Inr a \<Rightarrow> Some a | Inl _ \<Rightarrow> None)"

definition emit_failures ::
    "('a, 'w) step_hooks \<Rightarrow> ('a, 'w) pipeline_context \<Rightarrow> (failure_envelope \<Rightarrow> string)
     \<Rightarrow> failure_envelope list \<Rightarrow> ('a, 'w) pipeline_state \<Rightarrow> ('a, 'w) pipeline_state" where
  "emit_failures h ctx name fs s =
     fold (\<lambda>f s. emit ctx
       ((mk_event (name f) (step_value (hk_step h)) (revision s))
          \<lparr>ev_failure := Some f, ev_attribution := attribution f\<rparr>) s) fs s"

section \<open>Repair budgets\<close>

definition can_repair ::
    "('a, 'w) step_hooks \<Rightarrow> ('a, 'w) pipeline_context \<Rightarrow> ('a, 'w) pipeline_state \<Rightarrow> bool
     \<Rightarrow> failure_envelope list \<Rightarrow> 'a \<Rightarrow> check_result list \<Rightarrow> bool" where
  "can_repair h ctx s avail fs artifact cs =
     (is_blocked cs \<and> repair_scope h ctx fs
      \<and> (ahe_enabled ctx \<or> design_recovery_scope h ctx fs)
      \<and> avail
      \<and> hk_repair_applicable h s artifact cs
      \<and> (if design_recovery_scope h ctx fs then design_repair_attempts ctx
         else repair_attempts ctx) > 0
      \<and> deadline_open ctx s)"

definition remaining_task_budget ::
    "('a, 'w) step_hooks \<Rightarrow> ('a, 'w) pipeline_context \<Rightarrow> ('a, 'w) pipeline_state \<Rightarrow> bool
     \<Rightarrow> string list \<Rightarrow> int" where
  "remaining_task_budget h ctx s design ids =
     (if design then
        (let prior_run = count_if (\<lambda>r. rr_kind r = KDesign) (repair_history s);
             prior_step = count_if (\<lambda>r. rr_kind r = KDesign \<and> rr_step r = step_value (hk_step h))
                            (repair_history s)
         in min (max 0 (max_total_design_repair_attempts ctx - prior_run))
                (max 0 (max_design_repair_attempts_per_step ctx - prior_step)))
      else
        (let harness = filter (\<lambda>r. rr_kind r = KHarness) (repair_history s);
             same = fold max (map (\<lambda>i. count_if (\<lambda>r. i \<in> set (rr_failure_ids r)) harness) ids) 0
         in max 0 (min (max_total_repair_attempts ctx - int (length harness))
                       (max_same_failure_retries ctx - same))))"

definition stagnation_budget ::
    "('a, 'w) pipeline_context \<Rightarrow> bool \<Rightarrow> string \<Rightarrow> failure_envelope list \<Rightarrow> int \<Rightarrow> int" where
  "stagnation_budget ctx design strategy fs remaining =
     (let per_step = (if design then design_repair_attempts ctx else repair_attempts ctx);
          budget = min (max 0 per_step) remaining
      in case strategy_score ctx of
           None \<Rightarrow> budget
         | Some score_of \<Rightarrow>
             if budget = 0 then budget
             else
               (case List.map_filter (\<lambda>f. score_of (fe_signature f) strategy) fs of
                  [] \<Rightarrow> budget
                | x # xs \<Rightarrow>
                    (let best = fold max xs x
                     in if best \<ge> 8 / 10 then min (budget + 1) remaining
                        else if best < 2 / 10 then max 1 (budget - 1)
                        else budget)))"

section \<open>The repair loop\<close>

definition MAX_REPAIR_ARTIFACT_CHARS :: nat where
  "MAX_REPAIR_ARTIFACT_CHARS = 80000"

definition repair_feedback_text ::
    "('a, 'w) pipeline_context \<Rightarrow> 'a \<Rightarrow> check_result list \<Rightarrow> string" where
  "repair_feedback_text ctx artifact cs =
     (let nl = [CHR 0x0A];
          failure_text = join nl (map (\<lambda>c. ''- '' @ ck_name c @ '': '' @ ck_message c)
                                    (filter error_check cs));
          dumped = model_dump_json ctx artifact;
          rejected = (if length dumped > MAX_REPAIR_ARTIFACT_CHARS
                      then ''<omitted: '' @ nat_str (length dumped) @ '' characters exceeds ''
                           @ nat_str MAX_REPAIR_ARTIFACT_CHARS @ ''>''
                      else dumped)
      in ''Rejected proposal JSON:'' @ nl @ rejected @ nl @ ''Failed checks:'' @ nl @ failure_text)"

record ('a, 'w) repair_state =
  best_artifact :: 'a
  best_checks :: "check_result list"
  loop_used_llm :: bool
  repair_records :: "repair_record list"
  baseline_fingerprint :: string
  attempt :: int
  consecutive_stagnant :: int
  rs_state :: "('a, 'w) pipeline_state"

fun status_event :: "repair_status \<Rightarrow> string" where
  "status_event RImproved = ''repair_improved''"
| "status_event RVerified = ''repair_verified''"
| "status_event RRejected = ''repair_rejected''"
| "status_event RError = ''repair_error''"

definition add_record ::
    "('a, 'w) step_hooks \<Rightarrow> ('a, 'w) pipeline_context \<Rightarrow> repair_record \<Rightarrow> ('a, 'w) repair_state
     \<Rightarrow> ('a, 'w) repair_state" where
  "add_record h ctx r L =
     (let s = rs_state L
      in L\<lparr>repair_records := repair_records L @ [r],
           rs_state := emit ctx
             ((mk_event (status_event (rr_status r)) (step_value (hk_step h)) (revision s))
                \<lparr>ev_repair := Some r\<rparr>)
             (s\<lparr>repair_history := repair_history s @ [r]\<rparr>)\<rparr>)"

datatype flow = Again | Stop

text \<open>One iteration: \<open>Inl\<close> is an exception other than \<open>LlmError\<close>, which leaves the loop.\<close>

definition repair_iteration ::
    "('a, 'w) step_hooks \<Rightarrow> ('a, 'w) pipeline_context \<Rightarrow> string \<Rightarrow> repair_kind \<Rightarrow> string \<Rightarrow> bool
     \<Rightarrow> ('a, 'w) repair_state \<Rightarrow> (exn + flow) \<times> ('a, 'w) repair_state" where
  "repair_iteration h ctx kn kind strategy avail L =
     (let best = best_artifact L; cs = best_checks L;
          before = convergence_score h best cs;
          s1 = (rs_state L)\<lparr>repair_feedback := repair_feedback_text ctx best cs\<rparr>;
          (r, s2) = call_hook (repair h best cs ctx kn) s1;
          L1 = L\<lparr>attempt := attempt L + 1, rs_state := s2\<lparr>repair_feedback := []\<rparr>\<rparr>;
          record_of = (\<lambda>status after detail.
            \<lparr>rr_kind = kind, rr_step = step_value (hk_step h), rr_strategy = strategy,
             rr_attempt = attempt L1, rr_failure_ids = failure_ids_of h avail cs,
             rr_status = status, rr_before = before, rr_after = after, rr_detail = detail,
             rr_fingerprint = baseline_fingerprint L\<rparr>)
      in case r of
           Inl e \<Rightarrow>
             if is_llm_error e
             then (Inr Stop, add_record h ctx (record_of RError before (exn_text e)) L1)
             else (Inl e, L1)
         | Inr (cand, cand_llm) \<Rightarrow>
             (case hk_check h (rs_state L1) cand of
                Inl e \<Rightarrow> (Inl e, L1)
              | Inr ccs \<Rightarrow>
                  (let after = convergence_score h cand ccs;
                       improved = repair_progress_is_material before after;
                       verified = (fst after = 0);
                       rec = record_of (if verified then RVerified
                                        else if improved then RImproved else RRejected) after [];
                       L2 = (if improved
                             then L1\<lparr>rs_state := (rs_state L1)\<lparr>revision := revision (rs_state L1) + 1\<rparr>\<rparr>
                             else L1);
                       L3 = add_record h ctx rec L2
                   in if improved then
                        (let L4 = L3\<lparr>best_artifact := cand, best_checks := ccs,
                                     loop_used_llm := cand_llm,
                                     baseline_fingerprint := artifact_fingerprint ctx (Some cand),
                                     consecutive_stagnant := 0\<rparr>
                         in (Inr (if fst after = 0 then Stop else Again), L4))
                      else if custom_repair h \<and> repair_is_deterministic h then (Inr Stop, L3)
                      else (Inr (if fst before = 0 then Stop else Again),
                            L3\<lparr>consecutive_stagnant := consecutive_stagnant L3 + 1\<rparr>))))"

text \<open>
  The \<open>while\<close> loop; the first argument is what is left of \<open>hard_attempt_limit\<close>, which
  bounds the number of attempts.
\<close>

fun repair_loop ::
    "nat \<Rightarrow> ('a, 'w) step_hooks \<Rightarrow> ('a, 'w) pipeline_context \<Rightarrow> string \<Rightarrow> repair_kind \<Rightarrow> string \<Rightarrow> bool
     \<Rightarrow> int \<Rightarrow> ('a, 'w) repair_state \<Rightarrow> (exn + unit) \<times> ('a, 'w) repair_state" where
  "repair_loop 0 h ctx kn kind strategy avail stag L = (Inr (), L)"
| "repair_loop (Suc n) h ctx kn kind strategy avail stag L =
     (if consecutive_stagnant L < stag \<and> deadline_open ctx (rs_state L) then
        (case repair_iteration h ctx kn kind strategy avail L of
           (Inl e, L') \<Rightarrow> (Inl e, L')
         | (Inr Stop, L') \<Rightarrow> (Inr (), L')
         | (Inr Again, L') \<Rightarrow> repair_loop n h ctx kn kind strategy avail stag L')
      else (Inr (), L))"

definition run_repairs ::
    "('a, 'w) step_hooks \<Rightarrow> ('a, 'w) pipeline_context \<Rightarrow> string \<Rightarrow> bool \<Rightarrow> failure_envelope list
     \<Rightarrow> 'a \<Rightarrow> check_result list \<Rightarrow> bool \<Rightarrow> ('a, 'w) pipeline_state
     \<Rightarrow> (exn + unit) \<times> ('a, 'w) repair_state" where
  "run_repairs h ctx kn avail fs artifact cs used_llm s =
     (let design = design_recovery_scope h ctx fs;
          strategy = strategy_name h cs;
          L = \<lparr>best_artifact = artifact, best_checks = cs, loop_used_llm = used_llm,
               repair_records = [],
               baseline_fingerprint = artifact_fingerprint ctx (Some artifact),
               attempt = 0, consecutive_stagnant = 0, rs_state = s\<rparr>
      in if can_repair h ctx s avail fs artifact cs then
           (let remaining = remaining_task_budget h ctx s design (failure_ids_of h avail cs);
                stag = stagnation_budget ctx design strategy (failures_for h avail cs) remaining
            in repair_loop (nat (min 12 remaining)) h ctx kn
                 (if design then KDesign else KHarness) strategy avail stag L)
         else (Inr (), L))"

section \<open>After the repairs\<close>

text \<open>The subjects of the passing checks of a name, as \<open>passing_checks\<close> collects them.\<close>

definition passed_subjects :: "check_result list \<Rightarrow> string \<Rightarrow> string set" where
  "passed_subjects cs name =
     set (concat (map ck_affected_refs (filter (\<lambda>c. ok c \<and> ck_name c = name) cs)))"

definition gap_resolved ::
    "('a, 'w) step_hooks \<Rightarrow> check_result list \<Rightarrow> capability_gap \<Rightarrow> bool" where
  "gap_resolved h cs gap =
     (gap_step gap = step_value (hk_step h) \<and> gap_affected_refs gap \<noteq> []
      \<and> set (gap_affected_refs gap) \<subseteq> passed_subjects cs (gap_check_name gap))"

definition resolved_envelope :: "capability_gap \<Rightarrow> failure_envelope" where
  "resolved_envelope gap =
     \<lparr>failure_id = ''resolved:'' @ gap_signature gap,
      fe_signature = gap_signature gap,
      fe_step = gap_step gap,
      fe_check_name = gap_check_name gap,
      fe_category = gap_category gap,
      fe_recoverability = REC_CAPABILITY_GAP,
      fe_origin = HARNESS,
      fe_reason_code = ''verified_harness_capability_gap_resolved'',
      required_capability = Some (gap_required_capability gap),
      fe_message = [],
      fe_affected_refs = gap_affected_refs gap,
      fe_evidence = []\<rparr>"

definition resolve_gaps ::
    "('a, 'w) step_hooks \<Rightarrow> ('a, 'w) pipeline_context \<Rightarrow> check_result list
     \<Rightarrow> ('a, 'w) pipeline_state \<Rightarrow> ('a, 'w) pipeline_state" where
  "resolve_gaps h ctx cs s =
     (let gaps = capability_gaps s;
          s1 = fold (\<lambda>gap s. emit ctx
                 ((mk_event ''capability_gap_resolved'' (step_value (hk_step h)) (revision s))
                    \<lparr>ev_gap := Some gap, ev_failure := Some (resolved_envelope gap)\<rparr>) s)
                 (filter (gap_resolved h cs) gaps) s
      in s1\<lparr>capability_gaps := filter (\<lambda>g. \<not> gap_resolved h cs g) gaps\<rparr>)"

fun action_event :: "failure_action \<Rightarrow> string" where
  "action_event ACT_RETRY = ''retry_exhausted''"
| "action_event ACT_REVISION = ''revision_required''"
| "action_event ACT_HITL = ''human_input_required''"
| "action_event OBSERVE_HARNESS = ''harness_defect_observed''"
| "action_event ACT_CAPABILITY_GAP = ''capability_gap''"
| "action_event ACT_STOP = ''hard_constraint_conflict''"

definition emit_outcome ::
    "('a, 'w) step_hooks \<Rightarrow> ('a, 'w) pipeline_context \<Rightarrow> bool \<Rightarrow> 'a \<Rightarrow> check_result list
     \<Rightarrow> failure_envelope list \<Rightarrow> ('a, 'w) pipeline_state \<Rightarrow> ('a, 'w) pipeline_state" where
  "emit_outcome h ctx blocked artifact cs fs s =
     (let scope = repair_scope h ctx fs;
          upstream = (blocked \<and> scope \<and> ahe_enabled ctx
                      \<and> hk_rollback_target h s artifact cs \<noteq> None)
      in if blocked \<and> scope \<and> \<not> upstream
         then emit_failures h ctx (\<lambda>f. action_event (attributed_action f)) fs s
         else if blocked \<and> design_recovery_scope h ctx fs
         then emit_failures h ctx
                (\<lambda>f. if attributed_action f = ACT_HITL then ''human_input_required''
                     else ''revision_required'') fs s
         else s)"

definition finish_step ::
    "('a, 'w) step_hooks \<Rightarrow> ('a, 'w) pipeline_context \<Rightarrow> string list \<Rightarrow> bool \<Rightarrow> bool
     \<Rightarrow> ('a, 'w) repair_state \<Rightarrow> step_result \<times> ('a, 'w) pipeline_state" where
  "finish_step h ctx kn_ids avail repaired L =
     (let artifact = best_artifact L; cs = best_checks L;
          blocked = (if repaired then fst (convergence_score h artifact cs) > 0 else is_blocked cs);
          fs = failures_for h avail cs;
          s1 = (if blocked then rs_state L else resolve_gaps h ctx cs (rs_state L));
          s2 = emit_outcome h ctx blocked artifact cs fs s1;
          r = \<lparr>sr_step = hk_step h, sr_used_llm = loop_used_llm L, knowledge_used = kn_ids,
               sr_checks = cs, sr_failures = fs, sr_repairs = repair_records L,
               sr_blocked = blocked, sr_execution_blocked = is_execution_blocked cs,
               sr_summary = hk_summarize h artifact\<rparr>
      in (r, s2\<lparr>artifacts := (artifacts s2)(hk_step h \<mapsto> artifact),
                results := results s2 @ [r]\<rparr>))"

section \<open>The whole step\<close>

definition base_run ::
    "('a, 'w) step_hooks \<Rightarrow> ('a, 'w) pipeline_context \<Rightarrow> ('a, 'w, step_result) action" where
  "base_run h ctx s =
     (let (kn, kn_ids) = retrieve_knowledge h ctx s
      in case obtain_artifact h ctx kn s of
           (Inl e, s1) \<Rightarrow> (Inl e, s1)
         | (Inr (artifact, used_llm), s1) \<Rightarrow>
             (case hk_check h s1 artifact of
                Inl e \<Rightarrow> (Inl e, s1)
              | Inr cs \<Rightarrow>
                  (let avail = strategy_available h ctx cs used_llm;
                       fs = failures_for h avail cs;
                       s2 = (if repair_scope h ctx fs
                             then emit_failures h ctx (\<lambda>_. ''failure_detected'') fs s1 else s1)
                   in case run_repairs h ctx kn avail fs artifact cs used_llm s2 of
                        (Inl e, L) \<Rightarrow> (Inl e, rs_state L)
                      | (Inr _, L) \<Rightarrow>
                          (let (r, s3) =
                             finish_step h ctx kn_ids avail
                               (can_repair h ctx s2 avail fs artifact cs) L
                           in (Inr r, s3)))))"

end
