(* ===== verification/Step_Facts.thy ===== *)
theory Step_Facts
  imports Step_Run
begin

text \<open>
  What \<open>PipelineStepBase.run\<close> guarantees: which parts of the state it leaves alone, that
  repairs stay within their budgets and never make the retained artifact worse, and that
  the verdict of a step agrees with its checks.
\<close>

section \<open>Overridden convergence scores\<close>

text \<open>
  \<open>RouteSignalsStep\<close> and \<open>ManufactureStep\<close> replace the second component of the score by
  the unconnected items and the DRC violations of their artifact; the argument is
  \<open>None\<close> for an artifact of another class.
\<close>

definition counted_convergence_score ::
    "('a \<Rightarrow> int option) \<Rightarrow> 'a \<Rightarrow> check_result list \<Rightarrow> score" where
  "counted_convergence_score measure_of artifact cs =
     (let failed = filter (\<lambda>c. \<not> ok c) cs
      in (count_if error_check cs,
          (case measure_of artifact of Some n \<Rightarrow> n | None \<Rightarrow> int (length failed)),
          sum_list (map (\<lambda>c. int (length (ck_message c))) failed)))"

definition route_signals_convergence_score ::
    "('a \<Rightarrow> int option) \<Rightarrow> 'a \<Rightarrow> check_result list \<Rightarrow> score" where
  "route_signals_convergence_score unconnected =
     counted_convergence_score (\<lambda>a. map_option (max 0) (unconnected a))"

definition manufacture_convergence_score ::
    "('a \<Rightarrow> string list option) \<Rightarrow> 'a \<Rightarrow> check_result list \<Rightarrow> score" where
  "manufacture_convergence_score drc_violations =
     counted_convergence_score (\<lambda>a. map_option (\<lambda>v. int (length v)) (drc_violations a))"

text \<open>
  The contract the engine relies on: the first component of a convergence score is the
  number of failing error checks.
\<close>

locale convergence_contract =
  fixes cscore :: "'a \<Rightarrow> check_result list \<Rightarrow> score"
  assumes errors_first: "fst (cscore a cs) = count_if error_check cs"
begin

lemma positive_iff_blocked: "fst (cscore a cs) > 0 \<longleftrightarrow> is_blocked cs"
proof -
  have "count_if error_check cs > 0 \<longleftrightarrow> count_if error_check cs \<noteq> 0"
    using count_if_nonneg [of error_check cs] by linarith
  then show ?thesis by (auto simp: errors_first count_if_zero_iff is_blocked_def)
qed

lemma zero_iff_unblocked: "fst (cscore a cs) = 0 \<longleftrightarrow> \<not> is_blocked cs"
  by (auto simp: errors_first count_if_zero_iff is_blocked_def)

end

interpretation base_score: convergence_contract base_convergence_score
  by unfold_locales (simp add: base_convergence_score_def Let_def)

interpretation route_score: convergence_contract "route_signals_convergence_score unconnected"
  for unconnected
  by unfold_locales
    (simp add: route_signals_convergence_score_def counted_convergence_score_def Let_def)

interpretation manufacture_score: convergence_contract "manufacture_convergence_score violations"
  for violations
  by unfold_locales
    (simp add: manufacture_convergence_score_def counted_convergence_score_def Let_def)

section \<open>Material progress\<close>

lemma material_imp_less:
  "repair_progress_is_material b a \<Longrightarrow> a < b"
  by (cases b; cases a) (auto split: if_splits)

lemma material_pair_le:
  "repair_progress_is_material b a \<Longrightarrow> (fst a, fst (snd a)) \<le> (fst b, fst (snd b))"
  by (cases b; cases a) (auto split: if_splits)

text \<open>
  While the two counters stay equal, each retained repair removes at least eighty
  characters of diagnostics, so such repairs cannot go on for ever.
\<close>

lemma material_same_counts:
  "repair_progress_is_material (b0, b1, b2) (b0, b1, a2) \<Longrightarrow> a2 + 80 \<le> b2"
  by (auto split: if_splits)

section \<open>Frame\<close>

definition same_ledger :: "('a, 'w) pipeline_state \<Rightarrow> ('a, 'w) pipeline_state \<Rightarrow> bool" where
  "same_ledger s s' =
     (results s' = results s \<and> replan_history s' = replan_history s
      \<and> recovery_history s' = recovery_history s \<and> resume_candidates s' = resume_candidates s)"

lemma same_ledger_refl [simp]: "same_ledger s s"
  by (simp add: same_ledger_def)

lemma same_ledger_trans: "same_ledger s t \<Longrightarrow> same_ledger t u \<Longrightarrow> same_ledger s u"
  by (simp add: same_ledger_def)

lemma same_ledger_emit [simp]: "same_ledger s (emit ctx e t) \<longleftrightarrow> same_ledger s t"
  by (simp add: same_ledger_def)

lemma same_ledger_updates [simp]:
  "same_ledger s (t\<lparr>repair_feedback := x\<rparr>) \<longleftrightarrow> same_ledger s t"
  "same_ledger s (t\<lparr>revision := i\<rparr>) \<longleftrightarrow> same_ledger s t"
  "same_ledger s (t\<lparr>repair_history := rh\<rparr>) \<longleftrightarrow> same_ledger s t"
  "same_ledger s (t\<lparr>capability_gaps := g\<rparr>) \<longleftrightarrow> same_ledger s t"
  by (simp_all add: same_ledger_def)

lemma call_hook_frame:
  "call_hook f s = (r, s') \<Longrightarrow>
     same_ledger s s' \<and> repair_history s' = repair_history s \<and> revision s' = revision s"
  by (auto simp: call_hook_def same_ledger_def split: prod.splits)

lemma emit_failures_frame:
  "same_ledger s (emit_failures h ctx nm fs s)
   \<and> repair_history (emit_failures h ctx nm fs s) = repair_history s
   \<and> revision (emit_failures h ctx nm fs s) = revision s
   \<and> world (emit_failures h ctx nm fs s) = world s
   \<and> artifacts (emit_failures h ctx nm fs s) = artifacts s"
proof -
  have "same_ledger s (fold g fs t) \<and> repair_history (fold g fs t) = repair_history t
      \<and> revision (fold g fs t) = revision t \<and> world (fold g fs t) = world t
      \<and> artifacts (fold g fs t) = artifacts t"
    if "same_ledger s t"
      and "g = (\<lambda>f s. emit ctx
       ((mk_event (nm f) (step_value (hk_step h)) (revision s))
          \<lparr>ev_failure := Some f, ev_attribution := attribution f\<rparr>) s)" for t g
    using that by (induction fs arbitrary: t) (auto simp: same_ledger_def)
  then show ?thesis by (simp add: emit_failures_def)
qed

lemma resolve_gaps_frame:
  "same_ledger s (resolve_gaps h ctx cs s)
   \<and> repair_history (resolve_gaps h ctx cs s) = repair_history s
   \<and> revision (resolve_gaps h ctx cs s) = revision s
   \<and> artifacts (resolve_gaps h ctx cs s) = artifacts s"
proof -
  have "same_ledger s (fold g gs t) \<and> repair_history (fold g gs t) = repair_history t
      \<and> revision (fold g gs t) = revision t \<and> artifacts (fold g gs t) = artifacts t"
    if "same_ledger s t"
      and "g = (\<lambda>gap s. emit ctx
                 ((mk_event ''capability_gap_resolved'' (step_value (hk_step h)) (revision s))
                    \<lparr>ev_gap := Some gap, ev_failure := Some (resolved_envelope gap)\<rparr>) s)" for t g gs
    using that by (induction gs arbitrary: t) (auto simp: same_ledger_def)
  then show ?thesis by (simp add: resolve_gaps_def Let_def)
qed

lemma emit_outcome_frame:
  "same_ledger s (emit_outcome h ctx b a cs fs s)
   \<and> repair_history (emit_outcome h ctx b a cs fs s) = repair_history s
   \<and> revision (emit_outcome h ctx b a cs fs s) = revision s
   \<and> artifacts (emit_outcome h ctx b a cs fs s) = artifacts s"
  using emit_failures_frame [of s h ctx] by (auto simp: emit_outcome_def Let_def)

section \<open>The repair loop\<close>

text \<open>What one iteration changes.\<close>

lemma repair_iteration_step:
  assumes "repair_iteration h ctx kn kind strategy avail L = (r, L')"
  shows "same_ledger (rs_state L) (rs_state L')"
    and "\<exists>new. length new \<le> 1 \<and> (\<forall>x \<in> set new. rr_kind x = kind \<and> rr_step x = step_value (hk_step h))
          \<and> repair_history (rs_state L') = repair_history (rs_state L) @ new
          \<and> repair_records L' = repair_records L @ new"
    and "convergence_score h (best_artifact L') (best_checks L')
           \<le> convergence_score h (best_artifact L) (best_checks L)"
proof -
  obtain q s2 where hook: "call_hook (repair h (best_artifact L) (best_checks L) ctx kn)
     ((rs_state L)\<lparr>repair_feedback := repair_feedback_text ctx (best_artifact L) (best_checks L)\<rparr>)
     = (q, s2)" by (cases rule: prod.exhaust)
  note frame = call_hook_frame [OF hook]
  show "same_ledger (rs_state L) (rs_state L')"
    using assms hook frame
    by (auto simp: repair_iteration_def Let_def add_record_def same_ledger_def
        split: prod.splits sum.splits if_splits)
  show "\<exists>new. length new \<le> 1 \<and> (\<forall>x \<in> set new. rr_kind x = kind \<and> rr_step x = step_value (hk_step h))
          \<and> repair_history (rs_state L') = repair_history (rs_state L) @ new
          \<and> repair_records L' = repair_records L @ new"
    using assms hook frame
    by (auto simp: repair_iteration_def Let_def add_record_def split: prod.splits sum.splits if_splits)
  show "convergence_score h (best_artifact L') (best_checks L')
           \<le> convergence_score h (best_artifact L) (best_checks L)"
    using assms hook
    by (auto simp: repair_iteration_def Let_def add_record_def dest: material_imp_less
        split: prod.splits sum.splits if_splits)
qed

text \<open>What the loop adds to the ledgers, and that the retained score never grows.\<close>

definition loop_result ::
    "('a, 'w) step_hooks \<Rightarrow> repair_kind \<Rightarrow> nat \<Rightarrow> ('a, 'w) repair_state \<Rightarrow> ('a, 'w) repair_state \<Rightarrow> bool" where
  "loop_result h kind n L L' =
     (same_ledger (rs_state L) (rs_state L')
      \<and> (\<exists>new. length new \<le> n
           \<and> (\<forall>x \<in> set new. rr_kind x = kind \<and> rr_step x = step_value (hk_step h))
           \<and> repair_history (rs_state L') = repair_history (rs_state L) @ new
           \<and> repair_records L' = repair_records L @ new)
      \<and> convergence_score h (best_artifact L') (best_checks L')
           \<le> convergence_score h (best_artifact L) (best_checks L))"

lemma loop_result_refl [simp]: "loop_result h kind n L L"
  by (auto simp: loop_result_def)

lemma loop_result_mono: "loop_result h kind m L L' \<Longrightarrow> m \<le> n \<Longrightarrow> loop_result h kind n L L'"
  unfolding loop_result_def by (meson order_trans)

lemma loop_result_trans:
  assumes "loop_result h kind m L L'" and "loop_result h kind n L' L''"
  shows "loop_result h kind (m + n) L L''"
proof -
  from assms obtain new new' where
    new: "length new \<le> m" "\<forall>x \<in> set new. rr_kind x = kind \<and> rr_step x = step_value (hk_step h)"
      "repair_history (rs_state L') = repair_history (rs_state L) @ new"
      "repair_records L' = repair_records L @ new" and
    new': "length new' \<le> n" "\<forall>x \<in> set new'. rr_kind x = kind \<and> rr_step x = step_value (hk_step h)"
      "repair_history (rs_state L'') = repair_history (rs_state L') @ new'"
      "repair_records L'' = repair_records L' @ new'"
    by (auto simp: loop_result_def)
  have "\<exists>w. length w \<le> m + n
      \<and> (\<forall>x \<in> set w. rr_kind x = kind \<and> rr_step x = step_value (hk_step h))
      \<and> repair_history (rs_state L'') = repair_history (rs_state L) @ w
      \<and> repair_records L'' = repair_records L @ w"
    using new new' by (intro exI [of _ "new @ new'"]) auto
  with assms show ?thesis
    unfolding loop_result_def by (meson order_trans same_ledger_trans)
qed

lemma repair_iteration_result:
  "repair_iteration h ctx kn kind strategy avail L = (r, L') \<Longrightarrow> loop_result h kind 1 L L'"
  unfolding loop_result_def by (intro conjI; rule repair_iteration_step)

lemma repair_loop_result:
  "repair_loop n h ctx kn kind strategy avail stag L = (r, L') \<Longrightarrow> loop_result h kind n L L'"
proof (induction n arbitrary: L)
  case (Suc n)
  show ?case
  proof (cases "consecutive_stagnant L < stag \<and> deadline_open ctx (rs_state L)")
    case True
    obtain q M where it: "repair_iteration h ctx kn kind strategy avail L = (q, M)"
      by (cases rule: prod.exhaust)
    note one = repair_iteration_result [OF it]
    show ?thesis
    proof (cases "q = Inr Again")
      case True
      with Suc.prems it \<open>consecutive_stagnant L < stag \<and> _\<close>
      have "repair_loop n h ctx kn kind strategy avail stag M = (r, L')" by simp
      from loop_result_trans [OF one Suc.IH [OF this]] show ?thesis by simp
    next
      case False
      with Suc.prems it True have "L' = M"
        by (auto split: sum.splits flow.splits)
      with one show ?thesis by (auto intro: loop_result_mono)
    qed
  next
    case False
    with Suc.prems show ?thesis by auto
  qed
qed simp

lemma run_repairs_result:
  assumes "run_repairs h ctx kn avail fs a cs llm s = (r, L)"
  defines "design \<equiv> design_recovery_scope h ctx fs"
  defines "budget \<equiv> remaining_task_budget h ctx s design (failure_ids_of h avail cs)"
  shows "loop_result h (if design then KDesign else KHarness) (nat (min 12 budget))
     \<lparr>best_artifact = a, best_checks = cs, loop_used_llm = llm, repair_records = [],
      baseline_fingerprint = artifact_fingerprint ctx (Some a), attempt = 0,
      consecutive_stagnant = 0, rs_state = s\<rparr> L"
  using assms by (auto simp: run_repairs_def Let_def intro: repair_loop_result split: if_splits)

section \<open>The budgets\<close>

definition design_count :: "('a, 'w) pipeline_state \<Rightarrow> int" where
  "design_count s = count_if (\<lambda>r. rr_kind r = KDesign) (repair_history s)"

definition harness_count :: "('a, 'w) pipeline_state \<Rightarrow> int" where
  "harness_count s = count_if (\<lambda>r. rr_kind r = KHarness) (repair_history s)"

lemma count_if_append: "count_if P (xs @ ys) = count_if P xs + count_if P ys"
  by (simp add: count_if_def)

lemma count_if_le_length: "count_if P xs \<le> int (length xs)"
  by (simp add: count_if_def)

lemma count_if_none: "\<forall>x \<in> set xs. \<not> P x \<Longrightarrow> count_if P xs = 0"
  by (simp add: count_if_zero_iff)

lemma run_repairs_budget:
  assumes run: "run_repairs h ctx kn avail fs a cs llm s = (r, L)"
  shows "design_count (rs_state L) \<le> max (design_count s) (max_total_design_repair_attempts ctx)"
    and "harness_count (rs_state L) \<le> max (harness_count s) (max_total_repair_attempts ctx)"
    and "length (repair_records L) \<le> 12"
proof -
  let ?design = "design_recovery_scope h ctx fs"
  let ?budget = "remaining_task_budget h ctx s ?design (failure_ids_of h avail cs)"
  from run_repairs_result [OF run] obtain new where
    new: "length new \<le> nat (min 12 ?budget)"
      "\<forall>x \<in> set new. rr_kind x = (if ?design then KDesign else KHarness)"
      "repair_history (rs_state L) = repair_history s @ new" "repair_records L = new"
    by (auto simp: loop_result_def)
  show "length (repair_records L) \<le> 12" using new by auto
  have len: "int (length new) \<le> max 0 ?budget" using new(1) by linarith
  show "design_count (rs_state L) \<le> max (design_count s) (max_total_design_repair_attempts ctx)"
  proof (cases ?design)
    case True
    have "?budget \<le> max 0 (max_total_design_repair_attempts ctx - design_count s)"
      using True by (simp add: remaining_task_budget_def Let_def design_count_def)
    with len count_if_le_length [of "\<lambda>r. rr_kind r = KDesign" new] show ?thesis
      by (simp add: design_count_def new(3) count_if_append)
  next
    case False
    with new show ?thesis by (simp add: design_count_def count_if_append count_if_none)
  qed
  show "harness_count (rs_state L) \<le> max (harness_count s) (max_total_repair_attempts ctx)"
  proof (cases ?design)
    case False
    have "?budget \<le> max 0 (max_total_repair_attempts ctx - harness_count s)"
      using False by (simp add: remaining_task_budget_def Let_def harness_count_def count_if_def)
    with len count_if_le_length [of "\<lambda>r. rr_kind r = KHarness" new] show ?thesis
      by (simp add: harness_count_def new(3) count_if_append)
  next
    case True
    with new show ?thesis by (simp add: harness_count_def count_if_append count_if_none)
  qed
qed

section \<open>The whole step\<close>

lemma obtain_artifact_frame:
  assumes "obtain_artifact h ctx kn s = (r, s')"
  shows "results s' = results s \<and> replan_history s' = replan_history s
    \<and> recovery_history s' = recovery_history s
    \<and> resume_candidates s' = (resume_candidates s)(hk_step h := None)
    \<and> repair_history s' = repair_history s"
  using assms
  by (auto simp: obtain_artifact_def Let_def same_ledger_def dest!: call_hook_frame
      split: option.splits sum.splits if_splits)

lemma finish_step_frame:
  assumes "finish_step h ctx ids avail rep L = (r, s')"
  shows "results s' = results (rs_state L) @ [r] \<and> replan_history s' = replan_history (rs_state L)
    \<and> recovery_history s' = recovery_history (rs_state L)
    \<and> resume_candidates s' = resume_candidates (rs_state L)
    \<and> repair_history s' = repair_history (rs_state L)
    \<and> artifacts s' (hk_step h) = Some (best_artifact L)
    \<and> sr_step r = hk_step h \<and> sr_checks r = best_checks L
    \<and> sr_repairs r = repair_records L
    \<and> sr_failures r = failures_for h avail (best_checks L)
    \<and> sr_execution_blocked r = is_execution_blocked (best_checks L)
    \<and> sr_blocked r = (if rep then fst (convergence_score h (best_artifact L) (best_checks L)) > 0
                       else is_blocked (best_checks L))"
proof -
  let ?cs = "best_checks L"
  let ?b = "if rep then fst (convergence_score h (best_artifact L) ?cs) > 0 else is_blocked ?cs"
  let ?s1 = "if ?b then rs_state L else resolve_gaps h ctx ?cs (rs_state L)"
  have 1: "same_ledger (rs_state L) ?s1 \<and> repair_history ?s1 = repair_history (rs_state L)"
    using resolve_gaps_frame [of "rs_state L" h ctx ?cs] by auto
  have 2: "same_ledger ?s1 (emit_outcome h ctx ?b (best_artifact L) ?cs (failures_for h avail ?cs) ?s1)
      \<and> repair_history (emit_outcome h ctx ?b (best_artifact L) ?cs (failures_for h avail ?cs) ?s1)
        = repair_history ?s1"
    using emit_outcome_frame [of ?s1 h ctx ?b "best_artifact L" ?cs "failures_for h avail ?cs"]
    by blast
  show ?thesis
    using assms 1 2 unfolding finish_step_def Let_def same_ledger_def by auto
qed

text \<open>
  A run either stops before the checks have been evaluated, or goes through the repair
  loop and then finishes, unless a repair raised.
\<close>

lemma base_run_cases:
  assumes run: "base_run h ctx s = (q, s')"
  obtains (early) e kn o1 where "q = Inl e" "obtain_artifact h ctx kn s = (o1, s')"
  | (late) kn ids a llm cs avail fs s1 s2 rr L where
      "obtain_artifact h ctx kn s = (Inr (a, llm), s1)" "hk_check h s1 a = Inr cs"
      "avail = strategy_available h ctx cs llm" "fs = failures_for h avail cs"
      "same_ledger s1 s2" "repair_history s2 = repair_history s1" "world s2 = world s1"
      "run_repairs h ctx kn avail fs a cs llm s2 = (rr, L)"
      "case rr of Inl e \<Rightarrow> q = Inl e \<and> s' = rs_state L
       | Inr _ \<Rightarrow> \<exists>r. q = Inr r \<and>
           finish_step h ctx ids avail (can_repair h ctx s2 avail fs a cs) L = (r, s')"
proof -
  obtain kn ids where kn: "retrieve_knowledge h ctx s = (kn, ids)" by (cases rule: prod.exhaust)
  obtain o1 s1 where oa: "obtain_artifact h ctx kn s = (o1, s1)" by (cases rule: prod.exhaust)
  show thesis
  proof (cases "\<exists>a llm cs. o1 = Inr (a, llm) \<and> hk_check h s1 a = Inr cs")
    case False
    then have "(\<exists>e. q = Inl e) \<and> s' = s1"
      using run kn oa by (auto simp: base_run_def split: sum.splits prod.splits)
    with oa early show thesis by blast
  next
    case True
    then obtain a llm cs where a: "o1 = Inr (a, llm)" and cs: "hk_check h s1 a = Inr cs" by blast
    define avail where "avail = strategy_available h ctx cs llm"
    define fs where "fs = failures_for h avail cs"
    define s2 where "s2 = (if repair_scope h ctx fs
      then emit_failures h ctx (\<lambda>_. ''failure_detected'') fs s1 else s1)"
    have s2: "same_ledger s1 s2" "repair_history s2 = repair_history s1" "world s2 = world s1"
      using emit_failures_frame [of s1 h ctx] by (auto simp: s2_def)
    obtain rr L where rep: "run_repairs h ctx kn avail fs a cs llm s2 = (rr, L)"
      by (cases rule: prod.exhaust)
    have "base_run h ctx s =
      (case run_repairs h ctx kn avail fs a cs llm s2 of
         (Inl e, L) \<Rightarrow> (Inl e, rs_state L)
       | (Inr _, L) \<Rightarrow>
           (let (r, s3) = finish_step h ctx ids avail (can_repair h ctx s2 avail fs a cs) L
            in (Inr r, s3)))"
      unfolding base_run_def kn prod.case Let_def avail_def fs_def s2_def
      by (simp add: oa a cs)
    then have "case rr of Inl e \<Rightarrow> q = Inl e \<and> s' = rs_state L
       | Inr _ \<Rightarrow> \<exists>r. q = Inr r \<and>
           finish_step h ctx ids avail (can_repair h ctx s2 avail fs a cs) L = (r, s')"
      using run rep by (auto split: sum.splits prod.splits)
    with late oa a cs avail_def fs_def s2 rep show thesis by blast
  qed
qed

text \<open>Everything a successful or raising run does to the ledgers.\<close>

lemma base_run_frame:
  assumes "base_run h ctx s = (q, s')"
  shows "replan_history s' = replan_history s \<and> recovery_history s' = recovery_history s
    \<and> resume_candidates s' = (resume_candidates s)(hk_step h := None)
    \<and> (case q of Inl _ \<Rightarrow> results s' = results s
        | Inr r \<Rightarrow> results s' = results s @ [r] \<and> sr_step r = hk_step h
                  \<and> artifacts s' (hk_step h) \<noteq> None)
    \<and> design_count s' \<le> max (design_count s) (max_total_design_repair_attempts ctx)
    \<and> harness_count s' \<le> max (harness_count s) (max_total_repair_attempts ctx)"
  using assms
proof (cases rule: base_run_cases)
  case (early e kn o1)
  with obtain_artifact_frame [OF early(2)] show ?thesis
    by (simp add: design_count_def harness_count_def)
next
  case (late kn ids a llm cs avail fs s1 s2 rr L)
  note f1 = obtain_artifact_frame [OF late(1)]
  note f3 = run_repairs_result [OF late(8), unfolded loop_result_def]
  note f4 = run_repairs_budget [OF late(8)]
  have cnt: "design_count s2 = design_count s" "harness_count s2 = harness_count s"
    using f1 late(6) by (simp_all add: design_count_def harness_count_def)
  show ?thesis
  proof (cases rr)
    case (Inl e)
    with late f1 f3 f4 cnt show ?thesis by (auto simp: same_ledger_def)
  next
    case (Inr u)
    with late(9) obtain r where q: "q = Inr r" and
      fin: "finish_step h ctx ids avail (can_repair h ctx s2 avail fs a cs) L = (r, s')" by auto
    with late f1 f3 f4 cnt finish_step_frame [OF fin] show ?thesis
      by (auto simp: same_ledger_def design_count_def harness_count_def)
  qed
qed

text \<open>The verdict of a step agrees with the checks it reports.\<close>

lemma base_run_verdict:
  assumes run: "base_run h ctx s = (Inr r, s')"
    and contract: "convergence_contract (convergence_score h)"
  shows "sr_blocked r \<longleftrightarrow> is_blocked (sr_checks r)"
    and "sr_execution_blocked r \<longleftrightarrow> is_execution_blocked (sr_checks r)"
    and "map fe_check_name (sr_failures r) = map ck_name (error_checks r)"
    and "length (sr_repairs r) \<le> 12"
proof -
  from run have "sr_blocked r = is_blocked (sr_checks r)
      \<and> sr_execution_blocked r = is_execution_blocked (sr_checks r)
      \<and> map fe_check_name (sr_failures r) = map ck_name (error_checks r)
      \<and> length (sr_repairs r) \<le> 12"
  proof (cases rule: base_run_cases)
    case (late kn ids a llm cs avail fs s1 s2 rr L)
    then have fin: "finish_step h ctx ids avail (can_repair h ctx s2 avail fs a cs) L = (r, s')"
      by (auto split: sum.splits)
    from finish_step_frame [OF fin] run_repairs_budget(3) [OF late(8)]
      convergence_contract.positive_iff_blocked [OF contract]
    show ?thesis by (auto simp: failures_for_def error_checks_def)
  qed auto
  then show "sr_blocked r \<longleftrightarrow> is_blocked (sr_checks r)"
    "sr_execution_blocked r \<longleftrightarrow> is_execution_blocked (sr_checks r)"
    "map fe_check_name (sr_failures r) = map ck_name (error_checks r)"
    "length (sr_repairs r) \<le> 12" by blast+
qed

lemma execution_blocked_imp_blocked: "is_execution_blocked cs \<Longrightarrow> is_blocked cs"
  by (auto simp: is_execution_blocked_def is_blocked_def dest: blocking_imp_error)

end
