(* ===== verification/Json.thy ===== *)
theory Json
  imports Prelude
begin

text \<open>
  \<open>json.loads\<close> of the standard library, as a recogniser: does the call return, or
  does it raise \<open>ValueError\<close>?  The recogniser reads one character at a time and
  keeps the stack of open containers, so that running it over a concatenation is
  running it twice.  Besides RFC 8259 it accepts the constants \<open>NaN\<close>, \<open>Infinity\<close>
  and \<open>-Infinity\<close>, and it rejects raw control characters inside strings, as the
  default Python decoder does.
\<close>

datatype container = Obj | Arr

text \<open>The position inside a number literal.\<close>

datatype num_phase = NMinus | NZero | NInt | NDot | NFrac | NExp0 | NExpSign | NExp

datatype jmode =
    JValue                     \<comment> \<open>a value must follow\<close>
  | JValueOrEnd                \<comment> \<open>just after an opening bracket\<close>
  | JKey                       \<comment> \<open>a key must follow\<close>
  | JKeyOrEnd                  \<comment> \<open>just after an opening brace\<close>
  | JColon                     \<comment> \<open>between key and value\<close>
  | JAfter                     \<comment> \<open>just after a complete value\<close>
  | JStr bool                  \<comment> \<open>inside a string; is it a key?\<close>
  | JEsc bool                  \<comment> \<open>after a backslash\<close>
  | JHex bool nat              \<comment> \<open>hexadecimal digits left of a unicode escape\<close>
  | JLit string                \<comment> \<open>rest of a literal name\<close>
  | JNum num_phase

type_synonym jstate = "jmode \<times> container list"

definition json_ws :: "char \<Rightarrow> bool" where
  "json_ws c = (c \<in> set [CHR '' '', CHR 0x09, CHR 0x0A, CHR 0x0D])"

definition is_hex :: "char \<Rightarrow> bool" where
  "is_hex c = (is_digit c \<or> chr_between 97 102 c \<or> chr_between 65 70 c)"

definition dquote :: char where
  "dquote = CHR 0x22"

definition backslash :: char where
  "backslash = CHR 0x5C"

text \<open>First character of a value.\<close>

definition start_value :: "char \<Rightarrow> container list \<Rightarrow> jstate option" where
  "start_value c st =
     (if c = dquote then Some (JStr False, st)
      else if c = CHR ''{'' then Some (JKeyOrEnd, Obj # st)
      else if c = CHR ''['' then Some (JValueOrEnd, Arr # st)
      else if c = CHR ''-'' then Some (JNum NMinus, st)
      else if c = CHR ''0'' then Some (JNum NZero, st)
      else if is_digit c then Some (JNum NInt, st)
      else if c = CHR ''t'' then Some (JLit ''rue'', st)
      else if c = CHR ''f'' then Some (JLit ''alse'', st)
      else if c = CHR ''n'' then Some (JLit ''ull'', st)
      else if c = CHR ''N'' then Some (JLit ''aN'', st)
      else if c = CHR ''I'' then Some (JLit ''nfinity'', st)
      else None)"

text \<open>A character after a complete value.\<close>

definition after_value :: "char \<Rightarrow> container list \<Rightarrow> jstate option" where
  "after_value c st =
     (if json_ws c then Some (JAfter, st)
      else case st of
        [] \<Rightarrow> None
      | Obj # rest \<Rightarrow>
          (if c = CHR '','' then Some (JKey, st)
           else if c = CHR ''}'' then Some (JAfter, rest) else None)
      | Arr # rest \<Rightarrow>
          (if c = CHR '','' then Some (JValue, st)
           else if c = CHR '']'' then Some (JAfter, rest) else None))"

text \<open>May a number stop in this phase?\<close>

fun num_complete :: "num_phase \<Rightarrow> bool" where
  "num_complete NZero = True"
| "num_complete NInt = True"
| "num_complete NFrac = True"
| "num_complete NExp = True"
| "num_complete _ = False"

fun num_next :: "num_phase \<Rightarrow> char \<Rightarrow> num_phase option" where
  "num_next NMinus c =
     (if c = CHR ''0'' then Some NZero else if is_digit c then Some NInt else None)"
| "num_next NZero c =
     (if c = CHR ''.'' then Some NDot
      else if c = CHR ''e'' \<or> c = CHR ''E'' then Some NExp0 else None)"
| "num_next NInt c =
     (if is_digit c then Some NInt else if c = CHR ''.'' then Some NDot
      else if c = CHR ''e'' \<or> c = CHR ''E'' then Some NExp0 else None)"
| "num_next NDot c = (if is_digit c then Some NFrac else None)"
| "num_next NFrac c =
     (if is_digit c then Some NFrac
      else if c = CHR ''e'' \<or> c = CHR ''E'' then Some NExp0 else None)"
| "num_next NExp0 c =
     (if is_digit c then Some NExp
      else if c = CHR ''+'' \<or> c = CHR ''-'' then Some NExpSign else None)"
| "num_next NExpSign c = (if is_digit c then Some NExp else None)"
| "num_next NExp c = (if is_digit c then Some NExp else None)"

fun json_step :: "jstate \<Rightarrow> char \<Rightarrow> jstate option" where
  "json_step (JValue, st) c = (if json_ws c then Some (JValue, st) else start_value c st)"
| "json_step (JValueOrEnd, st) c =
     (if json_ws c then Some (JValueOrEnd, st)
      else if c = CHR '']'' then Some (JAfter, tl st) else start_value c st)"
| "json_step (JKey, st) c =
     (if json_ws c then Some (JKey, st)
      else if c = dquote then Some (JStr True, st) else None)"
| "json_step (JKeyOrEnd, st) c =
     (if json_ws c then Some (JKeyOrEnd, st)
      else if c = dquote then Some (JStr True, st)
      else if c = CHR ''}'' then Some (JAfter, tl st) else None)"
| "json_step (JColon, st) c =
     (if json_ws c then Some (JColon, st)
      else if c = CHR '':'' then Some (JValue, st) else None)"
| "json_step (JAfter, st) c = after_value c st"
| "json_step (JStr k, st) c =
     (if c = dquote then Some (if k then JColon else JAfter, st)
      else if c = backslash then Some (JEsc k, st)
      else if chr_code c < 32 then None else Some (JStr k, st))"
| "json_step (JEsc k, st) c =
     (if c = CHR ''u'' then Some (JHex k 4, st)
      else if c \<in> set [dquote, backslash, CHR ''/'', CHR ''b'', CHR ''f'', CHR ''n'', CHR ''r'', CHR ''t'']
      then Some (JStr k, st) else None)"
| "json_step (JHex k n, st) c =
     (if is_hex c then Some (if n \<le> 1 then JStr k else JHex k (n - 1), st) else None)"
| "json_step (JLit w, st) c =
     (case w of [] \<Rightarrow> after_value c st
      | d # ds \<Rightarrow> if c = d then Some (if ds = [] then JAfter else JLit ds, st) else None)"
| "json_step (JNum ph, st) c =
     (case num_next ph c of
        Some ph' \<Rightarrow> Some (JNum ph', st)
      | None \<Rightarrow>
          if ph = NMinus \<and> c = CHR ''I'' then Some (JLit ''nfinity'', st)
          else if num_complete ph then after_value c st else None)"

fun json_run :: "jstate \<Rightarrow> string \<Rightarrow> jstate option" where
  "json_run s [] = Some s"
| "json_run s (c # cs) = (case json_step s c of None \<Rightarrow> None | Some s' \<Rightarrow> json_run s' cs)"

fun json_done :: "jstate \<Rightarrow> bool" where
  "json_done (JAfter, st) = (st = [])"
| "json_done (JNum ph, st) = (num_complete ph \<and> st = [])"
| "json_done (_, st) = False"

definition json_start :: jstate where
  "json_start = (JValue, [])"

definition json_valid :: "string \<Rightarrow> bool" where
  "json_valid s = (case json_run json_start s of None \<Rightarrow> False | Some q \<Rightarrow> json_done q)"

lemma json_run_append:
  "json_run q (xs @ ys) = (case json_run q xs of None \<Rightarrow> None | Some q' \<Rightarrow> json_run q' ys)"
  by (induction xs arbitrary: q) (auto split: option.splits)

lemmas json_char_defs = json_ws_def is_digit_def is_hex_def dquote_def backslash_def

lemma json_valid_examples:
  "json_valid ''{}''" "json_valid ''[1, -0.5e+3, true, NaN]''"
  "\<not> json_valid ''[1,]''" "\<not> json_valid ''[01]''" "\<not> json_valid ''[1''"
  by code_simp+

end
