(* ===== verification/Structured_Output.thy ===== *)
theory Structured_Output
  imports Pipeline_Types Json
begin

text \<open>
  The structured-output helper of \<open>orchestration/pipeline.py\<close>: extracting the JSON object
  from a model reply, completing a truncated reply, and the bounded request loop
  \<open>propose_structured\<close>.  The model client and the contract validator
  (\<open>model_validate_json\<close>) are parameters.
\<close>

section \<open>Extracting JSON\<close>

definition JSON_RE :: rx where
  "JSON_RE = Cat (lit ''{'') (Cat (Star (Sat (\<lambda>_. True))) (lit ''}''))"

definition JSON_TAG_RE :: rx where
  "JSON_TAG_RE = Cat Bos (Cat (ilit ''json'') (Star (Sat py_space)))"

definition extract_json :: "string \<Rightarrow> string" where
  "extract_json doc =
     (let stripped = strip doc;
          stripped =
            (if startswith stripped ''```'' then
               (let t = strip_by (\<lambda>c. c = CHR ''`'') stripped
                in case rx_at JSON_TAG_RE ([], t) of None \<Rightarrow> t | Some (_, rest) \<Rightarrow> rest)
             else stripped)
      in case rx_search_text JSON_RE stripped of None \<Rightarrow> stripped | Some m \<Rightarrow> m)"

section \<open>Completing a truncated reply\<close>

text \<open>The variables of the scanning loop; the stack has its top first.\<close>

record scan_state =
  sc_stack :: "char list"
  boundaries :: "(nat \<times> char list) list"
  in_string :: bool
  escaped :: bool
  mismatched :: bool

definition scan_init :: scan_state where
  "scan_init = \<lparr>sc_stack = [], boundaries = [], in_string = False, escaped = False,
     mismatched = False\<rparr>"

definition opener_of :: "char \<Rightarrow> char" where
  "opener_of c = (if c = CHR ''}'' then CHR ''{'' else CHR ''['')"

definition closer_of :: "char \<Rightarrow> char" where
  "closer_of c = (if c = CHR ''{'' then CHR ''}'' else CHR '']'')"

definition scan_char :: "nat \<Rightarrow> char \<Rightarrow> scan_state \<Rightarrow> scan_state" where
  "scan_char i c q =
     (if in_string q then
        (if escaped q then q\<lparr>escaped := False\<rparr>
         else if c = backslash then q\<lparr>escaped := True\<rparr>
         else if c = dquote then q\<lparr>in_string := False\<rparr>
         else q)
      else if c = dquote then q\<lparr>in_string := True\<rparr>
      else if c = CHR ''{'' \<or> c = CHR ''['' then q\<lparr>sc_stack := c # sc_stack q\<rparr>
      else if c = CHR ''}'' \<or> c = CHR '']'' then
        (case sc_stack q of
           [] \<Rightarrow> q\<lparr>mismatched := True\<rparr>
         | opener # rest \<Rightarrow>
             if opener \<noteq> opener_of c then q\<lparr>sc_stack := rest, mismatched := True\<rparr>
             else q\<lparr>sc_stack := rest\<rparr>)
      else if c = CHR '','' \<and> sc_stack q \<noteq> []
      then q\<lparr>boundaries := boundaries q @ [(i, sc_stack q)]\<rparr>
      else q)"

fun scan_from :: "nat \<Rightarrow> string \<Rightarrow> scan_state \<Rightarrow> scan_state" where
  "scan_from i [] q = q"
| "scan_from i (c # cs) q =
     (let q' = scan_char i c q in if mismatched q' then q' else scan_from (Suc i) cs q')"

definition close_with :: "string \<Rightarrow> char list \<Rightarrow> string" where
  "close_with prefix st = prefix @ map closer_of st"

definition first_candidate :: "string \<Rightarrow> scan_state \<Rightarrow> string list" where
  "first_candidate doc q =
     (if \<not> mismatched q \<and> \<not> in_string q \<and> sc_stack q \<noteq> []
         \<and> \<not> endswith (rstrip doc) '','' \<and> \<not> endswith (rstrip doc) '':''
         \<and> json_valid (close_with doc (sc_stack q))
      then [close_with doc (sc_stack q)] else [])"

fun boundary_candidates :: "string \<Rightarrow> (nat \<times> char list) list \<Rightarrow> string list \<Rightarrow> string list" where
  "boundary_candidates doc [] yielded = []"
| "boundary_candidates doc ((i, openers) # bs) yielded =
     (let prefix = rstrip (take i doc); candidate = close_with prefix openers
      in if prefix = [] \<or> candidate \<in> set yielded \<or> \<not> json_valid candidate
         then boundary_candidates doc bs yielded
         else candidate # boundary_candidates doc bs (candidate # yielded))"

definition truncated_json_candidates :: "string \<Rightarrow> string list" where
  "truncated_json_candidates doc =
     (let q = scan_from 0 doc scan_init; first = first_candidate doc q
      in first @ boundary_candidates doc (rev (boundaries q)) first)"

definition close_truncated_json :: "string \<Rightarrow> string option" where
  "close_truncated_json doc =
     (case truncated_json_candidates doc of [] \<Rightarrow> None | c # _ \<Rightarrow> Some c)"

section \<open>The request loop\<close>

text \<open>A chat client: \<open>complete(system, user)\<close> returns text or raises.\<close>

type_synonym 'w client = "string \<Rightarrow> string \<Rightarrow> 'w \<Rightarrow> (exn + string) \<times> 'w"

record 't contract_model =
  cm_name :: string
  cm_schema :: string
  cm_validate_json :: "string \<Rightarrow> string + 't"

definition feedback_prompt :: "string \<Rightarrow> string \<Rightarrow> string" where
  "feedback_prompt user fb =
     (if fb = [] then user
      else user @ [CHR 0x0A, CHR 0x0A]
           @ ''Your previous proposal was rejected by a bottom-line check:'' @ [CHR 0x0A] @ fb
           @ [CHR 0x0A] @ ''Fix exactly these problems and return corrected JSON. Do not reintroduce them.'')"

text \<open>The dash of the prompt is its three UTF-8 bytes.\<close>

definition retry_prompt :: "string \<Rightarrow> string \<Rightarrow> string \<Rightarrow> string" where
  "retry_prompt prompt last_error schema =
     prompt @ [CHR 0x0A, CHR 0x0A] @ ''IMPORTANT: your previous reply was not valid JSON (''
       @ last_error @ ''). Reply with a SINGLE minified JSON object only ''
       @ [CHR 0xE2, CHR 0x80, CHR 0x94]
       @ '' no prose, no markdown fences, no trailing commas. The reply may have failed schema validation even when it was valid JSON; correct the reported field types and constraints. Required JSON schema: ''
       @ take 12000 schema"

text \<open>
  Validate the extracted text, then each completion of it: \<open>Inr\<close> the first that
  validates, \<open>Inl\<close> the last error.
\<close>

fun validate_first :: "(string \<Rightarrow> string + 't) \<Rightarrow> string list \<Rightarrow> string \<Rightarrow> string + 't" where
  "validate_first val [] err = Inl err"
| "validate_first val (c # cs) err =
     (case val c of Inr x \<Rightarrow> Inr x | Inl e \<Rightarrow> validate_first val cs e)"

definition parse_reply :: "'t contract_model \<Rightarrow> string \<Rightarrow> string + 't" where
  "parse_reply model raw =
     (let candidate = extract_json raw
      in validate_first (cm_validate_json model)
           (candidate # truncated_json_candidates candidate) [])"

text \<open>Why the previous attempt failed: the error text, and whether output was at fault.\<close>

type_synonym last_failure = "string \<times> bool"

fun attempt_loop ::
    "nat list \<Rightarrow> llm_mode \<Rightarrow> 't contract_model \<Rightarrow> string \<Rightarrow> string \<Rightarrow> string \<Rightarrow> 'w client
     \<Rightarrow> ('w \<Rightarrow> (exn + unit) \<times> 'w) option \<Rightarrow> exn + 't \<Rightarrow> last_failure \<Rightarrow> 'w
     \<Rightarrow> (exn + 't \<times> bool) \<times> 'w" where
  "attempt_loop [] md model sys user fb client before fallback (err, was_output) w =
     (if md = REQUIRED then
        (Inl (if was_output
              then StructuredOutputError
                     (cm_name model @ '' structured output remained invalid after 3 attempts: '' @ err)
              else LlmError (cm_name model @ '' proposal failed: '' @ err)), w)
      else (bind_res fallback (\<lambda>x. Inr (x, False)), w))"
| "attempt_loop (i # is) md model sys user fb client before fallback (err, was_output) w =
     (let prompt = feedback_prompt user fb;
          prompt = (if i \<noteq> 0 then retry_prompt prompt err (cm_schema model) else prompt)
      in case (case before of None \<Rightarrow> (Inr (), w) | Some f \<Rightarrow> f w) of
           (Inl e, w1) \<Rightarrow> (Inl e, w1)
         | (Inr _, w1) \<Rightarrow>
             (case client sys prompt w1 of
                (Inl e, w2) \<Rightarrow>
                  (case e of
                     NonRetryableLlmError m \<Rightarrow> (Inl e, w2)
                   | _ \<Rightarrow> attempt_loop is md model sys user fb client before fallback
                            (exn_text e, False) w2)
              | (Inr raw, w2) \<Rightarrow>
                  (case parse_reply model raw of
                     Inr x \<Rightarrow> (Inr (x, True), w2)
                   | Inl m \<Rightarrow> attempt_loop is md model sys user fb client before fallback
                              (m, True) w2)))"

definition propose_structured ::
    "llm_mode \<Rightarrow> 'w client option \<Rightarrow> string \<Rightarrow> 't contract_model \<Rightarrow> string \<Rightarrow> string \<Rightarrow> exn + 't
     \<Rightarrow> ('w \<Rightarrow> (exn + unit) \<times> 'w) option \<Rightarrow> 'w \<Rightarrow> (exn + 't \<times> bool) \<times> 'w" where
  "propose_structured md client fb model sys user fallback before w =
     (if md = OFFLINE \<or> client = None then
        (if md = REQUIRED then (Inl (LlmError ''required LLM mode but no client is available''), w)
         else (bind_res fallback (\<lambda>x. Inr (x, False)), w))
      else attempt_loop [0, 1, 2] md model sys user fb (the client) before fallback
             (''None'', False) w)"

end
