(* ===== verification/Recovery.thy ===== *)
theory Recovery
  imports Step_Run Structured_Output
begin

text \<open>
  Choosing a recovery move for a blocked step (\<open>_fallback_recovery_decision\<close> and
  \<open>_plan_agentic_recovery\<close> of \<open>orchestration/pipeline.py\<close>).  Constructing a
  \<open>RecoveryDecision\<close> validates its field limits, which is where it can raise.
\<close>

section \<open>The validated decision contract\<close>

definition decision_valid :: "recovery_decision \<Rightarrow> bool" where
  "decision_valid d =
     (length (rd_failure_ids d) \<le> 64
      \<and> (case rd_target_step d of None \<Rightarrow> True | Some t \<Rightarrow> length t \<le> 120)
      \<and> length (rd_strategy d) \<le> 240 \<and> length (rd_tool_name d) \<le> 240
      \<and> length (rd_hypothesis d) \<le> 8000 \<and> length (rd_expected d) \<le> 4000
      \<and> length (rd_success_checks d) \<le> 64
      \<and> 0 \<le> rd_confidence d \<and> rd_confidence d \<le> 1)"

definition mk_decision :: "recovery_decision \<Rightarrow> exn + recovery_decision" where
  "mk_decision d = (if decision_valid d then Inr d else Inl (ValidationError ''RecoveryDecision''))"

definition default_decision :: recovery_decision where
  "default_decision =
     \<lparr>rd_failure_ids = [], rd_action = STOP, rd_origin = ORIGIN_UNKNOWN, rd_target_step = None,
      rd_strategy = [], rd_tool_name = [], rd_tool_args = [], rd_hypothesis = [],
      rd_expected = [], rd_success_checks = [], rd_confidence = 0\<rparr>"

section \<open>The deterministic fallback\<close>

text \<open>The branches after the suggested owner has been ruled out.\<close>

definition fallback_without_owner ::
    "step_result \<Rightarrow> pipeline_step list \<Rightarrow> bool \<Rightarrow> recovery_decision \<Rightarrow> exn + recovery_decision" where
  "fallback_without_owner r allowed local_available d =
     (let here = Some (step_value (sr_step r))
      in if local_available then
           mk_decision (d\<lparr>rd_action := LOCAL_REPAIR, rd_target_step := here,
             rd_strategy := ''step_local_repair'', rd_tool_name := ''repair_current_step'',
             rd_hypothesis := ''A project-local candidate change can address the failed gate.'',
             rd_expected := ''At least one failed check or diagnostic count decreases.''\<rparr>)
         else if allowed \<noteq> [] then
           mk_decision (d\<lparr>rd_action := REPLAN_UPSTREAM,
             rd_target_step := Some (step_value (last allowed)),
             rd_strategy := ''nearest_mutable_owner_rollback'', rd_tool_name := ''replan_upstream_step'',
             rd_hypothesis := ''The nearest mutable upstream artifact should be reconsidered.'',
             rd_expected := ''The failed gate score materially improves after replay.''\<rparr>)
         else if sr_failures r \<noteq> [] \<and> (\<forall>f \<in> set (sr_failures r). fe_origin f = EXTERNAL_EVIDENCE) then
           mk_decision (d\<lparr>rd_action := ASK_HUMAN,
             rd_strategy := ''request_missing_authority_or_evidence'',
             rd_tool_name := ''request_human_input'',
             rd_hypothesis := ''Required grounded evidence or substitution authority is absent.'',
             rd_expected := ''The missing evidence or explicit decision is supplied.''\<rparr>)
         else
           mk_decision (d\<lparr>rd_action := INVESTIGATE_HARNESS, rd_target_step := here,
             rd_strategy := ''independent_gate_recheck'', rd_tool_name := ''run_step_gate'',
             rd_hypothesis := ''The failure origin is unresolved and requires another observation.'',
             rd_expected := ''Independent evidence distinguishes design from Harness failure.''\<rparr>))"

definition fallback_recovery_decision ::
    "step_result \<Rightarrow> pipeline_step list \<Rightarrow> pipeline_step option \<Rightarrow> bool \<Rightarrow> exn + recovery_decision" where
  "fallback_recovery_decision r allowed suggested local_available =
     (let ids = map failure_id (sr_failures r);
          here = Some (step_value (sr_step r));
          d = default_decision\<lparr>rd_failure_ids := ids\<rparr>
      in if \<exists>f \<in> set (sr_failures r). fe_recoverability f = HARD_CONFLICT then
           mk_decision (d\<lparr>rd_action := STOP, rd_strategy := ''preserve_immutable_constraint'',
             rd_tool_name := ''stop_hard_conflict'',
             rd_hypothesis := ''A deterministic hard-constraint gate reported a conflict.'',
             rd_expected := ''No candidate mutation is authorized.''\<rparr>)
         else if (\<exists>f \<in> set (sr_failures r). fe_origin f = INFRASTRUCTURE) \<or> sr_execution_blocked r then
           mk_decision (d\<lparr>rd_action := RETRY_TOOL, rd_target_step := here,
             rd_strategy := ''bounded_tool_retry'', rd_tool_name := ''retry_current_step'',
             rd_hypothesis := ''The authoritative tool execution may be incomplete or transient.'',
             rd_expected := ''A current, parseable tool result is produced.''\<rparr>)
         else case suggested of
           Some t \<Rightarrow>
             if t \<in> set allowed then
               mk_decision (d\<lparr>rd_action := REPLAN_UPSTREAM, rd_target_step := Some (step_value t),
                 rd_strategy := ''deterministic_owner_rollback'', rd_tool_name := ''replan_upstream_step'',
                 rd_hypothesis := ''The failed downstream gate is owned by an upstream artifact.'',
                 rd_expected := ''The failed gate score materially improves after replay.''\<rparr>)
             else fallback_without_owner r allowed local_available d
         | None \<Rightarrow> fallback_without_owner r allowed local_available d)"

section \<open>Asking the model\<close>

text \<open>
  Services outside this module: the packaged skills (name and digest per step), the model
  client with the validator of the decision contract, the prompt built from the observed
  state, and \<open>str\<close> on containers.
\<close>

record ('a, 'w) recovery_services =
  skill_of :: "pipeline_step \<Rightarrow> string \<times> string"
  recovery_client :: "'w client"
  decision_model :: "recovery_decision contract_model"
  recovery_prompt ::
    "('a, 'w) pipeline_state \<Rightarrow> step_result \<Rightarrow> 'a option \<Rightarrow> score \<Rightarrow> pipeline_step list
     \<Rightarrow> pipeline_step option \<Rightarrow> bool \<Rightarrow> string \<times> string"
  container_str :: "pyval \<Rightarrow> string"

definition py_str :: "('a, 'w) recovery_services \<Rightarrow> pyval \<Rightarrow> string" where
  "py_str srv v = py_str_by (container_str srv) v"

definition plan_agentic_recovery ::
    "('a, 'w) recovery_services \<Rightarrow> ('a, 'w) pipeline_context \<Rightarrow> step_result \<Rightarrow> 'a option \<Rightarrow> score
     \<Rightarrow> pipeline_step list \<Rightarrow> pipeline_step option \<Rightarrow> bool
     \<Rightarrow> ('a, 'w, recovery_decision \<times> bool \<times> string \<times> string) action" where
  "plan_agentic_recovery srv ctx r artifact before allowed suggested local_available s =
     (let fallback = fallback_recovery_decision r allowed suggested local_available;
          (skill_name, skill_digest) = skill_of srv (sr_step r);
          wrap = (\<lambda>x. bind_res x (\<lambda>(d, used). Inr (d, used, skill_name, skill_digest)));
          deterministic = wrap (bind_res fallback (\<lambda>d. Inr (d, False)))
      in if \<not> agentic_recovery_enabled ctx \<or> mode ctx = OFFLINE \<or> \<not> has_client ctx
         then (deterministic, s)
         else
           (let (sys, user) = recovery_prompt srv s r artifact before allowed suggested local_available;
                (x, w) = propose_structured (mode ctx) (Some (recovery_client srv))
                           (repair_feedback s) (decision_model srv) sys user fallback None (world s)
            in (case x of
                  Inl e \<Rightarrow> if is_llm_error e then deterministic else Inl e
                | Inr _ \<Rightarrow> wrap x, s\<lparr>world := w\<rparr>)))"

section \<open>Facts\<close>

lemma mk_decision_Inr [simp]: "mk_decision d = Inr e \<longleftrightarrow> decision_valid d \<and> e = d"
  by (auto simp: mk_decision_def)

lemma length_step_value: "length (step_value s) \<le> 120"
  by (cases s) simp_all

text \<open>With at most 64 failures the fallback never raises; with more it always does.\<close>

lemma fallback_without_owner_total:
  assumes "rd_failure_ids d = ids" "d = default_decision\<lparr>rd_failure_ids := ids\<rparr>"
  shows "(\<exists>e. fallback_without_owner r allowed local_available d = Inr e) \<longleftrightarrow> length ids \<le> 64"
  using assms length_step_value
  by (auto simp: fallback_without_owner_def Let_def mk_decision_def decision_valid_def
      default_decision_def)

lemma fallback_total:
  "(\<exists>e. fallback_recovery_decision r allowed suggested local_available = Inr e)
   \<longleftrightarrow> length (sr_failures r) \<le> 64"
proof -
  let ?d = "default_decision\<lparr>rd_failure_ids := map failure_id (sr_failures r)\<rparr>"
  have "(\<exists>e. fallback_without_owner r allowed local_available ?d = Inr e)
    \<longleftrightarrow> length (sr_failures r) \<le> 64"
    using fallback_without_owner_total [of ?d "map failure_id (sr_failures r)" r allowed local_available]
    by simp
  then show ?thesis using length_step_value
    by (auto simp: fallback_recovery_decision_def Let_def mk_decision_def decision_valid_def
        default_decision_def split: option.splits)
qed

text \<open>What the fallback may decide.\<close>

lemma fallback_without_owner_action:
  assumes "fallback_without_owner r allowed local_available d = Inr e"
  shows "(rd_action e = LOCAL_REPAIR \<and> local_available \<and> rd_target_step e = Some (step_value (sr_step r)))
    \<or> (rd_action e = REPLAN_UPSTREAM \<and> (\<exists>t \<in> set allowed. rd_target_step e = Some (step_value t)))
    \<or> (rd_action e = ASK_HUMAN \<and> sr_failures r \<noteq> []
        \<and> (\<forall>f \<in> set (sr_failures r). fe_origin f = EXTERNAL_EVIDENCE))
    \<or> (rd_action e = INVESTIGATE_HARNESS \<and> rd_target_step e = Some (step_value (sr_step r)))"
  using assms by (auto simp: fallback_without_owner_def Let_def split: if_splits)

lemma fallback_action:
  assumes "fallback_recovery_decision r allowed suggested local_available = Inr e"
  shows "(rd_action e = STOP \<longleftrightarrow> (\<exists>f \<in> set (sr_failures r). fe_recoverability f = HARD_CONFLICT))
    \<and> (rd_action e = REPLAN_UPSTREAM \<longrightarrow> (\<exists>t \<in> set allowed. rd_target_step e = Some (step_value t)))
    \<and> (rd_action e = LOCAL_REPAIR \<longrightarrow> local_available)
    \<and> (rd_action e = ASK_HUMAN \<longrightarrow> (\<forall>f \<in> set (sr_failures r). fe_origin f = EXTERNAL_EVIDENCE))"
  using assms fallback_without_owner_action
  by (fastforce simp: fallback_recovery_decision_def Let_def split: if_splits option.splits)

end
