(* ===== verification/Pipeline_Run.thy ===== *)
theory Pipeline_Run
  imports Recovery
begin

text \<open>
  \<open>class Pipeline\<close> of \<open>orchestration/pipeline.py\<close>: order validation and \<open>run\<close>, the loop
  that executes the registered steps, observes recoveries, and on a blocked step either
  retries it, schedules an upstream replan, or gives up.  One pass of the \<open>while\<close> loop is
  \<open>pipeline_iteration\<close>; \<open>pipeline_loop\<close> runs it with fuel, because the number of replans
  is not bounded by the code (each new rollback artifact opens a new budget).
\<close>

section \<open>Order\<close>

fun validate_order :: "nat \<Rightarrow> ('a, 'w) step_hooks list \<Rightarrow> exn + unit" where
  "validate_order i [] = Inr ()"
| "validate_order i (h # hs) =
     (if i \<ge> length CANONICAL_ORDER then Inl (OtherError ''IndexError'' ''list index out of range'')
      else if CANONICAL_ORDER ! i \<noteq> hk_step h then Inl PipelineOrderError
      else validate_order (Suc i) hs)"

text \<open>Retire replans that artifact-first execution will not replay.\<close>

definition defer_scheduled :: "replan_record list \<Rightarrow> replan_record list" where
  "defer_scheduled hist =
     map (\<lambda>r. if rp_status r = Scheduled
              then r\<lparr>rp_status := Deferred, rp_after := Some (rp_before r)\<rparr> else r) hist"

definition prefix_error :: "('a, 'w) pipeline_context \<Rightarrow> ('a, 'w) pipeline_state \<Rightarrow> bool" where
  "prefix_error ctx s =
     (completed s \<noteq> take (length (completed s)) CANONICAL_ORDER
      \<or> (state_blocked s \<and> (\<not> artifact_first ctx \<or> state_execution_blocked s)))"

section \<open>Scores and pending records\<close>

definition step_score :: "step_result \<Rightarrow> score" where
  "step_score r =
     (let failed = filter (\<lambda>c. \<not> ok c) (sr_checks r)
      in (int (length (error_checks r)), int (length failed),
          sum_list (map (\<lambda>c. int (length (ck_message c))) failed)))"

definition pending_replan :: "('a, 'w) pipeline_state \<Rightarrow> pipeline_step \<Rightarrow> nat option" where
  "pending_replan s trigger =
     find_last_idx (\<lambda>r. rp_trigger r = step_value trigger \<and> rp_status r = Scheduled)
       (replan_history s)"

text \<open>
  The scheduled replan whose span covers the step, newest first.  An unknown step name in
  a scheduled record raises, as \<open>PipelineStep(...)\<close> does; the list is given reversed,
  with the index of its head.
\<close>

fun active_replan_from :: "pipeline_step \<Rightarrow> (nat \<times> replan_record) list \<Rightarrow> exn + nat option" where
  "active_replan_from st [] = Inr None"
| "active_replan_from st ((i, r) # rs) =
     (if rp_status r \<noteq> Scheduled then active_replan_from st rs
      else case step_of_value (rp_rollback_to r) of
        None \<Rightarrow> Inl (ValueError (rp_rollback_to r))
      | Some back \<Rightarrow>
          if \<not> order_index back \<le> order_index st then active_replan_from st rs
          else (case step_of_value (rp_trigger r) of
             None \<Rightarrow> Inl (ValueError (rp_trigger r))
           | Some trig \<Rightarrow>
               if order_index st \<le> order_index trig then Inr (Some i)
               else active_replan_from st rs))"

definition active_replan :: "('a, 'w) pipeline_state \<Rightarrow> pipeline_step \<Rightarrow> exn + nat option" where
  "active_replan s st =
     active_replan_from st
       (rev (zip [0 ..< length (replan_history s)] (replan_history s)))"

definition active_recovery :: "('a, 'w) pipeline_state \<Rightarrow> pipeline_step \<Rightarrow> nat option" where
  "active_recovery s st =
     find_last_idx (\<lambda>t. rt_step t = step_value st \<and> rt_status t = TActed) (recovery_history s)"

section \<open>Feedback for the next execution\<close>

fun action_value :: "recovery_action \<Rightarrow> string" where
  "action_value LOCAL_REPAIR = ''local_repair''"
| "action_value REPLAN_UPSTREAM = ''replan_upstream''"
| "action_value RETRY_TOOL = ''retry_tool''"
| "action_value INVESTIGATE_HARNESS = ''investigate_harness''"
| "action_value ASK_HUMAN = ''ask_human''"
| "action_value STOP = ''stop''"

definition repair_instructions :: "('a, 'w) recovery_services \<Rightarrow> recovery_decision \<Rightarrow> string" where
  "repair_instructions srv d =
     take 6000 (case map_of (rd_tool_args d) ''repair_instructions'' of
                  None \<Rightarrow> rd_strategy d | Some v \<Rightarrow> py_str srv v)"

definition local_repair_feedback :: "('a, 'w) recovery_services \<Rightarrow> recovery_decision \<Rightarrow> string" where
  "local_repair_feedback srv d =
     (let nl = [CHR 0x0A]
      in ''Agentic recovery plan. Preserve every immutable requirement.'' @ nl
         @ ''Hypothesis: '' @ rd_hypothesis d @ nl
         @ ''Action: '' @ action_value (rd_action d) @ nl
         @ ''Instructions: '' @ repair_instructions srv d @ nl
         @ ''The deterministic gate, not the model, decides success.'')"

definition set_feedback ::
    "('a, 'w) recovery_services \<Rightarrow> pipeline_step \<Rightarrow> nat option \<Rightarrow> nat option
     \<Rightarrow> ('a, 'w) pipeline_state \<Rightarrow> ('a, 'w) pipeline_state" where
  "set_feedback srv st replan_idx recovery_idx s =
     (case replan_idx of
        Some i \<Rightarrow> s\<lparr>repair_feedback := rp_feedback (replan_history s ! i)\<rparr>
      | None \<Rightarrow>
          (case recovery_idx of
             None \<Rightarrow> s
           | Some j \<Rightarrow>
               (let d = rt_decision (recovery_history s ! j)
                in if rd_target_step d = Some (step_value st) \<and> rd_action d = LOCAL_REPAIR
                   then s\<lparr>repair_feedback := local_repair_feedback srv d\<rparr> else s)))"

section \<open>Executing one step\<close>

definition exn_check_name :: "exn \<Rightarrow> string" where
  "exn_check_name e =
     (case e of StructuredOutputError _ \<Rightarrow> ''structured_output_invalid''
      | _ \<Rightarrow> if is_llm_error e then ''llm_proposal_failed'' else ''step_execution_failed'')"

definition exn_failure :: "pipeline_step \<Rightarrow> exn \<Rightarrow> failure_envelope" where
  "exn_failure st e =
     make_failure (step_value st) (exn_check_name e) (exn_name e @ '': '' @ exn_text e) False
       (if is_llm_error e then None else Some INFRASTRUCTURE)
       (if is_llm_error e then exn_check_name e else ''unhandled_step_exception'') [] []"

definition exn_result :: "pipeline_step \<Rightarrow> exn \<Rightarrow> step_result" where
  "exn_result st e =
     (let f = exn_failure st e;
          c = \<lparr>ck_name = exn_check_name e, ok = False, ck_severity = SevError,
               ck_message = exn_name e @ '': '' @ exn_text e, blocks_execution = True,
               ck_origin = Some (fe_origin f),
               ck_reason_code = (if fe_origin f = INFRASTRUCTURE then ''unhandled_step_exception''
                                 else exn_check_name e),
               ck_affected_refs = [], ck_evidence = []\<rparr>
      in \<lparr>sr_step = st, sr_used_llm = is_llm_error e, knowledge_used = [], sr_checks = [c],
          sr_failures = [f], sr_repairs = [], sr_blocked = True, sr_execution_blocked = True,
          sr_summary = ''Step execution failed: '' @ exn_text e\<rparr>)"

text \<open>
  The inner \<open>while True\<close>: the number is what is left of \<open>execution_retry_attempts\<close>.
  \<open>clear\<close> says that the \<open>finally\<close> clause resets the feedback, which it does after every
  attempt, retried ones included.
\<close>

fun execute_step ::
    "nat \<Rightarrow> ('a, 'w) step_hooks \<Rightarrow> ('a, 'w) pipeline_context \<Rightarrow> bool \<Rightarrow> ('a, 'w, step_result) action" where
  "execute_step n h ctx clear s =
     (let clr = (\<lambda>s. if clear then s\<lparr>repair_feedback := []\<rparr> else s)
      in case base_run h ctx s of
           (Inr r, s') \<Rightarrow> (Inr r, clr s')
         | (Inl e, s') \<Rightarrow>
             if \<not> capture_step_errors ctx then (Inl e, clr s')
             else
               (case n of
                  Suc m \<Rightarrow>
                    if fe_recoverability (exn_failure (hk_step h) e) = RETRYABLE
                    then execute_step m h ctx clear (clr s')
                    else (Inr (exn_result (hk_step h) e),
                          clr (s'\<lparr>results := results s' @ [exn_result (hk_step h) e]\<rparr>))
                | 0 \<Rightarrow> (Inr (exn_result (hk_step h) e),
                        clr (s'\<lparr>results := results s' @ [exn_result (hk_step h) e]\<rparr>))))"

declare execute_step.simps [simp del]

text \<open>Record the observation of an active recovery.\<close>

definition observe_recovery ::
    "('a, 'w) pipeline_context \<Rightarrow> nat option \<Rightarrow> step_result \<Rightarrow> ('a, 'w) pipeline_state
     \<Rightarrow> ('a, 'w) pipeline_state" where
  "observe_recovery ctx idx r s =
     (case idx of
        None \<Rightarrow> s
      | Some j \<Rightarrow>
          (let after = step_score r; t = recovery_history s ! j;
               t' = t\<lparr>rt_after := Some after,
                      rt_status := (if fst after = 0 then TVerified
                                    else if after < rt_before t then TImproved else TRejected),
                      rt_observation := ''Deterministic gate observation: '' @
                        (if error_checks r = [] then ''all error checks passed''
                         else take 10000 (join ''; ''
                           (map (\<lambda>c. ck_name c @ '': '' @ ck_message c) (error_checks r))))\<rparr>
           in emit ctx ((mk_event ''recovery_observed'' (rt_step t') (revision s))
                          \<lparr>ev_recovery := Some t'\<rparr>)
                (s\<lparr>recovery_history := (recovery_history s)[j := t']\<rparr>)))"

section \<open>Moving on\<close>

definition can_continue :: "('a, 'w) pipeline_context \<Rightarrow> step_result \<Rightarrow> bool" where
  "can_continue ctx r =
     (\<not> sr_blocked r
      \<or> (artifact_first ctx \<and> \<not> repair_release_issues ctx \<and> \<not> sr_execution_blocked r))"

definition notify_completed ::
    "('a, 'w) pipeline_context \<Rightarrow> step_result \<Rightarrow> ('a, 'w) pipeline_state \<Rightarrow> ('a, 'w) pipeline_state" where
  "notify_completed ctx r s =
     (if has_step_observer ctx then s\<lparr>trace := trace s @ [StepCompleted (sr_step r) (sr_blocked r)]\<rparr>
      else s)"

definition notify_progress ::
    "('a, 'w) pipeline_context \<Rightarrow> ('a, 'w) pipeline_state \<Rightarrow> ('a, 'w) pipeline_state" where
  "notify_progress ctx s =
     (if has_progress_observer ctx then s\<lparr>trace := trace s @ [ProgressCheckpoint]\<rparr> else s)"

definition update_replan ::
    "('a, 'w) pipeline_context \<Rightarrow> string \<Rightarrow> nat \<Rightarrow> (replan_record \<Rightarrow> replan_record)
     \<Rightarrow> ('a, 'w) pipeline_state \<Rightarrow> ('a, 'w) pipeline_state" where
  "update_replan ctx event i f s =
     (let r = f (replan_history s ! i)
      in emit ctx ((mk_event event (rp_trigger r) (revision s))\<lparr>ev_replan := Some r\<rparr>)
           (s\<lparr>replan_history := (replan_history s)[i := r]\<rparr>))"

definition complete_step ::
    "('a, 'w) pipeline_context \<Rightarrow> step_result \<Rightarrow> ('a, 'w) pipeline_state \<Rightarrow> ('a, 'w) pipeline_state" where
  "complete_step ctx r s =
     (let s1 = (case pending_replan s (sr_step r) of
                  None \<Rightarrow> s
                | Some i \<Rightarrow>
                    if sr_blocked r then s
                    else update_replan ctx ''replan_recovered'' i
                           (\<lambda>p. p\<lparr>rp_status := Recovered, rp_after := Some (0, 0, 0)\<rparr>) s)
      in notify_completed ctx r s1)"


section \<open>A blocked step: what may be tried\<close>

definition intersects :: "string list \<Rightarrow> string list \<Rightarrow> bool" where
  "intersects xs ys = (\<exists>x \<in> set xs. x \<in> set ys)"

definition result_ids :: "step_result \<Rightarrow> string list" where
  "result_ids r = map failure_id (sr_failures r)"

definition suggested_rollback ::
    "('a, 'w) step_hooks \<Rightarrow> ('a, 'w) pipeline_context \<Rightarrow> ('a, 'w) pipeline_state \<Rightarrow> step_result
     \<Rightarrow> pipeline_step option" where
  "suggested_rollback h ctx s r =
     (case artifacts s (hk_step h) of
        None \<Rightarrow> None
      | Some a \<Rightarrow>
          if ahe_enabled ctx \<and> (\<not> artifact_first ctx \<or> repair_release_issues ctx)
          then hk_rollback_target h s a (sr_checks r) else None)"

definition allowed_targets ::
    "('a, 'w) pipeline_context \<Rightarrow> ('a, 'w) pipeline_state \<Rightarrow> step_result \<Rightarrow> pipeline_step list" where
  "allowed_targets ctx s r =
     filter (\<lambda>t. artifacts s t \<noteq> None
         \<and> count_if (\<lambda>p. rp_trigger p = step_value (sr_step r) \<and> rp_rollback_to p = step_value t
                          \<and> intersects (result_ids r) (rp_failure_ids p)) (replan_history s)
           < max 0 (max_replan_attempts ctx))
       (drop 1 (take (order_index (sr_step r)) CANONICAL_ORDER))"

definition local_repair_available ::
    "('a, 'w) step_hooks \<Rightarrow> ('a, 'w) pipeline_state \<Rightarrow> step_result \<Rightarrow> bool" where
  "local_repair_available h s r =
     (artifacts s (hk_step h) \<noteq> None
      \<and> (hk_repair h \<noteq> None \<or> hk_replan h \<noteq> None \<or> sr_used_llm r))"

definition related_recovery_turns ::
    "('a, 'w) pipeline_state \<Rightarrow> step_result \<Rightarrow> recovery_turn list" where
  "related_recovery_turns s r =
     filter (\<lambda>t. rt_step t = step_value (sr_step r)
                 \<and> (result_ids r = [] \<or> intersects (result_ids r) (rt_failure_ids t)))
       (recovery_history s)"

definition agentic_budget_available ::
    "('a, 'w) pipeline_context \<Rightarrow> ('a, 'w) pipeline_state \<Rightarrow> step_result \<Rightarrow> bool" where
  "agentic_budget_available ctx s r =
     (agentic_recovery_enabled ctx \<and> mode ctx \<noteq> OFFLINE \<and> has_client ctx
      \<and> int (length (related_recovery_turns s r)) < max 0 (max_agentic_recovery_turns_per_step ctx)
      \<and> int (length (recovery_history s)) < max 0 (max_total_agentic_recovery_turns ctx)
      \<and> deadline_open ctx s)"

section \<open>Validating and binding the decision\<close>

definition invalid_action ::
    "step_result \<Rightarrow> pipeline_step list \<Rightarrow> bool \<Rightarrow> recovery_decision \<Rightarrow> bool" where
  "invalid_action r allowed local_available d =
     (let hard_conflict = (\<exists>f \<in> set (sr_failures r). fe_recoverability f = HARD_CONFLICT);
          external = (sr_failures r \<noteq> []
                      \<and> (\<forall>f \<in> set (sr_failures r). fe_origin f = EXTERNAL_EVIDENCE))
      in case rd_action d of
           LOCAL_REPAIR \<Rightarrow> \<not> local_available
         | REPLAN_UPSTREAM \<Rightarrow> \<not> (\<exists>t \<in> set allowed. rd_target_step d = Some (step_value t))
         | ASK_HUMAN \<Rightarrow> \<not> external
         | STOP \<Rightarrow> \<not> hard_conflict \<and> (allowed \<noteq> [] \<or> local_available)
         | _ \<Rightarrow> False)"

fun bound_tool :: "recovery_action \<Rightarrow> string" where
  "bound_tool LOCAL_REPAIR = ''replan_current_step''"
| "bound_tool REPLAN_UPSTREAM = ''replan_upstream_step''"
| "bound_tool RETRY_TOOL = ''retry_current_step''"
| "bound_tool INVESTIGATE_HARNESS = ''run_step_gate''"
| "bound_tool ASK_HUMAN = ''request_human_input''"
| "bound_tool STOP = ''stop_hard_conflict''"

definition bind_decision ::
    "('a, 'w) recovery_services \<Rightarrow> step_result \<Rightarrow> recovery_decision \<Rightarrow> recovery_decision
     \<Rightarrow> recovery_decision" where
  "bind_decision srv r fallback d =
     d\<lparr>rd_failure_ids := sorted_set (result_ids r),
       rd_target_step := (if rd_action d = REPLAN_UPSTREAM then rd_target_step d
                          else Some (step_value (sr_step r))),
       rd_tool_name := bound_tool (rd_action d),
       rd_tool_args := [(''repair_instructions'', PStr (repair_instructions srv d))],
       rd_expected := take 4000 (str_or (strip (rd_expected d)) (rd_expected fallback))\<rparr>"

definition repeated_stagnant_action ::
    "('a, 'w) pipeline_context \<Rightarrow> ('a, 'w) pipeline_state \<Rightarrow> step_result \<Rightarrow> recovery_decision \<Rightarrow> bool" where
  "repeated_stagnant_action ctx s r d =
     (\<exists>t \<in> set (related_recovery_turns s r).
        rd_action (rt_decision t) = rd_action d
        \<and> rd_target_step (rt_decision t) = rd_target_step d
        \<and> rt_fingerprint t = artifact_fingerprint ctx (artifacts s (sr_step r))
        \<and> rt_status t \<in> {TRejected, TExhausted}
        \<and> rt_after t = Some (rt_before t))"

text \<open>
  Plan one recovery turn: ask, validate, bind, and append the record.  The turn is the
  last element of \<open>recovery_history\<close> afterwards.
\<close>

definition plan_turn ::
    "('a, 'w) recovery_services \<Rightarrow> ('a, 'w) step_hooks \<Rightarrow> ('a, 'w) pipeline_context \<Rightarrow> step_result
     \<Rightarrow> pipeline_step list \<Rightarrow> pipeline_step option \<Rightarrow> ('a, 'w, recovery_decision) action" where
  "plan_turn srv h ctx r allowed suggested s =
     (let local_available = local_repair_available h s r
      in case plan_agentic_recovery srv ctx r (artifacts s (hk_step h)) (step_score r) allowed
                suggested local_available s of
           (Inl e, s1) \<Rightarrow> (Inl e, s1)
         | (Inr (d0, used0, skill, digest), s1) \<Rightarrow>
             (case fallback_recovery_decision r allowed suggested local_available of
                Inl e \<Rightarrow> (Inl e, s1)
              | Inr fallback \<Rightarrow>
                  (let bad = invalid_action r allowed local_available d0;
                       d = bind_decision srv r fallback (if bad then fallback else d0);
                       stuck = repeated_stagnant_action ctx s1 r d;
                       t = \<lparr>rt_step = step_value (sr_step r),
                            rt_attempt = int (length (related_recovery_turns s r)) + 1,
                            rt_revision = revision s1,
                            rt_failure_ids = sorted_set (result_ids r),
                            rt_decision = d,
                            rt_status = (if stuck then TExhausted else TPlanned),
                            rt_before = step_score r,
                            rt_after = (if stuck then Some (step_score r) else None),
                            rt_observation =
                              (if stuck then ''The same action, target, artifact fingerprint and gate score already stagnated; exact replay rejected.'' else []),
                            rt_fingerprint = artifact_fingerprint ctx (artifacts s1 (sr_step r)),
                            rt_used_llm = (if bad then False else used0),
                            rt_skill_name = skill, rt_skill_digest = digest\<rparr>
                   in (Inr d,
                       emit ctx
                         ((mk_event (if stuck then ''recovery_exhausted'' else ''recovery_planned'')
                             (rt_step t) (revision s1))\<lparr>ev_recovery := Some t\<rparr>)
                         (s1\<lparr>recovery_history := recovery_history s1 @ [t]\<rparr>)))))"


section \<open>Acting on the decision\<close>

definition update_last_turn ::
    "('a, 'w) pipeline_context \<Rightarrow> string \<Rightarrow> (recovery_turn \<Rightarrow> recovery_turn)
     \<Rightarrow> ('a, 'w) pipeline_state \<Rightarrow> ('a, 'w) pipeline_state" where
  "update_last_turn ctx event f s =
     (let t = f (last (recovery_history s))
      in emit ctx ((mk_event event (rt_step t) (revision s))\<lparr>ev_recovery := Some t\<rparr>)
           (s\<lparr>recovery_history := butlast (recovery_history s) @ [t]\<rparr>))"

text \<open>
  Execute the same step again: the rejected result, which is the last one, and the
  artifact are dropped; a local repair keeps the artifact as its baseline.
\<close>

definition act_locally ::
    "('a, 'w) pipeline_context \<Rightarrow> step_result \<Rightarrow> recovery_decision \<Rightarrow> ('a, 'w) pipeline_state
     \<Rightarrow> ('a, 'w) pipeline_state" where
  "act_locally ctx r d s =
     (let st = sr_step r;
          s1 = s\<lparr>revision := revision s + 1,
                 resume_candidates :=
                   (case artifacts s st of
                      Some a \<Rightarrow> if rd_action d = LOCAL_REPAIR
                                then (resume_candidates s)(st \<mapsto> (a, sr_used_llm r))
                                else resume_candidates s
                    | None \<Rightarrow> resume_candidates s),
                 results := butlast (results s),
                 artifacts := (artifacts s)(st := None)\<rparr>
      in notify_progress ctx
           (update_last_turn ctx ''recovery_action_started''
              (\<lambda>t. t\<lparr>rt_status := TActed, rt_revision := revision s1\<rparr>) s1))"

section \<open>Upstream replans\<close>

text \<open>
  The rollback target: the decision of a live turn overrules the target the step itself
  suggests.  The turn argument is the one planned in this pass.
\<close>

definition rollback_choice ::
    "recovery_decision option \<Rightarrow> recovery_turn option \<Rightarrow> pipeline_step option \<Rightarrow> pipeline_step option" where
  "rollback_choice d turn suggested =
     (case (d, turn) of
        (Some d, Some t) \<Rightarrow>
          if rt_status t = TExhausted then suggested
          else (case rd_action d of
             REPLAN_UPSTREAM \<Rightarrow> Option.bind (rd_target_step d) step_of_value
           | ASK_HUMAN \<Rightarrow> None
           | STOP \<Rightarrow> None
           | _ \<Rightarrow> suggested)
      | _ \<Rightarrow> suggested)"

definition prior_replans ::
    "('a, 'w) pipeline_context \<Rightarrow> ('a, 'w) pipeline_state \<Rightarrow> step_result \<Rightarrow> pipeline_step option
     \<Rightarrow> replan_record list" where
  "prior_replans ctx s r rollback =
     filter (\<lambda>p. rp_trigger p = step_value (sr_step r)
                 \<and> rp_fingerprint p = artifact_fingerprint ctx (Option.bind rollback (artifacts s))
                 \<and> intersects (result_ids r) (rp_failure_ids p))
       (replan_history s)"

definition replan_limit ::
    "('a, 'w) pipeline_context \<Rightarrow> pipeline_step \<Rightarrow> pipeline_step option \<Rightarrow> int" where
  "replan_limit ctx st rollback =
     (let limit = max 0 (max_replan_attempts ctx)
      in case (rollback, replan_score ctx) of
           (Some t, Some f) \<Rightarrow>
             (case f (step_value st) (step_value t) of
                None \<Rightarrow> limit
              | Some x \<Rightarrow> if x \<ge> 8 / 10 then min 5 (limit + 1)
                          else if x < 2 / 10 then min limit 1 else limit)
         | _ \<Rightarrow> limit)"

definition can_replan ::
    "('a, 'w) pipeline_context \<Rightarrow> ('a, 'w) pipeline_state \<Rightarrow> step_result \<Rightarrow> pipeline_step option \<Rightarrow> bool" where
  "can_replan ctx s r rollback =
     (case rollback of
        None \<Rightarrow> False
      | Some t \<Rightarrow> order_index t < order_index (sr_step r)
                  \<and> int (length (prior_replans ctx s r rollback)) < replan_limit ctx (sr_step r) rollback)"

definition replan_feedback ::
    "('a, 'w) recovery_services \<Rightarrow> step_result \<Rightarrow> pipeline_step \<Rightarrow> recovery_decision option \<Rightarrow> string" where
  "replan_feedback srv r back d =
     (let nl = [CHR 0x0A];
          guidance = (case d of
             None \<Rightarrow> []
           | Some d \<Rightarrow>
               nl @ ''Agentic recovery hypothesis: '' @ rd_hypothesis d @ nl
               @ ''Recovery instructions: ''
               @ (case map_of (rd_tool_args d) ''repair_instructions'' of
                    None \<Rightarrow> [] | Some v \<Rightarrow> py_str srv v) @ nl
               @ ''Expected observation: '' @ rd_expected d @ nl)
      in take 12000
           (''Downstream '' @ step_value (sr_step r) @ '' checks failed. Replan from ''
            @ step_value back @ '' without weakening any requirement:'' @ nl @ guidance
            @ join nl (map (\<lambda>c. ''- '' @ ck_name c @ '': '' @ ck_message c) (error_checks r))))"

text \<open>
  Roll back: everything from the target on is dropped, the target's artifact becomes the
  baseline of the replay, and a record is appended.
\<close>

definition roll_back_to ::
    "pipeline_step \<Rightarrow> ('a, 'w) pipeline_state \<Rightarrow> ('a, 'w) pipeline_state" where
  "roll_back_to back s =
     (let i = order_index back;
          cands = (case artifacts s back of
             None \<Rightarrow> resume_candidates s
           | Some a \<Rightarrow>
               (resume_candidates s)(back \<mapsto>
                  (a, case find (\<lambda>x. sr_step x = back) (rev (results s)) of
                        None \<Rightarrow> False | Some x \<Rightarrow> sr_used_llm x)))
      in s\<lparr>resume_candidates := (\<lambda>st. if order_index st \<le> i then cands st else None),
           results := filter (\<lambda>x. order_index (sr_step x) < i) (results s),
           artifacts := (\<lambda>st. if order_index st < i then artifacts s st else None)\<rparr>)"

definition schedule_replan ::
    "('a, 'w) recovery_services \<Rightarrow> ('a, 'w) pipeline_context \<Rightarrow> step_result \<Rightarrow> pipeline_step
     \<Rightarrow> recovery_decision option \<Rightarrow> bool \<Rightarrow> ('a, 'w) pipeline_state \<Rightarrow> ('a, 'w) pipeline_state" where
  "schedule_replan srv ctx r back d has_turn s =
     (let record =
        \<lparr>rp_trigger = step_value (sr_step r), rp_rollback_to = step_value back,
         rp_attempt = int (length (prior_replans ctx s r (Some back))) + 1,
         rp_failure_ids = result_ids r, rp_status = Scheduled, rp_before = step_score r,
         rp_after = None, rp_feedback = replan_feedback srv r back d,
         rp_fingerprint = artifact_fingerprint ctx (artifacts s back)\<rparr>;
          s1 = roll_back_to back
                 (s\<lparr>replan_history := replan_history s @ [record], revision := revision s + 1\<rparr>);
          s2 = emit ctx ((mk_event ''replan_scheduled'' (rp_trigger record) (revision s1))
                           \<lparr>ev_replan := Some record\<rparr>) s1;
          s3 = (if has_turn
                then update_last_turn ctx ''recovery_action_started''
                       (\<lambda>t. t\<lparr>rt_status := TActed, rt_revision := revision s2\<rparr>) s2
                else s2)
      in notify_progress ctx s3)"

section \<open>Giving up\<close>

definition retire_pending ::
    "('a, 'w) pipeline_context \<Rightarrow> step_result \<Rightarrow> pipeline_step option \<Rightarrow> ('a, 'w) pipeline_state
     \<Rightarrow> ('a, 'w) pipeline_state" where
  "retire_pending ctx r rollback s =
     (case pending_replan s (sr_step r) of
        None \<Rightarrow> s
      | Some i \<Rightarrow>
          if int (length (prior_replans ctx s r rollback)) \<ge> replan_limit ctx (sr_step r) rollback
          then update_replan ctx ''replan_exhausted'' i
                 (\<lambda>p. p\<lparr>rp_status := Exhausted, rp_after := Some (step_score r)\<rparr>) s
          else update_replan ctx ''replan_stagnated'' i
                 (\<lambda>p. p\<lparr>rp_status := Stagnated, rp_after := Some (step_score r)\<rparr>) s)"

definition retire_turn ::
    "('a, 'w) pipeline_context \<Rightarrow> step_result \<Rightarrow> bool \<Rightarrow> ('a, 'w) pipeline_state \<Rightarrow> ('a, 'w) pipeline_state" where
  "retire_turn ctx r has_turn s =
     (if has_turn \<and> rt_status (last (recovery_history s)) = TPlanned
      then update_last_turn ctx ''recovery_exhausted''
             (\<lambda>t. t\<lparr>rt_status := TExhausted, rt_after := Some (step_score r),
                    rt_observation := ''The selected action could not be scheduled within the validated target and recovery budgets.''\<rparr>) s
      else s)"

definition give_up ::
    "('a, 'w) step_hooks \<Rightarrow> ('a, 'w) pipeline_context \<Rightarrow> step_result \<Rightarrow> pipeline_step option \<Rightarrow> bool
     \<Rightarrow> ('a, 'w) pipeline_state \<Rightarrow> ('a, 'w) pipeline_state" where
  "give_up h ctx r rollback has_turn s =
     notify_completed ctx r
       (emit_failures h ctx (\<lambda>f. action_event (attributed_action f)) (sr_failures r)
          (retire_turn ctx r has_turn (retire_pending ctx r rollback s)))"

section \<open>The loop\<close>

datatype ('a, 'w) loop_out =
    Next nat "pipeline_step set" "('a, 'w) pipeline_state"
  | Finished "('a, 'w) pipeline_state"
  | Raised exn "('a, 'w) pipeline_state"

text \<open>What follows when the step has no (further) local move.\<close>

definition replan_or_stop ::
    "('a, 'w) recovery_services \<Rightarrow> ('a, 'w) step_hooks \<Rightarrow> ('a, 'w) pipeline_context \<Rightarrow> step_result
     \<Rightarrow> recovery_decision option \<Rightarrow> pipeline_step option \<Rightarrow> ('a, 'w) pipeline_state \<Rightarrow> ('a, 'w) loop_out" where
  "replan_or_stop srv h ctx r d suggested s =
     (let has_turn = (d \<noteq> None);
          rollback = rollback_choice d (if has_turn then Some (last (recovery_history s)) else None)
                       suggested
      in case rollback of
           Some back \<Rightarrow>
             if can_replan ctx s r rollback
             then (let s' = schedule_replan srv ctx r back d has_turn s
                   in Next (order_index back) (set (completed s')) s')
             else Finished (give_up h ctx r rollback has_turn s)
         | None \<Rightarrow> Finished (give_up h ctx r rollback has_turn s))"

definition handle_blocked ::
    "('a, 'w) recovery_services \<Rightarrow> ('a, 'w) step_hooks \<Rightarrow> ('a, 'w) pipeline_context \<Rightarrow> nat
     \<Rightarrow> step_result \<Rightarrow> ('a, 'w) pipeline_state \<Rightarrow> ('a, 'w) loop_out" where
  "handle_blocked srv h ctx index r s =
     (let suggested = suggested_rollback h ctx s r; allowed = allowed_targets ctx s r
      in if agentic_budget_available ctx s r then
           (case plan_turn srv h ctx r allowed suggested s of
              (Inl e, s1) \<Rightarrow> Raised e s1
            | (Inr d, s1) \<Rightarrow>
                if rt_status (last (recovery_history s1)) = TPlanned
                   \<and> rd_action d \<in> {LOCAL_REPAIR, RETRY_TOOL, INVESTIGATE_HARNESS}
                then (let s2 = act_locally ctx r d s1 in Next index (set (completed s2)) s2)
                else replan_or_stop srv h ctx r (Some d) suggested s1)
         else replan_or_stop srv h ctx r None suggested s)"

text \<open>
  One pass of the \<open>while\<close> loop at a step that is neither beyond the limit nor already
  completed.
\<close>

definition run_and_dispatch ::
    "('a, 'w) recovery_services \<Rightarrow> ('a, 'w) step_hooks \<Rightarrow> ('a, 'w) pipeline_context \<Rightarrow> nat
     \<Rightarrow> pipeline_step set \<Rightarrow> ('a, 'w) pipeline_state \<Rightarrow> ('a, 'w) loop_out" where
  "run_and_dispatch srv h ctx index done s =
     (case active_replan s (hk_step h) of
        Inl e \<Rightarrow> Raised e s
      | Inr arp \<Rightarrow>
          (let arc = active_recovery s (hk_step h);
               s1 = set_feedback srv (hk_step h) arp arc s
           in case execute_step (nat (execution_retry_attempts ctx)) h ctx
                     (arp \<noteq> None \<or> arc \<noteq> None) s1 of
                (Inl e, s2) \<Rightarrow> Raised e s2
              | (Inr r, s2) \<Rightarrow>
                  (let s3 = observe_recovery ctx arc r s2
                   in if can_continue ctx r
                      then Next (Suc index) (insert (hk_step h) done) (complete_step ctx r s3)
                      else handle_blocked srv h ctx index r s3)))"

definition pipeline_iteration ::
    "('a, 'w) recovery_services \<Rightarrow> ('a, 'w) step_hooks list \<Rightarrow> ('a, 'w) pipeline_context \<Rightarrow> nat
     \<Rightarrow> nat \<Rightarrow> pipeline_step set \<Rightarrow> ('a, 'w) pipeline_state \<Rightarrow> ('a, 'w) loop_out" where
  "pipeline_iteration srv hs ctx limit index done s =
     (if index \<ge> length hs then Finished s
      else
        (let h = hs ! index
         in if order_index (hk_step h) > limit then Finished s
            else if hk_step h \<in> done then Next (Suc index) done s
            else run_and_dispatch srv h ctx index done s))"

fun pipeline_loop ::
    "nat \<Rightarrow> ('a, 'w) recovery_services \<Rightarrow> ('a, 'w) step_hooks list \<Rightarrow> ('a, 'w) pipeline_context \<Rightarrow> nat
     \<Rightarrow> nat \<Rightarrow> pipeline_step set \<Rightarrow> ('a, 'w) pipeline_state
     \<Rightarrow> ((exn + unit) \<times> ('a, 'w) pipeline_state) option" where
  "pipeline_loop 0 srv hs ctx limit index done s = None"
| "pipeline_loop (Suc n) srv hs ctx limit index done s =
     (case pipeline_iteration srv hs ctx limit index done s of
        Finished s' \<Rightarrow> Some (Inr (), s')
      | Raised e s' \<Rightarrow> Some (Inl e, s')
      | Next index' done' s' \<Rightarrow> pipeline_loop n srv hs ctx limit index' done' s')"

text \<open>\<open>Pipeline(steps).run(state, ctx, until)\<close>.\<close>

definition pipeline_run ::
    "nat \<Rightarrow> ('a, 'w) recovery_services \<Rightarrow> ('a, 'w) step_hooks list \<Rightarrow> ('a, 'w) pipeline_context
     \<Rightarrow> pipeline_step option \<Rightarrow> ('a, 'w) pipeline_state
     \<Rightarrow> ((exn + unit) \<times> ('a, 'w) pipeline_state) option" where
  "pipeline_run fuel srv hs ctx until s =
     (case validate_order 0 hs of
        Inl e \<Rightarrow> Some (Inl e, s)
      | Inr _ \<Rightarrow>
          (let limit = (case until of Some u \<Rightarrow> order_index u | None \<Rightarrow> length hs - 1);
               s1 = (if artifact_first ctx \<and> \<not> repair_release_issues ctx
                     then s\<lparr>replan_history := defer_scheduled (replan_history s)\<rparr> else s)
           in if prefix_error ctx s1 then Some (Inl PipelineOrderError, s1)
              else pipeline_loop fuel srv hs ctx limit 0 (set (completed s1)) s1))"

end
