(* ===== verification/Pipeline_Facts.thy ===== *)
theory Pipeline_Facts
  imports Step_Facts Pipeline_Run
begin

text \<open>
  What \<open>Pipeline.run\<close> guarantees: the completed steps always form a prefix of the pinned
  sequence, no step runs after a result that may not be continued from, a run that
  returns has either covered everything up to its limit or ends in a blocked result,
  the run terminates when replans are not suggested by the steps themselves, and the
  repair budgets hold over the whole run.
\<close>

section \<open>Order validation\<close>

definition canonical_hooks :: "('a, 'w) step_hooks list \<Rightarrow> bool" where
  "canonical_hooks hs = (map hk_step hs = take (length hs) CANONICAL_ORDER)"

lemma validate_order_from:
  "validate_order i hs = Inr () \<longleftrightarrow>
     (\<forall>k < length hs. i + k < 17 \<and> hk_step (hs ! k) = CANONICAL_ORDER ! (i + k))"
proof (induction hs arbitrary: i)
  case (Cons h hs)
  have "(\<forall>k < length (h # hs). i + k < 17 \<and> hk_step ((h # hs) ! k) = CANONICAL_ORDER ! (i + k))
    \<longleftrightarrow> (i < 17 \<and> hk_step h = CANONICAL_ORDER ! i)
      \<and> (\<forall>k < length hs. Suc i + k < 17 \<and> hk_step (hs ! k) = CANONICAL_ORDER ! (Suc i + k))"
    by (auto simp: nth_Cons' less_Suc_eq_0_disj)
  with Cons show ?case by (auto simp del: upt_Suc)
qed simp

lemma validate_order_iff: "validate_order 0 hs = Inr () \<longleftrightarrow> canonical_hooks hs"
proof -
  have "canonical_hooks hs \<longleftrightarrow>
    (\<forall>k < length hs. k < 17 \<and> hk_step (hs ! k) = CANONICAL_ORDER ! k)"
  proof -
    have "length hs \<le> 17" if "\<forall>k < length hs. k < (17 :: nat)"
      using that by (metis less_irrefl not_le)
    then show ?thesis
      unfolding canonical_hooks_def list_eq_iff_nth_eq by (auto simp: min_def)
  qed
  with validate_order_from [of 0 hs] show ?thesis by simp
qed

lemma canonical_hooks_nth:
  "canonical_hooks hs \<Longrightarrow> i < length hs \<Longrightarrow> i < 17 \<and> hk_step (hs ! i) = CANONICAL_ORDER ! i"
  using validate_order_iff [of hs] validate_order_from [of 0 hs] by simp

section \<open>Frames\<close>

lemma notify_simps [simp]:
  "results (notify_completed ctx r s) = results s"
  "results (notify_progress ctx s) = results s"
  "replan_history (notify_completed ctx r s) = replan_history s"
  "replan_history (notify_progress ctx s) = replan_history s"
  "recovery_history (notify_completed ctx r s) = recovery_history s"
  "recovery_history (notify_progress ctx s) = recovery_history s"
  "repair_history (notify_completed ctx r s) = repair_history s"
  "repair_history (notify_progress ctx s) = repair_history s"
  "resume_candidates (notify_progress ctx s) = resume_candidates s"
  "artifacts (notify_progress ctx s) = artifacts s"
  by (simp_all add: notify_completed_def notify_progress_def)

lemma set_feedback_simps [simp]:
  "results (set_feedback srv st a b s) = results s"
  "replan_history (set_feedback srv st a b s) = replan_history s"
  "recovery_history (set_feedback srv st a b s) = recovery_history s"
  "repair_history (set_feedback srv st a b s) = repair_history s"
  "resume_candidates (set_feedback srv st a b s) = resume_candidates s"
  by (simp_all add: set_feedback_def Let_def split: option.splits)

lemma observe_recovery_simps [simp]:
  "results (observe_recovery ctx idx r s) = results s"
  "replan_history (observe_recovery ctx idx r s) = replan_history s"
  "repair_history (observe_recovery ctx idx r s) = repair_history s"
  "resume_candidates (observe_recovery ctx idx r s) = resume_candidates s"
  "length (recovery_history (observe_recovery ctx idx r s)) = length (recovery_history s)"
  "artifacts (observe_recovery ctx idx r s) = artifacts s"
  by (simp_all add: observe_recovery_def Let_def split: option.splits)

lemma update_last_turn_simps [simp]:
  "results (update_last_turn ctx e f s) = results s"
  "replan_history (update_last_turn ctx e f s) = replan_history s"
  "repair_history (update_last_turn ctx e f s) = repair_history s"
  "resume_candidates (update_last_turn ctx e f s) = resume_candidates s"
  "artifacts (update_last_turn ctx e f s) = artifacts s"
  by (simp_all add: update_last_turn_def Let_def)

lemma update_last_turn_length [simp]:
  "recovery_history s \<noteq> [] \<Longrightarrow>
   length (recovery_history (update_last_turn ctx e f s)) = length (recovery_history s)"
  by (cases "recovery_history s" rule: rev_cases) (simp_all add: update_last_turn_def Let_def)

lemma update_replan_simps [simp]:
  "results (update_replan ctx e i f s) = results s"
  "recovery_history (update_replan ctx e i f s) = recovery_history s"
  "repair_history (update_replan ctx e i f s) = repair_history s"
  "length (replan_history (update_replan ctx e i f s)) = length (replan_history s)"
  by (simp_all add: update_replan_def Let_def)

lemma complete_step_simps [simp]:
  "results (complete_step ctx r s) = results s"
  "recovery_history (complete_step ctx r s) = recovery_history s"
  "repair_history (complete_step ctx r s) = repair_history s"
  "length (replan_history (complete_step ctx r s)) = length (replan_history s)"
  by (simp_all add: complete_step_def Let_def split: option.splits)

lemma emit_failures_simps [simp]:
  "results (emit_failures h ctx nm fs s) = results s"
  "repair_history (emit_failures h ctx nm fs s) = repair_history s"
  "recovery_history (emit_failures h ctx nm fs s) = recovery_history s"
  using emit_failures_frame [of s h ctx nm fs] by (simp_all add: same_ledger_def)

lemma give_up_simps [simp]:
  "results (give_up h ctx r back turn s) = results s"
  "repair_history (give_up h ctx r back turn s) = repair_history s"
  by (simp_all add: give_up_def retire_turn_def retire_pending_def split: option.splits)

lemma roll_back_to_simps [simp]:
  "results (roll_back_to back s) = filter (\<lambda>x. order_index (sr_step x) < order_index back) (results s)"
  "replan_history (roll_back_to back s) = replan_history s"
  "recovery_history (roll_back_to back s) = recovery_history s"
  "repair_history (roll_back_to back s) = repair_history s"
  by (simp_all add: roll_back_to_def Let_def)

lemma schedule_replan_simps [simp]:
  "results (schedule_replan srv ctx r back d turn s) =
     filter (\<lambda>x. order_index (sr_step x) < order_index back) (results s)"
  "repair_history (schedule_replan srv ctx r back d turn s) = repair_history s"
  "length (replan_history (schedule_replan srv ctx r back d turn s)) = Suc (length (replan_history s))"
  by (simp_all add: schedule_replan_def Let_def)

lemma schedule_replan_turns:
  "(turn \<longrightarrow> recovery_history s \<noteq> []) \<Longrightarrow>
   length (recovery_history (schedule_replan srv ctx r back d turn s)) = length (recovery_history s)"
  by (auto simp: schedule_replan_def Let_def)

lemma act_locally_simps [simp]:
  "results (act_locally ctx r d s) = butlast (results s)"
  "replan_history (act_locally ctx r d s) = replan_history s"
  "repair_history (act_locally ctx r d s) = repair_history s"
  by (simp_all add: act_locally_def Let_def)

lemma act_locally_turns:
  "recovery_history s \<noteq> [] \<Longrightarrow>
   length (recovery_history (act_locally ctx r d s)) = length (recovery_history s)"
  by (simp add: act_locally_def Let_def)

text \<open>One execution, with its retries.\<close>

definition exec_frame ::
    "('a, 'w) step_hooks \<Rightarrow> ('a, 'w) pipeline_context \<Rightarrow> ('a, 'w) pipeline_state
     \<Rightarrow> exn + step_result \<Rightarrow> ('a, 'w) pipeline_state \<Rightarrow> bool" where
  "exec_frame h ctx s q s' =
     (replan_history s' = replan_history s \<and> recovery_history s' = recovery_history s
      \<and> resume_candidates s' = (resume_candidates s)(hk_step h := None)
      \<and> (case q of Inl _ \<Rightarrow> results s' = results s
          | Inr r \<Rightarrow> results s' = results s @ [r] \<and> sr_step r = hk_step h)
      \<and> design_count s' \<le> max (design_count s) (max_total_design_repair_attempts ctx)
      \<and> harness_count s' \<le> max (harness_count s) (max_total_repair_attempts ctx))"

lemma exec_frame_intermediate:
  assumes "exec_frame h ctx s (Inl e) t" and "exec_frame h ctx (t\<lparr>repair_feedback := x\<rparr>) q s'"
  shows "exec_frame h ctx s q s'"
  using assms by (auto simp: exec_frame_def design_count_def harness_count_def split: sum.splits)

lemma exec_frame_feedback [simp]:
  "exec_frame h ctx s q (t\<lparr>repair_feedback := x\<rparr>) \<longleftrightarrow> exec_frame h ctx s q t"
  by (cases q) (simp_all add: exec_frame_def design_count_def harness_count_def)

lemma sr_step_exn_result [simp]: "sr_step (exn_result st e) = st"
  by (simp add: exn_result_def Let_def)

lemma exec_frame_captured:
  assumes "exec_frame h ctx s (Inl e) t"
  shows "exec_frame h ctx s (Inr (exn_result (hk_step h) e))
    (t\<lparr>results := results t @ [exn_result (hk_step h) e]\<rparr>)"
  using assms by (simp add: exec_frame_def design_count_def harness_count_def)

lemma execute_step_frame:
  "execute_step n h ctx clear s = (q, s') \<Longrightarrow> exec_frame h ctx s q s'"
proof (induction n arbitrary: s)
  case 0
  obtain p t where run: "base_run h ctx s = (p, t)" by (cases rule: prod.exhaust)
  then have fr: "exec_frame h ctx s p t"
    using base_run_frame [OF run] by (auto simp: exec_frame_def split: sum.splits)
  from 0 run show ?case
    using fr
    by (auto simp: execute_step.simps [of 0] Let_def exec_frame_captured
        split: sum.splits if_splits)
next
  case (Suc n)
  obtain p t where run: "base_run h ctx s = (p, t)" by (cases rule: prod.exhaust)
  then have fr: "exec_frame h ctx s p t"
    using base_run_frame [OF run] by (auto simp: exec_frame_def split: sum.splits)
  let ?clr = "\<lambda>s. if clear then s\<lparr>repair_feedback := []\<rparr> else s"
  show ?case
  proof (cases "\<exists>e. p = Inl e \<and> capture_step_errors ctx
      \<and> fe_recoverability (exn_failure (hk_step h) e) = RETRYABLE")
    case True
    then obtain e where p: "p = Inl e" by blast
    from True Suc.prems run p have "execute_step n h ctx clear (?clr t) = (q, s')"
      by (simp add: execute_step.simps [of "Suc n"] Let_def)
    from Suc.IH [OF this] have "exec_frame h ctx (t\<lparr>repair_feedback := repair_feedback (?clr t)\<rparr>) q s'"
      by (cases clear) simp_all
    with fr p show ?thesis using exec_frame_intermediate by blast
  next
    case False
    with Suc.prems run show ?thesis
      using fr
      by (auto simp: execute_step.simps [of "Suc n"] Let_def exec_frame_captured
          split: sum.splits if_splits)
  qed
qed

section \<open>Planning a turn\<close>

lemma plan_agentic_recovery_frame:
  "plan_agentic_recovery srv ctx r a b allowed sug loc s = (q, s') \<Longrightarrow> \<exists>w. s' = s\<lparr>world := w\<rparr>"
  by (auto simp: plan_agentic_recovery_def Let_def split: prod.splits if_splits intro: exI [of _ "world s"])

text \<open>A decision that passes validation respects the targets and the moves on offer.\<close>

definition authorized ::
    "step_result \<Rightarrow> pipeline_step list \<Rightarrow> bool \<Rightarrow> recovery_decision \<Rightarrow> bool" where
  "authorized r allowed loc d =
     ((rd_action d = REPLAN_UPSTREAM \<longrightarrow> (\<exists>t \<in> set allowed. rd_target_step d = Some (step_value t)))
      \<and> (rd_action d = LOCAL_REPAIR \<longrightarrow> loc)
      \<and> (rd_action d = ASK_HUMAN \<longrightarrow>
           (\<forall>f \<in> set (sr_failures r). fe_origin f = EXTERNAL_EVIDENCE))
      \<and> (rd_action d = STOP \<longrightarrow> (allowed = [] \<and> \<not> loc)
           \<or> (\<exists>f \<in> set (sr_failures r). fe_recoverability f = HARD_CONFLICT)))"

lemma valid_imp_authorized: "\<not> invalid_action r allowed loc d \<Longrightarrow> authorized r allowed loc d"
  by (cases "rd_action d") (auto simp: invalid_action_def authorized_def Let_def)

lemma fallback_authorized:
  "fallback_recovery_decision r allowed sug loc = Inr d \<Longrightarrow> authorized r allowed loc d"
  using fallback_action [of r allowed sug loc d] by (auto simp: authorized_def)

lemma bind_decision_simps [simp]:
  "rd_action (bind_decision srv r f d) = rd_action d"
  "rd_tool_name (bind_decision srv r f d) = bound_tool (rd_action d)"
  by (simp_all add: bind_decision_def)

lemma authorized_bind [simp]:
  "authorized r allowed loc (bind_decision srv r f d) = authorized r allowed loc d"
  by (simp add: authorized_def) (auto simp: bind_decision_def)

lemma plan_turn_frame:
  assumes "plan_turn srv h ctx r allowed sug s = (q, s')"
  shows "results s' = results s \<and> replan_history s' = replan_history s
    \<and> repair_history s' = repair_history s \<and> resume_candidates s' = resume_candidates s
    \<and> artifacts s' = artifacts s
    \<and> (case q of Inl _ \<Rightarrow> recovery_history s' = recovery_history s
        | Inr d \<Rightarrow> authorized r allowed (local_repair_available h s r) d
            \<and> (\<exists>t. recovery_history s' = recovery_history s @ [t] \<and> rt_decision t = d
                 \<and> rt_step t = step_value (sr_step r)))"
proof -
  obtain p s1 where plan: "plan_agentic_recovery srv ctx r (artifacts s (hk_step h)) (step_score r)
      allowed sug (local_repair_available h s r) s = (p, s1)" by (cases rule: prod.exhaust)
  then obtain w where s1: "s1 = s\<lparr>world := w\<rparr>" using plan_agentic_recovery_frame by blast
  show ?thesis
    using assms fallback_authorized [of r allowed sug "local_repair_available h s r"]
      valid_imp_authorized [of r allowed "local_repair_available h s r"]
    unfolding plan_turn_def Let_def plan prod.case s1
    by (auto split: sum.splits prod.splits if_splits)
qed

section \<open>The loop invariant\<close>

text \<open>
  What each mode allows, stated apart from the code: an unblocked step is passed; a blocked one only
  in an artifact-first run that does not repair its release, and only if its execution succeeded.
  The check of a resumed state is more liberal: it admits blocked results of any artifact-first run.
\<close>

definition continued :: "('a, 'w) pipeline_context \<Rightarrow> step_result \<Rightarrow> bool" where
  "continued ctx r \<longleftrightarrow> (sr_blocked r \<longrightarrow> artifact_first ctx \<and> \<not> repair_release_issues ctx \<and> \<not> sr_execution_blocked r)"

definition resumable :: "('a, 'w) pipeline_context \<Rightarrow> step_result \<Rightarrow> bool" where
  "resumable ctx r \<longleftrightarrow> (sr_blocked r \<longrightarrow> artifact_first ctx \<and> \<not> sr_execution_blocked r)"

lemma can_continue_iff: "can_continue ctx r \<longleftrightarrow> continued ctx r"
  by (auto simp: can_continue_def continued_def)

text \<open>Results kept from those the run started with, followed by results that the mode allows to continue from.\<close>

definition continues :: "('a, 'w) pipeline_context \<Rightarrow> step_result list \<Rightarrow> step_result list \<Rightarrow> bool" where
  "continues ctx old rs \<longleftrightarrow> (\<exists>kept new. rs = kept @ new \<and> kept = take (length kept) old
     \<and> list_all (resumable ctx) kept \<and> list_all (continued ctx) new)"

lemma continues_refl: "list_all (resumable ctx) rs \<Longrightarrow> continues ctx rs rs"
  unfolding continues_def by (intro exI [of _ rs] exI [of _ "[]"]) simp

lemma continues_snoc: "continues ctx old rs \<Longrightarrow> continued ctx r \<Longrightarrow> continues ctx old (rs @ [r])"
proof -
  assume "continues ctx old rs" and r: "continued ctx r"
  then obtain kept new where k: "rs = kept @ new" "kept = take (length kept) old" "list_all (resumable ctx) kept" "list_all (continued ctx) new"
    unfolding continues_def by blast
  have "rs @ [r] = kept @ (new @ [r])" "list_all (continued ctx) (new @ [r])" using k(1,4) r by simp_all
  with k(2,3) show ?thesis unfolding continues_def by blast
qed

lemma continues_take: "continues ctx old rs \<Longrightarrow> continues ctx old (take n rs)"
proof -
  assume "continues ctx old rs"
  then obtain kept new where k: "rs = kept @ new" "kept = take (length kept) old" "list_all (resumable ctx) kept" "list_all (continued ctx) new"
    unfolding continues_def by blast
  have "take n kept = take (length (take n kept)) old" using k(2) by (metis length_take take_take min.commute)
  moreover have "take n rs = take n kept @ take (n - length kept) new" using k(1) by simp
  moreover have "list_all (resumable ctx) (take n kept)" "list_all (continued ctx) (take (n - length kept) new)"
    using k(3,4) by (auto simp: list_all_iff dest: in_set_takeD)
  ultimately show ?thesis unfolding continues_def by blast
qed

lemma continues_butlast: "continues ctx old rs \<Longrightarrow> continues ctx old (butlast rs)"
  by (simp add: butlast_conv_take continues_take)

definition canonical_prefix :: "('a, 'w) pipeline_state \<Rightarrow> bool" where
  "canonical_prefix s = (completed s = take (length (results s)) CANONICAL_ORDER)"

definition loop_inv ::
    "('a, 'w) pipeline_context \<Rightarrow> step_result list \<Rightarrow> nat \<Rightarrow> pipeline_step set \<Rightarrow> ('a, 'w) pipeline_state \<Rightarrow> bool" where
  "loop_inv ctx old index done s =
     (canonical_prefix s \<and> index \<le> length (results s) \<and> done = set (completed s)
      \<and> continues ctx old (results s))"

text \<open>The state in which a pass stops, returning or raising.\<close>

definition stopped_inv :: "('a, 'w) pipeline_context \<Rightarrow> step_result list \<Rightarrow> ('a, 'w) pipeline_state \<Rightarrow> bool" where
  "stopped_inv ctx old s = (canonical_prefix s \<and> continues ctx old (butlast (results s)))"

definition covered ::
    "('a, 'w) step_hooks list \<Rightarrow> ('a, 'w) pipeline_context \<Rightarrow> step_result list \<Rightarrow> nat \<Rightarrow> ('a, 'w) pipeline_state \<Rightarrow> bool" where
  "covered hs ctx old limit s = (continues ctx old (results s) \<and> min (length hs) (Suc limit) \<le> length (results s))"

definition ends_blocked :: "('a, 'w) pipeline_context \<Rightarrow> ('a, 'w) pipeline_state \<Rightarrow> bool" where
  "ends_blocked ctx s = (results s \<noteq> [] \<and> \<not> continued ctx (last (results s)))"

lemma prefix_length_le: "canonical_prefix s \<Longrightarrow> length (results s) \<le> 17"
proof -
  assume "canonical_prefix s"
  then have "length (completed s) = min (length (results s)) 17"
    by (simp add: canonical_prefix_def)
  then show ?thesis by (simp add: completed_def)
qed

lemma prefix_mem_iff:
  "canonical_prefix s \<Longrightarrow> st \<in> set (completed s) \<longleftrightarrow> order_index st < length (results s)"
  by (simp add: canonical_prefix_def in_take_CANONICAL_iff)

lemma prefix_snoc:
  assumes "canonical_prefix s" and "length (results s) < 17"
    and "results s' = results s @ [r]" and "sr_step r = CANONICAL_ORDER ! length (results s)"
  shows "canonical_prefix s'"
  using assms by (simp add: canonical_prefix_def completed_def take_Suc_conv_app_nth)

lemma completed_nth: "i < length (results s) \<Longrightarrow> completed s ! i = sr_step (results s ! i)"
  by (simp add: completed_def)

lemma filter_index_take:
  assumes "\<forall>i < length xs. P (xs ! i) \<longleftrightarrow> i < k"
  shows "filter P xs = take k xs"
  using assms
proof (induction xs arbitrary: k)
  case (Cons x xs)
  show ?case
  proof (cases k)
    case 0
    with Cons.prems have "\<forall>y \<in> set (x # xs). \<not> P y" by (metis in_set_conv_nth not_less0)
    with 0 show ?thesis by (simp add: filter_empty_conv)
  next
    case (Suc m)
    have "\<forall>i < length xs. P (xs ! i) \<longleftrightarrow> i < m" using Cons.prems Suc by auto
    from Cons.IH [OF this] Suc Cons.prems show ?thesis by force
  qed
qed simp

lemma prefix_filter:
  assumes "canonical_prefix s"
  shows "filter (\<lambda>x. order_index (sr_step x) < k) (results s) = take k (results s)"
proof (rule filter_index_take, intro allI impI)
  fix i assume i: "i < length (results s)"
  with prefix_length_le [OF assms] have "i < 17" by simp
  have "sr_step (results s ! i) = CANONICAL_ORDER ! i"
    using assms i by (simp flip: completed_nth add: canonical_prefix_def)
  with \<open>i < 17\<close> show "order_index (sr_step (results s ! i)) < k \<longleftrightarrow> i < k" by simp
qed

lemma prefix_take:
  assumes "canonical_prefix s" and "results s' = take k (results s)"
  shows "canonical_prefix s'"
  using assms by (simp add: canonical_prefix_def completed_def take_map [symmetric] min.commute)

section \<open>One pass\<close>

text \<open>
  A pass that executes a step at \<open>index\<close>: the state in which the result, if any, has been
  appended, and how the pass goes on from there.
\<close>

definition blocked_outcome ::
    "('a, 'w) step_hooks list \<Rightarrow> ('a, 'w) pipeline_context \<Rightarrow> nat \<Rightarrow> ('a, 'w) pipeline_state
     \<Rightarrow> ('a, 'w) loop_out \<Rightarrow> bool" where
  "blocked_outcome hs ctx index s out =
     (case out of
        Next i d s' \<Rightarrow> i \<le> index \<and> d = set (completed s')
          \<and> results s' = take i (results s) \<and> repair_history s' = repair_history s
      | Finished s' \<Rightarrow> results s' = results s \<and> repair_history s' = repair_history s
      | Raised e s' \<Rightarrow> results s' = results s \<and> repair_history s' = repair_history s)"

lemma replan_or_stop_outcome:
  assumes "canonical_prefix s" and "length (results s) = Suc index" and "order_index (sr_step r) = index"
  shows "blocked_outcome hs ctx index s (replan_or_stop srv h ctx r d sug s)"
proof -
  have "can_replan ctx s r (Some tgt) \<Longrightarrow> order_index tgt \<le> index" for tgt
    using assms(3) by (simp add: can_replan_def)
  with prefix_filter [OF assms(1)] show ?thesis
    by (auto simp: replan_or_stop_def blocked_outcome_def Let_def split: option.splits)
qed

lemma canonical_prefix_cong: "results s' = results s \<Longrightarrow> canonical_prefix s' = canonical_prefix s"
  by (simp add: canonical_prefix_def completed_def)

lemma blocked_outcome_cong:
  "results s' = results s \<Longrightarrow> repair_history s' = repair_history s \<Longrightarrow>
   blocked_outcome hs ctx index s' out = blocked_outcome hs ctx index s out"
  by (cases out) (simp_all add: blocked_outcome_def)

lemma handle_blocked_outcome:
  assumes "canonical_prefix s" and "length (results s) = Suc index" and "order_index (sr_step r) = index"
  shows "blocked_outcome hs ctx index s (handle_blocked srv h ctx index r s)"
proof (cases "agentic_budget_available ctx s r")
  case False
  with replan_or_stop_outcome [OF assms] show ?thesis by (simp add: handle_blocked_def Let_def)
next
  case True
  obtain q s1 where plan:
    "plan_turn srv h ctx r (allowed_targets ctx s r) (suggested_rollback h ctx s r) s = (q, s1)"
    by (cases rule: prod.exhaust)
  note fr = plan_turn_frame [OF plan]
  show ?thesis
  proof (cases q)
    case (Inl e)
    with True plan fr show ?thesis by (simp add: handle_blocked_def Let_def blocked_outcome_def)
  next
    case (Inr d)
    have "blocked_outcome hs ctx index s1 (replan_or_stop srv h ctx r (Some d) sug s1)" for sug
      using replan_or_stop_outcome assms fr canonical_prefix_cong by metis
    then have "blocked_outcome hs ctx index s (replan_or_stop srv h ctx r (Some d) sug s1)" for sug
      using fr blocked_outcome_cong by metis
    moreover have "butlast (results s) = take index (results s)"
      using assms by (simp add: butlast_conv_take)
    ultimately show ?thesis
      using True plan fr Inr by (simp add: handle_blocked_def Let_def blocked_outcome_def)
  qed
qed

definition pass_outcome ::
    "('a, 'w) step_hooks list \<Rightarrow> ('a, 'w) pipeline_context \<Rightarrow> step_result list \<Rightarrow> nat \<Rightarrow> ('a, 'w) pipeline_state
     \<Rightarrow> ('a, 'w) loop_out \<Rightarrow> bool" where
  "pass_outcome hs ctx old limit s out =
     (case out of
        Next i d s' \<Rightarrow> loop_inv ctx old i d s'
          \<and> length (results s') \<le> max (length (results s)) (Suc limit)
      | Finished s' \<Rightarrow> stopped_inv ctx old s' \<and> (covered hs ctx old limit s' \<or> ends_blocked ctx s')
          \<and> length (results s') \<le> max (length (results s)) (Suc limit)
      | Raised e s' \<Rightarrow> stopped_inv ctx old s'
          \<and> length (results s') \<le> max (length (results s)) (Suc limit))"

lemma blocked_outcome_pass:
  assumes out: "blocked_outcome hs ctx index s3 out"
    and pre3: "canonical_prefix s3" and res: "results s3 = results s @ [r]"
    and acc: "continues ctx old (results s)" and bl: "\<not> can_continue ctx r"
    and idx: "index = length (results s)" "index \<le> limit"
  shows "pass_outcome hs ctx old limit s out"
proof -
  have stop: "stopped_inv ctx old s' \<and> ends_blocked ctx s'" if "results s' = results s3" for s'
    using that pre3 res acc bl canonical_prefix_cong [OF that]
    by (simp add: stopped_inv_def ends_blocked_def can_continue_iff)
  show ?thesis
  proof (cases out)
    case (Next i d s')
    with out have "results s' = take i (results s3)" "i \<le> index" "d = set (completed s')"
      by (simp_all add: blocked_outcome_def)
    moreover from this prefix_take [OF pre3] have "canonical_prefix s'" by blast
    ultimately show ?thesis
      using Next res acc idx continues_take [OF acc, of i] by (auto simp: pass_outcome_def loop_inv_def)
  next
    case (Finished s')
    with out stop [of s'] res idx show ?thesis by (simp add: pass_outcome_def blocked_outcome_def)
  next
    case (Raised e s')
    with out stop [of s'] res idx show ?thesis by (simp add: pass_outcome_def blocked_outcome_def)
  qed
qed

lemma run_and_dispatch_outcome:
  assumes inv: "loop_inv ctx old index done s" and idx: "index = length (results s)" "index < 17"
    and h: "hk_step h = CANONICAL_ORDER ! index" and lim: "index \<le> limit"
  shows "pass_outcome hs ctx old limit s (run_and_dispatch srv h ctx index done s)"
proof -
  have base: "stopped_inv ctx old s"
    using inv by (simp add: loop_inv_def stopped_inv_def continues_butlast)
  show ?thesis
  proof (cases "active_replan s (hk_step h)")
    case (Inl e)
    with base show ?thesis by (simp add: run_and_dispatch_def pass_outcome_def)
  next
    case (Inr arp)
    let ?arc = "active_recovery s (hk_step h)"
    let ?s1 = "set_feedback srv (hk_step h) arp ?arc s"
    obtain q s2 where ex: "execute_step (nat (execution_retry_attempts ctx)) h ctx
        (arp \<noteq> None \<or> ?arc \<noteq> None) ?s1 = (q, s2)" by (cases rule: prod.exhaust)
    note fr = execute_step_frame [OF ex, unfolded exec_frame_def]
    show ?thesis
    proof (cases q)
      case (Inl e)
      with fr have "results s2 = results s" by simp
      with Inl base Inr ex show ?thesis
        by (simp add: run_and_dispatch_def pass_outcome_def stopped_inv_def Let_def
            canonical_prefix_def completed_def)
    next
      case q: (Inr r)
      let ?s3 = "observe_recovery ctx ?arc r s2"
      have res: "results ?s3 = results s @ [r]" and st: "sr_step r = CANONICAL_ORDER ! index"
        using fr q h by simp_all
      have pre3: "canonical_prefix ?s3"
        using prefix_snoc [OF _ _ res] inv idx st by (simp add: loop_inv_def)
      show ?thesis
      proof (cases "can_continue ctx r")
        case True
        have "loop_inv ctx old (Suc index) (insert (hk_step h) done) (complete_step ctx r ?s3)"
          using inv res idx st h canonical_prefix_cong [of "complete_step ctx r ?s3" ?s3] pre3
            continues_snoc [of ctx old "results s" r] True can_continue_iff [of ctx r]
          by (auto simp: loop_inv_def completed_def)
        with True Inr ex q res idx lim show ?thesis
          by (simp add: run_and_dispatch_def pass_outcome_def Let_def)
      next
        case False
        have "blocked_outcome hs ctx index ?s3 (handle_blocked srv h ctx index r ?s3)"
          by (rule handle_blocked_outcome) (use pre3 res idx st in simp_all)
        then have "pass_outcome hs ctx old limit s (handle_blocked srv h ctx index r ?s3)"
          by (rule blocked_outcome_pass [OF _ pre3 res])
            (use inv False idx lim in \<open>simp_all add: loop_inv_def\<close>)
        with False Inr ex q show ?thesis by (simp add: run_and_dispatch_def Let_def)
      qed
    qed
  qed
qed

lemma pipeline_iteration_outcome:
  assumes hooks: "canonical_hooks hs" and inv: "loop_inv ctx old index done s"
  shows "pass_outcome hs ctx old limit s (pipeline_iteration srv hs ctx limit index done s)"
proof -
  have base: "stopped_inv ctx old s"
    using inv by (simp add: loop_inv_def stopped_inv_def continues_butlast)
  show ?thesis
  proof (cases "index < length hs")
    case False
    with base inv show ?thesis
      by (auto simp: pipeline_iteration_def pass_outcome_def covered_def loop_inv_def)
  next
    case True
    note h = canonical_hooks_nth [OF hooks True]
    have oi: "order_index (hk_step (hs ! index)) = index" using h by simp
    show ?thesis
    proof (cases "index > limit")
      case True
      with \<open>index < length hs\<close> oi base inv show ?thesis
        by (auto simp: pipeline_iteration_def pass_outcome_def covered_def loop_inv_def Let_def)
    next
      case False
      show ?thesis
      proof (cases "hk_step (hs ! index) \<in> done")
        case True
        then have "index < length (results s)"
          using inv prefix_mem_iff [of s "hk_step (hs ! index)"] oi by (auto simp: loop_inv_def)
        with True False oi \<open>index < length hs\<close> inv show ?thesis
          by (simp add: pipeline_iteration_def pass_outcome_def loop_inv_def Let_def)
      next
        case notin: False
        then have "index = length (results s)"
          using inv prefix_mem_iff oi by (force simp: loop_inv_def)
        with notin False oi \<open>index < length hs\<close> h run_and_dispatch_outcome [OF inv] show ?thesis
          by (simp add: pipeline_iteration_def Let_def)
      qed
    qed
  qed
qed

section \<open>The whole run\<close>

definition run_outcome ::
    "('a, 'w) step_hooks list \<Rightarrow> ('a, 'w) pipeline_context \<Rightarrow> step_result list \<Rightarrow> nat \<Rightarrow> nat \<Rightarrow> exn + unit
     \<Rightarrow> ('a, 'w) pipeline_state \<Rightarrow> bool" where
  "run_outcome hs ctx old limit n q s' =
     (stopped_inv ctx old s' \<and> length (results s') \<le> max n (Suc limit)
      \<and> (q = Inr () \<longrightarrow> covered hs ctx old limit s' \<or> ends_blocked ctx s'))"

lemma pipeline_loop_outcome:
  assumes "canonical_hooks hs" and "loop_inv ctx old index done s"
    and "pipeline_loop fuel srv hs ctx limit index done s = Some (q, s')"
  shows "run_outcome hs ctx old limit (length (results s)) q s'"
  using assms(2,3)
proof (induction fuel arbitrary: index "done" s)
  case (Suc n)
  let ?out = "pipeline_iteration srv hs ctx limit index done s"
  note pass = pipeline_iteration_outcome [OF assms(1) Suc.prems(1), of limit srv]
  show ?case
  proof (cases ?out)
    case (Next i d t)
    with pass have t: "loop_inv ctx old i d t" "length (results t) \<le> max (length (results s)) (Suc limit)"
      by (simp_all add: pass_outcome_def)
    from Next Suc.prems(2) have "pipeline_loop n srv hs ctx limit i d t = Some (q, s')" by simp
    from Suc.IH [OF t(1) this] t(2) show ?thesis by (auto simp: run_outcome_def)
  next
    case (Finished t)
    with pass Suc.prems(2) show ?thesis by (simp add: pass_outcome_def run_outcome_def)
  next
    case (Raised e t)
    with pass Suc.prems(2) show ?thesis by (auto simp: pass_outcome_def run_outcome_def)
  qed
qed simp

lemma start_inv:
  assumes "\<not> prefix_error ctx s"
  shows "loop_inv ctx (results s) 0 (set (completed s)) s"
proof -
  have "list_all (resumable ctx) (results s)"
    using assms by (auto simp: prefix_error_def resumable_def list_all_iff state_blocked_def state_execution_blocked_def)
  then show ?thesis
    using assms continues_refl by (auto simp: prefix_error_def loop_inv_def canonical_prefix_def completed_def)
qed

definition run_limit :: "('a, 'w) step_hooks list \<Rightarrow> pipeline_step option \<Rightarrow> nat" where
  "run_limit hs until = (case until of Some u \<Rightarrow> order_index u | None \<Rightarrow> length hs - 1)"

text \<open>The state the loop starts from.\<close>

definition start_state ::
    "('a, 'w) pipeline_context \<Rightarrow> ('a, 'w) pipeline_state \<Rightarrow> ('a, 'w) pipeline_state" where
  "start_state ctx s =
     (if artifact_first ctx \<and> \<not> repair_release_issues ctx
      then s\<lparr>replan_history := defer_scheduled (replan_history s)\<rparr> else s)"

lemma start_state_simps [simp]:
  "results (start_state ctx s) = results s"
  "recovery_history (start_state ctx s) = recovery_history s"
  "repair_history (start_state ctx s) = repair_history s"
  "completed (start_state ctx s) = completed s"
  "prefix_error ctx' (start_state ctx s) = prefix_error ctx' s"
  by (simp_all add: start_state_def completed_def prefix_error_def state_blocked_def
      state_execution_blocked_def)

lemma pipeline_run_cases:
  "pipeline_run fuel srv hs ctx until s =
     (if \<not> canonical_hooks hs
      then Some (Inl (case validate_order 0 hs of Inl e \<Rightarrow> e | Inr _ \<Rightarrow> PipelineOrderError), s)
      else if prefix_error ctx s then Some (Inl PipelineOrderError, start_state ctx s)
      else pipeline_loop fuel srv hs ctx (run_limit hs until) 0 (set (completed s))
             (start_state ctx s))"
  using validate_order_iff [of hs]
  unfolding pipeline_run_def Let_def run_limit_def [symmetric] start_state_def [symmetric]
  by (cases "validate_order 0 hs") (auto simp: unit_eq)

section \<open>Budgets over the run\<close>

fun out_state :: "('a, 'w) loop_out \<Rightarrow> ('a, 'w) pipeline_state" where
  "out_state (Next i d s) = s"
| "out_state (Finished s) = s"
| "out_state (Raised e s) = s"

definition within_budgets ::
    "('a, 'w) pipeline_context \<Rightarrow> ('a, 'w) pipeline_state \<Rightarrow> ('a, 'w) pipeline_state \<Rightarrow> bool" where
  "within_budgets ctx s s' =
     (design_count s' \<le> max (design_count s) (max_total_design_repair_attempts ctx)
      \<and> harness_count s' \<le> max (harness_count s) (max_total_repair_attempts ctx)
      \<and> int (length (recovery_history s'))
          \<le> max (int (length (recovery_history s))) (max_total_agentic_recovery_turns ctx))"

lemma within_budgets_refl [simp]: "within_budgets ctx s s"
  by (simp add: within_budgets_def)

lemma within_budgets_trans:
  "within_budgets ctx s t \<Longrightarrow> within_budgets ctx t u \<Longrightarrow> within_budgets ctx s u"
  by (auto simp: within_budgets_def)

lemma within_budgets_cong:
  assumes "repair_history s' = repair_history s" "length (recovery_history s') = length (recovery_history s)"
  shows "within_budgets ctx t s' = within_budgets ctx t s"
  using assms by (simp add: within_budgets_def design_count_def harness_count_def)

lemma give_up_turns:
  "(turn \<longrightarrow> recovery_history s \<noteq> []) \<Longrightarrow>
   length (recovery_history (give_up h ctx r tgt turn s)) = length (recovery_history s)"
  by (simp add: give_up_def retire_turn_def retire_pending_def split: option.splits)

lemma replan_or_stop_turns:
  "(d \<noteq> None \<longrightarrow> recovery_history s \<noteq> []) \<Longrightarrow>
   length (recovery_history (out_state (replan_or_stop srv h ctx r d sug s)))
     = length (recovery_history s)"
  by (simp add: replan_or_stop_def Let_def give_up_turns schedule_replan_turns split: option.splits)

lemma handle_blocked_turns:
  "length (recovery_history (out_state (handle_blocked srv h ctx index r s))) =
     length (recovery_history s)
   \<or> (agentic_budget_available ctx s r
      \<and> length (recovery_history (out_state (handle_blocked srv h ctx index r s))) =
          Suc (length (recovery_history s)))"
proof (cases "agentic_budget_available ctx s r")
  case False
  then show ?thesis using replan_or_stop_turns [of None s] by (simp add: handle_blocked_def Let_def)
next
  case True
  obtain q s1 where plan:
    "plan_turn srv h ctx r (allowed_targets ctx s r) (suggested_rollback h ctx s r) s = (q, s1)"
    by (cases rule: prod.exhaust)
  note fr = plan_turn_frame [OF plan]
  show ?thesis
  proof (cases q)
    case (Inl e)
    with True plan fr show ?thesis by (simp add: handle_blocked_def Let_def)
  next
    case (Inr d)
    with fr obtain t where t: "recovery_history s1 = recovery_history s @ [t]" by auto
    with True plan Inr replan_or_stop_turns [of "Some d" s1] act_locally_turns [of s1]
    show ?thesis by (simp add: handle_blocked_def Let_def)
  qed
qed


text \<open>What executing the step at hand adds.\<close>

lemma run_and_dispatch_cases:
  obtains (raised) e s' where "run_and_dispatch srv h ctx index done s = Raised e s'"
      "within_budgets ctx s s'" "length (recovery_history s') = length (recovery_history s)"
  | (ran) r s3 where "within_budgets ctx s s3"
      "length (recovery_history s3) = length (recovery_history s)"
      "run_and_dispatch srv h ctx index done s =
        (if can_continue ctx r then Next (Suc index) (insert (hk_step h) done) (complete_step ctx r s3)
         else handle_blocked srv h ctx index r s3)"
proof (cases "active_replan s (hk_step h)")
  case (Inl e)
  then show thesis by (intro raised [of e s]) (simp_all add: run_and_dispatch_def)
next
  case (Inr arp)
  let ?arc = "active_recovery s (hk_step h)"
  let ?s1 = "set_feedback srv (hk_step h) arp ?arc s"
  obtain q s2 where ex: "execute_step (nat (execution_retry_attempts ctx)) h ctx
      (arp \<noteq> None \<or> ?arc \<noteq> None) ?s1 = (q, s2)" by (cases rule: prod.exhaust)
  note fr = execute_step_frame [OF ex, unfolded exec_frame_def]
  have w: "within_budgets ctx s s2" using fr
    by (simp add: within_budgets_def design_count_def harness_count_def)
  show thesis
  proof (cases q)
    case (Inl e)
    with Inr ex w fr show thesis
      by (intro raised [of e s2]) (simp_all add: run_and_dispatch_def Let_def)
  next
    case q: (Inr r)
    show thesis
    proof (rule ran)
      show "within_budgets ctx s (observe_recovery ctx ?arc r s2)"
        using w within_budgets_cong [of "observe_recovery ctx ?arc r s2" s2] by simp
      show "length (recovery_history (observe_recovery ctx ?arc r s2)) = length (recovery_history s)"
        using fr by simp
    qed (use Inr ex q in \<open>simp add: run_and_dispatch_def Let_def\<close>)
  qed
qed

lemma handle_blocked_repairs:
  "repair_history (out_state (handle_blocked srv h ctx index r s)) = repair_history s"
proof -
  have ros: "repair_history (out_state (replan_or_stop srv h ctx r d sug t)) = repair_history t" for d sug t
    by (simp add: replan_or_stop_def Let_def split: option.splits)
  show ?thesis
    using ros plan_turn_frame by (fastforce simp: handle_blocked_def Let_def split: prod.splits sum.splits)
qed

lemma handle_blocked_budget:
  "within_budgets ctx s (out_state (handle_blocked srv h ctx index r s))"
  using handle_blocked_repairs [of srv h ctx index r s] handle_blocked_turns [of srv h ctx index r s]
  by (auto simp: within_budgets_def design_count_def harness_count_def agentic_budget_available_def)

lemma pipeline_iteration_budget:
  "within_budgets ctx s (out_state (pipeline_iteration srv hs ctx limit index done s))"
proof -
  have "within_budgets ctx s (out_state (run_and_dispatch srv h ctx index done s))" for h
  proof (cases rule: run_and_dispatch_cases [of srv h ctx index "done" s])
    case (raised e s')
    then show ?thesis by simp
  next
    case (ran r s3)
    moreover have "within_budgets ctx s (complete_step ctx r s3)"
      using ran within_budgets_cong [of "complete_step ctx r s3" s3] by simp
    ultimately show ?thesis
      using within_budgets_trans [OF ran(1) handle_blocked_budget [of ctx s3 srv h index r]] by simp
  qed
  then show ?thesis by (simp add: pipeline_iteration_def Let_def)
qed

lemma pipeline_loop_budget:
  "pipeline_loop fuel srv hs ctx limit index done s = Some (q, s') \<Longrightarrow> within_budgets ctx s s'"
proof (induction fuel arbitrary: index "done" s)
  case (Suc n)
  note it = pipeline_iteration_budget [of ctx s srv hs limit index "done"]
  show ?case
  proof (cases "pipeline_iteration srv hs ctx limit index done s")
    case (Next i d t)
    with Suc.prems have "within_budgets ctx t s'" by (intro Suc.IH [of i d t]) simp
    with Next it show ?thesis using within_budgets_trans [of ctx s t s'] by simp
  qed (use Suc.prems it in simp_all)
qed simp

section \<open>Termination\<close>

text \<open>Replans happen only on a planned recovery turn.\<close>

definition replans_need_turn :: "('a, 'w) pipeline_context \<Rightarrow> bool" where
  "replans_need_turn ctx =
     (\<not> ahe_enabled ctx \<or> (artifact_first ctx \<and> \<not> repair_release_issues ctx)
      \<or> (max_replan_attempts ctx \<le> 0 \<and> replan_score ctx = None))"

definition loop_measure :: "('a, 'w) pipeline_context \<Rightarrow> nat \<Rightarrow> ('a, 'w) pipeline_state \<Rightarrow> nat" where
  "loop_measure ctx index s =
     18 * (nat (max_total_agentic_recovery_turns ctx) - length (recovery_history s)) + (17 - index)"

lemma replan_without_turn:
  assumes "replans_need_turn ctx"
  shows "\<exists>s'. replan_or_stop srv h ctx r None (suggested_rollback h ctx t r) s = Finished s'"
  using assms
  by (auto simp: replan_or_stop_def rollback_choice_def replans_need_turn_def suggested_rollback_def
      can_replan_def replan_limit_def Let_def split: option.splits)

lemma handle_blocked_measure:
  assumes need: "replans_need_turn ctx" and out: "handle_blocked srv h ctx index r s = Next i d s'"
    and "index \<le> 17"
  shows "loop_measure ctx i s' < loop_measure ctx index s"
proof -
  have av: "agentic_budget_available ctx s r"
  proof (rule ccontr)
    assume "\<not> ?thesis"
    with out replan_without_turn [OF need, of srv h r s s] show False
      by (auto simp: handle_blocked_def Let_def)
  qed
  obtain q s1 where plan:
    "plan_turn srv h ctx r (allowed_targets ctx s r) (suggested_rollback h ctx s r) s = (q, s1)"
    by (cases rule: prod.exhaust)
  with av out plan_turn_frame [OF plan] obtain dd t where q: "q = Inr dd"
    and t: "recovery_history s1 = recovery_history s @ [t]"
    by (auto simp: handle_blocked_def Let_def split: sum.splits)
  have "length (recovery_history s') = Suc (length (recovery_history s))"
    using out av plan q t act_locally_turns [of s1 ctx r dd]
      replan_or_stop_turns [of "Some dd" s1 srv h ctx r "suggested_rollback h ctx s r"]
    by (auto simp: handle_blocked_def Let_def split: if_splits)
  moreover have "length (recovery_history s) < nat (max_total_agentic_recovery_turns ctx)"
    using av by (simp add: agentic_budget_available_def) linarith
  ultimately show ?thesis using \<open>index \<le> 17\<close> by (simp add: loop_measure_def)
qed

lemma pipeline_iteration_measure:
  assumes need: "replans_need_turn ctx" and hooks: "canonical_hooks hs"
    and out: "pipeline_iteration srv hs ctx limit index done s = Next i d s'"
  shows "loop_measure ctx i s' < loop_measure ctx index s"
proof -
  from out have idx: "index < length hs" by (auto simp: pipeline_iteration_def split: if_splits)
  with canonical_hooks_nth [OF hooks] have lt: "index < 17" by blast
  let ?h = "hs ! index"
  show ?thesis
  proof (cases "hk_step ?h \<in> done")
    case True
    with out idx lt show ?thesis
      by (auto simp: pipeline_iteration_def loop_measure_def Let_def split: if_splits)
  next
    case False
    with out idx have run: "run_and_dispatch srv ?h ctx index done s = Next i d s'"
      by (auto simp: pipeline_iteration_def Let_def split: if_splits)
    then show ?thesis
    proof (cases rule: run_and_dispatch_cases [of srv ?h ctx index "done" s])
      case (ran r s3)
      show ?thesis
      proof (cases "can_continue ctx r")
        case True
        with run ran lt show ?thesis by (auto simp: loop_measure_def)
      next
        case False
        with run ran have "handle_blocked srv ?h ctx index r s3 = Next i d s'" by simp
        from handle_blocked_measure [OF need this] lt ran(2) show ?thesis
          by (simp add: loop_measure_def)
      qed
    qed simp
  qed
qed

lemma pipeline_loop_terminates:
  assumes need: "replans_need_turn ctx" and hooks: "canonical_hooks hs"
    and fuel: "loop_measure ctx index s < fuel"
  shows "\<exists>out. pipeline_loop fuel srv hs ctx limit index done s = Some out"
  using fuel
proof (induction fuel arbitrary: index "done" s)
  case (Suc n)
  show ?case
  proof (cases "pipeline_iteration srv hs ctx limit index done s")
    case (Next i d t)
    from pipeline_iteration_measure [OF need hooks this] Suc.prems have "loop_measure ctx i t < n" by simp
    from Suc.IH [OF this, of d] Next show ?thesis by simp
  qed simp_all
qed simp

lemma loop_measure_bound:
  "loop_measure ctx index s < 18 * (nat (max_total_agentic_recovery_turns ctx) + 1)"
  by (simp add: loop_measure_def)

section \<open>The replan budget\<close>

lemma prior_replans_fresh:
  assumes "\<forall>p \<in> set (replan_history s). rp_fingerprint p \<noteq> artifact_fingerprint ctx (artifacts s tgt)"
  shows "prior_replans ctx s r (Some tgt) = []"
  using assms by (auto simp: prior_replans_def filter_empty_conv)

end
