(* ===== verification/Resume.thy ===== *)
theory Resume
  imports Pipeline_Run
begin

text \<open>
  \<open>restore_pipeline_state\<close> of \<open>orchestration/pipeline.py\<close>: rebuild the state of a run from
  a checkpoint, keeping the longest prefix that still passes the current gates.

  What the contract classes of pydantic do (\<open>model_validate\<close>), and what the checkpoint
  of the connection synthesis says of itself, are the fields of \<open>resume_services\<close>; the
  steps of the pipeline (\<open>ALL_STEPS\<close>) are an argument.
\<close>

section \<open>Inputs and services\<close>

record resume_inputs =
  ri_requirement_text :: string
  ri_project_name :: string
  ri_artifacts :: pydict
  ri_steps :: "pydict list"
  ri_revision :: int
  ri_repair_history :: "pyval list"
  ri_replan_history :: "pyval list"
  ri_recovery_history :: "pyval list"
  ri_capability_gaps :: "pyval list"
  ri_resume_candidates :: pydict
  ri_checkpoint :: "pyval option"
  ri_report :: "pyval option"
  ri_release_step :: string
  ri_release_digest :: string
  ri_invalidate_from :: "pipeline_step option"
  ri_artifact_first :: bool

record 'a resume_services =
  validate_artifact :: "pipeline_step \<Rightarrow> pyval \<Rightarrow> exn + 'a"
  raw_text_of :: "'a \<Rightarrow> string option"
  with_raw_text :: "'a \<Rightarrow> string \<Rightarrow> 'a"
  is_topology_plan :: "'a \<Rightarrow> bool"
  is_selection_plan :: "'a \<Rightarrow> bool"
  validate_repair :: "pyval \<Rightarrow> exn + repair_record"
  validate_replan :: "pyval \<Rightarrow> exn + replan_record"
  validate_recovery :: "pyval \<Rightarrow> exn + recovery_turn"
  validate_gap :: "pyval \<Rightarrow> exn + capability_gap"
  validate_report :: "pyval \<Rightarrow> exn + pyval"
  report_resumable :: "pyval \<Rightarrow> bool"
  validate_checkpoint :: "pyval \<Rightarrow> exn + pyval"
  checkpoint_matches :: "pyval \<Rightarrow> 'a \<Rightarrow> 'a \<Rightarrow> bool"
  checkpoint_pending :: "pyval \<Rightarrow> bool"
  str_container :: "pyval \<Rightarrow> string"

section \<open>Error signatures\<close>

type_synonym error_signature = "string \<times> string \<times> string \<times> bool"

definition signature_of_saved :: "(pyval \<Rightarrow> string) \<Rightarrow> pydict \<Rightarrow> error_signature option" where
  "signature_of_saved cs d =
     (let severity = lower (strip (py_str_by cs (get_or d ''severity'' (PStr ''error''))))
      in if severity \<noteq> ''error'' then None
         else Some (strip (py_str_by cs (get_or d ''name'' (PStr []))), severity,
                    strip (py_str_by cs (get_or d ''message'' (PStr []))),
                    py_truth (get_or d ''blocks_execution'' (PBool False))))"

fun collect_signatures :: "(pyval \<Rightarrow> string) \<Rightarrow> pyval list \<Rightarrow> error_signature set option" where
  "collect_signatures cs [] = Some {}"
| "collect_signatures cs (PDict d # vs) =
     (case collect_signatures cs vs of
        None \<Rightarrow> None
      | Some S \<Rightarrow> Some (case signature_of_saved cs d of None \<Rightarrow> S | Some x \<Rightarrow> insert x S))"
| "collect_signatures cs (v # vs) = None"

definition saved_error_signatures :: "(pyval \<Rightarrow> string) \<Rightarrow> pydict \<Rightarrow> error_signature set option" where
  "saved_error_signatures cs saved =
     (case map_of saved ''failed_checks'' of
        Some (PList vs) \<Rightarrow> collect_signatures cs vs
      | _ \<Rightarrow> None)"

definition current_error_signatures :: "check_result list \<Rightarrow> error_signature set" where
  "current_error_signatures cs =
     set (map (\<lambda>c. (strip (ck_name c), ''error'', strip (ck_message c), blocks_execution c))
            (filter error_check cs))"

section \<open>Histories\<close>

definition restored_report :: "'a resume_services \<Rightarrow> resume_inputs \<Rightarrow> pyval option" where
  "restored_report srv inp =
     (case ri_report inp of
        Some (PDict d) \<Rightarrow> (case validate_report srv (PDict d) of Inr x \<Rightarrow> Some x | Inl _ \<Rightarrow> None)
      | _ \<Rightarrow> None)"

text \<open>The state before any step is restored; a record that does not validate raises.\<close>

definition initial_state ::
    "'a resume_services \<Rightarrow> resume_inputs \<Rightarrow> 'w \<Rightarrow> exn + ('a, 'w) pipeline_state" where
  "initial_state srv inp w =
     bind_res (map_res (validate_repair srv) (ri_repair_history inp)) (\<lambda>repairs.
     bind_res (map_res (validate_replan srv) (ri_replan_history inp)) (\<lambda>replans.
     bind_res (map_res (validate_recovery srv) (ri_recovery_history inp)) (\<lambda>recoveries.
     bind_res (map_res (validate_gap srv) (ri_capability_gaps inp)) (\<lambda>gaps.
     bind_res (if ri_release_step inp = [] then Inr None
               else case step_of_value (ri_release_step inp) of
                      None \<Rightarrow> Inl (ValueError (ri_release_step inp)) | Some st \<Rightarrow> Inr (Some st)) (\<lambda>rel.
       Inr \<lparr>requirement_text = ri_requirement_text inp, project_name = ri_project_name inp,
            artifacts = (\<lambda>_. None), results = [], revision = max 0 (ri_revision inp),
            repair_history = repairs, replan_history = replans, recovery_history = recoveries,
            capability_gaps = gaps, resume_candidates = (\<lambda>_. None),
            connection_checkpoint = None, connection_report = restored_report srv inp,
            release_resume_step = rel, release_resume_token_digest = ri_release_digest inp,
            repair_feedback = [], world = w, trace = []\<rparr>)))))"

definition connection_contract_invalidated :: "resume_inputs \<Rightarrow> bool" where
  "connection_contract_invalidated inp =
     (case ri_invalidate_from inp of
        None \<Rightarrow> False | Some t \<Rightarrow> order_index t \<le> order_index SCH_CONNECTIONS)"

definition invalidate_history ::
    "resume_inputs \<Rightarrow> ('a, 'w) pipeline_state \<Rightarrow> ('a, 'w) pipeline_state" where
  "invalidate_history inp s =
     (let s1 = (if connection_contract_invalidated inp then s\<lparr>connection_report := None\<rparr> else s)
      in case ri_invalidate_from inp of
           None \<Rightarrow> s1
         | Some t \<Rightarrow>
             (let gone = map step_value (drop (order_index t) CANONICAL_ORDER)
              in s1\<lparr>repair_history := filter (\<lambda>r. rr_step r \<notin> set gone) (repair_history s1),
                    replan_history :=
                      filter (\<lambda>r. rp_trigger r \<notin> set gone \<and> rp_rollback_to r \<notin> set gone)
                        (replan_history s1),
                    recovery_history :=
                      filter (\<lambda>r. rt_step r \<notin> set gone
                          \<and> (case rd_target_step (rt_decision r) of
                               None \<Rightarrow> [] | Some x \<Rightarrow> x) \<notin> set gone)
                        (recovery_history s1),
                    capability_gaps := filter (\<lambda>g. gap_step g \<notin> set gone) (capability_gaps s1)\<rparr>))"

section \<open>In-flight connection synthesis\<close>

definition synthesis_resumable :: "'a resume_services \<Rightarrow> resume_inputs \<Rightarrow> bool" where
  "synthesis_resumable srv inp =
     (case ri_checkpoint inp of
        Some (PDict d) \<Rightarrow>
          (case restored_report srv inp of None \<Rightarrow> True | Some x \<Rightarrow> report_resumable srv x)
      | _ \<Rightarrow> False)"

text \<open>The checkpoint, when it validates and belongs to the restored inputs.\<close>

definition inflight_checkpoint ::
    "'a resume_services \<Rightarrow> resume_inputs \<Rightarrow> ('a, 'w) pipeline_state \<Rightarrow> pyval option" where
  "inflight_checkpoint srv inp s =
     (case (ri_checkpoint inp, artifacts s TOPOLOGY, artifacts s SELECTION) of
        (Some raw, Some topology, Some selection) \<Rightarrow>
          if is_topology_plan srv topology \<and> is_selection_plan srv selection
          then (case validate_checkpoint srv raw of
                  Inl _ \<Rightarrow> None
                | Inr cp \<Rightarrow> if checkpoint_matches srv cp topology selection then Some cp else None)
          else None
      | _ \<Rightarrow> None)"

section \<open>Restoring one step\<close>

datatype ('a, 'w) restore_flow =
    Keep "('a, 'w) pipeline_state"
  | Halt "('a, 'w) pipeline_state"
  | Fail exn

definition saved_flag :: "pydict \<Rightarrow> string \<Rightarrow> bool" where
  "saved_flag saved k = py_truth (get_or saved k PNone)"

definition set_candidate ::
    "pipeline_step \<Rightarrow> 'a \<Rightarrow> pydict \<Rightarrow> ('a, 'w) pipeline_state \<Rightarrow> ('a, 'w) pipeline_state" where
  "set_candidate st a saved s =
     s\<lparr>resume_candidates := (resume_candidates s)(st \<mapsto> (a, saved_flag saved ''used_llm''))\<rparr>"

text \<open>Refresh the requirement text of the first artifact.\<close>

definition refresh_requirement ::
    "'a resume_services \<Rightarrow> resume_inputs \<Rightarrow> pipeline_step \<Rightarrow> 'a \<Rightarrow> 'a \<times> bool" where
  "refresh_requirement srv inp st a =
     (let refreshed = (st = REQUIREMENTS \<and>
            (case raw_text_of srv a of None \<Rightarrow> False | Some t \<Rightarrow> t \<noteq> ri_requirement_text inp))
      in (if refreshed then with_raw_text srv a (ri_requirement_text inp) else a, refreshed))"

text \<open>Re-run the gate on a current artifact and decide whether the step is kept.\<close>

definition recheck ::
    "'a resume_services \<Rightarrow> resume_inputs \<Rightarrow> ('a, 'w) step_hooks \<Rightarrow> pipeline_step \<Rightarrow> pydict \<Rightarrow> 'a \<Rightarrow> bool
     \<Rightarrow> ('a, 'w) pipeline_state \<Rightarrow> ('a, 'w) restore_flow" where
  "recheck srv inp h st saved a refreshed s =
     (let s1 = s\<lparr>artifacts := (artifacts s)(st \<mapsto> a)\<rparr>;
          (cs, invalid, execution_invalid) =
            (case hk_check h s1 a of
               Inl _ \<Rightarrow> ([], True, True)
             | Inr cs \<Rightarrow> (cs, is_blocked cs, is_execution_blocked cs));
          strict = (\<not> ri_artifact_first inp \<or> execution_invalid);
          changed = (case saved_error_signatures (str_container srv) saved of
                       None \<Rightarrow> False | Some S \<Rightarrow> S \<noteq> current_error_signatures cs)
      in if (changed \<or> invalid) \<and> strict
         then Halt (set_candidate st a saved (s1\<lparr>artifacts := (artifacts s1)(st := None)\<rparr>))
         else Keep (s1\<lparr>results := results s1 @
                [\<lparr>sr_step = st, sr_used_llm = saved_flag saved ''used_llm'', knowledge_used = [],
                  sr_checks = cs, sr_failures = [], sr_repairs = [], sr_blocked = invalid,
                  sr_execution_blocked = execution_invalid,
                  sr_summary = (if refreshed then hk_summarize h a
                                else py_str_by (str_container srv) (get_or saved ''summary'' (PStr [])))\<rparr>]\<rparr>))"

definition restore_artifact ::
    "'a resume_services \<Rightarrow> resume_inputs \<Rightarrow> ('a, 'w) step_hooks \<Rightarrow> ('a, 'w) pipeline_context
     \<Rightarrow> pipeline_step \<Rightarrow> pydict \<Rightarrow> 'a \<Rightarrow> ('a, 'w) pipeline_state \<Rightarrow> ('a, 'w) restore_flow" where
  "restore_artifact srv inp h ctx st saved raw s =
     (let (a0, refreshed) = refresh_requirement srv inp st raw
      in case hk_prepare_resumed h s a0 of
           Inl _ \<Rightarrow> Halt (set_candidate st a0 saved s)
         | Inr a \<Rightarrow>
             if \<not> hk_resume_current h s a
             then Halt (s\<lparr>artifacts := (artifacts s)(st := None)\<rparr>)
             else if artifact_fingerprint ctx (Some a) \<noteq> artifact_fingerprint ctx (Some a0)
             then Halt (set_candidate st a saved s)
             else if saved_flag saved ''blocked''
                     \<and> (\<not> ri_artifact_first inp
                         \<or> map_of saved ''execution_blocked'' \<noteq> Some (PBool False))
             then Halt (set_candidate st a saved s)
             else recheck srv inp h st saved a refreshed s)"

definition restore_step ::
    "'a resume_services \<Rightarrow> resume_inputs \<Rightarrow> ('a, 'w) step_hooks list \<Rightarrow> ('a, 'w) pipeline_context
     \<Rightarrow> pipeline_step \<Rightarrow> pydict \<Rightarrow> ('a, 'w) pipeline_state \<Rightarrow> ('a, 'w) restore_flow" where
  "restore_step srv inp hs ctx st saved s =
     (if ri_invalidate_from inp = Some st then Halt s
      else if py_str_by (str_container srv) (get_or saved ''name'' (PStr [])) \<noteq> step_value st then Halt s
      else
        (let pending = (if st = SCH_CONNECTIONS \<and> synthesis_resumable srv inp
                        then (case inflight_checkpoint srv inp s of
                                Some cp \<Rightarrow> if checkpoint_pending srv cp then Some cp else None
                              | None \<Rightarrow> None)
                        else None)
         in case pending of
              Some cp \<Rightarrow> Halt (s\<lparr>connection_checkpoint := Some cp\<rparr>)
            | None \<Rightarrow>
                (case get_or (ri_artifacts inp) (step_value st) PNone of
                   PNone \<Rightarrow> Halt s
                 | raw \<Rightarrow>
                     (case validate_artifact srv st raw of
                        Inl e \<Rightarrow> Fail e
                      | Inr a \<Rightarrow>
                          restore_artifact srv inp (hs ! order_index st) ctx st saved a s))))"

fun restore_prefix ::
    "'a resume_services \<Rightarrow> resume_inputs \<Rightarrow> ('a, 'w) step_hooks list \<Rightarrow> ('a, 'w) pipeline_context
     \<Rightarrow> (pipeline_step \<times> pydict) list \<Rightarrow> ('a, 'w) pipeline_state \<Rightarrow> exn + ('a, 'w) pipeline_state" where
  "restore_prefix srv inp hs ctx [] s = Inr s"
| "restore_prefix srv inp hs ctx ((st, saved) # rest) s =
     (case restore_step srv inp hs ctx st saved s of
        Keep s' \<Rightarrow> restore_prefix srv inp hs ctx rest s'
      | Halt s' \<Rightarrow> Inr s'
      | Fail e \<Rightarrow> Inl e)"

section \<open>The next step\<close>

text \<open>Take over the persisted candidate of the step the run continues with.\<close>

definition restore_candidate ::
    "'a resume_services \<Rightarrow> resume_inputs \<Rightarrow> pipeline_step \<Rightarrow> nat \<Rightarrow> ('a, 'w) pipeline_state
     \<Rightarrow> exn + ('a, 'w) pipeline_state" where
  "restore_candidate srv inp nxt idx s =
     (let contract_invalidated =
        (case ri_invalidate_from inp of None \<Rightarrow> False | Some t \<Rightarrow> order_index t \<le> idx)
      in if contract_invalidated \<or> resume_candidates s nxt \<noteq> None then Inr s
         else case map_of (ri_resume_candidates inp) (step_value nxt) of
           Some (PDict d) \<Rightarrow>
             (case map_of d ''artifact'' of
                Some (PDict raw) \<Rightarrow>
                  bind_res (validate_artifact srv nxt (PDict raw)) (\<lambda>a. Inr (set_candidate nxt a d s))
              | _ \<Rightarrow> Inr s)
         | _ \<Rightarrow> Inr s)"

definition restore_checkpoint ::
    "'a resume_services \<Rightarrow> resume_inputs \<Rightarrow> pipeline_step \<Rightarrow> ('a, 'w) pipeline_state
     \<Rightarrow> ('a, 'w) pipeline_state" where
  "restore_checkpoint srv inp nxt s =
     (if nxt = SCH_CONNECTIONS \<and> \<not> connection_contract_invalidated inp
         \<and> resume_candidates s nxt = None \<and> synthesis_resumable srv inp
      then (case inflight_checkpoint srv inp s of
              Some cp \<Rightarrow> s\<lparr>connection_checkpoint := Some cp\<rparr> | None \<Rightarrow> s)
      else s)"

definition restore_next ::
    "'a resume_services \<Rightarrow> resume_inputs \<Rightarrow> ('a, 'w) pipeline_state \<Rightarrow> exn + ('a, 'w) pipeline_state" where
  "restore_next srv inp s =
     (let idx = length (results s)
      in if idx < length CANONICAL_ORDER then
           (let nxt = CANONICAL_ORDER ! idx
            in bind_res (restore_candidate srv inp nxt idx s)
                 (\<lambda>s'. Inr (restore_checkpoint srv inp nxt s')))
         else Inr s)"

definition restore_pipeline_state ::
    "'a resume_services \<Rightarrow> ('a, 'w) step_hooks list \<Rightarrow> ('a, 'w) pipeline_context \<Rightarrow> resume_inputs \<Rightarrow> 'w
     \<Rightarrow> exn + ('a, 'w) pipeline_state" where
  "restore_pipeline_state srv hs ctx inp w =
     bind_res (initial_state srv inp w) (\<lambda>s0.
     bind_res (restore_prefix srv inp hs ctx (zip CANONICAL_ORDER (ri_steps inp))
                 (invalidate_history inp s0)) (\<lambda>s1.
       restore_next srv inp
         (s1\<lparr>capability_gaps :=
               filter (\<lambda>g. gap_step g \<notin> set (map step_value (completed s1))) (capability_gaps s1)\<rparr>)))"

end
