(* ===== verification/Resume_Facts.thy ===== *)
theory Resume_Facts
  imports Resume Pipeline_Facts
begin

text \<open>
  What a restored state satisfies: it is one \<open>Pipeline.run\<close> accepts, its artifacts are
  exactly those of the restored prefix, the only resume candidate is for the step the run
  continues with, and an invalidated contract leaves no trace of its dependants.
\<close>

section \<open>Well-formed restored states\<close>

definition restored_ok :: "bool \<Rightarrow> ('a, 'w) pipeline_state \<Rightarrow> bool" where
  "restored_ok af s =
     (canonical_prefix s
      \<and> (\<forall>r \<in> set (results s). (sr_blocked r \<longrightarrow> af) \<and> \<not> sr_execution_blocked r)
      \<and> (\<forall>st. (artifacts s st \<noteq> None) = (order_index st < length (results s)))
      \<and> (\<forall>st. resume_candidates s st \<noteq> None \<longrightarrow> order_index st = length (results s)))"

definition no_candidates :: "('a, 'w) pipeline_state \<Rightarrow> bool" where
  "no_candidates s = (resume_candidates s = (\<lambda>_. None))"

definition same_history :: "('a, 'w) pipeline_state \<Rightarrow> ('a, 'w) pipeline_state \<Rightarrow> bool" where
  "same_history s s' =
     (repair_history s' = repair_history s \<and> replan_history s' = replan_history s
      \<and> recovery_history s' = recovery_history s \<and> capability_gaps s' = capability_gaps s)"

lemma same_history_refl [simp]: "same_history s s"
  by (simp add: same_history_def)

lemma same_history_trans: "same_history s t \<Longrightarrow> same_history t u \<Longrightarrow> same_history s u"
  by (simp add: same_history_def)

text \<open>What restoring the step at the end of the prefix does.\<close>

definition step_restored ::
    "bool \<Rightarrow> pipeline_step \<Rightarrow> ('a, 'w) pipeline_state \<Rightarrow> ('a, 'w) restore_flow \<Rightarrow> bool" where
  "step_restored af st s out =
     (case out of
        Keep s' \<Rightarrow> restored_ok af s' \<and> no_candidates s' \<and> same_history s s'
          \<and> length (results s') = Suc (length (results s))
      | Halt s' \<Rightarrow> restored_ok af s' \<and> same_history s s' \<and> results s' = results s
      | Fail _ \<Rightarrow> True)"

lemma restored_candidate:
  assumes "restored_ok af s" and "order_index st = length (results s)"
  shows "restored_ok af (set_candidate st a saved s)"
  using assms by (auto simp: restored_ok_def set_candidate_def canonical_prefix_def completed_def)

lemma set_candidate_simps [simp]:
  "results (set_candidate st a saved s) = results s"
  "same_history t (set_candidate st a saved s) = same_history t s"
  by (simp_all add: set_candidate_def same_history_def)

lemma restored_none:
  assumes "restored_ok af s" and "order_index st = length (results s)"
  shows "restored_ok af (s\<lparr>artifacts := (artifacts s)(st := None)\<rparr>)"
  using assms by (auto simp: restored_ok_def canonical_prefix_def completed_def)

lemma recheck_restored:
  assumes ok: "restored_ok (ri_artifact_first inp) s" "no_candidates s"
    and st: "order_index st = length (results s)" "length (results s) < 17"
  shows "step_restored (ri_artifact_first inp) st s (recheck srv inp h st saved a refreshed s)"
proof -
  have art: "artifacts s st = None" using ok st by (metis less_irrefl restored_ok_def)
  then have undo: "s\<lparr>artifacts := (artifacts s)(st := None)\<rparr> = s"
    by (simp add: fun_upd_idem)
  have stc: "st = CANONICAL_ORDER ! length (results s)" using st by (metis nth_order_index)
  have keep: "restored_ok (ri_artifact_first inp) s'"
    if "results s' = results s @ [r]" "artifacts s' = (artifacts s)(st \<mapsto> a)"
      "resume_candidates s' = resume_candidates s" "sr_step r = st"
      "sr_blocked r \<longrightarrow> ri_artifact_first inp" "\<not> sr_execution_blocked r"
    for s' :: "('a, 'b) pipeline_state" and r
  proof -
    have "canonical_prefix s'"
      using prefix_snoc [of s s' r] that ok st stc by (simp add: restored_ok_def)
    moreover have "(artifacts s' x \<noteq> None) = (order_index x < length (results s'))" for x
      using that ok st by (auto simp: restored_ok_def less_Suc_eq simp flip: order_index_inject)
    ultimately show ?thesis using that ok by (auto simp: restored_ok_def no_candidates_def)
  qed
  have halt: "restored_ok (ri_artifact_first inp) (set_candidate st a saved s)"
    using restored_candidate [OF ok(1) st(1)] .
  obtain cs invalid exec_invalid where
    chk: "(case hk_check h (s\<lparr>artifacts := (artifacts s)(st \<mapsto> a)\<rparr>) a of
             Inl _ \<Rightarrow> ([], True, True)
           | Inr cs \<Rightarrow> (cs, is_blocked cs, is_execution_blocked cs)) = (cs, invalid, exec_invalid)"
    by (cases rule: prod_cases3)
  then have imp: "exec_invalid \<longrightarrow> invalid"
    using execution_blocked_imp_blocked by (auto split: sum.splits)
  define r where "r = \<lparr>sr_step = st, sr_used_llm = saved_flag saved ''used_llm'', knowledge_used = [],
      sr_checks = cs, sr_failures = [], sr_repairs = [], sr_blocked = invalid,
      sr_execution_blocked = exec_invalid,
      sr_summary = (if refreshed then hk_summarize h a
                    else py_str_by (str_container srv) (get_or saved ''summary'' (PStr [])))\<rparr>"
  define kept where "kept = s\<lparr>artifacts := (artifacts s)(st \<mapsto> a), results := results s @ [r]\<rparr>"
  have "recheck srv inp h st saved a refreshed s \<in> {Halt (set_candidate st a saved s), Keep kept}
    \<and> (recheck srv inp h st saved a refreshed s = Keep kept \<longrightarrow>
         \<not> (invalid \<and> (\<not> ri_artifact_first inp \<or> exec_invalid)))"
    unfolding recheck_def Let_def chk prod.case using undo by (simp add: kept_def r_def)
  moreover have "step_restored (ri_artifact_first inp) st s (Halt (set_candidate st a saved s))"
    using halt by (simp add: step_restored_def)
  moreover have "step_restored (ri_artifact_first inp) st s (Keep kept)"
    if "\<not> (invalid \<and> (\<not> ri_artifact_first inp \<or> exec_invalid))"
  proof -
    have "restored_ok (ri_artifact_first inp) kept"
      by (rule keep [of _ r]) (use that imp in \<open>auto simp: kept_def r_def\<close>)
    with ok(2) show ?thesis
      by (simp add: step_restored_def no_candidates_def same_history_def kept_def)
  qed
  ultimately show ?thesis by auto
qed

lemma restore_artifact_restored:
  assumes ok: "restored_ok (ri_artifact_first inp) s" "no_candidates s"
    and st: "order_index st = length (results s)" "length (results s) < 17"
  shows "step_restored (ri_artifact_first inp) st s (restore_artifact srv inp h ctx st saved raw s)"
proof -
  obtain a0 refreshed where ref: "refresh_requirement srv inp st raw = (a0, refreshed)"
    by (cases rule: prod.exhaust)
  note cand = restored_candidate [OF ok(1) st(1)]
  have none: "step_restored (ri_artifact_first inp) st s (Halt (s\<lparr>artifacts := (artifacts s)(st := None)\<rparr>))"
    using restored_none [OF ok(1) st(1)] by (simp add: step_restored_def same_history_def)
  have set_c: "step_restored (ri_artifact_first inp) st s (Halt (set_candidate st a saved s))" for a
    using cand by (simp add: step_restored_def)
  show ?thesis
    unfolding restore_artifact_def ref Let_def prod.case
    using none set_c recheck_restored [OF ok st] by (simp split: sum.split)
qed

lemma restore_step_restored:
  assumes ok: "restored_ok (ri_artifact_first inp) s" "no_candidates s"
    and st: "order_index st = length (results s)" "length (results s) < 17"
  shows "step_restored (ri_artifact_first inp) st s (restore_step srv inp hs ctx st saved s)"
proof -
  have stay: "step_restored (ri_artifact_first inp) st s (Halt s)"
    using ok by (simp add: step_restored_def)
  have cp: "step_restored (ri_artifact_first inp) st s (Halt (s\<lparr>connection_checkpoint := c\<rparr>))" for c
    using ok by (simp add: step_restored_def restored_ok_def canonical_prefix_def completed_def
        same_history_def)
  have fail: "step_restored (ri_artifact_first inp) st s (Fail e)" for e
    by (simp add: step_restored_def)
  show ?thesis
    unfolding restore_step_def Let_def
    by (simp only: split: if_split option.split pyval.split sum.split)
      (intro conjI impI allI, (rule stay cp fail restore_artifact_restored [OF ok st])+)
qed

lemma restore_prefix_restored:
  assumes "restore_prefix srv inp hs ctx (zip (drop (length (results s)) CANONICAL_ORDER) steps) s = Inr s'"
    and "restored_ok (ri_artifact_first inp) s" and "no_candidates s"
  shows "restored_ok (ri_artifact_first inp) s' \<and> same_history s s'
    \<and> length (results s) \<le> length (results s')"
  using assms
proof (induction steps arbitrary: s)
  case (Cons saved steps)
  show ?case
  proof (cases "length (results s) < 17")
    case True
    let ?n = "length (results s)"
    let ?st = "CANONICAL_ORDER ! ?n"
    have drop: "drop ?n CANONICAL_ORDER = ?st # drop (Suc ?n) CANONICAL_ORDER"
      using True by (simp add: Cons_nth_drop_Suc)
    have st: "order_index ?st = ?n" using True by simp
    note step = restore_step_restored [OF Cons.prems(2,3) st True, of srv hs ctx saved]
    show ?thesis
    proof (cases "restore_step srv inp hs ctx ?st saved s")
      case (Keep t)
      with step have t: "restored_ok (ri_artifact_first inp) t" "no_candidates t" "same_history s t"
        "length (results t) = Suc ?n" by (simp_all add: step_restored_def)
      from Cons.prems(1) Keep drop t(4)
      have "restore_prefix srv inp hs ctx (zip (drop (length (results t)) CANONICAL_ORDER) steps) t = Inr s'"
        by simp
      from Cons.IH [OF this t(1,2)] t(3,4) show ?thesis using same_history_trans by fastforce
    next
      case (Halt t)
      with step Cons.prems(1) drop show ?thesis by (simp add: step_restored_def)
    next
      case (Fail e)
      with Cons.prems(1) drop show ?thesis by simp
    qed
  next
    case False
    with Cons.prems show ?thesis by simp
  qed
qed simp

section \<open>The step the run continues with\<close>

lemma restore_candidate_restored:
  assumes "restored_ok af s" and "order_index nxt = length (results s)"
    and "restore_candidate srv inp nxt idx s = Inr s'"
  shows "restored_ok af s' \<and> same_history s s' \<and> results s' = results s"
  using assms restored_candidate [OF assms(1,2)]
  by (auto simp: restore_candidate_def Let_def bind_res_Inr_iff
      split: if_splits option.splits pyval.splits)

lemma restore_checkpoint_restored:
  "restored_ok af (restore_checkpoint srv inp nxt s) = restored_ok af s
   \<and> same_history s (restore_checkpoint srv inp nxt s)
   \<and> results (restore_checkpoint srv inp nxt s) = results s
   \<and> resume_candidates (restore_checkpoint srv inp nxt s) = resume_candidates s"
  by (simp add: restore_checkpoint_def restored_ok_def same_history_def canonical_prefix_def
      completed_def split: option.split)

lemma restore_next_restored:
  assumes ok: "restored_ok af s" and nx: "restore_next srv inp s = Inr s'"
  shows "restored_ok af s' \<and> same_history s s' \<and> results s' = results s"
proof (cases "length (results s) < 17")
  case True
  let ?nxt = "CANONICAL_ORDER ! length (results s)"
  from True nx obtain t where t: "restore_candidate srv inp ?nxt (length (results s)) s = Inr t"
    and s': "s' = restore_checkpoint srv inp ?nxt t"
    by (auto simp: restore_next_def Let_def bind_res_Inr_iff)
  from True have "order_index ?nxt = length (results s)" by simp
  from restore_candidate_restored [OF ok this t] s' restore_checkpoint_restored [of af srv inp ?nxt t]
  show ?thesis using same_history_trans by metis
next
  case False
  with assms show ?thesis by (simp add: restore_next_def)
qed

section \<open>The whole restoration\<close>

lemma initial_state_simps:
  assumes "initial_state srv inp w = Inr s"
  shows "results s = []" "artifacts s = (\<lambda>_. None)" "resume_candidates s = (\<lambda>_. None)"
  using assms by (auto simp: initial_state_def bind_res_Inr_iff)

lemma invalidate_history_simps [simp]:
  "results (invalidate_history inp s) = results s"
  "artifacts (invalidate_history inp s) = artifacts s"
  "resume_candidates (invalidate_history inp s) = resume_candidates s"
  by (simp_all add: invalidate_history_def Let_def split: option.split)

lemma restore_stages:
  assumes "restore_pipeline_state srv hs ctx inp w = Inr s"
  obtains s0 s1 s2 where "initial_state srv inp w = Inr s0"
    "restore_prefix srv inp hs ctx (zip CANONICAL_ORDER (ri_steps inp)) (invalidate_history inp s0) = Inr s1"
    "s2 = s1\<lparr>capability_gaps :=
       filter (\<lambda>g. gap_step g \<notin> set (map step_value (completed s1))) (capability_gaps s1)\<rparr>"
    "restore_next srv inp s2 = Inr s"
    "restored_ok (ri_artifact_first inp) s1" "same_history (invalidate_history inp s0) s1"
    "restored_ok (ri_artifact_first inp) s" "same_history s2 s" "results s = results s1"
proof -
  from assms obtain s0 s1 where s0: "initial_state srv inp w = Inr s0"
    and s1: "restore_prefix srv inp hs ctx (zip CANONICAL_ORDER (ri_steps inp)) (invalidate_history inp s0) = Inr s1"
    and s: "restore_next srv inp (s1\<lparr>capability_gaps :=
       filter (\<lambda>g. gap_step g \<notin> set (map step_value (completed s1))) (capability_gaps s1)\<rparr>) = Inr s"
    by (auto simp: restore_pipeline_state_def bind_res_Inr_iff)
  let ?s2 = "s1\<lparr>capability_gaps :=
       filter (\<lambda>g. gap_step g \<notin> set (map step_value (completed s1))) (capability_gaps s1)\<rparr>"
  have base: "restored_ok (ri_artifact_first inp) (invalidate_history inp s0)"
    "no_candidates (invalidate_history inp s0)" "results (invalidate_history inp s0) = []"
    using initial_state_simps [OF s0]
    by (simp_all add: restored_ok_def no_candidates_def canonical_prefix_def completed_def)
  from s1 base(3) have
    "restore_prefix srv inp hs ctx
       (zip (drop (length (results (invalidate_history inp s0))) CANONICAL_ORDER) (ri_steps inp))
       (invalidate_history inp s0) = Inr s1" by simp
  from restore_prefix_restored [OF this base(1,2)]
  have p: "restored_ok (ri_artifact_first inp) s1" "same_history (invalidate_history inp s0) s1" by auto
  then have "restored_ok (ri_artifact_first inp) ?s2"
    by (simp add: restored_ok_def canonical_prefix_def completed_def)
  from restore_next_restored [OF this s] have
    "restored_ok (ri_artifact_first inp) s" "same_history ?s2 s" "results s = results s1" by auto
  with that [OF s0 s1 refl s p] show thesis by blast
qed

lemma restored_runs:
  assumes "restored_ok (artifact_first ctx) s"
  shows "\<not> prefix_error ctx s"
proof -
  have "length (completed s) = length (results s)" by (simp add: completed_def)
  then show ?thesis
    using assms
    by (auto simp: prefix_error_def restored_ok_def canonical_prefix_def state_blocked_def
        state_execution_blocked_def)
qed

section \<open>Invalidation\<close>

lemma restore_prefix_invalidated:
  assumes "restore_prefix srv inp hs ctx (zip (drop (length (results s)) CANONICAL_ORDER) steps) s = Inr s'"
    and "restored_ok (ri_artifact_first inp) s" and "no_candidates s"
    and "ri_invalidate_from inp = Some t" and "length (results s) \<le> order_index t"
  shows "length (results s') < order_index t \<or> (length (results s') = order_index t \<and> no_candidates s')"
  using assms
proof (induction steps arbitrary: s)
  case (Cons saved steps)
  let ?n = "length (results s)"
  let ?st = "CANONICAL_ORDER ! ?n"
  have lt: "?n < 17" using Cons.prems(5) order_index_less [of t] by linarith
  have drop: "drop ?n CANONICAL_ORDER = ?st # drop (Suc ?n) CANONICAL_ORDER"
    using lt by (simp add: Cons_nth_drop_Suc)
  have st: "order_index ?st = ?n" using lt by simp
  show ?case
  proof (cases "?n = order_index t")
    case True
    then have "restore_step srv inp hs ctx ?st saved s = Halt s"
      using Cons.prems(4) by (simp add: restore_step_def)
    with Cons.prems(1,3) drop True show ?thesis by simp
  next
    case False
    note step = restore_step_restored [OF Cons.prems(2,3) st lt, of srv hs ctx saved]
    show ?thesis
    proof (cases "restore_step srv inp hs ctx ?st saved s")
      case (Keep u)
      with step have u: "restored_ok (ri_artifact_first inp) u" "no_candidates u"
        "length (results u) = Suc ?n" by (simp_all add: step_restored_def)
      from Cons.prems(1) Keep drop u(3)
      have "restore_prefix srv inp hs ctx (zip (drop (length (results u)) CANONICAL_ORDER) steps) u = Inr s'"
        by simp
      from Cons.IH [OF this u(1,2) Cons.prems(4)] u(3) False Cons.prems(5) show ?thesis by simp
    next
      case (Halt u)
      with step Cons.prems(1,5) drop False show ?thesis by (simp add: step_restored_def)
    next
      case (Fail e)
      with Cons.prems(1) drop show ?thesis by simp
    qed
  qed
qed auto

text \<open>A step that belongs to the invalidated suffix.\<close>

definition mentions_from :: "pipeline_step \<Rightarrow> string \<Rightarrow> bool" where
  "mentions_from t v = (v \<in> set (map step_value (drop (order_index t) CANONICAL_ORDER)))"

lemma mentions_from_step [simp]: "mentions_from t (step_value st) \<longleftrightarrow> order_index t \<le> order_index st"
proof -
  have "st \<in> set (drop (order_index t) CANONICAL_ORDER) \<longleftrightarrow> st \<notin> set (take (order_index t) CANONICAL_ORDER)"
  proof -
    have "set (take (order_index t) CANONICAL_ORDER) \<union> set (drop (order_index t) CANONICAL_ORDER) = UNIV"
      by (metis append_take_drop_id set_CANONICAL_ORDER set_append)
    moreover have "set (take (order_index t) CANONICAL_ORDER) \<inter> set (drop (order_index t) CANONICAL_ORDER) = {}"
      by (simp add: set_take_disj_set_drop_if_distinct)
    ultimately show ?thesis by blast
  qed
  then show ?thesis by (auto simp: mentions_from_def in_take_CANONICAL_iff)
qed

definition history_avoids :: "pipeline_step \<Rightarrow> ('a, 'w) pipeline_state \<Rightarrow> bool" where
  "history_avoids t s =
     ((\<forall>r \<in> set (repair_history s). \<not> mentions_from t (rr_step r))
      \<and> (\<forall>r \<in> set (replan_history s). \<not> mentions_from t (rp_trigger r) \<and> \<not> mentions_from t (rp_rollback_to r))
      \<and> (\<forall>r \<in> set (recovery_history s). \<not> mentions_from t (rt_step r))
      \<and> (\<forall>g \<in> set (capability_gaps s). \<not> mentions_from t (gap_step g)))"

lemma invalidate_history_avoids:
  "ri_invalidate_from inp = Some t \<Longrightarrow> history_avoids t (invalidate_history inp s)"
  by (auto simp: invalidate_history_def history_avoids_def mentions_from_def Let_def)

lemma history_avoids_mono:
  assumes "history_avoids t s" and "repair_history s' = repair_history s"
    "replan_history s' = replan_history s" "recovery_history s' = recovery_history s"
    "set (capability_gaps s') \<subseteq> set (capability_gaps s)"
  shows "history_avoids t s'"
  using assms by (auto simp: history_avoids_def)

lemma restore_invalidated:
  assumes run: "restore_pipeline_state srv hs ctx inp w = Inr s" and inv: "ri_invalidate_from inp = Some t"
  shows "length (results s) \<le> order_index t \<and> history_avoids t s
    \<and> (\<forall>st. resume_candidates s st \<noteq> None \<longrightarrow> order_index st < order_index t)"
proof (rule restore_stages [OF run])
  fix s0 s1 s2
  assume s0: "initial_state srv inp w = Inr s0"
    and s1: "restore_prefix srv inp hs ctx (zip CANONICAL_ORDER (ri_steps inp)) (invalidate_history inp s0) = Inr s1"
    and s2: "s2 = s1\<lparr>capability_gaps :=
       filter (\<lambda>g. gap_step g \<notin> set (map step_value (completed s1))) (capability_gaps s1)\<rparr>"
    and s: "restore_next srv inp s2 = Inr s"
    and hist: "same_history (invalidate_history inp s0) s1" "same_history s2 s"
    and ok: "restored_ok (ri_artifact_first inp) s" and res: "results s = results s1"
  note ini = initial_state_simps [OF s0]
  have "length (results s1) < order_index t \<or> (length (results s1) = order_index t \<and> no_candidates s1)"
    by (rule restore_prefix_invalidated [OF _ _ _ inv, of srv hs ctx "invalidate_history inp s0" "ri_steps inp"])
      (use s1 ini in \<open>simp_all add: restored_ok_def no_candidates_def canonical_prefix_def completed_def\<close>)
  moreover have "no_candidates s" if "length (results s1) = order_index t" "no_candidates s1"
  proof -
    have "length (results s1) < 17" using that order_index_less by metis
    then show ?thesis using s s2 that inv
      by (auto simp: restore_next_def restore_candidate_def Let_def no_candidates_def
          restore_checkpoint_restored)
  qed
  moreover have "history_avoids t s"
    using hist s2
    by (intro history_avoids_mono [OF invalidate_history_avoids [OF inv, of s0], of s])
      (auto simp: same_history_def)
  moreover have "\<forall>st. resume_candidates s st \<noteq> None \<longrightarrow> order_index st = length (results s)"
    using ok by (simp add: restored_ok_def)
  ultimately show ?thesis using res by (auto simp: no_candidates_def)
qed

end
