(* ===== verification/Structured_Facts.thy ===== *)
theory Structured_Facts
  imports Structured_Output
begin

text \<open>
  Facts about reply completion and the request loop.  The scanner of the code and the
  JSON recogniser are related by a simulation: as long as the text is a prefix of a JSON
  document, the scanner's stack is the recogniser's stack of open containers, and it is
  inside a string exactly when the recogniser is.
\<close>

section \<open>The scanner simulates the recogniser\<close>

fun open_char :: "container \<Rightarrow> char" where
  "open_char Obj = CHR ''{''"
| "open_char Arr = CHR ''[''"

fun mode_in_string :: "jmode \<Rightarrow> bool" where
  "mode_in_string (JStr _) = True"
| "mode_in_string (JEsc _) = True"
| "mode_in_string (JHex _ _) = True"
| "mode_in_string _ = False"

fun mode_escaped :: "jmode \<Rightarrow> bool" where
  "mode_escaped (JEsc _) = True"
| "mode_escaped _ = False"

text \<open>Characters that are neither quotes nor brackets.\<close>

definition plain_char :: "char \<Rightarrow> bool" where
  "plain_char c = (c \<noteq> dquote \<and> c \<notin> set ''{}[]'')"

definition literal_letter :: "char \<Rightarrow> bool" where
  "literal_letter c = (c \<in> set ''aefilnrstuyN'')"

text \<open>
  An empty container that may still close is on top of the stack, and the rest of a
  literal name is made of letters.
\<close>

fun jwf :: "jstate \<Rightarrow> bool" where
  "jwf (JValueOrEnd, st) = (\<exists>r. st = Arr # r)"
| "jwf (JKeyOrEnd, st) = (\<exists>r. st = Obj # r)"
| "jwf (JLit w, st) = (w \<noteq> [] \<and> list_all literal_letter w)"
| "jwf _ = True"

definition sim :: "jstate \<Rightarrow> scan_state \<Rightarrow> bool" where
  "sim p q =
     (jwf p \<and> sc_stack q = map open_char (snd p) \<and> \<not> mismatched q
      \<and> in_string q = mode_in_string (fst p) \<and> escaped q = mode_escaped (fst p))"

lemma structural_not_digit:
  "\<not> is_digit (CHR ''{'')" "\<not> is_digit (CHR ''}'')" "\<not> is_digit (CHR ''['')"
  "\<not> is_digit (CHR '']'')" "\<not> is_digit (CHR '','')" "\<not> is_digit (CHR '':'')"
  "\<not> is_digit dquote" "\<not> is_hex dquote" "\<not> is_hex backslash"
  by code_simp+

lemma structural_not_ws:
  "\<not> json_ws (CHR ''{'')" "\<not> json_ws (CHR ''}'')" "\<not> json_ws (CHR ''['')"
  "\<not> json_ws (CHR '']'')" "\<not> json_ws (CHR '','')" "\<not> json_ws (CHR '':'')" "\<not> json_ws dquote"
  by code_simp+

lemmas structural = structural_not_digit structural_not_ws

lemma dquote_distinct [simp]:
  "dquote \<noteq> CHR ''{''" "dquote \<noteq> CHR ''}''" "dquote \<noteq> CHR ''[''" "dquote \<noteq> CHR '']''"
  "dquote \<noteq> CHR '',''" "dquote \<noteq> CHR '':''" "dquote \<noteq> backslash"
  "CHR ''{'' \<noteq> dquote" "CHR ''}'' \<noteq> dquote" "CHR ''['' \<noteq> dquote" "CHR '']'' \<noteq> dquote"
  "CHR '','' \<noteq> dquote" "CHR '':'' \<noteq> dquote" "backslash \<noteq> dquote"
  by (simp_all add: dquote_def backslash_def)

lemma plain_value_chars: "\<forall>c \<in> set ''-0tfnNI:.eE+''. plain_char c"
  by (simp add: plain_char_def dquote_def)

lemma literal_letter_facts:
  assumes "literal_letter c"
  shows "plain_char c" "\<not> py_space c" "c \<noteq> CHR '',''" "c \<noteq> CHR '':''"
proof -
  have "\<forall>c \<in> set ''aefilnrstuyN''. plain_char c \<and> \<not> py_space c \<and> c \<noteq> CHR '','' \<and> c \<noteq> CHR '':''"
    by code_simp
  with assms show "plain_char c" "\<not> py_space c" "c \<noteq> CHR '',''" "c \<noteq> CHR '':''"
    unfolding literal_letter_def by blast+
qed

text \<open>Plain characters do not change what \<open>sim\<close> looks at.\<close>

lemma sim_plain:
  "sim (m, st) q \<Longrightarrow> plain_char c \<Longrightarrow> \<not> mode_in_string m \<Longrightarrow> jwf (m', st) \<Longrightarrow> \<not> mode_in_string m'
   \<Longrightarrow> \<not> mode_escaped m' \<Longrightarrow> \<not> mode_escaped m \<Longrightarrow> sim (m', st) (scan_char i c q)"
  by (simp add: sim_def scan_char_def plain_char_def)

lemma plain_ws: "json_ws c \<Longrightarrow> plain_char c"
  by (auto simp: plain_char_def structural)

lemma plain_digit: "is_digit c \<Longrightarrow> plain_char c"
  by (auto simp: plain_char_def structural)

lemma plain_num: "num_next ph c = Some ph' \<Longrightarrow> plain_char c"
  using plain_value_chars plain_digit [of c]
  by (cases ph) (auto split: if_splits)

lemma sim_after:
  assumes "sim (m, st) q" "\<not> mode_in_string m" "\<not> mode_escaped m" "after_value c st = Some p"
  shows "sim p (scan_char i c q)"
proof (cases "json_ws c")
  case True
  with assms show ?thesis by (auto simp: after_value_def intro!: sim_plain plain_ws)
next
  case False
  with assms show ?thesis
    by (auto simp: after_value_def sim_def scan_char_def opener_of_def
        split: list.splits container.splits if_splits)
qed

lemma start_value_cases:
  assumes "start_value c st = Some p"
  obtains "c = dquote" "p = (JStr False, st)" | "c = CHR ''{''" "p = (JKeyOrEnd, Obj # st)"
  | "c = CHR ''[''" "p = (JValueOrEnd, Arr # st)"
  | m where "plain_char c" "p = (m, st)" "jwf (m, st)" "\<not> mode_in_string m" "\<not> mode_escaped m"
proof (cases "c = dquote \<or> c = CHR ''{'' \<or> c = CHR ''[''")
  case True
  with assms that show thesis by (auto simp: start_value_def split: if_splits)
next
  case False
  have p: "plain_char c"
    using assms False plain_value_chars plain_digit [of c]
    by (simp add: start_value_def split: if_splits)
  obtain m where m: "p = (m, st)" using assms False
    by (auto simp: start_value_def split: if_splits)
  have "jwf (m, st) \<and> \<not> mode_in_string m \<and> \<not> mode_escaped m"
    using assms False m
    by (auto simp: start_value_def literal_letter_def split: if_splits)
  with p m that(4) show thesis by blast
qed

lemma sim_start:
  assumes "sim (m, st) q" "\<not> mode_in_string m" "\<not> mode_escaped m" "start_value c st = Some p"
  shows "sim p (scan_char i c q)"
  using assms(4)
proof (cases rule: start_value_cases)
  case 1
  with assms show ?thesis by (simp add: sim_def scan_char_def)
next
  case 2
  with assms show ?thesis by (simp add: sim_def scan_char_def)
next
  case 3
  with assms show ?thesis by (simp add: sim_def scan_char_def)
next
  case (4 m')
  with assms show ?thesis by (auto intro: sim_plain)
qed

lemma sim_step:
  assumes "sim p q" "json_step p c = Some p'"
  shows "sim p' (scan_char i c q)"
proof -
  obtain m st where p: "p = (m, st)" by (cases p)
  have simp_ms: "sim (m, st) q" and step: "json_step (m, st) c = Some p'" using assms p by auto
  show ?thesis
  proof (cases m)
    case JValue
    with simp_ms step show ?thesis
      by (auto intro: sim_plain plain_ws sim_start split: if_splits)
  next
    case JValueOrEnd
    with simp_ms obtain r where st: "st = Arr # r" by (auto simp: sim_def)
    show ?thesis
    proof (cases "json_ws c \<or> c = CHR '']''")
      case True
      with simp_ms step JValueOrEnd st show ?thesis
        using sim_plain [OF simp_ms plain_ws, of c JValueOrEnd i]
        by (auto simp: sim_def scan_char_def opener_of_def structural split: if_splits)
    next
      case False
      with simp_ms step JValueOrEnd show ?thesis by (auto intro: sim_start)
    qed
  next
    case JKey
    with simp_ms step show ?thesis
      using sim_plain [OF simp_ms plain_ws, of c JKey i]
      by (auto simp: sim_def scan_char_def split: if_splits)
  next
    case JKeyOrEnd
    with simp_ms obtain r where st: "st = Obj # r" by (auto simp: sim_def)
    with simp_ms step JKeyOrEnd show ?thesis
      using sim_plain [OF simp_ms plain_ws, of c JKeyOrEnd i]
      by (auto simp: sim_def scan_char_def opener_of_def structural split: if_splits)
  next
    case JColon
    have "plain_char (CHR '':'')" by (simp add: plain_char_def dquote_def)
    with JColon simp_ms step show ?thesis by (auto intro: sim_plain plain_ws split: if_splits)
  next
    case JAfter
    with simp_ms step show ?thesis by (auto intro: sim_after)
  next
    case (JStr k)
    with simp_ms step show ?thesis
      by (auto simp: sim_def scan_char_def split: if_splits)
  next
    case (JEsc k)
    with simp_ms step show ?thesis by (auto simp: sim_def scan_char_def split: if_splits)
  next
    case (JHex k n)
    with simp_ms step show ?thesis
      by (auto simp: sim_def scan_char_def structural split: if_splits)
  next
    case (JLit w)
    show ?thesis
    proof (cases w)
      case Nil
      with JLit simp_ms show ?thesis by (simp add: sim_def)
    next
      case (Cons d ds)
      with JLit simp_ms step have "plain_char c" "jwf (if ds = [] then JAfter else JLit ds, st)"
        "p' = (if ds = [] then JAfter else JLit ds, st)"
        by (auto simp: sim_def literal_letter_facts split: if_splits)
      with JLit simp_ms show ?thesis by (auto intro: sim_plain)
    qed
  next
    case (JNum ph)
    show ?thesis
    proof (cases "num_next ph c")
      case (Some ph')
      with JNum simp_ms step show ?thesis by (auto intro: sim_plain plain_num)
    next
      case None
      have "plain_char (CHR ''I'')" by (simp add: plain_char_def dquote_def)
      moreover have "jwf (JLit ''nfinity'', st)" by (simp add: literal_letter_def)
      ultimately show ?thesis using None JNum simp_ms step
        by (auto simp del: jwf.simps intro: sim_plain sim_after split: if_splits)
    qed
  qed
qed

lemma sim_run:
  "sim p q \<Longrightarrow> json_run p cs = Some p' \<Longrightarrow> sim p' (scan_from i cs q)"
proof (induction cs arbitrary: p q i)
  case (Cons c cs)
  from Cons.prems obtain p1 where step: "json_step p c = Some p1" and run: "json_run p1 cs = Some p'"
    by (auto split: option.splits)
  from sim_step [OF Cons.prems(1) step] have s: "sim p1 (scan_char i c q)" .
  then have "\<not> mismatched (scan_char i c q)" by (simp add: sim_def)
  with Cons.IH [OF s run] show ?case by (simp add: Let_def)
qed simp

lemma sim_init: "sim json_start scan_init"
  by (simp add: sim_def json_start_def scan_init_def)

section \<open>Completion\<close>

fun value_complete :: "jmode \<Rightarrow> bool" where
  "value_complete JAfter = True"
| "value_complete (JNum ph) = num_complete ph"
| "value_complete _ = False"

lemma num_next_closer: "num_complete ph \<Longrightarrow> num_next ph (closer_of c) = None"
  by (cases ph) (auto simp: closer_of_def structural)

lemma closers_finish:
  "json_run (JAfter, st) (map closer_of (map open_char st)) = Some (JAfter, [])"
proof (induction st)
  case (Cons k st)
  then show ?case by (cases k) (simp_all add: after_value_def closer_of_def structural)
qed simp

lemma complete_then_closers:
  assumes "value_complete m" "st \<noteq> []"
  shows "json_run (m, st) (map closer_of (map open_char st)) = Some (JAfter, [])"
proof -
  obtain k r where st: "st = k # r" using assms(2) by (cases st) auto
  have "json_step (m, st) (closer_of (open_char k)) = json_step (JAfter, st) (closer_of (open_char k))"
    using assms(1) by (cases m) (auto simp: num_next_closer split: option.splits)
  with closers_finish [of st] show ?thesis by (simp add: st)
qed

text \<open>A comma or a colon never ends a value; white space does so only after one.\<close>

lemma after_value_complete:
  "after_value c st = Some (m, st') \<Longrightarrow> value_complete m \<Longrightarrow> c \<noteq> CHR '','' \<and> c \<noteq> CHR '':''"
  by (auto simp: after_value_def structural split: list.splits container.splits if_splits)

lemma start_value_complete:
  assumes "start_value c st = Some (m, st')" "value_complete m"
  shows "c \<noteq> CHR '','' \<and> c \<noteq> CHR '':'' \<and> \<not> py_space c"
proof -
  from assms have "is_digit c"
    by (auto simp: start_value_def split: if_splits) code_simp
  then show ?thesis
    using structural by (auto simp: is_digit_def chr_between_def py_space_def Let_def)
qed

lemma num_next_complete:
  assumes "num_next ph c = Some ph'" "num_complete ph'"
  shows "c \<noteq> CHR '','' \<and> c \<noteq> CHR '':'' \<and> \<not> py_space c"
proof -
  have "is_digit (CHR ''0'')" by code_simp
  with assms have "is_digit c" by (cases ph) (auto split: if_splits)
  then show ?thesis
    using structural by (auto simp: is_digit_def chr_between_def py_space_def Let_def)
qed

lemma to_complete_last_char:
  assumes "jwf p" "json_step p c = Some (m, st)" "value_complete m"
  shows "c \<noteq> CHR '','' \<and> c \<noteq> CHR '':'' \<and> (py_space c \<longrightarrow> value_complete (fst p))"
proof -
  have sp: "\<not> py_space (CHR ''}'')" "\<not> py_space (CHR '']'')" "\<not> py_space dquote"
    by code_simp+
  obtain m0 st0 where p: "p = (m0, st0)" by (cases p)
  show ?thesis
  proof (cases m0)
    case (JLit w)
    with assms p show ?thesis
      by (auto split: list.splits if_splits dest: after_value_complete literal_letter_facts)
  next
    case (JNum ph)
    with assms p show ?thesis
      by (auto split: option.splits if_splits dest: num_next_complete after_value_complete)
  qed (use assms p sp in \<open>auto split: if_splits dest: start_value_complete after_value_complete\<close>)
qed

lemma complete_text_end:
  assumes "json_run json_start doc = Some (m, st)" "value_complete m"
  shows "\<not> endswith (rstrip doc) '','' \<and> \<not> endswith (rstrip doc) '':''"
  using assms
proof (induction doc arbitrary: m st rule: rev_induct)
  case Nil
  then show ?case by (auto simp: json_start_def)
next
  case (snoc c ys)
  from snoc.prems obtain p where run: "json_run json_start ys = Some p"
    and step: "json_step p c = Some (m, st)"
    by (auto simp: json_run_append split: option.splits)
  have "jwf p" using sim_run [OF sim_init run] by (simp add: sim_def)
  note c = to_complete_last_char [OF this step snoc.prems(2)]
  show ?case
  proof (cases "py_space c")
    case True
    with c obtain m0 st0 where "p = (m0, st0)" "value_complete m0" by (cases p) auto
    with snoc.IH run have "\<not> endswith (rstrip ys) '','' \<and> \<not> endswith (rstrip ys) '':''" by blast
    with True show ?thesis by (simp add: rstrip_by_def)
  next
    case False
    then have "rstrip (ys @ [c]) = ys @ [c]" by (simp add: rstrip_by_def)
    with c show ?thesis by (simp add: endswith_iff)
  qed
qed

text \<open>
  A reply cut off right after a complete value is completed by closing every open
  container, and that completion is tried first.
\<close>

lemma truncated_first:
  assumes run: "json_run json_start doc = Some (m, st)" and m: "value_complete m" and st: "st \<noteq> []"
  shows "\<exists>rest. truncated_json_candidates doc = (doc @ map closer_of (map open_char st)) # rest
     \<and> json_valid (doc @ map closer_of (map open_char st))"
proof -
  let ?q = "scan_from 0 doc scan_init"
  from sim_run [OF sim_init run] have q: "sc_stack ?q = map open_char st" "\<not> mismatched ?q"
    "\<not> in_string ?q" using m by (auto simp: sim_def elim: value_complete.elims)
  have v: "json_valid (doc @ map closer_of (map open_char st))"
    using run complete_then_closers [OF m st] by (simp add: json_valid_def json_run_append)
  then have "first_candidate doc ?q = [doc @ map closer_of (map open_char st)]"
    using q complete_text_end [OF run m] st by (simp add: first_candidate_def close_with_def)
  with v show ?thesis by (simp add: truncated_json_candidates_def Let_def)
qed

text \<open>Every candidate is valid JSON, extends a prefix of the reply by closing brackets only.\<close>

definition completes :: "string \<Rightarrow> string \<Rightarrow> bool" where
  "completes doc c =
     (\<exists>prefix tail closers. doc = prefix @ tail \<and> c = prefix @ closers
        \<and> set closers \<subseteq> {CHR ''}'', CHR '']''})"

lemma close_with_completes: "doc = prefix @ tail \<Longrightarrow> completes doc (close_with prefix st)"
  unfolding completes_def close_with_def by (rule exI [of _ prefix]) (auto simp: closer_of_def)

lemma boundary_candidates_sound:
  "c \<in> set (boundary_candidates doc bs ys) \<Longrightarrow> json_valid c \<and> completes doc c \<and> c \<notin> set ys"
proof (induction doc bs ys rule: boundary_candidates.induct)
  case (2 doc i openers bs ys)
  have "completes doc (close_with (rstrip (take i doc)) openers)"
    using rstrip_by_prefix [of "take i doc" py_space]
    by (metis append.assoc append_take_drop_id close_with_completes)
  with 2 show ?case by (auto simp: Let_def split: if_splits)
qed simp

lemma boundary_candidates_distinct: "distinct (boundary_candidates doc bs ys)"
proof (induction doc bs ys rule: boundary_candidates.induct)
  case (2 doc i openers bs ys)
  then show ?case by (auto simp: Let_def dest: boundary_candidates_sound)
qed simp

lemma first_candidate_sound:
  "c \<in> set (first_candidate doc q) \<Longrightarrow> json_valid c \<and> completes doc c"
  by (auto simp: first_candidate_def intro: close_with_completes [of _ _ "[]"] split: if_splits)

lemma truncated_candidates_sound:
  "(\<forall>c \<in> set (truncated_json_candidates doc). json_valid c \<and> completes doc c)
   \<and> distinct (truncated_json_candidates doc)"
  by (auto simp: truncated_json_candidates_def Let_def first_candidate_def
      boundary_candidates_distinct dest: boundary_candidates_sound first_candidate_sound
      intro: close_with_completes [of _ _ "[]"])

section \<open>The request loop\<close>

lemma validate_first_sound:
  "validate_first val cs err = Inr x \<Longrightarrow> \<exists>c \<in> set cs. val c = Inr x"
  by (induction cs arbitrary: err) (auto split: sum.splits)

text \<open>An accepted reply validated, either as extracted or completed.\<close>

lemma parse_reply_sound:
  "parse_reply model raw = Inr x \<Longrightarrow>
   \<exists>c. cm_validate_json model c = Inr x
     \<and> (c = extract_json raw \<or> (json_valid c \<and> completes (extract_json raw) c))"
proof -
  assume "parse_reply model raw = Inr x"
  then obtain c where c: "c \<in> set (extract_json raw # truncated_json_candidates (extract_json raw))"
    and "cm_validate_json model c = Inr x"
    unfolding parse_reply_def Let_def by (metis validate_first_sound)
  moreover have "c = extract_json raw \<or> (json_valid c \<and> completes (extract_json raw) c)"
    using c truncated_candidates_sound [of "extract_json raw"] by (metis set_ConsD)
  ultimately show ?thesis by blast
qed

text \<open>The prompts of an attempt: the user's, or the user's with the reason of a retry.\<close>

definition attempt_prompt :: "string \<Rightarrow> string \<Rightarrow> 't contract_model \<Rightarrow> string \<Rightarrow> bool" where
  "attempt_prompt user fb model prompt \<longleftrightarrow> prompt = feedback_prompt user fb
     \<or> (\<exists>err. prompt = retry_prompt (feedback_prompt user fb) err (cm_schema model))"

text \<open>One attempt raises, answers, or hands over to the next attempt.\<close>

lemma attempt_loop_step:
  assumes "attempt_loop (i # js) md model sys user fb client before fallback lf w = R"
  obtains (raises) e w1 where "R = (Inl e, w1)"
  | (answers) prompt w1 raw x w2 where "attempt_prompt user fb model prompt" "client sys prompt w1 = (Inr raw, w2)"
      "parse_reply model raw = Inr x" "R = (Inr (x, True), w2)"
  | (next_try) lf' w2 where
      "R = attempt_loop js md model sys user fb client before fallback lf' w2"
proof -
  obtain err wo where lf: "lf = (err, wo)" by (cases lf)
  let ?p = "if i \<noteq> 0 then retry_prompt (feedback_prompt user fb) err (cm_schema model)
    else feedback_prompt user fb"
  obtain b w1 where b: "(case before of None \<Rightarrow> (Inr (), w) | Some f \<Rightarrow> f w) = (b, w1)"
    by (cases rule: prod.exhaust)
  obtain q w2 where q: "client sys ?p w1 = (q, w2)" by (cases rule: prod.exhaust)
  have R: "R = (case b of Inl e \<Rightarrow> (Inl e, w1) | Inr _ \<Rightarrow>
     (case q of Inl e \<Rightarrow> (case e of NonRetryableLlmError m \<Rightarrow> (Inl e, w2)
        | _ \<Rightarrow> attempt_loop js md model sys user fb client before fallback (exn_text e, False) w2)
      | Inr raw \<Rightarrow> (case parse_reply model raw of Inr x \<Rightarrow> (Inr (x, True), w2)
        | Inl m \<Rightarrow> attempt_loop js md model sys user fb client before fallback (m, True) w2)))"
    unfolding assms [symmetric] lf attempt_loop.simps Let_def b prod.case q ..
  have ask: "attempt_prompt user fb model ?p" by (auto simp: attempt_prompt_def)
  show thesis
  proof (cases b)
    case (Inl e)
    with R raises show thesis by simp
  next
    case b: (Inr u)
    show thesis
    proof (cases q)
      case (Inl e)
      with R b raises next_try show thesis by (cases e) simp_all
    next
      case reply: (Inr raw)
      show thesis
      proof (cases "parse_reply model raw")
        case (Inl m)
        with R b reply next_try show thesis by simp
      next
        case (Inr x)
        show thesis by (rule answers [OF ask _ Inr]) (use R b q reply Inr in simp_all)
      qed
    qed
  qed
qed

text \<open>The reply to the last call of the client, as a JSON text that the contract validates.\<close>

definition replied :: "('w client) \<Rightarrow> 't contract_model \<Rightarrow> string \<Rightarrow> string \<Rightarrow> string \<Rightarrow> 't \<Rightarrow> 'w \<Rightarrow> bool" where
  "replied client model sys user fb x w' \<longleftrightarrow>
     (\<exists>prompt w1 raw c. client sys prompt w1 = (Inr raw, w') \<and> attempt_prompt user fb model prompt \<and> cm_validate_json model c = Inr x
        \<and> (c = extract_json raw \<or> (json_valid c \<and> completes (extract_json raw) c)))"

lemma attempt_loop_outcome:
  assumes "attempt_loop is md model sys user fb client before fallback lf w = (Inr (x, u), w')"
  shows "if u then replied client model sys user fb x w' else md \<noteq> REQUIRED \<and> fallback = Inr x"
  using assms
proof (induction "is" arbitrary: lf w)
  case Nil
  then show ?case by (cases lf) (auto simp: bind_res_Inr_iff split: if_splits)
next
  case (Cons i js)
  from Cons.prems show ?case
  proof (cases rule: attempt_loop_step)
    case (next_try lf' w2)
    from next_try [symmetric] show ?thesis by (rule Cons.IH)
  next
    case (answers prompt w1 raw y w2)
    from parse_reply_sound [OF answers(3)] answers(1,2,4) show ?thesis by (auto simp: replied_def)
  qed simp
qed

text \<open>Each attempt costs at most one completion.\<close>

lemma attempt_loop_calls:
  assumes "\<And>s p w. snd (client s p w) = w + (1::nat)"
    and "attempt_loop is md model sys user fb client None fallback lf w = (r, w')"
  shows "w' \<le> w + length is"
  using assms(2)
proof (induction "is" arbitrary: lf w)
  case Nil
  then show ?case by (cases lf) (auto split: if_splits)
next
  case (Cons i js)
  obtain err wo where lf: "lf = (err, wo)" by (cases lf)
  define prompt where "prompt = (let p = feedback_prompt user fb in
    if i \<noteq> 0 then retry_prompt p err (cm_schema model) else p)"
  obtain q w2 where call: "client sys prompt w = (q, w2)" by (cases rule: prod.exhaust)
  with assms(1) have "w2 = w + 1" by (metis snd_conv)
  with Cons call lf prompt_def show ?case
    by (fastforce simp: Let_def split: sum.splits exn.splits)
qed

section \<open>Properties of structured proposals\<close>

text \<open>
  Every text offered as the completion of a truncated reply is valid JSON, consists of
  a prefix of the reply followed by closing brackets only, and none is offered twice: no
  field or value is invented.
\<close>

theorem truncated_candidates_invent_nothing:
  "list_all (\<lambda>c. json_valid c \<and> completes doc c) (truncated_json_candidates doc)
   \<and> distinct (truncated_json_candidates doc)"
  using truncated_candidates_sound [of doc] by (simp add: list_all_iff)

text \<open>
  C26: a reply that was cut off right after a complete value loses nothing: the first
  candidate is the whole reply with every open container closed.
\<close>

theorem truncated_reply_completed:
  assumes "json_run json_start doc = Some (m, st)" and "value_complete m" and "st \<noteq> []"
  shows "close_truncated_json doc = Some (doc @ map closer_of (map open_char st))
    \<and> json_valid (doc @ map closer_of (map open_char st))"
  using truncated_first [OF assms] by (auto simp: close_truncated_json_def)

theorem truncated_reply_completed_witness:
  "close_truncated_json (CHR ''{'' # CHR 0x22 # ''a'' @ CHR 0x22 # '':[1,2'') =
     Some (CHR ''{'' # CHR 0x22 # ''a'' @ CHR 0x22 # '':[1,2]}'')"
proof -
  let ?doc = "CHR ''{'' # CHR 0x22 # ''a'' @ CHR 0x22 # '':[1,2''"
  have "case json_run json_start ?doc of None \<Rightarrow> False
    | Some (m, st) \<Rightarrow> value_complete m \<and> map closer_of (map open_char st) = '']}''" by code_simp
  then obtain m st where run: "json_run json_start ?doc = Some (m, st)"
    and vc: "value_complete m" and cl: "map closer_of (map open_char st) = '']}''"
    by (auto split: option.splits)
  from cl have "st \<noteq> []" by auto
  from truncated_reply_completed [OF run vc this] cl show ?thesis by simp
qed

text \<open>
  C25: a proposal is either a value the contract validated from the reply to the last call of the
  model client, which was asked with the user's prompt and the feedback (that reply as extracted, or
  completed by closing brackets), or the deterministic fallback; the fallback is never used in
  required mode.
\<close>

theorem proposal_validated_or_fallback:
  "case propose_structured md client fb model sys user fallback before w of
     (Inl e, w') \<Rightarrow> True
   | (Inr (x, used_llm), w') \<Rightarrow>
       (if used_llm
        then \<exists>complete prompt w1 raw c. client = Some complete \<and> complete sys prompt w1 = (Inr raw, w')
               \<and> attempt_prompt user fb model prompt \<and> cm_validate_json model c = Inr x
               \<and> (c = extract_json raw \<or> (json_valid c \<and> completes (extract_json raw) c))
        else md \<noteq> REQUIRED \<and> fallback = Inr x)"
proof -
  obtain q w' where p: "propose_structured md client fb model sys user fallback before w = (q, w')"
    by (cases rule: prod.exhaust)
  show ?thesis
  proof (cases q)
    case (Inl e)
    then show ?thesis by (simp only: p prod.case sum.case)
  next
    case (Inr xu)
    obtain x u where xu: "xu = (x, u)" by (cases xu)
    have "if u then (\<exists>complete. client = Some complete \<and> replied complete model sys user fb x w') else md \<noteq> REQUIRED \<and> fallback = Inr x"
    proof (cases "md = OFFLINE \<or> client = None")
      case True
      with p Inr xu show ?thesis
        by (auto simp: propose_structured_def bind_res_Inr_iff split: if_splits)
    next
      case False
      with p Inr xu have "attempt_loop [0, 1, 2] md model sys user fb (the client) before fallback
          (''None'', False) w = (Inr (x, u), w')" by (simp add: propose_structured_def)
      from attempt_loop_outcome [OF this] False show ?thesis by (cases u) auto
    qed
    then show ?thesis unfolding p Inr xu prod.case sum.case replied_def by (simp split: if_splits)
  qed
qed

text \<open>
  a proposal costs at most three completions: with a client that counts its calls,
  three is the largest increase.
\<close>

theorem proposal_costs_three_calls:
  assumes "\<And>s p w. snd (client s p w) = w + (1::nat)"
  shows "snd (propose_structured md (Some client) fb model sys user fallback None w) \<le> w + 3"
proof -
  obtain r w' where p: "attempt_loop [0, 1, 2] md model sys user fb client None fallback
      (''None'', False) w = (r, w')" by (cases rule: prod.exhaust)
  from attempt_loop_calls [OF assms p] p show ?thesis by (simp add: propose_structured_def)
qed

theorem proposal_costs_three_calls_witness:
  "snd (propose_structured AUTO (Some (\<lambda>_ _ w. (Inr ''{'', w + (1::nat)))) []
     \<lparr>cm_name = ''M'', cm_schema = [], cm_validate_json = (\<lambda>_. Inl ''bad'' :: string + nat)\<rparr>
     [] [] (Inr 4) None 10) \<le> 10 + 3"
  by (rule proposal_costs_three_calls) simp

end
