(* ===== verification/Samples.thy ===== *)
theory Samples
  imports Pipeline_Run
begin

text \<open>
  Concrete steps, contexts and states on which the engine is evaluated: a step that
  passes, a step that fails one error check, the context with the defaults of
  \<open>PipelineContext\<close>, and the state of a fresh run.
\<close>

definition failing_check :: check_result where
  "failing_check =
     \<lparr>ck_name = ''gate'', ok = False, ck_severity = SevError, ck_message = ''bad'',
      blocks_execution = False, ck_origin = Some DESIGN, ck_reason_code = [],
      ck_affected_refs = [], ck_evidence = []\<rparr>"

definition sample_hooks :: "check_result list \<Rightarrow> pipeline_step \<Rightarrow> (nat, unit) step_hooks" where
  "sample_hooks cs st =
     \<lparr>hk_step = st, knowledge_role = None, repair_strategy_id = None,
      repair_is_deterministic = False, allow_artifact_first_design_repair = False,
      hk_knowledge_query = (\<lambda>_. None), hk_propose = (\<lambda>_ _ s. (Inr (0, False), s)),
      hk_check = (\<lambda>_ _. Inr cs), hk_repair = None, hk_repair_applicable = (\<lambda>_ _ _. True),
      hk_prepare_resumed = (\<lambda>_ a. Inr a), hk_resume_current = (\<lambda>_ _. True), hk_replan = None,
      hk_rollback_target = (\<lambda>_ _ _. None), hk_convergence = None, hk_summarize = (\<lambda>_. [])\<rparr>"

definition sample_ctx :: "(nat, unit) pipeline_context" where
  "sample_ctx =
     \<lparr>mode = OFFLINE, has_client = False, kb_retrieve = (\<lambda>_ _. []), repair_attempts = 0,
      capture_step_errors = False, has_ahe_observer = False, ahe_enabled = True,
      max_total_repair_attempts = 12, max_same_failure_retries = 2,
      ahe_deadline_monotonic = None, monotonic = (\<lambda>_. 0), max_replan_attempts = 2,
      strategy_score = None, replan_score = None, artifact_first = False,
      repair_release_issues = False, execution_retry_attempts = 1, design_repair_attempts = 0,
      max_design_repair_attempts_per_step = 2, max_total_design_repair_attempts = 8,
      agentic_recovery_enabled = False, max_agentic_recovery_turns_per_step = 6,
      max_total_agentic_recovery_turns = 24, has_step_observer = False,
      has_progress_observer = False, model_dump_json = (\<lambda>_. ''{}'')\<rparr>"

definition sample_state :: "(nat, unit) pipeline_state" where
  "sample_state =
     \<lparr>requirement_text = ''board'', project_name = ''p'', artifacts = (\<lambda>_. None), results = [],
      revision = 0, repair_history = [], replan_history = [], recovery_history = [],
      capability_gaps = [], resume_candidates = (\<lambda>_. None), connection_checkpoint = None,
      connection_report = None, release_resume_step = None, release_resume_token_digest = [],
      repair_feedback = [], world = (), trace = []\<rparr>"

definition sample_services :: "(nat, unit) recovery_services" where
  "sample_services =
     \<lparr>skill_of = (\<lambda>_. ([], [])), recovery_client = (\<lambda>_ _ w. (Inr [], w)),
      decision_model = \<lparr>cm_name = ''RecoveryDecision'', cm_schema = [], cm_validate_json = (\<lambda>_. Inl [])\<rparr>,
      recovery_prompt = (\<lambda>_ _ _ _ _ _ _. ([], [])), container_str = (\<lambda>_. [])\<rparr>"

text \<open>Two steps: the first passes, the second fails.\<close>

definition sample_steps :: "(nat, unit) step_hooks list" where
  "sample_steps = [sample_hooks [] REQUIREMENTS, sample_hooks [failing_check] TOPOLOGY]"

definition sample_run :: "((exn + unit) \<times> (nat, unit) pipeline_state) option" where
  "sample_run = pipeline_run 5 sample_services sample_steps sample_ctx None sample_state"

lemmas sample_defs =
  failing_check_def sample_hooks_def sample_ctx_def sample_state_def sample_services_def

text \<open>A sample step runs without repairs and without touching the outside.\<close>

definition sample_result :: "check_result list \<Rightarrow> pipeline_step \<Rightarrow> step_result" where
  "sample_result cs st =
     \<lparr>sr_step = st, sr_used_llm = False, knowledge_used = [], sr_checks = cs,
      sr_failures = failures_for (sample_hooks cs st)
        (strategy_available (sample_hooks cs st) sample_ctx cs False) cs,
      sr_repairs = [], sr_blocked = is_blocked cs, sr_execution_blocked = is_execution_blocked cs,
      sr_summary = []\<rparr>"

lemma sample_hooks_simps [simp]:
  "hk_step (sample_hooks cs st) = st"
  "hk_knowledge_query (sample_hooks cs st) = (\<lambda>_. None)"
  "hk_propose (sample_hooks cs st) = (\<lambda>_ _ s. (Inr (0, False), s))"
  "hk_check (sample_hooks cs st) = (\<lambda>_ _. Inr cs)"
  "hk_summarize (sample_hooks cs st) = (\<lambda>_. [])"
  "hk_rollback_target (sample_hooks cs st) = (\<lambda>_ _ _. None)"
  by (simp_all add: sample_hooks_def)

lemma sample_ctx_simps [simp]:
  "repair_attempts sample_ctx = 0" "design_repair_attempts sample_ctx = 0"
  "has_ahe_observer sample_ctx = False" "artifact_first sample_ctx = False"
  "has_step_observer sample_ctx = False" "agentic_recovery_enabled sample_ctx = False"
  "repair_release_issues sample_ctx = False" "max_total_agentic_recovery_turns sample_ctx = 24"
  "max_total_design_repair_attempts sample_ctx = 8" "max_total_repair_attempts sample_ctx = 12"
  by (simp_all add: sample_ctx_def)

lemma sample_no_repair [simp]: "\<not> can_repair (sample_hooks cs st) sample_ctx s av fs a cs'"
  by (simp add: can_repair_def)

lemma sample_emit [simp]: "emit sample_ctx e s = s"
  by (simp add: emit_def)

lemma sample_emit_failures [simp]: "emit_failures h sample_ctx nm fs s = s"
  unfolding emit_failures_def sample_emit by (induction fs) simp_all

lemma sample_emit_outcome [simp]: "emit_outcome h sample_ctx b a cs fs s = s"
  by (simp add: emit_outcome_def Let_def)

lemma sample_base_run:
  assumes "resume_candidates s = (\<lambda>_. None)" "capability_gaps s = []"
  shows "base_run (sample_hooks cs st) sample_ctx s =
    (Inr (sample_result cs st),
     s\<lparr>artifacts := (artifacts s)(st \<mapsto> 0), results := results s @ [sample_result cs st]\<rparr>)"
proof -
  have adopt_self: "adopt t t = t" for t :: "(nat, unit) pipeline_state" by (simp add: adopt_def)
  have gaps: "resolve_gaps h sample_ctx cs t = t" if "capability_gaps t = []" for h t
    using that by (cases t) (simp add: resolve_gaps_def)
  from assms have same: "s\<lparr>resume_candidates := \<lambda>_. None\<rparr> = s" by simp
  show ?thesis
    using assms
    by (simp add: base_run_def retrieve_knowledge_def obtain_artifact_def call_hook_def adopt_self
        run_repairs_def finish_step_def sample_result_def gaps same Let_def)
qed

lemma sample_active [simp]:
  "replan_history s = [] \<Longrightarrow> active_replan s st = Inr None"
  "recovery_history s = [] \<Longrightarrow> active_recovery s st = None"
  by (simp_all add: active_replan_def active_recovery_def)

definition sample_final :: "(nat, unit) pipeline_state" where
  "sample_final =
     sample_state\<lparr>artifacts := [REQUIREMENTS \<mapsto> 0, TOPOLOGY \<mapsto> 0],
       results := [sample_result [] REQUIREMENTS, sample_result [failing_check] TOPOLOGY]\<rparr>"

lemma sample_run_eq: "sample_run = Some (Inr (), sample_final)"
proof -
  have blocked: "is_blocked [failing_check]" "\<not> is_blocked []"
    by (simp_all add: is_blocked_def error_check_def failing_check_def)
  have valid: "validate_order 0 sample_steps = Inr ()"
    by (simp add: sample_steps_def CANONICAL_ORDER_def)
  let ?s1 = "sample_state\<lparr>artifacts := (artifacts sample_state)(REQUIREMENTS \<mapsto> 0),
      results := results sample_state @ [sample_result [] REQUIREMENTS]\<rparr>"
  let ?s2 = "?s1\<lparr>artifacts := (artifacts ?s1)(TOPOLOGY \<mapsto> 0),
      results := results ?s1 @ [sample_result [failing_check] TOPOLOGY]\<rparr>"
  have first: "pipeline_iteration sample_services sample_steps sample_ctx 1 0 {} sample_state
      = Next 1 {REQUIREMENTS} ?s1"
    by (simp add: pipeline_iteration_def run_and_dispatch_def execute_step.simps sample_base_run Let_def
        set_feedback_def observe_recovery_def can_continue_def blocked sample_result_def
        complete_step_def pending_replan_def notify_completed_def sample_steps_def sample_state_def
        order_index_def CANONICAL_ORDER_def)
  have second: "pipeline_iteration sample_services sample_steps sample_ctx 1 1 {REQUIREMENTS} ?s1
      = Finished ?s2"
    by (simp add: pipeline_iteration_def run_and_dispatch_def execute_step.simps sample_base_run Let_def
        set_feedback_def observe_recovery_def can_continue_def blocked sample_result_def
        handle_blocked_def agentic_budget_available_def replan_or_stop_def rollback_choice_def
        suggested_rollback_def give_up_def retire_pending_def retire_turn_def pending_replan_def
        notify_completed_def sample_steps_def sample_state_def order_index_def CANONICAL_ORDER_def)
  have "sample_run = Some (Inr (), ?s2)"
    using first second valid
    by (simp add: sample_run_def pipeline_run_def eval_nat_numeral prefix_error_def state_blocked_def
        completed_def sample_state_def sample_steps_def)
  also have "?s2 = sample_final" by (simp add: sample_final_def sample_state_def)
  finally show ?thesis .
qed

end
