(* ===== verification/Run_Registry.thy ===== *)
theory Run_Registry
  imports Prelude
begin

text \<open>
  \<open>service/run_registry.py\<close>: the in-memory registry that owns background agent runs.

  A \<open>RunRecord\<close> is an object: \<open>rg_objects\<close> is the store (an object is named by its
  position), \<open>rg_index\<close> the dictionary \<open>_records\<close> from request identifiers to objects.
  \<open>rg_tasks\<close> are the asyncio tasks created for \<open>_execute\<close>, each with the record and the
  generation it was created for.  asyncio switches tasks only at an \<open>await\<close>, so every
  operation below is the code between two of them; the bookkeeping a task does after its
  producer has ended (terminal events, \<open>finally\<close>) is one operation.  The time of day is an
  argument.
\<close>

named_theorems registry_defs \<open>operations on a run record\<close>

section \<open>Data\<close>

datatype run_kind = Invoke | Stream

datatype run_status = Queued | Running | WaitingForInput | Completed | Failed | Cancelled | TimedOut

definition terminal_state :: "run_status \<Rightarrow> bool" where
  "terminal_state st = (st \<in> {Completed, Failed, Cancelled, TimedOut})"

record run_record =
  request_id :: string
  fingerprint :: string
  run_kind_of :: run_kind
  agent_id :: string
  thread_id :: string
  user_id :: "string option"
  timeout_seconds :: rat
  event_buffer_size :: nat
  status :: run_status
  run_id :: "string option"
  created_at :: rat
  started_at :: "rat option"
  finished_at :: "rat option"
  run_result :: "pyval option"
  error_code :: "string option"
  run_error :: "string option"
  http_status :: int
  stream_failed :: bool
  terminal_event_emitted :: bool
  interaction_id :: "string option"
  interaction_state_version :: "int option"
  accepted_responses :: "(string \<times> string \<times> int) list"
  event_keys :: "(string \<times> int) list"
  execution_generation :: int
  events :: "(int \<times> string) list"
  next_event_id :: int
  run_done :: bool
  run_task :: "nat option"

definition is_terminal :: "run_record \<Rightarrow> bool" where
  "is_terminal r = terminal_state (status r)"

text \<open>
  A task has been created but its coroutine not entered; it waits for the semaphore; it
  runs its producer; or it is done.
\<close>

datatype task_phase = Created | AwaitSlot | Producing | TaskDone

record run_task =
  tk_record :: nat
  tk_generation :: int
  tk_phase :: task_phase

record registry =
  rg_objects :: "run_record list"
  rg_index :: "(string \<times> nat) list"
  rg_tasks :: "run_task list"

record registry_config =
  max_concurrent :: int
  max_queued :: int
  default_timeout :: rat
  heartbeat_seconds :: rat
  cfg_buffer_size :: nat
  max_event_bytes :: int
  retention_seconds :: rat

datatype run_exn =
    RunConflictError
  | RunOverloadedError
  | RunNotFoundError
  | RunAccessError
  | InteractionConflictError
  | InvalidRunTransitionError

section \<open>Terminal stream payloads\<close>

definition nibble_char :: "nat \<Rightarrow> char" where
  "nibble_char n = ''0123456789abcdef'' ! n"

text \<open>\<open>json.dumps\<close> on a string, with \<open>ensure_ascii\<close>.\<close>

definition json_escape_char :: "char \<Rightarrow> string" where
  "json_escape_char c =
     (let n = nat (chr_code c); bs = CHR 0x5C
      in if c = CHR 0x22 \<or> c = bs then [bs, c]
         else if n = 10 then [bs, CHR ''n''] else if n = 13 then [bs, CHR ''r'']
         else if n = 9 then [bs, CHR ''t''] else if n = 12 then [bs, CHR ''f'']
         else if n = 8 then [bs, CHR ''b'']
         else if 32 \<le> n \<and> n \<le> 126 then [c]
         else bs # ''u00'' @ [nibble_char (n div 16), nibble_char (n mod 16)])"

definition json_string :: "string \<Rightarrow> string" where
  "json_string s = CHR 0x22 # concat (map json_escape_char s) @ [CHR 0x22]"

definition error_payload :: "string \<Rightarrow> string \<Rightarrow> bool \<Rightarrow> string" where
  "error_payload message code retryable =
     ''data: {'' @ json_string ''type'' @ '': '' @ json_string ''error'' @ '', ''
     @ json_string ''content'' @ '': '' @ json_string message @ '', ''
     @ json_string ''code'' @ '': '' @ json_string code @ '', ''
     @ json_string ''retryable'' @ '': '' @ (if retryable then ''true'' else ''false'') @ ''}''
     @ [CHR 0x0A, CHR 0x0A]"

definition DONE_MARKER :: string where
  "DONE_MARKER = ''data: [DONE]''"

definition done_payload :: string where
  "done_payload = DONE_MARKER @ [CHR 0x0A, CHR 0x0A]"

section \<open>Events\<close>

text \<open>\<open>deque(maxlen=n).append\<close>.\<close>

definition push_event :: "(int \<times> string) \<Rightarrow> run_record \<Rightarrow> run_record" where
  "push_event e r =
     (let es = events r @ [e] in r\<lparr>events := drop (length es - event_buffer_size r) es\<rparr>)"

definition add_event :: "string \<Rightarrow> run_record \<Rightarrow> run_record" where
  "add_event payload r =
     push_event (next_event_id r, payload) (r\<lparr>next_event_id := next_event_id r + 1\<rparr>)"

definition append_event ::
    "registry_config \<Rightarrow> string \<Rightarrow> string option \<Rightarrow> run_record \<Rightarrow> (run_exn + int) \<times> run_record" where
  "append_event cfg payload key r =
     (if status r = WaitingForInput \<and> contains payload DONE_MARKER
      then (Inl InvalidRunTransitionError, r)
      else case Option.bind key (\<lambda>k. if k = [] then None else map_of (event_keys r) k) of
        Some i \<Rightarrow> (Inr i, r)
      | None \<Rightarrow>
          (let large = (int (length payload) > max_event_bytes cfg);
               message = ''Stream event exceeded the '' @ int_str (max_event_bytes cfg)
                         @ ''-byte service limit.'';
               r1 = (if large
                     then r\<lparr>stream_failed := True, error_code := Some ''event_too_large'',
                            run_error := Some message\<rparr> else r);
               payload1 = (if large then error_payload message ''event_too_large'' False else payload);
               i = next_event_id r1;
               r2 = add_event payload1 r1;
               r3 = (case key of
                       Some k \<Rightarrow> if k = [] then r2 else r2\<lparr>event_keys := AList.update k i (event_keys r2)\<rparr>
                     | None \<Rightarrow> r2);
               r4 = (if contains payload1 DONE_MARKER then r3\<lparr>terminal_event_emitted := True\<rparr> else r3)
           in (Inr i, r4)))"

definition emit_terminal_stream_error :: "registry_config \<Rightarrow> run_record \<Rightarrow> run_record" where
  "emit_terminal_stream_error cfg r =
     (if run_kind_of r \<noteq> Stream then r
      else
        (let message = str_or (case run_error r of None \<Rightarrow> [] | Some e \<Rightarrow> e) ''Run failed.'';
             code = str_or (case error_code r of None \<Rightarrow> [] | Some c \<Rightarrow> c) ''run_failed'';
             r1 = snd (append_event cfg (error_payload message code (status r = TimedOut)) None r)
         in if terminal_event_emitted r1 then r1 else snd (append_event cfg done_payload None r1)))"

section \<open>Ending an execution\<close>

datatype outcome =
    Returned pyval
  | ProducerTimeout
  | ProducerCancelled
  | HttpError string int
  | Crashed

definition finish_returned :: "registry_config \<Rightarrow> int \<Rightarrow> pyval \<Rightarrow> run_record \<Rightarrow> run_record" where
  "finish_returned cfg gen v r =
     (if execution_generation r \<noteq> gen \<or> status r = WaitingForInput then r
      else
        (let r1 = r\<lparr>run_result := Some v\<rparr>;
             r2 = (if run_kind_of r1 = Stream \<and> \<not> terminal_event_emitted r1
                   then snd (append_event cfg done_payload None r1) else r1);
             r3 = r2\<lparr>status := (if stream_failed r2 then Failed else Completed)\<rparr>
         in if stream_failed r3
            then r3\<lparr>error_code := Some (str_or (case error_code r3 of None \<Rightarrow> [] | Some c \<Rightarrow> c) ''stream_error''),
                    run_error := Some (str_or (case run_error r3 of None \<Rightarrow> [] | Some e \<Rightarrow> e)
                                   ''The agent stream reported an error.'')\<rparr>
            else r3))"

definition fail_run ::
    "registry_config \<Rightarrow> run_status \<Rightarrow> string \<Rightarrow> string \<Rightarrow> int \<Rightarrow> run_record \<Rightarrow> run_record" where
  "fail_run cfg st code message http r =
     emit_terminal_stream_error cfg
       (r\<lparr>status := st, error_code := Some code, run_error := Some message, http_status := http\<rparr>)"

text \<open>The \<open>finally\<close> clause.\<close>

definition settle :: "rat \<Rightarrow> run_record \<Rightarrow> run_record" where
  "settle now r = (if is_terminal r then r\<lparr>finished_at := Some now, run_done := True\<rparr> else r)"

definition finish_execution ::
    "registry_config \<Rightarrow> (rat \<Rightarrow> string) \<Rightarrow> rat \<Rightarrow> int \<Rightarrow> outcome \<Rightarrow> run_record \<Rightarrow> run_record" where
  "finish_execution cfg g_format now gen out r =
     settle now
       (case out of
          Returned v \<Rightarrow> finish_returned cfg gen v r
        | ProducerTimeout \<Rightarrow>
            if status r = WaitingForInput then r
            else fail_run cfg TimedOut ''run_timeout''
                   (''Run exceeded '' @ g_format (timeout_seconds r) @ '' seconds.'') 504 r
        | ProducerCancelled \<Rightarrow> fail_run cfg Cancelled ''run_cancelled'' ''Run was cancelled.'' 409 r
        | HttpError detail code \<Rightarrow>
            if status r = WaitingForInput then r else fail_run cfg Failed ''request_rejected'' detail code r
        | Crashed \<Rightarrow>
            if status r = WaitingForInput then r
            else fail_run cfg Failed ''internal_error'' ''Internal server error'' 500 r)"

section \<open>The registry\<close>

definition update_object :: "nat \<Rightarrow> (run_record \<Rightarrow> run_record) \<Rightarrow> registry \<Rightarrow> registry" where
  "update_object i f g = g\<lparr>rg_objects := (rg_objects g)[i := f (rg_objects g ! i)]\<rparr>"

definition set_phase :: "nat \<Rightarrow> task_phase \<Rightarrow> registry \<Rightarrow> registry" where
  "set_phase t p g = g\<lparr>rg_tasks := (rg_tasks g)[t := (rg_tasks g ! t)\<lparr>tk_phase := p\<rparr>]\<rparr>"

definition expired :: "registry_config \<Rightarrow> rat \<Rightarrow> run_record \<Rightarrow> bool" where
  "expired cfg now r =
     (case finished_at r of None \<Rightarrow> False | Some t \<Rightarrow> now - t > retention_seconds cfg)"

definition cleanup_locked :: "registry_config \<Rightarrow> rat \<Rightarrow> registry \<Rightarrow> registry" where
  "cleanup_locked cfg now g =
     g\<lparr>rg_index := filter (\<lambda>(_, i). \<not> expired cfg now (rg_objects g ! i)) (rg_index g)\<rparr>"

definition validate_owner :: "run_record \<Rightarrow> string option \<Rightarrow> run_exn + unit" where
  "validate_owner r user =
     (case user_id r of
        None \<Rightarrow> Inr ()
      | Some u \<Rightarrow> if u \<noteq> [] \<and> user \<noteq> Some u then Inl RunAccessError else Inr ())"

definition validate_existing ::
    "run_record \<Rightarrow> string \<Rightarrow> run_kind \<Rightarrow> string option \<Rightarrow> run_exn + unit" where
  "validate_existing r fp kind user =
     bind_res (validate_owner r user)
       (\<lambda>_. if fingerprint r \<noteq> fp \<or> run_kind_of r \<noteq> kind then Inl RunConflictError else Inr ())"

definition pending_runs :: "registry \<Rightarrow> int" where
  "pending_runs g =
     count_if (\<lambda>(_, i). let r = rg_objects g ! i
                         in \<not> is_terminal r \<and> status r \<noteq> WaitingForInput) (rg_index g)"

definition fresh_record ::
    "registry_config \<Rightarrow> rat \<Rightarrow> string \<Rightarrow> string \<Rightarrow> run_kind \<Rightarrow> string \<Rightarrow> string \<Rightarrow> string option
     \<Rightarrow> rat option \<Rightarrow> nat \<Rightarrow> run_record" where
  "fresh_record cfg now req fp kind agent thread user timeout task =
     \<lparr>request_id = req, fingerprint = fp, run_kind_of = kind, agent_id = agent, thread_id = thread,
      user_id = user,
      timeout_seconds = min (case timeout of None \<Rightarrow> default_timeout cfg
                             | Some t \<Rightarrow> if t = 0 then default_timeout cfg else t)
                          (default_timeout cfg),
      event_buffer_size = cfg_buffer_size cfg, status = Queued, run_id = None, created_at = now,
      started_at = None, finished_at = None, run_result = None, error_code = None,
      run_error = None, http_status = 500, stream_failed = False, terminal_event_emitted = False,
      interaction_id = None, interaction_state_version = None, accepted_responses = [],
      event_keys = [], execution_generation = 1, events = [], next_event_id = 1,
      run_done = False, run_task = Some task\<rparr>"

definition start ::
    "registry_config \<Rightarrow> rat \<Rightarrow> string \<Rightarrow> string \<Rightarrow> run_kind \<Rightarrow> string \<Rightarrow> string \<Rightarrow> string option
     \<Rightarrow> rat option \<Rightarrow> registry \<Rightarrow> (run_exn + nat \<times> bool) \<times> registry" where
  "start cfg now req fp kind agent thread user timeout g =
     (let g1 = cleanup_locked cfg now g
      in case map_of (rg_index g1) req of
           Some i \<Rightarrow>
             (case validate_existing (rg_objects g1 ! i) fp kind user of
                Inl e \<Rightarrow> (Inl e, g1) | Inr _ \<Rightarrow> (Inr (i, False), g1))
         | None \<Rightarrow>
             if pending_runs g1 \<ge> max_concurrent cfg + max_queued cfg
             then (Inl RunOverloadedError, g1)
             else
               (let i = length (rg_objects g1); t = length (rg_tasks g1);
                    r = fresh_record cfg now req fp kind agent thread user timeout t
                in (Inr (i, True),
                    g1\<lparr>rg_objects := rg_objects g1 @ [r], rg_index := AList.update req i (rg_index g1),
                       rg_tasks := rg_tasks g1 @
                         [\<lparr>tk_record = i, tk_generation = execution_generation r, tk_phase = Created\<rparr>]\<rparr>)))"

definition pause_record ::
    "string \<Rightarrow> int \<Rightarrow> string \<Rightarrow> run_record \<Rightarrow> (run_exn + unit) \<times> run_record" where
  "pause_record iid version payload r =
     (if status r = WaitingForInput then
        (if interaction_id r = Some iid \<and> interaction_state_version r = Some version
         then (Inr (), r) else (Inl InteractionConflictError, r))
      else if status r \<noteq> Running then (Inl InvalidRunTransitionError, r)
      else (Inr (),
            add_event payload
              (r\<lparr>status := WaitingForInput, interaction_id := Some iid,
                 interaction_state_version := Some version, finished_at := None,
                 run_done := False\<rparr>)))"

definition pause_for_input ::
    "registry_config \<Rightarrow> string \<Rightarrow> string \<Rightarrow> int \<Rightarrow> string \<Rightarrow> registry \<Rightarrow> (run_exn + unit) \<times> registry" where
  "pause_for_input cfg req iid version payload g =
     (if int (length payload) > max_event_bytes cfg then (Inl InvalidRunTransitionError, g)
      else case map_of (rg_index g) req of
        None \<Rightarrow> (Inl RunNotFoundError, g)
      | Some i \<Rightarrow>
          (let (q, r) = pause_record iid version payload (rg_objects g ! i)
           in (q, update_object i (\<lambda>_. r) g)))"

text \<open>
  The compare-and-swap of \<open>resume\<close>: \<open>Inr False\<close> for a response that was accepted before,
  \<open>Inr True\<close> when the run is queued again.
\<close>

definition resume_record ::
    "string \<Rightarrow> string \<Rightarrow> int \<Rightarrow> nat \<Rightarrow> run_record \<Rightarrow> (run_exn + bool) \<times> run_record" where
  "resume_record iid response version task r =
     (case map_of (accepted_responses r) response of
        Some prior \<Rightarrow>
          if prior \<noteq> (iid, version) then (Inl InteractionConflictError, r) else (Inr False, r)
      | None \<Rightarrow>
          if status r \<noteq> WaitingForInput then (Inl InvalidRunTransitionError, r)
          else if interaction_id r \<noteq> Some iid then (Inl InteractionConflictError, r)
          else if interaction_state_version r \<noteq> Some version then (Inl InteractionConflictError, r)
          else (Inr True,
                r\<lparr>accepted_responses := AList.update response (iid, version) (accepted_responses r),
                  status := Queued, interaction_id := None, interaction_state_version := None,
                  finished_at := None, error_code := None, run_error := None, run_done := False,
                  execution_generation := execution_generation r + 1, run_task := Some task\<rparr>))"

definition resume ::
    "registry_config \<Rightarrow> rat \<Rightarrow> string \<Rightarrow> string option \<Rightarrow> string \<Rightarrow> string \<Rightarrow> int \<Rightarrow> registry
     \<Rightarrow> (run_exn + nat \<times> bool) \<times> registry" where
  "resume cfg now req user iid response version g =
     (let g1 = cleanup_locked cfg now g
      in case map_of (rg_index g1) req of
           None \<Rightarrow> (Inl RunNotFoundError, g1)
         | Some i \<Rightarrow>
             (case validate_owner (rg_objects g1 ! i) user of
                Inl e \<Rightarrow> (Inl e, g1)
              | Inr _ \<Rightarrow>
                  (case resume_record iid response version (length (rg_tasks g1)) (rg_objects g1 ! i) of
                     (Inl e, r) \<Rightarrow> (Inl e, g1)
                   | (Inr False, r) \<Rightarrow> (Inr (i, False), g1)
                   | (Inr True, r) \<Rightarrow>
                       (Inr (i, True),
                        (update_object i (\<lambda>_. r) g1)
                          \<lparr>rg_tasks := rg_tasks g1 @
                             [\<lparr>tk_record = i, tk_generation = execution_generation r,
                               tk_phase = Created\<rparr>]\<rparr>))))"

definition get_run ::
    "registry_config \<Rightarrow> rat \<Rightarrow> string \<Rightarrow> string option \<Rightarrow> registry \<Rightarrow> (run_exn + nat) \<times> registry" where
  "get_run cfg now req user g =
     (let g1 = cleanup_locked cfg now g
      in case map_of (rg_index g1) req of
           None \<Rightarrow> (Inl RunNotFoundError, g1)
         | Some i \<Rightarrow>
             (case validate_owner (rg_objects g1 ! i) user of
                Inl e \<Rightarrow> (Inl e, g1) | Inr _ \<Rightarrow> (Inr i, g1)))"

section \<open>Tasks\<close>

definition task_live :: "registry \<Rightarrow> nat option \<Rightarrow> bool" where
  "task_live g t =
     (case t of None \<Rightarrow> False | Some i \<Rightarrow> tk_phase (rg_tasks g ! i) \<noteq> TaskDone)"

definition permits_used :: "registry \<Rightarrow> int" where
  "permits_used g = count_if (\<lambda>t. tk_phase t = Producing) (rg_tasks g)"

text \<open>The task enters the coroutine and waits for the semaphore.\<close>

definition task_enter :: "nat \<Rightarrow> registry \<Rightarrow> registry" where
  "task_enter t g = (if tk_phase (rg_tasks g ! t) = Created then set_phase t AwaitSlot g else g)"

text \<open>The semaphore is acquired: start the producer, or leave when the turn is stale.\<close>

definition task_acquire :: "registry_config \<Rightarrow> rat \<Rightarrow> nat \<Rightarrow> registry \<Rightarrow> registry" where
  "task_acquire cfg now t g =
     (let k = rg_tasks g ! t; r = rg_objects g ! tk_record k
      in if tk_phase k \<noteq> AwaitSlot \<or> permits_used g \<ge> max_concurrent cfg then g
         else if execution_generation r \<noteq> tk_generation k \<or> status r \<noteq> Queued
         then set_phase t TaskDone (update_object (tk_record k) (settle now) g)
         else set_phase t Producing
                (update_object (tk_record k)
                   (\<lambda>r. r\<lparr>status := Running,
                          started_at := (case started_at r of None \<Rightarrow> Some now | Some x \<Rightarrow> Some x)\<rparr>) g))"

text \<open>The producer ends; a task that still waits can only be cancelled.\<close>

definition task_finish ::
    "registry_config \<Rightarrow> (rat \<Rightarrow> string) \<Rightarrow> rat \<Rightarrow> nat \<Rightarrow> outcome \<Rightarrow> registry \<Rightarrow> registry" where
  "task_finish cfg g_format now t out g =
     (let k = rg_tasks g ! t
      in if tk_phase k = Producing \<or> (tk_phase k = AwaitSlot \<and> out = ProducerCancelled)
         then set_phase t TaskDone
                (update_object (tk_record k) (finish_execution cfg g_format now (tk_generation k) out) g)
         else if tk_phase k = Created \<and> out = ProducerCancelled
         then set_phase t TaskDone g
         else g)"

text \<open>
  \<open>cancel\<close> up to the wait for the task: the task is delivered a \<open>CancelledError\<close> as
  \<open>task_finish\<close> with \<open>ProducerCancelled\<close>.
\<close>

definition cancel_record :: "registry_config \<Rightarrow> rat \<Rightarrow> bool \<Rightarrow> run_record \<Rightarrow> run_record" where
  "cancel_record cfg now live r =
     (if is_terminal r then r
      else if live then r\<lparr>error_code := Some ''cancel_requested'', run_error := Some ''Cancellation requested.''\<rparr>
      else if status r = WaitingForInput then
        (emit_terminal_stream_error cfg
           (r\<lparr>status := Cancelled, error_code := Some ''run_cancelled'',
              run_error := Some ''Run was cancelled.'', http_status := 409,
              finished_at := Some now\<rparr>))\<lparr>run_done := True\<rparr>
      else r)"

definition cancel_run ::
    "registry_config \<Rightarrow> rat \<Rightarrow> string \<Rightarrow> string option \<Rightarrow> registry \<Rightarrow> (run_exn + nat) \<times> registry" where
  "cancel_run cfg now req user g =
     (case get_run cfg now req user g of
        (Inl e, g1) \<Rightarrow> (Inl e, g1)
      | (Inr i, g1) \<Rightarrow>
          (Inr i, update_object i (cancel_record cfg now (task_live g1 (run_task (rg_objects g1 ! i)))) g1))"

section \<open>Small updates\<close>

definition set_run_id :: "string option \<Rightarrow> run_record \<Rightarrow> run_record" where
  "set_run_id rid r =
     (case (rid, run_id r) of
        (Some x, None) \<Rightarrow> if x = [] then r else r\<lparr>run_id := Some x\<rparr>
      | (Some x, Some y) \<Rightarrow> if x \<noteq> [] \<and> y = [] then r\<lparr>run_id := Some x\<rparr> else r
      | _ \<Rightarrow> r)"

definition mark_stream_failed :: "string \<Rightarrow> string \<Rightarrow> run_record \<Rightarrow> run_record" where
  "mark_stream_failed code message r =
     r\<lparr>stream_failed := True, error_code := Some code, run_error := Some message\<rparr>"

definition status_count :: "registry \<Rightarrow> run_status \<Rightarrow> int" where
  "status_count g st = count_if (\<lambda>(_, i). status (rg_objects g ! i) = st) (rg_index g)"

section \<open>Subscribing\<close>

text \<open>
  The checks before the first event: \<open>Some\<close> the identifier and payload of the single error
  event, after which the stream ends.
\<close>

definition subscribe_gap :: "run_record \<Rightarrow> int \<Rightarrow> (int \<times> string) option" where
  "subscribe_gap r last_id =
     (if last_id > next_event_id r - 1
      then Some (last_id + 1, error_payload ''The requested replay position is ahead of the current run; reload thread history.'' ''replay_gap'' False)
      else case events r of
        [] \<Rightarrow> None
      | (first, _) # _ \<Rightarrow>
          if last_id < first - 1
          then Some (first - 1, error_payload ''The requested replay position is no longer buffered; reload thread history.'' ''replay_gap'' False)
          else None)"

text \<open>One round of the loop: the events sent, the new cursor, and whether the stream ends.\<close>

definition subscribe_round :: "run_record \<Rightarrow> int \<Rightarrow> (int \<times> string) list \<times> int \<times> bool" where
  "subscribe_round r cursor =
     (let available = filter (\<lambda>e. fst e > cursor) (events r);
          cursor' = (if available = [] then cursor else fst (last available))
      in (available, cursor',
          (is_terminal r \<or> status r = WaitingForInput) \<and> cursor' \<ge> next_event_id r - 1))"

lemmas [registry_defs] =
  push_event_def add_event_def append_event_def emit_terminal_stream_error_def finish_returned_def
  fail_run_def settle_def finish_execution_def pause_record_def resume_record_def cancel_record_def
  set_run_id_def mark_stream_failed_def

end
