(* ===== verification/Registry_Facts.thy ===== *)
theory Registry_Facts
  imports Run_Registry
begin

text \<open>
  What the run registry guarantees: the event buffer of a record always holds exactly the
  newest events, a record is marked done exactly in its terminal states, no more producers
  run than the semaphore allows, requests and answers are idempotent, and runs are
  isolated between users.
\<close>

section \<open>The record invariant\<close>

definition log_ok :: "run_record \<Rightarrow> bool" where
  "log_ok r =
     (1 \<le> next_event_id r
      \<and> int (length (events r)) = min (int (event_buffer_size r)) (next_event_id r - 1)
      \<and> map fst (events r) = [next_event_id r - int (length (events r)) .. next_event_id r - 1])"

definition lifecycle_ok :: "run_record \<Rightarrow> bool" where
  "lifecycle_ok r =
     (run_done r = is_terminal r \<and> (finished_at r \<noteq> None) = is_terminal r
      \<and> (status r = WaitingForInput \<longrightarrow> interaction_id r \<noteq> None \<and> interaction_state_version r \<noteq> None))"

definition record_ok :: "run_record \<Rightarrow> bool" where
  "record_ok r = (log_ok r \<and> lifecycle_ok r)"

text \<open>
  The contract every update of a record meets: it keeps the invariant and never reuses an
  event identifier.
\<close>

locale record_update =
  fixes upd :: "run_record \<Rightarrow> run_record"
  assumes keeps: "record_ok r \<Longrightarrow> record_ok (upd r)"
    and monotone: "record_ok r \<Longrightarrow> next_event_id r \<le> next_event_id (upd r)"
begin

lemma keeps_all:
  "i < length rs \<Longrightarrow> list_all record_ok rs \<Longrightarrow> list_all record_ok (rs[i := upd (rs ! i)])"
  by (simp add: list_all_length nth_list_update keeps)

end

text \<open>A pair of updates in sequence meets the contract again.\<close>

lemma record_update_comp:
  assumes "record_update f" and "record_update g"
  shows "record_update (\<lambda>r. g (f r))"
  using assms unfolding record_update_def by (meson order_trans)

section \<open>The event buffer\<close>

lemma upto_snoc: "i \<le> j \<Longrightarrow> [i .. j] = [i .. j - 1] @ [j :: int]"
  by (simp add: upto_rec2)

lemma drop_upto: "int n \<le> j - i + 1 \<Longrightarrow> drop n [i .. j] = [i + int n .. j]"
proof (induction n arbitrary: i)
  case (Suc n)
  then have "i \<le> j" by simp
  then have "drop (Suc n) [i .. j] = drop n [i + 1 .. j]" by (simp add: upto_rec1)
  also have "\<dots> = [i + 1 + int n .. j]" using Suc by simp
  finally show ?case by (simp add: algebra_simps)
qed simp

lemma push_event_fields [simp]:
  "status (push_event e r) = status r" "run_done (push_event e r) = run_done r"
  "finished_at (push_event e r) = finished_at r" "next_event_id (push_event e r) = next_event_id r"
  "interaction_id (push_event e r) = interaction_id r" "stream_failed (push_event e r) = stream_failed r"
  "interaction_state_version (push_event e r) = interaction_state_version r"
  "event_keys (push_event e r) = event_keys r" "run_kind_of (push_event e r) = run_kind_of r"
  "event_buffer_size (push_event e r) = event_buffer_size r"
  by (simp_all add: push_event_def Let_def)

lemma add_event_fields [simp]:
  "status (add_event p r) = status r" "run_done (add_event p r) = run_done r"
  "finished_at (add_event p r) = finished_at r" "next_event_id (add_event p r) = next_event_id r + 1"
  "interaction_id (add_event p r) = interaction_id r" "stream_failed (add_event p r) = stream_failed r"
  "interaction_state_version (add_event p r) = interaction_state_version r"
  "event_keys (add_event p r) = event_keys r"
  by (simp_all add: add_event_def)

lemma add_event_log:
  assumes "log_ok r"
  shows "log_ok (add_event p r)"
proof -
  let ?n = "int (length (events r))" and ?b = "event_buffer_size r" and ?x = "next_event_id r"
  let ?k = "length (events r) + 1 - ?b"
  have ids: "map fst (events r @ [(?x, p)]) = [?x - ?n .. ?x]"
    using assms by (simp add: log_ok_def upto_snoc)
  have ev: "events (add_event p r) = drop ?k (events r @ [(?x, p)])"
    by (simp add: add_event_def push_event_def)
  have k: "int ?k \<le> ?n + 1" by simp
  have "map fst (events (add_event p r)) = drop ?k [?x - ?n .. ?x]"
    unfolding ev drop_map [symmetric] ids ..
  also have "\<dots> = [?x - ?n + int ?k .. ?x]" using k by (intro drop_upto) simp
  finally have m: "map fst (events (add_event p r)) = [?x - ?n + int ?k .. ?x]" .
  have len: "int (length (events (add_event p r))) = ?n + 1 - int ?k"
    unfolding ev by simp
  have "int (length (events (add_event p r))) = min (int ?b) ?x"
    using assms unfolding len log_ok_def by linarith
  moreover have "map fst (events (add_event p r)) = [?x + 1 - int (length (events (add_event p r))) .. ?x]"
    unfolding m by (rule arg_cong [of _ _ "\<lambda>i. [i .. ?x]"]) (use len in linarith)
  moreover have "event_buffer_size (add_event p r) = ?b" by (simp add: add_event_def)
  moreover have "1 \<le> ?x" using assms by (simp add: log_ok_def)
  ultimately show ?thesis unfolding log_ok_def add_event_fields by simp
qed

lemma log_ok_cong:
  assumes "events r' = events r" "next_event_id r' = next_event_id r"
    "event_buffer_size r' = event_buffer_size r"
  shows "log_ok r' = log_ok r"
  using assms by (simp add: log_ok_def)

text \<open>An append leaves the record alone or adds one event.\<close>

definition appended :: "run_record \<Rightarrow> run_record \<Rightarrow> bool" where
  "appended r r' =
     (r' = r \<or> (\<exists>p. events r' = events (add_event p r) \<and> next_event_id r' = next_event_id r + 1
        \<and> event_buffer_size r' = event_buffer_size r))"

definition same_lifecycle :: "run_record \<Rightarrow> run_record \<Rightarrow> bool" where
  "same_lifecycle r r' =
     (status r' = status r \<and> run_done r' = run_done r \<and> finished_at r' = finished_at r
      \<and> interaction_id r' = interaction_id r \<and> run_kind_of r' = run_kind_of r
      \<and> interaction_state_version r' = interaction_state_version r)"

lemma same_lifecycle_trans: "same_lifecycle r s \<Longrightarrow> same_lifecycle s t \<Longrightarrow> same_lifecycle r t"
  by (simp add: same_lifecycle_def)

lemma add_event_irrelevant [simp]:
  "events (add_event p (r\<lparr>stream_failed := a, error_code := b, run_error := c\<rparr>)) = events (add_event p r)"
  "event_buffer_size (add_event p r) = event_buffer_size r"
  "run_kind_of (add_event p r) = run_kind_of r"
  by (simp_all add: add_event_def push_event_def)

lemma append_event_appended:
  assumes "append_event cfg payload key r = (q, r')"
  shows "appended r r' \<and> same_lifecycle r r'"
proof -
  define message where "message = ''Stream event exceeded the '' @ int_str (max_event_bytes cfg)
    @ ''-byte service limit.''"
  define large where "large = (int (length payload) > max_event_bytes cfg)"
  define p where "p = (if large then error_payload message ''event_too_large'' False else payload)"
  define r1 where "r1 = (if large then r\<lparr>stream_failed := True, error_code := Some ''event_too_large'',
    run_error := Some message\<rparr> else r)"
  have r1: "events (add_event p r1) = events (add_event p r)" "next_event_id r1 = next_event_id r"
    "event_buffer_size r1 = event_buffer_size r" "same_lifecycle r r1"
    by (simp_all add: r1_def same_lifecycle_def)
  have "r' = r \<or> (\<exists>ks b. r' = (add_event p r1)\<lparr>event_keys := ks, terminal_event_emitted := b\<rparr>)"
  proof -
    define X where "X = (case key of
        Some k \<Rightarrow> if k = [] then add_event p r1
          else (add_event p r1)\<lparr>event_keys := AList.update k (next_event_id r1) (event_keys (add_event p r1))\<rparr>
      | None \<Rightarrow> add_event p r1)"
    define Y where "Y = (if contains p DONE_MARKER then X\<lparr>terminal_event_emitted := True\<rparr> else X)"
    have X: "\<exists>ks. X = (add_event p r1)\<lparr>event_keys := ks\<rparr>"
      by (cases key) (auto simp: X_def intro: exI [of _ "event_keys (add_event p r1)"])
    have Y: "\<exists>ks b. Y = (add_event p r1)\<lparr>event_keys := ks, terminal_event_emitted := b\<rparr>"
    proof -
      from X obtain ks where ks: "X = (add_event p r1)\<lparr>event_keys := ks\<rparr>" ..
      have "Y = (add_event p r1)\<lparr>event_keys := ks, terminal_event_emitted :=
          (if contains p DONE_MARKER then True else terminal_event_emitted (add_event p r1))\<rparr>"
        unfolding Y_def ks by simp
      then show ?thesis by blast
    qed
    have "r' = r \<or> r' = Y"
      using assms
      unfolding append_event_def Let_def message_def [symmetric] large_def [symmetric]
        p_def [symmetric] r1_def [symmetric] X_def [symmetric] Y_def [symmetric]
      by (simp split: if_splits option.splits)
    with Y show ?thesis by blast
  qed
  then show ?thesis
  proof
    assume "r' = r"
    then show ?thesis by (simp add: appended_def same_lifecycle_def)
  next
    assume "\<exists>ks b. r' = (add_event p r1)\<lparr>event_keys := ks, terminal_event_emitted := b\<rparr>"
    then obtain ks b where r': "r' = (add_event p r1)\<lparr>event_keys := ks, terminal_event_emitted := b\<rparr>"
      by blast
    have "appended r r'" unfolding appended_def using r1 by (intro disjI2 exI [of _ p]) (simp add: r')
    moreover have "same_lifecycle r r'" using r1(4) by (simp add: r' same_lifecycle_def)
    ultimately show ?thesis ..
  qed
qed

lemma appended_log:
  assumes "appended r r'" and "log_ok r"
  shows "log_ok r'"
proof (cases "r' = r")
  case False
  with assms(1) obtain p where "events r' = events (add_event p r)"
    "next_event_id r' = next_event_id (add_event p r)"
    "event_buffer_size r' = event_buffer_size (add_event p r)" by (auto simp: appended_def)
  from log_ok_cong [OF this] add_event_log [OF assms(2)] show ?thesis by simp
qed (use assms in simp)

lemma appended_monotone: "appended r r' \<Longrightarrow> next_event_id r \<le> next_event_id r'"
  by (auto simp: appended_def)

lemma append_event_log:
  "log_ok r \<Longrightarrow> log_ok (snd (append_event cfg payload key r))
     \<and> next_event_id r \<le> next_event_id (snd (append_event cfg payload key r))
     \<and> same_lifecycle r (snd (append_event cfg payload key r))"
  using append_event_appended appended_log appended_monotone by (metis prod.collapse)

lemma emit_terminal_log:
  assumes "log_ok r"
  shows "log_ok (emit_terminal_stream_error cfg r)
     \<and> next_event_id r \<le> next_event_id (emit_terminal_stream_error cfg r)
     \<and> same_lifecycle r (emit_terminal_stream_error cfg r)"
proof -
  have refl: "same_lifecycle r r" by (simp add: same_lifecycle_def)
  define p where "p = error_payload (str_or (case run_error r of None \<Rightarrow> [] | Some e \<Rightarrow> e) ''Run failed.'')
    (str_or (case error_code r of None \<Rightarrow> [] | Some c \<Rightarrow> c) ''run_failed'') (status r = TimedOut)"
  have shape: "emit_terminal_stream_error cfg r = r
    \<or> emit_terminal_stream_error cfg r = snd (append_event cfg p None r)
    \<or> emit_terminal_stream_error cfg r =
        snd (append_event cfg done_payload None (snd (append_event cfg p None r)))"
    unfolding emit_terminal_stream_error_def Let_def p_def [symmetric] by simp
  note one = append_event_log [OF assms, of cfg p None]
  note two = append_event_log [OF conjunct1 [OF one], of cfg done_payload None]
  from shape show ?thesis
  proof (elim disjE)
    assume "emit_terminal_stream_error cfg r =
        snd (append_event cfg done_payload None (snd (append_event cfg p None r)))"
    with one two same_lifecycle_trans show ?thesis by (metis order_trans)
  qed (use assms refl one in simp_all)
qed

section \<open>Every update meets the contract\<close>

lemma lifecycle_cong: "same_lifecycle r r' \<Longrightarrow> lifecycle_ok r' = lifecycle_ok r"
  by (simp add: same_lifecycle_def lifecycle_ok_def is_terminal_def)

interpretation appending: record_update "\<lambda>r. snd (append_event cfg payload key r)" for cfg payload key
proof unfold_locales
  fix r :: run_record
  assume "record_ok r"
  with append_event_log [of r cfg payload key]
    lifecycle_cong [of r "snd (append_event cfg payload key r)"]
  show "record_ok (snd (append_event cfg payload key r))"
    "next_event_id r \<le> next_event_id (snd (append_event cfg payload key r))"
    by (simp_all add: record_ok_def)
qed

interpretation marking: record_update "mark_stream_failed code message" for code message
  by unfold_locales
    (simp_all add: record_ok_def log_ok_def lifecycle_ok_def is_terminal_def mark_stream_failed_def)

interpretation naming: record_update "set_run_id rid" for rid
  by unfold_locales
    (auto simp: record_ok_def log_ok_def lifecycle_ok_def is_terminal_def set_run_id_def
      split: option.splits)

text \<open>A run that ends: the status becomes terminal, then the \<open>finally\<close> clause settles it.\<close>

lemma settle_fields [simp]:
  "events (settle now r) = events r" "next_event_id (settle now r) = next_event_id r"
  "event_buffer_size (settle now r) = event_buffer_size r" "status (settle now r) = status r"
  "is_terminal (settle now r) = is_terminal r" "interaction_id (settle now r) = interaction_id r"
  "interaction_state_version (settle now r) = interaction_state_version r"
  by (simp_all add: settle_def is_terminal_def)

lemma settle_log [simp]: "log_ok (settle now r) = log_ok r"
  by (rule log_ok_cong) simp_all

lemma settle_terminal: "is_terminal r \<Longrightarrow> lifecycle_ok (settle now r)"
  by (auto simp: lifecycle_ok_def settle_def is_terminal_def terminal_state_def)

lemma settle_other: "\<not> is_terminal r \<Longrightarrow> settle now r = r"
  by (simp add: settle_def)

lemma settle_lifecycle: "lifecycle_ok r \<Longrightarrow> lifecycle_ok (settle now r)"
  using settle_terminal settle_other by metis

lemma fail_run_settled:
  assumes "log_ok r" and "terminal_state st"
  shows "record_ok (settle now (fail_run cfg st code message http r))
    \<and> next_event_id r \<le> next_event_id (fail_run cfg st code message http r)
    \<and> status (fail_run cfg st code message http r) = st"
proof -
  let ?u = "r\<lparr>status := st, error_code := Some code, run_error := Some message, http_status := http\<rparr>"
  have "log_ok ?u" using assms(1) log_ok_cong [of ?u r] by simp
  from emit_terminal_log [OF this, of cfg] assms(2) show ?thesis
    by (simp add: fail_run_def record_ok_def same_lifecycle_def settle_terminal is_terminal_def)
qed

lemma finish_returned_settled:
  assumes ok: "record_ok r"
  shows "record_ok (settle now (finish_returned cfg gen v r))
    \<and> next_event_id r \<le> next_event_id (finish_returned cfg gen v r)"
proof (cases "execution_generation r \<noteq> gen \<or> status r = WaitingForInput")
  case True
  with ok show ?thesis by (simp add: finish_returned_def record_ok_def settle_lifecycle)
next
  case False
  let ?r1 = "r\<lparr>run_result := Some v\<rparr>"
  let ?r2 = "if run_kind_of ?r1 = Stream \<and> \<not> terminal_event_emitted ?r1
    then snd (append_event cfg done_payload None ?r1) else ?r1"
  have "log_ok ?r1" using ok log_ok_cong [of ?r1 r] by (simp add: record_ok_def)
  then have r2: "log_ok ?r2 \<and> next_event_id r \<le> next_event_id ?r2"
    using append_event_log [of ?r1 cfg done_payload None] by simp
  let ?u = "finish_returned cfg gen v r"
  have u: "events ?u = events ?r2" "next_event_id ?u = next_event_id ?r2"
    "event_buffer_size ?u = event_buffer_size ?r2" "is_terminal ?u"
    unfolding finish_returned_def Let_def using False
    by (simp_all add: is_terminal_def terminal_state_def)
  with r2 log_ok_cong [OF u(1-3)] show ?thesis by (simp add: record_ok_def settle_terminal)
qed

interpretation finishing: record_update "finish_execution cfg fmt now gen out" for cfg fmt now gen out
proof unfold_locales
  fix r :: run_record
  assume ok: "record_ok r"
  then have log: "log_ok r" and waits: "record_ok (settle now r)"
    by (simp_all add: record_ok_def settle_lifecycle)
  have ends: "terminal_state TimedOut" "terminal_state Cancelled" "terminal_state Failed"
    by (simp_all add: terminal_state_def)
  note fails = fail_run_settled [OF log ends(1)] fail_run_settled [OF log ends(2)]
    fail_run_settled [OF log ends(3)]
  have "record_ok (finish_execution cfg fmt now gen out r)
      \<and> next_event_id r \<le> next_event_id (finish_execution cfg fmt now gen out r)"
    unfolding finish_execution_def
    using fails waits finish_returned_settled [OF ok]
    by (cases out) simp_all
  then show "record_ok (finish_execution cfg fmt now gen out r)"
    "next_event_id r \<le> next_event_id (finish_execution cfg fmt now gen out r)" by blast+
qed

interpretation cancelling: record_update "cancel_record cfg now live" for cfg now live
proof unfold_locales
  fix r :: run_record
  assume ok: "record_ok r"
  let ?u = "r\<lparr>status := Cancelled, error_code := Some ''run_cancelled'',
    run_error := Some ''Run was cancelled.'', http_status := 409, finished_at := Some now\<rparr>"
  let ?v = "(emit_terminal_stream_error cfg ?u)\<lparr>run_done := True\<rparr>"
  have "log_ok ?u" using ok log_ok_cong [of ?u r] by (simp add: record_ok_def)
  note e = emit_terminal_log [OF this, of cfg]
  then have v: "record_ok ?v" "next_event_id r \<le> next_event_id ?v"
    using log_ok_cong [of ?v "emit_terminal_stream_error cfg ?u"]
    by (simp_all add: record_ok_def same_lifecycle_def lifecycle_ok_def is_terminal_def terminal_state_def)
  have "record_ok (r\<lparr>error_code := a, run_error := b\<rparr>)" for a b
    using ok by (simp add: record_ok_def log_ok_def lifecycle_ok_def is_terminal_def)
  with ok v show "record_ok (cancel_record cfg now live r)"
    "next_event_id r \<le> next_event_id (cancel_record cfg now live r)"
    by (simp_all add: cancel_record_def)
qed

interpretation settling: record_update "settle now" for now
  by unfold_locales (simp_all add: record_ok_def settle_lifecycle)

text \<open>The guarded transitions meet it where their guard holds.\<close>

lemma pause_record_ok:
  assumes "record_ok r" and "pause_record iid version payload r = (q, r')"
  shows "record_ok r'"
proof -
  let ?u = "r\<lparr>status := WaitingForInput, interaction_id := Some iid,
    interaction_state_version := Some version, finished_at := None, run_done := False\<rparr>"
  have "log_ok ?u" using assms(1) log_ok_cong [of ?u r] by (simp add: record_ok_def)
  from add_event_log [OF this, of payload] assms show ?thesis
    by (auto simp: pause_record_def record_ok_def lifecycle_ok_def is_terminal_def terminal_state_def
        split: if_splits)
qed

lemma resume_record_ok:
  assumes "record_ok r" and "resume_record iid response version t r = (q, r')"
  shows "record_ok r'"
  using assms
  by (auto simp: resume_record_def record_ok_def log_ok_def lifecycle_ok_def is_terminal_def
      terminal_state_def split: if_splits option.splits)

lemma start_running_ok:
  assumes "record_ok r" and "status r = Queued"
  shows "record_ok (r\<lparr>status := Running, started_at := x\<rparr>)"
  using assms by (simp add: record_ok_def log_ok_def lifecycle_ok_def is_terminal_def terminal_state_def)

lemma fresh_record_ok: "record_ok (fresh_record cfg now req fp kind agent thread user timeout t)"
  by (simp add: fresh_record_def record_ok_def log_ok_def lifecycle_ok_def is_terminal_def
      terminal_state_def)

section \<open>Steps of the registry\<close>

inductive registry_step :: "registry_config \<Rightarrow> (rat \<Rightarrow> string) \<Rightarrow> registry \<Rightarrow> registry \<Rightarrow> bool"
  for cfg :: registry_config and fmt :: "rat \<Rightarrow> string" where
  Start: "start cfg now req fp kind agent thread user timeout g = (q, g') \<Longrightarrow> registry_step cfg fmt g g'"
| Pause: "pause_for_input cfg req iid version payload g = (q, g') \<Longrightarrow> registry_step cfg fmt g g'"
| Resume: "resume cfg now req user iid response version g = (q, g') \<Longrightarrow> registry_step cfg fmt g g'"
| Get: "get_run cfg now req user g = (q, g') \<Longrightarrow> registry_step cfg fmt g g'"
| Cancel: "cancel_run cfg now req user g = (q, g') \<Longrightarrow> registry_step cfg fmt g g'"
| Append: "i < length (rg_objects g) \<Longrightarrow>
    registry_step cfg fmt g (update_object i (\<lambda>r. snd (append_event cfg payload key r)) g)"
| Mark: "i < length (rg_objects g) \<Longrightarrow>
    registry_step cfg fmt g (update_object i (mark_stream_failed code message) g)"
| Name: "i < length (rg_objects g) \<Longrightarrow> registry_step cfg fmt g (update_object i (set_run_id rid) g)"
| Enter: "t < length (rg_tasks g) \<Longrightarrow> registry_step cfg fmt g (task_enter t g)"
| Acquire: "t < length (rg_tasks g) \<Longrightarrow> registry_step cfg fmt g (task_acquire cfg now t g)"
| Finish: "t < length (rg_tasks g) \<Longrightarrow> registry_step cfg fmt g (task_finish cfg fmt now t out g)"

inductive registry_reachable :: "registry_config \<Rightarrow> (rat \<Rightarrow> string) \<Rightarrow> registry \<Rightarrow> bool"
  for cfg :: registry_config and fmt :: "rat \<Rightarrow> string" where
  Initially: "registry_reachable cfg fmt \<lparr>rg_objects = [], rg_index = [], rg_tasks = []\<rparr>"
| Then: "registry_reachable cfg fmt g \<Longrightarrow> registry_step cfg fmt g g' \<Longrightarrow> registry_reachable cfg fmt g'"

definition registry_ok :: "registry_config \<Rightarrow> registry \<Rightarrow> bool" where
  "registry_ok cfg g =
     (list_all record_ok (rg_objects g)
      \<and> list_all (\<lambda>p. snd p < length (rg_objects g)) (rg_index g)
      \<and> distinct (map fst (rg_index g))
      \<and> list_all (\<lambda>t. tk_record t < length (rg_objects g)) (rg_tasks g)
      \<and> permits_used g \<le> max 0 (max_concurrent cfg))"

lemma registry_okD:
  assumes "registry_ok cfg g" and "map_of (rg_index g) req = Some i"
  shows "i < length (rg_objects g)" "record_ok (rg_objects g ! i)"
  using assms map_of_SomeD [OF assms(2)] by (auto simp: registry_ok_def list_all_iff)

lemma update_object_ok:
  assumes "registry_ok cfg g" and "record_ok (f (rg_objects g ! i))"
  shows "registry_ok cfg (update_object i f g)"
proof -
  have "list_all record_ok ((rg_objects g)[i := f (rg_objects g ! i)])"
    using assms by (cases "i < length (rg_objects g)")
      (auto simp: registry_ok_def list_all_length nth_list_update)
  with assms(1) show ?thesis by (simp add: registry_ok_def update_object_def permits_used_def)
qed

lemma update_object_contract:
  assumes "record_update f" and "registry_ok cfg g" and "i < length (rg_objects g)"
  shows "registry_ok cfg (update_object i f g)"
  using assms record_update.keeps [OF assms(1), of "rg_objects g ! i"]
  by (intro update_object_ok) (simp_all add: registry_ok_def list_all_length)

lemma cleanup_ok: "registry_ok cfg g \<Longrightarrow> registry_ok cfg (cleanup_locked cfg' now g)"
  by (auto simp: registry_ok_def cleanup_locked_def permits_used_def list_all_iff distinct_map_filter)

lemma count_if_list_update:
  "i < length xs \<Longrightarrow> count_if P (xs[i := y]) =
     count_if P xs - (if P (xs ! i) then 1 else 0) + (if P y then 1 else 0)"
proof (induction xs arbitrary: i)
  case (Cons x xs)
  show ?case
  proof (cases i)
    case (Suc j)
    with Cons.prems Cons.IH [of j] show ?thesis by (simp add: count_if_def split: if_splits)
  qed (simp add: count_if_def)
qed simp

lemma set_phase_ok:
  assumes "registry_ok cfg g" and "t < length (rg_tasks g)"
    and "p = Producing \<longrightarrow> permits_used g < max_concurrent cfg"
  shows "registry_ok cfg (set_phase t p g)"
  using assms
  by (auto simp: registry_ok_def set_phase_def permits_used_def count_if_list_update list_all_length
      nth_list_update)

section \<open>The registry invariant\<close>

lemma set_update_cases: "p \<in> set (AList.update k v xs) \<Longrightarrow> p \<in> set xs \<or> p = (k, v)"
  by (induction xs) (auto split: if_splits)

lemma start_ok:
  assumes ok: "registry_ok cfg g" and st: "start cfg now req fp kind agent thread user timeout g = (q, g')"
  shows "registry_ok cfg g'"
proof -
  let ?g1 = "cleanup_locked cfg now g"
  have g1: "registry_ok cfg ?g1" by (rule cleanup_ok [OF ok])
  let ?r = "fresh_record cfg now req fp kind agent thread user timeout (length (rg_tasks ?g1))"
  let ?g2 = "?g1\<lparr>rg_objects := rg_objects ?g1 @ [?r],
    rg_index := AList.update req (length (rg_objects ?g1)) (rg_index ?g1),
    rg_tasks := rg_tasks ?g1 @ [\<lparr>tk_record = length (rg_objects ?g1),
      tk_generation = execution_generation ?r, tk_phase = Created\<rparr>]\<rparr>"
  have "registry_ok cfg ?g2"
  proof -
    have idx: "snd p < Suc (length (rg_objects ?g1))"
      if "p \<in> set (AList.update req (length (rg_objects ?g1)) (rg_index ?g1))" for p
      using g1 set_update_cases [OF that] by (auto simp: registry_ok_def list_all_iff)
    with g1 fresh_record_ok show ?thesis
      by (auto simp: registry_ok_def list_all_iff distinct_update permits_used_def count_if_snoc)
  qed
  with st g1 show ?thesis by (auto simp: start_def Let_def split: option.splits sum.splits if_splits)
qed

lemma pause_ok:
  assumes ok: "registry_ok cfg g" and st: "pause_for_input cfg req iid version payload g = (q, g')"
  shows "registry_ok cfg g'"
proof (cases "map_of (rg_index g) req")
  case None
  with assms show ?thesis by (auto simp: pause_for_input_def split: if_splits)
next
  case (Some i)
  obtain q' r where p: "pause_record iid version payload (rg_objects g ! i) = (q', r)"
    by (cases rule: prod.exhaust)
  have "record_ok r" using pause_record_ok [OF registry_okD(2) [OF ok Some] p] .
  then have "registry_ok cfg (update_object i (\<lambda>_. r) g)" by (intro update_object_ok ok)
  with Some st p ok show ?thesis by (auto simp: pause_for_input_def Let_def split: if_splits)
qed

lemma resume_ok:
  assumes ok: "registry_ok cfg g" and st: "resume cfg now req user iid response version g = (q, g')"
  shows "registry_ok cfg g'"
proof -
  let ?g1 = "cleanup_locked cfg now g"
  have g1: "registry_ok cfg ?g1" by (rule cleanup_ok [OF ok])
  show ?thesis
  proof (cases "map_of (rg_index ?g1) req")
    case None
    with st g1 show ?thesis by (auto simp: resume_def Let_def)
  next
    case (Some i)
    obtain q' r where p: "resume_record iid response version (length (rg_tasks ?g1)) (rg_objects ?g1 ! i) = (q', r)"
      by (cases rule: prod.exhaust)
    have "record_ok r" using resume_record_ok [OF registry_okD(2) [OF g1 Some] p] .
    then have u: "registry_ok cfg (update_object i (\<lambda>_. r) ?g1)" by (intro update_object_ok g1)
    then have "registry_ok cfg ((update_object i (\<lambda>_. r) ?g1)\<lparr>rg_tasks := rg_tasks ?g1 @
        [\<lparr>tk_record = i, tk_generation = gen, tk_phase = Created\<rparr>]\<rparr>)" for gen
      using registry_okD(1) [OF g1 Some]
      by (auto simp: registry_ok_def update_object_def permits_used_def count_if_snoc)
    with Some st p g1 show ?thesis
      by (auto simp: resume_def Let_def split: sum.splits bool.splits)
  qed
qed

lemma get_ok:
  assumes "registry_ok cfg g" and "get_run cfg now req user g = (q, g')"
  shows "registry_ok cfg g' \<and> g' = cleanup_locked cfg now g
    \<and> (\<forall>i. q = Inr i \<longrightarrow> map_of (rg_index g') req = Some i)"
  using assms cleanup_ok by (auto simp: get_run_def Let_def split: option.splits sum.splits)

lemma cancel_ok:
  assumes ok: "registry_ok cfg g" and st: "cancel_run cfg now req user g = (q, g')"
  shows "registry_ok cfg g'"
proof -
  obtain p g1 where get: "get_run cfg now req user g = (p, g1)" by (cases rule: prod.exhaust)
  note g1 = get_ok [OF ok get]
  show ?thesis
  proof (cases p)
    case (Inr i)
    with g1 have "i < length (rg_objects g1)" using registry_okD(1) by blast
    from update_object_contract [OF cancelling.record_update_axioms _ this] g1 Inr st get
    show ?thesis by (auto simp: cancel_run_def)
  next
    case (Inl e)
    with st get g1 show ?thesis by (auto simp: cancel_run_def)
  qed
qed

lemma task_record_bound:
  "registry_ok cfg g \<Longrightarrow> t < length (rg_tasks g) \<Longrightarrow> tk_record (rg_tasks g ! t) < length (rg_objects g)"
  by (simp add: registry_ok_def list_all_length)

lemma update_object_tasks [simp]:
  "rg_tasks (update_object i f g) = rg_tasks g"
  "permits_used (update_object i f g) = permits_used g"
  by (simp_all add: update_object_def permits_used_def)

lemma acquire_ok:
  assumes ok: "registry_ok cfg g" and t: "t < length (rg_tasks g)"
  shows "registry_ok cfg (task_acquire cfg now t g)"
proof -
  let ?k = "rg_tasks g ! t"
  let ?i = "tk_record ?k"
  note i = task_record_bound [OF ok t]
  have rec: "record_ok (rg_objects g ! ?i)" using ok i by (simp add: registry_ok_def list_all_length)
  have stale: "registry_ok cfg (set_phase t TaskDone (update_object ?i (settle now) g))"
    using t by (intro set_phase_ok update_object_contract [OF settling.record_update_axioms ok i]) simp_all
  have run: "registry_ok cfg (set_phase t Producing (update_object ?i f g))"
    if "record_ok (f (rg_objects g ! ?i))" "permits_used g < max_concurrent cfg" for f
    using t that by (intro set_phase_ok update_object_ok ok) simp_all
  have start: "record_ok ((rg_objects g ! ?i)\<lparr>status := Running, started_at := x\<rparr>)"
    if "status (rg_objects g ! ?i) = Queued" for x
    using start_running_ok [OF rec that] .
  show ?thesis
    unfolding task_acquire_def Let_def
    using ok stale run start by auto
qed

lemma finish_ok:
  assumes ok: "registry_ok cfg g" and t: "t < length (rg_tasks g)"
  shows "registry_ok cfg (task_finish cfg fmt now t out g)"
proof -
  note i = task_record_bound [OF ok t]
  have "registry_ok cfg (set_phase t TaskDone
      (update_object (tk_record (rg_tasks g ! t))
         (finish_execution cfg fmt now (tk_generation (rg_tasks g ! t)) out) g))"
    using t by (intro set_phase_ok update_object_contract [OF finishing.record_update_axioms ok i]) simp_all
  moreover have "registry_ok cfg (set_phase t TaskDone g)"
    using t by (intro set_phase_ok ok) simp_all
  ultimately show ?thesis using ok by (simp add: task_finish_def Let_def)
qed

lemma registry_step_ok:
  assumes "registry_step cfg fmt g g'" and ok: "registry_ok cfg g"
  shows "registry_ok cfg g'"
  using assms(1)
proof cases
  case Append
  then show ?thesis using update_object_contract [OF appending.record_update_axioms ok] by simp
next
  case Mark
  then show ?thesis using update_object_contract [OF marking.record_update_axioms ok] by simp
next
  case Name
  then show ?thesis using update_object_contract [OF naming.record_update_axioms ok] by simp
next
  case (Enter t)
  then show ?thesis using set_phase_ok [OF ok, of t AwaitSlot] ok by (simp add: task_enter_def)
next
  case Start
  then show ?thesis using start_ok [OF ok] by simp
next
  case Pause
  then show ?thesis using pause_ok [OF ok] by simp
next
  case Resume
  then show ?thesis using resume_ok [OF ok] by simp
next
  case Get
  then show ?thesis using get_ok [OF ok] by simp
next
  case Cancel
  then show ?thesis using cancel_ok [OF ok] by simp
next
  case Acquire
  then show ?thesis using acquire_ok [OF ok] by simp
next
  case Finish
  then show ?thesis using finish_ok [OF ok] by simp
qed

lemma registry_reachable_ok: "registry_reachable cfg fmt g \<Longrightarrow> registry_ok cfg g"
proof (induction rule: registry_reachable.induct)
  case Initially
  show ?case by (simp add: registry_ok_def permits_used_def count_if_def)
next
  case (Then g g')
  then show ?case by (blast intro: registry_step_ok)
qed

section \<open>Replaying events\<close>

lemma filter_upto: "filter (\<lambda>x. c < x) [i .. j] = [max (c + 1) i .. j :: int]"
proof (induction "nat (j - i + 1)" arbitrary: i)
  case 0
  then show ?case by simp
next
  case (Suc n)
  then have ij: "i \<le> j" by simp
  have ih: "filter (\<lambda>x. c < x) [i + 1 .. j] = [max (c + 1) (i + 1) .. j]" using Suc by simp
  have "filter (\<lambda>x. c < x) [i .. j] = (if c < i then [i] else []) @ filter (\<lambda>x. c < x) [i + 1 .. j]"
    using ij by (simp add: upto_rec1)
  also have "\<dots> = [max (c + 1) i .. j]"
  proof (cases "c < i")
    case True
    then have "max (c + 1) (i + 1) = i + 1" "max (c + 1) i = i" by simp_all
    with ih True ij show ?thesis by (simp add: upto_rec1)
  next
    case False
    then have "max (c + 1) (i + 1) = max (c + 1) i" by simp
    with ih False show ?thesis by simp
  qed
  finally show ?case .
qed

lemma round_ids:
  assumes "log_ok r"
  shows "map fst (fst (subscribe_round r cursor)) =
    [max (cursor + 1) (next_event_id r - int (length (events r))) .. next_event_id r - 1]"
proof -
  have "map fst (filter (\<lambda>e. cursor < fst e) (events r)) = filter (\<lambda>x. cursor < x) (map fst (events r))"
    by (simp add: filter_map comp_def)
  also have "\<dots> = [max (cursor + 1) (next_event_id r - int (length (events r))) .. next_event_id r - 1]"
    using assms filter_upto by (simp add: log_ok_def)
  finally show ?thesis by (simp add: subscribe_round_def Let_def)
qed

lemma no_gap_covers:
  assumes log: "log_ok r" and gap: "subscribe_gap r last_id = None" and size: "0 < event_buffer_size r"
    and "0 \<le> last_id"
  shows "next_event_id r - int (length (events r)) \<le> last_id + 1 \<and> last_id < next_event_id r"
proof (cases "events r")
  case Nil
  with log size have "next_event_id r = 1" by (simp add: log_ok_def min_def split: if_splits)
  with Nil gap \<open>0 \<le> last_id\<close> show ?thesis by (auto simp: subscribe_gap_def split: if_splits)
next
  case (Cons e es)
  obtain i p where e: "e = (i, p)" by (cases e)
  have "[next_event_id r - int (length (events r)) .. next_event_id r - 1] = i # map fst es"
    using log Cons e by (simp add: log_ok_def)
  then have "i = next_event_id r - int (length (events r))"
    by (cases "next_event_id r - int (length (events r)) \<le> next_event_id r - 1")
      (simp_all add: upto_rec1)
  moreover have "i - 1 \<le> last_id \<and> last_id < next_event_id r"
    using gap Cons e by (auto simp: subscribe_gap_def split: if_splits)
  ultimately show ?thesis by simp
qed

section \<open>Properties of the registry\<close>

text \<open>A registry with room for two runs, and runs on it.\<close>

definition sample_config :: registry_config where
  "sample_config =
     \<lparr>max_concurrent = 2, max_queued = 1, default_timeout = 600, heartbeat_seconds = 15,
      cfg_buffer_size = 2, max_event_bytes = 1000, retention_seconds = 60\<rparr>"

definition empty_registry :: registry where
  "empty_registry = \<lparr>rg_objects = [], rg_index = [], rg_tasks = []\<rparr>"

definition sample_start :: "registry \<Rightarrow> (run_exn + nat \<times> bool) \<times> registry" where
  "sample_start g = start sample_config 0 ''q1'' ''f'' Invoke ''a'' ''t'' (Some ''ann'') None g"

definition sample_fmt :: "rat \<Rightarrow> string" where
  "sample_fmt t = ''600''"

lemma sample_reachable: "registry_reachable sample_config sample_fmt (snd (sample_start empty_registry))"
proof (rule registry_reachable.Then [of _ _ empty_registry])
  show "registry_reachable sample_config sample_fmt empty_registry"
    unfolding empty_registry_def by (rule registry_reachable.Initially)
  show "registry_step sample_config sample_fmt empty_registry (snd (sample_start empty_registry))"
    by (rule registry_step.Start [where now = 0 and req = "''q1''" and fp = "''f''" and kind = Invoke
          and agent = "''a''" and thread = "''t''" and user = "Some ''ann''" and timeout = None
          and q = "fst (sample_start empty_registry)"]) (simp add: sample_start_def)
qed

text \<open>
  C19: in every reachable state of the registry, however operations and tasks interleave,
  each record's buffer holds exactly its newest events with consecutive identifiers, a
  record is done and has a finishing time exactly in its terminal states, a waiting record
  names its interaction, and no more producers run than the semaphore has permits.
\<close>

theorem registry_invariant:
  assumes "registry_reachable cfg fmt g"
  shows "list_all record_ok (rg_objects g) \<and> permits_used g \<le> max 0 (max_concurrent cfg)"
  using registry_reachable_ok [OF assms] by (simp add: registry_ok_def)

theorem registry_invariant_witness:
  "list_all record_ok (rg_objects (snd (sample_start empty_registry)))
   \<and> permits_used (snd (sample_start empty_registry)) \<le> max 0 (max_concurrent sample_config)"
  by (rule registry_invariant [OF sample_reachable])

text \<open>
  starting a run is idempotent: repeating a request that was just accepted returns the
  same record, creates no task and changes nothing.
\<close>

theorem start_idempotent:
  assumes "registry_reachable cfg fmt g"
    and "start cfg now req fp kind agent thread user timeout g = (Inr (i, True), g1)"
  shows "start cfg now req fp kind agent' thread' user timeout' g1 = (Inr (i, False), g1)"
proof -
  let ?g0 = "cleanup_locked cfg now g"
  let ?r = "fresh_record cfg now req fp kind agent thread user timeout (length (rg_tasks ?g0))"
  have ok: "registry_ok cfg ?g0" by (rule cleanup_ok [OF registry_reachable_ok [OF assms(1)]])
  from assms(2) have i: "i = length (rg_objects ?g0)" and none: "map_of (rg_index ?g0) req = None"
    and g1: "rg_objects g1 = rg_objects ?g0 @ [?r]" "rg_index g1 = AList.update req i (rg_index ?g0)"
    by (auto simp: start_def Let_def split: option.splits sum.splits if_splits)
  have live: "\<not> expired cfg now (rg_objects g1 ! snd p)" if "p \<in> set (rg_index g1)" for p
    using set_update_cases [OF that [unfolded g1(2)]]
  proof
    assume p: "p \<in> set (rg_index ?g0)"
    then have "snd p < length (rg_objects ?g0)" using ok by (simp add: registry_ok_def list_all_iff)
    with p g1(1) show ?thesis by (auto simp: cleanup_locked_def nth_append)
  next
    assume "p = (req, i)"
    with i g1(1) show ?thesis by (simp add: expired_def fresh_record_def)
  qed
  then have same: "cleanup_locked cfg now g1 = g1"
    by (simp add: cleanup_locked_def case_prod_beta)
  have found: "map_of (rg_index g1) req = Some i" by (simp add: g1(2) update_conv')
  have "rg_objects g1 ! i = ?r" using i g1(1) by simp
  then have "validate_existing (rg_objects g1 ! i) fp kind user = Inr ()"
    by (simp add: validate_existing_def validate_owner_def fresh_record_def split: option.split)
  with same found show ?thesis by (simp add: start_def Let_def)
qed

theorem start_idempotent_witness:
  "start sample_config 0 ''q1'' ''f'' Invoke ''a'' ''t'' (Some ''ann'') None
     (snd (sample_start empty_registry)) = (Inr (0, False), snd (sample_start empty_registry))"
proof (rule start_idempotent)
  show "registry_reachable sample_config sample_fmt empty_registry"
    unfolding empty_registry_def by (rule registry_reachable.Initially)
  show "start sample_config 0 ''q1'' ''f'' Invoke ''a'' ''t'' (Some ''ann'') None empty_registry
      = (Inr (0, True), snd (sample_start empty_registry))"
    by (simp add: sample_start_def start_def cleanup_locked_def empty_registry_def pending_runs_def
        count_if_def sample_config_def Let_def)
qed

text \<open>
  an event key is used once: appending again under a key that was already used returns
  the first identifier and leaves the record unchanged, whatever the new payload is, unless
  it would end the stream of a waiting run.
\<close>

theorem keyed_append_idempotent:
  assumes "append_event cfg payload (Some key) r = (Inr i, r1)" and "key \<noteq> []"
    and "\<not> contains payload' DONE_MARKER"
  shows "append_event cfg payload' (Some key) r1 = (Inr i, r1)"
proof -
  have "map_of (event_keys r1) key = Some i"
    using assms(1,2)
    by (auto simp: append_event_def Let_def update_conv' split: if_splits option.splits)
  with assms(2,3) show ?thesis by (simp add: append_event_def)
qed

theorem keyed_append_idempotent_witness:
  "append_event sample_config ''again'' (Some ''k'')
     (snd (append_event sample_config ''hello'' (Some ''k'')
        (fresh_record sample_config 0 ''q1'' ''f'' Stream ''a'' ''t'' None None 0)))
   = (Inr 1, snd (append_event sample_config ''hello'' (Some ''k'')
        (fresh_record sample_config 0 ''q1'' ''f'' Stream ''a'' ''t'' None None 0)))"
proof (rule keyed_append_idempotent)
  let ?r = "fresh_record sample_config 0 ''q1'' ''f'' Stream ''a'' ''t'' None None 0"
  have "fst (append_event sample_config ''hello'' (Some ''k'') ?r) = Inr 1"
    by (simp add: append_event_def Let_def fresh_record_def sample_config_def)
  then show "append_event sample_config ''hello'' (Some ''k'') ?r
      = (Inr 1, snd (append_event sample_config ''hello'' (Some ''k'') ?r))"
    by (metis prod.collapse)
  show "\<not> contains ''again'' DONE_MARKER" by code_simp
qed simp

text \<open>
  Runs are isolated between users: for a run owned by someone else, looking it up,
  cancelling it and answering its question all fail with an access error and change no
  record and no task.
\<close>

theorem foreign_runs_untouched:
  assumes "map_of (rg_index (cleanup_locked cfg now g)) req = Some i"
    and "user_id (rg_objects g ! i) = Some owner" and "owner \<noteq> []" and "user \<noteq> Some owner"
  shows "get_run cfg now req user g = (Inl RunAccessError, cleanup_locked cfg now g)
    \<and> cancel_run cfg now req user g = (Inl RunAccessError, cleanup_locked cfg now g)
    \<and> resume cfg now req user iid response version g = (Inl RunAccessError, cleanup_locked cfg now g)
    \<and> rg_objects (cleanup_locked cfg now g) = rg_objects g
    \<and> rg_tasks (cleanup_locked cfg now g) = rg_tasks g"
proof -
  have same: "rg_objects (cleanup_locked cfg now g) = rg_objects g"
    "rg_tasks (cleanup_locked cfg now g) = rg_tasks g"
    by (simp_all add: cleanup_locked_def)
  have "validate_owner (rg_objects g ! i) user = Inl RunAccessError"
    using assms by (auto simp: validate_owner_def)
  with assms(1) same show ?thesis by (simp add: get_run_def cancel_run_def resume_def Let_def)
qed

lemma sample_lookup:
  "rg_objects (snd (sample_start empty_registry)) =
     [fresh_record sample_config 0 ''q1'' ''f'' Invoke ''a'' ''t'' (Some ''ann'') None 0]"
  "rg_index (snd (sample_start empty_registry)) = [(''q1'', 0)]"
  "rg_tasks (snd (sample_start empty_registry)) =
     [\<lparr>tk_record = 0, tk_generation = 1, tk_phase = Created\<rparr>]"
  by (simp_all add: sample_start_def start_def cleanup_locked_def empty_registry_def pending_runs_def
      count_if_def sample_config_def Let_def fresh_record_def)

theorem foreign_runs_untouched_witness:
  "let g = snd (sample_start empty_registry)
   in cancel_run sample_config 1 ''q1'' (Some ''bob'') g = (Inl RunAccessError, cleanup_locked sample_config 1 g)"
proof -
  let ?g = "snd (sample_start empty_registry)"
  have "map_of (rg_index (cleanup_locked sample_config 1 ?g)) ''q1'' = Some 0"
    by (simp add: cleanup_locked_def sample_lookup expired_def fresh_record_def)
  moreover have "user_id (rg_objects ?g ! 0) = Some ''ann''" by (simp add: sample_lookup fresh_record_def)
  ultimately show ?thesis
    using foreign_runs_untouched [of sample_config 1 ?g "''q1''" 0 "''ann''" "Some ''bob''"] by simp
qed

text \<open>
  Without a replay gap the first round of a subscription delivers every event after the
  requested position, in order and without omission.  In general a round delivers the
  events from the later of the cursor and the oldest buffered event on.
\<close>

theorem subscription_complete:
  assumes "record_ok r" and "0 < event_buffer_size r" and "0 \<le> last_id"
    and "subscribe_gap r last_id = None"
  shows "map fst (fst (subscribe_round r last_id)) = [last_id + 1 .. next_event_id r - 1]"
proof -
  have log: "log_ok r" using assms(1) by (simp add: record_ok_def)
  have "max (last_id + 1) (next_event_id r - int (length (events r))) = last_id + 1"
    using no_gap_covers [OF log assms(4,2,3)] by simp
  with round_ids [OF log, of last_id] show ?thesis by simp
qed

definition busy_record :: run_record where
  "busy_record = add_event ''data: c'' (add_event ''data: b'' (add_event ''data: a''
     (fresh_record sample_config 0 ''q1'' ''f'' Stream ''a'' ''t'' None None 0)))"

theorem subscription_complete_witness:
  "map fst (fst (subscribe_round busy_record 1)) = [2, 3]"
proof -
  have "record_ok busy_record"
    unfolding busy_record_def record_ok_def
    using fresh_record_ok [of sample_config 0 "''q1''" "''f''" Stream "''a''" "''t''" None None 0]
    by (intro conjI add_event_log)
      (simp_all add: record_ok_def lifecycle_ok_def is_terminal_def)
  moreover have "0 < event_buffer_size busy_record" "subscribe_gap busy_record 1 = None"
    "next_event_id busy_record = 4"
    by (simp_all add: busy_record_def add_event_def push_event_def fresh_record_def sample_config_def
        subscribe_gap_def)
  ultimately show ?thesis using subscription_complete [of busy_record 1] by (simp add: upto_rec1)
qed

text \<open>
  later rounds of a subscription do not check for a gap: when the buffer has moved past
  the cursor, the round starts at the oldest buffered event and the events in between are
  lost without an error event.
\<close>

theorem slow_subscriber_loses_events:
  assumes "record_ok r" and "cursor + 1 < next_event_id r - int (length (events r))"
  shows "map fst (fst (subscribe_round r cursor)) =
    [next_event_id r - int (length (events r)) .. next_event_id r - 1]"
  using round_ids [of r cursor] assms by (simp add: record_ok_def)

theorem slow_subscriber_loses_events_witness:
  "map fst (fst (subscribe_round busy_record 0)) = [2 .. 3]"
proof -
  have "record_ok busy_record"
    unfolding busy_record_def record_ok_def
    using fresh_record_ok [of sample_config 0 "''q1''" "''f''" Stream "''a''" "''t''" None None 0]
    by (intro conjI add_event_log)
      (simp_all add: record_ok_def lifecycle_ok_def is_terminal_def)
  moreover have "next_event_id busy_record = 4" "length (events busy_record) = 2"
    by (simp_all add: busy_record_def add_event_def push_event_def fresh_record_def sample_config_def)
  ultimately show ?thesis using slow_subscriber_loses_events [of busy_record 0] by simp
qed

text \<open>
  An answer is accepted once: repeating an answer that was just accepted returns the
  same record without queueing the run a second time.
\<close>

theorem resume_once:
  assumes "registry_reachable cfg fmt g"
    and "resume cfg now req user iid response version g = (Inr (i, True), g1)"
  shows "resume cfg now req user iid response version g1 = (Inr (i, False), g1)
    \<and> length (rg_tasks g1) = Suc (length (rg_tasks g))"
proof -
  let ?g0 = "cleanup_locked cfg now g"
  let ?n = "length (rg_tasks ?g0)"
  have ok: "registry_ok cfg ?g0" by (rule cleanup_ok [OF registry_reachable_ok [OF assms(1)]])
  from assms(2) obtain r where found: "map_of (rg_index ?g0) req = Some i"
    and own: "validate_owner (rg_objects ?g0 ! i) user = Inr ()"
    and cas: "resume_record iid response version ?n (rg_objects ?g0 ! i) = (Inr True, r)"
    and g1: "g1 = (update_object i (\<lambda>_. r) ?g0)\<lparr>rg_tasks := rg_tasks ?g0 @
      [\<lparr>tk_record = i, tk_generation = execution_generation r, tk_phase = Created\<rparr>]\<rparr>"
    by (auto simp: resume_def Let_def split: option.splits sum.splits bool.splits prod.splits)
  note i = registry_okD(1) [OF ok found]
  have r: "map_of (accepted_responses r) response = Some (iid, version)" "finished_at r = None"
    "user_id r = user_id (rg_objects ?g0 ! i)"
    using cas by (auto simp: resume_record_def update_conv' split: option.splits if_splits)
  have obj: "rg_objects g1 ! i = r" and idx: "rg_index g1 = rg_index ?g0"
    using i by (simp_all add: g1 update_object_def)
  have live: "\<not> expired cfg now (rg_objects g1 ! snd p)" if "p \<in> set (rg_index g1)" for p
  proof (cases "snd p = i")
    case True
    with obj r(2) show ?thesis by (simp add: expired_def)
  next
    case False
    with that idx show ?thesis by (auto simp: g1 update_object_def cleanup_locked_def)
  qed
  have same: "cleanup_locked cfg now g1 = g1"
    using live by (simp add: cleanup_locked_def case_prod_beta)
  have "validate_owner (rg_objects g1 ! i) user = Inr ()"
    using own r(3) obj by (simp add: validate_owner_def)
  moreover have "resume_record iid response version (length (rg_tasks g1)) (rg_objects g1 ! i) = (Inr False, r)"
    using r(1) obj by (simp add: resume_record_def)
  ultimately have "resume cfg now req user iid response version g1 = (Inr (i, False), g1)"
    using same found idx by (simp add: resume_def Let_def)
  moreover have "length (rg_tasks g1) = Suc (length (rg_tasks g))"
    by (simp add: g1 cleanup_locked_def)
  ultimately show ?thesis ..
qed

text \<open>The life of a run that asks a question and is answered while its first producer lives.\<close>

definition asked :: registry where
  "asked =
     snd (pause_for_input sample_config ''q1'' ''i1'' 7 ''question''
       (task_acquire sample_config 0 0 (task_enter 0 (snd (sample_start empty_registry)))))"

definition answered :: "(run_exn + nat \<times> bool) \<times> registry" where
  "answered = resume sample_config 1 ''q1'' (Some ''ann'') ''i1'' ''r1'' 7 asked"

lemma asked_reachable: "registry_reachable sample_config sample_fmt asked"
proof -
  let ?g0 = "snd (sample_start empty_registry)"
  let ?g1 = "task_enter 0 ?g0"
  let ?g2 = "task_acquire sample_config 0 0 ?g1"
  have 0: "0 < length (rg_tasks ?g0)" by (simp add: sample_lookup)
  note r1 = registry_reachable.Then [OF sample_reachable registry_step.Enter [OF 0]]
  have 1: "0 < length (rg_tasks ?g1)" using 0 by (simp add: task_enter_def set_phase_def)
  note r2 = registry_reachable.Then [OF r1 registry_step.Acquire [OF 1, of _ _ 0]]
  show ?thesis
    unfolding asked_def
    by (rule registry_reachable.Then [OF r2],
        rule registry_step.Pause [where req = "''q1''" and iid = "''i1''" and version = 7
          and payload = "''question''" and q = "fst (pause_for_input sample_config ''q1'' ''i1'' 7 ''question'' ?g2)"])
      simp
qed

lemma asked_fields:
  "rg_tasks asked = [\<lparr>tk_record = 0, tk_generation = 1, tk_phase = Producing\<rparr>]"
  "rg_index asked = [(''q1'', 0)]"
  "\<exists>r. rg_objects asked = [r] \<and> status r = WaitingForInput \<and> interaction_id r = Some ''i1''
     \<and> interaction_state_version r = Some 7 \<and> accepted_responses r = []
     \<and> execution_generation r = 1 \<and> user_id r = Some ''ann'' \<and> finished_at r = None"
  by (simp_all add: asked_def pause_for_input_def task_acquire_def task_enter_def set_phase_def
      sample_lookup permits_used_def count_if_def update_object_def pause_record_def Let_def
      add_event_def push_event_def fresh_record_def sample_config_def)

lemma answered_eq: "\<exists>r g. answered = (Inr (0, True), g) \<and> rg_objects g = [r] \<and> status r = Queued
    \<and> execution_generation r = 2
    \<and> rg_tasks g = [\<lparr>tk_record = 0, tk_generation = 1, tk_phase = Producing\<rparr>,
                    \<lparr>tk_record = 0, tk_generation = 2, tk_phase = Created\<rparr>]"
proof -
  from asked_fields(3) obtain r where r: "rg_objects asked = [r]" "status r = WaitingForInput"
    "interaction_id r = Some ''i1''" "interaction_state_version r = Some 7" "accepted_responses r = []"
    "execution_generation r = 1" "user_id r = Some ''ann''" "finished_at r = None" by blast
  have clean: "cleanup_locked sample_config 1 asked = asked"
    by (simp add: cleanup_locked_def asked_fields r expired_def)
  show ?thesis
    by (simp add: answered_def resume_def Let_def clean asked_fields r validate_owner_def
        resume_record_def update_object_def)
qed

theorem resume_once_witness:
  "resume sample_config 1 ''q1'' (Some ''ann'') ''i1'' ''r1'' 7 (snd answered)
     = (Inr (0, False), snd answered)
   \<and> length (rg_tasks (snd answered)) = Suc (length (rg_tasks asked))"
proof -
  have "resume sample_config 1 ''q1'' (Some ''ann'') ''i1'' ''r1'' 7 asked = (Inr (0, True), snd answered)"
    using answered_eq by (auto simp: answered_def)
  from resume_once [OF asked_reachable this] show ?thesis .
qed

text \<open>
  A failure of a superseded execution is not ignored: when the producer of an older
  generation times out after the run was answered and queued or started again, the run of
  the new generation is marked timed out and done.  (A normal return of the older
  generation is ignored.)
\<close>

theorem stale_timeout_overwrites:
  assumes "t < length (rg_tasks g)" and "tk_phase (rg_tasks g ! t) = Producing"
    and "tk_record (rg_tasks g ! t) = i" and "i < length (rg_objects g)"
    and "tk_generation (rg_tasks g ! t) \<noteq> execution_generation (rg_objects g ! i)"
    and "status (rg_objects g ! i) \<noteq> WaitingForInput"
  shows "status (rg_objects (task_finish cfg fmt now t ProducerTimeout g) ! i) = TimedOut
    \<and> run_done (rg_objects (task_finish cfg fmt now t ProducerTimeout g) ! i)
    \<and> rg_objects (task_finish cfg fmt now t (Returned v) g) ! i = settle now (rg_objects g ! i)"
proof -
  have st: "status (emit_terminal_stream_error cfg r) = status r" for r
  proof -
    have one: "status (snd (append_event cfg p k u)) = status u" for p k u
      using append_event_appended [of cfg p k u] by (metis prod.collapse same_lifecycle_def)
    show ?thesis by (simp add: emit_terminal_stream_error_def Let_def one)
  qed
  have fin: "rg_objects (task_finish cfg fmt now t out g) ! i =
      finish_execution cfg fmt now (tk_generation (rg_tasks g ! t)) out (rg_objects g ! i)" for out
    using assms(1-4) by (simp add: task_finish_def Let_def set_phase_def update_object_def)
  show ?thesis
    unfolding fin
    using assms(5,6)
    by (simp add: finish_execution_def finish_returned_def fail_run_def st settle_def is_terminal_def
        terminal_state_def)
qed

theorem stale_timeout_overwrites_witness:
  "status (rg_objects (task_finish sample_config sample_fmt 2 0 ProducerTimeout (snd answered)) ! 0) = TimedOut"
proof -
  from answered_eq obtain r g where a: "answered = (Inr (0, True), g)" "rg_objects g = [r]"
    "status r = Queued" "execution_generation r = 2"
    "rg_tasks g = [\<lparr>tk_record = 0, tk_generation = 1, tk_phase = Producing\<rparr>,
                   \<lparr>tk_record = 0, tk_generation = 2, tk_phase = Created\<rparr>]" by blast
  have g: "snd answered = g" by (subst a(1), rule snd_conv)
  have "status (rg_objects (task_finish sample_config sample_fmt 2 0 ProducerTimeout g) ! 0) = TimedOut"
    using stale_timeout_overwrites [of 0 g 0 sample_config sample_fmt 2 PNone] a(2-5) by simp
  then show ?thesis unfolding g .
qed

text \<open>
  Cancelling a run before its task has been entered leaves the run behind: the task
  ends without executing the coroutine, so the record stays queued and is never done, has
  no live task, and its request keeps counting as pending.
\<close>

theorem cancel_before_entry_leaks:
  assumes "registry_reachable cfg fmt g"
    and "start cfg now req fp kind agent thread user timeout g = (Inr (i, True), g1)"
    and "g2 = task_finish cfg fmt now (length (rg_tasks g)) ProducerCancelled g1"
  shows "status (rg_objects g2 ! i) = Queued \<and> \<not> run_done (rg_objects g2 ! i)
    \<and> \<not> task_live g2 (run_task (rg_objects g2 ! i))
    \<and> map_of (rg_index g2) req = Some i \<and> 0 < pending_runs g2"
proof -
  let ?g0 = "cleanup_locked cfg now g"
  let ?n = "length (rg_tasks g)"
  let ?r = "fresh_record cfg now req fp kind agent thread user timeout ?n"
  have n: "rg_tasks ?g0 = rg_tasks g" by (simp add: cleanup_locked_def)
  from assms(2) have i: "i = length (rg_objects ?g0)"
    and g1: "rg_objects g1 = rg_objects ?g0 @ [?r]" "rg_index g1 = AList.update req i (rg_index ?g0)"
      "rg_tasks g1 = rg_tasks g @ [\<lparr>tk_record = i, tk_generation = execution_generation ?r, tk_phase = Created\<rparr>]"
    by (auto simp: start_def Let_def n split: option.splits sum.splits if_splits)
  have g2: "g2 = set_phase ?n TaskDone g1"
    using g1 by (simp add: assms(3) task_finish_def Let_def)
  have obj: "rg_objects g2 ! i = ?r" using g1 i by (simp add: g2 set_phase_def)
  have found: "map_of (rg_index g2) req = Some i" using g1 by (simp add: g2 set_phase_def update_conv')
  have dead: "\<not> task_live g2 (Some ?n)" using g1 by (simp add: g2 set_phase_def task_live_def)
  have "(req, i) \<in> set (rg_index g2)" using found by (rule map_of_SomeD)
  then have "pending_runs g2 \<noteq> 0"
    using obj
    by (auto simp: pending_runs_def count_if_zero_iff is_terminal_def terminal_state_def fresh_record_def
        intro!: bexI [of _ "(req, i)"])
  then have "0 < pending_runs g2" using count_if_nonneg by (simp add: pending_runs_def less_le)
  with obj found dead show ?thesis by (simp add: fresh_record_def)
qed

theorem cancel_before_entry_leaks_witness:
  "0 < pending_runs (task_finish sample_config sample_fmt 0 0 ProducerCancelled (snd (sample_start empty_registry)))"
proof -
  have r: "registry_reachable sample_config sample_fmt empty_registry"
    unfolding empty_registry_def by (rule registry_reachable.Initially)
  have s: "start sample_config 0 ''q1'' ''f'' Invoke ''a'' ''t'' (Some ''ann'') None empty_registry
      = (Inr (0, True), snd (sample_start empty_registry))"
    by (simp add: sample_start_def start_def cleanup_locked_def empty_registry_def pending_runs_def
        count_if_def sample_config_def Let_def)
  have "length (rg_tasks empty_registry) = 0" by (simp add: empty_registry_def)
  with cancel_before_entry_leaks [OF r s refl] show ?thesis by simp
qed

end
