(* ===== verification/Paths.thy ===== *)
theory Paths
  imports Prelude
begin

text \<open>
  The parts of \<open>pathlib\<close>, \<open>fnmatch\<close>, \<open>str.splitlines\<close> and \<open>str.encode\<close> that the code uses:
  the components of a relative POSIX path, shell globs with stars, question marks and
  bracket sets, the lines of a text, and the UTF-8 encoding of the single-byte text of the
  development.
\<close>

section \<open>Paths\<close>

text \<open>\<open>PurePosixPath(p).parts\<close> of a relative path: empty components and dots are dropped.\<close>

definition path_components :: "string \<Rightarrow> string list" where
  "path_components p = filter (\<lambda>c. c \<noteq> [] \<and> c \<noteq> ''.'') (split_on (CHR ''/'') p)"

text \<open>\<open>PurePosixPath(path).name\<close>: the last component.\<close>

definition path_name :: "string \<Rightarrow> string" where
  "path_name p = (case path_components p of [] \<Rightarrow> [] | cs \<Rightarrow> last cs)"

lemma split_on_nonempty [simp]: "split_on d s \<noteq> []"
  by (induction s) (auto split: list.splits)

lemma split_on_no_sep: "w \<in> set (split_on d s) \<Longrightarrow> d \<notin> set w"
proof (induction s arbitrary: w)
  case (Cons c cs)
  show ?case
  proof (cases "split_on d cs")
    case (Cons v vs)
    with Cons.prems Cons.IH show ?thesis by (auto split: if_splits)
  qed simp
qed simp

lemma split_on_id: "d \<notin> set w \<Longrightarrow> split_on d w = [w]"
  by (induction w) auto

lemma split_on_append: "d \<notin> set w \<Longrightarrow> split_on d (w @ d # s) = w # split_on d s"
  by (induction w) auto

lemma split_on_join:
  "xs \<noteq> [] \<Longrightarrow> \<forall>x \<in> set xs. d \<notin> set x \<Longrightarrow> split_on d (join [d] xs) = xs"
  by (induction "[d]" xs rule: join.induct) (auto simp: split_on_id split_on_append)

lemma path_components_parts:
  "c \<in> set (path_components p) \<Longrightarrow> c \<noteq> [] \<and> c \<noteq> ''.'' \<and> CHR ''/'' \<notin> set c"
  by (auto simp: path_components_def dest: split_on_no_sep)

lemma path_components_join:
  assumes "\<forall>c \<in> set cs. c \<noteq> [] \<and> c \<noteq> ''.'' \<and> CHR ''/'' \<notin> set c"
  shows "path_components (join ''/'' cs) = cs"
proof (cases "cs = []")
  case False
  with assms have "split_on (CHR ''/'') (join ''/'' cs) = cs" by (intro split_on_join) auto
  with assms show ?thesis by (simp add: path_components_def)
qed (simp add: path_components_def)

section \<open>Globs\<close>

datatype glob_token = GStar | GAny | GLit char | GSet bool "(char \<times> char) list"

text \<open>The ranges of a bracket set: \<open>a-b\<close> is a range, any other character itself.\<close>

fun set_ranges :: "string \<Rightarrow> (char \<times> char) list" where
  "set_ranges (a # d # b # rest) =
     (if d = CHR ''-'' then (a, b) # set_ranges rest else (a, a) # set_ranges (d # b # rest))"
| "set_ranges (a # rest) = (a, a) # set_ranges rest"
| "set_ranges [] = []"

text \<open>
  The text of a bracket set after the opening bracket: negation, contents and the rest
  of the pattern; none when the bracket is never closed.
\<close>

definition bracket :: "string \<Rightarrow> (bool \<times> string \<times> string) option" where
  "bracket cs =
     (let neg = startswith cs ''!''; r = (if neg then tl cs else cs);
          first = (if startswith r '']'' then '']'' else []);
          r' = drop (length first) r; body = takeWhile (\<lambda>c. c \<noteq> CHR '']'') r';
          after = dropWhile (\<lambda>c. c \<noteq> CHR '']'') r'
      in if after = [] then None else Some (neg, first @ body, tl after))"

lemma bracket_shorter: "bracket cs = Some (neg, stuff, rest) \<Longrightarrow> length rest < length cs"
proof -
  assume a: "bracket cs = Some (neg, stuff, rest)"
  define r where "r = (if startswith cs ''!'' then tl cs else cs)"
  define r' where "r' = drop (length (if startswith r '']'' then '']'' else [] :: string)) r"
  have l: "length r' \<le> length cs" by (simp add: r_def r'_def)
  from a have "dropWhile (\<lambda>c. c \<noteq> CHR '']'') r' \<noteq> []" "rest = tl (dropWhile (\<lambda>c. c \<noteq> CHR '']'') r')"
    by (auto simp: bracket_def Let_def r_def r'_def split: if_split_asm)
  with length_dropWhile_le [of "\<lambda>c. c \<noteq> CHR '']''" r'] l show ?thesis
    by (metis length_greater_0_conv length_tl diff_less less_le_trans order.trans zero_less_one)
qed

function glob_tokens :: "string \<Rightarrow> glob_token list" where
  "glob_tokens [] = []"
| "glob_tokens (c # cs) =
     (if c = CHR ''*'' then GStar # glob_tokens cs
      else if c = CHR ''?'' then GAny # glob_tokens cs
      else if c = CHR ''['' then
        (case bracket cs of
           None \<Rightarrow> GLit c # glob_tokens cs
         | Some (neg, stuff, rest) \<Rightarrow> GSet neg (set_ranges stuff) # glob_tokens rest)
      else GLit c # glob_tokens cs)"
  by pat_completeness auto
termination
  by (relation "measure length") (auto dest: bracket_shorter)

fun token_matches :: "glob_token \<Rightarrow> char \<Rightarrow> bool" where
  "token_matches GStar c = True"
| "token_matches GAny c = True"
| "token_matches (GLit d) c = (c = d)"
| "token_matches (GSet neg rs) c = (neg \<noteq> (\<exists>(a, b) \<in> set rs. a \<le> c \<and> c \<le> b))"

fun glob_match :: "glob_token list \<Rightarrow> string \<Rightarrow> bool" where
  "glob_match [] s = (s = [])"
| "glob_match (GStar # ts) s =
     (glob_match ts s \<or> (case s of [] \<Rightarrow> False | _ # cs \<Rightarrow> glob_match (GStar # ts) cs))"
| "glob_match (t # ts) s =
     (case s of [] \<Rightarrow> False | c # cs \<Rightarrow> token_matches t c \<and> glob_match ts cs)"

definition fnmatchcase :: "string \<Rightarrow> string \<Rightarrow> bool" where
  "fnmatchcase name pat = glob_match (glob_tokens pat) name"

lemma glob_match_star: "glob_match (GStar # ts) s \<longleftrightarrow> (\<exists>a b. s = a @ b \<and> glob_match ts b)"
proof (induction s)
  case Nil
  then show ?case by simp
next
  case (Cons c cs)
  have "glob_match (GStar # ts) (c # cs) \<longleftrightarrow> glob_match ts (c # cs) \<or> (\<exists>a b. cs = a @ b \<and> glob_match ts b)"
    using Cons by simp
  also have "\<dots> \<longleftrightarrow> (\<exists>a b. c # cs = a @ b \<and> glob_match ts b)"
    by (metis append_Cons append_Nil list.exhaust list.inject)
  finally show ?case .
qed

lemma glob_match_lits: "glob_match (map GLit w @ ts) s \<longleftrightarrow> (\<exists>r. s = w @ r \<and> glob_match ts r)"
proof (induction w arbitrary: s)
  case (Cons c w)
  then show ?case by (cases s) auto
qed simp

definition literal :: "string \<Rightarrow> bool" where
  "literal w = (\<forall>c \<in> set w. c \<noteq> CHR ''*'' \<and> c \<noteq> CHR ''?'' \<and> c \<noteq> CHR ''['')"

lemma glob_tokens_literal: "literal w \<Longrightarrow> glob_tokens (w @ p) = map GLit w @ glob_tokens p"
  by (induction w) (auto simp: literal_def)

lemma fnmatch_literal: "literal w \<Longrightarrow> fnmatchcase s (w @ p) \<longleftrightarrow> (\<exists>r. s = w @ r \<and> fnmatchcase r p)"
  by (simp add: fnmatchcase_def glob_tokens_literal glob_match_lits)

lemma fnmatch_star: "fnmatchcase s (CHR ''*'' # p) \<longleftrightarrow> (\<exists>a b. s = a @ b \<and> fnmatchcase b p)"
  by (simp add: fnmatchcase_def glob_match_star del: glob_match.simps)

lemma fnmatch_Nil [simp]: "fnmatchcase s [] \<longleftrightarrow> s = []"
  by (simp add: fnmatchcase_def)

lemma fnmatch_exact: "literal w \<Longrightarrow> fnmatchcase s w \<longleftrightarrow> s = w"
  using fnmatch_literal [of w s "[]"] by simp

text \<open>\<open>s.replace(old, new, 1)\<close>: the leftmost occurrence.\<close>

fun replace_first :: "string \<Rightarrow> string \<Rightarrow> string \<Rightarrow> string" where
  "replace_first old new [] = []"
| "replace_first old new (c # cs) =
     (if startswith (c # cs) old then new @ drop (length old) (c # cs)
      else c # replace_first old new cs)"

lemma length_replace_first:
  "contains s old \<Longrightarrow> old \<noteq> [] \<Longrightarrow> length (replace_first old new s) + length old = length s + length new"
proof (induction s)
  case (Cons c cs)
  show ?case
  proof (cases "startswith (c # cs) old")
    case True
    then have "length old \<le> length (c # cs)"
      by (metis startswith_iff le_add1 length_append)
    with True show ?thesis by simp
  next
    case False
    with Cons show ?thesis by simp
  qed
qed simp

section \<open>Lines\<close>

text \<open>\<open>str.splitlines()\<close>: a carriage return and line feed is one boundary.\<close>

definition line_break :: "char \<Rightarrow> bool" where
  "line_break c =
     (let n = chr_code c in (10 \<le> n \<and> n \<le> 13) \<or> (28 \<le> n \<and> n \<le> 30) \<or> n = 133)"

fun split_lines :: "string \<Rightarrow> string \<Rightarrow> string list" where
  "split_lines acc [] = (if acc = [] then [] else [rev acc])"
| "split_lines acc [c] = (if line_break c then [rev acc] else [rev (c # acc)])"
| "split_lines acc (c # d # cs) =
     (if c = CHR 0x0D \<and> d = CHR 0x0A then rev acc # split_lines [] cs
      else if line_break c then rev acc # split_lines [] (d # cs)
      else split_lines (c # acc) (d # cs))"

abbreviation splitlines :: "string \<Rightarrow> string list" where
  "splitlines s \<equiv> split_lines [] s"

section \<open>Encoding\<close>

text \<open>\<open>s.encode("utf-8")\<close> for code points below 256: one byte or two.\<close>

definition utf8_bytes :: "string \<Rightarrow> string" where
  "utf8_bytes s =
     concat (map (\<lambda>c. let n = of_char c :: nat
                      in if n < 128 then [c] else [char_of (192 + n div 64), char_of (128 + n mod 64)]) s)"

lemma utf8_bytes_ascii: "\<forall>c \<in> set s. (of_char c :: nat) < 128 \<Longrightarrow> utf8_bytes s = s"
  by (induction s) (auto simp: utf8_bytes_def Let_def)

end
