(* ===== verification/Evaluator.thy ===== *)
theory Evaluator
  imports Paths
begin

text \<open>
  \<open>evolution/evaluator.py\<close> with the contracts it grades (\<open>evolution/contracts.py\<close>): the
  deterministic graders, the evaluation of a suite, and the comparison of a candidate
  harness with its baseline.  Floating-point numbers are rationals: the scores are
  quotients of small counts and the code only sums, divides and compares them.
\<close>

section \<open>Contracts\<close>

datatype delivery_outcome = EXECUTION_BLOCKED | DELIVERED_WITH_ISSUES | RELEASE_READY

fun outcome_value :: "delivery_outcome \<Rightarrow> string" where
  "outcome_value EXECUTION_BLOCKED = ''execution_blocked''"
| "outcome_value DELIVERED_WITH_ISSUES = ''delivered_with_issues''"
| "outcome_value RELEASE_READY = ''release_ready''"

datatype grader_id =
    G_INTENT | G_TOOL_CALL | G_TRAJECTORY | G_ARTIFACT | G_RELEASE_TRUTH | G_RECOVERY
  | G_SECURITY | G_COST

fun grader_value :: "grader_id \<Rightarrow> string" where
  "grader_value G_INTENT = ''intent''"
| "grader_value G_TOOL_CALL = ''tool_call''"
| "grader_value G_TRAJECTORY = ''trajectory''"
| "grader_value G_ARTIFACT = ''artifact''"
| "grader_value G_RELEASE_TRUTH = ''release_truth''"
| "grader_value G_RECOVERY = ''recovery''"
| "grader_value G_SECURITY = ''security''"
| "grader_value G_COST = ''cost''"

definition all_graders :: "grader_id list" where
  "all_graders = [G_INTENT, G_TOOL_CALL, G_TRAJECTORY, G_ARTIFACT, G_RELEASE_TRUTH, G_RECOVERY,
     G_SECURITY, G_COST]"

record eval_expectation =
  allowed_outcomes :: "delivery_outcome list"
  expected_intent :: "string option"
  required_artifacts :: "string list"
  min_completed_steps :: int
  require_execution_complete :: "bool option"
  require_independent_review :: bool
  require_ahe_recovery :: bool
  expected_role_sequence :: "string list"
  required_tools :: "string list"
  forbidden_tools :: "string list"
  max_ahe_repairs :: "int option"
  max_llm_tokens :: "int option"
  max_wall_clock_seconds :: "rat option"

definition tool_contract_ok :: "eval_expectation \<Rightarrow> bool" where
  "tool_contract_ok e = (\<forall>t \<in> set (required_tools e). t \<notin> set (forbidden_tools e))"

record eval_case =
  case_id :: string
  case_invariants :: "string list"
  grader_ids :: "grader_id list"
  expectation :: eval_expectation

record artifact_evidence =
  ae_path :: string
  ae_exists :: bool
  ae_valid :: bool
  ae_sha256 :: "string option"

record run_evidence =
  outcome :: delivery_outcome
  intent_mode :: string
  execution_complete :: bool
  completed_steps :: int
  total_steps :: int
  evidence_artifacts :: "artifact_evidence list"
  release_blockers :: "string list"
  independent_review :: string
  role_sequence :: "string list"
  tool_calls :: "string list"
  ahe_repair_count :: int
  recovered_from_fault :: bool
  llm_tokens :: int
  wall_clock_seconds :: rat
  invariant_results :: "(string \<times> bool) list"

text \<open>The field bounds the evidence model enforces on construction.\<close>

definition evidence_ok :: "run_evidence \<Rightarrow> bool" where
  "evidence_ok ev =
     (0 \<le> completed_steps ev \<and> completed_steps ev \<le> 17 \<and> 1 \<le> total_steps ev \<and> total_steps ev \<le> 17
      \<and> length (evidence_artifacts ev) \<le> 128 \<and> length (release_blockers ev) \<le> 128
      \<and> independent_review ev \<in> {''passed'', ''failed'', ''not_run''}
      \<and> length (role_sequence ev) \<le> 32 \<and> length (tool_calls ev) \<le> 256
      \<and> 0 \<le> ahe_repair_count ev \<and> ahe_repair_count ev \<le> 1000
      \<and> 0 \<le> llm_tokens ev \<and> 0 \<le> wall_clock_seconds ev)"

record grader_result =
  gr_id :: grader_id
  gr_passed :: bool
  gr_score :: rat
  gr_details :: "string list"

record case_evaluation =
  ce_case_id :: string
  ce_passed :: bool
  ce_results :: "grader_result list"

section \<open>Graders\<close>

definition grader_result_of :: "grader_id \<Rightarrow> string list \<Rightarrow> rat option \<Rightarrow> grader_result" where
  "grader_result_of g details score =
     \<lparr>gr_id = g, gr_passed = (details = []),
      gr_score = (case score of None \<Rightarrow> if details = [] then 1 else 0 | Some x \<Rightarrow> x),
      gr_details = details\<rparr>"

definition artifact_matches :: "string \<Rightarrow> string \<Rightarrow> bool" where
  "artifact_matches path requirement =
     (let normalized = replace_char (CHR 0x5C) (CHR ''/'') path
      in if startswith requirement ''.'' then endswith (lower normalized) (lower requirement)
         else lower (path_name normalized) = lower requirement)"

definition artifact_details :: "run_evidence \<Rightarrow> string \<Rightarrow> string list" where
  "artifact_details ev required =
     (let matches = filter (\<lambda>a. artifact_matches (ae_path a) required) (evidence_artifacts ev)
      in if matches = [] then [''missing artifact evidence: '' @ required]
         else if \<not> (\<exists>a \<in> set matches. ae_exists a \<and> ae_valid a
                      \<and> (case ae_sha256 a of None \<Rightarrow> False | Some h \<Rightarrow> h \<noteq> []))
         then [''artifact is not existence/hash/validity grounded: '' @ required] else [])"

definition artifact_grader :: "eval_case \<Rightarrow> run_evidence \<Rightarrow> grader_result" where
  "artifact_grader c ev =
     grader_result_of G_ARTIFACT
       (concat (map (artifact_details ev) (required_artifacts (expectation c)))) None"

text \<open>\<open>repr\<close> of a string of the intent literals, which contain no quote.\<close>

definition quoted :: "string \<Rightarrow> string" where
  "quoted s = [CHR 0x27] @ s @ [CHR 0x27]"

definition intent_grader :: "eval_case \<Rightarrow> run_evidence \<Rightarrow> grader_result" where
  "intent_grader c ev =
     grader_result_of G_INTENT
       (case expected_intent (expectation c) of
          None \<Rightarrow> []
        | Some e \<Rightarrow> if intent_mode ev = e then []
                    else [''intent '' @ quoted (intent_mode ev) @ '' != expected '' @ quoted e]) None"

definition tool_call_score :: "eval_case \<Rightarrow> run_evidence \<Rightarrow> rat" where
  "tool_call_score c ev =
     (let required = remdups (required_tools (expectation c));
          forbidden = remdups (forbidden_tools (expectation c));
          actual = tool_calls ev;
          checks = length required + length forbidden;
          satisfied = length (filter (\<lambda>t. t \<in> set actual) required)
                      + length (filter (\<lambda>t. t \<notin> set actual) forbidden)
      in if checks = 0 then 1 else of_nat satisfied / of_nat checks)"

definition tool_call_grader :: "eval_case \<Rightarrow> run_evidence \<Rightarrow> grader_result" where
  "tool_call_grader c ev =
     (let missing = filter (\<lambda>t. t \<notin> set (tool_calls ev)) (sorted_set (required_tools (expectation c)));
          disallowed = filter (\<lambda>t. t \<in> set (tool_calls ev)) (sorted_set (forbidden_tools (expectation c)))
      in grader_result_of G_TOOL_CALL
           (map (\<lambda>t. ''required tool not called: '' @ t) missing
            @ map (\<lambda>t. ''forbidden tool called: '' @ t) disallowed)
           (Some (tool_call_score c ev)))"

definition trajectory_grader :: "eval_case \<Rightarrow> run_evidence \<Rightarrow> grader_result" where
  "trajectory_grader c ev =
     (let least = min_completed_steps (expectation c); roles = expected_role_sequence (expectation c)
      in grader_result_of G_TRAJECTORY
           ((if completed_steps ev < least
             then [''completed '' @ int_str (completed_steps ev) @ '' < '' @ int_str least] else [])
            @ (if total_steps ev \<noteq> 17
               then [''pipeline total_steps must be 17, got '' @ int_str (total_steps ev)] else [])
            @ (if roles \<noteq> [] \<and> role_sequence ev \<noteq> roles
               then [''agent role sequence differs from the case manifest''] else [])) None)"

definition release_truth_details :: "eval_case \<Rightarrow> run_evidence \<Rightarrow> string list" where
  "release_truth_details c ev =
     (let x = expectation c
      in (if outcome ev \<notin> set (allowed_outcomes x)
          then [''unexpected delivery outcome: '' @ outcome_value (outcome ev)] else [])
         @ (case require_execution_complete x of
              Some b \<Rightarrow> if execution_complete ev \<noteq> b
                         then [''execution_complete differs from the case manifest''] else []
            | None \<Rightarrow> [])
         @ (if outcome ev = RELEASE_READY then
              (if \<not> execution_complete ev \<or> completed_steps ev \<noteq> total_steps ev
               then [''release_ready requires a complete pipeline''] else [])
              @ (if release_blockers ev \<noteq> [] then [''release_ready cannot contain release blockers''] else [])
              @ (if independent_review ev \<noteq> ''passed''
                 then [''release_ready requires independent review''] else [])
            else [])
         @ (if outcome ev = DELIVERED_WITH_ISSUES then
              (if \<not> execution_complete ev
               then [''delivered_with_issues requires completed mechanical execution''] else [])
              @ (if release_blockers ev = []
                 then [''delivered_with_issues must identify at least one issue''] else [])
            else [])
         @ (if require_independent_review x \<and> independent_review ev \<noteq> ''passed''
            then [''independent review did not pass''] else []))"

definition release_truth_grader :: "eval_case \<Rightarrow> run_evidence \<Rightarrow> grader_result" where
  "release_truth_grader c ev = grader_result_of G_RELEASE_TRUTH (release_truth_details c ev) None"

definition recovery_grader :: "eval_case \<Rightarrow> run_evidence \<Rightarrow> grader_result" where
  "recovery_grader c ev =
     grader_result_of G_RECOVERY
       (if require_ahe_recovery (expectation c) then
          (if ahe_repair_count ev < 1 then [''case requires at least one AHE repair''] else [])
          @ (if \<not> recovered_from_fault ev then [''fault was not recovered''] else [])
        else []) None"

definition security_grader :: "eval_case \<Rightarrow> run_evidence \<Rightarrow> grader_result" where
  "security_grader c ev =
     grader_result_of G_SECURITY
       (map (\<lambda>i. ''invariant not proven: '' @ i)
          (filter (\<lambda>i. map_of (invariant_results ev) i \<noteq> Some True) (case_invariants c))) None"

definition exceeds :: "'n :: linorder \<Rightarrow> 'n option \<Rightarrow> bool" where
  "exceeds v limit = (case limit of None \<Rightarrow> False | Some m \<Rightarrow> v > m)"

definition cost_grader :: "eval_case \<Rightarrow> run_evidence \<Rightarrow> grader_result" where
  "cost_grader c ev =
     (let x = expectation c
      in grader_result_of G_COST
           ((if exceeds (ahe_repair_count ev) (max_ahe_repairs x) then [''AHE repair budget exceeded''] else [])
            @ (if exceeds (llm_tokens ev) (max_llm_tokens x) then [''LLM token budget exceeded''] else [])
            @ (if exceeds (wall_clock_seconds ev) (max_wall_clock_seconds x)
               then [''wall-clock budget exceeded''] else [])) None)"

fun grader :: "grader_id \<Rightarrow> eval_case \<Rightarrow> run_evidence \<Rightarrow> grader_result" where
  "grader G_INTENT = intent_grader"
| "grader G_TOOL_CALL = tool_call_grader"
| "grader G_TRAJECTORY = trajectory_grader"
| "grader G_ARTIFACT = artifact_grader"
| "grader G_RELEASE_TRUTH = release_truth_grader"
| "grader G_RECOVERY = recovery_grader"
| "grader G_SECURITY = security_grader"
| "grader G_COST = cost_grader"

definition evaluate_case :: "eval_case \<Rightarrow> run_evidence \<Rightarrow> case_evaluation" where
  "evaluate_case c ev =
     (let rs = map (\<lambda>g. grader g c ev) (grader_ids c)
      in \<lparr>ce_case_id = case_id c, ce_passed = (\<forall>r \<in> set rs. gr_passed r), ce_results = rs\<rparr>)"

section \<open>Suites\<close>

record eval_metrics =
  case_count :: int
  passed_cases :: int
  grader_count :: int
  passed_graders :: int
  pass_rate :: rat
  total_llm_tokens :: int
  total_wall_clock_seconds :: rat
  grader_pass_rates :: "(string \<times> rat) list"
  tool_call_accuracy :: rat
  state_transition_accuracy :: rat
  goal_completion_rate :: rat
  gate_accuracy :: rat
  recovery_success_rate :: rat
  false_release_count :: int
  false_release_rate :: rat

record eval_report =
  report_manifest_digest :: string
  report_cases :: "case_evaluation list"
  metrics :: eval_metrics

datatype eval_exn = MissingEvidence string | DifferentCases

definition average :: "rat list \<Rightarrow> rat" where
  "average xs = (if xs = [] then 0 else sum_list xs / of_nat (length xs))"

definition bool_score :: "bool \<Rightarrow> rat" where
  "bool_score b = (if b then 1 else 0)"

definition all_results :: "case_evaluation list \<Rightarrow> grader_result list" where
  "all_results es = concat (map ce_results es)"

definition grader_scores :: "case_evaluation list \<Rightarrow> grader_id \<Rightarrow> rat list" where
  "grader_scores es g = map gr_score (filter (\<lambda>r. gr_id r = g) (all_results es))"

definition gate_results :: "case_evaluation \<Rightarrow> grader_result list" where
  "gate_results e =
     filter (\<lambda>r. gr_id r \<in> {G_ARTIFACT, G_RELEASE_TRUTH, G_SECURITY}) (ce_results e)"

definition gate_scores :: "case_evaluation list \<Rightarrow> rat list" where
  "gate_scores es =
     map (\<lambda>e. bool_score (\<forall>r \<in> set (gate_results e). gr_passed r))
       (filter (\<lambda>e. gate_results e \<noteq> []) es)"

definition false_release :: "eval_case \<Rightarrow> run_evidence \<Rightarrow> case_evaluation \<Rightarrow> bool" where
  "false_release c ev e =
     (outcome ev = RELEASE_READY
      \<and> (RELEASE_READY \<notin> set (allowed_outcomes (expectation c))
          \<or> \<not> (\<forall>r \<in> set (gate_results e). gr_passed r)))"

fun collect_evidence ::
    "eval_case list \<Rightarrow> (string \<times> run_evidence) list \<Rightarrow> eval_exn + (eval_case \<times> run_evidence) list" where
  "collect_evidence [] ev = Inr []"
| "collect_evidence (c # cs) ev =
     (case map_of ev (case_id c) of
        None \<Rightarrow> Inl (MissingEvidence (case_id c))
      | Some e \<Rightarrow> bind_res (collect_evidence cs ev) (\<lambda>rest. Inr ((c, e) # rest)))"

definition suite_metrics :: "(eval_case \<times> run_evidence) list \<Rightarrow> eval_metrics" where
  "suite_metrics graded =
     (let es = map (\<lambda>(c, ev). evaluate_case c ev) graded;
          n = length es; rs = all_results es;
          passed = length (filter ce_passed es);
          false_n = length (filter (\<lambda>(c, ev). false_release c ev (evaluate_case c ev)) graded)
      in \<lparr>case_count = int n, passed_cases = int passed, grader_count = int (length rs),
          passed_graders = int (length (filter gr_passed rs)),
          pass_rate = (if n = 0 then 0 else of_nat passed / of_nat n),
          total_llm_tokens = sum_list (map (\<lambda>(_, ev). llm_tokens ev) graded),
          total_wall_clock_seconds = sum_list (map (\<lambda>(_, ev). wall_clock_seconds ev) graded),
          grader_pass_rates =
            map (\<lambda>g. (grader_value g,
                   average (map (\<lambda>r. bool_score (gr_passed r)) (filter (\<lambda>r. gr_id r = g) rs))))
              (filter (\<lambda>g. \<exists>r \<in> set rs. gr_id r = g) all_graders),
          tool_call_accuracy = average (grader_scores es G_TOOL_CALL),
          state_transition_accuracy = average (grader_scores es G_TRAJECTORY),
          goal_completion_rate = average (grader_scores es G_ARTIFACT),
          gate_accuracy = average (gate_scores es),
          recovery_success_rate = average (grader_scores es G_RECOVERY),
          false_release_count = int false_n,
          false_release_rate = (if n = 0 then 0 else of_nat false_n / of_nat n)\<rparr>)"

definition evaluate_suite ::
    "eval_case list \<Rightarrow> (string \<times> run_evidence) list \<Rightarrow> string \<Rightarrow> eval_exn + eval_report" where
  "evaluate_suite cases evidence digest =
     bind_res (collect_evidence cases evidence) (\<lambda>graded.
       Inr \<lparr>report_manifest_digest = digest,
            report_cases = map (\<lambda>(c, ev). evaluate_case c ev) graded,
            metrics = suite_metrics graded\<rparr>)"

section \<open>Comparison\<close>

record eval_comparison =
  baseline_manifest_digest :: string
  candidate_manifest_digest :: string
  improved_cases :: "string list"
  regressed_cases :: "string list"
  unchanged_cases :: "string list"
  cost_guard_passed :: bool
  candidate_passed :: bool
  token_delta :: int
  wall_clock_delta :: rat

text \<open>\<open>{item.case_id: item.passed for item in cases}\<close>: a repeated key keeps its last value.\<close>

definition verdicts :: "case_evaluation list \<Rightarrow> (string \<times> bool) list" where
  "verdicts es = dict_merge [] (map (\<lambda>e. (ce_case_id e, ce_passed e)) es)"

definition within_cost_guard :: "rat \<Rightarrow> rat \<Rightarrow> bool" where
  "within_cost_guard cand base =
     (if base = 0 then cand = 0 else cand \<le> base * (1 + 20 / 100))"

definition compare_reports :: "eval_report \<Rightarrow> eval_report \<Rightarrow> eval_exn + eval_comparison" where
  "compare_reports baseline candidate =
     (let base = verdicts (report_cases baseline); current = verdicts (report_cases candidate);
          keys = map fst base;
          pick = (\<lambda>P. sort (filter (\<lambda>k. case (map_of base k, map_of current k) of
                             (Some b, Some c) \<Rightarrow> P b c | _ \<Rightarrow> False) keys));
          improved = pick (\<lambda>b c. \<not> b \<and> c); regressed = pick (\<lambda>b c. b \<and> \<not> c);
          cost = (within_cost_guard (of_int (total_llm_tokens (metrics candidate)))
                    (of_int (total_llm_tokens (metrics baseline)))
                  \<and> within_cost_guard (total_wall_clock_seconds (metrics candidate))
                      (total_wall_clock_seconds (metrics baseline)))
      in if set keys \<noteq> set (map fst current) then Inl DifferentCases
         else Inr \<lparr>baseline_manifest_digest = report_manifest_digest baseline,
                   candidate_manifest_digest = report_manifest_digest candidate,
                   improved_cases = improved, regressed_cases = regressed,
                   unchanged_cases = pick (\<lambda>b c. b = c), cost_guard_passed = cost,
                   candidate_passed = (improved \<noteq> [] \<and> regressed = []
                     \<and> passed_cases (metrics candidate) = int (length (report_cases candidate)) \<and> cost),
                   token_delta = total_llm_tokens (metrics candidate) - total_llm_tokens (metrics baseline),
                   wall_clock_delta = total_wall_clock_seconds (metrics candidate)
                     - total_wall_clock_seconds (metrics baseline)\<rparr>)"

end
