(* ===== verification/Evaluator_Facts.thy ===== *)
theory Evaluator_Facts
  imports Evaluator "HOL-Library.Multiset"
begin

text \<open>
  What the evaluation of a harness promises: scores and rates are proportions, a suite
  without false releases has grounded every release, and a candidate is promoted only
  when every grader of every case passes, something improved, nothing regressed and
  the cost stays within the guard.
\<close>

section \<open>Graders\<close>

lemma gr_passed_result [simp]: "gr_passed (grader_result_of g d s) \<longleftrightarrow> d = []"
  by (simp add: grader_result_of_def)

lemma gr_id_result [simp]: "gr_id (grader_result_of g d s) = g"
  by (simp add: grader_result_of_def)

lemmas grader_defs =
  intent_grader_def tool_call_grader_def trajectory_grader_def artifact_grader_def
  release_truth_grader_def recovery_grader_def security_grader_def cost_grader_def

lemma gr_id_grader [simp]: "gr_id (grader g c ev) = g"
  by (cases g) (simp_all add: grader_defs Let_def)

lemma tool_call_score_unit: "0 \<le> tool_call_score c ev \<and> tool_call_score c ev \<le> 1"
proof -
  let ?r = "remdups (required_tools (expectation c))"
  let ?f = "remdups (forbidden_tools (expectation c))"
  let ?s = "length (filter (\<lambda>t. t \<in> set (tool_calls ev)) ?r)
            + length (filter (\<lambda>t. t \<notin> set (tool_calls ev)) ?f)"
  have "?s \<le> length ?r + length ?f"
    by (intro add_mono length_filter_le)
  then show ?thesis
    by (auto simp: tool_call_score_def Let_def divide_le_eq simp flip: of_nat_add)
qed

lemma gr_score_unit: "0 \<le> gr_score (grader g c ev) \<and> gr_score (grader g c ev) \<le> 1"
  using tool_call_score_unit [of c ev]
  by (cases g) (simp_all add: grader_defs Let_def grader_result_of_def)

lemma artifact_grader_passed:
  assumes "gr_passed (artifact_grader c ev)" and "req \<in> set (required_artifacts (expectation c))"
  shows "\<exists>a \<in> set (evidence_artifacts ev).
           artifact_matches (ae_path a) req \<and> ae_exists a \<and> ae_valid a \<and> ae_sha256 a \<noteq> None"
proof -
  let ?m = "filter (\<lambda>a. artifact_matches (ae_path a) req) (evidence_artifacts ev)"
  from assms have "artifact_details ev req = []"
    by (simp add: artifact_grader_def)
  then have "\<exists>a \<in> set ?m. ae_exists a \<and> ae_valid a
      \<and> (case ae_sha256 a of None \<Rightarrow> False | Some h \<Rightarrow> h \<noteq> [])"
    unfolding artifact_details_def Let_def by (metis list.distinct(1))
  then obtain a where "a \<in> set ?m" "ae_exists a" "ae_valid a" "ae_sha256 a \<noteq> None"
    by (metis option.simps(4))
  then show ?thesis by auto
qed

lemma security_grader_passed:
  "gr_passed (security_grader c ev) \<longleftrightarrow>
     (\<forall>i \<in> set (case_invariants c). map_of (invariant_results ev) i = Some True)"
  by (auto simp: security_grader_def filter_empty_conv)

lemma release_truth_ready:
  assumes "gr_passed (release_truth_grader c ev)" and "outcome ev = RELEASE_READY"
  shows "RELEASE_READY \<in> set (allowed_outcomes (expectation c)) \<and> execution_complete ev
    \<and> completed_steps ev = total_steps ev \<and> release_blockers ev = []
    \<and> independent_review ev = ''passed''"
  using assms by (auto simp: release_truth_grader_def release_truth_details_def Let_def split: if_splits)

section \<open>Suites\<close>

lemma collect_evidence_Inr:
  "collect_evidence cases ev = Inr graded \<Longrightarrow>
     map fst graded = cases \<and> (\<forall>(c, e) \<in> set graded. map_of ev (case_id c) = Some e)"
proof (induction cases arbitrary: graded)
  case (Cons c cs)
  then show ?case by (auto simp: bind_res_Inr_iff split: option.splits)
qed simp

lemma evaluate_suite_Inr:
  assumes "evaluate_suite cases ev d = Inr r"
  obtains graded where "collect_evidence cases ev = Inr graded" "map fst graded = cases"
    "\<forall>(c, e) \<in> set graded. map_of ev (case_id c) = Some e"
    "report_cases r = map (\<lambda>(c, e). evaluate_case c e) graded" "metrics r = suite_metrics graded"
    "report_manifest_digest r = d"
  using assms collect_evidence_Inr by (fastforce simp: evaluate_suite_def bind_res_Inr_iff)

lemma graded_member:
  assumes "map fst graded = cases" and "\<forall>(c, e) \<in> set graded. map_of ev (case_id c) = Some e"
    and "c \<in> set cases" and "map_of ev (case_id c) = Some e"
  shows "(c, e) \<in> set graded"
proof -
  from assms(1,3) obtain e' where "(c, e') \<in> set graded" by force
  with assms(2,4) show ?thesis by auto
qed

lemma average_unit:
  assumes "\<forall>x \<in> set xs. 0 \<le> x \<and> x \<le> 1"
  shows "0 \<le> average xs \<and> average xs \<le> 1"
proof -
  have "0 \<le> sum_list xs \<and> sum_list xs \<le> of_nat (length xs)"
    using assms by (induction xs) (auto intro: add_mono)
  then show ?thesis by (auto simp: average_def divide_le_eq)
qed

lemma results_unit:
  assumes "r \<in> set (all_results (map (\<lambda>(c, e). evaluate_case c e) graded))"
  shows "0 \<le> gr_score r \<and> gr_score r \<le> 1"
  using assms gr_score_unit by (fastforce simp: all_results_def evaluate_case_def Let_def)

lemma scores_unit:
  "0 \<le> average (grader_scores (map (\<lambda>(c, e). evaluate_case c e) graded) g)
   \<and> average (grader_scores (map (\<lambda>(c, e). evaluate_case c e) graded) g) \<le> 1"
  by (rule average_unit) (auto simp: grader_scores_def dest: results_unit)

lemma proportion_unit: "0 \<le> (of_nat (length (filter P xs)) / of_nat (length xs) :: rat)
  \<and> (of_nat (length (filter P xs)) / of_nat (length xs) :: rat) \<le> 1"
  using length_filter_le [of P xs] by (simp add: divide_le_eq)

lemma gate_results_id:
  "r \<in> set (gate_results (evaluate_case c e)) \<longleftrightarrow>
     (\<exists>g \<in> set (grader_ids c). g \<in> {G_ARTIFACT, G_RELEASE_TRUTH, G_SECURITY} \<and> r = grader g c e)"
  unfolding gate_results_def evaluate_case_def Let_def case_evaluation.select_convs set_filter set_map
  by (simp only: mem_Collect_eq image_iff Bex_def) (metis (no_types) gr_id_grader)

text \<open>Every rate a suite report carries is a proportion.\<close>

theorem suite_rates_are_proportions:
  assumes "evaluate_suite cases ev d = Inr r"
  shows "\<forall>x \<in> {pass_rate (metrics r), tool_call_accuracy (metrics r), state_transition_accuracy (metrics r),
            goal_completion_rate (metrics r), gate_accuracy (metrics r), recovery_success_rate (metrics r),
            false_release_rate (metrics r)} \<union> snd ` set (grader_pass_rates (metrics r)).
          0 \<le> x \<and> x \<le> 1"
proof -
  from assms obtain graded where m: "metrics r = suite_metrics graded"
    by (rule evaluate_suite_Inr)
  let ?es = "map (\<lambda>(c, e). evaluate_case c e) graded"
  have gates: "0 \<le> average (gate_scores ?es) \<and> average (gate_scores ?es) \<le> 1"
    by (rule average_unit) (auto simp: gate_scores_def bool_score_def)
  have rates: "0 \<le> average (map (\<lambda>r. bool_score (gr_passed r)) xs)
      \<and> average (map (\<lambda>r. bool_score (gr_passed r)) xs) \<le> 1" for xs
    by (rule average_unit) (auto simp: bool_score_def)
  have passed: "0 \<le> pass_rate (metrics r) \<and> pass_rate (metrics r) \<le> 1"
    using proportion_unit [of ce_passed ?es] by (simp add: m suite_metrics_def Let_def)
  have false_n: "0 \<le> false_release_rate (metrics r) \<and> false_release_rate (metrics r) \<le> 1"
    using proportion_unit [of "\<lambda>(c, e). false_release c e (evaluate_case c e)" graded]
    by (simp add: m suite_metrics_def Let_def)
  have "\<forall>x \<in> snd ` set (grader_pass_rates (metrics r)). 0 \<le> x \<and> x \<le> 1"
    using rates by (auto simp: m suite_metrics_def Let_def)
  moreover have "tool_call_accuracy (metrics r) = average (grader_scores ?es G_TOOL_CALL)"
    "state_transition_accuracy (metrics r) = average (grader_scores ?es G_TRAJECTORY)"
    "goal_completion_rate (metrics r) = average (grader_scores ?es G_ARTIFACT)"
    "recovery_success_rate (metrics r) = average (grader_scores ?es G_RECOVERY)"
    "gate_accuracy (metrics r) = average (gate_scores ?es)"
    by (simp_all add: m suite_metrics_def Let_def)
  ultimately show ?thesis using scores_unit [of graded] gates passed false_n by auto
qed

text \<open>
  C38: in a suite report that counts no false release, a run delivered as
  \<open>release_ready\<close> under the three gate graders is one the case allows: it completed all
  its steps with no blocker and a passed independent review, every invariant of the
  case is proven and every required artifact has existing, valid, hashed evidence.
\<close>

theorem no_false_release_means_grounded:
  assumes suite: "evaluate_suite cases ev d = Inr r" and none: "false_release_count (metrics r) = 0"
    and c: "c \<in> set cases" and e: "map_of ev (case_id c) = Some e" and rr: "outcome e = RELEASE_READY"
    and gates: "{G_ARTIFACT, G_RELEASE_TRUTH, G_SECURITY} \<subseteq> set (grader_ids c)"
  shows "RELEASE_READY \<in> set (allowed_outcomes (expectation c))
    \<and> execution_complete e \<and> completed_steps e = total_steps e \<and> release_blockers e = []
    \<and> independent_review e = ''passed''
    \<and> (\<forall>i \<in> set (case_invariants c). map_of (invariant_results e) i = Some True)
    \<and> (\<forall>req \<in> set (required_artifacts (expectation c)). \<exists>a \<in> set (evidence_artifacts e).
          artifact_matches (ae_path a) req \<and> ae_exists a \<and> ae_valid a \<and> ae_sha256 a \<noteq> None)"
proof -
  from suite obtain graded where g: "map fst graded = cases"
    "\<forall>(c, e) \<in> set graded. map_of ev (case_id c) = Some e" and m: "metrics r = suite_metrics graded"
    by (rule evaluate_suite_Inr)
  have mem: "(c, e) \<in> set graded" by (rule graded_member [OF g c e])
  from none have "\<forall>(c, e) \<in> set graded. \<not> false_release c e (evaluate_case c e)"
    by (auto simp: m suite_metrics_def Let_def filter_empty_conv)
  with mem rr have ok: "\<forall>x \<in> set (gate_results (evaluate_case c e)). gr_passed x"
    by (auto simp: false_release_def)
  have each: "gr_passed (grader g c e)" if "g \<in> {G_ARTIFACT, G_RELEASE_TRUTH, G_SECURITY}" for g
    using ok gates that gate_results_id by blast
  have "gr_passed (artifact_grader c e)" "gr_passed (release_truth_grader c e)"
    "gr_passed (security_grader c e)"
    using each [of G_ARTIFACT] each [of G_RELEASE_TRUTH] each [of G_SECURITY] by simp_all
  with release_truth_ready [OF _ rr] artifact_grader_passed show ?thesis
    by (simp only: security_grader_passed) blast
qed

section \<open>Comparison\<close>

lemma verdicts_distinct: "distinct (map fst (verdicts es))"
  by (simp add: verdicts_def distinct_dict_of)

lemma map_of_verdicts: "map_of (verdicts es) = map_of (rev (map (\<lambda>e. (ce_case_id e, ce_passed e)) es))"
  by (simp add: verdicts_def map_of_dict_of)

lemma map_of_verdicts_mem: "map_of (verdicts es) k = Some b \<Longrightarrow> \<exists>e \<in> set es. ce_case_id e = k \<and> ce_passed e = b"
  by (auto simp: map_of_verdicts dest!: map_of_SomeD)

lemma within_cost_guard_bound: "0 \<le> base \<Longrightarrow> within_cost_guard cand base \<Longrightarrow> cand \<le> base * (6 / 5)"
  by (auto simp: within_cost_guard_def split: if_splits)

lemma all_filtered: "length (filter P xs) = length xs \<longleftrightarrow> (\<forall>x \<in> set xs. P x)"
  by (metis filter_id_conv length_filter_less nat_neq_iff)

definition classified :: "case_evaluation list \<Rightarrow> case_evaluation list \<Rightarrow> (bool \<Rightarrow> bool \<Rightarrow> bool) \<Rightarrow> string \<Rightarrow> bool" where
  "classified bs cs P k = (case (map_of (verdicts bs) k, map_of (verdicts cs) k) of
     (Some b, Some c) \<Rightarrow> P b c | _ \<Rightarrow> False)"

lemma compare_reports_Inr:
  assumes "compare_reports b c = Inr cmp"
  shows "set (map fst (verdicts (report_cases b))) = set (map fst (verdicts (report_cases c)))"
    and "improved_cases cmp = sort (filter (classified (report_cases b) (report_cases c) (\<lambda>x y. \<not> x \<and> y))
           (map fst (verdicts (report_cases b))))"
    and "regressed_cases cmp = sort (filter (classified (report_cases b) (report_cases c) (\<lambda>x y. x \<and> \<not> y))
           (map fst (verdicts (report_cases b))))"
    and "unchanged_cases cmp = sort (filter (classified (report_cases b) (report_cases c) (\<lambda>x y. x = y))
           (map fst (verdicts (report_cases b))))"
    and "candidate_passed cmp \<longleftrightarrow> improved_cases cmp \<noteq> [] \<and> regressed_cases cmp = []
           \<and> passed_cases (metrics c) = int (length (report_cases c)) \<and> cost_guard_passed cmp"
    and "cost_guard_passed cmp \<longleftrightarrow>
           within_cost_guard (of_int (total_llm_tokens (metrics c))) (of_int (total_llm_tokens (metrics b)))
           \<and> within_cost_guard (total_wall_clock_seconds (metrics c)) (total_wall_clock_seconds (metrics b))"
  using assms unfolding compare_reports_def Let_def classified_def
  by (auto split: if_split_asm)

lemma classified_total:
  assumes "k \<in> fst ` set (verdicts bs)" and "fst ` set (verdicts bs) = fst ` set (verdicts cs)"
  obtains b c where "map_of (verdicts bs) k = Some b" "map_of (verdicts cs) k = Some c"
    "\<And>P. classified bs cs P k = P b c"
proof -
  from assms obtain b where b: "map_of (verdicts bs) k = Some b"
    by (metis dom_map_of_conv_image_fst domD)
  from assms obtain c where c: "map_of (verdicts cs) k = Some c"
    by (metis dom_map_of_conv_image_fst domD)
  show ?thesis by (rule that [OF b c]) (simp add: classified_def b c)
qed

text \<open>
  a comparison sorts the cases of the two reports into exactly one of improved,
  regressed and unchanged: each list is sorted, and together they are the case
  identifiers of the baseline, each once.
\<close>

theorem comparison_partitions_cases:
  assumes "compare_reports b c = Inr cmp"
  shows "mset (improved_cases cmp) + mset (regressed_cases cmp) + mset (unchanged_cases cmp)
           = mset (map fst (verdicts (report_cases b)))
         \<and> distinct (improved_cases cmp @ regressed_cases cmp @ unchanged_cases cmp)
         \<and> sorted (improved_cases cmp) \<and> sorted (regressed_cases cmp) \<and> sorted (unchanged_cases cmp)"
proof -
  let ?bs = "report_cases b" and ?cs = "report_cases c"
  let ?ks = "map fst (verdicts ?bs)"
  note cmp = compare_reports_Inr [OF assms]
  have split: "mset (filter (classified ?bs ?cs (\<lambda>x y. \<not> x \<and> y)) ks)
      + mset (filter (classified ?bs ?cs (\<lambda>x y. x \<and> \<not> y)) ks)
      + mset (filter (classified ?bs ?cs (\<lambda>x y. x = y)) ks) = mset ks"
    if "set ks \<subseteq> fst ` set (verdicts ?bs)" for ks
    using that
  proof (induction ks)
    case (Cons k ks)
    from Cons.prems have "k \<in> fst ` set (verdicts ?bs)" by simp
    moreover from cmp(1) have "fst ` set (verdicts ?bs) = fst ` set (verdicts ?cs)" by simp
    ultimately obtain x y where "\<And>P. classified ?bs ?cs P k = P x y"
      by (rule classified_total) blast
    then show ?case using Cons by (cases x; cases y) auto
  qed simp
  have parts: "mset (improved_cases cmp) + mset (regressed_cases cmp) + mset (unchanged_cases cmp) = mset ?ks"
    unfolding cmp(2-4) mset_sort by (rule split) simp
  then have "mset (improved_cases cmp @ regressed_cases cmp @ unchanged_cases cmp) = mset ?ks"
    by (simp add: add.assoc)
  with verdicts_distinct [of ?bs] have "distinct (improved_cases cmp @ regressed_cases cmp @ unchanged_cases cmp)"
    by (metis mset_eq_imp_distinct_iff)
  with parts show ?thesis by (simp add: cmp(2-4))
qed

lemma suite_all_passed:
  assumes "evaluate_suite cases ev d = Inr r" and "passed_cases (metrics r) = int (length (report_cases r))"
    and "c \<in> set cases" and "map_of ev (case_id c) = Some e"
  shows "\<forall>g \<in> set (grader_ids c). gr_passed (grader g c e)"
proof -
  from assms(1) obtain graded where g: "map fst graded = cases"
    "\<forall>(c, e) \<in> set graded. map_of ev (case_id c) = Some e"
    and rc: "report_cases r = map (\<lambda>(c, e). evaluate_case c e) graded"
    and m: "metrics r = suite_metrics graded"
    by (rule evaluate_suite_Inr)
  from assms(2) have "length (filter ce_passed (report_cases r)) = length (report_cases r)"
    by (simp add: m rc suite_metrics_def Let_def)
  then have "\<forall>x \<in> set (report_cases r). ce_passed x" by (simp only: all_filtered)
  moreover have "evaluate_case c e \<in> set (report_cases r)"
    using graded_member [OF g assms(3,4)] rc by force
  ultimately have "ce_passed (evaluate_case c e)" by blast
  then show ?thesis by (simp add: evaluate_case_def Let_def)
qed

lemma suite_costs:
  assumes "evaluate_suite cases ev d = Inr r"
  shows "total_llm_tokens (metrics r) = (\<Sum>c\<leftarrow>cases. llm_tokens (the (map_of ev (case_id c))))"
    and "total_wall_clock_seconds (metrics r) = (\<Sum>c\<leftarrow>cases. wall_clock_seconds (the (map_of ev (case_id c))))"
proof -
  from assms obtain graded where g: "map fst graded = cases"
    "\<forall>(c, e) \<in> set graded. map_of ev (case_id c) = Some e" and m: "metrics r = suite_metrics graded"
    by (rule evaluate_suite_Inr)
  have tokens: "map (\<lambda>(_, e). llm_tokens e) graded = map (\<lambda>c. llm_tokens (the (map_of ev (case_id c)))) cases"
    using g by (auto simp flip: g(1))
  have secs: "map (\<lambda>(_, e). wall_clock_seconds e) graded
      = map (\<lambda>c. wall_clock_seconds (the (map_of ev (case_id c)))) cases"
    using g by (auto simp flip: g(1))
  show "total_llm_tokens (metrics r) = (\<Sum>c\<leftarrow>cases. llm_tokens (the (map_of ev (case_id c))))"
    by (simp add: m suite_metrics_def Let_def tokens)
  show "total_wall_clock_seconds (metrics r) = (\<Sum>c\<leftarrow>cases. wall_clock_seconds (the (map_of ev (case_id c))))"
    by (simp add: m suite_metrics_def Let_def secs)
qed

lemma guarded_costs:
  assumes base: "evaluate_suite cases ev0 d0 = Inr b" and cand: "evaluate_suite cases ev1 d1 = Inr c"
    and cmp: "compare_reports b c = Inr cmp" and guard: "cost_guard_passed cmp"
    and ok: "\<forall>k e. map_of ev0 k = Some e \<longrightarrow> evidence_ok e"
  shows "of_int (\<Sum>k\<leftarrow>cases. llm_tokens (the (map_of ev1 (case_id k))))
        \<le> (of_int (\<Sum>k\<leftarrow>cases. llm_tokens (the (map_of ev0 (case_id k)))) * (6 / 5) :: rat)"
    and "(\<Sum>k\<leftarrow>cases. wall_clock_seconds (the (map_of ev1 (case_id k))))
        \<le> (\<Sum>k\<leftarrow>cases. wall_clock_seconds (the (map_of ev0 (case_id k)))) * (6 / 5)"
proof -
  from base obtain g0 where g0: "map fst g0 = cases" "\<forall>(c, e) \<in> set g0. map_of ev0 (case_id c) = Some e"
    by (rule evaluate_suite_Inr)
  have "evidence_ok (the (map_of ev0 (case_id k)))" if "k \<in> set cases" for k
    using that g0 ok by force
  then have nonneg: "\<forall>k \<in> set cases. 0 \<le> llm_tokens (the (map_of ev0 (case_id k)))
      \<and> 0 \<le> wall_clock_seconds (the (map_of ev0 (case_id k)))"
    by (simp add: evidence_ok_def)
  have "(0::rat) \<le> of_int (\<Sum>k\<leftarrow>cases. llm_tokens (the (map_of ev0 (case_id k))))"
    using nonneg by (auto intro!: sum_list_nonneg)
  moreover have "(0::rat) \<le> (\<Sum>k\<leftarrow>cases. wall_clock_seconds (the (map_of ev0 (case_id k))))"
    using nonneg by (auto intro!: sum_list_nonneg)
  moreover have "within_cost_guard (of_int (\<Sum>k\<leftarrow>cases. llm_tokens (the (map_of ev1 (case_id k)))))
        (of_int (\<Sum>k\<leftarrow>cases. llm_tokens (the (map_of ev0 (case_id k)))))"
    "within_cost_guard (\<Sum>k\<leftarrow>cases. wall_clock_seconds (the (map_of ev1 (case_id k))))
       (\<Sum>k\<leftarrow>cases. wall_clock_seconds (the (map_of ev0 (case_id k))))"
    using guard compare_reports_Inr(6) [OF cmp] suite_costs [OF base] suite_costs [OF cand] by simp_all
  ultimately show "of_int (\<Sum>k\<leftarrow>cases. llm_tokens (the (map_of ev1 (case_id k))))
        \<le> (of_int (\<Sum>k\<leftarrow>cases. llm_tokens (the (map_of ev0 (case_id k)))) * (6 / 5) :: rat)"
    and "(\<Sum>k\<leftarrow>cases. wall_clock_seconds (the (map_of ev1 (case_id k))))
        \<le> (\<Sum>k\<leftarrow>cases. wall_clock_seconds (the (map_of ev0 (case_id k)))) * (6 / 5)"
    by (blast intro: within_cost_guard_bound)+
qed

text \<open>
  C37: a candidate harness is promoted over its baseline only when every grader of every
  case passes on the candidate's evidence, some case failed on the baseline's evidence,
  and neither the tokens nor the seconds of the candidate exceed the baseline's by more
  than a fifth.
\<close>

theorem promotion_is_earned:
  assumes base: "evaluate_suite cases ev0 d0 = Inr b" and cand: "evaluate_suite cases ev1 d1 = Inr c"
    and cmp: "compare_reports b c = Inr cmp" and promoted: "candidate_passed cmp"
    and ok: "\<forall>k e. map_of ev0 k = Some e \<longrightarrow> evidence_ok e"
  shows "(\<forall>k \<in> set cases. \<exists>e. map_of ev1 (case_id k) = Some e
            \<and> (\<forall>g \<in> set (grader_ids k). gr_passed (grader g k e)))
    \<and> (\<exists>k \<in> set cases. \<exists>e. map_of ev0 (case_id k) = Some e
            \<and> (\<exists>g \<in> set (grader_ids k). \<not> gr_passed (grader g k e)))
    \<and> of_int (\<Sum>k\<leftarrow>cases. llm_tokens (the (map_of ev1 (case_id k))))
        \<le> (of_int (\<Sum>k\<leftarrow>cases. llm_tokens (the (map_of ev0 (case_id k)))) * (6 / 5) :: rat)
    \<and> (\<Sum>k\<leftarrow>cases. wall_clock_seconds (the (map_of ev1 (case_id k))))
        \<le> (\<Sum>k\<leftarrow>cases. wall_clock_seconds (the (map_of ev0 (case_id k)))) * (6 / 5)"
proof -
  note f = compare_reports_Inr [OF cmp]
  from base obtain g0 where g0: "map fst g0 = cases" "\<forall>(c, e) \<in> set g0. map_of ev0 (case_id c) = Some e"
    and rc0: "report_cases b = map (\<lambda>(c, e). evaluate_case c e) g0" by (rule evaluate_suite_Inr)
  from cand obtain g1 where g1: "map fst g1 = cases" "\<forall>(c, e) \<in> set g1. map_of ev1 (case_id c) = Some e"
    by (rule evaluate_suite_Inr)
  have all: "\<exists>e. map_of ev1 (case_id k) = Some e \<and> (\<forall>g \<in> set (grader_ids k). gr_passed (grader g k e))"
    if k: "k \<in> set cases" for k
  proof -
    from k g1 obtain e where "map_of ev1 (case_id k) = Some e" by force
    with suite_all_passed [OF cand _ k] promoted f(5) show ?thesis by blast
  qed
  from promoted f(5) have "improved_cases cmp \<noteq> []" by blast
  then have "set (improved_cases cmp) \<noteq> {}" by simp
  then obtain i where "classified (report_cases b) (report_cases c) (\<lambda>x y. \<not> x \<and> y) i"
    by (auto simp: f(2))
  then have "map_of (verdicts (report_cases b)) i = Some False"
    by (auto simp: classified_def split: option.splits)
  then obtain x where x: "x \<in> set (report_cases b)" "\<not> ce_passed x"
    using map_of_verdicts_mem by blast
  then obtain k e where ke: "(k, e) \<in> set g0" "x = evaluate_case k e" by (auto simp: rc0)
  with g0 x(2) have failed: "\<exists>k \<in> set cases. \<exists>e. map_of ev0 (case_id k) = Some e
      \<and> (\<exists>g \<in> set (grader_ids k). \<not> gr_passed (grader g k e))"
    by (force simp: evaluate_case_def Let_def)
  have "cost_guard_passed cmp" using promoted f(5) by blast
  from guarded_costs [OF base cand cmp this ok] all failed show ?thesis by blast
qed

section \<open>An example suite\<close>

definition sample_expectation :: eval_expectation where
  "sample_expectation =
     \<lparr>allowed_outcomes = [RELEASE_READY], expected_intent = Some ''build'',
      required_artifacts = [''.zip''], min_completed_steps = 17,
      require_execution_complete = Some True, require_independent_review = True,
      require_ahe_recovery = False, expected_role_sequence = [], required_tools = [''erc''],
      forbidden_tools = [''shell''], max_ahe_repairs = Some 3, max_llm_tokens = None,
      max_wall_clock_seconds = None\<rparr>"

definition sample_case :: eval_case where
  "sample_case =
     \<lparr>case_id = ''led'', case_invariants = [''no_secrets''],
      grader_ids = [G_TOOL_CALL, G_ARTIFACT, G_RELEASE_TRUTH, G_SECURITY],
      expectation = sample_expectation\<rparr>"

definition sample_evidence :: "int \<Rightarrow> string list \<Rightarrow> run_evidence" where
  "sample_evidence tokens calls =
     \<lparr>outcome = RELEASE_READY, intent_mode = ''build'', execution_complete = True, completed_steps = 17,
      total_steps = 17,
      evidence_artifacts = [\<lparr>ae_path = ''out/gerbers.ZIP'', ae_exists = True, ae_valid = True, ae_sha256 = Some ''ab''\<rparr>],
      release_blockers = [], independent_review = ''passed'', role_sequence = [], tool_calls = calls,
      ahe_repair_count = 0, recovered_from_fault = False, llm_tokens = tokens, wall_clock_seconds = 60,
      invariant_results = [(''no_secrets'', True)]\<rparr>"

definition sample_report :: "int \<Rightarrow> string list \<Rightarrow> eval_report" where
  "sample_report tokens calls =
     (case evaluate_suite [sample_case] [(''led'', sample_evidence tokens calls)] ''d'' of Inr r \<Rightarrow> r)"

lemma sample_suite:
  "evaluate_suite [sample_case] [(''led'', sample_evidence 100 [])] ''d'' = Inr (sample_report 100 [])"
  "evaluate_suite [sample_case] [(''led'', sample_evidence 110 [''erc''])] ''d''
     = Inr (sample_report 110 [''erc''])"
  by code_simp+

lemma sample_comparison:
  "compare_reports (sample_report 100 []) (sample_report 110 [''erc''])
     = Inr \<lparr>baseline_manifest_digest = ''d'', candidate_manifest_digest = ''d'',
            improved_cases = [''led''], regressed_cases = [], unchanged_cases = [],
            cost_guard_passed = True, candidate_passed = True, token_delta = 10, wall_clock_delta = 0\<rparr>"
  by code_simp

theorem suite_rates_are_proportions_witness:
  "pass_rate (metrics (sample_report 100 [])) = 0 \<and> tool_call_accuracy (metrics (sample_report 100 [])) \<le> 1"
proof -
  have "pass_rate (metrics (sample_report 100 [])) = 0" by code_simp
  with suite_rates_are_proportions [OF sample_suite(1)] show ?thesis by blast
qed

theorem no_false_release_means_grounded_witness:
  "release_blockers (sample_evidence 110 [''erc'']) = []
   \<and> map_of (invariant_results (sample_evidence 110 [''erc''])) ''no_secrets'' = Some True"
proof -
  have "false_release_count (metrics (sample_report 110 [''erc''])) = 0" by code_simp
  from no_false_release_means_grounded [OF sample_suite(2) this, of sample_case "sample_evidence 110 [''erc'']"]
  show ?thesis by (simp add: sample_case_def sample_evidence_def)
qed

theorem comparison_partitions_cases_witness:
  "\<exists>cmp. compare_reports (sample_report 100 []) (sample_report 110 [''erc'']) = Inr cmp
     \<and> distinct (improved_cases cmp @ regressed_cases cmp @ unchanged_cases cmp)"
  using comparison_partitions_cases [OF sample_comparison] sample_comparison by blast

theorem promotion_is_earned_witness:
  "list_all (\<lambda>g. gr_passed (grader g sample_case (sample_evidence 110 [''erc'']))) (grader_ids sample_case)
   \<and> \<not> gr_passed (tool_call_grader sample_case (sample_evidence 100 []))"
proof -
  have "\<not> gr_passed (tool_call_grader sample_case (sample_evidence 100 []))" by code_simp
  moreover have "evidence_ok (sample_evidence 100 [])" by code_simp
  then have "\<forall>k e. map_of [(''led'', sample_evidence 100 [])] k = Some e \<longrightarrow> evidence_ok e" by simp
  from promotion_is_earned [OF sample_suite sample_comparison _ this]
  have "\<forall>g \<in> set (grader_ids sample_case). gr_passed (grader g sample_case (sample_evidence 110 [''erc'']))"
    by (simp add: sample_case_def [THEN arg_cong, of case_id])
  ultimately show ?thesis by (simp add: list_all_iff)
qed

end
