(* ===== verification/Harness.thy ===== *)
theory Harness
  imports Paths Sha256
begin

text \<open>
  The identity of a harness and the contracts of an evolution candidate
  (\<open>evolution/contracts.py\<close>): the manifest and the digest it must carry, and the
  resolution of the identity a run is pinned to from its input and its environment.
  A timestamp is an integer, the number of microseconds since the epoch.
\<close>

section \<open>Contracts\<close>

datatype harness_channel = STABLE | CANARY | PREVIOUS_STABLE | EVALUATION | DEVELOPMENT

fun channel_value :: "harness_channel \<Rightarrow> string" where
  "channel_value STABLE = ''stable''"
| "channel_value CANARY = ''canary''"
| "channel_value PREVIOUS_STABLE = ''previous_stable''"
| "channel_value EVALUATION = ''evaluation''"
| "channel_value DEVELOPMENT = ''development''"

definition channel_of :: "string \<Rightarrow> harness_channel option" where
  "channel_of s = find (\<lambda>c. channel_value c = s) [STABLE, CANARY, PREVIOUS_STABLE, EVALUATION, DEVELOPMENT]"

text \<open>The pattern of a hexadecimal digest with a range of lengths.\<close>

definition hex_between :: "nat \<Rightarrow> nat \<Rightarrow> string \<Rightarrow> bool" where
  "hex_between lo hi s =
     (lo \<le> length s \<and> length s \<le> hi \<and> (\<forall>c \<in> set s. is_digit c \<or> chr_between 97 102 c))"

lemma sha256_hex: "hex_between 64 64 (sha256 t)"
proof -
  have "\<forall>c \<in> set ''0123456789abcdef''. is_digit c \<or> chr_between 97 102 c"
    by (simp add: chr_defs)
  moreover have "hex_digit n \<in> set ''0123456789abcdef''" for n
    unfolding hex_digit_def by (rule nth_mem) (simp add: nat_less_iff)
  ultimately have "is_digit (hex_digit n) \<or> chr_between 97 102 (hex_digit n)" for n by blast
  then have "\<forall>c \<in> set (sha256 t). is_digit c \<or> chr_between 97 102 c"
    by (auto simp: sha256_def Let_def hex_word_def)
  then show ?thesis by (simp add: hex_between_def)
qed

abbreviation digest_pattern :: "string \<Rightarrow> bool" where
  "digest_pattern \<equiv> hex_between 64 64"

definition bounded :: "nat \<Rightarrow> nat \<Rightarrow> 'a list \<Rightarrow> bool" where
  "bounded lo hi xs = (lo \<le> length xs \<and> length xs \<le> hi)"

record harness_manifest =
  source_commit :: string
  source_tree_digest :: string
  dirty :: bool
  bundle_digest :: string
  contract_digest :: string
  policy_digest :: string
  runtime_image_digest :: "string option"
  toolchain_digest :: "string option"
  manifest_digest :: string

text \<open>\<open>json.dumps\<close> of a string with \<open>ensure_ascii=False\<close>.\<close>

definition json_plain_char :: "char \<Rightarrow> string" where
  "json_plain_char c =
     (let n = chr_code c
      in if n = 34 then [CHR 0x5C, CHR 0x22]
         else if n = 92 then [CHR 0x5C, CHR 0x5C]
         else if n = 10 then [CHR 0x5C, CHR ''n'']
         else if n = 13 then [CHR 0x5C, CHR ''r'']
         else if n = 9 then [CHR 0x5C, CHR ''t'']
         else if n = 8 then [CHR 0x5C, CHR ''b'']
         else if n = 12 then [CHR 0x5C, CHR ''f'']
         else if n < 32 then [CHR 0x5C] @ ''u00'' @ [hex_digit (n div 16), hex_digit n]
         else [c])"

definition json_plain :: "string \<Rightarrow> string" where
  "json_plain s = [CHR 0x22] @ concat (map json_plain_char s) @ [CHR 0x22]"

definition json_plain_opt :: "string option \<Rightarrow> string" where
  "json_plain_opt x = (case x of None \<Rightarrow> ''null'' | Some s \<Rightarrow> json_plain s)"

text \<open>An object with the given members, separated as by \<open>separators=(",", ":")\<close>.\<close>

definition json_object :: "(string \<times> string) list \<Rightarrow> string" where
  "json_object kvs = ''{'' @ join '','' (map (\<lambda>(k, v). json_plain k @ '':'' @ v) kvs) @ ''}''"

text \<open>\<open>json.dumps\<close> of a string with \<open>ensure_ascii=True\<close>.\<close>

definition json_ascii_char :: "char \<Rightarrow> string" where
  "json_ascii_char c =
     (let n = chr_code c in if n < 127 then json_plain_char c else [CHR 0x5C] @ ''u00'' @ [hex_digit (n div 16), hex_digit n])"

definition json_ascii :: "string \<Rightarrow> string" where
  "json_ascii s = [CHR 0x22] @ concat (map json_ascii_char s) @ [CHR 0x22]"

text \<open>JSON with sorted keys, no spaces and unescaped text.\<close>

fun canonical_json :: "pyval \<Rightarrow> string" where
  "canonical_json PNone = ''null''"
| "canonical_json (PBool b) = (if b then ''true'' else ''false'')"
| "canonical_json (PInt i) = int_str i"
| "canonical_json (PStr t) = json_plain t"
| "canonical_json (PList xs) = ''['' @ join '','' (map canonical_json xs) @ '']''"
| "canonical_json (PDict d) = json_object (sort_key fst (map (\<lambda>kv. (fst kv, canonical_json (snd kv))) d))"

text \<open>The manifest without its own digest, in field order and under the camel-case aliases.\<close>

definition manifest_payload :: "harness_manifest \<Rightarrow> string" where
  "manifest_payload m =
     json_object
       [(''schemaVersion'', json_plain ''1.0''),
        (''sourceCommit'', json_plain (source_commit m)),
        (''sourceTreeDigest'', json_plain (source_tree_digest m)),
        (''dirty'', if dirty m then ''true'' else ''false''),
        (''bundleDigest'', json_plain (bundle_digest m)),
        (''contractDigest'', json_plain (contract_digest m)),
        (''policyDigest'', json_plain (policy_digest m)),
        (''runtimeImageDigest'', json_plain_opt (runtime_image_digest m)),
        (''toolchainDigest'', json_plain_opt (toolchain_digest m))]"

definition calculated_manifest_digest :: "harness_manifest \<Rightarrow> string" where
  "calculated_manifest_digest m = sha256 (utf8_bytes (manifest_payload m))"

record harness_identity =
  version_id :: string
  channel :: harness_channel
  identity_digest :: string

section \<open>The identity of a run\<close>

datatype identity_exn =
    ExplicitRequired | RuntimeMismatch | NotConfigured | RuntimeConfigNotObject
  | ConflictingIdentities | NotAnObject string | IncompleteIdentity string | InvalidIdentity string

text \<open>\<open>d.get(a) or d.get(b)\<close>: the first truthy value, else the last one read.\<close>

definition get_first :: "pydict \<Rightarrow> string \<Rightarrow> string \<Rightarrow> pyval" where
  "get_first d a b = (let x = get_or d a PNone in if py_truth x then x else get_or d b PNone)"

text \<open>
  \<open>_identity_from_mapping\<close>, ending in the validation of the contract: a version of 1 to
  120 characters, a known channel and a digest.  \<open>cs\<close> renders containers as \<open>str\<close> does.
\<close>

definition identity_from_mapping ::
    "(pyval \<Rightarrow> string) \<Rightarrow> pyval \<Rightarrow> string \<Rightarrow> identity_exn + harness_identity" where
  "identity_from_mapping cs v source =
     (case v of
        PDict d \<Rightarrow>
          (let ident = (if py_truth (get_or d ''id'' PNone) then get_or d ''id'' PNone
                        else get_first d ''version_id'' ''versionId'');
               ch = get_or d ''channel'' PNone;
               dig = get_first d ''manifest_digest'' ''manifestDigest''
           in if \<not> py_truth ident \<or> \<not> py_truth ch \<or> \<not> py_truth dig then Inl (IncompleteIdentity source)
              else
                (case (case ch of PStr t \<Rightarrow> channel_of t | _ \<Rightarrow> None) of
                   None \<Rightarrow> Inl (InvalidIdentity source)
                 | Some c \<Rightarrow>
                     if bounded 1 120 (py_str_by cs ident) \<and> digest_pattern (py_str_by cs dig)
                     then Inr \<lparr>version_id = py_str_by cs ident, channel = c, identity_digest = py_str_by cs dig\<rparr>
                     else Inl (InvalidIdentity source)))
      | _ \<Rightarrow> Inl (NotAnObject source))"

definition present :: "pyval \<Rightarrow> bool" where
  "present v = (v \<noteq> PNone)"

text \<open>The identities a run input states: directly, in its runtime configuration, and in flat keys.\<close>

definition direct_identity :: "(pyval \<Rightarrow> string) \<Rightarrow> pydict \<Rightarrow> identity_exn + harness_identity list" where
  "direct_identity cs values =
     (let direct = get_first values ''harness_version'' ''harnessVersion''
      in if present direct
         then bind_res (identity_from_mapping cs direct ''harness_version'') (\<lambda>i. Inr [i])
         else Inr [])"

definition configured_identity :: "(pyval \<Rightarrow> string) \<Rightarrow> pydict \<Rightarrow> identity_exn + harness_identity list" where
  "configured_identity cs values =
     (let config = get_first values ''runtime_config'' ''runtimeConfig''
      in if \<not> present config then Inr []
         else
           (case config of
              PDict d \<Rightarrow>
                (let nested = get_first d ''harness_version'' ''harnessVersion''
                 in if present nested
                    then bind_res (identity_from_mapping cs nested ''runtime_config.harness_version'') (\<lambda>i. Inr [i])
                    else Inr [])
            | _ \<Rightarrow> Inl RuntimeConfigNotObject))"

definition flat_identity :: "(pyval \<Rightarrow> string) \<Rightarrow> pydict \<Rightarrow> identity_exn + harness_identity list" where
  "flat_identity cs values =
     (let flat = [(''version_id'', get_first values ''harness_version_id'' ''harnessVersionId''),
                  (''channel'', get_first values ''harness_channel'' ''harnessChannel''),
                  (''manifest_digest'', get_first values ''harness_manifest_digest'' ''harnessManifestDigest'')]
      in if \<exists>kv \<in> set flat. present (snd kv)
         then bind_res (identity_from_mapping cs (PDict flat) ''flat harness identity'') (\<lambda>i. Inr [i])
         else Inr [])"

definition explicit_harness_identity ::
    "(pyval \<Rightarrow> string) \<Rightarrow> pydict \<Rightarrow> identity_exn + harness_identity option" where
  "explicit_harness_identity cs values =
     bind_res (direct_identity cs values) (\<lambda>a.
     bind_res (configured_identity cs values) (\<lambda>b.
     bind_res (flat_identity cs values) (\<lambda>c.
       case a @ b @ c of
         [] \<Rightarrow> Inr None
       | i # rest \<Rightarrow> if \<exists>j \<in> set rest. j \<noteq> i then Inl ConflictingIdentities else Inr (Some i))))"

definition env_value :: "(string \<times> string) list \<Rightarrow> string \<Rightarrow> pyval" where
  "env_value env k = (case map_of env k of None \<Rightarrow> PNone | Some s \<Rightarrow> PStr s)"

definition environment_harness_identity ::
    "(pyval \<Rightarrow> string) \<Rightarrow> (string \<times> string) list \<Rightarrow> identity_exn + harness_identity option" where
  "environment_harness_identity cs env =
     (let values = [(''version_id'', env_value env ''RATSNEST_HARNESS_VERSION_ID''),
                    (''channel'', env_value env ''RATSNEST_HARNESS_CHANNEL''),
                    (''manifest_digest'', env_value env ''RATSNEST_HARNESS_MANIFEST_DIGEST'')]
      in if \<exists>kv \<in> set values. py_truth (snd kv)
         then bind_res (identity_from_mapping cs (PDict values) ''runtime environment'') (\<lambda>i. Inr (Some i))
         else Inr None)"

definition resolve_harness_identity ::
    "(pyval \<Rightarrow> string) \<Rightarrow> pydict \<Rightarrow> (string \<times> string) list \<Rightarrow> bool \<Rightarrow> identity_exn + harness_identity" where
  "resolve_harness_identity cs values env require_explicit =
     bind_res (explicit_harness_identity cs values) (\<lambda>explicit.
       if require_explicit \<and> explicit = None then Inl ExplicitRequired
       else
         bind_res (environment_harness_identity cs env) (\<lambda>environment.
           case (explicit, environment) of
             (Some e, Some v) \<Rightarrow> if e \<noteq> v then Inl RuntimeMismatch else Inr e
           | (Some e, None) \<Rightarrow> Inr e
           | (None, Some v) \<Rightarrow> Inr v
           | (None, None) \<Rightarrow> Inl NotConfigured))"

section \<open>Observations and candidates\<close>

datatype observation_outcome =
    O_OBSERVED | O_RESOLVED | O_IMPROVED | O_VERIFIED | O_REJECTED | O_ERROR | O_HARD_CONFLICT

record evolution_observation =
  observation_id :: string
  source_event_seq :: int
  obs_harness_version_id :: string
  obs_harness_channel :: harness_channel
  obs_harness_manifest_digest :: string
  obs_profile_reference :: string
  obs_profile_digest :: string
  scope_fingerprint :: string
  project_fingerprint :: string
  obs_event_type :: string
  obs_failure_signature :: "string option"
  obs_step :: string
  obs_check_name :: "string option"
  obs_category :: "string option"
  obs_recoverability :: "string option"
  obs_strategy :: "string option"
  obs_required_capability :: "string option"
  obs_outcome :: observation_outcome
  obs_revision :: int
  evidence_digest :: string
  observed_at :: int

datatype candidate_status =
    C_OBSERVED | C_ELIGIBLE | C_EVALUATING | C_AWAITING_APPROVAL | C_APPROVED | C_CANARY | C_PROMOTED
  | C_REJECTED | C_ROLLED_BACK | C_STALE

record evolution_candidate =
  candidate_id :: string
  base_harness_version_id :: string
  base_manifest_digest :: string
  cand_failure_signature :: string
  cand_step :: string
  cand_check_name :: "string option"
  cand_category :: "string option"
  cand_required_capability :: "string option"
  profile_references :: "string list"
  observation_ids :: "string list"
  occurrence_count :: int
  project_count :: int
  cand_status :: candidate_status

section \<open>Resolution\<close>

lemma identity_from_mapping_Inr:
  assumes "identity_from_mapping cs v source = Inr i"
  shows "digest_pattern (identity_digest i) \<and> bounded 1 120 (version_id i)"
  using assms
  by (auto simp: identity_from_mapping_def Let_def split: pyval.splits if_split_asm option.splits)

lemma explicit_identities:
  assumes "explicit_harness_identity cs values = Inr ex"
  obtains a b c where "direct_identity cs values = Inr a" "configured_identity cs values = Inr b"
    "flat_identity cs values = Inr c" "ex = None \<longleftrightarrow> a @ b @ c = []" "\<forall>j \<in> set (a @ b @ c). ex = Some j"
proof -
  from assms obtain a b c where abc: "direct_identity cs values = Inr a" "configured_identity cs values = Inr b"
      "flat_identity cs values = Inr c"
    and r: "(case a @ b @ c of [] \<Rightarrow> Inr None
       | j # rest \<Rightarrow> if \<exists>k \<in> set rest. k \<noteq> j then Inl ConflictingIdentities else Inr (Some j)) = Inr ex"
    by (auto simp: explicit_harness_identity_def bind_res_Inr_iff)
  have "(ex = None \<longleftrightarrow> a @ b @ c = []) \<and> (\<forall>j \<in> set (a @ b @ c). ex = Some j)"
    using r by (cases "a @ b @ c") (auto simp del: append_is_Nil_conv set_append split: if_split_asm)
  then show ?thesis using that [OF abc] by blast
qed

text \<open>
  The identity a run is pinned to is never chosen among conflicting claims: when it
  resolves, every identity the run input states (directly, in its runtime configuration
  or in flat keys) and the identity of the runtime environment, if it has one, are that
  very identity, and with an explicit identity required the input states one.
\<close>

theorem resolved_identity_is_unanimous:
  assumes "resolve_harness_identity cs values env req = Inr i"
  shows "(\<exists>a b c. direct_identity cs values = Inr a \<and> configured_identity cs values = Inr b
            \<and> flat_identity cs values = Inr c \<and> (\<forall>j \<in> set (a @ b @ c). j = i)
            \<and> (req \<longrightarrow> a @ b @ c \<noteq> []))
    \<and> (\<exists>v. environment_harness_identity cs env = Inr v \<and> (v = None \<or> v = Some i))
    \<and> digest_pattern (identity_digest i)"
proof -
  from assms obtain ex where ex: "explicit_harness_identity cs values = Inr ex"
    by (auto simp: resolve_harness_identity_def bind_res_Inr_iff)
  with assms have req: "req \<longrightarrow> ex \<noteq> None"
    by (auto simp: resolve_harness_identity_def split: if_split_asm)
  with assms ex obtain en where en: "environment_harness_identity cs env = Inr en"
    by (auto simp: resolve_harness_identity_def bind_res_Inr_iff split: if_split_asm)
  with assms ex req have pick: "ex = Some i \<and> (en = None \<or> en = Some i) \<or> ex = None \<and> en = Some i"
    by (cases ex; cases en) (auto simp: resolve_harness_identity_def split: if_split_asm)
  have some: "digest_pattern (identity_digest j)" if "j \<in> set xs" "direct_identity cs values = Inr xs
      \<or> configured_identity cs values = Inr xs \<or> flat_identity cs values = Inr xs" for j xs
    using that identity_from_mapping_Inr
    by (auto simp: direct_identity_def configured_identity_def flat_identity_def Let_def bind_res_Inr_iff
        split: if_split_asm pyval.splits)
  from ex obtain a b c where abc: "direct_identity cs values = Inr a" "configured_identity cs values = Inr b"
      "flat_identity cs values = Inr c" and none: "ex = None \<longleftrightarrow> a @ b @ c = []"
      and all: "\<forall>j \<in> set (a @ b @ c). ex = Some j"
    by (rule explicit_identities)
  have "digest_pattern (identity_digest i)"
  proof (cases ex)
    case None
    with en pick show ?thesis
      by (auto simp: environment_harness_identity_def Let_def bind_res_Inr_iff split: if_split_asm
          dest: identity_from_mapping_Inr)
  next
    case (Some k)
    with none have "a @ b @ c \<noteq> []" by simp
    then obtain j where "j \<in> set (a @ b @ c)" by (meson last_in_set)
    with all Some pick abc some show ?thesis by auto
  qed
  then show ?thesis using abc none all pick en req by auto
qed

text \<open>A run input that states its identity twice, on a runtime that states the same one.\<close>

definition sample_identity :: pyval where
  "sample_identity =
     PDict [(''id'', PStr ''v7''), (''channel'', PStr ''canary''),
            (''manifestDigest'', PStr (replicate 64 (CHR ''a'')))]"

definition sample_environment :: "(string \<times> string) list" where
  "sample_environment =
     [(''RATSNEST_HARNESS_VERSION_ID'', ''v7''), (''RATSNEST_HARNESS_CHANNEL'', ''canary''),
      (''RATSNEST_HARNESS_MANIFEST_DIGEST'', replicate 64 (CHR ''a''))]"

lemma sample_resolution:
  "resolve_harness_identity (\<lambda>_. [])
     [(''harness_version'', sample_identity),
      (''runtimeConfig'', PDict [(''harnessVersion'', sample_identity)])] sample_environment True
   = Inr \<lparr>version_id = ''v7'', channel = CANARY, identity_digest = replicate 64 (CHR ''a'')\<rparr>"
  by code_simp

theorem resolved_identity_is_unanimous_witness:
  "\<exists>v. environment_harness_identity (\<lambda>_. []) sample_environment = Inr v
     \<and> v \<in> {None, Some \<lparr>version_id = ''v7'', channel = CANARY, identity_digest = replicate 64 (CHR ''a'')\<rparr>}"
  using resolved_identity_is_unanimous [OF sample_resolution] by blast

end
