(* ===== verification/Governance.thy ===== *)
theory Governance
  imports Harness
begin

text \<open>
  \<open>evolution/optimizer.py\<close>: the governance of patches proposed for the harness.  A plan
  and the files that realise it are checked against an allowlist, a denylist, the
  sealed evaluation paths, size limits and the pinned commit before any worktree exists.
  The patch-producing model is a parameter of \<open>propose_patch_proposal\<close>.  Paths are ASCII
  text, on which case folding is lower-casing.
\<close>

section \<open>Contracts\<close>

record invariant =
  inv_id :: string
  inv_description :: string
  mutable_by_evolution :: bool

record change_policy =
  allowed_low_risk_globs :: "string list"
  denied_globs :: "string list"
  max_changed_files :: int
  max_added_lines :: int
  allow_automatic_merge :: bool
  allow_automatic_production_promotion :: bool

record governance_policy =
  policy_id :: string
  policy_version :: string
  policy_invariants :: "invariant list"
  policy_changes :: change_policy

datatype plan_operation = PlanCreate | PlanModify

record patch_change =
  ch_operation :: plan_operation
  ch_path :: string
  ch_rationale :: string
  estimated_added_lines :: int

record patch_plan =
  plan_candidate_id :: string
  plan_base_commit :: string
  plan_summary :: string
  changes :: "patch_change list"
  preserved_invariants :: "string list"
  public_eval_case_ids :: "string list"

datatype file_operation = FileCreate | FileReplace

record candidate_file_patch =
  fp_operation :: file_operation
  fp_path :: string
  expected_old_sha256 :: "string option"
  content_sha256 :: string
  fp_content :: string

record patch_bundle =
  bundle_candidate_id :: string
  bundle_base_commit :: string
  files :: "candidate_file_patch list"

record patch_proposal =
  prop_plan :: patch_plan
  prop_bundle :: patch_bundle

datatype gov_exn =
    NotRelative string | UnsafeSegment string
  | RepeatedPath | NotNormalized | NulContent | FileTooLarge | WrongDigest | CreateWithOld | ReplaceWithoutOld
  | BundleRepeatsPath | BundleTooLarge | FieldBounds
  | ProposalCandidateMismatch | ProposalCommitMismatch | BundleNotPlan
  | CandidateMismatch | NotPinned | WrongBaseCommit | TooManyFiles | TooManyLines
  | MissingInvariants "string list" | SealedPath string | DeniedPath string | OutsideAllowlist string
  | AutomaticMerge | AutomaticPromotion | ContextTooLarge | ModelFailed

section \<open>Paths\<close>

definition windows_reserved_names :: "string list" where
  "windows_reserved_names =
     [''aux'', ''con'', ''nul'', ''prn'']
     @ map (\<lambda>i. ''com'' @ nat_str i) [1..<10] @ map (\<lambda>i. ''lpt'' @ nat_str i) [1..<10]"

definition unsafe_segment :: "string \<Rightarrow> bool" where
  "unsafe_segment part =
     (part \<in> {[], ''.'', ''..''} \<or> endswith part ''.'' \<or> endswith part '' ''
      \<or> lower (hd (split_on (CHR ''.'') part)) \<in> set windows_reserved_names)"

text \<open>A drive prefix such as \<open>C:\<close> is caught by the test for a colon, which the source makes as well.\<close>

definition normalized_relative_path :: "string \<Rightarrow> gov_exn + string" where
  "normalized_relative_path value =
     (let candidate = strip (replace_char (CHR 0x5C) (CHR ''/'') value);
          parts = path_components candidate
      in if candidate = [] \<or> startswith candidate ''/'' \<or> CHR '':'' \<in> set candidate
            \<or> CHR 0x00 \<in> set candidate
         then Inl (NotRelative value)
         else if \<exists>part \<in> set parts. unsafe_segment part then Inl (UnsafeSegment value)
         else Inr (join ''/'' parts))"

text \<open>The loop collapses the leftmost \<open>/**/\<close> until none is left or a collapsed pattern matches.\<close>

function collapsed_match :: "string \<Rightarrow> string \<Rightarrow> bool" where
  "collapsed_match path normalized =
     (if contains normalized ''/**/''
      then (let normalized' = replace_first ''/**/'' ''/'' normalized
            in fnmatchcase path normalized' \<or> collapsed_match path normalized')
      else False)"
  by pat_completeness auto
termination
proof (relation "measure (\<lambda>(_, s). length s)")
  fix path normalized :: string and x
  assume "contains normalized ''/**/''" "x = replace_first ''/**/'' ''/'' normalized"
  then show "((path, x), path, normalized) \<in> measure (\<lambda>(_, s). length s)"
    using length_replace_first [of normalized "''/**/''" "''/''"] by simp
qed simp

declare collapsed_match.simps [simp del]

definition matches :: "string \<Rightarrow> string \<Rightarrow> bool" where
  "matches path pattern =
     (let normalized = replace_char (CHR 0x5C) (CHR ''/'') pattern
      in fnmatchcase path normalized \<or> collapsed_match path normalized)"

definition sealed_patch_paths :: "string list" where
  "sealed_patch_paths =
     [''tests/evolution/conftest.py'', ''tests/evolution/test_evolution_core.py'',
      ''tests/evolution/test_sandbox.py'']"

definition is_sealed_path :: "string \<Rightarrow> bool" where
  "is_sealed_path path =
     (let normalized = lower path
      in normalized = ''evals/sealed'' \<or> startswith normalized ''evals/sealed/''
         \<or> normalized \<in> set sealed_patch_paths)"

text \<open>The check of one path, written out three times in the source.\<close>

definition govern_path :: "change_policy \<Rightarrow> string \<Rightarrow> gov_exn + string" where
  "govern_path pol raw =
     bind_res (normalized_relative_path raw) (\<lambda>path.
       if is_sealed_path path then Inl (SealedPath path)
       else if \<exists>pat \<in> set (denied_globs pol). matches path pat then Inl (DeniedPath path)
       else if \<not> (\<exists>pat \<in> set (allowed_low_risk_globs pol). matches path pat)
       then Inl (OutsideAllowlist path)
       else Inr path)"

section \<open>Contract validators\<close>

definition change_fields :: "patch_change \<Rightarrow> bool" where
  "change_fields c =
     (bounded 1 500 (ch_path c) \<and> bounded 1 2000 (ch_rationale c)
      \<and> 0 \<le> estimated_added_lines c \<and> estimated_added_lines c \<le> 10000)"

definition plan_validate :: "patch_plan \<Rightarrow> gov_exn + patch_plan" where
  "plan_validate p =
     (if \<not> (bounded 1 128 (plan_candidate_id p) \<and> hex_between 40 64 (plan_base_commit p)
            \<and> bounded 1 4000 (plan_summary p) \<and> bounded 1 100 (changes p)
            \<and> list_all change_fields (changes p) \<and> bounded 1 128 (preserved_invariants p)
            \<and> bounded 0 256 (public_eval_case_ids p))
      then Inl FieldBounds
      else if \<not> distinct (map ch_path (changes p)) then Inl RepeatedPath
      else Inr p)"

definition validate_file_contract :: "candidate_file_patch \<Rightarrow> gov_exn + candidate_file_patch" where
  "validate_file_contract f =
     (if \<not> (bounded 1 500 (fp_path f) \<and> pred_option (hex_between 64 64) (expected_old_sha256 f)
            \<and> hex_between 64 64 (content_sha256 f) \<and> bounded 0 (64 * 1024) (fp_content f))
      then Inl FieldBounds
      else bind_res (normalized_relative_path (fp_path f)) (\<lambda>normalized.
        if normalized \<noteq> fp_path f then Inl NotNormalized
        else if CHR 0x00 \<in> set (fp_content f) then Inl NulContent
        else if length (utf8_bytes (fp_content f)) > 64 * 1024 then Inl FileTooLarge
        else if sha256 (utf8_bytes (fp_content f)) \<noteq> content_sha256 f then Inl WrongDigest
        else if fp_operation f = FileCreate \<and> expected_old_sha256 f \<noteq> None then Inl CreateWithOld
        else if fp_operation f = FileReplace \<and> expected_old_sha256 f = None then Inl ReplaceWithoutOld
        else Inr f))"

definition validate_bundle :: "patch_bundle \<Rightarrow> gov_exn + patch_bundle" where
  "validate_bundle b =
     (if \<not> (bounded 1 128 (bundle_candidate_id b) \<and> hex_between 40 64 (bundle_base_commit b)
            \<and> bounded 1 8 (files b))
      then Inl FieldBounds
      else bind_res (map_res validate_file_contract (files b)) (\<lambda>_.
        if \<not> distinct (map (\<lambda>f. lower (fp_path f)) (files b)) then Inl BundleRepeatsPath
        else if sum_list (map (\<lambda>f. length (utf8_bytes (fp_content f))) (files b)) > 256 * 1024
        then Inl BundleTooLarge
        else Inr b))"

fun file_op_of :: "plan_operation \<Rightarrow> file_operation" where
  "file_op_of PlanModify = FileReplace"
| "file_op_of PlanCreate = FileCreate"

definition matching_plan_and_bundle :: "patch_plan \<Rightarrow> patch_bundle \<Rightarrow> gov_exn + patch_proposal" where
  "matching_plan_and_bundle p b =
     (if plan_candidate_id p \<noteq> bundle_candidate_id b then Inl ProposalCandidateMismatch
      else if plan_base_commit p \<noteq> bundle_base_commit b then Inl ProposalCommitMismatch
      else if set (map (\<lambda>c. (ch_path c, file_op_of (ch_operation c))) (changes p))
              \<noteq> set (map (\<lambda>f. (fp_path f, fp_operation f)) (files b))
      then Inl BundleNotPlan
      else Inr \<lparr>prop_plan = p, prop_bundle = b\<rparr>)"

definition proposal_validate :: "patch_proposal \<Rightarrow> gov_exn + patch_proposal" where
  "proposal_validate x =
     bind_res (plan_validate (prop_plan x)) (\<lambda>p.
       bind_res (validate_bundle (prop_bundle x)) (\<lambda>b. matching_plan_and_bundle p b))"

section \<open>Governance\<close>

definition validate_patch_plan ::
    "patch_plan \<Rightarrow> evolution_candidate \<Rightarrow> harness_manifest \<Rightarrow> governance_policy \<Rightarrow> gov_exn + patch_plan" where
  "validate_patch_plan p candidate manifest policy =
     (let pol = policy_changes policy;
          immutable_ids = map inv_id (filter (\<lambda>i. \<not> mutable_by_evolution i) (policy_invariants policy));
          missing = sorted_set (filter (\<lambda>i. i \<notin> set (preserved_invariants p)) immutable_ids)
      in if plan_candidate_id p \<noteq> candidate_id candidate then Inl CandidateMismatch
         else if base_manifest_digest candidate \<noteq> manifest_digest manifest then Inl NotPinned
         else if plan_base_commit p \<noteq> source_commit manifest then Inl WrongBaseCommit
         else if int (length (changes p)) > max_changed_files pol then Inl TooManyFiles
         else if sum_list (map estimated_added_lines (changes p)) > max_added_lines pol then Inl TooManyLines
         else if missing \<noteq> [] then Inl (MissingInvariants missing)
         else bind_res (map_res (\<lambda>c. govern_path pol (ch_path c)) (changes p)) (\<lambda>_.
           if allow_automatic_merge pol then Inl AutomaticMerge
           else if allow_automatic_production_promotion pol then Inl AutomaticPromotion
           else Inr p))"

definition validate_patch_bundle ::
    "patch_bundle \<Rightarrow> patch_plan \<Rightarrow> governance_policy \<Rightarrow> gov_exn + patch_bundle" where
  "validate_patch_bundle b p policy =
     bind_res (matching_plan_and_bundle p b) (\<lambda>_.
       if int (length (files b)) > max_changed_files (policy_changes policy) then Inl TooManyFiles
       else bind_res (map_res (\<lambda>f. govern_path (policy_changes policy) (fp_path f)) (files b)) (\<lambda>_. Inr b))"

record optimizer_request =
  req_candidate :: evolution_candidate
  req_manifest :: harness_manifest
  repository_context :: "(string \<times> string) list"

definition bounded_context :: "optimizer_request \<Rightarrow> gov_exn + optimizer_request" where
  "bounded_context r =
     (if length (repository_context r) > 32 then Inl FieldBounds
      else if sum_list (map (\<lambda>(k, v). length k + length v) (repository_context r)) > 80000
      then Inl ContextTooLarge
      else Inr r)"

text \<open>The repository context that enters the prompt: checked paths with content and digest.\<close>

fun safe_context ::
    "change_policy \<Rightarrow> (string \<times> string) list \<Rightarrow> (string \<times> string) list \<Rightarrow> gov_exn + (string \<times> string) list" where
  "safe_context pol [] acc = Inr acc"
| "safe_context pol ((raw, content) # rest) acc =
     bind_res (govern_path pol raw) (\<lambda>path. safe_context pol rest (AList.update path content acc))"

definition optimizer_prompt ::
    "optimizer_request \<Rightarrow> governance_policy \<Rightarrow> gov_exn + (string \<times> string \<times> string) list" where
  "optimizer_prompt r policy =
     bind_res (safe_context (policy_changes policy) (repository_context r) []) (\<lambda>ctx.
       Inr (map (\<lambda>(path, content). (path, content, sha256 (utf8_bytes content))) ctx))"

definition propose_patch_proposal ::
    "((string \<times> string \<times> string) list \<Rightarrow> patch_proposal option) \<Rightarrow> optimizer_request \<Rightarrow> governance_policy
       \<Rightarrow> gov_exn + patch_proposal" where
  "propose_patch_proposal ainvoke r policy =
     bind_res (optimizer_prompt r policy) (\<lambda>prompt.
       case ainvoke prompt of
         None \<Rightarrow> Inl ModelFailed
       | Some reply \<Rightarrow>
           bind_res (proposal_validate reply) (\<lambda>proposal.
             bind_res (validate_patch_plan (prop_plan proposal) (req_candidate r) (req_manifest r) policy) (\<lambda>_.
               bind_res (validate_patch_bundle (prop_bundle proposal) (prop_plan proposal) policy) (\<lambda>_.
                 Inr proposal))))"

section \<open>The policy in force\<close>

text \<open>\<open>config/harness/invariants.v1.json\<close>; the descriptions, which no check reads, are left empty.\<close>

definition immutable_invariant :: "string \<Rightarrow> invariant" where
  "immutable_invariant i = \<lparr>inv_id = i, inv_description = [], mutable_by_evolution = False\<rparr>"

definition shipped_policy :: governance_policy where
  "shipped_policy =
     \<lparr>policy_id = ''ratsnest-harness-governance'', policy_version = ''1.0.0'',
      policy_invariants = map immutable_invariant
        [''tenant-isolation'', ''release-truth'', ''no-fabricated-eda-evidence'',
         ''user-constraint-preservation'', ''immutable-run-version'', ''sealed-evaluation'',
         ''human-governed-release''],
      policy_changes =
        \<lparr>allowed_low_risk_globs =
           [''src/agents/ratsnestpro/intent_router.py'', ''src/agents/ratsnestpro/decision_engine.py'',
            ''src/agents/ratsnestpro/retry_policy.py'', ''src/agents/ratsnestpro/remediation_search.py'',
            ''src/agents/ratsnestpro/profiles/*.json'', ''docs/**/*.md''],
         denied_globs =
           [''.github/workflows/**'', ''backend/src/main/resources/db/migration/**'',
            ''backend/src/main/java/**/identity/**'', ''backend/src/main/java/**/security/**'',
            ''contracts/evolution/**/sealed/**'', ''evals/sealed/**'', ''tests/evolution/**'',
            ''deploy/**'', ''privatecredentials/**'', ''**/.env'', ''**/*secret*'', ''**/*credential*''],
         max_changed_files = 8, max_added_lines = 500, allow_automatic_merge = False,
         allow_automatic_production_promotion = False\<rparr>\<rparr>"

end
