(* ===== verification/Sandbox.thy ===== *)
theory Sandbox
  imports Governance
begin

text \<open>
  \<open>evolution/sandbox.py\<close> and \<open>build_worktree_plan\<close>: a candidate is materialised in a
  detached worktree outside the repository, a fixed list of registered commands runs
  there, and the worktree is removed whatever happened.

  A worktree is a map from paths below its root, as lists of components, to nodes.  The
  processes that run and the removal of directories belong to the operating system and
  are given by their results.  The temporary file a write goes through is renamed onto
  its destination, so a write is one update.
\<close>

section \<open>Worktrees\<close>

datatype node = DirNode | TextNode string | BinaryNode string | LinkNode

type_synonym worktree = "string list \<Rightarrow> node option"

datatype sandbox_exn =
    GovernanceError gov_exn | BadEvalIds | UnknownEvalId string | ManifestDigestInvalid
  | OtherDrive | SandboxInRepository | SandboxCrossesLink | WorktreeOtherDrive | WorktreeInRepository
  | BadCommit | WorktreeEscaped
  | CrossesLink string | TargetExists string | NotRegularFile string | StaleDigest string | NotUtf8 | TooManyAddedLines
  | BadCommand | OsError | WorktreeFailed

text \<open>\<open>ValueError\<close> and its subclasses, which the evaluation reports as a policy rejection.\<close>

fun is_value_error :: "sandbox_exn \<Rightarrow> bool" where
  "is_value_error OsError = False"
| "is_value_error WorktreeFailed = False"
| "is_value_error _ = True"

definition lift_gov :: "gov_exn + 'a \<Rightarrow> sandbox_exn + 'a" where
  "lift_gov m = (case m of Inl e \<Rightarrow> Inl (GovernanceError e) | Inr x \<Rightarrow> Inr x)"

section \<open>Added lines\<close>

text \<open>
  \<open>difflib.SequenceMatcher\<close> without junk: the longest common block, the earliest in the
  old text and then in the new one, and recursively the blocks before and after it.
\<close>

fun common_prefix :: "'a list \<Rightarrow> 'a list \<Rightarrow> nat" where
  "common_prefix (x # xs) (y # ys) = (if x = y then Suc (common_prefix xs ys) else 0)"
| "common_prefix _ _ = 0"

definition better_match :: "'a list \<Rightarrow> 'a list \<Rightarrow> nat \<times> nat \<Rightarrow> nat \<times> nat \<times> nat \<Rightarrow> nat \<times> nat \<times> nat" where
  "better_match a b p best =
     (let k = common_prefix (drop (fst p) a) (drop (snd p) b)
      in if k > snd (snd best) then (fst p, snd p, k) else best)"

definition longest_match :: "'a list \<Rightarrow> 'a list \<Rightarrow> nat \<times> nat \<times> nat" where
  "longest_match a b = fold (better_match a b) (List.product [0..<length a] [0..<length b]) (0, 0, 0)"

lemma common_prefix_le: "common_prefix a b \<le> length a" "common_prefix a b \<le> length b"
  by (induction a b rule: common_prefix.induct) auto

lemma longest_match_bounds:
  assumes "longest_match a b = (i, j, k)"
  shows "i + k \<le> length a" and "j + k \<le> length b"
proof -
  let ?ok = "\<lambda>t :: nat \<times> nat \<times> nat. fst t + snd (snd t) \<le> length a \<and> fst (snd t) + snd (snd t) \<le> length b"
  have step: "?ok (better_match a b p best)" if "fst p < length a \<and> snd p < length b" "?ok best" for p best
    using that common_prefix_le [of "drop (fst p) a" "drop (snd p) b"] by (auto simp: better_match_def Let_def)
  have "?ok (longest_match a b)"
    unfolding longest_match_def
    by (rule fold_invariant [where Q = "\<lambda>p. fst p < length a \<and> snd p < length b"]) (use step in auto)
  then show "i + k \<le> length a" "j + k \<le> length b" by (simp_all add: assms)
qed

function matched_lines :: "'a list \<Rightarrow> 'a list \<Rightarrow> nat" where
  "matched_lines a b =
     (case longest_match a b of
        (i, j, k) \<Rightarrow>
          if k = 0 then 0
          else matched_lines (take i a) (take j b) + k + matched_lines (drop (i + k) a) (drop (j + k) b))"
  by pat_completeness auto
termination
  by (relation "measure (\<lambda>(a, b). length a)") (auto dest: sym [THEN longest_match_bounds(1)])

declare matched_lines.simps [simp del]

text \<open>The lines of the new text outside the matching blocks are those inserted or replaced.\<close>

definition count_added_lines :: "string \<Rightarrow> string \<Rightarrow> int" where
  "count_added_lines old new =
     int (length (splitlines new)) - int (matched_lines (splitlines old) (splitlines new))"

section \<open>Materialising the files\<close>

definition crosses_link :: "worktree \<Rightarrow> string list \<Rightarrow> bool" where
  "crosses_link w dest = (\<exists>n \<in> set [1..<Suc (length dest)]. w (take n dest) = Some LinkNode)"

definition assert_safe_destination :: "worktree \<Rightarrow> string \<Rightarrow> string list \<Rightarrow> sandbox_exn + unit" where
  "assert_safe_destination w path dest = (if crosses_link w dest then Inl (CrossesLink path) else Inr ())"

definition check_target :: "worktree \<Rightarrow> candidate_file_patch \<Rightarrow> sandbox_exn + string" where
  "check_target w f =
     (let node = w (path_components (fp_path f))
      in case fp_operation f of
           FileCreate \<Rightarrow> if node \<noteq> None then Inl (TargetExists (fp_path f)) else Inr []
         | FileReplace \<Rightarrow>
             (case node of
                Some (TextNode t) \<Rightarrow>
                  if Some (sha256 (utf8_bytes t)) \<noteq> expected_old_sha256 f then Inl (StaleDigest (fp_path f))
                  else Inr t
              | Some (BinaryNode bytes) \<Rightarrow>
                  if Some (sha256 bytes) \<noteq> expected_old_sha256 f then Inl (StaleDigest (fp_path f))
                  else Inl NotUtf8
              | _ \<Rightarrow> Inl (NotRegularFile (fp_path f))))"

fun prepare_files ::
    "worktree \<Rightarrow> int \<Rightarrow> int \<Rightarrow> candidate_file_patch list \<Rightarrow> sandbox_exn + (string list \<times> string) list" where
  "prepare_files w limit added [] = Inr []"
| "prepare_files w limit added (f # fs) =
     (let dest = path_components (fp_path f)
      in bind_res (assert_safe_destination w (fp_path f) dest) (\<lambda>_.
         bind_res (check_target w f) (\<lambda>old.
           let added' = added + count_added_lines old (fp_content f)
           in if added' > limit then Inl TooManyAddedLines
              else bind_res (prepare_files w limit added' fs) (\<lambda>rest. Inr ((dest, fp_content f) # rest)))))"

text \<open>\<open>mkdir(parents=True, exist_ok=True)\<close> on the parent, link check, and the write.\<close>

definition make_parents :: "worktree \<Rightarrow> string list \<Rightarrow> sandbox_exn + worktree" where
  "make_parents w dest =
     (let parents = map (\<lambda>n. take n dest) [1..<length dest]
      in if \<exists>p \<in> set parents. w p \<notin> {None, Some DirNode} then Inl OsError
         else Inr (\<lambda>q. if q \<in> set parents then Some DirNode else w q))"

definition write_file :: "worktree \<Rightarrow> string list \<times> string \<Rightarrow> sandbox_exn + worktree" where
  "write_file w dc =
     bind_res (make_parents w (fst dc)) (\<lambda>w1.
       if crosses_link w1 (fst dc) then Inl (CrossesLink (join ''/'' (fst dc)))
       else if w1 (fst dc) = Some DirNode then Inl OsError
       else Inr (w1(fst dc \<mapsto> TextNode (snd dc))))"

fun write_files :: "worktree \<Rightarrow> (string list \<times> string) list \<Rightarrow> (sandbox_exn + unit) \<times> worktree" where
  "write_files w [] = (Inr (), w)"
| "write_files w (d # ds) =
     (case write_file w d of Inl e \<Rightarrow> (Inl e, w) | Inr w' \<Rightarrow> write_files w' ds)"

definition materialize_files ::
    "worktree \<Rightarrow> patch_bundle \<Rightarrow> int \<Rightarrow> (sandbox_exn + string list) \<times> worktree" where
  "materialize_files w b limit =
     (case prepare_files w limit 0 (files b) of
        Inl e \<Rightarrow> (Inl e, w)
      | Inr prepared \<Rightarrow>
          (case write_files w prepared of
             (Inl e, w') \<Rightarrow> (Inl e, w')
           | (Inr _, w') \<Rightarrow> (Inr (map fp_path (files b)), w')))"

definition validate_and_materialize_candidate ::
    "evolution_candidate \<Rightarrow> harness_manifest \<Rightarrow> patch_plan \<Rightarrow> patch_bundle \<Rightarrow> governance_policy \<Rightarrow> worktree
       \<Rightarrow> int option \<Rightarrow> (sandbox_exn + string list) \<times> worktree" where
  "validate_and_materialize_candidate candidate manifest p b policy w limit =
     (if calculated_manifest_digest manifest \<noteq> manifest_digest manifest then (Inl ManifestDigestInvalid, w)
      else
        (case lift_gov (validate_patch_plan p candidate manifest policy) of
           Inl e \<Rightarrow> (Inl e, w)
         | Inr _ \<Rightarrow>
             (case lift_gov (validate_patch_bundle b p policy) of
                Inl e \<Rightarrow> (Inl e, w)
              | Inr _ \<Rightarrow>
                  materialize_files w b
                    (case limit of None \<Rightarrow> max_added_lines (policy_changes policy) | Some n \<Rightarrow> n))))"

section \<open>Where the worktree goes\<close>

text \<open>A resolved absolute path: its drive and its components below the root.\<close>

record abs_path =
  drive :: string
  parts :: "string list"

definition proper_ancestor :: "abs_path \<Rightarrow> abs_path \<Rightarrow> bool" where
  "proper_ancestor p q =
     (drive p = drive q \<and> length (parts p) < length (parts q) \<and> take (length (parts p)) (parts q) = parts p)"

definition overlaps :: "abs_path \<Rightarrow> abs_path \<Rightarrow> bool" where
  "overlaps p q = (p = q \<or> proper_ancestor p q \<or> proper_ancestor q p)"

text \<open>\<open>linked p\<close> tells whether the path below the root of its drive is a link.\<close>

definition validated_sandbox_root ::
    "(string list \<Rightarrow> bool) \<Rightarrow> abs_path \<Rightarrow> string list \<Rightarrow> abs_path \<Rightarrow> sandbox_exn + abs_path" where
  "validated_sandbox_root linked repository raw_parts sandbox =
     (if lower (drive repository) \<noteq> lower (drive sandbox) then Inl OtherDrive
      else if overlaps sandbox repository then Inl SandboxInRepository
      else if \<exists>n \<in> set [1..<Suc (length raw_parts)]. linked (take n raw_parts) then Inl SandboxCrossesLink
      else Inr sandbox)"

definition readable_id :: "string \<Rightarrow> string" where
  "readable_id i =
     strip_by (\<lambda>c. c = CHR ''-'')
       (take 12 (map (\<lambda>c. if upper_alpha c \<or> lower_alpha c \<or> is_digit c \<or> c = CHR ''-'' then c else CHR ''-'') i))"

definition worktree_suffix :: "string \<Rightarrow> string" where
  "worktree_suffix i = readable_id i @ ''-'' @ take 8 (sha256 (utf8_bytes i))"

definition build_worktree_plan :: "patch_plan \<Rightarrow> abs_path \<Rightarrow> abs_path \<Rightarrow> sandbox_exn + abs_path" where
  "build_worktree_plan p repository sandbox_root =
     (let directory = sandbox_root\<lparr>parts := parts sandbox_root @ [worktree_suffix (plan_candidate_id p)]\<rparr>
      in if lower (drive repository) \<noteq> lower (drive sandbox_root) then Inl WorktreeOtherDrive
         else if overlaps sandbox_root repository then Inl WorktreeInRepository
         else if \<not> hex_between 40 64 (plan_base_commit p) then Inl BadCommit
         else if \<not> proper_ancestor sandbox_root directory then Inl WorktreeEscaped
         else Inr directory)"

section \<open>Commands\<close>

record eval_command =
  cmd_eval_id :: string
  cmd_argv :: "string list"
  cmd_timeout :: int

record eval_command_result =
  er_eval_id :: string
  er_argv :: "string list"
  er_exit_code :: "int option"
  er_timed_out :: bool
  er_output_limit_exceeded :: bool
  er_output :: string
  er_passed :: bool

text \<open>
  What a process did: the samples the watching loop takes until it ends (has it exited, is
  the deadline past, how long is the log), its exit code unless waiting for it failed, and
  its log.
\<close>

record process_run =
  pr_samples :: "(bool \<times> bool \<times> nat) list"
  pr_exit_code :: "int option"
  pr_log :: string

text \<open>The watching loop: whether the process was killed at the deadline or for its output.\<close>

fun watch_process :: "nat \<Rightarrow> (bool \<times> bool \<times> nat) list \<Rightarrow> bool \<times> bool" where
  "watch_process max_bytes [] = (False, False)"
| "watch_process max_bytes ((exited, late, logged) # rest) =
     (if exited then (False, False)
      else if late then (True, False)
      else if logged > max_bytes then (False, True)
      else watch_process max_bytes rest)"

definition run_argv ::
    "(string list \<Rightarrow> int \<Rightarrow> process_run option) \<Rightarrow> string \<Rightarrow> string list \<Rightarrow> int \<Rightarrow> nat \<Rightarrow> sandbox_exn + eval_command_result" where
  "run_argv proc eval_id argv timeout max_bytes =
     (if argv = [] \<or> timeout \<le> 0 then Inl BadCommand
      else
        (case proc argv timeout of
           None \<Rightarrow> Inl OsError
         | Some r \<Rightarrow>
             (case pr_exit_code r of
                None \<Rightarrow> Inl OsError
              | Some code \<Rightarrow>
                  (let (timed_out, killed) = watch_process max_bytes (pr_samples r);
                       exceeded = (killed \<or> length (pr_log r) > max_bytes)
                   in Inr \<lparr>er_eval_id = eval_id, er_argv = argv, er_exit_code = Some code,
                           er_timed_out = timed_out, er_output_limit_exceeded = exceeded,
                           er_output = take max_bytes (pr_log r),
                           er_passed = (code = 0 \<and> \<not> timed_out \<and> \<not> exceeded)\<rparr>))))"

definition select_eval_commands ::
    "string list \<Rightarrow> (string \<times> eval_command) list \<Rightarrow> sandbox_exn + eval_command list" where
  "select_eval_commands ids registry =
     (if ids = [] \<or> length ids > 8 \<or> \<not> distinct ids then Inl BadEvalIds
      else map_res (\<lambda>i. case map_of registry i of None \<Rightarrow> Inl (UnknownEvalId i) | Some c \<Rightarrow> Inr c) ids)"

fun run_commands ::
    "(string list \<Rightarrow> int \<Rightarrow> process_run option) \<Rightarrow> eval_command list \<Rightarrow> eval_command_result list
       \<Rightarrow> (sandbox_exn + unit) \<times> eval_command_result list" where
  "run_commands proc [] acc = (Inr (), acc)"
| "run_commands proc (c # cs) acc =
     (case run_argv proc (cmd_eval_id c) (cmd_argv c) (cmd_timeout c) (32 * 1024) of
        Inl e \<Rightarrow> (Inl e, acc)
      | Inr r \<Rightarrow> if er_passed r then run_commands proc cs (acc @ [r]) else (Inr (), acc @ [r]))"

section \<open>Evaluation\<close>

datatype verdict = V_PASSED | V_FAILED | V_POLICY_REJECTED | V_ERROR

record candidate_eval_report =
  rep_candidate_id :: string
  rep_base_commit :: string
  rep_patch_digest :: string
  rep_verdict :: verdict
  rep_worktree_created :: bool
  rep_materialized :: "string list"
  rep_results :: "eval_command_result list"
  rep_error :: "sandbox_exn option"
  rep_cleanup_failed :: bool
  rep_cleanup_succeeded :: bool

text \<open>
  The surroundings of one evaluation: the registered commands, the resolved repository and
  sandbox paths, which paths are links, the checkout that \<open>git worktree add\<close> produces,
  how processes run, whether the trial directory can be made and removed, whether the
  worktree directory is left after a registered or unregistered worktree was given up,
  whether it can then be deleted, and whether it remains in the end.
\<close>

record sandbox_env =
  eval_registry :: "(string \<times> eval_command) list"
  repository_path :: "abs_path option"
  raw_sandbox_parts :: "string list"
  sandbox_path :: abs_path
  is_link_path :: "string list \<Rightarrow> bool"
  trial_name :: string
  trial_made :: bool
  checkout :: worktree
  processes :: "string list \<Rightarrow> int \<Rightarrow> process_run option"
  directory_left :: "bool \<Rightarrow> bool"
  directory_removable :: bool
  directory_remains :: bool
  trial_removed :: bool

record trial_state =
  ts_created :: bool
  ts_materialized :: "string list"
  ts_results :: "eval_command_result list"
  ts_directory :: "abs_path option"
  ts_trial :: bool
  ts_worktree :: worktree

definition path_str :: "abs_path \<Rightarrow> string" where
  "path_str p = drive p @ ''/'' @ join ''/'' (parts p)"

definition create_command :: "abs_path \<Rightarrow> abs_path \<Rightarrow> string \<Rightarrow> string list" where
  "create_command repository directory commit =
     [''git'', ''-C'', path_str repository, ''-c'', ''core.autocrlf=false'', ''worktree'', ''add'',
      ''--detach'', path_str directory, commit]"

definition remove_command :: "abs_path \<Rightarrow> abs_path \<Rightarrow> string list" where
  "remove_command repository directory =
     [''git'', ''-C'', path_str repository, ''worktree'', ''remove'', ''--force'', path_str directory]"

definition cleanup_worktree :: "sandbox_env \<Rightarrow> abs_path \<Rightarrow> abs_path \<Rightarrow> bool \<Rightarrow> bool" where
  "cleanup_worktree env repository directory registered =
     (if \<not> (directory = sandbox_path env \<or> proper_ancestor (sandbox_path env) directory) then False
      else
        (let removed = (registered \<longrightarrow>
               (case run_argv (processes env) ''git-worktree-remove'' (remove_command repository directory) 30
                       (16 * 1024) of
                  Inl e \<Rightarrow> False | Inr r \<Rightarrow> er_passed r));
             deleted = (directory_left env registered \<longrightarrow> directory_removable env)
         in removed \<and> deleted \<and> \<not> directory_remains env))"

text \<open>The checks that precede the trial directory.\<close>

definition admit_candidate ::
    "sandbox_env \<Rightarrow> evolution_candidate \<Rightarrow> harness_manifest \<Rightarrow> patch_plan \<Rightarrow> patch_bundle \<Rightarrow> governance_policy
       \<Rightarrow> string list \<Rightarrow> sandbox_exn + eval_command list \<times> abs_path \<times> abs_path" where
  "admit_candidate env candidate manifest p b policy ids =
     bind_res (select_eval_commands ids (eval_registry env)) (\<lambda>selected.
       if calculated_manifest_digest manifest \<noteq> manifest_digest manifest then Inl ManifestDigestInvalid
       else bind_res (lift_gov (validate_patch_plan p candidate manifest policy)) (\<lambda>_.
         bind_res (lift_gov (validate_patch_bundle b p policy)) (\<lambda>_.
           case repository_path env of
             None \<Rightarrow> Inl OsError
           | Some repository \<Rightarrow>
               bind_res (validated_sandbox_root (is_link_path env) repository (raw_sandbox_parts env) (sandbox_path env))
                 (\<lambda>sandbox. Inr (selected, repository, sandbox)))))"

text \<open>The body of the \<open>try\<close> block: the exception or the verdict, and what was done so far.\<close>

definition trial_body ::
    "sandbox_env \<Rightarrow> evolution_candidate \<Rightarrow> harness_manifest \<Rightarrow> patch_plan \<Rightarrow> patch_bundle \<Rightarrow> governance_policy
       \<Rightarrow> string list \<Rightarrow> (sandbox_exn + verdict) \<times> trial_state" where
  "trial_body env candidate manifest p b policy ids =
     (let s0 = \<lparr>ts_created = False, ts_materialized = [], ts_results = [], ts_directory = None, ts_trial = False,
                ts_worktree = checkout env\<rparr>
      in case admit_candidate env candidate manifest p b policy ids of
           Inl e \<Rightarrow> (Inl e, s0)
         | Inr (selected, repository, sandbox) \<Rightarrow>
             if \<not> trial_made env then (Inl OsError, s0)
             else
               (let trial = sandbox\<lparr>parts := parts sandbox @ [trial_name env]\<rparr>; s1 = s0\<lparr>ts_trial := True\<rparr>
                in case build_worktree_plan p repository trial of
                     Inl e \<Rightarrow> (Inl e, s1)
                   | Inr directory \<Rightarrow>
                       (let s2 = s1\<lparr>ts_directory := Some directory\<rparr>
                        in case run_argv (processes env) ''git-worktree-add''
                                  (create_command repository directory (plan_base_commit p)) 30 (16 * 1024) of
                             Inl e \<Rightarrow> (Inl e, s2)
                           | Inr r \<Rightarrow>
                               if \<not> er_passed r then (Inl WorktreeFailed, s2)
                               else
                                 (let s3 = s2\<lparr>ts_created := True\<rparr>
                                  in case validate_and_materialize_candidate candidate manifest p b policy
                                            (checkout env) (Some (max_added_lines (policy_changes policy))) of
                                       (Inl e, w) \<Rightarrow> (Inl e, s3\<lparr>ts_worktree := w\<rparr>)
                                     | (Inr paths, w) \<Rightarrow>
                                         (let s4 = s3\<lparr>ts_materialized := paths, ts_worktree := w\<rparr>
                                          in case run_commands (processes env) selected [] of
                                               (Inl e, rs) \<Rightarrow> (Inl e, s4\<lparr>ts_results := rs\<rparr>)
                                             | (Inr _, rs) \<Rightarrow>
                                                 (Inr (if length rs = length selected \<and> (\<forall>r \<in> set rs. er_passed r)
                                                       then V_PASSED else V_FAILED),
                                                  s4\<lparr>ts_results := rs\<rparr>))))))"

text \<open>\<open>model_dump_json(by_alias=True)\<close> of a bundle.\<close>

definition file_json :: "candidate_file_patch \<Rightarrow> string" where
  "file_json f =
     json_object
       [(''operation'', json_plain (case fp_operation f of FileCreate \<Rightarrow> ''create'' | FileReplace \<Rightarrow> ''replace'')),
        (''path'', json_plain (fp_path f)),
        (''expectedOldSha256'', json_plain_opt (expected_old_sha256 f)),
        (''contentSha256'', json_plain (content_sha256 f)),
        (''content'', json_plain (fp_content f)), (''encoding'', json_plain ''utf-8'')]"

definition bundle_json :: "patch_bundle \<Rightarrow> string" where
  "bundle_json b =
     json_object
       [(''schemaVersion'', json_plain ''1.0''), (''candidateId'', json_plain (bundle_candidate_id b)),
        (''baseCommit'', json_plain (bundle_base_commit b)),
        (''files'', ''['' @ join '','' (map file_json (files b)) @ '']'')]"

definition patch_digest :: "patch_bundle \<Rightarrow> string" where
  "patch_digest b = sha256 (utf8_bytes (bundle_json b))"

definition materialize_and_evaluate_candidate ::
    "sandbox_env \<Rightarrow> evolution_candidate \<Rightarrow> harness_manifest \<Rightarrow> patch_plan \<Rightarrow> patch_bundle
       \<Rightarrow> governance_policy \<Rightarrow> string list \<Rightarrow> candidate_eval_report" where
  "materialize_and_evaluate_candidate env candidate manifest p b policy ids =
     (let (res, s) = trial_body env candidate manifest p b policy ids;
          v = (case res of Inr v \<Rightarrow> v | Inl e \<Rightarrow> if is_value_error e then V_POLICY_REJECTED else V_ERROR);
          cleaned = (case (ts_directory s, repository_path env) of
                       (Some d, Some r) \<Rightarrow> cleanup_worktree env r d (ts_created s)
                     | _ \<Rightarrow> True);
          cleanup = (cleaned \<and> (ts_trial s \<longrightarrow> trial_removed env))
      in \<lparr>rep_candidate_id = candidate_id candidate, rep_base_commit = plan_base_commit p,
          rep_patch_digest = patch_digest b,
          rep_verdict = (if \<not> cleanup \<and> v = V_PASSED then V_ERROR else v),
          rep_worktree_created = ts_created s, rep_materialized = ts_materialized s,
          rep_results = ts_results s,
          rep_error = (case res of Inl e \<Rightarrow> Some e | Inr _ \<Rightarrow> None),
          rep_cleanup_failed = (\<not> cleanup \<and> v = V_PASSED), rep_cleanup_succeeded = cleanup\<rparr>)"

end
