(* ===== verification/Governance_Facts.thy ===== *)
theory Governance_Facts
  imports Governance
begin

text \<open>
  What the governance of patches guarantees: an accepted path is a plain relative path
  that stays inside the checkout, is neither sealed nor denied, and is on the
  allowlist; an accepted proposal is pinned, bounded and made of such paths; and how
  the double-star globs of the policy select paths.
\<close>

section \<open>Paths\<close>

text \<open>Lexical resolution of a path below a directory: \<open>..\<close> leaves the last component.\<close>

fun resolve_below :: "string list \<Rightarrow> string list \<Rightarrow> string list" where
  "resolve_below dir [] = dir"
| "resolve_below dir (c # cs) =
     (if c = ''..'' then resolve_below (butlast dir) cs else resolve_below (dir @ [c]) cs)"

lemma resolve_below_plain: "''..'' \<notin> set cs \<Longrightarrow> resolve_below dir cs = dir @ cs"
  by (induction cs arbitrary: dir) auto

lemma join_cons: "xs \<noteq> [] \<Longrightarrow> join sep (x # xs) = x @ sep @ join sep xs"
  by (cases xs) auto

lemma join_chars: "set (join sep xs) \<subseteq> set sep \<union> (\<Union>x \<in> set xs. set x)"
  by (induction sep xs rule: join.induct) auto

lemma split_on_chars: "w \<in> set (split_on d s) \<Longrightarrow> set w \<subseteq> set s"
proof (induction s arbitrary: w)
  case (Cons c cs)
  show ?case
  proof (cases "split_on d cs")
    case (Cons v vs)
    then have "set u \<subseteq> set cs" if "u \<in> set (v # vs)" for u using that Cons.IH by simp
    with Cons Cons.prems show ?thesis by (fastforce split: if_split_asm)
  qed simp
qed simp

lemma strip_chars: "set (strip_by p s) \<subseteq> set s"
proof -
  have "set (rstrip_by p t) \<subseteq> set t" for t
    unfolding rstrip_by_def by (metis set_dropWhileD set_rev subsetI)
  moreover have "set (lstrip_by p s) \<subseteq> set s"
    unfolding lstrip_by_def by (meson set_dropWhileD subsetI)
  ultimately show ?thesis unfolding strip_by_def by (meson subset_trans)
qed

lemma normalized_Inr:
  assumes "normalized_relative_path raw = Inr p"
  shows "p = join ''/'' (path_components p) \<and> ''..'' \<notin> set (path_components p)
    \<and> (\<forall>c \<in> set (path_components p). \<not> unsafe_segment c) \<and> CHR '':'' \<notin> set p \<and> CHR 0x5C \<notin> set p"
proof -
  define cand where "cand = strip (replace_char (CHR 0x5C) (CHR ''/'') raw)"
  define parts where "parts = path_components cand"
  from assms have safe: "\<forall>c \<in> set parts. \<not> unsafe_segment c" and p: "p = join ''/'' parts"
    and colon: "CHR '':'' \<notin> set cand"
    by (auto simp: normalized_relative_path_def Let_def cand_def parts_def split: if_split_asm)
  have comps: "path_components p = parts"
    unfolding p by (rule path_components_join) (auto simp: parts_def dest: path_components_parts)
  have "set p \<subseteq> {CHR ''/''} \<union> set cand"
    using join_chars [of "''/''" parts] split_on_chars [of _ "CHR ''/''" cand]
    by (fastforce simp: p parts_def path_components_def)
  moreover have "CHR 0x5C \<notin> set cand"
    using strip_chars [of py_space "replace_char (CHR 0x5C) (CHR ''/'') raw"]
    by (auto simp: cand_def replace_char_def)
  moreover have "''..'' \<notin> set parts" using safe by (auto simp: unsafe_segment_def)
  ultimately show ?thesis using comps safe p colon by auto
qed

text \<open>What the path policy promises of a path it lets through.\<close>

definition governed :: "change_policy \<Rightarrow> string \<Rightarrow> bool" where
  "governed pol p =
     ((\<forall>root. resolve_below root (path_components p) = root @ path_components p)
      \<and> p = join ''/'' (path_components p) \<and> CHR '':'' \<notin> set p \<and> CHR 0x5C \<notin> set p
      \<and> \<not> is_sealed_path p
      \<and> (\<forall>pat \<in> set (denied_globs pol). \<not> matches p pat)
      \<and> (\<exists>pat \<in> set (allowed_low_risk_globs pol). matches p pat))"

lemma govern_path_Inr:
  assumes "govern_path pol raw = Inr p"
  shows "normalized_relative_path raw = Inr p" and "governed pol p"
proof -
  from assms show n: "normalized_relative_path raw = Inr p"
    by (auto simp: govern_path_def bind_res_Inr_iff split: if_split_asm)
  from assms normalized_Inr [OF n] show "governed pol p"
    by (auto simp: govern_path_def governed_def bind_res_Inr_iff resolve_below_plain split: if_split_asm)
qed

section \<open>Proposals\<close>

lemma file_contract_Inr:
  assumes "validate_file_contract f = Inr g"
  shows "normalized_relative_path (fp_path f) = Inr (fp_path f) \<and> fp_path f \<noteq> []
    \<and> content_sha256 f = sha256 (utf8_bytes (fp_content f))
    \<and> (fp_operation f = FileReplace \<longleftrightarrow> expected_old_sha256 f \<noteq> None)"
  using assms
  by (cases "fp_operation f") (auto simp: validate_file_contract_def bounded_def bind_res_Inr_iff split: if_split_asm)

lemma validate_bundle_Inr:
  assumes "validate_bundle b = Inr b'"
  shows "b' = b" and "f \<in> set (files b) \<Longrightarrow> \<exists>g. validate_file_contract f = Inr g"
    and "distinct (map (\<lambda>f. lower (fp_path f)) (files b))"
    and "sum_list (map (\<lambda>f. length (utf8_bytes (fp_content f))) (files b)) \<le> 256 * 1024"
  using assms map_res_each [of validate_file_contract "files b"]
  by (auto simp: validate_bundle_def bind_res_Inr_iff split: if_split_asm)

lemma matching_Inr:
  assumes "matching_plan_and_bundle p b = Inr x"
  shows "x = \<lparr>prop_plan = p, prop_bundle = b\<rparr>" and "bundle_base_commit b = plan_base_commit p"
    and "set (map (\<lambda>c. (ch_path c, file_op_of (ch_operation c))) (changes p))
         = set (map (\<lambda>f. (fp_path f, fp_operation f)) (files b))"
  using assms by (auto simp: matching_plan_and_bundle_def split: if_split_asm)

lemma proposal_validate_Inr:
  assumes "proposal_validate x = Inr y"
  shows "y = x" and "validate_bundle (prop_bundle x) = Inr (prop_bundle x)"
    and "matching_plan_and_bundle (prop_plan x) (prop_bundle x) = Inr x"
proof -
  have p: "plan_validate q = Inr r \<Longrightarrow> r = q" for q r
    by (auto simp: plan_validate_def split: if_split_asm)
  from assms obtain b where b: "validate_bundle (prop_bundle x) = Inr b"
    and m: "matching_plan_and_bundle (prop_plan x) b = Inr y"
    by (auto simp: proposal_validate_def bind_res_Inr_iff dest: p)
  show "validate_bundle (prop_bundle x) = Inr (prop_bundle x)" using b validate_bundle_Inr(1) by blast
  show "y = x" using m b matching_Inr(1) validate_bundle_Inr(1) by fastforce
  with m b validate_bundle_Inr(1) show "matching_plan_and_bundle (prop_plan x) (prop_bundle x) = Inr x"
    by blast
qed

lemma validate_patch_plan_Inr:
  assumes "validate_patch_plan p c m policy = Inr q"
  shows "q = p" and "plan_candidate_id p = candidate_id c" and "base_manifest_digest c = manifest_digest m"
    and "plan_base_commit p = source_commit m"
    and "int (length (changes p)) \<le> max_changed_files (policy_changes policy)"
    and "sum_list (map estimated_added_lines (changes p)) \<le> max_added_lines (policy_changes policy)"
    and "i \<in> set (policy_invariants policy) \<Longrightarrow> \<not> mutable_by_evolution i \<Longrightarrow> inv_id i \<in> set (preserved_invariants p)"
    and "ch \<in> set (changes p) \<Longrightarrow> \<exists>path. govern_path (policy_changes policy) (ch_path ch) = Inr path"
    and "\<not> allow_automatic_merge (policy_changes policy)"
    and "\<not> allow_automatic_production_promotion (policy_changes policy)"
  using assms map_res_each [of "\<lambda>c. govern_path (policy_changes policy) (ch_path c)" "changes p"]
  by (auto simp: validate_patch_plan_def Let_def bind_res_Inr_iff filter_empty_conv split: if_split_asm)

lemma validate_patch_bundle_Inr:
  assumes "validate_patch_bundle b p policy = Inr q"
  shows "int (length (files b)) \<le> max_changed_files (policy_changes policy)"
    and "f \<in> set (files b) \<Longrightarrow> \<exists>path. govern_path (policy_changes policy) (fp_path f) = Inr path"
  using assms map_res_each [of "\<lambda>f. govern_path (policy_changes policy) (fp_path f)" "files b"]
  by (auto simp: validate_patch_bundle_def bind_res_Inr_iff split: if_split_asm)

lemma propose_Inr:
  assumes "propose_patch_proposal ainvoke r policy = Inr x"
  shows "proposal_validate x = Inr x"
    and "\<exists>q. validate_patch_plan (prop_plan x) (req_candidate r) (req_manifest r) policy = Inr q"
    and "\<exists>q. validate_patch_bundle (prop_bundle x) (prop_plan x) policy = Inr q"
  using assms proposal_validate_Inr(1)
  by (fastforce simp: propose_patch_proposal_def bind_res_Inr_iff split: option.splits)+

text \<open>
  C27: whatever the model replies, a proposal that comes back from the optimizer is
  pinned to the commit of the harness manifest, preserves every immutable invariant,
  touches at most the permitted number of files, and each of its files carries the
  digest of its content and a path that the policy governs: it stays inside the
  checkout, is not sealed, matches no denied glob and matches an allowed one.
\<close>

theorem proposal_is_governed:
  assumes "propose_patch_proposal ainvoke r policy = Inr x"
  shows "plan_base_commit (prop_plan x) = source_commit (req_manifest r)
    \<and> bundle_base_commit (prop_bundle x) = source_commit (req_manifest r)
    \<and> (\<forall>i \<in> set (policy_invariants policy).
         \<not> mutable_by_evolution i \<longrightarrow> inv_id i \<in> set (preserved_invariants (prop_plan x)))
    \<and> int (length (files (prop_bundle x))) \<le> max_changed_files (policy_changes policy)
    \<and> (\<forall>f \<in> set (files (prop_bundle x)).
         governed (policy_changes policy) (fp_path f) \<and> fp_path f \<noteq> []
         \<and> content_sha256 f = sha256 (utf8_bytes (fp_content f)))
    \<and> ch_path ` set (changes (prop_plan x)) = fp_path ` set (files (prop_bundle x))"
proof -
  note v = proposal_validate_Inr(2,3) [OF propose_Inr(1) [OF assms]]
  obtain q where plan_ok: "validate_patch_plan (prop_plan x) (req_candidate r) (req_manifest r) policy = Inr q"
    using propose_Inr(2) [OF assms] by blast
  obtain b where bundle_ok: "validate_patch_bundle (prop_bundle x) (prop_plan x) policy = Inr b"
    using propose_Inr(3) [OF assms] by blast
  have "governed (policy_changes policy) (fp_path f) \<and> fp_path f \<noteq> []
      \<and> content_sha256 f = sha256 (utf8_bytes (fp_content f))" if f: "f \<in> set (files (prop_bundle x))" for f
  proof -
    obtain g where "validate_file_contract f = Inr g" using validate_bundle_Inr(2) [OF v(1) f] by blast
    note c = file_contract_Inr [OF this]
    obtain path where g: "govern_path (policy_changes policy) (fp_path f) = Inr path"
      using validate_patch_bundle_Inr(2) [OF bundle_ok f] by blast
    from govern_path_Inr [OF g] c show ?thesis by simp
  qed
  moreover have "ch_path ` set (changes (prop_plan x)) = fp_path ` set (files (prop_bundle x))"
    using arg_cong [OF matching_Inr(3) [OF v(2)], of "image fst"] by (simp add: image_image)
  ultimately show ?thesis
    using validate_patch_plan_Inr(4,7) [OF plan_ok] matching_Inr(2) [OF v(2)]
      validate_patch_bundle_Inr(1) [OF bundle_ok] by simp
qed

section \<open>Globs\<close>

lemma startswith_append_literal:
  assumes "CHR ''*'' \<notin> set d" and "d \<noteq> []"
  shows "\<not> startswith (d @ CHR ''/'' # s) ''/**/''"
proof (cases d)
  case (Cons a as)
  with assms show ?thesis by (cases as) (auto simp: startswith_def)
qed (use assms in simp)

lemma replace_first_globstar:
  "CHR ''*'' \<notin> set d \<Longrightarrow> replace_first ''/**/'' ''/'' (d @ ''/**/'' @ q) = d @ ''/'' @ q"
proof (induction d)
  case Nil
  then show ?case by (simp add: startswith_def)
next
  case (Cons a d)
  from Cons.prems startswith_append_literal [of "a # d" "''**/'' @ q"]
  have "\<not> startswith (a # d @ ''/**/'' @ q) ''/**/''" by simp
  with Cons show ?case by simp
qed

lemma collapsed_match_once:
  assumes "CHR ''*'' \<notin> set d" and "\<not> contains (d @ ''/'' @ q) ''/**/''"
  shows "collapsed_match path (d @ ''/**/'' @ q) \<longleftrightarrow> fnmatchcase path (d @ ''/'' @ q)"
proof -
  have "contains (d @ ''/**/'' @ q) ''/**/''" by (auto simp: contains_iff)
  moreover have "\<not> collapsed_match path (d @ ''/'' @ q)"
    using assms(2) by (subst collapsed_match.simps) simp
  ultimately show ?thesis
    by (subst collapsed_match.simps) (simp only: Let_def replace_first_globstar [OF assms(1)] if_True simp_thms)
qed

lemma replace_char_id: "a \<notin> set s \<Longrightarrow> replace_char a b s = s"
  by (induction s) (auto simp: replace_char_def)

lemma literal_snoc: "literal d \<Longrightarrow> literal (d @ ''/'')"
  by (auto simp: literal_def)

lemma fnmatch_globstar:
  assumes "literal d"
  shows "fnmatchcase path (d @ ''/**/'' @ q) \<longleftrightarrow> (\<exists>a b. path = d @ ''/'' @ a @ ''/'' @ b \<and> fnmatchcase b q)"
proof -
  have slash: "literal ''/''" by (simp add: literal_def)
  have "fnmatchcase path (d @ ''/**/'' @ q) \<longleftrightarrow> fnmatchcase path ((d @ ''/'') @ CHR ''*'' # CHR ''*'' # ''/'' @ q)"
    by simp
  also have "\<dots> \<longleftrightarrow> (\<exists>r. path = (d @ ''/'') @ r \<and> (\<exists>a b. r = a @ b \<and> (\<exists>a' b'. b = a' @ b' \<and>
      (\<exists>e. b' = ''/'' @ e \<and> fnmatchcase e q))))"
    by (simp only: fnmatch_literal [OF literal_snoc [OF assms]] fnmatch_star fnmatch_literal [OF slash])
  also have "\<dots> \<longleftrightarrow> (\<exists>a b. path = d @ ''/'' @ a @ ''/'' @ b \<and> fnmatchcase b q)"
    by (auto; metis append.assoc append_Nil)
  finally show ?thesis .
qed

lemma matches_globstar:
  assumes "literal d" and "\<not> contains (d @ ''/'' @ q) ''/**/''" and "CHR 0x5C \<notin> set d" and "CHR 0x5C \<notin> set q"
  shows "matches path (d @ ''/**/'' @ q) \<longleftrightarrow>
    (\<exists>r. path = d @ ''/'' @ r
       \<and> (fnmatchcase r q \<or> (\<exists>a b. r = a @ ''/'' @ b \<and> fnmatchcase b q)))"
proof -
  have star: "CHR ''*'' \<notin> set d" using assms(1) by (auto simp: literal_def)
  have id: "replace_char (CHR 0x5C) (CHR ''/'') (d @ ''/**/'' @ q) = d @ ''/**/'' @ q"
    using assms(3,4) by (intro replace_char_id) auto
  have "fnmatchcase path (d @ ''/'' @ q) \<longleftrightarrow> (\<exists>r. path = (d @ ''/'') @ r \<and> fnmatchcase r q)"
    using fnmatch_literal [OF literal_snoc [OF assms(1)], of path q] by simp
  then show ?thesis
    unfolding matches_def Let_def id collapsed_match_once [OF star assms(2)] fnmatch_globstar [OF assms(1)]
    by auto
qed

text \<open>
  A policy glob with one \<open>/**/\<close> after a directory without wildcards selects the
  paths below that directory whose remainder, after dropping zero or more leading
  directories, matches the rest of the glob.
\<close>

theorem globstar_spans_directories:
  assumes "literal d" and "\<not> contains (d @ ''/'' @ q) ''/**/''" and "CHR 0x5C \<notin> set d" and "CHR 0x5C \<notin> set q"
  shows "matches path (d @ ''/**/'' @ q) \<longleftrightarrow>
    (\<exists>r. path = d @ ''/'' @ r
       \<and> (fnmatchcase r q \<or> (\<exists>a b. r = a @ ''/'' @ b \<and> fnmatchcase b q)))"
  using assms by (rule matches_globstar)

theorem globstar_spans_directories_witness:
  "matches ''docs/a/b.md'' (''docs'' @ ''/**/'' @ ''*.md'') \<and> matches ''docs/b.md'' (''docs'' @ ''/**/'' @ ''*.md'')"
proof -
  have md: "literal ''.md''" by (simp add: literal_def)
  have m: "fnmatchcase ''b.md'' ''*.md''"
    using fnmatch_star [of "''b.md''" "''.md''"] by (auto simp: fnmatch_exact [OF md])
  have "literal ''docs''" "\<not> contains (''docs'' @ ''/'' @ ''*.md'') ''/**/''"
    "CHR 0x5C \<notin> set ''docs''" "CHR 0x5C \<notin> set ''*.md''"
    by (simp_all add: literal_def startswith_def)
  note glob = globstar_spans_directories [OF this]
  have "matches ''docs/a/b.md'' (''docs'' @ ''/**/'' @ ''*.md'')"
    unfolding glob by (rule exI [of _ "''a/b.md''"], rule conjI, simp,
      rule disjI2, rule exI [of _ "''a''"], rule exI [of _ "''b.md''"], simp add: m)
  moreover have "matches ''docs/b.md'' (''docs'' @ ''/**/'' @ ''*.md'')"
    unfolding glob by (rule exI [of _ "''b.md''"]) (simp add: m)
  ultimately show ?thesis by blast
qed

lemma matches_literal:
  assumes "literal w" and "CHR 0x5C \<notin> set w"
  shows "matches p w \<longleftrightarrow> p = w"
proof -
  have "CHR ''*'' \<notin> set w" using assms(1) by (auto simp: literal_def)
  then have "\<not> contains w ''/**/''" by (auto simp: contains_iff)
  then have "\<not> collapsed_match p w" by (subst collapsed_match.simps) simp
  then show ?thesis by (simp add: matches_def Let_def replace_char_id [OF assms(2)] fnmatch_exact [OF assms(1)])
qed

lemma matches_star_between:
  assumes "literal d" and "literal e" and "CHR 0x5C \<notin> set d" and "CHR 0x5C \<notin> set e"
    and "matches p (d @ ''*'' @ e)"
  shows "\<exists>m. p = d @ m @ e"
proof -
  have "\<not> contains (d @ ''*'' @ e) ''/**/''"
  proof
    assume "contains (d @ ''*'' @ e) ''/**/''"
    then obtain a b where eq: "d @ ''*'' @ e = a @ ''/**/'' @ b" by (auto simp: contains_iff)
    have "count_list (d @ ''*'' @ e) (CHR ''*'') = 1"
      using assms(1,2) by (auto simp: literal_def count_list_0_iff)
    with eq show False by simp
  qed
  then have "\<not> collapsed_match p (d @ ''*'' @ e)" by (subst collapsed_match.simps) simp
  moreover have "replace_char (CHR 0x5C) (CHR ''/'') (d @ ''*'' @ e) = d @ ''*'' @ e"
    using assms(3,4) by (intro replace_char_id) auto
  ultimately have "fnmatchcase p (d @ CHR ''*'' # e)" using assms(5) by (simp add: matches_def Let_def)
  then show ?thesis
    by (auto simp: fnmatch_literal [OF assms(1)] fnmatch_star fnmatch_exact [OF assms(2)])
qed

text \<open>
  Under the policy in force a governed path is one of the four named agent modules,
  a JSON file under the agent profiles, or a Markdown file under the documentation.
\<close>

theorem shipped_policy_confines:
  assumes "govern_path (policy_changes shipped_policy) raw = Inr p"
  shows "p \<in> {''src/agents/ratsnestpro/intent_router.py'', ''src/agents/ratsnestpro/decision_engine.py'',
              ''src/agents/ratsnestpro/retry_policy.py'', ''src/agents/ratsnestpro/remediation_search.py''}
    \<or> (\<exists>m. p = ''src/agents/ratsnestpro/profiles/'' @ m @ ''.json'')
    \<or> (\<exists>m. p = ''docs/'' @ m @ ''.md'')"
proof -
  have lit: "literal w \<and> CHR 0x5C \<notin> set w"
    if "w \<in> {''src/agents/ratsnestpro/intent_router.py'', ''src/agents/ratsnestpro/decision_engine.py'',
              ''src/agents/ratsnestpro/retry_policy.py'', ''src/agents/ratsnestpro/remediation_search.py'',
              ''src/agents/ratsnestpro/profiles/'', ''.json'', ''docs'', ''.md''}" for w :: string
    using that by (auto simp: literal_def)
  have glob: "matches p (''src/agents/ratsnestpro/profiles/'' @ ''*'' @ ''.json'') \<Longrightarrow>
      \<exists>m. p = ''src/agents/ratsnestpro/profiles/'' @ m @ ''.json''"
    by (rule matches_star_between) (simp_all only: lit insert_iff simp_thms)
  have md: "fnmatchcase r ''*.md'' \<Longrightarrow> \<exists>m. r = m @ ''.md''" for r
    using fnmatch_star [of r "''.md''"] fnmatch_exact [of "''.md''"] lit by auto
  have docs: "\<exists>m. p = ''docs/'' @ m @ ''.md''" if "matches p (''docs'' @ ''/**/'' @ ''*.md'')"
  proof -
    have "\<not> contains (''docs'' @ ''/'' @ ''*.md'') ''/**/''" by (simp add: startswith_def)
    with that matches_globstar [of "''docs''" "''*.md''" p] lit obtain r
      where r: "p = ''docs'' @ ''/'' @ r"
        and "fnmatchcase r ''*.md'' \<or> (\<exists>a b. r = a @ ''/'' @ b \<and> fnmatchcase b ''*.md'')" by auto
    then have "\<exists>m. r = m @ ''.md''" using md by (metis append.assoc)
    with r show ?thesis by auto
  qed
  from govern_path_Inr(2) [OF assms] obtain pat
    where "pat \<in> set (allowed_low_risk_globs (policy_changes shipped_policy))" "matches p pat"
    by (auto simp: governed_def)
  then show ?thesis using glob docs matches_literal lit by (auto simp: shipped_policy_def)
qed

text \<open>
  a glob that opens with \<open>**/\<close> selects nothing at the top level: a path it matches
  contains a directory separator.  The zero-directory reading that the matcher gives
  to an inner \<open>/**/\<close> does not reach a leading one, so the denied glob \<open>**/.env\<close> leaves
  \<open>.env\<close> itself to the allowlist.
\<close>

theorem leading_globstar_needs_directory:
  assumes "\<not> contains (''**/'' @ q) ''/**/''" and "CHR 0x5C \<notin> set q" and "matches path (''**/'' @ q)"
  shows "\<exists>a b. path = a @ ''/'' @ b \<and> fnmatchcase b q"
proof -
  have slash: "literal ''/''" by (simp add: literal_def)
  have id: "replace_char (CHR 0x5C) (CHR ''/'') (''**/'' @ q) = ''**/'' @ q"
    using assms(2) by (intro replace_char_id) auto
  have "\<not> collapsed_match path (''**/'' @ q)" using assms(1) by (subst collapsed_match.simps) simp
  with assms(3) have "fnmatchcase path (CHR ''*'' # CHR ''*'' # ''/'' @ q)"
    by (simp add: matches_def Let_def id [simplified])
  then obtain a b c where "path = a @ b @ ''/'' @ c" "fnmatchcase c q"
    by (auto simp only: fnmatch_star fnmatch_literal [OF slash])
  then show ?thesis by (metis append.assoc)
qed

theorem leading_globstar_needs_directory_witness:
  "\<not> matches ''.env'' (''**/'' @ ''.env'') \<and> matches ''a/.env'' (''**/'' @ ''.env'')"
proof -
  have env: "literal ''.env''" by (simp add: literal_def)
  have no: "\<not> contains (''**/'' @ ''.env'') ''/**/''" by (simp add: startswith_def)
  have "\<not> matches ''.env'' (''**/'' @ ''.env'')"
  proof
    assume "matches ''.env'' (''**/'' @ ''.env'')"
    from leading_globstar_needs_directory [OF no _ this] obtain a b where "''.env'' = a @ ''/'' @ b" by auto
    then have "CHR ''/'' \<in> set ''.env''" by (metis UnCI list.set_intros(1) set_append append_Cons)
    then show False by simp
  qed
  moreover have "matches ''a/.env'' (''**/'' @ ''.env'')" by code_simp
  ultimately show ?thesis by blast
qed

section \<open>An accepted proposal\<close>

definition sample_commit :: string where
  "sample_commit = replicate 40 (CHR ''a'')"

definition sample_file :: candidate_file_patch where
  "sample_file =
     \<lparr>fp_operation = FileCreate, fp_path = ''docs/a.md'', expected_old_sha256 = None,
      content_sha256 = sha256 (utf8_bytes ''ok''), fp_content = ''ok''\<rparr>"

definition sample_proposal :: patch_proposal where
  "sample_proposal =
     \<lparr>prop_plan =
        \<lparr>plan_candidate_id = ''c'', plan_base_commit = sample_commit, plan_summary = ''note'',
         changes = [\<lparr>ch_operation = PlanCreate, ch_path = ''docs/a.md'', ch_rationale = ''r'',
                    estimated_added_lines = 1\<rparr>],
         preserved_invariants = map inv_id (policy_invariants shipped_policy), public_eval_case_ids = []\<rparr>,
      prop_bundle = \<lparr>bundle_candidate_id = ''c'', bundle_base_commit = sample_commit, files = [sample_file]\<rparr>\<rparr>"

definition sample_candidate :: evolution_candidate where
  "sample_candidate =
     \<lparr>candidate_id = ''c'', base_harness_version_id = ''v'', base_manifest_digest = ''m'',
      cand_failure_signature = ''s'', cand_step = ''erc'', cand_check_name = None, cand_category = None,
      cand_required_capability = None, profile_references = [''p''], observation_ids = [''o''],
      occurrence_count = 2, project_count = 2, cand_status = C_ELIGIBLE\<rparr>"

definition sample_manifest :: harness_manifest where
  "sample_manifest =
     \<lparr>source_commit = sample_commit, source_tree_digest = [], dirty = False, bundle_digest = [],
      contract_digest = [], policy_digest = [], runtime_image_digest = None, toolchain_digest = None,
      manifest_digest = ''m''\<rparr>"

definition sample_request :: optimizer_request where
  "sample_request =
     \<lparr>req_candidate = sample_candidate, req_manifest = sample_manifest, repository_context = []\<rparr>"

lemma sample_paths:
  "normalized_relative_path ''docs/a.md'' = Inr ''docs/a.md''"
  "govern_path (policy_changes shipped_policy) ''docs/a.md'' = Inr ''docs/a.md''"
  by code_simp+

lemma sample_file_ok: "validate_file_contract sample_file = Inr sample_file"
  by (simp add: validate_file_contract_def sample_file_def sha256_hex sample_paths bounded_def utf8_bytes_def)

lemma sample_accepted:
  "propose_patch_proposal (\<lambda>_. Some sample_proposal) sample_request shipped_policy = Inr sample_proposal"
proof -
  have commit: "hex_between 40 64 sample_commit" by code_simp
  have plan: "plan_validate (prop_plan sample_proposal) = Inr (prop_plan sample_proposal)"
    by (simp add: plan_validate_def sample_proposal_def bounded_def commit change_fields_def shipped_policy_def)
  have bundle_ok: "validate_bundle (prop_bundle sample_proposal) = Inr (prop_bundle sample_proposal)"
    by (simp add: validate_bundle_def sample_proposal_def bounded_def commit sample_file_ok)
      (simp add: sample_file_def utf8_bytes_def)
  have match: "matching_plan_and_bundle (prop_plan sample_proposal) (prop_bundle sample_proposal) = Inr sample_proposal"
    by (simp add: matching_plan_and_bundle_def sample_proposal_def sample_file_def)
  have "validate_patch_plan (prop_plan sample_proposal) (req_candidate sample_request)
      (req_manifest sample_request) shipped_policy = Inr (prop_plan sample_proposal)"
    by (simp add: validate_patch_plan_def sample_proposal_def sample_request_def sample_candidate_def
        sample_manifest_def sample_paths Let_def)
      (simp add: shipped_policy_def)
  moreover have "validate_patch_bundle (prop_bundle sample_proposal) (prop_plan sample_proposal) shipped_policy
      = Inr (prop_bundle sample_proposal)"
    by (simp add: validate_patch_bundle_def match)
      (simp add: sample_proposal_def sample_file_def sample_paths, simp add: shipped_policy_def)
  ultimately show ?thesis
    by (simp add: propose_patch_proposal_def optimizer_prompt_def proposal_validate_def plan bundle_ok match)
      (simp add: sample_request_def)
qed

theorem proposal_is_governed_witness:
  "governed (policy_changes shipped_policy) ''docs/a.md''
   \<and> content_sha256 sample_file = sha256 (utf8_bytes ''ok'')"
  using proposal_is_governed [OF sample_accepted] by (simp add: sample_proposal_def sample_file_def)

theorem shipped_policy_confines_witness: "\<exists>m. ''docs/a.md'' = ''docs/'' @ m @ ''.md''"
  using shipped_policy_confines [OF sample_paths(2)] by auto

end
