(* ===== verification/Sandbox_Facts.thy ===== *)
theory Sandbox_Facts
  imports Sandbox Governance_Facts
begin

text \<open>
  What the sandbox guarantees: materialising a bundle writes its files, creates the
  directories they need and changes nothing else; a rejected bundle leaves the checkout
  as it was; and a candidate passes only after every check, every command and the cleanup.
\<close>

section \<open>Writing\<close>

definition parents_of :: "string list \<Rightarrow> string list set" where
  "parents_of d = set (map (\<lambda>n. take n d) [1..<length d])"

lemma parents_of_shorter: "q \<in> parents_of d \<Longrightarrow> length q < length d"
  by (auto simp: parents_of_def)

lemma make_parents_Inr:
  assumes "make_parents w d = Inr w1"
  shows "w1 = (\<lambda>q. if q \<in> parents_of d then Some DirNode else w q)"
    and "p \<in> parents_of d \<Longrightarrow> w p = None \<or> w p = Some DirNode"
  using assms by (auto simp: make_parents_def Let_def parents_of_def split: if_split_asm)

lemma write_file_Inr:
  assumes "write_file w (d, c) = Inr w'"
  shows "w' = (\<lambda>q. if q = d then Some (TextNode c) else if q \<in> parents_of d then Some DirNode else w q)"
    and "p \<in> parents_of d \<Longrightarrow> w p = None \<or> w p = Some DirNode"
proof -
  from assms obtain w1 where w1: "make_parents w d = Inr w1" and w': "w' = w1(d \<mapsto> TextNode c)"
    by (auto simp: write_file_def bind_res_Inr_iff split: if_split_asm)
  from w' make_parents_Inr(1) [OF w1]
  show "w' = (\<lambda>q. if q = d then Some (TextNode c) else if q \<in> parents_of d then Some DirNode else w q)"
    by (auto simp: fun_eq_iff)
  show "p \<in> parents_of d \<Longrightarrow> w p = None \<or> w p = Some DirNode" by (rule make_parents_Inr(2) [OF w1])
qed

lemma write_files_keeps_text:
  "write_files w ds = (Inr (), w') \<Longrightarrow> d \<notin> fst ` set ds \<Longrightarrow> w d = Some (TextNode t) \<Longrightarrow> w' d = Some (TextNode t)"
proof (induction ds arbitrary: w)
  case (Cons x ds)
  obtain d' c' where x: "x = (d', c')" by (cases x)
  with Cons.prems obtain w1 where w1: "write_file w (d', c') = Inr w1" and rest: "write_files w1 ds = (Inr (), w')"
    by (auto split: sum.splits)
  have "d \<notin> parents_of d'" using write_file_Inr(2) [OF w1, of d] Cons.prems(3) by auto
  then have "w1 d = Some (TextNode t)" using write_file_Inr(1) [OF w1] Cons.prems x by simp
  with Cons.IH [OF rest] Cons.prems show ?case by simp
qed simp

lemma write_files_writes:
  "write_files w ds = (Inr (), w') \<Longrightarrow> distinct (map fst ds) \<Longrightarrow> (d, c) \<in> set ds \<Longrightarrow> w' d = Some (TextNode c)"
proof (induction ds arbitrary: w)
  case (Cons x ds)
  obtain d' c' where x: "x = (d', c')" by (cases x)
  with Cons.prems obtain w1 where w1: "write_file w (d', c') = Inr w1" and rest: "write_files w1 ds = (Inr (), w')"
    by (auto split: sum.splits)
  show ?case
  proof (cases "(d, c) = x")
    case True
    then have "w1 d = Some (TextNode c)" using write_file_Inr(1) [OF w1] x by simp
    moreover have "d \<notin> fst ` set ds" using Cons.prems(2) True [symmetric] by simp
    ultimately show ?thesis using write_files_keeps_text [OF rest] by blast
  next
    case False
    with Cons.IH [OF rest] Cons.prems show ?thesis by simp
  qed
qed simp

lemma write_files_frame:
  "write_files w ds = (Inr (), w') \<Longrightarrow> q \<notin> fst ` set ds \<Longrightarrow>
     w' q = w q \<or> w q = None \<and> w' q = Some DirNode \<and> (\<exists>d \<in> fst ` set ds. q \<in> parents_of d)"
proof (induction ds arbitrary: w)
  case (Cons x ds)
  obtain d' c' where x: "x = (d', c')" by (cases x)
  with Cons.prems obtain w1 where w1: "write_file w (d', c') = Inr w1" and rest: "write_files w1 ds = (Inr (), w')"
    by (auto split: sum.splits)
  have q: "w1 q = w q \<or> w q = None \<and> w1 q = Some DirNode \<and> q \<in> parents_of d'"
    using write_file_Inr(1) [OF w1] write_file_Inr(2) [OF w1, of q] Cons.prems(2) x by (auto split: if_split_asm)
  from Cons.IH [OF rest] Cons.prems(2) have "w' q = w1 q
      \<or> w1 q = None \<and> w' q = Some DirNode \<and> (\<exists>d \<in> fst ` set ds. q \<in> parents_of d)" by simp
  with q x show ?case by auto
qed simp

lemma link_only_old:
  assumes "\<And>q. w' q = Some LinkNode \<Longrightarrow> w q = Some LinkNode" and "\<not> crosses_link w d"
  shows "\<not> crosses_link w' d"
  using assms by (auto simp: crosses_link_def)

lemma write_files_only_os_errors:
  "write_files w ds = (Inl e, w') \<Longrightarrow> \<forall>d \<in> fst ` set ds. \<not> crosses_link w d \<Longrightarrow> e = OsError"
proof (induction ds arbitrary: w)
  case (Cons x ds)
  obtain d c where x: "x = (d, c)" by (cases x)
  show ?case
  proof (cases "write_file w (d, c)")
    case (Inl e')
    show ?thesis
    proof (cases "make_parents w d")
      case (Inl e'')
      then show ?thesis using Cons.prems(1) \<open>write_file w (d, c) = Inl e'\<close>
        by (auto simp: x write_file_def make_parents_def Let_def split: if_split_asm)
    next
      case (Inr w1)
      have "\<not> crosses_link w1 d"
        using make_parents_Inr(1) [OF Inr] Cons.prems(2) x by (intro link_only_old [of w1 w]) (auto split: if_split_asm)
      then show ?thesis using Cons.prems(1) Inl Inr by (auto simp: x write_file_def split: if_split_asm)
    qed
  next
    case (Inr w1)
    with Cons.prems(1) x have rest: "write_files w1 ds = (Inl e, w')" by simp
    have "\<not> crosses_link w1 d'" if "\<not> crosses_link w d'" for d'
      using that write_file_Inr(1) [OF Inr] by (intro link_only_old [of w1 w]) (auto split: if_split_asm)
    with Cons.IH [OF rest] Cons.prems(2) show ?thesis by simp
  qed
qed simp

section \<open>Preparing\<close>

definition old_text :: "worktree \<Rightarrow> candidate_file_patch \<Rightarrow> string" where
  "old_text w f = (case w (path_components (fp_path f)) of Some (TextNode t) \<Rightarrow> t | _ \<Rightarrow> [])"

definition target_fits :: "worktree \<Rightarrow> candidate_file_patch \<Rightarrow> bool" where
  "target_fits w f =
     (case fp_operation f of
        FileCreate \<Rightarrow> w (path_components (fp_path f)) = None
      | FileReplace \<Rightarrow> w (path_components (fp_path f)) = Some (TextNode (old_text w f))
          \<and> expected_old_sha256 f = Some (sha256 (utf8_bytes (old_text w f))))"

lemma check_target_Inr: "check_target w f = Inr t \<Longrightarrow> t = old_text w f \<and> target_fits w f"
  by (auto simp: check_target_def old_text_def target_fits_def Let_def
      split: file_operation.splits option.splits node.splits if_split_asm)

lemma matched_lines_le: "matched_lines a b \<le> length b"
proof (induction a b rule: matched_lines.induct)
  case (1 a b)
  obtain i j k where m: "longest_match a b = (i, j, k)" by (cases rule: prod_cases3)
  show ?case
  proof (cases "k = 0")
    case False
    then have "matched_lines (take i a) (take j b) \<le> length (take j b)"
      "matched_lines (drop (i + k) a) (drop (j + k) b) \<le> length (drop (j + k) b)"
      using 1 m by auto
    with longest_match_bounds(2) [OF m] False m show ?thesis by (subst matched_lines.simps) simp
  qed (subst matched_lines.simps, simp add: m)
qed

lemma count_added_lines_bounds:
  "0 \<le> count_added_lines old new" "count_added_lines old new \<le> int (length (splitlines new))"
  using matched_lines_le [of "splitlines old" "splitlines new"] by (simp_all add: count_added_lines_def)

lemma prepare_files_Inr:
  "prepare_files w limit added fs = Inr ds \<Longrightarrow>
     ds = map (\<lambda>f. (path_components (fp_path f), fp_content f)) fs
     \<and> (\<forall>f \<in> set fs. \<not> crosses_link w (path_components (fp_path f)) \<and> target_fits w f)
     \<and> (fs \<noteq> [] \<longrightarrow> added + (\<Sum>f\<leftarrow>fs. count_added_lines (old_text w f) (fp_content f)) \<le> limit)"
proof (induction w limit added fs arbitrary: ds rule: prepare_files.induct)
  case (2 w limit added f fs)
  from "2.prems" obtain t rest where safe: "\<not> crosses_link w (path_components (fp_path f))"
    and t: "check_target w f = Inr t" and lim: "added + count_added_lines t (fp_content f) \<le> limit"
    and rest: "prepare_files w limit (added + count_added_lines t (fp_content f)) fs = Inr rest"
    and ds: "ds = (path_components (fp_path f), fp_content f) # rest"
    by (auto simp: Let_def bind_res_Inr_iff assert_safe_destination_def split: if_split_asm)
  have ih: "rest = map (\<lambda>f. (path_components (fp_path f), fp_content f)) fs
     \<and> (\<forall>f \<in> set fs. \<not> crosses_link w (path_components (fp_path f)) \<and> target_fits w f)
     \<and> (fs \<noteq> [] \<longrightarrow> added + count_added_lines t (fp_content f)
          + (\<Sum>f\<leftarrow>fs. count_added_lines (old_text w f) (fp_content f)) \<le> limit)"
    by (rule "2.IH" [OF refl refl _ rest]) (use lim in simp)
  with check_target_Inr [OF t] safe lim ds show ?case by (cases "fs = []") (auto simp: add.assoc)
qed simp

lemma bundle_destinations:
  assumes "validate_bundle b = Inr b"
  shows "distinct (map (\<lambda>f. path_components (fp_path f)) (files b))" and "files b \<noteq> []"
proof -
  have d: "distinct (map (\<lambda>f. lower (fp_path f)) (files b))" by (rule validate_bundle_Inr(3) [OF assms])
  have "fp_path f = join ''/'' (path_components (fp_path f))" if "f \<in> set (files b)" for f
    using validate_bundle_Inr(2) [OF assms that] file_contract_Inr normalized_Inr by blast
  then have "fp_path f = fp_path g" if "f \<in> set (files b)" "g \<in> set (files b)"
      "path_components (fp_path f) = path_components (fp_path g)" for f g
    using that by metis
  then have "inj_on (\<lambda>f. path_components (fp_path f)) (set (files b))"
    using d by (auto simp: distinct_map inj_on_def) (metis (full_types))
  then show "distinct (map (\<lambda>f. path_components (fp_path f)) (files b))"
    using d by (simp add: distinct_map)
  show "files b \<noteq> []" using assms by (auto simp: validate_bundle_def bounded_def)
qed

text \<open>
  C29: materialising a bundle is exact.  When it succeeds, every file of the bundle has the
  proposed content, every other path is as before or is a directory that did not exist,
  files to be created did not exist, files to be replaced had the expected digest, and the
  added lines of all files together stay within the limit.  When it is rejected, the
  checkout is untouched.
\<close>

theorem materialization_is_exact:
  assumes ok: "validate_bundle b = Inr b" and run: "materialize_files w b limit = (res, w')"
  shows "(\<forall>paths. res = Inr paths \<longrightarrow>
      (\<forall>f \<in> set (files b). w' (path_components (fp_path f)) = Some (TextNode (fp_content f)) \<and> target_fits w f)
      \<and> (\<forall>q. q \<notin> (\<lambda>f. path_components (fp_path f)) ` set (files b) \<longrightarrow>
            w' q = w q \<or> w q = None \<and> w' q = Some DirNode)
      \<and> (\<Sum>f\<leftarrow>files b. count_added_lines (old_text w f) (fp_content f)) \<le> limit)
    \<and> (\<forall>e. res = Inl e \<and> is_value_error e \<longrightarrow> w' = w)"
proof (cases "prepare_files w limit 0 (files b)")
  case (Inl e)
  with run show ?thesis by (auto simp: materialize_files_def)
next
  case (Inr ds)
  note p = prepare_files_Inr [OF Inr]
  let ?dest = "\<lambda>f. path_components (fp_path f)"
  have dests: "map fst ds = map ?dest (files b)" using p by simp
  have links: "\<forall>d \<in> fst ` set ds. \<not> crosses_link w d" using p by auto
  obtain r w1 where wr: "write_files w ds = (r, w1)" by (cases "write_files w ds")
  show ?thesis
  proof (cases r)
    case (Inl e)
    with wr have "e = OsError" using write_files_only_os_errors links by blast
    with Inl wr Inr run show ?thesis by (auto simp: materialize_files_def)
  next
    case Inr': (Inr u)
    with wr Inr run have w': "w' = w1" and res: "res = Inr (map fp_path (files b))"
      and fin: "write_files w ds = (Inr (), w')" by (auto simp: materialize_files_def)
    have "w' (?dest f) = Some (TextNode (fp_content f))" if "f \<in> set (files b)" for f
      using that p dests bundle_destinations(1) [OF ok] by (intro write_files_writes [OF fin]) (auto simp: comp_def)
    moreover have "w' q = w q \<or> w q = None \<and> w' q = Some DirNode" if "q \<notin> ?dest ` set (files b)" for q
      using that write_files_frame [OF fin, of q] dests by (metis list.set_map)
    ultimately show ?thesis using p bundle_destinations(2) [OF ok] res by simp
  qed
qed

section \<open>Evaluation\<close>

lemma lift_gov_Inr [simp]: "lift_gov m = Inr x \<longleftrightarrow> m = Inr x"
  by (cases m) (auto simp: lift_gov_def)

lemma admit_Inr:
  assumes "admit_candidate env c m p b policy ids = Inr (selected, repository, sandbox)"
  shows "select_eval_commands ids (eval_registry env) = Inr selected"
    and "calculated_manifest_digest m = manifest_digest m"
    and "\<exists>q. validate_patch_plan p c m policy = Inr q" and "\<exists>q. validate_patch_bundle b p policy = Inr q"
    and "repository_path env = Some repository" and "\<not> overlaps sandbox repository"
  using assms
  by (auto simp: admit_candidate_def bind_res_Inr_iff validated_sandbox_root_def split: if_split_asm option.splits)

lemma take_eqD: "take n (xs @ [x]) = ys \<Longrightarrow> length ys = n \<Longrightarrow> n \<le> length xs \<Longrightarrow> take n xs = ys"
  by simp

lemma child_does_not_overlap:
  assumes "\<not> overlaps s r"
  shows "\<not> overlaps (s\<lparr>parts := parts s @ [x]\<rparr>) r"
proof
  let ?d = "s\<lparr>parts := parts s @ [x]\<rparr>"
  assume "overlaps ?d r"
  then consider "?d = r" | "proper_ancestor ?d r" | "proper_ancestor r ?d" by (auto simp: overlaps_def)
  then show False
  proof cases
    case 1
    then have "proper_ancestor s r" by (auto simp: proper_ancestor_def)
    with assms show False by (simp add: overlaps_def)
  next
    case 2
    then have "proper_ancestor s r"
      by (auto simp: proper_ancestor_def) (metis append_eq_conv_conj append_take_drop_id length_append take_append take_take
          append_Nil2 append_assoc le_add1 min.absorb1)
    with assms show False by (simp add: overlaps_def)
  next
    case 3
    then have "drive r = drive s" "length (parts r) \<le> length (parts s)" "take (length (parts r)) (parts s) = parts r"
      by (auto simp: proper_ancestor_def)
    then have "r = s \<or> proper_ancestor r s" by (cases "length (parts r) = length (parts s)") (auto simp: proper_ancestor_def)
    with assms show False by (auto simp: overlaps_def)
  qed
qed

lemma build_worktree_plan_Inr:
  assumes "build_worktree_plan p repository sroot = Inr d"
  shows "\<not> overlaps d repository"
proof -
  from assms have "\<not> overlaps sroot repository"
    and "d = sroot\<lparr>parts := parts sroot @ [worktree_suffix (plan_candidate_id p)]\<rparr>"
    by (auto simp: build_worktree_plan_def Let_def split: if_split_asm)
  then show ?thesis by (simp add: child_does_not_overlap)
qed

lemma run_argv_passed:
  "run_argv proc i argv t n = Inr r \<Longrightarrow> er_argv r = argv \<and> (er_passed r \<longrightarrow> er_exit_code r = Some 0 \<and> \<not> er_timed_out r)"
  by (auto simp: run_argv_def Let_def split: if_split_asm option.splits prod.splits)

lemma run_commands_all:
  "run_commands proc cs acc = (Inr (), rs) \<Longrightarrow> length rs = length acc + length cs \<Longrightarrow>
     \<exists>new. rs = acc @ new \<and> map er_argv new = map cmd_argv cs"
proof (induction cs arbitrary: acc)
  case (Cons c cs)
  then obtain r where r: "run_argv proc (cmd_eval_id c) (cmd_argv c) (cmd_timeout c) (32 * 1024) = Inr r"
    by (auto split: sum.splits)
  show ?case
  proof (cases "er_passed r")
    case True
    with r Cons.prems have "run_commands proc cs (acc @ [r]) = (Inr (), rs)" by simp
    from Cons.IH [OF this] Cons.prems run_argv_passed [OF r] show ?thesis by auto
  next
    case False
    with r Cons.prems have "rs = acc @ [r]" "cs = []" by auto
    with run_argv_passed [OF r] show ?thesis by simp
  qed
qed simp

lemma materialize_paths: "materialize_files w b limit = (Inr paths, w') \<Longrightarrow> paths = map fp_path (files b)"
  by (auto simp: materialize_files_def split: sum.splits prod.splits)

lemma run_commands_passed:
  assumes "run_commands proc cs acc = (Inr (), rs)" and "r \<in> set rs" and "er_passed r"
    and "\<forall>x \<in> set acc. er_passed x \<longrightarrow> er_exit_code x = Some 0"
  shows "er_exit_code r = Some 0"
  using assms
proof (induction cs arbitrary: acc)
  case (Cons c cs)
  then obtain q where q: "run_argv proc (cmd_eval_id c) (cmd_argv c) (cmd_timeout c) (32 * 1024) = Inr q"
    by (auto split: sum.splits)
  have "\<forall>x \<in> set (acc @ [q]). er_passed x \<longrightarrow> er_exit_code x = Some 0"
    using Cons.prems(4) run_argv_passed [OF q] by auto
  with Cons q show ?case by (auto split: if_split_asm)
qed simp

text \<open>The body of the trial, seen from its success.\<close>

lemma trial_body_passed:
  assumes "trial_body env c m p b policy ids = (Inr V_PASSED, s)"
  shows "\<exists>selected repository sandbox d paths. admit_candidate env c m p b policy ids = Inr (selected, repository, sandbox)
    \<and> ts_directory s = Some d \<and> \<not> overlaps d repository \<and> ts_created s
    \<and> materialize_files (checkout env) b (max_added_lines (policy_changes policy)) = (Inr paths, ts_worktree s)
    \<and> ts_materialized s = paths
    \<and> run_commands (processes env) selected [] = (Inr (), ts_results s)
    \<and> length (ts_results s) = length selected \<and> (\<forall>r \<in> set (ts_results s). er_passed r)"
proof -
  from assms obtain selected repository sandbox
    where a: "admit_candidate env c m p b policy ids = Inr (selected, repository, sandbox)"
    by (auto simp: trial_body_def Let_def split: sum.splits)
  let ?trial = "sandbox\<lparr>parts := parts sandbox @ [trial_name env]\<rparr>"
  from assms a obtain d where d: "build_worktree_plan p repository ?trial = Inr d"
    by (auto simp: trial_body_def Let_def split: sum.splits if_split_asm)
  from assms a d obtain r where r: "run_argv (processes env) ''git-worktree-add''
      (create_command repository d (plan_base_commit p)) 30 (16 * 1024) = Inr r" "er_passed r"
    by (auto simp: trial_body_def Let_def split: sum.splits if_split_asm)
  obtain res w where v: "validate_and_materialize_candidate c m p b policy (checkout env)
      (Some (max_added_lines (policy_changes policy))) = (res, w)" by fastforce
  from assms a d r v obtain paths where paths: "res = Inr paths"
    by (auto simp: trial_body_def Let_def split: sum.splits if_split_asm)
  obtain q rs where rc: "run_commands (processes env) selected [] = (q, rs)" by fastforce
  from assms a d r v paths rc have "q = Inr ()" "ts_directory s = Some d" "ts_created s" "ts_materialized s = paths"
    "ts_worktree s = w" "ts_results s = rs" "length rs = length selected" "\<forall>r \<in> set rs. er_passed r"
    by (auto simp: trial_body_def Let_def split: sum.splits if_split_asm)
  moreover have "materialize_files (checkout env) b (max_added_lines (policy_changes policy)) = (Inr paths, w)"
    using v paths by (auto simp: validate_and_materialize_candidate_def split: if_split_asm sum.splits)
  ultimately show ?thesis using a build_worktree_plan_Inr [OF d] rc by auto
qed

text \<open>
  C28: a candidate passes its evaluation only if everything was checked: its plan and its
  bundle satisfy the governance policy, the manifest carries its own digest, the worktree
  was created outside the repository, exactly the files of the bundle were materialised,
  every selected command ran in order and exited with code zero, and the cleanup succeeded.
\<close>

theorem passed_candidate_is_vetted:
  assumes "rep_verdict (materialize_and_evaluate_candidate env c m p b policy ids) = V_PASSED"
  shows "\<exists>selected repository d.
      select_eval_commands ids (eval_registry env) = Inr selected
    \<and> (\<exists>q. validate_patch_plan p c m policy = Inr q) \<and> (\<exists>q. validate_patch_bundle b p policy = Inr q)
    \<and> calculated_manifest_digest m = manifest_digest m
    \<and> repository_path env = Some repository
    \<and> ts_directory (snd (trial_body env c m p b policy ids)) = Some d \<and> \<not> overlaps d repository
    \<and> rep_worktree_created (materialize_and_evaluate_candidate env c m p b policy ids)
    \<and> rep_materialized (materialize_and_evaluate_candidate env c m p b policy ids) = map fp_path (files b)
    \<and> map er_argv (rep_results (materialize_and_evaluate_candidate env c m p b policy ids)) = map cmd_argv selected
    \<and> list_all (\<lambda>r. er_exit_code r = Some 0)
        (rep_results (materialize_and_evaluate_candidate env c m p b policy ids))
    \<and> rep_cleanup_succeeded (materialize_and_evaluate_candidate env c m p b policy ids)"
proof -
  obtain res s where t: "trial_body env c m p b policy ids = (res, s)" by fastforce
  from assms t have res: "res = Inr V_PASSED"
    and clean: "rep_cleanup_succeeded (materialize_and_evaluate_candidate env c m p b policy ids)"
    by (auto simp: materialize_and_evaluate_candidate_def Let_def split: sum.splits if_split_asm)
  from trial_body_passed [OF t [unfolded res]] obtain selected repository sandbox d paths
    where a: "admit_candidate env c m p b policy ids = Inr (selected, repository, sandbox)"
      and d: "ts_directory s = Some d" "\<not> overlaps d repository" "ts_created s"
      and mat: "materialize_files (checkout env) b (max_added_lines (policy_changes policy)) = (Inr paths, ts_worktree s)"
        "ts_materialized s = paths"
      and rc: "run_commands (processes env) selected [] = (Inr (), ts_results s)"
        "length (ts_results s) = length selected" "\<forall>r \<in> set (ts_results s). er_passed r" by blast
  have "map er_argv (ts_results s) = map cmd_argv selected" using run_commands_all [OF rc(1)] rc(2) by auto
  moreover have "list_all (\<lambda>r. er_exit_code r = Some 0) (ts_results s)"
    using run_commands_passed [OF rc(1)] rc(3) by (auto simp: list_all_iff)
  moreover note admit_Inr [OF a] materialize_paths [OF mat(1)]
  ultimately show ?thesis using t d mat(2) clean
    by (auto simp: materialize_and_evaluate_candidate_def Let_def)
qed

section \<open>A candidate that passes\<close>

definition sealed_manifest :: harness_manifest where
  "sealed_manifest = sample_manifest\<lparr>manifest_digest := calculated_manifest_digest sample_manifest\<rparr>"

definition sealed_candidate :: evolution_candidate where
  "sealed_candidate = sample_candidate\<lparr>base_manifest_digest := calculated_manifest_digest sample_manifest\<rparr>"

definition empty_checkout :: worktree where
  "empty_checkout = [[] \<mapsto> DirNode]"

definition sample_sandbox :: sandbox_env where
  "sample_sandbox =
     \<lparr>eval_registry = [(''compile'', \<lparr>cmd_eval_id = ''compile'', cmd_argv = [''python''], cmd_timeout = 60\<rparr>)],
      repository_path = Some \<lparr>drive = [], parts = [''repo'']\<rparr>, raw_sandbox_parts = [''sandbox''],
      sandbox_path = \<lparr>drive = [], parts = [''sandbox'']\<rparr>, is_link_path = (\<lambda>_. False), trial_name = ''t-1'',
      trial_made = True, checkout = empty_checkout,
      processes = (\<lambda>_ _. Some \<lparr>pr_samples = [(True, False, 0)], pr_exit_code = Some 0, pr_log = []\<rparr>),
      directory_left = (\<lambda>_. False), directory_removable = True, directory_remains = False,
      trial_removed = True\<rparr>"

lemma calculated_sealed: "calculated_manifest_digest sealed_manifest = manifest_digest sealed_manifest"
  by (simp add: sealed_manifest_def calculated_manifest_digest_def manifest_payload_def)

lemma sample_bundle_ok: "validate_bundle (prop_bundle sample_proposal) = Inr (prop_bundle sample_proposal)"
  using proposal_validate_Inr(2) [OF propose_Inr(1) [OF sample_accepted]] .

lemma sample_plan_admitted:
  "validate_patch_plan (prop_plan sample_proposal) sealed_candidate sealed_manifest shipped_policy
     = Inr (prop_plan sample_proposal)"
  by (simp add: validate_patch_plan_def sample_proposal_def sealed_candidate_def sealed_manifest_def
      sample_candidate_def sample_manifest_def sample_paths Let_def)
    (simp add: shipped_policy_def)

lemma sample_bundle_admitted:
  "\<exists>q. validate_patch_bundle (prop_bundle sample_proposal) (prop_plan sample_proposal) shipped_policy = Inr q"
  using propose_Inr(3) [OF sample_accepted] .

lemma sample_components: "path_components ''docs/a.md'' = [''docs'', ''a.md'']"
  by code_simp

lemma sample_count: "count_added_lines [] ''ok'' = 1"
  by code_simp

lemma sample_bundle_files: "files (prop_bundle sample_proposal) = [sample_file]"
  by (simp add: sample_proposal_def)

lemma no_links: "\<not> crosses_link w d" if "\<And>q. w q \<noteq> Some LinkNode"
  using that by (simp add: crosses_link_def)

lemma sample_prepared:
  "prepare_files empty_checkout 500 0 [sample_file] = Inr [([''docs'', ''a.md''], ''ok'')]"
proof -
  have "\<not> crosses_link empty_checkout d" for d by (rule no_links) (simp add: empty_checkout_def)
  then have "assert_safe_destination empty_checkout p d = Inr ()" for p d by (simp add: assert_safe_destination_def)
  moreover have "check_target empty_checkout sample_file = Inr []"
    by (simp add: check_target_def sample_components sample_file_def empty_checkout_def)
  moreover have "fp_path sample_file = ''docs/a.md''" "fp_content sample_file = ''ok''"
    by (simp_all add: sample_file_def)
  ultimately show ?thesis by (simp add: Let_def sample_components sample_count)
qed

lemma sample_written:
  "\<exists>w. write_files empty_checkout [([''docs'', ''a.md''], ''ok'')] = (Inr (), w)"
proof -
  let ?d = "[''docs'', ''a.md'']" and ?w1 = "\<lambda>q. if q \<in> parents_of [''docs'', ''a.md''] then Some DirNode else empty_checkout q"
  have w1: "make_parents empty_checkout ?d = Inr ?w1"
    by (auto simp: make_parents_def Let_def parents_of_def empty_checkout_def)
  have "\<not> crosses_link ?w1 ?d" by (rule no_links) (simp add: empty_checkout_def)
  moreover have "?d \<notin> parents_of ?d" using parents_of_shorter by blast
  moreover have "empty_checkout ?d = None" by (simp add: empty_checkout_def)
  ultimately have "write_file empty_checkout (?d, ''ok'') = Inr (?w1(?d \<mapsto> TextNode ''ok''))"
    by (simp add: write_file_def w1)
  then show ?thesis by simp
qed

lemma sample_materialized:
  "\<exists>w. materialize_files empty_checkout (prop_bundle sample_proposal) 500 = (Inr [''docs/a.md''], w)"
proof -
  obtain w where "write_files empty_checkout [([''docs'', ''a.md''], ''ok'')] = (Inr (), w)"
    using sample_written by blast
  then have "materialize_files empty_checkout (prop_bundle sample_proposal) 500 = (Inr (map fp_path [sample_file]), w)"
    unfolding materialize_files_def sample_bundle_files sample_prepared by (simp only: sum.case prod.case)
  then show ?thesis by (simp add: sample_file_def)
qed

theorem materialization_is_exact_witness:
  "\<exists>w. materialize_files empty_checkout (prop_bundle sample_proposal) 500 = (Inr [''docs/a.md''], w)
     \<and> w [''docs'', ''a.md''] = Some (TextNode ''ok'')"
proof -
  obtain w where w: "materialize_files empty_checkout (prop_bundle sample_proposal) 500 = (Inr [''docs/a.md''], w)"
    using sample_materialized by blast
  from materialization_is_exact [OF sample_bundle_ok w] have "w [''docs'', ''a.md''] = Some (TextNode ''ok'')"
    by (simp add: sample_bundle_files sample_file_def sample_components)
  with w show ?thesis by blast
qed

lemma sample_admitted:
  "admit_candidate sample_sandbox sealed_candidate sealed_manifest (prop_plan sample_proposal)
     (prop_bundle sample_proposal) shipped_policy [''compile'']
   = Inr ([\<lparr>cmd_eval_id = ''compile'', cmd_argv = [''python''], cmd_timeout = 60\<rparr>],
          \<lparr>drive = [], parts = [''repo'']\<rparr>, \<lparr>drive = [], parts = [''sandbox'']\<rparr>)"
proof -
  obtain q where "validate_patch_bundle (prop_bundle sample_proposal) (prop_plan sample_proposal) shipped_policy = Inr q"
    using sample_bundle_admitted by blast
  then show ?thesis
    by (simp add: admit_candidate_def select_eval_commands_def calculated_sealed sample_plan_admitted lift_gov_def)
      (simp add: sample_sandbox_def validated_sandbox_root_def overlaps_def proper_ancestor_def)
qed

lemma sample_passes:
  "rep_verdict (materialize_and_evaluate_candidate sample_sandbox sealed_candidate sealed_manifest
     (prop_plan sample_proposal) (prop_bundle sample_proposal) shipped_policy [''compile'']) = V_PASSED"
proof -
  obtain q where b: "validate_patch_bundle (prop_bundle sample_proposal) (prop_plan sample_proposal) shipped_policy = Inr q"
    using sample_bundle_admitted by blast
  obtain w where w: "materialize_files empty_checkout (prop_bundle sample_proposal) 500 = (Inr [''docs/a.md''], w)"
    using sample_materialized by blast
  have lim: "max_added_lines (policy_changes shipped_policy) = 500" by (simp add: shipped_policy_def)
  have vm: "validate_and_materialize_candidate sealed_candidate sealed_manifest (prop_plan sample_proposal)
      (prop_bundle sample_proposal) shipped_policy empty_checkout (Some 500) = (Inr [''docs/a.md''], w)"
    by (simp add: validate_and_materialize_candidate_def calculated_sealed sample_plan_admitted b w lift_gov_def)
  have commit: "hex_between 40 64 (plan_base_commit (prop_plan sample_proposal))"
    by (simp add: sample_proposal_def) code_simp
  show ?thesis
    unfolding materialize_and_evaluate_candidate_def trial_body_def sample_admitted
    by (simp add: Let_def sample_sandbox_def build_worktree_plan_def overlaps_def proper_ancestor_def commit
        run_argv_def create_command_def remove_command_def cleanup_worktree_def lim vm)
qed

theorem passed_candidate_is_vetted_witness:
  "rep_materialized (materialize_and_evaluate_candidate sample_sandbox sealed_candidate sealed_manifest
     (prop_plan sample_proposal) (prop_bundle sample_proposal) shipped_policy [''compile''])
   = map fp_path (files (prop_bundle sample_proposal))"
  using passed_candidate_is_vetted [OF sample_passes] by blast

end
