(* ===== verification/Collector.thy ===== *)
theory Collector
  imports Harness
begin

text \<open>
  \<open>evolution/collector.py\<close>: runtime events of the harness become observations that carry
  keyed fingerprints instead of identities, and unresolved observations that recur across
  projects become evolution candidates.
\<close>

section \<open>Fingerprints\<close>

text \<open>\<open>_canonical\<close>: canonical JSON in UTF-8.\<close>

definition canonical :: "pyval \<Rightarrow> string" where
  "canonical v = utf8_bytes (canonical_json v)"

text \<open>HMAC over SHA-256: a key longer than a block is hashed, then padded with zeros.\<close>

definition hex_value :: "char \<Rightarrow> nat" where
  "hex_value c = (let n = of_char c :: nat in if n < 58 then n - 48 else n - 87)"

fun unhex :: "string \<Rightarrow> string" where
  "unhex (a # b # rest) = char_of (16 * hex_value a + hex_value b) # unhex rest"
| "unhex _ = []"

definition xor_char :: "nat \<Rightarrow> char \<Rightarrow> char" where
  "xor_char m c = char_of (Bit_Operations.xor (of_char c) m :: nat)"

definition hmac_sha256 :: "string \<Rightarrow> string \<Rightarrow> string" where
  "hmac_sha256 key msg =
     (let k = (if length key > 64 then unhex (sha256 key) else key);
          block = k @ replicate (64 - length k) (CHR 0x00)
      in sha256 (map (xor_char 92) block @ unhex (sha256 (map (xor_char 54) block @ msg))))"

definition hmac_of :: "string \<Rightarrow> string \<Rightarrow> pyval \<Rightarrow> string" where
  "hmac_of key domain v = hmac_sha256 key (domain @ [CHR 0x00] @ canonical v)"

section \<open>Events\<close>

record observation_context =
  tenant_id :: string
  project_id :: string
  ctx_run_id :: string
  ctx_source_event_seq :: int
  ctx_harness :: harness_identity
  ctx_profile_reference :: string
  ctx_profile_digest :: string

datatype collector_exn =
    ShortKey | NegativeSequence | NotAheEvent | MissingEventOrStep | GapNeedsAttribution
  | GapNeedsEvidence | ObservationNeedsAttribution | NotAnInteger | InvalidObservation
  | TooFewProjects | InvalidCandidate

definition dict_get :: "pydict \<Rightarrow> string \<Rightarrow> pyval" where
  "dict_get d k = get_or d k PNone"

text \<open>\<open>str(d.get(k, ""))\<close>, stripped.\<close>

definition text_field :: "(pyval \<Rightarrow> string) \<Rightarrow> pydict \<Rightarrow> string \<Rightarrow> string" where
  "text_field cs d k = strip (py_str_by cs (get_or d k (PStr [])))"

definition nonempty :: "string \<Rightarrow> string option" where
  "nonempty s = (if s = [] then None else Some s)"

definition as_dict :: "pyval \<Rightarrow> pydict" where
  "as_dict v = (case v of PDict d \<Rightarrow> d | _ \<Rightarrow> [])"

text \<open>\<open>int\<close> of a value: digits may be grouped by single underscores and signed.\<close>

fun digit_groups :: "bool \<Rightarrow> int \<Rightarrow> string \<Rightarrow> int option" where
  "digit_groups after acc [] = (if after then Some acc else None)"
| "digit_groups after acc (c # cs) =
     (if is_digit c then digit_groups True (10 * acc + (chr_code c - 48)) cs
      else if c = CHR ''_'' \<and> after then digit_groups False acc cs
      else None)"

definition int_of_text :: "string \<Rightarrow> int option" where
  "int_of_text s =
     (case strip s of
        [] \<Rightarrow> None
      | c # cs \<Rightarrow>
          if c = CHR ''-'' then map_option uminus (digit_groups False 0 cs)
          else if c = CHR ''+'' then digit_groups False 0 cs
          else digit_groups False 0 (c # cs))"

text \<open>\<open>int(v or 0)\<close>.\<close>

definition int_or_zero :: "pyval \<Rightarrow> collector_exn + int" where
  "int_or_zero v =
     (if \<not> py_truth v then Inr 0
      else
        (case v of
           PInt i \<Rightarrow> Inr i
         | PBool b \<Rightarrow> Inr 1
         | PStr s \<Rightarrow> (case int_of_text s of None \<Rightarrow> Inl NotAnInteger | Some i \<Rightarrow> Inr i)
         | _ \<Rightarrow> Inl NotAnInteger))"

fun event_detail :: "pydict \<Rightarrow> pydict" where
  "event_detail event =
     (case dict_get event ''failure'' of
        PDict d \<Rightarrow> d
      | _ \<Rightarrow> as_dict (dict_get event ''gap''))"

definition after_last_colon :: "string \<Rightarrow> string" where
  "after_last_colon s = last (split_on (CHR '':'') s)"

definition failure_signature_of :: "(pyval \<Rightarrow> string) \<Rightarrow> pydict \<Rightarrow> pydict \<Rightarrow> string option" where
  "failure_signature_of cs event detail =
     (let signature = text_field cs detail ''signature''
      in if signature \<noteq> [] then Some signature
         else
           (case dict_get event ''repair'' of
              PDict repair \<Rightarrow>
                (case dict_get repair ''failure_ids'' of
                   PList (first # _) \<Rightarrow> nonempty (strip (after_last_colon (py_str_by cs first)))
                 | _ \<Rightarrow> None)
            | _ \<Rightarrow> None))"

text \<open>
  \<open>_validate_governed_attribution\<close>: the disjunction of the source is evaluated from left
  to right, so the counters are only converted when the three names are right.
\<close>

definition governed_gap :: "pydict \<Rightarrow> collector_exn + unit" where
  "governed_gap a =
     (if dict_get a ''action'' \<noteq> PStr ''capability_gap'' \<or> dict_get a ''origin'' \<noteq> PStr ''harness''
         \<or> dict_get a ''reason_code'' \<noteq> PStr ''cross_run_reproducible_harness_defect''
      then Inl GapNeedsEvidence
      else bind_res (int_or_zero (get_or a ''independent_run_count'' (PInt 0))) (\<lambda>runs.
        if runs < 2 then Inl GapNeedsEvidence
        else bind_res (int_or_zero (get_or a ''independent_project_count'' (PInt 0))) (\<lambda>projects.
          if projects < 2 then Inl GapNeedsEvidence else Inr ())))"

definition validate_governed_attribution :: "string \<Rightarrow> pydict \<Rightarrow> collector_exn + unit" where
  "validate_governed_attribution event_type event =
     (if event_type = ''capability_gap'' then
        (case dict_get event ''attribution'' of
           PDict a \<Rightarrow> governed_gap a
         | _ \<Rightarrow> Inl GapNeedsAttribution)
      else if event_type = ''harness_defect_observed'' then
        (case dict_get event ''attribution'' of
           PDict a \<Rightarrow>
             if dict_get a ''action'' \<noteq> PStr ''observe_harness'' \<or> dict_get a ''origin'' \<noteq> PStr ''harness''
             then Inl ObservationNeedsAttribution else Inr ()
         | _ \<Rightarrow> Inl ObservationNeedsAttribution)
      else Inr ())"

definition outcome_of :: "(pyval \<Rightarrow> string) \<Rightarrow> string \<Rightarrow> pydict \<Rightarrow> observation_outcome" where
  "outcome_of cs event_type event =
     (if event_type = ''capability_gap_resolved'' then O_RESOLVED
      else if event_type = ''hard_constraint_conflict'' then O_HARD_CONFLICT
      else
        (let status = (case dict_get event ''repair'' of
                         PDict r \<Rightarrow> py_str_by cs (get_or r ''status'' (PStr [])) | _ \<Rightarrow> [])
         in if status = ''improved'' then O_IMPROVED
            else if status = ''verified'' then O_VERIFIED
            else if status = ''rejected'' then O_REJECTED
            else if status = ''error'' then O_ERROR
            else O_OBSERVED))"

definition event_type_pattern :: "string \<Rightarrow> bool" where
  "event_type_pattern s =
     (case s of [] \<Rightarrow> False
      | c # cs \<Rightarrow> lower_alpha c \<and> bounded 1 63 cs
          \<and> (\<forall>x \<in> set cs. lower_alpha x \<or> is_digit x \<or> x = CHR ''_''))"

text \<open>The constraints of the observation contract.\<close>

definition observation_valid :: "evolution_observation \<Rightarrow> bool" where
  "observation_valid o' =
     (digest_pattern (observation_id o') \<and> 0 \<le> source_event_seq o' \<and> bounded 1 120 (obs_harness_version_id o')
      \<and> digest_pattern (obs_harness_manifest_digest o') \<and> bounded 1 120 (obs_profile_reference o')
      \<and> digest_pattern (obs_profile_digest o') \<and> digest_pattern (scope_fingerprint o')
      \<and> digest_pattern (project_fingerprint o') \<and> event_type_pattern (obs_event_type o')
      \<and> pred_option (bounded 1 128) (obs_failure_signature o') \<and> bounded 1 120 (obs_step o')
      \<and> pred_option (bounded 0 200) (obs_check_name o') \<and> pred_option (bounded 0 80) (obs_category o')
      \<and> pred_option (bounded 0 80) (obs_recoverability o') \<and> pred_option (bounded 0 160) (obs_strategy o')
      \<and> pred_option (bounded 0 160) (obs_required_capability o') \<and> 0 \<le> obs_revision o'
      \<and> digest_pattern (evidence_digest o'))"

definition observation_identity ::
    "observation_context \<Rightarrow> string \<Rightarrow> string \<Rightarrow> string \<Rightarrow> pyval" where
  "observation_identity ctx scope event_type evidence =
     PDict [(''sourceEventSeq'', PInt (ctx_source_event_seq ctx)),
            (''harnessManifestDigest'', PStr (identity_digest (ctx_harness ctx))),
            (''scopeFingerprint'', PStr scope), (''eventType'', PStr event_type),
            (''evidenceDigest'', PStr evidence)]"

definition build_observation ::
    "(pyval \<Rightarrow> string) \<Rightarrow> pydict \<Rightarrow> observation_context \<Rightarrow> string \<Rightarrow> int \<Rightarrow> string \<Rightarrow> string \<Rightarrow> int
       \<Rightarrow> evolution_observation" where
  "build_observation cs event ctx key now event_type step revision =
     (let detail = event_detail event;
          repair = as_dict (dict_get event ''repair''); replan = as_dict (dict_get event ''replan'');
          evidence = hmac_of key ''evidence-v1'' (PDict event);
          scope = hmac_of key ''scope-v1'' (PList [PStr (tenant_id ctx), PStr (ctx_run_id ctx)]);
          project = hmac_of key ''project-v1'' (PList [PStr (tenant_id ctx), PStr (project_id ctx)]);
          strategy = str_or (text_field cs repair ''strategy'') (text_field cs replan ''rollback_to'')
      in \<lparr>observation_id = sha256 (canonical (observation_identity ctx scope event_type evidence)),
          source_event_seq = ctx_source_event_seq ctx,
          obs_harness_version_id = version_id (ctx_harness ctx),
          obs_harness_channel = channel (ctx_harness ctx),
          obs_harness_manifest_digest = identity_digest (ctx_harness ctx),
          obs_profile_reference = ctx_profile_reference ctx,
          obs_profile_digest = ctx_profile_digest ctx,
          scope_fingerprint = scope, project_fingerprint = project,
          obs_event_type = event_type,
          obs_failure_signature = failure_signature_of cs event detail,
          obs_step = step,
          obs_check_name = nonempty (text_field cs detail ''check_name''),
          obs_category = nonempty (text_field cs detail ''category''),
          obs_recoverability = nonempty (text_field cs detail ''recoverability''),
          obs_strategy = nonempty strategy,
          obs_required_capability = nonempty (text_field cs detail ''required_capability''),
          obs_outcome = outcome_of cs event_type event,
          obs_revision = max 0 revision,
          evidence_digest = evidence, observed_at = now\<rparr>)"

definition observation_from_ahe_event ::
    "(pyval \<Rightarrow> string) \<Rightarrow> pydict \<Rightarrow> observation_context \<Rightarrow> string \<Rightarrow> int
       \<Rightarrow> collector_exn + evolution_observation" where
  "observation_from_ahe_event cs event ctx key now =
     (let event_type = text_field cs event ''event''; step = text_field cs event ''step''
      in if length key < 32 then Inl ShortKey
         else if ctx_source_event_seq ctx < 0 then Inl NegativeSequence
         else if dict_get event ''kind'' \<noteq> PStr ''ahe_event'' then Inl NotAheEvent
         else if event_type = [] \<or> step = [] then Inl MissingEventOrStep
         else bind_res (validate_governed_attribution event_type event) (\<lambda>_.
           bind_res (int_or_zero (get_or event ''revision'' (PInt 0))) (\<lambda>revision.
             (let o' = build_observation cs event ctx key now event_type step revision
              in if observation_valid o' then Inr o' else Inl InvalidObservation))))"

section \<open>Aggregation\<close>

type_synonym gap_key = "string \<times> string \<times> string"

type_synonym by_project = "(string \<times> evolution_observation list) list"

definition gap_key_of :: "evolution_observation \<Rightarrow> gap_key" where
  "gap_key_of i =
     (obs_harness_version_id i, obs_harness_manifest_digest i, the (obs_failure_signature i))"

definition keyed :: "evolution_observation \<Rightarrow> bool" where
  "keyed i = (case obs_failure_signature i of None \<Rightarrow> False | Some s \<Rightarrow> s \<noteq> [])"

definition resolves :: "evolution_observation \<Rightarrow> bool" where
  "resolves i = (obs_event_type i = ''capability_gap_resolved'')"

definition reports_gap :: "evolution_observation \<Rightarrow> bool" where
  "reports_gap i =
     (obs_event_type i = ''harness_defect_observed'' \<and> obs_recoverability i = Some ''harness_observation''
      \<or> obs_event_type i = ''capability_gap'' \<and> obs_recoverability i = Some ''capability_gap'')"

definition lookup_list :: "('k \<times> 'v list) list \<Rightarrow> 'k \<Rightarrow> 'v list" where
  "lookup_list d k = (case map_of d k of None \<Rightarrow> [] | Some v \<Rightarrow> v)"

definition note_observation :: "evolution_observation \<Rightarrow> (gap_key \<times> by_project) list \<Rightarrow> (gap_key \<times> by_project) list" where
  "note_observation i active =
     (if \<not> keyed i then active
      else
        (let k = gap_key_of i; projects = lookup_list active k; p = project_fingerprint i
         in AList.update k
              (if resolves i then AList.delete p projects
               else if reports_gap i then AList.update p (lookup_list projects p @ [i]) projects
               else projects) active))"

definition active_gaps :: "evolution_observation list \<Rightarrow> (gap_key \<times> by_project) list" where
  "active_gaps obs =
     fold note_observation
       (sort_key (\<lambda>i. (observed_at i, source_event_seq i, observation_id i)) obs) []"

definition opt_json :: "string option \<Rightarrow> pyval" where
  "opt_json x = (case x of None \<Rightarrow> PNone | Some s \<Rightarrow> PStr s)"

definition candidate_identity :: "string \<Rightarrow> string \<Rightarrow> evolution_observation \<Rightarrow> pyval" where
  "candidate_identity digest signature r =
     PDict [(''baseManifestDigest'', PStr digest), (''failureSignature'', PStr signature),
            (''step'', PStr (obs_step r)), (''checkName'', opt_json (obs_check_name r))]"

definition build_candidate :: "int \<Rightarrow> gap_key \<Rightarrow> by_project \<Rightarrow> evolution_candidate" where
  "build_candidate minimum key projects =
     (let (version, digest, signature) = key;
          relevant = concat (map snd projects); r = last relevant; n = int (length projects)
      in \<lparr>candidate_id = sha256 (canonical (candidate_identity digest signature r)),
          base_harness_version_id = version, base_manifest_digest = digest,
          cand_failure_signature = signature, cand_step = obs_step r,
          cand_check_name = obs_check_name r, cand_category = obs_category r,
          cand_required_capability = obs_required_capability r,
          profile_references = sorted_set (map obs_profile_reference relevant),
          observation_ids = sorted_set (map observation_id relevant),
          occurrence_count = int (length relevant), project_count = n,
          cand_status = (if n \<ge> minimum then C_ELIGIBLE else C_OBSERVED)\<rparr>)"

text \<open>
  The list bounds of the candidate contract; its other constraints are those of the
  observations it is built from.
\<close>

definition candidate_lists_ok :: "evolution_candidate \<Rightarrow> bool" where
  "candidate_lists_ok c = (bounded 1 16 (profile_references c) \<and> bounded 1 10000 (observation_ids c))"

fun candidates_of :: "int \<Rightarrow> (gap_key \<times> by_project) list \<Rightarrow> collector_exn + evolution_candidate list" where
  "candidates_of minimum [] = Inr []"
| "candidates_of minimum ((key, projects) # rest) =
     (if concat (map snd projects) = [] then candidates_of minimum rest
      else
        (let c = build_candidate minimum key projects
         in if candidate_lists_ok c
            then bind_res (candidates_of minimum rest) (\<lambda>cs. Inr (c # cs))
            else Inl InvalidCandidate))"

definition aggregate_candidates ::
    "evolution_observation list \<Rightarrow> int \<Rightarrow> collector_exn + evolution_candidate list" where
  "aggregate_candidates obs minimum =
     (if minimum < 2 then Inl TooFewProjects
      else candidates_of minimum (sort_key fst (active_gaps obs)))"

end
