(* ===== verification/Collector_Facts.thy ===== *)
theory Collector_Facts
  imports Collector "HOL-Library.Multiset"
begin

text \<open>
  What the collector promises: a capability gap enters the record only with evidence
  from two runs and two projects, and the dictionaries that aggregation maintains
  implement a simple specification, the reports of a gap in a project since its last
  resolution there.
\<close>

section \<open>Observations\<close>

text \<open>
  An event becomes a capability-gap observation only when its attribution names the
  harness as origin, with a reproducible defect seen in at least two independent runs
  and two independent projects; the observation satisfies its contract and was
  fingerprinted with a key of at least 32 bytes.
\<close>

theorem gap_needs_independent_evidence:
  assumes "observation_from_ahe_event cs event ctx key now = Inr x" and "obs_event_type x = ''capability_gap''"
  shows "32 \<le> length key \<and> observation_valid x
    \<and> (\<exists>a runs projects. dict_get event ''attribution'' = PDict a
         \<and> dict_get a ''origin'' = PStr ''harness''
         \<and> dict_get a ''reason_code'' = PStr ''cross_run_reproducible_harness_defect''
         \<and> int_or_zero (get_or a ''independent_run_count'' (PInt 0)) = Inr runs \<and> 2 \<le> runs
         \<and> int_or_zero (get_or a ''independent_project_count'' (PInt 0)) = Inr projects \<and> 2 \<le> projects)"
proof -
  have key: "\<not> length key < 32" using assms(1) by (auto simp: observation_from_ahe_event_def Let_def)
  from assms(1) obtain rev where attr: "validate_governed_attribution (text_field cs event ''event'') event = Inr ()"
    and x: "x = build_observation cs event ctx key now (text_field cs event ''event'') (text_field cs event ''step'') rev"
    and valid: "observation_valid x"
    by (auto simp: observation_from_ahe_event_def Let_def bind_res_Inr_iff split: if_split_asm)
  from x assms(2) have "text_field cs event ''event'' = ''capability_gap''"
    by (simp add: build_observation_def Let_def)
  with attr obtain a where a: "dict_get event ''attribution'' = PDict a" and g: "governed_gap a = Inr ()"
    by (auto simp: validate_governed_attribution_def split: pyval.splits)
  from g a key valid show ?thesis
    by (auto simp: governed_gap_def bind_res_Inr_iff split: if_split_asm)
qed

section \<open>Aggregation\<close>

text \<open>The specification: per gap and project, the reports since the last resolution.\<close>

definition report_step ::
    "gap_key \<Rightarrow> string \<Rightarrow> evolution_observation \<Rightarrow> evolution_observation list \<Rightarrow> evolution_observation list" where
  "report_step k p i l =
     (if keyed i \<and> gap_key_of i = k \<and> project_fingerprint i = p
      then (if resolves i then [] else if reports_gap i then l @ [i] else l)
      else l)"

definition open_reports :: "gap_key \<Rightarrow> string \<Rightarrow> evolution_observation list \<Rightarrow> evolution_observation list" where
  "open_reports k p obs =
     fold (report_step k p) (sort_key (\<lambda>i. (observed_at i, source_event_seq i, observation_id i)) obs) []"

definition projects_ok :: "by_project \<Rightarrow> bool" where
  "projects_ok ps = (distinct (map fst ps) \<and> [] \<notin> snd ` set ps)"

definition gaps_ok :: "(gap_key \<times> by_project) list \<Rightarrow> bool" where
  "gaps_ok active = (distinct (map fst active) \<and> (\<forall>ps \<in> snd ` set active. projects_ok ps))"

lemma gaps_okD: "gaps_ok a \<Longrightarrow> (k, ps) \<in> set a \<Longrightarrow> projects_ok ps"
  by (force simp: gaps_ok_def)

lemma lookup_list_update [simp]:
  "lookup_list (AList.update k v d) k' = (if k' = k then v else lookup_list d k')"
  by (simp add: lookup_list_def update_conv')

lemma lookup_list_delete [simp]: "lookup_list (AList.delete k d) k' = (if k' = k then [] else lookup_list d k')"
  by (simp add: lookup_list_def delete_conv')

lemma lookup_list_Nil [simp]: "lookup_list [] k = []"
  by (simp add: lookup_list_def)

lemma lookup_list_mem: "lookup_list d k \<noteq> [] \<Longrightarrow> (k, lookup_list d k) \<in> set d"
  by (auto simp: lookup_list_def split: option.splits dest!: map_of_SomeD)

lemma snd_update_subset: "snd ` set (AList.update k v d) \<subseteq> insert v (snd ` set d)"
  by (induction d) auto

lemma snd_delete_subset: "snd ` set (AList.delete k d) \<subseteq> snd ` set d"
  by (induction d) auto

lemma note_observation_ok:
  assumes "gaps_ok a"
  shows "gaps_ok (note_observation i a)"
proof -
  let ?ps = "lookup_list a (gap_key_of i)"
  define qs where "qs = (if resolves i then AList.delete (project_fingerprint i) ?ps
     else if reports_gap i
     then AList.update (project_fingerprint i) (lookup_list ?ps (project_fingerprint i) @ [i]) ?ps else ?ps)"
  have old: "projects_ok ?ps"
  proof (cases "?ps = []")
    case False
    from gaps_okD [OF assms lookup_list_mem [OF False]] show ?thesis .
  qed (simp add: projects_ok_def)
  have "projects_ok qs"
    using old snd_update_subset [of "project_fingerprint i" "lookup_list ?ps (project_fingerprint i) @ [i]" ?ps]
      snd_delete_subset [of "project_fingerprint i" ?ps]
    by (auto simp: qs_def projects_ok_def distinct_update distinct_delete)
  moreover have "projects_ok ps" if "ps \<in> snd ` set a" for ps
    using that gaps_okD [OF assms] by auto
  ultimately have "\<forall>ps \<in> snd ` set (AList.update (gap_key_of i) qs a). projects_ok ps"
    using snd_update_subset [of "gap_key_of i" qs a] by blast
  moreover have "distinct (map fst (AList.update (gap_key_of i) qs a))"
    using assms by (simp add: gaps_ok_def distinct_update)
  ultimately have "gaps_ok (AList.update (gap_key_of i) qs a)" by (simp only: gaps_ok_def simp_thms)
  with assms show ?thesis by (simp add: note_observation_def qs_def Let_def)
qed

lemma note_observation_lookup:
  "lookup_list (lookup_list (note_observation i a) k) p = report_step k p i (lookup_list (lookup_list a k) p)"
  by (auto simp: note_observation_def report_step_def Let_def)

lemma fold_note_ok: "gaps_ok a \<Longrightarrow> gaps_ok (fold note_observation xs a)"
  by (induction xs arbitrary: a) (auto intro: note_observation_ok)

lemma fold_note_lookup:
  "lookup_list (lookup_list (fold note_observation xs a) k) p
     = fold (report_step k p) xs (lookup_list (lookup_list a k) p)"
  by (induction xs arbitrary: a) (auto simp: note_observation_lookup)

lemma active_gaps_ok: "gaps_ok (active_gaps obs)"
  unfolding active_gaps_def by (rule fold_note_ok) (simp add: gaps_ok_def)

lemma active_gaps_refine: "lookup_list (lookup_list (active_gaps obs) k) p = open_reports k p obs"
  by (simp add: active_gaps_def open_reports_def fold_note_lookup)

lemma distinct_lookup: "distinct (map fst d) \<Longrightarrow> (k, v) \<in> set d \<Longrightarrow> lookup_list d k = v"
  by (simp add: lookup_list_def)

lemma open_projects:
  assumes "(k, ps) \<in> set (active_gaps obs)"
  shows "{p. open_reports k p obs \<noteq> []} = fst ` set ps" and "length ps = card {p. open_reports k p obs \<noteq> []}"
    and "set (concat (map snd ps)) = (\<Union>p. set (open_reports k p obs))"
proof -
  have d: "distinct (map fst ps)" "[] \<notin> snd ` set ps" and look: "lookup_list (active_gaps obs) k = ps"
    using gaps_okD [OF active_gaps_ok assms] active_gaps_ok [of obs] assms
    by (simp_all add: projects_ok_def gaps_ok_def distinct_lookup)
  have r: "open_reports k p obs = lookup_list ps p" for p using active_gaps_refine [of obs k p] look by simp
  have "lookup_list ps p \<noteq> [] \<longleftrightarrow> p \<in> fst ` set ps" for p
  proof
    assume "p \<in> fst ` set ps"
    then obtain l where "(p, l) \<in> set ps" by force
    with d distinct_lookup [OF d(1) this] show "lookup_list ps p \<noteq> []" by force
  qed (use lookup_list_mem in force)
  then show eq: "{p. open_reports k p obs \<noteq> []} = fst ` set ps" by (auto simp: r)
  show "length ps = card {p. open_reports k p obs \<noteq> []}"
    unfolding eq by (metis d(1) distinct_card length_map list.set_map)
  show "set (concat (map snd ps)) = (\<Union>p. set (open_reports k p obs))"
  proof (rule set_eqI)
    fix x
    have "x \<in> set (concat (map snd ps)) \<longleftrightarrow> (\<exists>p l. (p, l) \<in> set ps \<and> x \<in> set l)" by force
    also have "\<dots> \<longleftrightarrow> (\<exists>p. x \<in> set (lookup_list ps p))"
      using distinct_lookup [OF d(1)] lookup_list_mem [of ps] by (metis empty_iff empty_set)
    finally show "x \<in> set (concat (map snd ps)) \<longleftrightarrow> x \<in> (\<Union>p. set (open_reports k p obs))"
      by (simp only: r UN_iff UNIV_I bex_simps simp_thms bex_UNIV)
  qed
qed

lemma candidates_of_Inr:
  "candidates_of m es = Inr cs \<Longrightarrow>
     cs = map (\<lambda>(k, ps). build_candidate m k ps) (filter (\<lambda>(k, ps). concat (map snd ps) \<noteq> []) es)"
proof (induction m es arbitrary: cs rule: candidates_of.induct)
  case (2 m k ps rest)
  then show ?case by (auto simp: Let_def bind_res_Inr_iff split: if_split_asm)
qed simp

lemma candidates_of_total:
  "(\<exists>cs. candidates_of m es = Inr cs) \<longleftrightarrow>
     (\<forall>(k, ps) \<in> set es. concat (map snd ps) \<noteq> [] \<longrightarrow> candidate_lists_ok (build_candidate m k ps))"
proof (induction m es rule: candidates_of.induct)
  case (2 m k ps rest)
  then show ?case by (auto simp: Let_def bind_res_Inr_iff split: if_split)
qed simp

definition candidate_key :: "evolution_candidate \<Rightarrow> gap_key" where
  "candidate_key c = (base_harness_version_id c, base_manifest_digest c, cand_failure_signature c)"

lemma build_candidate_fields:
  "candidate_key (build_candidate m k ps) = k"
  "project_count (build_candidate m k ps) = int (length ps)"
  "occurrence_count (build_candidate m k ps) = int (length (concat (map snd ps)))"
  "cand_status (build_candidate m k ps) = (if int (length ps) \<ge> m then C_ELIGIBLE else C_OBSERVED)"
  "set (observation_ids (build_candidate m k ps)) = observation_id ` set (concat (map snd ps))"
  "set (profile_references (build_candidate m k ps)) = obs_profile_reference ` set (concat (map snd ps))"
  "distinct (observation_ids (build_candidate m k ps))"
  "distinct (profile_references (build_candidate m k ps))"
  by (cases k; simp add: build_candidate_def Let_def candidate_key_def)+

lemma concat_Nil_iff: "concat (map snd ps) = [] \<longleftrightarrow> set (concat (map snd ps)) = {}"
  by (simp only: set_empty)

lemma live_gap:
  "(\<exists>ps. (k, ps) \<in> set (active_gaps obs) \<and> concat (map snd ps) \<noteq> []) \<longleftrightarrow> (\<exists>p. open_reports k p obs \<noteq> [])"
proof
  assume "\<exists>ps. (k, ps) \<in> set (active_gaps obs) \<and> concat (map snd ps) \<noteq> []"
  then obtain ps where ps: "(k, ps) \<in> set (active_gaps obs)" and "set (concat (map snd ps)) \<noteq> {}"
    using concat_Nil_iff by blast
  then have "(\<Union>p. set (open_reports k p obs)) \<noteq> {}" using open_projects(3) [OF ps] by argo
  then show "\<exists>p. open_reports k p obs \<noteq> []" by auto
next
  assume "\<exists>p. open_reports k p obs \<noteq> []"
  then obtain p where p: "open_reports k p obs \<noteq> []" by blast
  then have "lookup_list (active_gaps obs) k \<noteq> []" using active_gaps_refine [of obs k p] by fastforce
  then have ps: "(k, lookup_list (active_gaps obs) k) \<in> set (active_gaps obs)" by (rule lookup_list_mem)
  obtain x where "x \<in> set (open_reports k p obs)" using p by (meson last_in_set)
  then have "x \<in> (\<Union>q. set (open_reports k q obs))" by (rule UN_I [OF UNIV_I])
  then have "(\<Union>q. set (open_reports k q obs)) \<noteq> {}" by (metis empty_iff)
  then have "set (concat (map snd (lookup_list (active_gaps obs) k))) \<noteq> {}"
    using open_projects(3) [OF ps] by argo
  then have "concat (map snd (lookup_list (active_gaps obs) k)) \<noteq> []" by (simp only: concat_Nil_iff not_False_eq_True)
  with ps show "\<exists>ps. (k, ps) \<in> set (active_gaps obs) \<and> concat (map snd ps) \<noteq> []" by blast
qed

text \<open>
  C39: aggregation implements its specification: it yields exactly one candidate per gap
  that some project still has open, in the order of the gaps, where a gap is open in a project when it was
  reported there after its last resolution; the candidate counts those projects, carries
  the identifiers of exactly the open reports, and is eligible exactly when the number
  of projects reaches the minimum, which is at least two.
\<close>

theorem candidates_are_open_gaps:
  assumes "aggregate_candidates obs m = Inr cs"
  shows "2 \<le> m
    \<and> distinct (map candidate_key cs) \<and> sorted (map candidate_key cs)
    \<and> candidate_key ` set cs = {k. \<exists>p. open_reports k p obs \<noteq> []}
    \<and> (\<forall>c \<in> set cs.
         project_count c = int (card {p. open_reports (candidate_key c) p obs \<noteq> []})
         \<and> set (observation_ids c) = observation_id ` (\<Union>p. set (open_reports (candidate_key c) p obs))
         \<and> (cand_status c = C_ELIGIBLE \<longleftrightarrow> project_count c \<ge> m))"
proof -
  from assms have m: "2 \<le> m"
    and cs: "cs = map (\<lambda>(k, ps). build_candidate m k ps)
        (filter (\<lambda>(k, ps). concat (map snd ps) \<noteq> []) (sort_key fst (active_gaps obs)))"
    by (auto simp: aggregate_candidates_def split: if_split_asm dest: candidates_of_Inr)
  have listed: "map candidate_key cs = map fst (filter (\<lambda>(k, ps). concat (map snd ps) \<noteq> []) (sort_key fst (active_gaps obs)))"
    by (simp add: cs build_candidate_fields(1) comp_def split_beta)
  have "mset (map fst (sort_key fst (active_gaps obs))) = mset (map fst (active_gaps obs))" by simp
  then have "distinct (map fst (sort_key fst (active_gaps obs)))"
    using active_gaps_ok [of obs] unfolding gaps_ok_def by (metis mset_eq_imp_distinct_iff)
  then have once: "distinct (map candidate_key cs)" unfolding listed by (rule distinct_map_filter)
  have order: "sorted (map candidate_key cs)" unfolding listed by (intro sorted_filter sorted_sort_key)
  have keys: "candidate_key ` set cs = {k. \<exists>p. open_reports k p obs \<noteq> []}"
  proof (rule set_eqI)
    fix k
    have "k \<in> candidate_key ` set cs \<longleftrightarrow> (\<exists>ps. (k, ps) \<in> set (active_gaps obs) \<and> concat (map snd ps) \<noteq> [])"
      by (force simp: cs build_candidate_fields(1))
    then show "k \<in> candidate_key ` set cs \<longleftrightarrow> k \<in> {k. \<exists>p. open_reports k p obs \<noteq> []}"
      unfolding live_gap by simp
  qed
  have "project_count c = int (card {p. open_reports (candidate_key c) p obs \<noteq> []})
      \<and> set (observation_ids c) = observation_id ` (\<Union>p. set (open_reports (candidate_key c) p obs))
      \<and> (cand_status c = C_ELIGIBLE \<longleftrightarrow> project_count c \<ge> m)" if c: "c \<in> set cs" for c
  proof -
    from c obtain k ps where k: "(k, ps) \<in> set (active_gaps obs)" "c = build_candidate m k ps"
      by (auto simp: cs)
    from open_projects(2,3) [OF k(1)] show ?thesis
      by (simp add: k(2) build_candidate_fields del: set_concat)
  qed
  with m keys once order show ?thesis by blast
qed

text \<open>
  C40: aggregation succeeds exactly when every open gap was seen under at most sixteen
  profiles and in at most ten thousand observations: a single gap beyond the bounds of the
  candidate contract makes the whole aggregation raise, the candidates of every other
  gap included.
\<close>

theorem aggregation_succeeds_iff:
  assumes "2 \<le> m"
  shows "(\<exists>cs. aggregate_candidates obs m = Inr cs) \<longleftrightarrow>
    (\<forall>k. card (obs_profile_reference ` (\<Union>p. set (open_reports k p obs))) \<le> 16
       \<and> card (observation_id ` (\<Union>p. set (open_reports k p obs))) \<le> 10000)"
proof -
  let ?all = "\<lambda>k. \<Union>p. set (open_reports k p obs)"
  have lists: "candidate_lists_ok (build_candidate m k ps) \<longleftrightarrow>
      card (obs_profile_reference ` ?all k) \<le> 16 \<and> card (observation_id ` ?all k) \<le> 10000"
    if "(k, ps) \<in> set (active_gaps obs)" "concat (map snd ps) \<noteq> []" for k ps
  proof -
    let ?c = "build_candidate m k ps"
    note u = open_projects(3) [OF that(1)]
    have "length (profile_references ?c) = card (obs_profile_reference ` ?all k)"
      "length (observation_ids ?c) = card (observation_id ` ?all k)"
      by (metis distinct_card build_candidate_fields(6,8) u) (metis distinct_card build_candidate_fields(5,7) u)
    moreover have "profile_references ?c \<noteq> []" "observation_ids ?c \<noteq> []"
      using that(2) build_candidate_fields(5,6) [of m k ps]
      by (metis concat_Nil_iff image_is_empty set_empty)+
    ultimately show ?thesis
      unfolding candidate_lists_ok_def bounded_def by (metis One_nat_def Suc_le_eq length_greater_0_conv)
  qed
  have none: "?all k = {}" if "\<not> (\<exists>ps. (k, ps) \<in> set (active_gaps obs) \<and> concat (map snd ps) \<noteq> [])" for k
    using that unfolding live_gap by simp
  have "(\<exists>cs. aggregate_candidates obs m = Inr cs) \<longleftrightarrow>
      (\<forall>(k, ps) \<in> set (active_gaps obs). concat (map snd ps) \<noteq> [] \<longrightarrow> candidate_lists_ok (build_candidate m k ps))"
    using assms by (simp add: aggregate_candidates_def candidates_of_total)
  also have "\<dots> \<longleftrightarrow> (\<forall>k. card (obs_profile_reference ` ?all k) \<le> 16 \<and> card (observation_id ` ?all k) \<le> 10000)"
    (is "?l \<longleftrightarrow> ?r")
  proof
    assume ?l
    show ?r
    proof
      fix k
      show "card (obs_profile_reference ` ?all k) \<le> 16 \<and> card (observation_id ` ?all k) \<le> 10000"
      proof (cases "\<exists>ps. (k, ps) \<in> set (active_gaps obs) \<and> concat (map snd ps) \<noteq> []")
        case True
        with \<open>?l\<close> lists show ?thesis by blast
      next
        case False
        with none [of k] show ?thesis by simp
      qed
    qed
  next
    assume ?r
    with lists show ?l by blast
  qed
  finally show ?thesis .
qed

section \<open>An example history\<close>

text \<open>Two projects report a gap; the first resolves it and a third reports it later.\<close>

definition sample_observation :: "int \<Rightarrow> string \<Rightarrow> string \<Rightarrow> evolution_observation" where
  "sample_observation seq project event =
     \<lparr>observation_id = int_str seq, source_event_seq = seq, obs_harness_version_id = ''v'',
      obs_harness_channel = STABLE, obs_harness_manifest_digest = ''m'', obs_profile_reference = ''p'',
      obs_profile_digest = [], scope_fingerprint = [], project_fingerprint = project,
      obs_event_type = event, obs_failure_signature = Some ''sig'', obs_step = ''erc'',
      obs_check_name = None, obs_category = None, obs_recoverability = Some ''capability_gap'',
      obs_strategy = None, obs_required_capability = None, obs_outcome = O_OBSERVED, obs_revision = 0,
      evidence_digest = [], observed_at = seq\<rparr>"

definition sample_history :: "evolution_observation list" where
  "sample_history =
     [sample_observation 3 ''a'' ''capability_gap_resolved'', sample_observation 1 ''a'' ''capability_gap'',
      sample_observation 2 ''b'' ''capability_gap'', sample_observation 4 ''c'' ''capability_gap'']"

lemma sample_gaps:
  "active_gaps sample_history =
     [((''v'', ''m'', ''sig''),
       [(''b'', [sample_observation 2 ''b'' ''capability_gap'']),
        (''c'', [sample_observation 4 ''c'' ''capability_gap''])])]"
  by code_simp

lemma sample_lists: "candidate_lists_ok (build_candidate 2 (''v'', ''m'', ''sig'')
   [(''b'', [sample_observation 2 ''b'' ''capability_gap'']), (''c'', [sample_observation 4 ''c'' ''capability_gap''])])"
  by (simp add: candidate_lists_ok_def build_candidate_def bounded_def sorted_set_def sample_observation_def)

lemma sample_aggregation: "\<exists>c. aggregate_candidates sample_history 2 = Inr [c] \<and> project_count c = 2
    \<and> candidate_key c = (''v'', ''m'', ''sig'')"
  using sample_lists
  by (simp add: aggregate_candidates_def sample_gaps Let_def build_candidate_fields)

theorem candidates_are_open_gaps_witness:
  "\<exists>c. aggregate_candidates sample_history 2 = Inr [c] \<and> cand_status c = C_ELIGIBLE
     \<and> card {p. open_reports (''v'', ''m'', ''sig'') p sample_history \<noteq> []} = 2"
proof -
  obtain c where c: "aggregate_candidates sample_history 2 = Inr [c]" "project_count c = 2"
    "candidate_key c = (''v'', ''m'', ''sig'')" using sample_aggregation by blast
  from candidates_are_open_gaps [OF c(1)] c(2,3) have "cand_status c = C_ELIGIBLE"
    "card {p. open_reports (''v'', ''m'', ''sig'') p sample_history \<noteq> []} = 2" by auto
  with c(1) show ?thesis by blast
qed

theorem aggregation_succeeds_iff_witness:
  "card (obs_profile_reference ` (\<Union>p. set (open_reports (''v'', ''m'', ''sig'') p sample_history))) \<le> 16"
  using aggregation_succeeds_iff [of 2 sample_history] sample_aggregation by auto

definition sample_event :: pydict where
  "sample_event =
     [(''kind'', PStr ''ahe_event''), (''event'', PStr ''capability_gap''), (''step'', PStr ''erc''),
      (''gap'', PDict [(''signature'', PStr ''sig'')]),
      (''attribution'', PDict [(''action'', PStr ''capability_gap''), (''origin'', PStr ''harness''),
         (''reason_code'', PStr ''cross_run_reproducible_harness_defect''),
         (''independent_run_count'', PInt 3), (''independent_project_count'', PStr ''2'')])]"

definition sample_context :: observation_context where
  "sample_context =
     \<lparr>tenant_id = ''t'', project_id = ''a'', ctx_run_id = ''r'', ctx_source_event_seq = 5,
      ctx_harness = \<lparr>version_id = ''v'', channel = STABLE, identity_digest = replicate 64 (CHR ''a'')\<rparr>,
      ctx_profile_reference = ''p'', ctx_profile_digest = replicate 64 (CHR ''b'')\<rparr>"

definition sample_key :: string where
  "sample_key = replicate 32 (CHR ''k'')"

lemma hmac_digest: "digest_pattern (hmac_of key domain v)"
  by (simp add: hmac_of_def hmac_sha256_def Let_def sha256_hex)

lemma sample_event_facts:
  "text_field (\<lambda>_. []) sample_event ''event'' = ''capability_gap''"
  "text_field (\<lambda>_. []) sample_event ''step'' = ''erc''"
  "validate_governed_attribution ''capability_gap'' sample_event = Inr ()"
  "int_or_zero (get_or sample_event ''revision'' (PInt 0)) = Inr 0"
  "dict_get sample_event ''kind'' = PStr ''ahe_event''"
  "failure_signature_of (\<lambda>_. []) sample_event (event_detail sample_event) = Some ''sig''"
  "text_field (\<lambda>_. []) (event_detail sample_event) ''check_name'' = []"
  "text_field (\<lambda>_. []) (event_detail sample_event) ''category'' = []"
  "text_field (\<lambda>_. []) (event_detail sample_event) ''recoverability'' = []"
  "text_field (\<lambda>_. []) (event_detail sample_event) ''required_capability'' = []"
  "text_field (\<lambda>_. []) (as_dict (dict_get sample_event ''repair'')) ''strategy'' = []"
  "text_field (\<lambda>_. []) (as_dict (dict_get sample_event ''replan'')) ''rollback_to'' = []"
  "event_type_pattern ''capability_gap''"
  "digest_pattern (replicate 64 (CHR ''a''))" "digest_pattern (replicate 64 (CHR ''b''))"
  by code_simp+

lemma sample_observed:
  "\<exists>x. observation_from_ahe_event (\<lambda>_. []) sample_event sample_context sample_key 9 = Inr x
     \<and> obs_event_type x = ''capability_gap''"
proof -
  define x where "x = build_observation (\<lambda>_. []) sample_event sample_context sample_key 9 ''capability_gap'' ''erc'' 0"
  have "observation_valid x"
    unfolding x_def build_observation_def observation_valid_def Let_def
    by (simp add: sha256_hex hmac_digest sample_event_facts sample_context_def nonempty_def str_or_def
        bounded_def del: event_detail.simps)
  then show ?thesis
    by (simp add: observation_from_ahe_event_def Let_def sample_event_facts sample_key_def sample_context_def x_def)
      (simp add: build_observation_def Let_def)
qed

theorem gap_needs_independent_evidence_witness:
  "\<exists>x a. observation_from_ahe_event (\<lambda>_. []) sample_event sample_context sample_key 9 = Inr x
     \<and> dict_get sample_event ''attribution'' = PDict a \<and> dict_get a ''origin'' = PStr ''harness''"
proof -
  obtain x where x: "observation_from_ahe_event (\<lambda>_. []) sample_event sample_context sample_key 9 = Inr x"
    "obs_event_type x = ''capability_gap''" using sample_observed by blast
  from gap_needs_independent_evidence [OF x] x(1) show ?thesis by blast
qed

end
