(* ===== verification/Sexpr.thy ===== *)
theory Sexpr
  imports Prelude
begin

text \<open>
  The S-expression engine (\<open>eda/vendor/sexpr.py\<close>): the tokenizer, the recursive-descent
  parser \<open>loads\<close>, the writer \<open>dumps\<close> with its pretty form, and the navigation helpers.
  What the parser returns is written and read back unchanged.
\<close>

section \<open>Nodes and errors\<close>

datatype node = Quoted string | Atom string | Nodes "node list"

datatype sexpr_error =
    UnterminatedString nat | EmptyInput | UnexpectedEnd | MissingClose | UnexpectedClose | TrailingData

section \<open>Tokens\<close>

definition tab :: char where "tab = CHR 0x09"
definition newline :: char where "newline = CHR 0x0A"
definition carriage_return :: char where "carriage_return = CHR 0x0D"
definition quote :: char where "quote = CHR 0x22"
definition backslash :: char where "backslash = CHR 0x5C"
definition open_paren :: char where "open_paren = CHR 0x28"
definition close_paren :: char where "close_paren = CHR 0x29"
definition blank :: char where "blank = CHR 0x20"

lemmas sexpr_chars =
  tab_def newline_def carriage_return_def quote_def backslash_def open_paren_def close_paren_def blank_def

definition WHITESPACE :: string where
  "WHITESPACE = [blank, tab, carriage_return, newline]"

definition delimiter :: "char \<Rightarrow> bool" where
  "delimiter c \<longleftrightarrow> c \<in> set WHITESPACE \<or> c \<in> {open_paren, close_paren, quote}"

text \<open>
  The body of a quoted string up to and with its closing quote, and what follows it; the
  opening quote has been consumed.
\<close>

fun read_quoted :: "string \<Rightarrow> (string \<times> string) option" where
  "read_quoted [] = None"
| "read_quoted [c] = (if c = quote then Some ([c], []) else None)"
| "read_quoted (c # d # cs) =
     (if c = backslash then map_option (\<lambda>(q, rest). (c # d # q, rest)) (read_quoted cs)
      else if c = quote then Some ([c], d # cs)
      else map_option (\<lambda>(q, rest). (c # q, rest)) (read_quoted (d # cs)))"

lemma read_quoted_length: "read_quoted cs = Some (q, rest) \<Longrightarrow> length rest < length cs"
  by (induction cs arbitrary: q rest rule: read_quoted.induct)
     (fastforce split: if_splits)+

text \<open>\<open>_tokenize\<close>, on a text of \<open>n\<close> characters of which a suffix is left.\<close>

function tokenize :: "nat \<Rightarrow> string \<Rightarrow> sexpr_error + string list" where
  "tokenize n [] = Inr []"
| "tokenize n (c # cs) =
     (if c \<in> set WHITESPACE then tokenize n cs
      else if c = open_paren \<or> c = close_paren then bind_res (tokenize n cs) (\<lambda>ts. Inr ([c] # ts))
      else if c = quote
      then (case read_quoted cs of
              None \<Rightarrow> Inl (UnterminatedString (n - Suc (length cs)))
            | Some (q, rest) \<Rightarrow> bind_res (tokenize n rest) (\<lambda>ts. Inr ((c # q) # ts)))
      else bind_res (tokenize n (dropWhile (\<lambda>d. \<not> delimiter d) cs))
             (\<lambda>ts. Inr ((c # takeWhile (\<lambda>d. \<not> delimiter d) cs) # ts)))"
  by pat_completeness auto
termination
  by (relation "measure (\<lambda>(n, cs). length cs)")
     (auto simp: less_Suc_eq_le dest: read_quoted_length intro: length_dropWhile_le)

declare tokenize.simps(2) [simp del]

definition ESCAPES_IN :: "(char \<times> char) list" where
  "ESCAPES_IN = [(CHR ''n'', newline), (CHR ''t'', tab), (CHR ''r'', carriage_return),
     (quote, quote), (backslash, backslash)]"

fun unescape_inner :: "string \<Rightarrow> string" where
  "unescape_inner (c # d # cs) =
     (if c = backslash
      then (case map_of ESCAPES_IN d of None \<Rightarrow> d | Some e \<Rightarrow> e) # unescape_inner cs
      else c # unescape_inner (d # cs))"
| "unescape_inner cs = cs"

definition unescape :: "string \<Rightarrow> string" where
  "unescape quoted = unescape_inner (butlast (tl quoted))"

section \<open>Parsing\<close>

function parse :: "string list \<Rightarrow> sexpr_error + node \<times> string list"
  and parse_items :: "string list \<Rightarrow> sexpr_error + node list \<times> string list" where
  "parse [] = Inl UnexpectedEnd"
| "parse (tok # ts) =
     (if tok = [open_paren] then bind_res (parse_items ts) (\<lambda>(items, rest). Inr (Nodes items, rest))
      else if tok = [close_paren] then Inl UnexpectedClose
      else if startswith tok [quote] then Inr (Quoted (unescape tok), ts)
      else Inr (Atom tok, ts))"
| "parse_items [] = Inl MissingClose"
| "parse_items (tok # ts) =
     (if tok = [close_paren] then Inr ([], ts)
      else
        (case parse (tok # ts) of
           Inl e \<Rightarrow> Inl e
         | Inr (item, rest) \<Rightarrow> bind_res (parse_items rest) (\<lambda>(items, rest'). Inr (item # items, rest'))))"
  by pat_completeness auto

lemma parse_progress:
  "parse_parse_items_dom (Inl ts) \<Longrightarrow> parse ts = Inr (x, rest) \<Longrightarrow> length rest < length ts"
  "parse_parse_items_dom (Inr ts) \<Longrightarrow> parse_items ts = Inr (xs, rest') \<Longrightarrow> length rest' < length ts"
proof (induction ts and ts arbitrary: x rest and xs rest' rule: parse_parse_items.pinduct)
  case (2 tok ts)
  then show ?case
    by (fastforce simp: parse.psimps bind_res_Inr_iff split: if_splits)
next
  case (4 tok ts)
  then show ?case
    by (fastforce simp: parse_items.psimps bind_res_Inr_iff split: if_splits sum.splits)
qed (simp_all add: parse.psimps parse_items.psimps)

termination parse
proof (relation "measure (\<lambda>x. case x of Inl ts \<Rightarrow> 2 * length ts | Inr ts \<Rightarrow> 2 * length ts + 1)")
  fix tok :: string and ts rest :: "string list" and y :: "node \<times> string list" and item :: node
  assume "tok \<noteq> [close_paren]" "parse_parse_items_dom (Inl (tok # ts))" "parse (tok # ts) = Inr y" "(item, rest) = y"
  then show "(Inr rest, Inr (tok # ts)) \<in> measure (\<lambda>x. case x of Inl ts \<Rightarrow> 2 * length ts | Inr ts \<Rightarrow> 2 * length ts + 1)"
    using parse_progress(1) [of "tok # ts" item rest] by simp
qed auto

definition loads :: "string \<Rightarrow> sexpr_error + node" where
  "loads txt' =
     bind_res (tokenize (length txt') txt') (\<lambda>tokens.
       if tokens = [] then Inl EmptyInput
       else bind_res (parse tokens) (\<lambda>(result, rest). if rest \<noteq> [] then Inl TrailingData else Inr result))"

section \<open>Writing\<close>

definition ESCAPES_OUT :: "(char \<times> string) list" where
  "ESCAPES_OUT = [(backslash, [backslash, backslash]), (quote, [backslash, quote]),
     (newline, [backslash, CHR ''n'']), (tab, [backslash, CHR ''t'']), (carriage_return, [backslash, CHR ''r''])]"

definition escape :: "string \<Rightarrow> string" where
  "escape s = concat (map (\<lambda>c. case map_of ESCAPES_OUT c of None \<Rightarrow> [c] | Some e \<Rightarrow> e) s)"

fun is_list :: "node \<Rightarrow> bool" where
  "is_list (Nodes _) = True"
| "is_list _ = False"

fun join_blank :: "string list \<Rightarrow> string" where
  "join_blank [] = []"
| "join_blank [x] = x"
| "join_blank (x # xs) = x @ blank # join_blank xs"

text \<open>\<open>_dump_node\<close>: the children of a list go on lines of their own when one of them is a list.\<close>

function dump_node :: "nat \<Rightarrow> bool \<Rightarrow> node \<Rightarrow> string" where
  "dump_node indent pretty (Atom v) = v"
| "dump_node indent pretty (Quoted s) = quote # escape s @ [quote]"
| "dump_node indent pretty (Nodes []) = [open_paren, close_paren]"
| "dump_node indent pretty (Nodes (n # ns)) =
     (if \<not> list_ex is_list (n # ns) \<or> \<not> pretty
      then open_paren # join_blank (map (dump_node 0 False) (n # ns)) @ [close_paren]
      else open_paren # dump_node 0 False n
        @ concat (map (\<lambda>c. newline # replicate (Suc indent) tab @ dump_node (Suc indent) True c) ns)
        @ newline # replicate indent tab @ [close_paren])"
  by pat_completeness auto
termination
  by (relation "measure (\<lambda>(indent, pretty, n). size n)") (auto simp: less_Suc_eq_le intro: size_list_estimation' le_SucI trans_le_add2)

definition dumps :: "node \<Rightarrow> bool \<Rightarrow> string" where
  "dumps n pretty =
     (let t = dump_node 0 pretty n in if pretty \<and> \<not> endswith t [newline] then t @ [newline] else t)"

section \<open>Navigation\<close>

fun tag_of :: "node \<Rightarrow> string option" where
  "tag_of (Nodes (Atom v # _)) = Some v"
| "tag_of _ = None"

text \<open>The children of a list with a given tag, as the lists that they are.\<close>

fun find_all :: "node \<Rightarrow> string \<Rightarrow> node list list" where
  "find_all (Nodes ns) tag = concat (map (\<lambda>c. case c of Nodes cs \<Rightarrow> if tag_of c = Some tag then [cs] else [] | _ \<Rightarrow> []) ns)"
| "find_all _ tag = []"

definition find_first :: "node \<Rightarrow> string \<Rightarrow> node list option" where
  "find_first n tag = (case find_all n tag of [] \<Rightarrow> None | c # _ \<Rightarrow> Some c)"

section \<open>Reading back what was written\<close>

text \<open>A bare token as the tokenizer produces it: not empty, and without delimiters.\<close>

definition bare :: "string \<Rightarrow> bool" where
  "bare v \<longleftrightarrow> v \<noteq> [] \<and> list_all (\<lambda>c. \<not> delimiter c) v"

fun wf_node :: "node \<Rightarrow> bool" where
  "wf_node (Atom v) = bare v"
| "wf_node (Quoted s) = True"
| "wf_node (Nodes ns) = list_all wf_node ns"

text \<open>The tokens of a node.\<close>

fun toks :: "node \<Rightarrow> string list" where
  "toks (Atom v) = [v]"
| "toks (Quoted s) = [quote # escape s @ [quote]]"
| "toks (Nodes ns) = [open_paren] # concat (map toks ns) @ [[close_paren]]"

lemma escape_Nil [simp]: "escape [] = []"
  by (simp add: escape_def)

lemma escape_Cons:
  "escape (c # s) = (case map_of ESCAPES_OUT c of None \<Rightarrow> [c] | Some e \<Rightarrow> e) @ escape s"
  by (simp add: escape_def)

lemma unescape_inner_plain: "c \<noteq> backslash \<Longrightarrow> unescape_inner (c # cs) = c # unescape_inner cs"
  by (cases cs) simp_all

lemma unescape_inner_escape: "unescape_inner (escape s) = s"
proof (induction s)
  case (Cons c s)
  then show ?case
    by (auto simp: escape_Cons ESCAPES_OUT_def ESCAPES_IN_def sexpr_chars unescape_inner_plain)
qed simp

lemma unescape_escape [simp]: "unescape (quote # escape s @ [quote]) = s"
  by (simp add: unescape_def unescape_inner_escape)

lemma read_quoted_plain:
  "c \<noteq> backslash \<Longrightarrow> c \<noteq> quote \<Longrightarrow> read_quoted (c # cs) = map_option (\<lambda>(q, rest). (c # q, rest)) (read_quoted cs)"
  by (cases cs) simp_all

lemma read_quoted_quote: "read_quoted (quote # cs) = Some ([quote], cs)"
  by (cases cs) (simp_all add: sexpr_chars)

lemma read_quoted_escape: "read_quoted (escape s @ quote # rest) = Some (escape s @ [quote], rest)"
proof (induction s)
  case (Cons c s)
  then show ?case
    by (auto simp: escape_Cons ESCAPES_OUT_def read_quoted_plain)
qed (simp add: read_quoted_quote)

lemma bare_not_special:
  "bare v \<Longrightarrow> v \<noteq> [open_paren] \<and> v \<noteq> [close_paren] \<and> \<not> startswith v [quote]"
  by (cases v) (auto simp: bare_def delimiter_def startswith_def)

lemma toks_nonempty: "wf_node n \<Longrightarrow> \<exists>t ts. toks n = t # ts \<and> t \<noteq> [close_paren]"
  by (cases n) (auto simp: sexpr_chars dest: bare_not_special)

lemma parse_toks: "wf_node n \<Longrightarrow> parse (toks n @ rest) = Inr (n, rest)"
proof (induction n arbitrary: rest)
  case (Quoted s)
  have "quote \<noteq> open_paren" "quote \<noteq> close_paren" by (simp_all add: sexpr_chars)
  then show ?case by (simp add: startswith_def)
next
  case (Atom v)
  then show ?case using bare_not_special by simp
next
  case (Nodes ns)
  have "parse_items (concat (map toks ms) @ [close_paren] # rest) = Inr (ms, rest)"
    if "set ms \<subseteq> set ns" for ms rest
    using that
  proof (induction ms)
    case (Cons m ms)
    then have m: "m \<in> set ns" "wf_node m" using Nodes.prems by (auto simp: list_all_iff)
    from toks_nonempty [OF m(2)] obtain t ts where t: "toks m = t # ts" "t \<noteq> [close_paren]" by blast
    have "parse (t # ts @ concat (map toks ms) @ [close_paren] # rest) =
        Inr (m, concat (map toks ms) @ [close_paren] # rest)"
      using Nodes.IH [OF m] t(1) by (metis append_Cons)
    with Cons t show ?case by simp
  qed simp
  then show ?case by simp
qed

text \<open>A text that is read as a sequence of tokens wherever a delimiter or the end follows.\<close>

definition prints :: "nat \<Rightarrow> string \<Rightarrow> string list \<Rightarrow> bool" where
  "prints k t ts \<longleftrightarrow>
     (\<forall>rest. (rest = [] \<or> delimiter (hd rest)) \<longrightarrow>
        tokenize k (t @ rest) = bind_res (tokenize k rest) (\<lambda>us. Inr (ts @ us)))"

lemma printsD:
  "prints k t ts \<Longrightarrow> rest = [] \<or> delimiter (hd rest) \<Longrightarrow>
     tokenize k (t @ rest) = bind_res (tokenize k rest) (\<lambda>us. Inr (ts @ us))"
  unfolding prints_def by blast

lemma tokenize_space: "c \<in> set WHITESPACE \<Longrightarrow> tokenize k (c # cs) = tokenize k cs"
  by (simp add: tokenize.simps)

lemma tokenize_paren:
  "c = open_paren \<or> c = close_paren \<Longrightarrow> tokenize k (c # cs) = bind_res (tokenize k cs) (\<lambda>ts. Inr ([c] # ts))"
  by (subst tokenize.simps) (auto simp: WHITESPACE_def sexpr_chars)

lemma space_chars [simp]:
  "blank \<in> set WHITESPACE" "tab \<in> set WHITESPACE" "newline \<in> set WHITESPACE"
  by (simp_all add: WHITESPACE_def)

lemma delimiter_chars [simp]:
  "delimiter blank" "delimiter newline" "delimiter open_paren" "delimiter close_paren"
  by (simp_all add: delimiter_def)

lemma bind_res_assoc: "bind_res (bind_res m f) g = bind_res m (\<lambda>x. bind_res (f x) g)"
  by (cases m) simp_all

lemma prints_atom:
  assumes "bare v"
  shows "prints k v [v]"
  unfolding prints_def
proof (intro allI impI)
  fix rest assume rest: "rest = [] \<or> delimiter (hd rest)"
  from assms obtain c cs where v: "v = c # cs" by (cases v) (auto simp: bare_def)
  have c: "c \<notin> set WHITESPACE" "c \<noteq> open_paren" "c \<noteq> close_paren" "c \<noteq> quote"
    and cs: "\<forall>d \<in> set cs. \<not> delimiter d"
    using assms by (auto simp: bare_def v delimiter_def list_all_iff)
  have "takeWhile (\<lambda>d. \<not> delimiter d) (cs @ rest) = cs" "dropWhile (\<lambda>d. \<not> delimiter d) (cs @ rest) = rest"
    using cs rest by (cases rest; simp add: takeWhile_append dropWhile_append)+
  then show "tokenize k (v @ rest) = bind_res (tokenize k rest) (\<lambda>us. Inr ([v] @ us))"
    using c by (simp add: v tokenize.simps)
qed

lemma prints_quoted: "prints k (quote # escape s @ [quote]) [quote # escape s @ [quote]]"
proof -
  have "quote \<notin> set WHITESPACE" "quote \<noteq> open_paren" "quote \<noteq> close_paren"
    by (simp_all add: WHITESPACE_def sexpr_chars)
  then show ?thesis
    by (simp add: prints_def tokenize.simps read_quoted_escape)
qed

lemma prints_join:
  "\<forall>c \<in> set ns. prints k (f c) (g c) \<Longrightarrow> prints k (join_blank (map f ns)) (concat (map g ns))"
proof (induction ns rule: induct_list012)
  case 1
  then show ?case by (simp add: prints_def bind_res_def split: sum.splits)
next
  case (3 x y zs)
  then have "prints k (f x) (g x)" "prints k (join_blank (map f (y # zs))) (concat (map g (y # zs)))" by simp_all
  then show ?case by (simp add: prints_def tokenize_space bind_res_assoc)
qed simp

lemma prints_parens:
  "prints k t ts \<Longrightarrow> prints k (open_paren # t @ [close_paren]) ([open_paren] # ts @ [[close_paren]])"
  by (simp add: prints_def tokenize_paren bind_res_assoc)

lemma tokenize_tabs: "tokenize k (replicate i tab @ cs) = tokenize k cs"
  by (induction i) (simp_all add: tokenize_space)

lemma prints_append_line:
  assumes "prints k t ts" "prints k u us"
  shows "prints k (t @ newline # replicate i tab @ u) (ts @ us)"
  using assms by (simp add: prints_def tokenize_space tokenize_tabs bind_res_assoc)

lemma prints_lines:
  assumes "prints k t ts" "\<forall>c \<in> set ns. prints k (f c) (g c)"
  shows "prints k (t @ concat (map (\<lambda>c. newline # replicate i tab @ f c) ns)) (ts @ concat (map g ns))"
  using assms
proof (induction ns arbitrary: t ts)
  case (Cons n ns)
  then have "prints k (t @ newline # replicate i tab @ f n) (ts @ g n)" by (simp add: prints_append_line)
  from Cons.IH [OF this] Cons.prems show ?case by simp
qed simp

lemma prints_close_line:
  assumes "prints k t ts"
  shows "prints k (open_paren # t @ newline # replicate i tab @ [close_paren]) ([open_paren] # ts @ [[close_paren]])"
  using assms by (simp add: prints_def tokenize_paren tokenize_space tokenize_tabs bind_res_assoc)

lemma prints_dump: "wf_node n \<Longrightarrow> prints k (dump_node i p n) (toks n)"
proof (induction i p n rule: dump_node.induct)
  case (1 i p v)
  then show ?case by (simp add: prints_atom)
next
  case (2 i p s)
  then show ?case by (simp add: prints_quoted)
next
  case (3 i p)
  then show ?case by (simp add: prints_def tokenize_paren bind_res_assoc)
next
  case (4 i p n ns)
  have wf: "\<forall>c \<in> set (n # ns). wf_node c" using 4(4) by (simp add: list_all_iff)
  show ?case
  proof (cases "\<not> list_ex is_list (n # ns) \<or> \<not> p")
    case True
    then have "\<forall>c \<in> set (n # ns). prints k (dump_node 0 False c) (toks c)" using 4(1) wf by blast
    from prints_parens [OF prints_join [OF this]] show ?thesis
      using True by (subst dump_node.simps(4)) simp
  next
    case False
    then have "prints k (dump_node 0 False n) (toks n)"
      "\<forall>c \<in> set ns. prints k (dump_node (Suc i) True c) (toks c)"
      using 4(2,3) wf by simp_all
    from prints_close_line [OF prints_lines [OF this, where i = "Suc i"], where i = i] show ?thesis
      using False by (subst dump_node.simps(4)) simp
  qed
qed

lemma loads_dumps: "wf_node n \<Longrightarrow> loads (dumps n p) = Inr n"
proof -
  assume wf: "wf_node n"
  have tok: "tokenize k (dumps n p) = Inr (toks n)" for k
    using printsD [OF prints_dump [OF wf, of k 0 p], of "[]"] printsD [OF prints_dump [OF wf, of k 0 p], of "[newline]"]
    by (cases p) (simp_all add: dumps_def Let_def tokenize_space)
  have "toks n \<noteq> []" using toks_nonempty [OF wf] by auto
  with tok parse_toks [OF wf, of "[]"] show ?thesis by (simp add: loads_def)
qed

text \<open>What the parser returns is well-formed.\<close>

definition token :: "string \<Rightarrow> bool" where
  "token t \<longleftrightarrow> t = [open_paren] \<or> t = [close_paren] \<or> startswith t [quote] \<or> bare t"

lemma tokenize_tokens: "tokenize k cs = Inr ts \<Longrightarrow> \<forall>t \<in> set ts. token t"
proof (induction k cs arbitrary: ts rule: tokenize.induct)
  case (2 k c cs)
  let ?bare = "c # takeWhile (\<lambda>d. \<not> delimiter d) cs"
  consider (space) "c \<in> set WHITESPACE" | (paren) "c \<notin> set WHITESPACE" "c = open_paren \<or> c = close_paren"
    | (str) "c \<notin> set WHITESPACE" "c \<noteq> open_paren" "c \<noteq> close_paren" "c = quote"
    | (plain) "c \<notin> set WHITESPACE" "c \<noteq> open_paren" "c \<noteq> close_paren" "c \<noteq> quote" by blast
  then show ?case
  proof cases
    case space
    with 2 show ?thesis by (simp add: tokenize_space)
  next
    case paren
    with 2 show ?thesis by (fastforce simp: tokenize_paren bind_res_Inr_iff token_def)
  next
    case str
    with 2(5) obtain q rest us where q: "read_quoted cs = Some (q, rest)" "tokenize k rest = Inr us" "ts = (quote # q) # us"
      by (auto simp: tokenize.simps bind_res_Inr_iff split: option.splits)
    with 2(3) [OF str(1) _ str(4) q(1) refl q(2)] str show ?thesis by (auto simp: token_def startswith_def)
  next
    case plain
    then have "bare ?bare" by (auto simp: bare_def delimiter_def list_all_iff dest: set_takeWhileD)
    with plain 2(4) [OF plain(1)] 2(5) show ?thesis by (fastforce simp: tokenize.simps bind_res_Inr_iff token_def)
  qed
qed simp

lemma parse_wf:
  "parse ts = Inr (x, rest) \<Longrightarrow> \<forall>t \<in> set ts. token t \<Longrightarrow> wf_node x \<and> set rest \<subseteq> set ts"
  "parse_items ts = Inr (xs, rest') \<Longrightarrow> \<forall>t \<in> set ts. token t \<Longrightarrow> list_all wf_node xs \<and> set rest' \<subseteq> set ts"
proof (induction ts and ts arbitrary: x rest and xs rest' rule: parse_parse_items.induct)
  case (2 tok ts)
  then show ?case by (fastforce simp: bind_res_Inr_iff token_def split: if_splits)
next
  case (4 tok ts)
  show ?case
  proof (cases "tok = [close_paren]")
    case True
    with 4 show ?thesis by auto
  next
    case False
    with 4(3) obtain item r items where r: "parse (tok # ts) = Inr (item, r)" "parse_items r = Inr (items, rest')"
      "xs = item # items"
      by (auto simp: bind_res_Inr_iff simp del: parse.simps split: sum.splits)
    have p: "wf_node item" "set r \<subseteq> set (tok # ts)" using 4(1) [OF False r(1) 4(4)] by simp_all
    then have "\<forall>t \<in> set r. token t" using 4(4) by blast
    with 4(2) [OF False r(1) refl r(2)] p r(3) show ?thesis by auto
  qed
qed simp_all

lemma loads_wf: "loads t = Inr n \<Longrightarrow> wf_node n"
  by (auto simp: loads_def bind_res_Inr_iff split: if_splits prod.splits dest!: tokenize_tokens parse_wf(1))

text \<open>
  C36: Writing a tree and reading it back gives the same tree, pretty-printed or on one
  line, for every tree whose atoms are bare tokens: quotes, backslashes and control
  characters in the strings, empty lists and any nesting included.
\<close>

theorem dumps_loads_roundtrip:
  assumes "wf_node n"
  shows "loads (dumps n pretty) = Inr n"
  using assms by (rule loads_dumps)

theorem dumps_loads_roundtrip_witness:
  "loads (dumps (Nodes [Atom ''pad'', Quoted [quote, newline, backslash], Nodes [], Nodes [Atom ''at'', Atom ''1.50'']]) True)
     = Inr (Nodes [Atom ''pad'', Quoted [quote, newline, backslash], Nodes [], Nodes [Atom ''at'', Atom ''1.50'']])"
  by (rule dumps_loads_roundtrip) (simp add: bare_def delimiter_def WHITESPACE_def sexpr_chars)

text \<open>
  Rewriting a file is stable: whatever text the parser accepts, writing the tree it
  returned, in either form, gives a text that is parsed to the same tree.
\<close>

theorem loads_dumps_stable:
  assumes "loads t = Inr n"
  shows "loads (dumps n pretty) = Inr n"
  using loads_dumps [OF loads_wf [OF assms]] .

theorem loads_dumps_stable_witness:
  "loads (dumps (Nodes [Atom ''a'', Nodes [Quoted ''b'']]) False) = Inr (Nodes [Atom ''a'', Nodes [Quoted ''b'']])"
proof -
  have "loads (open_paren # ''a  ('' @ quote # ''b'' @ quote # '') )'') = Inr (Nodes [Atom ''a'', Nodes [Quoted ''b'']])"
    by (simp add: loads_def tokenize.simps WHITESPACE_def sexpr_chars delimiter_def startswith_def
        unescape_def)
  then show ?thesis by (rule loads_dumps_stable)
qed

end
