(* ===== verification/Placement.thy ===== *)
theory Placement
  imports Prelude
begin

text \<open>
  The placement of footprints on the board (\<open>orchestration/pipeline.py\<close>): the MaxRects
  packer, with its free rectangles and its dependency-aware order, and the geometric
  check that a placement plan has to pass.

  Coordinates are rationals; the values that \<open>math.sqrt\<close>, \<open>hypot\<close>, \<open>dist\<close>, \<open>cos\<close> and
  \<open>sin\<close> return are parameters.  The courtyards are those of a footprint library; the theory
  Footprints models how the code reads them.  The records hold the fields that these
  functions read; every placement they create is on the front side, and the limits that
  the contract sets on coordinates and on the length of a reference are left out.
\<close>

section \<open>Rectangles\<close>

text \<open>A box is its four extremes; a free rectangle is a corner with a width and a height.\<close>

type_synonym box = "rat \<times> rat \<times> rat \<times> rat"

type_synonym rect = "rat \<times> rat \<times> rat \<times> rat"

record float_ops =
  f_sqrt :: "rat \<Rightarrow> rat"
  f_hypot :: "rat \<Rightarrow> rat \<Rightarrow> rat"
  f_dist :: "rat \<times> rat \<Rightarrow> rat \<times> rat \<Rightarrow> rat"
  f_cos_sin :: "rat \<Rightarrow> rat \<times> rat"

record footprint_library =
  courtyard_bbox :: "string \<Rightarrow> box option"
  courtyard_rects :: "string \<Rightarrow> box list option"

record process_capability =
  min_clearance :: rat
  min_board_edge_clearance :: rat

record pcb_placement =
  pl_ref :: string
  pl_x :: rat
  pl_y :: rat
  pl_rotation :: rat

definition tolerance :: rat where
  "tolerance = 1 / 1000000"

definition EDGE_MARGIN_MM :: rat where
  "EDGE_MARGIN_MM = 12"

definition PLACEMENT_TARGET_WEIGHT :: rat where
  "PLACEMENT_TARGET_WEIGHT = 2"

definition UNKNOWN_FOOTPRINT_HALF_MM :: rat where
  "UNKNOWN_FOOTPRINT_HALF_MM = 3 / 2"

definition placement_bbox :: "footprint_library \<Rightarrow> string \<Rightarrow> box" where
  "placement_bbox lib fp =
     (case (if fp = [] then None else courtyard_bbox lib fp) of
        None \<Rightarrow> (- UNKNOWN_FOOTPRINT_HALF_MM, - UNKNOWN_FOOTPRINT_HALF_MM,
                 UNKNOWN_FOOTPRINT_HALF_MM, UNKNOWN_FOOTPRINT_HALF_MM)
      | Some b \<Rightarrow> b)"

text \<open>\<open>rotation % 360\<close>, and the extent of the four rotated corners.\<close>

definition rotate_point :: "rat \<times> rat \<Rightarrow> rat \<Rightarrow> rat \<Rightarrow> rat \<times> rat" where
  "rotate_point cs x y = (x * fst cs + y * snd cs, - x * snd cs + y * fst cs)"

definition rotated_bbox :: "float_ops \<Rightarrow> box \<Rightarrow> rat \<Rightarrow> box" where
  "rotated_bbox ops b rotation =
     (case b of
        (x1, y1, x2, y2) \<Rightarrow>
          (let cs = f_cos_sin ops (rotation - 360 * of_int \<lfloor>rotation / 360\<rfloor>);
               a = rotate_point cs x1 y1; b' = rotate_point cs x1 y2;
               c = rotate_point cs x2 y1; d = rotate_point cs x2 y2
           in (min (min (fst a) (fst b')) (min (fst c) (fst d)),
               min (min (snd a) (snd b')) (min (snd c) (snd d)),
               max (max (fst a) (fst b')) (max (fst c) (fst d)),
               max (max (snd a) (snd b')) (max (snd c) (snd d)))))"

section \<open>Free rectangles\<close>

text \<open>
  \<open>_prune_free_rectangles\<close>: slivers are dropped, and so is every rectangle contained in
  another one of the list, two equal ones included.
\<close>

definition contained_in :: "rect \<Rightarrow> rect \<Rightarrow> bool" where
  "contained_in r s =
     (case (r, s) of
        ((x, y, w, h), (x', y', w', h')) \<Rightarrow>
          x \<ge> x' - tolerance \<and> y \<ge> y' - tolerance
          \<and> x + w \<le> x' + w' + tolerance \<and> y + h \<le> y' + h' + tolerance)"

definition prune_free_rectangles :: "rect list \<Rightarrow> rect list" where
  "prune_free_rectangles rs =
     map snd
       (filter (\<lambda>(i, r). (case r of (x, y, w, h) \<Rightarrow> \<not> (w \<le> tolerance \<or> h \<le> tolerance))
                  \<and> \<not> (\<exists>j \<in> set [0..<length rs]. i \<noteq> j \<and> contained_in r (rs ! j)))
          (enumerate 0 rs))"

definition apart :: "rect \<Rightarrow> rect \<Rightarrow> bool" where
  "apart used r =
     (case (used, r) of
        ((ux, uy, uw, uh), (x, y, w, h)) \<Rightarrow> ux \<ge> x + w \<or> ux + uw \<le> x \<or> uy \<ge> y + h \<or> uy + uh \<le> y)"

definition split_rectangle :: "rect \<Rightarrow> rect \<Rightarrow> rect list" where
  "split_rectangle used r =
     (if apart used r then [r]
      else
        (case (used, r) of
           ((ux, uy, uw, uh), (x, y, w, h)) \<Rightarrow>
             (if ux > x then [(x, y, ux - x, h)] else [])
             @ (if ux + uw < x + w then [(ux + uw, y, x + w - ux - uw, h)] else [])
             @ (if uy > y then [(x, y, w, uy - y)] else [])
             @ (if uy + uh < y + h then [(x, uy + uh, w, y + h - uy - uh)] else [])))"

definition split_free_rectangles :: "rect list \<Rightarrow> rect \<Rightarrow> rect list" where
  "split_free_rectangles rs used = prune_free_rectangles (concat (map (split_rectangle used) rs))"

section \<open>The order of packing\<close>

record packing_request =
  order :: "string list"
  fps :: "(string \<times> string) list"
  board_width :: rat
  board_height :: rat
  clearance :: rat
  targets :: "(string \<times> (rat \<times> rat)) list"
  priority_refs :: "string list"
  edge_refs :: "string list"
  fixed_target_refs :: "string list"
  allowed_regions :: "(string \<times> box) list"
  dependency :: "(string \<times> string) list"

definition footprint_of :: "packing_request \<Rightarrow> string \<Rightarrow> string" where
  "footprint_of req ref = (case map_of (fps req) ref of None \<Rightarrow> [] | Some fp \<Rightarrow> fp)"

definition box_of :: "footprint_library \<Rightarrow> packing_request \<Rightarrow> string \<Rightarrow> box" where
  "box_of lib req ref = placement_bbox lib (footprint_of req ref)"

text \<open>\<open>{ref: index for index, ref in enumerate(order)}\<close>: the last index of a reference.\<close>

definition last_index :: "string list \<Rightarrow> string \<Rightarrow> nat" where
  "last_index xs r = (case find_last_idx (\<lambda>x. x = r) xs of None \<Rightarrow> 0 | Some i \<Rightarrow> i)"

definition rank_key :: "footprint_library \<Rightarrow> packing_request \<Rightarrow> string \<Rightarrow> int \<times> rat \<times> rat \<times> nat" where
  "rank_key lib req ref =
     (let i = last_index (order req) ref; priority = (ref \<in> set (priority_refs req))
      in case box_of lib req ref of
           (x1, y1, x2, y2) \<Rightarrow>
             (if priority then 0 else 1,
              if priority then of_nat i else - max (x2 - x1) (y2 - y1),
              if priority then 0 else - ((x2 - x1) * (y2 - y1)),
              i))"

definition ranked_order :: "footprint_library \<Rightarrow> packing_request \<Rightarrow> string list" where
  "ranked_order lib req = sort_key (rank_key lib req) (order req)"

text \<open>\<open>emit_with_anchor\<close>: the anchor goes first; a cycle stops at a reference being visited.\<close>

function emit_with_anchor ::
    "string list \<Rightarrow> (string \<times> string) list \<Rightarrow> string list \<Rightarrow> string \<Rightarrow> string list \<Rightarrow> string list" where
  "emit_with_anchor ord dep visiting ref packed =
     (if ref \<in> set packed \<or> ref \<in> set visiting then packed
      else
        (case map_of dep ref of
           None \<Rightarrow> packed
         | Some a \<Rightarrow> if a \<in> set ord \<and> a \<notin> set packed
                      then emit_with_anchor ord dep (ref # visiting) a packed else packed) @ [ref])"
  by pat_completeness auto
termination
proof (relation "measure (\<lambda>(ord, dep, visiting, ref, packed). card (insert ref (set ord) - set visiting))")
  fix ord visiting packed :: "string list" and dep :: "(string \<times> string) list" and ref a :: string
  assume r: "\<not> (ref \<in> set packed \<or> ref \<in> set visiting)" and a: "a \<in> set ord \<and> a \<notin> set packed"
  have "insert a (set ord) - set (ref # visiting) \<subset> insert ref (set ord) - set visiting"
    using r a by auto
  then show "((ord, dep, ref # visiting, a, packed), ord, dep, visiting, ref, packed)
      \<in> measure (\<lambda>(ord, dep, visiting, ref, packed). card (insert ref (set ord) - set visiting))"
    by (simp add: psubset_card_mono)
qed simp

declare emit_with_anchor.simps [simp del]

definition packed_order :: "footprint_library \<Rightarrow> packing_request \<Rightarrow> string list" where
  "packed_order lib req =
     fold (emit_with_anchor (order req) (dependency req) []) (ranked_order lib req) []"

section \<open>Packing\<close>

record candidate =
  cand_score :: "rat \<times> rat \<times> rat \<times> rat"
  cand_used :: rect
  cand_x :: rat
  cand_y :: rat
  cand_rotation :: rat

definition board_edge :: "process_capability \<Rightarrow> rat" where
  "board_edge cap = max (min_board_edge_clearance cap) (1 / 2)"

definition packing_pad :: "float_ops \<Rightarrow> packing_request \<Rightarrow> rat" where
  "packing_pad ops req =
     (let available_pitch =
            f_sqrt ops (board_width req * board_height req / of_nat (max (length (order req)) 1));
          routing_channel = min (75 / 100) (max (25 / 100) (available_pitch * (8 / 100)))
      in max (clearance req) (2 / 10) + routing_channel)"

definition board_diagonal :: "float_ops \<Rightarrow> packing_request \<Rightarrow> rat" where
  "board_diagonal ops req = max (f_hypot ops (board_width req) (board_height req)) 1"

text \<open>The desired corners in a free rectangle: its own, and the one nearest to the target.\<close>

definition desired_corners :: "rect \<Rightarrow> rat \<Rightarrow> rat \<Rightarrow> (rat \<times> rat) option \<Rightarrow> (rat \<times> rat) list" where
  "desired_corners f width height target =
     (case f of
        (fx, fy, fw, fh) \<Rightarrow>
          (fx, fy) #
          (case target of
             None \<Rightarrow> []
           | Some (tx, ty) \<Rightarrow> [(min (max (tx - width / 2) fx) (fx + fw - width),
                                min (max (ty - height / 2) fy) (fy + fh - height))]))"

definition in_region :: "packing_request \<Rightarrow> string \<Rightarrow> rat \<Rightarrow> rat \<Rightarrow> bool" where
  "in_region req ref x y =
     (case map_of (allowed_regions req) ref of
        None \<Rightarrow> True
      | Some (x1, y1, x2, y2) \<Rightarrow> x1 \<le> x \<and> x \<le> x2 \<and> y1 \<le> y \<and> y \<le> y2)"

definition near_edge :: "packing_request \<Rightarrow> string \<Rightarrow> rat \<Rightarrow> rat \<Rightarrow> bool" where
  "near_edge req ref x y =
     (\<not> (ref \<in> set (edge_refs req)
         \<and> min (min x (board_width req - x)) (min y (board_height req - y)) > EDGE_MARGIN_MM))"

definition near_target :: "float_ops \<Rightarrow> packing_request \<Rightarrow> string \<Rightarrow> (rat \<times> rat) option \<Rightarrow> rat \<Rightarrow> rat \<Rightarrow> bool" where
  "near_target ops req ref target x y =
     (case target of
        None \<Rightarrow> True
      | Some t \<Rightarrow> \<not> (ref \<in> set (fixed_target_refs req) \<and> f_dist ops (x, y) t > EDGE_MARGIN_MM))"

definition fits_at :: "rect \<Rightarrow> rect \<Rightarrow> bool" where
  "fits_at used f =
     (case (used, f) of
        ((ux, uy, w, h), (fx, fy, fw, fh)) \<Rightarrow>
          \<not> (ux < fx - tolerance \<or> uy < fy - tolerance
             \<or> ux + w > fx + fw + tolerance \<or> uy + h > fy + fh + tolerance))"

definition candidates_at ::
    "float_ops \<Rightarrow> packing_request \<Rightarrow> rat \<Rightarrow> string \<Rightarrow> box \<Rightarrow> rect \<Rightarrow> rat \<Rightarrow> candidate list" where
  "candidates_at ops req pad ref bbox f rotation =
     (case (rotated_bbox ops bbox rotation, f) of
        ((x1, y1, x2, y2), (fx, fy, fw, fh)) \<Rightarrow>
          (let target = map_of (targets req) ref; width = x2 - x1 + 2 * pad; height = y2 - y1 + 2 * pad;
               diagonal = board_diagonal ops req
           in if width > fw + tolerance \<or> height > fh + tolerance then []
              else
                concat (map (\<lambda>(dx, dy).
                  let ox = dx + pad - x1; oy = dy + pad - y1;
                      used = (ox + x1 - pad, oy + y1 - pad, width, height);
                      short_left = min (fw - width) (fh - height); long_left = max (fw - width) (fh - height);
                      distance = (case target of None \<Rightarrow> 0
                                  | Some t \<Rightarrow> f_dist ops (ox + (x1 + x2) / 2, oy + (y1 + y2) / 2) t / diagonal);
                      score = (short_left + long_left / 10) / diagonal + PLACEMENT_TARGET_WEIGHT * distance
                  in if fits_at used f \<and> in_region req ref ox oy \<and> near_edge req ref ox oy
                        \<and> near_target ops req ref target ox oy
                     then [\<lparr>cand_score = (score, short_left, long_left, oy + y1 - pad), cand_used = used,
                            cand_x = ox, cand_y = oy, cand_rotation = rotation\<rparr>]
                     else [])
                  (desired_corners f width height target))))"

text \<open>\<open>min(candidates, key=...)\<close>: the first of the smallest.\<close>

fun first_min :: "('a \<Rightarrow> 'k :: linorder) \<Rightarrow> 'a \<Rightarrow> 'a list \<Rightarrow> 'a" where
  "first_min key best [] = best"
| "first_min key best (x # xs) = first_min key (if key x < key best then x else best) xs"

record packing =
  free :: "rect list"
  placements :: "pcb_placement list"
  unplaced :: "string list"

definition all_candidates ::
    "float_ops \<Rightarrow> footprint_library \<Rightarrow> packing_request \<Rightarrow> rat \<Rightarrow> rect list \<Rightarrow> string \<Rightarrow> candidate list" where
  "all_candidates ops lib req pad fs ref =
     concat (map (\<lambda>f. concat (map (candidates_at ops req pad ref (box_of lib req ref) f) [0, 90])) fs)"

definition pack_one ::
    "float_ops \<Rightarrow> footprint_library \<Rightarrow> packing_request \<Rightarrow> rat \<Rightarrow> string \<Rightarrow> packing \<Rightarrow> packing" where
  "pack_one ops lib req pad ref s =
     (case all_candidates ops lib req pad (free s) ref of
        [] \<Rightarrow> s\<lparr>unplaced := unplaced s @ [ref]\<rparr>
      | c # cs \<Rightarrow>
          (let best = first_min cand_score c cs
           in s\<lparr>placements := placements s
                  @ [\<lparr>pl_ref = ref, pl_x = cand_x best, pl_y = cand_y best, pl_rotation = cand_rotation best\<rparr>],
                free := split_free_rectangles (free s) (cand_used best)\<rparr>))"

definition initial_packing :: "process_capability \<Rightarrow> packing_request \<Rightarrow> packing" where
  "initial_packing cap req =
     (let edge = board_edge cap
      in \<lparr>free = [(edge, edge, board_width req - 2 * edge, board_height req - 2 * edge)],
          placements = [], unplaced = []\<rparr>)"

definition maxrect_pack ::
    "float_ops \<Rightarrow> footprint_library \<Rightarrow> process_capability \<Rightarrow> packing_request
       \<Rightarrow> pcb_placement list \<times> string list" where
  "maxrect_pack ops lib cap req =
     (let s = fold (pack_one ops lib req (packing_pad ops req)) (packed_order lib req) (initial_packing cap req)
      in (placements s, unplaced s))"

section \<open>The geometric check\<close>

definition placement_shape :: "footprint_library \<Rightarrow> string \<Rightarrow> box list" where
  "placement_shape lib fp =
     (case (if fp = [] then None else courtyard_rects lib fp) of
        None \<Rightarrow> [placement_bbox lib fp]
      | Some rs \<Rightarrow> if rs = [] then [placement_bbox lib fp] else rs)"

definition rotated_shape :: "float_ops \<Rightarrow> box list \<Rightarrow> rat \<Rightarrow> rat \<Rightarrow> box list" where
  "rotated_shape ops rs rotation padding =
     map (\<lambda>r. case rotated_bbox ops r rotation of
                (x1, y1, x2, y2) \<Rightarrow> (x1 - padding, y1 - padding, x2 + padding, y2 + padding)) rs"

definition move_box :: "rat \<Rightarrow> rat \<Rightarrow> box \<Rightarrow> box" where
  "move_box x y b = (case b of (x1, y1, x2, y2) \<Rightarrow> (x + x1, y + y1, x + x2, y + y2))"

definition absolute_placement_shape :: "float_ops \<Rightarrow> footprint_library \<Rightarrow> pcb_placement \<Rightarrow> string \<Rightarrow> box list" where
  "absolute_placement_shape ops lib p fp =
     map (move_box (pl_x p) (pl_y p)) (rotated_shape ops (placement_shape lib fp) (pl_rotation p) 0)"

definition boxes_overlap :: "box \<Rightarrow> box \<Rightarrow> rat \<Rightarrow> bool" where
  "boxes_overlap a b margin =
     (case (a, b) of
        ((a1, a2, a3, a4), (b1, b2, b3, b4)) \<Rightarrow>
          a1 - margin < b3 \<and> b1 - margin < a3 \<and> a2 - margin < b4 \<and> b2 - margin < a4)"

text \<open>The shapes by reference: a repeated reference keeps its place and its last shape.\<close>

definition plan_shapes ::
    "float_ops \<Rightarrow> footprint_library \<Rightarrow> (string \<times> string) list \<Rightarrow> pcb_placement list \<Rightarrow> (string \<times> box list) list" where
  "plan_shapes ops lib by_ref ps =
     dict_merge [] (map (\<lambda>p. (pl_ref p, absolute_placement_shape ops lib p
                          (case map_of by_ref (pl_ref p) of None \<Rightarrow> [] | Some fp \<Rightarrow> fp))) ps)"

fun overlap_pairs :: "rat \<Rightarrow> (string \<times> box list) list \<Rightarrow> string list" where
  "overlap_pairs margin [] = []"
| "overlap_pairs margin ((l, ls) # rest) =
     map (\<lambda>(r, rs). l @ ''&'' @ r)
       (filter (\<lambda>(r, rs). \<exists>a \<in> set ls. \<exists>b \<in> set rs. boxes_overlap a b margin) rest)
     @ overlap_pairs margin rest"

definition outside_board :: "rat \<Rightarrow> rat \<Rightarrow> rat \<Rightarrow> box \<Rightarrow> bool" where
  "outside_board edge w h b =
     (case b of (x1, y1, x2, y2) \<Rightarrow> x1 < edge \<or> y1 < edge \<or> x2 > w - edge \<or> y2 > h - edge)"

definition placement_geometry_violations ::
    "float_ops \<Rightarrow> footprint_library \<Rightarrow> process_capability \<Rightarrow> (string \<times> string) list \<Rightarrow> rat \<Rightarrow> rat
       \<Rightarrow> pcb_placement list \<Rightarrow> string list \<times> string list" where
  "placement_geometry_violations ops lib cap by_ref w h ps =
     (let shapes = plan_shapes ops lib by_ref ps
      in (overlap_pairs (min_clearance cap) shapes,
          map fst (filter (\<lambda>(r, bs). \<exists>b \<in> set bs. outside_board (min_board_edge_clearance cap) w h b) shapes)))"

end
