(* ===== verification/Footprints.thy ===== *)
theory Footprints
  imports Sexpr Placement
begin

text \<open>
  Footprint geometry (\<open>eda/footprints.py\<close>, with the readers of \<open>eda/vendor/footprint.py\<close>):
  the pads and the courtyard of a \<open>.kicad_mod\<close> file, the courtyard's bounding box, and its
  decomposition into rectangles.

  The files that a library id resolves to, the value of \<open>float(text)\<close> and the text of a
  nested list are parameters.
\<close>

section \<open>Reading nodes\<close>

record footprint_env =
  fp_file :: "string \<Rightarrow> string option"
  fp_float :: "string \<Rightarrow> rat option"
  fp_repr :: "node list \<Rightarrow> string"

datatype footprint_error = ParseError sexpr_error | NotAFootprint | BadFloat string | BadIndex

type_synonym point = "rat \<times> rat"

type_synonym polygon = "point list"

fun node_str :: "footprint_env \<Rightarrow> node \<Rightarrow> string" where
  "node_str env (Quoted s) = s"
| "node_str env (Atom v) = v"
| "node_str env (Nodes ns) = fp_repr env ns"

definition node_float :: "footprint_env \<Rightarrow> node \<Rightarrow> footprint_error + rat" where
  "node_float env n =
     (case fp_float env (node_str env n) of None \<Rightarrow> Inl (BadFloat (node_str env n)) | Some r \<Rightarrow> Inr r)"

definition load_footprint_node :: "string \<Rightarrow> footprint_error + node" where
  "load_footprint_node source =
     (case loads source of
        Inl e \<Rightarrow> Inl (ParseError e)
      | Inr n \<Rightarrow> if tag_of n \<noteq> Some ''footprint'' then Inl NotAFootprint else Inr n)"

record pad =
  pad_number :: string
  pad_x :: rat
  pad_y :: rat
  pad_layers :: "string list"

definition pad_coordinate :: "footprint_env \<Rightarrow> node list option \<Rightarrow> nat \<Rightarrow> footprint_error + rat" where
  "pad_coordinate env a i =
     (case a of
        None \<Rightarrow> Inr 0
      | Some ns \<Rightarrow> if i < length ns then node_float env (ns ! i) else if i = 1 then Inl BadIndex else Inr 0)"

definition pad_of :: "footprint_env \<Rightarrow> node list \<Rightarrow> footprint_error + pad" where
  "pad_of env p =
     (let a = find_first (Nodes p) ''at''
      in bind_res (pad_coordinate env a 1) (\<lambda>x. bind_res (pad_coordinate env a 2) (\<lambda>y.
           Inr \<lparr>pad_number = node_str env (p ! 1), pad_x = x, pad_y = y,
                pad_layers = (case find_first (Nodes p) ''layers'' of
                                None \<Rightarrow> [] | Some ls \<Rightarrow> map (node_str env) (tl ls))\<rparr>)))"

definition pad_offsets :: "footprint_env \<Rightarrow> node \<Rightarrow> footprint_error + pad list" where
  "pad_offsets env n = map_res (pad_of env) (filter (\<lambda>p. length p \<ge> 2) (find_all n ''pad''))"

definition footprint_pads :: "footprint_env \<Rightarrow> string \<Rightarrow> footprint_error + pad list option" where
  "footprint_pads env lib_id =
     (case fp_file env lib_id of
        None \<Rightarrow> Inr None
      | Some source \<Rightarrow>
          bind_res (load_footprint_node source) (\<lambda>n. bind_res (pad_offsets env n) (\<lambda>ps.
            Inr (if ps = [] then None else Some ps))))"

text \<open>\<open>min(xs), min(ys), max(xs), max(ys)\<close> of a non-empty list of points.\<close>

definition bounding_box :: "point list \<Rightarrow> box" where
  "bounding_box ps =
     (Min (set (map fst ps)), Min (set (map snd ps)), Max (set (map fst ps)), Max (set (map snd ps)))"

definition footprint_bbox :: "footprint_env \<Rightarrow> string \<Rightarrow> footprint_error + box option" where
  "footprint_bbox env lib_id =
     bind_res (footprint_pads env lib_id) (\<lambda>pads.
       Inr (map_option (\<lambda>ps. bounding_box (map (\<lambda>p. (pad_x p, pad_y p)) ps)) pads))"

section \<open>The courtyard's bounding box\<close>

definition xy :: "footprint_env \<Rightarrow> node list option \<Rightarrow> footprint_error + point option" where
  "xy env n =
     (case n of
        None \<Rightarrow> Inr None
      | Some ns \<Rightarrow>
          if length ns < 3 then Inr None
          else bind_res (node_float env (ns ! 1)) (\<lambda>x. bind_res (node_float env (ns ! 2)) (\<lambda>y.
                 Inr (Some (x, y)))))"

definition on_courtyard :: "footprint_env \<Rightarrow> node list \<Rightarrow> bool" where
  "on_courtyard env g =
     (case find_first (Nodes g) ''layer'' of
        None \<Rightarrow> False
      | Some l \<Rightarrow> length l \<ge> 2 \<and> node_str env (l ! 1) \<in> {''F.CrtYd'', ''B.CrtYd''})"

definition courtyard_graphics :: "footprint_env \<Rightarrow> node \<Rightarrow> string \<Rightarrow> node list list" where
  "courtyard_graphics env n tag = filter (on_courtyard env) (find_all n tag)"

definition points_of :: "'a option list \<Rightarrow> 'a list" where
  "points_of os = concat (map (\<lambda>p. case p of None \<Rightarrow> [] | Some x \<Rightarrow> [x]) os)"

definition poly_points :: "footprint_env \<Rightarrow> node list \<Rightarrow> footprint_error + point list option" where
  "poly_points env g =
     (case find_first (Nodes g) ''pts'' of
        None \<Rightarrow> Inr None
      | Some pts \<Rightarrow> bind_res (map_res (\<lambda>c. xy env (Some c)) (find_all (Nodes pts) ''xy''))
                      (\<lambda>os. Inr (Some (points_of os))))"

definition circle_points :: "float_ops \<Rightarrow> point option \<Rightarrow> point option \<Rightarrow> point list" where
  "circle_points ops center edge =
     (case (center, edge) of
        (Some c, Some e) \<Rightarrow>
          (let radius = f_dist ops c e
           in [(fst c - radius, snd c - radius), (fst c + radius, snd c + radius)])
      | _ \<Rightarrow> [])"

definition graphic_points :: "float_ops \<Rightarrow> footprint_env \<Rightarrow> string \<Rightarrow> node list \<Rightarrow> footprint_error + point list" where
  "graphic_points ops env tag g =
     bind_res (map_res (\<lambda>t. xy env (find_first (Nodes g) t)) [''start'', ''mid'', ''end'', ''center'']) (\<lambda>os.
     bind_res (poly_points env g) (\<lambda>pts.
       Inr (points_of os @ (case pts of None \<Rightarrow> [] | Some ps \<Rightarrow> ps)
            @ (if tag = ''fp_circle'' then circle_points ops (os ! 3) (os ! 2) else []))))"

definition courtyard_bbox_from_node :: "float_ops \<Rightarrow> footprint_env \<Rightarrow> node \<Rightarrow> footprint_error + box option" where
  "courtyard_bbox_from_node ops env n =
     bind_res (map_res (\<lambda>tag. map_res (graphic_points ops env tag) (courtyard_graphics env n tag))
                 [''fp_line'', ''fp_rect'', ''fp_arc'', ''fp_poly'', ''fp_circle'']) (\<lambda>pss.
       let points = concat (concat pss) in Inr (if points = [] then None else Some (bounding_box points)))"

definition footprint_courtyard_bbox :: "float_ops \<Rightarrow> footprint_env \<Rightarrow> string \<Rightarrow> footprint_error + box option" where
  "footprint_courtyard_bbox ops env lib_id =
     (case fp_file env lib_id of
        None \<Rightarrow> Inr None
      | Some source \<Rightarrow>
          bind_res (load_footprint_node source) (\<lambda>n.
          bind_res (courtyard_bbox_from_node ops env n) (\<lambda>courtyard.
            case courtyard of None \<Rightarrow> footprint_bbox env lib_id | Some b \<Rightarrow> Inr (Some b))))"

section \<open>The courtyard's polygons\<close>

text \<open>\<open>round\<close>: halves go to the even neighbour.\<close>

definition py_round :: "rat \<Rightarrow> int" where
  "py_round x =
     (let f = \<lfloor>x\<rfloor>; d = x - of_int f
      in if d < 1 / 2 \<or> d = 1 / 2 \<and> even f then f else f + 1)"

definition point_key :: "point \<Rightarrow> int \<times> int" where
  "point_key p = (py_round (fst p * 1000000), py_round (snd p * 1000000))"

fun crosses :: "point \<Rightarrow> point \<Rightarrow> point \<Rightarrow> bool" where
  "crosses (x, y) (x1, y1) (x2, y2) =
     ((y1 > y) \<noteq> (y2 > y) \<and> x1 + (y - y1) * (x2 - x1) / (y2 - y1) > x)"

definition point_in_polygon :: "point \<Rightarrow> polygon \<Rightarrow> bool" where
  "point_in_polygon p polygon =
     fst (fold (\<lambda>current (inside, previous). (if crosses p previous current then \<not> inside else inside, current))
            polygon (False, last polygon))"

type_synonym segment = "point \<times> point"

text \<open>The inner loop of \<open>_line_polygons\<close>: extend the loop by the first segment that touches its tail.\<close>

definition touches :: "int \<times> int \<Rightarrow> segment \<Rightarrow> bool" where
  "touches tail s \<longleftrightarrow> tail = point_key (fst s) \<or> tail = point_key (snd s)"

fun first_match :: "('a \<Rightarrow> bool) \<Rightarrow> 'a list \<Rightarrow> nat option" where
  "first_match P [] = None"
| "first_match P (x # xs) = (if P x then Some 0 else map_option Suc (first_match P xs))"

lemma first_match_Some: "first_match P xs = Some i \<Longrightarrow> i < length xs \<and> P (xs ! i)"
  by (induction xs arbitrary: i) (auto split: if_splits)

definition remove_at :: "nat \<Rightarrow> 'a list \<Rightarrow> 'a list" where
  "remove_at i xs = take i xs @ drop (Suc i) xs"

function chain_loop :: "point list \<Rightarrow> segment list \<Rightarrow> point list \<times> segment list" where
  "chain_loop loop remaining =
     (if point_key (last loop) = point_key (hd loop) then (loop, remaining)
      else
        (case first_match (touches (point_key (last loop))) remaining of
           None \<Rightarrow> (loop, remaining)
         | Some i \<Rightarrow>
             chain_loop
               (loop @ [if point_key (fst (remaining ! i)) = point_key (last loop)
                        then snd (remaining ! i) else fst (remaining ! i)])
               (remove_at i remaining)))"
  by pat_completeness auto
termination
  by (relation "measure (\<lambda>(loop, remaining). length remaining)")
     (auto simp: remove_at_def dest!: first_match_Some)

declare chain_loop.simps [simp del]

lemma chain_loop_shorter: "length (snd (chain_loop loop remaining)) \<le> length remaining"
proof (induction loop remaining rule: chain_loop.induct)
  case (1 loop remaining)
  have "length (remove_at i remaining) \<le> length remaining" for i by (simp add: remove_at_def)
  with 1 show ?case by (subst chain_loop.simps) (force split: option.splits intro: order_trans)
qed

function line_polygons :: "segment list \<Rightarrow> polygon list" where
  "line_polygons [] = []"
| "line_polygons ((start, finish) # remaining) =
     (case chain_loop [start, finish] remaining of
        (loop, rest) \<Rightarrow>
          (if length loop \<ge> 4 \<and> point_key (last loop) = point_key (hd loop) then [butlast loop] else [])
          @ line_polygons rest)"
  by pat_completeness auto
termination
  by (relation "measure length") (auto simp: less_Suc_eq_le, metis chain_loop_shorter snd_conv)

text \<open>The points of the two sorts of graphics that have a start and an end.\<close>

definition start_end :: "footprint_env \<Rightarrow> node list \<Rightarrow> footprint_error + segment option" where
  "start_end env g =
     bind_res (xy env (find_first (Nodes g) ''start'')) (\<lambda>s.
     bind_res (xy env (find_first (Nodes g) ''end'')) (\<lambda>e.
       Inr (case (s, e) of (Some p, Some q) \<Rightarrow> Some (p, q) | _ \<Rightarrow> None)))"

definition rect_polygon :: "segment \<Rightarrow> polygon" where
  "rect_polygon s =
     (case s of
        ((a, b), (c, d)) \<Rightarrow>
          [(min a c, min b d), (max a c, min b d), (max a c, max b d), (min a c, max b d)])"

definition rotations_of :: "'a list \<Rightarrow> 'a list list" where
  "rotations_of xs = map (\<lambda>i. drop i xs @ take i xs) [0..<length xs]"

definition polygon_key :: "polygon \<Rightarrow> (int \<times> int) list" where
  "polygon_key p =
     (let keys = map point_key p in Min (set (rotations_of keys @ rotations_of (rev keys))))"

definition courtyard_polygons_from_node :: "footprint_env \<Rightarrow> node \<Rightarrow> footprint_error + polygon list" where
  "courtyard_polygons_from_node env n =
     bind_res (map_res (start_end env) (courtyard_graphics env n ''fp_line'')) (\<lambda>segments.
     bind_res (map_res (start_end env) (courtyard_graphics env n ''fp_rect'')) (\<lambda>rects.
     bind_res (map_res (poly_points env) (courtyard_graphics env n ''fp_poly'')) (\<lambda>polys.
       let polygons = line_polygons (points_of segments) @ map rect_polygon (points_of rects)
             @ filter (\<lambda>p. length p \<ge> 3) (points_of polys)
       in Inr (map snd (dict_merge [] (map (\<lambda>p. (polygon_key p, p)) polygons))))))"

section \<open>Decomposition into rectangles\<close>

definition add_span :: "polygon \<Rightarrow> rat \<Rightarrow> rat \<times> rat \<Rightarrow> (rat \<times> rat) list \<Rightarrow> (rat \<times> rat) list" where
  "add_span polygon mid_y col spans =
     (case col of
        (x1, x2) \<Rightarrow>
          if point_in_polygon ((x1 + x2) / 2, mid_y) polygon
          then if spans \<noteq> [] \<and> \<bar>snd (last spans) - x1\<bar> \<le> tolerance
               then butlast spans @ [(fst (last spans), x2)]
               else spans @ [(x1, x2)]
          else spans)"

definition row_rectangles :: "polygon \<Rightarrow> rat list \<Rightarrow> rat \<times> rat \<Rightarrow> box list" where
  "row_rectangles polygon xs row =
     (case row of
        (y1, y2) \<Rightarrow>
          map (\<lambda>(x1, x2). (x1, y1, x2, y2))
            (fold (add_span polygon ((y1 + y2) / 2)) (zip xs (tl xs)) []))"

definition merges :: "box \<Rightarrow> box \<Rightarrow> bool" where
  "merges r current =
     (case (r, current) of
        ((x1, y1, x2, y2), (c0, c1, c2, c3)) \<Rightarrow>
          \<bar>c0 - x1\<bar> \<le> tolerance \<and> \<bar>c2 - x2\<bar> \<le> tolerance \<and> \<bar>c3 - y1\<bar> \<le> tolerance)"

definition merge_rectangle :: "box \<Rightarrow> box list \<Rightarrow> box list" where
  "merge_rectangle r merged =
     (case first_match (merges r) merged of
        None \<Rightarrow> merged @ [r]
      | Some i \<Rightarrow>
          (case (merged ! i, r) of
             ((c0, c1, c2, c3), (x1, y1, x2, y2)) \<Rightarrow> merged[i := (c0, c1, c2, y2)]))"

definition polygon_rectangles :: "polygon \<Rightarrow> box list" where
  "polygon_rectangles polygon =
     (let xs = sorted_set (map fst polygon); ys = sorted_set (map snd polygon)
      in if length xs < 2 \<or> length ys < 2 then []
         else fold merge_rectangle (concat (map (row_rectangles polygon xs) (zip ys (tl ys)))) [])"

definition decompose :: "polygon \<Rightarrow> box list" where
  "decompose p = (if polygon_rectangles p = [] then [bounding_box p] else polygon_rectangles p)"

definition footprint_courtyard_rects ::
    "float_ops \<Rightarrow> footprint_env \<Rightarrow> string \<Rightarrow> footprint_error + box list option" where
  "footprint_courtyard_rects ops env lib_id =
     (case fp_file env lib_id of
        None \<Rightarrow> Inr None
      | Some source \<Rightarrow>
          bind_res (load_footprint_node source) (\<lambda>n.
          bind_res (courtyard_polygons_from_node env n) (\<lambda>polygons.
            let rectangles = concat (map decompose polygons)
            in if rectangles \<noteq> [] then Inr (Some (dedup rectangles))
               else bind_res (footprint_courtyard_bbox ops env lib_id) (\<lambda>b.
                      Inr (map_option (\<lambda>b. [b]) b)))))"

end
