(* ===== verification/Shape_Packing.thy ===== *)
theory Shape_Packing
  imports Footprints
begin

text \<open>
  The packer for concave courtyards (\<open>_courtyard_shape_pack\<close> in \<open>orchestration/pipeline.py\<close>):
  it walks a grid of origins, keeps the padded rectangles of what it has placed, and
  chooses the origin with the best score.
\<close>

definition LAYOUT_GRID_MM :: rat where
  "LAYOUT_GRID_MM = 1 / 2"

text \<open>\<open>_snap\<close>: the nearest grid point, rounded to three decimals.\<close>

definition snap :: "rat \<Rightarrow> rat" where
  "snap v = of_int (py_round (of_int (py_round (v / LAYOUT_GRID_MM)) * LAYOUT_GRID_MM * 1000)) / 1000"

record shape_options =
  target_weight :: rat
  preserve_order :: bool
  fixed_placements :: "pcb_placement list"

section \<open>Shapes and their order\<close>

definition shape_padding :: "packing_request \<Rightarrow> rat" where
  "shape_padding req = max (clearance req) (15 / 100)"

definition shape_of :: "footprint_library \<Rightarrow> packing_request \<Rightarrow> string \<Rightarrow> box list" where
  "shape_of lib req ref = placement_shape lib (footprint_of req ref)"

fun box_area :: "box \<Rightarrow> rat" where
  "box_area (x1, y1, x2, y2) = (x2 - x1) * (y2 - y1)"

fun box_side :: "box \<Rightarrow> rat" where
  "box_side (x1, y1, x2, y2) = max (x2 - x1) (y2 - y1)"

definition shape_key :: "footprint_library \<Rightarrow> packing_request \<Rightarrow> string \<Rightarrow> int \<times> rat \<times> rat \<times> nat" where
  "shape_key lib req ref =
     (if ref \<in> set (priority_refs req) then 0 else 1,
      - sum_list (map box_area (shape_of lib req ref)),
      - Max (set (map box_side (shape_of lib req ref))),
      last_index (order req) ref)"

definition fixed_refs :: "shape_options \<Rightarrow> string list" where
  "fixed_refs opts = map pl_ref (fixed_placements opts)"

definition shape_order :: "footprint_library \<Rightarrow> packing_request \<Rightarrow> shape_options \<Rightarrow> string list" where
  "shape_order lib req opts =
     (let refs = filter (\<lambda>r. r \<notin> set (fixed_refs opts)) (order req)
      in if preserve_order opts then refs else sort_key (shape_key lib req) refs)"

definition padded_shape :: "float_ops \<Rightarrow> footprint_library \<Rightarrow> packing_request \<Rightarrow> string \<Rightarrow> rat \<Rightarrow> box list" where
  "padded_shape ops lib req ref rotation =
     rotated_shape ops (shape_of lib req ref) rotation (shape_padding req)"

definition occupied_by :: "float_ops \<Rightarrow> footprint_library \<Rightarrow> packing_request \<Rightarrow> pcb_placement \<Rightarrow> box list" where
  "occupied_by ops lib req p =
     map (move_box (pl_x p) (pl_y p)) (padded_shape ops lib req (pl_ref p) (pl_rotation p))"

definition extent :: "box list \<Rightarrow> box" where
  "extent rs =
     (Min (set (map (\<lambda>(x1, y1, x2, y2). x1) rs)), Min (set (map (\<lambda>(x1, y1, x2, y2). y1) rs)),
      Max (set (map (\<lambda>(x1, y1, x2, y2). x2) rs)), Max (set (map (\<lambda>(x1, y1, x2, y2). y2) rs)))"

section \<open>Candidate origins\<close>

definition grid_start :: "rat \<Rightarrow> rat" where
  "grid_start v = of_int \<lceil>v / LAYOUT_GRID_MM\<rceil> * LAYOUT_GRID_MM"

definition grid_end :: "rat \<Rightarrow> rat" where
  "grid_end v = of_int \<lfloor>v / LAYOUT_GRID_MM\<rfloor> * LAYOUT_GRID_MM"

definition grid_values :: "rat \<Rightarrow> rat \<Rightarrow> rat list" where
  "grid_values a b =
     map (\<lambda>i. a + of_nat i * LAYOUT_GRID_MM) [0..<Suc (nat (max 0 (py_round ((b - a) / LAYOUT_GRID_MM))))]"

definition axis_values :: "rat \<Rightarrow> rat \<Rightarrow> rat option \<Rightarrow> rat list" where
  "axis_values origin_min origin_max target =
     (let a = grid_start origin_min; b = grid_end origin_max
      in case target of
           None \<Rightarrow> grid_values a b
         | Some t \<Rightarrow> dedup (min (max (snap t) a) b # grid_values a b))"

definition shape_target :: "packing_request \<Rightarrow> pcb_placement list \<Rightarrow> string \<Rightarrow> (rat \<times> rat) option" where
  "shape_target req ps ref =
     (case map_of (dependency req) ref of
        None \<Rightarrow> map_of (targets req) ref
      | Some a \<Rightarrow>
          (case find (\<lambda>p. pl_ref p = a) ps of
             None \<Rightarrow> map_of (targets req) ref
           | Some p \<Rightarrow> Some (pl_x p, pl_y p)))"

definition target_distance :: "float_ops \<Rightarrow> packing_request \<Rightarrow> (rat \<times> rat) option \<Rightarrow> rat \<Rightarrow> rat \<Rightarrow> rat" where
  "target_distance ops req target x y =
     (case target of None \<Rightarrow> 0 | Some t \<Rightarrow> f_dist ops (x, y) t / board_diagonal ops req)"

definition shape_score ::
    "float_ops \<Rightarrow> packing_request \<Rightarrow> shape_options \<Rightarrow> box list \<Rightarrow> rat \<Rightarrow> rat" where
  "shape_score ops req opts combined distance =
     (case extent combined of
        (x1, y1, x2, y2) \<Rightarrow>
          (let compactness = (x2 - x1) * (y2 - y1) / max (board_width req * board_height req) 1;
               bottom_left = y2 / max (board_height req) 1 + 2 / 10 * x2 / max (board_width req) 1
           in target_weight opts * distance + 65 / 100 * compactness + 5 / 100 * bottom_left))"

type_synonym shape_candidate = "(rat \<times> rat \<times> rat \<times> rat) \<times> pcb_placement"

definition shape_candidate_at ::
    "float_ops \<Rightarrow> footprint_library \<Rightarrow> packing_request \<Rightarrow> shape_options \<Rightarrow> (rat \<times> rat) option \<Rightarrow> box list
       \<Rightarrow> pcb_placement \<Rightarrow> shape_candidate list" where
  "shape_candidate_at ops lib req opts target occ p =
     (let x = pl_x p; y = pl_y p; absolute = occupied_by ops lib req p;
          distance = target_distance ops req target x y
      in if in_region req (pl_ref p) x y \<and> near_edge req (pl_ref p) x y
            \<and> near_target ops req (pl_ref p) target x y
            \<and> \<not> list_ex (\<lambda>r. list_ex (\<lambda>other. boxes_overlap r other 0) occ) absolute
         then [((shape_score ops req opts (occ @ absolute) distance, distance, y, x), p)]
         else [])"

definition origin_bounds ::
    "float_ops \<Rightarrow> footprint_library \<Rightarrow> process_capability \<Rightarrow> packing_request \<Rightarrow> string \<Rightarrow> rat \<Rightarrow> box" where
  "origin_bounds ops lib cap req ref rotation =
     (case extent (padded_shape ops lib req ref rotation) of
        (x1, y1, x2, y2) \<Rightarrow>
          (board_edge cap - x1, board_edge cap - y1,
           board_width req - board_edge cap - x2, board_height req - board_edge cap - y2))"

definition shape_candidates_for ::
    "float_ops \<Rightarrow> footprint_library \<Rightarrow> process_capability \<Rightarrow> packing_request \<Rightarrow> shape_options
       \<Rightarrow> (rat \<times> rat) option \<Rightarrow> box list \<Rightarrow> string \<Rightarrow> rat \<Rightarrow> shape_candidate list" where
  "shape_candidates_for ops lib cap req opts target occ ref rotation =
     (case origin_bounds ops lib cap req ref rotation of
        (x_min, y_min, x_max, y_max) \<Rightarrow>
          if x_min > x_max + tolerance \<or> y_min > y_max + tolerance then []
          else
            concat (map (\<lambda>y. concat (map (\<lambda>x.
                shape_candidate_at ops lib req opts target occ
                  \<lparr>pl_ref = ref, pl_x = x, pl_y = y, pl_rotation = rotation\<rparr>)
              (axis_values x_min x_max (map_option fst target))))
              (axis_values y_min y_max (map_option snd target))))"

section \<open>Packing\<close>

record shape_packing =
  occupied :: "box list"
  sh_placements :: "pcb_placement list"
  sh_unplaced :: "string list"

definition shape_pack_one ::
    "float_ops \<Rightarrow> footprint_library \<Rightarrow> process_capability \<Rightarrow> packing_request \<Rightarrow> shape_options
       \<Rightarrow> string \<Rightarrow> shape_packing \<Rightarrow> shape_packing" where
  "shape_pack_one ops lib cap req opts ref s =
     (let target = shape_target req (sh_placements s) ref
      in case concat (map (shape_candidates_for ops lib cap req opts target (occupied s) ref) [0, 90]) of
           [] \<Rightarrow> s\<lparr>sh_unplaced := sh_unplaced s @ [ref]\<rparr>
         | c # cs \<Rightarrow>
             (let p = snd (first_min fst c cs)
              in s\<lparr>sh_placements := sh_placements s @ [p],
                   occupied := occupied s @ occupied_by ops lib req p\<rparr>))"

definition initial_shapes ::
    "float_ops \<Rightarrow> footprint_library \<Rightarrow> packing_request \<Rightarrow> shape_options \<Rightarrow> shape_packing" where
  "initial_shapes ops lib req opts =
     \<lparr>occupied = concat (map (occupied_by ops lib req) (fixed_placements opts)),
      sh_placements = fixed_placements opts, sh_unplaced = []\<rparr>"

text \<open>
  \<open>shapes[placement.ref]\<close> raises a \<open>KeyError\<close> for a fixed placement of a reference that is
  not in the order.
\<close>

definition courtyard_shape_pack ::
    "float_ops \<Rightarrow> footprint_library \<Rightarrow> process_capability \<Rightarrow> packing_request \<Rightarrow> shape_options
       \<Rightarrow> string + pcb_placement list \<times> string list" where
  "courtyard_shape_pack ops lib cap req opts =
     (case find (\<lambda>r. r \<notin> set (order req)) (fixed_refs opts) of
        Some r \<Rightarrow> Inl r
      | None \<Rightarrow>
          (let s = fold (shape_pack_one ops lib cap req opts) (shape_order lib req opts)
                     (initial_shapes ops lib req opts)
           in Inr (sh_placements s, sh_unplaced s)))"

text \<open>\<open>_shape_target_error\<close>: the mean distance of the placed parts from their targets.\<close>

definition shape_target_error ::
    "float_ops \<Rightarrow> (string \<times> (rat \<times> rat)) list \<Rightarrow> rat \<Rightarrow> pcb_placement list \<Rightarrow> rat" where
  "shape_target_error ops tgts diagonal ps =
     (let distances = concat (map (\<lambda>p. case map_of tgts (pl_ref p) of
                                         None \<Rightarrow> [] | Some t \<Rightarrow> [f_dist ops (pl_x p, pl_y p) t / diagonal]) ps)
      in sum_list distances / of_nat (max (length distances) 1))"

end
