(* ===== verification/Placement_Facts.thy ===== *)
theory Placement_Facts
  imports Placement "HOL-Library.Multiset"
begin

text \<open>
  Facts about placement: the order of packing is a permutation of the references in
  which every anchor precedes its dependents, the free rectangles keep clear of what has
  been placed, and a packed plan passes the geometric check.
\<close>

section \<open>The order of packing\<close>

lemma emit_mono: "set packed \<subseteq> set (emit_with_anchor ord dep vis ref packed)"
proof (induction ord dep vis ref packed rule: emit_with_anchor.induct)
  case (1 ord dep vis ref packed)
  then show ?case
    by (subst emit_with_anchor.simps) (auto split: option.splits)
qed

lemma emit_range: "set (emit_with_anchor ord dep vis ref packed) \<subseteq> insert ref (set packed \<union> set ord)"
proof (induction ord dep vis ref packed rule: emit_with_anchor.induct)
  case (1 ord dep vis ref packed)
  then show ?case
    by (subst emit_with_anchor.simps) (auto split: option.splits)
qed

lemma emit_visiting: "set (emit_with_anchor ord dep vis ref packed) \<inter> set vis \<subseteq> set packed"
proof (induction ord dep vis ref packed rule: emit_with_anchor.induct)
  case (1 ord dep vis ref packed)
  then show ?case
    by (subst emit_with_anchor.simps) (auto split: option.splits)
qed

lemma emit_self: "ref \<notin> set vis \<Longrightarrow> ref \<in> set (emit_with_anchor ord dep vis ref packed)"
  by (subst emit_with_anchor.simps) auto

lemma emit_distinct: "distinct packed \<Longrightarrow> distinct (emit_with_anchor ord dep vis ref packed)"
proof (induction ord dep vis ref packed rule: emit_with_anchor.induct)
  case (1 ord dep vis ref packed)
  show ?case
  proof (cases "ref \<in> set packed \<or> ref \<in> set vis")
    case True
    with 1 show ?thesis by (subst emit_with_anchor.simps) auto
  next
    case False
    have "ref \<notin> set (emit_with_anchor ord dep (ref # vis) a packed)" for a
      using emit_visiting [of ord dep "ref # vis" a packed] False by auto
    with 1 False show ?thesis
      by (subst emit_with_anchor.simps) (auto split: option.splits)
  qed
qed

lemma fold_emit:
  assumes "distinct packed"
  shows "distinct (fold (emit_with_anchor ord dep []) refs packed)"
    and "set (fold (emit_with_anchor ord dep []) refs packed) \<subseteq> set packed \<union> set refs \<union> set ord"
    and "set packed \<union> set refs \<subseteq> set (fold (emit_with_anchor ord dep []) refs packed)"
proof -
  show "distinct (fold (emit_with_anchor ord dep []) refs packed)"
    using assms by (induction refs arbitrary: packed) (simp_all add: emit_distinct)
  show "set (fold (emit_with_anchor ord dep []) refs packed) \<subseteq> set packed \<union> set refs \<union> set ord"
  proof (induction refs arbitrary: packed)
    case (Cons r refs)
    from Cons [of "emit_with_anchor ord dep [] r packed"] emit_range [of ord dep "[]" r packed]
    show ?case by auto
  qed simp
  show "set packed \<union> set refs \<subseteq> set (fold (emit_with_anchor ord dep []) refs packed)"
  proof (induction refs arbitrary: packed)
    case (Cons r refs)
    from Cons [of "emit_with_anchor ord dep [] r packed"] emit_mono [of packed ord dep "[]" r]
      emit_self [of r "[]" ord dep packed]
    show ?case by auto
  qed simp
qed

lemma packed_order_distinct: "distinct (packed_order lib req)"
  by (simp add: packed_order_def fold_emit)

lemma set_packed_order: "set (packed_order lib req) = set (order req)"
proof -
  have r: "set (ranked_order lib req) = set (order req)" by (simp add: ranked_order_def)
  show ?thesis
    using fold_emit(2,3) [where packed = "[]" and ord = "order req" and dep = "dependency req"
        and refs = "ranked_order lib req"] r
    by (simp add: packed_order_def subset_antisym)
qed

text \<open>A list in which the anchor of every reference stands before it.\<close>

definition anchored :: "string list \<Rightarrow> (string \<times> string) list \<Rightarrow> string list \<Rightarrow> bool" where
  "anchored ord dep xs =
     (\<forall>i < length xs. \<forall>a. map_of dep (xs ! i) = Some a \<and> a \<in> set ord \<longrightarrow> a \<in> set (take i xs))"

lemma anchored_Nil [simp]: "anchored ord dep []"
  by (simp add: anchored_def)

lemma anchored_snoc:
  "anchored ord dep (xs @ [r]) \<longleftrightarrow>
     anchored ord dep xs \<and> (\<forall>a. map_of dep r = Some a \<and> a \<in> set ord \<longrightarrow> a \<in> set xs)"
  by (auto simp: anchored_def nth_append less_Suc_eq)

definition depends :: "(string \<times> string) list \<Rightarrow> (string \<times> string) set" where
  "depends dep = {(r, a). map_of dep r = Some a}"

lemma emit_anchored:
  assumes "acyclic (depends dep)" "anchored ord dep packed" "\<forall>v \<in> set vis. (v, ref) \<in> (depends dep)\<^sup>+"
  shows "anchored ord dep (emit_with_anchor ord dep vis ref packed)"
  using assms
proof (induction ord dep vis ref packed rule: emit_with_anchor.induct)
  case (1 ord dep vis ref packed)
  show ?case
  proof (cases "ref \<in> set packed \<or> ref \<in> set vis")
    case True
    with 1 show ?thesis by (subst emit_with_anchor.simps) auto
  next
    case False
    show ?thesis
    proof (cases "\<exists>a. map_of dep ref = Some a \<and> a \<in> set ord \<and> a \<notin> set packed")
      case True
      then obtain a where a: "map_of dep ref = Some a" "a \<in> set ord" "a \<notin> set packed" by blast
      have step: "(ref, a) \<in> depends dep" using a(1) by (simp add: depends_def)
      have chain: "\<forall>v \<in> set (ref # vis). (v, a) \<in> (depends dep)\<^sup>+"
        using step 1(4) by (auto intro: trancl_into_trancl)
      have "a \<notin> set (ref # vis)"
        using chain 1(2) by (meson acyclic_def)
      then have "a \<in> set (emit_with_anchor ord dep (ref # vis) a packed)" by (rule emit_self)
      moreover have "anchored ord dep (emit_with_anchor ord dep (ref # vis) a packed)"
        using 1(1) [OF False a(1)] a 1(2,3) chain by blast
      ultimately show ?thesis
        using False a by (subst emit_with_anchor.simps) (simp add: anchored_snoc)
    next
      case False': False
      then have "emit_with_anchor ord dep vis ref packed = packed @ [ref]"
        using False by (subst emit_with_anchor.simps) (auto split: option.splits)
      with False' 1(3) show ?thesis by (auto simp: anchored_snoc)
    qed
  qed
qed

lemma packed_order_anchored:
  assumes "acyclic (depends (dependency req))"
  shows "anchored (order req) (dependency req) (packed_order lib req)"
proof -
  have "anchored (order req) (dependency req)
          (fold (emit_with_anchor (order req) (dependency req) []) refs packed)"
    if "anchored (order req) (dependency req) packed" for refs packed
    using that by (induction refs arbitrary: packed) (simp_all add: emit_anchored [OF assms])
  then show ?thesis by (simp add: packed_order_def)
qed

section \<open>Free rectangles\<close>

named_theorems rect_defs

lemmas [rect_defs] = apart_def fits_at_def

definition rect_within :: "rect \<Rightarrow> rect \<Rightarrow> bool" where [rect_defs]:
  "rect_within r s =
     (case (r, s) of
        ((x, y, w, h), (x', y', w', h')) \<Rightarrow> x' \<le> x \<and> y' \<le> y \<and> x + w \<le> x' + w' \<and> y + h \<le> y' + h')"

text \<open>Apart up to the tolerance with which the packer compares coordinates.\<close>

definition nearly_apart :: "rect \<Rightarrow> rect \<Rightarrow> bool" where [rect_defs]:
  "nearly_apart r s =
     (case (r, s) of
        ((x, y, w, h), (x', y', w', h')) \<Rightarrow>
          x \<ge> x' + w' - tolerance \<or> x + w \<le> x' + tolerance
          \<or> y \<ge> y' + h' - tolerance \<or> y + h \<le> y' + tolerance)"

lemma prune_subset: "set (prune_free_rectangles rs) \<subseteq> set rs"
proof
  fix r assume "r \<in> set (prune_free_rectangles rs)"
  then obtain i where "(i, r) \<in> set (enumerate 0 rs)" unfolding prune_free_rectangles_def by force
  then show "r \<in> set rs" by (auto simp: in_set_enumerate_eq simp del: split_paired_All)
qed

lemma split_rectangle_apart: "f \<in> set (split_rectangle used r) \<Longrightarrow> apart used f"
  by (auto simp: split_rectangle_def rect_defs split: prod.splits if_splits)

lemma split_rectangle_within: "f \<in> set (split_rectangle used r) \<Longrightarrow> rect_within f r"
  by (auto simp: split_rectangle_def rect_defs split: prod.splits if_splits)

lemma apart_within: "apart used r \<Longrightarrow> rect_within f r \<Longrightarrow> apart used f"
  by (auto simp: rect_defs split: prod.splits)

lemma within_trans: "rect_within f r \<Longrightarrow> rect_within r s \<Longrightarrow> rect_within f s"
  by (auto simp: rect_defs split: prod.splits)

lemma split_free_rectangles_from:
  assumes "f \<in> set (split_free_rectangles rs used)"
  obtains r where "r \<in> set rs" "apart used f" "rect_within f r"
proof -
  obtain r where "r \<in> set rs" "f \<in> set (split_rectangle used r)"
    using assms prune_subset [of "concat (map (split_rectangle used) rs)"]
    unfolding split_free_rectangles_def set_concat set_map by blast
  with that split_rectangle_apart split_rectangle_within show thesis by blast
qed

lemma fits_at_within: "fits_at used f \<Longrightarrow> rect_within f r \<Longrightarrow> fits_at used r"
  by (auto simp: rect_defs split: prod.splits)

lemma fits_at_apart: "apart used f \<Longrightarrow> fits_at used' f \<Longrightarrow> nearly_apart used used'"
  by (auto simp: rect_defs split: prod.splits)

section \<open>Packers\<close>

text \<open>
  What the two packers share: a step takes one reference and either skips it or adds one
  placement for it, which is admissible by itself and compatible with every placement
  made before.
\<close>

locale packer =
  fixes step :: "string \<Rightarrow> 's \<Rightarrow> 's"
    and placed :: "'s \<Rightarrow> pcb_placement list"
    and skipped :: "'s \<Rightarrow> string list"
    and inv :: "'s \<Rightarrow> bool"
    and admissible :: "pcb_placement \<Rightarrow> bool"
    and compatible :: "pcb_placement \<Rightarrow> pcb_placement \<Rightarrow> bool"
  assumes step_inv: "inv s \<Longrightarrow> inv (step r s)"
    and step_cases: "inv s \<Longrightarrow>
      placed (step r s) = placed s \<and> skipped (step r s) = skipped s @ [r] \<or>
      (\<exists>p. pl_ref p = r \<and> admissible p \<and> (\<forall>q \<in> set (placed s). compatible q p)
           \<and> placed (step r s) = placed s @ [p] \<and> skipped (step r s) = skipped s)"
begin

definition good :: "'s \<Rightarrow> bool" where
  "good s \<longleftrightarrow> inv s \<and> sorted_wrt compatible (placed s) \<and> (\<forall>p \<in> set (placed s). admissible p)"

lemma good_inv: "good s \<Longrightarrow> inv s"
  by (simp add: good_def)

lemma good_step: "good s \<Longrightarrow> good (step r s)"
  using step_inv [of s r] step_cases [of s r] by (auto simp: good_def sorted_wrt_append)

lemma good_run: "good s \<Longrightarrow> good (fold step refs s)"
  by (induction refs arbitrary: s) (simp_all add: good_step)

lemma partition_step:
  "inv s \<Longrightarrow> mset (map pl_ref (placed (step r s))) + mset (skipped (step r s))
     = add_mset r (mset (map pl_ref (placed s)) + mset (skipped s))"
  using step_cases [of s r] by auto

lemma partition_run:
  "inv s \<Longrightarrow> mset (map pl_ref (placed (fold step refs s))) + mset (skipped (fold step refs s))
     = mset refs + mset (map pl_ref (placed s)) + mset (skipped s)"
proof (induction refs arbitrary: s)
  case (Cons r refs)
  with Cons.IH [OF step_inv] partition_step show ?case by simp
qed simp

text \<open>
  What a run adds to the placements it starts from: parts among those it is asked for, admissible,
  and compatible with each other and with every placement there was.
\<close>

definition packs_onto :: "pcb_placement list \<Rightarrow> string set \<Rightarrow> 's \<Rightarrow> bool" where
  "packs_onto base R s \<longleftrightarrow> inv s \<and> (\<exists>new. placed s = base @ new \<and> sorted_wrt compatible new
     \<and> (\<forall>p \<in> set new. admissible p \<and> pl_ref p \<in> R \<and> (\<forall>q \<in> set base. compatible q p)))"

lemma packs_onto_refl: "inv s \<Longrightarrow> packs_onto (placed s) R s"
  by (simp add: packs_onto_def)

lemma packs_onto_step: "packs_onto base R s \<Longrightarrow> r \<in> R \<Longrightarrow> packs_onto base R (step r s)"
  using step_inv [of s r] step_cases [of s r] by (auto simp: packs_onto_def sorted_wrt_append)

lemma packs_onto_run: "packs_onto base R s \<Longrightarrow> set refs \<subseteq> R \<Longrightarrow> packs_onto base R (fold step refs s)"
  by (induction refs arbitrary: s) (simp_all add: packs_onto_step)

end

section \<open>MaxRects\<close>

text \<open>The padded courtyard box that a placement takes out of the free space.\<close>

definition used_rect :: "float_ops \<Rightarrow> rat \<Rightarrow> box \<Rightarrow> pcb_placement \<Rightarrow> rect" where
  "used_rect ops pad b p =
     (case rotated_bbox ops b (pl_rotation p) of
        (x1, y1, x2, y2) \<Rightarrow>
          (pl_x p + x1 - pad, pl_y p + y1 - pad, x2 - x1 + 2 * pad, y2 - y1 + 2 * pad))"

definition keeps_constraints :: "float_ops \<Rightarrow> packing_request \<Rightarrow> pcb_placement \<Rightarrow> bool" where
  "keeps_constraints ops req p \<longleftrightarrow>
     in_region req (pl_ref p) (pl_x p) (pl_y p) \<and> near_edge req (pl_ref p) (pl_x p) (pl_y p)
     \<and> near_target ops req (pl_ref p) (map_of (targets req) (pl_ref p)) (pl_x p) (pl_y p)
     \<and> pl_rotation p \<in> {0, 90}"

definition placement_of :: "string \<Rightarrow> candidate \<Rightarrow> pcb_placement" where
  "placement_of ref c =
     \<lparr>pl_ref = ref, pl_x = cand_x c, pl_y = cand_y c, pl_rotation = cand_rotation c\<rparr>"

lemma candidates_at_sound:
  assumes "c \<in> set (candidates_at ops req pad ref b f rot)" "rot \<in> {0, 90}"
  shows "fits_at (cand_used c) f" "cand_used c = used_rect ops pad b (placement_of ref c)"
    "keeps_constraints ops req (placement_of ref c)"
  using assms
  by (auto simp: candidates_at_def Let_def used_rect_def placement_of_def keeps_constraints_def
      split: prod.splits if_splits)

lemma first_min_mem: "first_min key x xs \<in> set (x # xs)"
proof (induction xs arbitrary: x)
  case (Cons y ys)
  from Cons [of "if key y < key x then y else x"] show ?case by auto
qed simp

lemma first_min_least: "y \<in> set (x # xs) \<Longrightarrow> key (first_min key x xs) \<le> key y"
proof (induction xs arbitrary: x y)
  case (Cons z zs)
  show ?case
  proof (cases "y \<in> set zs")
    case True
    with Cons.IH [of y "if key z < key x then z else x"] show ?thesis by simp
  next
    case False
    with Cons.prems have "key (if key z < key x then z else x) \<le> key y" by auto
    with Cons.IH [of "if key z < key x then z else x" "if key z < key x then z else x"]
    show ?thesis by (auto intro: order_trans)
  qed
qed simp

text \<open>The board without its edge, and the invariant that the packing loop keeps.\<close>

definition board_rect :: "process_capability \<Rightarrow> packing_request \<Rightarrow> rect" where
  "board_rect cap req =
     (let edge = board_edge cap in (edge, edge, board_width req - 2 * edge, board_height req - 2 * edge))"

definition used_by :: "float_ops \<Rightarrow> footprint_library \<Rightarrow> packing_request \<Rightarrow> pcb_placement \<Rightarrow> rect" where
  "used_by ops lib req p = used_rect ops (packing_pad ops req) (box_of lib req (pl_ref p)) p"

definition free_clear :: "float_ops \<Rightarrow> footprint_library \<Rightarrow> process_capability \<Rightarrow> packing_request \<Rightarrow> packing \<Rightarrow> bool" where
  "free_clear ops lib cap req s \<longleftrightarrow>
     (\<forall>f \<in> set (free s). rect_within f (board_rect cap req) \<and>
        (\<forall>p \<in> set (placements s). apart (used_by ops lib req p) f))"

definition maxrect_admissible :: "float_ops \<Rightarrow> footprint_library \<Rightarrow> process_capability \<Rightarrow> packing_request \<Rightarrow> pcb_placement \<Rightarrow> bool" where
  "maxrect_admissible ops lib cap req p \<longleftrightarrow>
     fits_at (used_by ops lib req p) (board_rect cap req) \<and> keeps_constraints ops req p"

definition maxrect_compatible :: "float_ops \<Rightarrow> footprint_library \<Rightarrow> packing_request \<Rightarrow> pcb_placement \<Rightarrow> pcb_placement \<Rightarrow> bool" where
  "maxrect_compatible ops lib req p q \<longleftrightarrow> nearly_apart (used_by ops lib req p) (used_by ops lib req q)"

lemma all_candidates_iff:
  "c \<in> set (all_candidates ops lib req pad fs ref) \<longleftrightarrow>
     (\<exists>f \<in> set fs. \<exists>rot \<in> {0, 90}. c \<in> set (candidates_at ops req pad ref (box_of lib req ref) f rot))"
  by (simp add: all_candidates_def)

lemma pack_one_cases:
  obtains "pack_one ops lib req pad ref s = s\<lparr>unplaced := unplaced s @ [ref]\<rparr>"
  | c f where "f \<in> set (free s)" "fits_at (cand_used c) f"
      "cand_used c = used_rect ops pad (box_of lib req ref) (placement_of ref c)"
      "keeps_constraints ops req (placement_of ref c)"
      "pack_one ops lib req pad ref s =
         s\<lparr>placements := placements s @ [placement_of ref c],
           free := split_free_rectangles (free s) (cand_used c)\<rparr>"
proof (cases "all_candidates ops lib req pad (free s) ref")
  case Nil
  with that(1) show thesis by (simp add: pack_one_def)
next
  case (Cons c cs)
  let ?c = "first_min cand_score c cs"
  have "?c \<in> set (all_candidates ops lib req pad (free s) ref)"
    unfolding Cons by (rule first_min_mem)
  then obtain f rot where f: "f \<in> set (free s)" "rot \<in> {0, 90}"
    and c: "?c \<in> set (candidates_at ops req pad ref (box_of lib req ref) f rot)"
    unfolding all_candidates_iff by blast
  have "pack_one ops lib req pad ref s =
      s\<lparr>placements := placements s @ [placement_of ref ?c],
        free := split_free_rectangles (free s) (cand_used ?c)\<rparr>"
    by (simp add: pack_one_def Cons placement_of_def Let_def)
  with that(2) f(1) candidates_at_sound [OF c f(2)] show thesis by blast
qed

lemma pl_ref_placement_of [simp]: "pl_ref (placement_of ref c) = ref"
  by (simp add: placement_of_def)

interpretation mr: packer "pack_one ops lib req (packing_pad ops req)" placements unplaced
  "free_clear ops lib cap req" "maxrect_admissible ops lib cap req" "maxrect_compatible ops lib req"
  for ops lib cap req
proof
  fix s r
  assume inv: "free_clear ops lib cap req s"
  show "free_clear ops lib cap req (pack_one ops lib req (packing_pad ops req) r s)"
  proof (cases rule: pack_one_cases [of ops lib req "packing_pad ops req" r s])
    case 1
    with inv show ?thesis by (simp add: free_clear_def)
  next
    case (2 c f)
    have u: "used_by ops lib req (placement_of r c) = cand_used c" by (simp add: used_by_def 2(3))
    show ?thesis
      unfolding free_clear_def
    proof (intro ballI conjI)
      fix g assume "g \<in> set (free (pack_one ops lib req (packing_pad ops req) r s))"
      then have "g \<in> set (split_free_rectangles (free s) (cand_used c))" by (simp add: 2(5))
      then obtain h where h: "h \<in> set (free s)" "apart (cand_used c) g" "rect_within g h"
        by (rule split_free_rectangles_from)
      with inv show "rect_within g (board_rect cap req)"
        unfolding free_clear_def by (blast intro: within_trans)
      fix p assume "p \<in> set (placements (pack_one ops lib req (packing_pad ops req) r s))"
      then have "p \<in> set (placements s) \<or> p = placement_of r c" by (auto simp: 2(5))
      then show "apart (used_by ops lib req p) g"
        using h inv u unfolding free_clear_def by (metis apart_within)
    qed
  qed
  show "placements (pack_one ops lib req (packing_pad ops req) r s) = placements s \<and>
        unplaced (pack_one ops lib req (packing_pad ops req) r s) = unplaced s @ [r] \<or>
     (\<exists>p. pl_ref p = r \<and> maxrect_admissible ops lib cap req p \<and>
        (\<forall>q \<in> set (placements s). maxrect_compatible ops lib req q p) \<and>
        placements (pack_one ops lib req (packing_pad ops req) r s) = placements s @ [p] \<and>
        unplaced (pack_one ops lib req (packing_pad ops req) r s) = unplaced s)"
  proof (cases rule: pack_one_cases [of ops lib req "packing_pad ops req" r s])
    case 1
    then show ?thesis by simp
  next
    case (2 c f)
    have u: "used_by ops lib req (placement_of r c) = cand_used c" by (simp add: used_by_def 2(3))
    have f: "rect_within f (board_rect cap req)" "\<forall>q \<in> set (placements s). apart (used_by ops lib req q) f"
      using inv 2(1) by (auto simp: free_clear_def)
    have "maxrect_admissible ops lib cap req (placement_of r c)"
      using fits_at_within [OF 2(2) f(1)] 2(4) by (simp add: maxrect_admissible_def u)
    moreover have "\<forall>q \<in> set (placements s). maxrect_compatible ops lib req q (placement_of r c)"
      unfolding maxrect_compatible_def u using f(2) 2(2) by (blast intro: fits_at_apart)
    ultimately show ?thesis using 2(5) by (intro disjI2 exI [of _ "placement_of r c"]) simp
  qed
qed

lemma initial_good: "mr.good ops lib cap req (initial_packing cap req)"
  by (simp add: mr.good_def initial_packing_def free_clear_def board_rect_def rect_within_def Let_def)

abbreviation packed_state ::
    "float_ops \<Rightarrow> footprint_library \<Rightarrow> process_capability \<Rightarrow> packing_request \<Rightarrow> packing" where
  "packed_state ops lib cap req \<equiv>
     fold (pack_one ops lib req (packing_pad ops req)) (packed_order lib req) (initial_packing cap req)"

lemma maxrect_pack_good: "mr.good ops lib cap req (packed_state ops lib cap req)"
  by (rule mr.good_run [OF initial_good])

lemma maxrect_pack_eq:
  "maxrect_pack ops lib cap req =
     (placements (packed_state ops lib cap req), unplaced (packed_state ops lib cap req))"
  by (simp add: maxrect_pack_def Let_def)

lemma maxrect_pack_mset:
  "mset (map pl_ref (fst (maxrect_pack ops lib cap req))) + mset (snd (maxrect_pack ops lib cap req))
     = mset (packed_order lib req)"
  using mr.partition_run [OF mr.good_inv [OF initial_good], where refs = "packed_order lib req"]
  by (simp add: maxrect_pack_eq) (simp add: initial_packing_def Let_def)

lemma maxrect_pack_distinct: "distinct (map pl_ref (fst (maxrect_pack ops lib cap req)))"
proof -
  have "mset (map pl_ref (fst (maxrect_pack ops lib cap req)) @ snd (maxrect_pack ops lib cap req))
      = mset (packed_order lib req)"
    using maxrect_pack_mset by simp
  then have "distinct (map pl_ref (fst (maxrect_pack ops lib cap req)) @ snd (maxrect_pack ops lib cap req))"
    using packed_order_distinct mset_eq_imp_distinct_iff by blast
  then show ?thesis by simp
qed

section \<open>Rotated boxes\<close>

text \<open>A box whose sides are in order, inside another one.\<close>

definition box_inside :: "box \<Rightarrow> box \<Rightarrow> bool" where
  "box_inside r b =
     (case (r, b) of
        ((x1, y1, x2, y2), (X1, Y1, X2, Y2)) \<Rightarrow>
          X1 \<le> x1 \<and> x1 \<le> x2 \<and> x2 \<le> X2 \<and> Y1 \<le> y1 \<and> y1 \<le> y2 \<and> y2 \<le> Y2)"

text \<open>The least and the greatest value that a linear form takes at the corners of a box.\<close>

fun corner_min corner_max :: "rat \<Rightarrow> rat \<Rightarrow> box \<Rightarrow> rat" where
  "corner_min c s (x1, y1, x2, y2) =
     min (min (x1 * c + y1 * s) (x1 * c + y2 * s)) (min (x2 * c + y1 * s) (x2 * c + y2 * s))"
| "corner_max c s (x1, y1, x2, y2) =
     max (max (x1 * c + y1 * s) (x1 * c + y2 * s)) (max (x2 * c + y1 * s) (x2 * c + y2 * s))"

lemma rotated_bbox_corners:
  assumes "f_cos_sin ops (rot - 360 * of_int \<lfloor>rot / 360\<rfloor>) = (c, s)"
  shows "rotated_bbox ops b rot = (corner_min c s b, corner_min (- s) c b, corner_max c s b, corner_max (- s) c b)"
  by (cases b) (simp add: rotated_bbox_def rotate_point_def assms Let_def)

lemma corner_bounds:
  assumes "X1 \<le> x" "x \<le> X2" "Y1 \<le> y" "y \<le> Y2"
  shows "corner_min c s (X1, Y1, X2, Y2) \<le> x * c + y * s"
    and "x * c + y * s \<le> corner_max c s (X1, Y1, X2, Y2)"
proof -
  have x: "X1 * c \<le> x * c \<and> x * c \<le> X2 * c \<or> X2 * c \<le> x * c \<and> x * c \<le> X1 * c"
    using assms(1,2) by (cases "0 \<le> c") (auto intro: mult_right_mono mult_right_mono_neg)
  have y: "Y1 * s \<le> y * s \<and> y * s \<le> Y2 * s \<or> Y2 * s \<le> y * s \<and> y * s \<le> Y1 * s"
    using assms(3,4) by (cases "0 \<le> s") (auto intro: mult_right_mono mult_right_mono_neg)
  show "corner_min c s (X1, Y1, X2, Y2) \<le> x * c + y * s"
    using x y by (auto simp: min_le_iff_disj intro: add_mono)
  show "x * c + y * s \<le> corner_max c s (X1, Y1, X2, Y2)"
    using x y by (auto simp: le_max_iff_disj intro: add_mono)
qed

lemma corners_inside:
  assumes "box_inside r b"
  shows "corner_min c s b \<le> corner_min c s r" "corner_min c s r \<le> corner_max c s r"
    "corner_max c s r \<le> corner_max c s b"
proof -
  obtain x1 y1 x2 y2 where r: "r = (x1, y1, x2, y2)" by (cases r) auto
  obtain X1 Y1 X2 Y2 where b: "b = (X1, Y1, X2, Y2)" by (cases b) auto
  have i: "X1 \<le> x1" "x1 \<le> x2" "x2 \<le> X2" "Y1 \<le> y1" "y1 \<le> y2" "y2 \<le> Y2"
    using assms by (simp_all add: box_inside_def r b)
  have *: "X1 \<le> x1" "x1 \<le> X2" "X1 \<le> x2" "x2 \<le> X2" "Y1 \<le> y1" "y1 \<le> Y2" "Y1 \<le> y2" "y2 \<le> Y2"
    using i by simp_all
  note bounds = corner_bounds [OF *(1,2,5,6)] corner_bounds [OF *(1,2,7,8)]
    corner_bounds [OF *(3,4,5,6)] corner_bounds [OF *(3,4,7,8)]
  show "corner_min c s b \<le> corner_min c s r" "corner_max c s r \<le> corner_max c s b"
    unfolding r b corner_min.simps(1) [of c s x1] corner_max.simps(1) [of c s x1] by (simp_all only: min.bounded_iff max.bounded_iff bounds simp_thms)
  show "corner_min c s r \<le> corner_max c s r"
    by (simp add: r min_le_iff_disj le_max_iff_disj)
qed

lemma rotated_bbox_inside:
  assumes "box_inside r b"
  shows "box_inside (rotated_bbox ops r rot) (rotated_bbox ops b rot)"
proof -
  obtain c s where cs: "f_cos_sin ops (rot - 360 * of_int \<lfloor>rot / 360\<rfloor>) = (c, s)" by fastforce
  show ?thesis
    by (simp add: rotated_bbox_corners [OF cs] box_inside_def corners_inside [OF assms])
qed

section \<open>The geometric check\<close>

definition box_of_rect :: "rat \<Rightarrow> rect \<Rightarrow> box" where
  "box_of_rect pad r = (case r of (x, y, w, h) \<Rightarrow> (x + pad, y + pad, x + w - pad, y + h - pad))"

lemma move_inside: "box_inside r b \<Longrightarrow> box_inside (move_box x y r) (move_box x y b)"
  by (auto simp: box_inside_def move_box_def split: prod.splits)

lemma used_rect_box:
  "box_of_rect pad (used_rect ops pad b p) = move_box (pl_x p) (pl_y p) (rotated_bbox ops b (pl_rotation p))"
  by (simp add: box_of_rect_def used_rect_def move_box_def split: prod.splits)

text \<open>The decomposed courtyard of every requested footprint lies within its bounding box.\<close>

definition courtyards_inside :: "footprint_library \<Rightarrow> packing_request \<Rightarrow> bool" where
  "courtyards_inside lib req \<longleftrightarrow>
     (\<forall>ref. \<forall>r \<in> set (placement_shape lib (footprint_of req ref)). box_inside r (box_of lib req ref))"

lemma rotated_shape_0: "rotated_shape ops rs rot 0 = map (\<lambda>r. rotated_bbox ops r rot) rs"
  by (simp add: rotated_shape_def split: prod.splits)

lemma shape_inside_used:
  assumes "courtyards_inside lib req" "r \<in> set (absolute_placement_shape ops lib p (footprint_of req (pl_ref p)))"
  shows "box_inside r (box_of_rect (packing_pad ops req) (used_by ops lib req p))"
proof -
  obtain q where q: "q \<in> set (placement_shape lib (footprint_of req (pl_ref p)))"
    "r = move_box (pl_x p) (pl_y p) (rotated_bbox ops q (pl_rotation p))"
    using assms(2) by (auto simp: absolute_placement_shape_def rotated_shape_0)
  with assms(1) have "box_inside q (box_of lib req (pl_ref p))"
    by (simp add: courtyards_inside_def)
  then show ?thesis
    unfolding used_by_def used_rect_box q(2) by (intro move_inside rotated_bbox_inside)
qed

lemma packing_pad_bounds: "packing_pad ops req \<ge> clearance req + 1 / 4" "packing_pad ops req \<ge> 45 / 100"
  by (simp_all add: packing_pad_def Let_def)

lemma nearly_apart_boxes:
  assumes "nearly_apart u v" "box_inside a (box_of_rect pad u)" "box_inside b (box_of_rect pad v)"
    "margin \<le> 2 * pad - tolerance"
  shows "\<not> boxes_overlap a b margin"
  using assms by (auto simp: nearly_apart_def box_inside_def box_of_rect_def boxes_overlap_def split: prod.splits)

lemma fits_board_boxes:
  assumes "fits_at u (board_rect cap req)" "box_inside a (box_of_rect pad u)" "tolerance \<le> pad"
  shows "\<not> outside_board (min_board_edge_clearance cap) (board_width req) (board_height req) a"
  using assms by (auto simp: fits_at_def board_rect_def board_edge_def Let_def box_inside_def
      box_of_rect_def outside_board_def split: prod.splits)

lemma plan_shapes_distinct:
  "distinct (map pl_ref ps) \<Longrightarrow>
     plan_shapes ops lib (fps req) ps =
       map (\<lambda>p. (pl_ref p, absolute_placement_shape ops lib p (footprint_of req (pl_ref p)))) ps"
  by (simp add: plan_shapes_def dict_merge_append footprint_of_def comp_def)

lemma overlap_pairs_none:
  "sorted_wrt (\<lambda>p q. \<forall>a \<in> set (snd p). \<forall>b \<in> set (snd q). \<not> boxes_overlap a b margin) xs
     \<Longrightarrow> overlap_pairs margin xs = []"
  by (induction margin xs rule: overlap_pairs.induct) (auto simp: filter_empty_conv)

text \<open>Entries that come no closer than the margin add nothing to the overlaps of the others.\<close>

definition keeps_apart :: "rat \<Rightarrow> string \<times> box list \<Rightarrow> string \<times> box list \<Rightarrow> bool" where
  "keeps_apart margin p q \<longleftrightarrow> (\<forall>a \<in> set (snd p). \<forall>b \<in> set (snd q). \<not> boxes_overlap a b margin)"

lemma boxes_overlap_sym: "boxes_overlap a b margin \<longleftrightarrow> boxes_overlap b a margin"
  by (cases a; cases b) (simp add: boxes_overlap_def conj_ac)

lemma keeps_apart_sym: "keeps_apart margin p q \<Longrightarrow> keeps_apart margin q p"
  unfolding keeps_apart_def using boxes_overlap_sym by blast

lemma overlap_pairs_append:
  assumes "sorted_wrt (keeps_apart margin) B" "\<forall>p \<in> set A. \<forall>q \<in> set B. keeps_apart margin p q"
  shows "overlap_pairs margin (A @ B) = overlap_pairs margin A"
  using assms(2)
proof (induction A)
  case Nil
  show ?case using overlap_pairs_none [of margin B] assms(1) by (simp add: keeps_apart_def [abs_def])
next
  case (Cons p A)
  obtain l ls where p: "p = (l, ls)" by (cases p)
  have "filter (\<lambda>(r, rs). \<exists>a \<in> set ls. \<exists>b \<in> set rs. boxes_overlap a b margin) B = []"
    using Cons.prems by (auto simp: p keeps_apart_def filter_empty_conv)
  with Cons show ?case by (simp add: p)
qed

text \<open>A dictionary built from two lists with no key in common is one after the other.\<close>

lemma dict_merge_disjoint:
  assumes "fst ` set a \<inter> fst ` set xs = {}"
  shows "dict_merge (a @ d) xs = a @ dict_merge d xs"
  using assms
proof (induction xs arbitrary: d)
  case (Cons p xs)
  obtain k v where p: "p = (k, v)" by (cases p)
  have "k \<notin> fst ` set a" using Cons.prems by (auto simp: p)
  then have "AList.update k v (a @ d) = a @ AList.update k v d" by (induction a) auto
  with Cons show ?case by (auto simp: dict_merge_def p)
qed (simp add: dict_merge_def)

lemma dict_merge_entries: "set (dict_merge [] xs) \<subseteq> set xs"
proof
  fix e assume "e \<in> set (dict_merge [] xs)"
  moreover obtain k v where e: "e = (k, v)" by (cases e)
  ultimately have "map_of (dict_merge [] xs) k = Some v" using distinct_dict_of [of "[]" xs] by simp
  then have "map_of (rev xs) k = Some v" by (simp add: map_of_dict_of)
  from map_of_SomeD [OF this] show "e \<in> set xs" by (simp add: e)
qed

lemma dict_merge_split:
  assumes "fst ` set xs \<inter> fst ` set ys = {}"
  shows "dict_merge [] (xs @ ys) = dict_merge [] xs @ dict_merge [] ys"
proof -
  have "fst ` set (dict_merge [] xs) \<inter> fst ` set ys = {}" using assms dict_merge_entries [of xs] by fast
  from dict_merge_disjoint [OF this, of "[]"] show ?thesis by (simp add: dict_merge_def)
qed

text \<open>Two entries of a dictionary are related when any two different entries of its source are.\<close>

lemma dict_merge_related:
  assumes "sorted_wrt R xs" "\<And>p q. R p q \<Longrightarrow> R q p"
  shows "sorted_wrt R (dict_merge [] xs)"
proof -
  have rel: "R p q" if pq: "p \<in> set xs" "q \<in> set xs" "p \<noteq> q" for p q
  proof -
    obtain i j where "i < length xs" "xs ! i = p" "j < length xs" "xs ! j = q" using pq(1,2) by (metis in_set_conv_nth)
    then show ?thesis using pq(3) assms by (metis linorder_neqE_nat sorted_wrt_iff_nth_less)
  qed
  let ?d = "dict_merge [] xs"
  have "distinct ?d" using distinct_dict_of [of "[]" xs] by (simp add: distinct_map)
  have "R (?d ! i) (?d ! j)" if ij: "i < j" "j < length ?d" for i j
  proof (rule rel)
    show "?d ! i \<in> set xs" "?d ! j \<in> set xs" using ij dict_merge_entries [of xs] nth_mem by (meson order_less_trans subsetD)+
    show "?d ! i \<noteq> ?d ! j" using ij \<open>distinct ?d\<close> by (simp add: nth_eq_iff_index_eq)
  qed
  then show ?thesis by (simp add: sorted_wrt_iff_nth_less)
qed

lemma maxrect_pack_geometry:
  assumes "courtyards_inside lib req" "min_clearance cap \<le> clearance req"
  shows "placement_geometry_violations ops lib cap (fps req) (board_width req) (board_height req)
           (fst (maxrect_pack ops lib cap req)) = ([], [])"
proof -
  let ?ps = "fst (maxrect_pack ops lib cap req)"
  let ?shape = "\<lambda>p. absolute_placement_shape ops lib p (footprint_of req (pl_ref p))"
  have good: "sorted_wrt (maxrect_compatible ops lib req) ?ps" "\<forall>p \<in> set ?ps. maxrect_admissible ops lib cap req p"
    using maxrect_pack_good by (simp_all add: mr.good_def maxrect_pack_eq)
  have pad: "min_clearance cap \<le> 2 * packing_pad ops req - tolerance" "tolerance \<le> packing_pad ops req"
    using packing_pad_bounds [where ops = ops and req = req] assms(2) by (simp_all add: tolerance_def)
  have "\<not> boxes_overlap a b (min_clearance cap)"
    if "maxrect_compatible ops lib req p q" "a \<in> set (?shape p)" "b \<in> set (?shape q)" for p q a b
    using that nearly_apart_boxes [OF _ shape_inside_used shape_inside_used pad(1)] assms(1)
    by (simp add: maxrect_compatible_def)
  then have "sorted_wrt (\<lambda>p q. \<forall>a \<in> set (?shape p). \<forall>b \<in> set (?shape q). \<not> boxes_overlap a b (min_clearance cap)) ?ps"
    using good(1) by (blast intro: sorted_wrt_mono_rel)
  moreover have "\<not> outside_board (min_board_edge_clearance cap) (board_width req) (board_height req) a"
    if "p \<in> set ?ps" "a \<in> set (?shape p)" for p a
    using that good(2) fits_board_boxes [OF _ shape_inside_used [OF assms(1) that(2)] pad(2)]
    by (simp add: maxrect_admissible_def)
  ultimately show ?thesis
    by (simp add: placement_geometry_violations_def plan_shapes_distinct maxrect_pack_distinct Let_def
        overlap_pairs_none sorted_wrt_map filter_empty_conv)
qed

text \<open>
  MaxRects neither loses nor duplicates a part: the references it places, followed by
  those it reports as unplaced, are the requested references, each exactly once, also when
  the dependencies are cyclic or the request repeats a reference.
\<close>

theorem maxrect_pack_partition:
  "distinct (map pl_ref (fst (maxrect_pack ops lib cap req)) @ snd (maxrect_pack ops lib cap req))
   \<and> set (map pl_ref (fst (maxrect_pack ops lib cap req)) @ snd (maxrect_pack ops lib cap req)) = set (order req)"
proof -
  have m: "mset (map pl_ref (fst (maxrect_pack ops lib cap req)) @ snd (maxrect_pack ops lib cap req))
      = mset (packed_order lib req)"
    using maxrect_pack_mset by simp
  show ?thesis
    using mset_eq_imp_distinct_iff [OF m] mset_eq_setD [OF m] packed_order_distinct set_packed_order by blast
qed

text \<open>
  When the dependencies have no cycle, every reference is packed after the anchor it
  depends on, so that its target is the anchor's actual position.
\<close>

theorem anchor_packed_first:
  assumes "acyclic (depends (dependency req))" "map_of (dependency req) r = Some a"
    "a \<in> set (order req)" "r \<in> set (order req)"
  shows "\<exists>xs ys zs. packed_order lib req = xs @ a # ys @ r # zs"
proof -
  obtain i where i: "i < length (packed_order lib req)" "packed_order lib req ! i = r"
    using assms(4) set_packed_order [of lib req] by (metis in_set_conv_nth)
  then have "a \<in> set (take i (packed_order lib req))"
    using packed_order_anchored [OF assms(1), of lib] assms(2,3) by (simp add: anchored_def)
  then obtain xs ys where "take i (packed_order lib req) = xs @ a # ys" by (meson split_list)
  with id_take_nth_drop [OF i(1)] i(2) show ?thesis by (metis append_Cons append_assoc)
qed

text \<open>
  Every part that MaxRects places lies in its allowed region, an edge part lies within
  the edge margin, a fixed part lies within the margin of its target, and the rotation is
  0 or 90 degrees.
\<close>

theorem maxrect_pack_constraints:
  assumes "p \<in> set (fst (maxrect_pack ops lib cap req))"
  shows "in_region req (pl_ref p) (pl_x p) (pl_y p) \<and> near_edge req (pl_ref p) (pl_x p) (pl_y p)
         \<and> near_target ops req (pl_ref p) (map_of (targets req) (pl_ref p)) (pl_x p) (pl_y p)
         \<and> pl_rotation p \<in> {0, 90}"
proof -
  have "maxrect_admissible ops lib cap req p"
    using maxrect_pack_good [of ops lib cap req] assms by (simp add: mr.good_def maxrect_pack_eq)
  then show ?thesis by (simp add: maxrect_admissible_def keeps_constraints_def)
qed

section \<open>A request with two parts\<close>

definition sample_ops :: float_ops where
  "sample_ops = \<lparr>f_sqrt = (\<lambda>x. if x = 100 then 10 else 0), f_hypot = (\<lambda>x y. x + y),
     f_dist = (\<lambda>p q. \<bar>fst p - fst q\<bar> + \<bar>snd p - snd q\<bar>),
     f_cos_sin = (\<lambda>a. if a = 90 then (0, 1) else (1, 0))\<rparr>"

definition sample_footprints :: footprint_library where
  "sample_footprints = \<lparr>courtyard_bbox = (\<lambda>fp. if fp = ''R'' then Some (- 2, - 1, 2, 1) else None),
     courtyard_rects = (\<lambda>fp. if fp = ''R'' then Some [(- 2, - 1, 2, 1)] else None)\<rparr>"

definition sample_capability :: process_capability where
  "sample_capability = \<lparr>min_clearance = 1 / 5, min_board_edge_clearance = 3 / 10\<rparr>"

definition sample_request :: packing_request where
  "sample_request = \<lparr>order = [''C1'', ''U1''], fps = [(''U1'', ''R'')], board_width = 20, board_height = 10,
     clearance = 1 / 5, targets = [], priority_refs = [''C1''], edge_refs = [''U1''], fixed_target_refs = [],
     allowed_regions = [], dependency = [(''C1'', ''U1'')]\<rparr>"

lemma sample_order: "packed_order sample_footprints sample_request = [''U1'', ''C1'']"
  by (simp add: packed_order_def ranked_order_def sort_key_def rank_key_def box_of_def footprint_of_def
      placement_bbox_def last_index_def sample_request_def sample_footprints_def
      UNKNOWN_FOOTPRINT_HALF_MM_def emit_with_anchor.simps)

lemma sample_pad: "packing_pad sample_ops sample_request = 19 / 20"
  by (simp add: packing_pad_def sample_ops_def sample_request_def)

lemma floor_quarter: "\<lfloor>1 / 4 :: rat\<rfloor> = 0"
  by (simp add: floor_eq_iff)

lemmas sample_defs =
  floor_quarter
  sample_ops_def sample_footprints_def sample_request_def all_candidates_def candidates_at_def box_of_def
  footprint_of_def placement_bbox_def rotated_bbox_def rotate_point_def desired_corners_def fits_at_def
  in_region_def near_edge_def near_target_def board_diagonal_def tolerance_def EDGE_MARGIN_MM_def
  PLACEMENT_TARGET_WEIGHT_def UNKNOWN_FOOTPRINT_HALF_MM_def

lemma sample_split:
  "split_free_rectangles [(1 / 2, 1 / 2, 19, 9)] (1 / 2, 1 / 2, 39 / 10, 59 / 10) =
     [(22 / 5, 1 / 2, 151 / 10, 9), (1 / 2, 32 / 5, 19, 31 / 10)]"
  by (simp add: split_free_rectangles_def split_rectangle_def apart_def prune_free_rectangles_def
      contained_in_def tolerance_def atLeast0LessThan lessThan_Suc)

lemma sample_first:
  "pack_one sample_ops sample_footprints sample_request (19 / 20) ''U1''
     (initial_packing sample_capability sample_request) =
   \<lparr>free = [(22 / 5, 1 / 2, 151 / 10, 9), (1 / 2, 32 / 5, 19, 31 / 10)],
    placements = [\<lparr>pl_ref = ''U1'', pl_x = 49 / 20, pl_y = 69 / 20, pl_rotation = 90\<rparr>], unplaced = []\<rparr>"
  by (simp add: pack_one_def sample_defs sample_split Let_def initial_packing_def board_edge_def
      sample_capability_def less_prod_def')

lemma sample_second:
  "placements (pack_one sample_ops sample_footprints sample_request (19 / 20) ''C1''
     \<lparr>free = [(22 / 5, 1 / 2, 151 / 10, 9), (1 / 2, 32 / 5, 19, 31 / 10)],
      placements = [\<lparr>pl_ref = ''U1'', pl_x = 49 / 20, pl_y = 69 / 20, pl_rotation = 90\<rparr>], unplaced = []\<rparr>) =
   [\<lparr>pl_ref = ''U1'', pl_x = 49 / 20, pl_y = 69 / 20, pl_rotation = 90\<rparr>,
    \<lparr>pl_ref = ''C1'', pl_x = 137 / 20, pl_y = 59 / 20, pl_rotation = 0\<rparr>]"
  by (simp add: pack_one_def sample_defs Let_def less_prod_def')

lemma sample_packed:
  "fst (maxrect_pack sample_ops sample_footprints sample_capability sample_request) =
     [\<lparr>pl_ref = ''U1'', pl_x = 49 / 20, pl_y = 69 / 20, pl_rotation = 90\<rparr>,
      \<lparr>pl_ref = ''C1'', pl_x = 137 / 20, pl_y = 59 / 20, pl_rotation = 0\<rparr>]"
  by (simp add: maxrect_pack_def sample_order sample_pad sample_first sample_second Let_def)

lemma sample_acyclic: "acyclic (depends (dependency sample_request))"
proof -
  have "depends (dependency sample_request) = {(''C1'', ''U1'')}"
    by (auto simp: depends_def sample_request_def split: if_splits)
  then show ?thesis by (simp add: acyclic_insert wf_acyclic)
qed

theorem anchor_packed_first_witness:
  "\<exists>xs ys zs. packed_order sample_footprints sample_request = xs @ ''U1'' # ys @ ''C1'' # zs"
  by (rule anchor_packed_first [OF sample_acyclic]) (simp_all add: sample_request_def)

theorem maxrect_pack_constraints_witness:
  "near_edge sample_request ''U1'' (49 / 20) (69 / 20) \<and> (90 :: rat) \<in> {0, 90}"
proof -
  have "\<lparr>pl_ref = ''U1'', pl_x = 49 / 20, pl_y = 69 / 20, pl_rotation = 90\<rparr>
      \<in> set (fst (maxrect_pack sample_ops sample_footprints sample_capability sample_request))"
    by (simp add: sample_packed)
  from maxrect_pack_constraints [OF this] show ?thesis by simp
qed

end
