(* ===== verification/Footprint_Facts.thy ===== *)
theory Footprint_Facts
  imports Footprints Placement_Facts
begin

text \<open>
  Facts about footprint geometry: the decomposition of a courtyard polygon tiles exactly
  the cells inside it, and every rectangle of a courtyard lies within its bounding box, so
  that the packer's plans are correct for the footprints that the code reads.
\<close>

section \<open>Adjacent coordinates\<close>

lemma zip_tl_adjacent:
  assumes "sorted xs" "distinct xs" "(a, b) \<in> set (zip xs (tl xs))"
  shows "a < b" "a \<in> set xs" "b \<in> set xs"
proof -
  obtain i where i: "i < length xs - 1" "a = xs ! i" "b = xs ! Suc i"
    using assms(3) by (auto simp: set_zip nth_tl)
  then show "a \<in> set xs" "b \<in> set xs" by simp_all
  have "a \<le> b" using assms(1) i by (simp add: sorted_iff_nth_mono)
  moreover have "a \<noteq> b" using assms(2) i by (simp add: nth_eq_iff_index_eq)
  ultimately show "a < b" by simp
qed

lemma sorted_zip_tl: "sorted xs \<Longrightarrow> sorted (map fst (zip xs (tl xs)))"
  by (simp add: map_fst_zip_take sorted_wrt_take)

lemma zip_tl_cell:
  assumes "sorted xs" "distinct xs" "Suc i < length xs" "xs ! i < p" "p < xs ! Suc i"
  shows "filter (\<lambda>(a, b). a < p \<and> p < b) (zip xs (tl xs)) = [(xs ! i, xs ! Suc i)]"
  using assms
proof (induction xs arbitrary: i)
  case (Cons x xs)
  then obtain y ys where xs: "xs = y # ys" by (cases xs) auto
  show ?case
  proof (cases i)
    case 0
    have "\<not> (a < p \<and> p < b)" if "(a, b) \<in> set (zip xs (tl xs))" for a b
    proof -
      have "a \<in> set xs" using that set_zip_leftD by metis
      then have "y \<le> a" using Cons.prems(1) by (auto simp: xs)
      then have "p < a" using Cons.prems(5) 0 by (simp add: xs)
      then show ?thesis by auto
    qed
    then have "filter (\<lambda>(a, b). a < p \<and> p < b) (zip xs (tl xs)) = []"
      by (auto simp: filter_empty_conv)
    with Cons.prems 0 show ?thesis by (simp add: xs)
  next
    case (Suc k)
    have "y \<le> xs ! k" using Cons.prems(1,3) Suc by (cases k) (auto simp: xs)
    then have "\<not> p < y" using Cons.prems(4) Suc by simp
    with Cons.IH [of k] Cons.prems Suc show ?thesis by (simp add: xs)
  qed
qed simp

section \<open>Rectangles of a polygon\<close>

text \<open>A box with its corners on a grid of coordinates.\<close>

definition on_grid :: "rat set \<Rightarrow> rat set \<Rightarrow> box \<Rightarrow> bool" where
  "on_grid X Y r =
     (case r of (x1, y1, x2, y2) \<Rightarrow> x1 < x2 \<and> y1 < y2 \<and> {x1, x2} \<subseteq> X \<and> {y1, y2} \<subseteq> Y)"

definition bottom :: "box \<Rightarrow> rat" where
  "bottom r = (case r of (x1, y1, x2, y2) \<Rightarrow> y1)"

lemma add_span_grid:
  assumes "\<forall>(a, b) \<in> set spans. a < b \<and> {a, b} \<subseteq> X \<and> b \<le> fst col" "fst col < snd col" "{fst col, snd col} \<subseteq> X"
  shows "\<forall>(a, b) \<in> set (add_span P y col spans). a < b \<and> {a, b} \<subseteq> X \<and> b \<le> snd col"
proof (cases "spans = []")
  case True
  with assms show ?thesis by (auto simp: add_span_def split: prod.splits)
next
  case False
  then have l: "last spans \<in> set spans" by simp
  obtain x1 x2 where col: "col = (x1, x2)" by (cases col)
  obtain a b where ab: "last spans = (a, b)" by (cases "last spans")
  have old: "\<forall>(a, b) \<in> set spans. a < b \<and> {a, b} \<subseteq> X \<and> b \<le> x2"
    using assms by (fastforce simp: col)
  have new: "a < x2 \<and> {a, x2} \<subseteq> X" using assms l ab by (fastforce simp: col)
  show ?thesis
    using old new assms(2,3) ab by (auto simp: add_span_def col dest: in_set_butlastD)
qed

lemma fold_add_span_grid:
  assumes "sorted xs" "distinct xs" "set xs \<subseteq> X" "\<forall>(a, b) \<in> set spans. a < b \<and> {a, b} \<subseteq> X \<and> b \<le> hd xs"
  shows "\<forall>(a, b) \<in> set (fold (add_span P y) (zip xs (tl xs)) spans). a < b \<and> {a, b} \<subseteq> X"
  using assms
proof (induction xs arbitrary: spans rule: induct_list012)
  case (3 z w ws)
  have "\<forall>(a, b) \<in> set (add_span P y (z, w) spans). a < b \<and> {a, b} \<subseteq> X \<and> b \<le> snd (z, w)"
    using 3(3-6) by (intro add_span_grid) auto
  then have "\<forall>(a, b) \<in> set (fold (add_span P y) (zip (w # ws) (tl (w # ws))) (add_span P y (z, w) spans)). a < b \<and> {a, b} \<subseteq> X"
    using 3(3-5) by (intro 3(2)) simp_all
  then show ?case by simp
qed auto

lemma row_rectangles_grid:
  assumes "sorted xs" "distinct xs" "set xs \<subseteq> X" "y1 < y2" "{y1, y2} \<subseteq> Y" "r \<in> set (row_rectangles P xs (y1, y2))"
  shows "on_grid X Y r" "bottom r = y1"
proof -
  obtain x1 x2 where r: "r = (x1, y1, x2, y2)"
    "(x1, x2) \<in> set (fold (add_span P ((y1 + y2) / 2)) (zip xs (tl xs)) [])"
    using assms(6) by (auto simp: row_rectangles_def)
  have "x1 < x2 \<and> {x1, x2} \<subseteq> X"
    using fold_add_span_grid [OF assms(1-3), of "[]"] r(2) by fastforce
  with r(1) assms(4,5) show "on_grid X Y r" "bottom r = y1" by (simp_all add: on_grid_def bottom_def)
qed

lemma merge_rectangle_grid:
  assumes "\<forall>c \<in> set (r # merged). on_grid X Y c" "\<forall>c \<in> set merged. bottom c \<le> bottom r"
  shows "\<forall>c \<in> set (merge_rectangle r merged). on_grid X Y c \<and> bottom c \<le> bottom r"
proof (cases "first_match (merges r) merged")
  case None
  with assms show ?thesis by (auto simp: merge_rectangle_def)
next
  case (Some i)
  obtain x1 y1 x2 y2 where r: "r = (x1, y1, x2, y2)" by (cases r) auto
  obtain c0 c1 c2 c3 where c: "merged ! i = (c0, c1, c2, c3)" by (cases "merged ! i") auto
  have "merged ! i \<in> set merged" using first_match_Some [OF Some] by simp
  then have "on_grid X Y (merged ! i)" "bottom (merged ! i) \<le> bottom r" "on_grid X Y r" using assms by simp_all
  then have new: "on_grid X Y (c0, c1, c2, y2) \<and> bottom (c0, c1, c2, y2) \<le> bottom r"
    by (simp add: r c on_grid_def bottom_def)
  have m: "merge_rectangle r merged = merged[i := (c0, c1, c2, y2)]"
    by (simp add: merge_rectangle_def Some c) (simp add: r)
  have "set (merged[i := (c0, c1, c2, y2)]) \<subseteq> insert (c0, c1, c2, y2) (set merged)"
    by (rule set_update_subset_insert)
  with new assms show ?thesis unfolding m set_simps by blast
qed

lemma fold_merge_grid:
  assumes "\<forall>c \<in> set (rs @ merged). on_grid X Y c" "sorted (map bottom rs)"
    "\<forall>c \<in> set merged. \<forall>r \<in> set rs. bottom c \<le> bottom r"
  shows "\<forall>c \<in> set (fold merge_rectangle rs merged). on_grid X Y c"
  using assms
proof (induction rs arbitrary: merged)
  case (Cons r rs)
  have step: "\<forall>c \<in> set (merge_rectangle r merged). on_grid X Y c \<and> bottom c \<le> bottom r"
    using Cons.prems by (intro merge_rectangle_grid) auto
  have "\<forall>c \<in> set (merge_rectangle r merged). \<forall>s \<in> set rs. bottom c \<le> bottom s"
    using step Cons.prems(2) by force
  moreover have "\<forall>c \<in> set (rs @ merge_rectangle r merged). on_grid X Y c"
    using step Cons.prems(1) unfolding set_append set_simps by blast
  ultimately show ?case using Cons.IH [of "merge_rectangle r merged"] Cons.prems(2) by simp
qed simp

lemma rows_sorted:
  assumes "sorted (map fst rows)" "\<forall>row \<in> set rows. \<forall>r \<in> set (f row). bottom r = fst row"
  shows "sorted (map bottom (concat (map f rows)))"
  using assms
proof (induction rows)
  case (Cons row rows)
  have s: "sorted (map bottom (f row))"
    using Cons.prems(2) by (simp add: sorted_iff_nth_mono)
  have "\<forall>a \<in> set (f row). \<forall>b \<in> set (concat (map f rows)). bottom a \<le> bottom b"
  proof (intro ballI)
    fix a b assume a: "a \<in> set (f row)" and "b \<in> set (concat (map f rows))"
    then obtain row' where "row' \<in> set rows" "b \<in> set (f row')" unfolding set_concat set_map by blast
    with a Cons.prems show "bottom a \<le> bottom b" by simp
  qed
  with s Cons show ?case by (simp add: sorted_append)
qed simp

lemma polygon_row:
  assumes "z \<in> set (zip (sorted_set (map snd P)) (tl (sorted_set (map snd P))))"
    "q \<in> set (row_rectangles P (sorted_set (map fst P)) z)"
  shows "on_grid (fst ` set P) (snd ` set P) q \<and> bottom q = fst z"
proof -
  let ?xs = "sorted_set (map fst P)" and ?ys = "sorted_set (map snd P)"
  obtain y1 y2 where z: "z = (y1, y2)" by (cases z)
  have "y1 < y2" "{y1, y2} \<subseteq> snd ` set P"
    using zip_tl_adjacent [of ?ys y1 y2] assms(1) by (simp_all add: z)
  then show ?thesis
    using row_rectangles_grid [of ?xs "fst ` set P" y1 y2 "snd ` set P" q P] assms(2) by (simp add: z)
qed

lemma polygon_rectangles_grid:
  "r \<in> set (polygon_rectangles P) \<Longrightarrow> on_grid (fst ` set P) (snd ` set P) r"
proof -
  assume r: "r \<in> set (polygon_rectangles P)"
  let ?xs = "sorted_set (map fst P)" and ?ys = "sorted_set (map snd P)"
  let ?rows = "concat (map (row_rectangles P ?xs) (zip ?ys (tl ?ys)))"
  note row = polygon_row [of _ P]
  have "\<forall>c \<in> set (fold merge_rectangle ?rows []). on_grid (fst ` set P) (snd ` set P) c"
  proof (rule fold_merge_grid)
    show "\<forall>c \<in> set (?rows @ []). on_grid (fst ` set P) (snd ` set P) c"
      unfolding append_Nil2 set_concat set_map using row by blast
    show "sorted (map bottom ?rows)"
      using row by (intro rows_sorted sorted_zip_tl) auto
  qed simp
  with r show ?thesis by (auto simp: polygon_rectangles_def Let_def split: if_splits)
qed

lemma bounding_box_inside:
  assumes "x1 \<le> x2" "y1 \<le> y2" "{x1, x2} \<subseteq> fst ` set ps" "{y1, y2} \<subseteq> snd ` set ps"
  shows "box_inside (x1, y1, x2, y2) (bounding_box ps)"
  using assms by (auto simp: box_inside_def bounding_box_def)

lemma bounding_box_coords:
  assumes "ps \<noteq> []"
  shows "\<exists>x1 y1 x2 y2. bounding_box ps = (x1, y1, x2, y2) \<and> x1 \<le> x2 \<and> y1 \<le> y2
           \<and> {x1, x2} \<subseteq> fst ` set ps \<and> {y1, y2} \<subseteq> snd ` set ps"
proof -
  have "Min (fst ` set ps) \<in> fst ` set ps" "Max (fst ` set ps) \<in> fst ` set ps"
    "Min (snd ` set ps) \<in> snd ` set ps" "Max (snd ` set ps) \<in> snd ` set ps"
    using assms by (simp_all del: Min_in Max_in add: Min_in Max_in)
  then show ?thesis using assms by (simp add: bounding_box_def)
qed

lemma decompose_coords:
  assumes "P \<noteq> []" "r \<in> set (decompose P)"
  shows "\<exists>x1 y1 x2 y2. r = (x1, y1, x2, y2) \<and> x1 \<le> x2 \<and> y1 \<le> y2
           \<and> {x1, x2} \<subseteq> fst ` set P \<and> {y1, y2} \<subseteq> snd ` set P"
proof (cases "polygon_rectangles P = []")
  case True
  with assms bounding_box_coords show ?thesis by (simp add: decompose_def)
next
  case False
  with assms have "on_grid (fst ` set P) (snd ` set P) r"
    by (simp add: decompose_def polygon_rectangles_grid)
  then show ?thesis by (cases r) (auto simp: on_grid_def)
qed

section \<open>The decomposition tiles the cells of the polygon\<close>

fun in_box :: "point \<Rightarrow> box \<Rightarrow> bool" where
  "in_box (x, y) (x1, y1, x2, y2) \<longleftrightarrow> x1 < x \<and> x < x2 \<and> y1 < y \<and> y < y2"

text \<open>Coordinates that differ do so by more than the tolerance.\<close>

definition separated :: "rat set \<Rightarrow> bool" where
  "separated X \<longleftrightarrow> (\<forall>a \<in> X. \<forall>b \<in> X. a \<noteq> b \<longrightarrow> \<bar>a - b\<bar> > tolerance)"

lemma tolerance_nonneg: "0 \<le> tolerance"
  by (simp add: tolerance_def)

lemma separated_close: "separated X \<Longrightarrow> a \<in> X \<Longrightarrow> b \<in> X \<Longrightarrow> \<bar>a - b\<bar> \<le> tolerance \<longleftrightarrow> a = b"
  by (auto simp: separated_def tolerance_nonneg dest: leD)

definition hits :: "('a \<Rightarrow> bool) \<Rightarrow> 'a list \<Rightarrow> nat" where
  "hits Q xs = length (filter Q xs)"

lemma hits_simps [simp]:
  "hits Q [] = 0" "hits Q (x # xs) = of_bool (Q x) + hits Q xs" "hits Q (xs @ ys) = hits Q xs + hits Q ys"
  by (simp_all add: hits_def)

lemma hits_update:
  "i < length xs \<Longrightarrow> hits Q (xs[i := v]) + of_bool (Q (xs ! i)) = hits Q xs + of_bool (Q v)"
proof (induction xs arbitrary: i)
  case (Cons x xs)
  from Cons.IH [of "i - 1"] Cons.prems show ?case by (cases i) simp_all
qed simp

lemma hits_concat: "hits Q (concat xss) = sum_list (map (hits Q) xss)"
  by (induction xss) simp_all

lemma merge_rectangle_hits:
  assumes "\<forall>c \<in> set (r # merged). on_grid X Y c" "separated X" "separated Y" "y \<notin> Y"
  shows "hits (in_box (x, y)) (merge_rectangle r merged) = hits (in_box (x, y)) merged + of_bool (in_box (x, y) r)"
proof (cases "first_match (merges r) merged")
  case None
  then show ?thesis by (simp add: merge_rectangle_def)
next
  case (Some i)
  obtain x1 y1 x2 y2 where r: "r = (x1, y1, x2, y2)" by (cases r) auto
  obtain c0 c1 c2 c3 where c: "merged ! i = (c0, c1, c2, c3)" by (cases "merged ! i") auto
  have i: "i < length merged" "merges r (merged ! i)" using first_match_Some [OF Some] by simp_all
  then have g: "on_grid X Y (c0, c1, c2, c3)" "on_grid X Y (x1, y1, x2, y2)"
    using assms(1) nth_mem [OF i(1)] unfolding c r set_simps by blast+
  then have "c0 = x1" "c2 = x2" "c3 = y1"
    using i(2) separated_close [OF assms(2)] separated_close [OF assms(3)]
    by (simp_all add: r c merges_def on_grid_def)
  then have "of_bool (in_box (x, y) (c0, c1, c2, y2)) =
      of_bool (in_box (x, y) (c0, c1, c2, c3)) + (of_bool (in_box (x, y) r) :: nat)"
    using g assms(4) by (auto simp: r on_grid_def)
  moreover have "merge_rectangle r merged = merged[i := (c0, c1, c2, y2)]"
    by (simp add: merge_rectangle_def Some c) (simp add: r)
  ultimately show ?thesis using hits_update [OF i(1), of "in_box (x, y)" "(c0, c1, c2, y2)"] by (simp add: c)
qed

lemma fold_merge_hits:
  assumes "\<forall>c \<in> set (rs @ merged). on_grid X Y c" "sorted (map bottom rs)"
    "\<forall>c \<in> set merged. \<forall>r \<in> set rs. bottom c \<le> bottom r" "separated X" "separated Y" "y \<notin> Y"
  shows "hits (in_box (x, y)) (fold merge_rectangle rs merged) = hits (in_box (x, y)) merged + hits (in_box (x, y)) rs"
  using assms(1-3)
proof (induction rs arbitrary: merged)
  case (Cons r rs)
  have step: "\<forall>c \<in> set (merge_rectangle r merged). on_grid X Y c \<and> bottom c \<le> bottom r"
    using Cons.prems by (intro merge_rectangle_grid) auto
  have "\<forall>c \<in> set (merge_rectangle r merged). \<forall>s \<in> set rs. bottom c \<le> bottom s"
    using step Cons.prems(2) by force
  moreover have "\<forall>c \<in> set (rs @ merge_rectangle r merged). on_grid X Y c"
    using step Cons.prems(1) unfolding set_append set_simps by blast
  moreover have "hits (in_box (x, y)) (merge_rectangle r merged) =
      hits (in_box (x, y)) merged + of_bool (in_box (x, y) r)"
    using Cons.prems(1) assms(4-6) by (intro merge_rectangle_hits) auto
  ultimately show ?case using Cons.IH [of "merge_rectangle r merged"] Cons.prems(2) by simp
qed simp

fun in_span :: "rat \<Rightarrow> rat \<times> rat \<Rightarrow> bool" where
  "in_span x (a, b) \<longleftrightarrow> a < x \<and> x < b"

definition column_hit :: "polygon \<Rightarrow> rat \<Rightarrow> rat \<Rightarrow> rat \<times> rat \<Rightarrow> bool" where
  "column_hit P mid_y x col \<longleftrightarrow> in_span x col \<and> point_in_polygon ((fst col + snd col) / 2, mid_y) P"

lemma add_span_hits:
  assumes "\<forall>(a, b) \<in> set spans. a < b \<and> {a, b} \<subseteq> X \<and> b \<le> fst col" "fst col < snd col" "{fst col, snd col} \<subseteq> X"
    "separated X" "x \<notin> X"
  shows "hits (in_span x) (add_span P y col spans) = hits (in_span x) spans + of_bool (column_hit P y x col)"
proof -
  obtain x1 x2 where col: "col = (x1, x2)" by (cases col)
  consider (out) "\<not> point_in_polygon ((x1 + x2) / 2, y) P"
    | (fresh) "point_in_polygon ((x1 + x2) / 2, y) P" "\<not> (spans \<noteq> [] \<and> \<bar>snd (last spans) - x1\<bar> \<le> tolerance)"
    | (grow) "point_in_polygon ((x1 + x2) / 2, y) P" "spans \<noteq> []" "\<bar>snd (last spans) - x1\<bar> \<le> tolerance"
    by blast
  then show ?thesis
  proof cases
    case out
    then show ?thesis by (simp add: add_span_def column_hit_def col)
  next
    case fresh
    then have "add_span P y col spans = spans @ [(x1, x2)]" by (auto simp: add_span_def col)
    with fresh(1) show ?thesis by (simp add: column_hit_def col)
  next
    case grow
    obtain a b where ab: "last spans = (a, b)" by (cases "last spans")
    have "(a, b) \<in> set spans" using last_in_set [OF grow(2)] ab by simp
    then have "a < b" "b \<in> X" using assms(1) by auto
    then have "b = x1" using grow(3) separated_close [OF assms(4)] assms(3) by (simp add: ab col)
    then have "of_bool (in_span x (a, x2)) = of_bool (in_span x (a, b)) + (of_bool (in_span x (x1, x2)) :: nat)"
      using \<open>a < b\<close> assms(2,3,5) by (auto simp: col)
    moreover have "hits (in_span x) spans = hits (in_span x) (butlast spans) + of_bool (in_span x (a, b))"
      using append_butlast_last_id [OF grow(2)] ab by (metis add.right_neutral hits_simps)
    ultimately show ?thesis using grow by (simp add: add_span_def column_hit_def col ab)
  qed
qed

lemma fold_add_span_hits:
  assumes "sorted xs" "distinct xs" "set xs \<subseteq> X" "\<forall>(a, b) \<in> set spans. a < b \<and> {a, b} \<subseteq> X \<and> b \<le> hd xs"
    "separated X" "x \<notin> X"
  shows "hits (in_span x) (fold (add_span P y) (zip xs (tl xs)) spans) =
     hits (in_span x) spans + hits (column_hit P y x) (zip xs (tl xs))"
  using assms(1-4)
proof (induction xs arbitrary: spans rule: induct_list012)
  case (3 z w ws)
  have pre: "\<forall>(a, b) \<in> set spans. a < b \<and> {a, b} \<subseteq> X \<and> b \<le> fst (z, w)" "fst (z, w) < snd (z, w)"
    "{fst (z, w), snd (z, w)} \<subseteq> X"
    using 3(3-6) by auto
  have "\<forall>(a, b) \<in> set (add_span P y (z, w) spans). a < b \<and> {a, b} \<subseteq> X \<and> b \<le> hd (w # ws)"
    using add_span_grid [OF pre] by simp
  with 3(2) [OF _ _ _ this] 3(3-5) add_span_hits [OF pre assms(5,6)] show ?case by simp
qed simp_all

lemma hits_cell:
  assumes "sorted xs" "distinct xs" "Suc i < length xs" "xs ! i < x" "x < xs ! Suc i"
  shows "hits (\<lambda>c. in_span x c \<and> Q c) (zip xs (tl xs)) = of_bool (Q (xs ! i, xs ! Suc i))"
proof -
  have "filter (\<lambda>c. in_span x c \<and> Q c) (zip xs (tl xs)) =
      filter Q (filter (\<lambda>(a, b). a < x \<and> x < b) (zip xs (tl xs)))"
    by (auto simp: filter_filter intro: filter_cong)
  then show ?thesis by (simp add: hits_def zip_tl_cell [OF assms])
qed

lemma row_hits:
  assumes "sorted xs" "distinct xs" "separated (set xs)" "x \<notin> set xs"
  shows "hits (in_box (x, y)) (row_rectangles P xs row) =
     (if in_span y row then hits (column_hit P ((fst row + snd row) / 2) x) (zip xs (tl xs)) else 0)"
proof -
  obtain y1 y2 where row: "row = (y1, y2)" by (cases row)
  have "hits (in_box (x, y)) (map (\<lambda>(x1, x2). (x1, y1, x2, y2)) spans) =
      (if in_span y (y1, y2) then hits (in_span x) spans else 0)" for spans
    by (induction spans) auto
  moreover have "hits (in_span x) (fold (add_span P ((y1 + y2) / 2)) (zip xs (tl xs)) []) =
      hits (column_hit P ((y1 + y2) / 2) x) (zip xs (tl xs))"
    using fold_add_span_hits [OF assms(1,2) subset_refl _ assms(3,4), of "[]"] by simp
  ultimately show ?thesis by (simp add: row row_rectangles_def)
qed

lemma sum_list_if_hits: "sum_list (map (\<lambda>c. if Q c then f c else 0) xs) = sum_list (map f (filter Q xs))"
  for f :: "'a \<Rightarrow> nat"
  by (induction xs) simp_all

lemma polygon_rectangles_hits:
  assumes sep: "separated (fst ` set P)" "separated (snd ` set P)"
    and i: "Suc i < length (sorted_set (map fst P))" "sorted_set (map fst P) ! i < x" "x < sorted_set (map fst P) ! Suc i"
    and j: "Suc j < length (sorted_set (map snd P))" "sorted_set (map snd P) ! j < y" "y < sorted_set (map snd P) ! Suc j"
  shows "hits (in_box (x, y)) (polygon_rectangles P) =
     of_bool (point_in_polygon ((sorted_set (map fst P) ! i + sorted_set (map fst P) ! Suc i) / 2,
                                (sorted_set (map snd P) ! j + sorted_set (map snd P) ! Suc j) / 2) P)"
proof -
  let ?xs = "sorted_set (map fst P)" and ?ys = "sorted_set (map snd P)"
  let ?rows = "concat (map (row_rectangles P ?xs) (zip ?ys (tl ?ys)))"
  let ?mid = "\<lambda>row. (fst row + snd row) / (2 :: rat)"
  have gap: "p \<notin> set zs" if "sorted zs" "Suc k < length zs" "zs ! k < p" "p < zs ! Suc k" for zs k and p :: rat
  proof
    assume "p \<in> set zs"
    then obtain m where m: "m < length zs" "zs ! m = p" by (metis in_set_conv_nth)
    then have "k < m" "m < Suc k" using that by (metis linorder_not_less sorted_nth_mono Suc_lessD)+
    then show False by simp
  qed
  have out: "x \<notin> set ?xs" "y \<notin> snd ` set P"
    using gap [OF _ i] gap [OF _ j] by simp_all
  note row = polygon_row [of _ P]
  have "hits (in_box (x, y)) (fold merge_rectangle ?rows []) = hits (in_box (x, y)) ?rows"
  proof (subst fold_merge_hits [OF _ _ _ sep out(2)])
    show "\<forall>c \<in> set (?rows @ []). on_grid (fst ` set P) (snd ` set P) c"
      unfolding append_Nil2 set_concat set_map using row by blast
    show "sorted (map bottom ?rows)"
      using row by (intro rows_sorted sorted_zip_tl) auto
  qed simp_all
  also have "\<dots> = sum_list (map (\<lambda>z. if in_span y z then hits (column_hit P (?mid z) x) (zip ?xs (tl ?xs)) else 0) (zip ?ys (tl ?ys)))"
    using out(1) sep(1) by (simp add: hits_concat row_hits comp_def)
  also have "\<dots> = sum_list (map (\<lambda>z. hits (column_hit P (?mid z) x) (zip ?xs (tl ?xs))) (filter (in_span y) (zip ?ys (tl ?ys))))"
    by (rule sum_list_if_hits)
  also have "filter (in_span y) (zip ?ys (tl ?ys)) = [(?ys ! j, ?ys ! Suc j)]"
  proof -
    have "in_span y = (\<lambda>(a, b). a < y \<and> y < b)" by (simp add: fun_eq_iff)
    then show ?thesis using zip_tl_cell [OF _ _ j] by simp
  qed
  also have "sum_list (map (\<lambda>z. hits (column_hit P (?mid z) x) (zip ?xs (tl ?xs))) [(?ys ! j, ?ys ! Suc j)]) =
      of_bool (point_in_polygon ((?xs ! i + ?xs ! Suc i) / 2, (?ys ! j + ?ys ! Suc j) / 2) P)"
    using hits_cell [OF _ _ i, of "\<lambda>c. point_in_polygon ((fst c + snd c) / 2, (?ys ! j + ?ys ! Suc j) / 2) P"]
    by (simp add: column_hit_def [abs_def])
  finally show ?thesis using i(1) j(1) by (simp add: polygon_rectangles_def Let_def)
qed

section \<open>Courtyards lie within their bounding boxes\<close>

lemma map_res_sources: "map_res f xs = Inr ys \<Longrightarrow> y \<in> set ys \<Longrightarrow> \<exists>x \<in> set xs. f x = Inr y"
  unfolding map_res_Inr_iff in_set_conv_nth Bex_def by metis

lemma map_res_results: "map_res f xs = Inr ys \<Longrightarrow> x \<in> set xs \<Longrightarrow> \<exists>y \<in> set ys. f x = Inr y"
  by (auto simp: map_res_Inr_iff in_set_conv_nth)

lemma set_points_of: "x \<in> set (points_of os) \<longleftrightarrow> Some x \<in> set os"
  by (force simp: points_of_def split: option.splits)

lemma chain_loop_points:
  "loop \<noteq> [] \<Longrightarrow> set (fst (chain_loop loop remaining)) \<subseteq> set loop \<union> fst ` set remaining \<union> snd ` set remaining"
  "set (snd (chain_loop loop remaining)) \<subseteq> set remaining"
proof (induction loop remaining rule: chain_loop.induct)
  case (1 loop remaining)
  have sub: "set (remove_at i remaining) \<subseteq> set remaining" for i
    by (auto simp: remove_at_def dest: in_set_takeD in_set_dropD)
  {
    case 1
    show ?case
    proof (cases "point_key (last loop) = point_key (hd loop)")
      case False
      show ?thesis
      proof (cases "first_match (touches (point_key (last loop))) remaining")
        case (Some i)
        define nx where "nx = (if point_key (fst (remaining ! i)) = point_key (last loop)
          then snd (remaining ! i) else fst (remaining ! i))"
        have "remaining ! i \<in> set remaining" using first_match_Some [OF Some] by simp
        then have nx: "nx \<in> fst ` set remaining \<union> snd ` set remaining" by (simp add: nx_def)
        have rec: "set (fst (chain_loop (loop @ [nx]) (remove_at i remaining)))
            \<subseteq> set (loop @ [nx]) \<union> fst ` set (remove_at i remaining) \<union> snd ` set (remove_at i remaining)"
          using "1.IH"(1) [OF False Some] by (simp add: nx_def)
        have eq: "chain_loop loop remaining = chain_loop (loop @ [nx]) (remove_at i remaining)"
          using False Some by (subst chain_loop.simps) (simp add: nx_def)
        have "fst ` set (remove_at i remaining) \<subseteq> fst ` set remaining"
          "snd ` set (remove_at i remaining) \<subseteq> snd ` set remaining"
          by (rule image_mono [OF sub])+
        with nx rec show ?thesis unfolding eq set_append set_simps by blast
      qed (subst chain_loop.simps, auto)
    qed (subst chain_loop.simps, auto)
  next
    case 2
    show ?case
    proof (cases "point_key (last loop) = point_key (hd loop)")
      case False
      show ?thesis
      proof (cases "first_match (touches (point_key (last loop))) remaining")
        case (Some i)
        from subset_trans [OF "1.IH"(2) [OF False Some] sub] False Some show ?thesis
          by (subst chain_loop.simps) simp
      qed (subst chain_loop.simps, auto)
    qed (subst chain_loop.simps, auto)
  }
qed

lemma line_polygons_points:
  "p \<in> set (line_polygons segs) \<Longrightarrow> p \<noteq> [] \<and> set p \<subseteq> fst ` set segs \<union> snd ` set segs"
proof (induction segs rule: line_polygons.induct)
  case (2 start finish remaining)
  obtain loop rest where c: "chain_loop [start, finish] remaining = (loop, rest)" by fastforce
  have loop: "set loop \<subseteq> {start, finish} \<union> fst ` set remaining \<union> snd ` set remaining" "set rest \<subseteq> set remaining"
    using chain_loop_points [of "[start, finish]" remaining] by (simp_all add: c)
  consider "p = butlast loop" "length loop \<ge> 4" | "p \<in> set (line_polygons rest)"
    using 2(2) c by (auto split: if_splits)
  then show ?case
  proof cases
    case 1
    then have "p \<noteq> []" by (cases loop) auto
    moreover have "set p \<subseteq> set loop" using 1 in_set_butlastD by fast
    ultimately show ?thesis using loop by auto
  next
    case 2
    with "2.IH" [OF c [symmetric]] have "p \<noteq> []" "set p \<subseteq> fst ` set rest \<union> snd ` set rest" by simp_all
    moreover have "fst ` set rest \<subseteq> fst ` set remaining" "snd ` set rest \<subseteq> snd ` set remaining"
      by (rule image_mono [OF loop(2)])+
    ultimately show ?thesis unfolding set_simps image_insert by blast
  qed
qed simp

text \<open>Coordinates taken from a list of points.\<close>

definition coords_from :: "point list \<Rightarrow> point list \<Rightarrow> bool" where
  "coords_from pts ps \<longleftrightarrow> fst ` set ps \<subseteq> fst ` set pts \<and> snd ` set ps \<subseteq> snd ` set pts"

lemma coords_from_subset: "set ps \<subseteq> set pts \<Longrightarrow> coords_from pts ps"
  by (auto simp: coords_from_def)

lemma rect_polygon_coords: "p \<in> set pts \<Longrightarrow> q \<in> set pts \<Longrightarrow> coords_from pts (rect_polygon (p, q))"
  by (cases p; cases q) (force simp: coords_from_def rect_polygon_def min_def max_def)

lemma graphic_points_start_end:
  assumes "graphic_points ops env tag g = Inr ps" "start_end env g = Inr (Some (p, q))"
  shows "p \<in> set ps" "q \<in> set ps"
proof -
  have "xy env (find_first (Nodes g) ''start'') = Inr (Some p)" "xy env (find_first (Nodes g) ''end'') = Inr (Some q)"
    using assms(2) by (auto simp: start_end_def bind_res_Inr_iff split: option.splits)
  with assms(1) show "p \<in> set ps" "q \<in> set ps"
    by (auto simp: graphic_points_def bind_res_Inr_iff set_points_of)
qed

lemma graphic_points_poly:
  assumes "graphic_points ops env tag g = Inr ps" "poly_points env g = Inr (Some qs)"
  shows "set qs \<subseteq> set ps"
  using assms by (auto simp: graphic_points_def bind_res_Inr_iff)

lemma courtyard_points:
  assumes "courtyard_bbox_from_node ops env n = Inr bb"
  obtains pts where "bb = (if pts = [] then None else Some (bounding_box pts))"
    "\<And>tag g. tag \<in> {''fp_line'', ''fp_rect'', ''fp_poly''} \<Longrightarrow> g \<in> set (courtyard_graphics env n tag)
       \<Longrightarrow> \<exists>ps. graphic_points ops env tag g = Inr ps \<and> set ps \<subseteq> set pts"
proof -
  let ?tags = "[''fp_line'', ''fp_rect'', ''fp_arc'', ''fp_poly'', ''fp_circle'']"
  obtain pss where pss: "map_res (\<lambda>tag. map_res (graphic_points ops env tag) (courtyard_graphics env n tag)) ?tags = Inr pss"
    and bb: "bb = (if concat (concat pss) = [] then None else Some (bounding_box (concat (concat pss))))"
    using assms unfolding courtyard_bbox_from_node_def bind_res_Inr_iff Let_def by auto
  show thesis
  proof (rule that [OF bb])
    fix tag g assume tag: "tag \<in> {''fp_line'', ''fp_rect'', ''fp_poly''}" and g: "g \<in> set (courtyard_graphics env n tag)"
    then have "tag \<in> set ?tags" by auto
    from map_res_results [OF pss this] obtain qs where qs: "qs \<in> set pss"
      "map_res (graphic_points ops env tag) (courtyard_graphics env n tag) = Inr qs" by blast
    from map_res_results [OF qs(2) g] obtain ps where ps: "ps \<in> set qs" "graphic_points ops env tag g = Inr ps" by blast
    have "set ps \<subseteq> set (concat (concat pss))" using ps(1) qs(1) by fastforce
    with ps(2) show "\<exists>ps. graphic_points ops env tag g = Inr ps \<and> set ps \<subseteq> set (concat (concat pss))" by blast
  qed
qed

lemma courtyard_polygon_coords:
  assumes "courtyard_polygons_from_node env n = Inr polygons" "courtyard_bbox_from_node ops env n = Inr bb"
    "P \<in> set polygons"
  shows "\<exists>pts. pts \<noteq> [] \<and> bb = Some (bounding_box pts) \<and> P \<noteq> [] \<and> coords_from pts P"
proof -
  obtain segments rects polys where src:
    "map_res (start_end env) (courtyard_graphics env n ''fp_line'') = Inr segments"
    "map_res (start_end env) (courtyard_graphics env n ''fp_rect'') = Inr rects"
    "map_res (poly_points env) (courtyard_graphics env n ''fp_poly'') = Inr polys"
    and all: "polygons = map snd (dict_merge [] (map (\<lambda>p. (polygon_key p, p))
       (line_polygons (points_of segments) @ map rect_polygon (points_of rects) @ filter (\<lambda>p. length p \<ge> 3) (points_of polys))))"
    using assms(1) unfolding courtyard_polygons_from_node_def bind_res_Inr_iff Let_def by blast
  obtain pts where pts: "bb = (if pts = [] then None else Some (bounding_box pts))"
    "\<And>tag g. tag \<in> {''fp_line'', ''fp_rect'', ''fp_poly''} \<Longrightarrow> g \<in> set (courtyard_graphics env n tag)
       \<Longrightarrow> \<exists>ps. graphic_points ops env tag g = Inr ps \<and> set ps \<subseteq> set pts"
    using courtyard_points [OF assms(2)] by blast
  have ends: "p \<in> set pts \<and> q \<in> set pts"
    if os: "map_res (start_end env) (courtyard_graphics env n tag) = Inr os" "(p, q) \<in> set (points_of os)"
      and tag: "tag \<in> {''fp_line'', ''fp_rect'', ''fp_poly''}" for tag os p q
  proof -
    from os(2) have "Some (p, q) \<in> set os" by (simp only: set_points_of)
    from map_res_sources [OF os(1) this] obtain g where
      g: "g \<in> set (courtyard_graphics env n tag)" "start_end env g = Inr (Some (p, q))" by blast
    with pts(2) [OF tag g(1)] graphic_points_start_end show ?thesis by blast
  qed
  have sub: "snd ` set (dict_merge [] (map (\<lambda>p. (polygon_key p, p)) ps)) \<subseteq> set ps" for ps
    using dict_merge_values [of "[]" "map (\<lambda>p. (polygon_key p, p)) ps"] by (simp add: image_image)
  from assms(3) have "P \<in> set (line_polygons (points_of segments) @ map rect_polygon (points_of rects)
       @ filter (\<lambda>p. length p \<ge> 3) (points_of polys))"
    unfolding all set_map by (rule subsetD [OF sub])
  then consider (line) "P \<in> set (line_polygons (points_of segments))"
    | (rect) s where "s \<in> set (points_of rects)" "P = rect_polygon s"
    | (poly) "P \<in> set (points_of polys)" "length P \<ge> 3"
    unfolding set_append set_map set_filter by blast
  then have "P \<noteq> [] \<and> coords_from pts P"
  proof cases
    case line
    have "fst ` set (points_of segments) \<union> snd ` set (points_of segments) \<subseteq> set pts"
      using ends [OF src(1)] by auto
    with line_polygons_points [OF line] show ?thesis by (meson coords_from_subset subset_trans)
  next
    case rect
    obtain p q where s: "s = (p, q)" by (cases s)
    then have "p \<in> set pts" "q \<in> set pts" using ends [OF src(2)] rect(1) by auto
    then show ?thesis using rect_polygon_coords by (simp add: rect s rect_polygon_def split: prod.splits)
  next
    case poly
    from poly(1) have "Some P \<in> set polys" by (simp only: set_points_of)
    from map_res_sources [OF src(3) this] obtain g where
      g: "g \<in> set (courtyard_graphics env n ''fp_poly'')" "poly_points env g = Inr (Some P)" by blast
    with pts(2) [OF _ g(1)] graphic_points_poly have "set P \<subseteq> set pts" by blast
    with poly(2) show ?thesis by (auto simp: coords_from_subset)
  qed
  moreover from this have "pts \<noteq> []" by (cases P) (auto simp: coords_from_def)
  ultimately show ?thesis using pts(1) by auto
qed

lemma bbox_is_bounding_box:
  assumes "footprint_courtyard_bbox ops env fp = Inr (Some b)"
  shows "\<exists>ps. ps \<noteq> [] \<and> b = bounding_box ps"
proof -
  have pads: "\<exists>ps. ps \<noteq> [] \<and> b = bounding_box ps" if bb: "footprint_bbox env fp = Inr (Some b)"
  proof -
    obtain ps where "footprint_pads env fp = Inr (Some ps)" "b = bounding_box (map (\<lambda>p. (pad_x p, pad_y p)) ps)"
      using bb unfolding footprint_bbox_def bind_res_Inr_iff by auto
    moreover from this(1) have "ps \<noteq> []"
      by (auto simp: footprint_pads_def bind_res_Inr_iff split: option.splits if_splits)
    ultimately show ?thesis by blast
  qed
  obtain source n courtyard where "fp_file env fp = Some source" "courtyard_bbox_from_node ops env n = Inr courtyard"
    "(case courtyard of None \<Rightarrow> footprint_bbox env fp | Some b \<Rightarrow> Inr (Some b)) = Inr (Some b)"
    using assms by (auto simp: footprint_courtyard_bbox_def bind_res_Inr_iff split: option.splits)
  then show ?thesis
  proof (cases courtyard)
    case (Some c)
    obtain pts where "courtyard = (if pts = [] then None else Some (bounding_box pts))"
      using courtyard_points [OF \<open>courtyard_bbox_from_node ops env n = Inr courtyard\<close>] by blast
    with Some have "pts \<noteq> []" "c = bounding_box pts" by (auto split: if_splits)
    with Some \<open>(case courtyard of None \<Rightarrow> footprint_bbox env fp | Some b \<Rightarrow> Inr (Some b)) = Inr (Some b)\<close>
    show ?thesis by auto
  qed (use pads in simp)
qed

lemma bounding_box_self: "ps \<noteq> [] \<Longrightarrow> box_inside (bounding_box ps) (bounding_box ps)"
  using bounding_box_coords [of ps] bounding_box_inside by metis

lemma courtyard_rects_inside:
  assumes "footprint_courtyard_rects ops env fp = Inr (Some rs)" "footprint_courtyard_bbox ops env fp = Inr ob"
  shows "\<exists>b. ob = Some b \<and> (\<forall>r \<in> set rs. box_inside r b)"
proof -
  obtain source n polygons where src: "fp_file env fp = Some source" and n: "load_footprint_node source = Inr n"
    and polygons: "courtyard_polygons_from_node env n = Inr polygons"
    and rs: "(let rectangles = concat (map decompose polygons) in
       if rectangles \<noteq> [] then Inr (Some (dedup rectangles))
       else bind_res (footprint_courtyard_bbox ops env fp) (\<lambda>b. Inr (map_option (\<lambda>b. [b]) b))) = Inr (Some rs)"
    using assms(1) by (auto simp: footprint_courtyard_rects_def bind_res_Inr_iff split: option.splits)
  show ?thesis
  proof (cases "concat (map decompose polygons) = []")
    case True
    with rs assms(2) obtain b where "ob = Some b" "rs = [b]" by auto
    with bbox_is_bounding_box [of ops env fp b] assms(2) bounding_box_self show ?thesis by auto
  next
    case False
    then have rs': "rs = dedup (concat (map decompose polygons))" using rs by (simp add: Let_def)
    obtain bb where bb: "courtyard_bbox_from_node ops env n = Inr bb"
      and ob: "(case bb of None \<Rightarrow> footprint_bbox env fp | Some b \<Rightarrow> Inr (Some b)) = Inr ob"
      using assms(2) by (auto simp: footprint_courtyard_bbox_def src n bind_res_Inr_iff)
    have inside: "\<exists>b. bb = Some b \<and> box_inside r b" if r: "r \<in> set (decompose P)" and P: "P \<in> set polygons" for r P
    proof -
      obtain pts where pts: "bb = Some (bounding_box pts)" "P \<noteq> []" "coords_from pts P"
        using courtyard_polygon_coords [OF polygons bb P] by blast
      obtain x1 y1 x2 y2 where c: "r = (x1, y1, x2, y2)" "x1 \<le> x2" "y1 \<le> y2"
        "{x1, x2} \<subseteq> fst ` set P" "{y1, y2} \<subseteq> snd ` set P"
        using decompose_coords [OF pts(2) r] by blast
      have "box_inside r (bounding_box pts)"
        using bounding_box_inside [OF c(2,3) subset_trans [OF c(4)] subset_trans [OF c(5)]] pts(3)
        unfolding coords_from_def c(1) by blast
      with pts(1) show ?thesis by blast
    qed
    obtain P r where "P \<in> set polygons" "r \<in> set (decompose P)"
      using False unfolding concat_eq_Nil_conv set_map by (metis image_iff last_in_set)
    with inside obtain b where b: "bb = Some b" by blast
    with ob have "ob = Some b" by simp
    moreover have "box_inside r b" if "r \<in> set rs" for r
    proof -
      from that obtain P where "P \<in> set polygons" "r \<in> set (decompose P)"
        unfolding rs' set_dedup set_concat set_map by blast
      with inside b show ?thesis by blast
    qed
    ultimately show ?thesis by blast
  qed
qed

section \<open>Plans over the footprints that the code reads\<close>

text \<open>A library that holds what the code reads for every requested footprint.\<close>

definition library_reads ::
    "float_ops \<Rightarrow> footprint_env \<Rightarrow> footprint_library \<Rightarrow> packing_request \<Rightarrow> bool" where
  "library_reads ops env lib req \<longleftrightarrow>
     (\<forall>ref. footprint_of req ref \<noteq> [] \<longrightarrow>
        footprint_courtyard_bbox ops env (footprint_of req ref) = Inr (courtyard_bbox lib (footprint_of req ref)) \<and>
        footprint_courtyard_rects ops env (footprint_of req ref) = Inr (courtyard_rects lib (footprint_of req ref)))"

lemma library_reads_inside:
  assumes "library_reads ops env lib req"
  shows "courtyards_inside lib req"
  unfolding courtyards_inside_def
proof (intro allI ballI)
  fix ref r assume r: "r \<in> set (placement_shape lib (footprint_of req ref))"
  let ?fp = "footprint_of req ref"
  have unknown: "box_inside (placement_bbox lib ?fp) (placement_bbox lib ?fp)"
  proof (cases "?fp = [] \<or> courtyard_bbox lib ?fp = None")
    case True
    then show ?thesis by (auto simp: placement_bbox_def box_inside_def UNKNOWN_FOOTPRINT_HALF_MM_def)
  next
    case False
    then obtain b where "courtyard_bbox lib ?fp = Some b" "?fp \<noteq> []" by blast
    with assms bbox_is_bounding_box [of ops env ?fp b] bounding_box_self show ?thesis
      by (auto simp: library_reads_def placement_bbox_def)
  qed
  show "box_inside r (box_of lib req ref)"
  proof (cases "?fp \<noteq> [] \<and> (\<exists>rs. courtyard_rects lib ?fp = Some rs \<and> rs \<noteq> [])")
    case True
    then obtain rs where rs: "?fp \<noteq> []" "courtyard_rects lib ?fp = Some rs" "rs \<noteq> []" by blast
    with assms have "footprint_courtyard_rects ops env ?fp = Inr (Some rs)"
      "footprint_courtyard_bbox ops env ?fp = Inr (courtyard_bbox lib ?fp)" by (simp_all add: library_reads_def)
    from courtyard_rects_inside [OF this] r rs show ?thesis
      by (auto simp: placement_shape_def box_of_def placement_bbox_def)
  next
    case False
    with r have "r = placement_bbox lib ?fp" by (auto simp: placement_shape_def split: option.splits if_splits)
    with unknown show ?thesis by (simp add: box_of_def)
  qed
qed

text \<open>
  C33: A plan that MaxRects packs passes the geometric check: for the courtyards that the
  code reads from the footprint files, no two of them come closer than the fabrication
  clearance and none reaches over the edge clearance of the board, whatever the targets,
  regions, priorities and dependencies.
\<close>

theorem maxrect_pack_passes_check:
  assumes "library_reads ops env lib req" "min_clearance cap \<le> clearance req"
  shows "placement_geometry_violations ops lib cap (fps req) (board_width req) (board_height req)
           (fst (maxrect_pack ops lib cap req)) = ([], [])"
  by (rule maxrect_pack_geometry [OF library_reads_inside [OF assms(1)] assms(2)])

text \<open>
  The edges of a polygon, its orthogonality, and its inside by the parity of a ray to the right: the
  number of vertical edges to the right of a point whose ends are on both sides of its height.
\<close>

definition edges_of :: "polygon \<Rightarrow> segment list" where
  "edges_of P = zip (last P # butlast P) P"

definition orthogonal :: "polygon \<Rightarrow> bool" where
  "orthogonal P \<longleftrightarrow> (\<forall>(a, b) \<in> set (edges_of P). fst a = fst b \<or> snd a = snd b)"

definition spans_height :: "rat \<Rightarrow> segment \<Rightarrow> bool" where
  "spans_height y e \<longleftrightarrow> min (snd (fst e)) (snd (snd e)) < y \<and> y < max (snd (fst e)) (snd (snd e))"

definition inside_polygon :: "rat \<Rightarrow> rat \<Rightarrow> polygon \<Rightarrow> bool" where
  "inside_polygon x y P \<longleftrightarrow> odd (length (filter (\<lambda>e. spans_height y e \<and> x < fst (fst e)) (edges_of P)))"

lemma point_in_polygon_parity:
  "point_in_polygon p P \<longleftrightarrow> odd (length (filter (\<lambda>(a, b). crosses p a b) (edges_of P)))"
proof -
  have "fst (fold (\<lambda>current (inside, previous). (if crosses p previous current then \<not> inside else inside, current)) Q (b, q))
      \<longleftrightarrow> (odd (length (filter (\<lambda>(a, b). crosses p a b) (zip (q # butlast Q) Q))) \<noteq> b)" for Q b q
    by (induction Q arbitrary: b q) (auto split: list.splits)
  then show ?thesis by (simp add: point_in_polygon_def edges_of_def)
qed

lemma edges_ends: "(a, b) \<in> set (edges_of P) \<Longrightarrow> a \<in> set P \<and> b \<in> set P"
proof -
  assume e: "(a, b) \<in> set (edges_of P)"
  then have "P \<noteq> []" by (auto simp: edges_of_def)
  then have "set (last P # butlast P) \<subseteq> set P" using in_set_butlastD by fastforce
  with e show ?thesis unfolding edges_of_def by (meson set_zip_leftD set_zip_rightD subsetD)
qed

lemma sign_changes: "odd (length (filter (\<lambda>(a, b). f a \<noteq> (f b :: bool)) (zip (q # butlast Q) Q))) \<longleftrightarrow> Q \<noteq> [] \<and> f q \<noteq> f (last Q)"
  by (induction Q arbitrary: q) auto

lemma even_changes: "even (length (filter (\<lambda>(a, b). f a \<noteq> (f b :: bool)) (edges_of P)))"
  using sign_changes [of f "last P" P] by (auto simp: edges_of_def)

text \<open>Two values in one gap of a sorted list compare alike with its members.\<close>

lemma same_gap:
  assumes "sorted zs" "Suc k < length zs" "zs ! k < p" "p < zs ! Suc k" "zs ! k < q" "q < zs ! Suc k" "v \<in> set zs"
  shows "(v > p) = (v > (q :: rat))" "v \<noteq> p"
proof -
  obtain m where m: "m < length zs" "v = zs ! m" using assms(7) by (auto simp: in_set_conv_nth)
  have "v \<le> zs ! k \<or> zs ! Suc k \<le> v"
    using assms(1,2) m by (metis Suc_leI Suc_lessD linorder_not_less sorted_nth_mono)
  with assms(3-6) show "(v > p) = (v > q)" "v \<noteq> p" by auto
qed

lemma find_gap:
  assumes "sorted zs" "x \<notin> set zs" "a \<in> set zs" "a < x" "b \<in> set zs" "x < (b :: rat)"
  obtains k where "Suc k < length zs" "zs ! k < x" "x < zs ! Suc k"
proof -
  define k where "k = length (takeWhile (\<lambda>z. z < x) zs) - 1"
  let ?n = "length (takeWhile (\<lambda>z. z < x) zs)"
  have "?n \<noteq> 0"
  proof
    assume "?n = 0"
    then have "\<not> hd zs < x" using assms(3) by (cases zs) auto
    moreover have "hd zs \<le> a" using assms(1,3) by (cases zs) auto
    ultimately show False using assms(4) by simp
  qed
  moreover have n: "?n < length zs"
  proof (rule ccontr)
    assume "\<not> ?n < length zs"
    then have "takeWhile (\<lambda>z. z < x) zs = zs" by (metis length_takeWhile_le linorder_neqE_nat not_less takeWhile_eq_take take_all_iff)
    then show False using assms(5,6) by (metis set_takeWhileD order_less_asym)
  qed
  moreover have "x < zs ! ?n"
    using nth_length_takeWhile [OF n] assms(2) n by (metis linorder_neqE_linordered_idom nth_mem)
  moreover have "zs ! k < x" if "k < ?n" for k using that by (metis nth_mem set_takeWhileD takeWhile_nth)
  ultimately show thesis using that [of k] by (simp add: k_def)
qed

text \<open>Inside a cell of the coordinate grid the parity is the same everywhere.\<close>

lemma cell_parity:
  assumes "orthogonal P"
    and "Suc i < length (sorted_set (map fst P))" "sorted_set (map fst P) ! i < x" "x < sorted_set (map fst P) ! Suc i"
    and "Suc j < length (sorted_set (map snd P))" "sorted_set (map snd P) ! j < y" "y < sorted_set (map snd P) ! Suc j"
  shows "point_in_polygon ((sorted_set (map fst P) ! i + sorted_set (map fst P) ! Suc i) / 2,
      (sorted_set (map snd P) ! j + sorted_set (map snd P) ! Suc j) / 2) P = inside_polygon x y P"
proof -
  let ?xs = "sorted_set (map fst P)" and ?ys = "sorted_set (map snd P)"
  let ?u = "(?xs ! i + ?xs ! Suc i) / 2" and ?v = "(?ys ! j + ?ys ! Suc j) / 2"
  have u: "?xs ! i < ?u" "?u < ?xs ! Suc i" and v: "?ys ! j < ?v" "?v < ?ys ! Suc j" using assms(3,4,6,7) by simp_all
  have "crosses (?u, ?v) a b \<longleftrightarrow> spans_height y (a, b) \<and> x < fst a" if e: "(a, b) \<in> set (edges_of P)" for a b
  proof -
    have "a \<in> set P" "b \<in> set P" using edges_ends [OF e] by simp_all
    then have mem: "fst a \<in> set ?xs" "snd a \<in> set ?ys" "snd b \<in> set ?ys" by simp_all
    note gx = same_gap [OF _ assms(2) u assms(3,4) mem(1)]
    note ga = same_gap [OF _ assms(5-7) v mem(2)] and gb = same_gap [OF _ assms(5-7) v mem(3)]
    have span: "spans_height y (a, b) \<longleftrightarrow> (snd a > ?v) \<noteq> (snd b > ?v)"
      using ga gb unfolding spans_height_def by (simp add: min_def max_def) linarith
    have "fst a = fst b \<or> snd a = snd b" using assms(1) e by (auto simp: orthogonal_def)
    then show ?thesis
      using span gx(1) by (cases a; cases b) auto
  qed
  then have "filter (\<lambda>(a, b). crosses (?u, ?v) a b) (edges_of P) = filter (\<lambda>e. spans_height y e \<and> x < fst (fst e)) (edges_of P)"
    by (intro filter_cong) auto
  then show ?thesis by (simp add: point_in_polygon_parity inside_polygon_def)
qed

text \<open>Outside the bounding box the parity is even: no edge is to the right, no edge spans the height, or all do.\<close>

definition between :: "rat \<Rightarrow> rat set \<Rightarrow> bool" where
  "between x X \<longleftrightarrow> (\<exists>a \<in> X. a < x) \<and> (\<exists>b \<in> X. x < b)"

lemma outside_box:
  assumes "x \<notin> fst ` set P" "y \<notin> snd ` set P" "\<not> (between x (fst ` set P) \<and> between y (snd ` set P))"
  shows "\<not> inside_polygon x y P"
proof
  assume inside: "inside_polygon x y P"
  then have "filter (\<lambda>e. spans_height y e \<and> x < fst (fst e)) (edges_of P) \<noteq> []" by (auto simp: inside_polygon_def)
  then obtain a b where e: "(a, b) \<in> set (edges_of P)" "spans_height y (a, b)" "x < fst a" by (auto simp: filter_empty_conv)
  have "a \<in> set P" "b \<in> set P" using edges_ends [OF e(1)] by simp_all
  then have "between y (snd ` set P)" "\<exists>u \<in> fst ` set P. x < u"
    using e(2,3) by (auto simp: between_def spans_height_def min_def max_def split: if_splits)
  with assms(1,3) have right: "x < u" if "u \<in> fst ` set P" for u
    using that unfolding between_def by (metis linorder_neqE_linordered_idom)
  have "filter (\<lambda>e. spans_height y e \<and> x < fst (fst e)) (edges_of P) = filter (\<lambda>(a, b). (snd a > y) \<noteq> (snd b > y)) (edges_of P)"
  proof (rule filter_cong [OF refl])
    fix e assume m: "e \<in> set (edges_of P)"
    obtain c d where cd: "e = (c, d)" by (cases e) blast
    have "c \<in> set P" "d \<in> set P" using edges_ends m unfolding cd by blast+
    then have "x < fst c" "snd c \<noteq> y" "snd d \<noteq> y" using assms(2) right by auto
    then show "(spans_height y e \<and> x < fst (fst e)) = (case e of (a, b) \<Rightarrow> (snd a > y) \<noteq> (snd b > y))"
      by (auto simp: cd spans_height_def min_def max_def)
  qed
  with inside even_changes [of "\<lambda>p. snd p > y" P] show False by (simp add: inside_polygon_def)
qed

lemma in_box_between: "on_grid X Y r \<Longrightarrow> in_box (x, y) r \<Longrightarrow> between x X \<and> between y Y"
  by (cases r) (auto simp: on_grid_def between_def)

text \<open>
  C35: The decomposition of an orthogonal courtyard polygon into rectangles tiles it exactly: if its
  coordinates differ by more than the tolerance, a point on none of its coordinate lines lies in
  exactly one rectangle when it is inside the polygon (the ray to its right crosses an odd number of
  vertical edges), and in none otherwise.  So the rectangles do not overlap, cover what the polygon
  covers up to its coordinate lines, and leave its concavities free.
\<close>

theorem polygon_rectangles_tile:
  assumes "orthogonal P" "separated (fst ` set P)" "separated (snd ` set P)"
    and "x \<notin> fst ` set P" "y \<notin> snd ` set P"
  shows "length (filter (in_box (x, y)) (polygon_rectangles P)) = (if inside_polygon x y P then 1 else 0)"
proof (cases "between x (fst ` set P) \<and> between y (snd ` set P)")
  case False
  have "filter (in_box (x, y)) (polygon_rectangles P) = []"
    using polygon_rectangles_grid in_box_between False unfolding filter_empty_conv by blast
  with outside_box [OF assms(4,5) False] show ?thesis by simp
next
  case True
  then obtain a b c d where ab: "a \<in> set (sorted_set (map fst P))" "a < x" "b \<in> set (sorted_set (map fst P))" "x < b"
    and cd: "c \<in> set (sorted_set (map snd P))" "c < y" "d \<in> set (sorted_set (map snd P))" "y < d"
    using True unfolding between_def set_sorted_set set_map by blast
  have lines: "x \<notin> set (sorted_set (map fst P))" "y \<notin> set (sorted_set (map snd P))" using assms(4,5) by simp_all
  obtain i where i: "Suc i < length (sorted_set (map fst P))" "sorted_set (map fst P) ! i < x" "x < sorted_set (map fst P) ! Suc i"
    by (rule find_gap [OF sorted_sorted_set lines(1) ab])
  obtain j where j: "Suc j < length (sorted_set (map snd P))" "sorted_set (map snd P) ! j < y" "y < sorted_set (map snd P) ! Suc j"
    by (rule find_gap [OF sorted_sorted_set lines(2) cd])
  show ?thesis
    using polygon_rectangles_hits [OF assms(2,3) i j] cell_parity [OF assms(1) i j] by (simp add: hits_def of_bool_def)
qed

text \<open>
  Every rectangle of a courtyard lies within the courtyard's bounding box, whatever
  lines, rectangles, polygons, arcs and circles the footprint file draws it with.
\<close>

theorem courtyard_rects_within_bbox:
  assumes "footprint_courtyard_rects ops env fp = Inr (Some rs)" "footprint_courtyard_bbox ops env fp = Inr ob" "r \<in> set rs"
  shows "\<exists>b. ob = Some b \<and> box_inside r b"
  using courtyard_rects_inside [OF assms(1,2)] assms(3) by blast

section \<open>Sample footprints\<close>

text \<open>An L-shaped courtyard.\<close>

definition sample_polygon :: polygon where
  "sample_polygon = [(0, 0), (2, 0), (2, 1), (1, 1), (1, 2), (0, 2)]"

lemma sample_coordinates:
  "sorted_set (map fst sample_polygon) = [0, 1, 2]" "sorted_set (map snd sample_polygon) = [0, 1, 2]"
  "separated (fst ` set sample_polygon)" "separated (snd ` set sample_polygon)"
  by (simp_all add: sorted_set_def sample_polygon_def separated_def tolerance_def)

theorem polygon_rectangles_tile_witness:
  "length (filter (in_box (3 / 2, 3 / 2)) (polygon_rectangles sample_polygon)) = 0 \<and>
   length (filter (in_box (1 / 2, 3 / 2)) (polygon_rectangles sample_polygon)) = 1"
proof -
  have "\<not> inside_polygon (3 / 2) (3 / 2) sample_polygon" "inside_polygon (1 / 2) (3 / 2) sample_polygon" "orthogonal sample_polygon"
    by (simp_all add: inside_polygon_def orthogonal_def edges_of_def spans_height_def sample_polygon_def)
  moreover have "3 / 2 \<notin> fst ` set sample_polygon" "1 / 2 \<notin> fst ` set sample_polygon" "3 / 2 \<notin> snd ` set sample_polygon"
    by (simp_all add: sample_polygon_def)
  ultimately show ?thesis
    using polygon_rectangles_tile [OF _ sample_coordinates(3,4), of "3 / 2" "3 / 2"] polygon_rectangles_tile [OF _ sample_coordinates(3,4), of "1 / 2" "3 / 2"]
    by simp
qed

text \<open>A footprint file with a rectangular courtyard, and the library that holds what is read from it.\<close>

definition sample_file :: string where
  "sample_file = ''(footprint R(fp_rect(start -2 -1)(end 2 1)(layer F.CrtYd)))''"

definition sample_env :: footprint_env where
  "sample_env = \<lparr>fp_file = (\<lambda>fp. if fp = ''R'' then Some sample_file else None),
     fp_float = map_of [(''-2'', - 2), (''-1'', - 1), (''1'', 1), (''2'', 2)], fp_repr = (\<lambda>_. [])\<rparr>"

lemma sample_loads:
  "load_footprint_node sample_file = Inr (Nodes [Atom ''footprint'', Atom ''R'',
     Nodes [Atom ''fp_rect'', Nodes [Atom ''start'', Atom ''-2'', Atom ''-1''], Nodes [Atom ''end'', Atom ''2'', Atom ''1''],
       Nodes [Atom ''layer'', Atom ''F.CrtYd'']]])"
  by (simp add: sample_file_def load_footprint_node_def loads_def tokenize.simps WHITESPACE_def sexpr_chars
      delimiter_def startswith_def)

lemmas sample_read_defs =
  courtyard_graphics_def on_courtyard_def find_first_def sample_env_def graphic_points_def poly_points_def
  xy_def node_float_def points_of_def start_end_def

lemma sample_bbox: "footprint_courtyard_bbox ops sample_env ''R'' = Inr (Some (- 2, - 1, 2, 1))"
  by (simp add: footprint_courtyard_bbox_def sample_read_defs sample_loads courtyard_bbox_from_node_def bounding_box_def)

lemma sample_polygons:
  "courtyard_polygons_from_node sample_env (Nodes [Atom ''footprint'', Atom ''R'',
     Nodes [Atom ''fp_rect'', Nodes [Atom ''start'', Atom ''-2'', Atom ''-1''], Nodes [Atom ''end'', Atom ''2'', Atom ''1''],
       Nodes [Atom ''layer'', Atom ''F.CrtYd'']]]) = Inr [[(- 2, - 1), (2, - 1), (2, 1), (- 2, 1)]]"
  by (simp add: courtyard_polygons_from_node_def sample_read_defs rect_polygon_def dict_merge_def)

lemma sample_decompose: "decompose [(- 2, - 1), (2, - 1), (2, 1), (- 2, 1)] = [(- 2, - 1, 2, 1)]"
  by (simp add: decompose_def polygon_rectangles_def sorted_set_def row_rectangles_def add_span_def
      point_in_polygon_def merge_rectangle_def)

lemma sample_rects: "footprint_courtyard_rects ops sample_env ''R'' = Inr (Some [(- 2, - 1, 2, 1)])"
proof -
  have "fp_file sample_env ''R'' = Some sample_file" by (simp add: sample_env_def)
  then show ?thesis
    by (simp add: footprint_courtyard_rects_def sample_loads sample_polygons sample_decompose dedup_def)
qed

theorem courtyard_rects_within_bbox_witness: "box_inside (- 2, - 1, 2, 1) (- 2, - 1, 2, 1)"
  using courtyard_rects_within_bbox [OF sample_rects sample_bbox, of "(- 2, - 1, 2, 1)"] by simp

lemma sample_library: "library_reads ops sample_env sample_footprints sample_request"
proof -
  have "footprint_of sample_request ref \<noteq> [] \<Longrightarrow> footprint_of sample_request ref = ''R''" for ref
    by (simp add: footprint_of_def sample_request_def split: if_splits)
  then show ?thesis
    using sample_bbox sample_rects by (fastforce simp: library_reads_def sample_footprints_def)
qed

theorem maxrect_pack_passes_check_witness:
  "placement_geometry_violations sample_ops sample_footprints sample_capability [(''U1'', ''R'')] 20 10
     [\<lparr>pl_ref = ''U1'', pl_x = 49 / 20, pl_y = 69 / 20, pl_rotation = 90\<rparr>,
      \<lparr>pl_ref = ''C1'', pl_x = 137 / 20, pl_y = 59 / 20, pl_rotation = 0\<rparr>] = ([], [])"
proof -
  have "min_clearance sample_capability \<le> clearance sample_request"
    by (simp add: sample_capability_def sample_request_def)
  from maxrect_pack_passes_check [OF sample_library this, of sample_ops]
  show ?thesis by (simp only: sample_packed) (simp add: sample_request_def)
qed

end
