(* ===== verification/Shape_Facts.thy ===== *)
theory Shape_Facts
  imports Shape_Packing Footprint_Facts
begin

text \<open>
  Facts about the packer for concave courtyards: it meets the packer interface, keeps the
  courtyards apart, loses no part, and keeps to the board wherever the grid has a point
  between the bounds.
\<close>

section \<open>The packer interface\<close>

definition shapes_apart :: "float_ops \<Rightarrow> footprint_library \<Rightarrow> packing_request \<Rightarrow> pcb_placement \<Rightarrow> pcb_placement \<Rightarrow> bool" where
  "shapes_apart ops lib req p q \<longleftrightarrow>
     (\<forall>a \<in> set (occupied_by ops lib req p). \<forall>b \<in> set (occupied_by ops lib req q). \<not> boxes_overlap b a 0)"

definition origin_ok ::
    "float_ops \<Rightarrow> footprint_library \<Rightarrow> process_capability \<Rightarrow> packing_request \<Rightarrow> pcb_placement \<Rightarrow> bool" where
  "origin_ok ops lib cap req p =
     (case origin_bounds ops lib cap req (pl_ref p) (pl_rotation p) of
        (x_min, y_min, x_max, y_max) \<Rightarrow>
          (\<exists>t. pl_x p \<in> set (axis_values x_min x_max t)) \<and> (\<exists>t. pl_y p \<in> set (axis_values y_min y_max t)))"

definition shape_admissible ::
    "float_ops \<Rightarrow> footprint_library \<Rightarrow> process_capability \<Rightarrow> packing_request \<Rightarrow> shape_options \<Rightarrow> pcb_placement \<Rightarrow> bool" where
  "shape_admissible ops lib cap req opts p \<longleftrightarrow>
     p \<in> set (fixed_placements opts) \<or>
     in_region req (pl_ref p) (pl_x p) (pl_y p) \<and> near_edge req (pl_ref p) (pl_x p) (pl_y p)
     \<and> pl_rotation p \<in> {0, 90} \<and> origin_ok ops lib cap req p"

definition shapes_tracked :: "float_ops \<Rightarrow> footprint_library \<Rightarrow> packing_request \<Rightarrow> shape_packing \<Rightarrow> bool" where
  "shapes_tracked ops lib req s \<longleftrightarrow>
     set (occupied s) = (\<Union>p \<in> set (sh_placements s). set (occupied_by ops lib req p))"

lemma shape_candidate_sound:
  assumes "c \<in> set (shape_candidate_at ops lib req opts target occ p)"
  shows "snd c = p" "in_region req (pl_ref p) (pl_x p) (pl_y p)" "near_edge req (pl_ref p) (pl_x p) (pl_y p)"
    "\<forall>a \<in> set occ. \<forall>b \<in> set (occupied_by ops lib req p). \<not> boxes_overlap b a 0"
  using assms by (auto simp: shape_candidate_at_def Let_def list_ex_iff simp del: split_paired_Ex split: if_splits)

lemma shape_candidates_sound:
  assumes "c \<in> set (shape_candidates_for ops lib cap req opts target occ ref rotation)" "rotation \<in> {0, 90}"
  shows "pl_ref (snd c) = ref" "shape_admissible ops lib cap req opts (snd c)"
    "\<forall>a \<in> set occ. \<forall>b \<in> set (occupied_by ops lib req (snd c)). \<not> boxes_overlap b a 0"
proof -
  obtain x_min y_min x_max y_max where b: "origin_bounds ops lib cap req ref rotation = (x_min, y_min, x_max, y_max)"
    by (cases "origin_bounds ops lib cap req ref rotation") auto
  obtain x y where xy: "x \<in> set (axis_values x_min x_max (map_option fst target))"
    "y \<in> set (axis_values y_min y_max (map_option snd target))"
    and c: "c \<in> set (shape_candidate_at ops lib req opts target occ \<lparr>pl_ref = ref, pl_x = x, pl_y = y, pl_rotation = rotation\<rparr>)"
    using assms(1) by (auto simp: shape_candidates_for_def b split: if_splits)
  note sound = shape_candidate_sound [OF c]
  show "pl_ref (snd c) = ref" by (simp add: sound(1))
  show "\<forall>a \<in> set occ. \<forall>b \<in> set (occupied_by ops lib req (snd c)). \<not> boxes_overlap b a 0"
    using sound(4) by (simp only: sound(1))
  show "shape_admissible ops lib cap req opts (snd c)"
    using sound(2,3) assms(2) xy by (auto simp: shape_admissible_def sound(1) origin_ok_def b)
qed

lemma shape_pack_one_cases:
  obtains "shape_pack_one ops lib cap req opts ref s = s\<lparr>sh_unplaced := sh_unplaced s @ [ref]\<rparr>"
  | p where "pl_ref p = ref" "shape_admissible ops lib cap req opts p"
      "\<forall>a \<in> set (occupied s). \<forall>b \<in> set (occupied_by ops lib req p). \<not> boxes_overlap b a 0"
      "shape_pack_one ops lib cap req opts ref s =
         s\<lparr>sh_placements := sh_placements s @ [p], occupied := occupied s @ occupied_by ops lib req p\<rparr>"
proof (cases "concat (map (shape_candidates_for ops lib cap req opts (shape_target req (sh_placements s) ref) (occupied s) ref) [0, 90])")
  case Nil
  then show thesis by (intro that(1)) (simp add: shape_pack_one_def)
next
  case (Cons c cs)
  let ?c = "first_min fst c cs"
  have "?c \<in> set (concat (map (shape_candidates_for ops lib cap req opts (shape_target req (sh_placements s) ref) (occupied s) ref) [0, 90]))"
    unfolding Cons by (rule first_min_mem)
  then obtain rot where rot: "rot \<in> {0, 90}"
    "?c \<in> set (shape_candidates_for ops lib cap req opts (shape_target req (sh_placements s) ref) (occupied s) ref rot)"
    unfolding set_concat set_map by auto
  have "shape_pack_one ops lib cap req opts ref s =
      s\<lparr>sh_placements := sh_placements s @ [snd ?c], occupied := occupied s @ occupied_by ops lib req (snd ?c)\<rparr>"
    unfolding shape_pack_one_def Let_def Cons by simp
  with that(2) shape_candidates_sound [OF rot(2,1)] show thesis by blast
qed

interpretation sp: packer "shape_pack_one ops lib cap req opts" sh_placements sh_unplaced
  "shapes_tracked ops lib req" "shape_admissible ops lib cap req opts" "shapes_apart ops lib req"
  for ops lib cap req opts
proof
  fix s r
  assume inv: "shapes_tracked ops lib req s"
  show "shapes_tracked ops lib req (shape_pack_one ops lib cap req opts r s)"
    using inv by (cases rule: shape_pack_one_cases [of ops lib cap req opts r s]) (auto simp: shapes_tracked_def)
  show "sh_placements (shape_pack_one ops lib cap req opts r s) = sh_placements s \<and>
        sh_unplaced (shape_pack_one ops lib cap req opts r s) = sh_unplaced s @ [r] \<or>
     (\<exists>p. pl_ref p = r \<and> shape_admissible ops lib cap req opts p \<and>
        (\<forall>q \<in> set (sh_placements s). shapes_apart ops lib req q p) \<and>
        sh_placements (shape_pack_one ops lib cap req opts r s) = sh_placements s @ [p] \<and>
        sh_unplaced (shape_pack_one ops lib cap req opts r s) = sh_unplaced s)"
  proof (cases rule: shape_pack_one_cases [of ops lib cap req opts r s])
    case (2 p)
    have "\<forall>q \<in> set (sh_placements s). shapes_apart ops lib req q p"
      using 2(3) inv unfolding shapes_apart_def shapes_tracked_def by blast
    with 2 show ?thesis by (intro disjI2 exI [of _ p]) simp
  qed simp
qed

abbreviation shaped_state ::
    "float_ops \<Rightarrow> footprint_library \<Rightarrow> process_capability \<Rightarrow> packing_request \<Rightarrow> shape_options \<Rightarrow> shape_packing" where
  "shaped_state ops lib cap req opts \<equiv>
     fold (shape_pack_one ops lib cap req opts) (shape_order lib req opts) (initial_shapes ops lib req opts)"

lemma shape_pack_result:
  "courtyard_shape_pack ops lib cap req opts = Inr (ps, un) \<Longrightarrow>
     ps = sh_placements (shaped_state ops lib cap req opts) \<and> un = sh_unplaced (shaped_state ops lib cap req opts)"
  by (simp add: courtyard_shape_pack_def Let_def split: option.splits)

lemma initial_tracked: "shapes_tracked ops lib req (initial_shapes ops lib req opts)"
  by (simp add: shapes_tracked_def initial_shapes_def)

lemma shape_order_set: "set (shape_order lib req opts) \<subseteq> - set (fixed_refs opts)"
  by (auto simp: shape_order_def Let_def)

text \<open>The packer adds admissible parts, apart from each other and from every fixed one.\<close>

lemma shape_pack_adds:
  assumes "courtyard_shape_pack ops lib cap req opts = Inr (ps, un)"
  obtains new where "ps = fixed_placements opts @ new" "sorted_wrt (shapes_apart ops lib req) new"
    "\<forall>p \<in> set new. shape_admissible ops lib cap req opts p \<and> pl_ref p \<notin> set (fixed_refs opts)
       \<and> (\<forall>q \<in> set (fixed_placements opts). shapes_apart ops lib req q p)"
proof -
  have "sp.packs_onto ops lib req cap opts (sh_placements (initial_shapes ops lib req opts)) (- set (fixed_refs opts))
      (shaped_state ops lib cap req opts)"
    by (rule sp.packs_onto_run [OF sp.packs_onto_refl [OF initial_tracked] shape_order_set])
  moreover have "sh_placements (initial_shapes ops lib req opts) = fixed_placements opts" by (simp add: initial_shapes_def)
  ultimately have "sp.packs_onto ops lib req cap opts (fixed_placements opts) (- set (fixed_refs opts)) (shaped_state ops lib cap req opts)"
    by simp
  with that shape_pack_result [OF assms] show thesis by (auto simp: sp.packs_onto_def)
qed

lemma shape_pack_admissible:
  assumes "courtyard_shape_pack ops lib cap req opts = Inr (ps, un)" "p \<in> set ps"
  shows "shape_admissible ops lib cap req opts p"
  using shape_pack_adds [OF assms(1)] assms(2) unfolding set_append by (metis UnE set_append shape_admissible_def)

section \<open>No overlaps\<close>

lemma occupied_pads:
  assumes "r \<in> set (absolute_placement_shape ops lib p (footprint_of req (pl_ref p)))"
  shows "\<exists>x1 y1 x2 y2. r = (x1, y1, x2, y2) \<and>
    (x1 - shape_padding req, y1 - shape_padding req, x2 + shape_padding req, y2 + shape_padding req)
      \<in> set (occupied_by ops lib req p)"
proof -
  obtain q where q: "q \<in> set (placement_shape lib (footprint_of req (pl_ref p)))"
    "r = move_box (pl_x p) (pl_y p) (rotated_bbox ops q (pl_rotation p))"
    using assms by (auto simp: absolute_placement_shape_def rotated_shape_0)
  obtain x1 y1 x2 y2 where b: "rotated_bbox ops q (pl_rotation p) = (x1, y1, x2, y2)"
    by (cases "rotated_bbox ops q (pl_rotation p)") auto
  have "(x1 - shape_padding req, y1 - shape_padding req, x2 + shape_padding req, y2 + shape_padding req)
      \<in> set (padded_shape ops lib req (pl_ref p) (pl_rotation p))"
    using q(1) b by (force simp: padded_shape_def rotated_shape_def shape_of_def)
  from imageI [OF this, of "move_box (pl_x p) (pl_y p)"] show ?thesis
    by (simp add: q(2) b occupied_by_def move_box_def algebra_simps)
qed

lemma shape_padding_bounds: "clearance req \<le> 2 * shape_padding req" "0 \<le> shape_padding req"
  by (simp_all add: shape_padding_def)

lemma padded_apart:
  assumes "shapes_apart ops lib req p q" "margin \<le> clearance req"
    "a \<in> set (absolute_placement_shape ops lib p (footprint_of req (pl_ref p)))"
    "b \<in> set (absolute_placement_shape ops lib q (footprint_of req (pl_ref q)))"
  shows "\<not> boxes_overlap a b margin"
proof -
  obtain x1 y1 x2 y2 where a: "a = (x1, y1, x2, y2)"
    "(x1 - shape_padding req, y1 - shape_padding req, x2 + shape_padding req, y2 + shape_padding req) \<in> set (occupied_by ops lib req p)"
    using occupied_pads [OF assms(3)] by blast
  obtain u1 v1 u2 v2 where b: "b = (u1, v1, u2, v2)"
    "(u1 - shape_padding req, v1 - shape_padding req, u2 + shape_padding req, v2 + shape_padding req) \<in> set (occupied_by ops lib req q)"
    using occupied_pads [OF assms(4)] by blast
  have "\<not> boxes_overlap (u1 - shape_padding req, v1 - shape_padding req, u2 + shape_padding req, v2 + shape_padding req)
      (x1 - shape_padding req, y1 - shape_padding req, x2 + shape_padding req, y2 + shape_padding req) 0"
    using assms(1) a(2) b(2) unfolding shapes_apart_def by blast
  with shape_padding_bounds [of req] assms(2) show ?thesis by (auto simp: boxes_overlap_def a(1) b(1))
qed

lemma shape_order_mset:
  "mset (shape_order lib req opts) = mset (filter (\<lambda>r. r \<notin> set (fixed_refs opts)) (order req))"
  by (simp add: shape_order_def Let_def)

lemma shape_pack_mset:
  assumes "courtyard_shape_pack ops lib cap req opts = Inr (ps, un)"
  shows "mset (map pl_ref ps @ un) =
    mset (fixed_refs opts @ filter (\<lambda>r. r \<notin> set (fixed_refs opts)) (order req))"
proof -
  have "mset (map pl_ref ps) + mset un =
      mset (shape_order lib req opts) + mset (map pl_ref (sh_placements (initial_shapes ops lib req opts)))
        + mset (sh_unplaced (initial_shapes ops lib req opts))"
    using sp.partition_run [OF initial_tracked, where cap = cap and refs = "shape_order lib req opts"]
      shape_pack_result [OF assms] by simp
  then show ?thesis by (simp add: initial_shapes_def fixed_refs_def shape_order_mset)
qed

text \<open>The shapes of the parts that the packer adds follow those of the fixed parts and keep the clearance.\<close>

definition shape_entry :: "float_ops \<Rightarrow> footprint_library \<Rightarrow> packing_request \<Rightarrow> pcb_placement \<Rightarrow> string \<times> box list" where
  "shape_entry ops lib req p = (pl_ref p, absolute_placement_shape ops lib p (footprint_of req (pl_ref p)))"

lemma plan_shapes_entries: "plan_shapes ops lib (fps req) ps = dict_merge [] (map (shape_entry ops lib req) ps)"
  by (simp add: plan_shapes_def shape_entry_def [abs_def] footprint_of_def)

lemma entries_apart:
  "shapes_apart ops lib req p q \<Longrightarrow> margin \<le> clearance req
     \<Longrightarrow> keeps_apart margin (shape_entry ops lib req p) (shape_entry ops lib req q)"
  using padded_apart [of ops lib req p q margin] by (simp add: keeps_apart_def shape_entry_def)

lemma overlaps_of_fixed:
  assumes "sorted_wrt (shapes_apart ops lib req) new" "margin \<le> clearance req"
    "\<forall>p \<in> set new. pl_ref p \<notin> pl_ref ` set fixed \<and> (\<forall>q \<in> set fixed. shapes_apart ops lib req q p)"
  shows "overlap_pairs margin (plan_shapes ops lib (fps req) (fixed @ new)) =
    overlap_pairs margin (plan_shapes ops lib (fps req) fixed)"
proof -
  let ?e = "shape_entry ops lib req"
  have split: "dict_merge [] (map ?e (fixed @ new)) = dict_merge [] (map ?e fixed) @ dict_merge [] (map ?e new)"
  proof -
    have "fst ` set (map ?e ps) = pl_ref ` set ps" for ps by (simp add: shape_entry_def image_image)
    then show ?thesis unfolding map_append using assms(3) by (intro dict_merge_split) (simp add: disjoint_iff, blast)
  qed
  have "sorted_wrt (keeps_apart margin) (map ?e new)"
    unfolding sorted_wrt_map by (rule sorted_wrt_mono_rel [OF _ assms(1)]) (rule entries_apart [OF _ assms(2)])
  from dict_merge_related [OF this keeps_apart_sym]
  have new: "sorted_wrt (keeps_apart margin) (dict_merge [] (map ?e new))" .
  have "keeps_apart margin p q"
    if p: "p \<in> set (dict_merge [] (map ?e fixed))" and q: "q \<in> set (dict_merge [] (map ?e new))" for p q
  proof -
    obtain c d where "c \<in> set fixed" "p = ?e c" "d \<in> set new" "q = ?e d"
      using subsetD [OF dict_merge_entries p] subsetD [OF dict_merge_entries q] by auto
    then show ?thesis using entries_apart [OF _ assms(2)] assms(3) by blast
  qed
  then show ?thesis unfolding plan_shapes_entries split by (intro overlap_pairs_append [OF new]) blast
qed

section \<open>Bounds\<close>

lemma py_round_of_int [simp]: "py_round (of_int k) = k"
  by (simp add: py_round_def)

lemma grid_start_ge: "v \<le> grid_start v" and grid_end_le: "grid_end v \<le> v"
proof -
  show "v \<le> grid_start v" using le_of_int_ceiling [of "v / LAYOUT_GRID_MM"] by (simp add: grid_start_def LAYOUT_GRID_MM_def)
  show "grid_end v \<le> v" using of_int_floor_le [of "v / LAYOUT_GRID_MM"] by (simp add: grid_end_def LAYOUT_GRID_MM_def)
qed

lemma grid_values_between:
  assumes "x \<in> set (grid_values (grid_start lo) (grid_end hi))" "grid_start lo \<le> grid_end hi"
  shows "grid_start lo \<le> x \<and> x \<le> grid_end hi"
proof -
  define k where "k = \<lfloor>hi / LAYOUT_GRID_MM\<rfloor> - \<lceil>lo / LAYOUT_GRID_MM\<rceil>"
  have diff: "grid_end hi - grid_start lo = of_int k * LAYOUT_GRID_MM"
    by (simp add: k_def grid_start_def grid_end_def algebra_simps)
  have "(0 :: rat) \<le> of_int k * LAYOUT_GRID_MM" using assms(2) diff by simp
  then have k: "0 \<le> k" by (simp add: LAYOUT_GRID_MM_def)
  have "py_round ((grid_end hi - grid_start lo) / LAYOUT_GRID_MM) = k"
    by (simp add: diff LAYOUT_GRID_MM_def)
  then have "x \<in> (\<lambda>i. grid_start lo + of_nat i * LAYOUT_GRID_MM) ` {0..<Suc (nat k)}"
    using assms(1) k by (simp only: grid_values_def set_map set_upt max_absorb2)
  then obtain i where i: "x = grid_start lo + of_nat i * LAYOUT_GRID_MM" "i \<in> {0..<Suc (nat k)}"
    by (rule imageE)
  have "int i \<le> k" using i(2) k by simp
  then have "of_int (int i) \<le> (of_int k :: rat)" by (simp only: of_int_le_iff)
  then have "(of_nat i :: rat) \<le> of_int k" by simp
  then have "of_nat i * LAYOUT_GRID_MM \<le> of_int k * LAYOUT_GRID_MM" by (simp add: LAYOUT_GRID_MM_def)
  with i(1) diff show ?thesis by (simp add: LAYOUT_GRID_MM_def)
qed

lemma axis_values_between:
  assumes "x \<in> set (axis_values lo hi t)" "grid_start lo \<le> grid_end hi"
  shows "lo \<le> x \<and> x \<le> hi"
proof -
  have "grid_start lo \<le> x \<and> x \<le> grid_end hi"
    using assms grid_values_between by (auto simp: axis_values_def Let_def split: option.splits)
  with grid_start_ge [of lo] grid_end_le [of hi] show ?thesis by linarith
qed

lemma extent_bounds:
  assumes "(x1, y1, x2, y2) \<in> set rs" "extent rs = (X1, Y1, X2, Y2)"
  shows "X1 \<le> x1" "Y1 \<le> y1" "x2 \<le> X2" "y2 \<le> Y2"
proof -
  have "x1 \<in> set (map (\<lambda>(x1, y1, x2, y2). x1) rs)" "y1 \<in> set (map (\<lambda>(x1, y1, x2, y2). y1) rs)"
    "x2 \<in> set (map (\<lambda>(x1, y1, x2, y2). x2) rs)" "y2 \<in> set (map (\<lambda>(x1, y1, x2, y2). y2) rs)"
    using assms(1) by force+
  moreover have "X1 = Min (set (map (\<lambda>(x1, y1, x2, y2). x1) rs))" "Y1 = Min (set (map (\<lambda>(x1, y1, x2, y2). y1) rs))"
    "X2 = Max (set (map (\<lambda>(x1, y1, x2, y2). x2) rs))" "Y2 = Max (set (map (\<lambda>(x1, y1, x2, y2). y2) rs))"
    using assms(2) by (simp_all add: extent_def)
  ultimately show "X1 \<le> x1" "Y1 \<le> y1" "x2 \<le> X2" "y2 \<le> Y2" by (simp_all only: Min_le Max_ge finite_set)
qed

lemma origin_in_board:
  assumes "origin_bounds ops lib cap req (pl_ref p) (pl_rotation p) = (x_min, y_min, x_max, y_max)"
    "x_min \<le> pl_x p \<and> pl_x p \<le> x_max" "y_min \<le> pl_y p \<and> pl_y p \<le> y_max"
    "r \<in> set (absolute_placement_shape ops lib p (footprint_of req (pl_ref p)))"
  shows "\<not> outside_board (min_board_edge_clearance cap) (board_width req) (board_height req) r"
proof -
  let ?pad = "shape_padding req" and ?local = "padded_shape ops lib req (pl_ref p) (pl_rotation p)"
  obtain x1 y1 x2 y2 where r: "r = (x1, y1, x2, y2)"
    "(x1 - ?pad, y1 - ?pad, x2 + ?pad, y2 + ?pad) \<in> set (occupied_by ops lib req p)"
    using occupied_pads [OF assms(4)] by blast
  obtain u1 v1 u2 v2 where u: "(u1, v1, u2, v2) \<in> set ?local"
    "x1 - ?pad = pl_x p + u1" "y1 - ?pad = pl_y p + v1" "x2 + ?pad = pl_x p + u2" "y2 + ?pad = pl_y p + v2"
    using r(2) by (auto simp: occupied_by_def move_box_def)
  obtain X1 Y1 X2 Y2 where e: "extent ?local = (X1, Y1, X2, Y2)" by (cases "extent ?local") auto
  have "board_edge cap - X1 \<le> pl_x p" "pl_x p \<le> board_width req - board_edge cap - X2"
    "board_edge cap - Y1 \<le> pl_y p" "pl_y p \<le> board_height req - board_edge cap - Y2"
    using assms(1-3) by (auto simp: origin_bounds_def e)
  moreover have "min_board_edge_clearance cap \<le> board_edge cap" by (simp add: board_edge_def)
  ultimately show ?thesis
    using extent_bounds [OF u(1) e] u(2-5) shape_padding_bounds(2) [of req] by (simp add: outside_board_def r(1))
qed

section \<open>Properties\<close>

text \<open>
  C34: The grid packer adds no overlap: with a clearance of at least that of fabrication, the
  geometric check of the plan it returns reports the overlaps of the fixed parts with each other and
  no other, so none when the fixed parts have none, wherever the fixed parts are, concave
  courtyards, anchored targets, preserved orders and repeated references included.
\<close>

theorem shape_pack_no_overlaps:
  assumes "courtyard_shape_pack ops lib cap req opts = Inr (ps, un)" "min_clearance cap \<le> clearance req"
  shows "fst (placement_geometry_violations ops lib cap (fps req) (board_width req) (board_height req) ps) =
    fst (placement_geometry_violations ops lib cap (fps req) (board_width req) (board_height req) (fixed_placements opts))"
proof -
  obtain new where "ps = fixed_placements opts @ new" "sorted_wrt (shapes_apart ops lib req) new"
    "\<forall>p \<in> set new. pl_ref p \<notin> pl_ref ` set (fixed_placements opts)
       \<and> (\<forall>q \<in> set (fixed_placements opts). shapes_apart ops lib req q p)"
    using shape_pack_adds [OF assms(1)] unfolding fixed_refs_def set_map by metis
  with overlaps_of_fixed [OF _ assms(2)] show ?thesis
    by (simp add: placement_geometry_violations_def Let_def)
qed

text \<open>
  A part that the grid packer places keeps the edge clearance of the board, provided
  the grid has a point between the bounds of its origin on both axes.
\<close>

theorem shape_pack_in_board:
  assumes "courtyard_shape_pack ops lib cap req opts = Inr (ps, un)"
    and "p \<in> set ps" "p \<notin> set (fixed_placements opts)"
    and "origin_bounds ops lib cap req (pl_ref p) (pl_rotation p) = (x_min, y_min, x_max, y_max)"
    and "grid_start x_min \<le> grid_end x_max" "grid_start y_min \<le> grid_end y_max"
    and "r \<in> set (absolute_placement_shape ops lib p (footprint_of req (pl_ref p)))"
  shows "\<not> outside_board (min_board_edge_clearance cap) (board_width req) (board_height req) r"
proof -
  obtain tx ty where "pl_x p \<in> set (axis_values x_min x_max tx)" "pl_y p \<in> set (axis_values y_min y_max ty)"
    using shape_pack_admissible [OF assms(1,2)] assms(3,4) by (auto simp: shape_admissible_def origin_ok_def)
  with axis_values_between assms(5,6) have "x_min \<le> pl_x p \<and> pl_x p \<le> x_max" "y_min \<le> pl_y p \<and> pl_y p \<le> y_max"
    by blast+
  from origin_in_board [OF assms(4) this assms(7)] show ?thesis .
qed

text \<open>
  The grid packer neither loses nor duplicates a part: the references placed and
  unplaced are, as a multiset, the fixed ones and the others of the order; a placed part
  that was not fixed lies in its allowed region, within the edge margin when it is an edge
  part, and is rotated by 0 or 90 degrees.
\<close>

theorem shape_pack_partition:
  assumes "courtyard_shape_pack ops lib cap req opts = Inr (ps, un)"
  shows "mset (map pl_ref ps @ un) = mset (fixed_refs opts @ filter (\<lambda>r. r \<notin> set (fixed_refs opts)) (order req))
    \<and> (\<forall>p \<in> set ps. p \<notin> set (fixed_placements opts) \<longrightarrow>
         in_region req (pl_ref p) (pl_x p) (pl_y p) \<and> near_edge req (pl_ref p) (pl_x p) (pl_y p)
         \<and> pl_rotation p \<in> {0, 90})"
proof -
  have "\<forall>p \<in> set ps. shape_admissible ops lib cap req opts p"
    using shape_pack_admissible [OF assms] by blast
  then show ?thesis using shape_pack_mset [OF assms] by (simp add: shape_admissible_def) blast
qed

section \<open>Boards of one part\<close>

definition grid_request :: "rat \<Rightarrow> packing_request" where
  "grid_request w = \<lparr>order = [''U1''], fps = [], board_width = w, board_height = 49 / 10,
     clearance = 1 / 5, targets = [], priority_refs = [], edge_refs = [], fixed_target_refs = [],
     allowed_regions = [], dependency = []\<rparr>"

definition grid_options :: shape_options where
  "grid_options = \<lparr>target_weight = 5 / 4, preserve_order = False, fixed_placements = []\<rparr>"

definition grid_capability :: process_capability where
  "grid_capability = \<lparr>min_clearance = 1 / 5, min_board_edge_clearance = 1 / 2\<rparr>"

lemma grid_padded:
  "padded_shape sample_ops sample_footprints (grid_request w) ''U1'' rot =
     (if rot = 0 \<or> rot = 90 then [(- 17 / 10, - 17 / 10, 17 / 10, 17 / 10)]
      else padded_shape sample_ops sample_footprints (grid_request w) ''U1'' rot)"
  by (simp add: padded_shape_def rotated_shape_def shape_of_def placement_shape_def placement_bbox_def footprint_of_def
      grid_request_def rotated_bbox_def rotate_point_def sample_ops_def UNKNOWN_FOOTPRINT_HALF_MM_def
      shape_padding_def floor_quarter)

lemma grid_bounds:
  "rot \<in> {0, 90} \<Longrightarrow> origin_bounds sample_ops sample_footprints grid_capability (grid_request w) ''U1'' rot =
     (11 / 5, 11 / 5, w - 11 / 5, 27 / 10)"
  by (subst origin_bounds_def, subst grid_padded)
     (auto simp: extent_def board_edge_def grid_capability_def grid_request_def)

lemma grid_axis:
  "axis_values (11 / 5) (27 / 10) None = [5 / 2]" "axis_values (11 / 5) (9 / 4) None = [5 / 2]"
proof -
  have "\<lceil>22 / 5 :: rat\<rceil> = 5" "\<lfloor>27 / 5 :: rat\<rfloor> = 5" "\<lfloor>9 / 2 :: rat\<rfloor> = 4"
    by (simp_all add: ceiling_eq_iff floor_eq_iff)
  then show "axis_values (11 / 5) (27 / 10) None = [5 / 2]" "axis_values (11 / 5) (9 / 4) None = [5 / 2]"
    by (simp_all add: axis_values_def grid_start_def grid_end_def grid_values_def LAYOUT_GRID_MM_def py_round_def Let_def)
qed

lemma grid_packed:
  assumes "axis_values (11 / 5) (w - 11 / 5) None = [5 / 2]" "w \<ge> 22 / 5"
  shows "courtyard_shape_pack sample_ops sample_footprints grid_capability (grid_request w) grid_options =
    Inr ([\<lparr>pl_ref = ''U1'', pl_x = 5 / 2, pl_y = 5 / 2, pl_rotation = 0\<rparr>], [])"
proof -
  let ?p = "\<lambda>rot. \<lparr>pl_ref = ''U1'', pl_x = 5 / 2, pl_y = 5 / 2, pl_rotation = rot\<rparr>"
  have cand: "shape_candidates_for sample_ops sample_footprints grid_capability (grid_request w) grid_options None [] ''U1'' rot =
      [((shape_score sample_ops (grid_request w) grid_options [(4 / 5, 4 / 5, 21 / 5, 21 / 5)] 0, 0, 5 / 2, 5 / 2), ?p rot)]"
    if "rot \<in> {0, 90}" for rot
  proof -
    have "occupied_by sample_ops sample_footprints (grid_request w) (?p rot) = [(4 / 5, 4 / 5, 21 / 5, 21 / 5)]"
      using that by (simp add: occupied_by_def, subst grid_padded) (auto simp: move_box_def)
    moreover have "in_region (grid_request w) ''U1'' x y" "near_edge (grid_request w) ''U1'' x y" for x y
      by (simp_all add: in_region_def near_edge_def grid_request_def)
    moreover have "\<not> w - 11 / 5 + tolerance < 11 / 5" "\<not> 27 / 10 + tolerance < 11 / 5"
      using tolerance_nonneg assms(2) by linarith+
    ultimately show ?thesis
      by (simp add: shape_candidates_for_def grid_bounds [OF that] shape_candidate_at_def Let_def
          near_target_def target_distance_def assms(1) grid_axis(1))
  qed
  have ord: "shape_order sample_footprints (grid_request w) grid_options = [''U1'']"
    by (simp add: shape_order_def grid_request_def grid_options_def fixed_refs_def sort_key_def)
  have "shape_target (grid_request w) [] ''U1'' = None" by (simp add: shape_target_def grid_request_def)
  then show ?thesis
    unfolding courtyard_shape_pack_def ord
    by (simp add: shape_pack_one_def initial_shapes_def grid_options_def fixed_refs_def cand [unfolded grid_options_def] Let_def)
qed

text \<open>
  The grid packer can leave the board: when no grid point lies between the bounds of a
  part's origin, it places the part at the first grid point beyond them, and the plan
  violates the edge clearance.
\<close>

theorem shape_pack_misses_grid:
  "\<exists>ps. courtyard_shape_pack sample_ops sample_footprints grid_capability (grid_request (89 / 20)) grid_options = Inr (ps, [])
     \<and> placement_geometry_violations sample_ops sample_footprints grid_capability [] (89 / 20) (49 / 10) ps = ([], [''U1''])"
proof -
  have "courtyard_shape_pack sample_ops sample_footprints grid_capability (grid_request (89 / 20)) grid_options =
      Inr ([\<lparr>pl_ref = ''U1'', pl_x = 5 / 2, pl_y = 5 / 2, pl_rotation = 0\<rparr>], [])"
    by (rule grid_packed) (simp_all add: grid_axis)
  moreover have "placement_geometry_violations sample_ops sample_footprints grid_capability [] (89 / 20) (49 / 10)
      [\<lparr>pl_ref = ''U1'', pl_x = 5 / 2, pl_y = 5 / 2, pl_rotation = 0\<rparr>] = ([], [''U1''])"
    by (simp add: placement_geometry_violations_def plan_shapes_def dict_merge_def absolute_placement_shape_def rotated_shape_0
        placement_shape_def placement_bbox_def UNKNOWN_FOOTPRINT_HALF_MM_def rotated_bbox_def rotate_point_def sample_ops_def
        move_box_def outside_board_def grid_capability_def)
  ultimately show ?thesis by blast
qed

lemma grid_fits:
  "courtyard_shape_pack sample_ops sample_footprints grid_capability (grid_request (49 / 10)) grid_options =
     Inr ([\<lparr>pl_ref = ''U1'', pl_x = 5 / 2, pl_y = 5 / 2, pl_rotation = 0\<rparr>], [])"
  by (rule grid_packed) (simp_all add: grid_axis)

text \<open>A board with a fixed part and a second one that fits only at the right end.\<close>

definition pair_request :: packing_request where
  "pair_request = (grid_request (42 / 5)) \<lparr>order := [''U1'', ''U2'']\<rparr>"

abbreviation pair_part :: "string \<Rightarrow> rat \<Rightarrow> rat \<Rightarrow> pcb_placement" where
  "pair_part r x rot \<equiv> \<lparr>pl_ref = r, pl_x = x, pl_y = 5 / 2, pl_rotation = rot\<rparr>"

definition pair_options :: shape_options where
  "pair_options = grid_options \<lparr>fixed_placements := [pair_part ''U1'' (5 / 2) 0]\<rparr>"

lemma pair_padded:
  "rot \<in> {0, 90} \<Longrightarrow> padded_shape sample_ops sample_footprints pair_request r rot = [(- 17 / 10, - 17 / 10, 17 / 10, 17 / 10)]"
  by (auto simp: padded_shape_def rotated_shape_def shape_of_def placement_shape_def placement_bbox_def footprint_of_def
      pair_request_def grid_request_def rotated_bbox_def rotate_point_def sample_ops_def UNKNOWN_FOOTPRINT_HALF_MM_def
      shape_padding_def floor_quarter)

lemma pair_occupied:
  "rot \<in> {0, 90} \<Longrightarrow> occupied_by sample_ops sample_footprints pair_request (pair_part r x rot) =
     [(x - 17 / 10, 4 / 5, x + 17 / 10, 21 / 5)]"
  by (simp add: occupied_by_def pair_padded move_box_def)

lemma pair_bounds:
  "rot \<in> {0, 90} \<Longrightarrow> origin_bounds sample_ops sample_footprints grid_capability pair_request r rot =
     (11 / 5, 11 / 5, 31 / 5, 27 / 10)"
  by (subst origin_bounds_def, subst pair_padded)
     (auto simp: extent_def board_edge_def grid_capability_def pair_request_def grid_request_def)

lemma pair_axis: "axis_values (11 / 5) (31 / 5) None = [5 / 2, 3, 7 / 2, 4, 9 / 2, 5, 11 / 2, 6]"
proof -
  have "\<lceil>22 / 5 :: rat\<rceil> = 5" "\<lfloor>62 / 5 :: rat\<rfloor> = 12" by (simp_all add: ceiling_eq_iff floor_eq_iff)
  then have ends: "grid_start (11 / 5) = 5 / 2" "grid_end (31 / 5) = 6"
    by (simp_all add: grid_start_def grid_end_def LAYOUT_GRID_MM_def)
  have "py_round ((6 - 5 / 2) / LAYOUT_GRID_MM) = 7" using py_round_of_int [of 7] by (simp add: LAYOUT_GRID_MM_def)
  then show ?thesis by (simp add: axis_values_def ends grid_values_def LAYOUT_GRID_MM_def upt_rec Let_def)
qed

lemma pair_candidates:
  assumes "rot \<in> {0, 90}"
  shows "shape_candidates_for sample_ops sample_footprints grid_capability pair_request pair_options None [(4 / 5, 4 / 5, 21 / 5, 21 / 5)] ''U2'' rot =
    [((shape_score sample_ops pair_request pair_options [(4 / 5, 4 / 5, 21 / 5, 21 / 5), (43 / 10, 4 / 5, 77 / 10, 21 / 5)] 0, 0, 5 / 2, 6),
      pair_part ''U2'' 6 rot)]"
proof -
  have "in_region pair_request ''U2'' x y" "near_edge pair_request ''U2'' x y" "near_target sample_ops pair_request ''U2'' None x y" for x y
    by (simp_all add: in_region_def near_edge_def near_target_def pair_request_def grid_request_def)
  moreover have "\<not> 31 / 5 + tolerance < 11 / 5" "\<not> 27 / 10 + tolerance < 11 / 5"
    using tolerance_nonneg by linarith+
  ultimately show ?thesis
    by (simp add: shape_candidates_for_def pair_bounds [OF assms] shape_candidate_at_def Let_def pair_occupied [OF assms]
        target_distance_def pair_axis grid_axis(1) boxes_overlap_def)
qed

lemma pair_packed:
  "courtyard_shape_pack sample_ops sample_footprints grid_capability pair_request pair_options =
     Inr ([pair_part ''U1'' (5 / 2) 0, pair_part ''U2'' 6 0], [])"
proof -
  have "shape_order sample_footprints pair_request pair_options = [''U2'']"
    "find (\<lambda>r. r \<notin> set (order pair_request)) (fixed_refs pair_options) = None"
    by (simp_all add: shape_order_def pair_request_def pair_options_def fixed_refs_def grid_options_def sort_key_def)
  moreover have "initial_shapes sample_ops sample_footprints pair_request pair_options =
      \<lparr>occupied = [(4 / 5, 4 / 5, 21 / 5, 21 / 5)], sh_placements = [pair_part ''U1'' (5 / 2) 0], sh_unplaced = []\<rparr>"
    using pair_occupied [of 0 "''U1''" "5 / 2"] by (simp add: initial_shapes_def pair_options_def)
  moreover have "shape_target pair_request ps ''U2'' = None" for ps
    by (simp add: shape_target_def pair_request_def grid_request_def)
  ultimately show ?thesis
    by (simp add: courtyard_shape_pack_def shape_pack_one_def pair_candidates Let_def)
qed

theorem shape_pack_no_overlaps_witness:
  "fst (placement_geometry_violations sample_ops sample_footprints grid_capability [] (42 / 5) (49 / 10)
     [pair_part ''U1'' (5 / 2) 0, pair_part ''U2'' 6 0]) = []"
proof -
  have "min_clearance grid_capability \<le> clearance pair_request"
    by (simp add: pair_request_def grid_request_def grid_capability_def)
  from shape_pack_no_overlaps [OF pair_packed this]
  show ?thesis by (simp add: pair_request_def grid_request_def pair_options_def placement_geometry_violations_def plan_shapes_def dict_merge_def Let_def)
qed

theorem shape_pack_in_board_witness:
  "\<not> outside_board (1 / 2) (49 / 10) (49 / 10) (1, 1, 4, 4)"
proof -
  let ?p = "\<lparr>pl_ref = ''U1'', pl_x = 5 / 2, pl_y = 5 / 2, pl_rotation = 0\<rparr>"
  have "\<lceil>22 / 5 :: rat\<rceil> = 5" "\<lfloor>27 / 5 :: rat\<rfloor> = 5" by (simp_all add: ceiling_eq_iff floor_eq_iff)
  then have grid: "grid_start (11 / 5) \<le> grid_end (27 / 10)"
    by (simp add: grid_start_def grid_end_def LAYOUT_GRID_MM_def)
  have r: "(1, 1, 4, 4) \<in> set (absolute_placement_shape sample_ops sample_footprints ?p (footprint_of (grid_request (49 / 10)) (pl_ref ?p)))"
    by (simp add: footprint_of_def grid_request_def absolute_placement_shape_def rotated_shape_0 placement_shape_def
        placement_bbox_def UNKNOWN_FOOTPRINT_HALF_MM_def rotated_bbox_def rotate_point_def sample_ops_def move_box_def)
  have b: "origin_bounds sample_ops sample_footprints grid_capability (grid_request (49 / 10)) (pl_ref ?p) (pl_rotation ?p)
      = (11 / 5, 11 / 5, 27 / 10, 27 / 10)"
    by (simp add: grid_bounds)
  have "?p \<notin> set (fixed_placements grid_options)" by (simp add: grid_options_def)
  from shape_pack_in_board [OF grid_fits _ this b grid grid r] show ?thesis
    by (simp add: grid_capability_def grid_request_def)
qed

theorem shape_pack_partition_witness:
  "mset [''U1''] = mset (fixed_refs grid_options @ filter (\<lambda>r. r \<notin> set (fixed_refs grid_options)) (order (grid_request (49 / 10))))"
  using shape_pack_partition [OF grid_fits] by simp

end
