(* ===== verification/Redis_Registry.thy ===== *)
theory Redis_Registry
  imports Run_Registry Harness
begin

text \<open>
  \<open>service/redis_run_registry.py\<close>: the registry that several instances share through Redis.

  Every Lua script runs atomically in Redis, so each is one function on the database; the
  instances interleave at the level of scripts.  The database holds, under the key of a
  run, its state hash, its event stream, its lifecycle stream and its deduplication hash,
  and globally the audit stream, the sorted sets of active and of running runs with their
  lease as score, and the metrics.  \<open>TIME\<close> is an argument in milliseconds; time stamps
  and audit identifiers are texts that the caller supplies, and the fields of audit entries
  are listed in one order.
\<close>

named_theorems redis_defs \<open>scripts and elementary updates of the database\<close>

section \<open>The database\<close>

record run_hash =
  h_request_id :: string
  h_fingerprint :: string
  h_kind :: run_kind
  h_agent_id :: string
  h_thread_id :: string
  h_user_id :: string
  h_timeout :: rat
  h_buffer :: nat
  h_status :: run_status
  h_run_id :: string
  h_created_at :: string
  h_started_at :: string
  h_finished_at :: string
  h_result_json :: string
  h_error_code :: string
  h_error :: string
  h_http_status :: int
  h_stream_failed :: bool
  h_terminal_emitted :: bool
  h_interaction_id :: string
  h_interaction_version :: "int option"
  h_last_event_id :: nat
  h_owner :: string
  h_fence :: nat
  h_lease :: int
  h_version :: int

record stream_event =
  se_id :: nat
  se_payload :: string
  se_fence :: "nat option"
  se_terminal :: "bool option"

text \<open>The deduplication hash maps event keys to event identifiers and responses to identities.\<close>

datatype dedupe_value = EventId nat | ResponseIdentity string

type_synonym stream_fields = "(string \<times> string) list"

type_synonym zset = "(string \<times> int) list"

record redis_db =
  db_state :: "(string \<times> run_hash) list"
  db_events :: "string \<Rightarrow> stream_event list"
  db_lifecycle :: "string \<Rightarrow> stream_fields list"
  db_dedupe :: "string \<Rightarrow> string \<Rightarrow> dedupe_value option"
  db_audit :: "stream_fields list"
  db_active :: zset
  db_running :: zset
  db_metrics :: "run_status \<Rightarrow> int"
  db_retained :: int
  db_expiry :: "string \<Rightarrow> int option"

definition empty_db :: redis_db where
  "empty_db = \<lparr>db_state = [], db_events = (\<lambda>_. []), db_lifecycle = (\<lambda>_. []), db_dedupe = (\<lambda>_ _. None),
     db_audit = [], db_active = [], db_running = [], db_metrics = (\<lambda>_. 0), db_retained = 0,
     db_expiry = (\<lambda>_. None)\<rparr>"

abbreviation run_at :: "redis_db \<Rightarrow> string \<Rightarrow> run_hash option" where
  "run_at db key \<equiv> map_of (db_state db) key"

section \<open>Elementary commands\<close>

definition hset :: "string \<Rightarrow> run_hash \<Rightarrow> redis_db \<Rightarrow> redis_db" where [redis_defs]:
  "hset key h db = db\<lparr>db_state := AList.update key h (db_state db)\<rparr>"

definition hincr :: "run_status \<Rightarrow> int \<Rightarrow> redis_db \<Rightarrow> redis_db" where [redis_defs]:
  "hincr st n db = db\<lparr>db_metrics := (db_metrics db)(st := db_metrics db st + n)\<rparr>"

definition zadd_active :: "string \<Rightarrow> int \<Rightarrow> redis_db \<Rightarrow> redis_db" where [redis_defs]:
  "zadd_active key score db = db\<lparr>db_active := AList.update key score (db_active db)\<rparr>"

definition zadd_running :: "string \<Rightarrow> int \<Rightarrow> redis_db \<Rightarrow> redis_db" where [redis_defs]:
  "zadd_running key score db = db\<lparr>db_running := AList.update key score (db_running db)\<rparr>"

definition zrem_active :: "string \<Rightarrow> redis_db \<Rightarrow> redis_db" where [redis_defs]:
  "zrem_active key db = db\<lparr>db_active := AList.delete key (db_active db)\<rparr>"

definition zrem_running :: "string \<Rightarrow> redis_db \<Rightarrow> redis_db" where [redis_defs]:
  "zrem_running key db = db\<lparr>db_running := AList.delete key (db_running db)\<rparr>"

text \<open>\<open>ZCOUNT set (now +inf\<close>: the members whose lease has not expired.\<close>

definition zcount :: "int \<Rightarrow> zset \<Rightarrow> nat" where
  "zcount now z = length (filter (\<lambda>(k, score). score > now) z)"

definition xadd_lifecycle :: "string \<Rightarrow> stream_fields \<Rightarrow> redis_db \<Rightarrow> redis_db" where [redis_defs]:
  "xadd_lifecycle key fs db = db\<lparr>db_lifecycle := (db_lifecycle db)(key := db_lifecycle db key @ [fs])\<rparr>"

definition xadd_audit :: "stream_fields \<Rightarrow> redis_db \<Rightarrow> redis_db" where [redis_defs]:
  "xadd_audit fs db = db\<lparr>db_audit := db_audit db @ [fs]\<rparr>"

definition xadd_event :: "string \<Rightarrow> stream_event \<Rightarrow> redis_db \<Rightarrow> redis_db" where [redis_defs]:
  "xadd_event key e db = db\<lparr>db_events := (db_events db)(key := db_events db key @ [e])\<rparr>"

text \<open>\<open>XTRIM key MAXLEN n\<close> drops the oldest entries.\<close>

definition xtrim :: "string \<Rightarrow> nat \<Rightarrow> redis_db \<Rightarrow> redis_db" where [redis_defs]:
  "xtrim key n db =
     db\<lparr>db_events := (db_events db)(key := drop (length (db_events db key) - n) (db_events db key))\<rparr>"

definition set_dedupe :: "string \<Rightarrow> string \<Rightarrow> dedupe_value \<Rightarrow> redis_db \<Rightarrow> redis_db" where [redis_defs]:
  "set_dedupe key f v db = db\<lparr>db_dedupe := (db_dedupe db)(key := (db_dedupe db key)(f \<mapsto> v))\<rparr>"

text \<open>\<open>PEXPIRE\<close> on the four keys of a run, and what their expiry does.\<close>

definition pexpire :: "string \<Rightarrow> int \<Rightarrow> redis_db \<Rightarrow> redis_db" where [redis_defs]:
  "pexpire key due db = db\<lparr>db_expiry := (db_expiry db)(key \<mapsto> due)\<rparr>"

definition expire_run :: "string \<Rightarrow> redis_db \<Rightarrow> redis_db" where
  "expire_run key db =
     db\<lparr>db_state := AList.delete key (db_state db), db_events := (db_events db)(key := []),
        db_lifecycle := (db_lifecycle db)(key := []), db_dedupe := (db_dedupe db)(key := (\<lambda>_. None)),
        db_expiry := (db_expiry db)(key := None)\<rparr>"

section \<open>Audit entries\<close>

fun status_value :: "run_status \<Rightarrow> string" where
  "status_value Queued = ''queued''"
| "status_value Running = ''running''"
| "status_value WaitingForInput = ''waiting_for_input''"
| "status_value Completed = ''completed''"
| "status_value Failed = ''failed''"
| "status_value Cancelled = ''cancelled''"
| "status_value TimedOut = ''timed_out''"

definition identity_scope :: "string \<Rightarrow> string" where
  "identity_scope user = (if startswith user ''rt1:'' then user else [])"

definition status_entry :: "run_status \<Rightarrow> string \<Rightarrow> stream_fields" where
  "status_entry st timestamp = [(''type'', ''status''), (''status'', status_value st), (''timestamp'', timestamp)]"

definition audit_entry ::
    "string \<Rightarrow> string \<Rightarrow> run_hash \<Rightarrow> string option \<Rightarrow> run_status \<Rightarrow> string \<Rightarrow> string \<Rightarrow> nat \<Rightarrow> stream_fields
       \<Rightarrow> stream_fields" where
  "audit_entry event_id event_type h scope st timestamp owner fence extra =
     [(''event_id'', event_id), (''schema_version'', ''1''), (''event_type'', event_type),
      (''request_id'', h_request_id h), (''agent_id'', h_agent_id h), (''thread_id'', h_thread_id h)]
     @ (case scope of None \<Rightarrow> [] | Some x \<Rightarrow> [(''identity_scope'', x)])
     @ [(''status'', status_value st), (''timestamp'', timestamp), (''owner_id'', owner),
        (''fencing_token'', nat_str fence)] @ extra"

section \<open>Scripts\<close>

type_synonym reply = "int \<times> nat"

record create_args =
  c_request_id :: string
  c_fingerprint :: string
  c_kind :: run_kind
  c_agent_id :: string
  c_thread_id :: string
  c_user_id :: string
  c_timeout :: rat
  c_buffer :: nat
  c_owner :: string
  c_lease_ms :: int
  c_timestamp :: string
  c_limit :: int
  c_audit_id :: string

definition new_run :: "int \<Rightarrow> create_args \<Rightarrow> run_hash" where
  "new_run now a =
     \<lparr>h_request_id = c_request_id a, h_fingerprint = c_fingerprint a, h_kind = c_kind a,
      h_agent_id = c_agent_id a, h_thread_id = c_thread_id a, h_user_id = c_user_id a,
      h_timeout = c_timeout a, h_buffer = c_buffer a, h_status = Queued, h_run_id = [],
      h_created_at = c_timestamp a, h_started_at = [], h_finished_at = [], h_result_json = [],
      h_error_code = [], h_error = [], h_http_status = 500, h_stream_failed = False,
      h_terminal_emitted = False, h_interaction_id = [], h_interaction_version = None,
      h_last_event_id = 0, h_owner = c_owner a, h_fence = 1, h_lease = now + c_lease_ms a, h_version = 1\<rparr>"

text \<open>The branch of \<open>_CREATE_OR_GET_LUA\<close> that takes over a run whose lease has expired.\<close>

definition take_over :: "int \<Rightarrow> string \<Rightarrow> create_args \<Rightarrow> run_hash \<Rightarrow> redis_db \<Rightarrow> redis_db" where [redis_defs]:
  "take_over now key a h db =
     (let fence = h_fence h + 1; lease = now + c_lease_ms a;
          db1 = hset key (h\<lparr>h_fence := fence, h_owner := c_owner a, h_lease := lease, h_status := Queued,
                  h_started_at := [], h_finished_at := [], h_error_code := [], h_error := [],
                  h_http_status := 500, h_terminal_emitted := False, h_version := h_version h + 1\<rparr>) db;
          db2 = zrem_running key (zadd_active key lease db1);
          db3 = (if h_status h \<noteq> Queued then hincr Queued 1 (hincr (h_status h) (- 1) db2) else db2);
          db4 = xadd_lifecycle key [(''type'', ''lease_taken_over''), (''status'', ''queued''),
                  (''timestamp'', c_timestamp a)] db3
      in xadd_audit (audit_entry (c_audit_id a) ''RunLeaseTakenOver''
                       (h\<lparr>h_request_id := c_request_id a, h_agent_id := c_agent_id a, h_thread_id := c_thread_id a\<rparr>)
                       (Some (identity_scope (c_user_id a))) Queued (c_timestamp a) (c_owner a) fence []) db4)"

definition create_run :: "int \<Rightarrow> string \<Rightarrow> create_args \<Rightarrow> redis_db \<Rightarrow> redis_db" where [redis_defs]:
  "create_run now key a db =
     (let h = new_run now a;
          db1 = hincr Queued 1 (zadd_active key (h_lease h) (hset key h db));
          db2 = db1\<lparr>db_retained := db_retained db1 + 1\<rparr>;
          db3 = xadd_lifecycle key (status_entry Queued (c_timestamp a)) db2
      in xadd_audit (audit_entry (c_audit_id a) ''RunAccepted'' h (Some (identity_scope (c_user_id a)))
                       Queued (c_timestamp a) (c_owner a) 1 []) db3)"

definition create_or_get :: "int \<Rightarrow> string \<Rightarrow> create_args \<Rightarrow> redis_db \<Rightarrow> reply \<times> redis_db" where
  "create_or_get now key a db =
     (case run_at db key of
        Some h \<Rightarrow>
          if h_user_id h \<noteq> [] \<and> h_user_id h \<noteq> c_user_id a then ((- 2, 0), db)
          else if h_fingerprint h \<noteq> c_fingerprint a \<or> h_kind h \<noteq> c_kind a then ((- 1, 0), db)
          else if h_status h = WaitingForInput \<or> terminal_state (h_status h) then ((0, h_fence h), db)
          else if h_lease h \<le> now then ((2, h_fence h + 1), take_over now key a h db)
          else ((0, h_fence h), db)
      | None \<Rightarrow>
          if int (zcount now (db_active db)) \<ge> c_limit a then ((- 3, 0), db)
          else ((1, 1), create_run now key a db))"

text \<open>The guard of every script that an owner calls: the run exists and the fence is current.\<close>

definition owns :: "string \<Rightarrow> nat \<Rightarrow> run_hash \<Rightarrow> bool" where
  "owns owner fence h \<longleftrightarrow> h_owner h = owner \<and> h_fence h = fence"

text \<open>Append one event under the next identifier and trim the stream.\<close>

definition push_stream :: "string \<Rightarrow> run_hash \<Rightarrow> string \<Rightarrow> nat option \<Rightarrow> bool option \<Rightarrow> redis_db \<Rightarrow> redis_db" where [redis_defs]:
  "push_stream key h payload fence terminal db =
     xadd_event key \<lparr>se_id = h_last_event_id h + 1, se_payload = payload, se_fence = fence, se_terminal = terminal\<rparr>
       (hset key (h\<lparr>h_last_event_id := h_last_event_id h + 1\<rparr>) db)"

record append_args =
  a_payload :: string
  a_maxlen :: nat
  a_event_key :: string
  a_terminal :: bool
  a_audit :: string

definition append_script :: "string \<Rightarrow> string \<Rightarrow> nat \<Rightarrow> append_args \<Rightarrow> redis_db \<Rightarrow> (int \<times> nat option) \<times> redis_db" where
  "append_script key owner fence a db =
     (case run_at db key of
        None \<Rightarrow> ((- 1, Some 0), db)
      | Some h \<Rightarrow>
          if \<not> owns owner fence h then ((- 2, Some 0), db)
          else if terminal_state (h_status h) then ((- 3, Some 0), db)
          else if h_status h = WaitingForInput \<and> a_terminal a then ((- 4, Some 0), db)
          else
            (case (if a_event_key a = [] then None else db_dedupe db key (a_event_key a)) of
               Some (EventId i) \<Rightarrow> ((0, Some i), db)
             | Some (ResponseIdentity _) \<Rightarrow> ((0, None), db)
             | None \<Rightarrow>
                 (let i = h_last_event_id h + 1;
                      db1 = xtrim key (a_maxlen a) (push_stream key h (a_payload a) (Some fence) (Some (a_terminal a)) db);
                      db2 = (if a_event_key a \<noteq> [] then set_dedupe key (a_event_key a) (EventId i) db1 else db1);
                      db3 = (if a_terminal a
                             then hset key (h\<lparr>h_last_event_id := i, h_terminal_emitted := True\<rparr>) db2 else db2);
                      db4 = (if a_audit a \<noteq> [] then xadd_audit [(''payload'', a_audit a)] db3 else db3)
                  in ((1, Some i), db4))))"

definition acquire_script ::
    "int \<Rightarrow> string \<Rightarrow> string \<Rightarrow> nat \<Rightarrow> int \<Rightarrow> int \<Rightarrow> string \<Rightarrow> string \<Rightarrow> redis_db \<Rightarrow> int \<times> redis_db" where
  "acquire_script now key owner fence max_running lease_ms timestamp audit_id db =
     (case run_at db key of
        None \<Rightarrow> (- 1, db)
      | Some h \<Rightarrow>
          if \<not> owns owner fence h then (- 2, db)
          else if h_status h \<noteq> Queued then (- 3, db)
          else if int (zcount now (db_running db)) \<ge> max_running then (0, db)
          else
            (let lease = now + lease_ms;
                 db1 = hset key (h\<lparr>h_status := Running, h_started_at := timestamp, h_lease := lease,
                         h_version := h_version h + 1\<rparr>) db;
                 db2 = hincr Running 1 (hincr Queued (- 1) (zadd_running key lease (zadd_active key lease db1)));
                 db3 = xadd_lifecycle key (status_entry Running timestamp) db2
             in (1, xadd_audit (audit_entry audit_id ''RunStarted'' h (Some (identity_scope (h_user_id h)))
                        Running timestamp owner fence []) db3)))"

definition heartbeat_script :: "int \<Rightarrow> string \<Rightarrow> string \<Rightarrow> nat \<Rightarrow> int \<Rightarrow> redis_db \<Rightarrow> int \<times> redis_db" where
  "heartbeat_script now key owner fence lease_ms db =
     (case run_at db key of
        None \<Rightarrow> (0, db)
      | Some h \<Rightarrow>
          if \<not> owns owner fence h \<or> h_status h = WaitingForInput \<or> terminal_state (h_status h) then (0, db)
          else
            (let lease = now + lease_ms;
                 db1 = zadd_active key lease (hset key (h\<lparr>h_lease := lease\<rparr>) db)
             in (1, if h_status h = Running then zadd_running key lease db1 else db1)))"

definition release_script :: "string \<Rightarrow> string \<Rightarrow> nat \<Rightarrow> redis_db \<Rightarrow> int \<times> redis_db" where
  "release_script key owner fence db =
     (case run_at db key of
        None \<Rightarrow> (0, db)
      | Some h \<Rightarrow>
          if \<not> owns owner fence h then (0, db)
          else if h_status h = WaitingForInput then (1, db)
          else if terminal_state (h_status h) then (0, db)
          else (1, zadd_running key 0 (zadd_active key 0 (hset key (h\<lparr>h_lease := 0\<rparr>) db))))"

record transition_args =
  t_status :: run_status
  t_timestamp :: string
  t_result_json :: string
  t_error_code :: string
  t_error :: string
  t_http_status :: int
  t_retention_ms :: int
  t_audit_id :: string
  t_digest :: string

text \<open>\<open>'Run' .. string.upper(first) .. rest\<close>.\<close>

definition run_event_type :: "run_status \<Rightarrow> string" where
  "run_event_type st =
     (case status_value st of
        [] \<Rightarrow> ''Run''
      | c # cs \<Rightarrow> ''Run'' @ (if lower_alpha c then char_of (of_char c - 32 :: nat) else c) # cs)"

definition transition_script ::
    "int \<Rightarrow> string \<Rightarrow> string \<Rightarrow> nat \<Rightarrow> transition_args \<Rightarrow> redis_db \<Rightarrow> int \<times> redis_db" where
  "transition_script now key owner fence a db =
     (case run_at db key of
        None \<Rightarrow> (- 1, db)
      | Some h \<Rightarrow>
          if \<not> owns owner fence h then (- 2, db)
          else if h_status h = t_status a then (0, db)
          else if terminal_state (h_status h) then (- 3, db)
          else if \<not> terminal_state (t_status a) then (- 4, db)
          else
            (let db1 = hset key (h\<lparr>h_status := t_status a, h_finished_at := t_timestamp a,
                         h_result_json := t_result_json a, h_error_code := t_error_code a, h_error := t_error a,
                         h_http_status := t_http_status a, h_lease := 0, h_version := h_version h + 1\<rparr>) db;
                 db2 = hincr (t_status a) 1 (hincr (h_status h) (- 1) (zrem_running key (zrem_active key db1)));
                 db3 = xadd_lifecycle key (status_entry (t_status a) (t_timestamp a)) db2;
                 db4 = xadd_audit (audit_entry (t_audit_id a) (run_event_type (t_status a)) h
                         (Some (identity_scope (h_user_id h))) (t_status a) (t_timestamp a) owner fence
                         [(''error_code'', t_error_code a), (''detail_digest'', t_digest a)]) db3
             in (1, pexpire key (now + t_retention_ms a) db4)))"

record cancel_args =
  x_user_id :: string
  x_timestamp :: string
  x_retention_ms :: int
  x_audit_id :: string
  x_error_payload :: string
  x_done_payload :: string
  x_maxlen :: nat

definition cancel_script :: "int \<Rightarrow> string \<Rightarrow> cancel_args \<Rightarrow> redis_db \<Rightarrow> reply \<times> redis_db" where
  "cancel_script now key a db =
     (case run_at db key of
        None \<Rightarrow> ((- 1, 0), db)
      | Some h \<Rightarrow>
          if h_user_id h \<noteq> [] \<and> h_user_id h \<noteq> x_user_id a then ((- 2, 0), db)
          else if terminal_state (h_status h) then ((0, h_fence h), db)
          else
            (let fence = h_fence h + 1;
                 h1 = h\<lparr>h_fence := fence, h_status := Cancelled, h_finished_at := x_timestamp a,
                        h_error_code := ''run_cancelled'', h_error := ''Run was cancelled.'', h_http_status := 409,
                        h_lease := 0, h_version := h_version h + 1\<rparr>;
                 h2 = h1\<lparr>h_last_event_id := h_last_event_id h + 1\<rparr>;
                 h3 = h2\<lparr>h_last_event_id := h_last_event_id h + 2, h_terminal_emitted := True\<rparr>;
                 db1 = hset key h1 db;
                 db2 = (if h_kind h = Stream
                        then xtrim key (x_maxlen a) (hset key h3
                               (push_stream key h2 (x_done_payload a) (Some fence) (Some True)
                                  (push_stream key h1 (x_error_payload a) (Some fence) (Some False) db1)))
                        else db1);
                 db3 = hincr Cancelled 1 (hincr (h_status h) (- 1) (zrem_running key (zrem_active key db2)));
                 db4 = xadd_lifecycle key (status_entry Cancelled (x_timestamp a)) db3;
                 db5 = xadd_audit (audit_entry (x_audit_id a) ''RunCancelled'' h (Some (identity_scope (h_user_id h)))
                         Cancelled (x_timestamp a) (h_owner h) fence [(''error_code'', ''run_cancelled'')]) db4
             in ((1, fence), pexpire key (now + x_retention_ms a) db5)))"

definition set_run_id_script ::
    "string \<Rightarrow> string \<Rightarrow> nat \<Rightarrow> string \<Rightarrow> string \<Rightarrow> string \<Rightarrow> redis_db \<Rightarrow> int \<times> redis_db" where
  "set_run_id_script key owner fence rid timestamp audit_id db =
     (case run_at db key of
        None \<Rightarrow> (- 1, db)
      | Some h \<Rightarrow>
          if \<not> owns owner fence h then (- 2, db)
          else (1, xadd_audit (audit_entry audit_id ''RunIdAssigned'' h (Some (identity_scope (h_user_id h)))
                      (h_status h) timestamp owner fence [])
                     (hset key (h\<lparr>h_run_id := rid\<rparr>) db)))"

definition mark_failed_script ::
    "string \<Rightarrow> string \<Rightarrow> nat \<Rightarrow> string \<Rightarrow> string \<Rightarrow> int \<Rightarrow> string \<Rightarrow> string \<Rightarrow> string \<Rightarrow> redis_db \<Rightarrow> int \<times> redis_db" where
  "mark_failed_script key owner fence code message http timestamp audit_id digest db =
     (case run_at db key of
        None \<Rightarrow> (- 1, db)
      | Some h \<Rightarrow>
          if \<not> owns owner fence h then (- 2, db)
          else if terminal_state (h_status h) then (- 3, db)
          else (1, xadd_audit (audit_entry audit_id ''RunStreamFailed'' h (Some (identity_scope (h_user_id h)))
                      (h_status h) timestamp owner fence [(''error_code'', code), (''detail_digest'', digest)])
                     (hset key (h\<lparr>h_stream_failed := True, h_error_code := code, h_error := message,
                        h_http_status := http\<rparr>) db)))"

record pause_args =
  p_interaction_id :: string
  p_version :: int
  p_payload :: string
  p_maxlen :: nat
  p_event_key :: string
  p_timestamp :: string
  p_audit_id :: string
  p_stream_audit :: string

definition event_id_of :: "dedupe_value option \<Rightarrow> nat" where
  "event_id_of v = (case v of Some (EventId i) \<Rightarrow> i | _ \<Rightarrow> 0)"

definition pause_script :: "string \<Rightarrow> string \<Rightarrow> nat \<Rightarrow> pause_args \<Rightarrow> redis_db \<Rightarrow> reply \<times> redis_db" where
  "pause_script key owner fence a db =
     (case run_at db key of
        None \<Rightarrow> ((- 1, 0), db)
      | Some h \<Rightarrow>
          if \<not> owns owner fence h then ((- 2, 0), db)
          else if h_status h = WaitingForInput then
            if h_interaction_id h = p_interaction_id a \<and> h_interaction_version h = Some (p_version a)
            then ((0, event_id_of (db_dedupe db key (p_event_key a))), db) else ((- 4, 0), db)
          else if h_status h \<noteq> Running then ((- 3, 0), db)
          else
            (let i = h_last_event_id h + 1;
                 db1 = set_dedupe key (p_event_key a) (EventId i)
                         (xtrim key (p_maxlen a) (push_stream key h (p_payload a) None None db));
                 db2 = hset key (h\<lparr>h_last_event_id := i, h_status := WaitingForInput,
                         h_interaction_id := p_interaction_id a, h_interaction_version := Some (p_version a),
                         h_lease := 0, h_finished_at := [], h_version := h_version h + 1\<rparr>) db1;
                 db3 = hincr WaitingForInput 1 (hincr Running (- 1) (zrem_running key (zrem_active key db2)));
                 db4 = xadd_lifecycle key [(''type'', ''status''), (''status'', ''waiting_for_input''),
                         (''interaction_id'', p_interaction_id a), (''state_version'', int_str (p_version a)),
                         (''timestamp'', p_timestamp a)] db3;
                 db5 = xadd_audit (audit_entry (p_audit_id a) ''RunWaitingForInput'' h None WaitingForInput
                         (p_timestamp a) owner fence []) db4
             in ((1, i), if p_stream_audit a \<noteq> [] then xadd_audit [(''payload'', p_stream_audit a)] db5 else db5)))"

record resume_args =
  r_user_id :: string
  r_interaction_id :: string
  r_response_id :: string
  r_version :: int
  r_owner :: string
  r_lease_ms :: int
  r_timestamp :: string
  r_audit_id :: string

definition response_key :: "string \<Rightarrow> string" where
  "response_key rid = ''response:'' @ rid"

definition response_identity :: "resume_args \<Rightarrow> string" where
  "response_identity a = r_interaction_id a @ '':'' @ int_str (r_version a)"

definition resume_script :: "int \<Rightarrow> string \<Rightarrow> resume_args \<Rightarrow> redis_db \<Rightarrow> reply \<times> redis_db" where
  "resume_script now key a db =
     (case run_at db key of
        None \<Rightarrow> ((- 1, 0), db)
      | Some h \<Rightarrow>
          if h_user_id h \<noteq> [] \<and> h_user_id h \<noteq> r_user_id a then ((- 2, 0), db)
          else
            (case db_dedupe db key (response_key (r_response_id a)) of
               Some v \<Rightarrow> (if v = ResponseIdentity (response_identity a) then ((0, h_fence h), db) else ((- 5, 0), db))
             | None \<Rightarrow>
                 if h_status h \<noteq> WaitingForInput then ((- 3, 0), db)
                 else if h_interaction_id h \<noteq> r_interaction_id a \<or> h_interaction_version h \<noteq> Some (r_version a)
                 then ((- 4, 0), db)
                 else
                   (let fence = h_fence h + 1; lease = now + r_lease_ms a;
                        db1 = hset key (h\<lparr>h_fence := fence, h_status := Queued, h_owner := r_owner a, h_lease := lease,
                                h_interaction_id := [], h_interaction_version := None, h_finished_at := [],
                                h_error_code := [], h_error := [], h_terminal_emitted := False,
                                h_version := h_version h + 1\<rparr>) db;
                        db2 = zrem_running key (zadd_active key lease
                                (set_dedupe key (response_key (r_response_id a))
                                   (ResponseIdentity (response_identity a)) db1));
                        db3 = hincr Queued 1 (hincr WaitingForInput (- 1) db2);
                        db4 = xadd_lifecycle key [(''type'', ''status''), (''status'', ''queued''),
                                (''interaction_id'', r_interaction_id a), (''state_version'', int_str (r_version a)),
                                (''timestamp'', r_timestamp a)] db3
                    in ((1, fence), xadd_audit (audit_entry (r_audit_id a) ''RunInputAccepted'' h None Queued
                           (r_timestamp a) (r_owner a) fence []) db4))))"

section \<open>Interleavings\<close>

text \<open>
  Any instance may call any script at any time, with any owner and fence: what an instance
  really does is a special case.  A call passes the buffer size that the run was created
  with, and pausing uses the event key of the interaction.  The keys of a run vanish at or
  after the time of their expiry.
\<close>

definition interaction_key :: "string \<Rightarrow> int \<Rightarrow> string" where
  "interaction_key iid v = ''interaction:'' @ iid @ '':'' @ int_str v"

definition buffer_is :: "redis_db \<Rightarrow> string \<Rightarrow> nat \<Rightarrow> bool" where
  "buffer_is db key n = (case run_at db key of None \<Rightarrow> True | Some h \<Rightarrow> h_buffer h = n)"

inductive script_call :: "int \<Rightarrow> redis_db \<Rightarrow> redis_db \<Rightarrow> bool" for now :: int where
  call_create: "script_call now db (snd (create_or_get now key a db))"
| call_append: "buffer_is db key (a_maxlen a) \<Longrightarrow> script_call now db (snd (append_script key owner fence a db))"
| call_acquire: "script_call now db (snd (acquire_script now key owner fence m l ts aid db))"
| call_heartbeat: "script_call now db (snd (heartbeat_script now key owner fence l db))"
| call_release: "script_call now db (snd (release_script key owner fence db))"
| call_transition: "script_call now db (snd (transition_script now key owner fence ta db))"
| call_cancel: "buffer_is db key (x_maxlen xa) \<Longrightarrow> script_call now db (snd (cancel_script now key xa db))"
| call_set_run_id: "script_call now db (snd (set_run_id_script key owner fence rid ts aid db))"
| call_mark_failed: "script_call now db (snd (mark_failed_script key owner fence code msg http ts aid dg db))"
| call_pause: "buffer_is db key (p_maxlen pa) \<Longrightarrow> p_event_key pa = interaction_key (p_interaction_id pa) (p_version pa)
    \<Longrightarrow> script_call now db (snd (pause_script key owner fence pa db))"
| call_resume: "script_call now db (snd (resume_script now key ra db))"

inductive redis_step :: "int \<Rightarrow> redis_db \<Rightarrow> redis_db \<Rightarrow> bool" for now :: int where
  step_call: "script_call now db db' \<Longrightarrow> redis_step now db db'"
| step_expire: "db_expiry db key = Some due \<Longrightarrow> due \<le> now \<Longrightarrow> redis_step now db (expire_run key db)"

inductive redis_reachable :: "redis_db \<Rightarrow> bool" where
  reach_empty: "redis_reachable empty_db"
| reach_step: "redis_reachable db \<Longrightarrow> redis_step now db db' \<Longrightarrow> redis_reachable db'"

end
