(* ===== verification/Redis_Facts.thy ===== *)
theory Redis_Facts
  imports Redis_Registry
begin

text \<open>
  Facts about the shared registry: the invariant of every reachable database, fencing of
  superseded owners, finality of terminal states, and what leases do and do not promise.
\<close>

section \<open>Updates of association lists\<close>

declare map_of_AList_update [simp]

lemma map_of_AList_delete [simp]: "map_of (AList.delete k al) = (map_of al)(k := None)"
  by (simp add: delete_conv')

lemma AList_update_update [simp]: "AList.update k w (AList.update k v al) = AList.update k w al"
  by (induction al) auto

definition tally :: "('v \<Rightarrow> bool) \<Rightarrow> ('k \<times> 'v) list \<Rightarrow> int" where
  "tally P al = int (length (filter (\<lambda>(k, v). P v) al))"

lemma tally_update:
  assumes "distinct (map fst al)"
  shows "tally P (AList.update k v al) =
    tally P al + of_bool (P v) - (case map_of al k of None \<Rightarrow> 0 | Some w \<Rightarrow> of_bool (P w))"
  using assms
proof (induction al)
  case (Cons p al)
  obtain k' w where p: "p = (k', w)" by (cases p)
  have "map_of al k' = None" using Cons.prems by (simp add: p map_of_eq_None_iff)
  with Cons show ?case by (auto simp: p tally_def split: option.splits)
qed (simp add: tally_def)

lemma tally_delete:
  assumes "distinct (map fst al)"
  shows "tally P (AList.delete k al) = tally P al - (case map_of al k of None \<Rightarrow> 0 | Some w \<Rightarrow> of_bool (P w))"
  using assms
proof (induction al)
  case (Cons p al)
  obtain k' w where p: "p = (k', w)" by (cases p)
  have "map_of al k' = None" using Cons.prems by (simp add: p map_of_eq_None_iff)
  with Cons show ?case by (auto simp: p tally_def split: option.splits)
qed (simp add: tally_def)

section \<open>The invariant\<close>

definition pending :: "run_status \<Rightarrow> bool" where
  "pending st \<longleftrightarrow> st = Queued \<or> st = Running"

lemma status_cases: "pending st \<or> st = WaitingForInput \<or> terminal_state st"
  by (cases st) (auto simp: pending_def terminal_state_def)

text \<open>
  What holds of one run: its fence is positive; its events carry the last identifiers
  handed out, one each, and fit the buffer; only responses have identities; it is in the set of active runs, with its
  lease, exactly when it is queued or running, and in the set of running ones when it is
  running; its keys expire exactly when it has ended.
\<close>

definition events_ok :: "run_hash \<Rightarrow> stream_event list \<Rightarrow> bool" where
  "events_ok h es \<longleftrightarrow> length es \<le> h_last_event_id h \<and> length es \<le> h_buffer h
     \<and> map se_id es = [Suc (h_last_event_id h - length es)..<Suc (h_last_event_id h)]"

definition running_ok :: "run_hash \<Rightarrow> int option \<Rightarrow> bool" where
  "running_ok h sc \<longleftrightarrow>
     (case h_status h of Running \<Rightarrow> sc = Some (h_lease h) | Queued \<Rightarrow> sc = None \<or> sc = Some 0 | _ \<Rightarrow> sc = None)"

definition is_response_key :: "string \<Rightarrow> bool" where
  "is_response_key k = startswith k ''response:''"

lemma response_key_is [simp]: "is_response_key (response_key rid)"
  by (simp add: is_response_key_def response_key_def startswith_def)

definition run_ok :: "run_hash \<Rightarrow> stream_event list \<Rightarrow> (string \<Rightarrow> dedupe_value option) \<Rightarrow> int option \<Rightarrow> int option \<Rightarrow> int option \<Rightarrow> bool" where
  "run_ok h es dd act rn ex \<longleftrightarrow>
     1 \<le> h_fence h \<and> events_ok h es
     \<and> (\<forall>f i. dd f = Some (EventId i) \<longrightarrow> i \<le> h_last_event_id h)
     \<and> (\<forall>f s. dd f = Some (ResponseIdentity s) \<longrightarrow> is_response_key f)
     \<and> act = (if pending (h_status h) then Some (h_lease h) else None)
     \<and> running_ok h rn
     \<and> (ex \<noteq> None \<longleftrightarrow> terminal_state (h_status h))"

definition key_ok :: "redis_db \<Rightarrow> string \<Rightarrow> bool" where
  "key_ok db key =
     (case run_at db key of
        None \<Rightarrow> db_events db key = [] \<and> db_dedupe db key = (\<lambda>_. None) \<and> map_of (db_active db) key = None
                \<and> map_of (db_running db) key = None \<and> db_expiry db key = None
      | Some h \<Rightarrow> run_ok h (db_events db key) (db_dedupe db key) (map_of (db_active db) key)
                   (map_of (db_running db) key) (db_expiry db key))"

text \<open>The counters of the states that a run can leave are exact, and all of them add up to \<open>retained\<close>.\<close>

definition all_states :: "run_status list" where
  "all_states = [Queued, Running, WaitingForInput, Completed, Failed, Cancelled, TimedOut]"

definition counters_ok :: "redis_db \<Rightarrow> bool" where
  "counters_ok db \<longleftrightarrow>
     (\<forall>st. \<not> terminal_state st \<longrightarrow> db_metrics db st = tally (\<lambda>h. h_status h = st) (db_state db))
     \<and> sum_list (map (db_metrics db) all_states) = db_retained db"

definition redis_inv :: "redis_db \<Rightarrow> bool" where
  "redis_inv db \<longleftrightarrow> distinct (map fst (db_state db)) \<and> distinct (map fst (db_active db))
     \<and> distinct (map fst (db_running db)) \<and> (\<forall>key. key_ok db key) \<and> counters_ok db"

section \<open>Effects of scripts\<close>

text \<open>
  A script either leaves the database alone or changes one existing run (or creates one).
  An effect lists what a script makes of the run: its hash, its events, its entries in the
  deduplication hash and in the two sorted sets, and its expiry.  Everything stored under
  other keys stays.
\<close>

record run_view =
  v_hash :: run_hash
  v_events :: "stream_event list"
  v_dedupe :: "string \<Rightarrow> dedupe_value option"
  v_active :: "int option"
  v_running :: "int option"
  v_expiry :: "int option"

definition view_at :: "redis_db \<Rightarrow> string \<Rightarrow> run_hash \<Rightarrow> run_view" where
  "view_at db key h = \<lparr>v_hash = h, v_events = db_events db key, v_dedupe = db_dedupe db key,
     v_active = map_of (db_active db) key, v_running = map_of (db_running db) key, v_expiry = db_expiry db key\<rparr>"

definition view_ok :: "run_view \<Rightarrow> bool" where
  "view_ok v = run_ok (v_hash v) (v_events v) (v_dedupe v) (v_active v) (v_running v) (v_expiry v)"

definition recount :: "run_status \<Rightarrow> run_status \<Rightarrow> (run_status \<Rightarrow> int) \<Rightarrow> run_status \<Rightarrow> int" where
  "recount st st' m = (m(st := m st - 1))(st' := (m(st := m st - 1)) st' + 1)"

lemma recount_same [simp]: "recount st st m = m"
  by (simp add: recount_def)

definition zset_put :: "string \<Rightarrow> int option \<Rightarrow> zset \<Rightarrow> zset \<Rightarrow> bool" where
  "zset_put key sc z z' \<longleftrightarrow> map_of z' = (map_of z)(key := sc) \<and> (distinct (map fst z) \<longrightarrow> distinct (map fst z'))"

lemma zset_put_simps [simp]:
  "zset_put key (map_of z key) z z"
  "zset_put key sc z (AList.update key score z) \<longleftrightarrow> sc = Some score"
  "zset_put key sc z (AList.delete key z) \<longleftrightarrow> sc = None"
  by (auto simp: zset_put_def distinct_update distinct_delete fun_eq_iff)

definition effect :: "string \<Rightarrow> run_view \<Rightarrow> redis_db \<Rightarrow> redis_db \<Rightarrow> bool" where
  "effect key v db db' \<longleftrightarrow>
     db_state db' = AList.update key (v_hash v) (db_state db)
     \<and> db_events db' = (db_events db)(key := v_events v)
     \<and> db_dedupe db' = (db_dedupe db)(key := v_dedupe v)
     \<and> zset_put key (v_active v) (db_active db) (db_active db')
     \<and> zset_put key (v_running v) (db_running db) (db_running db')
     \<and> db_expiry db' = (db_expiry db)(key := v_expiry v)
     \<and> (case run_at db key of
          None \<Rightarrow> db_metrics db' = (db_metrics db)(h_status (v_hash v) := db_metrics db (h_status (v_hash v)) + 1)
            \<and> db_retained db' = db_retained db + 1
        | Some h \<Rightarrow> db_metrics db' = recount (h_status h) (h_status (v_hash v)) (db_metrics db)
            \<and> db_retained db' = db_retained db)"

lemma effect_view:
  assumes "effect key v db db'"
  shows "run_at db' key = Some (v_hash v)" "view_at db' key (v_hash v) = v"
    "k \<noteq> key \<Longrightarrow> run_at db' k = run_at db k" "k \<noteq> key \<Longrightarrow> view_at db' k h = view_at db k h"
  using assms by (auto simp: effect_def view_at_def zset_put_def)

lemma key_ok_view:
  "key_ok db key =
     (case run_at db key of
        None \<Rightarrow> db_events db key = [] \<and> db_dedupe db key = (\<lambda>_. None) \<and> map_of (db_active db) key = None
                \<and> map_of (db_running db) key = None \<and> db_expiry db key = None
      | Some h \<Rightarrow> view_ok (view_at db key h))"
  by (simp add: key_ok_def view_ok_def view_at_def split: option.splits)

lemma key_ok_other: "effect key v db db' \<Longrightarrow> k \<noteq> key \<Longrightarrow> key_ok db' k = key_ok db k"
  by (simp add: effect_def key_ok_def zset_put_def split: option.splits)

lemma sum_all_states_recount:
  "sum_list (map (recount st st' m) all_states) = sum_list (map m all_states)"
  by (cases st; cases st') (simp_all add: recount_def all_states_def)

lemma sum_all_states_incr:
  "sum_list (map (m(st := m st + 1)) all_states) = sum_list (map m all_states) + (1::int)"
  by (cases st) (simp_all add: all_states_def)

lemma effect_counters:
  assumes inv: "redis_inv db" and eff: "effect key v db db'"
  shows "counters_ok db'"
proof -
  have dist: "distinct (map fst (db_state db))" and cnt: "counters_ok db"
    using inv by (simp_all add: redis_inv_def)
  have state: "db_state db' = AList.update key (v_hash v) (db_state db)"
    using eff by (simp add: effect_def)
  show ?thesis
  proof (cases "run_at db key")
    case None
    then show ?thesis using cnt eff
      by (simp add: counters_ok_def state tally_update [OF dist] effect_def sum_all_states_incr)
  next
    case (Some h)
    then show ?thesis using cnt eff
      by (simp add: counters_ok_def state tally_update [OF dist] effect_def sum_all_states_recount)
        (auto simp: recount_def)
  qed
qed

lemma effect_inv:
  assumes "redis_inv db" "effect key v db db'" "view_ok v"
  shows "redis_inv db'"
proof -
  have "key_ok db' k" for k
  proof (cases "k = key")
    case True
    then show ?thesis using assms effect_view(1,2) [OF assms(2)] by (simp add: key_ok_view)
  next
    case False
    then show ?thesis using assms by (simp add: key_ok_other redis_inv_def)
  qed
  moreover have "distinct (map fst (db_state db'))" "distinct (map fst (db_active db'))" "distinct (map fst (db_running db'))"
    using assms by (auto simp: effect_def redis_inv_def zset_put_def distinct_update)
  ultimately show ?thesis using effect_counters [OF assms(1,2)] by (simp add: redis_inv_def)
qed

section \<open>What may happen to one run\<close>

text \<open>
  The specification of the scripts from the point of view of one run.  A change is made by
  the owner, under its name and fence, or by a client, who needs neither.
\<close>

datatype actor = Owner string nat | Client

definition latest :: "nat \<Rightarrow> stream_event list \<Rightarrow> stream_event list" where
  "latest n es = drop (length es - n) es"

definition stamped :: "string \<Rightarrow> dedupe_value \<Rightarrow> (string \<Rightarrow> dedupe_value option) \<Rightarrow> string \<Rightarrow> dedupe_value option" where
  "stamped f v d = (if f = [] then d else d(f \<mapsto> v))"

inductive run_change :: "int \<Rightarrow> actor \<Rightarrow> run_view \<Rightarrow> run_view \<Rightarrow> bool" for now :: int where
  change_takeover:
    "pending (h_status (v_hash v)) \<Longrightarrow> h_lease (v_hash v) \<le> now \<Longrightarrow>
     run_change now Client v (v\<lparr>v_hash := (v_hash v)\<lparr>h_fence := h_fence (v_hash v) + 1, h_owner := w, h_lease := l,
       h_status := Queued, h_started_at := [], h_finished_at := [], h_error_code := [], h_error := [],
       h_http_status := 500, h_terminal_emitted := False, h_version := h_version (v_hash v) + 1\<rparr>,
       v_active := Some l, v_running := None\<rparr>)"
| change_append:
    "owns w f (v_hash v) \<Longrightarrow> \<not> terminal_state (h_status (v_hash v)) \<Longrightarrow>
     h_status (v_hash v) = WaitingForInput \<longrightarrow> \<not> t \<Longrightarrow> k = [] \<or> v_dedupe v k = None \<Longrightarrow>
     i = h_last_event_id (v_hash v) + 1 \<Longrightarrow>
     run_change now (Owner w f) v (v\<lparr>
       v_hash := (v_hash v)\<lparr>h_last_event_id := i, h_terminal_emitted := t \<or> h_terminal_emitted (v_hash v)\<rparr>,
       v_events := latest (h_buffer (v_hash v))
         (v_events v @ [\<lparr>se_id = i, se_payload = p, se_fence = Some f, se_terminal = Some t\<rparr>]),
       v_dedupe := stamped k (EventId i) (v_dedupe v)\<rparr>)"
| change_acquire:
    "owns w f (v_hash v) \<Longrightarrow> h_status (v_hash v) = Queued \<Longrightarrow>
     run_change now (Owner w f) v (v\<lparr>v_hash := (v_hash v)\<lparr>h_status := Running, h_started_at := ts, h_lease := l,
       h_version := h_version (v_hash v) + 1\<rparr>, v_active := Some l, v_running := Some l\<rparr>)"
| change_heartbeat:
    "owns w f (v_hash v) \<Longrightarrow> pending (h_status (v_hash v)) \<Longrightarrow>
     run_change now (Owner w f) v (v\<lparr>v_hash := (v_hash v)\<lparr>h_lease := l\<rparr>, v_active := Some l,
       v_running := if h_status (v_hash v) = Running then Some l else v_running v\<rparr>)"
| change_release:
    "owns w f (v_hash v) \<Longrightarrow> pending (h_status (v_hash v)) \<Longrightarrow>
     run_change now (Owner w f) v (v\<lparr>v_hash := (v_hash v)\<lparr>h_lease := 0\<rparr>, v_active := Some 0, v_running := Some 0\<rparr>)"
| change_finish:
    "owns w f (v_hash v) \<Longrightarrow> \<not> terminal_state (h_status (v_hash v)) \<Longrightarrow> terminal_state st \<Longrightarrow>
     run_change now (Owner w f) v (v\<lparr>v_hash := (v_hash v)\<lparr>h_status := st, h_finished_at := ts, h_result_json := rj,
       h_error_code := ec, h_error := er, h_http_status := hs, h_lease := 0, h_version := h_version (v_hash v) + 1\<rparr>,
       v_active := None, v_running := None, v_expiry := Some due\<rparr>)"
| change_cancel:
    "\<not> terminal_state (h_status (v_hash v)) \<Longrightarrow> f = h_fence (v_hash v) + 1 \<Longrightarrow> i = h_last_event_id (v_hash v) \<Longrightarrow>
     h = (v_hash v)\<lparr>h_fence := f, h_status := Cancelled, h_finished_at := ts,
            h_error_code := ''run_cancelled'', h_error := ''Run was cancelled.'', h_http_status := 409, h_lease := 0,
            h_version := h_version (v_hash v) + 1\<rparr> \<Longrightarrow>
     es = [\<lparr>se_id = i + 1, se_payload = p, se_fence = Some f, se_terminal = Some False\<rparr>,
           \<lparr>se_id = i + 2, se_payload = q, se_fence = Some f, se_terminal = Some True\<rparr>] \<Longrightarrow>
     run_change now Client v (v\<lparr>
       v_hash := (if h_kind (v_hash v) = Stream then h\<lparr>h_last_event_id := i + 2, h_terminal_emitted := True\<rparr> else h),
       v_events := (if h_kind (v_hash v) = Stream then latest (h_buffer (v_hash v)) (v_events v @ es) else v_events v),
       v_active := None, v_running := None, v_expiry := Some due\<rparr>)"
| change_run_id:
    "owns w f (v_hash v) \<Longrightarrow> run_change now (Owner w f) v (v\<lparr>v_hash := (v_hash v)\<lparr>h_run_id := rid\<rparr>\<rparr>)"
| change_stream_failed:
    "owns w f (v_hash v) \<Longrightarrow> \<not> terminal_state (h_status (v_hash v)) \<Longrightarrow>
     run_change now (Owner w f) v (v\<lparr>v_hash := (v_hash v)\<lparr>h_stream_failed := True, h_error_code := ec, h_error := er,
       h_http_status := hs\<rparr>\<rparr>)"
| change_pause:
    "owns w f (v_hash v) \<Longrightarrow> h_status (v_hash v) = Running \<Longrightarrow> i = h_last_event_id (v_hash v) + 1 \<Longrightarrow>
     run_change now (Owner w f) v (v\<lparr>v_hash := (v_hash v)\<lparr>h_last_event_id := i, h_status := WaitingForInput,
       h_interaction_id := iid, h_interaction_version := Some ver, h_lease := 0, h_finished_at := [],
       h_version := h_version (v_hash v) + 1\<rparr>,
       v_events := latest (h_buffer (v_hash v))
         (v_events v @ [\<lparr>se_id = i, se_payload = p, se_fence = None, se_terminal = None\<rparr>]),
       v_dedupe := (v_dedupe v)(interaction_key iid ver \<mapsto> EventId i), v_active := None, v_running := None\<rparr>)"
| change_resume:
    "h_status (v_hash v) = WaitingForInput \<Longrightarrow> h_interaction_id (v_hash v) = iid \<Longrightarrow>
     h_interaction_version (v_hash v) = Some ver \<Longrightarrow> v_dedupe v (response_key rid) = None \<Longrightarrow>
     run_change now Client v (v\<lparr>v_hash := (v_hash v)\<lparr>h_fence := h_fence (v_hash v) + 1, h_status := Queued, h_owner := w,
       h_lease := l, h_interaction_id := [], h_interaction_version := None, h_finished_at := [], h_error_code := [],
       h_error := [], h_terminal_emitted := False, h_version := h_version (v_hash v) + 1\<rparr>,
       v_dedupe := (v_dedupe v)(response_key rid \<mapsto> ResponseIdentity (iid @ '':'' @ int_str ver)),
       v_active := Some l, v_running := None\<rparr>)"

text \<open>A script follows the specification when it changes nothing, or one run as specified.\<close>

definition follows :: "int \<Rightarrow> actor \<Rightarrow> string \<Rightarrow> redis_db \<Rightarrow> redis_db \<Rightarrow> bool" where
  "follows now x key db db' \<longleftrightarrow>
     db' = db \<or> (\<exists>h v. run_at db key = Some h \<and> run_change now x (view_at db key h) v \<and> effect key v db db')"

lemma followsI:
  "run_at db key = Some h \<Longrightarrow> run_change now x (view_at db key h) v \<Longrightarrow> effect key v db db' \<Longrightarrow> follows now x key db db'"
  by (auto simp: follows_def)

lemma follows_refl [simp]: "follows now x key db db"
  by (simp add: follows_def)

lemma status_split: "\<not> terminal_state st \<Longrightarrow> st \<noteq> WaitingForInput \<Longrightarrow> pending st"
  using status_cases by blast

lemmas effect_simps = effect_def view_at_def redis_defs Let_def latest_def stamped_def fun_upd_def [symmetric]

text \<open>
  To show that a script follows the specification: outside its guard it does nothing, and
  under the guard one rule applies and leaves the view that the script leaves.
\<close>

lemma follows_cases [case_names none unguarded guarded]:
  assumes "run_at db key = None \<Longrightarrow> db' = db"
    and "\<And>h. run_at db key = Some h \<Longrightarrow> \<not> G h \<Longrightarrow> db' = db"
    and "\<And>h. run_at db key = Some h \<Longrightarrow> G h \<Longrightarrow> follows now x key db db'"
  shows "follows now x key db db'"
  using assms by (cases "run_at db key") (auto, metis follows_refl)

lemma view_hash [simp]: "v_hash (view_at db key h) = h"
  by (simp add: view_at_def)

lemma heartbeat_follows: "follows now (Owner owner fence) key db (snd (heartbeat_script now key owner fence l db))"
proof (cases rule: follows_cases [where db = db and key = key and G = "\<lambda>h. owns owner fence h \<and> pending (h_status h)"])
  case (guarded h)
  then show ?thesis
    by (intro followsI [OF _ change_heartbeat [where l = "now + l"]])
      (auto simp: heartbeat_script_def effect_simps pending_def terminal_state_def)
qed (use status_split in \<open>auto simp: heartbeat_script_def\<close>)

lemma release_follows: "follows now (Owner owner fence) key db (snd (release_script key owner fence db))"
proof (cases rule: follows_cases [where db = db and key = key and G = "\<lambda>h. owns owner fence h \<and> pending (h_status h)"])
  case (guarded h)
  then show ?thesis
    by (intro followsI [OF _ change_release])
      (auto simp: release_script_def effect_simps pending_def terminal_state_def)
qed (use status_split in \<open>auto simp: release_script_def\<close>)

lemma set_run_id_follows: "follows now (Owner owner fence) key db (snd (set_run_id_script key owner fence rid ts aid db))"
proof (cases rule: follows_cases [where db = db and key = key and G = "owns owner fence"])
  case (guarded h)
  then show ?thesis
    by (intro followsI [OF _ change_run_id [where rid = rid]]) (auto simp: set_run_id_script_def effect_simps)
qed (auto simp: set_run_id_script_def)

lemma mark_failed_follows:
  "follows now (Owner owner fence) key db (snd (mark_failed_script key owner fence code msg http ts aid dg db))"
proof (cases rule: follows_cases [where db = db and key = key and G = "\<lambda>h. owns owner fence h \<and> \<not> terminal_state (h_status h)"])
  case (guarded h)
  then show ?thesis
    by (intro followsI [OF _ change_stream_failed [where ec = code and er = msg and hs = http]])
      (auto simp: mark_failed_script_def effect_simps)
qed (auto simp: mark_failed_script_def)

lemma acquire_follows:
  "follows now (Owner owner fence) key db (snd (acquire_script now key owner fence m l ts aid db))"
proof (cases rule: follows_cases [where db = db and key = key
      and G = "\<lambda>h. owns owner fence h \<and> h_status h = Queued \<and> \<not> int (zcount now (db_running db)) \<ge> m"])
  case (guarded h)
  then show ?thesis
    by (intro followsI [OF _ change_acquire [where ts = ts and l = "now + l"]])
      (auto simp: acquire_script_def effect_simps recount_def)
qed (auto simp: acquire_script_def)

lemma transition_follows:
  "follows now (Owner owner fence) key db (snd (transition_script now key owner fence a db))"
proof (cases rule: follows_cases [where db = db and key = key
      and G = "\<lambda>h. owns owner fence h \<and> \<not> terminal_state (h_status h) \<and> terminal_state (t_status a)"])
  case (guarded h)
  then have "h_status h \<noteq> t_status a" by auto
  with guarded show ?thesis
    by (intro followsI [OF _ change_finish [where st = "t_status a" and ts = "t_timestamp a" and rj = "t_result_json a"
          and ec = "t_error_code a" and er = "t_error a" and hs = "t_http_status a" and due = "now + t_retention_ms a"]])
      (auto simp: transition_script_def effect_simps recount_def)
qed (auto simp: transition_script_def)

lemma append_follows:
  assumes buf: "buffer_is db key (a_maxlen a)"
  shows "follows now (Owner owner fence) key db (snd (append_script key owner fence a db))"
proof (cases rule: follows_cases [where db = db and key = key
      and G = "\<lambda>h. owns owner fence h \<and> \<not> terminal_state (h_status h) \<and> \<not> (h_status h = WaitingForInput \<and> a_terminal a)
        \<and> (a_event_key a = [] \<or> db_dedupe db key (a_event_key a) = None)"])
  case (guarded h)
  then have "a_maxlen a = h_buffer h" using buf by (simp add: buffer_is_def)
  with guarded show ?thesis
    by (intro followsI [OF _ change_append [where t = "a_terminal a" and k = "a_event_key a" and p = "a_payload a"]])
      (auto simp: append_script_def effect_simps)
qed (auto simp: append_script_def split: option.splits dedupe_value.splits)

lemma cancel_follows:
  assumes buf: "buffer_is db key (x_maxlen a)"
  shows "follows now Client key db (snd (cancel_script now key a db))"
proof (cases rule: follows_cases [where db = db and key = key
      and G = "\<lambda>h. \<not> (h_user_id h \<noteq> [] \<and> h_user_id h \<noteq> x_user_id a) \<and> \<not> terminal_state (h_status h)"])
  case (guarded h)
  then have m: "x_maxlen a = h_buffer h" and c: "h_status h \<noteq> Cancelled"
    using buf by (auto simp: buffer_is_def terminal_state_def)
  have g: "(h_user_id h \<noteq> [] \<and> h_user_id h \<noteq> x_user_id a) = False" "terminal_state (h_status h) = False" using guarded by auto
  show ?thesis
    by (rule followsI [OF guarded(1) change_cancel [where ts = "x_timestamp a" and p = "x_error_payload a"
          and q = "x_done_payload a" and due = "now + x_retention_ms a", OF _ refl refl refl refl]], simp add: g,
      cases "h_kind h = Stream"; simp add: guarded(1) g m c cancel_script_def effect_simps recount_def)
qed (auto simp: cancel_script_def)

lemma pause_follows:
  assumes buf: "buffer_is db key (p_maxlen a)" and key: "p_event_key a = interaction_key (p_interaction_id a) (p_version a)"
  shows "follows now (Owner owner fence) key db (snd (pause_script key owner fence a db))"
proof (cases rule: follows_cases [where db = db and key = key and G = "\<lambda>h. owns owner fence h \<and> h_status h = Running"])
  case (guarded h)
  then have "p_maxlen a = h_buffer h" using buf by (simp add: buffer_is_def)
  with guarded show ?thesis
    by (intro followsI [OF _ change_pause [where iid = "p_interaction_id a" and ver = "p_version a" and p = "p_payload a", OF _ _ refl]])
      (auto simp: pause_script_def effect_simps recount_def key)
qed (auto simp: pause_script_def)

lemma resume_follows: "follows now Client key db (snd (resume_script now key a db))"
proof (cases rule: follows_cases [where db = db and key = key
      and G = "\<lambda>h. \<not> (h_user_id h \<noteq> [] \<and> h_user_id h \<noteq> r_user_id a) \<and> db_dedupe db key (response_key (r_response_id a)) = None
        \<and> h_status h = WaitingForInput \<and> h_interaction_id h = r_interaction_id a \<and> h_interaction_version h = Some (r_version a)"])
  case (guarded h)
  then show ?thesis
    by (intro followsI [OF _ change_resume [where w = "r_owner a" and rid = "r_response_id a" and l = "now + r_lease_ms a",
          OF _ refl]])
      (auto simp: resume_script_def effect_simps recount_def response_identity_def)
qed (auto simp: resume_script_def split: option.splits)

text \<open>Creating: the first call makes a run, a later one follows the specification.\<close>

definition fresh_view :: "run_hash \<Rightarrow> run_view" where
  "fresh_view h = \<lparr>v_hash = h, v_events = [], v_dedupe = (\<lambda>_. None), v_active = Some (h_lease h), v_running = None,
     v_expiry = None\<rparr>"

lemma create_follows:
  assumes "run_at db key = Some h"
  shows "follows now Client key db (snd (create_or_get now key a db))"
proof (cases "snd (create_or_get now key a db) = db")
  case False
  then have g: "pending (h_status h)" "h_lease h \<le> now" "snd (create_or_get now key a db) = take_over now key a h db"
    using assms status_split [of "h_status h"] by (auto simp: create_or_get_def split: if_splits)
  then show ?thesis using assms
    by (intro followsI [OF _ change_takeover [where w = "c_owner a" and l = "now + c_lease_ms a"]])
      (auto simp: effect_simps recount_def pending_def)
qed simp

lemma create_fresh:
  assumes "redis_inv db" "run_at db key = None" "snd (create_or_get now key a db) \<noteq> db"
  shows "effect key (fresh_view (new_run now a)) db (snd (create_or_get now key a db))"
proof -
  have "key_ok db key" using assms(1) by (simp add: redis_inv_def)
  then have e: "db_events db key = []" "db_dedupe db key = (\<lambda>_. None)" "map_of (db_running db) key = None" "db_expiry db key = None"
    using assms(2) by (simp_all add: key_ok_def)
  then have "(db_events db)(key := []) = db_events db" "(db_dedupe db)(key := \<lambda>_. None) = db_dedupe db"
    "(db_expiry db)(key := None) = db_expiry db" "zset_put key None (db_running db) (db_running db)"
    using zset_put_simps(1) [of key "db_running db"] by (metis fun_upd_triv)+
  then show ?thesis using assms(2,3)
    by (auto simp: create_or_get_def create_run_def effect_def fresh_view_def new_run_def redis_defs Let_def split: if_splits)
qed

section \<open>The invariant of every reachable database\<close>

lemma length_latest [simp]: "length (latest n es) = min n (length es)"
  by (simp add: latest_def)

lemma map_latest: "map f (latest n es) = drop (length es - n) (map f es)"
  by (simp add: latest_def drop_map)

lemma events_ok_latest:
  assumes "events_ok h es" "map se_id new = [Suc (h_last_event_id h)..<Suc (h_last_event_id h + length new)]"
    and "h_last_event_id h' = h_last_event_id h + length new" "h_buffer h' = h_buffer h"
  shows "events_ok h' (latest (h_buffer h) (es @ new))"
proof -
  let ?i = "h_last_event_id h" and ?n = "length es" and ?m = "length new"
  have n: "?n \<le> ?i" using assms(1) by (simp add: events_ok_def)
  have "map se_id (es @ new) = [Suc (?i - ?n)..<Suc ?i] @ [Suc ?i..<Suc (?i + ?m)]"
    using assms(1,2) by (simp add: events_ok_def)
  also have "\<dots> = [Suc (?i - ?n)..<Suc (?i + ?m)]"
    using upt_add_eq_append [of "Suc (?i - ?n)" "Suc ?i" ?m] n by simp
  finally have "map se_id (latest (h_buffer h) (es @ new)) =
      [Suc (?i - ?n) + (?n + ?m - h_buffer h)..<Suc (?i + ?m)]"
    by (simp add: map_latest del: upt_Suc)
  then show ?thesis using assms(3,4) n
    by (auto simp: events_ok_def min_def simp del: upt_Suc)
qed

lemma events_ok_same: "events_ok h es \<Longrightarrow> h_last_event_id h' = h_last_event_id h \<Longrightarrow> h_buffer h' = h_buffer h \<Longrightarrow> events_ok h' es"
  by (simp add: events_ok_def)

lemma running_ok_same: "running_ok h sc \<Longrightarrow> h_status h' = h_status h \<Longrightarrow> h_lease h' = h_lease h \<Longrightarrow> running_ok h' sc"
  by (simp add: running_ok_def split: run_status.splits)

lemma pending_not_terminal: "pending st \<Longrightarrow> \<not> terminal_state st"
  by (auto simp: pending_def terminal_state_def)

lemmas status_facts = pending_def terminal_state_def running_ok_def

lemma run_change_ok:
  assumes "run_change now x v v'" "view_ok v"
  shows "view_ok v'"
  using assms
proof (induction)
  case (change_append w f v t k i p)
  have "events_ok (v_hash v) (v_events v)" using change_append.prems by (simp add: view_ok_def run_ok_def)
  from events_ok_latest [OF this, of "[\<lparr>se_id = i, se_payload = p, se_fence = Some f, se_terminal = Some t\<rparr>]"
      "(v_hash v)\<lparr>h_last_event_id := i, h_terminal_emitted := t \<or> h_terminal_emitted (v_hash v)\<rparr>"]
  show ?case using change_append
    by (auto simp: view_ok_def run_ok_def stamped_def intro: le_SucI elim: running_ok_same)
next
  case (change_cancel v f i h ts es p q due)
  have "events_ok (v_hash v) (v_events v)" using change_cancel.prems by (simp add: view_ok_def run_ok_def)
  from events_ok_latest [OF this, of es "h\<lparr>h_last_event_id := i + 2, h_terminal_emitted := True\<rparr>"]
    events_ok_same [OF this, of h]
  show ?case using change_cancel
    by (auto simp: view_ok_def run_ok_def status_facts intro: le_SucI)
next
  case (change_pause w f v i iid ver p)
  have "events_ok (v_hash v) (v_events v)" using change_pause.prems by (simp add: view_ok_def run_ok_def)
  from events_ok_latest [OF this, of "[\<lparr>se_id = i, se_payload = p, se_fence = None, se_terminal = None\<rparr>]"
      "(v_hash v)\<lparr>h_last_event_id := i, h_status := WaitingForInput,
       h_interaction_id := iid, h_interaction_version := Some ver, h_lease := 0, h_finished_at := [],
       h_version := h_version (v_hash v) + 1\<rparr>"]
  show ?case using change_pause
    by (auto simp: view_ok_def run_ok_def status_facts intro: le_SucI)
next
  case (change_run_id w f v rid)
  then show ?case by (auto simp: view_ok_def run_ok_def elim: events_ok_same running_ok_same)
next
  case (change_stream_failed w f v ec er hs)
  then show ?case by (auto simp: view_ok_def run_ok_def elim: events_ok_same running_ok_same)
qed (auto simp: view_ok_def run_ok_def status_facts elim: events_ok_same split: run_status.splits)

lemma follows_inv:
  assumes "follows now x key db db'" "redis_inv db"
  shows "redis_inv db'"
proof (cases "db' = db")
  case False
  then obtain h v where h: "run_at db key = Some h" and c: "run_change now x (view_at db key h) v" and e: "effect key v db db'"
    using assms(1) by (auto simp: follows_def)
  have "key_ok db key" using assms(2) by (simp add: redis_inv_def)
  then have "view_ok (view_at db key h)" using h by (simp add: key_ok_view)
  then show ?thesis using effect_inv [OF assms(2) e] run_change_ok [OF c] by simp
qed (use assms in simp)

lemma fresh_view_ok: "view_ok (fresh_view (new_run now a))"
  by (simp add: view_ok_def fresh_view_def new_run_def run_ok_def events_ok_def status_facts)

lemma create_inv: "redis_inv db \<Longrightarrow> redis_inv (snd (create_or_get now key a db))"
  using follows_inv [OF create_follows] effect_inv [OF _ create_fresh fresh_view_ok]
  by (cases "run_at db key"; cases "snd (create_or_get now key a db) = db") auto

lemma script_call_follows:
  assumes "script_call now db db'"
  shows "(\<exists>key a. run_at db key = None \<and> db' = snd (create_or_get now key a db)) \<or> (\<exists>x key. follows now x key db db')"
  using assms
proof cases
  case (call_create key a)
  then show ?thesis using create_follows [of db key _ now a] by (cases "run_at db key") blast+
qed (blast intro: heartbeat_follows release_follows set_run_id_follows mark_failed_follows acquire_follows
  transition_follows append_follows cancel_follows pause_follows resume_follows)+

lemma script_call_cases [consumes 1, case_names create change]:
  assumes "script_call now db db'"
    and "\<And>key a. run_at db key = None \<Longrightarrow> db' = snd (create_or_get now key a db) \<Longrightarrow> P"
    and "\<And>x key. follows now x key db db' \<Longrightarrow> P"
  shows P
  using script_call_follows [OF assms(1)] assms(2,3) by blast

lemma script_call_inv: "script_call now db db' \<Longrightarrow> redis_inv db \<Longrightarrow> redis_inv db'"
  by (elim script_call_cases) (auto intro: create_inv follows_inv)

lemma expire_inv:
  assumes "redis_inv db" "db_expiry db key = Some due"
  shows "redis_inv (expire_run key db)"
proof -
  have k: "key_ok db k" for k using assms(1) by (simp add: redis_inv_def)
  obtain h where h: "run_at db key = Some h" using k [of key] assms(2) by (auto simp: key_ok_def split: option.splits)
  with k [of key] assms(2) have t: "terminal_state (h_status h)" and z: "map_of (db_active db) key = None" "map_of (db_running db) key = None"
    by (auto simp: key_ok_def run_ok_def status_facts split: if_splits run_status.splits)
  have "key_ok (expire_run key db) k" for k
    using k [of k] z by (cases "k = key") (simp_all add: key_ok_def expire_run_def split: option.splits)
  moreover have "counters_ok (expire_run key db)"
    using assms(1) h t by (auto simp: redis_inv_def counters_ok_def expire_run_def tally_delete)
  ultimately show ?thesis using assms(1) by (simp add: redis_inv_def expire_run_def distinct_delete)
qed

lemma empty_inv: "redis_inv empty_db"
  by (simp add: redis_inv_def empty_db_def key_ok_def counters_ok_def tally_def all_states_def)

lemma reachable_inv: "redis_reachable db \<Longrightarrow> redis_inv db"
  by (induction rule: redis_reachable.induct) (auto simp: empty_inv script_call_inv expire_inv elim!: redis_step.cases)

end
