(* ===== verification/Redis_Safety.thy ===== *)
theory Redis_Safety
  imports Redis_Facts
begin

text \<open>
  What the shared registry promises across interleavings: relations between the earlier and
  the later view of a run that every change keeps, and from them fencing of superseded
  owners, finality of ended runs, and one acceptance per response and per event key.
\<close>

section \<open>Histories of one run\<close>

text \<open>Scripts at any time by anybody, as long as the keys of the run have not expired.\<close>

inductive history :: "string \<Rightarrow> redis_db \<Rightarrow> redis_db \<Rightarrow> bool" for key :: string where
  history_refl: "history key db db"
| history_call: "history key db db1 \<Longrightarrow> script_call now db1 db2 \<Longrightarrow> history key db db2"
| history_expire: "history key db db1 \<Longrightarrow> db_expiry db1 k = Some due \<Longrightarrow> k \<noteq> key \<Longrightarrow> history key db (expire_run k db1)"

lemma history_inv: "history key db db' \<Longrightarrow> redis_inv db \<Longrightarrow> redis_inv db'"
  by (induction rule: history.induct) (auto intro: script_call_inv expire_inv)

lemma expire_other:
  assumes "k \<noteq> key"
  shows "run_at (expire_run k db) key = run_at db key" "view_at (expire_run k db) key h = view_at db key h"
  using assms by (simp_all add: expire_run_def view_at_def)

text \<open>A script leaves the view of a run alone or changes it as specified.\<close>

lemma script_call_view:
  assumes call: "script_call now db db'" and inv: "redis_inv db" and h: "run_at db key = Some h"
  obtains h' where "run_at db' key = Some h'"
    "view_at db' key h' = view_at db key h \<or> (\<exists>x. run_change now x (view_at db key h) (view_at db' key h'))"
  using call
proof (cases rule: script_call_cases)
  case (create k a)
  with h have "k \<noteq> key" by auto
  show thesis
  proof (cases "db' = db")
    case False
    then show thesis using effect_view(3,4) [OF create_fresh [OF inv create(1)]] create(2) \<open>k \<noteq> key\<close> h that
      by (metis (no_types, lifting))
  qed (use h that in blast)
next
  case (change x k)
  show thesis
  proof (cases "db' = db")
    case False
    then obtain g v where g: "run_at db k = Some g" "run_change now x (view_at db k g) v" and e: "effect k v db db'"
      using change by (auto simp: follows_def)
    show thesis
    proof (cases "k = key")
      case True
      then show thesis using that [of "v_hash v"] effect_view(1,2) [OF e] g h by auto
    next
      case False
      then show thesis using that [of h] effect_view(3,4) [OF e, of key] h by simp
    qed
  qed (use h that in blast)
qed

text \<open>
  A relation between views that holds of equal views, composes, and holds across every
  specified change, holds across every history.
\<close>

locale stable_relation =
  fixes R :: "run_view \<Rightarrow> run_view \<Rightarrow> bool"
  assumes refl: "R v v"
    and trans: "R u v \<Longrightarrow> R v w \<Longrightarrow> R u w"
    and change: "run_change now x v v' \<Longrightarrow> R v v'"
begin

lemma along_history:
  assumes "history key db db'" "redis_inv db" "run_at db key = Some h"
  shows "\<exists>h'. run_at db' key = Some h' \<and> R (view_at db key h) (view_at db' key h')"
  using assms
proof (induction rule: history.induct)
  case (history_refl db)
  then show ?case using refl by blast
next
  case (history_call db db1 now db2)
  then obtain h1 where h1: "run_at db1 key = Some h1" "R (view_at db key h) (view_at db1 key h1)" by blast
  have "redis_inv db1" using history_call history_inv by blast
  from script_call_view [OF history_call.hyps(2) this h1(1)]
  obtain h2 where "run_at db2 key = Some h2"
    "view_at db2 key h2 = view_at db1 key h1 \<or> (\<exists>x. run_change now x (view_at db1 key h1) (view_at db2 key h2))" by blast
  then show ?case using h1 trans change by metis
next
  case (history_expire db db1 k due)
  then show ?case by (simp add: expire_other)
qed

end

section \<open>The relations\<close>

text \<open>The fence never goes back, and a change of the owner moves it.\<close>

definition fence_moves :: "run_view \<Rightarrow> run_view \<Rightarrow> bool" where
  "fence_moves v v' \<longleftrightarrow> h_fence (v_hash v) \<le> h_fence (v_hash v')
     \<and> (h_owner (v_hash v') \<noteq> h_owner (v_hash v) \<longrightarrow> h_fence (v_hash v) < h_fence (v_hash v'))"

interpretation fm: stable_relation fence_moves
proof
  show "run_change now x v v' \<Longrightarrow> fence_moves v v'" for now x v v'
    by (erule run_change.cases) (auto simp: fence_moves_def)
qed (auto simp: fence_moves_def)

text \<open>An ended run keeps everything but its run id, which its owner may still set.\<close>

definition end_kept :: "run_view \<Rightarrow> run_view \<Rightarrow> bool" where
  "end_kept v v' \<longleftrightarrow>
     terminal_state (h_status (v_hash v)) \<longrightarrow> (\<exists>rid. v' = v\<lparr>v_hash := (v_hash v)\<lparr>h_run_id := rid\<rparr>\<rparr>)"

interpretation ek: stable_relation end_kept
proof
  show "end_kept u v \<Longrightarrow> end_kept v w \<Longrightarrow> end_kept u w" for u v w
    by (cases "terminal_state (h_status (v_hash u))") (auto simp: end_kept_def)
  show "end_kept v v" for v
    unfolding end_kept_def by (rule impI, rule exI [of _ "h_run_id (v_hash v)"]) simp
  show "run_change now x v v' \<Longrightarrow> end_kept v v'" for now x v v'
    by (erule run_change.cases) (auto simp: end_kept_def pending_def terminal_state_def)
qed

text \<open>Deduplication entries stay, except those of interactions, which a pause may renew.\<close>

definition is_interaction_key :: "string \<Rightarrow> bool" where
  "is_interaction_key k = startswith k ''interaction:''"

definition dedupe_kept :: "run_view \<Rightarrow> run_view \<Rightarrow> bool" where
  "dedupe_kept v v' \<longleftrightarrow> (\<forall>k x. \<not> is_interaction_key k \<longrightarrow> v_dedupe v k = Some x \<longrightarrow> v_dedupe v' k = Some x)"

lemma interaction_key_is [simp]: "is_interaction_key (interaction_key iid ver)"
  by (simp add: is_interaction_key_def interaction_key_def startswith_def)

lemma response_key_is_not [simp]: "\<not> is_interaction_key (response_key rid)"
  by (simp add: is_interaction_key_def response_key_def startswith_def)

interpretation dk: stable_relation dedupe_kept
proof
  show "run_change now x v v' \<Longrightarrow> dedupe_kept v v'" for now x v v'
    by (erule run_change.cases) (auto simp: dedupe_kept_def stamped_def)
qed (auto simp: dedupe_kept_def)

text \<open>The identity of a run never changes.\<close>

definition identity_kept :: "run_view \<Rightarrow> run_view \<Rightarrow> bool" where
  "identity_kept v v' \<longleftrightarrow>
     h_request_id (v_hash v') = h_request_id (v_hash v) \<and> h_fingerprint (v_hash v') = h_fingerprint (v_hash v)
     \<and> h_kind (v_hash v') = h_kind (v_hash v) \<and> h_user_id (v_hash v') = h_user_id (v_hash v)
     \<and> h_buffer (v_hash v') = h_buffer (v_hash v) \<and> h_last_event_id (v_hash v) \<le> h_last_event_id (v_hash v')"

interpretation ik: stable_relation identity_kept
proof
  show "run_change now x v v' \<Longrightarrow> identity_kept v v'" for now x v v'
    by (erule run_change.cases) (auto simp: identity_kept_def)
qed (auto simp: identity_kept_def)

section \<open>Fencing\<close>

text \<open>
  The contract of the scripts of an owner: with another owner or fence than the run has,
  they answer with one rejection and change nothing.
\<close>

locale fenced =
  fixes script :: "string \<Rightarrow> string \<Rightarrow> nat \<Rightarrow> redis_db \<Rightarrow> 'r \<times> redis_db" and rejected :: 'r
  assumes reject: "run_at db key = Some h \<Longrightarrow> \<not> owns owner fence h \<Longrightarrow> script key owner fence db = (rejected, db)"
begin

lemma stale_forever:
  assumes "redis_inv db" "run_at db key = Some h" "fence < h_fence h" "history key db db'"
  shows "script key owner fence db' = (rejected, db')"
proof -
  obtain h' where "run_at db' key = Some h'" "fence_moves (view_at db key h) (view_at db' key h')"
    using fm.along_history [OF assms(4,1,2)] by blast
  then show ?thesis using reject assms(3) by (auto simp: fence_moves_def owns_def)
qed

end

interpretation f_append: fenced "\<lambda>key w f. append_script key w f a" "(- 2, Some 0)" for a
  by unfold_locales (simp add: append_script_def)

interpretation f_acquire: fenced "\<lambda>key w f. acquire_script now key w f m l ts aid" "- 2" for now m l ts aid
  by unfold_locales (simp add: acquire_script_def)

interpretation f_heartbeat: fenced "\<lambda>key w f. heartbeat_script now key w f l" 0 for now l
  by unfold_locales (simp add: heartbeat_script_def)

interpretation f_release: fenced release_script 0
  by unfold_locales (simp add: release_script_def)

interpretation f_transition: fenced "\<lambda>key w f. transition_script now key w f ta" "- 2" for now ta
  by unfold_locales (simp add: transition_script_def)

interpretation f_run_id: fenced "\<lambda>key w f. set_run_id_script key w f rid ts aid" "- 2" for rid ts aid
  by unfold_locales (simp add: set_run_id_script_def)

interpretation f_failed: fenced "\<lambda>key w f. mark_failed_script key w f code msg http ts aid dg" "- 2" for code msg http ts aid dg
  by unfold_locales (simp add: mark_failed_script_def)

interpretation f_pause: fenced "\<lambda>key w f. pause_script key w f pa" "(- 2, 0)" for pa
  by unfold_locales (simp add: pause_script_def)

section \<open>States\<close>

text \<open>The states a run can go to; taking over a running run puts it back in the queue.\<close>

definition lifecycle_edge :: "run_status \<Rightarrow> run_status \<Rightarrow> bool" where
  "lifecycle_edge st st' \<longleftrightarrow> \<not> terminal_state st \<and>
     (terminal_state st' \<or> st = Queued \<and> st' = Running \<or> st = Running \<and> st' = WaitingForInput
      \<or> st = WaitingForInput \<and> st' = Queued \<or> st = Running \<and> st' = Queued)"

lemma run_change_edge:
  "run_change now x v v' \<Longrightarrow> h_status (v_hash v') = h_status (v_hash v) \<or> lifecycle_edge (h_status (v_hash v)) (h_status (v_hash v'))"
  by (erule run_change.cases) (auto simp: lifecycle_edge_def pending_def terminal_state_def)

lemma run_change_owner:
  "run_change now x v v' \<Longrightarrow> h_owner (v_hash v') = h_owner (v_hash v) \<and> h_fence (v_hash v') = h_fence (v_hash v)
     \<or> pending (h_status (v_hash v)) \<and> h_lease (v_hash v) \<le> now \<and> h_status (v_hash v') = Queued
     \<or> h_status (v_hash v) = WaitingForInput \<and> h_status (v_hash v') = Queued
     \<or> h_status (v_hash v') = Cancelled \<and> h_fence (v_hash v') = h_fence (v_hash v) + 1"
  by (erule run_change.cases) auto

section \<open>Capacity\<close>

lemma zcount_tally: "int (zcount now z) = tally (\<lambda>score. score > now) z"
  by (simp add: zcount_def tally_def)

lemma acquire_count:
  assumes "redis_inv db" "acquire_script now key w f m l ts aid db = (1, db')"
  shows "int (zcount now (db_running db')) \<le> m"
proof -
  obtain h where h: "run_at db key = Some h" using assms(2) by (auto simp: acquire_script_def split: option.splits)
  with assms(2) have less: "int (zcount now (db_running db)) < m"
    and db': "db_running db' = AList.update key (now + l) (db_running db)"
    by (auto simp: acquire_script_def redis_defs Let_def split: if_splits)
  have "distinct (map fst (db_running db))" using assms(1) by (simp add: redis_inv_def)
  from tally_update [OF this, of "\<lambda>score. score > now" key "now + l"] less
  show ?thesis by (auto simp: db' zcount_tally of_bool_def split: option.splits if_splits)
qed

section \<open>A sample\<close>

definition sample_args :: "string \<Rightarrow> create_args" where
  "sample_args w = \<lparr>c_request_id = ''r'', c_fingerprint = ''fp'', c_kind = Stream, c_agent_id = ''a'', c_thread_id = ''t'',
     c_user_id = ''u'', c_timeout = 60, c_buffer = 2, c_owner = w, c_lease_ms = 1000, c_timestamp = ''now'',
     c_limit = 10, c_audit_id = ''id''\<rparr>"

definition sample_created :: redis_db where
  "sample_created = snd (create_or_get 0 ''k'' (sample_args ''one'') empty_db)"

text \<open>Another instance takes the run over after the lease of the first has expired.\<close>

definition sample_taken :: redis_db where
  "sample_taken = snd (create_or_get 1000 ''k'' (sample_args ''two'') sample_created)"

definition sample_running :: redis_db where
  "sample_running = snd (acquire_script 1000 ''k'' ''two'' 2 1 1000 ''now'' ''id'' sample_taken)"

definition sample_pause :: pause_args where
  "sample_pause = \<lparr>p_interaction_id = ''i'', p_version = 1, p_payload = ''ask'', p_maxlen = 2,
     p_event_key = interaction_key ''i'' 1, p_timestamp = ''now'', p_audit_id = ''id'', p_stream_audit = []\<rparr>"

definition sample_waiting :: redis_db where
  "sample_waiting = snd (pause_script ''k'' ''two'' 2 sample_pause sample_running)"

definition sample_resume :: "string \<Rightarrow> resume_args" where
  "sample_resume w = \<lparr>r_user_id = ''u'', r_interaction_id = ''i'', r_response_id = ''resp'', r_version = 1, r_owner = w,
     r_lease_ms = 1000, r_timestamp = ''now'', r_audit_id = ''id''\<rparr>"

definition sample_cancel :: cancel_args where
  "sample_cancel = \<lparr>x_user_id = ''u'', x_timestamp = ''now'', x_retention_ms = 1000, x_audit_id = ''id'',
     x_error_payload = ''error'', x_done_payload = ''done'', x_maxlen = 2\<rparr>"

lemma reach_call: "redis_reachable db \<Longrightarrow> script_call now db db' \<Longrightarrow> redis_reachable db'"
  by (blast intro: reach_step step_call)

lemma sample_created_reachable: "redis_reachable sample_created"
  unfolding sample_created_def by (rule reach_call [OF reach_empty call_create])

lemma sample_taken_reachable: "redis_reachable sample_taken"
  unfolding sample_taken_def by (rule reach_call [OF sample_created_reachable call_create])

lemma sample_running_reachable: "redis_reachable sample_running"
  unfolding sample_running_def by (rule reach_call [OF sample_taken_reachable call_acquire])

lemmas sample_eval = create_or_get_def empty_db_def sample_args_def new_run_def redis_defs Let_def zcount_def
  terminal_state_def owns_def

lemma sample_created_at [simp]: "run_at sample_created ''k'' = Some (new_run 0 (sample_args ''one''))"
  by (simp add: sample_created_def sample_eval)

lemma sample_taken_at [simp]:
  "run_at sample_taken ''k'' = Some ((new_run 0 (sample_args ''one''))\<lparr>h_fence := 2, h_owner := ''two'', h_lease := 2000, h_version := 2\<rparr>)"
  using sample_created_at by (simp add: sample_taken_def sample_eval)

lemma sample_taken_free [simp]: "db_running sample_taken = []" "db_dedupe sample_taken = (\<lambda>_ _. None)" "db_events sample_taken = (\<lambda>_. [])"
  using sample_created_at by (simp_all add: sample_taken_def sample_created_def sample_eval)

lemma sample_running_at [simp]:
  "run_at sample_running ''k'' = Some ((new_run 0 (sample_args ''one''))\<lparr>h_fence := 2, h_owner := ''two'', h_lease := 2000,
     h_version := 3, h_status := Running, h_started_at := ''now''\<rparr>)"
  using sample_taken_at by (simp add: sample_running_def acquire_script_def sample_eval)

lemma sample_running_free [simp]: "db_dedupe sample_running = (\<lambda>_ _. None)" "db_events sample_running = (\<lambda>_. [])"
  using sample_taken_at by (simp_all add: sample_running_def acquire_script_def redis_defs Let_def)

lemma sample_waiting_reachable: "redis_reachable sample_waiting"
  unfolding sample_waiting_def
  by (rule reach_call [OF sample_running_reachable call_pause])
    (use sample_running_at in \<open>simp_all add: buffer_is_def sample_pause_def new_run_def sample_args_def\<close>)

lemma sample_waiting_at [simp]:
  "run_at sample_waiting ''k'' = Some ((new_run 0 (sample_args ''one''))\<lparr>h_fence := 2, h_owner := ''two'', h_lease := 0,
     h_version := 4, h_status := WaitingForInput, h_started_at := ''now'', h_interaction_id := ''i'',
     h_interaction_version := Some 1, h_last_event_id := 1\<rparr>)"
  using sample_running_at by (simp add: sample_waiting_def pause_script_def sample_pause_def sample_eval)

lemma sample_waiting_dedupe [simp]: "db_dedupe sample_waiting ''k'' = [interaction_key ''i'' 1 \<mapsto> EventId 1]"
  using sample_running_at by (simp add: sample_waiting_def pause_script_def sample_pause_def sample_eval)

definition sample_append :: append_args where
  "sample_append = \<lparr>a_payload = ''p'', a_maxlen = 2, a_event_key = ''e1'', a_terminal = False, a_audit = []\<rparr>"

text \<open>
  Two runs and one running slot: the lease of the first expires, the second takes the slot,
  and then the first renews its lease.
\<close>

definition crowd_first :: redis_db where
  "crowd_first = snd (acquire_script 0 ''a'' ''one'' 1 1 1000 ''now'' ''id'' (snd (create_or_get 0 ''a'' (sample_args ''one'') empty_db)))"

definition crowd_second :: redis_db where
  "crowd_second = snd (acquire_script 1000 ''b'' ''two'' 1 1 1000 ''now'' ''id'' (snd (create_or_get 1000 ''b'' (sample_args ''two'') crowd_first)))"

definition crowd_both :: redis_db where
  "crowd_both = snd (heartbeat_script 1001 ''a'' ''one'' 1 1000 crowd_second)"

definition sample_cancelled :: redis_db where
  "sample_cancelled = snd (cancel_script 1200 ''k'' sample_cancel sample_running)"

lemma sample_cancelled_reachable: "redis_reachable sample_cancelled"
  unfolding sample_cancelled_def
  by (rule reach_call [OF sample_running_reachable call_cancel])
    (use sample_running_at in \<open>simp add: buffer_is_def sample_cancel_def new_run_def sample_args_def\<close>)

lemma sample_cancelled_at:
  "\<exists>h. run_at sample_cancelled ''k'' = Some h \<and> h_status h = Cancelled \<and> h_fence h = 3 \<and> h_last_event_id h = 2"
  using sample_running_at by (simp add: sample_cancelled_def cancel_script_def sample_cancel_def sample_eval)

section \<open>Properties\<close>

lemma history_one: "script_call now db db' \<Longrightarrow> history key db db'"
  by (rule history_call [OF history_refl])

text \<open>
  C20: in every database that instances can reach by any interleaving of scripts and
  expiries, each run has a positive fence, its stored events carry the last identifiers
  handed out without a hole and fit its buffer, it stands in the sorted sets of active and
  running runs exactly as its state and lease say, its keys expire exactly when it has
  ended; the counters of the states that a run can leave are exact.
\<close>

theorem redis_invariant:
  assumes "redis_reachable db"
  shows "redis_inv db"
  using reachable_inv [OF assms] .

theorem redis_invariant_witness: "redis_inv sample_waiting"
  by (rule redis_invariant [OF sample_waiting_reachable])

text \<open>
  C21: once the fence of a run has moved past that of an owner (another instance took the run
  over, a client cancelled or resumed it), every script of that owner is rejected and
  changes nothing, whatever all instances do in between, until the keys of the run expire.
\<close>

theorem fenced_owner_stays_out:
  assumes "redis_reachable db" "run_at db key = Some h" "fence < h_fence h" "history key db db'"
  shows "append_script key w fence a db' = ((- 2, Some 0), db')
    \<and> acquire_script now key w fence m l ts aid db' = (- 2, db')
    \<and> heartbeat_script now key w fence l db' = (0, db')
    \<and> release_script key w fence db' = (0, db')
    \<and> transition_script now key w fence ta db' = (- 2, db')
    \<and> set_run_id_script key w fence rid ts aid db' = (- 2, db')
    \<and> mark_failed_script key w fence code msg http ts aid dg db' = (- 2, db')
    \<and> pause_script key w fence pa db' = ((- 2, 0), db')"
  using reachable_inv [OF assms(1)] assms(2-4)
  by (intro conjI f_append.stale_forever f_acquire.stale_forever f_heartbeat.stale_forever f_release.stale_forever
      f_transition.stale_forever f_run_id.stale_forever f_failed.stale_forever f_pause.stale_forever)

theorem fenced_owner_stays_out_witness:
  "heartbeat_script 1500 ''k'' ''one'' 1 1000 sample_running = (0, sample_running)"
proof -
  have "history ''k'' sample_taken sample_running"
    unfolding sample_running_def by (rule history_one [OF call_acquire])
  from fenced_owner_stays_out [OF sample_taken_reachable sample_taken_at _ this, of 1] show ?thesis by simp
qed

text \<open>
  C22: a run that has ended stays as it is until its keys expire: no interleaving of scripts
  changes its state, result, error, fence, events or deduplication entries.  Only its run
  id may still be set, by the owner with the current fence.
\<close>

theorem ended_run_is_final:
  assumes "redis_reachable db" "run_at db key = Some h" "terminal_state (h_status h)" "history key db db'"
  shows "\<exists>rid. run_at db' key = Some (h\<lparr>h_run_id := rid\<rparr>) \<and> db_events db' key = db_events db key
    \<and> db_dedupe db' key = db_dedupe db key \<and> db_expiry db' key = db_expiry db key"
proof -
  obtain h' where h': "run_at db' key = Some h'" "end_kept (view_at db key h) (view_at db' key h')"
    using ek.along_history [OF assms(4) reachable_inv [OF assms(1)] assms(2)] by blast
  then obtain rid where "view_at db' key h' = (view_at db key h)\<lparr>v_hash := h\<lparr>h_run_id := rid\<rparr>\<rparr>"
    using assms(3) by (auto simp: end_kept_def)
  then show ?thesis using h'(1) by (auto simp: view_at_def)
qed

theorem ended_run_is_final_witness:
  "\<exists>h rid. run_at sample_cancelled ''k'' = Some h
     \<and> run_at (snd (create_or_get 5000 ''k'' (sample_args ''three'') sample_cancelled)) ''k'' = Some (h\<lparr>h_run_id := rid\<rparr>)"
proof -
  obtain h where h: "run_at sample_cancelled ''k'' = Some h" "h_status h = Cancelled" using sample_cancelled_at by blast
  then show ?thesis
    using ended_run_is_final [OF sample_cancelled_reachable h(1) _ history_one [OF call_create [of 5000 _ "''k''" "sample_args ''three''"]]]
    by (auto simp: terminal_state_def)
qed

lemma resume_accepted:
  assumes "resume_script now key a db = ((1, f), db1)"
  shows "db_dedupe db1 key (response_key (r_response_id a)) = Some (ResponseIdentity (response_identity a))"
    "\<exists>h. run_at db1 key = Some h" "script_call now db db1"
proof -
  show "script_call now db db1" using call_resume [of now db key a] assms by simp
qed (use assms in \<open>auto simp: resume_script_def redis_defs Let_def split: option.splits if_splits\<close>)

text \<open>
  A response to an interaction is accepted once: after a resume with a response
  identifier has queued the run again, every later resume with that identifier, from any
  instance and after any interleaving, changes nothing; it is answered as a repetition when
  it names the same interaction and version, and as a conflict otherwise (or refused to a
  foreign user).
\<close>

theorem response_accepted_once:
  assumes "redis_reachable db" "resume_script now key a db = ((1, f), db1)" "history key db1 db2"
    and "r_response_id b = r_response_id a"
  shows "\<exists>h. run_at db2 key = Some h
    \<and> resume_script now' key b db2 =
        ((if h_user_id h \<noteq> [] \<and> h_user_id h \<noteq> r_user_id b then (- 2, 0)
          else if response_identity b = response_identity a then (0, h_fence h) else (- 5, 0)), db2)"
proof -
  note acc = resume_accepted [OF assms(2)]
  have inv: "redis_inv db1" using reachable_inv [OF assms(1)] script_call_inv [OF acc(3)] by blast
  obtain h1 where "run_at db1 key = Some h1" using acc(2) by blast
  from dk.along_history [OF assms(3) inv this] acc(1)
  obtain h where "run_at db2 key = Some h"
    "db_dedupe db2 key (response_key (r_response_id a)) = Some (ResponseIdentity (response_identity a))"
    by (auto simp: dedupe_kept_def view_at_def)
  then show ?thesis using assms(4) by (auto simp: resume_script_def)
qed

theorem response_accepted_once_witness:
  "\<exists>h. run_at (snd (resume_script 2000 ''k'' (sample_resume ''three'') sample_waiting)) ''k'' = Some h
     \<and> resume_script 3000 ''k'' (sample_resume ''four'') (snd (resume_script 2000 ''k'' (sample_resume ''three'') sample_waiting)) =
         ((0, h_fence h), snd (resume_script 2000 ''k'' (sample_resume ''three'') sample_waiting))"
proof -
  have key: "interaction_key ''i'' 1 \<noteq> response_key ''resp''"
    by (simp add: interaction_key_def response_key_def)
  have acc: "resume_script 2000 ''k'' (sample_resume ''three'') sample_waiting =
      ((1, 3), snd (resume_script 2000 ''k'' (sample_resume ''three'') sample_waiting))"
    using sample_waiting_at key by (simp add: resume_script_def sample_resume_def new_run_def sample_args_def Let_def)
  then have user: "run_at (snd (resume_script 2000 ''k'' (sample_resume ''three'') sample_waiting)) ''k'' = Some h \<Longrightarrow> h_user_id h = ''u''" for h
    using sample_waiting_at key by (auto simp: resume_script_def sample_resume_def new_run_def sample_args_def redis_defs Let_def)
  from response_accepted_once [OF sample_waiting_reachable acc history_refl, of "sample_resume ''four''" 3000] user
  show ?thesis by (auto simp: sample_resume_def response_identity_def)
qed

lemma append_accepted:
  assumes "append_script key w f a db = ((1, Some i), db1)" "a_event_key a \<noteq> []"
  shows "db_dedupe db1 key (a_event_key a) = Some (EventId i)" "\<exists>h. run_at db1 key = Some h"
  using assms
  by (auto simp: append_script_def redis_defs Let_def split: option.splits if_splits dedupe_value.splits)

text \<open>
  An event with a key is appended once: after an append has stored it under an
  identifier, every later append with the same key, by any owner under any fence and after
  any interleaving, changes nothing, and answers with that identifier unless the writer is
  fenced, the run has ended, or a terminal event meets a waiting run.
\<close>

theorem keyed_append_once:
  assumes "redis_reachable db" "buffer_is db key (a_maxlen a)" "append_script key w f a db = ((1, Some i), db1)"
    and "a_event_key a \<noteq> []" "\<not> is_interaction_key (a_event_key a)" "history key db1 db2" "a_event_key b = a_event_key a"
  shows "snd (append_script key w' f' b db2) = db2
    \<and> fst (append_script key w' f' b db2) \<in> {(0, Some i), (- 2, Some 0), (- 3, Some 0), (- 4, Some 0)}"
proof -
  note acc = append_accepted [OF assms(3,4)]
  have "script_call 0 db db1" using call_append [OF assms(2), of 0 w f] assms(3) by simp
  then have inv: "redis_inv db1" using reachable_inv [OF assms(1)] script_call_inv by blast
  obtain h1 where "run_at db1 key = Some h1" using acc(2) by blast
  from dk.along_history [OF assms(6) inv this] acc(1) assms(5)
  obtain h where "run_at db2 key = Some h" "db_dedupe db2 key (a_event_key a) = Some (EventId i)"
    by (auto simp: dedupe_kept_def view_at_def)
  then show ?thesis using assms(4,7) by (auto simp: append_script_def)
qed

theorem keyed_append_once_witness:
  "snd (append_script ''k'' ''two'' 2 sample_append (snd (append_script ''k'' ''two'' 2 sample_append sample_running))) =
     snd (append_script ''k'' ''two'' 2 sample_append sample_running)"
proof -
  have acc: "append_script ''k'' ''two'' 2 sample_append sample_running =
      ((1, Some 1), snd (append_script ''k'' ''two'' 2 sample_append sample_running))"
    using sample_running_at by (simp add: append_script_def sample_append_def new_run_def sample_args_def owns_def terminal_state_def Let_def)
  have "buffer_is sample_running ''k'' (a_maxlen sample_append)"
    using sample_running_at by (simp add: buffer_is_def sample_append_def new_run_def sample_args_def)
  from keyed_append_once [OF sample_running_reachable this acc _ _ history_refl refl]
  show ?thesis by (simp add: sample_append_def is_interaction_key_def startswith_def)
qed

text \<open>
  A lease protects its owner: while the lease of a queued or running run has not
  expired, a script that any instance calls leaves its owner and fence as they are, or it
  is a cancellation; and in every case the run goes along an edge of the lifecycle.
\<close>

theorem lease_protects_owner:
  assumes "redis_reachable db" "script_call now db db'" "run_at db key = Some h"
    and "pending (h_status h)" "now < h_lease h"
  shows "\<exists>h'. run_at db' key = Some h'
    \<and> (h_owner h' = h_owner h \<and> h_fence h' = h_fence h \<or> h_status h' = Cancelled \<and> h_fence h' = h_fence h + 1)
    \<and> (h_status h' = h_status h \<or> lifecycle_edge (h_status h) (h_status h'))"
proof -
  obtain h' where h': "run_at db' key = Some h'"
    and v: "view_at db' key h' = view_at db key h \<or> (\<exists>x. run_change now x (view_at db key h) (view_at db' key h'))"
    using script_call_view [OF assms(2) reachable_inv [OF assms(1)] assms(3)] by blast
  have "view_at db' key h' = view_at db key h \<Longrightarrow> h' = h"
    by (metis view_hash)
  moreover have "h_owner h' = h_owner h \<and> h_fence h' = h_fence h \<or> h_status h' = Cancelled \<and> h_fence h' = h_fence h + 1"
    if "run_change now x (view_at db key h) (view_at db' key h')" for x
    using run_change_owner [OF that] assms(4,5) by (auto simp: pending_def)
  moreover have "h_status h' = h_status h \<or> lifecycle_edge (h_status h) (h_status h')"
    if "run_change now x (view_at db key h) (view_at db' key h')" for x
    using run_change_edge [OF that] by simp
  ultimately show ?thesis using h' v by blast
qed

theorem lease_protects_owner_witness:
  "\<exists>h'. run_at (snd (create_or_get 1500 ''k'' (sample_args ''one'') sample_running)) ''k'' = Some h'
     \<and> (h_owner h' = ''two'' \<and> h_fence h' = 2 \<or> h_status h' = Cancelled \<and> h_fence h' = 3)"
  using lease_protects_owner [OF sample_running_reachable call_create sample_running_at, of 1500 "''k''" "sample_args ''one''"]
  by (auto simp: pending_def)

text \<open>
  Acquiring a slot respects the capacity of the running set: when a run becomes running,
  at most the given number of running runs have a lease that has not expired.
\<close>

theorem acquire_within_capacity:
  assumes "redis_reachable db" "acquire_script now key w f m l ts aid db = (1, db')"
  shows "int (zcount now (db_running db')) \<le> m \<and> (\<exists>h. run_at db' key = Some h \<and> h_status h = Running \<and> owns w f h)"
  using acquire_count [OF reachable_inv [OF assms(1)] assms(2)] assms(2)
  by (auto simp: acquire_script_def redis_defs owns_def Let_def split: option.splits if_splits)

theorem acquire_within_capacity_witness: "int (zcount 1000 (db_running sample_running)) \<le> 1"
proof -
  have "acquire_script 1000 ''k'' ''two'' 2 1 1000 ''now'' ''id'' sample_taken = (1, sample_running)"
    using sample_taken_at by (simp add: sample_running_def acquire_script_def owns_def new_run_def sample_args_def zcount_def Let_def)
  from acquire_within_capacity [OF sample_taken_reachable this] show ?thesis by simp
qed

lemma crowd_eval:
  "run_at crowd_first ''a'' = Some ((new_run 0 (sample_args ''one''))\<lparr>h_status := Running, h_started_at := ''now'', h_lease := 1000, h_version := 2\<rparr>)"
  "db_running crowd_first = [(''a'', 1000)]" "db_active crowd_first = [(''a'', 1000)]" "run_at crowd_first ''b'' = None"
  by (simp_all add: crowd_first_def acquire_script_def sample_eval)

lemma crowd_second_eval:
  "run_at crowd_second ''a'' = run_at crowd_first ''a''" "db_running crowd_second = [(''a'', 1000), (''b'', 2000)]"
  using crowd_eval by (simp_all add: crowd_second_def create_or_get_def acquire_script_def new_run_def sample_args_def owns_def zcount_def redis_defs Let_def)

lemma crowd_reachable: "redis_reachable crowd_both"
  unfolding crowd_both_def crowd_second_def crowd_first_def
  by (intro reach_call [OF _ call_heartbeat] reach_call [OF _ call_acquire] reach_call [OF _ call_create] reach_empty)

text \<open>
  Renewing a lease does not check the capacity: with one slot, a run whose lease has
  expired renews it after another run took the slot, and both are running under valid leases.
\<close>

theorem heartbeat_exceeds_capacity:
  "redis_reachable crowd_both \<and> fst (acquire_script 1000 ''b'' ''two'' 1 1 1000 ''now'' ''id''
       (snd (create_or_get 1000 ''b'' (sample_args ''two'') crowd_first))) = 1
   \<and> fst (heartbeat_script 1001 ''a'' ''one'' 1 1000 crowd_second) = 1 \<and> zcount 1001 (db_running crowd_both) = 2"
  using crowd_reachable crowd_eval crowd_second_eval
  by (simp add: crowd_both_def heartbeat_script_def create_or_get_def acquire_script_def new_run_def sample_args_def owns_def
      zcount_def redis_defs terminal_state_def Let_def)

end
