(* ===== verification/Redis_Client.thy ===== *)
theory Redis_Client
  imports Redis_Safety Sha256
begin

text \<open>
  \<open>service/redis_run_registry.py\<close>, the Python side: what a service instance sends to the
  scripts, what it makes of their replies, how it ends an execution, and how a subscriber
  follows the event stream of a run that any instance may own.

  An instance awaits between two calls, and other instances act in the meantime.  Each
  operation is therefore split where it awaits: the argument of a script, the reading of its
  reply, and reads of the database that name the snapshot they are made in.
\<close>

section \<open>Instances and handles\<close>

record redis_instance =
  ri_instance_id :: string
  ri_key_prefix :: string
  ri_max_concurrent :: int
  ri_max_queued :: int
  ri_default_timeout :: rat
  ri_heartbeat_seconds :: rat
  ri_buffer :: nat
  ri_max_event_bytes :: int
  ri_retention_seconds :: rat
  ri_lease_seconds :: rat
  ri_stream_block_ms :: int
  ri_outbox_maxlen :: int

text \<open>The constructor clamps three of the settings.\<close>

definition make_instance :: "redis_instance \<Rightarrow> redis_instance" where
  "make_instance i =
     i\<lparr>ri_key_prefix := rstrip_by (\<lambda>c. c = CHR '':'') (ri_key_prefix i), ri_lease_seconds := max 3 (ri_lease_seconds i),
       ri_stream_block_ms := max 100 (min (ri_stream_block_ms i) 60000), ri_outbox_maxlen := max 1000 (ri_outbox_maxlen i)\<rparr>"

definition registry_global_key :: "redis_instance \<Rightarrow> string \<Rightarrow> string" where
  "registry_global_key i suffix = ri_key_prefix i @ '':{registry}:'' @ suffix"

definition state_key :: "redis_instance \<Rightarrow> string \<Rightarrow> string" where
  "state_key i rid = ri_key_prefix i @ '':{registry}:run:'' @ sha256 (utf8_bytes rid)"

definition lease_ms :: "redis_instance \<Rightarrow> int" where
  "lease_ms i = \<lfloor>ri_lease_seconds i * 1000\<rfloor>"

definition retention_ms :: "redis_instance \<Rightarrow> int" where
  "retention_ms i = (let x = ri_retention_seconds i * 1000 in if x < 0 then - \<lfloor>- x\<rfloor> else \<lfloor>x\<rfloor>)"

text \<open>
  A handle is the snapshot of one \<open>EVAL\<close>: the hash, the range of the buffered events and
  whether the lease was valid at the time of Redis.
\<close>

record run_handle =
  hd_hash :: run_hash
  hd_next_event_id :: nat
  hd_oldest_event_id :: "nat option"
  hd_newest_event_id :: "nat option"
  hd_lease_active :: bool
  hd_recoverable :: bool
  hd_checked_at :: int

definition load_handle :: "int \<Rightarrow> string \<Rightarrow> redis_db \<Rightarrow> run_exn + run_handle" where
  "load_handle now key db =
     (case run_at db key of
        None \<Rightarrow> Inl RunNotFoundError
      | Some h \<Rightarrow>
          (let upto = filter (\<lambda>e. se_id e \<le> h_last_event_id h) (db_events db key);
               rows = drop (length upto - 256) upto;
               execution_pending = (h_status h = Queued \<or> h_status h = Running)
           in Inr \<lparr>hd_hash = h, hd_next_event_id = h_last_event_id h + 1,
                hd_oldest_event_id = (case upto of [] \<Rightarrow> None | e # _ \<Rightarrow> Some (se_id e)),
                hd_newest_event_id = (if rows = [] then None else Some (se_id (last rows))),
                hd_lease_active = (execution_pending \<and> h_lease h > now),
                hd_recoverable = (execution_pending \<and> h_lease h \<le> now), hd_checked_at = now\<rparr>))"

definition get_handle :: "int \<Rightarrow> string \<Rightarrow> string option \<Rightarrow> redis_db \<Rightarrow> run_exn + run_handle" where
  "get_handle now key user db =
     bind_res (load_handle now key db)
       (\<lambda>r. let stored = h_user_id (hd_hash r)
            in if stored \<noteq> [] \<and> Some stored \<noteq> user then Inl RunAccessError else Inr r)"

section \<open>Starting, resuming, cancelling\<close>

record start_request =
  sq_request_id :: string
  sq_fingerprint :: string
  sq_kind :: run_kind
  sq_agent_id :: string
  sq_thread_id :: string
  sq_user_id :: "string option"
  sq_timeout :: "rat option"

definition or_empty :: "string option \<Rightarrow> string" where
  "or_empty x = (case x of None \<Rightarrow> [] | Some s \<Rightarrow> s)"

definition start_args :: "redis_instance \<Rightarrow> string \<Rightarrow> string \<Rightarrow> start_request \<Rightarrow> create_args" where
  "start_args i ts audit_id q =
     \<lparr>c_request_id = sq_request_id q, c_fingerprint = sq_fingerprint q, c_kind = sq_kind q, c_agent_id = sq_agent_id q,
      c_thread_id = sq_thread_id q, c_user_id = or_empty (sq_user_id q),
      c_timeout = min (case sq_timeout q of Some t \<Rightarrow> if t = 0 then ri_default_timeout i else t | None \<Rightarrow> ri_default_timeout i)
                    (ri_default_timeout i),
      c_buffer = ri_buffer i, c_owner = ri_instance_id i, c_lease_ms = lease_ms i, c_timestamp = ts,
      c_limit = ri_max_concurrent i + ri_max_queued i, c_audit_id = audit_id\<rparr>"

text \<open>The reply, read in a later snapshot: the handle and whether this instance executes the run.\<close>

definition start_reply :: "int \<Rightarrow> int \<Rightarrow> string \<Rightarrow> redis_db \<Rightarrow> run_exn + run_handle \<times> bool" where
  "start_reply code now key db =
     (if code = - 1 then Inl RunConflictError
      else if code = - 2 then Inl RunAccessError
      else if code = - 3 then Inl RunOverloadedError
      else bind_res (load_handle now key db) (\<lambda>r. Inr (r, code = 1 \<or> code = 2)))"

definition resume_reply :: "reply \<Rightarrow> int \<Rightarrow> string \<Rightarrow> redis_db \<Rightarrow> run_exn + run_handle \<times> bool" where
  "resume_reply rp now key db =
     (let code = fst rp
      in if code = - 1 then Inl RunNotFoundError
         else if code = - 2 then Inl RunAccessError
         else if code = - 3 then bind_res (load_handle now key db) (\<lambda>_. Inl InvalidRunTransitionError)
         else if code = - 4 \<or> code = - 5 then Inl InteractionConflictError
         else bind_res (load_handle now key db)
                (\<lambda>r. if code = 0 then Inr (r, False)
                     else Inr (r\<lparr>hd_hash := (hd_hash r)\<lparr>h_fence := snd rp\<rparr>\<rparr>, True)))"

definition cancel_call :: "redis_instance \<Rightarrow> string option \<Rightarrow> string \<Rightarrow> string \<Rightarrow> run_handle \<Rightarrow> cancel_args" where
  "cancel_call i user ts audit_id r =
     \<lparr>x_user_id = or_empty user, x_timestamp = ts, x_retention_ms = retention_ms i, x_audit_id = audit_id,
      x_error_payload = error_payload ''Run was cancelled.'' ''run_cancelled'' False, x_done_payload = done_payload,
      x_maxlen = h_buffer (hd_hash r)\<rparr>"

text \<open>
  \<open>cancel\<close> loads the handle in one snapshot, runs the script in a later one unless the run
  had ended, and returns the handle of a third.
\<close>

definition cancel ::
    "redis_instance \<Rightarrow> int \<Rightarrow> string \<Rightarrow> string option \<Rightarrow> string \<Rightarrow> string \<Rightarrow> redis_db \<Rightarrow> redis_db \<Rightarrow> (redis_db \<Rightarrow> redis_db)
       \<Rightarrow> (run_exn + run_handle) \<times> redis_db" where
  "cancel i now key user ts audit_id db0 db1 others =
     (case get_handle now key user db0 of
        Inl e \<Rightarrow> (Inl e, db1)
      | Inr r \<Rightarrow>
          if terminal_state (h_status (hd_hash r)) then (Inr r, db1)
          else (case cancel_script now key (cancel_call i user ts audit_id r) db1 of
                  ((code, _), db2) \<Rightarrow>
                    if code = - 1 then (Inl RunNotFoundError, db2)
                    else if code = - 2 then (Inl RunAccessError, db2)
                    else (load_handle now key (others db2), others db2)))"

section \<open>Writing as owner\<close>

definition owner_write_error :: "int \<Rightarrow> run_exn option" where
  "owner_write_error code =
     (if code = - 1 then Some RunNotFoundError else if code = - 2 \<or> code = - 3 then Some RunConflictError else None)"

definition is_done_payload :: "string \<Rightarrow> bool" where
  "is_done_payload p \<longleftrightarrow> strip p = DONE_MARKER"

text \<open>
  An event over the limit first marks the stream as failed and is replaced by an error
  event; the error text is the one \<open>mark_stream_failed\<close> has put into the local record.
\<close>

definition too_large :: "redis_instance \<Rightarrow> string \<Rightarrow> bool" where
  "too_large i payload \<longleftrightarrow> int (length (utf8_bytes payload)) > ri_max_event_bytes i"

definition too_large_message :: "redis_instance \<Rightarrow> string" where
  "too_large_message i = ''Stream event exceeded the '' @ int_str (ri_max_event_bytes i) @ ''-byte service limit.''"

definition append_call :: "redis_instance \<Rightarrow> run_handle \<Rightarrow> string \<Rightarrow> string \<Rightarrow> string \<Rightarrow> append_args" where
  "append_call i r payload event_key audit =
     (let p = (if too_large i payload then error_payload (too_large_message i) ''event_too_large'' False else payload)
      in \<lparr>a_payload = p, a_maxlen = h_buffer (hd_hash r), a_event_key = event_key, a_terminal = is_done_payload p,
          a_audit = audit\<rparr>)"

text \<open>
  A reply without an identifier (the key belongs to a response) makes \<open>reply[1]\<close> raise.
\<close>

datatype client_exn = RunExn run_exn | IndexError

definition append_reply :: "int \<times> nat option \<Rightarrow> string \<Rightarrow> run_handle \<Rightarrow> client_exn + nat \<times> run_handle" where
  "append_reply rp payload r =
     (case rp of
        (code, None) \<Rightarrow> Inl IndexError
      | (code, Some e) \<Rightarrow>
          if code = - 1 then Inl (RunExn RunNotFoundError)
          else if code = - 2 \<or> code = - 3 then Inl (RunExn RunConflictError)
          else if code = - 4 then Inl (RunExn InvalidRunTransitionError)
          else Inr (e, r\<lparr>hd_next_event_id := max (hd_next_event_id r) (e + 1), hd_newest_event_id := Some e,
                          hd_oldest_event_id := (case hd_oldest_event_id r of
                             Some d \<Rightarrow> if d = 0 then Some e else Some d | None \<Rightarrow> Some e),
                          hd_hash := (if is_done_payload payload then (hd_hash r)\<lparr>h_terminal_emitted := True\<rparr> else hd_hash r)\<rparr>))"

definition pause_call :: "redis_instance \<Rightarrow> run_handle \<Rightarrow> string \<Rightarrow> int \<Rightarrow> string \<Rightarrow> string \<Rightarrow> string \<Rightarrow> string \<Rightarrow> run_exn + pause_args" where
  "pause_call i r iid ver payload ts audit_id audit =
     (if too_large i payload then Inl InvalidRunTransitionError
      else Inr \<lparr>p_interaction_id = iid, p_version = ver, p_payload = payload, p_maxlen = h_buffer (hd_hash r),
             p_event_key = interaction_key iid ver, p_timestamp = ts, p_audit_id = audit_id, p_stream_audit = audit\<rparr>)"

definition pause_reply :: "reply \<Rightarrow> string \<Rightarrow> int \<Rightarrow> int \<Rightarrow> string \<Rightarrow> redis_db \<Rightarrow> run_handle \<Rightarrow> run_exn + run_handle" where
  "pause_reply rp iid ver now key db r =
     (case rp of
        (code, e) \<Rightarrow>
          if code = - 1 then Inl RunNotFoundError
          else if code = - 2 then Inl RunConflictError
          else if code = - 3 then bind_res (load_handle now key db) (\<lambda>_. Inl InvalidRunTransitionError)
          else if code = - 4 then Inl InteractionConflictError
          else (let r1 = r\<lparr>hd_hash := (hd_hash r)\<lparr>h_status := WaitingForInput, h_interaction_id := iid,
                             h_interaction_version := Some ver, h_lease := 0\<rparr>\<rparr>
                in Inr (if e = 0 then r1
                        else r1\<lparr>hd_next_event_id := max (hd_next_event_id r) (e + 1), hd_newest_event_id := Some e,
                               hd_oldest_event_id := (case hd_oldest_event_id r of
                                  Some d \<Rightarrow> if d = 0 then Some e else Some d | None \<Rightarrow> Some e)\<rparr>)))"

definition set_run_id_needed :: "string option \<Rightarrow> run_handle \<Rightarrow> bool" where
  "set_run_id_needed rid r \<longleftrightarrow> (case rid of None \<Rightarrow> False | Some x \<Rightarrow> x \<noteq> []) \<and> h_run_id (hd_hash r) = []"

definition mark_failed_reply :: "int \<Rightarrow> string \<Rightarrow> string \<Rightarrow> int \<Rightarrow> run_handle \<Rightarrow> run_exn + run_handle" where
  "mark_failed_reply code ec message http r =
     (case owner_write_error code of
        Some e \<Rightarrow> Inl e
      | None \<Rightarrow> Inr (r\<lparr>hd_hash := (hd_hash r)\<lparr>h_stream_failed := True, h_error_code := ec, h_error := message,
                         h_http_status := http\<rparr>\<rparr>))"

definition transition_call ::
    "redis_instance \<Rightarrow> run_status \<Rightarrow> string option \<Rightarrow> string option \<Rightarrow> string option \<Rightarrow> int \<Rightarrow> string \<Rightarrow> string \<Rightarrow> transition_args" where
  "transition_call i st result_json ec er http ts audit_id =
     \<lparr>t_status = st, t_timestamp = ts, t_result_json = or_empty result_json, t_error_code = or_empty ec, t_error = or_empty er,
      t_http_status = http, t_retention_ms = retention_ms i, t_audit_id = audit_id,
      t_digest = sha256 (utf8_bytes (str_or (or_empty result_json) (or_empty er)))\<rparr>"

definition transition_reply :: "int \<Rightarrow> run_status \<Rightarrow> int \<Rightarrow> string \<Rightarrow> redis_db \<Rightarrow> run_exn + unit" where
  "transition_reply code st now key db =
     (if code = - 1 then Inl RunNotFoundError
      else if code = - 2 then Inl RunConflictError
      else if code = - 3 \<or> code = - 4
      then bind_res (load_handle now key db)
             (\<lambda>r. if h_status (hd_hash r) \<noteq> st then Inl RunConflictError else Inr ())
      else Inr ())"

section \<open>Executing\<close>

text \<open>One round of \<open>_wait_for_running_slot\<close>: go on, retry after a pause, or an exception.\<close>

datatype slot_result = Slot | RetryLater | SlotCancelled | SlotConflict | SlotMissing

definition slot_reply :: "int \<Rightarrow> int \<Rightarrow> string \<Rightarrow> redis_db \<Rightarrow> slot_result" where
  "slot_reply code now key db =
     (if code = 1 then Slot
      else if code = - 1 \<or> code = - 2 \<or> code = - 3
      then (case load_handle now key db of
              Inl _ \<Rightarrow> SlotMissing
            | Inr r \<Rightarrow> if terminal_state (h_status (hd_hash r)) then SlotCancelled else SlotConflict)
      else RetryLater)"

text \<open>
  One round of \<open>_lease_loop\<close>: stop when the run waits for input, cancel the execution when
  the renewal fails, else continue.
\<close>

datatype lease_result = LeaseStops | LeaseCancels | LeaseRenewed | LeaseMissing

definition lease_tick :: "redis_instance \<Rightarrow> int \<Rightarrow> string \<Rightarrow> nat \<Rightarrow> redis_db \<Rightarrow> redis_db \<Rightarrow> lease_result \<times> redis_db" where
  "lease_tick i now key fence db0 db1 =
     (case load_handle now key db0 of
        Inl _ \<Rightarrow> (LeaseMissing, db1)
      | Inr r \<Rightarrow>
          if h_status (hd_hash r) = WaitingForInput then (LeaseStops, db1)
          else (case heartbeat_script now key (ri_instance_id i) fence (lease_ms i) db1 of
                  (renewed, db2) \<Rightarrow> (if renewed = 1 then LeaseRenewed else LeaseCancels, db2)))"

text \<open>How the body of \<open>_execute\<close> ends.\<close>

datatype execution =
    ProducerReturned "string option"
  | ProducerTimeout
  | ExecutionCancelled bool
  | ProducerHttp string int
  | ProducerRaised

definition superseded :: "redis_instance \<Rightarrow> run_handle \<Rightarrow> run_handle \<Rightarrow> bool" where
  "superseded i r current \<longleftrightarrow>
     h_fence (hd_hash current) \<noteq> h_fence (hd_hash r) \<or> h_owner (hd_hash current) \<noteq> ri_instance_id i
     \<or> h_status (hd_hash current) = WaitingForInput"

definition opt_text :: "string \<Rightarrow> string option" where
  "opt_text s = (if s = [] then None else Some s)"

text \<open>
  The operations of one execution that nobody else's script interrupts: append an event,
  the terminal events of an error, and the transition.  The context gives the time, the
  texts of time stamp and audit identifier, and the audit payload of an event.
\<close>

record call_context =
  cc_now :: int
  cc_timestamp :: string
  cc_audit_id :: string
  cc_audit :: "string \<Rightarrow> string"

definition append_now ::
    "redis_instance \<Rightarrow> call_context \<Rightarrow> string \<Rightarrow> run_handle \<Rightarrow> string \<Rightarrow> string \<Rightarrow> redis_db
       \<Rightarrow> (client_exn + nat \<times> run_handle) \<times> redis_db" where
  "append_now i c key r payload event_key db =
     (let fence = h_fence (hd_hash r);
          go = (\<lambda>r db. let a = append_call i r payload event_key (cc_audit c payload)
                       in case append_script key (ri_instance_id i) fence a db of
                            (rp, db') \<Rightarrow> (append_reply rp (a_payload a) r, db'))
      in if too_large i payload
         then (case mark_failed_script key (ri_instance_id i) fence ''event_too_large'' (too_large_message i) 500
                      (cc_timestamp c) (cc_audit_id c) (sha256 (utf8_bytes (too_large_message i))) db of
                 (code, db1) \<Rightarrow>
                   (case mark_failed_reply code ''event_too_large'' (too_large_message i) 500 r of
                      Inl e \<Rightarrow> (Inl (RunExn e), db1)
                    | Inr r1 \<Rightarrow> go r1 db1))
         else go r db)"

definition done_key :: "run_handle \<Rightarrow> string" where
  "done_key r = ''terminal-done:'' @ nat_str (h_fence (hd_hash r))"

definition append_terminal_error ::
    "redis_instance \<Rightarrow> call_context \<Rightarrow> string \<Rightarrow> run_handle \<Rightarrow> string \<Rightarrow> string \<Rightarrow> bool \<Rightarrow> redis_db
       \<Rightarrow> client_exn option \<times> redis_db" where
  "append_terminal_error i c key r message code retryable db =
     (let caught = (\<lambda>e. if e = RunExn RunConflictError \<or> e = RunExn RunNotFoundError then None else Some e)
      in if h_kind (hd_hash r) \<noteq> Stream then (None, db)
         else (case append_now i c key r (error_payload message code retryable) (''terminal-error:'' @ code) db of
                 (Inl e, db1) \<Rightarrow> (caught e, db1)
               | (Inr (_, r1), db1) \<Rightarrow>
                   if h_terminal_emitted (hd_hash r1) then (None, db1)
                   else (case append_now i c key r1 done_payload (done_key r1) db1 of
                           (Inl e, db2) \<Rightarrow> (caught e, db2)
                         | (Inr _, db2) \<Rightarrow> (None, db2))))"

definition transition_now ::
    "redis_instance \<Rightarrow> call_context \<Rightarrow> string \<Rightarrow> run_handle \<Rightarrow> run_status \<Rightarrow> string option \<Rightarrow> string option \<Rightarrow> string option
       \<Rightarrow> int \<Rightarrow> redis_db \<Rightarrow> client_exn option \<times> redis_db" where
  "transition_now i c key r st result_json ec er http db =
     (case transition_script (cc_now c) key (ri_instance_id i) (h_fence (hd_hash r))
             (transition_call i st result_json ec er http (cc_timestamp c) (cc_audit_id c)) db of
        (code, db1) \<Rightarrow>
          (case transition_reply code st (cc_now c) key db1 of
             Inl e \<Rightarrow> (Some (RunExn e), db1)
           | Inr _ \<Rightarrow> (None, db1)))"

text \<open>An error ends the run: the terminal events, then the transition.\<close>

definition end_with_error ::
    "redis_instance \<Rightarrow> call_context \<Rightarrow> string \<Rightarrow> run_handle \<Rightarrow> string \<Rightarrow> string \<Rightarrow> bool \<Rightarrow> run_status \<Rightarrow> string \<Rightarrow> int \<Rightarrow> redis_db
       \<Rightarrow> client_exn option \<times> redis_db" where
  "end_with_error i c key r message code retryable st er http db =
     (case append_terminal_error i c key r message code retryable db of
        (Some e, db1) \<Rightarrow> (Some e, db1)
      | (None, db1) \<Rightarrow> transition_now i c key r st None (Some code) (Some er) http db1)"

text \<open>
  A producer that returned: \<open>DONE\<close> unless the stream has it, and the transition with the
  failure that the stream may have reported.
\<close>

definition end_returned ::
    "redis_instance \<Rightarrow> call_context \<Rightarrow> string \<Rightarrow> run_handle \<Rightarrow> run_handle \<Rightarrow> string option \<Rightarrow> redis_db \<Rightarrow> client_exn option \<times> redis_db" where
  "end_returned i c key r refreshed result db =
     (let go = (\<lambda>h db. transition_now i c key r (if h_stream_failed h then Failed else Completed) result
                  (opt_text (h_error_code h)) (opt_text (h_error h)) (h_http_status h) db)
      in if h_kind (hd_hash r) = Stream \<and> \<not> h_terminal_emitted (hd_hash refreshed)
         then (case append_now i c key r done_payload (done_key r) db of
                 (Inl e, db1) \<Rightarrow> (Some e, db1)
               | (Inr _, db1) \<Rightarrow>
                   (case get_handle (cc_now c) key (opt_text (h_user_id (hd_hash r))) db1 of
                      Inl e \<Rightarrow> (Some (RunExn e), db1)
                    | Inr again \<Rightarrow> go (hd_hash again) db1))
         else go (hd_hash refreshed) db)"

text \<open>
  The handler of any other exception.  It also receives what the branch of a returned
  producer raises.
\<close>

definition raised_end :: "redis_instance \<Rightarrow> call_context \<Rightarrow> string \<Rightarrow> run_handle \<Rightarrow> redis_db \<Rightarrow> client_exn option \<times> redis_db" where
  "raised_end i c key r db =
     (case load_handle (cc_now c) key db of
        Inl e \<Rightarrow> (Some (RunExn e), db)
      | Inr current \<Rightarrow>
          if superseded i r current then (None, db)
          else end_with_error i c key r ''Internal server error'' ''internal_error'' False Failed ''Internal server error'' 500 db)"

text \<open>
  The end of \<open>_execute\<close>, with \<open>show_g\<close> for the format \<open>:g\<close> of a float.  What an exception
  handler raises leaves the task.
\<close>

definition execute_end ::
    "redis_instance \<Rightarrow> (rat \<Rightarrow> string) \<Rightarrow> call_context \<Rightarrow> string \<Rightarrow> run_handle \<Rightarrow> execution \<Rightarrow> redis_db
       \<Rightarrow> client_exn option \<times> redis_db" where
  "execute_end i show_g c key r x db =
     (if x = ExecutionCancelled True then (None, snd (release_script key (ri_instance_id i) (h_fence (hd_hash r)) db))
      else case load_handle (cc_now c) key db of
        Inl e \<Rightarrow> (Some (RunExn e), db)
      | Inr current \<Rightarrow>
          if superseded i r current then (None, db)
          else (case x of
                  ProducerReturned result \<Rightarrow>
                    (case end_returned i c key r current result db of
                       (None, db1) \<Rightarrow> (None, db1)
                     | (Some _, db1) \<Rightarrow> raised_end i c key r db1)
                | ProducerTimeout \<Rightarrow>
                    end_with_error i c key r ''Run exceeded its configured timeout.'' ''run_timeout'' True TimedOut
                      (''Run exceeded '' @ show_g (h_timeout (hd_hash r)) @ '' seconds.'') 504 db
                | ExecutionCancelled _ \<Rightarrow>
                    if terminal_state (h_status (hd_hash current)) then (None, db)
                    else end_with_error i c key r ''Run was cancelled.'' ''run_cancelled'' False Cancelled
                           ''Run was cancelled.'' 409 db
                | ProducerHttp detail http \<Rightarrow>
                    end_with_error i c key r detail ''request_rejected'' False Failed detail http db
                | ProducerRaised \<Rightarrow> raised_end i c key r db))"

section \<open>Subscribing\<close>

datatype done_action = Deliver | SkipEvent | WaitForCommit

text \<open>\<open>_done_delivery_action\<close>; the fence of a stored event is a number or absent.\<close>

definition done_delivery_action :: "stream_event \<Rightarrow> run_status \<Rightarrow> nat \<Rightarrow> nat \<Rightarrow> done_action" where
  "done_delivery_action e st current_fence newest =
     (if \<not> is_done_payload (se_payload e) then Deliver
      else case se_fence e of
        None \<Rightarrow> if terminal_state st \<and> se_id e = newest then Deliver else SkipEvent
      | Some fence \<Rightarrow>
          if fence \<noteq> current_fence then SkipEvent
          else if \<not> terminal_state st then WaitForCommit
          else if se_id e = newest then Deliver else SkipEvent)"

text \<open>The loop over the entries of one read: what is sent, the new cursor.\<close>

fun deliver_entries :: "run_hash \<Rightarrow> stream_event list \<Rightarrow> nat \<Rightarrow> (nat \<times> string) list \<times> nat" where
  "deliver_entries h [] cursor = ([], cursor)"
| "deliver_entries h (e # es) cursor =
     (if se_id e \<le> cursor then deliver_entries h es cursor
      else case done_delivery_action e (h_status h) (h_fence h) (h_last_event_id h) of
        WaitForCommit \<Rightarrow> ([], cursor)
      | SkipEvent \<Rightarrow> deliver_entries h es (se_id e)
      | Deliver \<Rightarrow> (case deliver_entries h es (se_id e) of (out, c) \<Rightarrow> ((se_id e, se_payload e) # out, c)))"

definition xread :: "nat \<Rightarrow> string \<Rightarrow> redis_db \<Rightarrow> stream_event list" where
  "xread cursor key db = take 256 (filter (\<lambda>e. se_id e > cursor) (db_events db key))"

text \<open>\<open>_replay_gap\<close>: \<open>XRANGE\<close> and, when the stream is empty, a later \<open>HGET\<close>.\<close>

definition replay_gap :: "string \<Rightarrow> redis_db \<Rightarrow> redis_db \<Rightarrow> nat \<Rightarrow> nat option" where
  "replay_gap key db db' cursor =
     (case db_events db key of
        [] \<Rightarrow> (let n = (case run_at db' key of None \<Rightarrow> 0 | Some h \<Rightarrow> h_last_event_id h)
               in if n > cursor then Some (n + 1) else None)
      | e # _ \<Rightarrow> if cursor + 1 < se_id e then Some (se_id e) else None)"

datatype frame = EventFrame nat string | HeartbeatFrame

datatype follow_state = Following nat | StreamEnded | RunMissing

definition gap_payload :: string where
  "gap_payload = error_payload ''The requested replay position is no longer buffered; reload thread history.'' ''replay_gap'' False"

definition ahead_payload :: string where
  "ahead_payload = error_payload ''The requested replay position is ahead of the current run; reload thread history.'' ''replay_gap'' False"

definition subscribe_open :: "string \<Rightarrow> redis_db \<Rightarrow> redis_db \<Rightarrow> redis_db \<Rightarrow> int \<Rightarrow> frame list \<times> follow_state" where
  "subscribe_open key db0 db1 db2 last_id =
     (let cursor = nat (max 0 last_id);
          newest = (case run_at db0 key of None \<Rightarrow> 0 | Some h \<Rightarrow> h_last_event_id h)
      in if cursor > newest then ([EventFrame (cursor + 1) ahead_payload], StreamEnded)
         else case replay_gap key db1 db2 cursor of
                Some g \<Rightarrow> ([EventFrame (g - 1) gap_payload], StreamEnded)
              | None \<Rightarrow> ([], Following cursor))"

text \<open>The snapshots that one round of the loop reads, in the order of its calls.\<close>

record round_reads =
  rr_head :: redis_db
  rr_read :: redis_db
  rr_deliver :: redis_db
  rr_gap :: redis_db
  rr_gap_state :: redis_db
  rr_tail :: redis_db

definition caught_up :: "run_hash \<Rightarrow> nat \<Rightarrow> bool" where
  "caught_up h cursor \<longleftrightarrow> (terminal_state (h_status h) \<or> h_status h = WaitingForInput) \<and> cursor \<ge> h_last_event_id h"

definition round_end :: "string \<Rightarrow> redis_db \<Rightarrow> frame list \<Rightarrow> nat \<Rightarrow> frame list \<times> follow_state" where
  "round_end key db out cursor =
     (case run_at db key of
        None \<Rightarrow> (out, RunMissing)
      | Some h \<Rightarrow> (out, if caught_up h cursor then StreamEnded else Following cursor))"

definition follow_round :: "string \<Rightarrow> round_reads \<Rightarrow> nat \<Rightarrow> frame list \<times> follow_state" where
  "follow_round key s cursor =
     (case run_at (rr_head s) key of
        None \<Rightarrow> ([], RunMissing)
      | Some h \<Rightarrow>
          if caught_up h cursor then ([], StreamEnded)
          else (let entries = xread cursor key (rr_read s)
                in if entries \<noteq> []
                   then (case run_at (rr_deliver s) key of
                           None \<Rightarrow> ([], RunMissing)
                         | Some d \<Rightarrow>
                             (case deliver_entries d entries cursor of
                                (out, c) \<Rightarrow> round_end key (rr_tail s) (map (\<lambda>(n, p). EventFrame n p) out) c))
                   else (case replay_gap key (rr_gap s) (rr_gap_state s) cursor of
                           Some g \<Rightarrow> ([EventFrame (g - 1) gap_payload], StreamEnded)
                         | None \<Rightarrow> round_end key (rr_tail s) [HeartbeatFrame] cursor)))"

fun follow :: "string \<Rightarrow> round_reads list \<Rightarrow> nat \<Rightarrow> frame list \<times> follow_state" where
  "follow key [] cursor = ([], Following cursor)"
| "follow key (s # ss) cursor =
     (case follow_round key s cursor of
        (out, Following c) \<Rightarrow> (case follow key ss c of (out', z) \<Rightarrow> (out @ out', z))
      | (out, z) \<Rightarrow> (out, z))"

text \<open>\<open>metrics\<close>: the counters of the hash, with the two live states taken from the sorted sets.\<close>

definition redis_metrics :: "redis_instance \<Rightarrow> int \<Rightarrow> redis_db \<Rightarrow> (string \<times> int) list" where
  "redis_metrics i now db =
     (let active = int (zcount now (db_active db)); running = int (zcount now (db_running db))
      in [(''queued'', max 0 (active - running)), (''running'', running)]
         @ map (\<lambda>st. (status_value st, max 0 (db_metrics db st))) [WaitingForInput, Completed, Failed, Cancelled, TimedOut]
         @ [(''retained'', max 0 (db_retained db)), (''capacity'', ri_max_concurrent i), (''queue_capacity'', ri_max_queued i),
            (''audit_outbox_length'', int (length (db_audit db))), (''audit_outbox_alert_length'', ri_outbox_maxlen i)])"

end
