(* ===== verification/Redis_Delivery.thy ===== *)
theory Redis_Delivery
  imports Redis_Client
begin

text \<open>
  What a subscriber of the shared registry receives, and how an execution ends its run.
\<close>

section \<open>One read\<close>

lemma deliver_cursor: "cursor \<le> snd (deliver_entries h es cursor)"
  by (induction h es cursor rule: deliver_entries.induct)
    (auto split: done_action.splits prod.splits if_splits simp: prod_eq_iff)

text \<open>Identifiers in the order of the stream, above the cursor and up to the new one.\<close>

lemma deliver_above: "(n, p) \<in> set (fst (deliver_entries h es cursor)) \<Longrightarrow> cursor < n \<and> n \<le> snd (deliver_entries h es cursor)"
proof (induction h es cursor rule: deliver_entries.induct)
  case (2 h e es cursor)
  obtain out c where d: "deliver_entries h es (se_id e) = (out, c)" by (cases "deliver_entries h es (se_id e)")
  have le: "se_id e \<le> c" using deliver_cursor [of "se_id e" h es] by (simp add: d)
  show ?case
  proof (cases "se_id e \<le> cursor")
    case True
    then show ?thesis using 2 by simp
  next
    case False
    then show ?thesis using 2(2,3) 2(4) le d
      by (cases "done_delivery_action e (h_status h) (h_fence h) (h_last_event_id h)") fastforce+
  qed
qed simp

lemma deliver_sorted: "sorted_wrt (<) (map fst (fst (deliver_entries h es cursor)))"
proof (induction h es cursor rule: deliver_entries.induct)
  case (2 h e es cursor)
  obtain out c where d: "deliver_entries h es (se_id e) = (out, c)" by (cases "deliver_entries h es (se_id e)")
  have "se_id e < n" if "n \<in> fst ` set out" for n
    using that deliver_above [of n _ h es "se_id e"] d by force
  then show ?case using 2 d
    by (cases "done_delivery_action e (h_status h) (h_fence h) (h_last_event_id h)") (simp_all split: if_splits)
qed simp

text \<open>Everything up to the new cursor is sent, except \<open>DONE\<close> markers.\<close>

lemma deliver_complete:
  assumes "sorted_wrt (<) (map se_id es)" "e \<in> set es" "cursor < se_id e"
    and "se_id e \<le> snd (deliver_entries h es cursor)" "\<not> is_done_payload (se_payload e)"
  shows "(se_id e, se_payload e) \<in> set (fst (deliver_entries h es cursor))"
  using assms
proof (induction h es cursor rule: deliver_entries.induct)
  case (2 h e' es cursor)
  show ?case
  proof (cases "se_id e' \<le> cursor")
    case True
    then show ?thesis using 2 by auto
  next
    case new: False
    consider (same) "e = e'" | (later) "e \<in> set es" "se_id e' < se_id e" using 2 by auto
    then show ?thesis
    proof cases
      case same
      then show ?thesis using 2 new by (auto simp: done_delivery_action_def split: prod.splits)
    next
      case later
      then show ?thesis using 2 new
        by (cases "done_delivery_action e' (h_status h) (h_fence h) (h_last_event_id h)") (auto split: prod.splits)
    qed
  qed
qed simp

lemma deliver_subset: "x \<in> set (fst (deliver_entries h es cursor)) \<Longrightarrow> \<exists>e \<in> set es. x = (se_id e, se_payload e)
    \<and> done_delivery_action e (h_status h) (h_fence h) (h_last_event_id h) = Deliver"
  by (induction h es cursor rule: deliver_entries.induct)
    (auto split: done_action.splits prod.splits if_splits)

lemma delivered_done:
  assumes "done_delivery_action e st f n = Deliver" "is_done_payload (se_payload e)"
  shows "terminal_state st" "se_id e = n" "se_fence e = None \<or> se_fence e = Some f"
  using assms by (auto simp: done_delivery_action_def split: option.splits if_splits)

lemma events_sorted:
  assumes "redis_inv db"
  shows "sorted_wrt (<) (map se_id (db_events db key))"
    "e \<in> set (db_events db key) \<Longrightarrow> \<exists>h. run_at db key = Some h \<and> se_id e \<le> h_last_event_id h"
proof -
  have k: "key_ok db key" using assms by (simp add: redis_inv_def)
  show "sorted_wrt (<) (map se_id (db_events db key))"
    using k by (auto simp: key_ok_def run_ok_def events_ok_def split: option.splits simp del: upt_Suc)
  show "\<exists>h. run_at db key = Some h \<and> se_id e \<le> h_last_event_id h" if "e \<in> set (db_events db key)"
  proof (cases "run_at db key")
    case (Some h)
    have "se_id e \<in> set (map se_id (db_events db key))" using that by simp
    with k Some show ?thesis by (auto simp: key_ok_def run_ok_def events_ok_def simp del: upt_Suc)
  qed (use k that in \<open>simp add: key_ok_def\<close>)
qed

lemma xread_sorted: "redis_inv db \<Longrightarrow> sorted_wrt (<) (map se_id (xread cursor key db))"
  using sorted_wrt_take [of "(<)" "map se_id (filter (\<lambda>e. cursor < se_id e) (db_events db key))" 256]
    sorted_wrt_filter [of "\<lambda>a b. se_id a < se_id b" "db_events db key"] events_sorted(1) [of db key]
  by (simp add: xread_def sorted_wrt_map take_map)

lemma xread_subset: "e \<in> set (xread cursor key db) \<Longrightarrow> e \<in> set (db_events db key) \<and> cursor < se_id e"
  by (auto simp: xread_def dest: in_set_takeD)

section \<open>One round\<close>

lemma last_of_sorted:
  assumes "sorted_wrt (<) (map fst xs)" "(n, p) \<in> set xs" "\<And>m q. (m, q) \<in> set xs \<Longrightarrow> m \<le> (n :: nat)"
  shows "last xs = (n, p)"
  using assms
proof (induction xs)
  case (Cons x xs)
  show ?case
  proof (cases "xs = []")
    case False
    obtain m q where m: "(m, q) \<in> set xs" using False by (cases xs) auto
    then have "m \<le> n" "fst x < m" using Cons.prems by force+
    then have "(n, p) \<in> set xs" using Cons.prems(2) by force
    then show ?thesis using Cons False by auto
  qed (use Cons in auto)
qed simp

lemma not_done_gap: "\<not> is_done_payload gap_payload"
  by code_simp

text \<open>The snapshots of a round are taken one after the other.\<close>

definition snapshots :: "string \<Rightarrow> round_reads \<Rightarrow> bool" where
  "snapshots key s \<longleftrightarrow> redis_reachable (rr_head s) \<and> history key (rr_head s) (rr_read s)
     \<and> history key (rr_read s) (rr_deliver s) \<and> history key (rr_deliver s) (rr_tail s)"

lemma snapshots_inv:
  assumes "snapshots key s"
  shows "redis_inv (rr_head s)" "redis_inv (rr_read s)" "redis_inv (rr_deliver s)" "redis_inv (rr_tail s)"
  using assms reachable_inv history_inv by (metis snapshots_def)+

text \<open>A round that sends events: what it has read, in which states, and where it goes on.\<close>

lemma follow_round_events:
  assumes "follow_round key s cursor = (out, z)" "EventFrame n p \<in> set out" "p \<noteq> gap_payload"
  obtains d fs c where "run_at (rr_deliver s) key = Some d"
    "deliver_entries d (xread cursor key (rr_read s)) cursor = (fs, c)" "out = map (\<lambda>(n, p). EventFrame n p) fs"
    "(n, p) \<in> set fs" "(out, z) = round_end key (rr_tail s) out c"
  using assms
  by (auto simp: follow_round_def round_end_def Let_def split: option.splits if_splits prod.splits)

lemma xread_bound:
  assumes "snapshots key s" "run_at (rr_deliver s) key = Some d" "e \<in> set (xread cursor key (rr_read s))"
  shows "se_id e \<le> h_last_event_id d"
proof -
  obtain h where h: "run_at (rr_read s) key = Some h" "se_id e \<le> h_last_event_id h"
    using events_sorted(2) [OF snapshots_inv(2) [OF assms(1)]] xread_subset [OF assms(3)] by blast
  then show ?thesis
    using ik.along_history [OF _ snapshots_inv(2) [OF assms(1)] h(1), of "rr_deliver s"] assms
    by (auto simp: snapshots_def identity_kept_def)
qed

lemma ended_stays:
  assumes "redis_inv db" "history key db db'" "run_at db key = Some d" "terminal_state (h_status d)"
  shows "\<exists>rid. run_at db' key = Some (d\<lparr>h_run_id := rid\<rparr>)"
proof -
  obtain d' where "run_at db' key = Some d'" "end_kept (view_at db key d) (view_at db' key d')"
    using ek.along_history [OF assms(2,1,3)] by blast
  then obtain rid where "view_at db' key d' = (view_at db key d)\<lparr>v_hash := d\<lparr>h_run_id := rid\<rparr>\<rparr>"
    using assms(4) by (auto simp: end_kept_def)
  then have "v_hash (view_at db' key d') = v_hash ((view_at db key d)\<lparr>v_hash := d\<lparr>h_run_id := rid\<rparr>\<rparr>)" by simp
  then show ?thesis using \<open>run_at db' key = Some d'\<close> by (intro exI [of _ rid]) simp
qed

text \<open>
  C23: a subscriber sends a \<open>DONE\<close> marker only as the last frame of its stream, for a run
  that has ended, when the marker is the newest event of the run and was written under its
  current fence (or without one): a marker of an owner that was superseded, or that died
  before it committed the end of the run, is never delivered.
\<close>

theorem done_marker_is_last:
  assumes "snapshots key s" "follow_round key s cursor = (out, z)" "EventFrame n p \<in> set out" "is_done_payload p"
  shows "z = StreamEnded \<and> last out = EventFrame n p
    \<and> (\<exists>h e. run_at (rr_deliver s) key = Some h \<and> terminal_state (h_status h) \<and> h_last_event_id h = n
         \<and> e \<in> set (db_events (rr_read s) key) \<and> se_id e = n \<and> (se_fence e = None \<or> se_fence e = Some (h_fence h)))"
proof -
  have "p \<noteq> gap_payload" using assms(4) not_done_gap by auto
  from follow_round_events [OF assms(2,3) this]
  obtain d fs c where d: "run_at (rr_deliver s) key = Some d" "deliver_entries d (xread cursor key (rr_read s)) cursor = (fs, c)"
    "out = map (\<lambda>(n, p). EventFrame n p) fs" "(n, p) \<in> set fs" "(out, z) = round_end key (rr_tail s) out c" by blast
  obtain e where e: "e \<in> set (xread cursor key (rr_read s))" "(n, p) = (se_id e, se_payload e)"
    "done_delivery_action e (h_status d) (h_fence d) (h_last_event_id d) = Deliver"
    using deliver_subset [of "(n, p)" d "xread cursor key (rr_read s)" cursor] d by auto
  note dn = delivered_done [OF e(3)]
  have t: "terminal_state (h_status d)" "n = h_last_event_id d" "se_fence e = None \<or> se_fence e = Some (h_fence d)"
    using dn e(2) assms(4) by auto
  have "m \<le> n" if "(m, q) \<in> set fs" for m q
    using deliver_subset [of "(m, q)" d "xread cursor key (rr_read s)" cursor] d that xread_bound [OF assms(1) d(1)] t(2) by auto
  then have lst: "last fs = (n, p)"
    using last_of_sorted [of fs n p] deliver_sorted [of d "xread cursor key (rr_read s)" cursor] d by simp
  have "fs \<noteq> []" using d(4) by auto
  with lst have "last out = EventFrame n p" by (simp add: d(3) last_map)
  moreover have "n \<le> c" using deliver_above [of n p d "xread cursor key (rr_read s)" cursor] d by simp
  then have "z = StreamEnded"
    using ended_stays [OF snapshots_inv(3) [OF assms(1)] _ d(1) t(1), of "rr_tail s"] d(5) t assms(1)
    by (auto simp: round_end_def caught_up_def snapshots_def)
  moreover have "e \<in> set (db_events (rr_read s) key)" "se_id e = n" using xread_subset [OF e(1)] e(2) by auto
  ultimately show ?thesis using d(1) t by auto
qed


lemma take_sorted_prefix:
  assumes "sorted_wrt (<) (map f xs)" "e \<in> set xs" "e' \<in> set (take k xs)" "f e \<le> (f e' :: nat)"
  shows "e \<in> set (take k xs)"
  using assms
proof (induction xs arbitrary: k)
  case (Cons x xs)
  show ?case
  proof (cases k)
    case (Suc j)
    then show ?thesis using Cons by (force dest: in_set_takeD)
  qed (use Cons in simp)
qed simp

lemma deliver_cursor_cases: "snd (deliver_entries h es cursor) = cursor \<or> (\<exists>e \<in> set es. se_id e = snd (deliver_entries h es cursor))"
proof (induction h es cursor rule: deliver_entries.induct)
  case (2 h e es cursor)
  then show ?case
    by (cases "done_delivery_action e (h_status h) (h_fence h) (h_last_event_id h)") (auto split: prod.splits simp: prod_eq_iff)
qed simp

text \<open>
  A round of a subscriber that goes on loses nothing of what it has read: each event in
  the buffer between the old and the new cursor is sent, unless it is a \<open>DONE\<close> marker, and
  the identifiers of what is sent increase above the old cursor.
\<close>

theorem round_sends_everything:
  assumes "snapshots key s" "follow_round key s cursor = (out, Following c)"
    and "e \<in> set (db_events (rr_read s) key)" "cursor < se_id e"
  shows "cursor \<le> c \<and> (se_id e \<le> c \<and> \<not> is_done_payload (se_payload e) \<longrightarrow> EventFrame (se_id e) (se_payload e) \<in> set out)
    \<and> (\<exists>fs. out = map (\<lambda>(n, p). EventFrame n p) fs \<and> sorted_wrt (<) (map fst fs) \<and> (\<forall>(n, p) \<in> set fs. cursor < n \<and> n \<le> c))"
proof -
  define es where "es = xread cursor key (rr_read s)"
  let ?new = "filter (\<lambda>e. cursor < se_id e) (db_events (rr_read s) key)"
  have es: "es = take 256 ?new" by (simp add: es_def xread_def)
  have "?new \<noteq> []" using assms(3,4) by (auto simp: filter_empty_conv)
  then have "es \<noteq> []" by (simp add: es)
  then obtain d where d: "run_at (rr_deliver s) key = Some d"
    and c: "snd (deliver_entries d es cursor) = c"
    and out: "out = map (\<lambda>(n, p). EventFrame n p) (fst (deliver_entries d es cursor))"
    using assms(2) by (auto simp: follow_round_def round_end_def es_def [symmetric] split: option.splits if_splits prod.splits)
  have sorted: "sorted_wrt (<) (map se_id ?new)"
    using sorted_wrt_filter [of "\<lambda>a b. se_id a < se_id b" "db_events (rr_read s) key"] events_sorted(1) [OF snapshots_inv(2) [OF assms(1)]]
    by (simp add: sorted_wrt_map)
  have "EventFrame (se_id e) (se_payload e) \<in> set out" if le: "se_id e \<le> c" and nd: "\<not> is_done_payload (se_payload e)"
  proof -
    obtain e' where e': "e' \<in> set es" "se_id e' = c"
      using deliver_cursor_cases [of d es cursor] c le assms(4) by auto
    have "e \<in> set es"
      using take_sorted_prefix [OF sorted, of e e' 256] assms(3,4) le e' by (simp add: es)
    then have "(se_id e, se_payload e) \<in> set (fst (deliver_entries d es cursor))"
      using deliver_complete [of es e cursor d] xread_sorted [OF snapshots_inv(2) [OF assms(1)]] assms(4) le nd c
      by (simp add: es_def)
    then show ?thesis by (force simp: out)
  qed
  moreover have "cursor \<le> c" using deliver_cursor [of cursor d es] c by simp
  moreover have "\<forall>(n, p) \<in> set (fst (deliver_entries d es cursor)). cursor < n \<and> n \<le> c"
    using deliver_above [of _ _ d es cursor] c by auto
  ultimately show ?thesis using out deliver_sorted [of d es cursor] by blast
qed

section \<open>A sample stream\<close>

definition event_args :: "string \<Rightarrow> append_args" where
  "event_args p = \<lparr>a_payload = p, a_maxlen = 2, a_event_key = [], a_terminal = False, a_audit = []\<rparr>"

definition push_sample :: "string \<Rightarrow> redis_db \<Rightarrow> redis_db" where
  "push_sample p db = snd (append_script ''k'' ''two'' 2 (event_args p) db)"

text \<open>Five events in a buffer of two.\<close>

definition sample_stream :: redis_db where
  "sample_stream = push_sample ''5'' (push_sample ''4'' (push_sample ''3'' (push_sample ''2'' (push_sample ''1'' sample_running))))"

definition constant_reads :: "redis_db \<Rightarrow> round_reads" where
  "constant_reads db = \<lparr>rr_head = db, rr_read = db, rr_deliver = db, rr_gap = db, rr_gap_state = db, rr_tail = db\<rparr>"

lemma push_sample_eval:
  assumes "run_at db ''k'' = Some h" "owns ''two'' 2 h" "h_status h = Running" "h_buffer h = 2"
  shows "run_at (push_sample p db) ''k'' = Some (h\<lparr>h_last_event_id := h_last_event_id h + 1\<rparr>)"
    "db_events (push_sample p db) ''k'' = (let es = db_events db ''k'' @ [\<lparr>se_id = h_last_event_id h + 1, se_payload = p,
        se_fence = Some 2, se_terminal = Some False\<rparr>] in drop (length es - 2) es)"
    "redis_reachable db \<Longrightarrow> redis_reachable (push_sample p db)"
proof -
  show "redis_reachable (push_sample p db)" if "redis_reachable db"
    unfolding push_sample_def
    by (rule reach_call [OF that call_append]) (simp add: buffer_is_def event_args_def assms)
qed (use assms in \<open>simp_all add: push_sample_def append_script_def event_args_def terminal_state_def redis_defs Let_def\<close>)

lemma sample_stream_eval:
  "\<exists>h. run_at sample_stream ''k'' = Some h \<and> h_last_event_id h = 5 \<and> h_status h = Running \<and> h_fence h = 2 \<and> redis_reachable sample_stream
     \<and> db_events sample_stream ''k'' =
        [\<lparr>se_id = 4, se_payload = ''4'', se_fence = Some 2, se_terminal = Some False\<rparr>,
         \<lparr>se_id = 5, se_payload = ''5'', se_fence = Some 2, se_terminal = Some False\<rparr>]"
proof -
  define h0 where "h0 = (new_run 0 (sample_args ''one''))\<lparr>h_fence := 2, h_owner := ''two'', h_lease := 2000,
     h_version := 3, h_status := Running, h_started_at := ''now''\<rparr>"
  have f: "owns ''two'' 2 h0" "h_status h0 = Running" "h_buffer h0 = 2" "h_last_event_id h0 = 0" "h_fence h0 = 2"
    by (simp_all add: h0_def new_run_def sample_args_def owns_def)
  have o: "owns ''two'' 2 (h0\<lparr>h_last_event_id := n\<rparr>)" for n using f by (simp add: owns_def)
  note p1 = push_sample_eval [OF sample_running_at [folded h0_def] f(1-3)]
  note p2 = push_sample_eval [OF p1(1)]
  note p3 = push_sample_eval [OF p2(1)]
  note p4 = push_sample_eval [OF p3(1)]
  note p5 = push_sample_eval [OF p4(1)]
  show ?thesis
    using p5 p4 p3 p2 p1 f o sample_running_reachable by (simp add: sample_stream_def)
qed


lemma constant_snapshots: "redis_reachable db \<Longrightarrow> snapshots key (constant_reads db)"
  by (simp add: snapshots_def constant_reads_def history_refl)

theorem round_sends_everything_witness:
  "EventFrame 5 ''5'' \<in> set (fst (follow_round ''k'' (constant_reads sample_stream) 3))"
proof -
  obtain h where h: "run_at sample_stream ''k'' = Some h" "h_last_event_id h = 5" "h_status h = Running" "h_fence h = 2"
    "redis_reachable sample_stream" and ev: "db_events sample_stream ''k'' =
        [\<lparr>se_id = 4, se_payload = ''4'', se_fence = Some 2, se_terminal = Some False\<rparr>,
         \<lparr>se_id = 5, se_payload = ''5'', se_fence = Some 2, se_terminal = Some False\<rparr>]"
    using sample_stream_eval by blast
  have nd: "\<not> is_done_payload ''4''" "\<not> is_done_payload ''5''" by code_simp+
  have r: "follow_round ''k'' (constant_reads sample_stream) 3 = ([EventFrame 4 ''4'', EventFrame 5 ''5''], Following 5)"
    using h nd by (simp add: follow_round_def constant_reads_def caught_up_def terminal_state_def xread_def ev
        done_delivery_action_def round_end_def)
  from round_sends_everything [OF constant_snapshots [OF h(5)] r, of "\<lparr>se_id = 5, se_payload = ''5'', se_fence = Some 2, se_terminal = Some False\<rparr>"]
  show ?thesis using r nd by (simp add: constant_reads_def ev)
qed

text \<open>
  A subscriber that is slower than the buffer loses events without a notice: it has sent
  everything up to the first event of five, two of them are still buffered, and the next
  round sends these two and no replay gap.
\<close>

theorem trimmed_events_unnoticed:
  "redis_reachable sample_stream \<and> replay_gap ''k'' sample_stream sample_stream 1 = Some 4
   \<and> follow_round ''k'' (constant_reads sample_stream) 1 = ([EventFrame 4 ''4'', EventFrame 5 ''5''], Following 5)"
proof -
  obtain h where h: "run_at sample_stream ''k'' = Some h" "h_last_event_id h = 5" "h_status h = Running" "h_fence h = 2"
    "redis_reachable sample_stream" and ev: "db_events sample_stream ''k'' =
        [\<lparr>se_id = 4, se_payload = ''4'', se_fence = Some 2, se_terminal = Some False\<rparr>,
         \<lparr>se_id = 5, se_payload = ''5'', se_fence = Some 2, se_terminal = Some False\<rparr>]"
    using sample_stream_eval by blast
  have nd: "\<not> is_done_payload ''4''" "\<not> is_done_payload ''5''" by code_simp+
  show ?thesis
    using h nd by (simp add: follow_round_def constant_reads_def caught_up_def terminal_state_def xread_def ev
        done_delivery_action_def round_end_def replay_gap_def)
qed

text \<open>A cancelled run, and a subscriber that has sent nothing yet.\<close>

definition sample_ended :: redis_db where
  "sample_ended = snd (cancel_script 1200 ''k'' (sample_cancel\<lparr>x_done_payload := done_payload\<rparr>) sample_running)"

lemma sample_ended_eval:
  "\<exists>h. run_at sample_ended ''k'' = Some h \<and> h_last_event_id h = 2 \<and> h_status h = Cancelled \<and> h_fence h = 3 \<and> redis_reachable sample_ended
     \<and> db_events sample_ended ''k'' =
        [\<lparr>se_id = 1, se_payload = ''error'', se_fence = Some 3, se_terminal = Some False\<rparr>,
         \<lparr>se_id = 2, se_payload = done_payload, se_fence = Some 3, se_terminal = Some True\<rparr>]"
proof -
  have "redis_reachable sample_ended"
    unfolding sample_ended_def
    by (rule reach_call [OF sample_running_reachable call_cancel])
      (use sample_running_at in \<open>simp add: buffer_is_def sample_cancel_def new_run_def sample_args_def\<close>)
  then show ?thesis
    using sample_running_at by (simp add: sample_ended_def cancel_script_def sample_cancel_def sample_eval)
qed

theorem done_marker_is_last_witness:
  "snd (follow_round ''k'' (constant_reads sample_ended) 0) = StreamEnded
   \<and> last (fst (follow_round ''k'' (constant_reads sample_ended) 0)) = EventFrame 2 done_payload"
proof -
  obtain h where h: "run_at sample_ended ''k'' = Some h" "h_last_event_id h = 2" "h_status h = Cancelled" "h_fence h = 3"
    "redis_reachable sample_ended" and ev: "db_events sample_ended ''k'' =
        [\<lparr>se_id = 1, se_payload = ''error'', se_fence = Some 3, se_terminal = Some False\<rparr>,
         \<lparr>se_id = 2, se_payload = done_payload, se_fence = Some 3, se_terminal = Some True\<rparr>]"
    using sample_ended_eval by blast
  have dn: "\<not> is_done_payload ''error''" "is_done_payload done_payload" by code_simp+
  have r: "follow_round ''k'' (constant_reads sample_ended) 0 = ([EventFrame 1 ''error'', EventFrame 2 done_payload], StreamEnded)"
    using h dn by (simp add: follow_round_def constant_reads_def caught_up_def terminal_state_def xread_def ev
        done_delivery_action_def round_end_def)
  from done_marker_is_last [OF constant_snapshots [OF h(5)] r _ dn(2)] show ?thesis by (simp add: r)
qed

end
