(* ===== verification/Redis_Endings.thy ===== *)
theory Redis_Endings
  imports Redis_Delivery
begin

text \<open>
  How an execution ends its run in the shared registry: the owner writes the terminal events
  and commits the state, and what it leaves is what a subscriber delivers as the end.
\<close>

section \<open>Payloads\<close>

lemma strip_prefix:
  assumes "\<not> P c"
  shows "\<exists>ws. c # s = strip_by P (c # s) @ ws"
proof -
  have l: "lstrip_by P (c # s) = c # s" using assms by (simp add: lstrip_by_def)
  have "\<exists>ws. xs = rstrip_by P xs @ ws" for xs
    by (rule exI [of _ "rev (takeWhile P (rev xs))"])
      (simp add: rstrip_by_def rev_append [symmetric] takeWhile_dropWhile_id)
  then show ?thesis using l by (simp add: strip_by_def)
qed

lemma error_is_not_done: "\<not> is_done_payload (error_payload m c b)"
proof
  assume "is_done_payload (error_payload m c b)"
  then have d: "strip (error_payload m c b) = DONE_MARKER" by (simp add: is_done_payload_def)
  have sp: "\<not> py_space CHR ''d''" by code_simp
  obtain rest where e: "error_payload m c b = CHR ''d'' # ''ata: {'' @ rest" by (simp add: error_payload_def)
  obtain ws where "error_payload m c b = DONE_MARKER @ ws"
    using strip_prefix [of py_space, OF sp, of "''ata: {'' @ rest"] d unfolding e by metis
  then show False unfolding e by (simp add: DONE_MARKER_def)
qed

lemma done_is_done: "is_done_payload done_payload"
  by code_simp

section \<open>Appending as the owner\<close>

text \<open>What an append as owner leaves of a running run.\<close>

definition keeps_running :: "run_hash \<Rightarrow> run_hash \<Rightarrow> bool" where
  "keeps_running h h' \<longleftrightarrow> h_status h' = h_status h \<and> h_fence h' = h_fence h \<and> h_owner h' = h_owner h \<and> h_kind h' = h_kind h
     \<and> h_buffer h' = h_buffer h \<and> h_user_id h' = h_user_id h"

lemma append_new:
  assumes "run_at db key = Some h" "owns w f h" "h_status h = Running" "a_maxlen a = h_buffer h"
    and "a_event_key a \<noteq> []" "db_dedupe db key (a_event_key a) = None"
  shows "fst (append_script key w f a db) = (1, Some (h_last_event_id h + 1))"
    "run_at (snd (append_script key w f a db)) key =
       Some (h\<lparr>h_last_event_id := h_last_event_id h + 1, h_terminal_emitted := a_terminal a \<or> h_terminal_emitted h\<rparr>)"
    "db_events (snd (append_script key w f a db)) key = latest (h_buffer h) (db_events db key @
       [\<lparr>se_id = h_last_event_id h + 1, se_payload = a_payload a, se_fence = Some f, se_terminal = Some (a_terminal a)\<rparr>])"
    "db_dedupe (snd (append_script key w f a db)) key = (db_dedupe db key)(a_event_key a \<mapsto> EventId (h_last_event_id h + 1))"
  using assms
  by (cases "a_terminal a"; cases "a_audit a = []"; simp add: append_script_def terminal_state_def redis_defs latest_def Let_def)+

lemma append_script_owner:
  assumes "run_at db key = Some h" "owns w f h" "h_status h = Running" "a_maxlen a = h_buffer h"
    and "a_event_key a \<noteq> []" "\<And>s. db_dedupe db key (a_event_key a) \<noteq> Some (ResponseIdentity s)"
  obtains n e db' h' where "append_script key w f a db = ((n, Some e), db')" "n = 0 \<or> n = 1" "run_at db' key = Some h'" "keeps_running h h'"
    "h_terminal_emitted h' = (h_terminal_emitted h \<or> n = 1 \<and> a_terminal a)"
    "\<And>k. k \<noteq> a_event_key a \<Longrightarrow> db_dedupe db' key k = db_dedupe db key k"
proof (cases "db_dedupe db key (a_event_key a)")
  case None
  note n = append_new [OF assms(1-5) None]
  show thesis
    by (rule that [of 1 "h_last_event_id h + 1" "snd (append_script key w f a db)"
          "h\<lparr>h_last_event_id := h_last_event_id h + 1, h_terminal_emitted := a_terminal a \<or> h_terminal_emitted h\<rparr>"])
      (use n in \<open>auto simp: keeps_running_def prod_eq_iff\<close>)
next
  case (Some v)
  then obtain e where "v = EventId e" using assms(6) by (cases v) auto
  then show thesis using assms(1-5) Some that [of 0 e db h]
    by (auto simp: append_script_def terminal_state_def keeps_running_def)
qed

lemma mark_failed_owner:
  assumes "run_at db key = Some h" "owns w f h" "h_status h = Running"
  shows "fst (mark_failed_script key w f code msg http ts aid dg db) = 1"
    "\<exists>h'. run_at (snd (mark_failed_script key w f code msg http ts aid dg db)) key = Some h' \<and> keeps_running h h'
       \<and> h_terminal_emitted h' = h_terminal_emitted h"
    "db_dedupe (snd (mark_failed_script key w f code msg http ts aid dg db)) = db_dedupe db"
  using assms by (auto simp: mark_failed_script_def terminal_state_def keeps_running_def redis_defs)

text \<open>An execution and its run: the handle has the identity of the run.\<close>

definition handles :: "redis_instance \<Rightarrow> run_handle \<Rightarrow> run_hash \<Rightarrow> bool" where
  "handles i r h \<longleftrightarrow> h_fence (hd_hash r) = h_fence h \<and> h_owner h = ri_instance_id i \<and> h_kind (hd_hash r) = h_kind h
     \<and> h_buffer (hd_hash r) = h_buffer h \<and> h_user_id (hd_hash r) = h_user_id h"

lemma handles_owns: "handles i r h \<Longrightarrow> owns (ri_instance_id i) (h_fence (hd_hash r)) h"
  by (simp add: handles_def owns_def)

lemma handles_keeps: "handles i r h \<Longrightarrow> keeps_running h h' \<Longrightarrow> handles i r h'"
  by (simp add: handles_def keeps_running_def)

lemma keeps_trans: "keeps_running a b \<Longrightarrow> keeps_running b c \<Longrightarrow> keeps_running a c"
  by (simp add: keeps_running_def)

lemma append_now_other:
  assumes "run_at db key = Some h" "handles i r h" "h_status h = Running" "ek \<noteq> []"
    and "\<And>s. db_dedupe db key ek \<noteq> Some (ResponseIdentity s)" "\<not> is_done_payload p"
  obtains e r' db' h' where "append_now i c key r p ek db = (Inr (e, r'), db')" "run_at db' key = Some h'" "keeps_running h h'"
    "handles i r' h'" "h_terminal_emitted h' = h_terminal_emitted h" "h_terminal_emitted (hd_hash r') = h_terminal_emitted (hd_hash r)"
    "\<And>k. k \<noteq> ek \<Longrightarrow> db_dedupe db' key k = db_dedupe db key k" "done_key r' = done_key r"
proof -
  let ?w = "ri_instance_id i" and ?f = "h_fence (hd_hash r)"
  have nd: "\<not> is_done_payload (a_payload (append_call i r0 p ek x))" "\<not> a_terminal (append_call i r0 p ek x)" for r0 x
    using assms(6) error_is_not_done by (auto simp: append_call_def Let_def)
  note result = that
  have go: thesis
    if db1: "run_at db1 key = Some h1" and h1: "keeps_running h h1" "h_terminal_emitted h1 = h_terminal_emitted h"
      and d1: "db_dedupe db1 = db_dedupe db" and r1: "handles i r1 h" "h_terminal_emitted (hd_hash r1) = h_terminal_emitted (hd_hash r)"
        "done_key r1 = done_key r"
      and run: "append_now i c key r p ek db = (let a = append_call i r1 p ek (cc_audit c p)
           in case append_script key ?w ?f a db1 of (rp, db') \<Rightarrow> (append_reply rp (a_payload a) r1, db'))"
    for db1 h1 r1
  proof -
    let ?a = "append_call i r1 p ek (cc_audit c p)"
    have a: "a_maxlen ?a = h_buffer h1" "a_event_key ?a = ek"
      using r1 h1 by (simp_all add: append_call_def handles_def keeps_running_def Let_def)
    have own: "owns ?w ?f h1" "h_status h1 = Running" using assms(2,3) h1 by (simp_all add: handles_def owns_def keeps_running_def)
    have dd: "\<And>s. db_dedupe db1 key (a_event_key ?a) \<noteq> Some (ResponseIdentity s)" using assms(5) d1 a by simp
    obtain e n db' h' where res: "append_script key ?w ?f ?a db1 = ((n, Some e), db')" "n = 0 \<or> n = 1" "run_at db' key = Some h'"
        "keeps_running h1 h'" "h_terminal_emitted h' = (h_terminal_emitted h1 \<or> n = 1 \<and> a_terminal ?a)"
        "\<And>k. k \<noteq> a_event_key ?a \<Longrightarrow> db_dedupe db' key k = db_dedupe db1 key k"
      using append_script_owner [OF db1 own a(1) _ dd] assms(4) a(2) by metis
    obtain r' where rep: "append_reply (n, Some e) (a_payload ?a) r1 = Inr (e, r')" "hd_hash r' = hd_hash r1"
      using res(2) nd by (auto simp: append_reply_def)
    show thesis
    proof (rule result)
      show "append_now i c key r p ek db = (Inr (e, r'), db')" using run res(1) rep(1) by (simp add: Let_def)
      show "handles i r' h'"
        using handles_keeps [OF r1(1) keeps_trans [OF h1(1) res(4)]] rep(2) by (simp add: handles_def)
      show "keeps_running h h'" by (rule keeps_trans [OF h1(1) res(4)])
      show "done_key r' = done_key r" using r1(3) rep(2) by (simp add: done_key_def)
    qed (use res h1 r1 rep(2) nd d1 a in auto)
  qed
  show thesis
  proof (cases "too_large i p")
    case False
    show thesis by (rule go [of db h r]) (use assms False in \<open>auto simp: append_now_def Let_def keeps_running_def\<close>)
  next
    case True
    let ?m = "mark_failed_script key ?w ?f ''event_too_large'' (too_large_message i) 500
                      (cc_timestamp c) (cc_audit_id c) (sha256 (utf8_bytes (too_large_message i))) db"
    note mf = mark_failed_owner [OF assms(1) handles_owns [OF assms(2)] assms(3), of "''event_too_large''" "too_large_message i" 500
        "cc_timestamp c" "cc_audit_id c" "sha256 (utf8_bytes (too_large_message i))"]
    obtain h1 where h1: "run_at (snd ?m) key = Some h1" "keeps_running h h1" "h_terminal_emitted h1 = h_terminal_emitted h"
      using mf(2) by blast
    obtain r1 where r1: "mark_failed_reply 1 ''event_too_large'' (too_large_message i) 500 r = Inr r1"
        "handles i r1 h" "h_terminal_emitted (hd_hash r1) = h_terminal_emitted (hd_hash r)" "done_key r1 = done_key r"
      using assms(2) by (simp add: mark_failed_reply_def owner_write_error_def handles_def done_key_def)
    show thesis
    proof (rule go [OF h1 mf(3) r1(2-4)])
      obtain db1 where m: "?m = (1, db1)" using mf(1) by (cases ?m) simp
      show "append_now i c key r p ek db = (let a = append_call i r1 p ek (cc_audit c p)
           in case append_script key ?w ?f a (snd ?m) of (rp, db') \<Rightarrow> (append_reply rp (a_payload a) r1, db'))"
        using True r1(1) m by (simp add: append_now_def Let_def)
    qed
  qed
qed

lemma append_now_done:
  assumes "run_at db key = Some h" "handles i r h" "h_status h = Running" "db_dedupe db key (done_key r) = None"
    and "\<not> too_large i done_payload"
  obtains e r' db' where "append_now i c key r done_payload (done_key r) db = (Inr (e, r'), db')"
    "run_at db' key = Some (h\<lparr>h_last_event_id := h_last_event_id h + 1, h_terminal_emitted := True\<rparr>)"
    "db_events db' key = latest (h_buffer h) (db_events db key @
       [\<lparr>se_id = h_last_event_id h + 1, se_payload = done_payload, se_fence = Some (h_fence h), se_terminal = Some True\<rparr>])"
proof -
  let ?a = "append_call i r done_payload (done_key r) (cc_audit c done_payload)"
  have a: "a_maxlen ?a = h_buffer h" "a_event_key ?a = done_key r" "a_terminal ?a" "a_payload ?a = done_payload" "done_key r \<noteq> []"
    using assms(2,5) done_is_done by (simp_all add: append_call_def handles_def done_key_def Let_def)
  have f: "h_fence (hd_hash r) = h_fence h" using assms(2) by (simp add: handles_def)
  note n = append_new [OF assms(1) handles_owns [OF assms(2)] assms(3) a(1)]
  show thesis
    by (rule that) (use assms(4,5) n a f done_is_done in \<open>auto simp: append_now_def append_reply_def Let_def split: prod.splits\<close>)
qed

section \<open>The end of a run\<close>

text \<open>What an ended run looks like; and an ended stream, with \<open>DONE\<close> as the newest event of the fence.\<close>

definition ended_as :: "redis_db \<Rightarrow> string \<Rightarrow> run_status \<Rightarrow> nat \<Rightarrow> bool" where
  "ended_as db key st fence \<longleftrightarrow>
     (case run_at db key of None \<Rightarrow> False | Some h \<Rightarrow> h_status h = st \<and> h_fence h = fence)"

definition done_is_newest :: "redis_db \<Rightarrow> string \<Rightarrow> nat \<Rightarrow> bool" where
  "done_is_newest db key fence \<longleftrightarrow>
     (case run_at db key of
        None \<Rightarrow> False
      | Some h \<Rightarrow> db_events db key \<noteq> []
          \<and> last (db_events db key) = \<lparr>se_id = h_last_event_id h, se_payload = done_payload, se_fence = Some fence,
              se_terminal = Some True\<rparr>)"

lemma last_latest: "0 < n \<Longrightarrow> latest n (es @ [e]) \<noteq> [] \<and> last (latest n (es @ [e])) = e"
  by (simp add: latest_def last_drop)

lemma transition_owner:
  assumes "run_at db key = Some h" "handles i r h" "h_status h = Running" "terminal_state st"
  shows "\<exists>db'. transition_now i c key r st rj ec er http db = (None, db') \<and> ended_as db' key st (h_fence h)
    \<and> done_is_newest db' key f = done_is_newest db key f"
proof -
  note own = handles_owns [OF assms(2)]
  have st: "h_status h \<noteq> st" "\<not> terminal_state (h_status h)" using assms(3,4) by (auto simp: terminal_state_def)
  let ?a = "transition_call i st rj ec er http (cc_timestamp c) (cc_audit_id c)"
  let ?t = "transition_script (cc_now c) key (ri_instance_id i) (h_fence (hd_hash r)) ?a db"
  have s: "t_status ?a = st" by (simp add: transition_call_def)
  have "fst ?t = 1" using assms(1,4) own st s by (simp add: transition_script_def Let_def)
  moreover have "ended_as (snd ?t) key st (h_fence h)" "done_is_newest (snd ?t) key f = done_is_newest db key f"
    using assms(1,4) own st s
    by (simp_all add: transition_script_def ended_as_def done_is_newest_def redis_defs Let_def)
  ultimately show ?thesis
    by (cases ?t) (simp add: transition_now_def transition_reply_def)
qed

text \<open>
  What a stream without a marker needs to receive one: room for an event in the buffer and under the
  size limit, and that the key reserved for the marker of this fence has not been used.
\<close>

definition room_for_done :: "redis_instance \<Rightarrow> redis_db \<Rightarrow> string \<Rightarrow> run_handle \<Rightarrow> run_hash \<Rightarrow> bool" where
  "room_for_done i db key r h \<longleftrightarrow> 0 < h_buffer h \<and> db_dedupe db key (done_key r) = None \<and> \<not> too_large i done_payload"

lemma end_with_error_ends:
  assumes "run_at db key = Some h" "handles i r h" "h_status h = Running" "h_kind h = Stream" "terminal_state st"
    and "\<forall>k s. db_dedupe db key k = Some (ResponseIdentity s) \<longrightarrow> is_response_key k"
    and "h_terminal_emitted (hd_hash r) \<or> room_for_done i db key r h"
  shows "\<exists>db'. end_with_error i c key r message code retryable st er http db = (None, db') \<and> ended_as db' key st (h_fence h)
    \<and> (h_terminal_emitted (hd_hash r) \<or> done_is_newest db' key (h_fence h))"
proof -
  let ?ek = "''terminal-error:'' @ code"
  have ek: "?ek \<noteq> []" "?ek \<noteq> done_key r" "\<not> is_response_key ?ek"
    by (simp_all add: done_key_def is_response_key_def startswith_def)
  then have dd: "\<And>s. db_dedupe db key ?ek \<noteq> Some (ResponseIdentity s)" using assms(6) by blast
  obtain e r1 db1 h1 where a: "append_now i c key r (error_payload message code retryable) ?ek db = (Inr (e, r1), db1)"
      "run_at db1 key = Some h1" "keeps_running h h1" "handles i r1 h1" "h_terminal_emitted h1 = h_terminal_emitted h" "h_terminal_emitted (hd_hash r1) = h_terminal_emitted (hd_hash r)"
      "\<And>k. k \<noteq> ?ek \<Longrightarrow> db_dedupe db1 key k = db_dedupe db key k" "done_key r1 = done_key r"
    by (rule append_now_other [OF assms(1-3) ek(1) dd error_is_not_done, where c = c]) (rule that, assumption+)
  have h1: "h_status h1 = Running" "h_fence h1 = h_fence h" "h_buffer h1 = h_buffer h" using a(3) assms(3) by (simp_all add: keeps_running_def)
  have stream: "h_kind (hd_hash r) = Stream" using assms(2,4) by (simp add: handles_def)
  show ?thesis
  proof (cases "h_terminal_emitted (hd_hash r)")
    case True
    have "handles i r h1" using handles_keeps [OF assms(2) a(3)] .
    then obtain db' where t: "transition_now i c key r st None (Some code) (Some er) http db1 = (None, db')" "ended_as db' key st (h_fence h1)"
      using transition_owner [OF a(2) _ h1(1) assms(5), of i r c None "Some code" "Some er" http] by blast
    have "append_terminal_error i c key r message code retryable db = (None, db1)"
      using True a(1,6) stream by (simp add: append_terminal_error_def Let_def)
    with True t h1(2) show ?thesis by (simp add: end_with_error_def)
  next
    case False
    then have room: "0 < h_buffer h1" "db_dedupe db1 key (done_key r1) = None" "\<not> too_large i done_payload"
      using assms(7) a(7) [of "done_key r"] a(8) ek(2) h1(3) by (auto simp: room_for_done_def)
    let ?h2 = "h1\<lparr>h_last_event_id := h_last_event_id h1 + 1, h_terminal_emitted := True\<rparr>"
    obtain e2 r2 db2 where b: "append_now i c key r1 done_payload (done_key r1) db1 = (Inr (e2, r2), db2)"
        "run_at db2 key = Some ?h2"
        "db_events db2 key = latest (h_buffer h1) (db_events db1 key @ [\<lparr>se_id = h_last_event_id h1 + 1, se_payload = done_payload,
           se_fence = Some (h_fence h1), se_terminal = Some True\<rparr>])"
      using append_now_done [OF a(2,4) h1(1) room(2,3)] by blast
    have "done_is_newest db2 key (h_fence h)" using last_latest [OF room(1)] h1(2) by (simp add: done_is_newest_def b)
    moreover have "handles i r ?h2" using handles_keeps [OF assms(2) a(3)] by (simp add: handles_def)
    moreover have "append_terminal_error i c key r message code retryable db = (None, db2)"
      using False a(1,6) b(1) stream by (simp add: append_terminal_error_def Let_def)
    ultimately show ?thesis
      using transition_owner [OF b(2), of i r st c None "Some code" "Some er" http "h_fence h"] assms(5) h1 by (simp add: end_with_error_def False)
  qed
qed

lemma load_running:
  assumes "run_at db key = Some h"
  shows "\<exists>cur. load_handle now key db = Inr cur \<and> hd_hash cur = h"
  using assms by (simp add: load_handle_def Let_def)

lemma end_returned_ends:
  assumes "run_at db key = Some h" "handles i r h" "h_status h = Running" "h_kind h = Stream" "hd_hash cur = h"
    and "h_terminal_emitted h \<or> room_for_done i db key r h"
  shows "\<exists>db'. end_returned i c key r cur result db = (None, db')
    \<and> ended_as db' key (if h_stream_failed h then Failed else Completed) (h_fence h)
    \<and> (h_terminal_emitted h \<and> \<not> done_is_newest db key (h_fence h) \<or> done_is_newest db' key (h_fence h))"
proof (cases "h_terminal_emitted h")
  case True
  have "terminal_state (if h_stream_failed h then Failed else Completed)" by (simp add: terminal_state_def)
  from transition_owner [OF assms(1-3) this, of c result "opt_text (h_error_code h)" "opt_text (h_error h)" "h_http_status h" "h_fence h"] True
  show ?thesis by (auto simp: end_returned_def assms(5) Let_def)
next
  case False
  then have room: "0 < h_buffer h" "db_dedupe db key (done_key r) = None" "\<not> too_large i done_payload"
    using assms(6) by (auto simp: room_for_done_def)
  let ?h1 = "h\<lparr>h_last_event_id := h_last_event_id h + 1, h_terminal_emitted := True\<rparr>"
  obtain e r1 db1 where a: "append_now i c key r done_payload (done_key r) db = (Inr (e, r1), db1)" "run_at db1 key = Some ?h1"
    "db_events db1 key = latest (h_buffer h) (db_events db key @
       [\<lparr>se_id = h_last_event_id h + 1, se_payload = done_payload, se_fence = Some (h_fence h), se_terminal = Some True\<rparr>])"
    using append_now_done [OF assms(1-3) room(2,3)] by blast
  have newest: "done_is_newest db1 key (h_fence h)" using last_latest [OF room(1)] by (simp add: done_is_newest_def a)
  have user: "h_user_id (hd_hash r) = h_user_id h" using assms(2) by (simp add: handles_def)
  obtain again where g: "get_handle (cc_now c) key (opt_text (h_user_id (hd_hash r))) db1 = Inr again" "hd_hash again = ?h1"
    using load_running [OF a(2), of "cc_now c"] by (auto simp: get_handle_def user opt_text_def bind_res_def Let_def)
  have "handles i r ?h1" "terminal_state (if h_stream_failed h then Failed else Completed)"
    using assms(2) by (auto simp: handles_def terminal_state_def)
  then have "\<exists>db'. transition_now i c key r (if h_stream_failed h then Failed else Completed) result (opt_text (h_error_code ?h1))
      (opt_text (h_error ?h1)) (h_http_status ?h1) db1 = (None, db')
    \<and> ended_as db' key (if h_stream_failed h then Failed else Completed) (h_fence ?h1)
    \<and> done_is_newest db' key (h_fence h) = done_is_newest db1 key (h_fence h)"
    using transition_owner [OF a(2), of i r "if h_stream_failed h then Failed else Completed"] assms(3) by simp
  then show ?thesis using a(1) g assms(2,4,5) False newest by (auto simp: end_returned_def handles_def Let_def)
qed

text \<open>The state that an execution ends in.\<close>

definition final_status :: "execution \<Rightarrow> run_hash \<Rightarrow> run_status" where
  "final_status x h =
     (case x of
        ProducerReturned _ \<Rightarrow> if h_stream_failed h then Failed else Completed
      | ProducerTimeout \<Rightarrow> TimedOut
      | ExecutionCancelled _ \<Rightarrow> Cancelled
      | ProducerHttp _ _ \<Rightarrow> Failed
      | ProducerRaised \<Rightarrow> Failed)"

text \<open>An instance that owns the run of the samples.\<close>

definition sample_instance :: redis_instance where
  "sample_instance = \<lparr>ri_instance_id = ''two'', ri_key_prefix = ''ratsnest'', ri_max_concurrent = 1, ri_max_queued = 4,
     ri_default_timeout = 60, ri_heartbeat_seconds = 10, ri_buffer = 2, ri_max_event_bytes = 1000, ri_retention_seconds = 60,
     ri_lease_seconds = 3, ri_stream_block_ms = 1000, ri_outbox_maxlen = 1000\<rparr>"

definition ending_context :: call_context where
  "ending_context = \<lparr>cc_now = 1500, cc_timestamp = ''now'', cc_audit_id = ''id'', cc_audit = (\<lambda>_. [])\<rparr>"

definition sample_handle :: run_handle where
  "sample_handle = (case load_handle 1000 ''k'' sample_running of Inr r \<Rightarrow> r)"

text \<open>
  C24: an execution that still owns its running stream run, whose handle knows whether the stream has
  its \<open>DONE\<close> marker, and which is not stopped by the shutdown of its instance, ends the run whatever
  the outcome of its producer (it returns, times out, is cancelled, raises): with no other script in
  between, the run is in the state of that outcome.  If the stream had no \<open>DONE\<close> marker, the newest
  event is then the marker of the owner's fence, which subscribers deliver as the end, provided that
  the buffer and the size limit have room for it and that the key reserved for it has not been used;
  and so it is if the producer returns after it has written the marker itself as its last event.
  (Nothing is said of the marker when the producer fails after it has written one.)
\<close>

theorem owner_ends_stream:
  assumes "redis_reachable db" "run_at db key = Some h" "handles i r h" "h_terminal_emitted (hd_hash r) = h_terminal_emitted h"
    and "h_status h = Running" "h_kind h = Stream" "h_terminal_emitted h \<or> room_for_done i db key r h" "x \<noteq> ExecutionCancelled True"
  shows "\<exists>db'. execute_end i show_g c key r x db = (None, db') \<and> ended_as db' key (final_status x h) (h_fence h)
    \<and> (\<not> h_terminal_emitted h \<longrightarrow> done_is_newest db' key (h_fence h))
    \<and> (done_is_newest db key (h_fence h) \<and> (\<exists>result. x = ProducerReturned result) \<longrightarrow> done_is_newest db' key (h_fence h))"
proof -
  obtain cur where cur: "load_handle (cc_now c) key db = Inr cur" "hd_hash cur = h" using load_running [OF assms(2)] by blast
  have sup: "\<not> superseded i r cur" using assms(3,5) cur(2) by (simp add: superseded_def handles_def)
  have nt: "\<not> terminal_state (h_status h)" using assms(5) by (simp add: terminal_state_def)
  have "key_ok db key" using reachable_inv [OF assms(1)] by (simp add: redis_inv_def)
  then have dd: "\<forall>k s. db_dedupe db key k = Some (ResponseIdentity s) \<longrightarrow> is_response_key k"
    using assms(2) by (auto simp: key_ok_def run_ok_def)
  note err = end_with_error_ends [OF assms(2,3,5,6) _ dd, unfolded assms(4), OF _ assms(7), where c = c]
  note ret = end_returned_ends [OF assms(2,3,5,6) cur(2) assms(7), where c = c]
  show ?thesis
  proof (cases x)
    case (ProducerReturned result)
    then show ?thesis using ret [of result] cur(1) sup by (auto simp: execute_end_def final_status_def)
  next
    case ProducerTimeout
    then show ?thesis using err [of TimedOut] cur sup by (simp add: execute_end_def final_status_def terminal_state_def) blast
  next
    case (ExecutionCancelled b)
    then show ?thesis using err [of Cancelled] cur sup nt assms(8)
      by (simp add: execute_end_def final_status_def) (simp add: terminal_state_def, blast)
  next
    case (ProducerHttp detail http)
    then show ?thesis using err [of Failed] cur sup by (simp add: execute_end_def final_status_def terminal_state_def) blast
  next
    case ProducerRaised
    then show ?thesis using err [of Failed] cur sup by (simp add: execute_end_def raised_end_def final_status_def terminal_state_def) blast
  qed
qed


lemma sample_handle_hash:
  "\<exists>h. run_at sample_running ''k'' = Some h \<and> hd_hash sample_handle = h \<and> h_owner h = ''two'' \<and> h_status h = Running
     \<and> h_kind h = Stream \<and> h_buffer h = 2 \<and> \<not> h_terminal_emitted h \<and> h_fence h = 2"
  using sample_running_at by (simp add: sample_handle_def load_handle_def new_run_def sample_args_def Let_def)

theorem owner_ends_stream_witness:
  "let db = snd (execute_end sample_instance (\<lambda>_. ''60'') ending_context ''k'' sample_handle ProducerTimeout sample_running)
   in ended_as db ''k'' TimedOut 2 \<and> done_is_newest db ''k'' 2"
proof -
  obtain h where h: "run_at sample_running ''k'' = Some h" "hd_hash sample_handle = h" "h_owner h = ''two''" "h_status h = Running"
    "h_kind h = Stream" "h_buffer h = 2" "\<not> h_terminal_emitted h" "h_fence h = 2"
    using sample_handle_hash by blast
  have own: "handles sample_instance sample_handle h" using h(2,3) by (simp add: handles_def sample_instance_def)
  have "\<not> too_large sample_instance done_payload" by code_simp
  then have room: "room_for_done sample_instance sample_running ''k'' sample_handle h" using h(6) by (simp add: room_for_done_def)
  have "h_terminal_emitted (hd_hash sample_handle) = h_terminal_emitted h" by (simp add: h(2))
  from owner_ends_stream [OF sample_running_reachable h(1) own this h(4,5) disjI2 [OF room], of ProducerTimeout "\<lambda>_. ''60''" ending_context] h(7)
  show ?thesis using h(8) by (auto simp: final_status_def)
qed

text \<open>
  Taking a run over clears its error but not the mark of a failed stream, so the next owner,
  whose producer returns, still ends the run as failed, without an error.
\<close>

lemma takeover_keeps_stream_failed:
  assumes "run_at db key = Some h" "create_or_get now key a db = ((2, f), db')"
  shows "\<exists>h'. run_at db' key = Some h' \<and> h_stream_failed h' = h_stream_failed h \<and> h_error_code h' = [] \<and> h_error h' = []
    \<and> final_status (ProducerReturned result) h' = (if h_stream_failed h then Failed else Completed)"
proof -
  have "db' = take_over now key a h db"
    using assms by (auto simp: create_or_get_def split: if_splits)
  then show ?thesis by (simp add: final_status_def take_over_def hset_def hincr_def zadd_active_def zrem_running_def
      xadd_lifecycle_def xadd_audit_def Let_def)
qed

end
