(* ===== verification/Design_Closure.thy ===== *)
theory Design_Closure
  imports Regex Sha256 Harness
begin

text \<open>
  \<open>orchestration/design_closure.py\<close> and the two functions of \<open>orchestration/pipeline.py\<close> that
  write and check its manifest: the content-addressed closure of a bill of components over
  installed libraries, and the comparison of the designed connectivity with the netlist that
  KiCad exports.

  The library lookups are arguments, as in the code.  The disk is a function from paths to
  files.  A time is the text of its \<open>isoformat\<close>; how the contract library writes a time into
  JSON is an argument.
\<close>

named_theorems closure_defs \<open>operations of the closure\<close>

section \<open>Canonical JSON\<close>

text \<open>\<open>json.dumps(v, ensure_ascii=False, separators=(",", ":"), sort_keys=True)\<close>.\<close>

fun json_canonical :: "pyval \<Rightarrow> string" where
  "json_canonical PNone = ''null''"
| "json_canonical (PBool b) = (if b then ''true'' else ''false'')"
| "json_canonical (PInt i) = int_str i"
| "json_canonical (PStr t) = json_plain t"
| "json_canonical (PList xs) = ''['' @ join '','' (map json_canonical xs) @ '']''"
| "json_canonical (PDict d) =
     ''{'' @ join '','' (map (\<lambda>(k, w). json_plain k @ '':'' @ w) (sort_key fst (map (\<lambda>(k, v). (k, json_canonical v)) d))) @ ''}''"

definition canonical_digest :: "pyval \<Rightarrow> string" where
  "canonical_digest v = sha256 (utf8_bytes (json_canonical v))"

section \<open>The disk and library evidence\<close>

record disk_file =
  df_bytes :: string
  df_mtime :: int

type_synonym disk = "string \<Rightarrow> disk_file option"

datatype evidence_kind = SymbolFile | FootprintFile

fun kind_value :: "evidence_kind \<Rightarrow> string" where
  "kind_value SymbolFile = ''symbol''"
| "kind_value FootprintFile = ''footprint''"

record library_evidence =
  le_kind :: evidence_kind
  le_lib_id :: string
  le_source_path :: string
  le_sha256 :: string
  le_size :: int
  le_modified :: int
  le_observed :: string

definition evidence_ok :: "library_evidence \<Rightarrow> bool" where
  "evidence_ok e \<longleftrightarrow> bounded 3 240 (le_lib_id e) \<and> bounded 1 2000 (le_source_path e) \<and> digest_pattern (le_sha256 e)
     \<and> 0 \<le> le_size e \<and> 0 \<le> le_modified e"

record pin_pad_binding =
  pb_pin :: string
  pb_name :: string
  pb_pad :: string

definition binding_ok :: "pin_pad_binding \<Rightarrow> bool" where
  "binding_ok b \<longleftrightarrow> bounded 1 32 (pb_pin b) \<and> length (pb_name b) \<le> 120 \<and> bounded 1 32 (pb_pad b) \<and> pb_pin b = pb_pad b"

section \<open>Closure of one component\<close>

record closure_entry =
  ce_ref :: string
  ce_identity :: string
  ce_mode :: string
  ce_provenance :: string
  ce_status :: string
  ce_symbol :: string
  ce_footprint :: string
  ce_pins :: "string list"
  ce_pads :: "string list"
  ce_bindings :: "pin_pad_binding list"
  ce_evidence :: "library_evidence list"
  ce_release_ready :: bool
  ce_blockers :: "string list"

text \<open>The bounds of the fields, and the validator that relates them.\<close>

definition entry_fields_ok :: "closure_entry \<Rightarrow> bool" where
  "entry_fields_ok e \<longleftrightarrow> bounded 1 32 (ce_ref e) \<and> bounded 1 200 (ce_identity e) \<and> bounded 1 32 (ce_mode e)
     \<and> bounded 1 240 (ce_provenance e) \<and> bounded 1 64 (ce_status e) \<and> bounded 3 200 (ce_symbol e) \<and> bounded 3 240 (ce_footprint e)
     \<and> length (ce_pins e) \<le> 512 \<and> length (ce_pads e) \<le> 512 \<and> length (ce_bindings e) \<le> 512 \<and> length (ce_evidence e) \<le> 8
     \<and> length (ce_blockers e) \<le> 32"

definition entry_consistent :: "closure_entry \<Rightarrow> bool" where
  "entry_consistent e \<longleftrightarrow>
     (let mapped = set (map pb_pin (ce_bindings e))
      in \<not> ((mapped \<noteq> set (ce_pins e) \<or> \<not> mapped \<subseteq> set (ce_pads e)) \<and> ce_release_ready e)
         \<and> \<not> (ce_release_ready e \<and> (ce_blockers e \<noteq> [] \<or> length (ce_evidence e) \<noteq> 2))
         \<and> ce_release_ready e = (ce_blockers e = []))"

record selected_part =
  sp_ref :: string
  sp_symbol :: string
  sp_value :: string
  sp_footprint :: string
  sp_binding_status :: string
  sp_identity :: string
  sp_mode :: string
  sp_provenance :: string

record component_resolution =
  res_ref :: string
  res_status :: string
  res_identity :: string
  res_release_ready :: bool
  res_reason :: string
  res_mode :: string
  res_provenance :: string

datatype closure_error = ContractViolation string | ManifestDigestInvalid | AmbiguousDesign | ExportFailed

text \<open>The arguments of the builder: library lookups, path resolution, \<open>str\<close> of containers.\<close>

record closure_libs =
  cl_symbol_pins :: "string \<Rightarrow> pydict list option"
  cl_footprint_pads :: "string \<Rightarrow> pydict list option"
  cl_symbol_path :: "string \<Rightarrow> string option"
  cl_footprint_path :: "string \<Rightarrow> string option"
  cl_resolve :: "string \<Rightarrow> string"
  cl_str :: "pyval \<Rightarrow> string"

text \<open>\<open>{item.ref: item for item in closure.resolutions}.get(ref)\<close>: the last one counts.\<close>

definition resolution_of :: "component_resolution list \<Rightarrow> string \<Rightarrow> component_resolution option" where
  "resolution_of rs r = map_of (rev (map (\<lambda>x. (res_ref x, x)) rs)) r"

definition source_evidence ::
    "closure_libs \<Rightarrow> disk \<Rightarrow> evidence_kind \<Rightarrow> string \<Rightarrow> string option \<Rightarrow> string \<Rightarrow> closure_error + library_evidence list" where
  "source_evidence l d kind lib_id path t =
     (case path of
        None \<Rightarrow> Inr []
      | Some p \<Rightarrow>
          (case d p of
             None \<Rightarrow> Inr []
           | Some f \<Rightarrow>
               (let e = \<lparr>le_kind = kind, le_lib_id = lib_id, le_source_path = cl_resolve l p, le_sha256 = sha256 (df_bytes f),
                         le_size = int (length (df_bytes f)), le_modified = df_mtime f, le_observed = t\<rparr>
                in if evidence_ok e then Inr [e] else Inl (ContractViolation ''evidence''))))"

definition row_text :: "closure_libs \<Rightarrow> string \<Rightarrow> pydict \<Rightarrow> string" where
  "row_text l k row = strip (py_str_by (cl_str l) (get_or row k (PStr [])))"

definition numbers :: "closure_libs \<Rightarrow> pydict list option \<Rightarrow> string list" where
  "numbers l rows =
     (case rows of None \<Rightarrow> [] | Some rs \<Rightarrow> sorted_set (filter (\<lambda>n. n \<noteq> []) (map (row_text l ''number'') rs)))"

text \<open>The name of a pin number; the last row of the number wins.\<close>

definition pin_names :: "closure_libs \<Rightarrow> pydict list option \<Rightarrow> (string \<times> string) list" where
  "pin_names l rows =
     (case rows of
        None \<Rightarrow> []
      | Some rs \<Rightarrow> fold (\<lambda>row d. AList.update (row_text l ''number'' row) (row_text l ''name'' row) d)
                    (filter (\<lambda>row. row_text l ''number'' row \<noteq> []) rs) [])"

definition connector_with_extra_pads :: "selected_part \<Rightarrow> string list \<Rightarrow> string list \<Rightarrow> bool" where
  "connector_with_extra_pads part pins pads \<longleftrightarrow>
     (startswith (sp_symbol part) ''Connector:'' \<or> startswith (sp_symbol part) ''Connector_Generic:'') \<and> set pins \<subseteq> set pads"

text \<open>The pads and the file of a footprint, if the part has one.\<close>

definition pads_of :: "closure_libs \<Rightarrow> selected_part \<Rightarrow> pydict list option" where
  "pads_of l part = (if sp_footprint part \<noteq> [] then cl_footprint_pads l (sp_footprint part) else None)"

definition footprint_source :: "closure_libs \<Rightarrow> selected_part \<Rightarrow> string option" where
  "footprint_source l part = (if sp_footprint part \<noteq> [] then cl_footprint_path l (sp_footprint part) else None)"

definition closure_blockers ::
    "closure_libs \<Rightarrow> selected_part \<Rightarrow> component_resolution option \<Rightarrow> library_evidence list \<Rightarrow> string list" where
  "closure_blockers l part res evidence =
     (let pin_rows = cl_symbol_pins l (sp_symbol part);
          pad_rows = pads_of l part; pins = numbers l pin_rows; pads = numbers l pad_rows
      in (if res = None then [''resolution_missing''] else [])
         @ (if pin_rows = None then [''symbol_not_installed''] else [])
         @ (if sp_footprint part = [] then [''footprint_missing'']
            else if pad_rows = None then [''footprint_not_installed''] else [])
         @ (if sp_binding_status part \<noteq> ''verified_installed'' then [''footprint_binding_unverified''] else [])
         @ (if pin_rows \<noteq> None \<and> pad_rows \<noteq> None \<and> pins \<noteq> pads \<and> \<not> connector_with_extra_pads part pins pads
            then [''pin_pad_mapping_incomplete''] else [])
         @ (if \<exists>e \<in> set evidence. le_kind e = SymbolFile then [] else [''symbol_evidence_missing''])
         @ (if \<exists>e \<in> set evidence. le_kind e = FootprintFile then [] else [''footprint_evidence_missing''])
         @ (case res of Some r \<Rightarrow> if res_release_ready r then [] else [''resolver:'' @ res_reason r] | None \<Rightarrow> []))"

definition make_bindings :: "closure_libs \<Rightarrow> pydict list option \<Rightarrow> string list \<Rightarrow> string list \<Rightarrow> closure_error + pin_pad_binding list" where
  "make_bindings l pin_rows pins pads =
     (let names = pin_names l pin_rows;
          bs = map (\<lambda>n. \<lparr>pb_pin = n, pb_name = (case map_of names n of None \<Rightarrow> [] | Some x \<Rightarrow> x), pb_pad = n\<rparr>)
                 (filter (\<lambda>n. n \<in> set pads) pins)
      in if list_all binding_ok bs then Inr bs else Inl (ContractViolation ''binding''))"

definition make_entry ::
    "closure_libs \<Rightarrow> component_resolution option \<Rightarrow> selected_part \<Rightarrow> pin_pad_binding list \<Rightarrow> library_evidence list \<Rightarrow> closure_entry" where
  "make_entry l res part bindings evidence =
     (let blockers = closure_blockers l part res evidence
      in \<lparr>ce_ref = sp_ref part,
          ce_identity = str_or (case res of Some r \<Rightarrow> res_identity r | None \<Rightarrow> []) (str_or (sp_identity part) (sp_value part)),
          ce_mode = str_or (case res of Some r \<Rightarrow> res_mode r | None \<Rightarrow> sp_mode part) ''capability_only'',
          ce_provenance = str_or (case res of Some r \<Rightarrow> res_provenance r | None \<Rightarrow> sp_provenance part) ''selection_proposal'',
          ce_status = (case res of Some r \<Rightarrow> res_status r | None \<Rightarrow> ''missing''),
          ce_symbol = sp_symbol part, ce_footprint = str_or (sp_footprint part) ''missing:missing'',
          ce_pins = numbers l (cl_symbol_pins l (sp_symbol part)), ce_pads = numbers l (pads_of l part),
          ce_bindings = bindings, ce_evidence = evidence,
          ce_release_ready = (blockers = []), ce_blockers = dedup blockers\<rparr>)"

definition close_component ::
    "closure_libs \<Rightarrow> disk \<Rightarrow> string \<Rightarrow> component_resolution list \<Rightarrow> selected_part \<Rightarrow> closure_error + closure_entry" where
  "close_component l d t resolutions part =
     (let pin_rows = cl_symbol_pins l (sp_symbol part)
      in bind_res (make_bindings l pin_rows (numbers l pin_rows) (numbers l (pads_of l part))) (\<lambda>bindings.
         bind_res (source_evidence l d SymbolFile (sp_symbol part) (cl_symbol_path l (sp_symbol part)) t) (\<lambda>ev1.
         bind_res (source_evidence l d FootprintFile (sp_footprint part) (footprint_source l part) t) (\<lambda>ev2.
           let e = make_entry l (resolution_of resolutions (sp_ref part)) part bindings (ev1 @ ev2)
           in if \<not> entry_fields_ok e then Inl (ContractViolation ''entry'')
              else if \<not> entry_consistent e then Inl (ContractViolation ''consistency'') else Inr e))))"

section \<open>The manifest\<close>

record closure_manifest =
  cm_generated_at :: string
  cm_components :: "closure_entry list"
  cm_release_ready :: bool
  cm_blockers :: "string list"
  cm_sha256 :: string

definition evidence_dump :: "(string \<Rightarrow> string) \<Rightarrow> library_evidence \<Rightarrow> pyval" where
  "evidence_dump dt e =
     PDict [(''kind'', PStr (kind_value (le_kind e))), (''lib_id'', PStr (le_lib_id e)), (''source_path'', PStr (le_source_path e)),
            (''sha256'', PStr (le_sha256 e)), (''size_bytes'', PInt (le_size e)), (''modified_ns'', PInt (le_modified e)),
            (''observed_at'', PStr (dt (le_observed e)))]"

definition binding_dump :: "pin_pad_binding \<Rightarrow> pyval" where
  "binding_dump b = PDict [(''pin_number'', PStr (pb_pin b)), (''pin_name'', PStr (pb_name b)), (''pad_number'', PStr (pb_pad b))]"

definition entry_dump :: "(string \<Rightarrow> string) \<Rightarrow> closure_entry \<Rightarrow> pyval" where
  "entry_dump dt e =
     PDict [(''ref'', PStr (ce_ref e)), (''requested_identity'', PStr (ce_identity e)), (''identity_mode'', PStr (ce_mode e)),
            (''identity_provenance'', PStr (ce_provenance e)), (''resolution_status'', PStr (ce_status e)),
            (''symbol_lib_id'', PStr (ce_symbol e)), (''footprint_lib_id'', PStr (ce_footprint e)),
            (''symbol_pin_numbers'', PList (map PStr (ce_pins e))), (''footprint_pad_numbers'', PList (map PStr (ce_pads e))),
            (''pin_pad_bindings'', PList (map binding_dump (ce_bindings e))),
            (''evidence'', PList (map (evidence_dump dt) (ce_evidence e))),
            (''release_ready'', PBool (ce_release_ready e)), (''blockers'', PList (map PStr (ce_blockers e)))]"

definition manifest_payload_of :: "(string \<Rightarrow> string) \<Rightarrow> string \<Rightarrow> closure_entry list \<Rightarrow> bool \<Rightarrow> string list \<Rightarrow> pyval" where
  "manifest_payload_of dt generated es ready blockers =
     PDict [(''schema_version'', PStr ''ratsnestpro.component-closure.v1''), (''generated_at'', PStr generated),
            (''components'', PList (map (entry_dump dt) es)), (''release_ready'', PBool ready), (''blockers'', PList (map PStr blockers))]"

definition component_blockers :: "closure_entry list \<Rightarrow> string list" where
  "component_blockers es = concat (map (\<lambda>e. map (\<lambda>b. ce_ref e @ '':'' @ b) (ce_blockers e)) es)"

text \<open>The contract of the manifest, with what its validator raises.\<close>

definition check_manifest :: "(string \<Rightarrow> string) \<Rightarrow> closure_manifest \<Rightarrow> closure_error + closure_manifest" where
  "check_manifest dt m =
     (if \<not> (bounded 1 1000 (cm_components m) \<and> length (cm_blockers m) \<le> 4000 \<and> digest_pattern (cm_sha256 m))
      then Inl (ContractViolation ''manifest'')
      else if \<not> list_all entry_fields_ok (cm_components m) \<or> \<not> list_all entry_consistent (cm_components m)
      then Inl (ContractViolation ''entry'')
      else if cm_blockers m \<noteq> component_blockers (cm_components m) then Inl (ContractViolation ''blockers'')
      else if cm_release_ready m \<noteq> (cm_blockers m = []) then Inl (ContractViolation ''release_ready'')
      else if cm_sha256 m \<noteq> canonical_digest (manifest_payload_of dt (dt (cm_generated_at m)) (cm_components m)
                               (cm_release_ready m) (cm_blockers m))
      then Inl ManifestDigestInvalid
      else Inr m)"

text \<open>\<open>timestamp.isoformat().replace("+00:00", "Z")\<close>.\<close>

fun utc_z :: "string \<Rightarrow> string" where
  "utc_z [] = []"
| "utc_z (c # cs) = (if startswith (c # cs) ''+00:00'' then ''Z'' @ utc_z (drop 5 cs) else c # utc_z cs)"

definition build_component_closure_manifest ::
    "(string \<Rightarrow> string) \<Rightarrow> closure_libs \<Rightarrow> disk \<Rightarrow> string \<Rightarrow> component_resolution list \<Rightarrow> selected_part list
       \<Rightarrow> closure_error + closure_manifest" where
  "build_component_closure_manifest dt l d t resolutions parts =
     bind_res (map_res (close_component l d t resolutions) parts) (\<lambda>es.
       let blockers = component_blockers es;
           payload = manifest_payload_of dt (utc_z t) es (blockers = []) blockers
       in check_manifest dt \<lparr>cm_generated_at = t, cm_components = es, cm_release_ready = (blockers = []),
            cm_blockers = blockers, cm_sha256 = canonical_digest payload\<rparr>)"

section \<open>Freshness\<close>

record freshness_report =
  fr_current :: bool
  fr_stale :: "string list"
  fr_metadata :: "string list"

definition evidence_label :: "closure_entry \<Rightarrow> library_evidence \<Rightarrow> string" where
  "evidence_label e v = ce_ref e @ '':'' @ kind_value (le_kind v) @ '':'' @ le_lib_id v"

definition stale_reason :: "disk \<Rightarrow> library_evidence \<Rightarrow> string option" where
  "stale_reason d v =
     (case d (le_source_path v) of
        None \<Rightarrow> Some '':source_missing''
      | Some f \<Rightarrow>
          if sha256 (df_bytes f) \<noteq> le_sha256 v then Some '':sha256_changed''
          else if int (length (df_bytes f)) \<noteq> le_size v then Some '':size_changed''
          else None)"

definition touched :: "disk \<Rightarrow> library_evidence \<Rightarrow> bool" where
  "touched d v \<longleftrightarrow> stale_reason d v = None \<and> (\<exists>f \<in> set_option (d (le_source_path v)). df_mtime f \<noteq> le_modified v)"

definition recorded_evidence :: "closure_manifest \<Rightarrow> (closure_entry \<times> library_evidence) list" where
  "recorded_evidence m = concat (map (\<lambda>e. map (\<lambda>v. (e, v)) (ce_evidence e)) (cm_components m))"

definition validate_component_closure_freshness :: "disk \<Rightarrow> closure_manifest \<Rightarrow> closure_error + freshness_report" where
  "validate_component_closure_freshness d m =
     (let stale = concat (map (\<lambda>(e, v). case stale_reason d v of None \<Rightarrow> [] | Some r \<Rightarrow> [evidence_label e v @ r]) (recorded_evidence m));
          meta = map (\<lambda>(e, v). evidence_label e v @ '':mtime_changed_content_equal'') (filter (\<lambda>(e, v). touched d v) (recorded_evidence m))
      in if length stale \<le> 4000 \<and> length meta \<le> 4000
         then Inr \<lparr>fr_current = (stale = []), fr_stale = stale, fr_metadata = meta\<rparr>
         else Inl (ContractViolation ''freshness''))"

text \<open>
  \<open>_component_closure_manifest_check\<close>, for the manifest that was read back: passing, the
  reason code, whether execution is blocked, and the references that are affected.
\<close>

datatype closure_verdict = ClosureVerdict bool bool string "string list"

definition before_colon :: "string \<Rightarrow> string" where
  "before_colon s = takeWhile (\<lambda>c. c \<noteq> CHR '':'') s"

definition closure_manifest_check ::
    "(string list \<Rightarrow> string) \<Rightarrow> disk \<Rightarrow> selected_part list \<Rightarrow> (closure_error + closure_manifest) option \<Rightarrow> closure_verdict" where
  "closure_manifest_check show_list d parts stored =
     (let refs = map sp_ref parts;
          invalid = ClosureVerdict False True ''component_closure_manifest_invalid'' refs
      in case stored of
           None \<Rightarrow> ClosureVerdict False True ''component_closure_manifest_missing'' refs
         | Some (Inl _) \<Rightarrow> invalid
         | Some (Inr m) \<Rightarrow>
             (case validate_component_closure_freshness d m of
                Inl _ \<Rightarrow> invalid
              | Inr fr \<Rightarrow>
                  (let manifest_refs = map ce_ref (cm_components m);
                       blockers = cm_blockers m @ fr_stale fr
                         @ (if set manifest_refs \<noteq> set refs
                            then [''selection_refs_changed:expected='' @ show_list (sorted_set refs) @ '',manifest=''
                                  @ show_list (sorted_set manifest_refs)] else []);
                       affected = sorted_set (filter (\<lambda>r. r \<in> set refs) (map before_colon blockers))
                   in ClosureVerdict (cm_release_ready m \<and> fr_current fr \<and> blockers = [])
                        (blockers \<noteq> [] \<or> \<not> cm_release_ready m)
                        (if blockers = [] then [] else ''component_closure_contract_failed'') affected)))"

section \<open>Connectivity\<close>

record pin_net_fact =
  pf_ref :: string
  pf_pin :: string
  pf_net :: string

record ambiguous_pin =
  ap_ref :: string
  ap_pin :: string
  ap_nets :: "string list"

record pin_net_set =
  ps_source :: string
  ps_sha256 :: string
  ps_facts :: "pin_net_fact list"
  ps_ambiguous :: "ambiguous_pin list"

record pin_net_diff =
  pd_matches :: bool
  pd_missing :: "pin_net_fact list"
  pd_extra :: "pin_net_fact list"
  pd_ambiguous :: "ambiguous_pin list"

type_synonym pin_row = "string \<times> string \<times> string"

definition fact_ok :: "pin_net_fact \<Rightarrow> bool" where
  "fact_ok f \<longleftrightarrow> bounded 1 32 (pf_ref f) \<and> bounded 1 32 (pf_pin f) \<and> bounded 1 100 (pf_net f)"

definition ambiguous_ok :: "ambiguous_pin \<Rightarrow> bool" where
  "ambiguous_ok a \<longleftrightarrow> bounded 1 32 (ap_ref a) \<and> bounded 1 32 (ap_pin a) \<and> bounded 2 32 (ap_nets a)"

definition root_net :: "string \<Rightarrow> string" where
  "root_net net = (if startswith net ''/'' then drop 1 net else net)"

text \<open>The row that counts, if it does.\<close>

definition usable_row :: "pin_row \<Rightarrow> pin_row option" where
  "usable_row row =
     (case row of
        (ref, pin, net) \<Rightarrow>
          if ref = [] \<or> startswith ref ''#'' \<or> pin = [] \<or> root_net net = [] then None else Some (ref, pin, root_net net))"

text \<open>\<open>by_pin.setdefault((ref, pin), set()).add(net)\<close>, with the set as a list without repetition.\<close>

definition add_row :: "pin_row \<Rightarrow> ((string \<times> string) \<times> string list) list \<Rightarrow> ((string \<times> string) \<times> string list) list" where
  "add_row row by_pin =
     (case usable_row row of
        None \<Rightarrow> by_pin
      | Some (ref, pin, net) \<Rightarrow>
          (let nets = (case map_of by_pin (ref, pin) of None \<Rightarrow> [] | Some ns \<Rightarrow> ns)
           in AList.update (ref, pin) (List.insert net nets) by_pin))"

definition make_pin_net_set :: "string \<Rightarrow> string \<Rightarrow> pin_row list \<Rightarrow> closure_error + pin_net_set" where
  "make_pin_net_set source digest rows =
     (let by_pin = sort_key fst (fold add_row rows []);
          ambiguous = map (\<lambda>((ref, pin), nets). \<lparr>ap_ref = ref, ap_pin = pin, ap_nets = sort nets\<rparr>)
                        (filter (\<lambda>(_, nets). length nets > 1) by_pin);
          facts = concat (map (\<lambda>((ref, pin), nets). map (\<lambda>net. \<lparr>pf_ref = ref, pf_pin = pin, pf_net = net\<rparr>) (sort nets)) by_pin)
      in if list_all ambiguous_ok ambiguous \<and> list_all fact_ok facts \<and> length facts \<le> 100000 \<and> length ambiguous \<le> 10000
            \<and> digest_pattern digest
         then Inr \<lparr>ps_source = source, ps_sha256 = digest, ps_facts = facts, ps_ambiguous = ambiguous\<rparr>
         else Inl (ContractViolation ''pin_net_set''))"

text \<open>The nets of a pin map (or, with the same shape, of a circuit IR).\<close>

type_synonym mapped_nets = "(string \<times> (string \<times> string) list) list"

definition design_rows :: "mapped_nets \<Rightarrow> pin_row list" where
  "design_rows nets = concat (map (\<lambda>(name, pins). map (\<lambda>(ref, number). (ref, number, name)) pins) nets)"

definition design_ir_pin_net_set :: "pyval \<Rightarrow> mapped_nets \<Rightarrow> closure_error + pin_net_set" where
  "design_ir_pin_net_set payload nets =
     bind_res (make_pin_net_set ''design_ir'' (canonical_digest payload) (design_rows nets))
       (\<lambda>ps. if ps_ambiguous ps \<noteq> [] then Inl AmbiguousDesign else Inr ps)"

text \<open>An XML netlist: the \<open>net\<close> elements below \<open>nets\<close>, each with its name and \<open>node\<close> elements.\<close>

record xml_node =
  xn_ref :: string
  xn_pin :: string
  xn_pintype :: string

record xml_net =
  xe_name :: string
  xe_nodes :: "xml_node list"

definition SYNTHETIC_UNCONNECTED :: rx where
  "SYNTHETIC_UNCONNECTED =
     Cat (ilit ''unconnected-('') (Cat (plus dot) (Cat (ilit ''-Pad'') (Cat (plus (Sat (\<lambda>c. c \<noteq> CHR '')''))) (lit '')''))))"

definition rx_fullmatch :: "rx \<Rightarrow> string \<Rightarrow> bool" where
  "rx_fullmatch r s = (\<exists>q \<in> set (rx_match r ([], s)). snd q = [])"

fun split_any :: "(char \<Rightarrow> bool) \<Rightarrow> string \<Rightarrow> string list" where
  "split_any P [] = [[]]"
| "split_any P (c # cs) =
     (if P c then [] # split_any P cs else (case split_any P cs of [] \<Rightarrow> [[c]] | w # ws \<Rightarrow> (c # w) # ws))"

definition explicit_no_connect :: "xml_net \<Rightarrow> bool" where
  "explicit_no_connect n =
     (case xe_nodes n of
        [node] \<Rightarrow> rx_fullmatch SYNTHETIC_UNCONNECTED (strip (xe_name n))
          \<and> ''no_connect'' \<in> set (map strip (split_any (\<lambda>c. c \<in> {CHR ''+'', CHR '','', CHR ''|''}) (lower (xn_pintype node))))
      | _ \<Rightarrow> False)"

definition netlist_rows :: "xml_net list \<Rightarrow> pin_row list" where
  "netlist_rows nets =
     concat (map (\<lambda>n. if explicit_no_connect n then []
                      else map (\<lambda>node. (strip (xn_ref node), strip (xn_pin node), strip (xe_name n))) (xe_nodes n)) nets)"

definition read_kicad_xml_pin_net_set :: "string \<Rightarrow> xml_net list \<Rightarrow> closure_error + pin_net_set" where
  "read_kicad_xml_pin_net_set bytes nets = make_pin_net_set ''kicad_xml_netlist'' (sha256 bytes) (netlist_rows nets)"

text \<open>
  The export: the exit code of the tool and, if it wrote the file, its bytes and its elements.
\<close>

definition export_kicad_pin_net_set :: "int \<Rightarrow> (string \<times> xml_net list) option \<Rightarrow> closure_error + pin_net_set" where
  "export_kicad_pin_net_set code written =
     (case written of
        None \<Rightarrow> Inl ExportFailed
      | Some (bytes, nets) \<Rightarrow> if code \<noteq> 0 then Inl ExportFailed else read_kicad_xml_pin_net_set bytes nets)"

definition fact_key :: "pin_net_fact \<Rightarrow> pin_row" where
  "fact_key f = (pf_ref f, pf_pin f, pf_net f)"

text \<open>\<open>[a[key] for key in sorted(a.keys() - b)]\<close> for the dictionaries by key.\<close>

definition facts_without :: "pin_net_fact list \<Rightarrow> pin_net_fact list \<Rightarrow> pin_net_fact list" where
  "facts_without a b =
     map (\<lambda>k. the (map_of (rev (map (\<lambda>f. (fact_key f, f)) a)) k))
       (sorted_set (filter (\<lambda>k. k \<notin> fact_key ` set b) (map fact_key a)))"

definition diff_pin_net_sets :: "pin_net_set \<Rightarrow> pin_net_set \<Rightarrow> pin_net_diff" where
  "diff_pin_net_sets expected actual =
     (let missing = facts_without (ps_facts expected) (ps_facts actual);
          extra = facts_without (ps_facts actual) (ps_facts expected)
      in \<lparr>pd_matches = (missing = [] \<and> extra = [] \<and> ps_ambiguous actual = []), pd_missing = missing, pd_extra = extra,
          pd_ambiguous = ps_ambiguous actual\<rparr>)"

end
