(* ===== verification/Closure_Facts.thy ===== *)
theory Closure_Facts
  imports Design_Closure
begin

text \<open>
  The comparison of connectivity is exact, and the closure of a bill of components is ready
  and stays current exactly when its evidence says so.
\<close>

section \<open>Connectivity\<close>

text \<open>The connections that a list of rows states.\<close>

definition connectivity :: "pin_row list \<Rightarrow> pin_row set" where
  "connectivity rows = {t. \<exists>row \<in> set rows. usable_row row = Some t}"

definition single_net :: "pin_row set \<Rightarrow> bool" where
  "single_net c \<longleftrightarrow> (\<forall>r p n n'. (r, p, n) \<in> c \<and> (r, p, n') \<in> c \<longrightarrow> n = n')"

text \<open>What the dictionary by pin holds after the rows seen so far.\<close>

definition by_pin_ok :: "pin_row set \<Rightarrow> ((string \<times> string) \<times> string list) list \<Rightarrow> bool" where
  "by_pin_ok c bp \<longleftrightarrow> distinct (map fst bp) \<and> (\<forall>(k, ns) \<in> set bp. distinct ns \<and> ns \<noteq> [])
     \<and> (\<forall>r p n. (r, p, n) \<in> c \<longleftrightarrow> (\<exists>ns. map_of bp (r, p) = Some ns \<and> n \<in> set ns))"

declare map_of_AList_update [simp]

lemma set_AList_upd: "x \<in> set (AList.update k v al) \<Longrightarrow> x = (k, v) \<or> x \<in> set al"
  by (induction al) (auto split: if_splits)

lemma add_row_ok:
  assumes "by_pin_ok c bp"
  shows "by_pin_ok (c \<union> set_option (usable_row row)) (add_row row bp)"
proof (cases "usable_row row")
  case None
  then show ?thesis using assms by (simp add: add_row_def)
next
  case (Some t)
  obtain r p n where t: "t = (r, p, n)" by (cases t)
  define ns where "ns = (case map_of bp (r, p) of None \<Rightarrow> [] | Some ns \<Rightarrow> ns)"
  have step: "add_row row bp = AList.update (r, p) (List.insert n ns) bp" by (simp add: add_row_def Some t ns_def)
  have ns: "distinct ns" using assms by (auto simp: ns_def by_pin_ok_def dest: map_of_SomeD split: option.splits)
  have old: "(r, p, m) \<in> c \<longleftrightarrow> m \<in> set ns" for m
    using assms by (auto simp: by_pin_ok_def ns_def split: option.splits)
  have "distinct (map fst (add_row row bp))" using assms by (simp add: step by_pin_ok_def distinct_update)
  moreover have "distinct ms \<and> ms \<noteq> []" if "(k, ms) \<in> set (add_row row bp)" for k ms
    using that set_AList_upd [of "(k, ms)" "(r, p)" "List.insert n ns" bp] assms ns
    by (auto simp: step by_pin_ok_def distinct_insert List.insert_def split: if_splits)
  moreover have "(r', p', m) \<in> c \<union> {(r, p, n)} \<longleftrightarrow> (\<exists>ms. map_of (add_row row bp) (r', p') = Some ms \<and> m \<in> set ms)" for r' p' m
    using assms old [of m] by (cases "(r', p') = (r, p)") (auto simp: step by_pin_ok_def)
  ultimately show ?thesis by (auto simp: by_pin_ok_def Some t)
qed

lemma fold_add_row:
  "by_pin_ok c bp \<Longrightarrow> by_pin_ok (c \<union> connectivity rows) (fold add_row rows bp)"
proof (induction rows arbitrary: c bp)
  case Nil
  then show ?case by (simp add: connectivity_def)
next
  case (Cons row rows)
  have "connectivity (row # rows) = set_option (usable_row row) \<union> connectivity rows"
    by (auto simp: connectivity_def)
  then show ?case using Cons.IH [OF add_row_ok [OF Cons.prems]] by (simp add: Un_assoc)
qed

lemma by_pin_facts:
  assumes "by_pin_ok c bp"
  shows "(r, p, n) \<in> c \<longleftrightarrow> (\<exists>ns. ((r, p), ns) \<in> set bp \<and> n \<in> set ns)"
  using assms map_of_eq_Some_iff [of bp "(r, p)"] by (auto simp: by_pin_ok_def)

lemma if_InrD: "(if P then Inr x else Inl e) = Inr z \<Longrightarrow> z = x"
  by (simp split: if_splits)

lemma set_keys_concat:
  "set (concat (map (\<lambda>((r, p), ns). map (\<lambda>n. (r, p, n)) (sort ns)) bp)) = (\<Union>((r, p), ns) \<in> set bp. (\<lambda>n. (r, p, n)) ` set ns)"
  by (induction bp) auto

lemma make_pin_net_set_spec:
  assumes "make_pin_net_set source digest rows = Inr ps"
  shows "fact_key ` set (ps_facts ps) = connectivity rows" "ps_ambiguous ps = [] \<longleftrightarrow> single_net (connectivity rows)"
proof -
  define bp where "bp = sort_key fst (fold add_row rows [])"
  have ok: "by_pin_ok (connectivity rows) (fold add_row rows [])"
    using fold_add_row [of "{}" "[]" rows] by (simp add: by_pin_ok_def)
  have mem: "(r, p, n) \<in> connectivity rows \<longleftrightarrow> (\<exists>ns. ((r, p), ns) \<in> set bp \<and> n \<in> set ns)" for r p n
    using by_pin_facts [OF ok] by (simp add: bp_def)
  have dist: "distinct (map fst bp)"
    using ok by (simp add: by_pin_ok_def bp_def distinct_map inj_on_def)
  note ps = if_InrD [OF assms [unfolded make_pin_net_set_def Let_def, folded bp_def]]
  have facts: "ps_facts ps = concat (map (\<lambda>((ref, pin), nets). map (\<lambda>net. \<lparr>pf_ref = ref, pf_pin = pin, pf_net = net\<rparr>) (sort nets)) bp)"
    unfolding ps by (rule pin_net_set.select_convs(3))
  have amb: "ps_ambiguous ps = map (\<lambda>((ref, pin), nets). \<lparr>ap_ref = ref, ap_pin = pin, ap_nets = sort nets\<rparr>)
        (filter (\<lambda>(_, nets). length nets > 1) bp)"
    unfolding ps by (rule pin_net_set.select_convs(4))
  have "map fact_key (ps_facts ps) = concat (map (\<lambda>((r, p), ns). map (\<lambda>n. (r, p, n)) (sort ns)) bp)"
    by (simp add: facts map_concat comp_def case_prod_unfold fact_key_def)
  from arg_cong [OF this, of set]
  have keys: "fact_key ` set (ps_facts ps) = (\<Union>((r, p), ns) \<in> set bp. (\<lambda>n. (r, p, n)) ` set ns)"
    by (simp only: set_keys_concat set_map)
  show "fact_key ` set (ps_facts ps) = connectivity rows"
  proof (rule set_eqI)
    fix t :: pin_row
    obtain r p n where t: "t = (r, p, n)" by (cases t)
    have "t \<in> fact_key ` set (ps_facts ps) \<longleftrightarrow> (\<exists>ns. ((r, p), ns) \<in> set bp \<and> n \<in> set ns)"
      unfolding keys t by fastforce
    then show "t \<in> fact_key ` set (ps_facts ps) \<longleftrightarrow> t \<in> connectivity rows" using mem by (simp add: t)
  qed
  have "ps_ambiguous ps = [] \<longleftrightarrow> (\<forall>(k, ns) \<in> set bp. length ns \<le> 1)"
    by (auto simp: amb filter_empty_conv)
  also have "\<dots> \<longleftrightarrow> single_net (connectivity rows)"
  proof
    assume le: "\<forall>(k, ns) \<in> set bp. length ns \<le> 1"
    show "single_net (connectivity rows)"
      unfolding single_net_def
    proof (intro allI impI, elim conjE)
      fix r p n n' assume "(r, p, n) \<in> connectivity rows" "(r, p, n') \<in> connectivity rows"
      then obtain ns ns' where ns: "((r, p), ns) \<in> set bp" "n \<in> set ns" and ns': "((r, p), ns') \<in> set bp" "n' \<in> set ns'"
        unfolding mem by blast
      have "ns' = ns" by (rule eq_key_imp_eq_value [OF dist ns'(1) ns(1)])
      moreover have "length ns \<le> 1" using le ns(1) by blast
      ultimately show "n = n'" using ns(2) ns'(2) by (cases ns; cases "tl ns") simp_all
    qed
  next
    assume single: "single_net (connectivity rows)"
    show "\<forall>(k, ns) \<in> set bp. length ns \<le> 1"
    proof clarify
      fix r p ns assume k: "((r, p), ns) \<in> set bp"
      have "\<forall>(k, ns) \<in> set bp. distinct ns" using ok by (auto simp: by_pin_ok_def bp_def)
      then have d: "distinct ns" using k by blast
      have eq: "n = n'" if "n \<in> set ns" "n' \<in> set ns" for n n'
        using single mem [of r p n] mem [of r p n'] k that unfolding single_net_def by blast
      show "length ns \<le> 1"
      proof (rule ccontr)
        assume "\<not> length ns \<le> 1"
        then obtain x y zs where "ns = x # y # zs" by (cases ns; cases "tl ns") auto
        then show False using d eq [of x y] by simp
      qed
    qed
  qed
  finally show "ps_ambiguous ps = [] \<longleftrightarrow> single_net (connectivity rows)" .
qed

lemma facts_without_keys:
  "map fact_key (facts_without a b) = sorted_set (filter (\<lambda>k. k \<notin> fact_key ` set b) (map fact_key a))"
proof -
  have "fact_key (the (map_of (rev (map (\<lambda>f. (fact_key f, f)) a)) k)) = k" if "k \<in> fact_key ` set a" for k
  proof -
    have "\<exists>f. map_of (rev (map (\<lambda>f. (fact_key f, f)) a)) k = Some f"
      using that by (metis (no_types, lifting) domD dom_map_of_conv_image_fst image_image image_set set_rev fst_conv list.set_map image_cong)
    then obtain f where "map_of (rev (map (\<lambda>f. (fact_key f, f)) a)) k = Some f" by blast
    then show ?thesis by (auto dest: map_of_SomeD)
  qed
  then show ?thesis unfolding facts_without_def map_map by (intro map_idI) simp
qed

text \<open>
  C30: the connectivity check is exact: the comparison of the designed pin map with the
  netlist that KiCad exports matches if and only if both connect the same pins to the same
  nets (marked no-connects and power symbols apart), and it reports as missing and as extra
  exactly the connections that only one of them has, each once and in order.
\<close>

theorem connectivity_verdict_exact:
  assumes "design_ir_pin_net_set payload nets = Inr expected" "read_kicad_xml_pin_net_set bytes xml = Inr actual"
  shows "(pd_matches (diff_pin_net_sets expected actual) \<longleftrightarrow> connectivity (design_rows nets) = connectivity (netlist_rows xml))
    \<and> fact_key ` set (pd_missing (diff_pin_net_sets expected actual)) = connectivity (design_rows nets) - connectivity (netlist_rows xml)
    \<and> fact_key ` set (pd_extra (diff_pin_net_sets expected actual)) = connectivity (netlist_rows xml) - connectivity (design_rows nets)
    \<and> sorted (map fact_key (pd_missing (diff_pin_net_sets expected actual)))
    \<and> distinct (map fact_key (pd_missing (diff_pin_net_sets expected actual)))
    \<and> sorted (map fact_key (pd_extra (diff_pin_net_sets expected actual)))
    \<and> distinct (map fact_key (pd_extra (diff_pin_net_sets expected actual)))"
proof -
  have e: "make_pin_net_set ''design_ir'' (canonical_digest payload) (design_rows nets) = Inr expected" "ps_ambiguous expected = []"
    using assms(1) by (auto simp: design_ir_pin_net_set_def bind_res_Inr_iff split: if_splits)
  note es = make_pin_net_set_spec [OF e(1)] and as = make_pin_net_set_spec [OF assms(2) [unfolded read_kicad_xml_pin_net_set_def]]
  have wo: "fact_key ` set (facts_without a b) = fact_key ` set a - fact_key ` set b" for a b
    using arg_cong [OF facts_without_keys [of a b], of set] by auto
  have "facts_without a b = [] \<longleftrightarrow> fact_key ` set a \<subseteq> fact_key ` set b" for a b
    using wo [of a b] by (metis Diff_eq_empty_iff empty_is_image set_empty)
  then show ?thesis using es as e(2) wo
    by (auto simp: diff_pin_net_sets_def Let_def facts_without_keys)
qed

section \<open>The manifest\<close>

text \<open>When a selected part is closed, in terms of the libraries and the disk.\<close>

definition on_disk :: "disk \<Rightarrow> string option \<Rightarrow> bool" where
  "on_disk d path = (case path of None \<Rightarrow> False | Some p \<Rightarrow> d p \<noteq> None)"

definition part_closed :: "closure_libs \<Rightarrow> disk \<Rightarrow> component_resolution list \<Rightarrow> selected_part \<Rightarrow> bool" where
  "part_closed l d resolutions part \<longleftrightarrow>
     (\<exists>r. resolution_of resolutions (sp_ref part) = Some r \<and> res_release_ready r)
     \<and> cl_symbol_pins l (sp_symbol part) \<noteq> None \<and> pads_of l part \<noteq> None
     \<and> sp_binding_status part = ''verified_installed''
     \<and> (let pins = numbers l (cl_symbol_pins l (sp_symbol part)); pads = numbers l (pads_of l part)
        in pins = pads \<or> connector_with_extra_pads part pins pads)
     \<and> on_disk d (cl_symbol_path l (sp_symbol part)) \<and> on_disk d (footprint_source l part)"

lemma source_evidence_cases:
  assumes "source_evidence l d kind lib path t = Inr ev"
  obtains "\<not> on_disk d path" "ev = []"
  | p f where "path = Some p" "d p = Some f" "ev = [\<lparr>le_kind = kind, le_lib_id = lib, le_source_path = cl_resolve l p,
      le_sha256 = sha256 (df_bytes f), le_size = int (length (df_bytes f)), le_modified = df_mtime f, le_observed = t\<rparr>]"
    "evidence_ok (hd ev)"
  using assms
  by (auto simp: source_evidence_def on_disk_def Let_def split: option.splits if_splits)

lemma close_component_cases:
  assumes "close_component l d t rs part = Inr e"
  obtains bs ev1 ev2 where
    "make_bindings l (cl_symbol_pins l (sp_symbol part)) (numbers l (cl_symbol_pins l (sp_symbol part))) (numbers l (pads_of l part)) = Inr bs"
    "source_evidence l d SymbolFile (sp_symbol part) (cl_symbol_path l (sp_symbol part)) t = Inr ev1"
    "source_evidence l d FootprintFile (sp_footprint part) (footprint_source l part) t = Inr ev2"
    "e = make_entry l (resolution_of rs (sp_ref part)) part bs (ev1 @ ev2)" "entry_fields_ok e" "entry_consistent e"
  using assms unfolding close_component_def Let_def bind_res_Inr_iff by (elim exE conjE) (auto split: if_splits)

lemma evidence_kinds:
  assumes "source_evidence l d SymbolFile a p t = Inr ev1" "source_evidence l d FootprintFile b q t = Inr ev2"
  shows "(\<exists>e \<in> set (ev1 @ ev2). le_kind e = SymbolFile) \<longleftrightarrow> on_disk d p"
    "(\<exists>e \<in> set (ev1 @ ev2). le_kind e = FootprintFile) \<longleftrightarrow> on_disk d q"
    "length (ev1 @ ev2) \<le> 2" "on_disk d p \<Longrightarrow> on_disk d q \<Longrightarrow> length (ev1 @ ev2) = 2"
    "list_all evidence_ok (ev1 @ ev2)"
proof -
  have "ev1 = [] \<and> \<not> on_disk d p \<or> (\<exists>x. ev1 = [x] \<and> le_kind x = SymbolFile \<and> evidence_ok x) \<and> on_disk d p"
    using source_evidence_cases [OF assms(1)] by (cases rule: source_evidence_cases [OF assms(1)]) (auto simp: on_disk_def)
  moreover have "ev2 = [] \<and> \<not> on_disk d q \<or> (\<exists>x. ev2 = [x] \<and> le_kind x = FootprintFile \<and> evidence_ok x) \<and> on_disk d q"
    by (cases rule: source_evidence_cases [OF assms(2)]) (auto simp: on_disk_def)
  ultimately show "(\<exists>e \<in> set (ev1 @ ev2). le_kind e = SymbolFile) \<longleftrightarrow> on_disk d p"
    "(\<exists>e \<in> set (ev1 @ ev2). le_kind e = FootprintFile) \<longleftrightarrow> on_disk d q"
    "length (ev1 @ ev2) \<le> 2" "on_disk d p \<Longrightarrow> on_disk d q \<Longrightarrow> length (ev1 @ ev2) = 2" "list_all evidence_ok (ev1 @ ev2)"
    by auto
qed

lemma no_blockers_iff:
  assumes "source_evidence l d SymbolFile (sp_symbol part) (cl_symbol_path l (sp_symbol part)) t = Inr ev1"
    and "source_evidence l d FootprintFile (sp_footprint part) (footprint_source l part) t = Inr ev2"
  shows "closure_blockers l part (resolution_of rs (sp_ref part)) (ev1 @ ev2) = [] \<longleftrightarrow> part_closed l d rs part"
proof -
  have b: "(if P then xs else ys) = [] \<longleftrightarrow> (if P then xs = [] else ys = [])" for P and xs ys :: "string list" by simp
  have r: "(case res of Some r \<Rightarrow> if res_release_ready r then [] else [''resolver:'' @ res_reason r] | None \<Rightarrow> []) = []
      \<longleftrightarrow> (\<forall>r. res = Some r \<longrightarrow> res_release_ready r)" for res by (cases res) auto
  show ?thesis
    unfolding closure_blockers_def Let_def append_is_Nil_conv b r evidence_kinds(1) [OF assms] evidence_kinds(2) [OF assms]
      part_closed_def
    by (auto simp: pads_of_def)
qed

lemma bindings_of:
  assumes "make_bindings l rows pins pads = Inr bs"
  shows "set (map pb_pin bs) = set pins \<inter> set pads" "list_all binding_ok bs"
  using assms by (auto simp: make_bindings_def Let_def image_iff split: if_splits)

text \<open>The validator that relates the fields of an entry never fails on an entry that is built.\<close>

lemma closed_is_consistent:
  assumes b: "make_bindings l (cl_symbol_pins l (sp_symbol part)) (numbers l (cl_symbol_pins l (sp_symbol part))) (numbers l (pads_of l part)) = Inr bs"
    and ev: "source_evidence l d SymbolFile (sp_symbol part) (cl_symbol_path l (sp_symbol part)) t = Inr ev1"
      "source_evidence l d FootprintFile (sp_footprint part) (footprint_source l part) t = Inr ev2"
  shows "entry_consistent (make_entry l (resolution_of rs (sp_ref part)) part bs (ev1 @ ev2))"
proof (cases "part_closed l d rs part")
  case True
  then have "closure_blockers l part (resolution_of rs (sp_ref part)) (ev1 @ ev2) = []" using no_blockers_iff [OF ev] by simp
  moreover have "set (numbers l (cl_symbol_pins l (sp_symbol part))) \<subseteq> set (numbers l (pads_of l part))"
    using True by (auto simp: part_closed_def connector_with_extra_pads_def Let_def)
  moreover have "length (ev1 @ ev2) = 2" using evidence_kinds(4) [OF ev] True by (simp add: part_closed_def)
  ultimately show ?thesis using bindings_of(1) [OF b] by (auto simp: entry_consistent_def make_entry_def Let_def)
next
  case False
  then have "closure_blockers l part (resolution_of rs (sp_ref part)) (ev1 @ ev2) \<noteq> []" using no_blockers_iff [OF ev] by simp
  then show ?thesis by (simp add: entry_consistent_def make_entry_def Let_def)
qed

lemma bind_res_Inl_iff: "bind_res x f = Inl e \<longleftrightarrow> x = Inl e \<or> (\<exists>y. x = Inr y \<and> f y = Inl e)"
  by (cases x) (auto simp: bind_res_def)

lemma close_component_errors:
  assumes "close_component l d t rs part = Inl err"
  shows "err \<in> {ContractViolation ''binding'', ContractViolation ''evidence'', ContractViolation ''entry''}"
proof -
  have s: "source_evidence l d k a p t = Inl x \<Longrightarrow> x = ContractViolation ''evidence''" for k a p x
    by (auto simp: source_evidence_def Let_def split: option.splits if_splits)
  have b: "make_bindings l rows pins pads = Inl x \<Longrightarrow> x = ContractViolation ''binding''" for rows pins pads x
    by (auto simp: make_bindings_def Let_def split: if_splits)
  let ?mb = "make_bindings l (cl_symbol_pins l (sp_symbol part)) (numbers l (cl_symbol_pins l (sp_symbol part))) (numbers l (pads_of l part))"
  let ?s1 = "source_evidence l d SymbolFile (sp_symbol part) (cl_symbol_path l (sp_symbol part)) t"
  let ?s2 = "source_evidence l d FootprintFile (sp_footprint part) (footprint_source l part) t"
  consider x where "?mb = Inl x" | bs x where "?mb = Inr bs" "?s1 = Inl x" | bs ev1 x where "?mb = Inr bs" "?s1 = Inr ev1" "?s2 = Inl x"
    | bs ev1 ev2 where "?mb = Inr bs" "?s1 = Inr ev1" "?s2 = Inr ev2"
    by (cases ?mb; cases ?s1; cases ?s2) blast+
  then show ?thesis
  proof cases
    case 1
    then show ?thesis using assms b [OF 1] by (simp add: close_component_def Let_def bind_res_def)
  next
    case 2
    then show ?thesis using assms s [OF 2(2)] by (simp add: close_component_def Let_def bind_res_def)
  next
    case 3
    then show ?thesis using assms s [OF 3(3)] by (simp add: close_component_def Let_def bind_res_def)
  next
    case 4
    then show ?thesis using assms closed_is_consistent [OF 4]
      by (simp add: close_component_def Let_def bind_res_def split: if_splits)
  qed
qed

text \<open>The result for one part: a well-formed entry whose readiness is that of the part.\<close>

definition entry_ok :: "closure_entry \<Rightarrow> bool" where
  "entry_ok e \<longleftrightarrow> entry_fields_ok e \<and> entry_consistent e \<and> list_all binding_ok (ce_bindings e) \<and> list_all evidence_ok (ce_evidence e)
     \<and> length (ce_evidence e) \<le> 2"

lemma close_component_spec:
  assumes "close_component l d t rs part = Inr e"
  shows "entry_ok e" "ce_ref e = sp_ref part" "ce_release_ready e \<longleftrightarrow> part_closed l d rs part" "ce_blockers e = [] \<longleftrightarrow> part_closed l d rs part"
proof -
  from close_component_cases [OF assms] obtain bs ev1 ev2 where c:
    "make_bindings l (cl_symbol_pins l (sp_symbol part)) (numbers l (cl_symbol_pins l (sp_symbol part))) (numbers l (pads_of l part)) = Inr bs"
    "source_evidence l d SymbolFile (sp_symbol part) (cl_symbol_path l (sp_symbol part)) t = Inr ev1"
    "source_evidence l d FootprintFile (sp_footprint part) (footprint_source l part) t = Inr ev2"
    "e = make_entry l (resolution_of rs (sp_ref part)) part bs (ev1 @ ev2)" "entry_fields_ok e" "entry_consistent e" by blast
  have f: "ce_bindings e = bs" "ce_evidence e = ev1 @ ev2" "ce_ref e = sp_ref part"
    "ce_release_ready e = (closure_blockers l part (resolution_of rs (sp_ref part)) (ev1 @ ev2) = [])"
    "ce_blockers e = dedup (closure_blockers l part (resolution_of rs (sp_ref part)) (ev1 @ ev2))"
    by (simp_all add: c(4) make_entry_def Let_def)
  show "entry_ok e" using c(5,6) bindings_of(2) [OF c(1)] evidence_kinds(3,5) [OF c(2,3)] f by (simp add: entry_ok_def)
  show "ce_ref e = sp_ref part" by (rule f(3))
  show "ce_release_ready e \<longleftrightarrow> part_closed l d rs part" "ce_blockers e = [] \<longleftrightarrow> part_closed l d rs part"
    using no_blockers_iff [OF c(2,3)] f by simp_all
qed

lemma map_res_Inr: "map_res f xs = Inr ys \<longleftrightarrow> list_all2 (\<lambda>x y. f x = Inr y) xs ys"
  by (induction xs arbitrary: ys) (auto simp: list_all2_Cons1 bind_res_Inr_iff)

lemma component_blockers_Nil: "component_blockers es = [] \<longleftrightarrow> (\<forall>e \<in> set es. ce_blockers e = [])"
  by (auto simp: component_blockers_def)

lemma all2_ball: "list_all2 P xs ys \<Longrightarrow> (\<And>x y. P x y \<Longrightarrow> Q y = R x) \<Longrightarrow> (\<forall>y \<in> set ys. Q y) \<longleftrightarrow> (\<forall>x \<in> set xs. R x)"
  by (induction rule: list_all2_induct) auto

lemma build_cases:
  assumes "build_component_closure_manifest dt l d t rs parts = Inr m"
  shows "list_all2 (\<lambda>part e. close_component l d t rs part = Inr e) parts (cm_components m)"
    "cm_release_ready m = (cm_blockers m = [])" "cm_blockers m = component_blockers (cm_components m)"
    "length (cm_components m) \<le> 1000" "check_manifest dt m = Inr m"
proof -
  obtain es where es: "map_res (close_component l d t rs) parts = Inr es"
    and c: "check_manifest dt \<lparr>cm_generated_at = t, cm_components = es, cm_release_ready = (component_blockers es = []),
        cm_blockers = component_blockers es,
        cm_sha256 = canonical_digest (manifest_payload_of dt (utc_z t) es (component_blockers es = []) (component_blockers es))\<rparr> = Inr m"
    using assms unfolding build_component_closure_manifest_def bind_res_Inr_iff Let_def by blast
  have chk: "check_manifest dt x = Inr y \<Longrightarrow> y = x \<and> bounded 1 1000 (cm_components x)" for x y
    unfolding check_manifest_def by (auto split: if_splits)
  note m = chk [OF c]
  show "list_all2 (\<lambda>part e. close_component l d t rs part = Inr e) parts (cm_components m)"
    using es m by (simp add: map_res_Inr)
  show "cm_release_ready m = (cm_blockers m = [])" "cm_blockers m = component_blockers (cm_components m)"
    "length (cm_components m) \<le> 1000" using m by (simp_all add: bounded_def)
  show "check_manifest dt m = Inr m" using c m by simp
qed

lemma build_errors:
  assumes "build_component_closure_manifest dt l d t rs parts = Inl err" "dt t = utc_z t"
  shows "err \<in> {ContractViolation ''binding'', ContractViolation ''evidence'', ContractViolation ''entry'', ContractViolation ''manifest''}"
proof (cases "map_res (close_component l d t rs) parts")
  case (Inl x)
  then have "x = err" using assms(1) by (simp add: build_component_closure_manifest_def bind_res_def)
  then show ?thesis using map_res_Inl [OF Inl] close_component_errors by blast
next
  case (Inr es)
  have "entry_ok e" if "e \<in> set es" for e
    using that Inr close_component_spec(1) by (fastforce simp: map_res_Inr list_all2_conv_all_nth in_set_conv_nth)
  then have "list_all entry_fields_ok es" "list_all entry_consistent es" by (simp_all add: list_all_iff entry_ok_def)
  then show ?thesis
    using assms(1) unfolding build_component_closure_manifest_def Inr bind_res_def Let_def sum.case check_manifest_def
    by (simp add: assms(2) split: if_splits)
qed

text \<open>
  C31: the closure of a bill of components yields a well-typed manifest or a violation of a
  field bound, and nothing else can go wrong: each entry satisfies its contract (two library
  sources, a complete binding of pins to pads when it is ready), the entries are those of
  the selected parts in order, the stored digest is accepted when the manifest is read back,
  and the manifest is ready exactly when every part is closed over the installed libraries.
\<close>

theorem closure_manifest_well_typed:
  assumes "dt t = utc_z t"
  shows "case build_component_closure_manifest dt l d t rs parts of
      Inl err \<Rightarrow> err \<in> {ContractViolation ''binding'', ContractViolation ''evidence'', ContractViolation ''entry'',
        ContractViolation ''manifest''}
    | Inr m \<Rightarrow> list_all entry_ok (cm_components m) \<and> map ce_ref (cm_components m) = map sp_ref parts
        \<and> check_manifest dt m = Inr m \<and> (cm_release_ready m \<longleftrightarrow> (\<forall>part \<in> set parts. part_closed l d rs part))"
proof (cases "build_component_closure_manifest dt l d t rs parts")
  case (Inl err)
  then show ?thesis using build_errors [OF Inl assms] by simp
next
  case (Inr m)
  note b = build_cases [OF Inr]
  have "list_all entry_ok (cm_components m)" "map ce_ref (cm_components m) = map sp_ref parts"
    using b(1) close_component_spec(1,2) by (auto simp: list_all_length list_all2_conv_all_nth intro!: nth_equalityI)
  moreover have "cm_release_ready m \<longleftrightarrow> (\<forall>part \<in> set parts. part_closed l d rs part)"
    using all2_ball [OF b(1), of "\<lambda>e. ce_blockers e = []"] close_component_spec(4) b(2,3) by (simp add: component_blockers_Nil)
  ultimately show ?thesis using Inr b(5) by simp
qed

section \<open>Freshness\<close>

text \<open>The files a closed part rests on, and what it means that they are the same later.\<close>

definition part_sources :: "closure_libs \<Rightarrow> selected_part \<Rightarrow> string set" where
  "part_sources l part = set_option (cl_symbol_path l (sp_symbol part)) \<union> set_option (footprint_source l part)"

definition same_file :: "disk \<Rightarrow> string \<Rightarrow> disk \<Rightarrow> string \<Rightarrow> bool" where
  "same_file d p d' q \<longleftrightarrow>
     (\<exists>f f'. d p = Some f \<and> d' q = Some f' \<and> sha256 (df_bytes f') = sha256 (df_bytes f) \<and> length (df_bytes f') = length (df_bytes f))"

lemma source_fresh:
  assumes "source_evidence l d kind lib path t = Inr ev" "on_disk d path"
  shows "(\<forall>v \<in> set ev. stale_reason d' v = None) \<longleftrightarrow> (\<forall>p \<in> set_option path. same_file d p d' (cl_resolve l p))"
  by (cases rule: source_evidence_cases [OF assms(1)])
    (use assms(2) in \<open>auto simp: on_disk_def stale_reason_def same_file_def split: option.splits if_splits\<close>)

lemma part_fresh:
  assumes "close_component l d t rs part = Inr e" "part_closed l d rs part"
  shows "(\<forall>v \<in> set (ce_evidence e). stale_reason d' v = None) \<longleftrightarrow> (\<forall>p \<in> part_sources l part. same_file d p d' (cl_resolve l p))"
proof -
  from close_component_cases [OF assms(1)] obtain bs ev1 ev2 where c:
    "source_evidence l d SymbolFile (sp_symbol part) (cl_symbol_path l (sp_symbol part)) t = Inr ev1"
    "source_evidence l d FootprintFile (sp_footprint part) (footprint_source l part) t = Inr ev2"
    "e = make_entry l (resolution_of rs (sp_ref part)) part bs (ev1 @ ev2)" by blast
  have "ce_evidence e = ev1 @ ev2" by (simp add: c(3) make_entry_def Let_def)
  moreover have "on_disk d (cl_symbol_path l (sp_symbol part))" "on_disk d (footprint_source l part)"
    using assms(2) by (simp_all add: part_closed_def)
  ultimately show ?thesis
    using source_fresh [OF c(1), of d'] source_fresh [OF c(2), of d'] unfolding part_sources_def by (simp add: ball_Un)
qed

lemma all2_ball_cond:
  "list_all2 P xs ys \<Longrightarrow> \<forall>x \<in> set xs. C x \<Longrightarrow> (\<And>x y. P x y \<Longrightarrow> C x \<Longrightarrow> Q y = R x) \<Longrightarrow> (\<forall>y \<in> set ys. Q y) \<longleftrightarrow> (\<forall>x \<in> set xs. R x)"
  by (induction rule: list_all2_induct) auto

lemma recorded_all: "(\<forall>(e, v) \<in> set (recorded_evidence m). P v) \<longleftrightarrow> (\<forall>e \<in> set (cm_components m). \<forall>v \<in> set (ce_evidence e). P v)"
  by (auto simp: recorded_evidence_def)

lemma length_recorded:
  assumes "\<forall>e \<in> set (cm_components m). length (ce_evidence e) \<le> 2" "length (cm_components m) \<le> 1000"
  shows "length (recorded_evidence m) \<le> 2000"
proof -
  have "length (concat (map (\<lambda>e. map (\<lambda>v. (e, v)) (ce_evidence e)) es)) \<le> 2 * length es"
    if "\<forall>e \<in> set es. length (ce_evidence e) \<le> 2" for es
    using that by (induction es) auto
  from this [OF assms(1)] assms(2) show ?thesis unfolding recorded_evidence_def by linarith
qed

lemma freshness_spec:
  assumes "\<forall>e \<in> set (cm_components m). length (ce_evidence e) \<le> 2" "length (cm_components m) \<le> 1000"
  obtains fr where "validate_component_closure_freshness d m = Inr fr" "fr_current fr = (fr_stale fr = [])"
    "fr_stale fr = [] \<longleftrightarrow> (\<forall>e \<in> set (cm_components m). \<forall>v \<in> set (ce_evidence e). stale_reason d v = None)"
proof -
  define stale where "stale = concat (map (\<lambda>(e, v). case stale_reason d v of None \<Rightarrow> [] | Some r \<Rightarrow> [evidence_label e v @ r]) (recorded_evidence m))"
  define meta where "meta = map (\<lambda>(e, v). evidence_label e v @ '':mtime_changed_content_equal'') (filter (\<lambda>(e, v). touched d v) (recorded_evidence m))"
  note n = length_recorded [OF assms]
  have le: "length (concat (map (\<lambda>(e, v). case stale_reason d v of None \<Rightarrow> [] | Some r \<Rightarrow> [evidence_label e v @ r]) xs)) \<le> length xs" for xs
    by (induction xs) (auto split: option.splits)
  have "length stale \<le> 4000" using le [of "recorded_evidence m"] n unfolding stale_def [symmetric] by linarith
  moreover have "length meta \<le> 4000" unfolding meta_def using n length_filter_le [of "\<lambda>(e, v). touched d v" "recorded_evidence m"] unfolding length_map by linarith
  ultimately have v: "validate_component_closure_freshness d m = Inr \<lparr>fr_current = (stale = []), fr_stale = stale, fr_metadata = meta\<rparr>"
    unfolding validate_component_closure_freshness_def Let_def stale_def [symmetric] meta_def [symmetric] by simp
  have "stale = [] \<longleftrightarrow> (\<forall>(e, v) \<in> set (recorded_evidence m). stale_reason d v = None)"
    by (auto simp: stale_def split: option.splits)
  then show thesis using that [OF v] by (simp add: recorded_all)
qed

lemma if_nil: "(if P then [x] else []) = [] \<longleftrightarrow> \<not> P"
  by simp

definition verdict_ok :: "closure_verdict \<Rightarrow> bool" where
  "verdict_ok v = (case v of ClosureVerdict ok _ _ _ \<Rightarrow> ok)"

text \<open>
  C32: the check of a stored manifest is exact: it passes on a later disk, for a later
  selection, if and only if every part was closed when the manifest was built, the selection
  has the same references, and every symbol and footprint file that the closure rests on is
  still there with the same SHA-256 digest and size.
\<close>

theorem closure_check_exact:
  assumes "build_component_closure_manifest dt l d t rs parts = Inr m"
  shows "verdict_ok (closure_manifest_check show_list d' parts' (Some (Inr m))) \<longleftrightarrow>
    (\<forall>part \<in> set parts. part_closed l d rs part) \<and> sp_ref ` set parts' = sp_ref ` set parts
    \<and> (\<forall>part \<in> set parts. \<forall>p \<in> part_sources l part. same_file d p d' (cl_resolve l p))"
proof -
  note b = build_cases [OF assms]
  have two: "\<forall>e \<in> set (cm_components m). length (ce_evidence e) \<le> 2"
    using b(1) close_component_spec(1) by (fastforce simp: entry_ok_def list_all2_conv_all_nth in_set_conv_nth)
  obtain fr where fr: "validate_component_closure_freshness d' m = Inr fr" "fr_current fr = (fr_stale fr = [])"
    "fr_stale fr = [] \<longleftrightarrow> (\<forall>e \<in> set (cm_components m). \<forall>v \<in> set (ce_evidence e). stale_reason d' v = None)"
    using freshness_spec [OF two b(4)] by blast
  have refs: "ce_ref ` set (cm_components m) = sp_ref ` set parts"
  proof -
    have "map ce_ref (cm_components m) = map sp_ref parts"
      using b(1) close_component_spec(2) by (auto simp: list_all2_conv_all_nth intro!: nth_equalityI)
    from arg_cong [OF this, of set] show ?thesis by simp
  qed
  have closed: "cm_blockers m = [] \<longleftrightarrow> (\<forall>part \<in> set parts. part_closed l d rs part)"
    using all2_ball [OF b(1), of "\<lambda>e. ce_blockers e = []"] close_component_spec(4) b(3) by (simp add: component_blockers_Nil)
  have fresh: "fr_stale fr = [] \<longleftrightarrow> (\<forall>part \<in> set parts. \<forall>p \<in> part_sources l part. same_file d p d' (cl_resolve l p))"
    if "\<forall>part \<in> set parts. part_closed l d rs part"
    unfolding fr(3) by (rule all2_ball_cond [OF b(1) that part_fresh])
  have verdict: "verdict_ok (closure_manifest_check show_list d' parts' (Some (Inr m))) \<longleftrightarrow>
      cm_blockers m = [] \<and> fr_stale fr = [] \<and> ce_ref ` set (cm_components m) = sp_ref ` set parts'"
    unfolding closure_manifest_check_def Let_def option.case sum.case fr(1) verdict_ok_def closure_verdict.case
      append_is_Nil_conv set_map b(2) fr(2)
    by (simp only: if_nil) blast
  show ?thesis
  proof (cases "\<forall>part \<in> set parts. part_closed l d rs part")
    case True
    then show ?thesis unfolding verdict closed refs fresh [OF True] by (simp add: eq_commute conj_commute)
  next
    case False
    show ?thesis unfolding verdict closed by (simp only: False simp_thms)
  qed
qed

section \<open>Samples\<close>

definition sample_part :: selected_part where
  "sample_part = \<lparr>sp_ref = ''R1'', sp_symbol = ''Device:R'', sp_value = ''10k'', sp_footprint = ''R:0402'',
     sp_binding_status = ''verified_installed'', sp_identity = [], sp_mode = [], sp_provenance = []\<rparr>"

definition sample_resolution :: component_resolution where
  "sample_resolution = \<lparr>res_ref = ''R1'', res_status = ''resolved'', res_identity = ''10k'', res_release_ready = True, res_reason = [],
     res_mode = ''capability_only'', res_provenance = ''selection_proposal''\<rparr>"

definition two_rows :: "pydict list" where
  "two_rows = [[(''number'', PStr ''2'')], [(''number'', PStr ''1'')]]"

definition sample_libs :: closure_libs where
  "sample_libs = \<lparr>cl_symbol_pins = (\<lambda>s. Some two_rows), cl_footprint_pads = (\<lambda>s. Some two_rows), cl_symbol_path = (\<lambda>s. Some ''/s''),
     cl_footprint_path = (\<lambda>s. Some ''/f''), cl_resolve = (\<lambda>p. p), cl_str = (\<lambda>_. [])\<rparr>"

definition sample_disk :: disk where
  "sample_disk = (\<lambda>p. if p = ''/s'' then Some \<lparr>df_bytes = ''sym'', df_mtime = 1\<rparr> else if p = ''/f'' then Some \<lparr>df_bytes = ''fp'', df_mtime = 2\<rparr> else None)"

lemma sample_numbers: "numbers sample_libs (Some two_rows) = [''1'', ''2'']"
  by code_simp

lemma sample_closed: "part_closed sample_libs sample_disk [sample_resolution] sample_part"
  by (simp add: part_closed_def resolution_of_def sample_resolution_def sample_part_def sample_libs_def pads_of_def footprint_source_def
      on_disk_def sample_disk_def Let_def)

lemma sample_names: "pin_names sample_libs (Some two_rows) = [(''2'', []), (''1'', [])]"
  by code_simp

lemma sample_lookups:
  "cl_symbol_pins sample_libs s = Some two_rows" "pads_of sample_libs sample_part = Some two_rows"
  "cl_symbol_path sample_libs s = Some ''/s''" "footprint_source sample_libs sample_part = Some ''/f''" "cl_resolve sample_libs p = p"
  by (simp_all add: sample_libs_def pads_of_def footprint_source_def sample_part_def)

lemma sample_fields:
  "sp_ref sample_part = ''R1''" "sp_symbol sample_part = ''Device:R''" "sp_value sample_part = ''10k''"
  "sp_footprint sample_part = ''R:0402''" "sp_identity sample_part = []"
  by (simp_all add: sample_part_def)

lemma sample_source:
  assumes "sample_disk p = Some f" "bounded 3 240 lib" "bounded 1 2000 p" "0 \<le> df_mtime f"
  shows "\<exists>v. source_evidence sample_libs sample_disk k lib (Some p) t = Inr [v]"
  using assms sha256_hex [of "df_bytes f"] by (simp add: source_evidence_def sample_lookups evidence_ok_def Let_def)

lemma sample_close: "\<exists>e. close_component sample_libs sample_disk t [sample_resolution] sample_part = Inr e"
proof -
  have mb: "make_bindings sample_libs (Some two_rows) [''1'', ''2''] [''1'', ''2''] =
      Inr [\<lparr>pb_pin = ''1'', pb_name = [], pb_pad = ''1''\<rparr>, \<lparr>pb_pin = ''2'', pb_name = [], pb_pad = ''2''\<rparr>]" (is "_ = Inr ?bs")
    by (simp add: make_bindings_def sample_names binding_ok_def bounded_def)
  obtain v where v: "source_evidence sample_libs sample_disk SymbolFile (sp_symbol sample_part) (Some ''/s'') t = Inr [v]"
    using sample_source [of "''/s''" "\<lparr>df_bytes = ''sym'', df_mtime = 1\<rparr>" "sp_symbol sample_part" SymbolFile t]
    by (auto simp: sample_disk_def bounded_def sample_part_def)
  obtain w where w: "source_evidence sample_libs sample_disk FootprintFile (sp_footprint sample_part) (Some ''/f'') t = Inr [w]"
    using sample_source [of "''/f''" "\<lparr>df_bytes = ''fp'', df_mtime = 2\<rparr>" "sp_footprint sample_part" FootprintFile t]
    by (auto simp: sample_disk_def bounded_def sample_part_def)
  let ?e = "make_entry sample_libs (resolution_of [sample_resolution] (sp_ref sample_part)) sample_part ?bs ([v] @ [w])"
  have "closure_blockers sample_libs sample_part (resolution_of [sample_resolution] (sp_ref sample_part)) ([v] @ [w]) = []"
    using no_blockers_iff [of sample_libs sample_disk sample_part t "[v]" "[w]" "[sample_resolution]"] v w sample_closed
    by (simp add: sample_lookups)
  then have f: "entry_fields_ok ?e"
    by (simp add: entry_fields_ok_def make_entry_def sample_lookups sample_numbers bounded_def str_or_def sample_fields dedup_def
        resolution_of_def sample_resolution_def)
  have c: "entry_consistent ?e"
    by (rule closed_is_consistent [of sample_libs sample_part ?bs sample_disk t "[v]" "[w]" "[sample_resolution]"])
      (simp_all add: sample_lookups sample_numbers mb v w)
  have "close_component sample_libs sample_disk t [sample_resolution] sample_part = Inr ?e"
    using f c by (simp only: close_component_def sample_lookups sample_numbers mb v w Let_def bind_res_def sum.case simp_thms if_False)
  then show ?thesis by blast
qed

lemma sample_manifest:
  "\<exists>m. build_component_closure_manifest utc_z sample_libs sample_disk t [sample_resolution] [sample_part] = Inr m"
proof (cases "build_component_closure_manifest utc_z sample_libs sample_disk t [sample_resolution] [sample_part]")
  case (Inl err)
  obtain e where e: "close_component sample_libs sample_disk t [sample_resolution] sample_part = Inr e" using sample_close by blast
  note spec = close_component_spec [OF e]
  have "component_blockers [e] = []" using spec(4) sample_closed by (simp add: component_blockers_def)
  then show ?thesis
    using spec(1) sha256_hex by (simp add: build_component_closure_manifest_def e bind_res_def check_manifest_def bounded_def
        entry_ok_def canonical_digest_def)
qed blast

theorem closure_manifest_well_typed_witness:
  "\<exists>m. build_component_closure_manifest utc_z sample_libs sample_disk ''now'' [sample_resolution] [sample_part] = Inr m
     \<and> cm_release_ready m"
proof -
  obtain m where m: "build_component_closure_manifest utc_z sample_libs sample_disk ''now'' [sample_resolution] [sample_part] = Inr m"
    using sample_manifest by blast
  from closure_manifest_well_typed [of utc_z "''now''", where l = sample_libs and d = sample_disk and rs = "[sample_resolution]"
      and parts = "[sample_part]"] m sample_closed
  show ?thesis by simp
qed

theorem closure_check_exact_witness:
  "\<exists>m. build_component_closure_manifest utc_z sample_libs sample_disk ''now'' [sample_resolution] [sample_part] = Inr m
     \<and> verdict_ok (closure_manifest_check concat sample_disk [sample_part] (Some (Inr m)))
     \<and> \<not> verdict_ok (closure_manifest_check concat (\<lambda>_. None) [sample_part] (Some (Inr m)))"
proof -
  obtain m where m: "build_component_closure_manifest utc_z sample_libs sample_disk ''now'' [sample_resolution] [sample_part] = Inr m"
    using sample_manifest by blast
  have src: "part_sources sample_libs sample_part = {''/s'', ''/f''}"
    unfolding part_sources_def sample_lookups by auto
  have "same_file sample_disk ''/s'' sample_disk ''/s''" "same_file sample_disk ''/f'' sample_disk ''/f''"
    by (simp_all add: same_file_def sample_disk_def)
  then show ?thesis
    using m sample_closed closure_check_exact [OF m, of concat sample_disk "[sample_part]"]
      closure_check_exact [OF m, of concat "\<lambda>_. None" "[sample_part]"]
    by (simp add: src sample_lookups) (simp add: same_file_def)
qed

definition sample_nets :: mapped_nets where
  "sample_nets = [(''VCC'', [(''R1'', ''1''), (''U1'', ''8'')]), (''OUT'', [(''R1'', ''2'')])]"

definition sample_xml :: "xml_net list" where
  "sample_xml =
     [\<lparr>xe_name = ''/OUT'', xe_nodes = [\<lparr>xn_ref = ''R1'', xn_pin = ''2'', xn_pintype = ''passive''\<rparr>]\<rparr>,
      \<lparr>xe_name = ''VCC'', xe_nodes = [\<lparr>xn_ref = ''#PWR1'', xn_pin = ''1'', xn_pintype = ''power_in''\<rparr>,
         \<lparr>xn_ref = ''U1'', xn_pin = ''8'', xn_pintype = ''power_in''\<rparr>, \<lparr>xn_ref = ''R1'', xn_pin = ''1'', xn_pintype = ''passive''\<rparr>]\<rparr>,
      \<lparr>xe_name = ''unconnected-(U1-NC-Pad3)'', xe_nodes = [\<lparr>xn_ref = ''U1'', xn_pin = ''3'', xn_pintype = ''passive+no_connect''\<rparr>]\<rparr>]"

lemma sample_rows:
  "design_rows sample_nets = [(''R1'', ''1'', ''VCC''), (''U1'', ''8'', ''VCC''), (''R1'', ''2'', ''OUT'')]"
  "netlist_rows sample_xml = [(''R1'', ''2'', ''/OUT''), (''#PWR1'', ''1'', ''VCC''), (''U1'', ''8'', ''VCC''), (''R1'', ''1'', ''VCC'')]"
  by code_simp+

lemma sample_pin_set:
  assumes "rows = design_rows sample_nets \<or> rows = netlist_rows sample_xml" "digest_pattern digest"
  shows "make_pin_net_set source digest rows = Inr \<lparr>ps_source = source, ps_sha256 = digest,
    ps_facts = [\<lparr>pf_ref = ''R1'', pf_pin = ''1'', pf_net = ''VCC''\<rparr>, \<lparr>pf_ref = ''R1'', pf_pin = ''2'', pf_net = ''OUT''\<rparr>,
      \<lparr>pf_ref = ''U1'', pf_pin = ''8'', pf_net = ''VCC''\<rparr>], ps_ambiguous = []\<rparr>"
proof -
  have "sort_key fst (fold add_row rows []) = [((''R1'', ''1''), [''VCC'']), ((''R1'', ''2''), [''OUT'']), ((''U1'', ''8''), [''VCC''])]"
    using assms(1) unfolding sample_rows by (elim disjE; simp only:; code_simp)
  then show ?thesis using assms(2) by (simp add: make_pin_net_set_def fact_ok_def bounded_def)
qed

theorem connectivity_verdict_exact_witness:
  "\<exists>expected actual. design_ir_pin_net_set PNone sample_nets = Inr expected \<and> read_kicad_xml_pin_net_set ''x'' sample_xml = Inr actual
     \<and> pd_matches (diff_pin_net_sets expected actual)
     \<and> connectivity (design_rows sample_nets) = connectivity (netlist_rows sample_xml)"
proof -
  have e: "\<exists>expected. design_ir_pin_net_set PNone sample_nets = Inr expected"
    using sha256_hex by (simp add: design_ir_pin_net_set_def sample_pin_set canonical_digest_def bind_res_def)
  have a: "\<exists>actual. read_kicad_xml_pin_net_set ''x'' sample_xml = Inr actual"
    using sha256_hex by (simp add: read_kicad_xml_pin_net_set_def sample_pin_set)
  obtain expected actual where ea: "design_ir_pin_net_set PNone sample_nets = Inr expected" "read_kicad_xml_pin_net_set ''x'' sample_xml = Inr actual"
    using e a by blast
  have "connectivity (design_rows sample_nets) = connectivity (netlist_rows sample_xml)"
    unfolding connectivity_def sample_rows by (auto simp: usable_row_def root_net_def startswith_def split: if_splits)
  with connectivity_verdict_exact [OF ea] ea show ?thesis by blast
qed

end
