(* ===== verification/Release_Audit.thy ===== *)
theory Release_Audit
  imports Design_Closure
begin

text \<open>
  The first part of \<open>orchestration/release_invariants.py\<close>: the physical constraints of a
  requirement and their audit against the final board.

  The recognisers of constraints in prose (regular expressions over English and Chinese)
  are arguments; which text they read is modelled.  The board is what the accessors of the
  board file return, and reading it from bytes is an argument.  Lengths are rationals;
  \<open>math.hypot\<close> and the rendering of numbers and lists in messages are arguments.
\<close>

section \<open>Text\<close>

text \<open>\<open>s.partition(p)[0]\<close>.\<close>

fun before :: "string \<Rightarrow> string \<Rightarrow> string" where
  "before [] p = []"
| "before (c # cs) p = (if startswith (c # cs) p then [] else c # before cs p)"

section \<open>Constraints\<close>

record requirement_invariants =
  rq_source_digest :: string
  rq_layers :: "int option"
  rq_max_width :: "rat option"
  rq_max_height :: "rat option"
  rq_ground_plane :: bool
  rq_ground_layer :: string
  rq_continuous :: bool
  rq_min_track :: "rat option"
  rq_track_nets :: "string list"
  rq_decoupling :: "rat option"
  rq_holes :: "int option"
  rq_npth :: bool

definition invariants_ok :: "requirement_invariants \<Rightarrow> bool" where
  "invariants_ok q \<longleftrightarrow> length (rq_source_digest q) = 64
     \<and> pred_option (\<lambda>n. 1 \<le> n \<and> n \<le> 16) (rq_layers q) \<and> pred_option (\<lambda>x. 0 < x) (rq_max_width q)
     \<and> pred_option (\<lambda>x. 0 < x) (rq_max_height q) \<and> pred_option (\<lambda>x. 0 < x) (rq_min_track q)
     \<and> pred_option (\<lambda>x. 0 < x) (rq_decoupling q) \<and> pred_option (\<lambda>n. 0 \<le> n \<and> n \<le> 100) (rq_holes q)"

definition source_requirement :: "string \<Rightarrow> string" where
  "source_requirement requirement =
     strip (before (before requirement ''GROUNDED ARCHITECT EVIDENCE'') ''VALIDATED CAPABILITY PROFILE'')"

abbreviation lstrip :: "string \<Rightarrow> string" where
  "lstrip \<equiv> lstrip_by py_space"

definition requirement_without_decisions :: "string \<Rightarrow> string" where
  "requirement_without_decisions source =
     strip (join [CHR 0x0A] (filter (\<lambda>line. \<not> startswith (lstrip line) ''DECISION:'') (splitlines source)))"

definition decision_source :: "string \<Rightarrow> string \<Rightarrow> string" where
  "decision_source source slot =
     join [CHR 0x0A] (map strip (filter (\<lambda>line. startswith (lstrip line) (''DECISION: '' @ slot @ ''='')) (splitlines source)))"

text \<open>What raises: a contract, a file, and the comparisons of a receipt with current evidence.\<close>

datatype release_error =
    ContractFailed string | Unreadable string | ProjectMismatch | SourceStale | InvariantsStale
  | PathEscapes | DifferentBoard | BoardStale | FindingsDiffer | StateIncomplete

text \<open>The recognisers: layers, limits of the board, ground plane, track width, decoupling, holes.\<close>

record recognisers =
  rg_layers :: "string \<Rightarrow> int option"
  rg_limits :: "string \<Rightarrow> (rat \<times> rat) option"
  rg_ground :: "string \<Rightarrow> bool \<times> string \<times> bool"
  rg_track :: "string \<Rightarrow> (rat \<times> string list) option"
  rg_decoupling :: "string \<Rightarrow> rat option"
  rg_holes :: "string \<Rightarrow> int option \<times> bool"

definition extract_requirement_invariants :: "recognisers \<Rightarrow> string \<Rightarrow> release_error + requirement_invariants" where
  "extract_requirement_invariants g requirement =
     (let source = source_requirement requirement;
          original = requirement_without_decisions source;
          limits = (case rg_limits g original of
                      Some wh \<Rightarrow> Some wh | None \<Rightarrow> rg_limits g (decision_source source ''board_outline''));
          layers = (case rg_layers g original of
                      Some n \<Rightarrow> Some n | None \<Rightarrow> rg_layers g (decision_source source ''layer_count''));
          holes = (case rg_holes g original of
                     (Some n, np) \<Rightarrow> (Some n, np) | (None, _) \<Rightarrow> rg_holes g (decision_source source ''mounting''));
          q = \<lparr>rq_source_digest = sha256 (utf8_bytes source), rq_layers = layers,
               rq_max_width = map_option fst limits, rq_max_height = map_option snd limits,
               rq_ground_plane = fst (rg_ground g original), rq_ground_layer = fst (snd (rg_ground g original)),
               rq_continuous = snd (snd (rg_ground g original)),
               rq_min_track = map_option fst (rg_track g original),
               rq_track_nets = (case rg_track g original of None \<Rightarrow> [] | Some (_, ns) \<Rightarrow> ns),
               rq_decoupling = rg_decoupling g original, rq_holes = fst holes, rq_npth = snd holes\<rparr>
      in if invariants_ok q then Inr q else Inl (ContractFailed ''invariants''))"

section \<open>The board\<close>

record board_pad =
  pa_net :: string
  pa_type :: string
  pa_x :: rat
  pa_y :: rat

record filled_polygon =
  fl_points :: "(rat \<times> rat) list"
  fl_island :: bool

record board_zone =
  zn_net :: string
  zn_layer :: string
  zn_points :: "(rat \<times> rat) list"
  zn_filled :: "filled_polygon list"

text \<open>\<open>bo_pads\<close> is \<open>None\<close> where reading the pads of a reference raises.\<close>

record board =
  bo_copper_layers :: int
  bo_extents :: "(rat \<times> rat) option"
  bo_zones :: "board_zone list"
  bo_references :: "string list"
  bo_pads :: "string \<Rightarrow> board_pad list option"
  bo_tracks :: "(string \<times> rat option) list"

record audit_part =
  rp_ref :: string
  rp_role :: string
  rp_symbol :: string
  rp_footprint :: string
  rp_value :: string

record audit_format =
  af_int :: "int \<Rightarrow> string"
  af_3 :: "rat \<Rightarrow> string"
  af_2 :: "rat \<Rightarrow> string"
  af_percent :: "rat \<Rightarrow> string"
  af_list :: "string list \<Rightarrow> string"
  af_hypot :: "rat \<Rightarrow> rat \<Rightarrow> rat"

record invariant_finding =
  nf_id :: string
  nf_message :: string
  nf_refs :: "string list"

definition finding_ok :: "invariant_finding \<Rightarrow> bool" where
  "finding_ok f \<longleftrightarrow> bounded 1 120 (nf_id f) \<and> bounded 1 2000 (nf_message f) \<and> length (nf_refs f) \<le> 100"

definition finding :: "string \<Rightarrow> string \<Rightarrow> string list \<Rightarrow> invariant_finding" where
  "finding i m rs = \<lparr>nf_id = i, nf_message = m, nf_refs = rs\<rparr>"

section \<open>Classification\<close>

definition is_mounting_hole_part :: "audit_part \<Rightarrow> bool" where
  "is_mounting_hole_part p =
     (let t = lower (join '' '' [rp_role p, rp_symbol p, rp_footprint p, rp_value p])
      in contains t ''mounting'' \<and> contains t ''hole'')"

definition is_decoupling_part :: "audit_part \<Rightarrow> bool" where
  "is_decoupling_part p =
     (let role = lower (rp_role p)
      in contains role ''decoupl''
         \<or> contains role ''capacitor'' \<and> (contains role ''vcc'' \<or> contains role ''vdd'' \<or> contains role ''supply''))"

definition is_ground_net :: "string \<Rightarrow> bool" where
  "is_ground_net net =
     (let name = upper (strip net)
      in name \<in> {''GND'', ''AGND'', ''DGND'', ''PGND'', ''VSS''} \<or> endswith name ''_GND'' \<or> startswith name ''GND_'')"

abbreviation digits :: rx where
  "digits \<equiv> plus (Sat is_digit)"

definition drop_plus :: "string \<Rightarrow> string" where
  "drop_plus s = lstrip_by (\<lambda>c. c = CHR ''+'') s"

definition is_power_net :: "string \<Rightarrow> bool" where
  "is_power_net net =
     (let name = drop_plus (upper (strip net))
      in name \<in> {''VCC'', ''VDD'', ''VBAT'', ''VIN'', ''VBUS''}
         \<or> rx_fullmatch (Cat digits (Cat (opt (Cat (lit ''.'') digits)) (lit ''V''))) name
         \<or> rx_fullmatch (Cat digits (Cat (lit ''V'') digits)) name)"

section \<open>The audit\<close>

definition polygon_area :: "(rat \<times> rat) list \<Rightarrow> rat option" where
  "polygon_area ps =
     (if length ps < 3 then None
      else let area = \<bar>sum_list (map (\<lambda>((x1, y1), (x2, y2)). x1 * y2 - x2 * y1) (zip ps (rotate1 ps)))\<bar> / 2
           in if area > 1 / 10 ^ 9 then Some area else None)"

definition CONTINUOUS_ZONE_MIN_COVERAGE :: rat where
  "CONTINUOUS_ZONE_MIN_COVERAGE = 4 / 5"

text \<open>Why a continuous plane cannot be proven, or nothing.\<close>

definition continuous_ground_reason :: "audit_format \<Rightarrow> board_zone list \<Rightarrow> (rat \<times> rat) option \<Rightarrow> string option" where
  "continuous_ground_reason m matching extents =
     (case matching of
        [zone] \<Rightarrow>
          (case extents of
             None \<Rightarrow> Some ''board outline extents are unavailable''
           | Some (w, h) \<Rightarrow>
               if w * h \<le> 1 / 10 ^ 9 then Some ''board outline has no positive area''
               else (case polygon_area (zn_points zone) of
                       None \<Rightarrow> Some ''GND zone source polygon is unreadable''
                     | Some source_area \<Rightarrow>
                         if source_area / (w * h) < CONTINUOUS_ZONE_MIN_COVERAGE
                         then Some (''GND zone source polygon covers only '' @ af_percent m (source_area / (w * h)) @ '' of the board'')
                         else (case zn_filled zone of
                                 [f] \<Rightarrow>
                                   (case polygon_area (fl_points f) of
                                      None \<Rightarrow> Some ''filled GND polygon geometry is unreadable''
                                    | Some filled_area \<Rightarrow>
                                        if fl_island f then Some ''the only filled GND polygon is marked as an island''
                                        else if filled_area / source_area < CONTINUOUS_ZONE_MIN_COVERAGE
                                        then Some (''filled GND copper covers only '' @ af_percent m (filled_area / source_area)
                                                   @ '' of its source zone'')
                                        else None)
                               | fs \<Rightarrow> Some (''filled GND copper is unavailable or split into islands (filled polygon count=''
                                               @ nat_str (length fs) @ '')''))))
      | _ \<Rightarrow> Some (''expected one authoritative GND zone, found '' @ nat_str (length matching)))"

definition layer_findings :: "audit_format \<Rightarrow> requirement_invariants \<Rightarrow> board \<Rightarrow> invariant_finding list" where
  "layer_findings m q b =
     (case rq_layers q of
        None \<Rightarrow> []
      | Some n \<Rightarrow> if bo_copper_layers b = n then []
                  else [finding ''copper_layer_count''
                          (''final PCB has '' @ af_int m (bo_copper_layers b) @ '' copper layers; requirement is exactly '' @ af_int m n) []])"

definition outline_findings :: "audit_format \<Rightarrow> requirement_invariants \<Rightarrow> board \<Rightarrow> invariant_finding list" where
  "outline_findings m q b =
     (case bo_extents b of
        None \<Rightarrow> if rq_max_width q \<noteq> None \<or> rq_max_height q \<noteq> None
                then [finding ''board_outline_available'' ''final PCB has no readable closed board outline'' []] else []
      | Some (w, h) \<Rightarrow>
          (case rq_max_width q of
             None \<Rightarrow> []
           | Some bound \<Rightarrow> if w > bound + 1 / 10 ^ 6
                         then [finding ''board_max_width'' (''final PCB width '' @ af_3 m w @ '' mm exceeds '' @ af_3 m bound @ '' mm'') []] else [])
          @ (case rq_max_height q of
               None \<Rightarrow> []
             | Some bound \<Rightarrow> if h > bound + 1 / 10 ^ 6
                           then [finding ''board_max_height'' (''final PCB height '' @ af_3 m h @ '' mm exceeds '' @ af_3 m bound @ '' mm'') []] else []))"

definition ground_zones :: "requirement_invariants \<Rightarrow> board \<Rightarrow> board_zone list" where
  "ground_zones q b =
     filter (\<lambda>z. is_ground_net (zn_net z) \<and> (rq_ground_layer q = [] \<or> zn_layer z = rq_ground_layer q)) (bo_zones b)"

definition ground_findings :: "audit_format \<Rightarrow> requirement_invariants \<Rightarrow> board \<Rightarrow> invariant_finding list" where
  "ground_findings m q b =
     (if \<not> rq_ground_plane q then []
      else if ground_zones q b = []
      then [finding ''ground_plane_materialized'' (''final PCB has no physical GND zone on '' @ str_or (rq_ground_layer q) ''a copper layer'') []]
      else if rq_continuous q
      then (case continuous_ground_reason m (ground_zones q b) (bo_extents b) of
              None \<Rightarrow> []
            | Some r \<Rightarrow> [finding ''continuous_ground_geometry'' (''continuous GND plane cannot be proven: '' @ r) []])
      else [])"

definition unproven_npth :: "board \<Rightarrow> string \<Rightarrow> string list" where
  "unproven_npth b r =
     (case bo_pads b r of
        None \<Rightarrow> [r @ '' (pad geometry unreadable)'']
      | Some pads \<Rightarrow> if \<exists>p \<in> set pads. pa_type p = ''np_thru_hole'' then [] else [r])"

definition hole_findings :: "audit_format \<Rightarrow> requirement_invariants \<Rightarrow> board \<Rightarrow> audit_part list \<Rightarrow> invariant_finding list" where
  "hole_findings m q b parts =
     (case rq_holes q of
        None \<Rightarrow> []
      | Some n \<Rightarrow>
          (let refs = map rp_ref (filter is_mounting_hole_part parts);
               missing = sort (filter (\<lambda>r. r \<notin> set (bo_references b)) refs);
               plated = (if rq_npth q then concat (map (unproven_npth b) refs) else [])
           in (if int (length refs) \<noteq> n
               then [finding ''mounting_hole_count'' (''selection/final contract has '' @ nat_str (length refs)
                       @ '' mounting holes; requirement is '' @ af_int m n) refs] else [])
              @ (if missing \<noteq> []
                 then [finding ''mounting_holes_materialized'' (''mounting-hole footprints missing from final PCB: '' @ af_list m missing) missing]
                 else [])
              @ (if plated \<noteq> []
                 then [finding ''mounting_holes_non_plated'' (''mounting holes are not proven NPTH: '' @ af_list m plated) plated] else [])))"

text \<open>Whether a track of a net counts for the minimum width.\<close>

definition track_counts :: "requirement_invariants \<Rightarrow> string \<Rightarrow> bool" where
  "track_counts q net_name =
     (let net = drop_plus (upper net_name); wanted = map (\<lambda>n. drop_plus (upper n)) (rq_track_nets q)
      in if wanted \<noteq> [] then net \<in> set wanted else is_power_net net \<or> is_ground_net net)"

definition track_findings :: "audit_format \<Rightarrow> requirement_invariants \<Rightarrow> board \<Rightarrow> invariant_finding list" where
  "track_findings m q b =
     (case rq_min_track q of
        None \<Rightarrow> []
      | Some bound \<Rightarrow>
          (let thin = concat (map (\<lambda>(net, width). case width of
                 Some w \<Rightarrow> if track_counts q net \<and> w + 1 / 10 ^ 9 < bound
                           then [str_or (drop_plus (upper net)) ''<unnamed>'' @ '':'' @ af_3 m w @ ''mm''] else []
               | None \<Rightarrow> []) (bo_tracks b))
           in if thin \<noteq> []
              then [finding ''minimum_track_width'' (''tracks below '' @ af_3 m bound @ '' mm: '' @ af_list m (sorted_set thin)) []] else []))"

definition anchor_parts :: "audit_part list \<Rightarrow> audit_part list" where
  "anchor_parts parts = filter (\<lambda>p. startswith (upper (rp_ref p)) ''U'' \<and> \<not> is_decoupling_part p) parts"

text \<open>The distances from the power pads of a part to pads of the same net of the anchors.\<close>

definition anchor_distances :: "audit_format \<Rightarrow> board \<Rightarrow> audit_part list \<Rightarrow> board_pad list \<Rightarrow> (rat \<times> string) list" where
  "anchor_distances m b parts power_pads =
     concat (map (\<lambda>a. case bo_pads b (rp_ref a) of
         None \<Rightarrow> []
       | Some pads \<Rightarrow>
           concat (map (\<lambda>c. map (\<lambda>p. (af_hypot m (pa_x c - pa_x p) (pa_y c - pa_y p), rp_ref a))
             (filter (\<lambda>p. pa_net p = pa_net c) pads)) power_pads)) (anchor_parts parts))"

definition min_pair :: "(rat \<times> string) list \<Rightarrow> rat \<times> string" where
  "min_pair xs = fold min (tl xs) (hd xs)"

text \<open>What is reported of one decoupling part.\<close>

definition far_from_anchor :: "audit_format \<Rightarrow> board \<Rightarrow> audit_part list \<Rightarrow> rat \<Rightarrow> audit_part \<Rightarrow> string list" where
  "far_from_anchor m b parts bound p =
     (case bo_pads b (rp_ref p) of
        None \<Rightarrow> []
      | Some pads \<Rightarrow>
          (let power_pads = filter (\<lambda>c. is_power_net (pa_net c)) pads
           in if power_pads = [] then []
              else (case anchor_distances m b parts power_pads of
                      [] \<Rightarrow> [rp_ref p @ ''-><no power-pin anchor>'']
                    | xs \<Rightarrow> (case min_pair xs of
                               (distance, anchor) \<Rightarrow>
                                 if distance > bound + 1 / 10 ^ 9
                                 then [rp_ref p @ ''->'' @ anchor @ '' ('' @ af_2 m distance @ ''mm)''] else []))))"

definition decoupling_findings :: "audit_format \<Rightarrow> requirement_invariants \<Rightarrow> board \<Rightarrow> audit_part list \<Rightarrow> invariant_finding list" where
  "decoupling_findings m q b parts =
     (case rq_decoupling q of
        None \<Rightarrow> []
      | Some bound \<Rightarrow>
          (let caps = filter is_decoupling_part parts;
               far = concat (map (far_from_anchor m b parts bound) caps)
           in (if caps = []
               then [finding ''decoupling_parts_present'' (''an explicit decoupling-distance requirement exists, but ''
                       @ ''no selected part is classified as power decoupling'') []] else [])
              @ (if far \<noteq> []
                 then [finding ''decoupling_distance'' (''power decoupling exceeds explicit limit '' @ af_3 m bound @ '' mm: '' @ af_list m far)
                         (map (\<lambda>s. before s ''->'') far)] else [])))"

text \<open>Constructing a finding whose text or references exceed their bound raises.\<close>

definition audit_pcb_invariants ::
    "audit_format \<Rightarrow> requirement_invariants \<Rightarrow> board \<Rightarrow> audit_part list \<Rightarrow> release_error + invariant_finding list" where
  "audit_pcb_invariants m q b parts =
     (let fs = layer_findings m q b @ outline_findings m q b @ ground_findings m q b @ hole_findings m q b parts
               @ track_findings m q b @ decoupling_findings m q b parts
      in if list_all finding_ok fs then Inr fs else Inl (ContractFailed ''finding''))"

end
