(* ===== verification/Release_Receipt.thy ===== *)
theory Release_Receipt
  imports Release_Audit
begin

text \<open>
  The receipt that binds an audit to the bytes of a board
  (\<open>orchestration/release_invariants.py\<close>), the part of the manufacturing step that issues and
  re-checks it (\<open>orchestration/pipeline.py\<close>), and the release verdict of the review tool that
  reads it (\<open>agents/ratsnestpro/tools.py\<close>).

  A path is its list of components.  Reading files, resolving links, parsing JSON and loading
  a board are arguments.  Files are not written while one validation runs; the manufacturing
  step reads the board several times, and each read has a value of its own.
\<close>

section \<open>Contracts\<close>

type_synonym path = "string list"

record release_identity =
  ri_project :: string
  ri_source_digest :: string
  ri_pcb_relpath :: string
  ri_pcb_sha256 :: string

definition identity_ok :: "release_identity \<Rightarrow> bool" where
  "identity_ok i \<longleftrightarrow> bounded 1 160 (ri_project i) \<and> digest_pattern (ri_source_digest i)
     \<and> bounded 1 255 (ri_pcb_relpath i) \<and> digest_pattern (ri_pcb_sha256 i)
     \<and> \<not> startswith (ri_pcb_relpath i) ''/'' \<and> path_name (ri_pcb_relpath i) = ri_pcb_relpath i"

record release_manifest =
  rm_identity :: release_identity
  rm_ready :: bool
  rm_blockers :: "string list"
  rm_invariants :: requirement_invariants
  rm_findings :: "invariant_finding list"

text \<open>\<open>f"{finding.invariant_id}: {finding.message}"\<close>.\<close>

definition finding_line :: "invariant_finding \<Rightarrow> string" where
  "finding_line f = nf_id f @ '': '' @ nf_message f"

definition manifest_consistent :: "release_manifest \<Rightarrow> bool" where
  "manifest_consistent m \<longleftrightarrow>
     ri_source_digest (rm_identity m) = rq_source_digest (rm_invariants m)
     \<and> set (map finding_line (rm_findings m)) \<subseteq> set (rm_blockers m)
     \<and> rm_ready m = (rm_blockers m = [] \<and> rm_findings m = [])"

definition manifest_ok :: "release_manifest \<Rightarrow> bool" where
  "manifest_ok m \<longleftrightarrow> identity_ok (rm_identity m) \<and> invariants_ok (rm_invariants m) \<and> list_all finding_ok (rm_findings m)
     \<and> manifest_consistent m"

text \<open>\<open>build_release_invariant_manifest\<close>, called with the digest of the audited bytes.\<close>

definition build_release_invariant_manifest ::
    "recognisers \<Rightarrow> string \<Rightarrow> string \<Rightarrow> path \<Rightarrow> invariant_finding list \<Rightarrow> string list \<Rightarrow> string \<Rightarrow> release_error + release_manifest" where
  "build_release_invariant_manifest g project_name requirement pcb_path findings blockers pcb_sha256 =
     bind_res (extract_requirement_invariants g requirement) (\<lambda>q.
       let m = \<lparr>rm_identity = \<lparr>ri_project = project_name, ri_source_digest = rq_source_digest q,
                                ri_pcb_relpath = last pcb_path, ri_pcb_sha256 = pcb_sha256\<rparr>,
                rm_ready = (blockers = []), rm_blockers = dedup blockers, rm_invariants = q, rm_findings = findings\<rparr>
       in if manifest_ok m then Inr m else Inl (ContractFailed ''manifest''))"

section \<open>Validation\<close>

record release_env =
  en_resolve :: "path \<Rightarrow> path"
  en_file :: "path \<Rightarrow> string option"
  en_board :: "string \<Rightarrow> board option"
  en_receipt :: "string \<Rightarrow> release_manifest option"
  en_json :: "string \<Rightarrow> pyval option"
  en_selection :: "pyval option \<Rightarrow> audit_part list option"
  en_str :: "pyval \<Rightarrow> string"

definition read_receipt :: "release_env \<Rightarrow> path \<Rightarrow> release_error + release_manifest" where
  "read_receipt v p =
     (case en_file v p of
        None \<Rightarrow> Inl (Unreadable ''receipt'')
      | Some s \<Rightarrow> (case en_receipt v s of
                     None \<Rightarrow> Inl (ContractFailed ''manifest'')
                   | Some m \<Rightarrow> if manifest_ok m then Inr m else Inl (ContractFailed ''manifest'')))"

definition load_board :: "release_env \<Rightarrow> string \<Rightarrow> release_error + board" where
  "load_board v bytes = (case en_board v bytes of None \<Rightarrow> Inl (Unreadable ''board'') | Some b \<Rightarrow> Inr b)"

definition validate_release_invariant_manifest ::
    "audit_format \<Rightarrow> recognisers \<Rightarrow> release_env \<Rightarrow> path \<Rightarrow> string \<Rightarrow> string \<Rightarrow> path \<Rightarrow> audit_part list
       \<Rightarrow> release_error + release_manifest" where
  "validate_release_invariant_manifest f g v manifest_path project_name requirement pcb_path parts =
     bind_res (read_receipt v manifest_path) (\<lambda>m.
     bind_res (extract_requirement_invariants g requirement) (\<lambda>q.
       let i = rm_identity m;
           expected_board = en_resolve v pcb_path;
           receipt_board = en_resolve v (butlast manifest_path @ [ri_pcb_relpath i])
       in if ri_project i \<noteq> project_name then Inl ProjectMismatch
          else if ri_source_digest i \<noteq> rq_source_digest q then Inl SourceStale
          else if rm_invariants m \<noteq> q then Inl InvariantsStale
          else if butlast receipt_board \<noteq> en_resolve v (butlast manifest_path) then Inl PathEscapes
          else if receipt_board \<noteq> expected_board \<or> ri_pcb_relpath i \<noteq> last pcb_path then Inl DifferentBoard
          else (case en_file v expected_board of
                  None \<Rightarrow> Inl (Unreadable ''board'')
                | Some bytes \<Rightarrow>
                    if ri_pcb_sha256 i \<noteq> sha256 bytes then Inl BoardStale
                    else bind_res (load_board v bytes) (\<lambda>b.
                         bind_res (audit_pcb_invariants f q b parts) (\<lambda>current.
                           if current \<noteq> rm_findings m then Inl FindingsDiffer else Inr m)))))"

section \<open>The manufacturing step\<close>

text \<open>
  The reads of the board: whether it is there, its bytes when it is hashed before the audit,
  loaded, and hashed after it, and at the commit of the receipt.
\<close>

record board_reads =
  rd_present :: bool
  rd_before :: "string option"
  rd_loaded :: "string option"
  rd_after :: "string option"
  rd_still :: bool
  rd_commit :: "string option"

text \<open>The digest of the audited bytes, the findings, and what blocks the release.\<close>

definition audit_failed :: "(release_error \<Rightarrow> string) \<Rightarrow> release_error \<Rightarrow> string" where
  "audit_failed show_error e = ''physical requirement audit failed: '' @ show_error e"

definition physical_audit ::
    "audit_format \<Rightarrow> (release_error \<Rightarrow> string) \<Rightarrow> release_env \<Rightarrow> requirement_invariants \<Rightarrow> audit_part list \<Rightarrow> board_reads
       \<Rightarrow> string \<times> invariant_finding list \<times> string list" where
  "physical_audit f show_error v q parts r =
     (if \<not> rd_present r then ([], [], [''final KiCad PCB is unavailable for physical requirement audit''])
      else case rd_before r of
        None \<Rightarrow> ([], [], [audit_failed show_error (Unreadable ''board'')])
      | Some before_audit \<Rightarrow>
          (case bind_res (case rd_loaded r of None \<Rightarrow> Inl (Unreadable ''board'') | Some bytes \<Rightarrow> load_board v bytes)
                  (\<lambda>b. audit_pcb_invariants f q b parts) of
             Inl e \<Rightarrow> ([], [], [audit_failed show_error e])
           | Inr fs \<Rightarrow>
               (case rd_after r of
                  None \<Rightarrow> ([], fs, [audit_failed show_error (Unreadable ''board'')])
                | Some after_audit \<Rightarrow>
                    (sha256 after_audit, fs,
                     (if sha256 after_audit \<noteq> sha256 before_audit
                      then [''final KiCad PCB changed during physical requirement audit''] else [])
                     @ map finding_line fs))))"

text \<open>The drill files are their names and contents; a file that cannot be read has none.\<close>

definition DRILL_COORDINATE :: rx where
  "DRILL_COORDINATE =
     (let sign = opt (Sat (\<lambda>c. c = CHR ''-'' \<or> c = CHR ''+''))
      in Cat (lit ''X'') (Cat sign (Cat digits (Cat (opt (Cat (lit ''.'') digits)) (Cat (lit ''Y'') (Cat sign (Sat is_digit)))))))"

definition npth_file :: "string \<Rightarrow> string \<Rightarrow> bool" where
  "npth_file file_name content \<longleftrightarrow> contains content ''FileFunction,NonPlated'' \<or> contains (upper file_name) ''NPTH''"

definition drill_coordinates :: "string \<Rightarrow> int" where
  "drill_coordinates content = count_if (\<lambda>line. rx_at DRILL_COORDINATE ([], line) \<noteq> None) (splitlines content)"

definition drill_blockers ::
    "audit_format \<Rightarrow> requirement_invariants \<Rightarrow> bool \<Rightarrow> (string \<times> string \<times> string option) list \<Rightarrow> string list" where
  "drill_blockers f q export_applicable drill_files =
     (case rq_holes q of
        None \<Rightarrow> []
      | Some n \<Rightarrow>
          if rq_npth q \<and> n \<noteq> 0 \<and> export_applicable
          then (let npth = concat (map (\<lambda>(p, file_name, content). case content of
                       None \<Rightarrow> [] | Some t \<Rightarrow> if npth_file file_name t then [(p, t)] else []) drill_files);
                    found = sum_list (map (\<lambda>(p, t). drill_coordinates t) npth)
                in if found < n
                   then [''manufacturing NPTH drill audit found '' @ af_int f found @ '' coordinate(s) in '' @ af_list f (map fst npth)
                         @ ''; requirement is at least '' @ af_int f n] else [])
          else [])"

text \<open>What the result of the step says of the release; the path is empty where no receipt was written.\<close>

record manufacture_release =
  mr_path :: "path option"
  mr_identity :: "release_identity option"
  mr_ready :: bool
  mr_blockers :: "string list"

definition receipt_failed :: "(release_error \<Rightarrow> string) \<Rightarrow> release_error \<Rightarrow> string" where
  "receipt_failed show_error e = ''release-invariant receipt generation failed: '' @ show_error e"

text \<open>
  Issuing the receipt.  It is committed, by renaming a temporary file, when the bytes at that
  moment still have the digest of the audited ones.  Extracting the constraints raises outside
  every handler.
\<close>

definition release_outcome ::
    "path \<Rightarrow> release_manifest option \<Rightarrow> string list \<Rightarrow> manufacture_release \<times> release_manifest option" where
  "release_outcome receipt_path receipt blockers =
     (\<lparr>mr_path = map_option (\<lambda>_. receipt_path) receipt, mr_identity = map_option rm_identity receipt,
       mr_ready = (blockers = []), mr_blockers = blockers\<rparr>, receipt)"

definition issue_receipt ::
    "audit_format \<Rightarrow> (release_error \<Rightarrow> string) \<Rightarrow> recognisers \<Rightarrow> release_env \<Rightarrow> string \<Rightarrow> string \<Rightarrow> path \<Rightarrow> path \<Rightarrow> audit_part list
       \<Rightarrow> board_reads \<Rightarrow> bool \<Rightarrow> (string \<times> string \<times> string option) list
       \<Rightarrow> release_error + manufacture_release \<times> release_manifest option" where
  "issue_receipt f show_error g v project_name requirement receipt_path pcb_path parts r export_applicable drill_files =
     bind_res (extract_requirement_invariants g requirement) (\<lambda>q.
       case physical_audit f show_error v q parts r of
         (audited, fs, audit_blockers) \<Rightarrow>
           (let blockers = audit_blockers @ drill_blockers f q export_applicable drill_files
            in Inr (if rd_still r \<and> audited \<noteq> [] \<and> \<not> (\<exists>item \<in> set blockers. contains item ''changed during'')
               then (case build_release_invariant_manifest g project_name requirement pcb_path fs blockers audited of
                       Inl e \<Rightarrow> release_outcome receipt_path None (blockers @ [receipt_failed show_error e])
                     | Inr m \<Rightarrow>
                         (case rd_commit r of
                            None \<Rightarrow> release_outcome receipt_path None (blockers @ [receipt_failed show_error (Unreadable ''board'')])
                          | Some bytes \<Rightarrow>
                              if sha256 bytes \<noteq> audited
                              then release_outcome receipt_path None
                                     (blockers @ [''final KiCad PCB changed before release receipt commit''])
                              else release_outcome receipt_path (Some m) blockers))
               else release_outcome receipt_path None blockers)))"

text \<open>\<open>_manufacture_receipt_errors\<close>, given the board and the parts that the state has.\<close>

definition manufacture_receipt_errors ::
    "audit_format \<Rightarrow> (release_error \<Rightarrow> string) \<Rightarrow> recognisers \<Rightarrow> release_env \<Rightarrow> string \<Rightarrow> string \<Rightarrow> path option
       \<Rightarrow> audit_part list option \<Rightarrow> manufacture_release \<Rightarrow> string list" where
  "manufacture_receipt_errors f show_error g v project_name requirement written selection a =
     (case written of
        None \<Rightarrow> [''layout-write PCB artifact is unavailable'']
      | Some pcb_path \<Rightarrow>
          (case selection of
             None \<Rightarrow> [''selection artifact is unavailable'']
           | Some parts \<Rightarrow>
               if en_file v pcb_path = None then [''current KiCad PCB is unavailable'']
               else (case mr_path a of
                       None \<Rightarrow> [''release-invariant receipt is unavailable'']
                     | Some manifest_path \<Rightarrow>
                         if en_file v manifest_path = None then [''release-invariant receipt is unavailable'']
                         else (case validate_release_invariant_manifest f g v manifest_path project_name requirement pcb_path parts of
                            Inl e \<Rightarrow> [show_error e]
                          | Inr m \<Rightarrow>
                              (if mr_identity a \<noteq> Some (rm_identity m)
                               then [''ManufactureResult identity differs from its release receipt''] else [])
                              @ (if mr_ready a \<noteq> rm_ready m
                                 then [''ManufactureResult release verdict differs from its receipt''] else [])
                              @ (if mr_blockers a \<noteq> rm_blockers m
                                 then [''ManufactureResult blockers differ from its release receipt''] else [])))))"

section \<open>The review tool\<close>

record manifest_status =
  ms_status :: string
  ms_path :: "path option"
  ms_ready :: bool
  ms_blockers :: "string list"
  ms_findings :: "invariant_finding list"
  ms_identity :: "release_identity option"

definition unusable_status :: "string \<Rightarrow> path option \<Rightarrow> string \<Rightarrow> manifest_status" where
  "unusable_status st p blocker =
     \<lparr>ms_status = st, ms_path = p, ms_ready = False, ms_blockers = [blocker], ms_findings = [], ms_identity = None\<rparr>"

text \<open>The requirement, the project and the parts of the saved pipeline state.\<close>

definition release_inputs :: "release_env \<Rightarrow> path \<Rightarrow> release_error + string \<times> string \<times> audit_part list" where
  "release_inputs v directory =
     (case en_file v (directory @ [''pipeline_state.json'']) of
        None \<Rightarrow> Inl (Unreadable ''state'')
      | Some s \<Rightarrow>
          (case en_json v s of
             Some (PDict d) \<Rightarrow>
               (let requirement = strip (py_str_by (en_str v) (get_or d ''requirement'' (PStr [])));
                    project_name = strip (py_str_by (en_str v) (get_or d ''project_name'' (PStr [])))
                in case get_or d ''intermediate_artifacts'' PNone of
                     PDict artifacts \<Rightarrow>
                       if requirement = [] \<or> project_name = [] then Inl StateIncomplete
                       else (case en_selection v (map_of artifacts ''selection'') of
                               None \<Rightarrow> Inl (ContractFailed ''selection'')
                             | Some parts \<Rightarrow> Inr (requirement, project_name, parts))
                   | _ \<Rightarrow> Inl StateIncomplete)
           | _ \<Rightarrow> Inl (Unreadable ''state'')))"

definition release_invariant_manifest ::
    "audit_format \<Rightarrow> (release_error \<Rightarrow> string) \<Rightarrow> recognisers \<Rightarrow> release_env \<Rightarrow> path \<Rightarrow> path list \<Rightarrow> path option \<Rightarrow> manifest_status" where
  "release_invariant_manifest f show_error g v directory candidates board_path =
     (case candidates of
        [] \<Rightarrow> unusable_status ''missing'' None ''release-invariant manifest is missing from the project directory''
      | [manifest_path] \<Rightarrow>
          (let current = (case board_path of
                            None \<Rightarrow> Inl (Unreadable ''board'')
                          | Some p \<Rightarrow> if en_file v p = None then Inl (Unreadable ''board'') else Inr p)
           in case bind_res current (\<lambda>p. bind_res (release_inputs v directory) (\<lambda>(requirement, project_name, parts).
                     validate_release_invariant_manifest f g v manifest_path project_name requirement p parts)) of
                Inl e \<Rightarrow> unusable_status ''invalid'' (Some manifest_path) (''release-invariant manifest is invalid: '' @ show_error e)
              | Inr m \<Rightarrow>
                  \<lparr>ms_status = (if rm_ready m \<and> rm_blockers m = [] then ''passed'' else ''blocked''), ms_path = Some manifest_path,
                   ms_ready = rm_ready m, ms_blockers = rm_blockers m, ms_findings = rm_findings m,
                   ms_identity = Some (rm_identity m)\<rparr>)
      | _ \<Rightarrow> unusable_status ''invalid'' None
               (''release-invariant manifest is ambiguous: found '' @ nat_str (length candidates) @ '' candidates''))"

text \<open>One kicad-cli check: a warning rule has a resolution, a disposition, a count and a reason.\<close>

record warning_class =
  wc_rule :: string
  wc_status :: string
  wc_disposition :: string
  wc_count :: int
  wc_reason :: string

record kicad_run =
  kr_applicable :: bool
  kr_available :: bool
  kr_ran :: bool
  kr_errors :: "int option"
  kr_warnings :: "warning_class list"
  kr_unconnected :: "int option"

definition blocking_warning :: "warning_class \<Rightarrow> bool" where
  "blocking_warning w \<longleftrightarrow> wc_status w \<notin> {''auto_equivalent'', ''waived''}
     \<and> wc_disposition w \<in> {''repair_required'', ''explicit_review_required'', ''repair_or_explicit_waiver_required'',
                             ''normalized_structure_evidence_required''}"

definition warning_reason :: "warning_class \<Rightarrow> string" where
  "warning_reason w =
     str_or (strip (wc_reason w))
       (if wc_disposition w = ''repair_required'' then ''repair is required''
        else if wc_disposition w = ''explicit_review_required'' then ''explicit review is required''
        else ''repair or a report-digest/rule/count-bound waiver is required; no verified warning-waiver contract is implemented'')"

definition optional_count :: "int option \<Rightarrow> string" where
  "optional_count n = (case n of None \<Rightarrow> ''None'' | Some i \<Rightarrow> int_str i)"

definition run_blockers :: "string \<Rightarrow> kicad_run \<Rightarrow> string list" where
  "run_blockers display k =
     (if \<not> kr_applicable k then []
      else (if \<not> kr_available k then [''kicad-cli '' @ display @ '' unavailable'']
            else if \<not> kr_ran k then [''kicad-cli '' @ display @ '' did not run'']
            else if kr_errors k \<noteq> Some 0 then [''kicad-cli '' @ display @ '' reported '' @ optional_count (kr_errors k) @ '' error(s)'']
            else [])
           @ map (\<lambda>w. ''kicad-cli '' @ display @ '' warning '' @ wc_rule w @ '' ('' @ int_str (wc_count w) @ '' finding(s)): '' @ warning_reason w)
               (filter blocking_warning (kr_warnings k)))"

definition verification_blockers :: "kicad_run \<Rightarrow> kicad_run \<Rightarrow> string list" where
  "verification_blockers erc drc =
     run_blockers ''ERC'' erc @ run_blockers ''DRC'' drc
     @ (if kr_applicable drc \<and> kr_unconnected drc \<noteq> Some 0
        then [''kicad-cli DRC reported '' @ optional_count (kr_unconnected drc) @ '' unconnected item(s)''] else [])"

text \<open>What the reviews found: project gates, component gate, placement constraints.\<close>

record review_evidence =
  rv_blocked :: bool
  rv_components :: "string list"
  rv_placement :: "string list"
  rv_erc :: kicad_run
  rv_drc :: kicad_run

definition independent_blocked :: "review_evidence \<Rightarrow> bool" where
  "independent_blocked e \<longleftrightarrow> rv_blocked e \<or> verification_blockers (rv_erc e) (rv_drc e) \<noteq> [] \<or> rv_placement e \<noteq> []"

definition independent_reasons :: "review_evidence \<Rightarrow> string list" where
  "independent_reasons e =
     verification_blockers (rv_erc e) (rv_drc e) @ rv_components e @ rv_placement e
     @ (if rv_blocked e \<and> rv_components e = [] then [''deterministic project-review gates failed''] else [])"

text \<open>What the pipeline hands over; validating the identity strictly is an argument.\<close>

record upstream_release =
  up_ready :: "bool option"
  up_blockers :: "string list option"
  up_identity :: "pyval option"

definition upstream_identity :: "(pyval option \<Rightarrow> release_identity option) \<Rightarrow> upstream_release \<Rightarrow> release_identity option" where
  "upstream_identity strict u =
     (case strict (up_identity u) of None \<Rightarrow> None | Some i \<Rightarrow> if identity_ok i then Some i else None)"

definition release_reasons ::
    "(pyval option \<Rightarrow> release_identity option) \<Rightarrow> upstream_release \<Rightarrow> manifest_status \<Rightarrow> review_evidence \<Rightarrow> string list" where
  "release_reasons strict u s e =
     dedup
       ((if up_ready u \<noteq> Some True then [''upstream hardware pipeline did not attest release_ready=true''] else [])
        @ filter (\<lambda>t. t \<noteq> []) (map strip (case up_blockers u of None \<Rightarrow> [] | Some bs \<Rightarrow> bs))
        @ (case upstream_identity strict u of
             None \<Rightarrow> [''upstream hardware release identity is missing or invalid'']
           | Some i \<Rightarrow> if Some i \<noteq> ms_identity s
                       then [''upstream hardware release identity does not match the independently validated release-invariant manifest'']
                       else [])
        @ (if ms_status s \<noteq> ''passed'' then ms_blockers s else [])
        @ independent_reasons e)"

datatype release_verdict = NotEvaluated | ReleaseBlocked "string list" | ReleasePass

definition integrated_release :: "upstream_release \<Rightarrow> bool" where
  "integrated_release u \<longleftrightarrow> up_ready u \<noteq> None \<or> up_blockers u \<noteq> None \<or> up_identity u \<noteq> None"

definition review_release ::
    "(pyval option \<Rightarrow> release_identity option) \<Rightarrow> upstream_release \<Rightarrow> manifest_status \<Rightarrow> review_evidence \<Rightarrow> release_verdict" where
  "review_release strict u s e =
     (if integrated_release u
      then (case release_reasons strict u s e of [] \<Rightarrow> ReleasePass | rs \<Rightarrow> ReleaseBlocked rs)
      else NotEvaluated)"

text \<open>\<open>effective_blocked\<close>.\<close>

definition effective_blocked :: "release_verdict \<Rightarrow> review_evidence \<Rightarrow> bool" where
  "effective_blocked r e = (case r of NotEvaluated \<Rightarrow> independent_blocked e | ReleaseBlocked _ \<Rightarrow> True | ReleasePass \<Rightarrow> False)"

end
