(* ===== verification/Release_Facts.thy ===== *)
theory Release_Facts
  imports Release_Receipt
begin

text \<open>
  Properties of the release audit and its receipt: the audit reports exactly the violated
  constraints, a validated receipt describes the current board, the step accepts the receipt it
  has just written, and the review passes a release only on all of this evidence.
\<close>

section \<open>What the constraints ask for\<close>

definition outline_readable :: "requirement_invariants \<Rightarrow> board \<Rightarrow> bool" where
  "outline_readable q b \<longleftrightarrow> (rq_max_width q = None \<and> rq_max_height q = None) \<or> bo_extents b \<noteq> None"

definition extent_within :: "rat option \<Rightarrow> (rat \<times> rat \<Rightarrow> rat) \<Rightarrow> board \<Rightarrow> bool" where
  "extent_within limit_mm axis b \<longleftrightarrow> (\<forall>l e. limit_mm = Some l \<longrightarrow> bo_extents b = Some e \<longrightarrow> axis e \<le> l + 1 / 10 ^ 6)"

text \<open>One zone over most of the board, filled by one piece of copper that covers most of the zone.\<close>

definition solid_plane :: "board_zone list \<Rightarrow> (rat \<times> rat) option \<Rightarrow> bool" where
  "solid_plane zones extents \<longleftrightarrow>
     (\<exists>z fill w h source copper. zones = [z] \<and> extents = Some (w, h) \<and> 1 / 10 ^ 9 < w * h
        \<and> polygon_area (zn_points z) = Some source \<and> 4 / 5 * (w * h) \<le> source
        \<and> zn_filled z = [fill] \<and> \<not> fl_island fill
        \<and> polygon_area (fl_points fill) = Some copper \<and> 4 / 5 * source \<le> copper)"

definition hole_refs :: "audit_part list \<Rightarrow> string list" where
  "hole_refs parts = map rp_ref (filter is_mounting_hole_part parts)"

definition non_plated :: "board \<Rightarrow> string \<Rightarrow> bool" where
  "non_plated b r \<longleftrightarrow> (\<exists>pads. bo_pads b r = Some pads \<and> (\<exists>p \<in> set pads. pa_type p = ''np_thru_hole''))"

definition tracks_wide :: "requirement_invariants \<Rightarrow> board \<Rightarrow> rat \<Rightarrow> bool" where
  "tracks_wide q b width_mm \<longleftrightarrow>
     (\<forall>net w. (net, Some w) \<in> set (bo_tracks b) \<longrightarrow> track_counts q net \<longrightarrow> width_mm \<le> w + 1 / 10 ^ 9)"

text \<open>
  A part whose pads are readable and reach a power net has one of those pads near a pad of the
  same net of an anchor.
\<close>

definition near_anchor :: "audit_format \<Rightarrow> board \<Rightarrow> audit_part list \<Rightarrow> rat \<Rightarrow> audit_part \<Rightarrow> bool" where
  "near_anchor m b parts limit_mm p \<longleftrightarrow>
     (\<forall>pads. bo_pads b (rp_ref p) = Some pads \<longrightarrow> (\<exists>c \<in> set pads. is_power_net (pa_net c)) \<longrightarrow>
        (\<exists>c \<in> set pads. is_power_net (pa_net c)
           \<and> (\<exists>a \<in> set (anchor_parts parts). \<exists>others. bo_pads b (rp_ref a) = Some others
                \<and> (\<exists>d \<in> set others. pa_net d = pa_net c \<and> af_hypot m (pa_x c - pa_x d) (pa_y c - pa_y d) \<le> limit_mm + 1 / 10 ^ 9))))"

text \<open>Each constraint by its identifier, with whether the board violates it.\<close>

definition violations :: "audit_format \<Rightarrow> requirement_invariants \<Rightarrow> board \<Rightarrow> audit_part list \<Rightarrow> (string \<times> bool) list" where
  "violations m q b parts =
     [(''copper_layer_count'', \<exists>n. rq_layers q = Some n \<and> bo_copper_layers b \<noteq> n),
      (''board_outline_available'', \<not> outline_readable q b),
      (''board_max_width'', \<not> extent_within (rq_max_width q) fst b),
      (''board_max_height'', \<not> extent_within (rq_max_height q) snd b),
      (''ground_plane_materialized'', rq_ground_plane q \<and> ground_zones q b = []),
      (''continuous_ground_geometry'',
         rq_ground_plane q \<and> ground_zones q b \<noteq> [] \<and> rq_continuous q \<and> \<not> solid_plane (ground_zones q b) (bo_extents b)),
      (''mounting_hole_count'', \<exists>n. rq_holes q = Some n \<and> int (length (hole_refs parts)) \<noteq> n),
      (''mounting_holes_materialized'', rq_holes q \<noteq> None \<and> \<not> set (hole_refs parts) \<subseteq> set (bo_references b)),
      (''mounting_holes_non_plated'', rq_holes q \<noteq> None \<and> rq_npth q \<and> (\<exists>r \<in> set (hole_refs parts). \<not> non_plated b r)),
      (''minimum_track_width'', \<exists>w. rq_min_track q = Some w \<and> \<not> tracks_wide q b w),
      (''decoupling_parts_present'', rq_decoupling q \<noteq> None \<and> (\<forall>p \<in> set parts. \<not> is_decoupling_part p)),
      (''decoupling_distance'',
         \<exists>l. rq_decoupling q = Some l \<and> (\<exists>p \<in> set parts. is_decoupling_part p \<and> \<not> near_anchor m b parts l p))]"

abbreviation violated :: "(string \<times> bool) list \<Rightarrow> string list" where
  "violated vs \<equiv> map fst (filter snd vs)"

definition board_meets :: "audit_format \<Rightarrow> requirement_invariants \<Rightarrow> board \<Rightarrow> audit_part list \<Rightarrow> bool" where
  "board_meets m q b parts \<longleftrightarrow> violated (violations m q b parts) = []"

section \<open>The audit is exact\<close>

lemma nf_id_finding [simp]: "nf_id (finding i t rs) = i"
  by (simp add: finding_def)

lemma layer_findings_ids:
  "map nf_id (layer_findings m q b) = violated [(''copper_layer_count'', \<exists>n. rq_layers q = Some n \<and> bo_copper_layers b \<noteq> n)]"
  by (auto simp: layer_findings_def split: option.splits)

lemma outline_findings_ids:
  "map nf_id (outline_findings m q b) =
     violated [(''board_outline_available'', \<not> outline_readable q b), (''board_max_width'', \<not> extent_within (rq_max_width q) fst b),
               (''board_max_height'', \<not> extent_within (rq_max_height q) snd b)]"
  by (cases "bo_extents b"; cases "rq_max_width q"; cases "rq_max_height q")
     (auto simp: outline_findings_def outline_readable_def extent_within_def)

lemma polygon_area_positive: "polygon_area ps = Some a \<Longrightarrow> 1 / 10 ^ 9 < a"
  by (auto simp: polygon_area_def Let_def split: if_splits)

lemma ratio_below: "0 < d \<Longrightarrow> n / d < CONTINUOUS_ZONE_MIN_COVERAGE \<longleftrightarrow> \<not> 4 / 5 * d \<le> n"
  by (simp add: CONTINUOUS_ZONE_MIN_COVERAGE_def divide_less_eq not_le)

lemma continuous_ground_iff: "continuous_ground_reason m zones extents = None \<longleftrightarrow> solid_plane zones extents"
proof (cases "\<exists>z w h a. zones = [z] \<and> extents = Some (w, h) \<and> 1 / 10 ^ 9 < w * h \<and> polygon_area (zn_points z) = Some a")
  case True
  then obtain z w h a where z: "zones = [z]" "extents = Some (w, h)" "1 / 10 ^ 9 < w * h" "polygon_area (zn_points z) = Some a"
    by blast
  have pos: "0 < w * h" "0 < a"
    using z(3) polygon_area_positive [OF z(4)] by (auto intro: less_trans [rotated])
  show ?thesis
    using z(3) by (auto simp: continuous_ground_reason_def solid_plane_def z(1,2,4) ratio_below [OF pos(1)] ratio_below [OF pos(2)]
        not_le split: list.splits option.splits if_splits)
next
  case False
  then have "\<not> solid_plane zones extents" by (auto simp: solid_plane_def)
  moreover from False have "continuous_ground_reason m zones extents \<noteq> None"
    by (auto simp: continuous_ground_reason_def not_le split: list.splits option.splits if_splits)
  ultimately show ?thesis by simp
qed

lemma ground_findings_ids:
  "map nf_id (ground_findings m q b) =
     violated [(''ground_plane_materialized'', rq_ground_plane q \<and> ground_zones q b = []),
       (''continuous_ground_geometry'',
          rq_ground_plane q \<and> ground_zones q b \<noteq> [] \<and> rq_continuous q \<and> \<not> solid_plane (ground_zones q b) (bo_extents b))]"
  using continuous_ground_iff [of m "ground_zones q b" "bo_extents b"]
  by (auto simp: ground_findings_def split: option.splits)

lemma unproven_npth_Nil_iff: "unproven_npth b r = [] \<longleftrightarrow> non_plated b r"
  by (auto simp: unproven_npth_def non_plated_def split: option.splits)

lemma hole_findings_ids:
  "map nf_id (hole_findings m q b parts) =
     violated [(''mounting_hole_count'', \<exists>n. rq_holes q = Some n \<and> int (length (hole_refs parts)) \<noteq> n),
       (''mounting_holes_materialized'', rq_holes q \<noteq> None \<and> \<not> set (hole_refs parts) \<subseteq> set (bo_references b)),
       (''mounting_holes_non_plated'', rq_holes q \<noteq> None \<and> rq_npth q \<and> (\<exists>r \<in> set (hole_refs parts). \<not> non_plated b r))]"
proof (cases "rq_holes q")
  case (Some n)
  have missing: "sort (filter (\<lambda>r. r \<notin> set (bo_references b)) (hole_refs parts)) = [] \<longleftrightarrow> set (hole_refs parts) \<subseteq> set (bo_references b)"
    by (metis (no_types, lifting) filter_empty_conv set_empty set_sort subset_code(1))
  have plated: "concat (map (unproven_npth b) (hole_refs parts)) = [] \<longleftrightarrow> (\<forall>r \<in> set (hole_refs parts). non_plated b r)"
    by (simp add: concat_eq_Nil_conv unproven_npth_Nil_iff)
  show ?thesis
    unfolding hole_findings_def Some hole_refs_def [symmetric] Let_def option.case
    using missing plated by (auto simp del: sort_key_simps)
qed (simp add: hole_findings_def)

lemma track_findings_ids:
  "map nf_id (track_findings m q b) = violated [(''minimum_track_width'', \<exists>w. rq_min_track q = Some w \<and> \<not> tracks_wide q b w)]"
proof (cases "rq_min_track q")
  case (Some width_mm)
  define thin where "thin = concat (map (\<lambda>(net, width). case width of
      Some w \<Rightarrow> if track_counts q net \<and> w + 1 / 10 ^ 9 < width_mm
                then [str_or (drop_plus (upper net)) ''<unnamed>'' @ '':'' @ af_3 m w @ ''mm''] else []
    | None \<Rightarrow> []) (bo_tracks b))"
  have "thin = [] \<longleftrightarrow> (\<forall>x \<in> set (bo_tracks b). case x of (net, Some w) \<Rightarrow> track_counts q net \<longrightarrow> width_mm \<le> w + 1 / 10 ^ 9 | _ \<Rightarrow> True)"
    unfolding thin_def concat_eq_Nil_conv set_map ball_simps
    by (intro ball_cong refl) (auto simp: not_less split: option.splits if_splits)
  also have "\<dots> \<longleftrightarrow> tracks_wide q b width_mm"
    unfolding tracks_wide_def by (auto split: option.splits dest: bspec)
  finally have "thin = [] \<longleftrightarrow> tracks_wide q b width_mm" .
  then show ?thesis
    unfolding track_findings_def Some option.case thin_def [symmetric] Let_def by simp
qed (simp add: track_findings_def)

lemma min_pair_near: "xs \<noteq> [] \<Longrightarrow> fst (min_pair xs) \<le> l \<longleftrightarrow> (\<exists>x \<in> set xs. fst x \<le> l)"
proof -
  assume nonempty: "xs \<noteq> []"
  then have eq: "min_pair xs = Min (set xs)"
    using Min.set_eq_fold [of "hd xs" "tl xs"] by (simp add: min_pair_def)
  have least: "fst (min_pair xs) \<le> fst x" if "x \<in> set xs" for x
    using Min_le [of "set xs" x] that by (auto simp: eq less_eq_prod_def)
  moreover have "min_pair xs \<in> set xs" using nonempty Min_in [of "set xs"] by (simp add: eq)
  ultimately show ?thesis by (meson order_trans)
qed

lemma anchor_distances_set:
  "x \<in> set (anchor_distances m b parts power_pads) \<longleftrightarrow>
     (\<exists>a \<in> set (anchor_parts parts). \<exists>others. bo_pads b (rp_ref a) = Some others
        \<and> (\<exists>c \<in> set power_pads. \<exists>d \<in> set others. pa_net d = pa_net c
              \<and> x = (af_hypot m (pa_x c - pa_x d) (pa_y c - pa_y d), rp_ref a)))"
  unfolding anchor_distances_def by (auto split: option.splits; force)

lemma far_from_anchor_Nil_iff: "far_from_anchor m b parts l p = [] \<longleftrightarrow> near_anchor m b parts l p"
proof (cases "bo_pads b (rp_ref p)")
  case (Some pads)
  define power where "power = filter (\<lambda>c. is_power_net (pa_net c)) pads"
  define xs where "xs = anchor_distances m b parts power"
  have in_power: "c \<in> set power \<longleftrightarrow> c \<in> set pads \<and> is_power_net (pa_net c)" for c by (simp add: power_def)
  have near: "near_anchor m b parts l p \<longleftrightarrow> power = [] \<or> (\<exists>x \<in> set xs. fst x \<le> l + 1 / 10 ^ 9)"
  proof -
    have "power \<noteq> [] \<longleftrightarrow> (\<exists>c \<in> set pads. is_power_net (pa_net c))" by (auto simp: power_def filter_empty_conv)
    moreover have "(\<exists>x \<in> set xs. fst x \<le> l + 1 / 10 ^ 9) \<longleftrightarrow>
      (\<exists>c \<in> set pads. is_power_net (pa_net c)
           \<and> (\<exists>a \<in> set (anchor_parts parts). \<exists>others. bo_pads b (rp_ref a) = Some others
                \<and> (\<exists>d \<in> set others. pa_net d = pa_net c \<and> af_hypot m (pa_x c - pa_x d) (pa_y c - pa_y d) \<le> l + 1 / 10 ^ 9)))"
      unfolding xs_def Bex_def anchor_distances_set in_power by (simp only: ex_simps conj_assoc fst_conv) (metis fst_conv)
    ultimately show ?thesis unfolding near_anchor_def Some by (simp only: option.inject) blast
  qed
  have far: "far_from_anchor m b parts l p = (if power = [] then []
      else case xs of [] \<Rightarrow> [rp_ref p @ ''-><no power-pin anchor>'']
        | _ \<Rightarrow> (case min_pair xs of (distance, anchor) \<Rightarrow>
                 if distance > l + 1 / 10 ^ 9 then [rp_ref p @ ''->'' @ anchor @ '' ('' @ af_2 m distance @ ''mm)''] else []))"
    unfolding far_from_anchor_def Some option.case Let_def power_def xs_def by (simp split: list.splits)
  show ?thesis
  proof (cases "xs = []")
    case False
    with min_pair_near [OF False, of "l + 1 / 10 ^ 9"] show ?thesis
      unfolding far near by (auto split: list.splits prod.splits simp: not_less)
  qed (auto simp: far near)
qed (simp add: far_from_anchor_def near_anchor_def)

lemma decoupling_findings_ids:
  "map nf_id (decoupling_findings m q b parts) =
     violated [(''decoupling_parts_present'', rq_decoupling q \<noteq> None \<and> (\<forall>p \<in> set parts. \<not> is_decoupling_part p)),
       (''decoupling_distance'',
          \<exists>l. rq_decoupling q = Some l \<and> (\<exists>p \<in> set parts. is_decoupling_part p \<and> \<not> near_anchor m b parts l p))]"
proof (cases "rq_decoupling q")
  case (Some l)
  have present: "filter is_decoupling_part parts = [] \<longleftrightarrow> (\<forall>p \<in> set parts. \<not> is_decoupling_part p)"
    by (simp add: filter_empty_conv)
  have far: "concat (map (far_from_anchor m b parts l) (filter is_decoupling_part parts)) = []
      \<longleftrightarrow> \<not> (\<exists>p \<in> set parts. is_decoupling_part p \<and> \<not> near_anchor m b parts l p)"
    by (auto simp: concat_eq_Nil_conv far_from_anchor_Nil_iff)
  show ?thesis
    unfolding decoupling_findings_def Some option.case Let_def using present far by simp
qed (simp add: decoupling_findings_def)

lemma audit_ids: "audit_pcb_invariants m q b parts = Inr fs \<Longrightarrow> map nf_id fs = violated (violations m q b parts)"
proof -
  assume "audit_pcb_invariants m q b parts = Inr fs"
  then have "map nf_id fs = map nf_id (layer_findings m q b) @ map nf_id (outline_findings m q b) @ map nf_id (ground_findings m q b)
      @ map nf_id (hole_findings m q b parts) @ map nf_id (track_findings m q b) @ map nf_id (decoupling_findings m q b parts)"
    by (auto simp: audit_pcb_invariants_def Let_def split: if_splits)
  then show ?thesis
    unfolding layer_findings_ids outline_findings_ids ground_findings_ids hole_findings_ids track_findings_ids
      decoupling_findings_ids violations_def map_append [symmetric] filter_append [symmetric] by (simp only: append.simps)
qed

lemma findings_empty_iff: "audit_pcb_invariants m q b parts = Inr fs \<Longrightarrow> fs = [] \<longleftrightarrow> board_meets m q b parts"
  using audit_ids [of m q b parts fs] by (simp only: board_meets_def) auto

section \<open>Receipts\<close>

lemma manifest_ready_iff: "manifest_ok m \<Longrightarrow> rm_ready m \<longleftrightarrow> rm_blockers m = []"
  by (auto simp: manifest_ok_def manifest_consistent_def)

lemma read_receipt_ok: "read_receipt v p = Inr m \<Longrightarrow> manifest_ok m"
  by (auto simp: read_receipt_def split: option.splits if_splits)

text \<open>What a successful validation has established.\<close>

lemma validate_evidence:
  assumes "validate_release_invariant_manifest f g v manifest_path project_name requirement pcb_path parts = Inr m"
  obtains q bytes b where
    "manifest_ok m" "extract_requirement_invariants g requirement = Inr q" "rm_invariants m = q"
    "en_file v (en_resolve v pcb_path) = Some bytes" "en_board v bytes = Some b"
    "audit_pcb_invariants f q b parts = Inr (rm_findings m)"
    "rm_identity m = \<lparr>ri_project = project_name, ri_source_digest = rq_source_digest q,
                       ri_pcb_relpath = last pcb_path, ri_pcb_sha256 = sha256 bytes\<rparr>"
proof -
  from assms obtain q where r: "read_receipt v manifest_path = Inr m" and q: "extract_requirement_invariants g requirement = Inr q"
    by (auto simp: validate_release_invariant_manifest_def bind_res_Inr_iff Let_def load_board_def split: if_splits option.splits)
  from assms obtain bytes b where "rm_invariants m = q" "en_file v (en_resolve v pcb_path) = Some bytes" "en_board v bytes = Some b"
      "audit_pcb_invariants f q b parts = Inr (rm_findings m)"
      "ri_project (rm_identity m) = project_name" "ri_source_digest (rm_identity m) = rq_source_digest q"
      "ri_pcb_relpath (rm_identity m) = last pcb_path" "ri_pcb_sha256 (rm_identity m) = sha256 bytes"
    by (auto simp: validate_release_invariant_manifest_def r q bind_res_Inr_iff Let_def load_board_def split: if_splits option.splits)
  with that [of q bytes b] read_receipt_ok [OF r] q show thesis by simp
qed

lemma validated_board_meets:
  assumes "validate_release_invariant_manifest f g v manifest_path project_name requirement pcb_path parts = Inr m"
    and "rm_ready m"
  obtains q bytes b where "extract_requirement_invariants g requirement = Inr q"
    "en_file v (en_resolve v pcb_path) = Some bytes" "en_board v bytes = Some b" "board_meets f q b parts"
    "rm_identity m = \<lparr>ri_project = project_name, ri_source_digest = rq_source_digest q,
                       ri_pcb_relpath = last pcb_path, ri_pcb_sha256 = sha256 bytes\<rparr>"
proof -
  obtain q bytes b where e: "manifest_ok m" "extract_requirement_invariants g requirement = Inr q"
    "en_file v (en_resolve v pcb_path) = Some bytes" "en_board v bytes = Some b"
    "audit_pcb_invariants f q b parts = Inr (rm_findings m)"
    "rm_identity m = \<lparr>ri_project = project_name, ri_source_digest = rq_source_digest q,
                       ri_pcb_relpath = last pcb_path, ri_pcb_sha256 = sha256 bytes\<rparr>"
    using validate_evidence [OF assms(1)] by metis
  from e(1) assms(2) have "rm_findings m = []" by (simp add: manifest_ok_def manifest_consistent_def)
  with findings_empty_iff [OF e(5)] that [OF e(2,3,4) _ e(6)] show thesis by simp
qed

text \<open>The lines of the findings of one audit differ, and none is the line of the drill audit.\<close>

lemma finding_line_inj:
  assumes "finding_line x = finding_line y" "CHR '':'' \<notin> set (nf_id x)" "CHR '':'' \<notin> set (nf_id y)"
  shows "nf_id x = nf_id y"
proof -
  have "takeWhile (\<lambda>c. c \<noteq> CHR '':'') (finding_line z) = nf_id z" if "CHR '':'' \<notin> set (nf_id z)" for z
    using that by (subst finding_line_def, subst takeWhile_append2) auto
  with assms show ?thesis by metis
qed

lemma violated_ids:
  "distinct (violated (violations m q b parts))"
  "i \<in> set (violated (violations m q b parts)) \<Longrightarrow> CHR '':'' \<notin> set i \<and> \<not> startswith (i @ t) ''manufacturing NPTH''"
proof -
  have ids: "map fst (violations m q b parts) =
    [''copper_layer_count'', ''board_outline_available'', ''board_max_width'', ''board_max_height'', ''ground_plane_materialized'',
     ''continuous_ground_geometry'', ''mounting_hole_count'', ''mounting_holes_materialized'', ''mounting_holes_non_plated'',
     ''minimum_track_width'', ''decoupling_parts_present'', ''decoupling_distance'']"
    by (simp add: violations_def)
  have "distinct (map fst (violations m q b parts))" unfolding ids by simp
  then show "distinct (violated (violations m q b parts))" by (rule distinct_map_filter)
  assume "i \<in> set (violated (violations m q b parts))"
  then have "i \<in> set (map fst (violations m q b parts))" by auto
  then show "CHR '':'' \<notin> set i \<and> \<not> startswith (i @ t) ''manufacturing NPTH''"
    unfolding ids by (auto simp: startswith_def)
qed

lemma finding_lines_distinct:
  assumes "audit_pcb_invariants m q b parts = Inr fs"
  shows "distinct (map finding_line fs)" "x \<in> set fs \<Longrightarrow> \<not> startswith (finding_line x) ''manufacturing NPTH''"
proof -
  note ids = audit_ids [OF assms]
  have no_colon: "CHR '':'' \<notin> set (nf_id x)" if "x \<in> set fs" for x
    using that violated_ids(2) [of "nf_id x" m q b parts] ids by (metis image_eqI list.set_map)
  have inj: "inj_on nf_id (set fs)" "distinct fs"
    using violated_ids(1) [of m q b parts] by (simp_all add: ids [symmetric] distinct_map)
  have "inj_on finding_line (set fs)"
    using inj(1) finding_line_inj no_colon by (metis (no_types, lifting) inj_onD inj_onI)
  with inj(2) show "distinct (map finding_line fs)" by (simp add: distinct_map)
  show "\<not> startswith (finding_line x) ''manufacturing NPTH''" if "x \<in> set fs"
    using that violated_ids(2) [of "nf_id x" m q b parts "'': '' @ nf_message x"] ids
    by (metis finding_line_def image_eqI list.set_map)
qed

lemma drill_blockers_cases:
  "drill_blockers f q export_applicable drill_files = []
   \<or> (\<exists>t. drill_blockers f q export_applicable drill_files = [''manufacturing NPTH'' @ t])"
  by (simp add: drill_blockers_def Let_def split: option.splits)

lemma blockers_distinct:
  assumes "audit_pcb_invariants f q b parts = Inr fs"
  shows "distinct (map finding_line fs @ drill_blockers f q export_applicable drill_files)"
  using drill_blockers_cases [of f q export_applicable drill_files] finding_lines_distinct [OF assms]
  by (auto simp: startswith_iff)

lemma physical_audit_complete:
  assumes "physical_audit f show_error v q parts r = (audited, fs, blockers)" "audited \<noteq> []"
    and "\<not> (\<exists>item \<in> set blockers. contains item ''changed during'')"
  obtains old bytes b new where "rd_before r = Some old" "rd_loaded r = Some bytes" "rd_after r = Some new" "sha256 old = audited"
    "sha256 new = audited" "en_board v bytes = Some b" "audit_pcb_invariants f q b parts = Inr fs" "blockers = map finding_line fs"
proof -
  from assms(1,2) obtain old bytes b new where e: "rd_before r = Some old" "rd_loaded r = Some bytes" "rd_after r = Some new"
      "sha256 new = audited" "en_board v bytes = Some b" "audit_pcb_invariants f q b parts = Inr fs"
      "blockers = (if sha256 new \<noteq> sha256 old then [''final KiCad PCB changed during physical requirement audit''] else [])
         @ map finding_line fs"
    by (auto simp: physical_audit_def load_board_def bind_res_Inr_iff split: if_splits option.splits sum.splits)
  have "contains ''final KiCad PCB changed during physical requirement audit'' ''changed during''"
    by (simp add: startswith_def)
  with e(7) assms(3) have "sha256 new = sha256 old" by (auto split: if_splits)
  with e that show thesis by simp
qed

lemma issued_receipt:
  assumes "issue_receipt f show_error g v project_name requirement receipt_path pcb_path parts r export_applicable drill_files
     = Inr (a, Some m)"
  obtains q bytes b old new now where
    "extract_requirement_invariants g requirement = Inr q" "rd_loaded r = Some bytes" "en_board v bytes = Some b"
    "audit_pcb_invariants f q b parts = Inr (rm_findings m)" "rd_before r = Some old" "rd_after r = Some new" "rd_commit r = Some now"
    "sha256 old = sha256 now" "sha256 new = sha256 now" "manifest_ok m" "rm_invariants m = q"
    "rm_identity m = \<lparr>ri_project = project_name, ri_source_digest = rq_source_digest q,
                       ri_pcb_relpath = last pcb_path, ri_pcb_sha256 = sha256 now\<rparr>"
    "a = \<lparr>mr_path = Some receipt_path, mr_identity = Some (rm_identity m), mr_ready = rm_ready m, mr_blockers = rm_blockers m\<rparr>"
proof -
  from assms obtain q where q: "extract_requirement_invariants g requirement = Inr q"
    by (auto simp: issue_receipt_def bind_res_Inr_iff)
  obtain audited fs audit_blockers where pa: "physical_audit f show_error v q parts r = (audited, fs, audit_blockers)"
    by (cases "physical_audit f show_error v q parts r")
  define blockers where "blockers = audit_blockers @ drill_blockers f q export_applicable drill_files"
  from assms obtain now where w: "audited \<noteq> []" "\<not> (\<exists>item \<in> set blockers. contains item ''changed during'')"
      "build_release_invariant_manifest g project_name requirement pcb_path fs blockers audited = Inr m"
      "rd_commit r = Some now" "sha256 now = audited" "release_outcome receipt_path (Some m) blockers = (a, Some m)"
    by (auto simp: issue_receipt_def q pa blockers_def release_outcome_def Let_def split: if_splits sum.splits option.splits)
  from w(2) have "\<not> (\<exists>item \<in> set audit_blockers. contains item ''changed during'')" by (simp add: blockers_def)
  from physical_audit_complete [OF pa w(1) this] obtain old bytes b new where
    p: "rd_before r = Some old" "rd_loaded r = Some bytes" "rd_after r = Some new" "sha256 old = audited"
    "sha256 new = audited" "en_board v bytes = Some b" "audit_pcb_invariants f q b parts = Inr fs" "audit_blockers = map finding_line fs"
    by metis
  have m: "manifest_ok m" "m = \<lparr>rm_identity = \<lparr>ri_project = project_name, ri_source_digest = rq_source_digest q,
                                ri_pcb_relpath = last pcb_path, ri_pcb_sha256 = audited\<rparr>,
                rm_ready = (blockers = []), rm_blockers = dedup blockers, rm_invariants = q, rm_findings = fs\<rparr>"
    using w(3) by (auto simp: build_release_invariant_manifest_def q Let_def split: if_splits)
  have "dedup blockers = blockers"
    unfolding blockers_def p(8) by (rule dedup_distinct [OF blockers_distinct [OF p(7)]])
  with m w(6) have "a = \<lparr>mr_path = Some receipt_path, mr_identity = Some (rm_identity m), mr_ready = rm_ready m, mr_blockers = rm_blockers m\<rparr>"
    by (simp add: release_outcome_def)
  with that [of q bytes b old new now] q p w m show thesis by simp
qed

text \<open>What an empty list of reasons means, and a status that carries an identity.\<close>

definition upstream_blank :: "upstream_release \<Rightarrow> bool" where
  "upstream_blank u \<longleftrightarrow> (\<forall>bs \<in> set_option (up_blockers u). \<forall>t \<in> set bs. strip t = [])"

lemma release_reasons_Nil:
  "release_reasons strict u s e = [] \<longleftrightarrow>
     up_ready u = Some True \<and> upstream_blank u \<and> (\<exists>i. upstream_identity strict u = Some i \<and> ms_identity s = Some i)
     \<and> (ms_status s = ''passed'' \<or> ms_blockers s = []) \<and> independent_reasons e = []"
  unfolding release_reasons_def dedup_Nil_iff append_is_Nil_conv
  by (auto simp: upstream_blank_def filter_empty_conv split: option.splits if_splits)

lemma usable_status:
  assumes "ms_identity (release_invariant_manifest f show_error g v directory candidates board_path) = Some i"
  obtains receipt_path pcb_path requirement project_name parts m where "candidates = [receipt_path]" "board_path = Some pcb_path"
    "release_inputs v directory = Inr (requirement, project_name, parts)"
    "validate_release_invariant_manifest f g v receipt_path project_name requirement pcb_path parts = Inr m"
    "ms_status (release_invariant_manifest f show_error g v directory candidates board_path) = ''passed''
       \<or> ms_blockers (release_invariant_manifest f show_error g v directory candidates board_path) = [] \<Longrightarrow> rm_ready m"
    "i = rm_identity m"
proof -
  define s where "s = release_invariant_manifest f show_error g v directory candidates board_path"
  obtain receipt_path pcb_path requirement project_name parts m where m: "candidates = [receipt_path]" "board_path = Some pcb_path"
      "release_inputs v directory = Inr (requirement, project_name, parts)"
      "validate_release_invariant_manifest f g v receipt_path project_name requirement pcb_path parts = Inr m"
      "ms_blockers s = rm_blockers m" "i = rm_identity m"
      "ms_status s = (if rm_ready m \<and> rm_blockers m = [] then ''passed'' else ''blocked'')"
    using assms unfolding s_def release_invariant_manifest_def
    by (auto simp: unusable_status_def bind_res_Inr_iff Let_def split: list.splits sum.splits option.splits if_splits)
  have "manifest_ok m" by (rule validate_evidence [OF m(4)])
  with manifest_ready_iff m(5,7) have "ms_status s = ''passed'' \<or> ms_blockers s = [] \<Longrightarrow> rm_ready m" by (auto split: if_splits)
  with that m(1-4,6) show thesis unfolding s_def by blast
qed

lemma reviewed_clean:
  assumes "independent_reasons e = []"
  shows "\<not> independent_blocked e" "rv_components e = []"
    "kr_applicable (rv_erc e) \<Longrightarrow> kr_ran (rv_erc e) \<and> kr_errors (rv_erc e) = Some 0"
    "kr_applicable (rv_drc e) \<Longrightarrow> kr_ran (rv_drc e) \<and> kr_errors (rv_drc e) = Some 0 \<and> kr_unconnected (rv_drc e) = Some 0"
  using assms by (auto simp: independent_reasons_def independent_blocked_def verification_blockers_def run_blockers_def split: if_splits)

section \<open>The properties\<close>

text \<open>
  C12: An audit that returns reports exactly the constraints that the final board violates, in the
  order of the requirement, each under its own identifier; it reports nothing exactly when the
  board meets the requirement.
\<close>

theorem release_audit_exact:
  assumes "audit_pcb_invariants m q b parts = Inr fs"
  shows "map nf_id fs = violated (violations m q b parts) \<and> (fs = [] \<longleftrightarrow> board_meets m q b parts)"
  using audit_ids [OF assms] findings_empty_iff [OF assms] by simp

text \<open>
  C11: A receipt that validates belongs to the project, to the requirement as it is now and to the
  bytes the board has now, its findings are those of an audit of these bytes, and if it says that
  the release is ready then the board meets every constraint of the requirement.
\<close>

theorem receipt_binds_release:
  assumes "validate_release_invariant_manifest f g v manifest_path project_name requirement pcb_path parts = Inr m"
  shows "\<exists>q bytes b. extract_requirement_invariants g requirement = Inr q \<and> rm_invariants m = q
     \<and> en_file v (en_resolve v pcb_path) = Some bytes \<and> en_board v bytes = Some b
     \<and> rm_identity m = \<lparr>ri_project = project_name, ri_source_digest = rq_source_digest q,
                          ri_pcb_relpath = last pcb_path, ri_pcb_sha256 = sha256 bytes\<rparr>
     \<and> audit_pcb_invariants f q b parts = Inr (rm_findings m)
     \<and> (rm_ready m \<longrightarrow> board_meets f q b parts)"
proof -
  obtain q bytes b where "manifest_ok m" "extract_requirement_invariants g requirement = Inr q" "rm_invariants m = q"
    "en_file v (en_resolve v pcb_path) = Some bytes" "en_board v bytes = Some b"
    "audit_pcb_invariants f q b parts = Inr (rm_findings m)"
    "rm_identity m = \<lparr>ri_project = project_name, ri_source_digest = rq_source_digest q,
                       ri_pcb_relpath = last pcb_path, ri_pcb_sha256 = sha256 bytes\<rparr>"
    by (rule validate_evidence [OF assms])
  then show ?thesis
    using findings_empty_iff [of f q b parts "rm_findings m"] by (auto simp: manifest_ok_def manifest_consistent_def)
qed

text \<open>
  C13: The manufacturing step accepts the receipt it has just committed: if the loaded bytes are
  those at the commit, the board is not replaced afterwards and stands beside the receipt, and the
  receipt reads back as it was written, then re-auditing it reports no error.  In particular the
  blockers of the result are those of the receipt, which has dropped repetitions.
\<close>

theorem fresh_receipt_accepted:
  assumes issued: "issue_receipt f show_error g v project_name requirement receipt_path pcb_path parts r export_applicable drill_files
      = Inr (a, Some m)"
    and stable: "rd_loaded r = rd_commit r" "en_file w (en_resolve w pcb_path) = rd_commit r" "en_file w pcb_path = rd_commit r"
    and beside: "butlast receipt_path = butlast pcb_path" "pcb_path \<noteq> []"
      "butlast (en_resolve w pcb_path) = en_resolve w (butlast pcb_path)"
    and reads_back: "Option.bind (en_file w receipt_path) (en_receipt w) = Some m"
    and same_parser: "en_board w = en_board v"
  shows "manufacture_receipt_errors f show_error g w project_name requirement (Some pcb_path) (Some parts) a = []"
proof -
  obtain q bytes b old new now where
    e: "extract_requirement_invariants g requirement = Inr q" "rd_loaded r = Some bytes" "en_board v bytes = Some b"
    "audit_pcb_invariants f q b parts = Inr (rm_findings m)" "rd_commit r = Some now" "manifest_ok m" "rm_invariants m = q"
    "rm_identity m = \<lparr>ri_project = project_name, ri_source_digest = rq_source_digest q,
                       ri_pcb_relpath = last pcb_path, ri_pcb_sha256 = sha256 now\<rparr>"
    "a = \<lparr>mr_path = Some receipt_path, mr_identity = Some (rm_identity m), mr_ready = rm_ready m, mr_blockers = rm_blockers m\<rparr>"
    by (rule issued_receipt [OF issued])
  from reads_back obtain s where s: "en_file w receipt_path = Some s" "en_receipt w s = Some m"
    by (cases "en_file w receipt_path") auto
  have "butlast pcb_path @ [last pcb_path] = pcb_path" using beside(2) by simp
  with e(2-8) s stable beside same_parser have "validate_release_invariant_manifest f g w receipt_path project_name requirement pcb_path parts = Inr m"
    by (simp add: validate_release_invariant_manifest_def read_receipt_def e(1) load_board_def Let_def)
  with e(5,9) s stable show ?thesis by (simp add: manufacture_receipt_errors_def)
qed

text \<open>
  C10: The review tool passes a release only on all of the evidence: the pipeline attested it and
  reported no blocker, there is exactly one receipt, the identity the pipeline handed over is that of the project, of the
  saved requirement and of the bytes the board has now, the board meets every constraint of the
  requirement, the independent review is not blocked, and the rule checks that applied ran without
  errors or unconnected items.
\<close>

theorem release_pass_sound:
  assumes "review_release strict u (release_invariant_manifest f show_error g v directory candidates board_path) e = ReleasePass"
  shows "up_ready u = Some True \<and> upstream_blank u
     \<and> (\<exists>receipt_path pcb_path requirement project_name parts q bytes b.
          candidates = [receipt_path] \<and> board_path = Some pcb_path
        \<and> release_inputs v directory = Inr (requirement, project_name, parts)
        \<and> extract_requirement_invariants g requirement = Inr q
        \<and> en_file v (en_resolve v pcb_path) = Some bytes \<and> en_board v bytes = Some b \<and> board_meets f q b parts
        \<and> upstream_identity strict u = Some \<lparr>ri_project = project_name, ri_source_digest = rq_source_digest q,
                                             ri_pcb_relpath = last pcb_path, ri_pcb_sha256 = sha256 bytes\<rparr>)
     \<and> \<not> independent_blocked e \<and> rv_components e = []
     \<and> (kr_applicable (rv_erc e) \<longrightarrow> kr_ran (rv_erc e) \<and> kr_errors (rv_erc e) = Some 0)
     \<and> (kr_applicable (rv_drc e) \<longrightarrow> kr_ran (rv_drc e) \<and> kr_errors (rv_drc e) = Some 0 \<and> kr_unconnected (rv_drc e) = Some 0)"
proof -
  define s where "s = release_invariant_manifest f show_error g v directory candidates board_path"
  have "release_reasons strict u s e = []"
    using assms by (simp add: review_release_def s_def split: if_splits list.splits)
  then obtain i where u: "up_ready u = Some True" "upstream_blank u" "upstream_identity strict u = Some i" "ms_identity s = Some i"
    and status: "ms_status s = ''passed'' \<or> ms_blockers s = []" and reasons: "independent_reasons e = []"
    unfolding release_reasons_Nil by blast
  obtain receipt_path pcb_path requirement project_name parts m where m: "candidates = [receipt_path]" "board_path = Some pcb_path"
      "release_inputs v directory = Inr (requirement, project_name, parts)"
      "validate_release_invariant_manifest f g v receipt_path project_name requirement pcb_path parts = Inr m"
      "ms_status s = ''passed'' \<or> ms_blockers s = [] \<Longrightarrow> rm_ready m" "i = rm_identity m"
    by (rule usable_status [OF u(4) [unfolded s_def]]) (simp add: s_def)
  from validated_board_meets [OF m(4) m(5) [OF status]] m u show ?thesis
    using reviewed_clean [OF reasons] by (metis (no_types, lifting))
qed

section \<open>Examples\<close>

text \<open>The area of a rectangle is the product of its sides.\<close>

lemma rectangle_area:
  assumes "1 / 10 ^ 9 < w * h"
  shows "polygon_area [(x, y), (x + w, y), (x + w, y + h), (x, y + h)] = Some (w * h)"
proof -
  have "x * y - (x + w) * y + ((x + w) * (y + h) - (x + w) * y + ((x + w) * (y + h) - x * (y + h) + (x * y - x * (y + h)))) = 2 * (w * h)"
    by (simp add: algebra_simps)
  moreover have "0 < w * h" using assms by (rule less_trans [rotated]) simp
  ultimately show ?thesis using assms by (simp add: polygon_area_def Let_def)
qed

definition sample_format :: audit_format where
  "sample_format = \<lparr>af_int = int_str, af_3 = (\<lambda>_. ''0.200''), af_2 = (\<lambda>_. ''9.00''), af_percent = (\<lambda>_. ''50.0%''),
     af_list = join '', '', af_hypot = (\<lambda>x y. if y = 0 then \<bar>x\<bar> else if x = 0 then \<bar>y\<bar> else \<bar>x\<bar> + \<bar>y\<bar>)\<rparr>"

definition sample_recognisers :: recognisers where
  "sample_recognisers = \<lparr>rg_layers = (\<lambda>_. Some 2), rg_limits = (\<lambda>_. Some (60, 50)), rg_ground = (\<lambda>_. (True, ''B.Cu'', True)),
     rg_track = (\<lambda>_. Some (1 / 4, [])), rg_decoupling = (\<lambda>_. Some 2), rg_holes = (\<lambda>_. (Some 1, True))\<rparr>"

definition sample_constraints :: "string \<Rightarrow> requirement_invariants" where
  "sample_constraints d = \<lparr>rq_source_digest = d, rq_layers = Some 2, rq_max_width = Some 60, rq_max_height = Some 50,
     rq_ground_plane = True, rq_ground_layer = ''B.Cu'', rq_continuous = True, rq_min_track = Some (1 / 4), rq_track_nets = [],
     rq_decoupling = Some 2, rq_holes = Some 1, rq_npth = True\<rparr>"

definition sample_rectangle :: "(rat \<times> rat) list" where
  "sample_rectangle = [(0, 0), (50, 0), (50, 40), (0, 40)]"

definition sample_mcu :: audit_part where
  "sample_mcu = \<lparr>rp_ref = ''U1'', rp_role = ''mcu'', rp_symbol = ''MCU:X'', rp_footprint = ''QFP'', rp_value = ''X''\<rparr>"

definition sample_cap :: audit_part where
  "sample_cap = \<lparr>rp_ref = ''C1'', rp_role = ''decoupling'', rp_symbol = ''Device:C'', rp_footprint = ''C_0603'', rp_value = ''100nF''\<rparr>"

definition sample_hole :: audit_part where
  "sample_hole = \<lparr>rp_ref = ''H1'', rp_role = ''mounting hole'', rp_symbol = ''M3'', rp_footprint = ''M3'', rp_value = ''M3''\<rparr>"

abbreviation sample_audit_parts :: "audit_part list" where
  "sample_audit_parts \<equiv> [sample_mcu, sample_cap, sample_hole]"

text \<open>A board with a given width of its supply track and a given place of its capacitor.\<close>

definition sample_pads :: "rat \<Rightarrow> string \<Rightarrow> board_pad list option" where
  "sample_pads x r =
     (if r = ''U1'' then Some [\<lparr>pa_net = ''VCC'', pa_type = ''smd'', pa_x = 10, pa_y = 10\<rparr>]
      else if r = ''C1'' then Some [\<lparr>pa_net = ''VCC'', pa_type = ''smd'', pa_x = x, pa_y = 10\<rparr>]
      else if r = ''H1'' then Some [\<lparr>pa_net = [], pa_type = ''np_thru_hole'', pa_x = 3, pa_y = 3\<rparr>] else None)"

definition sample_board :: "rat \<Rightarrow> rat \<Rightarrow> board" where
  "sample_board w x = \<lparr>bo_copper_layers = 2, bo_extents = Some (50, 40),
     bo_zones = [\<lparr>zn_net = ''GND'', zn_layer = ''B.Cu'', zn_points = sample_rectangle,
                  zn_filled = [\<lparr>fl_points = sample_rectangle, fl_island = False\<rparr>]\<rparr>],
     bo_references = [''U1'', ''C1'', ''H1''], bo_pads = sample_pads x, bo_tracks = [(''VCC'', Some w)]\<rparr>"

lemma sample_area [simp]: "polygon_area sample_rectangle = Some 2000"
  using rectangle_area [of 50 40 0 0] by (simp add: sample_rectangle_def)

lemma supply_nets [simp]: "is_ground_net ''GND''" "is_power_net ''VCC''"
  by (simp_all add: is_ground_net_def is_power_net_def Let_def upper_def ascii_upper_def drop_plus_def py_string_defs chr_defs)

lemma sample_refs [simp]: "rp_ref sample_hole = ''H1''" "rp_ref sample_cap = ''C1''" "rp_ref sample_mcu = ''U1''"
  by (simp_all add: sample_mcu_def sample_cap_def sample_hole_def)

lemma sample_classes [simp]:
  "is_mounting_hole_part sample_hole" "\<not> is_mounting_hole_part sample_cap" "\<not> is_mounting_hole_part sample_mcu"
  "\<not> is_decoupling_part sample_hole" "is_decoupling_part sample_cap" "\<not> is_decoupling_part sample_mcu"
  "anchor_parts sample_audit_parts = [sample_mcu]"
  by (simp_all add: sample_mcu_def sample_cap_def sample_hole_def is_mounting_hole_part_def is_decoupling_part_def anchor_parts_def
      Let_def upper_def ascii_upper_def py_string_defs)

lemma sample_static_findings:
  "layer_findings m (sample_constraints d) (sample_board w x) = []"
  "outline_findings m (sample_constraints d) (sample_board w x) = []"
  "ground_findings m (sample_constraints d) (sample_board w x) = []"
  "hole_findings m (sample_constraints d) (sample_board w x) sample_audit_parts = []"
  by (simp_all add: layer_findings_def outline_findings_def ground_findings_def hole_findings_def ground_zones_def
      continuous_ground_reason_def CONTINUOUS_ZONE_MIN_COVERAGE_def sample_constraints_def sample_board_def Let_def
      unproven_npth_def sample_pads_def)

lemma sample_track_findings:
  "track_findings sample_format (sample_constraints d) (sample_board w x) =
     (if w + 1 / 10 ^ 9 < 1 / 4 then [finding ''minimum_track_width'' ''tracks below 0.200 mm: VCC:0.200mm'' []] else [])"
proof -
  have "track_counts (sample_constraints d) ''VCC''" "drop_plus (upper ''VCC'') = ''VCC''"
    by (simp_all add: track_counts_def sample_constraints_def Let_def upper_def ascii_upper_def drop_plus_def py_string_defs)
  then show ?thesis
    by (simp add: track_findings_def sample_board_def sample_constraints_def sample_format_def Let_def sorted_set_def str_or_def)
qed

lemma sample_decoupling_findings:
  "decoupling_findings sample_format (sample_constraints d) (sample_board w x) sample_audit_parts =
     (if \<bar>x - 10\<bar> > 2 + 1 / 10 ^ 9
      then [finding ''decoupling_distance'' ''power decoupling exceeds explicit limit 0.200 mm: C1->U1 (9.00mm)'' [''C1'']] else [])"
proof -
  have pads: "bo_pads (sample_board w x) = sample_pads x" by (simp add: sample_board_def)
  have "anchor_distances sample_format (sample_board w x) sample_audit_parts
      [\<lparr>pa_net = ''VCC'', pa_type = ''smd'', pa_x = x, pa_y = 10\<rparr>] = [(\<bar>x - 10\<bar>, ''U1'')]"
    by (simp add: anchor_distances_def pads sample_pads_def sample_format_def)
  then have far: "far_from_anchor sample_format (sample_board w x) sample_audit_parts 2 sample_cap =
      (if \<bar>x - 10\<bar> > 2 + 1 / 10 ^ 9 then [''C1->U1 (9.00mm)''] else [])"
    by (simp add: far_from_anchor_def pads sample_pads_def min_pair_def) (simp add: sample_format_def)
  have parts: "rq_decoupling (sample_constraints d) = Some 2" "filter is_decoupling_part sample_audit_parts = [sample_cap]"
    by (simp_all add: sample_constraints_def)
  have texts: "af_3 sample_format y = ''0.200''" "af_list sample_format [''C1->U1 (9.00mm)''] = ''C1->U1 (9.00mm)''" for y
    by (simp_all add: sample_format_def)
  have ref: "before ''C1->U1 (9.00mm)'' ''->'' = ''C1''" by (simp add: startswith_def)
  show ?thesis
    unfolding decoupling_findings_def parts option.case Let_def list.map far
    by (cases "\<bar>x - 10\<bar> > 2 + 1 / 10 ^ 9") (simp_all only: concat.simps if_True if_False append.simps append_Nil2 list.map texts ref
        list.distinct not_False_eq_True not_True_eq_False simp_thms)
qed

lemma sample_audit:
  "audit_pcb_invariants sample_format (sample_constraints d) (sample_board w x) sample_audit_parts =
     Inr ((if w + 1 / 10 ^ 9 < 1 / 4 then [finding ''minimum_track_width'' ''tracks below 0.200 mm: VCC:0.200mm'' []] else [])
       @ (if \<bar>x - 10\<bar> > 2 + 1 / 10 ^ 9
          then [finding ''decoupling_distance'' ''power decoupling exceeds explicit limit 0.200 mm: C1->U1 (9.00mm)'' [''C1'']] else []))"
proof -
  have "finding_ok (finding ''minimum_track_width'' ''tracks below 0.200 mm: VCC:0.200mm'' [])"
      "finding_ok (finding ''decoupling_distance'' ''power decoupling exceeds explicit limit 0.200 mm: C1->U1 (9.00mm)'' [''C1''])"
    by (simp_all add: finding_ok_def finding_def bounded_def)
  then show ?thesis
    by (simp add: audit_pcb_invariants_def sample_static_findings sample_track_findings sample_decoupling_findings Let_def)
qed

text \<open>A project directory with a board, a receipt and a saved state.\<close>

definition sample_pcb :: path where
  "sample_pcb = [''p'', ''b.kicad_pcb'']"

definition sample_receipt_path :: path where
  "sample_receipt_path = [''p'', ''b.release_invariants.json'']"

definition sample_digest :: string where
  "sample_digest = sha256 (utf8_bytes ''req'')"

definition sample_release_identity :: release_identity where
  "sample_release_identity = \<lparr>ri_project = ''b'', ri_source_digest = sample_digest, ri_pcb_relpath = ''b.kicad_pcb'', ri_pcb_sha256 = sha256 ''pcb''\<rparr>"

definition sample_receipt :: release_manifest where
  "sample_receipt = \<lparr>rm_identity = sample_release_identity, rm_ready = True, rm_blockers = [], rm_invariants = sample_constraints sample_digest,
     rm_findings = []\<rparr>"

definition saved_pipeline_state :: pyval where
  "saved_pipeline_state = PDict [(''requirement'', PStr ''req''), (''project_name'', PStr ''b''), (''intermediate_artifacts'', PDict [])]"

definition sample_release_env :: release_env where
  "sample_release_env = \<lparr>en_resolve = (\<lambda>p. p),
     en_file = [sample_pcb \<mapsto> ''pcb'', sample_receipt_path \<mapsto> ''receipt'', [''p'', ''pipeline_state.json''] \<mapsto> ''state''],
     en_board = [''pcb'' \<mapsto> sample_board (1 / 2) 11], en_receipt = [''receipt'' \<mapsto> sample_receipt],
     en_json = [''state'' \<mapsto> saved_pipeline_state], en_selection = (\<lambda>_. Some sample_audit_parts), en_str = (\<lambda>_. [])\<rparr>"

lemma release_env_files [simp]:
  "en_resolve sample_release_env p = p" "en_file sample_release_env sample_pcb = Some ''pcb''"
  "en_file sample_release_env sample_receipt_path = Some ''receipt''" "en_file sample_release_env [''p'', ''pipeline_state.json''] = Some ''state''"
  "en_board sample_release_env ''pcb'' = Some (sample_board (1 / 2) 11)" "en_receipt sample_release_env ''receipt'' = Some sample_receipt"
  "en_json sample_release_env ''state'' = Some saved_pipeline_state" "en_selection sample_release_env k = Some sample_audit_parts"
  "last sample_pcb = ''b.kicad_pcb''" "butlast sample_pcb = [''p'']" "butlast sample_receipt_path = [''p'']" "sample_pcb \<noteq> []"
  by (simp_all add: sample_release_env_def sample_pcb_def sample_receipt_path_def)

lemma sample_extract: "extract_requirement_invariants sample_recognisers ''req'' = Inr (sample_constraints sample_digest)"
proof -
  have "source_requirement ''req'' = ''req''" by (simp add: source_requirement_def py_string_defs)
  then show ?thesis
    by (simp add: extract_requirement_invariants_def sample_recognisers_def sample_constraints_def sample_digest_def invariants_ok_def Let_def)
qed

lemma sample_receipt_ok: "manifest_ok sample_receipt"
proof -
  have "path_name ''b.kicad_pcb'' = ''b.kicad_pcb''" by (simp add: path_name_def path_components_def)
  then show ?thesis
    using sha256_hex by (simp add: manifest_ok_def manifest_consistent_def sample_receipt_def identity_ok_def sample_release_identity_def
        sample_digest_def sample_constraints_def invariants_ok_def bounded_def startswith_def)
qed

lemma sample_validates:
  "validate_release_invariant_manifest sample_format sample_recognisers sample_release_env sample_receipt_path ''b'' ''req'' sample_pcb
     sample_audit_parts = Inr sample_receipt"
proof -
  have "read_receipt sample_release_env sample_receipt_path = Inr sample_receipt"
    by (simp add: read_receipt_def sample_receipt_ok)
  moreover have "rq_source_digest (sample_constraints sample_digest) = sample_digest" by (simp add: sample_constraints_def)
  moreover have "[''p'', ''b.kicad_pcb''] = sample_pcb" by (simp add: sample_pcb_def)
  moreover have "load_board sample_release_env ''pcb'' = Inr (sample_board (1 / 2) 11)" by (simp add: load_board_def)
  ultimately show ?thesis
    by (simp add: validate_release_invariant_manifest_def sample_extract Let_def sample_receipt_def sample_release_identity_def sample_audit)
qed

theorem release_audit_exact_witness:
  "\<exists>fs. audit_pcb_invariants sample_format (sample_constraints []) (sample_board (1 / 10) 19) sample_audit_parts = Inr fs
     \<and> map nf_id fs = [''minimum_track_width'', ''decoupling_distance'']
     \<and> violated (violations sample_format (sample_constraints []) (sample_board (1 / 10) 19) sample_audit_parts)
         = [''minimum_track_width'', ''decoupling_distance'']
     \<and> \<not> board_meets sample_format (sample_constraints []) (sample_board (1 / 10) 19) sample_audit_parts"
proof -
  define fs where "fs = [finding ''minimum_track_width'' ''tracks below 0.200 mm: VCC:0.200mm'' [],
    finding ''decoupling_distance'' ''power decoupling exceeds explicit limit 0.200 mm: C1->U1 (9.00mm)'' [''C1'']]"
  have audit: "audit_pcb_invariants sample_format (sample_constraints []) (sample_board (1 / 10) 19) sample_audit_parts = Inr fs"
    by (simp add: sample_audit fs_def)
  moreover have "map nf_id fs = [''minimum_track_width'', ''decoupling_distance'']" "fs \<noteq> []" by (simp_all add: fs_def)
  ultimately show ?thesis using release_audit_exact [OF audit] by metis
qed

theorem receipt_binds_release_witness:
  "\<exists>b. en_board sample_release_env ''pcb'' = Some b
     \<and> board_meets sample_format (sample_constraints sample_digest) b sample_audit_parts"
  using receipt_binds_release [OF sample_validates] by (auto simp: sample_extract sample_receipt_def)

definition sample_reads :: board_reads where
  "sample_reads = \<lparr>rd_present = True, rd_before = Some ''pcb'', rd_loaded = Some ''pcb'', rd_after = Some ''pcb'', rd_still = True,
     rd_commit = Some ''pcb''\<rparr>"

definition sample_drills :: "(string \<times> string \<times> string option) list" where
  "sample_drills = [(''g/b-PTH.drl'', ''b-PTH.drl'', None), (''g/b-NPTH.drl'', ''b-NPTH.drl'', Some (''T1'' @ [CHR 0x0A] @ ''X3.0Y-3.0''))]"

definition sample_release :: manufacture_release where
  "sample_release = \<lparr>mr_path = Some sample_receipt_path, mr_identity = Some sample_release_identity, mr_ready = True, mr_blockers = []\<rparr>"

lemma sample_drill_blockers: "drill_blockers sample_format (sample_constraints d) True sample_drills = []"
proof -
  have "drill_coordinates (''T1'' @ [CHR 0x0A] @ ''X3.0Y-3.0'') = 1" by code_simp
  moreover have "npth_file ''b-NPTH.drl'' t" for t
    by (simp add: npth_file_def upper_def ascii_upper_def chr_defs startswith_def)
  ultimately show ?thesis by (simp add: drill_blockers_def sample_drills_def sample_constraints_def Let_def)
qed

lemma sample_issued:
  "issue_receipt sample_format (\<lambda>_. ''error'') sample_recognisers sample_release_env ''b'' ''req'' sample_receipt_path sample_pcb
     sample_audit_parts sample_reads True sample_drills = Inr (sample_release, Some sample_receipt)"
proof -
  have "physical_audit sample_format (\<lambda>_. ''error'') sample_release_env (sample_constraints sample_digest) sample_audit_parts sample_reads
      = (sha256 ''pcb'', [], [])"
    by (simp add: physical_audit_def sample_reads_def load_board_def sample_audit)
  moreover have "build_release_invariant_manifest sample_recognisers ''b'' ''req'' sample_pcb [] [] (sha256 ''pcb'') = Inr sample_receipt"
  proof -
    have "\<lparr>rm_identity = \<lparr>ri_project = ''b'', ri_source_digest = rq_source_digest (sample_constraints sample_digest),
        ri_pcb_relpath = last sample_pcb, ri_pcb_sha256 = sha256 ''pcb''\<rparr>, rm_ready = ([] = ([] :: string list)), rm_blockers = dedup [],
        rm_invariants = sample_constraints sample_digest, rm_findings = []\<rparr> = sample_receipt"
      by (simp add: sample_receipt_def sample_release_identity_def sample_constraints_def dedup_def)
    then show ?thesis by (simp only: build_release_invariant_manifest_def sample_extract bind_res_simps Let_def sample_receipt_ok if_True)
  qed
  moreover have "sha256 ''pcb'' \<noteq> []" using length_sha256 [of "''pcb''"] by (metis list.size(3) zero_neq_numeral)
  moreover have "rd_still sample_reads" "rd_commit sample_reads = Some ''pcb''" by (simp_all add: sample_reads_def)
  ultimately show ?thesis
    by (simp add: issue_receipt_def sample_extract sample_drill_blockers release_outcome_def sample_release_def sample_receipt_def Let_def)
qed

theorem fresh_receipt_accepted_witness:
  "manufacture_receipt_errors sample_format (\<lambda>_. ''error'') sample_recognisers sample_release_env ''b'' ''req'' (Some sample_pcb)
     (Some sample_audit_parts) sample_release = []"
  by (rule fresh_receipt_accepted [OF sample_issued]) (simp_all add: sample_reads_def)

definition clean_run :: kicad_run where
  "clean_run = \<lparr>kr_applicable = True, kr_available = True, kr_ran = True, kr_errors = Some 0, kr_warnings = [], kr_unconnected = Some 0\<rparr>"

definition clean_review :: review_evidence where
  "clean_review = \<lparr>rv_blocked = False, rv_components = [], rv_placement = [], rv_erc = clean_run, rv_drc = clean_run\<rparr>"

definition sample_upstream :: upstream_release where
  "sample_upstream = \<lparr>up_ready = Some True, up_blockers = Some [], up_identity = Some (PStr ''identity'')\<rparr>"

theorem release_pass_sound_witness:
  "review_release (\<lambda>_. Some sample_release_identity) sample_upstream
     (release_invariant_manifest sample_format (\<lambda>_. ''error'') sample_recognisers sample_release_env [''p''] [sample_receipt_path] (Some sample_pcb))
     clean_review = ReleasePass
   \<and> board_meets sample_format (sample_constraints sample_digest) (sample_board (1 / 2) 11) sample_audit_parts"
proof
  have inputs: "release_inputs sample_release_env [''p''] = Inr (''req'', ''b'', sample_audit_parts)"
    by (simp add: release_inputs_def saved_pipeline_state_def get_or_def py_string_defs)
  have status: "release_invariant_manifest sample_format (\<lambda>_. ''error'') sample_recognisers sample_release_env [''p''] [sample_receipt_path]
      (Some sample_pcb) = \<lparr>ms_status = ''passed'', ms_path = Some sample_receipt_path, ms_ready = True, ms_blockers = [], ms_findings = [],
        ms_identity = Some sample_release_identity\<rparr>"
    by (simp add: release_invariant_manifest_def inputs sample_validates Let_def) (simp add: sample_receipt_def)
  have "identity_ok sample_release_identity" using sample_receipt_ok by (simp add: manifest_ok_def sample_receipt_def)
  then show pass: "review_release (\<lambda>_. Some sample_release_identity) sample_upstream
     (release_invariant_manifest sample_format (\<lambda>_. ''error'') sample_recognisers sample_release_env [''p''] [sample_receipt_path] (Some sample_pcb))
     clean_review = ReleasePass"
    by (simp add: review_release_def integrated_release_def release_reasons_def status sample_upstream_def upstream_identity_def
        independent_reasons_def clean_review_def clean_run_def verification_blockers_def run_blockers_def dedup_def)
  from release_pass_sound [OF pass] show
    "board_meets sample_format (sample_constraints sample_digest) (sample_board (1 / 2) 11) sample_audit_parts"
    by (auto simp: inputs sample_extract)
qed

text \<open>
  A decoupling part that is not on the board, or whose pads cannot be read, counts as near: with
  none of them on the board a limit on their distance is reported as met.
\<close>

lemma absent_decoupling_passes:
  assumes "\<exists>p \<in> set parts. is_decoupling_part p" "\<forall>p \<in> set parts. is_decoupling_part p \<longrightarrow> bo_pads b (rp_ref p) = None"
  shows "decoupling_findings m q b parts = []"
proof -
  have "map nf_id (decoupling_findings m q b parts) = []"
    using assms by (auto simp: decoupling_findings_ids near_anchor_def)
  then show ?thesis by simp
qed

end
