(* ===== verification/Requirement_Text.thy ===== *)
theory Requirement_Text
  imports Release_Audit
begin

text \<open>
  The recognisers of \<open>orchestration/release_invariants.py\<close>: layers, limits of the board, ground
  plane, track width, decoupling distance and mounting holes, as the regular expressions of the
  source.  Their alternatives in Chinese, and the comparison signs outside single-byte text,
  match nothing in the text of the development and are left out.
\<close>

section \<open>Matches and captures\<close>

text \<open>A word boundary where the neighbour on the other side is a word character.\<close>

abbreviation word_start :: rx where
  "word_start \<equiv> NotBehind wordlike"

abbreviation word_end :: rx where
  "word_end \<equiv> NotAhead wordlike"

fun seq :: "rx list \<Rightarrow> rx" where
  "seq [] = Eps"
| "seq [r] = r"
| "seq (r # rs) = Cat r (seq rs)"

definition spaces :: rx where
  "spaces = Star (Sat py_space)"

definition some_spaces :: rx where
  "some_spaces = plus (Sat py_space)"

definition number :: rx where
  "number = Cat digits (opt (Cat (lit ''.'') digits))"

text \<open>\<open>[^\n.;]{0,n}\<close>.\<close>

definition gap_upto :: "nat \<Rightarrow> rx" where
  "gap_upto n = upto_rep n (Sat (\<lambda>c. c \<notin> {CHR 0x0A, CHR ''.'', CHR '';''}))"

text \<open>
  \<open>re.finditer\<close> for a pattern with one group: the text before the match (reversed), the matched
  text, the text of the group, and the text after the match.
\<close>

record capture =
  cp_before :: string
  cp_text :: string
  cp_group :: string
  cp_after :: string

type_synonym pattern = "rx \<times> rx \<times> rx"

definition consumed :: "string \<Rightarrow> string \<Rightarrow> string" where
  "consumed s t = take (length s - length t) s"

definition capture_at :: "pattern \<Rightarrow> pos \<Rightarrow> (capture \<times> pos) option" where
  "capture_at p q =
     (case p of (pre, grp, post) \<Rightarrow>
        (case concat (map (\<lambda>q1. concat (map (\<lambda>q2. map (\<lambda>q3. (q1, q2, q3)) (rx_match post q2)) (rx_match grp q1))) (rx_match pre q)) of
           [] \<Rightarrow> None
         | (q1, q2, q3) # _ \<Rightarrow>
             Some (\<lparr>cp_before = fst q, cp_text = consumed (snd q) (snd q3), cp_group = consumed (snd q1) (snd q2), cp_after = snd q3\<rparr>, q3)))"

fun capture_search :: "pattern \<Rightarrow> string \<Rightarrow> string \<Rightarrow> (capture \<times> pos) option" where
  "capture_search p b [] = capture_at p (b, [])"
| "capture_search p b (c # cs) =
     (case capture_at p (b, c # cs) of Some e \<Rightarrow> Some e | None \<Rightarrow> capture_search p (c # b) cs)"

text \<open>The search resumes where the last match ended.\<close>

function finditer_from :: "pattern \<Rightarrow> string \<Rightarrow> string \<Rightarrow> capture list" where
  "finditer_from p b s =
     (case capture_search p b s of
        None \<Rightarrow> []
      | Some (m, q) \<Rightarrow> m # (if length (snd q) < length s then finditer_from p (fst q) (snd q) else []))"
  by pat_completeness auto
termination
  by (relation "measure (\<lambda>(p, b, s). length s)") auto

declare finditer_from.simps [simp del]

definition finditer :: "pattern \<Rightarrow> string \<Rightarrow> capture list" where
  "finditer p s = finditer_from p [] s"

definition start_of :: "capture \<Rightarrow> nat" where
  "start_of m = length (cp_before m)"

text \<open>\<open>s[max(0, m.start() - i):m.end() + j]\<close>.\<close>

definition context_of :: "nat \<Rightarrow> nat \<Rightarrow> capture \<Rightarrow> string" where
  "context_of i j m = rev (take i (cp_before m)) @ cp_text m @ take j (cp_after m)"

text \<open>\<open>float(s)\<close> of digits with an optional fraction.\<close>

definition float_of :: "string \<Rightarrow> rat" where
  "float_of s =
     (let whole = takeWhile is_digit s; frac = drop (Suc (length whole)) s
      in of_int (int_of_digits whole) + of_int (int_of_digits frac) / 10 ^ length frac)"

section \<open>The recognisers\<close>

definition layer_pattern :: "rx \<Rightarrow> rx \<Rightarrow> pattern" where
  "layer_pattern count_rx separator =
     (word_start, count_rx, seq [separator, opt (Cat (lit ''copper'') some_spaces), lit ''layer'', opt (lit ''s''), word_end])"

definition explicit_layer_count :: "string \<Rightarrow> int option" where
  "explicit_layer_count text_in =
     (let low = lower text_in;
          count_rx = Alt (Cat (lit ''1'') (Sat (\<lambda>c. chr_between 48 54 c))) (Sat (\<lambda>c. chr_between 50 57 c));
          numeric = map (\<lambda>m. (start_of m, int_of_digits (cp_group m))) (finditer (layer_pattern count_rx spaces) low);
          named = concat (map (\<lambda>(w, n). map (\<lambda>m. (start_of m, n)) (finditer (layer_pattern (lit w) some_spaces) low))
                    [(''two'', 2), (''four'', 4), (''six'', 6), (''eight'', 8)]);
          mentions = numeric @ named
      in if mentions = [] then None else Some (snd (fold max (tl mentions) (hd mentions))))"

text \<open>The second number of a dimension is a group of its own; the multiplication sign has code 215.\<close>

definition times_sign :: rx where
  "times_sign = Sat (\<lambda>c. ascii_lower c = CHR ''x'' \<or> c = CHR 0xD7 \<or> c = CHR ''*'')"

definition dimension :: pattern where
  "dimension = (seq [number, spaces, opt (ilit ''mm''), spaces, times_sign, spaces], number, seq [spaces, ilit ''mm'', word_end])"

definition leading_number :: "string \<Rightarrow> string" where
  "leading_number s = (case rx_at number ([], s) of None \<Rightarrow> [] | Some q \<Rightarrow> consumed s (snd q))"

definition board_limits :: "string \<Rightarrow> (rat \<times> rat) option" where
  "board_limits text_in =
     (let candidates = filter (\<lambda>m. \<exists>t \<in> set [''board'', ''outline'', ''dimension'', ''size'', ''maximum'', ''max ''].
                          contains (lower (context_of 80 40 m)) t) (finditer dimension text_in)
      in if candidates = [] then None
         else (let m = last candidates in Some (float_of (leading_number (cp_text m)), float_of (cp_group m))))"

definition ground_word :: rx where
  "ground_word = alts (map lit [''gnd'', ''ground''])"

definition plane_word :: rx where
  "plane_word = alts (map lit [''plane'', ''pour'', ''copper'', ''zone''])"

definition ground_plane_contract :: "string \<Rightarrow> bool \<times> string \<times> bool" where
  "ground_plane_contract text_in =
     (let low = lower text_in
      in if \<not> (rx_search (seq [ground_word, gap_upto 40, plane_word]) low \<or> rx_search (seq [plane_word, gap_upto 40, ground_word]) low)
         then (False, [], False)
         else (let joined = join '' '' (map (context_of 50 50) (finditer (Eps, ground_word, Eps) low));
                   layer = (if contains joined ''bottom'' \<or> contains joined ''b.cu'' then ''B.Cu''
                            else if contains joined ''top'' \<or> contains joined ''f.cu'' then ''F.Cu'' else [])
               in (True, layer, contains joined ''continuous'' \<or> contains joined ''unbroken'' \<or> contains joined ''solid'')))"

definition track_label :: rx where
  "track_label = alts (map ilit [''track'', ''trace'', ''line'', ''trunk''])"

definition minimum_word :: rx where
  "minimum_word =
     alts [ilit ''minimum'', Cat (ilit ''min'') (opt (lit ''.'')), seq [ilit ''at'', some_spaces, ilit ''least''],
           seq [ilit ''not'', some_spaces, ilit ''less'', some_spaces, ilit ''than''], lit ''>='']"

definition millimetres :: rx where
  "millimetres = seq [spaces, ilit ''mm'', word_end]"

definition track_patterns :: "pattern list" where
  "track_patterns =
     [(seq [track_label, gap_upto 36, minimum_word, gap_upto 20], number, millimetres),
      (seq [minimum_word, gap_upto 20], number, seq [millimetres, gap_upto 36, track_label]),
      (seq [track_label, gap_upto 36], number, seq [millimetres, gap_upto 20, minimum_word])]"

definition net_name :: rx where
  "net_name =
     (let edge = \<lambda>c. upper_alpha c \<or> is_digit c
      in seq [NotBehind edge,
              alts [seq [opt (lit ''+''), number, lit ''V''], lit ''GND'', lit ''AGND'', lit ''DGND'', lit ''PGND'', lit ''VCC'', lit ''VDD''],
              NotAhead edge])"

text \<open>\<open>max(ms, key=...)\<close>: the first of the greatest.\<close>

definition first_max :: "('a \<Rightarrow> 'b :: linorder) \<Rightarrow> 'a list \<Rightarrow> 'a" where
  "first_max k xs = fold (\<lambda>x best. if k best < k x then x else best) (tl xs) (hd xs)"

definition minimum_track_width :: "string \<Rightarrow> (rat \<times> string list) option" where
  "minimum_track_width text_in =
     (let matches = concat (map (\<lambda>p. finditer p text_in) track_patterns)
      in if matches = [] then None
         else (let strictest = first_max (\<lambda>m. float_of (cp_group m)) matches
               in Some (float_of (cp_group strictest),
                        dedup (map drop_plus (rx_findall net_name (upper (context_of 60 20 strictest)))))))"

definition decoupling_word :: rx where
  "decoupling_word = Alt (Cat (ilit ''decoupl'') (Star (Sat wordlike))) (ilit ''bypass'')"

definition limit_words :: rx where
  "limit_words =
     opt (alts [seq [ilit ''not'', some_spaces, ilit ''more'', some_spaces, ilit ''than''],
                seq [ilit ''no'', some_spaces, ilit ''more'', some_spaces, ilit ''than''], ilit ''within'', lit ''<=''])"

definition decoupling_patterns :: "pattern list" where
  "decoupling_patterns =
     [(seq [decoupling_word, gap_upto 90, alts (map ilit [''distance'', ''within'', ''away'']), gap_upto 30, limit_words, gap_upto 10],
       number, millimetres),
      (seq [decoupling_word, gap_upto 90, limit_words, gap_upto 20], number, millimetres)]"

definition decoupling_distance :: "string \<Rightarrow> rat option" where
  "decoupling_distance text_in =
     (let values = concat (map (\<lambda>p. map (\<lambda>m. float_of (cp_group m)) (finditer p text_in)) decoupling_patterns)
      in if values = [] then None else Some (fold min (tl values) (hd values)))"

definition english_numbers :: "(string \<times> int) list" where
  "english_numbers = [(''one'', 1), (''two'', 2), (''three'', 3), (''four'', 4), (''five'', 5), (''six'', 6), (''seven'', 7),
     (''eight'', 8), (''nine'', 9), (''ten'', 10)]"

definition positive_digits :: rx where
  "positive_digits = Cat (Sat (\<lambda>c. chr_between 49 57 c)) (Star (Sat is_digit))"

definition hole_words :: rx where
  "hole_words = seq [lit ''mounting'', some_spaces, lit ''hole'', opt (lit ''s''), word_end]"

definition counted_holes :: pattern where
  "counted_holes =
     (word_start, alts (map (\<lambda>(w, _). lit w) english_numbers @ [positive_digits]), seq [word_end, gap_upto 48, word_start, hole_words])"

definition arabic_holes :: pattern where
  "arabic_holes =
     (NotBehind (\<lambda>c. lower_alpha c \<or> is_digit c), positive_digits,
      seq [some_spaces, opt (seq [lit ''non'', Alt (lit ''-'') (lit '' ''), lit ''plated'', some_spaces]), hole_words])"

definition mounting_holes :: "string \<Rightarrow> int option \<times> bool" where
  "mounting_holes text_in =
     (let low = lower text_in;
          non_plated = (contains low ''non-plated'' \<or> contains low ''non plated'' \<or> contains low ''npth'');
          english = finditer counted_holes low
      in if english \<noteq> []
         then (let raw = cp_group (last english)
               in (Some (case map_of english_numbers raw of Some n \<Rightarrow> n | None \<Rightarrow> int_of_digits raw), non_plated))
         else (case capture_search arabic_holes [] low of
                 Some (m, _) \<Rightarrow> (Some (int_of_digits (cp_group m)), non_plated)
               | None \<Rightarrow> (None, non_plated)))"

definition requirement_recognisers :: recognisers where
  "requirement_recognisers = \<lparr>rg_layers = explicit_layer_count, rg_limits = board_limits, rg_ground = ground_plane_contract,
     rg_track = minimum_track_width, rg_decoupling = decoupling_distance, rg_holes = mounting_holes\<rparr>"

end
