(* ===== verification/Decisions.thy ===== *)
theory Decisions
  imports Requirement_Text
begin

text \<open>
  \<open>agents/ratsnestpro/decision_engine.py\<close>, the gate that turns missing values of a requirement
  into structured choices, and the part of \<open>intake_phase\<close> (\<open>ratsnestpro_agent.py\<close>) that applies
  the answers.

  Over single-byte text the language of a request is English and the Chinese tokens of the gaps
  never occur; both are left out.  The dash between a key and a value lies outside this text and
  is an argument, as is reading an answer from JSON.
\<close>

section \<open>Contracts\<close>

record decision_option =
  op_key :: string
  op_label :: string
  op_value :: string
  op_basis :: string
  op_free_text :: bool

record open_decision =
  od_slot :: string
  od_question :: string
  od_kind :: string
  od_options :: "decision_option list"
  od_recommended :: string
  od_citation :: string

record decision_answer =
  an_slot :: string
  an_key :: string
  an_text :: string

record answer_envelope =
  ae_schema :: string
  ae_answers :: "decision_answer list"

definition key_pattern :: "string \<Rightarrow> bool" where
  "key_pattern k = (case k of [] \<Rightarrow> False
     | c # cs \<Rightarrow> upper_alpha c \<and> length cs \<le> 15 \<and> list_all (\<lambda>d. upper_alpha d \<or> is_digit d \<or> d \<in> set ''_.+-'') cs)"

definition slot_pattern :: "string \<Rightarrow> bool" where
  "slot_pattern s = (case s of [] \<Rightarrow> False
     | c # cs \<Rightarrow> lower_alpha c \<and> length cs \<le> 63 \<and> list_all (\<lambda>d. lower_alpha d \<or> is_digit d \<or> d = CHR ''_'') cs)"

definition option_ok :: "decision_option \<Rightarrow> bool" where
  "option_ok x \<longleftrightarrow> key_pattern (op_key x) \<and> bounded 1 500 (op_label x) \<and> length (op_value x) \<le> 2000 \<and> length (op_basis x) \<le> 500"

definition decision_ok :: "open_decision \<Rightarrow> bool" where
  "decision_ok d \<longleftrightarrow> slot_pattern (od_slot d) \<and> bounded 1 1000 (od_question d) \<and> length (od_kind d) \<le> 40
     \<and> bounded 2 6 (od_options d) \<and> list_all option_ok (od_options d) \<and> length (od_recommended d) \<le> 16 \<and> length (od_citation d) \<le> 500"

definition answer_ok :: "decision_answer \<Rightarrow> bool" where
  "answer_ok a \<longleftrightarrow> slot_pattern (an_slot a) \<and> key_pattern (an_key a) \<and> length (an_text a) \<le> 2000"

definition envelope_ok :: "answer_envelope \<Rightarrow> bool" where
  "envelope_ok e \<longleftrightarrow> bounded 1 12 (ae_answers e) \<and> list_all answer_ok (ae_answers e)"

definition find_option :: "open_decision \<Rightarrow> string \<Rightarrow> decision_option option" where
  "find_option d key = find (\<lambda>x. op_key x = upper (strip key)) (od_options d)"

section \<open>Gaps of a requirement\<close>

record requirement_gap =
  ga_slot :: string
  ga_question :: string
  ga_assumed :: string
  ga_alternatives :: "string list"
  ga_basis :: string
  ga_applies :: "string list"
  ga_stated :: "string list"
  ga_pattern :: "rx option"

definition gap_relevant :: "requirement_gap \<Rightarrow> string \<Rightarrow> bool" where
  "gap_relevant g low \<longleftrightarrow> ga_applies g = [] \<or> (\<exists>t \<in> set (ga_applies g). contains low t)"

definition gap_stated :: "requirement_gap \<Rightarrow> string \<Rightarrow> bool" where
  "gap_stated g low \<longleftrightarrow> (\<exists>t \<in> set (ga_stated g). contains low t)
     \<or> (case ga_pattern g of None \<Rightarrow> False | Some r \<Rightarrow> rx_search r low)"

definition line_gap :: "nat \<Rightarrow> rx" where
  "line_gap n = upto_rep n dot"

definition volts :: rx where
  "volts = seq [word_start, number, spaces, lit ''v'']"

definition MCU_TOKENS :: "string list" where
  "MCU_TOKENS = [''mcu'', ''stm32'', ''esp32'', ''atmega'']"

definition GAPS :: "requirement_gap list" where
  "GAPS =
     [\<lparr>ga_slot = ''board_outline'', ga_question = ''Board outline is not specified. What size should it be?'',
       ga_assumed = ''50 x 40 mm rectangular outline with 1 mm corner radii'',
       ga_alternatives = [''80 x 50 mm rectangular outline'', ''Wait for an enclosure DXF or mechanical drawing''],
       ga_basis = ''engineering default'', ga_applies = [], ga_stated = [''board size'', ''outline''],
       ga_pattern = Some (seq [number, spaces, opt (lit ''mm''), spaces, Sat (\<lambda>c. c = CHR ''x'' \<or> c = CHR 0xD7 \<or> c = CHR ''*''), spaces,
                               number, spaces, lit ''mm''])\<rparr>,
      \<lparr>ga_slot = ''layer_count'', ga_question = ''Copper layer count is not specified. Which stack should be used?'',
       ga_assumed = ''2 copper layers'', ga_alternatives = [''4 copper layers'', ''6 copper layers''],
       ga_basis = ''board-level convention'', ga_applies = [],
       ga_stated = [''two-layer'', ''2-layer'', ''four-layer'', ''4-layer'', ''6-layer''], ga_pattern = None\<rparr>,
      \<lparr>ga_slot = ''input_power'', ga_question = ''Input power source is not specified. How is the board powered?'',
       ga_assumed = ''USB-C receptacle used as a 5 V sink'',
       ga_alternatives = [''5.5/2.1 mm DC jack'', ''2-pin header fed from an external 5 V supply''],
       ga_basis = ''engineering default'', ga_applies = [], ga_stated = [''usb'', ''battery'', ''barrel'', ''dc jack''],
       ga_pattern = Some (Alt (seq [lit ''input'', line_gap 30, volts, word_end]) (seq [volts, line_gap 30, lit ''input'']))\<rparr>,
      \<lparr>ga_slot = ''main_rail'', ga_question = ''Logic supply rail is not specified. Which rail should be used?'',
       ga_assumed = ''3.3 V main rail from a linear regulator'',
       ga_alternatives = [''5 V rail with no regulator'', ''1.8 V main rail from a linear regulator''],
       ga_basis = ''engineering default'', ga_applies = [], ga_stated = [''ldo'', ''regulator'', ''ap2112''],
       ga_pattern = Some (seq [word_start, alts (map lit [''1.8'', ''3.3'', ''5'']), spaces, lit ''v'', word_end])\<rparr>,
      \<lparr>ga_slot = ''clock_source'', ga_question = ''MCU clock source is not specified. Which source should be used?'',
       ga_assumed = ''Internal oscillator only, with no external crystal'',
       ga_alternatives = [''External high-speed crystal selected from the MCU datasheet'',
                          ''External high-speed crystal plus a 32.768 kHz crystal''],
       ga_basis = ''board-level convention'', ga_applies = MCU_TOKENS, ga_stated = [''crystal'', ''xtal'', ''oscillator''],
       ga_pattern = Some (seq [word_start, number, spaces, Alt (lit ''mhz'') (lit ''khz''), word_end])\<rparr>,
      \<lparr>ga_slot = ''debug_port'', ga_question = ''Programming and debug connection is not specified. Which interface should be used?'',
       ga_assumed = ''10-pin Cortex SWD connector'', ga_alternatives = [''4-pin SWD header'', ''SWD test pads without a connector''],
       ga_basis = ''board-level convention'', ga_applies = MCU_TOKENS,
       ga_stated = [''swd'', ''jtag'', ''debug'', ''bootloader''], ga_pattern = None\<rparr>,
      \<lparr>ga_slot = ''led_resistor'', ga_question = ''Indicator LED current-limit resistor is not specified. Which value should be used?'',
       ga_assumed = ''1 kOhm series resistor per indicator LED'',
       ga_alternatives = [''330 Ohm series resistor'', ''2.2 kOhm series resistor''],
       ga_basis = ''engineering default'', ga_applies = [''led''], ga_stated = [],
       ga_pattern = Some (seq [word_start, number, spaces, opt (Cat (lit ''k'') spaces), lit ''ohm'', word_end])\<rparr>,
      \<lparr>ga_slot = ''button_bias'', ga_question = ''User button bias is not specified. How should the inactive level be held?'',
       ga_assumed = ''External 10 kOhm pull-up resistor'',
       ga_alternatives = [''MCU internal pull-up'', ''External 4.7 kOhm pull-up resistor''],
       ga_basis = ''engineering default'', ga_applies = [''button'', ''pushbutton'', ''switch''],
       ga_stated = [''internal pull-up'', ''external pull-up''],
       ga_pattern = Some (seq [word_start, alts (map lit [''4.7'', ''10'']), spaces, lit ''k'', spaces, opt (lit ''ohm''), line_gap 30, lit ''pull''])\<rparr>,
      \<lparr>ga_slot = ''mounting'', ga_question = ''Mechanical mounting is not specified. How should the board be fixed?'',
       ga_assumed = ''Four non-plated M2 mounting holes'',
       ga_alternatives = [''Four non-plated M3 mounting holes'', ''No mounting holes''],
       ga_basis = ''board-level convention'', ga_applies = [], ga_stated = [''mounting hole'', ''standoff''],
       ga_pattern = Some (seq [word_start, lit ''m'', Alt (lit ''2'') (lit ''3''), word_end])\<rparr>]"

text \<open>\<open>chr(ord("A") + i)\<close>.\<close>

definition letter :: "nat \<Rightarrow> string" where
  "letter i = [char_of (65 + i)]"

definition confirmed_option :: "requirement_gap \<Rightarrow> nat \<Rightarrow> string \<Rightarrow> decision_option" where
  "confirmed_option g i choice = \<lparr>op_key = letter i, op_label = ''Use '' @ choice,
     op_value = ''For '' @ ga_slot g @ '', the user confirmed: '' @ choice @ ''. Use exactly this and do not substitute it.'',
     op_basis = ga_basis g, op_free_text = False\<rparr>"

definition gap_decision :: "requirement_gap \<Rightarrow> open_decision" where
  "gap_decision g =
     (let offered = take 4 (ga_alternatives g)
      in \<lparr>od_slot = ga_slot g, od_question = ga_question g, od_kind = ''assumption'',
          od_options = confirmed_option g 0 (ga_assumed g) # map (\<lambda>(i, a). confirmed_option g i a) (enumerate 1 offered)
            @ [\<lparr>op_key = letter (length offered + 1), op_label = ''Use a custom value'', op_value = [], op_basis = ''user supplied'',
                op_free_text = True\<rparr>],
          od_recommended = ''A'', od_citation = ga_basis g\<rparr>)"

definition gap_open :: "string list \<Rightarrow> string \<Rightarrow> requirement_gap \<Rightarrow> bool" where
  "gap_open settled low g \<longleftrightarrow> ga_slot g \<notin> set settled \<and> gap_relevant g low \<and> \<not> gap_stated g low"

fun gap_loop :: "string list \<Rightarrow> string \<Rightarrow> int \<Rightarrow> open_decision list \<Rightarrow> requirement_gap list \<Rightarrow> open_decision list" where
  "gap_loop settled low lmt decisions [] = decisions"
| "gap_loop settled low lmt decisions (g # gs) =
     (if int (length decisions) \<ge> lmt then decisions
      else if \<not> gap_open settled low g then gap_loop settled low lmt decisions gs
      else gap_loop settled low lmt (decisions @ [gap_decision g]) gs)"

definition design_decisions :: "string \<Rightarrow> string list \<Rightarrow> int \<Rightarrow> open_decision list" where
  "design_decisions requirement settled lmt =
     (let low = lower requirement in if strip low = [] then [] else gap_loop settled low lmt [] GAPS)"

definition slot_accepts_resolution :: "string \<Rightarrow> string \<Rightarrow> bool" where
  "slot_accepts_resolution requirement slot =
     (case find (\<lambda>g. ga_slot g = slot) GAPS of
        None \<Rightarrow> True
      | Some g \<Rightarrow> gap_relevant g (lower requirement) \<and> \<not> gap_stated g (lower requirement))"

definition applicable_decisions :: "string \<Rightarrow> open_decision list \<Rightarrow> open_decision list" where
  "applicable_decisions requirement decisions = filter (\<lambda>d. slot_accepts_resolution requirement (od_slot d)) decisions"

text \<open>What raises; a question that is too long violates the contract of a decision.\<close>

datatype decision_error =
    InvalidDecision | InvalidAnswer | UnsupportedSchema | AnsweredTwice string | NotOffered string | IncompleteAnswer "string list"
  | UnknownOption string string | NeedsText string | OverridesRequirement "string list"

definition intent_option :: "string \<Rightarrow> string \<Rightarrow> string \<Rightarrow> bool \<Rightarrow> decision_option" where
  "intent_option k l v free = \<lparr>op_key = k, op_label = l, op_value = v, op_basis = [], op_free_text = free\<rparr>"

definition intent_decisions :: "bool \<Rightarrow> string \<Rightarrow> decision_error + open_decision list" where
  "intent_decisions needs_clarification question =
     (let d = \<lparr>od_slot = ''task_kind'',
                od_question = str_or (strip question) ''Is this a new design, an existing-project review, or a parts-only task?'',
                od_kind = ''intent'',
                od_options = [intent_option ''A'' ''Build a new KiCad design'' ''This is a NEW KiCad PCB build task.'' False,
                  intent_option ''B'' ''Review an existing KiCad project'' ''Review the existing KiCad project supplied by the user.'' True,
                  intent_option ''C'' ''Validate parts only'' ''Only validate parts and evidence; do not generate a KiCad project.'' False],
                od_recommended = ''A'', od_citation = []\<rparr>
      in if \<not> needs_clarification then Inr [] else if decision_ok d then Inr [d] else Inl InvalidDecision)"

section \<open>Answers\<close>

record resolution =
  rs_slot :: string
  rs_kind :: string
  rs_key :: string
  rs_label :: string
  rs_value :: string
  rs_citation :: string

fun receive :: "string list \<Rightarrow> (string \<times> decision_answer) list \<Rightarrow> decision_answer list \<Rightarrow> decision_error + (string \<times> decision_answer) list" where
  "receive offered received [] = Inr received"
| "receive offered received (a # as) =
     (if map_of received (an_slot a) \<noteq> None then Inl (AnsweredTwice (an_slot a))
      else if an_slot a \<notin> set offered then Inl (NotOffered (an_slot a))
      else receive offered (received @ [(an_slot a, a)]) as)"

definition resolve_one :: "(string \<times> decision_answer) list \<Rightarrow> open_decision \<Rightarrow> decision_error + resolution" where
  "resolve_one received d =
     (case map_of received (od_slot d) of
        None \<Rightarrow> Inl (IncompleteAnswer [od_slot d])
      | Some a \<Rightarrow>
          (case find_option d (an_key a) of
             None \<Rightarrow> Inl (UnknownOption (an_key a) (od_slot d))
           | Some x \<Rightarrow>
               (let text_in = strip (an_text a)
                in if op_free_text x \<and> text_in = [] then Inl (NeedsText (od_slot d))
                   else Inr \<lparr>rs_slot = od_slot d, rs_kind = od_kind d, rs_key = op_key x, rs_label = op_label x,
                     rs_value = (if op_free_text x then ''For '' @ od_slot d @ '', the user supplied: '' @ text_in else op_value x),
                     rs_citation = str_or (op_basis x) (od_citation d)\<rparr>)))"

definition parse_resolutions ::
    "(string \<Rightarrow> answer_envelope option) \<Rightarrow> string \<Rightarrow> open_decision list \<Rightarrow> decision_error + resolution list" where
  "parse_resolutions read_json answer decisions =
     (case read_json answer of
        None \<Rightarrow> Inl InvalidAnswer
      | Some e \<Rightarrow>
          if \<not> envelope_ok e then Inl InvalidAnswer
          else if ae_schema e \<noteq> ''ratsnest.decision-answer.v1'' then Inl UnsupportedSchema
          else bind_res (receive (map od_slot decisions) [] (ae_answers e)) (\<lambda>received.
                 let missing = filter (\<lambda>s. map_of received s = None) (map od_slot decisions)
                 in if missing \<noteq> [] then Inl (IncompleteAnswer missing)
                    else map_res (resolve_one received) decisions))"

definition merge_resolutions :: "resolution list \<Rightarrow> resolution list \<Rightarrow> resolution list" where
  "merge_resolutions carried fresh =
     map snd (dict_merge [] (map (\<lambda>r. (rs_slot r, r)) (filter (\<lambda>r. rs_slot r \<noteq> []) (carried @ fresh))))"

definition decision_line :: "string \<Rightarrow> resolution \<Rightarrow> string" where
  "decision_line dash r = ''DECISION: '' @ rs_slot r @ ''='' @ rs_key r @ '' '' @ dash @ '' '' @ rs_value r"

definition decision_lines :: "string \<Rightarrow> resolution list \<Rightarrow> string list" where
  "decision_lines dash resolved = map (decision_line dash) (filter (\<lambda>r. rs_value r \<noteq> []) resolved)"

definition apply_resolutions :: "string \<Rightarrow> string \<Rightarrow> resolution list \<Rightarrow> decision_error + string" where
  "apply_resolutions dash requirement resolved =
     (let stale = filter (\<lambda>s. s \<noteq> [] \<and> \<not> slot_accepts_resolution requirement s) (map rs_slot resolved);
          lines = decision_lines dash resolved
      in if stale \<noteq> [] then Inl (OverridesRequirement (sorted_set stale))
         else Inr (if lines = [] then requirement
                   else rstrip_by py_space requirement @ [CHR 0x0A] @ join [CHR 0x0A] lines))"

text \<open>The gate of \<open>intake_phase\<close>, for the open questions of a checkpoint and the answer to them.\<close>

datatype gate_outcome = NoQuestions | QuestionsDiscarded | Clarified string "resolution list"

definition decision_gate ::
    "string \<Rightarrow> (string \<Rightarrow> answer_envelope option) \<Rightarrow> string \<Rightarrow> open_decision list \<Rightarrow> resolution list \<Rightarrow> string
       \<Rightarrow> decision_error + gate_outcome" where
  "decision_gate dash read_json requirement stored settled answer =
     (let open_decisions = applicable_decisions requirement stored
      in if stored = [] then Inr NoQuestions
         else if open_decisions = [] then Inr QuestionsDiscarded
         else bind_res (parse_resolutions read_json answer open_decisions) (\<lambda>fresh.
              bind_res (apply_resolutions dash requirement fresh) (\<lambda>clarified.
                Inr (Clarified clarified (merge_resolutions settled fresh)))))"

end
