(* ===== verification/Decision_Facts.thy ===== *)
theory Decision_Facts
  imports Decisions
begin

text \<open>
  Properties of the decision gate: answers are among the choices that were offered, the gate
  never overrides a requirement, and, together with the extraction of constraints, decisions only
  fill what the requirement leaves open.
\<close>

section \<open>Lines\<close>

definition breakless :: "string \<Rightarrow> bool" where
  "breakless s \<longleftrightarrow> (\<forall>c \<in> set s. \<not> line_break c)"

lemma breakless_append [simp]: "breakless (s @ t) \<longleftrightarrow> breakless s \<and> breakless t"
  by (auto simp: breakless_def)

lemma breakless_Cons [simp]: "breakless (c # s) \<longleftrightarrow> \<not> line_break c \<and> breakless s" and breakless_Nil [simp]: "breakless []"
  by (auto simp: breakless_def)

lemma line_break_space: "line_break c \<Longrightarrow> py_space c"
  by (auto simp: line_break_def py_space_def Let_def)

lemma line_feed [simp]: "line_break (CHR 0x0A)" "\<not> (CHR 0x0A :: char) = CHR 0x0D"
  by (simp_all add: line_break_def chr_code_def)

lemma split_lines_append:
  assumes "s = [] \<Longrightarrow> acc \<noteq> []" "s \<noteq> [] \<Longrightarrow> \<not> line_break (last s)"
  shows "split_lines acc (s @ CHR 0x0A # t) = split_lines acc s @ split_lines [] t"
  using assms
proof (induction acc s rule: split_lines.induct)
  case (1 acc)
  then show ?case by (cases t) simp_all
next
  case (2 acc c)
  then have "\<not> line_break c" "\<not> c = CHR 0x0D" by (auto simp: line_break_def chr_code_def)
  then show ?case by (cases t) simp_all
next
  case (3 acc c d cs)
  consider (crlf) "c = CHR 0x0D \<and> d = CHR 0x0A" | (brk) "\<not> (c = CHR 0x0D \<and> d = CHR 0x0A)" "line_break c"
    | (plain) "\<not> (c = CHR 0x0D \<and> d = CHR 0x0A)" "\<not> line_break c" by blast
  then show ?case
  proof cases
    case crlf
    with 3(5) have "cs \<noteq> []" by (auto split: if_splits)
    with crlf 3 show ?thesis by simp
  next
    case brk
    with 3 show ?thesis by auto
  next
    case plain
    with 3 show ?thesis by auto
  qed
qed

lemma split_lines_plain: "breakless s \<Longrightarrow> s \<noteq> [] \<or> acc \<noteq> [] \<Longrightarrow> split_lines acc s = [rev acc @ s]"
  by (induction acc s rule: split_lines.induct) (auto simp: breakless_def)

text \<open>Lines that end in a visible character, joined by line feeds, are the lines of the text.\<close>

definition whole_line :: "string \<Rightarrow> bool" where
  "whole_line s \<longleftrightarrow> s \<noteq> [] \<and> breakless s \<and> \<not> py_space (last s)"

lemma splitlines_join: "list_all whole_line ls \<Longrightarrow> splitlines (join [CHR 0x0A] ls) = ls"
proof (induction "[CHR 0x0A]" ls rule: join.induct)
  case (3 x y zs)
  then have "x \<noteq> []" "\<not> line_break (last x)" by (auto simp: whole_line_def dest: line_break_space)
  with 3 split_lines_append [of x "[]" "join [CHR 0x0A] (y # zs)"] show ?case
    by (simp add: split_lines_plain whole_line_def)
qed (auto simp: split_lines_plain whole_line_def)

lemma splitlines_append_lines:
  assumes "s \<noteq> []" "\<not> py_space (last s)" "list_all whole_line ls"
  shows "splitlines (s @ CHR 0x0A # join [CHR 0x0A] ls) = splitlines s @ ls"
  using assms split_lines_append [of s "[]" "join [CHR 0x0A] ls"] splitlines_join [of ls]
  by (auto dest: line_break_space)

lemma without_decisions_append:
  assumes "s \<noteq> []" "\<not> py_space (last s)" "list_all whole_line ls" "\<forall>l \<in> set ls. startswith (lstrip l) ''DECISION:''"
  shows "requirement_without_decisions (s @ CHR 0x0A # join [CHR 0x0A] ls) = requirement_without_decisions s"
  using assms by (simp add: requirement_without_decisions_def splitlines_append_lines)

section \<open>Stripped text\<close>

lemma strip_id: "s \<noteq> [] \<Longrightarrow> \<not> py_space (hd s) \<Longrightarrow> \<not> py_space (last s) \<Longrightarrow> strip s = s"
  by (simp add: strip_by_def lstrip_by_def rstrip_by_def dropWhile_eq_self_iff [THEN iffD2] hd_rev)

lemma rstrip_id: "s = [] \<or> \<not> py_space (last s) \<Longrightarrow> rstrip s = s"
  by (auto simp: rstrip_by_def hd_rev dropWhile_eq_self_iff [THEN iffD2])

lemma strip_ends: "strip s \<noteq> [] \<Longrightarrow> \<not> py_space (hd (strip s)) \<and> \<not> py_space (last (strip s))"
proof -
  assume nonempty: "strip s \<noteq> []"
  define t where "t = dropWhile py_space s"
  have strip: "strip s = rev (dropWhile py_space (rev t))" by (simp add: strip_by_def lstrip_by_def rstrip_by_def t_def)
  obtain u where u: "t = strip s @ u" unfolding strip by (metis rev_append rev_rev_ident takeWhile_dropWhile_id)
  with nonempty have "hd t = hd (strip s)" "t \<noteq> []" by auto
  then have "\<not> py_space (hd (strip s))" unfolding t_def using hd_dropWhile [of py_space s] by metis
  moreover have "\<not> py_space (last (strip s))"
    using nonempty hd_dropWhile [of py_space "rev t"] unfolding strip by (simp add: last_rev)
  ultimately show ?thesis by simp
qed

lemma before_id: "\<not> contains s p \<Longrightarrow> before s p = s"
  by (induction s) auto

section \<open>Answers\<close>

lemma receive_Inr:
  "receive offered received as = Inr out \<Longrightarrow> distinct (map fst received) \<Longrightarrow>
     out = received @ map (\<lambda>a. (an_slot a, a)) as \<and> distinct (map fst out) \<and> an_slot ` set as \<subseteq> set offered"
proof (induction as arbitrary: received)
  case (Cons a as)
  from Cons.prems(1) have new: "map_of received (an_slot a) = None" "an_slot a \<in> set offered"
      "receive offered (received @ [(an_slot a, a)]) as = Inr out"
    by (auto split: if_splits)
  with Cons.prems(2) have "distinct (map fst (received @ [(an_slot a, a)]))" by (simp add: map_of_eq_None_iff)
  note IH = Cons.IH [OF new(3) this]
  show ?case
  proof (intro conjI)
    show "out = received @ map (\<lambda>a. (an_slot a, a)) (a # as)" using IH by simp
    show "distinct (map fst out)" using IH by blast
    show "an_slot ` set (a # as) \<subseteq> set offered" using IH new(2) by simp
  qed
qed simp

text \<open>A resolution records the choice that an answer makes among the options of a decision.\<close>

definition chosen :: "open_decision \<Rightarrow> decision_answer \<Rightarrow> resolution \<Rightarrow> bool" where
  "chosen d a r \<longleftrightarrow> an_slot a = od_slot d \<and> rs_slot r = od_slot d \<and> rs_kind r = od_kind d
     \<and> (\<exists>x \<in> set (od_options d). op_key x = upper (strip (an_key a)) \<and> rs_key r = op_key x \<and> rs_label r = op_label x
          \<and> (if op_free_text x
             then strip (an_text a) \<noteq> [] \<and> rs_value r = ''For '' @ od_slot d @ '', the user supplied: '' @ strip (an_text a)
             else rs_value r = op_value x))"

lemma resolve_one_chosen:
  assumes "resolve_one received d = Inr r" "\<forall>(s, a) \<in> set received. an_slot a = s"
  obtains a where "(od_slot d, a) \<in> set received" "chosen d a r"
proof -
  from assms(1) obtain a x where a: "map_of received (od_slot d) = Some a" and x: "find_option d (an_key a) = Some x"
    and r: "\<not> (op_free_text x \<and> strip (an_text a) = [])"
      "r = \<lparr>rs_slot = od_slot d, rs_kind = od_kind d, rs_key = op_key x, rs_label = op_label x,
             rs_value = (if op_free_text x then ''For '' @ od_slot d @ '', the user supplied: '' @ strip (an_text a) else op_value x),
             rs_citation = str_or (op_basis x) (od_citation d)\<rparr>"
    by (auto simp: resolve_one_def Let_def split: option.splits if_splits)
  from a have mem: "(od_slot d, a) \<in> set received" by (rule map_of_SomeD)
  from x have "x \<in> set (od_options d)" "op_key x = upper (strip (an_key a))"
    by (auto simp: find_option_def find_Some_iff)
  with r mem assms(2) have "chosen d a r" by (auto simp: chosen_def)
  with mem that show thesis by blast
qed

lemma parse_resolutions_chosen:
  assumes "parse_resolutions read_json answer ds = Inr rs"
  obtains e where "read_json answer = Some e" "envelope_ok e" "ae_schema e = ''ratsnest.decision-answer.v1''"
    "distinct (map an_slot (ae_answers e))" "an_slot ` set (ae_answers e) = od_slot ` set ds"
    "list_all2 (\<lambda>d r. \<exists>a \<in> set (ae_answers e). chosen d a r) ds rs"
proof -
  from assms obtain e received where e: "read_json answer = Some e" "envelope_ok e" "ae_schema e = ''ratsnest.decision-answer.v1''"
    and rec: "receive (map od_slot ds) [] (ae_answers e) = Inr received"
    and full: "filter (\<lambda>s. map_of received s = None) (map od_slot ds) = []"
    and res: "map_res (resolve_one received) ds = Inr rs"
    by (auto simp: parse_resolutions_def bind_res_Inr_iff Let_def split: option.splits if_splits)
  from receive_Inr [OF rec] have out: "received = map (\<lambda>a. (an_slot a, a)) (ae_answers e)"
      "distinct (map an_slot (ae_answers e))" "an_slot ` set (ae_answers e) \<subseteq> od_slot ` set ds"
    by (auto simp: comp_def)
  have "od_slot ` set ds \<subseteq> an_slot ` set (ae_answers e)"
  proof
    fix s assume "s \<in> od_slot ` set ds"
    with full have "map_of received s \<noteq> None" by (auto simp: filter_empty_conv)
    then show "s \<in> an_slot ` set (ae_answers e)" by (auto simp: out(1) map_of_eq_None_iff image_iff)
  qed
  moreover have "list_all2 (\<lambda>d r. \<exists>a \<in> set (ae_answers e). chosen d a r) ds rs"
  proof (rule list_all2_all_nthI)
    show "length ds = length rs" using res by (simp add: map_res_Inr_iff)
    fix i assume "i < length ds"
    with res have "resolve_one received (ds ! i) = Inr (rs ! i)" by (simp add: map_res_Inr_iff)
    then obtain a where "(od_slot (ds ! i), a) \<in> set received" "chosen (ds ! i) a (rs ! i)"
      by (rule resolve_one_chosen) (auto simp: out(1))
    then show "\<exists>a \<in> set (ae_answers e). chosen (ds ! i) a (rs ! i)" by (auto simp: out(1))
  qed
  ultimately show thesis using that [OF e out(2)] out(3) by blast
qed

lemma parse_resolutions_slots: "parse_resolutions read_json answer ds = Inr rs \<Longrightarrow> map rs_slot rs = map od_slot ds"
proof -
  assume parsed: "parse_resolutions read_json answer ds = Inr rs"
  obtain e :: answer_envelope where "list_all2 (\<lambda>d r. \<exists>a \<in> set (ae_answers e). chosen d a r) ds rs"
    by (rule parse_resolutions_chosen [OF parsed])
  then have "list_all2 (\<lambda>d r. od_slot d = rs_slot r) ds rs" by (rule list_all2_mono) (auto simp: chosen_def)
  then show ?thesis by (induction rule: list_all2_induct) simp_all
qed

text \<open>Answers to applicable questions override nothing.\<close>

lemma applicable_apply:
  assumes "parse_resolutions read_json answer (applicable_decisions requirement stored) = Inr fresh"
  shows "apply_resolutions dash requirement fresh =
    Inr (if decision_lines dash fresh = [] then requirement
         else rstrip requirement @ [CHR 0x0A] @ join [CHR 0x0A] (decision_lines dash fresh))"
proof -
  have "set (map rs_slot fresh) \<subseteq> {s. slot_accepts_resolution requirement s}"
    unfolding parse_resolutions_slots [OF assms] by (auto simp: applicable_decisions_def)
  then have "filter (\<lambda>s. s \<noteq> [] \<and> \<not> slot_accepts_resolution requirement s) (map rs_slot fresh) = []"
    by (auto simp: filter_empty_conv)
  then show ?thesis by (simp add: apply_resolutions_def)
qed

section \<open>Decisions only fill\<close>

definition evidence_free :: "string \<Rightarrow> bool" where
  "evidence_free s \<longleftrightarrow> \<not> contains s ''GROUNDED ARCHITECT EVIDENCE'' \<and> \<not> contains s ''VALIDATED CAPABILITY PROFILE''"

lemma contains_prefix: "contains s p \<Longrightarrow> contains (s @ t) p"
  unfolding contains_iff by (metis append.assoc)

lemma evidence_free_prefix: "evidence_free (s @ t) \<Longrightarrow> evidence_free s"
  unfolding evidence_free_def using contains_prefix by blast

lemma source_requirement_id: "evidence_free s \<Longrightarrow> source_requirement s = strip s"
  by (simp add: source_requirement_def evidence_free_def before_id)

text \<open>The constraints that a requirement states outside its decisions are the same in both.\<close>

definition explicit_kept :: "recognisers \<Rightarrow> string \<Rightarrow> requirement_invariants \<Rightarrow> requirement_invariants \<Rightarrow> bool" where
  "explicit_kept g original q q' \<longleftrightarrow>
     rq_ground_plane q' = rq_ground_plane q \<and> rq_ground_layer q' = rq_ground_layer q \<and> rq_continuous q' = rq_continuous q
     \<and> rq_min_track q' = rq_min_track q \<and> rq_track_nets q' = rq_track_nets q \<and> rq_decoupling q' = rq_decoupling q
     \<and> (rg_layers g original \<noteq> None \<longrightarrow> rq_layers q' = rq_layers q)
     \<and> (rg_limits g original \<noteq> None \<longrightarrow> rq_max_width q' = rq_max_width q \<and> rq_max_height q' = rq_max_height q)
     \<and> (fst (rg_holes g original) \<noteq> None \<longrightarrow> rq_holes q' = rq_holes q \<and> rq_npth q' = rq_npth q)"

lemma extract_fields:
  assumes "extract_requirement_invariants g r = Inr q" "original = requirement_without_decisions (source_requirement r)"
  shows "rq_ground_plane q = fst (rg_ground g original)" "rq_ground_layer q = fst (snd (rg_ground g original))"
    "rq_continuous q = snd (snd (rg_ground g original))" "rq_min_track q = map_option fst (rg_track g original)"
    "rq_track_nets q = (case rg_track g original of None \<Rightarrow> [] | Some (_, ns) \<Rightarrow> ns)" "rq_decoupling q = rg_decoupling g original"
    "rg_layers g original = Some n \<Longrightarrow> rq_layers q = Some n"
    "rg_limits g original = Some (w, h) \<Longrightarrow> rq_max_width q = Some w \<and> rq_max_height q = Some h"
    "rg_holes g original = (Some k, np) \<Longrightarrow> rq_holes q = Some k \<and> rq_npth q = np"
  using assms(1) unfolding extract_requirement_invariants_def Let_def assms(2) [symmetric]
  by (simp_all split: if_splits) auto

lemma extract_explicit_kept:
  assumes "extract_requirement_invariants g r = Inr q" "extract_requirement_invariants g r' = Inr q'"
    and "requirement_without_decisions (source_requirement r) = requirement_without_decisions (source_requirement r')"
  shows "explicit_kept g (requirement_without_decisions (source_requirement r)) q q'"
proof -
  define original where "original = requirement_without_decisions (source_requirement r)"
  note q = extract_fields [OF assms(1) original_def] and q' = extract_fields [OF assms(2) original_def [unfolded assms(3)]]
  show ?thesis
    unfolding explicit_kept_def original_def [symmetric] q(1-6) q'(1-6)
    using q(7,8,9) q'(7,8,9) by (cases "rg_holes g original") auto
qed

definition plain_resolution :: "resolution \<Rightarrow> bool" where
  "plain_resolution r \<longleftrightarrow> breakless (rs_slot r) \<and> breakless (rs_key r) \<and> breakless (rs_value r)
     \<and> (rs_value r \<noteq> [] \<longrightarrow> \<not> py_space (last (rs_value r)))"

lemma decision_line_whole:
  assumes "plain_resolution r" "breakless dash" "rs_value r \<noteq> []"
  shows "whole_line (decision_line dash r)" "startswith (lstrip (decision_line dash r)) ''DECISION:''"
proof -
  show "whole_line (decision_line dash r)"
    using assms by (simp add: whole_line_def decision_line_def plain_resolution_def line_break_def chr_code_def)
  show "startswith (lstrip (decision_line dash r)) ''DECISION:''"
    by (simp add: decision_line_def lstrip_by_def py_space_def chr_code_def startswith_def)
qed

lemma applied_text:
  assumes "\<forall>r \<in> set fresh. plain_resolution r" "breakless dash" "strip requirement = requirement" "requirement \<noteq> []"
    and "c = (if decision_lines dash fresh = [] then requirement
         else rstrip requirement @ [CHR 0x0A] @ join [CHR 0x0A] (decision_lines dash fresh))"
  shows "requirement_without_decisions c = requirement_without_decisions requirement" "strip c = c" "\<exists>t. c = requirement @ t"
proof -
  define ls where "ls = decision_lines dash fresh"
  have ls: "list_all whole_line ls" "\<forall>l \<in> set ls. startswith (lstrip l) ''DECISION:''"
    using decision_line_whole assms(1,2) by (auto simp: ls_def decision_lines_def list_all_iff)
  have ends: "\<not> py_space (hd requirement)" "\<not> py_space (last requirement)"
    using strip_ends [of requirement] assms(3,4) by auto
  then have c: "c = (if ls = [] then requirement else requirement @ CHR 0x0A # join [CHR 0x0A] ls)"
    using assms(5) rstrip_id [of requirement] by (simp add: ls_def)
  show "requirement_without_decisions c = requirement_without_decisions requirement"
    using without_decisions_append [OF assms(4) ends(2) ls] by (simp add: c)
  show "\<exists>t. c = requirement @ t" by (simp add: c)
  have "ls \<noteq> [] \<Longrightarrow> last (join [CHR 0x0A] ls) = last (last ls) \<and> join [CHR 0x0A] ls \<noteq> []"
    using ls(1) by (induction "[CHR 0x0A]" ls rule: join.induct) (auto simp: whole_line_def)
  moreover have "ls \<noteq> [] \<Longrightarrow> \<not> py_space (last (last ls))"
    using ls(1) by (auto simp: list_all_iff whole_line_def)
  ultimately show "strip c = c"
    using assms(3,4) ends by (cases "ls = []") (auto simp: c intro!: strip_id)
qed

text \<open>The choices that the gaps offer are plain text.\<close>

lemma letters: "letter 0 = ''A''" "letter (Suc 0) = ''B''" "letter 1 = ''B''" "letter 2 = ''C''" "letter (Suc (Suc 0)) = ''C''" "letter 3 = ''D''"
  "letter (Suc (Suc (Suc 0))) = ''D''"
  by code_simp+

lemmas gap_chars = line_break_def py_space_def chr_code_def chr_between_def upper_alpha_def lower_alpha_def is_digit_def

definition plain_option :: "decision_option \<Rightarrow> bool" where
  "plain_option x \<longleftrightarrow> breakless (op_key x) \<and> breakless (op_value x) \<and> (op_value x \<noteq> [] \<longrightarrow> \<not> py_space (last (op_value x)))"

definition plain_decision :: "open_decision \<Rightarrow> bool" where
  "plain_decision d \<longleftrightarrow> breakless (od_slot d) \<and> list_all plain_option (od_options d)"

text \<open>What a gap needs for its decision to be plain text within the bounds of the contract.\<close>

definition gap_fit :: "requirement_gap \<Rightarrow> bool" where
  "gap_fit g \<longleftrightarrow> slot_pattern (ga_slot g) \<and> bounded 1 1000 (ga_question g) \<and> length (ga_basis g) \<le> 500
     \<and> (\<exists>x y. ga_alternatives g = [x, y] \<and> (\<forall>t \<in> {ga_assumed g, x, y}. breakless t \<and> length t \<le> 400))"

lemma slot_pattern_plain: "slot_pattern s \<Longrightarrow> breakless s \<and> length s \<le> 64"
  by (auto simp: slot_pattern_def breakless_def list_all_iff gap_chars Let_def split: list.splits)

lemma gap_fit_decision:
  assumes "gap_fit g"
  shows "plain_decision (gap_decision g)" "decision_ok (gap_decision g)"
proof -
  from assms obtain x y where g: "ga_alternatives g = [x, y]" "slot_pattern (ga_slot g)" "bounded 1 1000 (ga_question g)"
      "length (ga_basis g) \<le> 500" "\<forall>t \<in> {ga_assumed g, x, y}. breakless t \<and> length t \<le> 400"
    by (auto simp: gap_fit_def)
  note slot = slot_pattern_plain [OF g(2)]
  have options: "od_options (gap_decision g) = [confirmed_option g 0 (ga_assumed g), confirmed_option g (Suc 0) x,
      confirmed_option g (Suc (Suc 0)) y,
      \<lparr>op_key = ''D'', op_label = ''Use a custom value'', op_value = [], op_basis = ''user supplied'', op_free_text = True\<rparr>]"
    using g(1) by (simp add: gap_decision_def Let_def letters)
  have plain: "plain_option (confirmed_option g i t)" if "breakless (letter i)" "breakless t" for i t
    using that slot by (simp add: plain_option_def confirmed_option_def gap_chars)
  have "plain_option \<lparr>op_key = ''D'', op_label = ''Use a custom value'', op_value = [], op_basis = ''user supplied'', op_free_text = True\<rparr>"
      "breakless (letter 0)" "breakless (letter (Suc 0))" "breakless (letter (Suc (Suc 0)))"
    by (simp_all add: plain_option_def letters gap_chars)
  with g plain slot show "plain_decision (gap_decision g)"
    unfolding plain_decision_def options by (simp add: gap_decision_def Let_def)
  have ok: "option_ok (confirmed_option g i t)" if "key_pattern (letter i)" "length t \<le> 400" for i t
    using that slot g(4) by (simp add: option_ok_def confirmed_option_def bounded_def)
  have "option_ok \<lparr>op_key = ''D'', op_label = ''Use a custom value'', op_value = [], op_basis = ''user supplied'', op_free_text = True\<rparr>"
      "key_pattern (letter 0)" "key_pattern (letter (Suc 0))" "key_pattern (letter (Suc (Suc 0)))"
    by (simp_all add: option_ok_def letters bounded_def key_pattern_def gap_chars)
  with g ok show "decision_ok (gap_decision g)"
    unfolding decision_ok_def options by (simp add: gap_decision_def Let_def bounded_def)
qed

lemma gaps_fit: "list_all gap_fit GAPS"
  by (simp add: GAPS_def gap_fit_def slot_pattern_def bounded_def gap_chars)

lemma gap_decisions_fit:
  "list_all (\<lambda>g. plain_decision (gap_decision g)) GAPS" "list_all (\<lambda>g. decision_ok (gap_decision g)) GAPS"
  using gaps_fit gap_fit_decision by (auto simp: list_all_iff)

lemma gap_loop_set: "set (gap_loop settled low lmt ds gs) \<subseteq> set ds \<union> gap_decision ` set gs"
  by (induction settled low lmt ds gs rule: gap_loop.induct) auto

lemma design_decisions_plain: "d \<in> set (design_decisions requirement settled lmt) \<Longrightarrow> plain_decision d"
  using gap_loop_set [of settled "lower requirement" lmt "[]" GAPS] gap_decisions_fit(1)
  by (auto simp: design_decisions_def Let_def list_all_iff split: if_splits)

lemma design_decisions_ok:
  "d \<in> set (design_decisions requirement settled lmt) \<Longrightarrow> decision_ok d"
  "0 \<le> lmt \<Longrightarrow> int (length (design_decisions requirement settled lmt)) \<le> lmt"
proof -
  show "d \<in> set (design_decisions requirement settled lmt) \<Longrightarrow> decision_ok d"
    using gap_loop_set [of settled "lower requirement" lmt "[]" GAPS] gap_decisions_fit(2)
    by (auto simp: design_decisions_def Let_def list_all_iff split: if_splits)
  have "int (length ds) \<le> lmt \<Longrightarrow> int (length (gap_loop settled low lmt ds gs)) \<le> lmt" for low ds gs
    by (induction settled low lmt ds gs rule: gap_loop.induct) auto
  then show "0 \<le> lmt \<Longrightarrow> int (length (design_decisions requirement settled lmt)) \<le> lmt"
    by (auto simp: design_decisions_def Let_def)
qed

lemma strip_breakless: "breakless s \<Longrightarrow> breakless (strip s)"
  unfolding breakless_def strip_by_def lstrip_by_def rstrip_by_def by (auto dest!: set_dropWhileD)

lemma chosen_plain:
  assumes "plain_decision d" "chosen d a r" "breakless (an_text a)"
  shows "plain_resolution r"
proof -
  from assms(1,2) obtain x where x: "plain_option x" "rs_key r = op_key x" "rs_slot r = od_slot d" "breakless (od_slot d)"
    "if op_free_text x then strip (an_text a) \<noteq> [] \<and> rs_value r = ''For '' @ od_slot d @ '', the user supplied: '' @ strip (an_text a)
     else rs_value r = op_value x"
    by (auto simp: chosen_def plain_decision_def list_all_iff)
  show ?thesis
  proof (cases "op_free_text x")
    case True
    with x(5) strip_ends [of "an_text a"] have "rs_value r = ''For '' @ od_slot d @ '', the user supplied: '' @ strip (an_text a)"
        "strip (an_text a) \<noteq> []" "\<not> py_space (last (strip (an_text a)))" by simp_all
    with x strip_breakless [OF assms(3)] show ?thesis
      by (simp add: plain_resolution_def plain_option_def line_break_def chr_code_def)
  next
    case False
    with x show ?thesis by (simp add: plain_resolution_def plain_option_def)
  qed
qed

lemma all_chosen_plain:
  "list_all2 (\<lambda>d r. \<exists>a \<in> A. chosen d a r) ds rs \<Longrightarrow> \<forall>d \<in> set ds. plain_decision d \<Longrightarrow> \<forall>a \<in> A. breakless (an_text a)
     \<Longrightarrow> \<forall>r \<in> set rs. plain_resolution r"
  by (induction rule: list_all2_induct) (auto intro: chosen_plain)

lemma clarified_cases:
  assumes "decision_gate dash read_json requirement stored settled answer = Inr (Clarified c rs)"
  obtains fresh where "parse_resolutions read_json answer (applicable_decisions requirement stored) = Inr fresh"
    "c = (if decision_lines dash fresh = [] then requirement
          else rstrip requirement @ [CHR 0x0A] @ join [CHR 0x0A] (decision_lines dash fresh))"
    "rs = merge_resolutions settled fresh"
proof -
  from assms obtain fresh where f: "parse_resolutions read_json answer (applicable_decisions requirement stored) = Inr fresh"
      "apply_resolutions dash requirement fresh = Inr c" "rs = merge_resolutions settled fresh"
    by (auto simp: decision_gate_def bind_res_Inr_iff Let_def split: if_splits)
  from f(2) applicable_apply [OF f(1), of dash] that [OF f(1) _ f(3)] show thesis by simp
qed

lemma receive_error: "receive offered received as = Inl e \<Longrightarrow> e \<noteq> OverridesRequirement slots"
  by (induction offered received as rule: receive.induct) (auto split: if_splits)

lemma parse_error_kind: "parse_resolutions read_json answer ds = Inl e \<Longrightarrow> e \<noteq> OverridesRequirement slots"
  by (auto simp: parse_resolutions_def bind_res_def resolve_one_def Let_def
      split: option.splits if_splits sum.splits dest!: map_res_Inl receive_error)

section \<open>The properties\<close>

text \<open>
  When the gate accepts an answer, every open question was answered exactly once, with one of
  the options it offered; the recorded value is that of the option or, where the option takes
  free text, a non-empty text of the user; and the gate never rejects an answer as overriding the
  requirement, because stale questions have been dropped before.
\<close>

theorem answers_are_offered:
  "(decision_gate dash read_json requirement stored settled answer = Inr (Clarified c rs) \<longrightarrow>
      (\<exists>e fresh. read_json answer = Some e \<and> distinct (map an_slot (ae_answers e))
        \<and> an_slot ` set (ae_answers e) = od_slot ` set (applicable_decisions requirement stored)
        \<and> list_all2 (\<lambda>d r. \<exists>a \<in> set (ae_answers e). chosen d a r) (applicable_decisions requirement stored) fresh
        \<and> rs = merge_resolutions settled fresh))
   \<and> decision_gate dash read_json requirement stored settled answer \<noteq> Inl (OverridesRequirement slots)"
proof (intro conjI impI)
  assume "decision_gate dash read_json requirement stored settled answer = Inr (Clarified c rs)"
  then obtain fresh where f: "parse_resolutions read_json answer (applicable_decisions requirement stored) = Inr fresh"
      "rs = merge_resolutions settled fresh"
    by (rule clarified_cases)
  show "\<exists>e fresh. read_json answer = Some e \<and> distinct (map an_slot (ae_answers e))
        \<and> an_slot ` set (ae_answers e) = od_slot ` set (applicable_decisions requirement stored)
        \<and> list_all2 (\<lambda>d r. \<exists>a \<in> set (ae_answers e). chosen d a r) (applicable_decisions requirement stored) fresh
        \<and> rs = merge_resolutions settled fresh"
    by (rule parse_resolutions_chosen [OF f(1)]) (use f(2) in blast)
next
  show "decision_gate dash read_json requirement stored settled answer \<noteq> Inl (OverridesRequirement slots)"
  proof (cases "parse_resolutions read_json answer (applicable_decisions requirement stored)")
    case (Inl e)
    then have "e \<noteq> OverridesRequirement slots" using parse_error_kind by blast
    with Inl show ?thesis by (simp add: decision_gate_def Let_def)
  next
    case (Inr fresh)
    with applicable_apply [OF Inr] show ?thesis by (simp add: decision_gate_def Let_def)
  qed
qed

text \<open>
  C14: Decisions only fill what a requirement leaves open: as long as no answer contains a line
  break, the text outside the decisions of the clarified requirement is that of the requirement,
  so every constraint that the requirement states itself is extracted unchanged for the audit of
  the release.
\<close>

theorem decisions_only_fill:
  assumes gate: "decision_gate dash read_json requirement (design_decisions asked slots lmt) settled answer = Inr (Clarified c rs)"
    and texts: "strip requirement = requirement" "requirement \<noteq> []" "evidence_free c" "breakless dash"
    and answers: "\<forall>e. read_json answer = Some e \<longrightarrow> (\<forall>a \<in> set (ae_answers e). breakless (an_text a))"
  shows "requirement_without_decisions c = requirement_without_decisions requirement
     \<and> (\<forall>g q q'. extract_requirement_invariants g requirement = Inr q \<longrightarrow> extract_requirement_invariants g c = Inr q' \<longrightarrow>
          explicit_kept g (requirement_without_decisions requirement) q q')"
proof -
  define ds where "ds = applicable_decisions requirement (design_decisions asked slots lmt)"
  obtain fresh where f: "parse_resolutions read_json answer ds = Inr fresh"
    and c: "c = (if decision_lines dash fresh = [] then requirement
          else rstrip requirement @ [CHR 0x0A] @ join [CHR 0x0A] (decision_lines dash fresh))"
    using gate unfolding ds_def by (rule clarified_cases)
  have "\<forall>r \<in> set fresh. plain_resolution r"
  proof (rule parse_resolutions_chosen [OF f])
    fix e assume e: "read_json answer = Some e" "list_all2 (\<lambda>d r. \<exists>a \<in> set (ae_answers e). chosen d a r) ds fresh"
    have "plain_decision d" if "d \<in> set ds" for d
      using that design_decisions_plain by (auto simp: ds_def applicable_decisions_def)
    moreover have "\<forall>a \<in> set (ae_answers e). breakless (an_text a)" using answers e(1) by blast
    ultimately show "\<forall>r \<in> set fresh. plain_resolution r" using all_chosen_plain [OF e(2)] by blast
  qed
  note applied = applied_text [OF this texts(4) texts(1,2) c]
  have "source_requirement requirement = requirement" "source_requirement c = c"
    using applied(2,3) texts(1,3) evidence_free_prefix source_requirement_id by metis+
  note sources = this
  have "explicit_kept g (requirement_without_decisions requirement) q q'"
    if "extract_requirement_invariants g requirement = Inr q" "extract_requirement_invariants g c = Inr q'" for g q q'
    using extract_explicit_kept [OF that] applied(1) by (simp add: sources)
  with applied(1) show ?thesis by blast
qed

section \<open>Examples\<close>

definition sample_need :: string where
  "sample_need = ''A board with 4 layers''"

definition sample_slots :: "string list" where
  "sample_slots = [''board_outline'', ''layer_count'', ''input_power'', ''main_rail'']"

definition answer_to :: "string \<Rightarrow> string \<Rightarrow> string \<Rightarrow> answer_envelope" where
  "answer_to slot key t = \<lparr>ae_schema = ''ratsnest.decision-answer.v1'', ae_answers = [\<lparr>an_slot = slot, an_key = key, an_text = t\<rparr>]\<rparr>"

definition gate_text :: "decision_error + gate_outcome \<Rightarrow> string option" where
  "gate_text r = (case r of Inr (Clarified c _) \<Rightarrow> Some c | _ \<Rightarrow> None)"

definition sample_gate :: "string \<Rightarrow> string \<Rightarrow> decision_error + gate_outcome" where
  "sample_gate key t =
     decision_gate ''-'' (\<lambda>_. Some (answer_to ''mounting'' key t)) sample_need (design_decisions sample_need sample_slots 6) [] ''json''"

definition sample_clarified :: string where
  "sample_clarified = sample_need @ [CHR 0x0A] @ ''DECISION: mounting=A - For mounting, the user confirmed: Four non-plated M2 mounting holes.''
     @ '' Use exactly this and do not substitute it.''"

lemma sample_gate_text: "gate_text (sample_gate ''A'' []) = Some sample_clarified"
  by code_simp

lemma gate_text_Some: "gate_text r = Some c \<Longrightarrow> \<exists>rs. r = Inr (Clarified c rs)"
  by (auto simp: gate_text_def split: sum.splits gate_outcome.splits)

theorem answers_are_offered_witness:
  "\<exists>c rs e fresh. sample_gate ''A'' [] = Inr (Clarified c rs) \<and> e = answer_to ''mounting'' ''A'' []
     \<and> an_slot ` set (ae_answers e) = od_slot ` set (applicable_decisions sample_need (design_decisions sample_need sample_slots 6))
     \<and> rs = merge_resolutions [] fresh"
proof -
  from gate_text_Some [OF sample_gate_text] obtain rs where rs: "sample_gate ''A'' [] = Inr (Clarified sample_clarified rs)" by blast
  with answers_are_offered [of "''-''" "\<lambda>_. Some (answer_to ''mounting'' ''A'' [])" sample_need
      "design_decisions sample_need sample_slots 6" "[]" "''json''" sample_clarified rs]
  show ?thesis unfolding sample_gate_def by auto
qed

theorem decisions_only_fill_witness:
  "\<exists>rs. sample_gate ''A'' [] = Inr (Clarified sample_clarified rs)
     \<and> requirement_without_decisions sample_clarified = requirement_without_decisions sample_need"
proof -
  from gate_text_Some [OF sample_gate_text] obtain rs where rs: "sample_gate ''A'' [] = Inr (Clarified sample_clarified rs)" by blast
  have "strip sample_need = sample_need" "sample_need \<noteq> []" "evidence_free sample_clarified" "breakless ''-''" by code_simp+
  with decisions_only_fill [OF rs [unfolded sample_gate_def]] rs show ?thesis by (auto simp: answer_to_def)
qed

text \<open>
  Without the condition on line breaks the statement is false: a custom answer about mounting with
  a second line is read as part of the requirement and replaces the number of layers it states.
\<close>

lemma answer_line_overrides:
  "\<exists>c rs. sample_gate ''D'' (''none'' @ [CHR 0x0A] @ ''6 layers'') = Inr (Clarified c rs)
     \<and> explicit_layer_count (requirement_without_decisions sample_need) = Some 4
     \<and> explicit_layer_count (requirement_without_decisions c) = Some 6"
proof -
  define c where "c = sample_need @ [CHR 0x0A] @ ''DECISION: mounting=D - For mounting, the user supplied: none'' @ [CHR 0x0A] @ ''6 layers''"
  have "gate_text (sample_gate ''D'' (''none'' @ [CHR 0x0A] @ ''6 layers'')) = Some c" unfolding c_def by code_simp
  moreover have "explicit_layer_count (requirement_without_decisions sample_need) = Some 4" by code_simp
  moreover have "explicit_layer_count (requirement_without_decisions c) = Some 6" unfolding c_def by code_simp
  ultimately show ?thesis using gate_text_Some by blast
qed

text \<open>A number of layers that the audit recognises in the requirement is asked for all the same.\<close>

lemma stated_layers_asked:
  "explicit_layer_count sample_need = Some 4 \<and> ''layer_count'' \<in> set (map od_slot (design_decisions sample_need [] 6))"
  by code_simp

end
