(* ===== verification/Warning_Contract.thy ===== *)
theory Warning_Contract
  imports Sexpr Requirement_Text Release_Receipt
begin

text \<open>
  \<open>agents/ratsnestpro/warning_contract.py\<close>, the governed dispositions of KiCad warnings, and the
  two functions of \<open>agents/ratsnestpro/tools.py\<close> that turn a rule check into evidence for the
  release verdict.

  A file that exists can be read; its text is single-byte.  What KiCad reports, JSON, library
  lookups, \<open>decimal.Decimal\<close> and the rendering of numbers and containers are arguments.
\<close>

section \<open>Findings and classifications\<close>

record finding_item =
  fi_uuid :: string
  fi_description :: string

record kicad_finding =
  kf_severity :: "string option"
  kf_type :: "string option"
  kf_description :: string
  kf_items :: "finding_item list"

record warning_resolution =
  wr_status :: string
  wr_reason :: string
  wr_approved_by :: string

record classification =
  cw_count :: int
  cw_category :: string
  cw_disposition :: string
  cw_resolution :: warning_resolution

definition blocked_because :: "string \<Rightarrow> warning_resolution" where
  "blocked_because reason = \<lparr>wr_status = ''blocked'', wr_reason = reason, wr_approved_by = []\<rparr>"

definition auto_equivalent :: "string \<Rightarrow> warning_resolution" where
  "auto_equivalent reason = \<lparr>wr_status = ''auto_equivalent'', wr_reason = reason, wr_approved_by = []\<rparr>"

definition WARNING_POLICIES :: "(string \<times> string \<times> string) list" where
  "WARNING_POLICIES =
     [(''lib_symbol_issues'', ''library_provenance'', ''repair_required''),
      (''lib_symbol_mismatch'', ''library_provenance'', ''normalized_structure_evidence_required''),
      (''endpoint_off_grid'', ''connectivity_integrity'', ''repair_required''),
      (''lib_footprint_mismatch'', ''library_provenance'', ''normalized_structure_evidence_required''),
      (''silk_over_copper'', ''assembly_readability'', ''repair_or_explicit_waiver_required''),
      (''silk_edge_clearance'', ''assembly_readability'', ''repair_or_explicit_waiver_required''),
      (''silk_overlap'', ''assembly_readability'', ''repair_or_explicit_waiver_required'')]"

definition policy_of :: "string \<Rightarrow> string \<times> string" where
  "policy_of rule = (case map_of WARNING_POLICIES rule of None \<Rightarrow> (''unclassified'', ''explicit_review_required'') | Some p \<Rightarrow> p)"

definition is_warning :: "kicad_finding \<Rightarrow> bool" where
  "is_warning f \<longleftrightarrow> lower (case kf_severity f of None \<Rightarrow> [] | Some s \<Rightarrow> s) = ''warning''"

definition rule_of :: "kicad_finding \<Rightarrow> string" where
  "rule_of f = (case kf_type f of None \<Rightarrow> ''unknown'' | Some t \<Rightarrow> t)"

definition warning_counts :: "kicad_finding list \<Rightarrow> (string \<times> int) list" where
  "warning_counts fs =
     fold (\<lambda>f d. AList.update (rule_of f) ((case map_of d (rule_of f) of None \<Rightarrow> 0 | Some n \<Rightarrow> n) + 1) d) (filter is_warning fs) []"

definition classify_warnings :: "kicad_finding list \<Rightarrow> (string \<times> classification) list" where
  "classify_warnings fs =
     map (\<lambda>(rule, n). (rule, \<lparr>cw_count = n, cw_category = fst (policy_of rule), cw_disposition = snd (policy_of rule),
       cw_resolution = blocked_because ''no governed disposition has been verified''\<rparr>)) (warning_counts fs)"

section \<open>Evidence\<close>

text \<open>The report is unreadable, has no object at its root, or lists the violations of its sheets.\<close>

record warning_env =
  wv_file :: "path \<Rightarrow> string option"
  wv_json :: "string \<Rightarrow> pyval option"
  wv_str :: "pyval \<Rightarrow> string"
  wv_report :: "string \<Rightarrow> kicad_finding list option option"
  wv_symbol :: "string \<Rightarrow> node option"
  wv_footprint :: "string \<Rightarrow> path option"
  wv_decimal :: "string \<Rightarrow> rat option"
  wv_number :: "rat \<Rightarrow> string"
  wv_repr :: "node \<Rightarrow> string"

text \<open>\<open>base / p\<close>.\<close>

definition join_path :: "path \<Rightarrow> string \<Rightarrow> path" where
  "join_path base p = (if startswith p ''/'' then path_components p else base @ path_components p)"

definition node_text :: "warning_env \<Rightarrow> node \<Rightarrow> string" where
  "node_text v n = (case n of Quoted s \<Rightarrow> s | Atom s \<Rightarrow> s | Nodes _ \<Rightarrow> wv_repr v n)"

text \<open>The findings of a rule, as the contract passes them on.\<close>

definition findings_of :: "string \<Rightarrow> kicad_finding list \<Rightarrow> kicad_finding list" where
  "findings_of rule fs = filter (\<lambda>f. is_warning f \<and> kf_type f = Some rule) fs"

subsection \<open>Project-local symbol bindings\<close>

definition apostrophe :: "char \<Rightarrow> bool" where
  "apostrophe c \<longleftrightarrow> c = CHR 0x27 \<or> c = CHR 0x22"

definition MISSING_SYMBOL_LIBRARY :: pattern where
  "MISSING_SYMBOL_LIBRARY =
     (Cat (ilit ''does not include the symbol library '') (Sat apostrophe), plus (Sat (\<lambda>c. \<not> apostrophe c)), Sat apostrophe)"

fun nicknames_of :: "kicad_finding list \<Rightarrow> string list option" where
  "nicknames_of [] = Some []"
| "nicknames_of (f # fs) =
     (case capture_search MISSING_SYMBOL_LIBRARY [] (kf_description f) of
        None \<Rightarrow> None
      | Some (m, _) \<Rightarrow> map_option ((#) (cp_group m)) (nicknames_of fs))"

definition quoted_ref :: "string \<Rightarrow> string \<Rightarrow> rx" where
  "quoted_ref keyword nickname = seq [lit (CHR ''('' # keyword), some_spaces, lit (CHR 0x22 # nickname @ '':'')]"

definition symbol_library_path :: "path \<Rightarrow> string \<Rightarrow> path" where
  "symbol_library_path project nickname = join_path (project @ [''.ratsnest-libs'', ''symbols'']) (nickname @ ''.kicad_sym'')"

definition binding_complete :: "warning_env \<Rightarrow> path \<Rightarrow> string \<Rightarrow> string \<Rightarrow> string \<Rightarrow> bool" where
  "binding_complete v project schematic table nickname \<longleftrightarrow>
     contains table (''(name '' @ [CHR 0x22] @ nickname @ [CHR 0x22] @ '')'')
     \<and> rx_search (quoted_ref ''lib_id'' nickname) schematic \<and> rx_search (quoted_ref ''symbol'' nickname) schematic
     \<and> wv_file v (symbol_library_path project nickname) \<noteq> None"

text \<open>Whether every reported library is bound, or why that is not proven.\<close>

definition project_symbol_binding_evidence :: "warning_env \<Rightarrow> path option \<Rightarrow> kicad_finding list \<Rightarrow> int \<Rightarrow> string + string list" where
  "project_symbol_binding_evidence v sch_path fs expected_count =
     (case Option.bind sch_path (\<lambda>p. map_option (\<lambda>s. (butlast p, s)) (wv_file v p)) of
        None \<Rightarrow> Inl ''schematic is unavailable''
      | Some (project, schematic) \<Rightarrow>
          (case wv_file v (project @ [''sym-lib-table'']) of
             None \<Rightarrow> Inl ''sym-lib-table is unavailable''
           | Some table \<Rightarrow>
               if int (length fs) \<noteq> expected_count \<or> fs = [] then Inl ''finding count does not match the warning classification''
               else (case nicknames_of fs of
                       None \<Rightarrow> Inl ''warning does not identify one missing library nickname''
                     | Some names \<Rightarrow>
                         (case find (\<lambda>n. \<not> binding_complete v project schematic table n) (sorted_set names) of
                            Some n \<Rightarrow> Inl (''project-local symbol binding is incomplete: '' @ n)
                          | None \<Rightarrow> Inr (sorted_set names)))))"

subsection \<open>Embedded symbols\<close>

definition SYMBOL_ITEM :: pattern where
  "SYMBOL_ITEM =
     (seq [word_start, lit ''Symbol'', some_spaces], Cat (plus (Sat (\<lambda>c. upper_alpha c \<or> lower_alpha c))) digits,
      seq [some_spaces, lit ''['', plus (Sat (\<lambda>c. c \<noteq> CHR '']'')), lit '']''])"

definition finding_references :: "kicad_finding \<Rightarrow> string list" where
  "finding_references f =
     sorted_set (concat (map (\<lambda>i. case capture_search SYMBOL_ITEM [] (fi_description i) of None \<Rightarrow> [] | Some (m, _) \<Rightarrow> [cp_group m]) (kf_items f)))"

definition children :: "node \<Rightarrow> node list" where
  "children n = (case n of Nodes ns \<Rightarrow> ns | _ \<Rightarrow> [])"

definition tagged :: "string \<Rightarrow> node \<Rightarrow> bool" where
  "tagged t n \<longleftrightarrow> is_list n \<and> tag_of n = Some t"

definition symbol_property :: "warning_env \<Rightarrow> node \<Rightarrow> string \<Rightarrow> string" where
  "symbol_property v n name =
     (case filter (\<lambda>c. tagged ''property'' c \<and> length (children c) > 2 \<and> node_text v (children c ! 1) = name) (children n) of
        [] \<Rightarrow> [] | c # _ \<Rightarrow> node_text v (children c ! 2))"

definition embedded_symbol :: "warning_env \<Rightarrow> node list \<Rightarrow> string \<Rightarrow> node option" where
  "embedded_symbol v lib_symbols lib_id =
     map_of (rev (map (\<lambda>c. (node_text v (children c ! 1), c)) (filter (\<lambda>c. tagged ''symbol'' c \<and> length (children c) > 1) lib_symbols))) lib_id"

definition instance_lib_id :: "warning_env \<Rightarrow> node \<Rightarrow> string \<Rightarrow> string" where
  "instance_lib_id v schematic ref =
     (case find (\<lambda>n. symbol_property v n ''Reference'' = ref) (filter (tagged ''symbol'') (children schematic)) of
        None \<Rightarrow> []
      | Some n \<Rightarrow> (case find_first n ''lib_id'' of Some (_ # x # _) \<Rightarrow> node_text v x | _ \<Rightarrow> []))"

definition structure_digest :: "node \<Rightarrow> string" where
  "structure_digest n = sha256 (utf8_bytes (dumps n True))"

record comparison =
  co_ref :: string
  co_lib_id :: string
  co_embedded :: string
  co_library :: string

definition compare_symbol :: "warning_env \<Rightarrow> node \<Rightarrow> node list \<Rightarrow> kicad_finding \<Rightarrow> string + comparison" where
  "compare_symbol v schematic lib_symbols f =
     (case finding_references f of
        [ref] \<Rightarrow>
          (let lib_id = instance_lib_id v schematic ref
           in case (embedded_symbol v lib_symbols lib_id, if lib_id = [] then None else wv_symbol v lib_id) of
                (Some e, Some l) \<Rightarrow>
                  if structure_digest e \<noteq> structure_digest l then Inl (''embedded symbol structure differs for '' @ ref)
                  else Inr \<lparr>co_ref = ref, co_lib_id = lib_id, co_embedded = structure_digest e, co_library = structure_digest l\<rparr>
              | _ \<Rightarrow> Inl (''embedded or installed symbol definition is unavailable: '' @ lib_id))
      | _ \<Rightarrow> Inl ''each mismatch finding must identify exactly one symbol instance'')"

definition symbol_equivalence_evidence :: "warning_env \<Rightarrow> path option \<Rightarrow> path \<Rightarrow> int \<Rightarrow> string + comparison list" where
  "symbol_equivalence_evidence v sch_path report_path expected_count =
     (case Option.bind sch_path (wv_file v) of
        None \<Rightarrow> Inl ''schematic is unavailable''
      | Some s \<Rightarrow>
          (case (loads s, Option.bind (wv_file v report_path) (wv_report v)) of
             (Inr schematic, Some reported) \<Rightarrow>
               if tag_of schematic \<noteq> Some ''kicad_sch'' \<or> reported = None then Inl ''symbol evidence has an invalid root''
               else (let fs = findings_of ''lib_symbol_mismatch'' (the reported)
                     in if int (length fs) \<noteq> expected_count \<or> fs = [] then Inl ''finding count does not match the warning classification''
                        else (case find_first schematic ''lib_symbols'' of
                                None \<Rightarrow> Inl ''embedded lib_symbols are unavailable''
                              | Some lib_symbols \<Rightarrow> map_res (compare_symbol v schematic lib_symbols) fs))
           | _ \<Rightarrow> Inl ''symbol evidence is unreadable''))"

subsection \<open>Footprints\<close>

record footprint_identity =
  fo_lib_id :: string
  fo_ref :: string
  fo_uuid :: string

definition last_property :: "warning_env \<Rightarrow> node list \<Rightarrow> string \<Rightarrow> string" where
  "last_property v ns name =
     (case map_of (rev (map (\<lambda>c. (node_text v (children c ! 1), node_text v (children c ! 2)))
             (filter (\<lambda>c. tagged ''property'' c \<and> length (children c) > 2) ns))) name of
        None \<Rightarrow> [] | Some s \<Rightarrow> s)"

definition footprint_identity_of :: "warning_env \<Rightarrow> node list \<Rightarrow> footprint_identity" where
  "footprint_identity_of v ns =
     (let uuid_node = (case find_first (Nodes ns) ''uuid'' of Some u \<Rightarrow> Some u | None \<Rightarrow> find_first (Nodes ns) ''tstamp'')
      in \<lparr>fo_lib_id = (case ns of _ # x # _ \<Rightarrow> node_text v x | _ \<Rightarrow> []), fo_ref = last_property v ns ''Reference'',
          fo_uuid = (case uuid_node of Some (_ # x # _) \<Rightarrow> node_text v x | _ \<Rightarrow> [])\<rparr>)"

definition identifier_char :: "char \<Rightarrow> bool" where
  "identifier_char c \<longleftrightarrow> upper_alpha c \<or> lower_alpha c \<or> is_digit c \<or> c = CHR ''_''"

definition finding_target_indexes :: "kicad_finding \<Rightarrow> footprint_identity list \<Rightarrow> nat list" where
  "finding_target_indexes f ids =
     (let uuids = filter (\<lambda>u. u \<noteq> []) (map fi_uuid (kf_items f));
          by_uuid = filter (\<lambda>i. fo_uuid (ids ! i) \<noteq> [] \<and> fo_uuid (ids ! i) \<in> set uuids) [0..<length ids];
          joined = join '' '' (kf_description f # map fi_description (kf_items f))
      in if by_uuid \<noteq> [] then by_uuid
         else filter (\<lambda>i. fo_ref (ids ! i) \<noteq> []
                \<and> rx_search (seq [NotBehind identifier_char, lit (fo_ref (ids ! i)), NotAhead identifier_char]) joined) [0..<length ids])"

definition resolve_project_footprint :: "warning_env \<Rightarrow> path \<Rightarrow> string \<Rightarrow> path option" where
  "resolve_project_footprint v project lib_id =
     (if \<not> contains lib_id '':'' then None
      else let nickname = before lib_id '':''; name = drop (Suc (length nickname)) lib_id;
               vendored = join_path (join_path (project @ [''.ratsnest-libs'', ''footprints'']) (nickname @ ''.pretty'')) (name @ ''.kicad_mod'')
           in if wv_file v vendored \<noteq> None then Some vendored else wv_footprint v lib_id)"

text \<open>Normalised values: a text, a list, or the null that a dropped value leaves in a list of its own.\<close>

datatype canon = CText string | CList "canon list" | CNull

definition DYNAMIC_TAGS :: "string list" where
  "DYNAMIC_TAGS = [''uuid'', ''tstamp'', ''net'', ''pinfunction'', ''pintype'']"

definition dynamic :: "node \<Rightarrow> bool" where
  "dynamic n \<longleftrightarrow> (case tag_of n of None \<Rightarrow> False | Some t \<Rightarrow> t \<in> set DYNAMIC_TAGS)"

fun canonical_node :: "warning_env \<Rightarrow> node \<Rightarrow> canon option" where
  "canonical_node v (Quoted s) = Some (CText s)"
| "canonical_node v (Atom s) = Some (CText (case wv_decimal v s of None \<Rightarrow> s | Some x \<Rightarrow> wv_number v x))"
| "canonical_node v (Nodes ns) = (if dynamic (Nodes ns) then None else Some (CList (concat (map (\<lambda>n. case canonical_node v n of None \<Rightarrow> [] | Some c \<Rightarrow> [c]) ns))))"

fun stable_key :: "canon \<Rightarrow> string" where
  "stable_key (CText s) = json_ascii s"
| "stable_key (CList xs) = ''['' @ join '','' (map stable_key xs) @ '']''"
| "stable_key CNull = ''null''"

definition nullable :: "canon option \<Rightarrow> canon" where
  "nullable x = (case x of None \<Rightarrow> CNull | Some c \<Rightarrow> c)"

text \<open>The remainder of \<open>Decimal\<close> has the sign of the dividend.\<close>

definition decimal_mod :: "rat \<Rightarrow> rat \<Rightarrow> rat" where
  "decimal_mod x y = (let q = x / y in x - y * of_int (if q < 0 then \<lceil>q\<rceil> else \<lfloor>q\<rfloor>))"

definition normalize_angle :: "warning_env \<Rightarrow> rat \<Rightarrow> string" where
  "normalize_angle v x = wv_number v (decimal_mod x 360)"

definition decimal_of :: "warning_env \<Rightarrow> node \<Rightarrow> string + rat" where
  "decimal_of v n = (case wv_decimal v (node_text v n) of None \<Rightarrow> Inl ''invalid numeric footprint field'' | Some x \<Rightarrow> Inr x)"

definition PAD_FIELDS :: "string list" where
  "PAD_FIELDS = [''at'', ''size'', ''drill'', ''layers'', ''rect_delta'', ''roundrect_rratio'', ''chamfer_ratio'', ''chamfer'', ''options'',
     ''primitives'', ''thermal_bridge_angle'', ''thermal_bridge_width'', ''thermal_gap'', ''clearance'', ''solder_mask_margin'',
     ''solder_paste_margin'', ''solder_paste_margin_ratio'', ''zone_connect'']"

definition tag_in :: "string list \<Rightarrow> node \<Rightarrow> bool" where
  "tag_in ts n \<longleftrightarrow> is_list n \<and> (case tag_of n of None \<Rightarrow> False | Some t \<Rightarrow> t \<in> set ts)"

definition pad_field :: "warning_env \<Rightarrow> rat \<Rightarrow> node \<Rightarrow> string + canon" where
  "pad_field v parent_rotation child =
     (let cs = children child
      in if tag_of child = Some ''at''
         then bind_res (if length cs > 3 then decimal_of v (cs ! 3) else Inr 0) (\<lambda>angle.
                Inr (CList (CText ''at'' # map (\<lambda>c. nullable (canonical_node v c)) (take 2 (drop 1 cs))
                             @ [CText (normalize_angle v (angle - parent_rotation))])))
         else Inr (nullable (canonical_node v child)))"

record pad_signature =
  pg_head :: "string list"
  pg_fields :: "canon list"

definition pad_signature_of :: "warning_env \<Rightarrow> rat \<Rightarrow> node list \<Rightarrow> string + pad_signature" where
  "pad_signature_of v parent_rotation pad =
     bind_res (map_res (pad_field v parent_rotation) (filter (tag_in PAD_FIELDS) (drop 4 pad))) (\<lambda>fields.
       Inr \<lparr>pg_head = map (node_text v) (take 3 (drop 1 pad)), pg_fields = sort_key stable_key fields\<rparr>)"

definition pad_key :: "pad_signature \<Rightarrow> string" where
  "pad_key p = ''{'' @ json_ascii ''fields'' @ '':['' @ join '','' (map stable_key (pg_fields p)) @ ''],'' @ json_ascii ''head'' @ '':[''
     @ join '','' (map json_ascii (pg_head p)) @ '']}''"

definition FUNCTIONAL_GRAPHICS :: "string list" where
  "FUNCTIONAL_GRAPHICS = [''fp_line'', ''fp_rect'', ''fp_circle'', ''fp_arc'', ''fp_poly'', ''fp_curve'', ''zone'']"

definition FOOTPRINT_FIELDS :: "string list" where
  "FOOTPRINT_FIELDS = [''attr'', ''clearance'', ''solder_mask_margin'', ''solder_paste_margin'', ''solder_paste_ratio'', ''zone_connect'']"

definition FUNCTIONAL_LAYERS :: "string list" where
  "FUNCTIONAL_LAYERS = [''F.Cu'', ''B.Cu'', ''F.Mask'', ''B.Mask'', ''F.Paste'', ''B.Paste'', ''Edge.Cuts'', ''F.CrtYd'', ''B.CrtYd'']"

definition node_uses_functional_layer :: "warning_env \<Rightarrow> node \<Rightarrow> bool" where
  "node_uses_functional_layer v n =
     (case find_first n ''layer'' of
        Some (_ # x # _) \<Rightarrow> node_text v x \<in> set FUNCTIONAL_LAYERS
      | _ \<Rightarrow> (case find_first n ''layers'' of
                None \<Rightarrow> False
              | Some cs \<Rightarrow> \<exists>x \<in> set (drop 1 cs). node_text v x \<in> set FUNCTIONAL_LAYERS))"

record footprint_signature =
  fs_pads :: "pad_signature list"
  fs_graphics :: "canon list"
  fs_attributes :: "canon list"

definition parent_rotation_of :: "warning_env \<Rightarrow> bool \<Rightarrow> node list \<Rightarrow> string + rat" where
  "parent_rotation_of v board_instance ns =
     (case find_first (Nodes ns) ''at'' of
        Some parent_at \<Rightarrow> if board_instance \<and> length parent_at > 3 then decimal_of v (parent_at ! 3) else Inr 0
      | None \<Rightarrow> Inr 0)"

definition footprint_signature_of :: "warning_env \<Rightarrow> bool \<Rightarrow> node list \<Rightarrow> string + footprint_signature" where
  "footprint_signature_of v board_instance ns =
     bind_res (parent_rotation_of v board_instance ns) (\<lambda>rotation.
     bind_res (map_res (pad_signature_of v rotation) (find_all (Nodes ns) ''pad'')) (\<lambda>pads.
       let graphics = map (\<lambda>c. nullable (canonical_node v c))
             (filter (\<lambda>c. tag_in FUNCTIONAL_GRAPHICS c \<and> node_uses_functional_layer v c) (drop 1 ns));
           attributes = map (\<lambda>c. nullable (canonical_node v c)) (filter (tag_in FOOTPRINT_FIELDS) (drop 1 ns))
       in Inr \<lparr>fs_pads = sort_key pad_key pads, fs_graphics = sort_key stable_key graphics, fs_attributes = sort_key stable_key attributes\<rparr>))"

text \<open>Pads of one number have one net.\<close>

definition pad_net :: "warning_env \<Rightarrow> node list \<Rightarrow> string \<times> string list" where
  "pad_net v pad =
     ((case pad of _ # x # _ \<Rightarrow> node_text v x | _ \<Rightarrow> []),
      (case find_first (Nodes pad) ''net'' of None \<Rightarrow> [] | Some cs \<Rightarrow> map (node_text v) (drop 1 cs)))"

definition nets_consistent :: "warning_env \<Rightarrow> node list \<Rightarrow> bool" where
  "nets_consistent v ns =
     (let nets = map (pad_net v) (find_all (Nodes ns) ''pad'')
      in \<forall>x \<in> set nets. \<forall>y \<in> set nets. fst x = fst y \<longrightarrow> snd x = snd y)"

definition signature_digest :: "footprint_signature \<Rightarrow> string" where
  "signature_digest g = sha256 (utf8_bytes (''{'' @ json_ascii ''attributes'' @ '':['' @ join '','' (map stable_key (fs_attributes g)) @ ''],''
     @ json_ascii ''functional_graphics'' @ '':['' @ join '','' (map stable_key (fs_graphics g)) @ ''],''
     @ json_ascii ''pads'' @ '':['' @ join '','' (map pad_key (fs_pads g)) @ '']}''))"

definition library_node :: "warning_env \<Rightarrow> path \<Rightarrow> string + node list" where
  "library_node v p =
     (case wv_file v p of
        None \<Rightarrow> Inl ''unreadable''
      | Some s \<Rightarrow> (case loads s of
                     Inr (Nodes ns) \<Rightarrow> if tag_of (Nodes ns) = Some ''footprint'' then Inr ns else Inl ''not a footprint file''
                   | _ \<Rightarrow> Inl ''not a footprint file''))"

definition compare_footprint :: "warning_env \<Rightarrow> path \<Rightarrow> node list \<Rightarrow> string + comparison" where
  "compare_footprint v project ns =
     (let i = footprint_identity_of v ns
      in case resolve_project_footprint v project (fo_lib_id i) of
           None \<Rightarrow> Inl (''bound footprint library cannot be resolved: '' @ fo_lib_id i)
         | Some p \<Rightarrow>
             (case bind_res (library_node v p) (\<lambda>library. bind_res (footprint_signature_of v True ns) (\<lambda>b.
                     bind_res (footprint_signature_of v False library) (\<lambda>l. Inr (b, l)))) of
                Inl e \<Rightarrow> Inl (''footprint evidence could not be normalized: '' @ e)
              | Inr (b, l) \<Rightarrow>
                  if signature_digest b \<noteq> signature_digest l \<or> \<not> nets_consistent v ns
                  then Inl (''normalized manufacturing structure differs for '' @ fo_ref i)
                  else Inr \<lparr>co_ref = fo_ref i, co_lib_id = fo_lib_id i, co_embedded = signature_digest b, co_library = signature_digest l\<rparr>))"

definition single_target :: "footprint_identity list \<Rightarrow> kicad_finding \<Rightarrow> string + nat" where
  "single_target ids f =
     (case finding_target_indexes f ids of
        [i] \<Rightarrow> Inr i | _ \<Rightarrow> Inl ''each lib_footprint_mismatch finding must identify one footprint'')"

definition footprint_equivalence_evidence :: "warning_env \<Rightarrow> path \<Rightarrow> string \<Rightarrow> kicad_finding list \<Rightarrow> int \<Rightarrow> string + comparison list" where
  "footprint_equivalence_evidence v pcb_path board_text fs expected_count =
     (case loads board_text of
        Inl _ \<Rightarrow> Inl ''PCB could not be parsed''
      | Inr board_root \<Rightarrow>
          if tag_of board_root \<noteq> Some ''kicad_pcb'' then Inl ''PCB root is not kicad_pcb''
          else (let footprints = find_all board_root ''footprint''; ids = map (footprint_identity_of v) footprints
                in bind_res (map_res (single_target ids) fs) (\<lambda>targets.
                     if int (length targets) \<noteq> expected_count \<or> targets = []
                     then Inl ''finding count does not match the warning classification''
                     else map_res (\<lambda>i. compare_footprint v (butlast pcb_path) (footprints ! i)) (sorted_set targets))))"

section \<open>Waivers\<close>

definition read_waivers :: "warning_env \<Rightarrow> path \<Rightarrow> pydict list \<times> string option" where
  "read_waivers v p =
     (case wv_file v p of
        None \<Rightarrow> ([], None)
      | Some s \<Rightarrow>
          (case wv_json v s of
             None \<Rightarrow> ([], Some ''warning-waiver contract is unreadable'')
           | Some (PDict d) \<Rightarrow>
               if get_or d ''schema_version'' PNone \<noteq> PStr ''ratsnestpro.warning-waiver.v1''
               then ([], Some ''warning-waiver contract has an unsupported schema'')
               else (case get_or d ''waivers'' PNone of
                       PList ws \<Rightarrow> if list_all is_dict ws then (map (\<lambda>w. case w of PDict e \<Rightarrow> e | _ \<Rightarrow> []) ws, None)
                                   else ([], Some ''warning-waiver contract waivers must be an object list'')
                     | _ \<Rightarrow> ([], Some ''warning-waiver contract waivers must be an object list''))
           | Some _ \<Rightarrow> ([], Some ''warning-waiver contract has an unsupported schema'')))"

definition waiver_text :: "warning_env \<Rightarrow> pydict \<Rightarrow> string \<Rightarrow> string" where
  "waiver_text v w k = py_str_by (wv_str v) (get_or w k (PStr []))"

definition waiver_matches :: "warning_env \<Rightarrow> string \<Rightarrow> int \<Rightarrow> string \<Rightarrow> string \<Rightarrow> pydict \<Rightarrow> bool" where
  "waiver_matches v rule n pcb_sha256 report_sha256 w \<longleftrightarrow>
     get_or w ''approved'' PNone = PBool True
     \<and> strip (waiver_text v w ''approved_by'') \<noteq> [] \<and> strip (waiver_text v w ''rationale'') \<noteq> []
     \<and> waiver_text v w ''rule_id'' = rule \<and> get_or w ''count'' PNone = PInt n
     \<and> digest_pattern (lower (waiver_text v w ''pcb_sha256'')) \<and> digest_pattern (lower (waiver_text v w ''report_sha256''))
     \<and> lower (waiver_text v w ''pcb_sha256'') = pcb_sha256 \<and> lower (waiver_text v w ''report_sha256'') = report_sha256"

section \<open>The contract\<close>

record warning_scope =
  ws_pcb :: "path option"
  ws_sch :: "path option"
  ws_report :: path
  ws_waivers :: "path option"

text \<open>The digest of a file, empty where there is none.\<close>

definition digest_at :: "warning_env \<Rightarrow> path option \<Rightarrow> string" where
  "digest_at v p = (case Option.bind p (wv_file v) of None \<Rightarrow> [] | Some s \<Rightarrow> sha256 s)"

definition NON_WAIVERABLE :: "string list" where
  "NON_WAIVERABLE = [''connectivity_integrity'', ''electrical_integrity'', ''structural_integrity'', ''library_provenance'']"

definition resolve_by_waiver :: "warning_env \<Rightarrow> warning_scope \<Rightarrow> string \<Rightarrow> classification \<Rightarrow> warning_resolution" where
  "resolve_by_waiver v s rule c =
     (if cw_category c \<in> set NON_WAIVERABLE then blocked_because (cw_category c @ '' warnings are non-waiverable'')
      else if cw_category c \<noteq> ''assembly_readability'' then blocked_because ''the warning category has no governed waiver policy''
      else (case (case ws_waivers s of None \<Rightarrow> ([], None) | Some p \<Rightarrow> read_waivers v p) of
              (waivers, waiver_error) \<Rightarrow>
                (case filter (waiver_matches v rule (cw_count c) (digest_at v (ws_pcb s)) (digest_at v (Some (ws_report s)))) waivers of
                   [w] \<Rightarrow> \<lparr>wr_status = ''waived'', wr_reason = waiver_text v w ''rationale'', wr_approved_by = waiver_text v w ''approved_by''\<rparr>
                 | matches \<Rightarrow> blocked_because
                     (case waiver_error of
                        Some e \<Rightarrow> e
                      | None \<Rightarrow> if matches = [] then ''no current digest/rule/count-bound waiver exists''
                                else ''multiple matching waivers make the disposition ambiguous''))))"

definition resolve_warning ::
    "warning_env \<Rightarrow> warning_scope \<Rightarrow> kicad_finding list \<Rightarrow> string \<Rightarrow> classification \<Rightarrow> warning_resolution" where
  "resolve_warning v s fs rule c =
     (if rule = ''lib_symbol_issues''
      then (case project_symbol_binding_evidence v (ws_sch s) (findings_of rule fs) (cw_count c) of
              Inr _ \<Rightarrow> auto_equivalent
                (''every reported symbol library is bound to a current project-local source and embedded in the schematic'')
            | Inl _ \<Rightarrow> blocked_because ''project-local symbol binding equivalence was not proven'')
      else if rule = ''lib_symbol_mismatch''
      then (case symbol_equivalence_evidence v (ws_sch s) (ws_report s) (cw_count c) of
              Inr _ \<Rightarrow> auto_equivalent
                (''every reported embedded symbol is structurally identical to its currently installed KiCad library definition'')
            | Inl _ \<Rightarrow> blocked_because ''normalized symbol equivalence was not proven'')
      else if rule = ''lib_footprint_mismatch''
      then (case Option.bind (ws_pcb s) (\<lambda>p. map_option (\<lambda>t. (p, t)) (wv_file v p)) of
              None \<Rightarrow> blocked_because ''PCB evidence is unavailable''
            | Some (p, t) \<Rightarrow>
                (case footprint_equivalence_evidence v p t (findings_of rule fs) (cw_count c) of
                   Inr _ \<Rightarrow> auto_equivalent ''normalized manufacturing structure matches the bound library''
                 | Inl _ \<Rightarrow> blocked_because ''normalized footprint equivalence was not proven''))
      else resolve_by_waiver v s rule c)"

definition apply_warning_contract ::
    "warning_env \<Rightarrow> warning_scope \<Rightarrow> kicad_finding list \<Rightarrow> (string \<times> classification) list \<Rightarrow> (string \<times> classification) list" where
  "apply_warning_contract v s fs classifications =
     (if wv_file v (ws_report s) = None then classifications
      else map (\<lambda>(rule, c). (rule, c\<lparr>cw_resolution := resolve_warning v s fs rule c\<rparr>)) classifications)"

section \<open>Rule checks\<close>

definition warning_class_of :: "string \<times> classification \<Rightarrow> warning_class" where
  "warning_class_of rc = (case rc of (rule, c) \<Rightarrow>
     \<lparr>wc_rule = rule, wc_status = wr_status (cw_resolution c), wc_disposition = cw_disposition c, wc_count = cw_count c,
      wc_reason = wr_reason (cw_resolution c)\<rparr>)"

definition not_run :: "bool \<Rightarrow> bool \<Rightarrow> kicad_run" where
  "not_run applicable available = \<lparr>kr_applicable = applicable, kr_available = available, kr_ran = False, kr_errors = None,
     kr_warnings = [], kr_unconnected = None\<rparr>"

text \<open>What kicad-cli left behind: violations, parity findings and unconnected items, if it ran.\<close>

record drc_report =
  dr_violations :: "kicad_finding list"
  dr_parity :: "kicad_finding list"
  dr_unconnected :: "kicad_finding list"

definition report_findings :: "drc_report \<Rightarrow> kicad_finding list" where
  "report_findings d = dr_violations d @ dr_parity d @ dr_unconnected d"

definition error_count :: "kicad_finding list \<Rightarrow> int" where
  "error_count fs = count_if (\<lambda>f. case kf_severity f of None \<Rightarrow> True | Some s \<Rightarrow> s = ''error'') fs"

text \<open>\<open>PurePath.with_suffix\<close>, for a path that has a name: an extension starts at the last dot that is inside it.\<close>

definition stem :: "string \<Rightarrow> string" where
  "stem name =
     (let i = length name - Suc (length (takeWhile (\<lambda>c. c \<noteq> CHR ''.'') (rev name)))
      in if CHR ''.'' \<in> set name \<and> 0 < i \<and> i < length name - 1 then take i name else name)"

definition with_suffix :: "path \<Rightarrow> string \<Rightarrow> path" where
  "with_suffix p suffix = butlast p @ [stem (last p) @ suffix]"

definition drc_scope :: "path \<Rightarrow> warning_scope" where
  "drc_scope p = \<lparr>ws_pcb = Some p, ws_sch = None, ws_report = with_suffix p ''.drc.json'', ws_waivers = Some (with_suffix p ''.warning-waivers.json'')\<rparr>"

definition drc_check :: "warning_env \<Rightarrow> bool \<Rightarrow> path option \<Rightarrow> drc_report option \<Rightarrow> kicad_run" where
  "drc_check v cli_available pcb_path outcome =
     (case Option.bind pcb_path (\<lambda>p. map_option (\<lambda>_. p) (wv_file v p)) of
        None \<Rightarrow> not_run False False
      | Some p \<Rightarrow>
          if \<not> cli_available then not_run True False
          else (case outcome of
                  None \<Rightarrow> not_run True True
                | Some d \<Rightarrow>
                    (let fs = report_findings d
                     in \<lparr>kr_applicable = True, kr_available = True, kr_ran = True, kr_errors = Some (error_count fs),
                         kr_warnings = map warning_class_of (apply_warning_contract v (drc_scope p) fs (classify_warnings fs)),
                         kr_unconnected = Some (int (length (dr_unconnected d)))\<rparr>)))"

text \<open>The result of \<open>run_erc\<close>: whether it was available and ran, its errors, findings and report.\<close>

record erc_result =
  er_available :: bool
  er_ran :: bool
  er_errors :: int
  er_findings :: "kicad_finding list"
  er_report :: "path option"

definition erc_check :: "warning_env \<Rightarrow> path option \<Rightarrow> erc_result \<Rightarrow> kicad_run" where
  "erc_check v sch_path r =
     (case Option.bind sch_path (wv_file v) of
        None \<Rightarrow> not_run False False
      | Some _ \<Rightarrow>
          (let cs = classify_warnings (er_findings r);
               ds = (case er_report r of
                       None \<Rightarrow> cs
                     | Some p \<Rightarrow> apply_warning_contract v \<lparr>ws_pcb = None, ws_sch = sch_path, ws_report = p, ws_waivers = None\<rparr> (er_findings r) cs)
           in \<lparr>kr_applicable = True, kr_available = er_available r, kr_ran = er_ran r,
               kr_errors = (if er_ran r then Some (er_errors r) else None), kr_warnings = map warning_class_of ds, kr_unconnected = None\<rparr>))"

end
