(* ===== verification/Warning_Facts.thy ===== *)
theory Warning_Facts
  imports Warning_Contract
begin

text \<open>
  Properties of the warning contract: a rule check passes only when every warning of its report
  was cleared, by a waiver bound to the current bytes or by structural evidence.
\<close>

section \<open>Counts\<close>

definition warnings_of :: "string \<Rightarrow> kicad_finding list \<Rightarrow> kicad_finding list" where
  "warnings_of rule fs = filter (\<lambda>f. is_warning f \<and> rule_of f = rule) fs"

lemma map_of_warning_counts:
  "map_of (warning_counts fs) rule = (if warnings_of rule fs = [] then None else Some (int (length (warnings_of rule fs))))"
proof (induction fs rule: rev_induct)
  case (snoc f fs)
  define d where "d = warning_counts fs"
  have step: "warning_counts (fs @ [f]) =
      (if is_warning f then AList.update (rule_of f) ((case map_of d (rule_of f) of None \<Rightarrow> 0 | Some n \<Rightarrow> n) + 1) d else d)"
    by (simp add: warning_counts_def d_def)
  have "map_of d (rule_of f) = (if warnings_of (rule_of f) fs = [] then None else Some (int (length (warnings_of (rule_of f) fs))))" if "rule_of f = rule"
    using snoc.IH that by (simp add: d_def)
  with snoc.IH show ?case
    unfolding step by (auto simp: d_def [symmetric] warnings_of_def map_of_AList_update)
qed (simp add: warning_counts_def warnings_of_def)

lemma distinct_warning_counts: "distinct (map fst (warning_counts fs))"
proof -
  have keep: "distinct (map fst d) \<Longrightarrow> distinct (map fst (fold (\<lambda>f d. AList.update (rule_of f)
      ((case map_of d (rule_of f) of None \<Rightarrow> 0 | Some n \<Rightarrow> n) + 1) d) gs d))"
    for gs :: "kicad_finding list" and d :: "(string \<times> int) list"
    by (induction gs arbitrary: d) (simp_all add: distinct_update)
  show ?thesis by (simp add: warning_counts_def keep)
qed

lemma classify_warnings_iff:
  "(rule, c) \<in> set (classify_warnings fs) \<longleftrightarrow> warnings_of rule fs \<noteq> []
     \<and> c = \<lparr>cw_count = int (length (warnings_of rule fs)), cw_category = fst (policy_of rule), cw_disposition = snd (policy_of rule),
            cw_resolution = blocked_because ''no governed disposition has been verified''\<rparr>"
proof -
  have "(rule, n) \<in> set (warning_counts fs) \<longleftrightarrow> map_of (warning_counts fs) rule = Some n" for n
    using distinct_warning_counts by (metis map_of_SomeD map_of_is_SomeI)
  moreover have "(rule, c) \<in> set (classify_warnings fs) \<longleftrightarrow> (\<exists>n. (rule, n) \<in> set (warning_counts fs)
     \<and> c = \<lparr>cw_count = n, cw_category = fst (policy_of rule), cw_disposition = snd (policy_of rule),
            cw_resolution = blocked_because ''no governed disposition has been verified''\<rparr>)"
    unfolding classify_warnings_def by force
  ultimately show ?thesis by (auto simp: map_of_warning_counts)
qed

lemma policy_cases:
  "snd (policy_of rule) \<in> {''repair_required'', ''explicit_review_required'', ''repair_or_explicit_waiver_required'',
     ''normalized_structure_evidence_required''}"
  "fst (policy_of rule) = ''assembly_readability'' \<Longrightarrow> rule \<in> {''silk_over_copper'', ''silk_edge_clearance'', ''silk_overlap''}"
  by (auto simp: policy_of_def WARNING_POLICIES_def split: option.splits if_splits)

section \<open>Evidence\<close>

definition same_symbol :: "warning_env \<Rightarrow> node \<Rightarrow> node list \<Rightarrow> kicad_finding \<Rightarrow> bool" where
  "same_symbol v schematic lib_symbols f \<longleftrightarrow>
     (\<exists>ref e l. finding_references f = [ref] \<and> embedded_symbol v lib_symbols (instance_lib_id v schematic ref) = Some e
        \<and> wv_symbol v (instance_lib_id v schematic ref) = Some l \<and> structure_digest e = structure_digest l)"

lemma compare_symbol_same: "compare_symbol v schematic lib_symbols f = Inr r \<Longrightarrow> same_symbol v schematic lib_symbols f"
  by (auto simp: compare_symbol_def same_symbol_def Let_def split: list.splits option.splits if_splits)

definition same_footprint :: "warning_env \<Rightarrow> path \<Rightarrow> node list \<Rightarrow> bool" where
  "same_footprint v project ns \<longleftrightarrow>
     (\<exists>p library b l. resolve_project_footprint v project (fo_lib_id (footprint_identity_of v ns)) = Some p
        \<and> library_node v p = Inr library \<and> footprint_signature_of v True ns = Inr b \<and> footprint_signature_of v False library = Inr l
        \<and> signature_digest b = signature_digest l \<and> nets_consistent v ns)"

lemma compare_footprint_same: "compare_footprint v project ns = Inr r \<Longrightarrow> same_footprint v project ns"
  by (auto simp: compare_footprint_def same_footprint_def Let_def bind_res_Inr_iff split: option.splits sum.splits if_splits)

lemma symbol_evidence_sound:
  assumes "symbol_equivalence_evidence v sch_path report_path n = Inr cs"
  obtains s schematic reported lib_symbols where "Option.bind sch_path (wv_file v) = Some s" "loads s = Inr schematic"
    "Option.bind (wv_file v report_path) (wv_report v) = Some (Some reported)" "find_first schematic ''lib_symbols'' = Some lib_symbols"
    "int (length (findings_of ''lib_symbol_mismatch'' reported)) = n"
    "\<forall>f \<in> set (findings_of ''lib_symbol_mismatch'' reported). same_symbol v schematic lib_symbols f"
proof -
  from assms obtain s schematic reported lib_symbols where e: "Option.bind sch_path (wv_file v) = Some s" "loads s = Inr schematic"
      "Option.bind (wv_file v report_path) (wv_report v) = Some (Some reported)" "find_first schematic ''lib_symbols'' = Some lib_symbols"
      "int (length (findings_of ''lib_symbol_mismatch'' reported)) = n"
      "map_res (compare_symbol v schematic lib_symbols) (findings_of ''lib_symbol_mismatch'' reported) = Inr cs"
    by (auto simp: symbol_equivalence_evidence_def Let_def split: option.splits sum.splits if_splits)
  moreover have "\<forall>f \<in> set (findings_of ''lib_symbol_mismatch'' reported). same_symbol v schematic lib_symbols f"
    using map_res_result [OF e(6)] compare_symbol_same by blast
  ultimately show thesis using that by blast
qed

lemma footprint_evidence_sound:
  assumes "footprint_equivalence_evidence v pcb_path t fs n = Inr cs"
  obtains board_root where "loads t = Inr board_root" "int (length fs) = n"
    "\<forall>f \<in> set fs. \<exists>i. finding_target_indexes f (map (footprint_identity_of v) (find_all board_root ''footprint'')) = [i]
        \<and> same_footprint v (butlast pcb_path) (find_all board_root ''footprint'' ! i)"
proof -
  from assms obtain board_root where "loads t = Inr board_root"
    by (auto simp: footprint_equivalence_evidence_def split: sum.splits)
  note root_eq = this
  define footprints where "footprints = find_all board_root ''footprint''"
  from assms obtain targets where t: "map_res (single_target (map (footprint_identity_of v) footprints)) fs = Inr targets"
      "int (length targets) = n" "map_res (\<lambda>i. compare_footprint v (butlast pcb_path) (footprints ! i)) (sorted_set targets) = Inr cs"
    by (auto simp: footprint_equivalence_evidence_def root_eq footprints_def Let_def bind_res_Inr_iff split: if_splits)
  have "\<exists>i. finding_target_indexes f (map (footprint_identity_of v) footprints) = [i] \<and> same_footprint v (butlast pcb_path) (footprints ! i)"
    if f: "f \<in> set fs" for f
  proof -
    obtain i where i: "i \<in> set targets" "single_target (map (footprint_identity_of v) footprints) f = Inr i"
      using map_res_result [OF t(1) f] by blast
    then have "finding_target_indexes f (map (footprint_identity_of v) footprints) = [i]"
      by (auto simp: single_target_def split: list.splits)
    moreover have "same_footprint v (butlast pcb_path) (footprints ! i)"
      using map_res_result [OF t(3), of i] i(1) compare_footprint_same by auto
    ultimately show ?thesis by blast
  qed
  moreover have "int (length fs) = n" using t(1,2) by (simp add: map_res_Inr_iff)
  ultimately show thesis using that root_eq footprints_def by blast
qed

section \<open>Cleared warnings\<close>

text \<open>A waiver that is approved, explained, and bound to the rule, the count and the current files.\<close>

definition bound_waiver :: "warning_env \<Rightarrow> warning_scope \<Rightarrow> string \<Rightarrow> int \<Rightarrow> bool" where
  "bound_waiver v s rule n \<longleftrightarrow>
     rule \<in> {''silk_over_copper'', ''silk_edge_clearance'', ''silk_overlap''}
     \<and> (\<exists>p waivers waiver_error w pcb report. ws_waivers s = Some p \<and> read_waivers v p = (waivers, waiver_error) \<and> w \<in> set waivers
          \<and> get_or w ''approved'' PNone = PBool True \<and> strip (waiver_text v w ''approved_by'') \<noteq> []
          \<and> strip (waiver_text v w ''rationale'') \<noteq> [] \<and> waiver_text v w ''rule_id'' = rule \<and> get_or w ''count'' PNone = PInt n
          \<and> Option.bind (ws_pcb s) (wv_file v) = Some pcb \<and> lower (waiver_text v w ''pcb_sha256'') = sha256 pcb
          \<and> wv_file v (ws_report s) = Some report \<and> lower (waiver_text v w ''report_sha256'') = sha256 report)"

text \<open>Evidence of equivalence, for each of the three rules that accept it.\<close>

definition proven_equivalent :: "warning_env \<Rightarrow> warning_scope \<Rightarrow> kicad_finding list \<Rightarrow> string \<Rightarrow> int \<Rightarrow> bool" where
  "proven_equivalent v s fs rule n \<longleftrightarrow>
     (rule = ''lib_symbol_issues'' \<and> (\<exists>names. project_symbol_binding_evidence v (ws_sch s) (findings_of rule fs) n = Inr names))
     \<or> (rule = ''lib_symbol_mismatch'' \<and> (\<exists>t schematic reported lib_symbols. Option.bind (ws_sch s) (wv_file v) = Some t \<and> loads t = Inr schematic
          \<and> Option.bind (wv_file v (ws_report s)) (wv_report v) = Some (Some reported) \<and> find_first schematic ''lib_symbols'' = Some lib_symbols
          \<and> int (length (findings_of rule reported)) = n \<and> (\<forall>f \<in> set (findings_of rule reported). same_symbol v schematic lib_symbols f)))
     \<or> (rule = ''lib_footprint_mismatch'' \<and> (\<exists>p t board_root. ws_pcb s = Some p \<and> wv_file v p = Some t \<and> loads t = Inr board_root
          \<and> int (length (findings_of rule fs)) = n
          \<and> (\<forall>f \<in> set (findings_of rule fs). \<exists>i. finding_target_indexes f (map (footprint_identity_of v) (find_all board_root ''footprint'')) = [i]
               \<and> same_footprint v (butlast p) (find_all board_root ''footprint'' ! i))))"

definition cleared :: "warning_env \<Rightarrow> warning_scope \<Rightarrow> kicad_finding list \<Rightarrow> string \<Rightarrow> bool" where
  "cleared v s fs rule \<longleftrightarrow> bound_waiver v s rule (int (length (warnings_of rule fs)))
     \<or> proven_equivalent v s fs rule (int (length (warnings_of rule fs)))"

lemma digest_at_pattern: "digest_pattern (digest_at v p) \<Longrightarrow> \<exists>t. Option.bind p (wv_file v) = Some t \<and> digest_at v p = sha256 t"
proof -
  assume d: "digest_pattern (digest_at v p)"
  have "\<not> digest_pattern []" by (simp add: hex_between_def)
  with d show ?thesis by (cases "Option.bind p (wv_file v)") (auto simp: digest_at_def)
qed

lemma waiver_resolution_sound:
  assumes "wr_status (resolve_by_waiver v s rule c) \<noteq> ''blocked''" "cw_category c = fst (policy_of rule)"
  shows "bound_waiver v s rule (cw_count c)"
proof -
  define P where "P = waiver_matches v rule (cw_count c) (digest_at v (ws_pcb s)) (digest_at v (Some (ws_report s)))"
  from assms(1) have category: "cw_category c = ''assembly_readability''"
    by (auto simp: resolve_by_waiver_def blocked_because_def split: if_splits)
  from assms(1) obtain waivers waiver_error w where w: "(case ws_waivers s of None \<Rightarrow> ([], None) | Some p \<Rightarrow> read_waivers v p) = (waivers, waiver_error)"
      "filter P waivers = [w]"
    by (auto simp: resolve_by_waiver_def blocked_because_def P_def split: if_splits prod.splits list.splits)
  from w(2) have "w \<in> set (filter P waivers)" by simp
  then have w': "w \<in> set waivers" "P w" by simp_all
  then obtain p where p: "ws_waivers s = Some p" "read_waivers v p = (waivers, waiver_error)"
    using w(1) by (cases "ws_waivers s") auto
  obtain pcb where "Option.bind (ws_pcb s) (wv_file v) = Some pcb" "digest_at v (ws_pcb s) = sha256 pcb"
    using w'(2) digest_at_pattern [of v "ws_pcb s"] by (auto simp: P_def waiver_matches_def)
  moreover obtain report where "wv_file v (ws_report s) = Some report" "digest_at v (Some (ws_report s)) = sha256 report"
    using w'(2) digest_at_pattern [of v "Some (ws_report s)"] by (auto simp: P_def waiver_matches_def)
  ultimately show ?thesis
    unfolding bound_waiver_def using policy_cases(2) [of rule] category assms(2) p w' by (auto simp: P_def waiver_matches_def)
qed

lemma resolution_sound:
  assumes "wr_status (resolve_warning v s fs rule c) \<noteq> ''blocked''" "cw_category c = fst (policy_of rule)"
  shows "bound_waiver v s rule (cw_count c) \<or> proven_equivalent v s fs rule (cw_count c)"
proof -
  consider (binding) "rule = ''lib_symbol_issues''" | (symbol) "rule = ''lib_symbol_mismatch''"
    | (footprint) "rule = ''lib_footprint_mismatch''"
    | (waiver) "rule \<noteq> ''lib_symbol_issues''" "rule \<noteq> ''lib_symbol_mismatch''" "rule \<noteq> ''lib_footprint_mismatch''"
    by blast
  then show ?thesis
  proof cases
    case binding
    with assms(1) have "\<exists>names. project_symbol_binding_evidence v (ws_sch s) (findings_of rule fs) (cw_count c) = Inr names"
      by (auto simp: resolve_warning_def blocked_because_def split: sum.splits)
    with binding show ?thesis unfolding proven_equivalent_def by blast
  next
    case symbol
    with assms(1) obtain cs where "symbol_equivalence_evidence v (ws_sch s) (ws_report s) (cw_count c) = Inr cs"
      by (auto simp: resolve_warning_def blocked_because_def split: sum.splits)
    from symbol_evidence_sound [OF this] symbol show ?thesis unfolding proven_equivalent_def by metis
  next
    case footprint
    with assms(1) obtain p t cs where e: "ws_pcb s = Some p" "wv_file v p = Some t"
        "footprint_equivalence_evidence v p t (findings_of rule fs) (cw_count c) = Inr cs"
      by (cases "ws_pcb s"; cases "wv_file v (the (ws_pcb s))")
         (auto simp: resolve_warning_def blocked_because_def split: sum.splits)
    from footprint_evidence_sound [OF e(3)] e(1,2) footprint show ?thesis unfolding proven_equivalent_def by metis
  next
    case waiver
    with assms waiver_resolution_sound show ?thesis by (simp add: resolve_warning_def)
  qed
qed

lemma contract_sound:
  assumes "\<forall>w \<in> set (map warning_class_of (apply_warning_contract v s fs (classify_warnings fs))). \<not> blocking_warning w"
    and "f \<in> set fs" "is_warning f"
  shows "cleared v s fs (rule_of f)"
proof -
  define rule where "rule = rule_of f"
  define c where "c = \<lparr>cw_count = int (length (warnings_of rule fs)), cw_category = fst (policy_of rule), cw_disposition = snd (policy_of rule),
            cw_resolution = blocked_because ''no governed disposition has been verified''\<rparr>"
  have "f \<in> set (warnings_of rule fs)" using assms(2,3) by (simp add: warnings_of_def rule_def)
  then have mem: "(rule, c) \<in> set (classify_warnings fs)" by (auto simp: classify_warnings_iff c_def)
  have blocks: "blocking_warning (warning_class_of (rule, d))" if "wr_status (cw_resolution d) = ''blocked''" "cw_disposition d = snd (policy_of rule)" for d
    using that policy_cases(1) [of rule] by (simp add: blocking_warning_def warning_class_of_def)
  show ?thesis
  proof (cases "wv_file v (ws_report s)")
    case None
    with assms(1) mem have "\<not> blocking_warning (warning_class_of (rule, c))" by (auto simp: apply_warning_contract_def)
    with blocks [of c] show ?thesis by (simp add: c_def blocked_because_def)
  next
    case (Some report)
    define d where "d = c\<lparr>cw_resolution := resolve_warning v s fs rule c\<rparr>"
    from Some mem have "(rule, d) \<in> set (apply_warning_contract v s fs (classify_warnings fs))"
      by (force simp: apply_warning_contract_def d_def)
    with assms(1) have "\<not> blocking_warning (warning_class_of (rule, d))" by auto
    with blocks [of d] have "wr_status (resolve_warning v s fs rule c) \<noteq> ''blocked''" by (auto simp: d_def c_def)
    from resolution_sound [OF this] show ?thesis by (simp add: c_def cleared_def rule_def)
  qed
qed

section \<open>Angles\<close>

text \<open>
  A pad at 270 degrees in the library, in a footprint that the board turns by 180 degrees, is stored at
  90 degrees.  The same orientation is then compared as -90 and as 270.
\<close>

lemma equal_angles_differ: "decimal_mod (90 - 180) 360 = - 90" "decimal_mod (270 - 0) 360 = 270"
  by (simp_all add: decimal_mod_def Let_def ceiling_eq_iff floor_eq_iff)

section \<open>A waived warning\<close>

lemma lower_hex: "hex_between a b s \<Longrightarrow> lower s = s"
  by (auto simp: hex_between_def lower_def ascii_lower_def is_digit_def chr_between_def upper_alpha_def Let_def intro!: map_idI)

definition sample_waiver :: pydict where
  "sample_waiver = [(''approved'', PBool True), (''approved_by'', PStr ''ee''), (''rationale'', PStr ''ok''), (''rule_id'', PStr ''silk_overlap''),
     (''count'', PInt 1), (''pcb_sha256'', PStr (sha256 ''board'')), (''report_sha256'', PStr (sha256 ''report''))]"

definition sample_warnings :: warning_env where
  "sample_warnings = \<lparr>wv_file = map_of [([''b.kicad_pcb''], ''board''), ([''b.drc.json''], ''report''), ([''b.warning-waivers.json''], ''waivers'')],
     wv_json = (\<lambda>_. Some (PDict [(''schema_version'', PStr ''ratsnestpro.warning-waiver.v1''), (''waivers'', PList [PDict sample_waiver])])),
     wv_str = (\<lambda>_. []), wv_report = (\<lambda>_. None), wv_symbol = (\<lambda>_. None), wv_footprint = (\<lambda>_. None), wv_decimal = (\<lambda>_. None),
     wv_number = (\<lambda>_. []), wv_repr = (\<lambda>_. [])\<rparr>"

definition sample_drc_report :: drc_report where
  "sample_drc_report = \<lparr>dr_violations = [\<lparr>kf_severity = Some ''warning'', kf_type = Some ''silk_overlap'', kf_description = [], kf_items = []\<rparr>],
     dr_parity = [], dr_unconnected = []\<rparr>"

lemma sample_scope: "drc_scope [''b.kicad_pcb''] = \<lparr>ws_pcb = Some [''b.kicad_pcb''], ws_sch = None, ws_report = [''b.drc.json''],
    ws_waivers = Some [''b.warning-waivers.json'']\<rparr>"
  by (simp add: drc_scope_def with_suffix_def stem_def)

lemma sample_waiver_matches: "waiver_matches sample_warnings ''silk_overlap'' 1 (sha256 ''board'') (sha256 ''report'') sample_waiver"
  using sha256_hex by (simp add: waiver_matches_def waiver_text_def sample_waiver_def get_or_def lower_hex [OF sha256_hex] strip_by_def lstrip_by_def rstrip_by_def
      py_space_def chr_defs)

lemma sample_waived:
  "wr_status (resolve_warning sample_warnings (drc_scope [''b.kicad_pcb'']) fs ''silk_overlap'' c) = ''waived''"
  if "cw_count c = 1" "cw_category c = ''assembly_readability''"
proof -
  have "read_waivers sample_warnings [''b.warning-waivers.json''] = ([sample_waiver], None)"
    by (simp add: read_waivers_def sample_warnings_def get_or_def)
  moreover have "digest_at sample_warnings (Some [''b.kicad_pcb'']) = sha256 ''board''" "digest_at sample_warnings (Some [''b.drc.json'']) = sha256 ''report''"
    by (simp_all add: digest_at_def sample_warnings_def)
  ultimately show ?thesis
    by (simp add: resolve_warning_def resolve_by_waiver_def sample_scope that NON_WAIVERABLE_def sample_waiver_matches)
qed

lemma sample_check_passes:
  "verification_blockers (not_run False False) (drc_check sample_warnings True (Some [''b.kicad_pcb'']) (Some sample_drc_report)) = []"
proof -
  have "classify_warnings (report_findings sample_drc_report) = [(''silk_overlap'', \<lparr>cw_count = 1, cw_category = ''assembly_readability'',
      cw_disposition = ''repair_or_explicit_waiver_required'', cw_resolution = blocked_because ''no governed disposition has been verified''\<rparr>)]"
    by code_simp
  moreover have "wv_file sample_warnings [''b.kicad_pcb''] = Some ''board''" "wv_file sample_warnings [''b.drc.json''] = Some ''report''"
    by (simp_all add: sample_warnings_def)
  moreover have "error_count (report_findings sample_drc_report) = 0" by code_simp
  moreover have "dr_unconnected sample_drc_report = []" by (simp add: sample_drc_report_def)
  ultimately show ?thesis
    by (simp add: drc_check_def verification_blockers_def run_blockers_def not_run_def apply_warning_contract_def
        warning_class_of_def blocking_warning_def sample_waived [unfolded sample_scope] sample_scope)
qed

section \<open>The properties\<close>

text \<open>
  C15: When the rule checks report no blocker and there is a board, the design rule check ran and left
  a report without unconnected items, no finding of it is an error, and every warning was cleared:
  either its rule concerns silkscreen and a waiver beside the board is approved, explained and bound to
  the rule, the number of findings and the current bytes of board and report, or the structures it
  complains about were shown to be the same as those of the library.
\<close>

theorem passing_check_is_clean:
  assumes "verification_blockers erc (drc_check v cli_available (Some pcb_path) outcome) = []"
    and "wv_file v pcb_path \<noteq> None"
  shows "\<exists>d. outcome = Some d \<and> dr_unconnected d = []
     \<and> (\<forall>f \<in> set (report_findings d). kf_severity f \<noteq> None \<and> kf_severity f \<noteq> Some ''error''
          \<and> (is_warning f \<longrightarrow> cleared v (drc_scope pcb_path) (report_findings d) (rule_of f)))"
proof -
  define k where "k = drc_check v cli_available (Some pcb_path) outcome"
  define s where "s = drc_scope pcb_path"
  from assms(1) have blockers: "run_blockers ''DRC'' k = []" "kr_applicable k \<Longrightarrow> kr_unconnected k = Some 0"
    by (simp_all add: verification_blockers_def k_def split: if_splits)
  obtain d where d: "outcome = Some d" and k: "k = \<lparr>kr_applicable = True, kr_available = True, kr_ran = True,
      kr_errors = Some (error_count (report_findings d)),
      kr_warnings = map warning_class_of (apply_warning_contract v s (report_findings d) (classify_warnings (report_findings d))),
      kr_unconnected = Some (int (length (dr_unconnected d)))\<rparr>"
    using blockers(1) assms(2)
    by (auto simp: k_def drc_check_def not_run_def run_blockers_def s_def Let_def split: option.splits if_splits)
  have "error_count (report_findings d) = 0" "\<forall>w \<in> set (kr_warnings k). \<not> blocking_warning w"
    using blockers(1) by (auto simp: k run_blockers_def filter_empty_conv split: if_splits)
  then have clean: "\<forall>f \<in> set (report_findings d). kf_severity f \<noteq> None \<and> kf_severity f \<noteq> Some ''error''"
      "\<forall>f \<in> set (report_findings d). is_warning f \<longrightarrow> cleared v s (report_findings d) (rule_of f)"
    using contract_sound [of v s "report_findings d"] by (auto simp: error_count_def count_if_zero_iff k split: option.splits)
  have "dr_unconnected d = []" using blockers(2) by (simp add: k)
  with d clean show ?thesis unfolding s_def by blast
qed

theorem passing_check_is_clean_witness:
  "cleared sample_warnings (drc_scope [''b.kicad_pcb'']) (report_findings sample_drc_report) ''silk_overlap''"
proof -
  have "wv_file sample_warnings [''b.kicad_pcb''] \<noteq> None" by (simp add: sample_warnings_def)
  from passing_check_is_clean [OF sample_check_passes this] show ?thesis
    by (simp add: sample_drc_report_def report_findings_def is_warning_def rule_of_def lower_def ascii_lower_def upper_alpha_def chr_between_def chr_code_def)
qed

end
