(* ===== verification/Connection_Plan.thy ===== *)
theory Connection_Plan
  imports Harness
begin

text \<open>
  The planning half of \<open>orchestration/connection_synthesis.py\<close>: large netlists are proposed in
  batches of parts, and the plan says which batch owns which part.

  The pins of a symbol, as \<open>symbols.symbol_pins\<close> returns them, and the order in which a Python
  set of strings is iterated are arguments.
\<close>

section \<open>Inputs\<close>

record sym_pin =
  sn_number :: string
  sn_name :: string
  sn_type :: string

record chosen_part =
  pt_ref :: string
  pt_symbol :: string
  pt_value :: string
  pt_footprint :: string
  pt_role :: string

record topology_block =
  tb_name :: string
  tb_kind :: string
  tb_description :: string

record topology_plan =
  tp_blocks :: "topology_block list"
  tp_rails :: "string list"
  tp_ground :: string

record synth_env =
  se_pins :: "string \<Rightarrow> sym_pin list option"
  se_order :: "string list \<Rightarrow> string list"

text \<open>The contracts of a selection and of a topology.\<close>

definition reference_pattern :: "string \<Rightarrow> bool" where
  "reference_pattern ref =
     (case ref of
        [] \<Rightarrow> False
      | c # cs \<Rightarrow> (upper_alpha c \<or> lower_alpha c \<or> c = CHR ''#'')
                 \<and> (\<forall>d \<in> set cs. upper_alpha d \<or> lower_alpha d \<or> is_digit d \<or> d = CHR ''_''))"

definition selection_ok :: "chosen_part list \<Rightarrow> bool" where
  "selection_ok parts \<longleftrightarrow> length parts \<le> 1000 \<and> distinct (map pt_ref parts)
     \<and> (\<forall>p \<in> set parts. reference_pattern (pt_ref p) \<and> bounded 1 32 (pt_ref p))"

definition topology_ok :: "topology_plan \<Rightarrow> bool" where
  "topology_ok t \<longleftrightarrow> length (tp_blocks t) \<le> 200 \<and> length (tp_rails t) \<le> 50 \<and> bounded 1 100 (tp_ground t)"

section \<open>Fingerprints\<close>

definition canonical_hash :: "pyval \<Rightarrow> nat \<Rightarrow> string" where
  "canonical_hash v n = take n (sha256 (utf8_bytes (canonical_json v)))"

definition strings :: "string list \<Rightarrow> pyval" where
  "strings xs = PList (map PStr xs)"

definition topology_fingerprint :: "topology_plan \<Rightarrow> string" where
  "topology_fingerprint t =
     canonical_hash (PDict
       [(''blocks'', PList (map (\<lambda>b. PDict [(''name'', PStr (tb_name b)), (''kind'', PStr (tb_kind b)), (''description'', PStr (tb_description b))])
          (tp_blocks t))),
        (''rails'', strings (tp_rails t)), (''ground_net'', PStr (tp_ground t))]) 20"

text \<open>
  The key that sorts \<open>R2\<close> before \<open>R10\<close>.  A reference starts with a letter, so numbers are only
  compared with numbers.
\<close>

function natural_parts :: "string \<Rightarrow> string list" where
  "natural_parts [] = []"
| "natural_parts (c # cs) =
     (c # takeWhile (\<lambda>d. is_digit d = is_digit c) cs) # natural_parts (dropWhile (\<lambda>d. is_digit d = is_digit c) cs)"
  by pat_completeness auto
termination
  by (relation "measure length") (auto simp: less_Suc_eq_le length_dropWhile_le)

definition natural_ref_key :: "string \<Rightarrow> (int \<times> string) list" where
  "natural_ref_key ref = map (\<lambda>p. if is_digit (hd p) then (int_of_digits p, []) else (0, lower p)) (natural_parts ref)"

definition symbol_pins :: "synth_env \<Rightarrow> chosen_part \<Rightarrow> sym_pin list option" where
  "symbol_pins sy part = se_pins sy (pt_symbol part)"

definition numbered :: "sym_pin list \<Rightarrow> sym_pin list" where
  "numbered pins = filter (\<lambda>p. strip (sn_number p) \<noteq> []) pins"

definition normalized_symbol_pin_signature :: "synth_env \<Rightarrow> chosen_part \<Rightarrow> pyval" where
  "normalized_symbol_pin_signature sy part =
     (case symbol_pins sy part of
        None \<Rightarrow> PNone
      | Some pins \<Rightarrow>
          PList (map (\<lambda>(number, name, type). PDict [(''number'', PStr number), (''name'', PStr name), (''type'', PStr type)])
            (sort (map (\<lambda>p. (lower (strip (sn_number p)), lower (strip (sn_name p)), lower (strip (sn_type p)))) (numbered pins)))))"

definition selection_fingerprint :: "synth_env \<Rightarrow> chosen_part list \<Rightarrow> string" where
  "selection_fingerprint sy parts =
     canonical_hash (PList (map (\<lambda>p. PDict
       [(''ref'', PStr (pt_ref p)), (''symbol'', PStr (pt_symbol p)), (''value'', PStr (pt_value p)), (''footprint'', PStr (pt_footprint p)),
        (''role'', PStr (pt_role p)), (''symbol_pins'', normalized_symbol_pin_signature sy p)])
       (sort_key (\<lambda>p. natural_ref_key (pt_ref p)) parts))) 20"

section \<open>The size of an answer\<close>

definition UNKNOWN_SYMBOL_PIN_ESTIMATE :: nat where
  "UNKNOWN_SYMBOL_PIN_ESTIMATE = 8"

definition pin_count :: "synth_env \<Rightarrow> nat \<Rightarrow> chosen_part \<Rightarrow> nat \<times> bool" where
  "pin_count sy unknown_estimate part =
     (case symbol_pins sy part of None \<Rightarrow> (unknown_estimate, True) | Some pins \<Rightarrow> (length (numbered pins), False))"

record output_estimate =
  oe_pins :: int
  oe_chars :: int
  oe_tokens :: int
  oe_limit :: int
  oe_budget :: int
  oe_pin_limit :: int
  oe_unknown :: "string list"
  oe_batch :: bool

definition pin_json_length :: "string \<Rightarrow> string \<Rightarrow> nat" where
  "pin_json_length ref pin = length (''{'' @ json_ascii ''ref'' @ '':'' @ json_ascii ref @ '','' @ json_ascii ''pin'' @ '':'' @ json_ascii pin @ ''}'')"

definition part_json_chars :: "synth_env \<Rightarrow> nat \<Rightarrow> chosen_part \<Rightarrow> nat" where
  "part_json_chars sy unknown_estimate part =
     (case symbol_pins sy part of
        None \<Rightarrow> sum_list (map (\<lambda>i. pin_json_length (pt_ref part) (''PIN'' @ nat_str (i + 1)) + 1) [0 ..< unknown_estimate])
      | Some pins \<Rightarrow>
          sum_list (map (\<lambda>p. let number = strip (sn_number p); name = strip (sn_name p)
              in pin_json_length (pt_ref part) (if length name \<ge> length number then name else number) + 1) (numbered pins)))"

definition estimate_connection_output ::
    "synth_env \<Rightarrow> chosen_part list \<Rightarrow> int \<Rightarrow> rat \<Rightarrow> int \<Rightarrow> nat \<Rightarrow> string + output_estimate" where
  "estimate_connection_output sy parts completion_limit direct_ratio direct_pin_limit unknown_estimate =
     (if completion_limit \<le> 0 then Inl ''completion_limit must be positive''
      else if \<not> (0 < direct_ratio \<and> direct_ratio \<le> 1) then Inl ''direct_ratio must be in (0, 1]''
      else if direct_pin_limit \<le> 0 then Inl ''direct_pin_limit must be positive''
      else if unknown_estimate = 0 then Inl ''unknown_symbol_pin_estimate must be positive''
      else
        let pins = int (sum_list (map (\<lambda>p. fst (pin_count sy unknown_estimate p)) parts));
            chars = 1024 + int (sum_list (map (part_json_chars sy unknown_estimate) parts)) + 48 * \<lceil>of_int pins / (2 :: rat)\<rceil>;
            tokens = \<lceil>of_int chars / (3 :: rat)\<rceil>;
            budget = max 1 (min 4096 \<lfloor>of_int completion_limit * direct_ratio\<rfloor>)
        in Inr \<lparr>oe_pins = pins, oe_chars = chars, oe_tokens = tokens, oe_limit = completion_limit, oe_budget = budget,
                oe_pin_limit = direct_pin_limit,
                oe_unknown = sort_key natural_ref_key (map pt_ref (filter (\<lambda>p. symbol_pins sy p = None) parts)),
                oe_batch = (tokens > budget \<or> pins > direct_pin_limit)\<rparr>)"

section \<open>Parts and blocks\<close>

definition INTEGRATION_BLOCK :: string where
  "INTEGRATION_BLOCK = ''integration''"

definition GENERIC_TOKENS :: "string list" where
  "GENERIC_TOKENS = [''board'', ''circuit'', ''component'', ''device'', ''external'', ''function'', ''functional'', ''main'', ''module'',
     ''part'', ''physical'', ''support'', ''system'']"

definition CENTRAL_HUB_TOKENS :: "string list" where
  "CENTRAL_HUB_TOKENS = [''central'', ''compute'', ''computing'', ''controller'', ''coordination'', ''core'', ''cpu'', ''fpga'', ''host'',
     ''mcu'', ''processor'', ''soc'']"

definition CENTRAL_SUPPORT_TOKENS :: "string list" where
  "CENTRAL_SUPPORT_TOKENS = [''bead'', ''button'', ''capacitor'', ''connector'', ''crystal'', ''decoupl'', ''diode'', ''filter'', ''fuse'',
     ''header'', ''inductor'', ''jumper'', ''led'', ''oscillator'', ''protection'', ''pull'', ''resistor'', ''strap'', ''switch'', ''tvs'']"

text \<open>The maximal runs of characters that satisfy a predicate.\<close>

function runs_of :: "(char \<Rightarrow> bool) \<Rightarrow> string \<Rightarrow> string list" where
  "runs_of P [] = []"
| "runs_of P (c # cs) = (if P c then (c # takeWhile P cs) # runs_of P (dropWhile P cs) else runs_of P cs)"
  by pat_completeness auto
termination
  by (relation "measure (\<lambda>(P, s). length s)") (auto simp: less_Suc_eq_le length_dropWhile_le)

definition token_stem :: "string \<Rightarrow> string" where
  "token_stem token =
     (case find (\<lambda>s. length token > length s + 3 \<and> endswith token s)
             [''ation'', ''ments'', ''ment'', ''ing'', ''ers'', ''er'', ''ed'', ''es'', ''s''] of
        None \<Rightarrow> token | Some s \<Rightarrow> take (length token - length s) token)"

definition tokens :: "string \<Rightarrow> string list" where
  "tokens text =
     dedup (concat (map (\<lambda>t. [t, token_stem t])
       (filter (\<lambda>t. t \<notin> set GENERIC_TOKENS) (runs_of (\<lambda>c. wordlike c \<and> c \<noteq> CHR ''_'') (lower text)))))"

definition shares :: "string list \<Rightarrow> string list \<Rightarrow> nat" where
  "shares a b = length (filter (\<lambda>t. t \<in> set b) a)"

definition block_score :: "chosen_part \<Rightarrow> topology_block \<Rightarrow> nat" where
  "block_score part block =
     (let role = tokens (pt_role part); identity = tokens (tb_name block @ '' '' @ tb_kind block); description = tokens (tb_description block);
          secondary = tokens (pt_value part @ '' '' @ pt_symbol part @ '' '' @ pt_footprint part)
      in 5 * shares role identity + 2 * shares role description + shares secondary (identity @ description))"

definition best_block :: "topology_block list \<Rightarrow> chosen_part \<Rightarrow> string" where
  "best_block blocks part =
     (let best = foldr max (map (block_score part) blocks) 0
      in case filter (\<lambda>b. block_score part b = best \<and> block_score part b > 0) blocks of
           [b] \<Rightarrow> tb_name b | _ \<Rightarrow> INTEGRATION_BLOCK)"

datatype plan_error = UnknownBlock string string | UnknownShared "string list" | NotPositive string | PlanContract | PlanMismatch

definition assign_block :: "topology_plan \<Rightarrow> (string \<times> string) list \<Rightarrow> chosen_part \<Rightarrow> plan_error + string" where
  "assign_block t explicit part =
     (let requested = (case map_of (rev (map (\<lambda>(r, v). (lower r, v)) explicit)) (lower (pt_ref part)) of None \<Rightarrow> [] | Some v \<Rightarrow> v)
      in if requested = [] then Inr (best_block (tp_blocks t) part)
         else (case map_of (rev (map (\<lambda>b. (lower (tb_name b), tb_name b)) (tp_blocks t))) (lower requested) of
                 None \<Rightarrow> Inl (UnknownBlock requested (pt_ref part)) | Some name \<Rightarrow> Inr name))"

definition assign_parts_to_topology_blocks ::
    "topology_plan \<Rightarrow> chosen_part list \<Rightarrow> (string \<times> string) list \<Rightarrow> plan_error + (string \<times> string) list" where
  "assign_parts_to_topology_blocks t parts explicit =
     map_res (\<lambda>p. bind_res (assign_block t explicit p) (\<lambda>b. Inr (pt_ref p, b))) (sort_key (\<lambda>p. natural_ref_key (pt_ref p)) parts)"

definition central_part :: "synth_env \<Rightarrow> chosen_part \<Rightarrow> bool" where
  "central_part sy part =
     (let role = tokens (pt_role part); device = tokens (pt_value part @ '' '' @ pt_symbol part);
          count = pin_count sy UNKNOWN_SYMBOL_PIN_ESTIMATE part
      in ((shares role CENTRAL_HUB_TOKENS > 0 \<and> shares role CENTRAL_SUPPORT_TOKENS = 0) \<or> shares device CENTRAL_HUB_TOKENS > 0)
         \<and> \<not> snd count \<and> fst count \<ge> 4)"

definition sorted_refs :: "synth_env \<Rightarrow> string list \<Rightarrow> string list" where
  "sorted_refs sy refs = sort_key natural_ref_key (se_order sy refs)"

definition infer_shared_refs ::
    "synth_env \<Rightarrow> topology_plan \<Rightarrow> chosen_part list \<Rightarrow> (string \<times> string) list \<Rightarrow> plan_error + string list" where
  "infer_shared_refs sy t parts explicit =
     bind_res (assign_parts_to_topology_blocks t parts explicit) (\<lambda>_.
       Inr (sorted_refs sy (map pt_ref (filter (central_part sy) parts))))"

section \<open>Batches\<close>

record batch_spec =
  bs_id :: string
  bs_sequence :: nat
  bs_blocks :: "string list"
  bs_owned :: "string list"
  bs_shared :: "string list"
  bs_pins :: int

definition batch_spec_ok :: "batch_spec \<Rightarrow> bool" where
  "batch_spec_ok b \<longleftrightarrow> bounded 1 80 (bs_id b) \<and> bounded 1 200 (bs_blocks b) \<and> length (bs_owned b) \<le> 1000 \<and> length (bs_shared b) \<le> 1000
     \<and> 0 \<le> bs_pins b \<and> distinct (bs_blocks b) \<and> distinct (bs_owned b) \<and> distinct (bs_shared b)
     \<and> set (bs_owned b) \<inter> set (bs_shared b) = {}"

record batch_plan =
  pn_topology :: string
  pn_selection :: string
  pn_fingerprint :: string
  pn_target :: int
  pn_effective :: int
  pn_max :: int
  pn_shared :: "string list"
  pn_oversized :: "string list"
  pn_supported :: bool
  pn_batches :: "batch_spec list"

definition plan_fingerprint_payload :: "batch_plan \<Rightarrow> pyval" where
  "plan_fingerprint_payload p = PDict
     [(''topology'', PStr (pn_topology p)), (''selection'', PStr (pn_selection p)), (''target_pin_count'', PInt (pn_target p)),
      (''effective_target_pin_count'', PInt (pn_effective p)), (''max_batches'', PInt (pn_max p)), (''shared_refs'', strings (pn_shared p)),
      (''oversized_atomic_refs'', strings (pn_oversized p)), (''batching_supported'', PBool (pn_supported p)),
      (''batches'', PList (map (\<lambda>b. PDict
         [(''sequence'', PInt (int (bs_sequence b))), (''topology_blocks'', strings (bs_blocks b)), (''owned_refs'', strings (bs_owned b)),
          (''shared_refs'', strings (bs_shared b)), (''owned_pin_count'', PInt (bs_pins b))]) (pn_batches p)))]"

definition batch_plan_ok :: "batch_plan \<Rightarrow> bool" where
  "batch_plan_ok p \<longleftrightarrow>
     bounded 1 64 (pn_topology p) \<and> bounded 1 64 (pn_selection p) \<and> bounded 1 64 (pn_fingerprint p) \<and> 0 < pn_target p \<and> 0 < pn_effective p
     \<and> 0 < pn_max p \<and> length (pn_shared p) \<le> 1000 \<and> length (pn_oversized p) \<le> 1000 \<and> bounded 1 128 (pn_batches p)
     \<and> list_all batch_spec_ok (pn_batches p) \<and> distinct (map bs_id (pn_batches p)) \<and> distinct (concat (map bs_owned (pn_batches p)))
     \<and> map bs_sequence (pn_batches p) = [0 ..< length (pn_batches p)] \<and> distinct (pn_oversized p)
     \<and> pn_fingerprint p = canonical_hash (plan_fingerprint_payload p) 20"

text \<open>A batch under construction: its blocks, references and pins.\<close>

type_synonym raw_batch = "string list \<times> string list \<times> nat"

fun batch_loop :: "string list \<Rightarrow> nat \<Rightarrow> (string \<times> nat \<times> string) list \<Rightarrow> raw_batch \<Rightarrow> raw_batch list" where
  "batch_loop oversized target [] (blocks, refs, pins) = (if refs = [] then [] else [(blocks, refs, pins)])"
| "batch_loop oversized target ((ref, count, block) # rest) (blocks, refs, pins) =
     (if ref \<in> set oversized
      then (if refs = [] then [] else [(blocks, refs, pins)]) @ ([block], [ref], count) # batch_loop oversized target rest ([], [], 0)
      else if refs \<noteq> [] \<and> pins + count > target
      then (blocks, refs, pins) # batch_loop oversized target rest ([block], [ref], count)
      else batch_loop oversized target rest (if block \<in> set blocks then blocks else blocks @ [block], refs @ [ref], pins + count))"

function merge_tail :: "nat \<Rightarrow> raw_batch list \<Rightarrow> raw_batch list" where
  "merge_tail cap raw =
     (if length raw \<le> cap \<or> length raw < 2 then raw
      else case (last (butlast raw), last raw) of
             ((left_blocks, left_refs, left_pins), (right_blocks, right_refs, right_pins)) \<Rightarrow>
               merge_tail cap (butlast (butlast raw)
                 @ [(dedup (left_blocks @ right_blocks), left_refs @ right_refs, left_pins + right_pins)]))"
  by pat_completeness auto
termination
  by (relation "measure (\<lambda>(cap, raw). length raw)") auto

declare merge_tail.simps [simp del]

definition two_digits :: "nat \<Rightarrow> string" where
  "two_digits n = (if n < 10 then ''0'' else []) @ nat_str n"

definition batch_identity :: "nat \<Rightarrow> string list \<Rightarrow> string list \<Rightarrow> string list \<Rightarrow> string" where
  "batch_identity sequence blocks owned shared =
     ''connection-'' @ two_digits (sequence + 1) @ ''-''
     @ canonical_hash (PDict [(''sequence'', PInt (int sequence)), (''blocks'', strings blocks), (''owned'', strings owned), (''shared'', strings shared)]) 10"

definition make_batch :: "nat \<Rightarrow> string list \<Rightarrow> string list \<Rightarrow> string list \<Rightarrow> nat \<Rightarrow> batch_spec" where
  "make_batch sequence blocks owned shared pins =
     \<lparr>bs_id = batch_identity sequence blocks owned shared, bs_sequence = sequence, bs_blocks = blocks, bs_owned = owned, bs_shared = shared,
      bs_pins = int pins\<rparr>"

definition block_index :: "topology_plan \<Rightarrow> string \<Rightarrow> nat" where
  "block_index t name =
     (if name = INTEGRATION_BLOCK then length (remdups (map tb_name (tp_blocks t)))
      else (case find_last_idx (\<lambda>b. tb_name b = name) (tp_blocks t) of None \<Rightarrow> length (remdups (INTEGRATION_BLOCK # map tb_name (tp_blocks t))) | Some i \<Rightarrow> i))"

text \<open>The parts that need work, with their pins and blocks, in the order of the plan.\<close>

definition parts_with_counts ::
    "synth_env \<Rightarrow> nat \<Rightarrow> topology_plan \<Rightarrow> chosen_part list \<Rightarrow> (string \<times> string) list \<Rightarrow> string list \<Rightarrow> (string \<times> nat \<times> string) list" where
  "parts_with_counts sy unknown_estimate t parts assignments shared =
     (let count = (\<lambda>p. fst (pin_count sy unknown_estimate p)); block = (\<lambda>p. case map_of assignments (pt_ref p) of None \<Rightarrow> [] | Some b \<Rightarrow> b)
      in map (\<lambda>p. (pt_ref p, count p, block p))
           (sort_key (\<lambda>p. (block_index t (block p), lower (pt_role p), natural_ref_key (pt_ref p)))
             (filter (\<lambda>p. pt_ref p \<notin> set shared \<and> count p \<noteq> 0) parts)))"

definition effective_target :: "nat \<Rightarrow> nat \<Rightarrow> string list \<Rightarrow> string list \<Rightarrow> (string \<times> nat \<times> string) list \<Rightarrow> nat" where
  "effective_target target ordinary_cap oversized shared work =
     (let regular_pins = sum_list (map (\<lambda>(_, n, _). n) (filter (\<lambda>(r, _, _). r \<notin> set oversized \<or> r \<in> set shared) work));
          regular_cap = max 1 (ordinary_cap - length (filter (\<lambda>r. r \<notin> set shared) oversized))
      in max target (if regular_pins = 0 then 1 else nat \<lceil>of_nat regular_pins / (of_nat regular_cap :: rat)\<rceil>))"

definition raw_batches :: "nat \<Rightarrow> nat \<Rightarrow> string list \<Rightarrow> string list \<Rightarrow> (string \<times> nat \<times> string) list \<Rightarrow> raw_batch list" where
  "raw_batches effective ordinary_cap oversized shared work =
     (let raw = batch_loop oversized effective work ([], [], 0)
      in merge_tail ordinary_cap (if raw = [] \<and> shared = [] then [([INTEGRATION_BLOCK], [], 0)] else raw))"

definition plan_connection_batches ::
    "synth_env \<Rightarrow> topology_plan \<Rightarrow> chosen_part list \<Rightarrow> nat \<Rightarrow> nat \<Rightarrow> string list option \<Rightarrow> (string \<times> string) list \<Rightarrow> nat
     \<Rightarrow> plan_error + batch_plan" where
  "plan_connection_batches sy t parts target max_batches shared_refs explicit unknown_estimate =
     (if target = 0 then Inl (NotPositive ''target_pin_count'')
      else if max_batches = 0 then Inl (NotPositive ''max_batches'')
      else if unknown_estimate = 0 then Inl (NotPositive ''unknown_symbol_pin_estimate'')
      else
        bind_res (assign_parts_to_topology_blocks t parts explicit) (\<lambda>assignments.
        bind_res (case shared_refs of None \<Rightarrow> infer_shared_refs sy t parts explicit | Some rs \<Rightarrow> Inr (sorted_refs sy rs)) (\<lambda>inferred.
          let refs = map pt_ref parts; unknown = sorted_refs sy (filter (\<lambda>r. r \<notin> set refs) inferred)
          in if unknown \<noteq> [] then Inl (UnknownShared unknown)
             else
               let shared = (if max_batches = 1 then [] else inferred);
                   count = (\<lambda>p. fst (pin_count sy unknown_estimate p));
                   oversized = sort_key natural_ref_key (map pt_ref (filter (\<lambda>p. count p > target) parts));
                   work = parts_with_counts sy unknown_estimate t parts assignments shared;
                   ordinary_cap = max_batches - (if shared = [] then 0 else 1);
                   effective = effective_target target ordinary_cap oversized shared work;
                   raw = raw_batches effective ordinary_cap oversized shared work;
                   leaf_refs = sorted_refs sy (filter (\<lambda>r. r \<notin> set shared) refs);
                   ordinary = map (\<lambda>(i, blocks, owned, pins). make_batch i blocks owned shared pins) (enumerate 0 raw);
                   batches = ordinary @ (if shared = [] then []
                     else [make_batch (length ordinary) [INTEGRATION_BLOCK] shared leaf_refs
                             (sum_list (map count (filter (\<lambda>p. pt_ref p \<in> set shared) parts)))]);
                   plan = \<lparr>pn_topology = topology_fingerprint t, pn_selection = selection_fingerprint sy parts, pn_fingerprint = [],
                     pn_target = int target, pn_effective = int effective, pn_max = int max_batches, pn_shared = shared, pn_oversized = oversized,
                     pn_supported = True, pn_batches = batches\<rparr>;
                   plan = plan\<lparr>pn_fingerprint := canonical_hash (plan_fingerprint_payload plan) 20\<rparr>
               in if batch_plan_ok plan then Inr plan else Inl PlanContract)))"

end
