(* ===== verification/Connection_Merge.thy ===== *)
theory Connection_Merge
  imports Connection_Plan
begin

text \<open>
  The transactional half of \<open>orchestration/connection_synthesis.py\<close>: the checkpoint of a synthesis
  in progress and the atomic, additive merge of one batch, and the report on the result.

  An aggregate has no parts of its own here: \<open>additional_parts\<close> stays empty in this module.
  The texts of error messages are an argument of the functions that keep them.
\<close>

section \<open>Netlists\<close>

record logical_pin =
  lp_ref :: string
  lp_pin :: string

definition pin_key :: "logical_pin \<Rightarrow> string" where
  "pin_key p = lp_ref p @ '':'' @ lp_pin p"

definition pin_ok :: "logical_pin \<Rightarrow> bool" where
  "pin_ok p \<longleftrightarrow> bounded 1 32 (lp_ref p) \<and> bounded 1 48 (lp_pin p)"

record net_intent =
  nt_name :: string
  nt_kind :: string
  nt_pins :: "logical_pin list"
  nt_purpose :: string

definition net_ok :: "net_intent \<Rightarrow> bool" where
  "net_ok n \<longleftrightarrow> bounded 1 100 (nt_name n) \<and> length (nt_kind n) \<le> 32 \<and> length (nt_pins n) \<le> 500 \<and> length (nt_purpose n) \<le> 2000
     \<and> list_all pin_ok (nt_pins n) \<and> distinct (map pin_key (nt_pins n))"

record netlist_intent =
  nl_nets :: "net_intent list"
  nl_no_connect :: "logical_pin list"
  nl_supply :: "string list"
  nl_ground :: string
  nl_rationale :: string

definition netlist_ok :: "netlist_intent \<Rightarrow> bool" where
  "netlist_ok a \<longleftrightarrow> length (nl_nets a) \<le> 5000 \<and> list_all net_ok (nl_nets a) \<and> length (nl_no_connect a) \<le> 2000
     \<and> list_all pin_ok (nl_no_connect a) \<and> length (nl_supply a) \<le> 50 \<and> bounded 1 100 (nl_ground a) \<and> length (nl_rationale a) \<le> 10000
     \<and> distinct (map nt_name (nl_nets a)) \<and> distinct (map pin_key (nl_no_connect a))"

section \<open>Transactions\<close>

record net_extension =
  ne_name :: string
  ne_pins :: "logical_pin list"

definition extension_ok :: "net_extension \<Rightarrow> bool" where
  "extension_ok e \<longleftrightarrow> bounded 1 100 (ne_name e) \<and> length (ne_pins e) \<le> 500 \<and> list_all pin_ok (ne_pins e)
     \<and> distinct (map (\<lambda>p. lower (pin_key p)) (ne_pins e))"

record connection_delta =
  cd_batch :: string
  cd_base :: int
  cd_create :: "net_intent list"
  cd_extend :: "net_extension list"
  cd_no_connect :: "logical_pin list"
  cd_rationale :: string

text \<open>What a transaction says about each logical pin.\<close>

definition delta_dispositions :: "connection_delta \<Rightarrow> (string \<times> string) list" where
  "delta_dispositions d =
     concat (map (\<lambda>n. map (\<lambda>p. (lower (pin_key p), lower (nt_name n))) (nt_pins n)) (cd_create d))
     @ concat (map (\<lambda>e. map (\<lambda>p. (lower (pin_key p), lower (ne_name e))) (ne_pins e)) (cd_extend d))
     @ map (\<lambda>p. (lower (pin_key p), ''<no-connect>'')) (cd_no_connect d)"

fun no_conflicts :: "(string \<times> string) list \<Rightarrow> (string \<times> string) list \<Rightarrow> bool" where
  "no_conflicts owners [] = True"
| "no_conflicts owners ((pin, target) # rest) =
     ((case map_of owners pin of None \<Rightarrow> True | Some previous \<Rightarrow> previous = target) \<and> no_conflicts ((pin, target) # owners) rest)"

definition delta_ok :: "connection_delta \<Rightarrow> bool" where
  "delta_ok d \<longleftrightarrow>
     bounded 1 80 (cd_batch d) \<and> 0 \<le> cd_base d \<and> length (cd_create d) \<le> 2000 \<and> length (cd_extend d) \<le> 2000
     \<and> length (cd_no_connect d) \<le> 2000 \<and> length (cd_rationale d) \<le> 2000
     \<and> list_all net_ok (cd_create d) \<and> list_all extension_ok (cd_extend d) \<and> list_all pin_ok (cd_no_connect d)
     \<and> distinct (map (\<lambda>n. lower (nt_name n)) (cd_create d)) \<and> distinct (map (\<lambda>e. lower (ne_name e)) (cd_extend d))
     \<and> set (map (\<lambda>n. lower (nt_name n)) (cd_create d)) \<inter> set (map (\<lambda>e. lower (ne_name e)) (cd_extend d)) = {}
     \<and> no_conflicts [] (delta_dispositions d)"

definition pin_payload :: "logical_pin \<Rightarrow> string \<times> string" where
  "pin_payload p = (lower (strip (lp_ref p)), lower (strip (lp_pin p)))"

definition sorted_pins :: "logical_pin list \<Rightarrow> pyval" where
  "sorted_pins pins = PList (map (\<lambda>(ref, pin). PDict [(''ref'', PStr ref), (''pin'', PStr pin)]) (sort (map pin_payload pins)))"

definition connection_delta_fingerprint :: "connection_delta \<Rightarrow> string" where
  "connection_delta_fingerprint d =
     canonical_hash (PDict
       [(''batch_id'', PStr (cd_batch d)),
        (''create_nets'', PList (map (\<lambda>n. PDict [(''name'', PStr (lower (strip (nt_name n)))), (''kind'', PStr (lower (strip (nt_kind n)))),
             (''pins'', sorted_pins (nt_pins n))])
           (sort_key (\<lambda>n. (lower (strip (nt_name n)), lower (strip (nt_kind n)))) (cd_create d)))),
        (''extend_nets'', PList (map (\<lambda>e. PDict [(''name'', PStr (lower (strip (ne_name e)))), (''pins'', sorted_pins (ne_pins e))])
           (sort_key (\<lambda>e. lower (strip (ne_name e))) (cd_extend d)))),
        (''no_connect_pins'', sorted_pins (cd_no_connect d))]) 20"

section \<open>Checkpoints\<close>

datatype batch_state = BatchPending | BatchCompleted | BatchFailed | BatchSkipped

record batch_checkpoint =
  bc_id :: string
  bc_status :: batch_state
  bc_attempts :: int
  bc_fingerprint :: string
  bc_error :: string

definition batch_checkpoint_ok :: "batch_checkpoint \<Rightarrow> bool" where
  "batch_checkpoint_ok b \<longleftrightarrow> bounded 1 80 (bc_id b) \<and> 0 \<le> bc_attempts b \<and> length (bc_fingerprint b) \<le> 64 \<and> length (bc_error b) \<le> 2000"

record synthesis_checkpoint =
  cc_topology :: string
  cc_selection :: string
  cc_plan :: batch_plan
  cc_aggregate :: netlist_intent
  cc_revision :: int
  cc_llm :: int
  cc_round :: int
  cc_rounds :: int
  cc_batches :: "batch_checkpoint list"
  cc_reservations :: "(string \<times> string) list"

definition completed_batch :: "batch_checkpoint \<Rightarrow> bool" where
  "completed_batch b \<longleftrightarrow> bc_status b = BatchCompleted"

fun completed_prefix :: "bool \<Rightarrow> batch_checkpoint list \<Rightarrow> bool" where
  "completed_prefix incomplete_seen [] = True"
| "completed_prefix incomplete_seen (b # bs) =
     (if \<not> completed_batch b then completed_prefix True bs
      else \<not> incomplete_seen \<and> bc_fingerprint b \<noteq> [] \<and> bc_attempts b \<ge> 1 \<and> completed_prefix incomplete_seen bs)"

definition ref_part :: "string \<Rightarrow> string" where
  "ref_part physical = takeWhile (\<lambda>c. c \<noteq> CHR '':'') physical"

definition reservation_ok :: "batch_plan \<Rightarrow> netlist_intent \<Rightarrow> string \<times> string \<Rightarrow> bool" where
  "reservation_ok plan a r \<longleftrightarrow>
     CHR '':'' \<in> set (fst r) \<and> ref_part (fst r) \<noteq> [] \<and> drop (Suc (length (ref_part (fst r)))) (fst r) \<noteq> []
     \<and> lower (ref_part (fst r)) \<in> set (map lower (pn_shared plan)) \<and> lower (snd r) \<in> set (map (\<lambda>n. lower (nt_name n)) (nl_nets a))"

definition checkpoint_ok :: "synthesis_checkpoint \<Rightarrow> bool" where
  "checkpoint_ok c \<longleftrightarrow>
     bounded 1 64 (cc_topology c) \<and> bounded 1 64 (cc_selection c) \<and> batch_plan_ok (cc_plan c) \<and> netlist_ok (cc_aggregate c)
     \<and> 0 \<le> cc_revision c \<and> 0 \<le> cc_llm c \<and> 0 \<le> cc_round c \<and> 0 \<le> cc_rounds c
     \<and> length (cc_batches c) \<le> 128 \<and> list_all batch_checkpoint_ok (cc_batches c) \<and> length (cc_reservations c) \<le> 5000
     \<and> map bc_id (cc_batches c) = map bs_id (pn_batches (cc_plan c))
     \<and> cc_topology c = pn_topology (cc_plan c) \<and> cc_selection c = pn_selection (cc_plan c)
     \<and> cc_revision c = count_if completed_batch (cc_batches c) \<and> cc_round c \<le> cc_llm c
     \<and> completed_prefix False (cc_batches c) \<and> list_all (reservation_ok (cc_plan c) (cc_aggregate c)) (cc_reservations c)"

datatype merge_error =
    Inconsistent | StaleSelection | UnknownBatch string | IncompletePredecessors "string list" | DifferentDelta string
  | StaleRevision int int | DuplicateRef string | AbsentPart string | NoRealPins string | EmptyLogicalPin string
  | AmbiguousPin string "string list" | UnresolvedPin string | OwnedAbsent "string list" | OwnedUnresolvable "string list"
  | NotVisible string | SharedNoConnect string | NotOwned string | AggregateConflict string | AggregateBoth string
  | NetExists string | NetMissing string | PinReserved string string | PinNotConnected string | Undisposed "string list"
  | BudgetExhausted bool int | PendingBatches "string list" | ReportContract

text \<open>Validating again removes repeated pins from the nets.\<close>

definition revalidate_net :: "net_intent \<Rightarrow> net_intent" where
  "revalidate_net n = n\<lparr>nt_pins := dedup (nt_pins n)\<rparr>"

definition revalidate :: "synthesis_checkpoint \<Rightarrow> synthesis_checkpoint" where
  "revalidate c = c\<lparr>cc_aggregate := (cc_aggregate c)\<lparr>nl_nets := map revalidate_net (nl_nets (cc_aggregate c))\<rparr>\<rparr>"

definition validated_checkpoint :: "synthesis_checkpoint \<Rightarrow> merge_error + synthesis_checkpoint" where
  "validated_checkpoint c = (if checkpoint_ok (revalidate c) then Inr (revalidate c) else Inl Inconsistent)"

definition new_connection_checkpoint ::
    "synth_env \<Rightarrow> topology_plan \<Rightarrow> chosen_part list \<Rightarrow> batch_plan \<Rightarrow> plan_error + synthesis_checkpoint" where
  "new_connection_checkpoint sy t parts plan =
     (if pn_topology plan \<noteq> topology_fingerprint t \<or> pn_selection plan \<noteq> selection_fingerprint sy parts then Inl PlanMismatch
      else
        let rails = dedup (filter (\<lambda>r. lower r \<noteq> lower (tp_ground t)) (tp_rails t));
            nets = map (\<lambda>r. \<lparr>nt_name = r, nt_kind = ''power'', nt_pins = [], nt_purpose = ''declared topology supply rail''\<rparr>) rails
              @ [\<lparr>nt_name = tp_ground t, nt_kind = ''ground'', nt_pins = [], nt_purpose = ''declared topology ground''\<rparr>];
            c = \<lparr>cc_topology = pn_topology plan, cc_selection = pn_selection plan, cc_plan = plan,
              cc_aggregate = \<lparr>nl_nets = nets, nl_no_connect = [], nl_supply = rails, nl_ground = tp_ground t,
                nl_rationale = ''block-wise connection synthesis''\<rparr>,
              cc_revision = 0, cc_llm = 0, cc_round = 0, cc_rounds = 0,
              cc_batches = map (\<lambda>b. \<lparr>bc_id = bs_id b, bc_status = BatchPending, bc_attempts = 0, bc_fingerprint = [], bc_error = []\<rparr>)
                (pn_batches plan),
              cc_reservations = []\<rparr>
        in if checkpoint_ok c then Inr c else Inl PlanContract)"

definition checkpoint_matches_inputs :: "synth_env \<Rightarrow> synthesis_checkpoint \<Rightarrow> topology_plan \<Rightarrow> chosen_part list \<Rightarrow> bool" where
  "checkpoint_matches_inputs sy c t parts \<longleftrightarrow>
     checkpoint_ok (revalidate c) \<and> cc_topology c = topology_fingerprint t \<and> cc_selection c = selection_fingerprint sy parts"

section \<open>Physical pins\<close>

definition pin_separator :: "char \<Rightarrow> bool" where
  "pin_separator c \<longleftrightarrow> c \<in> set ''/~{}()'' \<or> py_space c"

text \<open>The number on which the candidates agree, if there is one.\<close>

definition unique_number :: "string \<Rightarrow> sym_pin list \<Rightarrow> merge_error + string option" where
  "unique_number what candidates =
     (case remdups (map (\<lambda>p. strip (sn_number p)) (numbered candidates)) of
        [] \<Rightarrow> Inr None | [n] \<Rightarrow> Inr (Some n) | ns \<Rightarrow> Inl (AmbiguousPin what (sort ns)))"

fun first_number :: "string \<Rightarrow> sym_pin list list \<Rightarrow> merge_error + string" where
  "first_number what [] = Inl (UnresolvedPin what)"
| "first_number what (candidates # rest) =
     bind_res (unique_number what candidates) (\<lambda>found. case found of Some n \<Rightarrow> Inr n | None \<Rightarrow> first_number what rest)"

definition resolve_physical_pin :: "synth_env \<Rightarrow> chosen_part \<Rightarrow> string \<Rightarrow> merge_error + string" where
  "resolve_physical_pin sy part logical =
     (let pins = (case symbol_pins sy part of None \<Rightarrow> [] | Some ps \<Rightarrow> ps); wanted = lower (strip logical); what = pt_ref part @ '':'' @ logical
      in if pins = [] then Inl (NoRealPins (pt_ref part))
         else if wanted = [] then Inl (EmptyLogicalPin (pt_ref part))
         else first_number what
           [filter (\<lambda>p. lower (strip (sn_number p)) = wanted) pins,
            filter (\<lambda>p. lower (strip (sn_name p)) = wanted) pins,
            filter (\<lambda>p. wanted \<in> set (runs_of (\<lambda>c. \<not> pin_separator c) (lower (strip (sn_name p))))) pins])"

fun part_index :: "chosen_part list \<Rightarrow> (string \<times> chosen_part) list \<Rightarrow> merge_error + (string \<times> chosen_part) list" where
  "part_index [] index = Inr index"
| "part_index (p # ps) index =
     (if map_of index (lower (pt_ref p)) \<noteq> None then Inl (DuplicateRef (pt_ref p)) else part_index ps (index @ [(lower (pt_ref p), p)]))"

definition physical :: "chosen_part \<Rightarrow> string \<Rightarrow> string" where
  "physical part number = upper (pt_ref part) @ '':'' @ number"

definition physical_key :: "synth_env \<Rightarrow> (string \<times> chosen_part) list \<Rightarrow> logical_pin \<Rightarrow> merge_error + string" where
  "physical_key sy index pin =
     (case map_of index (lower (lp_ref pin)) of
        None \<Rightarrow> Inl (AbsentPart (lp_ref pin))
      | Some part \<Rightarrow> bind_res (resolve_physical_pin sy part (lp_pin pin)) (\<lambda>n. Inr (physical part n)))"

section \<open>The merge\<close>

text \<open>A dictionary from physical pins to the names of their nets.\<close>

type_synonym owners = "(string \<times> string) list"

fun own_pins :: "synth_env \<Rightarrow> (string \<times> chosen_part) list \<Rightarrow> string \<Rightarrow> logical_pin list \<Rightarrow> owners \<Rightarrow> merge_error + owners" where
  "own_pins sy index name [] owner = Inr owner"
| "own_pins sy index name (p # ps) owner =
     bind_res (physical_key sy index p) (\<lambda>key.
       case map_of owner key of
         Some previous \<Rightarrow> if lower previous \<noteq> lower name then Inl (AggregateConflict key)
                          else own_pins sy index name ps (AList.update key name owner)
       | None \<Rightarrow> own_pins sy index name ps (AList.update key name owner))"

fun own_nets :: "synth_env \<Rightarrow> (string \<times> chosen_part) list \<Rightarrow> net_intent list \<Rightarrow> owners \<Rightarrow> merge_error + owners" where
  "own_nets sy index [] owner = Inr owner"
| "own_nets sy index (n # ns) owner = bind_res (own_pins sy index (nt_name n) (nt_pins n) owner) (own_nets sy index ns)"

fun collect_no_connect ::
    "synth_env \<Rightarrow> (string \<times> chosen_part) list \<Rightarrow> owners \<Rightarrow> logical_pin list \<Rightarrow> string list \<Rightarrow> merge_error + string list" where
  "collect_no_connect sy index owner [] keys = Inr keys"
| "collect_no_connect sy index owner (p # ps) keys =
     bind_res (physical_key sy index p) (\<lambda>key.
       if map_of owner key \<noteq> None then Inl (AggregateBoth key)
       else collect_no_connect sy index owner ps (if key \<in> set keys then keys else keys @ [key]))"

definition aggregate_ownership ::
    "synth_env \<Rightarrow> netlist_intent \<Rightarrow> (string \<times> chosen_part) list \<Rightarrow> merge_error + owners \<times> string list" where
  "aggregate_ownership sy a index =
     bind_res (own_nets sy index (nl_nets a) []) (\<lambda>owner.
     bind_res (collect_no_connect sy index owner (nl_no_connect a) []) (\<lambda>keys. Inr (owner, keys)))"

definition owned_numbers :: "synth_env \<Rightarrow> chosen_part \<Rightarrow> string list" where
  "owned_numbers sy part =
     (case symbol_pins sy part of None \<Rightarrow> [] | Some pins \<Rightarrow> sorted_set (map (\<lambda>p. strip (sn_number p)) (numbered pins)))"

definition required_owned_physical_pins :: "synth_env \<Rightarrow> batch_spec \<Rightarrow> (string \<times> chosen_part) list \<Rightarrow> merge_error + string list" where
  "required_owned_physical_pins sy batch index =
     (let absent = filter (\<lambda>r. map_of index (lower r) = None) (bs_owned batch);
          found = concat (map (\<lambda>r. case map_of index (lower r) of None \<Rightarrow> [] | Some p \<Rightarrow> [p]) (bs_owned batch));
          unresolvable = filter (\<lambda>p. owned_numbers sy p = []) found
      in if absent \<noteq> [] then Inl (OwnedAbsent (sort_key natural_ref_key absent))
         else if unresolvable \<noteq> [] then Inl (OwnedUnresolvable (map pt_ref unresolvable))
         else Inr (concat (map (\<lambda>p. map (physical p) (owned_numbers sy p)) found)))"

text \<open>The references a transaction may use.\<close>

definition visible_pins :: "batch_spec \<Rightarrow> logical_pin list \<Rightarrow> merge_error + unit" where
  "visible_pins batch pins =
     (case find (\<lambda>p. lower (lp_ref p) \<notin> set (map lower (bs_owned batch)) \<union> set (map lower (bs_shared batch))) pins of
        Some p \<Rightarrow> Inl (NotVisible (lp_ref p)) | None \<Rightarrow> Inr ())"

fun owned_no_connects :: "batch_spec \<Rightarrow> logical_pin list \<Rightarrow> merge_error + unit" where
  "owned_no_connects batch [] = Inr ()"
| "owned_no_connects batch (p # ps) =
     (if lower (lp_ref p) \<in> set (map lower (bs_shared batch)) then Inl (SharedNoConnect (pin_key p))
      else if lower (lp_ref p) \<notin> set (map lower (bs_owned batch)) then Inl (NotOwned (lp_ref p))
      else owned_no_connects batch ps)"

text \<open>The net that a name denotes: the last one with this name up to case.\<close>

definition net_index :: "net_intent list \<Rightarrow> string \<Rightarrow> nat option" where
  "net_index nets name = find_last_idx (\<lambda>n. lower (nt_name n) = lower name) nets"

fun create_nets :: "net_intent list \<Rightarrow> net_intent list \<Rightarrow> merge_error + net_intent list" where
  "create_nets [] nets = Inr nets"
| "create_nets (n # ns) nets =
     (if net_index nets (nt_name n) \<noteq> None then Inl (NetExists (nt_name n))
      else create_nets ns (nets @ [n\<lparr>nt_pins := []\<rparr>]))"

text \<open>The pins to connect, with the index of their net.\<close>

definition targets_of :: "net_intent list \<Rightarrow> string \<Rightarrow> logical_pin list \<Rightarrow> merge_error + (nat \<times> logical_pin) list" where
  "targets_of nets name pins =
     (case net_index nets name of None \<Rightarrow> Inl (NetMissing name) | Some i \<Rightarrow> Inr (map (\<lambda>p. (i, p)) pins))"

definition delta_targets :: "net_intent list \<Rightarrow> connection_delta \<Rightarrow> merge_error + (nat \<times> logical_pin) list" where
  "delta_targets nets d =
     bind_res (map_res (\<lambda>n. targets_of nets (nt_name n) (nt_pins n)) (cd_create d)) (\<lambda>created.
     bind_res (map_res (\<lambda>e. targets_of nets (ne_name e) (ne_pins e)) (cd_extend d)) (\<lambda>extended.
       Inr (concat created @ concat extended)))"

definition add_pin :: "net_intent list \<Rightarrow> nat \<Rightarrow> logical_pin \<Rightarrow> net_intent list" where
  "add_pin nets i p = nets[i := (nets ! i)\<lparr>nt_pins := nt_pins (nets ! i) @ [p]\<rparr>]"

fun connect_pins ::
    "synth_env \<Rightarrow> (string \<times> chosen_part) list \<Rightarrow> string list \<Rightarrow> (nat \<times> logical_pin) list \<Rightarrow> net_intent list \<times> owners
     \<Rightarrow> merge_error + net_intent list \<times> owners" where
  "connect_pins sy index no_connect [] (nets, owner) = Inr (nets, owner)"
| "connect_pins sy index no_connect ((i, p) # rest) (nets, owner) =
     bind_res (physical_key sy index p) (\<lambda>key.
       case map_of owner key of
         Some existing \<Rightarrow> if lower existing = lower (nt_name (nets ! i)) then connect_pins sy index no_connect rest (nets, owner)
                          else Inl (PinReserved key existing)
       | None \<Rightarrow> if key \<in> set no_connect then Inl (PinNotConnected key)
                 else connect_pins sy index no_connect rest (add_pin nets i p, AList.update key (nt_name (nets ! i)) owner))"

fun mark_no_connect ::
    "synth_env \<Rightarrow> (string \<times> chosen_part) list \<Rightarrow> owners \<Rightarrow> logical_pin list \<Rightarrow> logical_pin list \<times> string list
     \<Rightarrow> merge_error + logical_pin list \<times> string list" where
  "mark_no_connect sy index owner [] (pins, keys) = Inr (pins, keys)"
| "mark_no_connect sy index owner (p # ps) (pins, keys) =
     bind_res (physical_key sy index p) (\<lambda>key.
       case map_of owner key of
         Some existing \<Rightarrow> Inl (PinReserved key existing)
       | None \<Rightarrow> mark_no_connect sy index owner ps (if key \<in> set keys then (pins, keys) else (pins @ [p], keys @ [key])))"

fun add_supplies :: "string \<Rightarrow> net_intent list \<Rightarrow> string list \<Rightarrow> string list" where
  "add_supplies ground [] supply = supply"
| "add_supplies ground (n # ns) supply =
     add_supplies ground ns
       (if nt_kind n = ''power'' \<and> lower (nt_name n) \<noteq> lower ground \<and> lower (nt_name n) \<notin> set (map lower supply)
        then supply @ [nt_name n] else supply)"

fun complete_batch :: "string \<Rightarrow> string \<Rightarrow> batch_checkpoint list \<Rightarrow> batch_checkpoint list" where
  "complete_batch batch_id delta_hash [] = []"
| "complete_batch batch_id delta_hash (b # bs) =
     (if bc_id b = batch_id
      then b\<lparr>bc_attempts := bc_attempts b + 1, bc_fingerprint := delta_hash, bc_error := [], bc_status := BatchCompleted\<rparr> # bs
      else b # complete_batch batch_id delta_hash bs)"

text \<open>The aggregate with the transaction in it, and the nets of its physical pins.\<close>

definition extend_aggregate ::
    "synth_env \<Rightarrow> (string \<times> chosen_part) list \<Rightarrow> netlist_intent \<Rightarrow> connection_delta \<Rightarrow> string list \<Rightarrow> merge_error + netlist_intent \<times> owners" where
  "extend_aggregate sy index a d required =
     bind_res (aggregate_ownership sy a index) (\<lambda>(owner, no_connect).
     bind_res (create_nets (cd_create d) (nl_nets a)) (\<lambda>nets.
     bind_res (delta_targets nets d) (\<lambda>targets.
     bind_res (connect_pins sy index no_connect targets (nets, owner)) (\<lambda>(nets, owner).
     bind_res (mark_no_connect sy index owner (cd_no_connect d) (nl_no_connect a, no_connect)) (\<lambda>(pins, keys).
       let missing = filter (\<lambda>k. map_of owner k = None \<and> k \<notin> set keys) required
       in if missing \<noteq> [] then Inl (Undisposed (sort_key natural_ref_key missing))
          else Inr (a\<lparr>nl_nets := nets, nl_no_connect := pins, nl_supply := add_supplies (nl_ground a) (cd_create d) (nl_supply a)\<rparr>, owner))))))"

definition check_visible :: "batch_spec \<Rightarrow> connection_delta \<Rightarrow> merge_error + unit" where
  "check_visible batch d =
     bind_res (visible_pins batch (concat (map nt_pins (cd_create d)))) (\<lambda>_.
     bind_res (visible_pins batch (concat (map ne_pins (cd_extend d)))) (\<lambda>_. owned_no_connects batch (cd_no_connect d)))"

definition commit_delta ::
    "synth_env \<Rightarrow> synthesis_checkpoint \<Rightarrow> batch_spec \<Rightarrow> connection_delta \<Rightarrow> chosen_part list \<Rightarrow> merge_error + synthesis_checkpoint" where
  "commit_delta sy c batch d parts =
     bind_res (part_index parts []) (\<lambda>index.
     bind_res (required_owned_physical_pins sy batch index) (\<lambda>required.
     bind_res (check_visible batch d) (\<lambda>_.
     bind_res (extend_aggregate sy index (cc_aggregate c) d required) (\<lambda>(a, owner).
       validated_checkpoint (c\<lparr>cc_aggregate := a,
         cc_batches := complete_batch (bs_id batch) (connection_delta_fingerprint d) (cc_batches c),
         cc_revision := cc_revision c + 1,
         cc_reservations := filter (\<lambda>(key, _). lower (ref_part key) \<in> set (map lower (pn_shared (cc_plan c)))) owner\<rparr>)))))"

definition merge_connection_delta ::
    "synth_env \<Rightarrow> synthesis_checkpoint \<Rightarrow> connection_delta \<Rightarrow> chosen_part list \<Rightarrow> merge_error + synthesis_checkpoint" where
  "merge_connection_delta sy c0 d parts =
     bind_res (validated_checkpoint c0) (\<lambda>c.
       if cc_selection c \<noteq> selection_fingerprint sy parts then Inl StaleSelection
       else case (find (\<lambda>b. bs_id b = cd_batch d) (pn_batches (cc_plan c)), find (\<lambda>b. bc_id b = cd_batch d) (cc_batches c)) of
              (Some batch, Some status) \<Rightarrow>
                let incomplete = map bc_id (filter (\<lambda>b. \<not> completed_batch b) (take (bs_sequence batch) (cc_batches c)))
                in if incomplete \<noteq> [] then Inl (IncompletePredecessors incomplete)
                   else if completed_batch status
                   then (if bc_fingerprint status = connection_delta_fingerprint d then Inr c else Inl (DifferentDelta (cd_batch d)))
                   else if cd_base d \<noteq> cc_revision c then Inl (StaleRevision (cd_base d) (cc_revision c))
                   else commit_delta sy c batch d parts
            | _ \<Rightarrow> Inl (UnknownBatch (cd_batch d)))"

section \<open>The report\<close>

datatype synthesis_mode = Direct | Batched

record synthesis_report =
  sr_mode :: synthesis_mode
  sr_estimate :: output_estimate
  sr_planned :: int
  sr_completed :: int
  sr_pending :: int
  sr_skipped :: int
  sr_failed :: int
  sr_llm :: int
  sr_round :: int
  sr_resumable :: bool
  sr_stop_reason :: string
  sr_total :: int
  sr_connected :: int
  sr_no_connect :: int
  sr_undisposed :: int
  sr_coverage :: rat

text \<open>The contract of a report; a ratio within \<open>1e-9\<close> of the expected one is accepted.\<close>

definition report_ok :: "synthesis_report \<Rightarrow> bool" where
  "report_ok r \<longleftrightarrow>
     0 \<le> sr_planned r \<and> 0 \<le> sr_completed r \<and> 0 \<le> sr_pending r \<and> 0 \<le> sr_skipped r \<and> 0 \<le> sr_failed r \<and> 0 \<le> sr_llm r \<and> 0 \<le> sr_round r
     \<and> length (sr_stop_reason r) \<le> 4000 \<and> 0 \<le> sr_total r \<and> 0 \<le> sr_connected r \<and> 0 \<le> sr_no_connect r \<and> 0 \<le> sr_undisposed r
     \<and> 0 \<le> sr_coverage r \<and> sr_coverage r \<le> 1
     \<and> sr_completed r + sr_pending r + sr_skipped r + sr_failed r = sr_planned r \<and> sr_round r \<le> sr_llm r
     \<and> sr_undisposed r \<le> sr_total r \<and> sr_total r - sr_undisposed r \<le> sr_connected r + sr_no_connect r
     \<and> \<bar>sr_coverage r - (if sr_total r = 0 then 1 else of_int (sr_total r - sr_undisposed r) / of_int (sr_total r))\<bar> \<le> 1 / 10 ^ 9"

definition is_intrinsic_no_connect :: "sym_pin \<Rightarrow> bool" where
  "is_intrinsic_no_connect pin \<longleftrightarrow> lower (strip (sn_type pin)) = ''no_connect''
     \<or> upper (strip (sn_name pin)) \<in> {''NC'', ''N/C'', ''DNC'', ''DO_NOT_CONNECT''}"

definition required_pins :: "synth_env \<Rightarrow> chosen_part list \<Rightarrow> string list" where
  "required_pins sy parts =
     remdups (concat (map (\<lambda>part. case symbol_pins sy part of None \<Rightarrow> []
       | Some pins \<Rightarrow> map (\<lambda>p. physical part (strip (sn_number p))) (filter (\<lambda>p. \<not> is_intrinsic_no_connect p) (numbered pins))) parts))"

definition resolved_among :: "synth_env \<Rightarrow> (string \<times> chosen_part) list \<Rightarrow> string list \<Rightarrow> logical_pin list \<Rightarrow> string list" where
  "resolved_among sy index required pins =
     remdups (concat (map (\<lambda>p. case physical_key sy index p of Inl _ \<Rightarrow> [] | Inr key \<Rightarrow> if key \<in> set required then [key] else []) pins))"

definition connection_synthesis_report ::
    "synth_env \<Rightarrow> chosen_part list \<Rightarrow> netlist_intent \<Rightarrow> synthesis_mode \<Rightarrow> output_estimate \<Rightarrow> synthesis_checkpoint option \<Rightarrow> int \<Rightarrow> int
     \<Rightarrow> bool \<Rightarrow> string \<Rightarrow> merge_error + synthesis_report" where
  "connection_synthesis_report sy parts a mode estimate checkpoint llm_calls round_llm_calls resumable stop_reason =
     bind_res (part_index parts []) (\<lambda>index.
       let required = required_pins sy parts;
           unresolved = sum_list (map (\<lambda>p. fst (pin_count sy UNKNOWN_SYMBOL_PIN_ESTIMATE p)) (filter (\<lambda>p. symbol_pins sy p = None) parts));
           connected = resolved_among sy index required (concat (map nt_pins (nl_nets a)));
           no_connect = resolved_among sy index required (nl_no_connect a);
           total = int (length required + unresolved);
           disposed = int (card (set connected \<union> set no_connect));
           statuses = (case checkpoint of None \<Rightarrow> [] | Some c \<Rightarrow> map bc_status (cc_batches c));
           r = \<lparr>sr_mode = mode, sr_estimate = estimate, sr_planned = int (length statuses),
             sr_completed = count_if (\<lambda>s. s = BatchCompleted) statuses, sr_pending = count_if (\<lambda>s. s = BatchPending) statuses,
             sr_skipped = count_if (\<lambda>s. s = BatchSkipped) statuses, sr_failed = count_if (\<lambda>s. s = BatchFailed) statuses,
             sr_llm = (case checkpoint of None \<Rightarrow> llm_calls | Some c \<Rightarrow> cc_llm c),
             sr_round = (case checkpoint of None \<Rightarrow> round_llm_calls | Some c \<Rightarrow> cc_round c),
             sr_resumable = resumable, sr_stop_reason = stop_reason, sr_total = total, sr_connected = int (length connected),
             sr_no_connect = int (length no_connect), sr_undisposed = max 0 (total - disposed),
             sr_coverage = (if total = 0 then 1 else of_int disposed / of_int total)\<rparr>
       in if report_ok r then Inr r else Inl ReportContract)"

end
