(* ===== verification/Connection_Facts.thy ===== *)
theory Connection_Facts
  imports Connection_Merge
begin

text \<open>
  Properties of the batch plan and of the merge of one batch: the batches own every part that has
  pins exactly once, and a merge only adds, gives every pin at most one disposition and leaves no
  pin of its parts without one.
\<close>

section \<open>Batches under construction\<close>

definition raw_refs :: "raw_batch list \<Rightarrow> string list" where
  "raw_refs raw = concat (map (\<lambda>(blocks, refs, pins). refs) raw)"

lemma raw_refs_simps [simp]:
  "raw_refs [] = []" "raw_refs ((b, r, n) # raw) = r @ raw_refs raw" "raw_refs (xs @ ys) = raw_refs xs @ raw_refs ys"
  by (simp_all add: raw_refs_def)

text \<open>What a batch has throughout: distinct known blocks, and the pins of its parts.\<close>

definition raw_ok :: "string set \<Rightarrow> (string \<Rightarrow> nat) \<Rightarrow> raw_batch \<Rightarrow> bool" where
  "raw_ok names count = (\<lambda>(blocks, refs, pins). distinct blocks \<and> blocks \<noteq> [] \<and> set blocks \<subseteq> names \<and> pins = sum_list (map count refs))"

lemma batch_loop_refs: "raw_refs (batch_loop oversized target work (blocks, refs, pins)) = refs @ map fst work"
  by (induction oversized target work "(blocks, refs, pins)" arbitrary: blocks refs pins rule: batch_loop.induct) auto

lemma raw_ok_iff:
  "raw_ok names count (blocks, refs, pins) \<longleftrightarrow> distinct blocks \<and> blocks \<noteq> [] \<and> set blocks \<subseteq> names \<and> pins = sum_list (map count refs)"
  by (simp add: raw_ok_def)

lemma batch_loop_ok:
  assumes "distinct blocks" "set blocks \<subseteq> names" "refs \<noteq> [] \<longrightarrow> blocks \<noteq> []" "pins = sum_list (map count refs)"
    and "\<forall>(r, n, b) \<in> set work. n = count r \<and> b \<in> names"
  shows "\<forall>x \<in> set (batch_loop oversized target work (blocks, refs, pins)). raw_ok names count x"
  using assms
proof (induction work arbitrary: blocks refs pins)
  case Nil
  then show ?case by (simp add: raw_ok_iff)
next
  case (Cons x rest)
  obtain ref n block where x: "x = (ref, n, block)" by (cases x)
  have rest: "\<forall>(r, n, b) \<in> set rest. n = count r \<and> b \<in> names" and head: "n = count ref" "block \<in> names"
    using Cons.prems(5) by (auto simp: x)
  note IH = Cons.IH [OF _ _ _ _ rest]
  define grown where "grown = (if block \<in> set blocks then blocks else blocks @ [block])"
  have "distinct grown" "set grown \<subseteq> names" "grown \<noteq> []"
    using Cons.prems(1,2) head by (auto simp: grown_def)
  then have "\<forall>x \<in> set (batch_loop oversized target rest (grown, refs @ [ref], pins + n)). raw_ok names count x"
    using Cons.prems(4) head by (intro IH) auto
  moreover have "\<forall>x \<in> set (batch_loop oversized target rest ([], [], 0)). raw_ok names count x" by (intro IH) auto
  moreover have "\<forall>x \<in> set (batch_loop oversized target rest ([block], [ref], n)). raw_ok names count x"
    using head by (intro IH) auto
  moreover have "raw_ok names count ([block], [ref], n)" using head by (simp add: raw_ok_iff)
  moreover have "refs \<noteq> [] \<Longrightarrow> raw_ok names count (blocks, refs, pins)" using Cons.prems(1-4) by (simp add: raw_ok_iff)
  ultimately show ?case by (simp add: x grown_def [symmetric])
qed

lemma merge_tail_spec:
  assumes "1 \<le> cap" "\<forall>x \<in> set raw. raw_ok names count x"
  shows "raw_refs (merge_tail cap raw) = raw_refs raw \<and> length (merge_tail cap raw) \<le> cap \<and> (merge_tail cap raw = [] \<longleftrightarrow> raw = [])
    \<and> (\<forall>x \<in> set (merge_tail cap raw). raw_ok names count x)"
  using assms
proof (induction cap raw rule: merge_tail.induct)
  case (1 cap raw)
  show ?case
  proof (cases "length raw \<le> cap \<or> length raw < 2")
    case True
    with 1 show ?thesis by (auto simp: merge_tail.simps [of cap raw])
  next
    case False
    have "raw = butlast (butlast raw) @ [last (butlast raw), last raw]"
    proof -
      have "raw \<noteq> []" "butlast raw \<noteq> []" using False by (auto simp: butlast_conv_take)
      then show ?thesis by (metis append.assoc append_Cons append_Nil append_butlast_last_id)
    qed
    then obtain front lb lr ln rb rr rn where raw: "raw = front @ [(lb, lr, ln), (rb, rr, rn)]"
      by (metis prod_cases3)
    define merged where "merged = front @ [(dedup (lb @ rb), lr @ rr, ln + rn)]"
    have step: "merge_tail cap raw = merge_tail cap merged"
      using False by (subst merge_tail.simps) (simp add: raw merged_def butlast_append)
    have "raw_ok names count (lb, lr, ln)" "raw_ok names count (rb, rr, rn)" "\<forall>x \<in> set front. raw_ok names count x"
      using 1(3) by (simp_all add: raw)
    then have "\<forall>x \<in> set merged. raw_ok names count x" by (auto simp: merged_def raw_ok_def)
    moreover have "raw_refs merged = raw_refs raw" "merged \<noteq> []" "raw \<noteq> []" by (simp_all add: merged_def raw)
    ultimately show ?thesis
      using 1(1) [OF False, of "(lb, lr, ln)" "(rb, rr, rn)" lb "(lr, ln)" lr ln rb "(rr, rn)" rr rn] 1(2) step
      by (simp add: raw merged_def [symmetric] butlast_append)
  qed
qed

section \<open>Identities\<close>

lemma length_canonical_hash: "n \<le> 64 \<Longrightarrow> length (canonical_hash v n) = n"
  by (simp add: canonical_hash_def length_sha256)

lemma int_of_digits_snoc: "int_of_digits (s @ [c]) = 10 * int_of_digits s + (chr_code c - 48)"
  by (simp add: int_of_digits_def)

lemma digit_code: "n < 10 \<Longrightarrow> chr_code (digit_char n) = 48 + int n"
proof -
  assume n: "n < 10"
  have "of_char (char_of (48 + n)) = (48 + n) mod (256 :: nat)" by simp
  with n have "int (of_char (char_of (48 + n) :: char)) = 48 + int n" by simp
  then show ?thesis unfolding digit_char_def chr_code_def by (simp only: of_nat_of_char)
qed

lemma int_of_digits_nat_str: "int_of_digits (nat_str n) = int n"
proof (induction n rule: nat_str.induct)
  case (1 n)
  show ?case
  proof (cases "n < 10")
    case True
    then show ?thesis by (subst nat_str.simps) (simp add: int_of_digits_def digit_code)
  next
    case False
    moreover have "10 * int (n div 10) + int (n mod 10) = int n" by presburger
    ultimately show ?thesis by (subst nat_str.simps) (simp add: int_of_digits_snoc 1 digit_code)
  qed
qed

lemma nat_str_digits: "c \<in> set (nat_str n) \<Longrightarrow> is_digit c"
proof (induction n arbitrary: c rule: nat_str.induct)
  case (1 n)
  then show ?case
    by (subst (asm) nat_str.simps) (auto simp: is_digit_def chr_between_def digit_code split: if_splits)
qed

lemma length_nat_str: "n < 10 ^ k \<Longrightarrow> 0 < k \<Longrightarrow> length (nat_str n) \<le> k"
proof (induction n arbitrary: k rule: nat_str.induct)
  case (1 n)
  show ?case
  proof (cases "n < 10")
    case True
    then show ?thesis using 1(3) by (subst nat_str.simps) simp
  next
    case False
    with 1(2) obtain j where k: "k = Suc j" "0 < j" by (cases k; cases "k - 1") auto
    then have "n div 10 < 10 ^ j" using 1(2) by (simp add: div_less_iff_less_mult mult.commute)
    then show ?thesis using 1(1) [OF False] False k by (subst nat_str.simps) simp
  qed
qed

lemma int_of_two_digits: "int_of_digits (two_digits n) = int n"
  using int_of_digits_nat_str [of n] by (simp add: two_digits_def int_of_digits_def chr_code_def)

lemma two_digits_no_dash: "CHR ''-'' \<notin> set (two_digits n)"
  using nat_str_digits [of "CHR ''-''" n] by (auto simp: two_digits_def is_digit_def chr_between_def chr_code_def)

lemma batch_identity_inject:
  assumes "batch_identity i a b c = batch_identity j a' b' c'"
  shows "i = j"
proof -
  have front: "takeWhile (\<lambda>c. c \<noteq> CHR ''-'') (two_digits n @ ''-'' @ h) = two_digits n" for n h
    using two_digits_no_dash [of n] by (subst takeWhile_append2) auto
  obtain h h' where "two_digits (i + 1) @ ''-'' @ h = two_digits (j + 1) @ ''-'' @ h'"
    using assms by (auto simp: batch_identity_def)
  then have "two_digits (i + 1) = two_digits (j + 1)" using front by metis
  then have "int (i + 1) = int (j + 1)" using int_of_two_digits by metis
  then show ?thesis by simp
qed

lemma length_batch_identity: "i < 999 \<Longrightarrow> bounded 1 80 (batch_identity i a b c)"
  using length_nat_str [of "i + 1" 3] by (simp add: batch_identity_def bounded_def two_digits_def length_canonical_hash)

section \<open>The plan\<close>

text \<open>A set is iterated in some order, without repetition.\<close>

definition set_iteration :: "synth_env \<Rightarrow> bool" where
  "set_iteration sy \<longleftrightarrow> (\<forall>xs. distinct (se_order sy xs) \<and> set (se_order sy xs) = set xs)"

lemma sorted_refs_spec: "set_iteration sy \<Longrightarrow> distinct (sorted_refs sy xs) \<and> set (sorted_refs sy xs) = set xs"
  by (simp add: set_iteration_def sorted_refs_def)

definition block_names :: "topology_plan \<Rightarrow> string set" where
  "block_names t = insert INTEGRATION_BLOCK (set (map tb_name (tp_blocks t)))"

lemma best_block_name: "best_block (tp_blocks t) p \<in> block_names t"
proof -
  define best where "best = foldr max (map (block_score p) (tp_blocks t)) 0"
  define winners where "winners = filter (\<lambda>b. block_score p b = best \<and> block_score p b > 0) (tp_blocks t)"
  have name: "best_block (tp_blocks t) p = (case winners of [b] \<Rightarrow> tb_name b | _ \<Rightarrow> INTEGRATION_BLOCK)"
    by (simp add: best_block_def best_def winners_def)
  have "set winners \<subseteq> set (tp_blocks t)" by (simp add: winners_def)
  then show ?thesis by (cases winners; cases "tl winners") (auto simp: name block_names_def)
qed

text \<open>The pins of the part with a given reference.\<close>

definition ref_count :: "synth_env \<Rightarrow> nat \<Rightarrow> chosen_part list \<Rightarrow> string \<Rightarrow> nat" where
  "ref_count sy u parts r = (case find (\<lambda>p. pt_ref p = r) parts of None \<Rightarrow> 0 | Some p \<Rightarrow> fst (pin_count sy u p))"

lemma find_part: "distinct (map pt_ref parts) \<Longrightarrow> p \<in> set parts \<Longrightarrow> find (\<lambda>q. pt_ref q = pt_ref p) parts = Some p"
  by (induction parts) force+

lemma ref_count_part: "distinct (map pt_ref parts) \<Longrightarrow> p \<in> set parts \<Longrightarrow> ref_count sy u parts (pt_ref p) = fst (pin_count sy u p)"
  by (simp add: ref_count_def find_part)

abbreviation assigned :: "topology_plan \<Rightarrow> chosen_part list \<Rightarrow> (string \<times> string) list" where
  "assigned t parts \<equiv> map (\<lambda>p. (pt_ref p, best_block (tp_blocks t) p)) (sort_key (\<lambda>p. natural_ref_key (pt_ref p)) parts)"

lemma assign_without_requests: "assign_parts_to_topology_blocks t parts [] = Inr (assigned t parts)"
proof -
  have "map_res (\<lambda>p. Inr (f p)) ps = Inr (map f ps)" for f :: "chosen_part \<Rightarrow> string \<times> string" and ps
    by (induction ps) simp_all
  then show ?thesis by (simp add: assign_parts_to_topology_blocks_def assign_block_def)
qed

lemma map_of_assigned:
  assumes "distinct (map pt_ref parts)" "p \<in> set parts"
  shows "map_of (assigned t parts) (pt_ref p) = Some (best_block (tp_blocks t) p)"
proof -
  have "distinct (map pt_ref (sort_key (\<lambda>p. natural_ref_key (pt_ref p)) parts))"
    using assms(1) by (simp add: distinct_map)
  then show ?thesis using assms(2) by (intro map_of_is_SomeI) (auto simp: comp_def)
qed

lemma work_spec:
  assumes "distinct (map pt_ref parts)" and work_def: "work = parts_with_counts sy u t parts (assigned t parts) shared"
  shows "distinct (map fst work)" and "set (map fst work) = {pt_ref p | p. p \<in> set parts \<and> pt_ref p \<notin> set shared \<and> fst (pin_count sy u p) \<noteq> 0}"
    and "\<forall>(r, n, b) \<in> set work. n = ref_count sy u parts r \<and> b \<in> block_names t"
proof -
  define chosen where "chosen = filter (\<lambda>p. pt_ref p \<notin> set shared \<and> fst (pin_count sy u p) \<noteq> 0) parts"
  define block where "block = (\<lambda>p :: chosen_part. case map_of (assigned t parts) (pt_ref p) of None \<Rightarrow> [] | Some b \<Rightarrow> b)"
  define ordered where "ordered = sort_key (\<lambda>p. (block_index t (block p), lower (pt_role p), natural_ref_key (pt_ref p))) chosen"
  have work: "work = map (\<lambda>p. (pt_ref p, fst (pin_count sy u p), block p)) ordered"
    by (simp add: work_def parts_with_counts_def ordered_def chosen_def block_def)
  have set_ordered: "set ordered = {p \<in> set parts. pt_ref p \<notin> set shared \<and> fst (pin_count sy u p) \<noteq> 0}"
    by (auto simp: ordered_def chosen_def)
  have "distinct (map pt_ref chosen)" using assms(1) by (simp add: chosen_def distinct_map_filter)
  then have "distinct (map pt_ref ordered)" by (simp add: ordered_def distinct_map)
  then show "distinct (map fst work)" by (simp add: work comp_def)
  show "set (map fst work) = {pt_ref p | p. p \<in> set parts \<and> pt_ref p \<notin> set shared \<and> fst (pin_count sy u p) \<noteq> 0}"
    by (auto simp: work set_ordered)
  have "block p \<in> block_names t" if "p \<in> set parts" for p
    using that map_of_assigned [OF assms(1) that, of t] best_block_name by (simp add: block_def)
  then show "\<forall>(r, n, b) \<in> set work. n = ref_count sy u parts r \<and> b \<in> block_names t"
    using ref_count_part [OF assms(1)] by (auto simp: work set_ordered)
qed

text \<open>The parts of the plan, with the shared references and blocks that the code infers.\<close>

definition planned_shared :: "synth_env \<Rightarrow> chosen_part list \<Rightarrow> nat \<Rightarrow> string list" where
  "planned_shared sy parts mb = (if mb = 1 then [] else sorted_refs sy (map pt_ref (filter (central_part sy) parts)))"

definition planned_oversized :: "synth_env \<Rightarrow> nat \<Rightarrow> chosen_part list \<Rightarrow> nat \<Rightarrow> string list" where
  "planned_oversized sy u parts target = sort_key natural_ref_key (map pt_ref (filter (\<lambda>p. fst (pin_count sy u p) > target) parts))"

definition planned_work :: "synth_env \<Rightarrow> nat \<Rightarrow> topology_plan \<Rightarrow> chosen_part list \<Rightarrow> nat \<Rightarrow> (string \<times> nat \<times> string) list" where
  "planned_work sy u t parts mb = parts_with_counts sy u t parts (assigned t parts) (planned_shared sy parts mb)"

definition ordinary_cap :: "synth_env \<Rightarrow> chosen_part list \<Rightarrow> nat \<Rightarrow> nat" where
  "ordinary_cap sy parts mb = mb - (if planned_shared sy parts mb = [] then 0 else 1)"

definition planned_target :: "synth_env \<Rightarrow> nat \<Rightarrow> topology_plan \<Rightarrow> chosen_part list \<Rightarrow> nat \<Rightarrow> nat \<Rightarrow> nat" where
  "planned_target sy u t parts target mb = effective_target target (ordinary_cap sy parts mb) (planned_oversized sy u parts target)
     (planned_shared sy parts mb) (planned_work sy u t parts mb)"

definition planned_raw :: "synth_env \<Rightarrow> nat \<Rightarrow> topology_plan \<Rightarrow> chosen_part list \<Rightarrow> nat \<Rightarrow> nat \<Rightarrow> raw_batch list" where
  "planned_raw sy u t parts target mb = raw_batches (planned_target sy u t parts target mb) (ordinary_cap sy parts mb)
     (planned_oversized sy u parts target) (planned_shared sy parts mb) (planned_work sy u t parts mb)"

definition planned_batches :: "synth_env \<Rightarrow> nat \<Rightarrow> topology_plan \<Rightarrow> chosen_part list \<Rightarrow> nat \<Rightarrow> nat \<Rightarrow> batch_spec list" where
  "planned_batches sy u t parts target mb =
     (let shared = planned_shared sy parts mb; raw = planned_raw sy u t parts target mb;
          ordinary = map (\<lambda>(i, blocks, owned, pins). make_batch i blocks owned shared pins) (enumerate 0 raw)
      in ordinary @ (if shared = [] then []
           else [make_batch (length ordinary) [INTEGRATION_BLOCK] shared (sorted_refs sy (filter (\<lambda>r. r \<notin> set shared) (map pt_ref parts)))
             (sum_list (map (\<lambda>p. fst (pin_count sy u p)) (filter (\<lambda>p. pt_ref p \<in> set shared) parts)))]))"

definition planned :: "synth_env \<Rightarrow> nat \<Rightarrow> topology_plan \<Rightarrow> chosen_part list \<Rightarrow> nat \<Rightarrow> nat \<Rightarrow> batch_plan" where
  "planned sy u t parts target mb =
     (let plan = \<lparr>pn_topology = topology_fingerprint t, pn_selection = selection_fingerprint sy parts, pn_fingerprint = [],
        pn_target = int target, pn_effective = int (planned_target sy u t parts target mb), pn_max = int mb,
        pn_shared = planned_shared sy parts mb, pn_oversized = planned_oversized sy u parts target, pn_supported = True,
        pn_batches = planned_batches sy u t parts target mb\<rparr>
      in plan\<lparr>pn_fingerprint := canonical_hash (plan_fingerprint_payload plan) 20\<rparr>)"

lemma plan_expand:
  assumes "set_iteration sy" "0 < target" "0 < mb" "0 < u"
  shows "plan_connection_batches sy t parts target mb None [] u
    = (if batch_plan_ok (planned sy u t parts target mb) then Inr (planned sy u t parts target mb) else Inl PlanContract)"
proof -
  define inferred where "inferred = sorted_refs sy (map pt_ref (filter (central_part sy) parts))"
  have "set inferred \<subseteq> set (map pt_ref parts)" using sorted_refs_spec [OF assms(1)] by (auto simp: inferred_def)
  then have "filter (\<lambda>r. r \<notin> set (map pt_ref parts)) inferred = []" by (auto simp: filter_empty_conv)
  moreover have "sorted_refs sy [] = []" using sorted_refs_spec [OF assms(1), of "[]"] by simp
  ultimately have known: "sorted_refs sy (filter (\<lambda>r. r \<notin> set (map pt_ref parts)) inferred) = []" by simp
  have infer: "infer_shared_refs sy t parts [] = Inr inferred"
    by (simp add: infer_shared_refs_def assign_without_requests inferred_def)
  show ?thesis
    using assms(2-4) known
    unfolding plan_connection_batches_def infer assign_without_requests option.case bind_res_simps Let_def
      planned_def planned_batches_def planned_raw_def planned_target_def ordinary_cap_def planned_work_def planned_oversized_def
      planned_shared_def inferred_def [symmetric]
    by simp
qed

lemma planned_shared_spec:
  assumes "set_iteration sy"
  shows "distinct (planned_shared sy parts mb)" "set (planned_shared sy parts mb) \<subseteq> {pt_ref p | p. p \<in> set parts \<and> central_part sy p}"
  using sorted_refs_spec [OF assms] by (auto simp: planned_shared_def)

lemma ordinary_cap_pos: "0 < mb \<Longrightarrow> 1 \<le> ordinary_cap sy parts mb"
  by (cases "mb = 1") (auto simp: ordinary_cap_def planned_shared_def)

lemma planned_raw_spec:
  assumes "distinct (map pt_ref parts)" "0 < mb" and raw: "raw = planned_raw sy u t parts target mb"
  shows "raw_refs raw = map fst (planned_work sy u t parts mb)" "length raw \<le> ordinary_cap sy parts mb"
    "raw = [] \<Longrightarrow> planned_shared sy parts mb \<noteq> []" "\<forall>x \<in> set raw. raw_ok (block_names t) (ref_count sy u parts) x"
proof -
  define first where "first = batch_loop (planned_oversized sy u parts target) (planned_target sy u t parts target mb) (planned_work sy u t parts mb) ([], [], 0)"
  define start where "start = (if first = [] \<and> planned_shared sy parts mb = [] then [([INTEGRATION_BLOCK], [], 0)] else first)"
  have merged: "raw = merge_tail (ordinary_cap sy parts mb) start"
    by (simp add: raw planned_raw_def raw_batches_def first_def start_def Let_def)
  have "\<forall>x \<in> set first. raw_ok (block_names t) (ref_count sy u parts) x"
    unfolding first_def using work_spec(3) [OF assms(1) planned_work_def, of sy u t mb] by (intro batch_loop_ok) auto
  then have ok: "\<forall>x \<in> set start. raw_ok (block_names t) (ref_count sy u parts) x"
    by (auto simp: start_def raw_ok_iff block_names_def)
  note spec = merge_tail_spec [OF ordinary_cap_pos [OF assms(2)] ok, of sy parts]
  have refs: "raw_refs first = map fst (planned_work sy u t parts mb)" by (simp add: first_def batch_loop_refs)
  then have "raw_refs start = map fst (planned_work sy u t parts mb)" by (auto simp: start_def)
  with spec show "raw_refs raw = map fst (planned_work sy u t parts mb)" by (simp add: merged)
  show "length raw \<le> ordinary_cap sy parts mb" "\<forall>x \<in> set raw. raw_ok (block_names t) (ref_count sy u parts) x"
    using spec by (simp_all add: merged)
  show "raw = [] \<Longrightarrow> planned_shared sy parts mb \<noteq> []" using spec by (auto simp: merged start_def split: if_splits)
qed

lemma make_batch_fields [simp]:
  "bs_id (make_batch i blocks owned shared pins) = batch_identity i blocks owned shared" "bs_sequence (make_batch i blocks owned shared pins) = i"
  "bs_blocks (make_batch i blocks owned shared pins) = blocks" "bs_owned (make_batch i blocks owned shared pins) = owned"
  "bs_shared (make_batch i blocks owned shared pins) = shared" "bs_pins (make_batch i blocks owned shared pins) = int pins"
  by (simp_all add: make_batch_def)

definition ordinary_batches :: "string list \<Rightarrow> raw_batch list \<Rightarrow> batch_spec list" where
  "ordinary_batches shared raw = map (\<lambda>(i, blocks, owned, pins). make_batch i blocks owned shared pins) (enumerate 0 raw)"

abbreviation integration_batch :: "synth_env \<Rightarrow> nat \<Rightarrow> chosen_part list \<Rightarrow> string list \<Rightarrow> nat \<Rightarrow> batch_spec" where
  "integration_batch sy u parts shared n \<equiv> make_batch n [INTEGRATION_BLOCK] shared
     (sorted_refs sy (filter (\<lambda>r. r \<notin> set shared) (map pt_ref parts)))
     (sum_list (map (\<lambda>p. fst (pin_count sy u p)) (filter (\<lambda>p. pt_ref p \<in> set shared) parts)))"

lemma ordinary_fields:
  "map bs_sequence (ordinary_batches shared raw) = [0 ..< length raw]" "concat (map bs_owned (ordinary_batches shared raw)) = raw_refs raw"
proof -
  have "map bs_sequence (map (\<lambda>(i, blocks, owned, pins). make_batch i blocks owned shared pins) (enumerate k xs)) = [k ..< k + length xs]
    \<and> concat (map bs_owned (map (\<lambda>(i, blocks, owned, pins). make_batch i blocks owned shared pins) (enumerate k xs))) = raw_refs xs" for k xs
    by (induction xs arbitrary: k) (auto simp: upt_rec)
  from this [of 0 raw] show "map bs_sequence (ordinary_batches shared raw) = [0 ..< length raw]"
    "concat (map bs_owned (ordinary_batches shared raw)) = raw_refs raw" by (simp_all add: ordinary_batches_def)
qed

lemma planned_batches_cases:
  assumes "shared = planned_shared sy parts mb" "raw = planned_raw sy u t parts target mb"
  shows "planned_batches sy u t parts target mb = ordinary_batches shared raw @ (if shared = [] then [] else [integration_batch sy u parts shared (length raw)])"
  by (simp add: planned_batches_def assms Let_def ordinary_batches_def)

lemma central_has_pins: "central_part sy p \<Longrightarrow> fst (pin_count sy u p) \<noteq> 0"
  by (auto simp: central_part_def pin_count_def Let_def split: option.splits)

text \<open>The batches own each part with pins once, and nothing else.\<close>

lemma planned_owners:
  assumes "set_iteration sy" "distinct (map pt_ref parts)" "0 < mb"
  shows "distinct (concat (map bs_owned (planned_batches sy u t parts target mb)))"
    and "set (concat (map bs_owned (planned_batches sy u t parts target mb))) = {pt_ref p | p. p \<in> set parts \<and> fst (pin_count sy u p) \<noteq> 0}"
proof -
  define shared where "shared = planned_shared sy parts mb"
  have owned: "concat (map bs_owned (planned_batches sy u t parts target mb)) = map fst (planned_work sy u t parts mb) @ shared"
    by (simp add: planned_batches_cases [OF shared_def refl] ordinary_fields planned_raw_spec(1) [OF assms(2,3) refl])
  note work = work_spec(1,2) [OF assms(2) planned_work_def, of sy u t mb]
  note shared = planned_shared_spec [OF assms(1), of parts mb, folded shared_def]
  show "distinct (concat (map bs_owned (planned_batches sy u t parts target mb)))"
    unfolding owned using work shared by (auto simp: shared_def)
  have "set shared \<subseteq> {pt_ref p | p. p \<in> set parts \<and> fst (pin_count sy u p) \<noteq> 0}"
    using shared(2) central_has_pins by blast
  then show "set (concat (map bs_owned (planned_batches sy u t parts target mb))) = {pt_ref p | p. p \<in> set parts \<and> fst (pin_count sy u p) \<noteq> 0}"
    unfolding owned set_append work(2) shared_def [symmetric] by blast
qed

text \<open>Every batch meets its contract, and counts the pins of its parts.\<close>

lemma sum_ref_count:
  assumes "distinct (map pt_ref parts)" "distinct refs" "set refs \<subseteq> set (map pt_ref parts)"
  shows "sum_list (map (\<lambda>p. fst (pin_count sy u p)) (filter (\<lambda>p. pt_ref p \<in> set refs) parts)) = sum_list (map (ref_count sy u parts) refs)"
proof -
  define chosen where "chosen = filter (\<lambda>p. pt_ref p \<in> set refs) parts"
  have "sum_list (map (\<lambda>p. fst (pin_count sy u p)) chosen) = sum_list (map (ref_count sy u parts) (map pt_ref chosen))"
    using ref_count_part [OF assms(1)] by (auto simp: chosen_def intro!: arg_cong [where f = sum_list])
  also have "\<dots> = sum (ref_count sy u parts) (set (map pt_ref chosen))"
    using assms(1) by (intro sum_list_distinct_conv_sum_set) (simp add: chosen_def distinct_map_filter)
  also have "set (map pt_ref chosen) = set refs" using assms(3) by (auto simp: chosen_def)
  also have "sum (ref_count sy u parts) (set refs) = sum_list (map (ref_count sy u parts) refs)"
    using assms(2) by (simp add: sum_list_distinct_conv_sum_set)
  finally show ?thesis by (simp add: chosen_def)
qed

lemma card_block_names: "card (block_names t) \<le> Suc (length (tp_blocks t))"
  unfolding block_names_def by (metis (no_types) card_insert_le_m1 card_length diff_Suc_1 length_map zero_less_Suc)

lemma length_of_distinct: "distinct xs \<Longrightarrow> set xs \<subseteq> A \<Longrightarrow> finite A \<Longrightarrow> card A \<le> n \<Longrightarrow> length xs \<le> n"
  by (metis card_mono distinct_card le_trans)

lemma few_refs: "selection_ok parts \<Longrightarrow> distinct xs \<Longrightarrow> set xs \<subseteq> set (map pt_ref parts) \<Longrightarrow> length xs \<le> 1000"
  using length_of_distinct [of xs "set (map pt_ref parts)"] card_length [of "map pt_ref parts"] by (simp add: selection_ok_def)

lemma length_ordinary [simp]: "length (ordinary_batches shared raw) = length raw"
  by (simp add: ordinary_batches_def)

lemma ordinary_batch:
  assumes "b \<in> set (ordinary_batches shared raw)"
  obtains i blocks owned pins where "i < length raw" "(blocks, owned, pins) \<in> set raw" "b = make_batch i blocks owned shared pins"
  using assms by (auto simp: ordinary_batches_def in_set_enumerate_eq) (metis nth_mem)

lemma batches_ok:
  assumes "set_iteration sy" "selection_ok parts" "length (tp_blocks t) \<le> 199" "0 < mb" "mb \<le> 128"
    and "b \<in> set (planned_batches sy u t parts target mb)"
  shows "batch_spec_ok b" and "bs_pins b = int (sum_list (map (ref_count sy u parts) (bs_owned b)))"
proof -
  define shared where "shared = planned_shared sy parts mb"
  define raw where "raw = planned_raw sy u t parts target mb"
  have refs: "distinct (map pt_ref parts)" "length parts \<le> 1000" using assms(2) by (simp_all add: selection_ok_def)
  note raw = planned_raw_spec [OF refs(1) assms(4) raw_def]
  note work = work_spec(1,2) [OF refs(1) planned_work_def, of sy u t mb, folded shared_def]
  note shared = planned_shared_spec [OF assms(1), of parts mb, folded shared_def]
  note few = few_refs [OF assms(2)]
  have shared_few: "length shared \<le> 1000" using shared by (intro few) auto
  have raw_len: "length raw + (if shared = [] then 0 else 1) \<le> mb"
    using raw(2) assms(4) by (auto simp: ordinary_cap_def shared_def)
  consider (ordinary) "b \<in> set (ordinary_batches shared raw)" | (integration) "shared \<noteq> []" "b = integration_batch sy u parts shared (length raw)"
    using assms(6) by (auto simp: planned_batches_cases [OF shared_def raw_def] split: if_splits)
  then have "batch_spec_ok b \<and> bs_pins b = int (sum_list (map (ref_count sy u parts) (bs_owned b)))"
  proof cases
    case ordinary
    then obtain i blocks owned pins where b: "i < length raw" "(blocks, owned, pins) \<in> set raw" "b = make_batch i blocks owned shared pins"
      by (rule ordinary_batch)
    have ok: "distinct blocks" "blocks \<noteq> []" "set blocks \<subseteq> block_names t" "pins = sum_list (map (ref_count sy u parts) owned)"
      using bspec [OF raw(4) b(2)] by (simp_all add: raw_ok_iff)
    have sub: "set owned \<subseteq> set (raw_refs raw)" "distinct (raw_refs raw) \<Longrightarrow> distinct owned"
      using b(2) by (auto simp: raw_refs_def distinct_concat_iff image_iff)
    then have owned: "distinct owned" "set owned \<subseteq> set (map pt_ref parts)" "set owned \<inter> set shared = {}"
      using work by (auto simp: raw(1))
    have "length blocks \<le> 200"
      using length_of_distinct [OF ok(1,3)] card_block_names [of t] assms(3) by (auto simp: block_names_def)
    moreover have "bounded 1 80 (batch_identity i blocks owned shared)"
      using b(1) raw_len assms(5) by (intro length_batch_identity) (auto split: if_splits)
    ultimately have "batch_spec_ok b"
      using ok owned shared_few shared few [OF owned(1,2)] by (auto simp: batch_spec_ok_def b(3) bounded_def Suc_le_eq)
    then show ?thesis by (simp add: b(3) ok(4))
  next
    case integration
    define leaf where "leaf = sorted_refs sy (filter (\<lambda>r. r \<notin> set shared) (map pt_ref parts))"
    have leaf: "distinct leaf" "set leaf \<subseteq> set (map pt_ref parts)" "set shared \<inter> set leaf = {}"
      using sorted_refs_spec [OF assms(1)] by (auto simp: leaf_def)
    have "bounded 1 80 (batch_identity (length raw) [INTEGRATION_BLOCK] shared leaf)"
      using raw_len assms(5) by (intro length_batch_identity) (auto split: if_splits)
    then have "batch_spec_ok b"
      using leaf shared shared_few few [OF leaf(1,2)] by (simp add: batch_spec_ok_def integration(2) leaf_def [symmetric] bounded_def)
    moreover have "set shared \<subseteq> set (map pt_ref parts)" using shared(2) by auto
    ultimately show ?thesis using sum_ref_count [OF refs(1) shared(1)] by (simp add: integration(2))
  qed
  then show "batch_spec_ok b" and "bs_pins b = int (sum_list (map (ref_count sy u parts) (bs_owned b)))" by simp_all
qed

lemma planned_ok:
  assumes "set_iteration sy" "selection_ok parts" "length (tp_blocks t) \<le> 199" "0 < target" "0 < mb" "mb \<le> 128"
  shows "batch_plan_ok (planned sy u t parts target mb)" and "length (planned_batches sy u t parts target mb) \<le> mb"
proof -
  define bs where "bs = planned_batches sy u t parts target mb"
  define shared where "shared = planned_shared sy parts mb"
  define raw where "raw = planned_raw sy u t parts target mb"
  define plan where "plan = planned sy u t parts target mb"
  have refs: "distinct (map pt_ref parts)" "length parts \<le> 1000" using assms(2) by (simp_all add: selection_ok_def)
  note raw_spec = planned_raw_spec [OF refs(1) assms(5) raw_def]
  have bs: "bs = ordinary_batches shared raw @ (if shared = [] then [] else [integration_batch sy u parts shared (length raw)])"
    using planned_batches_cases [OF shared_def raw_def] by (simp add: bs_def)
  have len: "length bs = length raw + (if shared = [] then 0 else 1)" by (simp add: bs)
  show few: "length (planned_batches sy u t parts target mb) \<le> mb"
    using raw_spec(2) assms(5) len by (auto simp: ordinary_cap_def bs_def shared_def split: if_splits)
  have "length bs \<noteq> 0" using raw_spec(3) by (auto simp: len shared_def)
  then have some: "bs \<noteq> []" by auto
  have seq: "map bs_sequence bs = [0 ..< length bs]" using ordinary_fields(1) [of shared raw] by (simp add: bs len)
  have "bs_id (bs ! i) = bs_id (bs ! j) \<Longrightarrow> i = j" if ij: "i < length bs" "j < length bs" for i j
  proof -
    assume same: "bs_id (bs ! i) = bs_id (bs ! j)"
    have made: "\<exists>blocks owned other pins. bs ! k = make_batch k blocks owned other pins" if "k < length bs" for k
    proof -
      have "bs ! k \<in> set bs" using that by simp
      then obtain n blocks owned other pins where m: "bs ! k = make_batch n blocks owned other pins"
        by (auto simp: bs elim!: ordinary_batch split: if_splits)
      moreover have "bs_sequence (bs ! k) = k" using that seq by (metis add_0 nth_map nth_upt)
      ultimately show ?thesis by auto
    qed
    from made [OF ij(1)] made [OF ij(2)] same show "i = j" by (auto dest: batch_identity_inject)
  qed
  then have ids: "distinct (map bs_id bs)" by (simp add: distinct_conv_nth) metis
  have ok: "list_all batch_spec_ok bs"
    using batches_ok(1) [OF assms(1-3,5,6)] by (auto simp: list_all_iff bs_def)
  have over: "distinct (planned_oversized sy u parts target)" "length (planned_oversized sy u parts target) \<le> 1000"
    using refs le_trans [OF length_filter_le refs(2)] by (simp_all add: planned_oversized_def distinct_map_filter)
  have sh: "length shared \<le> 1000"
    using planned_shared_spec [OF assms(1), of parts mb, folded shared_def] by (intro few_refs [OF assms(2)]) auto
  have fields: "pn_batches plan = bs" "pn_shared plan = shared" "pn_oversized plan = planned_oversized sy u parts target"
      "pn_target plan = int target" "pn_effective plan = int (planned_target sy u t parts target mb)" "pn_max plan = int mb"
      "pn_topology plan = topology_fingerprint t" "pn_selection plan = selection_fingerprint sy parts"
      "pn_fingerprint plan = canonical_hash (plan_fingerprint_payload plan) 20"
    by (simp_all add: plan_def planned_def bs_def shared_def Let_def plan_fingerprint_payload_def)
  have hashes: "bounded 1 64 (topology_fingerprint t)" "bounded 1 64 (selection_fingerprint sy parts)" "bounded 1 64 (canonical_hash v 20)" for v
    by (simp_all add: bounded_def topology_fingerprint_def selection_fingerprint_def length_canonical_hash)
  have "0 < planned_target sy u t parts target mb" using assms(4) by (simp add: planned_target_def effective_target_def Let_def less_max_iff_disj)
  then show "batch_plan_ok (planned sy u t parts target mb)"
    unfolding plan_def [symmetric] batch_plan_ok_def fields
    using hashes sh over ok ids seq some few assms planned_owners(1) [OF assms(1) refs(1) assms(5), of u t target, folded bs_def]
    by (auto simp: bs_def [symmetric] bounded_def Suc_le_eq)
qed

section \<open>The plan owns every part once\<close>

text \<open>
  C18: for a selection with unique references and at most 199 topology blocks, planning succeeds.  The
  plan has at most the allowed number of batches; every part that has pins, or whose symbol is
  unknown, is owned by exactly one batch, no other part is owned, and each batch states the number
  of pins of its parts.
\<close>

theorem connection_plan_partitions:
  assumes "set_iteration sy" "selection_ok parts" "length (tp_blocks t) \<le> 199" "0 < target" "0 < max_batches" "max_batches \<le> 128" "0 < u"
  shows "\<exists>p. plan_connection_batches sy t parts target max_batches None [] u = Inr p \<and> batch_plan_ok p
    \<and> length (pn_batches p) \<le> max_batches
    \<and> distinct (concat (map bs_owned (pn_batches p)))
    \<and> set (concat (map bs_owned (pn_batches p))) = {pt_ref q | q. q \<in> set parts \<and> fst (pin_count sy u q) \<noteq> 0}
    \<and> (\<forall>b \<in> set (pn_batches p). bs_pins b = int (sum_list (map (ref_count sy u parts) (bs_owned b))))"
proof -
  have refs: "distinct (map pt_ref parts)" using assms(2) by (simp add: selection_ok_def)
  have batches: "pn_batches (planned sy u t parts target max_batches) = planned_batches sy u t parts target max_batches"
    by (simp add: planned_def Let_def)
  show ?thesis
    using plan_expand [OF assms(1,4,5,7)] planned_ok [OF assms(1-6)] planned_owners [OF assms(1) refs assms(5)]
      batches_ok(2) [OF assms(1-3,5,6)]
    by (intro exI [of _ "planned sy u t parts target max_batches"]) (simp add: batches)
qed

definition probe_env :: synth_env where
  "probe_env = \<lparr>se_pins = (\<lambda>_. Some [\<lparr>sn_number = ''1'', sn_name = [], sn_type = []\<rparr>]), se_order = remdups\<rparr>"

definition probe_selection :: "chosen_part list" where
  "probe_selection = [\<lparr>pt_ref = ''TP1'', pt_symbol = [], pt_value = ''x'', pt_footprint = [], pt_role = []\<rparr>]"

lemma probe_owned: "{pt_ref q | q. q \<in> set probe_selection \<and> fst (pin_count probe_env 8 q) \<noteq> 0} = {''TP1''}"
proof -
  have "map (\<lambda>q. (pt_ref q, fst (pin_count probe_env 8 q))) probe_selection = [(''TP1'', 1)]" by code_simp
  then show ?thesis by (auto simp: probe_selection_def)
qed

theorem connection_plan_partitions_witness:
  "\<exists>p. plan_connection_batches probe_env \<lparr>tp_blocks = [], tp_rails = [], tp_ground = ''GND''\<rparr> probe_selection 96 8 None [] 8 = Inr p
    \<and> length (pn_batches p) \<le> 8 \<and> set (concat (map bs_owned (pn_batches p))) = {''TP1''}"
proof -
  have "set_iteration probe_env" by (simp add: set_iteration_def probe_env_def)
  moreover have "selection_ok probe_selection" by code_simp
  ultimately obtain p where
      "plan_connection_batches probe_env \<lparr>tp_blocks = [], tp_rails = [], tp_ground = ''GND''\<rparr> probe_selection 96 8 None [] 8 = Inr p"
      "length (pn_batches p) \<le> 8"
      "set (concat (map bs_owned (pn_batches p))) = {pt_ref q | q. q \<in> set probe_selection \<and> fst (pin_count probe_env 8 q) \<noteq> 0}"
    using connection_plan_partitions [of probe_env probe_selection "\<lparr>tp_blocks = [], tp_rails = [], tp_ground = ''GND''\<rparr>" 96 8 8]
    by simp blast
  then show ?thesis unfolding probe_owned by blast
qed

end
