(* ===== verification/Merge_Facts.thy ===== *)
theory Merge_Facts
  imports Connection_Facts
begin

text \<open>
  The merge of one batch: it only adds to the accepted netlist, keeps every physical pin on one net
  or marked as not connected, and leaves no pin of the parts of its batch without a disposition.
\<close>

section \<open>Parts\<close>

definition index_of :: "chosen_part list \<Rightarrow> (string \<times> chosen_part) list" where
  "index_of parts = map (\<lambda>p. (lower (pt_ref p), p)) parts"

lemma part_index_acc:
  "part_index parts acc = Inr index \<Longrightarrow> distinct (map fst acc) \<Longrightarrow> index = acc @ index_of parts \<and> distinct (map fst index)"
proof (induction parts acc rule: part_index.induct)
  case (2 p ps acc)
  have new: "map_of acc (lower (pt_ref p)) = None" and rest: "part_index ps (acc @ [(lower (pt_ref p), p)]) = Inr index"
    using 2(2) by (auto split: if_splits)
  have "distinct (map fst (acc @ [(lower (pt_ref p), p)]))" using 2(3) new by (auto simp: map_of_eq_None_iff)
  from 2(1) [OF _ rest this] new have "index = (acc @ [(lower (pt_ref p), p)]) @ index_of ps" "distinct (map fst index)" by blast+
  then show ?case by (simp add: index_of_def)
qed (simp add: index_of_def)

lemma part_index_Inr:
  assumes "part_index parts [] = Inr index"
  shows "index = index_of parts" and "p \<in> set parts \<Longrightarrow> map_of index (lower (pt_ref p)) = Some p"
proof -
  show index: "index = index_of parts" using part_index_acc [OF assms] by simp
  have "distinct (map fst index)" using part_index_acc [OF assms] by fastforce
  moreover have "(lower (pt_ref p), p) \<in> set index" if "p \<in> set parts" using that by (simp add: index index_of_def)
  ultimately show "p \<in> set parts \<Longrightarrow> map_of index (lower (pt_ref p)) = Some p" by (metis map_of_is_SomeI)
qed

section \<open>Dispositions\<close>

text \<open>A net carries a physical pin; a netlist leaves it unconnected.\<close>

definition carries :: "synth_env \<Rightarrow> chosen_part list \<Rightarrow> net_intent \<Rightarrow> string \<Rightarrow> bool" where
  "carries sy parts n k \<longleftrightarrow> (\<exists>p \<in> set (nt_pins n). physical_key sy (index_of parts) p = Inr k)"

definition unconnected :: "synth_env \<Rightarrow> chosen_part list \<Rightarrow> netlist_intent \<Rightarrow> string \<Rightarrow> bool" where
  "unconnected sy parts a k \<longleftrightarrow> (\<exists>p \<in> set (nl_no_connect a). physical_key sy (index_of parts) p = Inr k)"

definition disposed :: "synth_env \<Rightarrow> chosen_part list \<Rightarrow> netlist_intent \<Rightarrow> string \<Rightarrow> bool" where
  "disposed sy parts a k \<longleftrightarrow> (\<exists>n \<in> set (nl_nets a). carries sy parts n k) \<or> unconnected sy parts a k"

text \<open>Every pin exists, is on nets of one name only, and never both on a net and unconnected.\<close>

definition exclusive :: "synth_env \<Rightarrow> chosen_part list \<Rightarrow> netlist_intent \<Rightarrow> bool" where
  "exclusive sy parts a \<longleftrightarrow>
     (\<forall>n \<in> set (nl_nets a). \<forall>p \<in> set (nt_pins n). \<exists>k. physical_key sy (index_of parts) p = Inr k)
     \<and> (\<forall>p \<in> set (nl_no_connect a). \<exists>k. physical_key sy (index_of parts) p = Inr k)
     \<and> (\<forall>k. \<forall>n \<in> set (nl_nets a). \<forall>m \<in> set (nl_nets a). carries sy parts n k \<longrightarrow> carries sy parts m k \<longrightarrow> lower (nt_name n) = lower (nt_name m))
     \<and> (\<forall>k. \<forall>n \<in> set (nl_nets a). carries sy parts n k \<longrightarrow> \<not> unconnected sy parts a k)"

text \<open>What the dictionaries of the merge say about the nets and the unconnected pins.\<close>

definition net_owners :: "synth_env \<Rightarrow> chosen_part list \<Rightarrow> net_intent list \<Rightarrow> owners \<Rightarrow> bool" where
  "net_owners sy parts nets owner \<longleftrightarrow>
     (\<forall>n \<in> set nets. \<forall>p \<in> set (nt_pins n). \<exists>k x. physical_key sy (index_of parts) p = Inr k \<and> map_of owner k = Some x \<and> lower x = lower (nt_name n))
     \<and> (\<forall>k x. map_of owner k = Some x \<longrightarrow> (\<exists>n \<in> set nets. lower (nt_name n) = lower x \<and> carries sy parts n k))"

definition marks :: "synth_env \<Rightarrow> chosen_part list \<Rightarrow> owners \<Rightarrow> logical_pin list \<Rightarrow> string list \<Rightarrow> bool" where
  "marks sy parts owner pins keys \<longleftrightarrow>
     (\<forall>p \<in> set pins. \<exists>k \<in> set keys. physical_key sy (index_of parts) p = Inr k)
     \<and> (\<forall>k \<in> set keys. map_of owner k = None \<and> (\<exists>p \<in> set pins. physical_key sy (index_of parts) p = Inr k))"

lemma owns_carries: "net_owners sy parts nets owner \<Longrightarrow> n \<in> set nets \<Longrightarrow> carries sy parts n k \<Longrightarrow> \<exists>x. map_of owner k = Some x \<and> lower x = lower (nt_name n)"
  unfolding net_owners_def carries_def by (metis sum.inject(2))

lemma owns_exclusive:
  assumes "net_owners sy parts (nl_nets a) owner" "marks sy parts owner (nl_no_connect a) keys"
  shows "exclusive sy parts a"
proof -
  have "lower (nt_name n) = lower (nt_name m)"
    if "n \<in> set (nl_nets a)" "m \<in> set (nl_nets a)" "carries sy parts n k" "carries sy parts m k" for n m k
    using owns_carries [OF assms(1)] that by (metis option.inject)
  moreover have "\<not> unconnected sy parts a k" if "n \<in> set (nl_nets a)" "carries sy parts n k" for n k
    using owns_carries [OF assms(1) that] assms(2) unfolding marks_def unconnected_def by (metis option.discI sum.inject(2))
  ultimately show ?thesis using assms unfolding exclusive_def net_owners_def marks_def by blast
qed

section \<open>The accepted netlist\<close>

lemma own_pins_spec:
  assumes "own_pins sy (index_of parts) name ps owner = Inr owner'"
  shows "map_of owner k = Some x \<Longrightarrow> \<exists>y. map_of owner' k = Some y \<and> lower y = lower x"
    and "p \<in> set ps \<Longrightarrow> \<exists>k y. physical_key sy (index_of parts) p = Inr k \<and> map_of owner' k = Some y \<and> lower y = lower name"
    and "map_of owner' k = Some y \<Longrightarrow> (\<exists>x. map_of owner k = Some x \<and> lower x = lower y)
       \<or> (lower y = lower name \<and> (\<exists>p \<in> set ps. physical_key sy (index_of parts) p = Inr k))"
proof -
  have "(\<forall>k x. map_of owner k = Some x \<longrightarrow> (\<exists>y. map_of owner' k = Some y \<and> lower y = lower x))
    \<and> (\<forall>p \<in> set ps. \<exists>k y. physical_key sy (index_of parts) p = Inr k \<and> map_of owner' k = Some y \<and> lower y = lower name)
    \<and> (\<forall>k y. map_of owner' k = Some y \<longrightarrow> (\<exists>x. map_of owner k = Some x \<and> lower x = lower y)
         \<or> (lower y = lower name \<and> (\<exists>p \<in> set ps. physical_key sy (index_of parts) p = Inr k)))"
    using assms
  proof (induction ps arbitrary: owner)
    case Nil
    then show ?case by auto
  next
    case (Cons p ps)
    from Cons.prems obtain key where key: "physical_key sy (index_of parts) p = Inr key"
      and free: "\<And>x. map_of owner key = Some x \<Longrightarrow> lower x = lower name"
      and rest: "own_pins sy (index_of parts) name ps (AList.update key name owner) = Inr owner'"
      by (auto simp: bind_res_Inr_iff split: option.splits if_splits)
    note IH = Cons.IH [OF rest, unfolded map_of_AList_update]
    have "\<exists>y. map_of owner' k = Some y \<and> lower y = lower x" if "map_of owner k = Some x" for k x
      using that free [of x] IH by (cases "k = key") (auto simp: fun_upd_def)
    moreover have "\<exists>y. map_of owner' key = Some y \<and> lower y = lower name" using IH by simp
    moreover have "(\<exists>x. map_of owner k = Some x \<and> lower x = lower y)
        \<or> (lower y = lower name \<and> (\<exists>q \<in> set (p # ps). physical_key sy (index_of parts) q = Inr k))" if "map_of owner' k = Some y" for k y
      using conjunct2 [OF conjunct2 [OF IH], rule_format, OF that] key by (cases "k = key") auto
    ultimately show ?case using IH key by auto
  qed
  then show "map_of owner k = Some x \<Longrightarrow> \<exists>y. map_of owner' k = Some y \<and> lower y = lower x"
    and "p \<in> set ps \<Longrightarrow> \<exists>k y. physical_key sy (index_of parts) p = Inr k \<and> map_of owner' k = Some y \<and> lower y = lower name"
    and "map_of owner' k = Some y \<Longrightarrow> (\<exists>x. map_of owner k = Some x \<and> lower x = lower y)
       \<or> (lower y = lower name \<and> (\<exists>p \<in> set ps. physical_key sy (index_of parts) p = Inr k))"
    by blast+
qed

lemma own_nets_spec: "net_owners sy parts seen owner \<Longrightarrow> own_nets sy (index_of parts) nets owner = Inr owner' \<Longrightarrow> net_owners sy parts (seen @ nets) owner'"
proof (induction nets arbitrary: seen owner)
  case (Cons n nets)
  from Cons.prems(2) obtain mid where mid: "own_pins sy (index_of parts) (nt_name n) (nt_pins n) owner = Inr mid"
      "own_nets sy (index_of parts) nets mid = Inr owner'"
    by (auto simp: bind_res_Inr_iff)
  note spec = own_pins_spec [OF mid(1)]
  have "net_owners sy parts (seen @ [n]) mid"
    unfolding net_owners_def
  proof (intro conjI allI impI)
    show "\<forall>m \<in> set (seen @ [n]). \<forall>p \<in> set (nt_pins m). \<exists>k x. physical_key sy (index_of parts) p = Inr k \<and> map_of mid k = Some x
        \<and> lower x = lower (nt_name m)"
      using Cons.prems(1) spec(1,2) unfolding net_owners_def by (auto, metis)
    fix k x assume "map_of mid k = Some x"
    from spec(3) [OF this] show "\<exists>m \<in> set (seen @ [n]). lower (nt_name m) = lower x \<and> carries sy parts m k"
    proof
      assume "\<exists>y. map_of owner k = Some y \<and> lower y = lower x"
      then obtain y where y: "map_of owner k = Some y" "lower y = lower x" by blast
      then obtain m where "m \<in> set seen" "lower (nt_name m) = lower y" "carries sy parts m k"
        using Cons.prems(1) unfolding net_owners_def by blast
      with y(2) show ?thesis by auto
    qed (auto simp: carries_def)
  qed
  from Cons.IH [OF this mid(2)] show ?case by simp
qed simp

lemma collect_spec:
  "marks sy parts owner seen keys \<Longrightarrow> collect_no_connect sy (index_of parts) owner ps keys = Inr keys' \<Longrightarrow> marks sy parts owner (seen @ ps) keys'"
proof (induction ps arbitrary: seen keys)
  case (Cons p ps)
  from Cons.prems(2) obtain key where key: "physical_key sy (index_of parts) p = Inr key" "map_of owner key = None"
      "collect_no_connect sy (index_of parts) owner ps (if key \<in> set keys then keys else keys @ [key]) = Inr keys'"
    by (auto simp: bind_res_Inr_iff split: if_splits)
  have "marks sy parts owner (seen @ [p]) (if key \<in> set keys then keys else keys @ [key])"
    using Cons.prems(1) key(1,2) unfolding marks_def by auto
  from Cons.IH [OF this key(3)] show ?case by simp
qed simp

lemma ownership_spec:
  assumes "aggregate_ownership sy a (index_of parts) = Inr (owner, keys)"
  shows "net_owners sy parts (nl_nets a) owner" "marks sy parts owner (nl_no_connect a) keys"
proof -
  have "net_owners sy parts [] []" by (simp add: net_owners_def)
  with assms show "net_owners sy parts (nl_nets a) owner"
    using own_nets_spec [of sy parts "[]" "[]" "nl_nets a" owner] by (auto simp: aggregate_ownership_def bind_res_Inr_iff)
  have "marks sy parts owner [] []" by (simp add: marks_def)
  with assms show "marks sy parts owner (nl_no_connect a) keys"
    using collect_spec [of sy parts owner "[]" "[]" "nl_no_connect a" keys] by (auto simp: aggregate_ownership_def bind_res_Inr_iff)
qed

section \<open>Adding a transaction\<close>

lemma net_index_less: "net_index nets name = Some i \<Longrightarrow> i < length nets \<and> lower (nt_name (nets ! i)) = lower name"
  using find_last_idx_Some by (fastforce simp: net_index_def)

lemma create_nets_spec: "create_nets ns nets = Inr nets' \<Longrightarrow> nets' = nets @ map (\<lambda>n. n\<lparr>nt_pins := []\<rparr>) ns"
  by (induction ns nets rule: create_nets.induct) (auto split: if_splits)

lemma carries_empty [simp]: "\<not> carries sy parts (n\<lparr>nt_pins := []\<rparr>) k"
  by (simp add: carries_def)

lemma owns_new_nets: "net_owners sy parts nets owner \<Longrightarrow> net_owners sy parts (nets @ map (\<lambda>n. n\<lparr>nt_pins := []\<rparr>) ns) owner"
  unfolding net_owners_def by fastforce

text \<open>Nets that differ in additional pins only, taken from a list of targets.\<close>

definition grown :: "(nat \<times> logical_pin) list \<Rightarrow> net_intent list \<Rightarrow> net_intent list \<Rightarrow> bool" where
  "grown targets nets nets' \<longleftrightarrow> length nets' = length nets
     \<and> (\<forall>i < length nets. \<exists>extra. nets' ! i = (nets ! i)\<lparr>nt_pins := nt_pins (nets ! i) @ extra\<rparr> \<and> (\<forall>p \<in> set extra. (i, p) \<in> set targets))"

lemma grown_refl: "grown targets nets nets"
  unfolding grown_def by (auto intro: exI [of _ "[]"])

lemma grown_add_pin:
  assumes "i < length nets" "grown targets (add_pin nets i p) nets'"
  shows "grown ((i, p) # targets) nets nets'"
  unfolding grown_def
proof (intro conjI allI impI)
  show "length nets' = length nets" using assms(2) by (simp add: grown_def add_pin_def)
  fix j assume j: "j < length nets"
  then obtain extra where extra: "nets' ! j = (add_pin nets i p ! j)\<lparr>nt_pins := nt_pins (add_pin nets i p ! j) @ extra\<rparr>" "\<forall>q \<in> set extra. (j, q) \<in> set targets"
    using assms(2) by (auto simp: grown_def add_pin_def)
  show "\<exists>extra. nets' ! j = (nets ! j)\<lparr>nt_pins := nt_pins (nets ! j) @ extra\<rparr> \<and> (\<forall>q \<in> set extra. (j, q) \<in> set ((i, p) # targets))"
  proof (cases "j = i")
    case True
    with extra j show ?thesis by (intro exI [of _ "p # extra"]) (auto simp: add_pin_def)
  next
    case False
    with extra j show ?thesis by (intro exI [of _ extra]) (auto simp: add_pin_def)
  qed
qed

lemma grown_names: "grown targets nets nets' \<Longrightarrow> i < length nets \<Longrightarrow> nt_name (nets' ! i) = nt_name (nets ! i)"
  unfolding grown_def by (metis net_intent.select_convs(1) net_intent.surjective net_intent.update_convs(3))

lemma owns_add_pin:
  assumes "net_owners sy parts nets owner" "i < length nets" "physical_key sy (index_of parts) p = Inr key" "map_of owner key = None"
  shows "net_owners sy parts (add_pin nets i p) (AList.update key (nt_name (nets ! i)) owner)"
proof -
  define n where "n = (nets ! i)\<lparr>nt_pins := nt_pins (nets ! i) @ [p]\<rparr>"
  have new: "set (add_pin nets i p) \<subseteq> insert n (set nets)" by (simp add: add_pin_def n_def set_update_subset_insert)
  have mem: "n \<in> set (add_pin nets i p)" using assms(2) by (simp add: add_pin_def n_def set_update_memI)
  have old: "m = nets ! i \<or> m \<in> set (add_pin nets i p)" if "m \<in> set nets" for m
    using that by (metis add_pin_def in_set_conv_nth length_list_update nth_list_update_neq)
  have grows: "carries sy parts (nets ! i) k \<Longrightarrow> carries sy parts n k" for k by (auto simp: carries_def n_def)
  have at: "nets ! i \<in> set nets" using assms(2) by simp
  have keep: "k \<noteq> key" if "map_of owner k = Some x" for k x using that assms(4) by auto
  show ?thesis
    unfolding net_owners_def map_of_AList_update
  proof (intro conjI ballI allI impI)
    fix m q assume m: "m \<in> set (add_pin nets i p)" "q \<in> set (nt_pins m)"
    show "\<exists>k x. physical_key sy (index_of parts) q = Inr k \<and> ((map_of owner)(key \<mapsto> nt_name (nets ! i))) k = Some x \<and> lower x = lower (nt_name m)"
    proof (cases "m = n \<and> q = p")
      case True
      with assms(3) show ?thesis by (auto simp: n_def)
    next
      case False
      with m new obtain m' where "m' \<in> set nets" "q \<in> set (nt_pins m')" "nt_name m' = nt_name m"
        using at by (auto simp: n_def)
      then obtain k x where "physical_key sy (index_of parts) q = Inr k" "map_of owner k = Some x" "lower x = lower (nt_name m)"
        using assms(1) unfolding net_owners_def by metis
      with keep show ?thesis by auto
    qed
  next
    fix k x assume kx: "((map_of owner)(key \<mapsto> nt_name (nets ! i))) k = Some x"
    show "\<exists>m \<in> set (add_pin nets i p). lower (nt_name m) = lower x \<and> carries sy parts m k"
    proof (cases "k = key")
      case True
      with kx mem assms(3) show ?thesis by (intro bexI [of _ n]) (auto simp: n_def carries_def)
    next
      case False
      with kx have "map_of owner k = Some x" by simp
      then obtain m where "m \<in> set nets" "lower (nt_name m) = lower x" "carries sy parts m k"
        using assms(1) unfolding net_owners_def by blast
      moreover have "nt_name n = nt_name (nets ! i)" by (simp add: n_def)
      ultimately show ?thesis using old [of m] mem grows [of k] by metis
    qed
  qed
qed

lemma connect_pins_spec:
  assumes "connect_pins sy (index_of parts) keys targets (nets, owner) = Inr (nets', owner')"
    and "net_owners sy parts nets owner" "\<forall>k \<in> set keys. map_of owner k = None" "\<forall>(i, p) \<in> set targets. i < length nets"
  shows "net_owners sy parts nets' owner' \<and> (\<forall>k \<in> set keys. map_of owner' k = None) \<and> grown targets nets nets'
    \<and> (\<forall>k x. map_of owner k = Some x \<longrightarrow> map_of owner' k = Some x)
    \<and> (\<forall>(i, p) \<in> set targets. \<exists>k x. physical_key sy (index_of parts) p = Inr k \<and> map_of owner' k = Some x \<and> lower x = lower (nt_name (nets ! i)))"
  using assms
proof (induction targets arbitrary: nets owner)
  case Nil
  then show ?case by (simp add: grown_refl)
next
  case (Cons t targets)
  obtain i p where t: "t = (i, p)" by (cases t)
  have i: "i < length nets" using Cons.prems(4) by (simp add: t)
  from Cons.prems(1) obtain key where key: "physical_key sy (index_of parts) p = Inr key" by (auto simp: t bind_res_Inr_iff)
  show ?case
  proof (cases "map_of owner key")
    case (Some x)
    with Cons.prems(1) key have same: "lower x = lower (nt_name (nets ! i))"
      and rest: "connect_pins sy (index_of parts) keys targets (nets, owner) = Inr (nets', owner')"
      by (auto simp: t bind_res_Inr_iff split: if_splits)
    have "grown targets nets nets' \<Longrightarrow> grown (t # targets) nets nets'" unfolding grown_def by (metis list.set_intros(2))
    with Cons.IH [OF rest Cons.prems(2,3)] Cons.prems(4) key Some same show ?thesis by (auto simp: t)
  next
    case None
    with Cons.prems(1) key have key_free: "key \<notin> set keys"
      and rest: "connect_pins sy (index_of parts) keys targets (add_pin nets i p, AList.update key (nt_name (nets ! i)) owner) = Inr (nets', owner')"
      by (auto simp: t bind_res_Inr_iff split: if_splits)
    have same_names: "nt_name (add_pin nets i p ! j) = nt_name (nets ! j)" if "j < length nets" for j
      using that by (cases "j = i") (simp_all add: add_pin_def)
    have free: "\<forall>k \<in> set keys. map_of (AList.update key (nt_name (nets ! i)) owner) k = None"
      using Cons.prems(3) key_free by (auto simp: map_of_AList_update)
    have less: "\<forall>(j, q) \<in> set targets. j < length (add_pin nets i p)" using Cons.prems(4) by (auto simp: add_pin_def)
    note IH = Cons.IH [OF rest owns_add_pin [OF Cons.prems(2) i key None] free less]
    have "map_of owner' k = Some x" if kx: "map_of owner k = Some x" for k x
    proof -
      have "map_of (AList.update key (nt_name (nets ! i)) owner) k = Some x" using kx None by (auto simp: map_of_AList_update)
      with IH show ?thesis by blast
    qed
    moreover have "map_of owner' key = Some (nt_name (nets ! i))" using IH by (simp add: map_of_AList_update)
    moreover have "grown (t # targets) nets nets'" using IH grown_add_pin [OF i] by (simp add: t)
    moreover have "\<forall>(j, q) \<in> set targets. \<exists>k x. physical_key sy (index_of parts) q = Inr k \<and> map_of owner' k = Some x \<and> lower x = lower (nt_name (nets ! j))"
      using IH same_names Cons.prems(4) by (force simp: t)
    ultimately show ?thesis using IH key by (auto simp: t)
  qed
qed

lemma mark_spec:
  assumes "mark_no_connect sy (index_of parts) owner ps (pins, keys) = Inr (pins', keys')" "marks sy parts owner pins keys"
  shows "marks sy parts owner pins' keys' \<and> (\<exists>extra. pins' = pins @ extra \<and> set extra \<subseteq> set ps) \<and> set keys \<subseteq> set keys'
    \<and> (\<forall>p \<in> set ps. \<exists>k \<in> set keys'. physical_key sy (index_of parts) p = Inr k)"
  using assms
proof (induction ps arbitrary: pins keys)
  case (Cons p ps)
  from Cons.prems(1) obtain key where key: "physical_key sy (index_of parts) p = Inr key" "map_of owner key = None"
    and rest: "mark_no_connect sy (index_of parts) owner ps (if key \<in> set keys then (pins, keys) else (pins @ [p], keys @ [key])) = Inr (pins', keys')"
    by (auto simp: bind_res_Inr_iff split: option.splits)
  show ?case
  proof (cases "key \<in> set keys")
    case True
    with Cons.IH [OF _ Cons.prems(2)] rest key(1) show ?thesis by auto
  next
    case False
    have "marks sy parts owner (pins @ [p]) (keys @ [key])" using Cons.prems(2) key unfolding marks_def by auto
    from Cons.IH [OF _ this] rest False key(1) show ?thesis by auto
  qed
qed auto

text \<open>The pins that a transaction names for a net, up to case.\<close>

definition named_pins :: "connection_delta \<Rightarrow> string \<Rightarrow> logical_pin set" where
  "named_pins d name =
     (\<Union>n \<in> {n \<in> set (cd_create d). lower (nt_name n) = lower name}. set (nt_pins n))
     \<union> (\<Union>e \<in> {e \<in> set (cd_extend d). lower (ne_name e) = lower name}. set (ne_pins e))"

text \<open>What a transaction may add to a netlist: the pins that it names for a net, to old nets or to nets it creates.\<close>

definition additive :: "netlist_intent \<Rightarrow> connection_delta \<Rightarrow> netlist_intent \<Rightarrow> bool" where
  "additive a d a' \<longleftrightarrow>
     length (nl_nets a') = length (nl_nets a) + length (cd_create d)
     \<and> (\<forall>i < length (nl_nets a').
          let n = (nl_nets a @ map (\<lambda>n. n\<lparr>nt_pins := []\<rparr>) (cd_create d)) ! i
          in \<exists>extra. set extra \<subseteq> named_pins d (nt_name n) \<and> nl_nets a' ! i = n\<lparr>nt_pins := nt_pins n @ extra\<rparr>)
     \<and> (\<exists>extra. nl_no_connect a' = nl_no_connect a @ extra \<and> set extra \<subseteq> set (cd_no_connect d))
     \<and> nl_ground a' = nl_ground a"

text \<open>All of a transaction is in a netlist: each pin on the net it is named for, or marked as not connected.\<close>

definition committed :: "synth_env \<Rightarrow> chosen_part list \<Rightarrow> connection_delta \<Rightarrow> netlist_intent \<Rightarrow> bool" where
  "committed sy parts d a \<longleftrightarrow>
     (\<forall>name. \<forall>p \<in> named_pins d name. \<exists>k. physical_key sy (index_of parts) p = Inr k
        \<and> (\<exists>n \<in> set (nl_nets a). lower (nt_name n) = lower name \<and> carries sy parts n k))
     \<and> (\<forall>p \<in> set (cd_no_connect d). \<exists>k. physical_key sy (index_of parts) p = Inr k \<and> unconnected sy parts a k)"

lemma targets_of_Inr:
  "targets_of nets name pins = Inr ts \<longleftrightarrow> (\<exists>i. net_index nets name = Some i \<and> ts = map (\<lambda>p. (i, p)) pins)"
  by (auto simp: targets_of_def split: option.splits)

lemma targets_spec:
  assumes "delta_targets nets d = Inr targets"
  shows "\<forall>(i, p) \<in> set targets. i < length nets \<and> p \<in> named_pins d (nt_name (nets ! i))"
    and "p \<in> named_pins d name \<Longrightarrow> \<exists>i. (i, p) \<in> set targets \<and> lower (nt_name (nets ! i)) = lower name"
proof -
  from assms obtain created extended where ts: "map_res (\<lambda>n. targets_of nets (nt_name n) (nt_pins n)) (cd_create d) = Inr created"
      "map_res (\<lambda>e. targets_of nets (ne_name e) (ne_pins e)) (cd_extend d) = Inr extended" "targets = concat created @ concat extended"
    by (auto simp: delta_targets_def bind_res_Inr_iff)
  have source: "x \<in> set ys \<Longrightarrow> map_res f xs = Inr ys \<Longrightarrow> \<exists>y \<in> set xs. f y = Inr x" for f and xs :: "'a list" and ys :: "'b list" and x
    by (metis in_set_conv_nth map_res_Inr_iff nth_mem)
  have target: "y \<in> set xs \<Longrightarrow> map_res f xs = Inr ys \<Longrightarrow> \<exists>x \<in> set ys. f y = Inr x" for f and xs :: "'a list" and ys :: "'b list" and y
    by (metis in_set_conv_nth map_res_Inr_iff nth_mem)
  have one: "\<forall>(i, p) \<in> set ts. i < length nets \<and> p \<in> set pins \<and> lower (nt_name (nets ! i)) = lower name"
    if "targets_of nets name pins = Inr ts" for name pins ts
    using that net_index_less by (auto simp: targets_of_Inr)
  have all: "\<exists>i. (i, p) \<in> set ts \<and> lower (nt_name (nets ! i)) = lower name"
    if ts': "targets_of nets name pins = Inr ts" "p \<in> set pins" for name pins ts p
  proof -
    obtain i where i: "net_index nets name = Some i" "ts = map (\<lambda>p. (i, p)) pins" using ts'(1) by (auto simp: targets_of_Inr)
    then have "(i, p) \<in> set ts" using ts'(2) by simp
    with net_index_less [OF i(1)] show ?thesis by blast
  qed
  have "i < length nets \<and> p \<in> named_pins d (nt_name (nets ! i))" if ip: "(i, p) \<in> set targets" for i p
  proof -
    consider (created) ts' where "ts' \<in> set created" "(i, p) \<in> set ts'" | (extended) ts' where "ts' \<in> set extended" "(i, p) \<in> set ts'"
      using ip ts(3) by auto
    then show ?thesis
    proof cases
      case created
      then obtain n where "n \<in> set (cd_create d)" "targets_of nets (nt_name n) (nt_pins n) = Inr ts'"
        using source [OF _ ts(1)] by blast
      with one created(2) show ?thesis by (fastforce simp: named_pins_def)
    next
      case extended
      then obtain e where "e \<in> set (cd_extend d)" "targets_of nets (ne_name e) (ne_pins e) = Inr ts'"
        using source [OF _ ts(2)] by blast
      with one extended(2) show ?thesis by (fastforce simp: named_pins_def)
    qed
  qed
  then show "\<forall>(i, p) \<in> set targets. i < length nets \<and> p \<in> named_pins d (nt_name (nets ! i))" by blast
  assume "p \<in> named_pins d name"
  then consider (created) n where "n \<in> set (cd_create d)" "p \<in> set (nt_pins n)" "lower (nt_name n) = lower name"
    | (extended) e where "e \<in> set (cd_extend d)" "p \<in> set (ne_pins e)" "lower (ne_name e) = lower name"
    by (auto simp: named_pins_def)
  then show "\<exists>i. (i, p) \<in> set targets \<and> lower (nt_name (nets ! i)) = lower name"
  proof cases
    case created
    obtain x where x: "x \<in> set created" "targets_of nets (nt_name n) (nt_pins n) = Inr x" using target [OF created(1) ts(1)] by blast
    from all [OF x(2) created(2)] obtain i where "(i, p) \<in> set x" "lower (nt_name (nets ! i)) = lower (nt_name n)" by blast
    with x(1) created(3) ts(3) show ?thesis by auto
  next
    case extended
    obtain x where x: "x \<in> set extended" "targets_of nets (ne_name e) (ne_pins e) = Inr x" using target [OF extended(1) ts(2)] by blast
    from all [OF x(2) extended(2)] obtain i where "(i, p) \<in> set x" "lower (nt_name (nets ! i)) = lower (ne_name e)" by blast
    with x(1) extended(3) ts(3) show ?thesis by auto
  qed
qed

lemma extend_aggregate_spec:
  assumes "extend_aggregate sy (index_of parts) a d required = Inr (a', owner)"
  shows "net_owners sy parts (nl_nets a') owner" "exclusive sy parts a'" "additive a d a'" "\<forall>k \<in> set required. disposed sy parts a' k"
    "committed sy parts d a'"
proof -
  from assms obtain owner0 keys nets targets nets' pins keys' where e: "aggregate_ownership sy a (index_of parts) = Inr (owner0, keys)"
      "create_nets (cd_create d) (nl_nets a) = Inr nets" "delta_targets nets d = Inr targets"
      "connect_pins sy (index_of parts) keys targets (nets, owner0) = Inr (nets', owner)"
      "mark_no_connect sy (index_of parts) owner (cd_no_connect d) (nl_no_connect a, keys) = Inr (pins, keys')"
      "filter (\<lambda>k. map_of owner k = None \<and> k \<notin> set keys') required = []"
    and a': "a' = a\<lparr>nl_nets := nets', nl_no_connect := pins, nl_supply := add_supplies (nl_ground a) (cd_create d) (nl_supply a)\<rparr>"
    by (auto simp: extend_aggregate_def bind_res_Inr_iff Let_def split: if_splits)
  have nets: "nets = nl_nets a @ map (\<lambda>n. n\<lparr>nt_pins := []\<rparr>) (cd_create d)" using create_nets_spec [OF e(2)] .
  note base = ownership_spec [OF e(1)]
  have "net_owners sy parts nets owner0" using owns_new_nets [OF base(1)] by (simp add: nets)
  moreover have "\<forall>k \<in> set keys. map_of owner0 k = None" using base(2) by (simp add: marks_def)
  moreover have ts: "\<forall>(i, p) \<in> set targets. i < length nets \<and> p \<in> named_pins d (nt_name (nets ! i))" by (rule targets_spec(1) [OF e(3)])
  then have "\<forall>(i, p) \<in> set targets. i < length nets" by blast
  ultimately have c: "net_owners sy parts nets' owner" "\<forall>k \<in> set keys. map_of owner k = None" "grown targets nets nets'"
    "\<forall>(i, p) \<in> set targets. \<exists>k x. physical_key sy (index_of parts) p = Inr k \<and> map_of owner k = Some x \<and> lower x = lower (nt_name (nets ! i))"
    using connect_pins_spec [OF e(4)] by blast+
  have "marks sy parts owner (nl_no_connect a) keys" using base(2) c(2) unfolding marks_def by blast
  note m = mark_spec [OF e(5) this]
  show owned: "net_owners sy parts (nl_nets a') owner" using c(1) by (simp add: a')
  show "exclusive sy parts a'" using owned m by (intro owns_exclusive [of _ _ _ owner keys']) (simp_all add: a')
  have "\<exists>extra. set extra \<subseteq> named_pins d (nt_name (nets ! i)) \<and> nets' ! i = (nets ! i)\<lparr>nt_pins := nt_pins (nets ! i) @ extra\<rparr>" if i: "i < length nets" for i
  proof -
    obtain extra where x: "nets' ! i = (nets ! i)\<lparr>nt_pins := nt_pins (nets ! i) @ extra\<rparr>" "\<forall>p \<in> set extra. (i, p) \<in> set targets"
      using c(3) i unfolding grown_def by blast
    moreover have "set extra \<subseteq> named_pins d (nt_name (nets ! i))" using x(2) ts by fastforce
    ultimately show ?thesis by blast
  qed
  moreover have "length nets' = length nets" using c(3) by (simp add: grown_def)
  ultimately show "additive a d a'" using m by (simp add: additive_def a' nets Let_def)
  have "\<exists>k. physical_key sy (index_of parts) p = Inr k
      \<and> (\<exists>n \<in> set (nl_nets a'). lower (nt_name n) = lower name \<and> carries sy parts n k)" if p: "p \<in> named_pins d name" for p name
  proof -
    obtain i where i: "(i, p) \<in> set targets" "lower (nt_name (nets ! i)) = lower name" using targets_spec(2) [OF e(3) p] by blast
    then obtain k x where k: "physical_key sy (index_of parts) p = Inr k" "map_of owner k = Some x" "lower x = lower name"
      using c(4) by fastforce
    with owned show ?thesis unfolding net_owners_def by metis
  qed
  moreover have "\<exists>k. physical_key sy (index_of parts) p = Inr k \<and> unconnected sy parts a' k" if "p \<in> set (cd_no_connect d)" for p
    using m that unfolding marks_def unconnected_def by (auto simp: a')
  ultimately show "committed sy parts d a'" unfolding committed_def by blast
  have "disposed sy parts a' k" if k: "k \<in> set required" for k
  proof (cases "map_of owner k")
    case None
    with e(6) k have "k \<in> set keys'" by (auto simp: filter_empty_conv)
    with m show ?thesis unfolding marks_def disposed_def unconnected_def by (auto simp: a')
  next
    case (Some x)
    with c(1) show ?thesis unfolding net_owners_def disposed_def by (fastforce simp: a')
  qed
  then show "\<forall>k \<in> set required. disposed sy parts a' k" by blast
qed

section \<open>Validation\<close>

lemma dedup_extends:
  assumes "distinct xs"
  shows "\<exists>zs. dedup (xs @ ys) = xs @ zs \<and> set zs \<subseteq> set ys"
proof (induction ys rule: rev_induct)
  case Nil
  with assms show ?case by (simp add: dedup_distinct)
next
  case (snoc y ys)
  then obtain zs where zs: "dedup (xs @ ys) = xs @ zs" "set zs \<subseteq> set ys" by blast
  have "dedup ((xs @ ys) @ [y]) = (if y \<in> set (xs @ ys) then dedup (xs @ ys) else dedup (xs @ ys) @ [y])" by (simp add: dedup_def)
  with zs show ?case by (cases "y \<in> set (xs @ ys)") auto
qed

lemma net_ok_distinct: "net_ok n \<Longrightarrow> distinct (nt_pins n)"
  by (simp add: net_ok_def distinct_map)

lemma revalidate_ok: "checkpoint_ok c \<Longrightarrow> revalidate c = c"
proof -
  assume ok: "checkpoint_ok c"
  have "revalidate_net n = n" if "n \<in> set (nl_nets (cc_aggregate c))" for n
    using ok that by (auto simp: checkpoint_ok_def netlist_ok_def list_all_iff revalidate_net_def dedup_distinct net_ok_distinct)
  then have "map revalidate_net (nl_nets (cc_aggregate c)) = nl_nets (cc_aggregate c)" by (simp add: map_idI)
  then show ?thesis by (simp add: revalidate_def)
qed

lemma validated_Inr: "validated_checkpoint c = Inr c' \<longleftrightarrow> c' = revalidate c \<and> checkpoint_ok (revalidate c)"
  by (auto simp: validated_checkpoint_def)

lemma revalidate_simps [simp]:
  "cc_plan (revalidate c) = cc_plan c" "cc_batches (revalidate c) = cc_batches c" "cc_revision (revalidate c) = cc_revision c"
  "cc_llm (revalidate c) = cc_llm c" "cc_round (revalidate c) = cc_round c" "cc_selection (revalidate c) = cc_selection c"
  "cc_topology (revalidate c) = cc_topology c" "cc_rounds (revalidate c) = cc_rounds c" "cc_reservations (revalidate c) = cc_reservations c"
  by (simp_all add: revalidate_def)

abbreviation revalidated :: "netlist_intent \<Rightarrow> netlist_intent" where
  "revalidated a \<equiv> a\<lparr>nl_nets := map revalidate_net (nl_nets a)\<rparr>"

lemma carries_revalidate [simp]: "carries sy parts (revalidate_net n) k = carries sy parts n k"
  by (simp add: carries_def revalidate_net_def)

lemma revalidated_spec:
  shows "exclusive sy parts (revalidated a) = exclusive sy parts a" and "disposed sy parts (revalidated a) k = disposed sy parts a k"
    and "committed sy parts d (revalidated a) = committed sy parts d a"
proof -
  have pins: "set (nt_pins (revalidate_net n)) = set (nt_pins n)" "nt_name (revalidate_net n) = nt_name n" for n
    by (simp_all add: revalidate_net_def)
  show "exclusive sy parts (revalidated a) = exclusive sy parts a"
    by (simp add: exclusive_def unconnected_def pins)
  show "disposed sy parts (revalidated a) k = disposed sy parts a k"
    by (simp add: disposed_def unconnected_def)
  show "committed sy parts d (revalidated a) = committed sy parts d a"
    by (simp add: committed_def unconnected_def pins)
qed

lemma additive_revalidated:
  assumes "additive a d a'" "netlist_ok a"
  shows "additive a d (revalidated a')"
proof -
  define old where "old = nl_nets a @ map (\<lambda>n. n\<lparr>nt_pins := []\<rparr>) (cd_create d)"
  have dist: "distinct (nt_pins (old ! i))" if i: "i < length old" for i
  proof -
    have "old ! i \<in> set old" using i by simp
    then show ?thesis using assms(2) by (auto simp: old_def netlist_ok_def list_all_iff net_ok_distinct)
  qed
  have len: "length (nl_nets a') = length old" using assms(1) by (simp add: additive_def old_def)
  have "\<exists>extra. set extra \<subseteq> named_pins d (nt_name (old ! i)) \<and> revalidate_net (nl_nets a' ! i) = (old ! i)\<lparr>nt_pins := nt_pins (old ! i) @ extra\<rparr>" if i: "i < length old" for i
  proof -
    obtain extra where x: "set extra \<subseteq> named_pins d (nt_name (old ! i))" "nl_nets a' ! i = (old ! i)\<lparr>nt_pins := nt_pins (old ! i) @ extra\<rparr>"
      using assms(1) i len unfolding additive_def Let_def old_def [symmetric] by metis
    obtain zs where "dedup (nt_pins (old ! i) @ extra) = nt_pins (old ! i) @ zs" "set zs \<subseteq> set extra"
      using dedup_extends [OF dist [OF i]] by blast
    with x show ?thesis by (intro exI [of _ zs]) (auto simp: revalidate_net_def)
  qed
  with assms(1) len show ?thesis by (simp add: additive_def old_def [symmetric] Let_def)
qed

section \<open>The merge\<close>

text \<open>No pin of the parts that a batch net_owners is left over.\<close>

definition batch_covered :: "synth_env \<Rightarrow> chosen_part list \<Rightarrow> netlist_intent \<Rightarrow> batch_spec \<Rightarrow> bool" where
  "batch_covered sy parts a b \<longleftrightarrow>
     (\<forall>p \<in> set parts. pt_ref p \<in> set (bs_owned b) \<longrightarrow> (\<forall>n \<in> set (owned_numbers sy p). disposed sy parts a (physical p n)))"

lemma required_spec:
  assumes "required_owned_physical_pins sy b index = Inr required" "part_index parts [] = Inr index"
    and "p \<in> set parts" "pt_ref p \<in> set (bs_owned b)" "n \<in> set (owned_numbers sy p)"
  shows "physical p n \<in> set required"
proof -
  have "map_of index (lower (pt_ref p)) = Some p" using part_index_Inr(2) [OF assms(2,3)] .
  with assms(1,4,5) show ?thesis by (force simp: required_owned_physical_pins_def Let_def split: if_splits)
qed

lemma commit_spec:
  assumes "commit_delta sy c b d parts = Inr c'" "checkpoint_ok c"
  shows "checkpoint_ok c'" "exclusive sy parts (cc_aggregate c')" "additive (cc_aggregate c) d (cc_aggregate c')" "batch_covered sy parts (cc_aggregate c') b"
    "cc_revision c' = cc_revision c + 1" "cc_batches c' = complete_batch (bs_id b) (connection_delta_fingerprint d) (cc_batches c)"
    "cc_plan c' = cc_plan c" "cc_llm c' = cc_llm c" "cc_round c' = cc_round c" "cc_selection c' = cc_selection c"
    "committed sy parts d (cc_aggregate c')"
proof -
  from assms(1) obtain index required a owner where e: "part_index parts [] = Inr index" "required_owned_physical_pins sy b index = Inr required"
      "extend_aggregate sy index (cc_aggregate c) d required = Inr (a, owner)"
    and c': "validated_checkpoint (c\<lparr>cc_aggregate := a, cc_batches := complete_batch (bs_id b) (connection_delta_fingerprint d) (cc_batches c),
         cc_revision := cc_revision c + 1,
         cc_reservations := filter (\<lambda>(key, _). lower (ref_part key) \<in> set (map lower (pn_shared (cc_plan c)))) owner\<rparr>) = Inr c'"
    by (auto simp: commit_delta_def bind_res_Inr_iff)
  note v = c' [unfolded validated_Inr]
  have agg: "cc_aggregate c' = revalidated a" using v by (simp add: revalidate_def)
  note spec = extend_aggregate_spec [OF e(3) [unfolded part_index_Inr(1) [OF e(1)]]]
  have ok: "netlist_ok (cc_aggregate c)" using assms(2) by (simp add: checkpoint_ok_def)
  show "checkpoint_ok c'" using v by simp
  show "exclusive sy parts (cc_aggregate c')" using spec(2) by (simp only: agg revalidated_spec)
  show "additive (cc_aggregate c) d (cc_aggregate c')" using additive_revalidated [OF spec(3) ok] by (simp only: agg)
  show "batch_covered sy parts (cc_aggregate c') b"
    using spec(4) required_spec [OF e(2,1)] unfolding batch_covered_def agg revalidated_spec by blast
  show "cc_revision c' = cc_revision c + 1" "cc_batches c' = complete_batch (bs_id b) (connection_delta_fingerprint d) (cc_batches c)"
    "cc_plan c' = cc_plan c" "cc_llm c' = cc_llm c" "cc_round c' = cc_round c" "cc_selection c' = cc_selection c"
    using v by simp_all
  show "committed sy parts d (cc_aggregate c')" using spec(5) by (simp only: agg revalidated_spec)
qed

lemma find_SomeD: "find P xs = Some x \<Longrightarrow> x \<in> set xs \<and> P x"
  by (auto simp: find_Some_iff)

lemma merge_cases:
  assumes "merge_connection_delta sy c d parts = Inr c'"
  obtains (replay) status where "c' = revalidate c" "checkpoint_ok c'" "find (\<lambda>s. bc_id s = cd_batch d) (cc_batches c) = Some status"
      "completed_batch status" "bc_fingerprint status = connection_delta_fingerprint d"
  | (commit) b status where "checkpoint_ok (revalidate c)" "b \<in> set (pn_batches (cc_plan c))" "bs_id b = cd_batch d"
      "find (\<lambda>s. bc_id s = cd_batch d) (cc_batches c) = Some status" "\<not> completed_batch status"
      "\<forall>s \<in> set (take (bs_sequence b) (cc_batches c)). completed_batch s" "cc_selection c = selection_fingerprint sy parts"
      "commit_delta sy (revalidate c) b d parts = Inr c'"
proof -
  obtain b status where found: "find (\<lambda>b. bs_id b = cd_batch d) (pn_batches (cc_plan c)) = Some b"
      "find (\<lambda>s. bc_id s = cd_batch d) (cc_batches c) = Some status" and ok: "checkpoint_ok (revalidate c)"
    using assms by (auto simp: merge_connection_delta_def bind_res_Inr_iff validated_Inr split: if_splits option.splits)
  have b: "b \<in> set (pn_batches (cc_plan c))" "bs_id b = cd_batch d" using find_SomeD [OF found(1)] by simp_all
  show thesis
    using assms that(1) [OF _ _ found(2)] that(2) [OF ok b found(2)] ok
    by (auto simp: merge_connection_delta_def validated_checkpoint_def found Let_def filter_empty_conv split: if_splits)
qed

lemma find_completed:
  "find (\<lambda>s. bc_id s = i) bs = Some status \<Longrightarrow>
     \<exists>s. find (\<lambda>s. bc_id s = i) (complete_batch i h bs) = Some s \<and> completed_batch s \<and> bc_fingerprint s = h"
  by (induction bs) (auto simp: completed_batch_def)

lemma completed_take: "\<forall>s \<in> set (take n bs). completed_batch s \<Longrightarrow> \<forall>s \<in> set (take n (complete_batch i h bs)). completed_batch s"
proof (induction bs arbitrary: n)
  case (Cons b bs)
  then show ?case by (cases n) (auto simp: completed_batch_def)
qed simp

section \<open>A resistor between two rails\<close>

definition divider_synth :: synth_env where
  "divider_synth = \<lparr>se_pins = (\<lambda>s. if s = ''Device:R'' then Some [\<lparr>sn_number = ''1'', sn_name = ''~'', sn_type = ''passive''\<rparr>,
     \<lparr>sn_number = ''2'', sn_name = ''~'', sn_type = ''passive''\<rparr>] else None), se_order = remdups\<rparr>"

definition load_resistor :: chosen_part where
  "load_resistor = \<lparr>pt_ref = ''R1'', pt_symbol = ''Device:R'', pt_value = ''1k'', pt_footprint = [], pt_role = []\<rparr>"

definition divider_spec :: batch_spec where
  "divider_spec = \<lparr>bs_id = ''b'', bs_sequence = 0, bs_blocks = [''integration''], bs_owned = [''R1''], bs_shared = [], bs_pins = 2\<rparr>"

definition divider_topology :: topology_plan where
  "divider_topology = \<lparr>tp_blocks = [], tp_rails = [''5V''], tp_ground = ''GND''\<rparr>"

definition divider_plan :: batch_plan where
  "divider_plan =
     (let p = \<lparr>pn_topology = topology_fingerprint divider_topology, pn_selection = selection_fingerprint divider_synth [load_resistor], pn_fingerprint = [], pn_target = 96,
        pn_effective = 96, pn_max = 8, pn_shared = [], pn_oversized = [], pn_supported = True, pn_batches = [divider_spec]\<rparr>
      in p\<lparr>pn_fingerprint := canonical_hash (plan_fingerprint_payload p) 20\<rparr>)"

definition divider_nets :: "logical_pin list \<Rightarrow> logical_pin list \<Rightarrow> net_intent list" where
  "divider_nets ps qs = [\<lparr>nt_name = ''5V'', nt_kind = ''power'', nt_pins = ps, nt_purpose = []\<rparr>, \<lparr>nt_name = ''GND'', nt_kind = ''ground'', nt_pins = qs, nt_purpose = []\<rparr>]"

definition divider_netlist :: "net_intent list \<Rightarrow> netlist_intent" where
  "divider_netlist nets = \<lparr>nl_nets = nets, nl_no_connect = [], nl_supply = [''5V''], nl_ground = ''GND'', nl_rationale = []\<rparr>"

definition divider_open :: synthesis_checkpoint where
  "divider_open = \<lparr>cc_topology = topology_fingerprint divider_topology, cc_selection = selection_fingerprint divider_synth [load_resistor], cc_plan = divider_plan,
     cc_aggregate = divider_netlist (divider_nets [] []), cc_revision = 0, cc_llm = 1, cc_round = 1, cc_rounds = 1,
     cc_batches = [\<lparr>bc_id = ''b'', bc_status = BatchPending, bc_attempts = 0, bc_fingerprint = [], bc_error = []\<rparr>], cc_reservations = []\<rparr>"

abbreviation divider_pin :: "string \<Rightarrow> logical_pin" where
  "divider_pin n \<equiv> \<lparr>lp_ref = ''R1'', lp_pin = n\<rparr>"

definition divider_delta :: connection_delta where
  "divider_delta = \<lparr>cd_batch = ''b'', cd_base = 0, cd_create = [],
     cd_extend = [\<lparr>ne_name = ''5V'', ne_pins = [divider_pin ''1'']\<rparr>, \<lparr>ne_name = ''gnd'', ne_pins = [divider_pin ''2'']\<rparr>],
     cd_no_connect = [], cd_rationale = []\<rparr>"

definition divider_closed :: synthesis_checkpoint where
  "divider_closed = divider_open\<lparr>cc_aggregate := divider_netlist (divider_nets [divider_pin ''1''] [divider_pin ''2'']), cc_revision := 1,
     cc_batches := [\<lparr>bc_id = ''b'', bc_status = BatchCompleted, bc_attempts = 1, bc_fingerprint = connection_delta_fingerprint divider_delta,
       bc_error = []\<rparr>]\<rparr>"

lemma divider_index: "part_index [load_resistor] [] = Inr [(''r1'', load_resistor)]" by code_simp

lemma divider_required: "required_owned_physical_pins divider_synth divider_spec [(''r1'', load_resistor)] = Inr [''R1:1'', ''R1:2'']" by code_simp

lemma divider_visible: "check_visible divider_spec divider_delta = Inr ()" by code_simp

lemma divider_extended: "extend_aggregate divider_synth [(''r1'', load_resistor)] (divider_netlist (divider_nets [] [])) divider_delta [''R1:1'', ''R1:2'']
    = Inr (divider_netlist (divider_nets [divider_pin ''1''] [divider_pin ''2'']), [(''R1:1'', ''5V''), (''R1:2'', ''GND'')])" by code_simp

lemma divider_plan_ok: "batch_plan_ok divider_plan"
proof -
  have "batch_spec_ok divider_spec" by code_simp
  then show ?thesis
    by (simp add: batch_plan_ok_def divider_plan_def Let_def plan_fingerprint_payload_def bounded_def length_canonical_hash
        selection_fingerprint_def topology_fingerprint_def divider_spec_def)
qed

lemma divider_netlists_ok: "netlist_ok (divider_netlist (divider_nets [] []))" "netlist_ok (divider_netlist (divider_nets [divider_pin ''1''] [divider_pin ''2'']))"
  by code_simp+

lemma divider_checkpoints_ok: "checkpoint_ok divider_open" "checkpoint_ok divider_closed"
proof -
  have plan: "pn_topology divider_plan = topology_fingerprint divider_topology" "pn_selection divider_plan = selection_fingerprint divider_synth [load_resistor]"
      "pn_batches divider_plan = [divider_spec]" "bs_id divider_spec = ''b''"
    by (simp_all add: divider_plan_def Let_def divider_spec_def)
  have len: "length (selection_fingerprint divider_synth [load_resistor]) = 20" "length (connection_delta_fingerprint divider_delta) = 20"
      "length (topology_fingerprint divider_topology) = 20"
    by (simp_all add: topology_fingerprint_def selection_fingerprint_def connection_delta_fingerprint_def length_canonical_hash)
  then have "connection_delta_fingerprint divider_delta \<noteq> []" by auto
  with len plan show "checkpoint_ok divider_open" "checkpoint_ok divider_closed"
    by (simp_all add: checkpoint_ok_def divider_closed_def divider_open_def divider_plan_ok divider_netlists_ok bounded_def batch_checkpoint_ok_def
        completed_batch_def count_if_def)
qed

lemma divider_merge: "merge_connection_delta divider_synth divider_open divider_delta [load_resistor] = Inr divider_closed"
proof -
  have "commit_delta divider_synth divider_open divider_spec divider_delta [load_resistor] = validated_checkpoint divider_closed"
  proof -
    have a: "cc_aggregate divider_open = divider_netlist (divider_nets [] [])" by (simp add: divider_open_def)
    show ?thesis
      by (simp only: commit_delta_def divider_index bind_res_simps divider_required divider_visible a divider_extended split_conv)
         (simp add: divider_closed_def divider_open_def divider_spec_def divider_plan_def Let_def)
  qed
  then have "commit_delta divider_synth divider_open divider_spec divider_delta [load_resistor] = Inr divider_closed"
    using divider_checkpoints_ok by (simp add: validated_Inr revalidate_ok)
  moreover have "validated_checkpoint divider_open = Inr divider_open" using divider_checkpoints_ok by (simp add: validated_Inr revalidate_ok)
  ultimately show ?thesis
    by (simp add: merge_connection_delta_def) (simp add: divider_open_def divider_plan_def Let_def divider_spec_def divider_delta_def completed_batch_def)
qed

section \<open>The properties\<close>

text \<open>
  C17: a merge of a transaction either finds this very transaction merged already and changes nothing,
  or commits it whole: every pin of the transaction is then on the net it is named for, or marked as
  not connected.  The accepted nets keep their names, kinds and pins and only gain pins that the
  transaction names for them, new nets are those it creates with such pins, and unconnected pins are
  only added; no physical pin is on nets of two names, or on a net and unconnected; every pin of the
  parts of the batch has a disposition; and the checkpoint is again valid, with this batch completed
  and the revision one higher.
\<close>

theorem merge_is_additive:
  assumes "merge_connection_delta sy c d parts = Inr c'"
  shows "checkpoint_ok c' \<and> cc_plan c' = cc_plan c
    \<and> (c' = revalidate c \<and> (\<exists>s \<in> set (cc_batches c). bc_id s = cd_batch d \<and> completed_batch s \<and> bc_fingerprint s = connection_delta_fingerprint d)
       \<or> committed sy parts d (cc_aggregate c') \<and> additive (cc_aggregate (revalidate c)) d (cc_aggregate c')
         \<and> exclusive sy parts (cc_aggregate c')
         \<and> (\<exists>b \<in> set (pn_batches (cc_plan c)). bs_id b = cd_batch d \<and> batch_covered sy parts (cc_aggregate c') b)
         \<and> cc_revision c' = cc_revision c + 1
         \<and> cc_batches c' = complete_batch (cd_batch d) (connection_delta_fingerprint d) (cc_batches c))"
  using assms
proof (cases rule: merge_cases)
  case (commit b status)
  note spec = commit_spec [OF commit(8,1)]
  have "\<exists>b \<in> set (pn_batches (cc_plan c)). bs_id b = cd_batch d \<and> batch_covered sy parts (cc_aggregate c') b"
    using commit(2,3) spec(4) by blast
  with spec commit(3) show ?thesis by simp
next
  case (replay status)
  with find_SomeD [OF replay(3)] show ?thesis by auto
qed

theorem merge_is_additive_witness:
  "committed divider_synth [load_resistor] divider_delta (cc_aggregate divider_closed)
   \<and> additive (cc_aggregate divider_open) divider_delta (cc_aggregate divider_closed)
   \<and> exclusive divider_synth [load_resistor] (cc_aggregate divider_closed)"
proof -
  have "divider_closed \<noteq> revalidate divider_open"
    using divider_checkpoints_ok by (simp add: revalidate_ok) (simp add: divider_closed_def divider_open_def)
  with merge_is_additive [OF divider_merge] show ?thesis using divider_checkpoints_ok by (simp add: revalidate_ok)
qed

text \<open>
  Merging is idempotent: a transaction that was merged can be merged again, and the second merge
  returns the same checkpoint.
\<close>

theorem merge_idempotent:
  assumes "merge_connection_delta sy c d parts = Inr c'"
  shows "merge_connection_delta sy c' d parts = Inr c'"
  using assms
proof (cases rule: merge_cases)
  case (replay status)
  have "validated_checkpoint c' = validated_checkpoint c"
    using replay(1,2) revalidate_ok by (simp add: validated_checkpoint_def)
  then have "merge_connection_delta sy c' d parts = merge_connection_delta sy c d parts"
    by (simp add: merge_connection_delta_def)
  with assms show ?thesis by simp
next
  case (commit b status)
  note spec = commit_spec [OF commit(8,1)]
  have valid: "validated_checkpoint c' = Inr c'" using spec(1) by (simp add: validated_Inr revalidate_ok)
  have batches: "cc_batches c' = complete_batch (cd_batch d) (connection_delta_fingerprint d) (cc_batches c)" using spec(6) commit(3) by simp
  obtain s where s: "find (\<lambda>s. bc_id s = cd_batch d) (cc_batches c') = Some s" "completed_batch s" "bc_fingerprint s = connection_delta_fingerprint d"
    using find_completed [OF commit(4)] by (auto simp: batches)
  obtain b' where b': "find (\<lambda>b. bs_id b = cd_batch d) (pn_batches (cc_plan c)) = Some b'"
    using commit(2,3) by (cases "find (\<lambda>b. bs_id b = cd_batch d) (pn_batches (cc_plan c))") (auto simp: find_None_iff)
  have "distinct (map bs_id (pn_batches (cc_plan c)))" using commit(1) by (simp add: checkpoint_ok_def batch_plan_ok_def)
  moreover have "b' \<in> set (pn_batches (cc_plan c))" "bs_id b' = bs_id b" using find_SomeD [OF b'] commit(3) by simp_all
  ultimately have "b' = b" using commit(2) by (metis distinct_map inj_onD)
  then have done_before: "filter (\<lambda>s. \<not> completed_batch s) (take (bs_sequence b') (cc_batches c')) = []"
    using completed_take [OF commit(6)] by (simp add: batches filter_empty_conv)
  have plan: "cc_plan c' = cc_plan c" "cc_selection c' = selection_fingerprint sy parts" using spec(7,10) commit(7) by simp_all
  show ?thesis by (simp add: merge_connection_delta_def valid plan b' s done_before Let_def)
qed

theorem merge_idempotent_witness: "merge_connection_delta divider_synth divider_closed divider_delta [load_resistor] = Inr divider_closed"
  by (rule merge_idempotent [OF divider_merge])

end
