(* ===== verification/Connection_Round.thy ===== *)
theory Connection_Round
  imports Connection_Merge Structured_Output
begin

text \<open>
  \<open>SchConnectionsStep._propose_batched\<close> of \<open>orchestration/pipeline.py\<close>: one round of batched
  synthesis.  Each batch is proposed through \<open>propose_structured\<close>, merged, and retried with the
  reason of its rejection, under a budget of model calls; what is finished survives the round.

  The wording of prompts and error messages, the parsing of JSON and the normalisation of the
  finished netlist are arguments.  The progress callback receives a snapshot; its failures are
  swallowed.
\<close>

record synth_limits =
  sl_target :: int
  sl_max_batches :: int
  sl_completion :: int
  sl_pin_limit :: int
  sl_round_calls :: int
  sl_total_calls :: int
  sl_retries :: int
  sl_artifact_first :: bool

record ('u) synth_tools =
  st_mode :: llm_mode
  st_client :: "(string \<Rightarrow> string \<Rightarrow> 'u \<Rightarrow> (exn + string) \<times> 'u) option"
  st_parse :: "string \<Rightarrow> string + connection_delta"
  st_schema :: string
  st_prompt :: "synthesis_checkpoint \<Rightarrow> batch_spec \<Rightarrow> string \<times> string"
  st_feedback :: string
  st_message :: "merge_error \<Rightarrow> string"
  st_normalize :: "netlist_intent \<Rightarrow> exn + netlist_intent"

record ('u) synth_state =
  ss_checkpoint :: "synthesis_checkpoint option"
  ss_report :: "synthesis_report option"
  ss_saved :: "synthesis_checkpoint option list"
  ss_user :: 'u

definition persist_progress :: "'u synth_state \<Rightarrow> 'u synth_state" where
  "persist_progress s = s\<lparr>ss_saved := ss_saved s @ [ss_checkpoint s]\<rparr>"

text \<open>The local variables of a round: the checkpoint, whether a model was asked, and the state.\<close>

record ('u) round_world =
  rw_checkpoint :: synthesis_checkpoint
  rw_used :: bool
  rw_state :: "'u synth_state"

definition publish :: "'u round_world \<Rightarrow> 'u round_world" where
  "publish w = w\<lparr>rw_state := (rw_state w)\<lparr>ss_checkpoint := Some (rw_checkpoint w)\<rparr>\<rparr>"

definition publish_and_persist :: "'u round_world \<Rightarrow> 'u round_world" where
  "publish_and_persist w = (publish w)\<lparr>rw_state := persist_progress (rw_state (publish w))\<rparr>"

definition merge_exn :: "'u synth_tools \<Rightarrow> merge_error \<Rightarrow> exn" where
  "merge_exn sk e = OtherError ''ConnectionMergeError'' (st_message sk e)"

definition connection_budget_exhaustion :: "synth_limits \<Rightarrow> synthesis_checkpoint \<Rightarrow> merge_error option" where
  "connection_budget_exhaustion lm c =
     (let round_limit = max 1 (sl_round_calls lm); total_limit = max 1 (sl_total_calls lm)
      in if cc_llm c \<ge> total_limit then Some (BudgetExhausted True total_limit)
         else if cc_round c \<ge> round_limit then Some (BudgetExhausted False round_limit)
         else None)"

definition before_connection_attempt :: "synth_limits \<Rightarrow> 'u synth_tools \<Rightarrow> 'u round_world \<Rightarrow> (exn + unit) \<times> 'u round_world" where
  "before_connection_attempt lm sk w =
     (case connection_budget_exhaustion lm (rw_checkpoint w) of
        Some e \<Rightarrow> (Inl (merge_exn sk e), w)
      | None \<Rightarrow>
          let c = rw_checkpoint w; c = c\<lparr>cc_llm := cc_llm c + 1, cc_round := cc_round c + 1\<rparr>
          in (Inr (), publish_and_persist (w\<lparr>rw_checkpoint := c, rw_used := True\<rparr>)))"

definition lift_client :: "(string \<Rightarrow> string \<Rightarrow> 'u \<Rightarrow> (exn + string) \<times> 'u) \<Rightarrow> 'u round_world client" where
  "lift_client client sys user w =
     (case client sys user (ss_user (rw_state w)) of (r, u) \<Rightarrow> (r, w\<lparr>rw_state := (rw_state w)\<lparr>ss_user := u\<rparr>\<rparr>))"

definition delta_contract :: "'u synth_tools \<Rightarrow> connection_delta contract_model" where
  "delta_contract sk = \<lparr>cm_name = ''ConnectionDelta'', cm_schema = st_schema sk,
     cm_validate_json = (\<lambda>s. bind_res (st_parse sk s) (\<lambda>d. if delta_ok d then Inr d else Inl ''invalid ConnectionDelta''))\<rparr>"

definition empty_delta :: "string \<Rightarrow> int \<Rightarrow> connection_delta" where
  "empty_delta batch_id base =
     \<lparr>cd_batch = batch_id, cd_base = base, cd_create = [], cd_extend = [], cd_no_connect = [], cd_rationale = []\<rparr>"

definition propose_delta ::
    "synth_limits \<Rightarrow> 'u synth_tools \<Rightarrow> batch_spec \<Rightarrow> string \<Rightarrow> 'u round_world \<Rightarrow> (exn + connection_delta \<times> bool) \<times> 'u round_world" where
  "propose_delta lm sk batch merge_error w =
     (let prompt = st_prompt sk (rw_checkpoint w) batch;
          feedback = (if merge_error = [] then st_feedback sk
            else ''The previous batch delta was atomically rejected and no state changed: '' @ merge_error @ ''. Correct only this batch.'')
      in propose_structured (st_mode sk) (map_option lift_client (st_client sk)) feedback (delta_contract sk) (fst prompt) (snd prompt)
           (Inr (empty_delta (bs_id batch) (cc_revision (rw_checkpoint w)))) (Some (before_connection_attempt lm sk)) w)"

fun fail_batches :: "string \<Rightarrow> string \<Rightarrow> batch_checkpoint list \<Rightarrow> batch_checkpoint list" where
  "fail_batches batch_id error [] = []"
| "fail_batches batch_id error (b # bs) =
     (if bc_id b = batch_id then b\<lparr>bc_status := BatchFailed, bc_attempts := bc_attempts b + 1, bc_error := error\<rparr> # bs
      else b # fail_batches batch_id error bs)"

definition fail_batch :: "string \<Rightarrow> string \<Rightarrow> synthesis_checkpoint \<Rightarrow> synthesis_checkpoint" where
  "fail_batch batch_id error c = c\<lparr>cc_batches := fail_batches batch_id error (cc_batches c)\<rparr>"

datatype batch_end = Committed | Partial string | Raised exn

definition stop_with :: "synth_limits \<Rightarrow> 'u synth_tools \<Rightarrow> merge_error \<Rightarrow> batch_end" where
  "stop_with lm sk e = (if sl_artifact_first lm then Partial (st_message sk e) else Raised (merge_exn sk e))"

definition proposal_failed ::
    "synth_limits \<Rightarrow> batch_spec \<Rightarrow> exn \<Rightarrow> 'u round_world \<Rightarrow> batch_end \<times> 'u round_world" where
  "proposal_failed lm batch e w =
     (if \<not> sl_artifact_first lm then (Raised e, w)
      else if exn_name e = ''ConnectionMergeError'' then (Partial (exn_text e), w)
      else if is_llm_error e then
        let reason = ''connection batch '' @ bs_id batch @ '' proposal failed: '' @ exn_name e @ '': '' @ exn_text e
        in (Partial reason, publish (w\<lparr>rw_used := True, rw_checkpoint := fail_batch (bs_id batch) (take 2000 reason) (rw_checkpoint w)\<rparr>))
      else (Raised e, w))"

text \<open>The attempts at one batch; the first argument counts those that are left.\<close>

fun attempt_batch ::
    "nat \<Rightarrow> synth_env \<Rightarrow> synth_limits \<Rightarrow> 'u synth_tools \<Rightarrow> chosen_part list \<Rightarrow> batch_spec \<Rightarrow> string \<Rightarrow> 'u round_world \<Rightarrow> batch_end \<times> 'u round_world" where
  "attempt_batch 0 sy lm sk parts batch merge_error w = (Committed, w)"
| "attempt_batch (Suc n) sy lm sk parts batch merge_error w =
     (case connection_budget_exhaustion lm (rw_checkpoint w) of
        Some e \<Rightarrow> (stop_with lm sk e, w)
      | None \<Rightarrow>
          (case propose_delta lm sk batch merge_error w of
             (Inl e, w) \<Rightarrow> proposal_failed lm batch e w
           | (Inr (delta, delta_used), w) \<Rightarrow>
               let w = w\<lparr>rw_used := rw_used w \<or> delta_used\<rparr>
               in case merge_connection_delta sy (rw_checkpoint w) delta parts of
                    Inr c \<Rightarrow> (Committed, publish_and_persist (w\<lparr>rw_checkpoint := c\<rparr>))
                  | Inl e \<Rightarrow>
                      let reason = st_message sk e
                      in if length reason > 2000 then (Raised (ValidationError ''error''), w)
                         else let w = publish_and_persist (w\<lparr>rw_checkpoint := fail_batch (bs_id batch) reason (rw_checkpoint w)\<rparr>)
                              in if n = 0 then (stop_with lm sk e, w) else attempt_batch n sy lm sk parts batch reason w))"

fun batch_rounds ::
    "synth_env \<Rightarrow> synth_limits \<Rightarrow> 'u synth_tools \<Rightarrow> chosen_part list \<Rightarrow> batch_spec list \<Rightarrow> 'u round_world \<Rightarrow> batch_end \<times> 'u round_world" where
  "batch_rounds sy lm sk parts [] w = (Committed, w)"
| "batch_rounds sy lm sk parts (b # bs) w =
     (case find (\<lambda>s. bc_id s = bs_id b) (cc_batches (rw_checkpoint w)) of
        None \<Rightarrow> (Raised (OtherError ''KeyError'' (bs_id b)), w)
      | Some status \<Rightarrow>
          if completed_batch status then batch_rounds sy lm sk parts bs w
          else (case attempt_batch (nat (max 0 (sl_retries lm)) + 1) sy lm sk parts b [] w of
                  (Committed, w) \<Rightarrow> batch_rounds sy lm sk parts bs w
                | (stop, w) \<Rightarrow> (stop, w)))"

definition best_effort_partial ::
    "synth_env \<Rightarrow> synth_limits \<Rightarrow> 'u synth_tools \<Rightarrow> chosen_part list \<Rightarrow> output_estimate \<Rightarrow> string \<Rightarrow> 'u round_world
     \<Rightarrow> (exn + netlist_intent \<times> bool) \<times> 'u synth_state" where
  "best_effort_partial sy lm sk parts estimate reason w =
     (let c = rw_checkpoint w;
          rationale = ''bounded block-wise synthesis stopped after its repair budget; editable partial connectivity retained: '' @ reason
      in if length rationale > 10000 then (Inl (ValidationError ''rationale''), rw_state w)
         else case st_normalize sk ((cc_aggregate c)\<lparr>nl_rationale := rationale\<rparr>) of
                Inl e \<Rightarrow> (Inl e, rw_state w)
              | Inr a \<Rightarrow>
                  let s = rw_state (publish w)
                  in case connection_synthesis_report sy parts a Batched estimate (Some c) 0 0 (cc_llm c < max 1 (sl_total_calls lm)) reason of
                       Inl e \<Rightarrow> (Inl (ValidationError ''report''), s)
                     | Inr r \<Rightarrow> (Inr (a, rw_used w), persist_progress (s\<lparr>ss_report := Some r\<rparr>)))"

definition finish_round ::
    "synth_env \<Rightarrow> synth_limits \<Rightarrow> 'u synth_tools \<Rightarrow> chosen_part list \<Rightarrow> output_estimate \<Rightarrow> 'u round_world
     \<Rightarrow> (exn + netlist_intent \<times> bool) \<times> 'u synth_state" where
  "finish_round sy lm sk parts estimate w =
     (let c = rw_checkpoint w; pending = map bc_id (filter (\<lambda>b. \<not> completed_batch b) (cc_batches c))
      in if pending \<noteq> [] then
           (if sl_artifact_first lm then best_effort_partial sy lm sk parts estimate (st_message sk (PendingBatches pending)) w
            else (Inl (merge_exn sk (PendingBatches pending)), rw_state w))
         else case st_normalize sk ((cc_aggregate c)\<lparr>nl_rationale := ''bounded block-wise synthesis; '' @ nat_str (length (cc_batches c))
                @ '' batches; '' @ int_str (cc_llm c) @ '' proposal attempt(s)''\<rparr>) of
                Inl e \<Rightarrow> (Inl e, rw_state w)
              | Inr a \<Rightarrow>
                  (case connection_synthesis_report sy parts a Batched estimate (Some c) 0 0 False [] of
                     Inl e \<Rightarrow> (Inl (ValidationError ''report''), rw_state w)
                   | Inr r \<Rightarrow> (Inr (a, rw_used w),
                       persist_progress ((rw_state w)\<lparr>ss_report := Some r, ss_checkpoint := None\<rparr>))))"

definition fresh_checkpoint ::
    "synth_env \<Rightarrow> synth_limits \<Rightarrow> topology_plan \<Rightarrow> chosen_part list \<Rightarrow> 'u synth_state \<Rightarrow> plan_error + synthesis_checkpoint \<times> 'u synth_state" where
  "fresh_checkpoint sy lm t parts s =
     bind_res (plan_connection_batches sy t parts (nat (max 1 (sl_target lm))) (nat (max 1 (sl_max_batches lm))) None []
       UNKNOWN_SYMBOL_PIN_ESTIMATE) (\<lambda>plan.
     bind_res (new_connection_checkpoint sy t parts plan) (\<lambda>c.
       Inr (c, persist_progress (s\<lparr>ss_checkpoint := Some c\<rparr>))))"

text \<open>The checkpoint a round starts from: the stored one if it belongs to these inputs, a new one otherwise.\<close>

definition open_checkpoint ::
    "synth_env \<Rightarrow> synth_limits \<Rightarrow> topology_plan \<Rightarrow> chosen_part list \<Rightarrow> 'u synth_state \<Rightarrow> plan_error + synthesis_checkpoint \<times> 'u synth_state" where
  "open_checkpoint sy lm t parts s =
     (case ss_checkpoint s of
        None \<Rightarrow> fresh_checkpoint sy lm t parts s
      | Some c \<Rightarrow> if checkpoint_matches_inputs sy c t parts then Inr (c, s) else fresh_checkpoint sy lm t parts s)"

definition begin_round :: "synthesis_checkpoint \<Rightarrow> 'u synth_state \<Rightarrow> 'u round_world" where
  "begin_round c s =
     publish_and_persist \<lparr>rw_checkpoint = c\<lparr>cc_rounds := cc_rounds c + 1, cc_round := 0\<rparr>, rw_used = False, rw_state = s\<rparr>"

definition propose_batched ::
    "synth_env \<Rightarrow> synth_limits \<Rightarrow> 'u synth_tools \<Rightarrow> topology_plan \<Rightarrow> chosen_part list \<Rightarrow> 'u synth_state
     \<Rightarrow> (exn + netlist_intent \<times> bool) \<times> 'u synth_state" where
  "propose_batched sy lm sk t parts s =
     (case open_checkpoint sy lm t parts s of
        Inl e \<Rightarrow> (Inl (ValueError ''connection plan''), s)
      | Inr (c, s) \<Rightarrow>
          let w = begin_round c s
          in case estimate_connection_output sy parts (max 1 (sl_completion lm)) (55 / 100) (max 1 (sl_pin_limit lm)) UNKNOWN_SYMBOL_PIN_ESTIMATE of
               Inl e \<Rightarrow> (Inl (ValueError e), rw_state w)
             | Inr estimate \<Rightarrow>
                 (case batch_rounds sy lm sk parts (pn_batches (cc_plan (rw_checkpoint w))) w of
                    (Committed, w) \<Rightarrow> finish_round sy lm sk parts estimate w
                  | (Partial reason, w) \<Rightarrow> best_effort_partial sy lm sk parts estimate reason w
                  | (Raised e, w) \<Rightarrow> (Inl e, rw_state w)))"

end
