(* ===== verification/Round_Facts.thy ===== *)
theory Round_Facts
  imports Merge_Facts Connection_Round
begin

text \<open>
  One round of batched synthesis: whatever the model answers, the stored checkpoint keeps what was
  accepted before, stays within the budget of calls, and a finished round disposes of every pin.
\<close>

section \<open>Growth of a netlist\<close>

definition extends :: "netlist_intent \<Rightarrow> netlist_intent \<Rightarrow> bool" where
  "extends a a' \<longleftrightarrow> length (nl_nets a) \<le> length (nl_nets a')
     \<and> (\<forall>i < length (nl_nets a). nt_name (nl_nets a' ! i) = nt_name (nl_nets a ! i) \<and> nt_kind (nl_nets a' ! i) = nt_kind (nl_nets a ! i)
          \<and> set (nt_pins (nl_nets a ! i)) \<subseteq> set (nt_pins (nl_nets a' ! i)))
     \<and> set (nl_no_connect a) \<subseteq> set (nl_no_connect a')"

lemma extends_refl [simp]: "extends a a"
  by (simp add: extends_def)

lemma extends_trans:
  assumes "extends a b" "extends b c"
  shows "extends a c"
proof -
  have "nt_name (nl_nets c ! i) = nt_name (nl_nets a ! i) \<and> nt_kind (nl_nets c ! i) = nt_kind (nl_nets a ! i)
      \<and> set (nt_pins (nl_nets a ! i)) \<subseteq> set (nt_pins (nl_nets c ! i))" if i: "i < length (nl_nets a)" for i
  proof -
    have "i < length (nl_nets b)" using i assms(1) by (simp add: extends_def)
    with i assms show ?thesis unfolding extends_def by (metis (no_types, lifting) subset_trans)
  qed
  with assms show ?thesis unfolding extends_def by (meson le_trans subset_trans)
qed

lemma extends_revalidated: "extends (revalidated a) b = extends a b"
  by (simp add: extends_def revalidate_net_def)

lemma additive_extends:
  assumes "additive a d a'"
  shows "extends a a'"
proof -
  have len: "length (nl_nets a') = length (nl_nets a) + length (cd_create d)" using assms by (simp add: additive_def)
  have "\<exists>extra. nl_nets a' ! i = (nl_nets a ! i)\<lparr>nt_pins := nt_pins (nl_nets a ! i) @ extra\<rparr>" if i: "i < length (nl_nets a)" for i
  proof -
    have "(nl_nets a @ map (\<lambda>n. n\<lparr>nt_pins := []\<rparr>) (cd_create d)) ! i = nl_nets a ! i" using i by (simp add: nth_append)
    moreover have "i < length (nl_nets a')" using i len by simp
    ultimately show ?thesis using assms unfolding additive_def Let_def by metis
  qed
  then have "nt_name (nl_nets a' ! i) = nt_name (nl_nets a ! i) \<and> nt_kind (nl_nets a' ! i) = nt_kind (nl_nets a ! i)
      \<and> set (nt_pins (nl_nets a ! i)) \<subseteq> set (nt_pins (nl_nets a' ! i))" if "i < length (nl_nets a)" for i
    using that by force
  moreover have "set (nl_no_connect a) \<subseteq> set (nl_no_connect a')" using assms by (auto simp: additive_def)
  ultimately show ?thesis by (simp add: extends_def len)
qed

lemma extends_disposed:
  assumes "extends a a'" "disposed sy parts a k"
  shows "disposed sy parts a' k"
proof -
  have "\<exists>m \<in> set (nl_nets a'). carries sy parts m k" if n: "n \<in> set (nl_nets a)" "carries sy parts n k" for n
  proof -
    obtain i where i: "i < length (nl_nets a)" "n = nl_nets a ! i" using n(1) by (auto simp: in_set_conv_nth)
    then have "nl_nets a' ! i \<in> set (nl_nets a')" "set (nt_pins n) \<subseteq> set (nt_pins (nl_nets a' ! i))"
      using assms(1) by (auto simp: extends_def)
    with n(2) show ?thesis unfolding carries_def by blast
  qed
  moreover have "unconnected sy parts a' k" if "unconnected sy parts a k"
    using that assms(1) unfolding unconnected_def extends_def by blast
  ultimately show ?thesis using assms(2) unfolding disposed_def by blast
qed

lemma extends_covered: "extends a a' \<Longrightarrow> batch_covered sy parts a b \<Longrightarrow> batch_covered sy parts a' b"
  unfolding batch_covered_def using extends_disposed by blast

section \<open>Sound checkpoints\<close>

definition finished :: "synthesis_checkpoint \<Rightarrow> string \<Rightarrow> bool" where
  "finished c i \<longleftrightarrow> (\<exists>s \<in> set (cc_batches c). bc_id s = i \<and> completed_batch s)"

definition plan_covers :: "synth_env \<Rightarrow> chosen_part list \<Rightarrow> batch_plan \<Rightarrow> bool" where
  "plan_covers sy parts plan \<longleftrightarrow> (\<forall>p \<in> set parts. owned_numbers sy p \<noteq> [] \<longrightarrow> (\<exists>b \<in> set (pn_batches plan). pt_ref p \<in> set (bs_owned b)))"

text \<open>
  A checkpoint is sound when it is valid, no pin has two dispositions, the finished batches leave no
  pin of their parts over, and every part with pins belongs to a batch.
\<close>

definition sound_checkpoint :: "synth_env \<Rightarrow> chosen_part list \<Rightarrow> synthesis_checkpoint \<Rightarrow> bool" where
  "sound_checkpoint sy parts c \<longleftrightarrow> checkpoint_ok (revalidate c) \<and> exclusive sy parts (cc_aggregate c)
     \<and> (\<forall>b \<in> set (pn_batches (cc_plan c)). finished c (bs_id b) \<longrightarrow> batch_covered sy parts (cc_aggregate c) b)
     \<and> plan_covers sy parts (cc_plan c)"

definition disposes_all :: "synth_env \<Rightarrow> chosen_part list \<Rightarrow> netlist_intent \<Rightarrow> bool" where
  "disposes_all sy parts a \<longleftrightarrow> exclusive sy parts a \<and> (\<forall>p \<in> set parts. \<forall>n \<in> set (owned_numbers sy p). disposed sy parts a (physical p n))"

lemma sound_finished:
  assumes "sound_checkpoint sy parts c" "filter (\<lambda>b. \<not> completed_batch b) (cc_batches c) = []"
  shows "disposes_all sy parts (cc_aggregate c)"
proof -
  have ids: "map bc_id (cc_batches c) = map bs_id (pn_batches (cc_plan c))"
    using assms(1) by (simp add: sound_checkpoint_def checkpoint_ok_def)
  have "disposed sy parts (cc_aggregate c) (physical p n)" if p: "p \<in> set parts" "n \<in> set (owned_numbers sy p)" for p n
  proof -
    obtain b where b: "b \<in> set (pn_batches (cc_plan c))" "pt_ref p \<in> set (bs_owned b)"
      using assms(1) p unfolding sound_checkpoint_def plan_covers_def by (metis empty_iff list.set(1))
    have "bs_id b \<in> set (map bc_id (cc_batches c))" using b(1) by (simp add: ids)
    then have "finished c (bs_id b)" using assms(2) by (auto simp: finished_def filter_empty_conv)
    with assms(1) b p show ?thesis by (auto simp: sound_checkpoint_def batch_covered_def)
  qed
  with assms(1) show ?thesis by (simp add: disposes_all_def sound_checkpoint_def)
qed

lemma finished_complete: "s \<in> set (complete_batch i h bs) \<Longrightarrow> completed_batch s \<Longrightarrow> bc_id s = i \<or> s \<in> set bs"
  by (induction bs) (auto split: if_splits)

lemma finished_kept: "s \<in> set bs \<Longrightarrow> completed_batch s \<Longrightarrow> \<exists>s' \<in> set (complete_batch i h bs). bc_id s' = bc_id s \<and> completed_batch s'"
  by (induction bs) (auto simp: completed_batch_def)

lemma sound_revalidate [simp]: "sound_checkpoint sy parts (revalidate c) = sound_checkpoint sy parts c"
proof -
  have agg: "cc_aggregate (revalidate c) = revalidated (cc_aggregate c)" by (simp add: revalidate_def)
  have again: "revalidate (revalidate c) = revalidate c"
    by (simp add: revalidate_def revalidate_net_def dedup_distinct comp_def)
  show ?thesis
    unfolding sound_checkpoint_def agg again revalidated_spec batch_covered_def finished_def by simp
qed

text \<open>A merge keeps soundness and everything that was accepted.\<close>

definition keeps_accepted :: "synthesis_checkpoint \<Rightarrow> synthesis_checkpoint \<Rightarrow> bool" where
  "keeps_accepted c c' \<longleftrightarrow> cc_plan c' = cc_plan c \<and> extends (cc_aggregate c) (cc_aggregate c') \<and> (\<forall>i. finished c i \<longrightarrow> finished c' i)"

lemma keeps_accepted_refl [simp]: "keeps_accepted c c"
  by (simp add: keeps_accepted_def)

lemma keeps_accepted_trans: "keeps_accepted a b \<Longrightarrow> keeps_accepted b c \<Longrightarrow> keeps_accepted a c"
  unfolding keeps_accepted_def using extends_trans by metis

lemma merge_keeps:
  assumes "merge_connection_delta sy c d parts = Inr c'" "sound_checkpoint sy parts c"
  shows "sound_checkpoint sy parts c'" "keeps_accepted c c'" "cc_llm c' = cc_llm c" "cc_round c' = cc_round c"
proof -
  have "sound_checkpoint sy parts c' \<and> keeps_accepted c c' \<and> cc_llm c' = cc_llm c \<and> cc_round c' = cc_round c"
    using assms(1)
  proof (cases rule: merge_cases)
    case (replay status)
    have "extends (cc_aggregate c) (revalidated (cc_aggregate c))" using extends_revalidated [of "cc_aggregate c" "revalidated (cc_aggregate c)"] by simp
    with replay(1) assms(2) show ?thesis by (simp add: keeps_accepted_def finished_def) (simp add: revalidate_def)
  next
    case (commit b status)
    note spec = commit_spec [OF commit(8,1)]
    have grows: "extends (cc_aggregate c) (cc_aggregate c')"
      using additive_extends [OF spec(3)] by (simp add: revalidate_def extends_revalidated)
    have batches: "cc_batches c' = complete_batch (cd_batch d) (connection_delta_fingerprint d) (cc_batches c)" using spec(6) commit(3) by simp
    have "distinct (map bs_id (pn_batches (cc_plan c)))" using commit(1) by (simp add: checkpoint_ok_def batch_plan_ok_def)
    then have only: "x = b" if "x \<in> set (pn_batches (cc_plan c))" "bs_id x = cd_batch d" for x
      using that commit(2,3) by (metis distinct_map inj_onD)
    have "batch_covered sy parts (cc_aggregate c') x" if x: "x \<in> set (pn_batches (cc_plan c))" "finished c' (bs_id x)" for x
    proof (cases "bs_id x = cd_batch d")
      case True
      with only [OF x(1)] spec(4) show ?thesis by simp
    next
      case False
      then have "finished c (bs_id x)" using x(2) finished_complete unfolding finished_def batches by metis
      with assms(2) x(1) extends_covered [OF grows] show ?thesis by (simp add: sound_checkpoint_def)
    qed
    moreover have "\<forall>i. finished c i \<longrightarrow> finished c' i" using finished_kept unfolding finished_def batches by metis
    ultimately show ?thesis
      using spec assms(2) grows by (simp add: sound_checkpoint_def keeps_accepted_def revalidate_ok)
  qed
  then show "sound_checkpoint sy parts c'" "keeps_accepted c c'" "cc_llm c' = cc_llm c" "cc_round c' = cc_round c" by blast+
qed

section \<open>Rejected batches\<close>

text \<open>A batch that is not finished may be marked as failed.\<close>

lemma fail_batches_spec:
  assumes "\<not> (\<exists>s \<in> set bs. bc_id s = i \<and> completed_batch s)"
  shows "map bc_id (fail_batches i e bs) = map bc_id bs" "filter completed_batch (fail_batches i e bs) = filter completed_batch bs"
    "completed_prefix seen (fail_batches i e bs) = completed_prefix seen bs"
    "length e \<le> 2000 \<Longrightarrow> list_all batch_checkpoint_ok bs \<Longrightarrow> list_all batch_checkpoint_ok (fail_batches i e bs)"
  using assms by (induction bs arbitrary: seen) (auto simp: completed_batch_def batch_checkpoint_ok_def)

lemma fail_batch_fields [simp]:
  "cc_plan (fail_batch i e c) = cc_plan c" "cc_aggregate (fail_batch i e c) = cc_aggregate c"
  "cc_llm (fail_batch i e c) = cc_llm c" "cc_round (fail_batch i e c) = cc_round c"
  "cc_batches (fail_batch i e c) = fail_batches i e (cc_batches c)"
  by (simp_all add: fail_batch_def)

lemma finished_fail:
  assumes "\<not> finished c i"
  shows "finished (fail_batch i e c) j = finished c j"
proof -
  have filtered: "finished c' j \<longleftrightarrow> (\<exists>s \<in> set (filter completed_batch (cc_batches c')). bc_id s = j)" for c' by (auto simp: finished_def)
  show ?thesis unfolding filtered using fail_batches_spec(2) assms by (simp add: finished_def)
qed

lemma fail_keeps:
  assumes "sound_checkpoint sy parts c" "\<not> finished c i" "length e \<le> 2000"
  shows "sound_checkpoint sy parts (fail_batch i e c)" "keeps_accepted c (fail_batch i e c)"
proof -
  have free: "\<not> (\<exists>s \<in> set (cc_batches c). bc_id s = i \<and> completed_batch s)" using assms(2) by (simp add: finished_def)
  note spec = fail_batches_spec [OF free]
  have len: "length (fail_batches i e (cc_batches c)) = length (cc_batches c)" using spec(1) by (metis length_map)
  have re: "revalidate (fail_batch i e c) = fail_batch i e (revalidate c)" by (simp add: revalidate_def fail_batch_def)
  have ok: "checkpoint_ok (revalidate c)" using assms(1) by (simp add: sound_checkpoint_def)
  have "checkpoint_ok (fail_batch i e (revalidate c))"
    using ok spec(1,3) len spec(4) [OF assms(3)] by (auto simp: checkpoint_ok_def count_if_def spec(2) fail_batch_def)
  then show "sound_checkpoint sy parts (fail_batch i e c)"
    using assms(1) by (simp add: sound_checkpoint_def re finished_fail [OF assms(2)])
  show "keeps_accepted c (fail_batch i e c)" by (simp add: keeps_accepted_def finished_fail [OF assms(2)])
qed

section \<open>A round keeps its invariant\<close>

text \<open>What a proposal preserves, whatever the client answers.\<close>

locale guarded_attempts =
  fixes before :: "'w \<Rightarrow> (exn + unit) \<times> 'w"
    and client :: "'w client"
    and good :: "'w \<Rightarrow> bool"
    and ready :: "'w \<Rightarrow> bool"
  assumes refused: "good w \<Longrightarrow> before w = (Inl e, w') \<Longrightarrow> good w'"
    and admitted: "good w \<Longrightarrow> before w = (Inr (), w') \<Longrightarrow> ready w'"
    and called: "ready w \<Longrightarrow> good (snd (client sys user w))"
begin

lemma attempts_good: "good w \<Longrightarrow> good (snd (attempt_loop is md model sys user fb client (Some before) fallback lf w))"
proof (induction "is" arbitrary: lf w)
  case Nil
  then show ?case by (cases lf) simp
next
  case (Cons i js)
  obtain err out where lf: "lf = (err, out)" by (cases lf)
  define prompt where "prompt = (if i \<noteq> 0 then retry_prompt (feedback_prompt user fb) err (cm_schema model) else feedback_prompt user fb)"
  obtain b w1 where b: "before w = (b, w1)" by (cases "before w")
  obtain q w2 where q: "client sys prompt w1 = (q, w2)" by (cases "client sys prompt w1")
  show ?case
  proof (cases b)
    case (Inl e)
    with b Cons.prems show ?thesis by (simp add: lf refused)
  next
    case (Inr u)
    have "ready w1" using admitted [OF Cons.prems] b Inr by simp
    then have w2: "good w2" using called [of w1 sys prompt] by (simp add: q)
    show ?thesis
      unfolding lf attempt_loop.simps Let_def option.case b prod.case prompt_def [symmetric] q Inr sum.case
      using Cons.IH [OF w2] w2 by (simp split: sum.split exn.split)
  qed
qed

lemma proposal_good: "good w \<Longrightarrow> good (snd (propose_structured md (Some client) fb model sys user fallback (Some before) w))"
  by (simp add: propose_structured_def attempts_good del: attempt_loop.simps)

end

text \<open>
  The checkpoints a round may store, from the one it started with.  A measure of the state of the
  user counts the calls that the client has received in this round.
\<close>

definition round_checkpoint :: "synth_env \<Rightarrow> synth_limits \<Rightarrow> chosen_part list \<Rightarrow> synthesis_checkpoint \<Rightarrow> synthesis_checkpoint \<Rightarrow> bool" where
  "round_checkpoint sy lm parts c0 c \<longleftrightarrow> sound_checkpoint sy parts c \<and> keeps_accepted c0 c
     \<and> cc_round c \<le> max 1 (sl_round_calls lm) \<and> cc_llm c \<le> max (cc_llm c0) (max 1 (sl_total_calls lm))"

definition round_world_ok ::
    "synth_env \<Rightarrow> synth_limits \<Rightarrow> chosen_part list \<Rightarrow> synthesis_checkpoint \<Rightarrow> ('u \<Rightarrow> int) \<Rightarrow> synthesis_checkpoint option set \<Rightarrow> 'u round_world \<Rightarrow> bool" where
  "round_world_ok sy lm parts c0 m saved w \<longleftrightarrow> round_checkpoint sy lm parts c0 (rw_checkpoint w)
     \<and> ss_checkpoint (rw_state w) = Some (rw_checkpoint w) \<and> m (ss_user (rw_state w)) \<le> cc_round (rw_checkpoint w)
     \<and> set (ss_saved (rw_state w)) \<subseteq> saved \<union> Some ` {c. round_checkpoint sy lm parts c0 c}"

definition attempting ::
    "synth_env \<Rightarrow> synth_limits \<Rightarrow> chosen_part list \<Rightarrow> synthesis_checkpoint \<Rightarrow> ('u \<Rightarrow> int) \<Rightarrow> synthesis_checkpoint option set \<Rightarrow> batch_spec
     \<Rightarrow> 'u round_world \<Rightarrow> bool" where
  "attempting sy lm parts c0 m saved b w \<longleftrightarrow> round_world_ok sy lm parts c0 m saved w \<and> \<not> finished (rw_checkpoint w) (bs_id b)"

lemma publish_ok:
  assumes "round_world_ok sy lm parts c0 m saved w" "round_checkpoint sy lm parts c0 c" "cc_round (rw_checkpoint w) \<le> cc_round c"
  shows "round_world_ok sy lm parts c0 m saved (publish (w\<lparr>rw_checkpoint := c, rw_used := u\<rparr>))"
    and "round_world_ok sy lm parts c0 m saved (publish_and_persist (w\<lparr>rw_checkpoint := c, rw_used := u\<rparr>))"
  using assms by (auto simp: round_world_ok_def publish_def publish_and_persist_def persist_progress_def)

lemma publish_fields [simp]:
  "rw_checkpoint (publish w) = rw_checkpoint w" "rw_checkpoint (publish_and_persist w) = rw_checkpoint w"
  by (simp_all add: publish_def publish_and_persist_def)

lemma counted_call:
  assumes "round_checkpoint sy lm parts c0 c" "connection_budget_exhaustion lm c = None"
  shows "round_checkpoint sy lm parts c0 (c\<lparr>cc_llm := cc_llm c + 1, cc_round := cc_round c + 1\<rparr>)"
proof -
  have less: "cc_llm c < max 1 (sl_total_calls lm)" "cc_round c < max 1 (sl_round_calls lm)"
    using assms(2) by (auto simp: connection_budget_exhaustion_def Let_def split: if_splits)
  have re: "revalidate (c\<lparr>cc_llm := x, cc_round := y\<rparr>) = (revalidate c)\<lparr>cc_llm := x, cc_round := y\<rparr>" for x y by (simp add: revalidate_def)
  have "checkpoint_ok ((revalidate c)\<lparr>cc_llm := cc_llm c + 1, cc_round := cc_round c + 1\<rparr>)"
    using assms(1) by (auto simp: round_checkpoint_def sound_checkpoint_def checkpoint_ok_def)
  then have "sound_checkpoint sy parts (c\<lparr>cc_llm := cc_llm c + 1, cc_round := cc_round c + 1\<rparr>)"
    using assms(1) by (simp add: round_checkpoint_def sound_checkpoint_def re finished_def)
  moreover have "cc_llm c + 1 \<le> max (cc_llm c0) (max 1 (sl_total_calls lm))" using less(1) by linarith
  ultimately show ?thesis using assms(1) less(2) by (simp add: round_checkpoint_def keeps_accepted_def finished_def)
qed

definition calling ::
    "synth_env \<Rightarrow> synth_limits \<Rightarrow> chosen_part list \<Rightarrow> synthesis_checkpoint \<Rightarrow> ('u \<Rightarrow> int) \<Rightarrow> synthesis_checkpoint option set \<Rightarrow> batch_spec
     \<Rightarrow> 'u round_world \<Rightarrow> bool" where
  "calling sy lm parts c0 m saved b w \<longleftrightarrow> attempting sy lm parts c0 m saved b w \<and> m (ss_user (rw_state w)) < cc_round (rw_checkpoint w)"

lemma admitted_call:
  assumes w: "attempting sy lm parts c0 m saved b w" and call: "before_connection_attempt lm sk w = (Inr (), w')"
  shows "calling sy lm parts c0 m saved b w'"
proof -
  let ?c = "(rw_checkpoint w)\<lparr>cc_llm := cc_llm (rw_checkpoint w) + 1, cc_round := cc_round (rw_checkpoint w) + 1\<rparr>"
  have rw: "round_world_ok sy lm parts c0 m saved w" using w by (simp add: attempting_def)
  have w': "connection_budget_exhaustion lm (rw_checkpoint w) = None" "w' = publish_and_persist (w\<lparr>rw_checkpoint := ?c, rw_used := True\<rparr>)"
    using call by (auto simp: before_connection_attempt_def Let_def split: option.splits)
  have "round_checkpoint sy lm parts c0 ?c" using rw counted_call w'(1) by (simp add: round_world_ok_def)
  from publish_ok(2) [OF rw this, of True] w have "attempting sy lm parts c0 m saved b w'" by (simp add: attempting_def w'(2) finished_def)
  moreover have "m (ss_user (rw_state w')) < cc_round (rw_checkpoint w')"
    using rw by (simp add: w'(2) round_world_ok_def publish_and_persist_def publish_def persist_progress_def)
  ultimately show ?thesis by (simp add: calling_def)
qed

lemma refused_call: "before_connection_attempt lm sk w = (Inl e, w') \<Longrightarrow> w' = w"
  by (auto simp: before_connection_attempt_def Let_def split: option.splits)

definition counts_calls :: "('u \<Rightarrow> int) \<Rightarrow> (string \<Rightarrow> string \<Rightarrow> 'u \<Rightarrow> (exn + string) \<times> 'u) \<Rightarrow> bool" where
  "counts_calls m client \<longleftrightarrow> (\<forall>sys user u. m (snd (client sys user u)) \<le> m u + 1)"

lemma made_call:
  assumes "counts_calls m client" "calling sy lm parts c0 m saved b w"
  shows "attempting sy lm parts c0 m saved b (snd (lift_client client sys user w))"
proof -
  obtain q u where call: "client sys user (ss_user (rw_state w)) = (q, u)" by (cases "client sys user (ss_user (rw_state w))")
  have "m (snd (client sys user (ss_user (rw_state w)))) \<le> m (ss_user (rw_state w)) + 1" using assms(1) by (simp add: counts_calls_def)
  then have "m u \<le> cc_round (rw_checkpoint w)" using assms(2) by (simp add: call calling_def)
  with assms(2) show ?thesis by (simp add: calling_def attempting_def round_world_ok_def lift_client_def call)
qed

text \<open>A client that does not count its calls is replaced by one that answers nothing.\<close>

interpretation batch: guarded_attempts "before_connection_attempt lm sk"
    "lift_client (if counts_calls m client then client else (\<lambda>_ _ u. (Inl (LlmError []), u)))" "attempting sy lm parts c0 m saved b"
    "calling sy lm parts c0 m saved b"
  for lm sk client sy parts c0 m saved b
proof unfold_locales
  fix w w' and e :: exn assume "attempting sy lm parts c0 m saved b w" "before_connection_attempt lm sk w = (Inl e, w')"
  then show "attempting sy lm parts c0 m saved b w'" using refused_call by metis
next
  fix w w' assume "attempting sy lm parts c0 m saved b w" "before_connection_attempt lm sk w = (Inr (), w')"
  then show "calling sy lm parts c0 m saved b w'" by (rule admitted_call)
next
  fix w sys user assume w: "calling sy lm parts c0 m saved b w"
  have "counts_calls m (if counts_calls m client then client else (\<lambda>_ _ u. (Inl (LlmError []), u)))" by (simp add: counts_calls_def)
  then show "attempting sy lm parts c0 m saved b (snd (lift_client (if counts_calls m client then client else (\<lambda>_ _ u. (Inl (LlmError []), u))) sys user w))"
    by (rule made_call [OF _ w])
qed

definition tools_count :: "('u \<Rightarrow> int) \<Rightarrow> 'u synth_tools \<Rightarrow> bool" where
  "tools_count m sk \<longleftrightarrow> (case st_client sk of None \<Rightarrow> True | Some client \<Rightarrow> counts_calls m client)"

lemma counted_proposal:
  assumes "counts_calls m client" "attempting sy lm parts c0 m saved b w"
  shows "attempting sy lm parts c0 m saved b
    (snd (propose_structured md (Some (lift_client client)) fb model sys user fallback (Some (before_connection_attempt lm sk)) w))"
  using batch.proposal_good [OF assms(2), where client = client and model = model] assms(1) by simp

lemma propose_attempting:
  assumes "tools_count m sk" "attempting sy lm parts c0 m saved b w" "propose_delta lm sk b merge_error w = (r, w')"
  shows "attempting sy lm parts c0 m saved b w'"
proof (cases "st_client sk")
  case None
  with assms show ?thesis by (auto simp: propose_delta_def propose_structured_def Let_def split: if_splits)
next
  case (Some client)
  then have counts: "counts_calls m client" using assms(1) by (simp add: tools_count_def)
  have "w' = snd (propose_delta lm sk b merge_error w)" using assms(3) by simp
  also have "attempting sy lm parts c0 m saved b \<dots>"
    by (simp add: propose_delta_def Some Let_def counted_proposal [OF counts assms(2)])
  finally show ?thesis .
qed

text \<open>The attempts at a batch and the sequence of batches keep the invariant of the round.\<close>

lemma attempting_ok: "attempting sy lm parts c0 m saved b w \<Longrightarrow> round_world_ok sy lm parts c0 m saved w"
  by (simp add: attempting_def)

lemma failed_ok:
  assumes "attempting sy lm parts c0 m saved b w" "length e \<le> 2000"
  shows "attempting sy lm parts c0 m saved b (publish (w\<lparr>rw_used := u, rw_checkpoint := fail_batch (bs_id b) e (rw_checkpoint w)\<rparr>))"
    and "attempting sy lm parts c0 m saved b (publish_and_persist (w\<lparr>rw_checkpoint := fail_batch (bs_id b) e (rw_checkpoint w)\<rparr>))"
proof -
  let ?c = "fail_batch (bs_id b) e (rw_checkpoint w)"
  have rw: "round_world_ok sy lm parts c0 m saved w" and fin: "\<not> finished (rw_checkpoint w) (bs_id b)" using assms(1) by (simp_all add: attempting_def)
  have c: "round_checkpoint sy lm parts c0 (rw_checkpoint w)" using rw by (simp add: round_world_ok_def)
  then have "sound_checkpoint sy parts (rw_checkpoint w)" by (simp add: round_checkpoint_def)
  from fail_keeps [OF this fin assms(2)] keeps_accepted_trans c have new: "round_checkpoint sy lm parts c0 ?c" by (auto simp: round_checkpoint_def)
  have swap: "w\<lparr>rw_used := u, rw_checkpoint := ?c\<rparr> = w\<lparr>rw_checkpoint := ?c, rw_used := u\<rparr>" by simp
  show "attempting sy lm parts c0 m saved b (publish (w\<lparr>rw_used := u, rw_checkpoint := ?c\<rparr>))"
    unfolding swap using publish_ok(1) [OF rw new, of u] by (simp add: attempting_def finished_fail [OF fin] fin)
  show "attempting sy lm parts c0 m saved b (publish_and_persist (w\<lparr>rw_checkpoint := ?c\<rparr>))"
    using publish_ok(2) [OF rw new, of "rw_used w"] by (simp add: attempting_def finished_fail [OF fin] fin)
qed

lemma proposal_failed_ok:
  "attempting sy lm parts c0 m saved b w \<Longrightarrow> round_world_ok sy lm parts c0 m saved (snd (proposal_failed lm b e w))"
proof -
  assume w: "attempting sy lm parts c0 m saved b w"
  define reason where "reason = ''connection batch '' @ bs_id b @ '' proposal failed: '' @ exn_name e @ '': '' @ exn_text e"
  have "length (take 2000 reason) \<le> 2000" by simp
  from attempting_ok [OF failed_ok(1) [OF w this, of True]] attempting_ok [OF w] show ?thesis
    unfolding proposal_failed_def reason_def [symmetric] Let_def by (simp split: if_split)
qed

lemma merged_ok:
  assumes "round_world_ok sy lm parts c0 m saved w" "merge_connection_delta sy (rw_checkpoint w) d parts = Inr c"
  shows "round_world_ok sy lm parts c0 m saved (publish_and_persist (w\<lparr>rw_checkpoint := c\<rparr>))"
proof -
  have old: "round_checkpoint sy lm parts c0 (rw_checkpoint w)" using assms(1) by (simp add: round_world_ok_def)
  then have "sound_checkpoint sy parts (rw_checkpoint w)" by (simp add: round_checkpoint_def)
  note kept = merge_keeps [OF assms(2) this]
  from kept old keeps_accepted_trans have "round_checkpoint sy lm parts c0 c" by (auto simp: round_checkpoint_def)
  from publish_ok(2) [OF assms(1) this, of "rw_used w"] kept(4) show ?thesis by simp
qed

lemma attempt_batch_ok:
  "tools_count m sk \<Longrightarrow> attempting sy lm parts c0 m saved b w \<Longrightarrow> round_world_ok sy lm parts c0 m saved (snd (attempt_batch n sy lm sk parts b merge_error w))"
proof (induction n arbitrary: merge_error w)
  case 0
  then show ?case by (simp add: attempting_ok)
next
  case (Suc n)
  show ?case
  proof (cases "connection_budget_exhaustion lm (rw_checkpoint w)")
    case (Some e)
    with Suc.prems(2) show ?thesis by (simp add: attempting_ok)
  next
    case budget: None
    obtain r w1 where p: "propose_delta lm sk b merge_error w = (r, w1)" by (cases "propose_delta lm sk b merge_error w")
    have w1: "attempting sy lm parts c0 m saved b w1" by (rule propose_attempting [OF Suc.prems p])
    show ?thesis
    proof (cases r)
      case (Inl e)
      with budget p proposal_failed_ok [OF w1] show ?thesis by simp
    next
      case r: (Inr du)
      obtain d u where du: "du = (d, u)" by (cases du)
      define w2 where "w2 = w1\<lparr>rw_used := rw_used w1 \<or> u\<rparr>"
      have w2: "attempting sy lm parts c0 m saved b w2" using w1 by (simp add: w2_def attempting_def round_world_ok_def)
      show ?thesis
      proof (cases "merge_connection_delta sy (rw_checkpoint w2) d parts")
        case (Inl e)
        have "round_world_ok sy lm parts c0 m saved (snd (attempt_batch n sy lm sk parts b (st_message sk e)
            (publish_and_persist (w2\<lparr>rw_checkpoint := fail_batch (bs_id b) (st_message sk e) (rw_checkpoint w2)\<rparr>))))"
          if "length (st_message sk e) \<le> 2000"
          by (rule Suc.IH [OF Suc.prems(1) failed_ok(2) [OF w2 that]])
        with attempting_ok [OF w2] attempting_ok [OF failed_ok(2) [OF w2]] show ?thesis
          unfolding attempt_batch.simps budget p r du option.case prod.case sum.case Let_def w2_def [symmetric] Inl by simp
      next
        case (Inr c)
        from merged_ok [OF attempting_ok [OF w2] Inr] show ?thesis
          unfolding attempt_batch.simps budget p r du option.case prod.case sum.case Let_def w2_def [symmetric] Inr by simp
      qed
    qed
  qed
qed

lemma sound_distinct: "sound_checkpoint sy parts c \<Longrightarrow> distinct (map bc_id (cc_batches c))"
  by (simp add: sound_checkpoint_def checkpoint_ok_def batch_plan_ok_def)

lemma find_unfinished:
  assumes "sound_checkpoint sy parts c" "find (\<lambda>s. bc_id s = i) (cc_batches c) = Some status" "\<not> completed_batch status"
  shows "\<not> finished c i"
proof -
  have "status \<in> set (cc_batches c)" "bc_id status = i" using find_SomeD [OF assms(2)] by simp_all
  then have "s = status" if "s \<in> set (cc_batches c)" "bc_id s = i" for s
    using that sound_distinct [OF assms(1)] by (metis distinct_map inj_onD)
  with assms(3) show ?thesis by (auto simp: finished_def)
qed

lemma batch_rounds_ok:
  "tools_count m sk \<Longrightarrow> round_world_ok sy lm parts c0 m saved w \<Longrightarrow> round_world_ok sy lm parts c0 m saved (snd (batch_rounds sy lm sk parts bs w))"
proof (induction bs arbitrary: w)
  case (Cons b bs)
  show ?case
  proof (cases "find (\<lambda>s. bc_id s = bs_id b) (cc_batches (rw_checkpoint w))")
    case None
    with Cons.prems show ?thesis by simp
  next
    case (Some status)
    show ?thesis
    proof (cases "completed_batch status")
      case True
      with Some Cons show ?thesis by simp
    next
      case False
      have "sound_checkpoint sy parts (rw_checkpoint w)" using Cons.prems by (simp add: round_world_ok_def round_checkpoint_def)
      from find_unfinished [OF this Some False] Cons.prems have w: "attempting sy lm parts c0 m saved b w" by (simp add: attempting_def)
      obtain stop w1 where a: "attempt_batch (nat (max 0 (sl_retries lm)) + 1) sy lm sk parts b [] w = (stop, w1)"
        by (cases "attempt_batch (nat (max 0 (sl_retries lm)) + 1) sy lm sk parts b [] w")
      have w1: "round_world_ok sy lm parts c0 m saved w1" using attempt_batch_ok [OF Cons.prems(1) w] a by (metis snd_conv)
      show ?thesis using Some False a w1 Cons.IH [OF Cons.prems(1) w1] by (cases stop) simp_all
    qed
  qed
qed simp

section \<open>Where a round starts\<close>

lemma owned_counted: "owned_numbers sy p \<noteq> [] \<Longrightarrow> fst (pin_count sy u p) \<noteq> 0"
  by (auto simp: owned_numbers_def pin_count_def sorted_set_def split: option.splits)

lemma fresh_sound:
  assumes "set_iteration sy" "distinct (map pt_ref parts)" "fresh_checkpoint sy lm t parts s = Inr (c, s')"
  shows "sound_checkpoint sy parts c" "cc_llm c = 0 \<and> cc_round c = 0" "s' = persist_progress (s\<lparr>ss_checkpoint := Some c\<rparr>)"
proof -
  let ?plan = "planned sy UNKNOWN_SYMBOL_PIN_ESTIMATE t parts (nat (max 1 (sl_target lm))) (nat (max 1 (sl_max_batches lm)))"
  have c: "new_connection_checkpoint sy t parts ?plan = Inr c" and s': "s' = persist_progress (s\<lparr>ss_checkpoint := Some c\<rparr>)"
    using assms(3) by (auto simp: fresh_checkpoint_def bind_res_Inr_iff plan_expand [OF assms(1)] UNKNOWN_SYMBOL_PIN_ESTIMATE_def split: if_splits)
  show "s' = persist_progress (s\<lparr>ss_checkpoint := Some c\<rparr>)" by (rule s')
  have ok: "checkpoint_ok c" and fields: "cc_plan c = ?plan" "cc_llm c = 0 \<and> cc_round c = 0" "\<forall>n \<in> set (nl_nets (cc_aggregate c)). nt_pins n = []"
      "nl_no_connect (cc_aggregate c) = []" "\<forall>b \<in> set (cc_batches c). bc_status b = BatchPending"
    using c by (auto simp: new_connection_checkpoint_def Let_def split: if_splits)
  show "cc_llm c = 0 \<and> cc_round c = 0" by (rule fields(2))
  have "exclusive sy parts (cc_aggregate c)" using fields(3,4) by (auto simp: exclusive_def carries_def)
  moreover have "\<not> finished c i" for i using fields(5) by (auto simp: finished_def completed_batch_def)
  moreover have "plan_covers sy parts ?plan"
  proof -
    have batches: "pn_batches ?plan = planned_batches sy UNKNOWN_SYMBOL_PIN_ESTIMATE t parts (nat (max 1 (sl_target lm))) (nat (max 1 (sl_max_batches lm)))"
      by (simp add: planned_def Let_def)
    have "pt_ref p \<in> set (concat (map bs_owned (pn_batches ?plan)))" if "p \<in> set parts" "owned_numbers sy p \<noteq> []" for p
      unfolding batches using planned_owners(2) [OF assms(1,2)] that owned_counted by auto
    then show ?thesis by (auto simp: plan_covers_def)
  qed
  ultimately show "sound_checkpoint sy parts c" using ok fields(1) by (simp add: sound_checkpoint_def revalidate_ok)
qed

text \<open>The checkpoint that a round starts from is the stored one or a new one, and is sound either way.\<close>

lemma open_sound:
  assumes "set_iteration sy" "distinct (map pt_ref parts)" "open_checkpoint sy lm t parts s = Inr (c, s')"
    and "\<And>c. ss_checkpoint s = Some c \<Longrightarrow> checkpoint_matches_inputs sy c t parts \<Longrightarrow> sound_checkpoint sy parts c"
  shows "sound_checkpoint sy parts c"
    and "\<forall>c0. ss_checkpoint s = Some c0 \<longrightarrow> checkpoint_matches_inputs sy c0 t parts \<longrightarrow> c = c0"
    and "ss_checkpoint s = Some c \<or> cc_llm c = 0"
    and "x \<in> set (ss_saved s') \<Longrightarrow> x \<in> set (ss_saved s) \<or> (x = Some c \<and> cc_round c = 0)"
    and "ss_user s' = ss_user s"
proof -
  have "sound_checkpoint sy parts c \<and> (\<forall>c0. ss_checkpoint s = Some c0 \<longrightarrow> checkpoint_matches_inputs sy c0 t parts \<longrightarrow> c = c0)
      \<and> (ss_checkpoint s = Some c \<or> cc_llm c = 0) \<and> (\<forall>x \<in> set (ss_saved s'). x \<in> set (ss_saved s) \<or> (x = Some c \<and> cc_round c = 0))
      \<and> ss_user s' = ss_user s"
  proof (cases "\<exists>c0. ss_checkpoint s = Some c0 \<and> checkpoint_matches_inputs sy c0 t parts")
    case True
    with assms(3,4) show ?thesis by (auto simp: open_checkpoint_def)
  next
    case False
    then have "fresh_checkpoint sy lm t parts s = Inr (c, s')"
      using assms(3) by (auto simp: open_checkpoint_def split: option.splits if_splits)
    from fresh_sound [OF assms(1,2) this] False show ?thesis by (auto simp: persist_progress_def)
  qed
  then show "sound_checkpoint sy parts c"
    and "\<forall>c0. ss_checkpoint s = Some c0 \<longrightarrow> checkpoint_matches_inputs sy c0 t parts \<longrightarrow> c = c0"
    and "ss_checkpoint s = Some c \<or> cc_llm c = 0"
    and "x \<in> set (ss_saved s') \<Longrightarrow> x \<in> set (ss_saved s) \<or> (x = Some c \<and> cc_round c = 0)"
    and "ss_user s' = ss_user s" by blast+
qed

lemma begin_round_ok:
  assumes "sound_checkpoint sy parts c" "set (ss_saved s) \<subseteq> saved" "m (ss_user s) \<le> 0"
  shows "round_world_ok sy lm parts c m saved (begin_round c s)"
proof -
  let ?c = "c\<lparr>cc_rounds := cc_rounds c + 1, cc_round := 0\<rparr>"
  have re: "revalidate ?c = (revalidate c)\<lparr>cc_rounds := cc_rounds c + 1, cc_round := 0\<rparr>" by (simp add: revalidate_def)
  have "checkpoint_ok ((revalidate c)\<lparr>cc_rounds := cc_rounds c + 1, cc_round := 0\<rparr>)"
    using assms(1) by (auto simp: sound_checkpoint_def checkpoint_ok_def)
  then have "sound_checkpoint sy parts ?c" using assms(1) by (simp add: sound_checkpoint_def re finished_def)
  then have "round_checkpoint sy lm parts c ?c" by (simp add: round_checkpoint_def keeps_accepted_def finished_def)
  with assms(2,3) show ?thesis by (auto simp: begin_round_def round_world_ok_def publish_and_persist_def publish_def persist_progress_def)
qed

text \<open>How a round ends: with the stored checkpoint of the invariant, or with a netlist that disposes of every pin.\<close>

definition round_ends ::
    "synth_env \<Rightarrow> synth_limits \<Rightarrow> 'u synth_tools \<Rightarrow> chosen_part list \<Rightarrow> synthesis_checkpoint \<Rightarrow> ('u \<Rightarrow> int) \<Rightarrow> synthesis_checkpoint option set
     \<Rightarrow> exn + netlist_intent \<times> bool \<Rightarrow> 'u synth_state \<Rightarrow> bool" where
  "round_ends sy lm sk parts c0 m saved r s \<longleftrightarrow>
     m (ss_user s) \<le> max 1 (sl_round_calls lm) \<and> (\<forall>c. Some c \<in> set (ss_saved s) - saved \<longrightarrow> round_checkpoint sy lm parts c0 c)
     \<and> (case ss_checkpoint s of
          Some c \<Rightarrow> round_checkpoint sy lm parts c0 c
        | None \<Rightarrow> \<exists>a used c why. r = Inr (a, used) \<and> round_checkpoint sy lm parts c0 c \<and> disposes_all sy parts (cc_aggregate c)
            \<and> st_normalize sk ((cc_aggregate c)\<lparr>nl_rationale := why\<rparr>) = Inr a)"

lemma round_calls: "round_world_ok sy lm parts c0 m saved w \<Longrightarrow> m (ss_user (rw_state w)) \<le> max 1 (sl_round_calls lm)"
  unfolding round_world_ok_def round_checkpoint_def by linarith

lemma stopped_round_ends: "round_world_ok sy lm parts c0 m saved w \<Longrightarrow> round_ends sy lm sk parts c0 m saved r (rw_state w)"
  using round_calls [of sy lm parts c0 m saved w] by (auto simp: round_world_ok_def round_ends_def)

lemma partial_round_ends:
  assumes "round_world_ok sy lm parts c0 m saved w" "best_effort_partial sy lm sk parts estimate reason w = (r, s)"
  shows "round_ends sy lm sk parts c0 m saved r s"
  using assms round_calls [OF assms(1)]
  by (auto simp: best_effort_partial_def Let_def round_world_ok_def round_ends_def publish_def persist_progress_def
      split: if_splits sum.splits)

lemma finish_round_ends:
  assumes "round_world_ok sy lm parts c0 m saved w" "finish_round sy lm sk parts estimate w = (r, s)"
  shows "round_ends sy lm sk parts c0 m saved r s"
proof (cases "filter (\<lambda>b. \<not> completed_batch b) (cc_batches (rw_checkpoint w)) = []")
  case False
  then have "\<not> sl_artifact_first lm \<and> s = rw_state w
      \<or> best_effort_partial sy lm sk parts estimate (st_message sk (PendingBatches (map bc_id (filter (\<lambda>b. \<not> completed_batch b) (cc_batches (rw_checkpoint w)))))) w = (r, s)"
    using assms(2) by (auto simp: finish_round_def Let_def split: if_splits)
  then show ?thesis using stopped_round_ends [OF assms(1)] partial_round_ends [OF assms(1)] by blast
next
  case True
  have c: "round_checkpoint sy lm parts c0 (rw_checkpoint w)" using assms(1) by (simp add: round_world_ok_def)
  then have all: "disposes_all sy parts (cc_aggregate (rw_checkpoint w))"
    using sound_finished [OF _ True] by (simp add: round_checkpoint_def)
  consider "s = rw_state w" | a r' why where "r = Inr (a, rw_used w)" "st_normalize sk ((cc_aggregate (rw_checkpoint w))\<lparr>nl_rationale := why\<rparr>) = Inr a"
      "s = persist_progress ((rw_state w)\<lparr>ss_report := Some r', ss_checkpoint := None\<rparr>)"
    using assms(2) True by (auto simp: finish_round_def Let_def split: sum.splits)
  then show ?thesis
  proof cases
    case 1
    then show ?thesis using stopped_round_ends [OF assms(1)] by blast
  next
    case 2
    with assms(1) c all round_calls [OF assms(1)] show ?thesis by (auto simp: round_ends_def round_world_ok_def persist_progress_def)
  qed
qed

section \<open>The property\<close>

text \<open>
  C16: whatever the model answers, a round of batched synthesis that starts without a stored
  checkpoint, or from a sound one, either fails in planning and changes nothing, or stores sound
  checkpoints only: each keeps the plan, the nets, pins and finished batches of the checkpoint it
  started from, its counters stay within the limits of the round and of the whole synthesis, and the
  client has received no more calls than the limit of the round.  The
  checkpoint is dropped only for a netlist in which every pin of every part is on exactly one net or
  marked as not connected.
\<close>

theorem batched_round_sound:
  assumes "set_iteration sy" "distinct (map pt_ref parts)"
    and "\<And>c. ss_checkpoint s = Some c \<Longrightarrow> checkpoint_matches_inputs sy c t parts \<Longrightarrow> sound_checkpoint sy parts c"
    and "tools_count calls sk" "propose_batched sy lm sk t parts s = (r, s')"
  shows "(\<exists>e. open_checkpoint sy lm t parts s = Inl e \<and> r = Inl (ValueError ''connection plan'') \<and> s' = s)
    \<or> (\<exists>c0. sound_checkpoint sy parts c0 \<and> (ss_checkpoint s = Some c0 \<or> cc_llm c0 = 0)
         \<and> (\<forall>c. ss_checkpoint s = Some c \<longrightarrow> checkpoint_matches_inputs sy c t parts \<longrightarrow> c = c0)
         \<and> round_ends sy lm sk parts c0 (\<lambda>u. calls u - calls (ss_user s)) (set (ss_saved s)) r s')"
proof (cases "open_checkpoint sy lm t parts s")
  case (Inl e)
  with assms(5) show ?thesis by (auto simp: propose_batched_def)
next
  case (Inr cs)
  obtain c0 s0 where cs: "cs = (c0, s0)" by (cases cs)
  note start = open_sound [OF assms(1,2) Inr [unfolded cs] assms(3)]
  let ?m = "\<lambda>u. calls u - calls (ss_user s)"
  have tools: "tools_count ?m sk" using assms(4) by (simp add: tools_count_def counts_calls_def split: option.splits)
  have user: "ss_user s0 = ss_user s" by (rule start(5))
  have w: "round_world_ok sy lm parts c0 ?m (set (ss_saved s0)) (begin_round c0 s0)" by (rule begin_round_ok [OF start(1) subset_refl]) (simp_all add: user)
  have "round_ends sy lm sk parts c0 ?m (set (ss_saved s0)) r s'"
  proof (cases "estimate_connection_output sy parts (max 1 (sl_completion lm)) (55 / 100) (max 1 (sl_pin_limit lm)) UNKNOWN_SYMBOL_PIN_ESTIMATE")
    case Inl': (Inl e)
    have "s' = rw_state (begin_round c0 s0)"
      using assms(5) [unfolded propose_batched_def Inr cs sum.case prod.case Let_def Inl'] by simp
    then show ?thesis using stopped_round_ends [OF w] by simp
  next
    case est: (Inr estimate)
    obtain stop w1 where b: "batch_rounds sy lm sk parts (pn_batches (cc_plan (rw_checkpoint (begin_round c0 s0)))) (begin_round c0 s0) = (stop, w1)"
      by (cases "batch_rounds sy lm sk parts (pn_batches (cc_plan (rw_checkpoint (begin_round c0 s0)))) (begin_round c0 s0)")
    have w1: "round_world_ok sy lm parts c0 ?m (set (ss_saved s0)) w1" using batch_rounds_ok [OF tools w] b by (metis snd_conv)
    note run = assms(5) [unfolded propose_batched_def Inr cs sum.case prod.case Let_def est b]
    show ?thesis
    proof (cases stop)
      case Committed
      with run have "finish_round sy lm sk parts estimate w1 = (r, s')" by simp
      then show ?thesis by (rule finish_round_ends [OF w1])
    next
      case (Partial reason)
      with run have "best_effort_partial sy lm sk parts estimate reason w1 = (r, s')" by simp
      then show ?thesis by (rule partial_round_ends [OF w1])
    next
      case (Raised e)
      with run have "s' = rw_state w1" by simp
      then show ?thesis using stopped_round_ends [OF w1] by simp
    qed
  qed
  moreover have "round_checkpoint sy lm parts c0 c0" if "cc_round c0 = 0" using that start(1) by (simp add: round_checkpoint_def)
  ultimately have "round_ends sy lm sk parts c0 ?m (set (ss_saved s)) r s'"
    using start(4) unfolding round_ends_def by blast
  with start(1-3) show ?thesis by blast
qed

definition divider_limits :: synth_limits where
  "divider_limits = \<lparr>sl_target = 96, sl_max_batches = 8, sl_completion = 4096, sl_pin_limit = 96, sl_round_calls = 4, sl_total_calls = 8,
     sl_retries = 1, sl_artifact_first = True\<rparr>"

definition divider_tools :: "nat synth_tools" where
  "divider_tools = \<lparr>st_mode = REQUIRED, st_client = Some (\<lambda>_ _ calls. (Inr ''{}'', calls + 1)), st_parse = (\<lambda>_. Inr divider_delta),
     st_schema = [], st_prompt = (\<lambda>_ _. ([], [])), st_feedback = [], st_message = (\<lambda>_. ''rejected''), st_normalize = Inr\<rparr>"

definition divider_state :: "nat synth_state" where
  "divider_state = \<lparr>ss_checkpoint = Some divider_open, ss_report = None, ss_saved = [], ss_user = 0\<rparr>"

lemma divider_sound: "sound_checkpoint divider_synth [load_resistor] divider_open"
proof -
  have "plan_covers divider_synth [load_resistor] divider_plan"
    by (simp add: plan_covers_def divider_plan_def Let_def divider_spec_def load_resistor_def)
  moreover have "cc_plan divider_open = divider_plan" "\<not> finished divider_open i" for i
    by (simp_all add: divider_open_def finished_def completed_batch_def)
  moreover have "exclusive divider_synth [load_resistor] (cc_aggregate divider_open)"
    by (simp add: exclusive_def carries_def divider_open_def divider_netlist_def divider_nets_def)
  ultimately show ?thesis using divider_checkpoints_ok by (simp add: sound_checkpoint_def revalidate_ok)
qed

lemma divider_matches: "checkpoint_matches_inputs divider_synth divider_open divider_topology [load_resistor]"
  using divider_checkpoints_ok by (simp add: checkpoint_matches_inputs_def revalidate_ok) (simp add: divider_open_def)

theorem batched_round_sound_witness:
  "\<exists>r s. propose_batched divider_synth divider_limits divider_tools divider_topology [load_resistor] divider_state = (r, s)
     \<and> round_ends divider_synth divider_limits divider_tools [load_resistor] divider_open int {} r s"
proof -
  obtain r s where run: "propose_batched divider_synth divider_limits divider_tools divider_topology [load_resistor] divider_state = (r, s)"
    by (cases "propose_batched divider_synth divider_limits divider_tools divider_topology [load_resistor] divider_state")
  have state: "ss_saved divider_state = []" "ss_checkpoint divider_state = Some divider_open" "ss_user divider_state = 0"
    by (simp_all add: divider_state_def)
  have "set_iteration divider_synth" by (simp add: set_iteration_def divider_synth_def)
  moreover have "distinct (map pt_ref [load_resistor])" by simp
  moreover have "sound_checkpoint divider_synth [load_resistor] c" if "ss_checkpoint divider_state = Some c" for c
    using that divider_sound by (simp add: state)
  moreover have "tools_count int divider_tools" by (simp add: tools_count_def counts_calls_def divider_tools_def)
  ultimately have "round_ends divider_synth divider_limits divider_tools [load_resistor] divider_open (\<lambda>u. int u - int (ss_user divider_state))
      (set (ss_saved divider_state)) r s"
    using batched_round_sound [OF _ _ _ _ run, of int] divider_matches by (auto simp: open_checkpoint_def state)
  then show ?thesis using run by (simp add: state)
qed

end
