(* ===== verification/Spec2Isabelle.thy ===== *)
theory Spec2Isabelle
  imports Pipeline_Facts Resume_Facts Structured_Facts Samples Registry_Facts Evaluator_Facts
    Sandbox_Facts Collector_Facts Shape_Facts Redis_Endings Closure_Facts Release_Facts
    Decision_Facts Warning_Facts Round_Facts
begin

text \<open>
  A verification development for \<open>ratsnestpro\<close>, a multi-agent system that designs circuit
  boards through a pinned pipeline of seventeen steps, runs such pipelines as a service,
  and lets its own harness evolve under governance.

  \<^bold>\<open>The program and its model.\<close>  The theories follow the parts of the program; every
  definition translates the lines of the source it is named after.

  \<^item> \<open>Prelude\<close>: Python strings, ordered dictionaries, dynamic values and fallible
    sequencing; \<open>Paths\<close>: POSIX path components, shell globs and UTF-8; \<open>Regex\<close>,
    \<open>Json\<close> and \<open>Sha256\<close>: the parts of \<open>re\<close>, \<open>json\<close> and \<open>hashlib\<close> the code uses.
  \<^item> \<open>Ahe\<close> is \<open>orchestration/ahe.py\<close>: the taxonomy of failures, their stable identity,
    their attribution to design, harness or environment, and the recovery contracts.
  \<^item> \<open>Pipeline_Types\<close>, \<open>Step_Run\<close>, \<open>Recovery\<close> and \<open>Pipeline_Run\<close> are the engine of
    \<open>orchestration/pipeline.py\<close>: the state and its records; \<open>BaseStep.run\<close> (propose or
    resume, check, transient retry, bounded repair, verdict); the recovery planner with
    its deterministic fallback; and \<open>Pipeline.run\<close> (execute, continue, repair locally,
    replan upstream with rollback, give up).  The state is passed explicitly; a hook of a
    step may return or raise, and what it leaves behind in either case is adopted.
  \<^item> \<open>Structured_Output\<close> is the path from a model reply to a validated value:
    extraction of JSON, completion of truncated JSON, and the proposal loop.
  \<^item> \<open>Resume\<close> is \<open>restore_pipeline_state\<close>: the longest prefix of a saved run that still
    passes the current checks.
  \<^item> \<open>Run_Registry\<close> is \<open>service/run_registry.py\<close>: the run records, their events and
    subscriptions, and the asyncio tasks that execute them, as operations on a registry
    whose interleavings are the steps of an inductive relation in \<open>Registry_Facts\<close>.
  \<^item> \<open>Redis_Registry\<close> and \<open>Redis_Client\<close> are \<open>service/redis_run_registry.py\<close>, the registry that
    several instances share: each Lua script is an atomic function on the database of state
    hashes, event streams, leases and fences, the instances interleave in the step relation
    \<open>script_call\<close>; and the Python side that calls the scripts, ends an execution and follows
    a stream, split where it awaits.
  \<^item> \<open>Harness\<close>, \<open>Collector\<close>, \<open>Evaluator\<close> and \<open>Governance\<close> are \<open>evolution/contracts.py\<close>,
    \<open>collector.py\<close>, \<open>evaluator.py\<close> and \<open>optimizer.py\<close>: the identity of a harness,
    observations of its defects and the candidates made of them, the graders and the
    comparison of a candidate with its baseline, and the policy on patches, with the
    policy file in force.  \<open>Sandbox\<close> is \<open>sandbox.py\<close>: the materialisation of a patch in a
    detached worktree, the commands that run there, and the cleanup.
  \<^item> \<open>Sexpr\<close> and \<open>Footprints\<close> are \<open>eda/vendor/sexpr.py\<close>, \<open>eda/footprints.py\<close> and the readers
    of \<open>eda/vendor/footprint.py\<close>: the reader and writer of KiCad files, and the courtyard of
    a footprint as a box and as rectangles.  \<open>Placement\<close> and \<open>Shape_Packing\<close> are the two
    packers of \<open>orchestration/pipeline.py\<close>, \<open>_maxrect_pack\<close> and \<open>_courtyard_shape_pack\<close>, and
    the geometric check of a plan.
  \<^item> \<open>Design_Closure\<close> is \<open>orchestration/design_closure.py\<close> with the check of its manifest in
    \<open>pipeline.py\<close>: the evidence that every selected part is closed over installed libraries,
    its freshness, and the comparison of the designed pin map with the exported netlist.
  \<^item> \<open>Release_Audit\<close> and \<open>Release_Receipt\<close> are \<open>orchestration/release_invariants.py\<close>, the part of
    \<open>ManufactureStep\<close> that uses it and the release verdict of \<open>agents/ratsnestpro/tools.py\<close>:
    the audit of the final board against the constraints of the requirement, the receipt that
    binds it to the bytes of the board, and the review that reads the receipt.
    \<open>Requirement_Text\<close> holds the regular expressions that recognise the constraints.
  \<^item> \<open>Decisions\<close> is \<open>agents/ratsnestpro/decision_engine.py\<close> with the gate of \<open>intake_phase\<close>: the
    choices offered for what a requirement leaves open, and the answers that are added to it.
  \<^item> \<open>Warning_Contract\<close> is \<open>agents/ratsnestpro/warning_contract.py\<close> with \<open>_drc_check\<close> and \<open>_erc_check\<close>
    of \<open>tools.py\<close>: the dispositions of KiCad warnings, the structural evidence that clears the
    library ones, and the waivers, bound to digests, that clear those on silkscreen.
  \<^item> \<open>Connection_Plan\<close> and \<open>Connection_Merge\<close> are \<open>orchestration/connection_synthesis.py\<close>: the plan
    that divides the parts of a large design into batches, the checkpoint of a synthesis, the
    atomic merge of the transaction of one batch, and the report on its coverage.
    \<open>Connection_Round\<close> is \<open>SchConnectionsStep._propose_batched\<close> of \<open>pipeline.py\<close>, the round that
    proposes, merges and retries batches within its budget of model calls.

  \<^bold>\<open>How the parts interact.\<close>  The registry runs producers; a producer restores a state
  and runs the pipeline; the pipeline runs the steps, classifies what they report through
  the taxonomy, and asks the recovery planner what to do about a blocked step; the planner
  and the steps ask models for structured output.  Events of the taxonomy reach the
  collector, whose candidates are patched under governance and judged by the evaluator.
  Instances of the service share runs through the Redis registry in the place of their own.
  The connection step plans batches, has each proposed as structured output and merges it into
  the netlist of its checkpoint, from which a later round goes on.
  The placement step packs the courtyards that the footprint reader returns and is judged
  by the geometric check; the selection step stores the closure manifest and checks it, and
  the electrical check compares the pin map with the netlist.  The manufacturing step audits
  the board it read and commits a receipt; resuming re-checks the receipt, and the review
  validates it again before it passes a release, together with the rule checks, whose warnings
  the warning contract has to clear.  The audit reads its constraints from the
  requirement, and from the decisions that the gate has added only where it states none.

  \<^bold>\<open>What is shown.\<close>  This theory holds the statements that span the engine: completed steps
  are a prefix of the canonical order, a run goes on from blocked results only in the mode that
  allows it and else fails closed, it ends, and it keeps its budgets;
  recovery decisions are authorised; a step's verdict agrees with its checks; repairs never
  worsen the retained artifact; a restored state is accepted and an invalidated one
  forgotten.  \<open>Structured_Facts\<close>: completions invent nothing, and a proposal is validated
  or the fallback.  \<open>Registry_Facts\<close>: the invariant of every reachable registry,
  idempotence of start, resume and keyed append, isolation between users, completeness of
  subscriptions.  \<open>Harness\<close>, \<open>Collector_Facts\<close>, \<open>Evaluator_Facts\<close> and
  \<open>Governance_Facts\<close>: a resolved identity is unanimous; candidates are exactly the open
  gaps; promotion is earned and releases are grounded; patches stay within the policy.
  \<open>Redis_Facts\<close> shows that every script does to one run what the specification \<open>run_change\<close>
  allows and nothing to others, hence the invariant of every reachable database;
  \<open>Redis_Safety\<close> lifts relations between views to histories (locale \<open>stable_relation\<close>) and
  states the contract of an owner's scripts (locale \<open>fenced\<close>): superseded owners stay out,
  ended runs are final, responses and keyed events count once, leases protect owners;
  \<open>Redis_Delivery\<close> and \<open>Redis_Endings\<close>: what subscribers send, that \<open>DONE\<close> is last, and that
  an owner brings its stream to that end.
  \<open>Sandbox_Facts\<close>: materialisation is exact, and a candidate passes only when vetted.
  \<open>Sexpr\<close>: what is written is read back unchanged.  \<open>Placement_Facts\<close> states what a packer
  promises as the locale \<open>packer\<close>, which both packers interpret; with \<open>Footprint_Facts\<close> and
  \<open>Shape_Facts\<close>: the rectangles of an orthogonal courtyard tile it, a plan of MaxRects passes the
  geometric check, the grid packer adds no overlap to those of the fixed parts, no part is lost, and
  anchors are packed before their dependents.  \<open>Closure_Facts\<close>:
  the comparison of connectivity is exact, a manifest is well-typed and ready exactly when
  every part is closed, and its check passes exactly while the library files are the same.
  \<open>Release_Facts\<close>: the audit reports exactly the violated constraints, a receipt describes the
  current board, the step accepts its own receipt, and a release passes on all evidence only.
  \<open>Decision_Facts\<close>: answers are among the choices offered and fill what the requirement leaves
  open without changing what it states, unless an answer contains a line break.
  \<open>Warning_Facts\<close>: when the rule checks raise no blocker, every warning was cleared by a waiver
  bound to the current files or by structural evidence.
  \<open>Connection_Facts\<close>: planning succeeds and every part with pins is owned by exactly one batch.
  \<open>Merge_Facts\<close>: a merge puts every pin on the net its transaction names and only adds, gives every
  pin at most one disposition and disposes of the pins of its batch, and is idempotent.  \<open>Round_Facts\<close> states what a client and its guard have to
  keep as the locale \<open>guarded_attempts\<close>: whatever the model answers, a round stores sound
  checkpoints and calls the client within its budgets, and a finished one disposes of every pin
  of every part.
  Some statements describe where the code departs from its intent: replans are
  bounded per artifact only, the fallback decision can raise, a retry forgets its
  candidate, a superseded execution can overwrite its successor, a cancelled run can stay
  queued, a slow subscriber loses events, one oversized gap stops aggregation, a leading
  double star in a glob misses the top level, the grid packer leaves the board when the grid
  has no point between its bounds, a decoupling part that is not on the board passes the
  audit of its distance, an answer with a line break rewrites the requirement, equal pad angles are normalised
  differently, and renewing an expired lease exceeds the capacity of the shared registry.

  \<^bold>\<open>Bounds and fuel.\<close>  \<open>pipeline_run\<close> and the loops of a step carry fuel and return
  nothing when it runs out.  The repair loop makes at most twelve passes, so its fuel is
  fixed; for the pipeline, eighteen passes per recovery turn of the budget and one more
  round are enough under the hypotheses of the termination statement, because between two
  turns a pass completes a step of the seventeen or stops.  Every other function is total.

  \<^bold>\<open>Parameters.\<close>  Hooks of the concrete steps, model clients, validators of artifacts and
  contracts that belong to libraries, the clock, the event sink and the rendering of
  containers by \<open>str\<close> are arguments.  Text consists of single-byte characters and case
  folding is that of ASCII; floating-point scores, times and coordinates are rationals, and
  the square root, distances and the sine and cosine that the packers use are arguments.
  Decimal numbers of the warning contract are finite and exact.
  Over this text requests are in English, and alternatives of patterns outside it never match.
  Redis executes a script atomically and its commands have their documented meaning; its
  clock is an argument.  The pins of a symbol and the order of iteration of a set of references
  are arguments of connection synthesis; the latter is assumed to list each element once.
  Some details are coarser than in the code.  Python's limit on the depth of recursion does not
  bound the reader and the writer of symbolic expressions, and floats do not round or overflow.
  A subprocess of the sandbox that times out or is refused its arguments fails as one that the
  system cannot start; the export of a netlist only succeeds or fails, whether or not
  \<open>kicad-cli\<close> exists.  The outcome of the rule checks is an argument of \<open>drc_check\<close>, whether the
  report it is read from is new or an old one left in place.  \<open>rollback_target\<close> of a hook is a
  function of the state, so the artifacts that \<open>ManufactureStep\<close> records while it answers are not
  seen by the engine.

  \<^bold>\<open>Not modelled.\<close>  The proposers, checkers and repairs of the seventeen steps, and
  \<open>SchConnectionsStep.run\<close>, which wraps the base run and chooses between a direct and a batched
  proposal, with the normalisation of the netlist that results; the wording
  of prompts and skills; the other EDA adapters and vendored libraries; the agent shell and its
  tools; HTTP, gRPC, Kafka and Temporal transport, connections to Redis and the audit
  metadata and user-interface snapshots made of events; the Kubernetes variant of the
  sandbox and the live runner of the evolution loop; the Java control plane and the web client.  They are input and
  output, third-party calls or glue around the modelled core.
\<close>

section \<open>The pipeline\<close>

text \<open>The sample run satisfies the hypotheses of the statements about \<open>Pipeline.run\<close>.\<close>

lemma sample_hypotheses:
  "canonical_hooks sample_steps"
  "\<not> prefix_error sample_ctx sample_state"
  "pipeline_run 5 sample_services sample_steps sample_ctx None sample_state = Some (Inr (), sample_final)"
  using sample_run_eq
  by (simp_all add: canonical_hooks_def sample_steps_def CANONICAL_ORDER_def prefix_error_def
      completed_def state_blocked_def sample_state_def sample_run_def)

lemma run_outcome_of:
  assumes "canonical_hooks hs" and "\<not> prefix_error ctx s"
    and "pipeline_run fuel srv hs ctx until s = Some (q, s')"
  shows "run_outcome hs ctx (results s) (run_limit hs until) (length (results s)) q s'"
proof -
  have "loop_inv ctx (results s) 0 (set (completed s)) (start_state ctx s)"
    using start_inv [of ctx "start_state ctx s"] assms(2) by simp
  from pipeline_loop_outcome [OF assms(1) this, of fuel srv "run_limit hs until" q s'] assms
  show ?thesis by (simp add: pipeline_run_cases)
qed

text \<open>
  C1: whatever a run of the pipeline returns or raises, the completed steps are a prefix of
  the pinned seventeen-step sequence; all results but the last one are results the run started
  with, which its prefix check admits, followed by results its mode allows to continue from
  (a blocked one only in an artifact-first run that does not repair its release, and whose
  execution succeeded); and no step beyond \<open>until\<close> was executed.
\<close>

theorem run_keeps_canonical_prefix:
  assumes "canonical_hooks hs" and "\<not> prefix_error ctx s"
    and "pipeline_run fuel srv hs ctx until s = Some (q, s')"
  shows "completed s' = take (length (results s')) CANONICAL_ORDER
    \<and> continues ctx (results s) (butlast (results s'))
    \<and> length (results s') \<le> max (length (results s)) (Suc (run_limit hs until))"
  using run_outcome_of [OF assms] by (simp add: run_outcome_def stopped_inv_def canonical_prefix_def)

theorem run_keeps_canonical_prefix_witness:
  "completed sample_final = take (length (results sample_final)) CANONICAL_ORDER
    \<and> continues sample_ctx (results sample_state) (butlast (results sample_final))
    \<and> length (results sample_final)
       \<le> max (length (results sample_state)) (Suc (run_limit sample_steps None))"
  by (rule run_keeps_canonical_prefix [OF sample_hypotheses])

text \<open>
  C2: a run that returns normally fails closed: either every step up to the limit has a result,
  and each is one the run started with or one its mode allows to continue from, or the last result
  is blocked and the mode does not allow to go on from it.
\<close>

theorem run_fails_closed:
  assumes "canonical_hooks hs" and "\<not> prefix_error ctx s"
    and "pipeline_run fuel srv hs ctx until s = Some (Inr (), s')"
  shows "covered hs ctx (results s) (run_limit hs until) s' \<or> ends_blocked ctx s'"
  using run_outcome_of [OF assms] by (simp add: run_outcome_def)

theorem run_fails_closed_witness:
  "covered sample_steps sample_ctx (results sample_state) (run_limit sample_steps None) sample_final
   \<or> ends_blocked sample_ctx sample_final"
  by (rule run_fails_closed [OF sample_hypotheses])

text \<open>
  C3: the loop of \<open>Pipeline.run\<close> ends whenever replans are only made on planned recovery
  turns (the harness is off, or the run is artifact-first without release repair, or
  replans have no budget): eighteen passes for every recovery turn of the budget and one
  more round are enough.
\<close>

theorem run_terminates:
  assumes "replans_need_turn ctx"
    and "18 * (nat (max_total_agentic_recovery_turns ctx) + 1) \<le> fuel"
  shows "\<exists>q s'. pipeline_run fuel srv hs ctx until s = Some (q, s')"
proof (cases "canonical_hooks hs \<and> \<not> prefix_error ctx s")
  case True
  have "loop_measure ctx 0 (start_state ctx s) < fuel"
    using loop_measure_bound [of ctx 0 "start_state ctx s"] assms(2) by linarith
  from pipeline_loop_terminates [OF assms(1) conjunct1 [OF True] this] True show ?thesis
    by (simp add: pipeline_run_cases)
qed (auto simp: pipeline_run_cases)

theorem run_terminates_witness:
  "\<exists>q s'. pipeline_run 450 sample_services sample_steps (sample_ctx\<lparr>ahe_enabled := False\<rparr>) None
     sample_state = Some (q, s')"
  by (rule run_terminates) (simp_all add: replans_need_turn_def sample_ctx_def)

text \<open>
  C4: over a whole run, the number of design repairs, of harness repairs and of recovery
  turns never exceeds its run-wide limit, or what the resumed state already had.
\<close>

theorem run_respects_budgets:
  assumes "pipeline_run fuel srv hs ctx until s = Some (q, s')"
  shows "within_budgets ctx s s'"
proof -
  have start: "within_budgets ctx t (start_state ctx s) = within_budgets ctx t s"
    "within_budgets ctx (start_state ctx s) t = within_budgets ctx s t" for t
    by (simp_all add: within_budgets_def design_count_def harness_count_def)
  show ?thesis
    using assms pipeline_loop_budget [of fuel srv hs ctx "run_limit hs until" 0 "set (completed s)"
        "start_state ctx s" q s'] start
    by (auto simp: pipeline_run_cases split: if_splits)
qed

theorem run_respects_budgets_witness: "within_budgets sample_ctx sample_state sample_final"
  by (rule run_respects_budgets [OF sample_hypotheses(3)])

text \<open>
  C5: a recovery decision, whether it came from the model or from the fallback, is acted on
  only if it respects the targets and moves on offer: an upstream replan names an allowed
  target, a local repair needs a repairable artifact, asking a human needs missing external
  evidence, and stopping needs a hard conflict or that nothing else is possible.  The tool
  is always the one the harness binds to the action, and every plan leaves one record.
\<close>

theorem planned_decision_authorized:
  "case plan_turn srv h ctx r allowed sug s of
     (Inl e, s') \<Rightarrow> recovery_history s' = recovery_history s
   | (Inr d, s') \<Rightarrow> authorized r allowed (local_repair_available h s r) d
       \<and> rd_tool_name d = bound_tool (rd_action d)
       \<and> butlast (recovery_history s') = recovery_history s
       \<and> rt_decision (last (recovery_history s')) = d"
proof -
  obtain q s' where plan: "plan_turn srv h ctx r allowed sug s = (q, s')"
    by (cases rule: prod.exhaust)
  have "rd_tool_name d = bound_tool (rd_action d)" if "q = Inr d" for d
    using plan that by (auto simp: plan_turn_def Let_def split: prod.splits sum.splits)
  with plan_turn_frame [OF plan] plan show ?thesis by (auto split: sum.splits)
qed

text \<open>
  the deterministic fallback can be built exactly when the step reported at most 64
  failures; with more, constructing the decision raises, and nothing in \<open>Pipeline.run\<close>
  catches it, so a recoverable step with 65 failing checks aborts the run.
\<close>

theorem fallback_decision_total:
  "(\<exists>d. fallback_recovery_decision r allowed sug loc = Inr d) = (length (sr_failures r) \<le> 64)"
  by (rule fallback_total)

text \<open>
  the replan budget counts only earlier replans of the same rollback artifact: when no
  recorded replan started from the artifact the run would roll back to, a replan is
  possible again however many have been made.
\<close>

theorem replan_budget_per_artifact:
  assumes "list_all (\<lambda>p. rp_fingerprint p \<noteq> artifact_fingerprint ctx (artifacts s tgt)) (replan_history s)"
    and "order_index tgt < order_index (sr_step r)" and "0 < replan_limit ctx (sr_step r) (Some tgt)"
  shows "can_replan ctx s r (Some tgt)"
  using assms prior_replans_fresh [of s ctx tgt r] by (simp add: can_replan_def list_all_iff)

definition many_replans :: "(nat, unit) pipeline_state" where
  "many_replans = sample_state\<lparr>replan_history :=
     replicate 50 \<lparr>rp_trigger = ''selection'', rp_rollback_to = ''topology'', rp_attempt = 1,
       rp_failure_ids = [''selection:gate:x''], rp_status = Stagnated, rp_before = (1, 1, 3),
       rp_after = None, rp_feedback = [], rp_fingerprint = ''other''\<rparr>\<rparr>"

theorem replan_budget_per_artifact_witness:
  "can_replan sample_ctx many_replans (sample_result [failing_check] SELECTION) (Some TOPOLOGY)"
  by (rule replan_budget_per_artifact)
    (simp_all add: many_replans_def sample_state_def artifact_fingerprint_def sample_result_def
      order_index_def CANONICAL_ORDER_def replan_limit_def sample_ctx_def list_all_iff)

section \<open>One step\<close>

text \<open>
  C6: the verdict of a step agrees with the checks it reports: it is blocked exactly when an
  error check fails, execution-blocked exactly when such a check blocks execution, it has one
  failure per failing error check, and at most twelve repairs were made.
\<close>

theorem step_verdict_agrees:
  assumes "convergence_contract (convergence_score h)" and "base_run h ctx s = (Inr r, s')"
  shows "sr_blocked r = is_blocked (sr_checks r)
    \<and> sr_execution_blocked r = is_execution_blocked (sr_checks r)
    \<and> map fe_check_name (sr_failures r) = map ck_name (error_checks r)
    \<and> length (sr_repairs r) \<le> 12"
  using base_run_verdict [OF assms(2,1)] by blast

theorem step_verdict_agrees_witness:
  "sr_blocked (sample_result [failing_check] TOPOLOGY) = is_blocked [failing_check]
    \<and> sr_execution_blocked (sample_result [failing_check] TOPOLOGY) = is_execution_blocked [failing_check]
    \<and> map fe_check_name (sr_failures (sample_result [failing_check] TOPOLOGY)) = [''gate'']
    \<and> length (sr_repairs (sample_result [failing_check] TOPOLOGY)) \<le> 12"
proof -
  have "convergence_score (sample_hooks [failing_check] TOPOLOGY) = base_convergence_score"
    by (simp add: convergence_score_def sample_hooks_def)
  with base_score.convergence_contract_axioms
  have "convergence_contract (convergence_score (sample_hooks [failing_check] TOPOLOGY))" by simp
  moreover have "base_run (sample_hooks [failing_check] TOPOLOGY) sample_ctx sample_state =
      (Inr (sample_result [failing_check] TOPOLOGY),
       sample_state\<lparr>artifacts := (artifacts sample_state)(TOPOLOGY \<mapsto> 0),
         results := results sample_state @ [sample_result [failing_check] TOPOLOGY]\<rparr>)"
    by (rule sample_base_run) (simp_all add: sample_state_def)
  ultimately show ?thesis
    using step_verdict_agrees [of "sample_hooks [failing_check] TOPOLOGY" sample_ctx sample_state]
    by (simp add: sample_result_def error_checks_def error_check_def failing_check_def)
qed

text \<open>
  C7: repairing never makes the retained artifact worse: the convergence score the repair
  loop ends with is at most the one it started from, whatever the repairs return or raise.
\<close>

theorem repairs_never_worsen:
  "let L = snd (run_repairs h ctx kn avail fs a cs llm s)
   in convergence_score h (best_artifact L) (best_checks L) \<le> convergence_score h a cs"
proof -
  obtain q L where run: "run_repairs h ctx kn avail fs a cs llm s = (q, L)"
    by (cases rule: prod.exhaust)
  from run_repairs_result [OF run] show ?thesis by (simp add: run loop_result_def)
qed

text \<open>
  when an execution raises and is retried, the retry starts with neither the resume
  candidate nor the feedback of the first attempt: the candidate was popped before the
  failing hook ran and the \<open>finally\<close> clause cleared the feedback, so a step that was to be
  replanned from its rejected artifact proposes from scratch.
\<close>

theorem retry_starts_from_scratch:
  assumes "base_run h ctx s = (Inl e, s1)" and "capture_step_errors ctx"
    and "fe_recoverability (exn_failure (hk_step h) e) = RETRYABLE"
  shows "\<exists>t. execute_step (Suc n) h ctx True s = execute_step n h ctx True t
    \<and> repair_feedback t = []
    \<and> obtain_artifact h ctx kn t = call_hook (hk_propose h ctx kn) t"
proof -
  let ?t = "s1\<lparr>repair_feedback := []\<rparr>"
  have none: "resume_candidates ?t (hk_step h) = None" using base_run_frame [OF assms(1)] by simp
  then have same: "?t\<lparr>resume_candidates := (resume_candidates ?t)(hk_step h := None)\<rparr> = ?t"
    by (simp add: fun_upd_idem)
  have "obtain_artifact h ctx kn ?t = call_hook (hk_propose h ctx kn) ?t"
    unfolding obtain_artifact_def Let_def same none by simp
  moreover have "execute_step (Suc n) h ctx True s = execute_step n h ctx True ?t"
    using assms by (simp add: execute_step.simps [of "Suc n"] Let_def)
  ultimately show ?thesis by (intro exI [of _ ?t]) simp
qed

text \<open>A resumed artifact whose refresh raises.\<close>

definition raising_hooks :: "(nat, unit) step_hooks" where
  "raising_hooks = (sample_hooks [] TOPOLOGY)\<lparr>hk_prepare_resumed := (\<lambda>_ _. Inl (OtherError ''OSError'' ''disk''))\<rparr>"

definition resuming_state :: "(nat, unit) pipeline_state" where
  "resuming_state = sample_state\<lparr>resume_candidates := [TOPOLOGY \<mapsto> (7, True)],
     repair_feedback := ''fix it''\<rparr>"

theorem retry_starts_from_scratch_witness:
  "\<exists>t. execute_step 1 raising_hooks (sample_ctx\<lparr>capture_step_errors := True\<rparr>) True resuming_state
      = execute_step 0 raising_hooks (sample_ctx\<lparr>capture_step_errors := True\<rparr>) True t
    \<and> repair_feedback t = []
    \<and> obtain_artifact raising_hooks (sample_ctx\<lparr>capture_step_errors := True\<rparr>) [] t
      = call_hook (hk_propose raising_hooks (sample_ctx\<lparr>capture_step_errors := True\<rparr>) []) t"
proof -
  let ?e = "OtherError ''OSError'' ''disk''"
  have "\<not> rx_search HARD_CHECK_RE ''step_execution_failed''" by code_simp
  then have retry: "fe_recoverability (exn_failure TOPOLOGY ?e) = RETRYABLE"
    by (simp add: exn_failure_def exn_check_name_def make_failure_recoverability
        classify_recoverability_def category_def Let_def)
  have run: "\<exists>s1. base_run raising_hooks (sample_ctx\<lparr>capture_step_errors := True\<rparr>) resuming_state = (Inl ?e, s1)"
    by (simp add: base_run_def retrieve_knowledge_def obtain_artifact_def raising_hooks_def
        sample_hooks_def resuming_state_def sample_state_def)
  from run obtain s1 where
    run1: "base_run raising_hooks (sample_ctx\<lparr>capture_step_errors := True\<rparr>) resuming_state = (Inl ?e, s1)" ..
  show ?thesis
    using retry_starts_from_scratch [OF run1, of 0 "[]"] retry
    by (simp add: raising_hooks_def)
qed

section \<open>Resuming from a checkpoint\<close>

text \<open>A checkpoint of two steps, of which the second no longer passes its gate.\<close>

definition sample_resume_services :: "nat resume_services" where
  "sample_resume_services =
     \<lparr>validate_artifact = (\<lambda>_ _. Inr 0), raw_text_of = (\<lambda>_. None), with_raw_text = (\<lambda>a _. a),
      is_topology_plan = (\<lambda>_. True), is_selection_plan = (\<lambda>_. True),
      validate_repair = (\<lambda>_. Inl (ValidationError [])), validate_replan = (\<lambda>_. Inl (ValidationError [])),
      validate_recovery = (\<lambda>_. Inl (ValidationError [])), validate_gap = (\<lambda>_. Inl (ValidationError [])),
      validate_report = Inr, report_resumable = (\<lambda>_. True), validate_checkpoint = Inr,
      checkpoint_matches = (\<lambda>_ _ _. True), checkpoint_pending = (\<lambda>_. True),
      str_container = (\<lambda>_. [])\<rparr>"

definition sample_inputs :: "pipeline_step option \<Rightarrow> resume_inputs" where
  "sample_inputs invalidate =
     \<lparr>ri_requirement_text = ''board'', ri_project_name = ''p'',
      ri_artifacts = [(''requirements'', PDict []), (''topology'', PDict [])],
      ri_steps = [[(''name'', PStr ''requirements'')], [(''name'', PStr ''topology'')]],
      ri_revision = 3, ri_repair_history = [], ri_replan_history = [], ri_recovery_history = [],
      ri_capability_gaps = [], ri_resume_candidates = [], ri_checkpoint = None, ri_report = None,
      ri_release_step = [], ri_release_digest = [], ri_invalidate_from = invalidate,
      ri_artifact_first = False\<rparr>"

definition sample_restored :: "(nat, unit) pipeline_state" where
  "sample_restored =
     sample_state\<lparr>artifacts := [REQUIREMENTS \<mapsto> 0],
       results := [(sample_result [] REQUIREMENTS)\<lparr>sr_failures := []\<rparr>],
       resume_candidates := [TOPOLOGY \<mapsto> (0, False)], revision := 3\<rparr>"

lemmas resume_defs =
  restore_pipeline_state_def initial_state_def restored_report_def invalidate_history_def
  connection_contract_invalidated_def restore_step_def restore_artifact_def
  refresh_requirement_def recheck_def saved_error_signatures_def restore_next_def
  restore_candidate_def restore_checkpoint_def get_or_def saved_flag_def set_candidate_def

lemma sample_restore:
  "restore_pipeline_state sample_resume_services sample_steps sample_ctx (sample_inputs None) ()
     = Inr sample_restored"
proof -
  have blocked: "is_blocked [failing_check]" "\<not> is_blocked []" "\<not> is_execution_blocked []"
    by (simp_all add: is_blocked_def is_execution_blocked_def error_check_def failing_check_def)
  show ?thesis
    by (simp add: resume_defs sample_inputs_def sample_resume_services_def sample_steps_def blocked
        sample_restored_def sample_state_def sample_result_def CANONICAL_ORDER_def order_index_def
        sample_hooks_def completed_def Let_def)
qed

text \<open>
  C8: a restored state is one the pipeline accepts: with the mode it was restored for,
  \<open>Pipeline.run\<close> does not reject it as out of order, its artifacts are exactly those of the
  restored steps, and the only resume candidate is for the step the run continues with.
\<close>

theorem restored_state_accepted:
  assumes "restore_pipeline_state srv hs ctx inp w = Inr s"
    and "artifact_first ctx' = ri_artifact_first inp"
  shows "\<not> prefix_error ctx' s
    \<and> (\<forall>st. (artifacts s st \<noteq> None) = (st \<in> set (completed s)))
    \<and> (\<forall>st. order_index st \<noteq> length (results s) \<longrightarrow> resume_candidates s st = None)"
proof (rule restore_stages [OF assms(1)])
  assume ok: "restored_ok (ri_artifact_first inp) s"
  then have pre: "canonical_prefix s" by (simp add: restored_ok_def)
  have "\<not> prefix_error ctx' s" using ok assms(2) by (intro restored_runs) simp
  with ok prefix_mem_iff [OF pre] show ?thesis unfolding restored_ok_def by metis
qed

theorem restored_state_accepted_witness:
  "\<not> prefix_error sample_ctx sample_restored
    \<and> artifacts sample_restored SELECTION = None
    \<and> resume_candidates sample_restored TOPOLOGY \<noteq> None
    \<and> resume_candidates sample_restored REQUIREMENTS = None"
proof -
  have "artifact_first sample_ctx = ri_artifact_first (sample_inputs None)"
    by (simp add: sample_inputs_def)
  note ok = restored_state_accepted [OF sample_restore this]
  have idx: "order_index REQUIREMENTS \<noteq> length (results sample_restored)"
    and comp: "SELECTION \<notin> set (completed sample_restored)"
    by (simp_all add: sample_restored_def sample_state_def order_index_def CANONICAL_ORDER_def
        completed_def sample_result_def)
  have "resume_candidates sample_restored TOPOLOGY \<noteq> None"
    by (simp add: sample_restored_def)
  with ok idx comp show ?thesis by blast
qed

text \<open>
  C9: invalidating a step on resume removes the step and everything that depends on it: no
  restored result, no resume candidate, and no repair, replan, recovery or gap record of the
  step or of a later one survives.
\<close>

theorem invalidation_is_complete:
  assumes "restore_pipeline_state srv hs ctx inp w = Inr s" and "ri_invalidate_from inp = Some t"
  shows "length (results s) \<le> order_index t \<and> history_avoids t s
    \<and> (\<forall>st. order_index t \<le> order_index st \<longrightarrow> resume_candidates s st = None)"
  using restore_invalidated [OF assms] by (meson not_le)

theorem invalidation_is_complete_witness:
  "case restore_pipeline_state sample_resume_services sample_steps sample_ctx
          (sample_inputs (Some TOPOLOGY)) () of
     Inl e \<Rightarrow> False
   | Inr s \<Rightarrow> length (results s) \<le> order_index TOPOLOGY \<and> history_avoids TOPOLOGY s
       \<and> resume_candidates s TOPOLOGY = None"
proof -
  have blocked: "\<not> is_blocked []" "\<not> is_execution_blocked []"
    by (simp_all add: is_blocked_def is_execution_blocked_def)
  have "\<exists>s. restore_pipeline_state sample_resume_services sample_steps sample_ctx
      (sample_inputs (Some TOPOLOGY)) () = Inr s"
    by (simp add: resume_defs sample_inputs_def sample_resume_services_def sample_steps_def blocked
        CANONICAL_ORDER_def order_index_def sample_hooks_def completed_def Let_def)
  then obtain s where s: "restore_pipeline_state sample_resume_services sample_steps sample_ctx
      (sample_inputs (Some TOPOLOGY)) () = Inr s" ..
  have "ri_invalidate_from (sample_inputs (Some TOPOLOGY)) = Some TOPOLOGY"
    by (simp add: sample_inputs_def)
  from invalidation_is_complete [OF s this] s show ?thesis by simp
qed

end
